(* ===== verification/Prelude.thy ===== *)
theory Prelude
  imports Main "HOL-Library.Word" "HOL-Library.AList"
begin

unbundle bit_operations_syntax

text \<open>
  Shared ground of the development: the machine integers of the crate on a 64-bit
  little-endian target, the \<^verbatim>\<open>Error\<close> and \<^verbatim>\<open>Result\<close> types of \<^verbatim>\<open>src/src/error.rs\<close>, the
  \<^verbatim>\<open>?\<close> operator of Rust as \<open>and_then\<close>, the little-endian byte codecs of the
  standard library, UTF-8 validation, and the generic list and association-list lemmas
  that the component theories use.
\<close>

named_theorems result_simps \<open>evaluation and inversion of result chains\<close>

section \<open>Machine integers\<close>

type_synonym u8 = "8 word"
type_synonym u32 = "32 word"
type_synonym u64 = "64 word"

text \<open>\<^verbatim>\<open>CK_ULONG\<close> and \<^verbatim>\<open>usize\<close> are 64 bits wide on the modelled target.\<close>

type_synonym ck_ulong = u64
type_synonym ck_rv = u64
type_synonym ck_flags = u64
type_synonym bytes = "u8 list"

abbreviation usize_range :: nat where
  "usize_range \<equiv> 2 ^ 64"

definition checked_add :: "nat \<Rightarrow> nat \<Rightarrow> nat option" where
  "checked_add a b = (if a + b < usize_range then Some (a + b) else None)"

section \<open>Errors and results\<close>

text \<open>
  The struct \<^verbatim>\<open>Error\<close> keeps a kind, a required size and a \<^verbatim>\<open>CK_RV\<close>; the message and the
  originating error are diagnostics and are not modelled. \<open>Panic\<close> is the outcome of
  an operation that aborts in the source (a null pointer read, an overflow check).
\<close>

datatype error =
    CkError ck_rv
  | AttributeNotFound
  | BufferTooSmall nat
  | Nested
  | Panic

type_synonym 'a result = "error + 'a"

fun rv :: "error \<Rightarrow> ck_rv" where
  "rv (CkError r) = r"
| "rv AttributeNotFound = 0x5"
| "rv (BufferTooSmall n) = 0x150"
| "rv Nested = 0x5"
| "rv Panic = 0x5"

fun attr_not_found :: "error \<Rightarrow> bool" where
  "attr_not_found AttributeNotFound = True"
| "attr_not_found _ = False"

abbreviation Ok :: "'a \<Rightarrow> 'a result" where
  "Ok x \<equiv> Inr x"

abbreviation Err :: "ck_rv \<Rightarrow> 'a result" where
  "Err r \<equiv> Inl (CkError r)"

definition is_ok :: "'a result \<Rightarrow> bool" where
  "is_ok r = (case r of Inl _ \<Rightarrow> False | Inr _ \<Rightarrow> True)"

definition and_then :: "'a result \<Rightarrow> ('a \<Rightarrow> 'b result) \<Rightarrow> 'b result" where
  "and_then r f = (case r of Inl e \<Rightarrow> Inl e | Inr x \<Rightarrow> f x)"

definition map_err :: "(error \<Rightarrow> error) \<Rightarrow> 'a result \<Rightarrow> 'a result" where
  "map_err f r = (case r of Inl e \<Rightarrow> Inl (f e) | Inr x \<Rightarrow> Inr x)"

lemma and_then_Err [simp, result_simps]: "and_then (Inl e) f = Inl e"
  by (simp add: and_then_def)

lemma and_then_Ok [simp, result_simps]: "and_then (Inr x) f = f x"
  by (simp add: and_then_def)

lemma and_then_eq_Ok [result_simps]:
  "and_then r f = Inr y \<longleftrightarrow> (\<exists>x. r = Inr x \<and> f x = Inr y)"
  by (cases r) auto

lemma and_then_eq_Err [result_simps]:
  "and_then r f = Inl e \<longleftrightarrow> r = Inl e \<or> (\<exists>x. r = Inr x \<and> f x = Inl e)"
  by (cases r) auto

lemma and_then_cong [fundef_cong]:
  "r = r' \<Longrightarrow> (\<And>x. r' = Inr x \<Longrightarrow> f x = g x) \<Longrightarrow> and_then r f = and_then r' g"
  by (cases r') auto

lemma is_ok_simps [simp]: "is_ok (Inl e) = False" "is_ok (Inr x) = True"
  by (simp_all add: is_ok_def)

lemma is_ok_iff: "is_ok r \<longleftrightarrow> (\<exists>x. r = Inr x)"
  by (cases r) auto

lemma map_err_simps [simp]:
  "map_err f (Inl e) = Inl (f e)" "map_err f (Inr x) = Inr x"
  by (simp_all add: map_err_def)

text \<open>
  The same for an operation on \<^verbatim>\<open>&mut self\<close>: the state reached is kept when the operation fails.
\<close>

definition st_then :: "'a result \<times> 's \<Rightarrow> ('a \<Rightarrow> 's \<Rightarrow> 'b result \<times> 's) \<Rightarrow> 'b result \<times> 's" where
  "st_then m f = (case m of (Inl e, s) \<Rightarrow> (Inl e, s) | (Inr x, s) \<Rightarrow> f x s)"

lemma st_then_simps [simp, result_simps]:
  "st_then (Inl e, s) f = (Inl e, s)" "st_then (Inr x, s) f = f x s"
  by (simp_all add: st_then_def)

lemma st_then_eq_Ok [result_simps]:
  "st_then m f = (Inr y, t) \<longleftrightarrow> (\<exists>x s. m = (Inr x, s) \<and> f x s = (Inr y, t))"
  by (cases m; cases "fst m") auto

text \<open>An invariant that both parts keep is kept, whatever the outcome.\<close>

lemma st_then_invariant:
  assumes "P (snd m)" and "\<And>x s. m = (Inr x, s) \<Longrightarrow> P s \<Longrightarrow> P (snd (f x s))"
  shows "P (snd (st_then m f))"
  using assms by (cases m; cases "fst m") auto

text \<open>A fold that stops at the first error, for the loops that use \<^verbatim>\<open>?\<close> in their body.\<close>

fun try_fold :: "('s \<Rightarrow> 'a \<Rightarrow> 's result) \<Rightarrow> 's \<Rightarrow> 'a list \<Rightarrow> 's result" where
  "try_fold f s [] = Inr s"
| "try_fold f s (x # xs) = and_then (f s x) (\<lambda>s'. try_fold f s' xs)"

lemma try_fold_append:
  "try_fold f s (xs @ ys) = and_then (try_fold f s xs) (\<lambda>s'. try_fold f s' ys)"
proof (induction xs arbitrary: s)
  case (Cons x xs)
  then show ?case by (cases "f s x") auto
qed simp

lemma try_fold_invariant:
  assumes "try_fold f s xs = Inr t" and "P s"
    and "\<And>s x s'. x \<in> set xs \<Longrightarrow> P s \<Longrightarrow> f s x = Inr s' \<Longrightarrow> P s'"
  shows "P t"
  using assms
proof (induction xs arbitrary: s)
  case (Cons x xs)
  from Cons.prems(1) obtain s' where s': "f s x = Inr s'" "try_fold f s' xs = Inr t"
    by (auto simp: and_then_eq_Ok)
  have "P s'" using Cons.prems(2,3) s'(1) by auto
  then show ?case using Cons.IH[OF s'(2)] Cons.prems(3) by auto
qed simp

lemma try_fold_cong [fundef_cong]:
  "\<lbrakk>s = s'; xs = ys; \<And>t x. x \<in> set ys \<Longrightarrow> f t x = g t x\<rbrakk>
    \<Longrightarrow> try_fold f s xs = try_fold g s' ys"
proof (induction xs arbitrary: s s' ys)
  case (Cons x xs)
  then show ?case by (auto intro!: and_then_cong)
qed auto

definition u32_try_from :: "nat \<Rightarrow> u32 result" where
  "u32_try_from n = (if n < 2 ^ 32 then Inr (of_nat n) else Inl Nested)"

definition ulong_try_from :: "nat \<Rightarrow> ck_ulong result" where
  "ulong_try_from n = (if n < usize_range then Inr (of_nat n) else Inl Nested)"

section \<open>Little-endian bytes\<close>

text \<open>
  \<^verbatim>\<open>to_le_bytes\<close>, \<^verbatim>\<open>from_le_bytes\<close> and, on the modelled target, \<^verbatim>\<open>to_ne_bytes\<close> and
  \<^verbatim>\<open>from_ne_bytes\<close> of the Rust integer types.
\<close>

definition to_le_bytes :: "nat \<Rightarrow> 'a::len word \<Rightarrow> bytes" where
  "to_le_bytes n w = map (\<lambda>i. ucast (drop_bit (8 * i) w)) [0..<n]"

fun from_le_bytes :: "bytes \<Rightarrow> 'a::len word" where
  "from_le_bytes [] = 0"
| "from_le_bytes (b # bs) = ucast b OR push_bit 8 (from_le_bytes bs)"

lemma length_to_le_bytes [simp]: "length (to_le_bytes n w) = n"
  by (simp add: to_le_bytes_def)

lemma to_le_bytes_Suc:
  "to_le_bytes (Suc n) w = ucast w # to_le_bytes n (drop_bit 8 w)"
proof -
  have "map (\<lambda>i. ucast (drop_bit (8 * i) w)) [0..<Suc n] =
      (ucast w :: u8) # map (\<lambda>i. ucast (drop_bit (8 * Suc i) w)) [0..<n]"
    by (simp only: upt_conv_Cons[OF zero_less_Suc] map_Suc_upt[symmetric] list.map map_map
        comp_def mult_0_right drop_bit_0 id_apply)
  then show ?thesis
    by (simp add: to_le_bytes_def drop_bit_drop_bit add.commute)
qed

lemma to_le_bytes_0 [simp]: "to_le_bytes 0 w = []"
  by (simp add: to_le_bytes_def)

lemma from_to_le_bytes_take:
  "from_le_bytes (to_le_bytes n (w :: 'a::len word)) = take_bit (8 * n) w"
proof (induction n arbitrary: w)
  case (Suc n)
  have "ucast (ucast w :: u8) OR push_bit 8 (take_bit (8 * n) (drop_bit 8 w)) =
      take_bit (8 * Suc n) w"
    by (rule bit_word_eqI) (auto simp: bit_simps)
  with Suc.IH show ?case by (simp add: to_le_bytes_Suc)
qed simp

lemma from_to_le_bytes:
  "LENGTH('a) \<le> 8 * n \<Longrightarrow> from_le_bytes (to_le_bytes n (w :: 'a::len word)) = w"
  by (simp add: from_to_le_bytes_take take_bit_word_eq_self)

lemma to_from_le_bytes:
  "8 * length bs \<le> LENGTH('a) \<Longrightarrow>
    to_le_bytes (length bs) (from_le_bytes bs :: 'a::len word) = bs"
proof (induction bs)
  case (Cons b bs)
  let ?r = "from_le_bytes bs :: 'a word"
  have lo: "ucast (ucast b OR push_bit 8 ?r) = b"
    using Cons.prems by (intro bit_word_eqI) (auto simp: bit_simps)
  have hi: "to_le_bytes (length bs) (drop_bit 8 (ucast b OR push_bit 8 ?r)) =
      to_le_bytes (length bs) ?r"
  proof -
    have "ucast (drop_bit (8 * i) (drop_bit 8 (ucast b OR push_bit 8 ?r))) =
        (ucast (drop_bit (8 * i) ?r) :: u8)" if "i < length bs" for i
      using that Cons.prems by (intro bit_word_eqI) (auto simp: bit_simps dest: bit_imp_le_length)
    then show ?thesis by (simp add: to_le_bytes_def)
  qed
  have "to_le_bytes (length bs) ?r = bs" using Cons by simp
  then show ?case
    by (simp only: list.size(4) add_Suc_right add_0_right to_le_bytes_Suc from_le_bytes.simps lo hi)
qed simp

text \<open>
  A fixed-width codec: what the serializers and parsers of the crate rely on when they
  write a fixed-size field and read it back.
\<close>

locale fixed_codec =
  fixes enc :: "'v \<Rightarrow> bytes" and dec :: "bytes \<Rightarrow> 'v" and width :: nat
  assumes length_enc: "length (enc v) = width"
    and dec_enc: "dec (enc v) = v"
    and enc_dec: "length bs = width \<Longrightarrow> enc (dec bs) = bs"
begin

lemma enc_inject: "enc v = enc w \<longleftrightarrow> v = w"
  by (metis dec_enc)

lemma dec_field: "dec (take width (enc v @ rest)) = v"
  by (simp add: length_enc dec_enc)

lemma drop_field: "drop width (enc v @ rest) = rest"
  by (simp add: length_enc)

lemma dec_inject: "length bs = width \<Longrightarrow> length cs = width \<Longrightarrow> dec bs = dec cs \<Longrightarrow> bs = cs"
  by (metis enc_dec)

end

abbreviation u32_to_le :: "u32 \<Rightarrow> bytes" where "u32_to_le \<equiv> to_le_bytes 4"
abbreviation u64_to_le :: "u64 \<Rightarrow> bytes" where "u64_to_le \<equiv> to_le_bytes 8"
abbreviation u32_from_le :: "bytes \<Rightarrow> u32" where "u32_from_le \<equiv> from_le_bytes"
abbreviation u64_from_le :: "bytes \<Rightarrow> u64" where "u64_from_le \<equiv> from_le_bytes"

interpretation le32: fixed_codec u32_to_le u32_from_le 4
proof unfold_locales
  fix bs :: bytes assume "length bs = 4"
  then show "u32_to_le (u32_from_le bs) = bs"
    using to_from_le_bytes[where bs = bs and 'a = 32] by simp
qed (simp_all add: from_to_le_bytes)

interpretation le64: fixed_codec u64_to_le u64_from_le 8
proof unfold_locales
  fix bs :: bytes assume "length bs = 8"
  then show "u64_to_le (u64_from_le bs) = bs"
    using to_from_le_bytes[where bs = bs and 'a = 64] by simp
qed (simp_all add: from_to_le_bytes)

section \<open>UTF-8\<close>

text \<open>
  \<^verbatim>\<open>std::str::from_utf8\<close>: a Rust string is modelled by its bytes, which must satisfy this check
  (well-formed sequences only: no overlong form, no surrogate, nothing above U+10FFFF).
\<close>

definition in_range :: "u8 \<Rightarrow> u8 \<Rightarrow> u8 \<Rightarrow> bool" where
  "in_range lo hi b \<longleftrightarrow> lo \<le> b \<and> b \<le> hi"

fun utf8_valid :: "bytes \<Rightarrow> bool" where
  "utf8_valid [] = True"
| "utf8_valid (b0 # bs) =
    (if b0 < 0x80 then utf8_valid bs
     else case bs of
       [] \<Rightarrow> False
     | b1 # bs1 \<Rightarrow>
       if in_range 0xC2 0xDF b0 then in_range 0x80 0xBF b1 \<and> utf8_valid bs1
       else case bs1 of
         [] \<Rightarrow> False
       | b2 # bs2 \<Rightarrow>
         if in_range 0xE0 0xEF b0 then
           in_range (if b0 = 0xE0 then 0xA0 else 0x80) (if b0 = 0xED then 0x9F else 0xBF) b1 \<and>
           in_range 0x80 0xBF b2 \<and> utf8_valid bs2
         else case bs2 of
           [] \<Rightarrow> False
         | b3 # bs3 \<Rightarrow>
           in_range 0xF0 0xF4 b0 \<and>
           in_range (if b0 = 0xF0 then 0x90 else 0x80) (if b0 = 0xF4 then 0x8F else 0xBF) b1 \<and>
           in_range 0x80 0xBF b2 \<and> in_range 0x80 0xBF b3 \<and> utf8_valid bs3)"

definition from_utf8 :: "bytes \<Rightarrow> bytes option" where
  "from_utf8 bs = (if utf8_valid bs then Some bs else None)"

lemma utf8_valid_ascii: "\<forall>b \<in> set bs. b < 0x80 \<Longrightarrow> utf8_valid bs"
  by (induction bs) auto

section \<open>Lists keyed by a field\<close>

text \<open>
  The crate keeps attributes in vectors searched by their type: \<^verbatim>\<open>iter().find\<close> is the library's
  \<open>List.find\<close>, \<^verbatim>\<open>iter().position\<close> followed by an assignment or a push is \<open>upsert\<close>.
\<close>

fun position :: "('a \<Rightarrow> bool) \<Rightarrow> 'a list \<Rightarrow> nat option" where
  "position P [] = None"
| "position P (x # xs) = (if P x then Some 0 else map_option Suc (position P xs))"

fun upsert :: "('a \<Rightarrow> 'k) \<Rightarrow> 'a \<Rightarrow> 'a list \<Rightarrow> 'a list" where
  "upsert k a [] = [a]"
| "upsert k a (x # xs) = (if k x = k a then a # xs else x # upsert k a xs)"

definition swap_remove :: "nat \<Rightarrow> 'a list \<Rightarrow> 'a list" where
  "swap_remove i xs = (if Suc i = length xs then butlast xs else (butlast xs)[i := last xs])"

lemma upsert_position:
  "upsert k a xs = (case position (\<lambda>x. k x = k a) xs of None \<Rightarrow> xs @ [a] | Some i \<Rightarrow> xs[i := a])"
  by (induction xs) (auto split: option.splits)

lemma position_None_iff: "position P xs = None \<longleftrightarrow> (\<forall>x \<in> set xs. \<not> P x)"
  by (induction xs) auto

lemma position_Some: "position P xs = Some i \<Longrightarrow> i < length xs \<and> P (xs ! i)"
  by (induction xs arbitrary: i) (auto split: if_splits)

lemma find_upsert:
  "List.find (\<lambda>x. k x = j) (upsert k a xs) =
    (if j = k a then Some a else List.find (\<lambda>x. k x = j) xs)"
  by (induction xs) auto

lemma keys_upsert: "k ` set (upsert k a xs) = insert (k a) (k ` set xs)"
  by (induction xs) auto

lemma set_upsert_subset: "set (upsert k a xs) \<subseteq> insert a (set xs)"
  by (induction xs) auto

lemma distinct_upsert: "distinct (map k xs) \<Longrightarrow> distinct (map k (upsert k a xs))"
proof (induction xs)
  case (Cons x xs)
  have "k x \<noteq> k a \<Longrightarrow> k x \<notin> set (map k (upsert k a xs))"
    using Cons.prems keys_upsert[of k a xs] by auto
  with Cons show ?case by auto
qed simp

lemma find_Some_iff_distinct:
  assumes "distinct (map k xs)"
  shows "List.find (\<lambda>x. k x = j) xs = Some a \<longleftrightarrow> a \<in> set xs \<and> k a = j"
  using assms by (induction xs) (auto simp: image_iff)

lemma find_SomeD: "List.find P xs = Some x \<Longrightarrow> x \<in> set xs \<and> P x"
  by (induction xs) (auto split: if_splits)

lemma find_None_key: "List.find (\<lambda>x. k x = j) xs = None \<longleftrightarrow> j \<notin> k ` set xs"
  by (induction xs) auto

lemma find_append:
  "List.find P (xs @ ys) = (case List.find P xs of None \<Rightarrow> List.find P ys | Some x \<Rightarrow> Some x)"
  by (induction xs) auto

lemma find_filter_other:
  "List.find (\<lambda>x. k x = j) (filter (\<lambda>x. k x \<noteq> i) xs) =
    (if j = i then None else List.find (\<lambda>x. k x = j) xs)"
  by (induction xs) auto

lemma mset_swap_remove_keys:
  assumes "i < length xs"
  shows "set (swap_remove i xs) \<subseteq> set xs" and "length (swap_remove i xs) = length xs - 1"
proof -
  have ne: "xs \<noteq> []" using assms by auto
  then have "set (butlast xs) \<subseteq> set xs" "last xs \<in> set xs"
    by (auto dest: in_set_butlastD)
  then show "set (swap_remove i xs) \<subseteq> set xs"
    using set_update_subset_insert[of "butlast xs" i "last xs"] by (auto simp: swap_remove_def)
  show "length (swap_remove i xs) = length xs - 1" by (simp add: swap_remove_def)
qed

end
