(* ===== verification/Pkcs11.thy ===== *)
theory Pkcs11
  imports Prelude
begin

text \<open>
  The numeric constants of \<^verbatim>\<open>src/src/pkcs11/headers/3.2/pkcs11.h\<close> and of
  \<^verbatim>\<open>src/src/pkcs11/vendor.rs\<close> that the modelled code names, with the values of the header
  (the Rust bindings are generated from it at build time).
\<close>

subsection \<open>Return values\<close>

abbreviation (input) CKR_ACTION_PROHIBITED :: ck_rv where "CKR_ACTION_PROHIBITED \<equiv> 0x1B"
abbreviation (input) CKR_ARGUMENTS_BAD :: ck_rv where "CKR_ARGUMENTS_BAD \<equiv> 0x7"
abbreviation (input) CKR_ATTRIBUTE_READ_ONLY :: ck_rv where "CKR_ATTRIBUTE_READ_ONLY \<equiv> 0x10"
abbreviation (input) CKR_ATTRIBUTE_SENSITIVE :: ck_rv where "CKR_ATTRIBUTE_SENSITIVE \<equiv> 0x11"
abbreviation (input) CKR_ATTRIBUTE_TYPE_INVALID :: ck_rv where "CKR_ATTRIBUTE_TYPE_INVALID \<equiv> 0x12"
abbreviation (input) CKR_ATTRIBUTE_VALUE_INVALID :: ck_rv where "CKR_ATTRIBUTE_VALUE_INVALID \<equiv> 0x13"
abbreviation (input) CKR_BUFFER_TOO_SMALL :: ck_rv where "CKR_BUFFER_TOO_SMALL \<equiv> 0x150"
abbreviation (input) CKR_CRYPTOKI_ALREADY_INITIALIZED :: ck_rv where "CKR_CRYPTOKI_ALREADY_INITIALIZED \<equiv> 0x191"
abbreviation (input) CKR_CRYPTOKI_NOT_INITIALIZED :: ck_rv where "CKR_CRYPTOKI_NOT_INITIALIZED \<equiv> 0x190"
abbreviation (input) CKR_DATA_INVALID :: ck_rv where "CKR_DATA_INVALID \<equiv> 0x20"
abbreviation (input) CKR_DEVICE_ERROR :: ck_rv where "CKR_DEVICE_ERROR \<equiv> 0x30"
abbreviation (input) CKR_DEVICE_MEMORY :: ck_rv where "CKR_DEVICE_MEMORY \<equiv> 0x31"
abbreviation (input) CKR_FUNCTION_NOT_SUPPORTED :: ck_rv where "CKR_FUNCTION_NOT_SUPPORTED \<equiv> 0x54"
abbreviation (input) CKR_GENERAL_ERROR :: ck_rv where "CKR_GENERAL_ERROR \<equiv> 0x5"
abbreviation (input) CKR_KEY_CHANGED :: ck_rv where "CKR_KEY_CHANGED \<equiv> 0x65"
abbreviation (input) CKR_KEY_FUNCTION_NOT_PERMITTED :: ck_rv where "CKR_KEY_FUNCTION_NOT_PERMITTED \<equiv> 0x68"
abbreviation (input) CKR_KEY_NEEDED :: ck_rv where "CKR_KEY_NEEDED \<equiv> 0x66"
abbreviation (input) CKR_KEY_NOT_NEEDED :: ck_rv where "CKR_KEY_NOT_NEEDED \<equiv> 0x64"
abbreviation (input) CKR_KEY_TYPE_INCONSISTENT :: ck_rv where "CKR_KEY_TYPE_INCONSISTENT \<equiv> 0x63"
abbreviation (input) CKR_KEY_UNEXTRACTABLE :: ck_rv where "CKR_KEY_UNEXTRACTABLE \<equiv> 0x6A"
abbreviation (input) CKR_MECHANISM_INVALID :: ck_rv where "CKR_MECHANISM_INVALID \<equiv> 0x70"
abbreviation (input) CKR_MECHANISM_PARAM_INVALID :: ck_rv where "CKR_MECHANISM_PARAM_INVALID \<equiv> 0x71"
abbreviation (input) CKR_OBJECT_HANDLE_INVALID :: ck_rv where "CKR_OBJECT_HANDLE_INVALID \<equiv> 0x82"
abbreviation (input) CKR_OK :: ck_rv where "CKR_OK \<equiv> 0x0"
abbreviation (input) CKR_OPERATION_ACTIVE :: ck_rv where "CKR_OPERATION_ACTIVE \<equiv> 0x90"
abbreviation (input) CKR_OPERATION_CANCEL_FAILED :: ck_rv where "CKR_OPERATION_CANCEL_FAILED \<equiv> 0x202"
abbreviation (input) CKR_OPERATION_NOT_INITIALIZED :: ck_rv where "CKR_OPERATION_NOT_INITIALIZED \<equiv> 0x91"
abbreviation (input) CKR_PIN_EXPIRED :: ck_rv where "CKR_PIN_EXPIRED \<equiv> 0xA3"
abbreviation (input) CKR_PIN_INCORRECT :: ck_rv where "CKR_PIN_INCORRECT \<equiv> 0xA0"
abbreviation (input) CKR_PIN_INVALID :: ck_rv where "CKR_PIN_INVALID \<equiv> 0xA1"
abbreviation (input) CKR_PIN_LOCKED :: ck_rv where "CKR_PIN_LOCKED \<equiv> 0xA4"
abbreviation (input) CKR_SAVED_STATE_INVALID :: ck_rv where "CKR_SAVED_STATE_INVALID \<equiv> 0x160"
abbreviation (input) CKR_SESSION_EXISTS :: ck_rv where "CKR_SESSION_EXISTS \<equiv> 0xB6"
abbreviation (input) CKR_SESSION_HANDLE_INVALID :: ck_rv where "CKR_SESSION_HANDLE_INVALID \<equiv> 0xB3"
abbreviation (input) CKR_SESSION_READ_ONLY :: ck_rv where "CKR_SESSION_READ_ONLY \<equiv> 0xB5"
abbreviation (input) CKR_SESSION_READ_ONLY_EXISTS :: ck_rv where "CKR_SESSION_READ_ONLY_EXISTS \<equiv> 0xB7"
abbreviation (input) CKR_SESSION_READ_WRITE_SO_EXISTS :: ck_rv where "CKR_SESSION_READ_WRITE_SO_EXISTS \<equiv> 0xB8"
abbreviation (input) CKR_SLOT_ID_INVALID :: ck_rv where "CKR_SLOT_ID_INVALID \<equiv> 0x3"
abbreviation (input) CKR_STATE_UNSAVEABLE :: ck_rv where "CKR_STATE_UNSAVEABLE \<equiv> 0x180"
abbreviation (input) CKR_TEMPLATE_INCOMPLETE :: ck_rv where "CKR_TEMPLATE_INCOMPLETE \<equiv> 0xD0"
abbreviation (input) CKR_TEMPLATE_INCONSISTENT :: ck_rv where "CKR_TEMPLATE_INCONSISTENT \<equiv> 0xD1"
abbreviation (input) CKR_TOKEN_NOT_INITIALIZED :: ck_rv where "CKR_TOKEN_NOT_INITIALIZED \<equiv> 0x208"
abbreviation (input) CKR_TOKEN_NOT_PRESENT :: ck_rv where "CKR_TOKEN_NOT_PRESENT \<equiv> 0xE0"
abbreviation (input) CKR_USER_ALREADY_LOGGED_IN :: ck_rv where "CKR_USER_ALREADY_LOGGED_IN \<equiv> 0x100"
abbreviation (input) CKR_USER_ANOTHER_ALREADY_LOGGED_IN :: ck_rv where "CKR_USER_ANOTHER_ALREADY_LOGGED_IN \<equiv> 0x104"
abbreviation (input) CKR_USER_NOT_LOGGED_IN :: ck_rv where "CKR_USER_NOT_LOGGED_IN \<equiv> 0x101"
abbreviation (input) CKR_USER_PIN_NOT_INITIALIZED :: ck_rv where "CKR_USER_PIN_NOT_INITIALIZED \<equiv> 0x102"
abbreviation (input) CKR_USER_TYPE_INVALID :: ck_rv where "CKR_USER_TYPE_INVALID \<equiv> 0x103"

subsection \<open>Attribute types\<close>

abbreviation (input) CKA_CLASS :: ck_ulong where "CKA_CLASS \<equiv> 0x0"
abbreviation (input) CKA_TOKEN :: ck_ulong where "CKA_TOKEN \<equiv> 0x1"
abbreviation (input) CKA_PRIVATE :: ck_ulong where "CKA_PRIVATE \<equiv> 0x2"
abbreviation (input) CKA_LABEL :: ck_ulong where "CKA_LABEL \<equiv> 0x3"
abbreviation (input) CKA_UNIQUE_ID :: ck_ulong where "CKA_UNIQUE_ID \<equiv> 0x4"
abbreviation (input) CKA_APPLICATION :: ck_ulong where "CKA_APPLICATION \<equiv> 0x10"
abbreviation (input) CKA_VALUE :: ck_ulong where "CKA_VALUE \<equiv> 0x11"
abbreviation (input) CKA_OBJECT_ID :: ck_ulong where "CKA_OBJECT_ID \<equiv> 0x12"
abbreviation (input) CKA_CERTIFICATE_TYPE :: ck_ulong where "CKA_CERTIFICATE_TYPE \<equiv> 0x80"
abbreviation (input) CKA_ISSUER :: ck_ulong where "CKA_ISSUER \<equiv> 0x81"
abbreviation (input) CKA_SERIAL_NUMBER :: ck_ulong where "CKA_SERIAL_NUMBER \<equiv> 0x82"
abbreviation (input) CKA_AC_ISSUER :: ck_ulong where "CKA_AC_ISSUER \<equiv> 0x83"
abbreviation (input) CKA_OWNER :: ck_ulong where "CKA_OWNER \<equiv> 0x84"
abbreviation (input) CKA_ATTR_TYPES :: ck_ulong where "CKA_ATTR_TYPES \<equiv> 0x85"
abbreviation (input) CKA_TRUSTED :: ck_ulong where "CKA_TRUSTED \<equiv> 0x86"
abbreviation (input) CKA_CERTIFICATE_CATEGORY :: ck_ulong where "CKA_CERTIFICATE_CATEGORY \<equiv> 0x87"
abbreviation (input) CKA_JAVA_MIDP_SECURITY_DOMAIN :: ck_ulong where "CKA_JAVA_MIDP_SECURITY_DOMAIN \<equiv> 0x88"
abbreviation (input) CKA_URL :: ck_ulong where "CKA_URL \<equiv> 0x89"
abbreviation (input) CKA_HASH_OF_SUBJECT_PUBLIC_KEY :: ck_ulong where "CKA_HASH_OF_SUBJECT_PUBLIC_KEY \<equiv> 0x8A"
abbreviation (input) CKA_HASH_OF_ISSUER_PUBLIC_KEY :: ck_ulong where "CKA_HASH_OF_ISSUER_PUBLIC_KEY \<equiv> 0x8B"
abbreviation (input) CKA_NAME_HASH_ALGORITHM :: ck_ulong where "CKA_NAME_HASH_ALGORITHM \<equiv> 0x8C"
abbreviation (input) CKA_CHECK_VALUE :: ck_ulong where "CKA_CHECK_VALUE \<equiv> 0x90"
abbreviation (input) CKA_KEY_TYPE :: ck_ulong where "CKA_KEY_TYPE \<equiv> 0x100"
abbreviation (input) CKA_SUBJECT :: ck_ulong where "CKA_SUBJECT \<equiv> 0x101"
abbreviation (input) CKA_ID :: ck_ulong where "CKA_ID \<equiv> 0x102"
abbreviation (input) CKA_SENSITIVE :: ck_ulong where "CKA_SENSITIVE \<equiv> 0x103"
abbreviation (input) CKA_ENCRYPT :: ck_ulong where "CKA_ENCRYPT \<equiv> 0x104"
abbreviation (input) CKA_DECRYPT :: ck_ulong where "CKA_DECRYPT \<equiv> 0x105"
abbreviation (input) CKA_WRAP :: ck_ulong where "CKA_WRAP \<equiv> 0x106"
abbreviation (input) CKA_UNWRAP :: ck_ulong where "CKA_UNWRAP \<equiv> 0x107"
abbreviation (input) CKA_SIGN :: ck_ulong where "CKA_SIGN \<equiv> 0x108"
abbreviation (input) CKA_SIGN_RECOVER :: ck_ulong where "CKA_SIGN_RECOVER \<equiv> 0x109"
abbreviation (input) CKA_VERIFY :: ck_ulong where "CKA_VERIFY \<equiv> 0x10A"
abbreviation (input) CKA_VERIFY_RECOVER :: ck_ulong where "CKA_VERIFY_RECOVER \<equiv> 0x10B"
abbreviation (input) CKA_DERIVE :: ck_ulong where "CKA_DERIVE \<equiv> 0x10C"
abbreviation (input) CKA_START_DATE :: ck_ulong where "CKA_START_DATE \<equiv> 0x110"
abbreviation (input) CKA_END_DATE :: ck_ulong where "CKA_END_DATE \<equiv> 0x111"
abbreviation (input) CKA_MODULUS :: ck_ulong where "CKA_MODULUS \<equiv> 0x120"
abbreviation (input) CKA_MODULUS_BITS :: ck_ulong where "CKA_MODULUS_BITS \<equiv> 0x121"
abbreviation (input) CKA_PUBLIC_EXPONENT :: ck_ulong where "CKA_PUBLIC_EXPONENT \<equiv> 0x122"
abbreviation (input) CKA_PRIVATE_EXPONENT :: ck_ulong where "CKA_PRIVATE_EXPONENT \<equiv> 0x123"
abbreviation (input) CKA_PRIME_1 :: ck_ulong where "CKA_PRIME_1 \<equiv> 0x124"
abbreviation (input) CKA_PRIME_2 :: ck_ulong where "CKA_PRIME_2 \<equiv> 0x125"
abbreviation (input) CKA_EXPONENT_1 :: ck_ulong where "CKA_EXPONENT_1 \<equiv> 0x126"
abbreviation (input) CKA_EXPONENT_2 :: ck_ulong where "CKA_EXPONENT_2 \<equiv> 0x127"
abbreviation (input) CKA_COEFFICIENT :: ck_ulong where "CKA_COEFFICIENT \<equiv> 0x128"
abbreviation (input) CKA_PUBLIC_KEY_INFO :: ck_ulong where "CKA_PUBLIC_KEY_INFO \<equiv> 0x129"
abbreviation (input) CKA_PRIME :: ck_ulong where "CKA_PRIME \<equiv> 0x130"
abbreviation (input) CKA_SUBPRIME :: ck_ulong where "CKA_SUBPRIME \<equiv> 0x131"
abbreviation (input) CKA_BASE :: ck_ulong where "CKA_BASE \<equiv> 0x132"
abbreviation (input) CKA_PRIME_BITS :: ck_ulong where "CKA_PRIME_BITS \<equiv> 0x133"
abbreviation (input) CKA_SUBPRIME_BITS :: ck_ulong where "CKA_SUBPRIME_BITS \<equiv> 0x134"
abbreviation (input) CKA_VALUE_BITS :: ck_ulong where "CKA_VALUE_BITS \<equiv> 0x160"
abbreviation (input) CKA_VALUE_LEN :: ck_ulong where "CKA_VALUE_LEN \<equiv> 0x161"
abbreviation (input) CKA_EXTRACTABLE :: ck_ulong where "CKA_EXTRACTABLE \<equiv> 0x162"
abbreviation (input) CKA_LOCAL :: ck_ulong where "CKA_LOCAL \<equiv> 0x163"
abbreviation (input) CKA_NEVER_EXTRACTABLE :: ck_ulong where "CKA_NEVER_EXTRACTABLE \<equiv> 0x164"
abbreviation (input) CKA_ALWAYS_SENSITIVE :: ck_ulong where "CKA_ALWAYS_SENSITIVE \<equiv> 0x165"
abbreviation (input) CKA_KEY_GEN_MECHANISM :: ck_ulong where "CKA_KEY_GEN_MECHANISM \<equiv> 0x166"
abbreviation (input) CKA_MODIFIABLE :: ck_ulong where "CKA_MODIFIABLE \<equiv> 0x170"
abbreviation (input) CKA_COPYABLE :: ck_ulong where "CKA_COPYABLE \<equiv> 0x171"
abbreviation (input) CKA_DESTROYABLE :: ck_ulong where "CKA_DESTROYABLE \<equiv> 0x172"
abbreviation (input) CKA_EC_PARAMS :: ck_ulong where "CKA_EC_PARAMS \<equiv> 0x180"
abbreviation (input) CKA_EC_POINT :: ck_ulong where "CKA_EC_POINT \<equiv> 0x181"
abbreviation (input) CKA_ALWAYS_AUTHENTICATE :: ck_ulong where "CKA_ALWAYS_AUTHENTICATE \<equiv> 0x202"
abbreviation (input) CKA_WRAP_WITH_TRUSTED :: ck_ulong where "CKA_WRAP_WITH_TRUSTED \<equiv> 0x210"
abbreviation (input) CKA_OTP_FORMAT :: ck_ulong where "CKA_OTP_FORMAT \<equiv> 0x220"
abbreviation (input) CKA_OTP_LENGTH :: ck_ulong where "CKA_OTP_LENGTH \<equiv> 0x221"
abbreviation (input) CKA_OTP_TIME_INTERVAL :: ck_ulong where "CKA_OTP_TIME_INTERVAL \<equiv> 0x222"
abbreviation (input) CKA_OTP_USER_FRIENDLY_MODE :: ck_ulong where "CKA_OTP_USER_FRIENDLY_MODE \<equiv> 0x223"
abbreviation (input) CKA_OTP_CHALLENGE_REQUIREMENT :: ck_ulong where "CKA_OTP_CHALLENGE_REQUIREMENT \<equiv> 0x224"
abbreviation (input) CKA_OTP_TIME_REQUIREMENT :: ck_ulong where "CKA_OTP_TIME_REQUIREMENT \<equiv> 0x225"
abbreviation (input) CKA_OTP_COUNTER_REQUIREMENT :: ck_ulong where "CKA_OTP_COUNTER_REQUIREMENT \<equiv> 0x226"
abbreviation (input) CKA_OTP_PIN_REQUIREMENT :: ck_ulong where "CKA_OTP_PIN_REQUIREMENT \<equiv> 0x227"
abbreviation (input) CKA_OTP_USER_IDENTIFIER :: ck_ulong where "CKA_OTP_USER_IDENTIFIER \<equiv> 0x22A"
abbreviation (input) CKA_OTP_SERVICE_IDENTIFIER :: ck_ulong where "CKA_OTP_SERVICE_IDENTIFIER \<equiv> 0x22B"
abbreviation (input) CKA_OTP_SERVICE_LOGO :: ck_ulong where "CKA_OTP_SERVICE_LOGO \<equiv> 0x22C"
abbreviation (input) CKA_OTP_SERVICE_LOGO_TYPE :: ck_ulong where "CKA_OTP_SERVICE_LOGO_TYPE \<equiv> 0x22D"
abbreviation (input) CKA_OTP_COUNTER :: ck_ulong where "CKA_OTP_COUNTER \<equiv> 0x22E"
abbreviation (input) CKA_OTP_TIME :: ck_ulong where "CKA_OTP_TIME \<equiv> 0x22F"
abbreviation (input) CKA_GOSTR3410_PARAMS :: ck_ulong where "CKA_GOSTR3410_PARAMS \<equiv> 0x250"
abbreviation (input) CKA_GOSTR3411_PARAMS :: ck_ulong where "CKA_GOSTR3411_PARAMS \<equiv> 0x251"
abbreviation (input) CKA_GOST28147_PARAMS :: ck_ulong where "CKA_GOST28147_PARAMS \<equiv> 0x252"
abbreviation (input) CKA_HW_FEATURE_TYPE :: ck_ulong where "CKA_HW_FEATURE_TYPE \<equiv> 0x300"
abbreviation (input) CKA_RESET_ON_INIT :: ck_ulong where "CKA_RESET_ON_INIT \<equiv> 0x301"
abbreviation (input) CKA_HAS_RESET :: ck_ulong where "CKA_HAS_RESET \<equiv> 0x302"
abbreviation (input) CKA_PIXEL_X :: ck_ulong where "CKA_PIXEL_X \<equiv> 0x400"
abbreviation (input) CKA_PIXEL_Y :: ck_ulong where "CKA_PIXEL_Y \<equiv> 0x401"
abbreviation (input) CKA_RESOLUTION :: ck_ulong where "CKA_RESOLUTION \<equiv> 0x402"
abbreviation (input) CKA_CHAR_ROWS :: ck_ulong where "CKA_CHAR_ROWS \<equiv> 0x403"
abbreviation (input) CKA_CHAR_COLUMNS :: ck_ulong where "CKA_CHAR_COLUMNS \<equiv> 0x404"
abbreviation (input) CKA_COLOR :: ck_ulong where "CKA_COLOR \<equiv> 0x405"
abbreviation (input) CKA_BITS_PER_PIXEL :: ck_ulong where "CKA_BITS_PER_PIXEL \<equiv> 0x406"
abbreviation (input) CKA_CHAR_SETS :: ck_ulong where "CKA_CHAR_SETS \<equiv> 0x480"
abbreviation (input) CKA_ENCODING_METHODS :: ck_ulong where "CKA_ENCODING_METHODS \<equiv> 0x481"
abbreviation (input) CKA_MIME_TYPES :: ck_ulong where "CKA_MIME_TYPES \<equiv> 0x482"
abbreviation (input) CKA_MECHANISM_TYPE :: ck_ulong where "CKA_MECHANISM_TYPE \<equiv> 0x500"
abbreviation (input) CKA_REQUIRED_CMS_ATTRIBUTES :: ck_ulong where "CKA_REQUIRED_CMS_ATTRIBUTES \<equiv> 0x501"
abbreviation (input) CKA_DEFAULT_CMS_ATTRIBUTES :: ck_ulong where "CKA_DEFAULT_CMS_ATTRIBUTES \<equiv> 0x502"
abbreviation (input) CKA_SUPPORTED_CMS_ATTRIBUTES :: ck_ulong where "CKA_SUPPORTED_CMS_ATTRIBUTES \<equiv> 0x503"
abbreviation (input) CKA_PROFILE_ID :: ck_ulong where "CKA_PROFILE_ID \<equiv> 0x601"
abbreviation (input) CKA_X2RATCHET_BAG :: ck_ulong where "CKA_X2RATCHET_BAG \<equiv> 0x602"
abbreviation (input) CKA_X2RATCHET_BAGSIZE :: ck_ulong where "CKA_X2RATCHET_BAGSIZE \<equiv> 0x603"
abbreviation (input) CKA_X2RATCHET_BOBS1STMSG :: ck_ulong where "CKA_X2RATCHET_BOBS1STMSG \<equiv> 0x604"
abbreviation (input) CKA_X2RATCHET_CKR :: ck_ulong where "CKA_X2RATCHET_CKR \<equiv> 0x605"
abbreviation (input) CKA_X2RATCHET_CKS :: ck_ulong where "CKA_X2RATCHET_CKS \<equiv> 0x606"
abbreviation (input) CKA_X2RATCHET_DHP :: ck_ulong where "CKA_X2RATCHET_DHP \<equiv> 0x607"
abbreviation (input) CKA_X2RATCHET_DHR :: ck_ulong where "CKA_X2RATCHET_DHR \<equiv> 0x608"
abbreviation (input) CKA_X2RATCHET_DHS :: ck_ulong where "CKA_X2RATCHET_DHS \<equiv> 0x609"
abbreviation (input) CKA_X2RATCHET_HKR :: ck_ulong where "CKA_X2RATCHET_HKR \<equiv> 0x60A"
abbreviation (input) CKA_X2RATCHET_HKS :: ck_ulong where "CKA_X2RATCHET_HKS \<equiv> 0x60B"
abbreviation (input) CKA_X2RATCHET_ISALICE :: ck_ulong where "CKA_X2RATCHET_ISALICE \<equiv> 0x60C"
abbreviation (input) CKA_X2RATCHET_NHKR :: ck_ulong where "CKA_X2RATCHET_NHKR \<equiv> 0x60D"
abbreviation (input) CKA_X2RATCHET_NHKS :: ck_ulong where "CKA_X2RATCHET_NHKS \<equiv> 0x60E"
abbreviation (input) CKA_X2RATCHET_NR :: ck_ulong where "CKA_X2RATCHET_NR \<equiv> 0x60F"
abbreviation (input) CKA_X2RATCHET_NS :: ck_ulong where "CKA_X2RATCHET_NS \<equiv> 0x610"
abbreviation (input) CKA_X2RATCHET_PNS :: ck_ulong where "CKA_X2RATCHET_PNS \<equiv> 0x611"
abbreviation (input) CKA_X2RATCHET_RK :: ck_ulong where "CKA_X2RATCHET_RK \<equiv> 0x612"
abbreviation (input) CKA_HSS_LEVELS :: ck_ulong where "CKA_HSS_LEVELS \<equiv> 0x617"
abbreviation (input) CKA_HSS_LMS_TYPE :: ck_ulong where "CKA_HSS_LMS_TYPE \<equiv> 0x618"
abbreviation (input) CKA_HSS_LMOTS_TYPE :: ck_ulong where "CKA_HSS_LMOTS_TYPE \<equiv> 0x619"
abbreviation (input) CKA_HSS_LMS_TYPES :: ck_ulong where "CKA_HSS_LMS_TYPES \<equiv> 0x61A"
abbreviation (input) CKA_HSS_LMOTS_TYPES :: ck_ulong where "CKA_HSS_LMOTS_TYPES \<equiv> 0x61B"
abbreviation (input) CKA_HSS_KEYS_REMAINING :: ck_ulong where "CKA_HSS_KEYS_REMAINING \<equiv> 0x61C"
abbreviation (input) CKA_PARAMETER_SET :: ck_ulong where "CKA_PARAMETER_SET \<equiv> 0x61D"
abbreviation (input) CKA_OBJECT_VALIDATION_FLAGS :: ck_ulong where "CKA_OBJECT_VALIDATION_FLAGS \<equiv> 0x61E"
abbreviation (input) CKA_VALIDATION_TYPE :: ck_ulong where "CKA_VALIDATION_TYPE \<equiv> 0x61F"
abbreviation (input) CKA_VALIDATION_VERSION :: ck_ulong where "CKA_VALIDATION_VERSION \<equiv> 0x620"
abbreviation (input) CKA_VALIDATION_LEVEL :: ck_ulong where "CKA_VALIDATION_LEVEL \<equiv> 0x621"
abbreviation (input) CKA_VALIDATION_MODULE_ID :: ck_ulong where "CKA_VALIDATION_MODULE_ID \<equiv> 0x622"
abbreviation (input) CKA_VALIDATION_FLAG :: ck_ulong where "CKA_VALIDATION_FLAG \<equiv> 0x623"
abbreviation (input) CKA_VALIDATION_AUTHORITY_TYPE :: ck_ulong where "CKA_VALIDATION_AUTHORITY_TYPE \<equiv> 0x624"
abbreviation (input) CKA_VALIDATION_COUNTRY :: ck_ulong where "CKA_VALIDATION_COUNTRY \<equiv> 0x625"
abbreviation (input) CKA_VALIDATION_CERTIFICATE_IDENTIFIER :: ck_ulong where "CKA_VALIDATION_CERTIFICATE_IDENTIFIER \<equiv> 0x626"
abbreviation (input) CKA_VALIDATION_CERTIFICATE_URI :: ck_ulong where "CKA_VALIDATION_CERTIFICATE_URI \<equiv> 0x627"
abbreviation (input) CKA_VALIDATION_VENDOR_URI :: ck_ulong where "CKA_VALIDATION_VENDOR_URI \<equiv> 0x628"
abbreviation (input) CKA_VALIDATION_PROFILE :: ck_ulong where "CKA_VALIDATION_PROFILE \<equiv> 0x629"
abbreviation (input) CKA_ENCAPSULATE_TEMPLATE :: ck_ulong where "CKA_ENCAPSULATE_TEMPLATE \<equiv> 0x62A"
abbreviation (input) CKA_DECAPSULATE_TEMPLATE :: ck_ulong where "CKA_DECAPSULATE_TEMPLATE \<equiv> 0x62B"
abbreviation (input) CKA_TRUST_SERVER_AUTH :: ck_ulong where "CKA_TRUST_SERVER_AUTH \<equiv> 0x62C"
abbreviation (input) CKA_TRUST_CLIENT_AUTH :: ck_ulong where "CKA_TRUST_CLIENT_AUTH \<equiv> 0x62D"
abbreviation (input) CKA_TRUST_CODE_SIGNING :: ck_ulong where "CKA_TRUST_CODE_SIGNING \<equiv> 0x62E"
abbreviation (input) CKA_TRUST_EMAIL_PROTECTION :: ck_ulong where "CKA_TRUST_EMAIL_PROTECTION \<equiv> 0x62F"
abbreviation (input) CKA_TRUST_IPSEC_IKE :: ck_ulong where "CKA_TRUST_IPSEC_IKE \<equiv> 0x630"
abbreviation (input) CKA_TRUST_TIME_STAMPING :: ck_ulong where "CKA_TRUST_TIME_STAMPING \<equiv> 0x631"
abbreviation (input) CKA_TRUST_OCSP_SIGNING :: ck_ulong where "CKA_TRUST_OCSP_SIGNING \<equiv> 0x632"
abbreviation (input) CKA_ENCAPSULATE :: ck_ulong where "CKA_ENCAPSULATE \<equiv> 0x633"
abbreviation (input) CKA_DECAPSULATE :: ck_ulong where "CKA_DECAPSULATE \<equiv> 0x634"
abbreviation (input) CKA_HASH_OF_CERTIFICATE :: ck_ulong where "CKA_HASH_OF_CERTIFICATE \<equiv> 0x635"
abbreviation (input) CKA_PUBLIC_CRC64_VALUE :: ck_ulong where "CKA_PUBLIC_CRC64_VALUE \<equiv> 0x636"
abbreviation (input) CKA_SEED :: ck_ulong where "CKA_SEED \<equiv> 0x637"
abbreviation (input) CKA_WRAP_TEMPLATE :: ck_ulong where "CKA_WRAP_TEMPLATE \<equiv> 0x40000211"
abbreviation (input) CKA_UNWRAP_TEMPLATE :: ck_ulong where "CKA_UNWRAP_TEMPLATE \<equiv> 0x40000212"
abbreviation (input) CKA_DERIVE_TEMPLATE :: ck_ulong where "CKA_DERIVE_TEMPLATE \<equiv> 0x40000213"
abbreviation (input) CKA_ALLOWED_MECHANISMS :: ck_ulong where "CKA_ALLOWED_MECHANISMS \<equiv> 0x40000600"
abbreviation (input) CKA_VENDOR_DEFINED :: ck_ulong where "CKA_VENDOR_DEFINED \<equiv> 0x80000000"
abbreviation (input) KRA_MAX_LOGIN_ATTEMPTS :: ck_ulong where "KRA_MAX_LOGIN_ATTEMPTS \<equiv> 0x8007678C"
abbreviation (input) KRA_LOGIN_ATTEMPTS :: ck_ulong where "KRA_LOGIN_ATTEMPTS \<equiv> 0x8007678D"
abbreviation (input) CKA_NSS_TRUST_SERVER_AUTH :: ck_ulong where "CKA_NSS_TRUST_SERVER_AUTH \<equiv> 0xCE536358"
abbreviation (input) CKA_NSS_TRUST_CLIENT_AUTH :: ck_ulong where "CKA_NSS_TRUST_CLIENT_AUTH \<equiv> 0xCE536359"
abbreviation (input) CKA_NSS_TRUST_CODE_SIGNING :: ck_ulong where "CKA_NSS_TRUST_CODE_SIGNING \<equiv> 0xCE53635A"
abbreviation (input) CKA_NSS_TRUST_EMAIL_PROTECTION :: ck_ulong where "CKA_NSS_TRUST_EMAIL_PROTECTION \<equiv> 0xCE53635B"
abbreviation (input) CKA_NSS_TRUST_STEP_UP_APPROVED :: ck_ulong where "CKA_NSS_TRUST_STEP_UP_APPROVED \<equiv> 0xCE536360"
abbreviation (input) CKA_NSS_CERT_SHA1_HASH :: ck_ulong where "CKA_NSS_CERT_SHA1_HASH \<equiv> 0xCE5363B4"
abbreviation (input) CKA_NSS_CERT_MD5_HASH :: ck_ulong where "CKA_NSS_CERT_MD5_HASH \<equiv> 0xCE5363B5"

subsection \<open>Object classes and key types\<close>

abbreviation (input) CKO_DATA :: ck_ulong where "CKO_DATA \<equiv> 0x0"
abbreviation (input) CKO_CERTIFICATE :: ck_ulong where "CKO_CERTIFICATE \<equiv> 0x1"
abbreviation (input) CKO_PUBLIC_KEY :: ck_ulong where "CKO_PUBLIC_KEY \<equiv> 0x2"
abbreviation (input) CKO_PRIVATE_KEY :: ck_ulong where "CKO_PRIVATE_KEY \<equiv> 0x3"
abbreviation (input) CKO_SECRET_KEY :: ck_ulong where "CKO_SECRET_KEY \<equiv> 0x4"
abbreviation (input) CKO_HW_FEATURE :: ck_ulong where "CKO_HW_FEATURE \<equiv> 0x5"
abbreviation (input) CKO_DOMAIN_PARAMETERS :: ck_ulong where "CKO_DOMAIN_PARAMETERS \<equiv> 0x6"
abbreviation (input) CKO_MECHANISM :: ck_ulong where "CKO_MECHANISM \<equiv> 0x7"
abbreviation (input) CKO_OTP_KEY :: ck_ulong where "CKO_OTP_KEY \<equiv> 0x8"
abbreviation (input) CKO_PROFILE :: ck_ulong where "CKO_PROFILE \<equiv> 0x9"
abbreviation (input) CKO_VALIDATION :: ck_ulong where "CKO_VALIDATION \<equiv> 0xA"
abbreviation (input) CKO_TRUST :: ck_ulong where "CKO_TRUST \<equiv> 0xB"
abbreviation (input) CKK_GENERIC_SECRET :: ck_ulong where "CKK_GENERIC_SECRET \<equiv> 0x10"
abbreviation (input) CKC_X_509 :: ck_ulong where "CKC_X_509 \<equiv> 0x0"

subsection \<open>Users, sessions and flags\<close>

abbreviation (input) CKU_SO :: ck_ulong where "CKU_SO \<equiv> 0x0"
abbreviation (input) CKU_USER :: ck_ulong where "CKU_USER \<equiv> 0x1"
abbreviation (input) CKU_CONTEXT_SPECIFIC :: ck_ulong where "CKU_CONTEXT_SPECIFIC \<equiv> 0x2"
abbreviation (input) CKS_RO_PUBLIC_SESSION :: ck_ulong where "CKS_RO_PUBLIC_SESSION \<equiv> 0x0"
abbreviation (input) CKS_RO_USER_FUNCTIONS :: ck_ulong where "CKS_RO_USER_FUNCTIONS \<equiv> 0x1"
abbreviation (input) CKS_RW_PUBLIC_SESSION :: ck_ulong where "CKS_RW_PUBLIC_SESSION \<equiv> 0x2"
abbreviation (input) CKS_RW_USER_FUNCTIONS :: ck_ulong where "CKS_RW_USER_FUNCTIONS \<equiv> 0x3"
abbreviation (input) CKS_RW_SO_FUNCTIONS :: ck_ulong where "CKS_RW_SO_FUNCTIONS \<equiv> 0x4"
abbreviation (input) CKS_LAST_VALIDATION_OK :: ck_ulong where "CKS_LAST_VALIDATION_OK \<equiv> 0x1"
abbreviation (input) CKF_DECRYPT :: ck_flags where "CKF_DECRYPT \<equiv> 0x200"
abbreviation (input) CKF_DIGEST :: ck_flags where "CKF_DIGEST \<equiv> 0x400"
abbreviation (input) CKF_ENCRYPT :: ck_flags where "CKF_ENCRYPT \<equiv> 0x100"
abbreviation (input) CKF_FIND_OBJECTS :: ck_flags where "CKF_FIND_OBJECTS \<equiv> 0x40"
abbreviation (input) CKF_HKDF_SALT_NULL :: ck_flags where "CKF_HKDF_SALT_NULL \<equiv> 0x1"
abbreviation (input) CKF_LOGIN_REQUIRED :: ck_flags where "CKF_LOGIN_REQUIRED \<equiv> 0x4"
abbreviation (input) CKF_MESSAGE_DECRYPT :: ck_flags where "CKF_MESSAGE_DECRYPT \<equiv> 0x4"
abbreviation (input) CKF_MESSAGE_ENCRYPT :: ck_flags where "CKF_MESSAGE_ENCRYPT \<equiv> 0x2"
abbreviation (input) CKF_MESSAGE_SIGN :: ck_flags where "CKF_MESSAGE_SIGN \<equiv> 0x8"
abbreviation (input) CKF_MESSAGE_VERIFY :: ck_flags where "CKF_MESSAGE_VERIFY \<equiv> 0x10"
abbreviation (input) CKF_RNG :: ck_flags where "CKF_RNG \<equiv> 0x1"
abbreviation (input) CKF_RW_SESSION :: ck_flags where "CKF_RW_SESSION \<equiv> 0x2"
abbreviation (input) CKF_SERIAL_SESSION :: ck_flags where "CKF_SERIAL_SESSION \<equiv> 0x4"
abbreviation (input) CKF_SIGN :: ck_flags where "CKF_SIGN \<equiv> 0x800"
abbreviation (input) CKF_SO_PIN_COUNT_LOW :: ck_flags where "CKF_SO_PIN_COUNT_LOW \<equiv> 0x100000"
abbreviation (input) CKF_SO_PIN_FINAL_TRY :: ck_flags where "CKF_SO_PIN_FINAL_TRY \<equiv> 0x200000"
abbreviation (input) CKF_SO_PIN_LOCKED :: ck_flags where "CKF_SO_PIN_LOCKED \<equiv> 0x400000"
abbreviation (input) CKF_SO_PIN_TO_BE_CHANGED :: ck_flags where "CKF_SO_PIN_TO_BE_CHANGED \<equiv> 0x800000"
abbreviation (input) CKF_TOKEN_INITIALIZED :: ck_flags where "CKF_TOKEN_INITIALIZED \<equiv> 0x400"
abbreviation (input) CKF_TOKEN_PRESENT :: ck_flags where "CKF_TOKEN_PRESENT \<equiv> 0x1"
abbreviation (input) CKF_USER_PIN_COUNT_LOW :: ck_flags where "CKF_USER_PIN_COUNT_LOW \<equiv> 0x10000"
abbreviation (input) CKF_USER_PIN_FINAL_TRY :: ck_flags where "CKF_USER_PIN_FINAL_TRY \<equiv> 0x20000"
abbreviation (input) CKF_USER_PIN_INITIALIZED :: ck_flags where "CKF_USER_PIN_INITIALIZED \<equiv> 0x8"
abbreviation (input) CKF_USER_PIN_LOCKED :: ck_flags where "CKF_USER_PIN_LOCKED \<equiv> 0x40000"
abbreviation (input) CKF_USER_PIN_TO_BE_CHANGED :: ck_flags where "CKF_USER_PIN_TO_BE_CHANGED \<equiv> 0x80000"
abbreviation (input) CKF_VERIFY :: ck_flags where "CKF_VERIFY \<equiv> 0x2000"
abbreviation (input) CKF_WRITE_PROTECTED :: ck_flags where "CKF_WRITE_PROTECTED \<equiv> 0x2"

subsection \<open>Other\<close>

abbreviation (input) CK_INVALID_HANDLE :: ck_ulong where "CK_INVALID_HANDLE \<equiv> 0x0"
abbreviation (input) CK_UNAVAILABLE_INFORMATION :: ck_ulong where "CK_UNAVAILABLE_INFORMATION \<equiv> 0xFFFFFFFFFFFFFFFF"
abbreviation (input) CK_EFFECTIVELY_INFINITE :: ck_ulong where "CK_EFFECTIVELY_INFINITE \<equiv> 0x0"
abbreviation (input) CKM_GENERIC_SECRET_KEY_GEN :: ck_ulong where "CKM_GENERIC_SECRET_KEY_GEN \<equiv> 0x350"
abbreviation (input) CK_CERTIFICATE_CATEGORY_UNSPECIFIED :: ck_ulong where "CK_CERTIFICATE_CATEGORY_UNSPECIFIED \<equiv> 0x0"
abbreviation (input) CK_CERTIFICATE_CATEGORY_TOKEN_USER :: ck_ulong where "CK_CERTIFICATE_CATEGORY_TOKEN_USER \<equiv> 0x1"
abbreviation (input) CK_CERTIFICATE_CATEGORY_AUTHORITY :: ck_ulong where "CK_CERTIFICATE_CATEGORY_AUTHORITY \<equiv> 0x2"
abbreviation (input) CK_CERTIFICATE_CATEGORY_OTHER_ENTITY :: ck_ulong where "CK_CERTIFICATE_CATEGORY_OTHER_ENTITY \<equiv> 0x3"
abbreviation (input) KRY_UNSPEC :: ck_ulong where "KRY_UNSPEC \<equiv> 0xFFFFFFFFFFFFFFFF"
abbreviation (input) CKO_NSS_TRUST :: ck_ulong where "CKO_NSS_TRUST \<equiv> 0xCE534353"

subsection \<open>Further constants\<close>

abbreviation (input) CK_OTP_FORMAT_DECIMAL :: ck_ulong where "CK_OTP_FORMAT_DECIMAL \<equiv> 0x0"
abbreviation (input) CK_OTP_PARAM_IGNORED :: ck_ulong where "CK_OTP_PARAM_IGNORED \<equiv> 0x0"
abbreviation (input) CKF_GENERATE :: ck_flags where "CKF_GENERATE \<equiv> 0x8000"
abbreviation (input) CKP_PKCS5_PBKD2_HMAC_SHA1 :: ck_ulong where "CKP_PKCS5_PBKD2_HMAC_SHA1 \<equiv> 0x1"
abbreviation (input) CKP_PKCS5_PBKD2_HMAC_SHA256 :: ck_ulong where "CKP_PKCS5_PBKD2_HMAC_SHA256 \<equiv> 0x4"
abbreviation (input) CKK_AES :: ck_ulong where "CKK_AES \<equiv> 0x1F"
abbreviation (input) CKR_TOKEN_NOT_RECOGNIZED :: ck_rv where "CKR_TOKEN_NOT_RECOGNIZED \<equiv> 0xE1"
abbreviation (input) CKR_SESSION_PARALLEL_NOT_SUPPORTED :: ck_rv where "CKR_SESSION_PARALLEL_NOT_SUPPORTED \<equiv> 0xB4"
abbreviation (input) CKR_PIN_LEN_RANGE :: ck_rv where "CKR_PIN_LEN_RANGE \<equiv> 0xA2"
abbreviation (input) CKP_BASELINE_PROVIDER :: ck_ulong where "CKP_BASELINE_PROVIDER \<equiv> 0x1"
abbreviation (input) CKP_EXTENDED_PROVIDER :: ck_ulong where "CKP_EXTENDED_PROVIDER \<equiv> 0x2"
abbreviation (input) CKP_AUTHENTICATION_TOKEN :: ck_ulong where "CKP_AUTHENTICATION_TOKEN \<equiv> 0x3"
abbreviation (input) CKP_PUBLIC_CERTIFICATES_TOKEN :: ck_ulong where "CKP_PUBLIC_CERTIFICATES_TOKEN \<equiv> 0x4"
abbreviation (input) CKP_HKDF_TLS_TOKEN :: ck_ulong where "CKP_HKDF_TLS_TOKEN \<equiv> 0x6"
abbreviation (input) CKF_MULTI_MESSAGE :: ck_flags where "CKF_MULTI_MESSAGE \<equiv> 0x20"
abbreviation (input) CKF_END_OF_MESSAGE :: ck_flags where "CKF_END_OF_MESSAGE \<equiv> 0x1"
abbreviation (input) CKF_GENERATE_KEY_PAIR :: ck_flags where "CKF_GENERATE_KEY_PAIR \<equiv> 0x10000"
abbreviation (input) CKF_WRAP :: ck_flags where "CKF_WRAP \<equiv> 0x20000"
abbreviation (input) CKF_UNWRAP :: ck_flags where "CKF_UNWRAP \<equiv> 0x40000"
abbreviation (input) CKF_DERIVE :: ck_flags where "CKF_DERIVE \<equiv> 0x80000"
abbreviation (input) CKF_ENCAPSULATE :: ck_flags where "CKF_ENCAPSULATE \<equiv> 0x10000000"
abbreviation (input) CKF_DECAPSULATE :: ck_flags where "CKF_DECAPSULATE \<equiv> 0x20000000"
abbreviation (input) CKR_SIGNATURE_LEN_RANGE :: ck_rv where "CKR_SIGNATURE_LEN_RANGE \<equiv> 0xC1"
abbreviation (input) CKR_KEY_INDIGESTIBLE :: ck_rv where "CKR_KEY_INDIGESTIBLE \<equiv> 0x67"
abbreviation (input) CKR_WRAPPING_KEY_HANDLE_INVALID :: ck_rv where "CKR_WRAPPING_KEY_HANDLE_INVALID \<equiv> 0x113"
abbreviation (input) CKM_PUB_KEY_FROM_PRIV_KEY :: ck_ulong where "CKM_PUB_KEY_FROM_PRIV_KEY \<equiv> 0x403A"
abbreviation (input) CKM_HKDF_DERIVE :: ck_ulong where "CKM_HKDF_DERIVE \<equiv> 0x402A"
abbreviation (input) CKM_HKDF_DATA :: ck_ulong where "CKM_HKDF_DATA \<equiv> 0x402B"
abbreviation (input) CKF_HKDF_SALT_DATA :: ck_flags where "CKF_HKDF_SALT_DATA \<equiv> 0x2"
abbreviation (input) CKF_HKDF_SALT_KEY :: ck_flags where "CKF_HKDF_SALT_KEY \<equiv> 0x4"
abbreviation (input) CKM_SP800_108_COUNTER_KDF :: ck_ulong where "CKM_SP800_108_COUNTER_KDF \<equiv> 0x3AC"
abbreviation (input) CKM_SP800_108_FEEDBACK_KDF :: ck_ulong where "CKM_SP800_108_FEEDBACK_KDF \<equiv> 0x3AD"
abbreviation (input) CKM_SP800_108_DOUBLE_PIPELINE_KDF :: ck_ulong where "CKM_SP800_108_DOUBLE_PIPELINE_KDF \<equiv> 0x3AE"
abbreviation (input) CKM_TLS12_KEY_AND_MAC_DERIVE :: ck_ulong where "CKM_TLS12_KEY_AND_MAC_DERIVE \<equiv> 0x3E1"
abbreviation (input) CKM_TLS12_KEY_SAFE_DERIVE :: ck_ulong where "CKM_TLS12_KEY_SAFE_DERIVE \<equiv> 0x3E3"
abbreviation (input) CKR_KEY_HANDLE_INVALID :: ck_rv where "CKR_KEY_HANDLE_INVALID \<equiv> 0x60"
abbreviation (input) CKR_FUNCTION_NOT_PARALLEL :: ck_rv where "CKR_FUNCTION_NOT_PARALLEL \<equiv> 0x51"
abbreviation (input) CKR_RANDOM_SEED_NOT_SUPPORTED :: ck_rv where "CKR_RANDOM_SEED_NOT_SUPPORTED \<equiv> 0x120"
abbreviation (input) CKR_NO_EVENT :: ck_rv where "CKR_NO_EVENT \<equiv> 0x8"
abbreviation (input) CKM_SHA_1 :: ck_ulong where "CKM_SHA_1 \<equiv> 0x220"
abbreviation (input) CKM_SHA_1_HMAC :: ck_ulong where "CKM_SHA_1_HMAC \<equiv> 0x221"
abbreviation (input) CKM_SHA_1_HMAC_GENERAL :: ck_ulong where "CKM_SHA_1_HMAC_GENERAL \<equiv> 0x222"
abbreviation (input) CKK_SHA_1_HMAC :: ck_ulong where "CKK_SHA_1_HMAC \<equiv> 0x28"
abbreviation (input) CKM_SHA_1_KEY_GEN :: ck_ulong where "CKM_SHA_1_KEY_GEN \<equiv> 0x4003"
abbreviation (input) CKM_SHA1_KEY_DERIVATION :: ck_ulong where "CKM_SHA1_KEY_DERIVATION \<equiv> 0x392"
abbreviation (input) CKM_SHA224 :: ck_ulong where "CKM_SHA224 \<equiv> 0x255"
abbreviation (input) CKM_SHA224_HMAC :: ck_ulong where "CKM_SHA224_HMAC \<equiv> 0x256"
abbreviation (input) CKM_SHA224_HMAC_GENERAL :: ck_ulong where "CKM_SHA224_HMAC_GENERAL \<equiv> 0x257"
abbreviation (input) CKK_SHA224_HMAC :: ck_ulong where "CKK_SHA224_HMAC \<equiv> 0x2E"
abbreviation (input) CKM_SHA224_KEY_GEN :: ck_ulong where "CKM_SHA224_KEY_GEN \<equiv> 0x4004"
abbreviation (input) CKM_SHA224_KEY_DERIVATION :: ck_ulong where "CKM_SHA224_KEY_DERIVATION \<equiv> 0x396"
abbreviation (input) CKM_SHA256 :: ck_ulong where "CKM_SHA256 \<equiv> 0x250"
abbreviation (input) CKM_SHA256_HMAC :: ck_ulong where "CKM_SHA256_HMAC \<equiv> 0x251"
abbreviation (input) CKM_SHA256_HMAC_GENERAL :: ck_ulong where "CKM_SHA256_HMAC_GENERAL \<equiv> 0x252"
abbreviation (input) CKK_SHA256_HMAC :: ck_ulong where "CKK_SHA256_HMAC \<equiv> 0x2B"
abbreviation (input) CKM_SHA256_KEY_GEN :: ck_ulong where "CKM_SHA256_KEY_GEN \<equiv> 0x4005"
abbreviation (input) CKM_SHA256_KEY_DERIVATION :: ck_ulong where "CKM_SHA256_KEY_DERIVATION \<equiv> 0x393"
abbreviation (input) CKM_SHA384 :: ck_ulong where "CKM_SHA384 \<equiv> 0x260"
abbreviation (input) CKM_SHA384_HMAC :: ck_ulong where "CKM_SHA384_HMAC \<equiv> 0x261"
abbreviation (input) CKM_SHA384_HMAC_GENERAL :: ck_ulong where "CKM_SHA384_HMAC_GENERAL \<equiv> 0x262"
abbreviation (input) CKK_SHA384_HMAC :: ck_ulong where "CKK_SHA384_HMAC \<equiv> 0x2C"
abbreviation (input) CKM_SHA384_KEY_GEN :: ck_ulong where "CKM_SHA384_KEY_GEN \<equiv> 0x4006"
abbreviation (input) CKM_SHA384_KEY_DERIVATION :: ck_ulong where "CKM_SHA384_KEY_DERIVATION \<equiv> 0x394"
abbreviation (input) CKM_SHA512 :: ck_ulong where "CKM_SHA512 \<equiv> 0x270"
abbreviation (input) CKM_SHA512_HMAC :: ck_ulong where "CKM_SHA512_HMAC \<equiv> 0x271"
abbreviation (input) CKM_SHA512_HMAC_GENERAL :: ck_ulong where "CKM_SHA512_HMAC_GENERAL \<equiv> 0x272"
abbreviation (input) CKK_SHA512_HMAC :: ck_ulong where "CKK_SHA512_HMAC \<equiv> 0x2D"
abbreviation (input) CKM_SHA512_KEY_GEN :: ck_ulong where "CKM_SHA512_KEY_GEN \<equiv> 0x4007"
abbreviation (input) CKM_SHA512_KEY_DERIVATION :: ck_ulong where "CKM_SHA512_KEY_DERIVATION \<equiv> 0x395"
abbreviation (input) CKM_SHA3_224 :: ck_ulong where "CKM_SHA3_224 \<equiv> 0x2B5"
abbreviation (input) CKM_SHA3_224_HMAC :: ck_ulong where "CKM_SHA3_224_HMAC \<equiv> 0x2B6"
abbreviation (input) CKM_SHA3_224_HMAC_GENERAL :: ck_ulong where "CKM_SHA3_224_HMAC_GENERAL \<equiv> 0x2B7"
abbreviation (input) CKK_SHA3_224_HMAC :: ck_ulong where "CKK_SHA3_224_HMAC \<equiv> 0x36"
abbreviation (input) CKM_SHA3_224_KEY_GEN :: ck_ulong where "CKM_SHA3_224_KEY_GEN \<equiv> 0x2B8"
abbreviation (input) CKM_SHA3_224_KEY_DERIVATION :: ck_ulong where "CKM_SHA3_224_KEY_DERIVATION \<equiv> 0x398"
abbreviation (input) CKM_SHA3_256 :: ck_ulong where "CKM_SHA3_256 \<equiv> 0x2B0"
abbreviation (input) CKM_SHA3_256_HMAC :: ck_ulong where "CKM_SHA3_256_HMAC \<equiv> 0x2B1"
abbreviation (input) CKM_SHA3_256_HMAC_GENERAL :: ck_ulong where "CKM_SHA3_256_HMAC_GENERAL \<equiv> 0x2B2"
abbreviation (input) CKK_SHA3_256_HMAC :: ck_ulong where "CKK_SHA3_256_HMAC \<equiv> 0x37"
abbreviation (input) CKM_SHA3_256_KEY_GEN :: ck_ulong where "CKM_SHA3_256_KEY_GEN \<equiv> 0x2B3"
abbreviation (input) CKM_SHA3_256_KEY_DERIVATION :: ck_ulong where "CKM_SHA3_256_KEY_DERIVATION \<equiv> 0x397"
abbreviation (input) CKM_SHA3_384 :: ck_ulong where "CKM_SHA3_384 \<equiv> 0x2C0"
abbreviation (input) CKM_SHA3_384_HMAC :: ck_ulong where "CKM_SHA3_384_HMAC \<equiv> 0x2C1"
abbreviation (input) CKM_SHA3_384_HMAC_GENERAL :: ck_ulong where "CKM_SHA3_384_HMAC_GENERAL \<equiv> 0x2C2"
abbreviation (input) CKK_SHA3_384_HMAC :: ck_ulong where "CKK_SHA3_384_HMAC \<equiv> 0x38"
abbreviation (input) CKM_SHA3_384_KEY_GEN :: ck_ulong where "CKM_SHA3_384_KEY_GEN \<equiv> 0x2C3"
abbreviation (input) CKM_SHA3_384_KEY_DERIVATION :: ck_ulong where "CKM_SHA3_384_KEY_DERIVATION \<equiv> 0x399"
abbreviation (input) CKM_SHA3_512 :: ck_ulong where "CKM_SHA3_512 \<equiv> 0x2D0"
abbreviation (input) CKM_SHA3_512_HMAC :: ck_ulong where "CKM_SHA3_512_HMAC \<equiv> 0x2D1"
abbreviation (input) CKM_SHA3_512_HMAC_GENERAL :: ck_ulong where "CKM_SHA3_512_HMAC_GENERAL \<equiv> 0x2D2"
abbreviation (input) CKK_SHA3_512_HMAC :: ck_ulong where "CKK_SHA3_512_HMAC \<equiv> 0x39"
abbreviation (input) CKM_SHA3_512_KEY_GEN :: ck_ulong where "CKM_SHA3_512_KEY_GEN \<equiv> 0x2D3"
abbreviation (input) CKM_SHA3_512_KEY_DERIVATION :: ck_ulong where "CKM_SHA3_512_KEY_DERIVATION \<equiv> 0x39A"
abbreviation (input) CKM_SHA512_224 :: ck_ulong where "CKM_SHA512_224 \<equiv> 0x48"
abbreviation (input) CKM_SHA512_224_HMAC :: ck_ulong where "CKM_SHA512_224_HMAC \<equiv> 0x49"
abbreviation (input) CKM_SHA512_224_HMAC_GENERAL :: ck_ulong where "CKM_SHA512_224_HMAC_GENERAL \<equiv> 0x4A"
abbreviation (input) CKK_SHA512_224_HMAC :: ck_ulong where "CKK_SHA512_224_HMAC \<equiv> 0x43"
abbreviation (input) CKM_SHA512_224_KEY_GEN :: ck_ulong where "CKM_SHA512_224_KEY_GEN \<equiv> 0x4008"
abbreviation (input) CKM_SHA512_224_KEY_DERIVATION :: ck_ulong where "CKM_SHA512_224_KEY_DERIVATION \<equiv> 0x4B"
abbreviation (input) CKM_SHA512_256 :: ck_ulong where "CKM_SHA512_256 \<equiv> 0x4C"
abbreviation (input) CKM_SHA512_256_HMAC :: ck_ulong where "CKM_SHA512_256_HMAC \<equiv> 0x4D"
abbreviation (input) CKM_SHA512_256_HMAC_GENERAL :: ck_ulong where "CKM_SHA512_256_HMAC_GENERAL \<equiv> 0x4E"
abbreviation (input) CKK_SHA512_256_HMAC :: ck_ulong where "CKK_SHA512_256_HMAC \<equiv> 0x44"
abbreviation (input) CKM_SHA512_256_KEY_GEN :: ck_ulong where "CKM_SHA512_256_KEY_GEN \<equiv> 0x4009"
abbreviation (input) CKM_SHA512_256_KEY_DERIVATION :: ck_ulong where "CKM_SHA512_256_KEY_DERIVATION \<equiv> 0x4F"
abbreviation (input) CKM_CONCATENATE_BASE_AND_KEY :: ck_ulong where "CKM_CONCATENATE_BASE_AND_KEY \<equiv> 0x360"
abbreviation (input) CKM_CONCATENATE_BASE_AND_DATA :: ck_ulong where "CKM_CONCATENATE_BASE_AND_DATA \<equiv> 0x362"
abbreviation (input) CKM_CONCATENATE_DATA_AND_BASE :: ck_ulong where "CKM_CONCATENATE_DATA_AND_BASE \<equiv> 0x363"
abbreviation (input) CKM_XOR_BASE_AND_DATA :: ck_ulong where "CKM_XOR_BASE_AND_DATA \<equiv> 0x364"
abbreviation (input) CKM_EXTRACT_KEY_FROM_KEY :: ck_ulong where "CKM_EXTRACT_KEY_FROM_KEY \<equiv> 0x365"
abbreviation (input) CK_SP800_108_ITERATION_VARIABLE :: ck_ulong where "CK_SP800_108_ITERATION_VARIABLE \<equiv> 0x1"
abbreviation (input) CK_SP800_108_COUNTER :: ck_ulong where "CK_SP800_108_COUNTER \<equiv> 0x2"
abbreviation (input) CK_SP800_108_DKM_LENGTH :: ck_ulong where "CK_SP800_108_DKM_LENGTH \<equiv> 0x3"
abbreviation (input) CK_SP800_108_BYTE_ARRAY :: ck_ulong where "CK_SP800_108_BYTE_ARRAY \<equiv> 0x4"
abbreviation (input) CK_SP800_108_KEY_HANDLE :: ck_ulong where "CK_SP800_108_KEY_HANDLE \<equiv> 0x5"
abbreviation (input) CK_SP800_108_DKM_LENGTH_SUM_OF_KEYS :: ck_ulong where "CK_SP800_108_DKM_LENGTH_SUM_OF_KEYS \<equiv> 0x1"
abbreviation (input) CK_SP800_108_DKM_LENGTH_SUM_OF_SEGMENTS :: ck_ulong where "CK_SP800_108_DKM_LENGTH_SUM_OF_SEGMENTS \<equiv> 0x2"
abbreviation (input) CKR_KEY_SIZE_RANGE :: ck_rv where "CKR_KEY_SIZE_RANGE \<equiv> 0x62"
abbreviation (input) CKR_SIGNATURE_INVALID :: ck_rv where "CKR_SIGNATURE_INVALID \<equiv> 0xC0"
abbreviation (input) CKF_EC_COMPRESS :: ck_flags where "CKF_EC_COMPRESS \<equiv> 0x2000000"
abbreviation (input) CKF_EC_CURVENAME :: ck_flags where "CKF_EC_CURVENAME \<equiv> 0x4000000"
abbreviation (input) CKF_EC_F_P :: ck_flags where "CKF_EC_F_P \<equiv> 0x100000"
abbreviation (input) CKF_EC_OID :: ck_flags where "CKF_EC_OID \<equiv> 0x800000"
abbreviation (input) CKF_EC_UNCOMPRESS :: ck_flags where "CKF_EC_UNCOMPRESS \<equiv> 0x1000000"
abbreviation (input) CKF_USER_FRIENDLY_OTP :: ck_flags where "CKF_USER_FRIENDLY_OTP \<equiv> 0x20"
abbreviation (input) CKG_GENERATE :: ck_ulong where "CKG_GENERATE \<equiv> 0x1"
abbreviation (input) CKG_GENERATE_COUNTER :: ck_ulong where "CKG_GENERATE_COUNTER \<equiv> 0x2"
abbreviation (input) CKG_GENERATE_COUNTER_XOR :: ck_ulong where "CKG_GENERATE_COUNTER_XOR \<equiv> 0x4"
abbreviation (input) CKG_GENERATE_RANDOM :: ck_ulong where "CKG_GENERATE_RANDOM \<equiv> 0x3"
abbreviation (input) CKG_MGF1_SHA1 :: ck_ulong where "CKG_MGF1_SHA1 \<equiv> 0x1"
abbreviation (input) CKG_MGF1_SHA224 :: ck_ulong where "CKG_MGF1_SHA224 \<equiv> 0x5"
abbreviation (input) CKG_MGF1_SHA256 :: ck_ulong where "CKG_MGF1_SHA256 \<equiv> 0x2"
abbreviation (input) CKG_MGF1_SHA384 :: ck_ulong where "CKG_MGF1_SHA384 \<equiv> 0x3"
abbreviation (input) CKG_MGF1_SHA3_224 :: ck_ulong where "CKG_MGF1_SHA3_224 \<equiv> 0x6"
abbreviation (input) CKG_MGF1_SHA3_256 :: ck_ulong where "CKG_MGF1_SHA3_256 \<equiv> 0x7"
abbreviation (input) CKG_MGF1_SHA3_384 :: ck_ulong where "CKG_MGF1_SHA3_384 \<equiv> 0x8"
abbreviation (input) CKG_MGF1_SHA3_512 :: ck_ulong where "CKG_MGF1_SHA3_512 \<equiv> 0x9"
abbreviation (input) CKG_MGF1_SHA512 :: ck_ulong where "CKG_MGF1_SHA512 \<equiv> 0x4"
abbreviation (input) CKG_NO_GENERATE :: ck_ulong where "CKG_NO_GENERATE \<equiv> 0x0"
abbreviation (input) CKK_CHACHA20 :: ck_ulong where "CKK_CHACHA20 \<equiv> 0x33"
abbreviation (input) CKK_DH :: ck_ulong where "CKK_DH \<equiv> 0x2"
abbreviation (input) CKK_EC :: ck_ulong where "CKK_EC \<equiv> 0x3"
abbreviation (input) CKK_EC_EDWARDS :: ck_ulong where "CKK_EC_EDWARDS \<equiv> 0x40"
abbreviation (input) CKK_EC_MONTGOMERY :: ck_ulong where "CKK_EC_MONTGOMERY \<equiv> 0x41"
abbreviation (input) CKK_HKDF :: ck_ulong where "CKK_HKDF \<equiv> 0x42"
abbreviation (input) CKK_HOTP :: ck_ulong where "CKK_HOTP \<equiv> 0x23"
abbreviation (input) CKK_ML_DSA :: ck_ulong where "CKK_ML_DSA \<equiv> 0x4A"
abbreviation (input) CKK_ML_KEM :: ck_ulong where "CKK_ML_KEM \<equiv> 0x49"
abbreviation (input) CKK_RSA :: ck_ulong where "CKK_RSA \<equiv> 0x0"
abbreviation (input) CKK_SLH_DSA :: ck_ulong where "CKK_SLH_DSA \<equiv> 0x4B"
abbreviation (input) CKM_AES_CBC :: ck_ulong where "CKM_AES_CBC \<equiv> 0x1082"
abbreviation (input) CKM_AES_CBC_ENCRYPT_DATA :: ck_ulong where "CKM_AES_CBC_ENCRYPT_DATA \<equiv> 0x1105"
abbreviation (input) CKM_AES_CBC_PAD :: ck_ulong where "CKM_AES_CBC_PAD \<equiv> 0x1085"
abbreviation (input) CKM_AES_CCM :: ck_ulong where "CKM_AES_CCM \<equiv> 0x1088"
abbreviation (input) CKM_AES_CFB1 :: ck_ulong where "CKM_AES_CFB1 \<equiv> 0x2108"
abbreviation (input) CKM_AES_CFB128 :: ck_ulong where "CKM_AES_CFB128 \<equiv> 0x2107"
abbreviation (input) CKM_AES_CFB8 :: ck_ulong where "CKM_AES_CFB8 \<equiv> 0x2106"
abbreviation (input) CKM_AES_CMAC :: ck_ulong where "CKM_AES_CMAC \<equiv> 0x108A"
abbreviation (input) CKM_AES_CMAC_GENERAL :: ck_ulong where "CKM_AES_CMAC_GENERAL \<equiv> 0x108B"
abbreviation (input) CKM_AES_CTR :: ck_ulong where "CKM_AES_CTR \<equiv> 0x1086"
abbreviation (input) CKM_AES_CTS :: ck_ulong where "CKM_AES_CTS \<equiv> 0x1089"
abbreviation (input) CKM_AES_ECB :: ck_ulong where "CKM_AES_ECB \<equiv> 0x1081"
abbreviation (input) CKM_AES_ECB_ENCRYPT_DATA :: ck_ulong where "CKM_AES_ECB_ENCRYPT_DATA \<equiv> 0x1104"
abbreviation (input) CKM_AES_GCM :: ck_ulong where "CKM_AES_GCM \<equiv> 0x1087"
abbreviation (input) CKM_AES_KEY_GEN :: ck_ulong where "CKM_AES_KEY_GEN \<equiv> 0x1080"
abbreviation (input) CKM_AES_KEY_WRAP :: ck_ulong where "CKM_AES_KEY_WRAP \<equiv> 0x2109"
abbreviation (input) CKM_AES_KEY_WRAP_KWP :: ck_ulong where "CKM_AES_KEY_WRAP_KWP \<equiv> 0x210B"
abbreviation (input) CKM_AES_KEY_WRAP_PKCS7 :: ck_ulong where "CKM_AES_KEY_WRAP_PKCS7 \<equiv> 0x210C"
abbreviation (input) CKM_AES_MAC :: ck_ulong where "CKM_AES_MAC \<equiv> 0x1083"
abbreviation (input) CKM_AES_MAC_GENERAL :: ck_ulong where "CKM_AES_MAC_GENERAL \<equiv> 0x1084"
abbreviation (input) CKM_AES_OFB :: ck_ulong where "CKM_AES_OFB \<equiv> 0x2104"
abbreviation (input) CKM_CHACHA20 :: ck_ulong where "CKM_CHACHA20 \<equiv> 0x1226"
abbreviation (input) CKM_CHACHA20_KEY_GEN :: ck_ulong where "CKM_CHACHA20_KEY_GEN \<equiv> 0x1225"
abbreviation (input) CKM_CHACHA20_POLY1305 :: ck_ulong where "CKM_CHACHA20_POLY1305 \<equiv> 0x4021"
abbreviation (input) CKM_DH_PKCS_DERIVE :: ck_ulong where "CKM_DH_PKCS_DERIVE \<equiv> 0x21"
abbreviation (input) CKM_DH_PKCS_KEY_PAIR_GEN :: ck_ulong where "CKM_DH_PKCS_KEY_PAIR_GEN \<equiv> 0x20"
abbreviation (input) CKM_ECDH1_COFACTOR_DERIVE :: ck_ulong where "CKM_ECDH1_COFACTOR_DERIVE \<equiv> 0x1051"
abbreviation (input) CKM_ECDH1_DERIVE :: ck_ulong where "CKM_ECDH1_DERIVE \<equiv> 0x1050"
abbreviation (input) CKM_ECDSA :: ck_ulong where "CKM_ECDSA \<equiv> 0x1041"
abbreviation (input) CKM_ECDSA_SHA1 :: ck_ulong where "CKM_ECDSA_SHA1 \<equiv> 0x1042"
abbreviation (input) CKM_ECDSA_SHA224 :: ck_ulong where "CKM_ECDSA_SHA224 \<equiv> 0x1043"
abbreviation (input) CKM_ECDSA_SHA256 :: ck_ulong where "CKM_ECDSA_SHA256 \<equiv> 0x1044"
abbreviation (input) CKM_ECDSA_SHA384 :: ck_ulong where "CKM_ECDSA_SHA384 \<equiv> 0x1045"
abbreviation (input) CKM_ECDSA_SHA3_224 :: ck_ulong where "CKM_ECDSA_SHA3_224 \<equiv> 0x1047"
abbreviation (input) CKM_ECDSA_SHA3_256 :: ck_ulong where "CKM_ECDSA_SHA3_256 \<equiv> 0x1048"
abbreviation (input) CKM_ECDSA_SHA3_384 :: ck_ulong where "CKM_ECDSA_SHA3_384 \<equiv> 0x1049"
abbreviation (input) CKM_ECDSA_SHA3_512 :: ck_ulong where "CKM_ECDSA_SHA3_512 \<equiv> 0x104A"
abbreviation (input) CKM_ECDSA_SHA512 :: ck_ulong where "CKM_ECDSA_SHA512 \<equiv> 0x1046"
abbreviation (input) CKM_EC_EDWARDS_KEY_PAIR_GEN :: ck_ulong where "CKM_EC_EDWARDS_KEY_PAIR_GEN \<equiv> 0x1055"
abbreviation (input) CKM_EC_KEY_PAIR_GEN :: ck_ulong where "CKM_EC_KEY_PAIR_GEN \<equiv> 0x1040"
abbreviation (input) CKM_EC_MONTGOMERY_KEY_PAIR_GEN :: ck_ulong where "CKM_EC_MONTGOMERY_KEY_PAIR_GEN \<equiv> 0x1056"
abbreviation (input) CKM_EDDSA :: ck_ulong where "CKM_EDDSA \<equiv> 0x1057"
abbreviation (input) CKM_HASH_ML_DSA :: ck_ulong where "CKM_HASH_ML_DSA \<equiv> 0x1F"
abbreviation (input) CKM_HASH_ML_DSA_SHA224 :: ck_ulong where "CKM_HASH_ML_DSA_SHA224 \<equiv> 0x23"
abbreviation (input) CKM_HASH_ML_DSA_SHA256 :: ck_ulong where "CKM_HASH_ML_DSA_SHA256 \<equiv> 0x24"
abbreviation (input) CKM_HASH_ML_DSA_SHA384 :: ck_ulong where "CKM_HASH_ML_DSA_SHA384 \<equiv> 0x25"
abbreviation (input) CKM_HASH_ML_DSA_SHA3_224 :: ck_ulong where "CKM_HASH_ML_DSA_SHA3_224 \<equiv> 0x27"
abbreviation (input) CKM_HASH_ML_DSA_SHA3_256 :: ck_ulong where "CKM_HASH_ML_DSA_SHA3_256 \<equiv> 0x28"
abbreviation (input) CKM_HASH_ML_DSA_SHA3_384 :: ck_ulong where "CKM_HASH_ML_DSA_SHA3_384 \<equiv> 0x29"
abbreviation (input) CKM_HASH_ML_DSA_SHA3_512 :: ck_ulong where "CKM_HASH_ML_DSA_SHA3_512 \<equiv> 0x2A"
abbreviation (input) CKM_HASH_ML_DSA_SHA512 :: ck_ulong where "CKM_HASH_ML_DSA_SHA512 \<equiv> 0x26"
abbreviation (input) CKM_HASH_SLH_DSA :: ck_ulong where "CKM_HASH_SLH_DSA \<equiv> 0x34"
abbreviation (input) CKM_HASH_SLH_DSA_SHA224 :: ck_ulong where "CKM_HASH_SLH_DSA_SHA224 \<equiv> 0x36"
abbreviation (input) CKM_HASH_SLH_DSA_SHA256 :: ck_ulong where "CKM_HASH_SLH_DSA_SHA256 \<equiv> 0x37"
abbreviation (input) CKM_HASH_SLH_DSA_SHA384 :: ck_ulong where "CKM_HASH_SLH_DSA_SHA384 \<equiv> 0x38"
abbreviation (input) CKM_HASH_SLH_DSA_SHA3_224 :: ck_ulong where "CKM_HASH_SLH_DSA_SHA3_224 \<equiv> 0x3A"
abbreviation (input) CKM_HASH_SLH_DSA_SHA3_256 :: ck_ulong where "CKM_HASH_SLH_DSA_SHA3_256 \<equiv> 0x3B"
abbreviation (input) CKM_HASH_SLH_DSA_SHA3_384 :: ck_ulong where "CKM_HASH_SLH_DSA_SHA3_384 \<equiv> 0x3C"
abbreviation (input) CKM_HASH_SLH_DSA_SHA3_512 :: ck_ulong where "CKM_HASH_SLH_DSA_SHA3_512 \<equiv> 0x3D"
abbreviation (input) CKM_HASH_SLH_DSA_SHA512 :: ck_ulong where "CKM_HASH_SLH_DSA_SHA512 \<equiv> 0x39"
abbreviation (input) CKM_HASH_SLH_DSA_SHAKE128 :: ck_ulong where "CKM_HASH_SLH_DSA_SHAKE128 \<equiv> 0x3E"
abbreviation (input) CKM_HASH_SLH_DSA_SHAKE256 :: ck_ulong where "CKM_HASH_SLH_DSA_SHAKE256 \<equiv> 0x3F"
abbreviation (input) CKM_HKDF_KEY_GEN :: ck_ulong where "CKM_HKDF_KEY_GEN \<equiv> 0x402C"
abbreviation (input) CKM_HOTP :: ck_ulong where "CKM_HOTP \<equiv> 0x291"
abbreviation (input) CKM_HOTP_KEY_GEN :: ck_ulong where "CKM_HOTP_KEY_GEN \<equiv> 0x290"
abbreviation (input) CKM_IKE1_EXTENDED_DERIVE :: ck_ulong where "CKM_IKE1_EXTENDED_DERIVE \<equiv> 0x4031"
abbreviation (input) CKM_IKE1_PRF_DERIVE :: ck_ulong where "CKM_IKE1_PRF_DERIVE \<equiv> 0x4030"
abbreviation (input) CKM_IKE2_PRF_PLUS_DERIVE :: ck_ulong where "CKM_IKE2_PRF_PLUS_DERIVE \<equiv> 0x402E"
abbreviation (input) CKM_IKE_PRF_DERIVE :: ck_ulong where "CKM_IKE_PRF_DERIVE \<equiv> 0x402F"
abbreviation (input) CKM_ML_DSA :: ck_ulong where "CKM_ML_DSA \<equiv> 0x1D"
abbreviation (input) CKM_ML_DSA_KEY_PAIR_GEN :: ck_ulong where "CKM_ML_DSA_KEY_PAIR_GEN \<equiv> 0x1C"
abbreviation (input) CKM_ML_KEM :: ck_ulong where "CKM_ML_KEM \<equiv> 0x17"
abbreviation (input) CKM_ML_KEM_KEY_PAIR_GEN :: ck_ulong where "CKM_ML_KEM_KEY_PAIR_GEN \<equiv> 0xF"
abbreviation (input) CKM_PKCS5_PBKD2 :: ck_ulong where "CKM_PKCS5_PBKD2 \<equiv> 0x3B0"
abbreviation (input) CKM_RSA_PKCS :: ck_ulong where "CKM_RSA_PKCS \<equiv> 0x1"
abbreviation (input) CKM_RSA_PKCS_KEY_PAIR_GEN :: ck_ulong where "CKM_RSA_PKCS_KEY_PAIR_GEN \<equiv> 0x0"
abbreviation (input) CKM_RSA_PKCS_OAEP :: ck_ulong where "CKM_RSA_PKCS_OAEP \<equiv> 0x9"
abbreviation (input) CKM_RSA_PKCS_PSS :: ck_ulong where "CKM_RSA_PKCS_PSS \<equiv> 0xD"
abbreviation (input) CKM_RSA_X_509 :: ck_ulong where "CKM_RSA_X_509 \<equiv> 0x3"
abbreviation (input) CKM_SHA1_RSA_PKCS :: ck_ulong where "CKM_SHA1_RSA_PKCS \<equiv> 0x6"
abbreviation (input) CKM_SHA1_RSA_PKCS_PSS :: ck_ulong where "CKM_SHA1_RSA_PKCS_PSS \<equiv> 0xE"
abbreviation (input) CKM_SHA224_RSA_PKCS :: ck_ulong where "CKM_SHA224_RSA_PKCS \<equiv> 0x46"
abbreviation (input) CKM_SHA224_RSA_PKCS_PSS :: ck_ulong where "CKM_SHA224_RSA_PKCS_PSS \<equiv> 0x47"
abbreviation (input) CKM_SHA256_RSA_PKCS :: ck_ulong where "CKM_SHA256_RSA_PKCS \<equiv> 0x40"
abbreviation (input) CKM_SHA256_RSA_PKCS_PSS :: ck_ulong where "CKM_SHA256_RSA_PKCS_PSS \<equiv> 0x43"
abbreviation (input) CKM_SHA384_RSA_PKCS :: ck_ulong where "CKM_SHA384_RSA_PKCS \<equiv> 0x41"
abbreviation (input) CKM_SHA384_RSA_PKCS_PSS :: ck_ulong where "CKM_SHA384_RSA_PKCS_PSS \<equiv> 0x44"
abbreviation (input) CKM_SHA3_224_RSA_PKCS :: ck_ulong where "CKM_SHA3_224_RSA_PKCS \<equiv> 0x66"
abbreviation (input) CKM_SHA3_224_RSA_PKCS_PSS :: ck_ulong where "CKM_SHA3_224_RSA_PKCS_PSS \<equiv> 0x67"
abbreviation (input) CKM_SHA3_256_RSA_PKCS :: ck_ulong where "CKM_SHA3_256_RSA_PKCS \<equiv> 0x60"
abbreviation (input) CKM_SHA3_256_RSA_PKCS_PSS :: ck_ulong where "CKM_SHA3_256_RSA_PKCS_PSS \<equiv> 0x63"
abbreviation (input) CKM_SHA3_384_RSA_PKCS :: ck_ulong where "CKM_SHA3_384_RSA_PKCS \<equiv> 0x61"
abbreviation (input) CKM_SHA3_384_RSA_PKCS_PSS :: ck_ulong where "CKM_SHA3_384_RSA_PKCS_PSS \<equiv> 0x64"
abbreviation (input) CKM_SHA3_512_RSA_PKCS :: ck_ulong where "CKM_SHA3_512_RSA_PKCS \<equiv> 0x62"
abbreviation (input) CKM_SHA3_512_RSA_PKCS_PSS :: ck_ulong where "CKM_SHA3_512_RSA_PKCS_PSS \<equiv> 0x65"
abbreviation (input) CKM_SHA512_RSA_PKCS :: ck_ulong where "CKM_SHA512_RSA_PKCS \<equiv> 0x42"
abbreviation (input) CKM_SHA512_RSA_PKCS_PSS :: ck_ulong where "CKM_SHA512_RSA_PKCS_PSS \<equiv> 0x45"
abbreviation (input) CKM_SLH_DSA :: ck_ulong where "CKM_SLH_DSA \<equiv> 0x2E"
abbreviation (input) CKM_SLH_DSA_KEY_PAIR_GEN :: ck_ulong where "CKM_SLH_DSA_KEY_PAIR_GEN \<equiv> 0x2D"
abbreviation (input) CKM_TLS12_EXTENDED_MASTER_KEY_DERIVE :: ck_ulong where "CKM_TLS12_EXTENDED_MASTER_KEY_DERIVE \<equiv> 0x56"
abbreviation (input) CKM_TLS12_EXTENDED_MASTER_KEY_DERIVE_DH :: ck_ulong where "CKM_TLS12_EXTENDED_MASTER_KEY_DERIVE_DH \<equiv> 0x57"
abbreviation (input) CKM_TLS12_KDF :: ck_ulong where "CKM_TLS12_KDF \<equiv> 0x3D9"
abbreviation (input) CKM_TLS12_MAC :: ck_ulong where "CKM_TLS12_MAC \<equiv> 0x3D8"
abbreviation (input) CKM_TLS12_MASTER_KEY_DERIVE :: ck_ulong where "CKM_TLS12_MASTER_KEY_DERIVE \<equiv> 0x3E0"
abbreviation (input) CKM_TLS12_MASTER_KEY_DERIVE_DH :: ck_ulong where "CKM_TLS12_MASTER_KEY_DERIVE_DH \<equiv> 0x3E2"
abbreviation (input) CKM_TLS_KDF :: ck_ulong where "CKM_TLS_KDF \<equiv> 0x3E5"
abbreviation (input) CKM_TLS_MAC :: ck_ulong where "CKM_TLS_MAC \<equiv> 0x3E4"
abbreviation (input) CKP_ML_DSA_44 :: ck_ulong where "CKP_ML_DSA_44 \<equiv> 0x1"
abbreviation (input) CKP_ML_DSA_65 :: ck_ulong where "CKP_ML_DSA_65 \<equiv> 0x2"
abbreviation (input) CKP_ML_DSA_87 :: ck_ulong where "CKP_ML_DSA_87 \<equiv> 0x3"
abbreviation (input) CKP_ML_KEM_1024 :: ck_ulong where "CKP_ML_KEM_1024 \<equiv> 0x3"
abbreviation (input) CKP_ML_KEM_512 :: ck_ulong where "CKP_ML_KEM_512 \<equiv> 0x1"
abbreviation (input) CKP_ML_KEM_768 :: ck_ulong where "CKP_ML_KEM_768 \<equiv> 0x2"
abbreviation (input) CKP_PKCS5_PBKD2_HMAC_SHA224 :: ck_ulong where "CKP_PKCS5_PBKD2_HMAC_SHA224 \<equiv> 0x3"
abbreviation (input) CKP_PKCS5_PBKD2_HMAC_SHA384 :: ck_ulong where "CKP_PKCS5_PBKD2_HMAC_SHA384 \<equiv> 0x5"
abbreviation (input) CKP_PKCS5_PBKD2_HMAC_SHA512 :: ck_ulong where "CKP_PKCS5_PBKD2_HMAC_SHA512 \<equiv> 0x6"
abbreviation (input) CKP_PKCS5_PBKD2_HMAC_SHA512_224 :: ck_ulong where "CKP_PKCS5_PBKD2_HMAC_SHA512_224 \<equiv> 0x7"
abbreviation (input) CKP_PKCS5_PBKD2_HMAC_SHA512_256 :: ck_ulong where "CKP_PKCS5_PBKD2_HMAC_SHA512_256 \<equiv> 0x8"
abbreviation (input) CKP_SLH_DSA_SHA2_128F :: ck_ulong where "CKP_SLH_DSA_SHA2_128F \<equiv> 0x3"
abbreviation (input) CKP_SLH_DSA_SHA2_128S :: ck_ulong where "CKP_SLH_DSA_SHA2_128S \<equiv> 0x1"
abbreviation (input) CKP_SLH_DSA_SHA2_192F :: ck_ulong where "CKP_SLH_DSA_SHA2_192F \<equiv> 0x7"
abbreviation (input) CKP_SLH_DSA_SHA2_192S :: ck_ulong where "CKP_SLH_DSA_SHA2_192S \<equiv> 0x5"
abbreviation (input) CKP_SLH_DSA_SHA2_256F :: ck_ulong where "CKP_SLH_DSA_SHA2_256F \<equiv> 0xB"
abbreviation (input) CKP_SLH_DSA_SHA2_256S :: ck_ulong where "CKP_SLH_DSA_SHA2_256S \<equiv> 0x9"
abbreviation (input) CKP_SLH_DSA_SHAKE_128F :: ck_ulong where "CKP_SLH_DSA_SHAKE_128F \<equiv> 0x4"
abbreviation (input) CKP_SLH_DSA_SHAKE_128S :: ck_ulong where "CKP_SLH_DSA_SHAKE_128S \<equiv> 0x2"
abbreviation (input) CKP_SLH_DSA_SHAKE_192F :: ck_ulong where "CKP_SLH_DSA_SHAKE_192F \<equiv> 0x8"
abbreviation (input) CKP_SLH_DSA_SHAKE_192S :: ck_ulong where "CKP_SLH_DSA_SHAKE_192S \<equiv> 0x6"
abbreviation (input) CKP_SLH_DSA_SHAKE_256F :: ck_ulong where "CKP_SLH_DSA_SHAKE_256F \<equiv> 0xC"
abbreviation (input) CKP_SLH_DSA_SHAKE_256S :: ck_ulong where "CKP_SLH_DSA_SHAKE_256S \<equiv> 0xA"
abbreviation (input) CKR_CURVE_NOT_SUPPORTED :: ck_rv where "CKR_CURVE_NOT_SUPPORTED \<equiv> 0x140"
abbreviation (input) CKR_DATA_LEN_RANGE :: ck_rv where "CKR_DATA_LEN_RANGE \<equiv> 0x21"
abbreviation (input) CKR_ENCRYPTED_DATA_INVALID :: ck_rv where "CKR_ENCRYPTED_DATA_INVALID \<equiv> 0x40"
abbreviation (input) CKR_ENCRYPTED_DATA_LEN_RANGE :: ck_rv where "CKR_ENCRYPTED_DATA_LEN_RANGE \<equiv> 0x41"
abbreviation (input) CKR_FIPS_SELF_TEST_FAILED :: ck_rv where "CKR_FIPS_SELF_TEST_FAILED \<equiv> 0x1B6"
abbreviation (input) CKR_PARAMETER_SET_NOT_SUPPORTED :: ck_rv where "CKR_PARAMETER_SET_NOT_SUPPORTED \<equiv> 0x209"
abbreviation (input) CKR_WRAPPED_KEY_INVALID :: ck_rv where "CKR_WRAPPED_KEY_INVALID \<equiv> 0x110"
abbreviation (input) CKT_NOT_TRUSTED :: ck_ulong where "CKT_NOT_TRUSTED \<equiv> 0x3"
abbreviation (input) CKT_TRUST_UNKNOWN :: ck_ulong where "CKT_TRUST_UNKNOWN \<equiv> 0x0"
abbreviation (input) CKZ_DATA_SPECIFIED :: ck_ulong where "CKZ_DATA_SPECIFIED \<equiv> 0x1"
abbreviation (input) CKZ_SALT_SPECIFIED :: ck_ulong where "CKZ_SALT_SPECIFIED \<equiv> 0x1"
abbreviation (input) CK_FALSE :: u8 where "CK_FALSE \<equiv> 0x0"
abbreviation (input) CK_OTP_COUNTER :: ck_ulong where "CK_OTP_COUNTER \<equiv> 0x4"
abbreviation (input) CK_OTP_FLAGS :: ck_ulong where "CK_OTP_FLAGS \<equiv> 0x5"
abbreviation (input) CK_OTP_PARAM_MANDATORY :: ck_ulong where "CK_OTP_PARAM_MANDATORY \<equiv> 0x2"
abbreviation (input) CK_OTP_PARAM_OPTIONAL :: ck_ulong where "CK_OTP_PARAM_OPTIONAL \<equiv> 0x1"
abbreviation (input) CK_OTP_VALUE :: ck_ulong where "CK_OTP_VALUE \<equiv> 0x0"
abbreviation (input) CK_SECURITY_DOMAIN_MANUFACTURER :: ck_ulong where "CK_SECURITY_DOMAIN_MANUFACTURER \<equiv> 0x1"
abbreviation (input) CK_SECURITY_DOMAIN_OPERATOR :: ck_ulong where "CK_SECURITY_DOMAIN_OPERATOR \<equiv> 0x2"
abbreviation (input) CK_SECURITY_DOMAIN_THIRD_PARTY :: ck_ulong where "CK_SECURITY_DOMAIN_THIRD_PARTY \<equiv> 0x3"
abbreviation (input) CK_SECURITY_DOMAIN_UNSPECIFIED :: ck_ulong where "CK_SECURITY_DOMAIN_UNSPECIFIED \<equiv> 0x0"
abbreviation (input) CK_TRUE :: u8 where "CK_TRUE \<equiv> 0x1"
abbreviation (input) KRM_SSHKDF_DERIVE :: ck_ulong where "KRM_SSHKDF_DERIVE \<equiv> 0x8007678C"

end
