(* ===== verification/Attributes.thy ===== *)
theory Attributes
  imports Pkcs11
begin

text \<open>
  \<^verbatim>\<open>src/src/attribute.rs\<close> and the \<^verbatim>\<open>CK_ATTRIBUTE\<close> accessors of \<^verbatim>\<open>src/src/pkcs11/mod.rs\<close>: the
  table of known attributes and its binary search, attributes passed over the FFI
  (\<open>ck_attribute\<close>), typed attributes (\<open>attribute\<close>), the conversions between them, the
  canonical serialization of template attributes, and the \<^verbatim>\<open>CkAttrs\<close> arrays.
\<close>

section \<open>The attribute table\<close>

datatype attr_type =
    BoolType
  | NumType
  | StringType
  | BytesType
  | UlongArrayType
  | DateType
  | DenyType
  | IgnoreType
  | TemplateType

record attrmap =
  am_id :: ck_ulong
  am_name :: string
  am_atype :: attr_type

definition attrmap_element :: "ck_ulong \<Rightarrow> string \<Rightarrow> attr_type \<Rightarrow> attrmap" where
  "attrmap_element i n t = \<lparr>am_id = i, am_name = n, am_atype = t\<rparr>"

lemma am_sel [simp]:
  "am_id (attrmap_element i n t) = i" "am_name (attrmap_element i n t) = n"
  "am_atype (attrmap_element i n t) = t"
  by (simp_all add: attrmap_element_def)

definition ATTRMAP :: "attrmap list" where
  "ATTRMAP =
    [
     attrmap_element CKA_CLASS ''CKA_CLASS'' NumType,
     attrmap_element CKA_TOKEN ''CKA_TOKEN'' BoolType,
     attrmap_element CKA_PRIVATE ''CKA_PRIVATE'' BoolType,
     attrmap_element CKA_LABEL ''CKA_LABEL'' StringType,
     attrmap_element CKA_UNIQUE_ID ''CKA_UNIQUE_ID'' StringType,
     attrmap_element CKA_APPLICATION ''CKA_APPLICATION'' StringType,
     attrmap_element CKA_VALUE ''CKA_VALUE'' BytesType,
     attrmap_element CKA_OBJECT_ID ''CKA_OBJECT_ID'' BytesType,
     attrmap_element CKA_CERTIFICATE_TYPE ''CKA_CERTIFICATE_TYPE'' NumType,
     attrmap_element CKA_ISSUER ''CKA_ISSUER'' BytesType,
     attrmap_element CKA_SERIAL_NUMBER ''CKA_SERIAL_NUMBER'' BytesType,
     attrmap_element CKA_AC_ISSUER ''CKA_AC_ISSUER'' BytesType,
     attrmap_element CKA_OWNER ''CKA_OWNER'' BytesType,
     attrmap_element CKA_ATTR_TYPES ''CKA_ATTR_TYPES'' BytesType,
     attrmap_element CKA_TRUSTED ''CKA_TRUSTED'' BoolType,
     attrmap_element CKA_CERTIFICATE_CATEGORY ''CKA_CERTIFICATE_CATEGORY'' NumType,
     attrmap_element CKA_JAVA_MIDP_SECURITY_DOMAIN ''CKA_JAVA_MIDP_SECURITY_DOMAIN'' NumType,
     attrmap_element CKA_URL ''CKA_URL'' StringType,
     attrmap_element CKA_HASH_OF_SUBJECT_PUBLIC_KEY ''CKA_HASH_OF_SUBJECT_PUBLIC_KEY'' BytesType,
     attrmap_element CKA_HASH_OF_ISSUER_PUBLIC_KEY ''CKA_HASH_OF_ISSUER_PUBLIC_KEY'' BytesType,
     attrmap_element CKA_NAME_HASH_ALGORITHM ''CKA_NAME_HASH_ALGORITHM'' NumType,
     attrmap_element CKA_CHECK_VALUE ''CKA_CHECK_VALUE'' IgnoreType,
     attrmap_element CKA_KEY_TYPE ''CKA_KEY_TYPE'' NumType,
     attrmap_element CKA_SUBJECT ''CKA_SUBJECT'' BytesType,
     attrmap_element CKA_ID ''CKA_ID'' BytesType,
     attrmap_element CKA_SENSITIVE ''CKA_SENSITIVE'' BoolType,
     attrmap_element CKA_ENCRYPT ''CKA_ENCRYPT'' BoolType,
     attrmap_element CKA_DECRYPT ''CKA_DECRYPT'' BoolType,
     attrmap_element CKA_WRAP ''CKA_WRAP'' BoolType,
     attrmap_element CKA_UNWRAP ''CKA_UNWRAP'' BoolType,
     attrmap_element CKA_SIGN ''CKA_SIGN'' BoolType,
     attrmap_element CKA_SIGN_RECOVER ''CKA_SIGN_RECOVER'' BoolType,
     attrmap_element CKA_VERIFY ''CKA_VERIFY'' BoolType,
     attrmap_element CKA_VERIFY_RECOVER ''CKA_VERIFY_RECOVER'' BoolType,
     attrmap_element CKA_DERIVE ''CKA_DERIVE'' BoolType,
     attrmap_element CKA_START_DATE ''CKA_START_DATE'' DateType,
     attrmap_element CKA_END_DATE ''CKA_END_DATE'' DateType,
     attrmap_element CKA_MODULUS ''CKA_MODULUS'' BytesType,
     attrmap_element CKA_MODULUS_BITS ''CKA_MODULUS_BITS'' NumType,
     attrmap_element CKA_PUBLIC_EXPONENT ''CKA_PUBLIC_EXPONENT'' BytesType,
     attrmap_element CKA_PRIVATE_EXPONENT ''CKA_PRIVATE_EXPONENT'' BytesType,
     attrmap_element CKA_PRIME_1 ''CKA_PRIME_1'' BytesType,
     attrmap_element CKA_PRIME_2 ''CKA_PRIME_2'' BytesType,
     attrmap_element CKA_EXPONENT_1 ''CKA_EXPONENT_1'' BytesType,
     attrmap_element CKA_EXPONENT_2 ''CKA_EXPONENT_2'' BytesType,
     attrmap_element CKA_COEFFICIENT ''CKA_COEFFICIENT'' BytesType,
     attrmap_element CKA_PUBLIC_KEY_INFO ''CKA_PUBLIC_KEY_INFO'' BytesType,
     attrmap_element CKA_PRIME ''CKA_PRIME'' BytesType,
     attrmap_element CKA_SUBPRIME ''CKA_SUBPRIME'' BytesType,
     attrmap_element CKA_BASE ''CKA_BASE'' BytesType,
     attrmap_element CKA_PRIME_BITS ''CKA_PRIME_BITS'' BytesType,
     attrmap_element CKA_SUBPRIME_BITS ''CKA_SUBPRIME_BITS'' NumType,
     attrmap_element CKA_VALUE_BITS ''CKA_VALUE_BITS'' NumType,
     attrmap_element CKA_VALUE_LEN ''CKA_VALUE_LEN'' NumType,
     attrmap_element CKA_EXTRACTABLE ''CKA_EXTRACTABLE'' BoolType,
     attrmap_element CKA_LOCAL ''CKA_LOCAL'' BoolType,
     attrmap_element CKA_NEVER_EXTRACTABLE ''CKA_NEVER_EXTRACTABLE'' BoolType,
     attrmap_element CKA_ALWAYS_SENSITIVE ''CKA_ALWAYS_SENSITIVE'' BoolType,
     attrmap_element CKA_KEY_GEN_MECHANISM ''CKA_KEY_GEN_MECHANISM'' NumType,
     attrmap_element CKA_MODIFIABLE ''CKA_MODIFIABLE'' BoolType,
     attrmap_element CKA_COPYABLE ''CKA_COPYABLE'' BoolType,
     attrmap_element CKA_DESTROYABLE ''CKA_DESTROYABLE'' BoolType,
     attrmap_element CKA_EC_PARAMS ''CKA_EC_PARAMS'' BytesType,
     attrmap_element CKA_EC_POINT ''CKA_EC_POINT'' BytesType,
     attrmap_element CKA_ALWAYS_AUTHENTICATE ''CKA_ALWAYS_AUTHENTICATE'' BoolType,
     attrmap_element CKA_WRAP_WITH_TRUSTED ''CKA_WRAP_WITH_TRUSTED'' BoolType,
     attrmap_element CKA_OTP_FORMAT ''CKA_OTP_FORMAT'' NumType,
     attrmap_element CKA_OTP_LENGTH ''CKA_OTP_LENGTH'' NumType,
     attrmap_element CKA_OTP_TIME_INTERVAL ''CKA_OTP_TIME_INTERVAL'' NumType,
     attrmap_element CKA_OTP_USER_FRIENDLY_MODE ''CKA_OTP_USER_FRIENDLY_MODE'' BoolType,
     attrmap_element CKA_OTP_CHALLENGE_REQUIREMENT ''CKA_OTP_CHALLENGE_REQUIREMENT'' NumType,
     attrmap_element CKA_OTP_TIME_REQUIREMENT ''CKA_OTP_TIME_REQUIREMENT'' NumType,
     attrmap_element CKA_OTP_COUNTER_REQUIREMENT ''CKA_OTP_COUNTER_REQUIREMENT'' NumType,
     attrmap_element CKA_OTP_PIN_REQUIREMENT ''CKA_OTP_PIN_REQUIREMENT'' NumType,
     attrmap_element CKA_OTP_USER_IDENTIFIER ''CKA_OTP_USER_IDENTIFIER'' StringType,
     attrmap_element CKA_OTP_SERVICE_IDENTIFIER ''CKA_OTP_SERVICE_IDENTIFIER'' StringType,
     attrmap_element CKA_OTP_SERVICE_LOGO ''CKA_OTP_SERVICE_LOGO'' BytesType,
     attrmap_element CKA_OTP_SERVICE_LOGO_TYPE ''CKA_OTP_SERVICE_LOGO_TYPE'' StringType,
     attrmap_element CKA_OTP_COUNTER ''CKA_OTP_COUNTER'' BytesType,
     attrmap_element CKA_OTP_TIME ''CKA_OTP_TIME'' StringType,
     attrmap_element CKA_GOSTR3410_PARAMS ''CKA_GOSTR3410_PARAMS'' BytesType,
     attrmap_element CKA_GOSTR3411_PARAMS ''CKA_GOSTR3411_PARAMS'' BytesType,
     attrmap_element CKA_GOST28147_PARAMS ''CKA_GOST28147_PARAMS'' BytesType,
     attrmap_element CKA_HW_FEATURE_TYPE ''CKA_HW_FEATURE_TYPE'' NumType,
     attrmap_element CKA_RESET_ON_INIT ''CKA_RESET_ON_INIT'' BoolType,
     attrmap_element CKA_HAS_RESET ''CKA_HAS_RESET'' BoolType,
     attrmap_element CKA_PIXEL_X ''CKA_PIXEL_X'' NumType,
     attrmap_element CKA_PIXEL_Y ''CKA_PIXEL_Y'' NumType,
     attrmap_element CKA_RESOLUTION ''CKA_RESOLUTION'' NumType,
     attrmap_element CKA_CHAR_ROWS ''CKA_CHAR_ROWS'' NumType,
     attrmap_element CKA_CHAR_COLUMNS ''CKA_CHAR_COLUMNS'' NumType,
     attrmap_element CKA_COLOR ''CKA_COLOR'' BoolType,
     attrmap_element CKA_BITS_PER_PIXEL ''CKA_BITS_PER_PIXEL'' NumType,
     attrmap_element CKA_CHAR_SETS ''CKA_CHAR_SETS'' StringType,
     attrmap_element CKA_ENCODING_METHODS ''CKA_ENCODING_METHODS'' StringType,
     attrmap_element CKA_MIME_TYPES ''CKA_MIME_TYPES'' StringType,
     attrmap_element CKA_MECHANISM_TYPE ''CKA_MECHANISM_TYPE'' NumType,
     attrmap_element CKA_REQUIRED_CMS_ATTRIBUTES ''CKA_REQUIRED_CMS_ATTRIBUTES'' BytesType,
     attrmap_element CKA_DEFAULT_CMS_ATTRIBUTES ''CKA_DEFAULT_CMS_ATTRIBUTES'' BytesType,
     attrmap_element CKA_SUPPORTED_CMS_ATTRIBUTES ''CKA_SUPPORTED_CMS_ATTRIBUTES'' BytesType,
     attrmap_element CKA_PROFILE_ID ''CKA_PROFILE_ID'' NumType,
     attrmap_element CKA_X2RATCHET_BAG ''CKA_X2RATCHET_BAG'' BytesType,
     attrmap_element CKA_X2RATCHET_BAGSIZE ''CKA_X2RATCHET_BAGSIZE'' NumType,
     attrmap_element CKA_X2RATCHET_BOBS1STMSG ''CKA_X2RATCHET_BOBS1STMSG'' BoolType,
     attrmap_element CKA_X2RATCHET_CKR ''CKA_X2RATCHET_CKR'' BytesType,
     attrmap_element CKA_X2RATCHET_CKS ''CKA_X2RATCHET_CKS'' BytesType,
     attrmap_element CKA_X2RATCHET_DHP ''CKA_X2RATCHET_DHP'' BytesType,
     attrmap_element CKA_X2RATCHET_DHR ''CKA_X2RATCHET_DHR'' BytesType,
     attrmap_element CKA_X2RATCHET_DHS ''CKA_X2RATCHET_DHS'' BytesType,
     attrmap_element CKA_X2RATCHET_HKR ''CKA_X2RATCHET_HKR'' BytesType,
     attrmap_element CKA_X2RATCHET_HKS ''CKA_X2RATCHET_HKS'' BytesType,
     attrmap_element CKA_X2RATCHET_ISALICE ''CKA_X2RATCHET_ISALICE'' BoolType,
     attrmap_element CKA_X2RATCHET_NHKR ''CKA_X2RATCHET_NHKR'' BytesType,
     attrmap_element CKA_X2RATCHET_NHKS ''CKA_X2RATCHET_NHKS'' BytesType,
     attrmap_element CKA_X2RATCHET_NR ''CKA_X2RATCHET_NR'' NumType,
     attrmap_element CKA_X2RATCHET_NS ''CKA_X2RATCHET_NS'' NumType,
     attrmap_element CKA_X2RATCHET_PNS ''CKA_X2RATCHET_PNS'' NumType,
     attrmap_element CKA_X2RATCHET_RK ''CKA_X2RATCHET_RK'' BytesType,
     attrmap_element CKA_HSS_LEVELS ''CKA_HSS_LEVELS'' NumType,
     attrmap_element CKA_HSS_LMS_TYPE ''CKA_HSS_LMS_TYPE'' NumType,
     attrmap_element CKA_HSS_LMOTS_TYPE ''CKA_HSS_LMOTS_TYPE'' NumType,
     attrmap_element CKA_HSS_LMS_TYPES ''CKA_HSS_LMS_TYPES'' BytesType,
     attrmap_element CKA_HSS_LMOTS_TYPES ''CKA_HSS_LMOTS_TYPES'' BytesType,
     attrmap_element CKA_HSS_KEYS_REMAINING ''CKA_HSS_KEYS_REMAINING'' NumType,
     attrmap_element CKA_PARAMETER_SET ''CKA_PARAMETER_SET'' NumType,
     attrmap_element CKA_OBJECT_VALIDATION_FLAGS ''CKA_OBJECT_VALIDATION_FLAGS'' NumType,
     attrmap_element CKA_VALIDATION_TYPE ''CKA_VALIDATION_TYPE'' NumType,
     attrmap_element CKA_VALIDATION_VERSION ''CKA_VALIDATION_VERSION'' BytesType,
     attrmap_element CKA_VALIDATION_LEVEL ''CKA_VALIDATION_LEVEL'' NumType,
     attrmap_element CKA_VALIDATION_MODULE_ID ''CKA_VALIDATION_MODULE_ID'' StringType,
     attrmap_element CKA_VALIDATION_FLAG ''CKA_VALIDATION_FLAG'' NumType,
     attrmap_element CKA_VALIDATION_AUTHORITY_TYPE ''CKA_VALIDATION_AUTHORITY_TYPE'' NumType,
     attrmap_element CKA_VALIDATION_COUNTRY ''CKA_VALIDATION_COUNTRY'' StringType,
     attrmap_element CKA_VALIDATION_CERTIFICATE_IDENTIFIER ''CKA_VALIDATION_CERTIFICATE_IDENTIFIER'' StringType,
     attrmap_element CKA_VALIDATION_CERTIFICATE_URI ''CKA_VALIDATION_CERTIFICATE_URI'' StringType,
     attrmap_element CKA_VALIDATION_VENDOR_URI ''CKA_VALIDATION_VENDOR_URI'' StringType,
     attrmap_element CKA_VALIDATION_PROFILE ''CKA_VALIDATION_PROFILE'' StringType,
     attrmap_element CKA_ENCAPSULATE_TEMPLATE ''CKA_ENCAPSULATE_TEMPLATE'' TemplateType,
     attrmap_element CKA_DECAPSULATE_TEMPLATE ''CKA_DECAPSULATE_TEMPLATE'' TemplateType,
     attrmap_element CKA_TRUST_SERVER_AUTH ''CKA_TRUST_SERVER_AUTH'' NumType,
     attrmap_element CKA_TRUST_CLIENT_AUTH ''CKA_TRUST_CLIENT_AUTH'' NumType,
     attrmap_element CKA_TRUST_CODE_SIGNING ''CKA_TRUST_CODE_SIGNING'' NumType,
     attrmap_element CKA_TRUST_EMAIL_PROTECTION ''CKA_TRUST_EMAIL_PROTECTION'' NumType,
     attrmap_element CKA_TRUST_IPSEC_IKE ''CKA_TRUST_IPSEC_IKE'' NumType,
     attrmap_element CKA_TRUST_TIME_STAMPING ''CKA_TRUST_TIME_STAMPING'' NumType,
     attrmap_element CKA_TRUST_OCSP_SIGNING ''CKA_TRUST_OCSP_SIGNING'' NumType,
     attrmap_element CKA_ENCAPSULATE ''CKA_ENCAPSULATE'' BoolType,
     attrmap_element CKA_DECAPSULATE ''CKA_DECAPSULATE'' BoolType,
     attrmap_element CKA_HASH_OF_CERTIFICATE ''CKA_HASH_OF_CERTIFICATE'' BytesType,
     attrmap_element CKA_PUBLIC_CRC64_VALUE ''CKA_PUBLIC_CRC64_VALUE'' BytesType,
     attrmap_element CKA_SEED ''CKA_SEED'' BytesType,
     attrmap_element CKA_WRAP_TEMPLATE ''CKA_WRAP_TEMPLATE'' TemplateType,
     attrmap_element CKA_UNWRAP_TEMPLATE ''CKA_UNWRAP_TEMPLATE'' TemplateType,
     attrmap_element CKA_DERIVE_TEMPLATE ''CKA_DERIVE_TEMPLATE'' TemplateType,
     attrmap_element CKA_ALLOWED_MECHANISMS ''CKA_ALLOWED_MECHANISMS'' UlongArrayType,
     attrmap_element CKA_VENDOR_DEFINED ''CKA_VENDOR_DEFINED'' DenyType,
     attrmap_element KRA_MAX_LOGIN_ATTEMPTS ''KRA_MAX_LOGIN_ATTEMPTS'' NumType,
     attrmap_element KRA_LOGIN_ATTEMPTS ''KRA_LOGIN_ATTEMPTS'' NumType]"

definition ATTRMAP_nss :: "attrmap list" where
  "ATTRMAP_nss =
    [
     attrmap_element CKA_NSS_TRUST_SERVER_AUTH ''CKA_NSS_TRUST_SERVER_AUTH'' NumType,
     attrmap_element CKA_NSS_TRUST_CLIENT_AUTH ''CKA_NSS_TRUST_CLIENT_AUTH'' NumType,
     attrmap_element CKA_NSS_TRUST_CODE_SIGNING ''CKA_NSS_TRUST_CODE_SIGNING'' NumType,
     attrmap_element CKA_NSS_TRUST_EMAIL_PROTECTION ''CKA_NSS_TRUST_EMAIL_PROTECTION'' NumType,
     attrmap_element CKA_NSS_TRUST_STEP_UP_APPROVED ''CKA_NSS_TRUST_STEP_UP_APPROVED'' NumType,
     attrmap_element CKA_NSS_CERT_SHA1_HASH ''CKA_NSS_CERT_SHA1_HASH'' BytesType,
     attrmap_element CKA_NSS_CERT_MD5_HASH ''CKA_NSS_CERT_MD5_HASH'' BytesType]"

text \<open>\<^verbatim>\<open>impl Ord for Attrmap\<close>: entries compare by id only.\<close>

datatype ordering = Less | Equal | Greater

definition attrmap_cmp :: "attrmap \<Rightarrow> attrmap \<Rightarrow> ordering" where
  "attrmap_cmp a b =
    (if am_id a < am_id b then Less else if am_id a > am_id b then Greater else Equal)"

text \<open>
  \<^verbatim>\<open>slice::binary_search\<close> of the standard library: a window of \<open>sz\<close> entries from \<open>base\<close> is
  halved until one entry is left. \<open>None\<close> is its \<^verbatim>\<open>Err\<close>, whose insertion point the crate drops.
\<close>

function bs_loop :: "('a \<Rightarrow> ordering) \<Rightarrow> 'a list \<Rightarrow> nat \<Rightarrow> nat \<Rightarrow> nat" where
  "bs_loop f xs base sz =
    (if sz \<le> 1 then base
     else let half = sz div 2; mid = base + half in
       bs_loop f xs (if f (xs ! mid) = Greater then base else mid) (sz - half))"
  by pat_completeness auto
termination
  by (relation "measure (\<lambda>(f, xs, base, sz). sz)") auto

declare bs_loop.simps [simp del]

definition binary_search :: "attrmap list \<Rightarrow> attrmap \<Rightarrow> nat option" where
  "binary_search xs target =
    (if xs = [] then None
     else let base = bs_loop (\<lambda>e. attrmap_cmp e target) xs 0 (length xs) in
       if attrmap_cmp (xs ! base) target = Equal then Some base else None)"

definition search_by_id :: "ck_ulong \<Rightarrow> attrmap option" where
  "search_by_id i =
    (case binary_search ATTRMAP (attrmap_element i '''' StringType) of
       Some k \<Rightarrow> Some (ATTRMAP ! k)
     | None \<Rightarrow> None)"

definition search_by_name :: "string \<Rightarrow> attrmap option" where
  "search_by_name s = List.find (\<lambda>a. am_name a = s) ATTRMAP"

definition attr_name_to_id_type :: "string \<Rightarrow> (ck_ulong \<times> attr_type) result" where
  "attr_name_to_id_type s =
    (case search_by_name s of
       Some a \<Rightarrow> Ok (am_id a, am_atype a)
     | None \<Rightarrow> Inl AttributeNotFound)"

definition attr_id_to_attrtype :: "ck_ulong \<Rightarrow> attr_type result" where
  "attr_id_to_attrtype i =
    (case search_by_id i of
       Some a \<Rightarrow> Ok (am_atype a)
     | None \<Rightarrow> Err CKR_ATTRIBUTE_TYPE_INVALID)"

subsection \<open>The binary search finds what a linear search finds\<close>

lemma bs_loop_bounds:
  "0 < sz \<Longrightarrow> base + sz \<le> length xs \<Longrightarrow> bs_loop f xs base sz < length xs"
proof (induction f xs base sz rule: bs_loop.induct)
  case (1 f xs base sz)
  then show ?case by (subst bs_loop.simps) (auto simp: Let_def)
qed

lemma bs_loop_correct:
  assumes "0 < sz" "base + sz \<le> length xs"
    and "\<And>i. base + sz \<le> i \<Longrightarrow> i < length xs \<Longrightarrow> f (xs ! i) = Greater"
    and "base = 0 \<or> f (xs ! base) \<noteq> Greater"
    and "\<And>i j. i \<le> j \<Longrightarrow> j < length xs \<Longrightarrow> f (xs ! i) = Greater \<Longrightarrow> f (xs ! j) = Greater"
  shows "(\<forall>i. bs_loop f xs base sz < i \<longrightarrow> i < length xs \<longrightarrow> f (xs ! i) = Greater) \<and>
    (bs_loop f xs base sz = 0 \<or> f (xs ! bs_loop f xs base sz) \<noteq> Greater)"
  using assms(1-4)
proof (induction "sz" arbitrary: base rule: less_induct)
  case (less sz)
  show ?case
  proof (cases "sz \<le> 1")
    case True
    then have "bs_loop f xs base sz = base" by (subst bs_loop.simps) simp
    with less.prems True show ?thesis by auto
  next
    case False
    let ?mid = "base + sz div 2"
    let ?base' = "if f (xs ! ?mid) = Greater then base else ?mid"
    have unf: "bs_loop f xs base sz = bs_loop f xs ?base' (sz - sz div 2)"
      using False by (subst bs_loop.simps) (simp add: Let_def)
    have mid: "?mid < length xs" using False less.prems(1,2) by linarith
    have H3: "f (xs ! i) = Greater" if "?base' + (sz - sz div 2) \<le> i" "i < length xs" for i
    proof (cases "f (xs ! ?mid) = Greater")
      case True
      then have "?mid \<le> i" using that(1) by simp
      then show ?thesis using assms(5) that(2) True by blast
    next
      case False
      then show ?thesis using that less.prems(3) by simp
    qed
    have H4: "?base' = 0 \<or> f (xs ! ?base') \<noteq> Greater" using less.prems(4) by auto
    have H: "sz - sz div 2 < sz" "0 < sz - sz div 2" "?base' + (sz - sz div 2) \<le> length xs"
      using False less.prems(1,2) by auto
    show ?thesis unfolding unf by (rule less.IH[OF H H3 H4])
  qed
qed

definition ids_ascending :: "attrmap list \<Rightarrow> bool" where
  "ids_ascending xs \<longleftrightarrow> sorted_wrt (<) (map am_id xs)"

lemma binary_search_eq_find:
  assumes asc: "ids_ascending xs"
  shows "map_option ((!) xs) (binary_search xs t) = List.find (\<lambda>a. am_id a = am_id t) xs"
proof (cases "xs = []")
  case False
  let ?f = "\<lambda>e. attrmap_cmp e t"
  let ?b = "bs_loop ?f xs 0 (length xs)"
  have mono: "am_id (xs ! i) < am_id (xs ! j)" if "i < j" "j < length xs" for i j
    using asc that by (auto simp: ids_ascending_def sorted_wrt_iff_nth_less)
  have up: "?f (xs ! j) = Greater" if "i \<le> j" "j < length xs" "?f (xs ! i) = Greater" for i j
    using mono[of i j] that by (cases "i = j") (auto simp: attrmap_cmp_def split: if_splits)
  have b: "?b < length xs" using False by (intro bs_loop_bounds) auto
  have c: "(\<forall>i. ?b < i \<longrightarrow> i < length xs \<longrightarrow> ?f (xs ! i) = Greater) \<and>
      (?b = 0 \<or> ?f (xs ! ?b) \<noteq> Greater)"
    using False up by (intro bs_loop_correct) auto
  have eq_iff: "?f a = Equal \<longleftrightarrow> am_id a = am_id t" for a by (auto simp: attrmap_cmp_def)
  have only: "i = ?b" if i: "i < length xs" "am_id (xs ! i) = am_id t" for i
  proof (rule ccontr)
    assume "i \<noteq> ?b"
    then consider "i < ?b" | "?b < i" by linarith
    then show False
    proof cases
      case 1
      then have "am_id t < am_id (xs ! ?b)" using mono[of i ?b] b i(2) by simp
      then show False using 1 c by (auto simp: attrmap_cmp_def split: if_splits)
    next
      case 2
      then have "?f (xs ! i) = Greater" using c i(1) by blast
      then show False using i(2) by (simp add: attrmap_cmp_def)
    qed
  qed
  have dist: "distinct (map am_id xs)"
    using asc strict_sorted_iff by (auto simp: ids_ascending_def)
  show ?thesis
  proof (cases "am_id (xs ! ?b) = am_id t")
    case True
    then have "binary_search xs t = Some ?b"
      using False by (simp add: binary_search_def eq_iff)
    moreover have "List.find (\<lambda>a. am_id a = am_id t) xs = Some (xs ! ?b)"
      using True b by (simp add: find_Some_iff_distinct[OF dist])
    ultimately show ?thesis by simp
  next
    case miss: False
    then have "binary_search xs t = None"
      using False by (simp add: binary_search_def eq_iff)
    moreover have "List.find (\<lambda>a. am_id a = am_id t) xs = None"
    proof -
      have "am_id a \<noteq> am_id t" if "a \<in> set xs" for a
        using that only miss by (metis in_set_conv_nth)
      then show ?thesis by (force simp: find_None_key)
    qed
    ultimately show ?thesis by simp
  qed
qed (simp add: binary_search_def)

text \<open>Sortedness of a literal table is checked on neighbours.\<close>

fun ascending :: "'a::linorder list \<Rightarrow> bool" where
  "ascending (x # y # zs) = (x < y \<and> ascending (y # zs))"
| "ascending _ = True"

lemma ascending_sorted_wrt: "ascending xs \<longleftrightarrow> sorted_wrt (<) xs"
  by (induction xs rule: ascending.induct) (auto intro: less_trans)

lemma ATTRMAP_ascending: "ascending (map am_id (ATTRMAP @ ATTRMAP_nss))"
  by (simp add: ATTRMAP_def ATTRMAP_nss_def)

lemma ids_ascending_ATTRMAP: "ids_ascending ATTRMAP"
proof -
  have "ids_ascending (ATTRMAP @ ATTRMAP_nss)"
    using ATTRMAP_ascending by (simp add: ids_ascending_def ascending_sorted_wrt)
  then show ?thesis by (simp add: ids_ascending_def sorted_wrt_append)
qed

lemma search_by_id_find: "search_by_id i = List.find (\<lambda>a. am_id a = i) ATTRMAP"
proof -
  have "search_by_id i =
      map_option ((!) ATTRMAP) (binary_search ATTRMAP (attrmap_element i '''' StringType))"
    by (simp add: search_by_id_def split: option.splits)
  then show ?thesis by (simp add: binary_search_eq_find[OF ids_ascending_ATTRMAP])
qed

lemma search_by_id_SomeD: "search_by_id i = Some a \<Longrightarrow> a \<in> set ATTRMAP \<and> am_id a = i"
  by (auto simp: search_by_id_find dest: find_SomeD)

section \<open>Attributes passed over the FFI\<close>

text \<open>
  A \<^verbatim>\<open>CK_ATTRIBUTE\<close> holds a raw pointer. A non-null pointer is modelled by what the two kinds
  of reads of the code through it yield: the bytes at the address, the array of
  \<^verbatim>\<open>CK_ATTRIBUTE\<close> there, and whether the address is aligned for that struct.
\<close>

datatype ck_attribute = CkAttribute (attr_type: ck_ulong) (pValue: pvalue) (ulValueLen: ck_ulong)
and pvalue = NullPtr | Ptr bytes "ck_attribute list" bool

abbreviation attr_len :: "ck_attribute \<Rightarrow> nat" where
  "attr_len a \<equiv> unat (ulValueLen a)"

fun is_null :: "pvalue \<Rightarrow> bool" where
  "is_null NullPtr = True"
| "is_null (Ptr _ _ _) = False"

fun mem_bytes :: "pvalue \<Rightarrow> nat \<Rightarrow> bytes" where
  "mem_bytes NullPtr n = []"
| "mem_bytes (Ptr bs _ _) n = take n bs"

fun mem_attrs :: "pvalue \<Rightarrow> nat \<Rightarrow> ck_attribute list" where
  "mem_attrs NullPtr n = []"
| "mem_attrs (Ptr _ as _) n = take n as"

fun is_aligned :: "pvalue \<Rightarrow> bool" where
  "is_aligned NullPtr = True"
| "is_aligned (Ptr _ _ al) = al"

definition bytes_to_vec :: "pvalue \<Rightarrow> nat \<Rightarrow> bytes" where
  "bytes_to_vec p n = (if is_null p \<or> n = 0 then [] else mem_bytes p n)"

definition ck_to_ulong :: "ck_attribute \<Rightarrow> ck_ulong result" where
  "ck_to_ulong a =
    (if ulValueLen a \<noteq> 8 then Err CKR_ATTRIBUTE_VALUE_INVALID
     else if is_null (pValue a) then Inl Panic
     else Ok (u64_from_le (mem_bytes (pValue a) 8)))"

definition ck_to_bool :: "ck_attribute \<Rightarrow> bool result" where
  "ck_to_bool a =
    (if ulValueLen a \<noteq> 1 then Err CKR_ATTRIBUTE_VALUE_INVALID
     else if is_null (pValue a) then Inl Panic
     else Ok ((from_le_bytes (mem_bytes (pValue a) 1) :: u8) \<noteq> 0))"

definition ck_to_string :: "ck_attribute \<Rightarrow> bytes result" where
  "ck_to_string a =
    (if ulValueLen a = 0 then Ok []
     else if is_null (pValue a) then Err CKR_ATTRIBUTE_VALUE_INVALID
     else case from_utf8 (mem_bytes (pValue a) (attr_len a)) of
            Some s \<Rightarrow> Ok s
          | None \<Rightarrow> Err CKR_ATTRIBUTE_VALUE_INVALID)"

definition ck_to_slice :: "ck_attribute \<Rightarrow> bytes result" where
  "ck_to_slice a =
    (if ulValueLen a = 0 then Ok []
     else if is_null (pValue a) then Err CKR_ATTRIBUTE_VALUE_INVALID
     else Ok (mem_bytes (pValue a) (attr_len a)))"

definition ck_to_buf :: "ck_attribute \<Rightarrow> bytes result" where
  "ck_to_buf a = Ok (bytes_to_vec (pValue a) (attr_len a))"

record ck_date =
  year :: bytes
  month :: bytes
  day :: bytes

definition vec_to_date_validate :: "bytes \<Rightarrow> ck_date result" where
  "vec_to_date_validate v =
    (if length v \<noteq> 8 then Err CKR_ATTRIBUTE_VALUE_INVALID
     else if \<exists>n \<in> set v. n < 0x30 \<or> n > 0x39 then Err CKR_ATTRIBUTE_VALUE_INVALID
     else Ok \<lparr>year = take 4 v, month = take 2 (drop 4 v), day = take 2 (drop 6 v)\<rparr>)"

definition string_to_ck_date :: "bytes \<Rightarrow> ck_date result" where
  "string_to_ck_date s =
    (if length s \<noteq> 10 then Err CKR_ATTRIBUTE_VALUE_INVALID
     else if s ! 4 \<noteq> 0x2D \<or> s ! 7 \<noteq> 0x2D then Err CKR_ATTRIBUTE_VALUE_INVALID
     else vec_to_date_validate
       [s ! 0, s ! 1, s ! 2, s ! 3, s ! 5, s ! 6, s ! 8, s ! 9])"

definition ck_to_date :: "ck_attribute \<Rightarrow> ck_date result" where
  "ck_to_date a =
    (if ulValueLen a = 0 then Ok \<lparr>year = replicate 4 0x30, month = replicate 2 0x30, day = replicate 2 0x30\<rparr>
     else if is_null (pValue a) then Err CKR_ATTRIBUTE_VALUE_INVALID
     else if ulValueLen a \<noteq> 8 then Err CKR_ATTRIBUTE_VALUE_INVALID
     else vec_to_date_validate (bytes_to_vec (pValue a) (attr_len a)))"

section \<open>Typed attributes\<close>

record attribute =
  ck_type :: ck_ulong
  attrtype :: attr_type
  val :: bytes

definition mk_attribute :: "ck_ulong \<Rightarrow> attr_type \<Rightarrow> bytes \<Rightarrow> attribute" where
  "mk_attribute t at v = \<lparr>ck_type = t, attrtype = at, val = v\<rparr>"

lemma mk_attribute_sel [simp]:
  "ck_type (mk_attribute t at v) = t" "attrtype (mk_attribute t at v) = at"
  "val (mk_attribute t at v) = v"
  by (simp_all add: mk_attribute_def)

lemma mk_attribute_inject [simp]:
  "mk_attribute t at v = mk_attribute t' at' v' \<longleftrightarrow> t = t' \<and> at = at' \<and> v = v'"
  by (auto simp: mk_attribute_def)

lemma mk_attribute_collapse [simp]: "mk_attribute (ck_type a) (attrtype a) (val a) = a"
  by (simp add: mk_attribute_def)

definition from_date_bytes :: "ck_ulong \<Rightarrow> bytes \<Rightarrow> attribute" where
  "from_date_bytes t v = mk_attribute t DateType v"

definition from_ignore :: "ck_ulong \<Rightarrow> unit option \<Rightarrow> attribute" where
  "from_ignore t _ = mk_attribute t IgnoreType []"

definition from_ulong_bytevec :: "ck_ulong \<Rightarrow> bytes \<Rightarrow> attribute" where
  "from_ulong_bytevec t v = mk_attribute t UlongArrayType v"

definition from_bool :: "ck_ulong \<Rightarrow> bool \<Rightarrow> attribute" where
  "from_bool t b = mk_attribute t BoolType (if b then [1] else [0])"

definition from_ulong :: "ck_ulong \<Rightarrow> ck_ulong \<Rightarrow> attribute" where
  "from_ulong t v = mk_attribute t NumType (u64_to_le v)"

definition from_string :: "ck_ulong \<Rightarrow> bytes \<Rightarrow> attribute" where
  "from_string t s = mk_attribute t StringType s"

definition from_bytes :: "ck_ulong \<Rightarrow> bytes \<Rightarrow> attribute" where
  "from_bytes t v = mk_attribute t BytesType v"

definition from_ulong_array :: "ck_ulong \<Rightarrow> ck_ulong list \<Rightarrow> attribute" where
  "from_ulong_array t vs = mk_attribute t UlongArrayType (concat (map u64_to_le vs))"

definition from_date :: "ck_ulong \<Rightarrow> ck_date \<Rightarrow> attribute" where
  "from_date t d = mk_attribute t DateType (year d @ month d @ day d)"

definition from_template_bytes :: "ck_ulong \<Rightarrow> bytes \<Rightarrow> attribute" where
  "from_template_bytes t v = mk_attribute t TemplateType v"

lemmas attribute_ctors =
  from_date_bytes_def from_ignore_def from_ulong_bytevec_def from_bool_def from_ulong_def
  from_string_def from_bytes_def from_ulong_array_def from_date_def from_template_bytes_def

lemma ctor_ck_type [simp]:
  "ck_type (from_date_bytes t v) = t" "ck_type (from_ignore t u) = t"
  "ck_type (from_ulong_bytevec t v) = t" "ck_type (from_bool t b) = t"
  "ck_type (from_ulong t n) = t" "ck_type (from_string t v) = t"
  "ck_type (from_bytes t v) = t" "ck_type (from_ulong_array t ns) = t"
  "ck_type (from_date t d) = t" "ck_type (from_template_bytes t v) = t"
  by (simp_all add: attribute_ctors)

definition to_bool :: "attribute \<Rightarrow> bool result" where
  "to_bool a =
    (if attrtype a \<noteq> BoolType then Err CKR_ATTRIBUTE_TYPE_INVALID
     else case val a of [b] \<Rightarrow> Ok (b \<noteq> 0) | _ \<Rightarrow> Err CKR_ATTRIBUTE_VALUE_INVALID)"

definition to_ulong :: "attribute \<Rightarrow> ck_ulong result" where
  "to_ulong a =
    (if attrtype a \<noteq> NumType then Err CKR_ATTRIBUTE_TYPE_INVALID
     else if length (val a) \<noteq> 8 then Err CKR_ATTRIBUTE_VALUE_INVALID
     else Ok (u64_from_le (val a)))"

definition to_string :: "attribute \<Rightarrow> bytes result" where
  "to_string a =
    (if attrtype a \<noteq> StringType then Err CKR_ATTRIBUTE_TYPE_INVALID
     else case from_utf8 (val a) of
            Some s \<Rightarrow> Ok s
          | None \<Rightarrow> Err CKR_ATTRIBUTE_VALUE_INVALID)"

definition to_bytes :: "attribute \<Rightarrow> bytes result" where
  "to_bytes a = (if attrtype a \<noteq> BytesType then Err CKR_ATTRIBUTE_TYPE_INVALID else Ok (val a))"

text \<open>The loop over \<^verbatim>\<open>idx\<close> of \<^verbatim>\<open>to_ulong_array\<close> reads the value in chunks of eight bytes.\<close>

function ulong_chunks :: "bytes \<Rightarrow> ck_ulong list" where
  "ulong_chunks bs = (if bs = [] then [] else u64_from_le (take 8 bs) # ulong_chunks (drop 8 bs))"
  by pat_completeness auto
termination
  by (relation "measure length") auto

declare ulong_chunks.simps [simp del]

definition to_ulong_array :: "attribute \<Rightarrow> ck_ulong list result" where
  "to_ulong_array a =
    (if attrtype a \<noteq> UlongArrayType then Err CKR_ATTRIBUTE_TYPE_INVALID
     else if length (val a) mod 8 \<noteq> 0 then Err CKR_ATTRIBUTE_VALUE_INVALID
     else Ok (ulong_chunks (val a)))"

text \<open>
  \<^verbatim>\<open>char::from(u8)\<close> maps a byte to the code point of that number; the dates the crate stores
  hold ASCII digits, for which the character's UTF-8 form is the byte itself. The general
  form (two bytes for a code point above 127) is written out.
\<close>

definition char_from_u8 :: "u8 \<Rightarrow> bytes" where
  "char_from_u8 b =
    (if b < 0x80 then [b] else [0xC0 OR drop_bit 6 b, 0x80 OR (b AND 0x3F)])"

definition to_date_string :: "attribute \<Rightarrow> bytes result" where
  "to_date_string a =
    (if attrtype a \<noteq> DateType then Err CKR_ATTRIBUTE_TYPE_INVALID
     else if val a = [] then Ok []
     else if length (val a) \<noteq> 8 then Err CKR_ATTRIBUTE_VALUE_INVALID
     else let c = (\<lambda>i. char_from_u8 (val a ! i)) in
       Ok (c 0 @ c 1 @ c 2 @ c 3 @ [0x2D] @ c 4 @ c 5 @ [0x2D] @ c 6 @ c 7))"

lemma to_bool_from_bool [simp]: "to_bool (from_bool t b) = Ok b"
  by (simp add: to_bool_def from_bool_def)

lemma to_ulong_from_ulong [simp]: "to_ulong (from_ulong t n) = Ok n"
  by (simp add: to_ulong_def from_ulong_def le64.dec_enc)

lemma to_bytes_from_bytes [simp]: "to_bytes (from_bytes t v) = Ok v"
  by (simp add: to_bytes_def from_bytes_def)

lemma to_string_from_string: "utf8_valid s \<Longrightarrow> to_string (from_string t s) = Ok s"
  by (simp add: to_string_def from_string_def from_utf8_def)

lemma ulong_chunks_concat: "ulong_chunks (concat (map u64_to_le ns)) = ns"
proof (induction ns)
  case Nil
  then show ?case by (subst ulong_chunks.simps) simp
next
  case (Cons n ns)
  have "u64_to_le n \<noteq> []" using le64.length_enc[of n] by (metis length_0_conv zero_neq_numeral)
  then show ?case
    using Cons le64.dec_field[of n] le64.drop_field[of n] by (subst ulong_chunks.simps) simp
qed

lemma to_ulong_array_from_ulong_array: "to_ulong_array (from_ulong_array t ns) = Ok ns"
proof -
  have "length (concat (map u64_to_le ns)) = 8 * length ns"
    by (induction ns) (auto simp: le64.length_enc)
  then show ?thesis by (simp add: to_ulong_array_def from_ulong_array_def ulong_chunks_concat)
qed

section \<open>Serialized templates\<close>

definition slice :: "'a list \<Rightarrow> nat \<Rightarrow> nat \<Rightarrow> 'a list" where
  "slice xs off n = take n (drop off xs)"

definition template_total_len :: "attribute list \<Rightarrow> nat result" where
  "template_total_len attrs =
    try_fold
      (\<lambda>total a.
        case checked_add total (8 + 4) of
          None \<Rightarrow> Err CKR_TEMPLATE_INCONSISTENT
        | Some l \<Rightarrow>
          (case checked_add l (length (val a)) of
             None \<Rightarrow> Err CKR_TEMPLATE_INCONSISTENT
           | Some l' \<Rightarrow> Ok l'))
      4 attrs"

definition push_serialized :: "bytes \<Rightarrow> attribute \<Rightarrow> bytes result" where
  "push_serialized buf a =
    and_then (u32_try_from (length (val a)))
      (\<lambda>val_len. Ok (buf @ u64_to_le (ck_type a) @ u32_to_le val_len @ val a))"

definition serialize_template :: "attribute list \<Rightarrow> bytes result" where
  "serialize_template attrs =
    and_then (u32_try_from (length attrs)) (\<lambda>count.
      and_then (template_total_len attrs) (\<lambda>_.
        try_fold push_serialized (u32_to_le count) attrs))"

fun deserialize_loop :: "nat \<Rightarrow> bytes \<Rightarrow> nat \<Rightarrow> attribute list \<Rightarrow> (attribute list \<times> nat) result" where
  "deserialize_loop 0 data off attrs = Ok (attrs, off)"
| "deserialize_loop (Suc n) data off attrs =
    (if off + 8 + 4 > length data then Err CKR_DEVICE_ERROR
     else let t = u64_from_le (slice data off 8) in
       and_then (attr_id_to_attrtype t) (\<lambda>at.
         let val_len = unat (u32_from_le (slice data (off + 8) 4)); off' = off + 8 + 4 in
         if off' + val_len > length data then Err CKR_DEVICE_ERROR
         else deserialize_loop n data (off' + val_len)
           (attrs @ [mk_attribute t at (slice data off' val_len)])))"

definition deserialize_template :: "bytes \<Rightarrow> attribute list result" where
  "deserialize_template data =
    (if data = [] then Ok []
     else if length data < 4 then Err CKR_DEVICE_ERROR
     else and_then (deserialize_loop (unat (u32_from_le (take 4 data))) data 4 [])
       (\<lambda>(attrs, off). if off \<noteq> length data then Err CKR_DEVICE_ERROR else Ok attrs))"

subsection \<open>The wire format\<close>

definition encode_attr :: "attribute \<Rightarrow> bytes" where
  "encode_attr a = u64_to_le (ck_type a) @ u32_to_le (of_nat (length (val a))) @ val a"

definition encode_attrs :: "attribute list \<Rightarrow> bytes" where
  "encode_attrs attrs = concat (map encode_attr attrs)"

definition typed_attr :: "attribute \<Rightarrow> bool" where
  "typed_attr a \<longleftrightarrow> attr_id_to_attrtype (ck_type a) = Ok (attrtype a)"

abbreviation short_attr :: "attribute \<Rightarrow> bool" where
  "short_attr a \<equiv> length (val a) < 2 ^ 32"

lemma length_encode_attr [simp]: "length (encode_attr a) = 12 + length (val a)"
  by (simp add: encode_attr_def)

lemma encode_attrs_simps [simp]:
  "encode_attrs [] = []" "encode_attrs (a # as) = encode_attr a @ encode_attrs as"
  "encode_attrs (as @ bs) = encode_attrs as @ encode_attrs bs"
  by (simp_all add: encode_attrs_def)

lemma total_len_eq:
  "try_fold
      (\<lambda>total a.
        case checked_add total (8 + 4) of
          None \<Rightarrow> Err CKR_TEMPLATE_INCONSISTENT
        | Some l \<Rightarrow>
          (case checked_add l (length (val a)) of
             None \<Rightarrow> Err CKR_TEMPLATE_INCONSISTENT
           | Some l' \<Rightarrow> Ok l'))
      n attrs =
    (if attrs = [] \<or> n + length (encode_attrs attrs) < usize_range
     then Ok (n + length (encode_attrs attrs)) else Err CKR_TEMPLATE_INCONSISTENT)"
proof (induction attrs arbitrary: n)
  case (Cons a as)
  then show ?case by (auto simp: checked_add_def add.assoc)
qed simp

lemma template_total_len_eq:
  "template_total_len attrs =
    (if attrs = [] \<or> 4 + length (encode_attrs attrs) < usize_range
     then Ok (4 + length (encode_attrs attrs)) else Err CKR_TEMPLATE_INCONSISTENT)"
  unfolding template_total_len_def by (rule total_len_eq)

lemma push_serialized_eq:
  "push_serialized buf a = (if short_attr a then Ok (buf @ encode_attr a) else Inl Nested)"
  by (simp add: push_serialized_def u32_try_from_def encode_attr_def)

lemma try_fold_push_serialized:
  "try_fold push_serialized buf attrs =
    (if \<forall>a \<in> set attrs. short_attr a then Ok (buf @ encode_attrs attrs) else Inl Nested)"
  by (induction attrs arbitrary: buf) (auto simp: push_serialized_eq)

definition serializable :: "attribute list \<Rightarrow> bool" where
  "serializable attrs \<longleftrightarrow>
    length attrs < 2 ^ 32 \<and> (\<forall>a \<in> set attrs. short_attr a) \<and>
    4 + length (encode_attrs attrs) < usize_range"

lemma serialize_template_Ok_iff:
  "serialize_template attrs = Ok buf \<longleftrightarrow>
    serializable attrs \<and> buf = u32_to_le (of_nat (length attrs)) @ encode_attrs attrs"
  by (auto simp: serialize_template_def serializable_def u32_try_from_def template_total_len_eq
      try_fold_push_serialized)

lemma slice_append [simp]:
  "slice (pre @ xs) (length pre + k) n = slice xs k n"
  "slice (pre @ xs) (k + length pre) n = slice xs k n"
  "slice (pre @ xs) (length pre) n = slice xs 0 n"
  by (simp_all add: slice_def)

lemma deserialize_loop_encode:
  assumes "\<forall>a \<in> set attrs. typed_attr a \<and> short_attr a"
  shows "deserialize_loop (length attrs) (pre @ encode_attrs attrs @ post) (length pre) acc =
    Ok (acc @ attrs, length pre + length (encode_attrs attrs))"
  using assms
proof (induction attrs arbitrary: pre acc)
  case (Cons a as)
  let ?d = "pre @ encode_attrs (a # as) @ post"
  have t: "slice ?d (length pre) 8 = u64_to_le (ck_type a)"
    and l: "slice ?d (length pre + 8) 4 = u32_to_le (of_nat (length (val a)))"
    and v: "slice ?d (length pre + 12) (length (val a)) = val a"
    by (simp_all add: slice_def encode_attr_def)
  have ty: "attr_id_to_attrtype (ck_type a) = Ok (attrtype a)" and sh: "short_attr a"
    using Cons.prems by (auto simp: typed_attr_def)
  have n: "unat (of_nat (length (val a)) :: u32) = length (val a)"
    using sh by (simp add: unat_of_nat)
  have step: "deserialize_loop (length (a # as)) ?d (length pre) acc =
      deserialize_loop (length as) ?d (length pre + 12 + length (val a)) (acc @ [a])"
    using t l v by (simp add: le64.dec_enc le32.dec_enc ty n Let_def add.commute)
  have "deserialize_loop (length as) ((pre @ encode_attr a) @ encode_attrs as @ post)
      (length (pre @ encode_attr a)) (acc @ [a]) =
      Ok ((acc @ [a]) @ as, length (pre @ encode_attr a) + length (encode_attrs as))"
    using Cons.prems by (intro Cons.IH) auto
  then show ?case using step by (simp add: add.assoc)
qed simp

lemma slice_take: "slice xs off n @ slice xs (off + n) m = slice xs off (n + m)"
  unfolding slice_def take_add drop_drop by (simp only: add.commute[of n off])

lemma length_slice: "off + n \<le> length xs \<Longrightarrow> length (slice xs off n) = n"
  by (simp add: slice_def)

lemma deserialize_loop_OkD:
  assumes "deserialize_loop n data off acc = Ok (res, off')" and "off \<le> length data"
  shows "\<exists>attrs. res = acc @ attrs \<and> length attrs = n \<and> off \<le> off' \<and> off' \<le> length data \<and>
    (\<forall>a \<in> set attrs. typed_attr a \<and> short_attr a) \<and> slice data off (off' - off) = encode_attrs attrs"
  using assms
proof (induction n arbitrary: off acc)
  case 0
  then show ?case by (simp add: slice_def)
next
  case (Suc n)
  let ?t = "u64_from_le (slice data off 8)" and ?lb = "slice data (off + 8) 4"
  let ?l = "unat (u32_from_le ?lb)"
  from Suc.prems obtain at where at: "attr_id_to_attrtype ?t = Ok at"
    and off: "off + 12 + ?l \<le> length data"
    and rec: "deserialize_loop n data (off + 12 + ?l)
        (acc @ [mk_attribute ?t at (slice data (off + 12) ?l)]) = Ok (res, off')"
    by (auto simp: and_then_eq_Ok Let_def add.assoc split: if_splits)
  let ?a = "mk_attribute ?t at (slice data (off + 12) ?l)"
  from Suc.IH[OF rec off] obtain attrs where attrs: "res = (acc @ [?a]) @ attrs"
    "length attrs = n" "off + 12 + ?l \<le> off'" "off' \<le> length data"
    "\<forall>a \<in> set attrs. typed_attr a \<and> short_attr a"
    "slice data (off + 12 + ?l) (off' - (off + 12 + ?l)) = encode_attrs attrs" by auto
  have lens: "length (slice data off 8) = 8" "length ?lb = 4" "length (slice data (off + 12) ?l) = ?l"
    using off by (auto intro!: length_slice)
  have ok: "typed_attr ?a" "short_attr ?a"
    using at lens(3) unsigned_less[of "u32_from_le ?lb"] by (auto simp: typed_attr_def)
  have "encode_attr ?a = slice data off 8 @ ?lb @ slice data (off + 12) ?l"
    using lens by (simp add: encode_attr_def le64.enc_dec le32.enc_dec)
  also have "\<dots> = slice data off (12 + ?l)"
    using slice_take[of data "off + 8" 4 ?l] slice_take[of data off 8 "4 + ?l"]
    by (simp add: add.assoc)
  finally have enc: "encode_attr ?a = slice data off (12 + ?l)" .
  have "slice data off (off' - off) = encode_attrs (?a # attrs)"
    using slice_take[of data off "12 + ?l" "off' - (off + 12 + ?l)"] attrs(3,6) enc
    by (simp add: add.assoc)
  then show ?case using attrs ok by (intro exI[of _ "?a # attrs"]) auto
qed

lemma deserialize_serialize:
  assumes "serialize_template attrs = Ok buf" and "\<forall>a \<in> set attrs. typed_attr a"
  shows "deserialize_template buf = Ok attrs"
proof -
  let ?h = "u32_to_le (of_nat (length attrs))"
  have ser: "serializable attrs" and buf: "buf = ?h @ encode_attrs attrs"
    using assms(1) by (auto simp: serialize_template_Ok_iff)
  have n: "unat (u32_from_le (take 4 buf)) = length attrs"
    using ser by (simp add: buf le32.dec_enc serializable_def unat_of_nat)
  have "deserialize_loop (length attrs) (?h @ encode_attrs attrs @ []) (length ?h) [] =
      Ok ([] @ attrs, length ?h + length (encode_attrs attrs))"
    using assms(2) ser by (intro deserialize_loop_encode) (auto simp: serializable_def)
  then have "deserialize_loop (length attrs) buf 4 [] = Ok (attrs, length buf)"
    by (simp add: buf)
  moreover have "4 \<le> length buf" by (simp add: buf)
  ultimately show ?thesis using n by (auto simp: deserialize_template_def)
qed

lemma deserialize_OkD:
  assumes "deserialize_template data = Ok attrs" and "data \<noteq> []" and "length data < usize_range"
  shows "(\<forall>a \<in> set attrs. typed_attr a) \<and> serialize_template attrs = Ok data"
proof -
  let ?n = "unat (u32_from_le (take 4 data))"
  from assms(1,2) have loop: "deserialize_loop ?n data 4 [] = Ok (attrs, length data)"
    and len: "4 \<le> length data"
    by (auto simp: deserialize_template_def and_then_eq_Ok split: if_splits)
  from deserialize_loop_OkD[OF loop len] have n: "length attrs = ?n"
    and ok: "\<forall>a \<in> set attrs. typed_attr a \<and> short_attr a"
    and enc: "slice data 4 (length data - 4) = encode_attrs attrs" by auto
  have data: "data = take 4 data @ encode_attrs attrs"
    using enc by (metis append_take_drop_id length_drop slice_def take_all_iff order_refl)
  then have head: "u32_to_le (of_nat (length attrs)) = take 4 data"
    using len by (simp add: n le32.enc_dec)
  have "length data = 4 + length (encode_attrs attrs)"
    using data len by (metis length_append length_take min.absorb2)
  then have "serializable attrs"
    using ok assms(3) n unsigned_less[of "u32_from_le (take 4 data)"] by (auto simp: serializable_def)
  then show ?thesis using ok data head by (simp add: serialize_template_Ok_iff)
qed

lemma deserialized_short:
  assumes "deserialize_template data = Ok attrs" and "length data < usize_range" and "a \<in> set attrs"
  shows "length (val a) < usize_range"
proof (cases "data = []")
  case True
  then show ?thesis using assms by (simp add: deserialize_template_def)
next
  case False
  then have "serializable attrs" using deserialize_OkD[OF assms(1) False assms(2)]
    by (simp add: serialize_template_Ok_iff)
  then show ?thesis using assms(3) by (auto simp: serializable_def)
qed

section \<open>Conversions between the two attribute representations\<close>

definition sizeof_ck_attribute :: nat where
  "sizeof_ck_attribute = 24"

definition from_template :: "ck_ulong \<Rightarrow> attribute list \<Rightarrow> attribute result" where
  "from_template t attrs =
    (if \<exists>a \<in> set attrs. attrtype a = TemplateType then Err CKR_TEMPLATE_INCONSISTENT
     else and_then (serialize_template attrs) (\<lambda>v. Ok (mk_attribute t TemplateType v)))"

definition to_template :: "attribute \<Rightarrow> attribute list result" where
  "to_template a =
    (if attrtype a \<noteq> TemplateType then Err CKR_ATTRIBUTE_TYPE_INVALID
     else deserialize_template (val a))"

lemma size_mem_attrs: "x \<in> set (mem_attrs p n) \<Longrightarrow> size x < size p"
proof (cases p)
  case (Ptr bs as al)
  assume "x \<in> set (mem_attrs p n)"
  then have "x \<in> set as" using Ptr by (auto dest: in_set_takeD)
  then have "size x \<le> size_list size as" by (rule size_list_estimation') simp
  then show ?thesis using Ptr by simp
qed simp

text \<open>
  \<^verbatim>\<open>Attribute::from_ck_attr\<close> with its helper \<^verbatim>\<open>from_ck_template\<close>, which calls it back on the
  attributes of the array.
\<close>

function from_ck_attr :: "ck_attribute \<Rightarrow> attribute result"
  and from_ck_template :: "ck_ulong \<Rightarrow> ck_attribute \<Rightarrow> attribute result" where
  "from_ck_attr a =
    (case search_by_id (attr_type a) of
       None \<Rightarrow> Err CKR_ATTRIBUTE_TYPE_INVALID
     | Some m \<Rightarrow>
       (case am_atype m of
          BoolType \<Rightarrow> and_then (ck_to_bool a) (\<lambda>b. Ok (from_bool (attr_type a) b))
        | NumType \<Rightarrow> and_then (ck_to_ulong a) (\<lambda>n. Ok (from_ulong (attr_type a) n))
        | StringType \<Rightarrow> and_then (ck_to_string a) (\<lambda>s. Ok (from_string (attr_type a) s))
        | BytesType \<Rightarrow> and_then (ck_to_buf a) (\<lambda>v. Ok (from_bytes (attr_type a) v))
        | UlongArrayType \<Rightarrow> and_then (ck_to_buf a) (\<lambda>v. Ok (from_ulong_bytevec (attr_type a) v))
        | DateType \<Rightarrow> and_then (ck_to_date a) (\<lambda>d. Ok (from_date (attr_type a) d))
        | DenyType \<Rightarrow> Err CKR_ATTRIBUTE_TYPE_INVALID
        | IgnoreType \<Rightarrow> Ok (from_ignore (attr_type a) None)
        | TemplateType \<Rightarrow> from_ck_template (attr_type a) a))"
| "from_ck_template t a =
    (if ulValueLen a = 0 then Ok (from_template_bytes t [])
     else if is_null (pValue a) then Err CKR_ATTRIBUTE_VALUE_INVALID
     else if attr_len a mod sizeof_ck_attribute \<noteq> 0 then Err CKR_ATTRIBUTE_VALUE_INVALID
     else if \<not> is_aligned (pValue a) then Err CKR_ATTRIBUTE_VALUE_INVALID
     else
       and_then
         (try_fold
           (\<lambda>inner_attrs inner.
             case search_by_id (attr_type inner) of
               None \<Rightarrow> Err CKR_ATTRIBUTE_TYPE_INVALID
             | Some m \<Rightarrow>
               if am_atype m = TemplateType then Err CKR_TEMPLATE_INCONSISTENT
               else if \<exists>x \<in> set inner_attrs. ck_type x = attr_type inner
                 then Err CKR_TEMPLATE_INCONSISTENT
               else and_then (from_ck_attr inner) (\<lambda>x. Ok (inner_attrs @ [x])))
           [] (mem_attrs (pValue a) (attr_len a div sizeof_ck_attribute)))
         (\<lambda>inner_attrs. and_then (serialize_template inner_attrs)
           (\<lambda>v. Ok (from_template_bytes t v))))"
  by pat_completeness auto
termination
proof (relation "measure (\<lambda>x. case x of Inl a \<Rightarrow> 2 * size a + 1 | Inr (t, a) \<Rightarrow> 2 * size a)",
    goal_cases)
  case (3 t a inner_attrs inner m)
  then have "size inner < size (pValue a)" by (intro size_mem_attrs)
  then show ?case by (cases a) auto
qed auto

declare from_ck_attr.simps [simp del] from_ck_template.simps [simp del]

text \<open>\<^verbatim>\<open>Attribute::match_ck_attr\<close>: same type and same value.\<close>

definition match_template :: "attribute list \<Rightarrow> attribute list \<Rightarrow> bool" where
  "match_template self_tmpl other_tmpl \<longleftrightarrow>
    length self_tmpl = length other_tmpl \<and>
    (\<forall>ot \<in> set other_tmpl.
      case List.find (\<lambda>st. ck_type st = ck_type ot) self_tmpl of
        Some st \<Rightarrow> val st = val ot
      | None \<Rightarrow> False)"

definition match_ck_attr :: "attribute \<Rightarrow> ck_attribute \<Rightarrow> bool" where
  "match_ck_attr self a =
    (if ck_type self \<noteq> attr_type a then False
     else if attrtype self = TemplateType then
       (case to_template self of
          Inl _ \<Rightarrow> False
        | Inr self_tmpl \<Rightarrow>
          (case from_ck_attr a of
             Inl _ \<Rightarrow> False
           | Inr other_attr \<Rightarrow>
             (case to_template other_attr of
                Inl _ \<Rightarrow> False
              | Inr other_tmpl \<Rightarrow> match_template self_tmpl other_tmpl)))
     else case ck_to_buf a of Inr buf \<Rightarrow> buf = val self | Inl _ \<Rightarrow> False)"

section \<open>Managed attribute arrays\<close>

text \<open>
  \<^verbatim>\<open>CkAttrs\<close>: the vectors that back the pointers (\<^verbatim>\<open>v\<close>, \<^verbatim>\<open>br\<close>) only keep memory alive; the array
  itself is the list of its \<^verbatim>\<open>CK_ATTRIBUTE\<close>s. A pushed value is reached through a pointer to it.
\<close>

type_synonym ck_attrs = "ck_attribute list"

definition ck_attr_of :: "ck_ulong \<Rightarrow> bytes \<Rightarrow> ck_attribute" where
  "ck_attr_of t v = CkAttribute t (Ptr v [] True) (of_nat (length v))"

definition add_slice :: "ck_ulong \<Rightarrow> bytes \<Rightarrow> ck_attrs \<Rightarrow> ck_attrs result" where
  "add_slice t v p =
    and_then (ulong_try_from (length v)) (\<lambda>l. Ok (p @ [CkAttribute t (Ptr v [] True) l]))"

definition add_owned_slice :: "ck_ulong \<Rightarrow> bytes \<Rightarrow> ck_attrs \<Rightarrow> ck_attrs result" where
  "add_owned_slice t v p = add_slice t v p"

definition add_vec :: "ck_ulong \<Rightarrow> bytes \<Rightarrow> ck_attrs \<Rightarrow> ck_attrs result" where
  "add_vec t v p = add_slice t v p"

definition add_ulong :: "ck_ulong \<Rightarrow> ck_ulong \<Rightarrow> ck_attrs \<Rightarrow> ck_attrs" where
  "add_ulong t n p = p @ [ck_attr_of t (u64_to_le n)]"

definition add_owned_ulong :: "ck_ulong \<Rightarrow> ck_ulong \<Rightarrow> ck_attrs \<Rightarrow> ck_attrs result" where
  "add_owned_ulong t n p = add_slice t (u64_to_le n) p"

definition add_bool :: "ck_ulong \<Rightarrow> u8 \<Rightarrow> ck_attrs \<Rightarrow> ck_attrs" where
  "add_bool t b p = p @ [ck_attr_of t [b]]"

definition add_owned_bool :: "ck_ulong \<Rightarrow> u8 \<Rightarrow> ck_attrs \<Rightarrow> ck_attrs result" where
  "add_owned_bool t b p = add_slice t [b] p"

definition find_attr :: "ck_ulong \<Rightarrow> ck_attrs \<Rightarrow> ck_attribute option" where
  "find_attr t p = List.find (\<lambda>a. attr_type a = t) p"

definition add_missing_slice :: "ck_ulong \<Rightarrow> bytes \<Rightarrow> ck_attrs \<Rightarrow> ck_attrs result" where
  "add_missing_slice t v p = (case find_attr t p of Some _ \<Rightarrow> Ok p | None \<Rightarrow> add_slice t v p)"

definition add_missing_ulong :: "ck_ulong \<Rightarrow> ck_ulong \<Rightarrow> ck_attrs \<Rightarrow> ck_attrs" where
  "add_missing_ulong t n p = (case find_attr t p of Some _ \<Rightarrow> p | None \<Rightarrow> add_ulong t n p)"

definition add_missing_bool :: "ck_ulong \<Rightarrow> u8 \<Rightarrow> ck_attrs \<Rightarrow> ck_attrs" where
  "add_missing_bool t b p = (case find_attr t p of Some _ \<Rightarrow> p | None \<Rightarrow> add_bool t b p)"

definition remove_ulong :: "ck_ulong \<Rightarrow> ck_attrs \<Rightarrow> ck_ulong option result \<times> ck_attrs" where
  "remove_ulong t p =
    (case position (\<lambda>a. attr_type a = t) p of
       Some idx \<Rightarrow> (and_then (ck_to_ulong (p ! idx)) (\<lambda>n. Ok (Some n)), swap_remove idx p)
     | None \<Rightarrow> (Ok None, p))"

definition remove_attr :: "ck_ulong \<Rightarrow> ck_attrs \<Rightarrow> ck_attribute option \<times> ck_attrs" where
  "remove_attr t p =
    (case position (\<lambda>a. attr_type a = t) p of
       Some idx \<Rightarrow> (Some (p ! idx), swap_remove idx p)
     | None \<Rightarrow> (None, p))"

definition insert_unique_vec :: "ck_ulong \<Rightarrow> bytes \<Rightarrow> ck_attrs \<Rightarrow> ck_attrs result" where
  "insert_unique_vec t v p =
    and_then (ulong_try_from (length v)) (\<lambda>l. Ok (upsert attr_type (CkAttribute t (Ptr v [] True) l) p))"

definition get_ulong :: "ck_ulong \<Rightarrow> ck_attrs \<Rightarrow> ck_ulong option result" where
  "get_ulong t p =
    (case find_attr t p of
       Some a \<Rightarrow> (case ck_to_ulong a of Inr l \<Rightarrow> Ok (Some l) | Inl _ \<Rightarrow> Err CKR_TEMPLATE_INCONSISTENT)
     | None \<Rightarrow> Ok None)"

definition from_attributes :: "attribute list \<Rightarrow> ck_attrs result" where
  "from_attributes attributes = try_fold (\<lambda>p a. add_slice (ck_type a) (val a) p) [] attributes"

definition merge_template_attribute :: "attribute \<Rightarrow> ck_attrs \<Rightarrow> ck_attrs result" where
  "merge_template_attribute template_attr raw_tmpl =
    and_then (to_template template_attr) (\<lambda>stored_attrs.
      if stored_attrs \<noteq> [] then
        try_fold
          (\<lambda>merged stored.
            case List.find (\<lambda>a. attr_type a = ck_type stored) raw_tmpl of
              Some req_attr \<Rightarrow>
                if \<not> match_ck_attr stored req_attr then Err CKR_TEMPLATE_INCONSISTENT
                else Ok merged
            | None \<Rightarrow> add_owned_slice (ck_type stored) (val stored) merged)
          raw_tmpl stored_attrs
      else Ok raw_tmpl)"

subsection \<open>Facts about the conversions\<close>

lemma ck_attr_of_sel [simp]:
  "attr_type (ck_attr_of t v) = t" "pValue (ck_attr_of t v) = Ptr v [] True"
  "ulValueLen (ck_attr_of t v) = of_nat (length v)"
  by (simp_all add: ck_attr_of_def)

lemma unat_of_nat_len: "length v < usize_range \<Longrightarrow> unat (of_nat (length v) :: ck_ulong) = length v"
  by (simp add: unat_of_nat)

lemma ck_to_buf_ck_attr_of [simp]:
  "length v < usize_range \<Longrightarrow> ck_to_buf (ck_attr_of t v) = Ok v"
  by (auto simp: ck_to_buf_def bytes_to_vec_def unat_of_nat)

lemma ck_to_ulong_ck_attr_of [simp]: "ck_to_ulong (ck_attr_of t (u64_to_le n)) = Ok n"
  by (simp add: ck_to_ulong_def le64.dec_enc)

lemma add_slice_Ok: "length v < usize_range \<Longrightarrow> add_slice t v p = Ok (p @ [ck_attr_of t v])"
  by (simp add: add_slice_def ulong_try_from_def ck_attr_of_def)

lemma add_owned_slice_Ok:
  "length v < usize_range \<Longrightarrow> add_owned_slice t v p = Ok (p @ [ck_attr_of t v])"
  by (simp add: add_owned_slice_def add_slice_Ok)

text \<open>Every conversion keeps the attribute's type id.\<close>

lemma from_ck_attr_type: "from_ck_attr a = Ok x \<Longrightarrow> ck_type x = attr_type a"
  and from_ck_template_type: "from_ck_template t a = Ok x \<Longrightarrow> ck_type x = t"
proof -
  show tt: "from_ck_template t a = Ok x \<Longrightarrow> ck_type x = t" for t a x
    by (subst (asm) from_ck_template.simps) (auto simp: and_then_eq_Ok split: if_splits)
  show "from_ck_attr a = Ok x \<Longrightarrow> ck_type x = attr_type a"
    by (subst (asm) from_ck_attr.simps)
      (auto simp: and_then_eq_Ok split: option.splits attr_type.splits dest: tt)
qed

lemma from_ck_template_attrtype: "from_ck_template t a = Ok x \<Longrightarrow> attrtype x = TemplateType"
  by (subst (asm) from_ck_template.simps)
    (auto simp: and_then_eq_Ok from_template_bytes_def split: if_splits)

text \<open>The result of a conversion carries the value type the table gives for its id.\<close>

lemma from_ck_attr_typed: "from_ck_attr a = Ok x \<Longrightarrow> typed_attr x"
proof -
  assume ok: "from_ck_attr a = Ok x"
  have "attrtype x = am_atype m" if "search_by_id (attr_type a) = Some m" for m
    using ok that
    by (subst (asm) from_ck_attr.simps)
      (auto simp: and_then_eq_Ok attribute_ctors split: attr_type.splits
        dest: from_ck_template_attrtype)
  moreover obtain m where "search_by_id (attr_type a) = Some m"
    using ok by (subst (asm) from_ck_attr.simps) (auto split: option.splits)
  ultimately show ?thesis
    using from_ck_attr_type[OF ok] by (simp add: typed_attr_def attr_id_to_attrtype_def)
qed

lemma match_ck_attr_type: "match_ck_attr x a \<Longrightarrow> ck_type x = attr_type a"
  by (simp add: match_ck_attr_def split: if_splits)

end
