(* ===== verification/Attribute_Laws.thy ===== *)
theory Attribute_Laws
  imports Attributes
begin

text \<open>
  What \<^verbatim>\<open>src/src/attribute.rs\<close> guarantees: the lookup in the sorted attribute table, the stored
  form of nested templates, and the merging of a stored template into a request.
\<close>

text \<open>
  The binary search in the attribute table (\<^verbatim>\<open>AttrMap::search_by_id\<close>) finds exactly the entry a
  linear search finds, for every 64-bit id; the entries of the table are found by their own id.
\<close>

theorem attribute_table_lookup:
  "search_by_id i = List.find (\<lambda>a. am_id a = i) ATTRMAP \<and>
    (\<forall>a \<in> set ATTRMAP. search_by_id (am_id a) = Some a)"
proof -
  have "distinct (map am_id ATTRMAP)"
    using ids_ascending_ATTRMAP by (simp add: ids_ascending_def strict_sorted_iff)
  then have "search_by_id (am_id a) = Some a" if "a \<in> set ATTRMAP" for a
    using that by (simp add: search_by_id_find find_Some_iff_distinct)
  then show ?thesis by (simp add: search_by_id_find)
qed

theorem attribute_table_lookup_witness:
  "search_by_id CKA_CLASS = Some (attrmap_element CKA_CLASS ''CKA_CLASS'' NumType)"
proof -
  have "attrmap_element CKA_CLASS ''CKA_CLASS'' NumType \<in> set ATTRMAP"
    by (simp add: ATTRMAP_def)
  from bspec[OF conjunct2[OF attribute_table_lookup] this] show ?thesis
    by (simp add: attrmap_element_def)
qed

text \<open>
  C40. The stored form of a nested template round-trips both ways: what \<^verbatim>\<open>serialize_template\<close> writes,
  \<^verbatim>\<open>deserialize_template\<close> reads back (for attributes typed as the table says), and a non-empty
  buffer that \<^verbatim>\<open>deserialize_template\<close> accepts is exactly the serialization of what it returned,
  so that no two buffers stand for one template.
\<close>

theorem template_roundtrip:
  "(serialize_template attrs = Ok buf \<and> (\<forall>a \<in> set attrs. typed_attr a) \<longrightarrow>
      deserialize_template buf = Ok attrs) \<and>
    (deserialize_template buf = Ok attrs \<and> buf \<noteq> [] \<and> length buf < usize_range \<longrightarrow>
      serialize_template attrs = Ok buf \<and> (\<forall>a \<in> set attrs. typed_attr a))"
  using deserialize_serialize[of attrs buf] deserialize_OkD[of buf attrs] by blast

definition sample_template :: "attribute list" where
  "sample_template = [from_bool CKA_ENCRYPT True, from_ulong CKA_VALUE_LEN 32]"

lemma typed_sample_template: "\<forall>a \<in> set sample_template. typed_attr a"
  by (simp add: sample_template_def typed_attr_def attr_id_to_attrtype_def search_by_id_find
      ATTRMAP_def from_bool_def from_ulong_def)

lemma sample_template_Ok: "\<exists>buf. serialize_template sample_template = Ok buf"
  by (simp add: serialize_template_Ok_iff serializable_def sample_template_def from_bool_def
      from_ulong_def le64.length_enc)

theorem template_roundtrip_witness:
  "\<exists>buf. serialize_template sample_template = Ok buf \<and>
    deserialize_template buf = Ok sample_template"
proof -
  obtain buf where buf: "serialize_template sample_template = Ok buf"
    using sample_template_Ok by blast
  then show ?thesis using template_roundtrip[of sample_template buf] typed_sample_template by blast
qed

section \<open>Merging a stored template into a request\<close>

definition merge_step :: "ck_attrs \<Rightarrow> ck_attrs \<Rightarrow> attribute \<Rightarrow> ck_attrs result" where
  "merge_step raw merged stored =
    (case List.find (\<lambda>a. attr_type a = ck_type stored) raw of
       Some req_attr \<Rightarrow>
         if \<not> match_ck_attr stored req_attr then Err CKR_TEMPLATE_INCONSISTENT else Ok merged
     | None \<Rightarrow> add_owned_slice (ck_type stored) (val stored) merged)"

lemma merge_step_OkD:
  assumes "merge_step raw merged s = Ok m" and "length (val s) < usize_range"
  shows "m = merged @ (if List.find (\<lambda>a. attr_type a = ck_type s) raw = None
      then [ck_attr_of (ck_type s) (val s)] else []) \<and>
    (\<forall>r. List.find (\<lambda>a. attr_type a = ck_type s) raw = Some r \<longrightarrow> match_ck_attr s r)"
  using assms by (auto simp: merge_step_def add_owned_slice_Ok split: option.splits if_splits)

lemma merge_loop_OkD:
  assumes "try_fold (merge_step raw) merged st = Ok m" and "\<forall>s \<in> set st. length (val s) < usize_range"
  shows "m = merged @ map (\<lambda>s. ck_attr_of (ck_type s) (val s))
        (filter (\<lambda>s. List.find (\<lambda>a. attr_type a = ck_type s) raw = None) st) \<and>
    (\<forall>s \<in> set st. \<forall>r. List.find (\<lambda>a. attr_type a = ck_type s) raw = Some r \<longrightarrow> match_ck_attr s r)"
  using assms
proof (induction st arbitrary: merged)
  case (Cons s st)
  then obtain m1 where "merge_step raw merged s = Ok m1" "try_fold (merge_step raw) m1 st = Ok m"
    by (auto simp: and_then_eq_Ok)
  then show ?case using Cons.IH[of m1] Cons.prems(2) merge_step_OkD[of raw merged s m1] by auto
qed simp

definition sample_stored :: attribute where
  "sample_stored = mk_attribute CKA_DERIVE_TEMPLATE TemplateType
    (u32_to_le 2 @ encode_attrs sample_template)"

lemma length_sample_stored: "length (val sample_stored) < usize_range"
  by (simp add: sample_stored_def sample_template_def from_bool_def from_ulong_def)

lemma to_template_sample: "to_template sample_stored = Ok sample_template"
proof -
  have "serialize_template sample_template = Ok (u32_to_le 2 @ encode_attrs sample_template)"
    by (simp add: serialize_template_Ok_iff serializable_def sample_template_def from_bool_def
        from_ulong_def)
  then have "deserialize_template (u32_to_le 2 @ encode_attrs sample_template) = Ok sample_template"
    using typed_sample_template by (rule deserialize_serialize)
  then show ?thesis by (simp add: to_template_def sample_stored_def)
qed

lemma merge_sample:
  "merge_template_attribute sample_stored [ck_attr_of CKA_ENCRYPT [1]] =
    Ok [ck_attr_of CKA_ENCRYPT [1], ck_attr_of CKA_VALUE_LEN (u64_to_le 32)]"
  by (simp add: merge_template_attribute_def to_template_sample sample_template_def
      match_ck_attr_def add_owned_slice_Ok from_bool_def from_ulong_def)

text \<open>
  A stored template is enforced on the request it is merged into (\<^verbatim>\<open>merge_template_attribute\<close>):
  the request keeps all its entries in order; every stored attribute that the request names too
  has been compared and matches; every other stored attribute is appended with its stored value,
  and nothing else is added.
\<close>

theorem merge_enforces_stored_template:
  assumes "merge_template_attribute ta request = Ok merged" and "length (val ta) < usize_range"
  shows "\<exists>stored. to_template ta = Ok stored \<and>
    merged = request @ map (\<lambda>s. ck_attr_of (ck_type s) (val s))
      (filter (\<lambda>s. find_attr (ck_type s) request = None) stored) \<and>
    (\<forall>s \<in> set stored. \<forall>r. find_attr (ck_type s) request = Some r \<longrightarrow> match_ck_attr s r)"
proof -
  obtain st where st: "to_template ta = Ok st"
      "try_fold (merge_step request) request st = Ok merged \<or> st = [] \<and> merged = request"
    using assms(1)
    by (auto simp: merge_template_attribute_def and_then_eq_Ok merge_step_def[abs_def]
        split: if_splits)
  have "\<forall>s \<in> set st. length (val s) < usize_range"
    using st(1) deserialized_short[OF _ assms(2)] by (auto simp: to_template_def split: if_splits)
  then show ?thesis
    using st merge_loop_OkD[of request request st merged] by (auto simp: find_attr_def)
qed

theorem merge_enforces_stored_template_witness:
  "merge_template_attribute sample_stored [ck_attr_of CKA_ENCRYPT [1]] =
      Ok [ck_attr_of CKA_ENCRYPT [1], ck_attr_of CKA_VALUE_LEN (u64_to_le 32)] \<and>
    (\<exists>stored. to_template sample_stored = Ok stored \<and> length stored = 2)"
  using merge_enforces_stored_template[OF merge_sample length_sample_stored]
    merge_sample to_template_sample
  by (auto simp: sample_template_def)

text \<open>
  A request that contradicts a stored template is refused: when some stored attribute is named
  by the request with another value, the merge ends with \<^verbatim>\<open>CKR_TEMPLATE_INCONSISTENT\<close>.
\<close>

theorem merge_refuses_contradiction:
  assumes st: "to_template ta = Ok stored" and fit: "length (val ta) < usize_range"
    and bad: "s \<in> set stored" "find_attr (ck_type s) request = Some r" "\<not> match_ck_attr s r"
  shows "merge_template_attribute ta request = Err CKR_TEMPLATE_INCONSISTENT"
proof -
  have short: "\<forall>s \<in> set stored. length (val s) < usize_range"
    using st deserialized_short[OF _ fit] by (auto simp: to_template_def split: if_splits)
  have "try_fold (merge_step request) m xs = Err CKR_TEMPLATE_INCONSISTENT"
    if "s \<in> set xs" "set xs \<subseteq> set stored" for m xs
    using that
  proof (induction xs arbitrary: m)
    case (Cons x xs)
    show ?case
    proof (cases "merge_step request m x")
      case (Inl e)
      then show ?thesis using Cons.prems short
        by (auto simp: merge_step_def add_owned_slice_Ok split: option.splits if_splits)
    next
      case (Inr m')
      have "x \<noteq> s" using Inr bad by (auto simp: merge_step_def find_attr_def)
      then show ?thesis using Inr Cons by auto
    qed
  qed simp
  then have "try_fold (merge_step request) request stored = Err CKR_TEMPLATE_INCONSISTENT"
    using bad(1) by blast
  then show ?thesis using st bad(1)
    by (auto simp: merge_template_attribute_def merge_step_def[abs_def])
qed

theorem merge_refuses_contradiction_witness:
  "merge_template_attribute sample_stored [ck_attr_of CKA_ENCRYPT [0]] = Err CKR_TEMPLATE_INCONSISTENT"
  by (rule merge_refuses_contradiction[OF to_template_sample length_sample_stored,
        of "from_bool CKA_ENCRYPT True" _ "ck_attr_of CKA_ENCRYPT [0]"])
    (simp_all add: sample_template_def find_attr_def match_ck_attr_def from_bool_def)

end
