(* ===== verification/Objects.thy ===== *)
theory Objects
  imports Attributes
begin

text \<open>
  \<^verbatim>\<open>src/src/object/mod.rs\<close>: the \<^verbatim>\<open>Object\<close> container, its typed accessors, the boolean checkers
  with their defaults, template matching, and the \<^verbatim>\<open>ensure_*\<close> helpers. Zeroization of memory
  on drop has no functional effect and is represented by the flag only.
\<close>

section \<open>The object record\<close>

record object =
  o_handle :: ck_ulong
  o_session :: ck_ulong
  o_class :: ck_ulong
  o_attributes :: "attribute list"
  o_zeroize :: bool

definition new_object :: "ck_ulong \<Rightarrow> object" where
  "new_object c =
    \<lparr>o_handle = CK_INVALID_HANDLE, o_session = CK_INVALID_HANDLE, o_class = c,
     o_attributes = [from_ulong CKA_CLASS c], o_zeroize = False\<rparr>"

definition set_zeroize :: "object \<Rightarrow> object" where
  "set_zeroize o1 = o1\<lparr>o_zeroize := True\<rparr>"

definition push_attribute :: "attribute \<Rightarrow> object \<Rightarrow> object" where
  "push_attribute a o1 = o1\<lparr>o_attributes := o_attributes o1 @ [a]\<rparr>"

definition get_attr :: "ck_ulong \<Rightarrow> object \<Rightarrow> attribute option" where
  "get_attr t o1 = List.find (\<lambda>r. ck_type r = t) (o_attributes o1)"

text \<open>
  \<^verbatim>\<open>generate_unique\<close>: the random UUID drawn by \<^verbatim>\<open>Uuid::new_v4\<close> is an argument.
\<close>

definition generate_unique :: "bytes \<Rightarrow> object \<Rightarrow> object" where
  "generate_unique uuid o1 =
    (if \<exists>r \<in> set (o_attributes o1). ck_type r = CKA_UNIQUE_ID then o1
     else push_attribute (from_string CKA_UNIQUE_ID uuid) o1)"

definition set_handle :: "ck_ulong \<Rightarrow> object \<Rightarrow> object" where
  "set_handle h o1 = o1\<lparr>o_handle := h\<rparr>"

definition set_session :: "ck_ulong \<Rightarrow> object \<Rightarrow> object" where
  "set_session s o1 = o1\<lparr>o_session := s\<rparr>"

section \<open>Typed access\<close>

definition bool_checker :: "ck_ulong \<Rightarrow> bool \<Rightarrow> object \<Rightarrow> bool" where
  "bool_checker t dflt o1 =
    (case get_attr t o1 of
       Some a \<Rightarrow> (case to_bool a of Inr b \<Rightarrow> b | Inl _ \<Rightarrow> dflt)
     | None \<Rightarrow> dflt)"

definition is_token :: "object \<Rightarrow> bool" where
  "is_token = bool_checker CKA_TOKEN False"

definition is_private :: "object \<Rightarrow> bool" where
  "is_private = bool_checker CKA_PRIVATE True"

definition is_always_sensitive :: "object \<Rightarrow> bool" where
  "is_always_sensitive = bool_checker CKA_ALWAYS_SENSITIVE True"

definition is_copyable :: "object \<Rightarrow> bool" where
  "is_copyable = bool_checker CKA_COPYABLE True"

definition is_modifiable :: "object \<Rightarrow> bool" where
  "is_modifiable = bool_checker CKA_MODIFIABLE True"

definition is_destroyable :: "object \<Rightarrow> bool" where
  "is_destroyable = bool_checker CKA_DESTROYABLE False"

definition is_never_extractable :: "object \<Rightarrow> bool" where
  "is_never_extractable = bool_checker CKA_NEVER_EXTRACTABLE False"

definition always_auth :: "object \<Rightarrow> bool" where
  "always_auth = bool_checker CKA_ALWAYS_AUTHENTICATE False"

definition is_secret_class :: "ck_ulong \<Rightarrow> bool" where
  "is_secret_class c \<longleftrightarrow> c = CKO_PRIVATE_KEY \<or> c = CKO_SECRET_KEY \<or> c = CKO_OTP_KEY"

definition is_sensitive :: "object \<Rightarrow> bool" where
  "is_sensitive o1 =
    (if is_secret_class (o_class o1) then bool_checker CKA_SENSITIVE True o1 else False)"

definition is_extractable :: "object \<Rightarrow> bool" where
  "is_extractable o1 =
    (if is_secret_class (o_class o1) then bool_checker CKA_EXTRACTABLE False o1 else True)"

lemmas object_checkers =
  is_token_def is_private_def is_always_sensitive_def is_copyable_def is_modifiable_def
  is_destroyable_def is_never_extractable_def always_auth_def

definition attr_as :: "attr_type \<Rightarrow> (attribute \<Rightarrow> 'a result) \<Rightarrow> ck_ulong \<Rightarrow> object \<Rightarrow> 'a result" where
  "attr_as at conv t o1 =
    (case get_attr t o1 of
       Some a \<Rightarrow> if attrtype a \<noteq> at then Err CKR_ATTRIBUTE_TYPE_INVALID else conv a
     | None \<Rightarrow> Inl AttributeNotFound)"

definition get_attr_as_bool :: "ck_ulong \<Rightarrow> object \<Rightarrow> bool result" where
  "get_attr_as_bool = attr_as BoolType to_bool"

definition get_attr_as_ulong :: "ck_ulong \<Rightarrow> object \<Rightarrow> ck_ulong result" where
  "get_attr_as_ulong = attr_as NumType to_ulong"

definition get_attr_as_string :: "ck_ulong \<Rightarrow> object \<Rightarrow> bytes result" where
  "get_attr_as_string = attr_as StringType to_string"

definition get_attr_as_bytes :: "ck_ulong \<Rightarrow> object \<Rightarrow> bytes result" where
  "get_attr_as_bytes = attr_as BytesType to_bytes"

lemmas attr_as_defs =
  get_attr_as_bool_def get_attr_as_ulong_def get_attr_as_string_def get_attr_as_bytes_def attr_as_def

section \<open>Updates\<close>

definition set_attr :: "attribute \<Rightarrow> object \<Rightarrow> object result" where
  "set_attr a o1 =
    and_then (if ck_type a = CKA_CLASS then to_ulong a else Ok (o_class o1))
      (\<lambda>c. Ok (o1\<lparr>o_class := c, o_attributes := upsert ck_type a (o_attributes o1)\<rparr>))"

definition del_attr :: "ck_ulong \<Rightarrow> object \<Rightarrow> object" where
  "del_attr t o1 = o1\<lparr>o_attributes := filter (\<lambda>a. ck_type a \<noteq> t) (o_attributes o1)\<rparr>"

definition blind_copy :: "bytes \<Rightarrow> object \<Rightarrow> object result" where
  "blind_copy uuid o1 =
    (let fresh = generate_unique uuid (new_object (o_class o1)) in
     Ok (fresh\<lparr>o_attributes :=
       o_attributes fresh @ filter (\<lambda>a. ck_type a \<noteq> CKA_UNIQUE_ID) (o_attributes o1)\<rparr>))"

text \<open>
  \<^verbatim>\<open>generate_stable_unique\<close>: the formatting of a version 8 UUID is the \<^verbatim>\<open>uuid\<close> crate's and is
  the argument \<open>uuid_v8\<close>; the sixteen bytes it is given are the code's.
\<close>

definition to_be_bytes32 :: "u32 \<Rightarrow> bytes" where
  "to_be_bytes32 w = rev (u32_to_le w)"

definition stable_uuid_input :: "ck_ulong \<Rightarrow> ck_ulong \<Rightarrow> bytes" where
  "stable_uuid_input c stable_id =
    [0x6B, 0x72, 0x79, 0x6F, 0x70, 0x74, 0x69, 0x63] @
    to_be_bytes32 (ucast (c AND 0xFFFFFFFF)) @ to_be_bytes32 (ucast (stable_id AND 0xFFFFFFFF))"

definition generate_stable_unique :: "(bytes \<Rightarrow> bytes) \<Rightarrow> ck_ulong \<Rightarrow> object \<Rightarrow> object" where
  "generate_stable_unique uuid_v8 stable_id o1 =
    (if \<exists>r \<in> set (o_attributes o1). ck_type r = CKA_UNIQUE_ID then o1
     else
       let c = (case get_attr_as_ulong CKA_CLASS o1 of
                  Inr c \<Rightarrow> c | Inl _ \<Rightarrow> CK_UNAVAILABLE_INFORMATION) in
       push_attribute (from_string CKA_UNIQUE_ID (uuid_v8 (stable_uuid_input c stable_id))) o1)"

definition obj_match_template :: "ck_attrs \<Rightarrow> object \<Rightarrow> bool" where
  "obj_match_template template o1 \<longleftrightarrow>
    (\<forall>ck_attr \<in> set template. \<exists>r \<in> set (o_attributes o1). match_ck_attr r ck_attr)"

definition check_key_ops :: "ck_ulong \<Rightarrow> ck_ulong \<Rightarrow> ck_ulong \<Rightarrow> object \<Rightarrow> unit result" where
  "check_key_ops c ktype op o1 =
    and_then (get_attr_as_ulong CKA_CLASS o1) (\<lambda>oc.
      if oc \<noteq> c then Err CKR_KEY_TYPE_INCONSISTENT
      else and_then
        (if ktype \<noteq> CK_UNAVAILABLE_INFORMATION
         then and_then (get_attr_as_ulong CKA_KEY_TYPE o1) (\<lambda>kt.
           if kt \<noteq> ktype then Err CKR_KEY_TYPE_INCONSISTENT else Ok ())
         else Ok ())
        (\<lambda>_. if (case get_attr_as_bool op o1 of Inr b \<Rightarrow> b | Inl _ \<Rightarrow> False)
             then Ok () else Err CKR_KEY_FUNCTION_NOT_PERMITTED))"

text \<open>\<^verbatim>\<open>size_of::<Attribute>()\<close> is 40 on the modelled target (a vector, an id and the value type).\<close>

definition sizeof_attribute :: nat where
  "sizeof_attribute = 40"

definition rough_size :: "object \<Rightarrow> nat result" where
  "rough_size o1 =
    Ok (fold (\<lambda>v sz. sz + length (val v)) (o_attributes o1)
          (sizeof_attribute * length (o_attributes o1)))"

definition ensure_ulong :: "ck_ulong \<Rightarrow> ck_ulong \<Rightarrow> object \<Rightarrow> object result" where
  "ensure_ulong t v o1 =
    (case get_attr t o1 of
       Some a \<Rightarrow> and_then (to_ulong a) (\<lambda>n.
         if n \<noteq> v then Err CKR_ATTRIBUTE_VALUE_INVALID else Ok o1)
     | None \<Rightarrow> Ok (push_attribute (from_ulong t v) o1))"

definition ensure_slice :: "ck_ulong \<Rightarrow> bytes \<Rightarrow> object \<Rightarrow> object result" where
  "ensure_slice t v o1 =
    (case get_attr t o1 of
       Some a \<Rightarrow> if val a \<noteq> v then Err CKR_ATTRIBUTE_VALUE_INVALID else Ok o1
     | None \<Rightarrow> Ok (push_attribute (from_bytes t v) o1))"

definition ensure_bytes :: "ck_ulong \<Rightarrow> bytes \<Rightarrow> object \<Rightarrow> object result" where
  "ensure_bytes t v o1 =
    (case get_attr t o1 of
       Some a \<Rightarrow> if val a \<noteq> v then Err CKR_ATTRIBUTE_VALUE_INVALID else Ok o1
     | None \<Rightarrow> Ok (push_attribute (from_bytes t v) o1))"

section \<open>Laws of the accessors\<close>

named_theorems obj_simps \<open>lookups through the updates of an object\<close>

lemma get_attr_new_object [obj_simps]:
  "get_attr t (new_object c) = (if t = CKA_CLASS then Some (from_ulong CKA_CLASS c) else None)"
  by (simp add: get_attr_def new_object_def)

lemma get_attr_push [obj_simps]:
  "get_attr t (push_attribute a o1) =
    (case get_attr t o1 of Some x \<Rightarrow> Some x | None \<Rightarrow> if ck_type a = t then Some a else None)"
  by (simp add: get_attr_def push_attribute_def find_append split: option.splits)

lemma get_attr_del [obj_simps]:
  "get_attr t (del_attr u o1) = (if t = u then None else get_attr t o1)"
  by (simp add: get_attr_def del_attr_def find_filter_other)

lemma get_attr_set: "set_attr a o1 = Ok o2 \<Longrightarrow>
    get_attr t o2 = (if t = ck_type a then Some a else get_attr t o1)"
  by (auto simp: set_attr_def get_attr_def and_then_eq_Ok find_upsert)

lemma get_attr_handle [obj_simps]:
  "get_attr t (set_handle h o1) = get_attr t o1" "get_attr t (set_session s o1) = get_attr t o1"
  "get_attr t (set_zeroize o1) = get_attr t o1"
  by (simp_all add: get_attr_def set_handle_def set_session_def set_zeroize_def)

lemma set_attr_other_class:
  "ck_type a \<noteq> CKA_CLASS \<Longrightarrow>
    set_attr a o1 = Ok (o1\<lparr>o_attributes := upsert ck_type a (o_attributes o1)\<rparr>)"
  by (simp add: set_attr_def)

lemma set_attr_is_ok: "is_ok (set_attr a o1) \<longleftrightarrow> ck_type a \<noteq> CKA_CLASS \<or> is_ok (to_ulong a)"
  by (auto simp: set_attr_def is_ok_iff and_then_eq_Ok)

lemma get_attr_Some_in: "get_attr t o1 = Some a \<Longrightarrow> a \<in> set (o_attributes o1) \<and> ck_type a = t"
  by (auto simp: get_attr_def dest: find_SomeD)

lemma get_attr_None_iff: "get_attr t o1 = None \<longleftrightarrow> t \<notin> ck_type ` set (o_attributes o1)"
  by (simp add: get_attr_def find_None_key)

text \<open>The checkers depend on the looked-up attribute only.\<close>

lemma bool_checker_cong: "get_attr t o1 = get_attr t o2 \<Longrightarrow> bool_checker t d o1 = bool_checker t d o2"
  by (simp add: bool_checker_def)

lemma attr_as_cong: "get_attr t o1 = get_attr t o2 \<Longrightarrow> attr_as at f t o1 = attr_as at f t o2"
  by (simp add: attr_as_def)

lemma get_attr_as_cong:
  assumes "get_attr t o1 = get_attr t o2"
  shows "get_attr_as_bool t o1 = get_attr_as_bool t o2"
    and "get_attr_as_ulong t o1 = get_attr_as_ulong t o2"
    and "get_attr_as_bytes t o1 = get_attr_as_bytes t o2"
    and "get_attr_as_string t o1 = get_attr_as_string t o2"
  using assms by (simp_all add: attr_as_defs)

lemma bool_checker_set:
  "set_attr a o1 = Ok o2 \<Longrightarrow> t \<noteq> ck_type a \<Longrightarrow> bool_checker t d o2 = bool_checker t d o1"
  by (rule bool_checker_cong) (simp add: get_attr_set)

lemma bool_checker_set_bool:
  "set_attr (from_bool t b) o1 = Ok o2 \<Longrightarrow> bool_checker t d o2 = b"
  by (simp add: bool_checker_def get_attr_set)

section \<open>Well-formed objects\<close>

text \<open>
  Attribute types are unique except for \<^verbatim>\<open>CKA_CLASS\<close>, which object creation and copying may
  repeat; every \<^verbatim>\<open>CKA_CLASS\<close> entry then agrees with the cached class.
\<close>

definition wf_object :: "object \<Rightarrow> bool" where
  "wf_object o1 \<longleftrightarrow>
    distinct (map ck_type (filter (\<lambda>a. ck_type a \<noteq> CKA_CLASS) (o_attributes o1))) \<and>
    (\<exists>a \<in> set (o_attributes o1). ck_type a = CKA_CLASS) \<and>
    (\<forall>a \<in> set (o_attributes o1). ck_type a = CKA_CLASS \<longrightarrow> to_ulong a = Ok (o_class o1))"

lemma wf_new_object: "wf_object (new_object c)"
  by (simp add: wf_object_def new_object_def)

lemma wf_push:
  assumes "wf_object o1" and "ck_type a = CKA_CLASS \<longrightarrow> to_ulong a = Ok (o_class o1)"
    and "ck_type a \<noteq> CKA_CLASS \<longrightarrow> get_attr (ck_type a) o1 = None"
  shows "wf_object (push_attribute a o1)"
  using assms by (auto simp: wf_object_def push_attribute_def get_attr_None_iff)

lemma upsert_filter_other:
  "k a \<noteq> c \<Longrightarrow> filter (\<lambda>x. k x \<noteq> c) (upsert k a xs) = upsert k a (filter (\<lambda>x. k x \<noteq> c) xs)"
  by (induction xs) auto

lemma in_upsert_other: "k x \<noteq> k a \<Longrightarrow> x \<in> set (upsert k a xs) \<longleftrightarrow> x \<in> set xs"
  by (induction xs) auto

lemma distinct_filter_twice:
  assumes "distinct (map k (filter P xs))"
  shows "distinct (map k (filter P (filter Q xs)))"
proof -
  have "filter P (filter Q xs) = filter Q (filter P xs)" by (simp add: conj_commute)
  then show ?thesis using assms by (simp only: distinct_map_filter)
qed

lemma wf_set_attr:
  assumes "wf_object o1" and "set_attr a o1 = Ok o2" and "ck_type a \<noteq> CKA_CLASS"
  shows "wf_object o2"
proof -
  let ?xs = "o_attributes o1"
  have o2: "o2 = o1\<lparr>o_attributes := upsert ck_type a ?xs\<rparr>"
    using assms(2,3) by (simp add: set_attr_other_class)
  have keep: "x \<in> set (upsert ck_type a ?xs) \<longleftrightarrow> x \<in> set ?xs" if "ck_type x = CKA_CLASS" for x
    using that assms(3) by (intro in_upsert_other) auto
  show ?thesis unfolding o2 wf_object_def
    using assms(1,3) keep
    by (auto simp: wf_object_def upsert_filter_other intro!: distinct_upsert)
qed

lemma wf_generate_unique: "wf_object o1 \<Longrightarrow> wf_object (generate_unique uuid o1)"
  by (auto simp: generate_unique_def get_attr_None_iff intro!: wf_push)

lemma wf_del_attr: "wf_object o1 \<Longrightarrow> t \<noteq> CKA_CLASS \<Longrightarrow> wf_object (del_attr t o1)"
  unfolding wf_object_def del_attr_def
  by (auto simp del: filter_filter intro!: distinct_filter_twice)

lemma wf_blind_copy:
  assumes "wf_object o1" and "blind_copy uuid o1 = Ok o2"
  shows "wf_object o2"
proof -
  have o2: "o_class o2 = o_class o1" "o_attributes o2 =
      [from_ulong CKA_CLASS (o_class o1), from_string CKA_UNIQUE_ID uuid] @
      filter (\<lambda>a. ck_type a \<noteq> CKA_UNIQUE_ID) (o_attributes o1)"
    using assms(2) by (auto simp: blind_copy_def generate_unique_def new_object_def push_attribute_def)
  show ?thesis
    using assms(1)
    by (auto simp: wf_object_def o2 simp del: filter_filter intro!: distinct_filter_twice)
qed

end
