(* ===== verification/Factories.thy ===== *)
theory Factories
  imports Objects
begin

text \<open>
  \<^verbatim>\<open>src/src/object/factory.rs\<close>: attribute flags, factory data, object creation from a template,
  copying, modification and reading of attributes, the data, profile and mechanism factories
  and the registry \<^verbatim>\<open>ObjectFactories\<close>. A \<^verbatim>\<open>dyn ObjectFactory\<close> is a record of its operations.
\<close>

section \<open>Attribute flags\<close>

type_synonym oaflags = u32

definition Ignored :: oaflags where "Ignored = 0x00000001"
definition Sensitive :: oaflags where "Sensitive = 0x00000002"
definition Defval :: oaflags where "Defval = 0x00000004"
definition RequiredOnCreate :: oaflags where "RequiredOnCreate = 0x00000008"
definition RequiredOnGenerate :: oaflags where "RequiredOnGenerate = 0x00000010"
definition AlwaysRequired :: oaflags where "AlwaysRequired = 0x00000020"
definition SettableOnlyOnCreate :: oaflags where "SettableOnlyOnCreate = 0x00000080"
definition NeverSettable :: oaflags where "NeverSettable = 0x00000100"
definition Unchangeable :: oaflags where "Unchangeable = 0x00000400"
definition ChangeToFalse :: oaflags where "ChangeToFalse = 0x00000C00"
definition ChangeToTrue :: oaflags where "ChangeToTrue = 0x00001400"
definition ChangeOnCopy :: oaflags where "ChangeOnCopy = 0x00002400"
definition Ephemeral :: oaflags where "Ephemeral = 0x00008000"

lemmas oaflag_defs =
  Ignored_def Sensitive_def Defval_def RequiredOnCreate_def RequiredOnGenerate_def
  AlwaysRequired_def SettableOnlyOnCreate_def NeverSettable_def Unchangeable_def
  ChangeToFalse_def ChangeToTrue_def ChangeOnCopy_def Ephemeral_def

text \<open>\<^verbatim>\<open>contains\<close> of the \<^verbatim>\<open>bitflags\<close> types: every bit of the argument is set.\<close>

definition flags_contain :: "oaflags \<Rightarrow> oaflags \<Rightarrow> bool" where
  "flags_contain f v \<longleftrightarrow> f AND v = v"

record object_attr =
  oa_attribute :: attribute
  oa_flags :: oaflags

definition attr_element :: "oaflags \<Rightarrow> attribute \<Rightarrow> object_attr" where
  "attr_element f a = \<lparr>oa_attribute = a, oa_flags = f\<rparr>"

lemma attr_element_sel [simp]:
  "oa_attribute (attr_element f a) = a" "oa_flags (attr_element f a) = f"
  by (simp_all add: attr_element_def)

definition oa_type :: "object_attr \<Rightarrow> ck_ulong" where
  "oa_type a = ck_type (oa_attribute a)"

definition oa_is :: "object_attr \<Rightarrow> oaflags \<Rightarrow> bool" where
  "oa_is a v = (if v = 0 then False else flags_contain (oa_flags a) v)"

definition has_default :: "object_attr \<Rightarrow> bool" where
  "has_default a = flags_contain (oa_flags a) Defval"

lemma oa_type_attr_element [simp]: "oa_type (attr_element f a) = ck_type a"
  by (simp add: oa_type_def)

text \<open>A test for a union of flags asks for all of them, not for any of them.\<close>

lemma flags_contain_or: "flags_contain f (v OR w) \<longleftrightarrow> flags_contain f v \<and> flags_contain f w"
  unfolding flags_contain_def
  by (auto simp: bit_eq_iff bit_simps)

lemma oa_is_or: "v \<noteq> 0 \<Longrightarrow> w \<noteq> 0 \<Longrightarrow> oa_is a (v OR w) \<longleftrightarrow> oa_is a v \<and> oa_is a w"
  by (auto simp: oa_is_def flags_contain_or or_eq_0_iff)

section \<open>Factory data\<close>

record factory_data =
  fd_class :: ck_ulong
  fd_attributes :: "object_attr list"
  fd_sensitive :: "ck_ulong list"
  fd_ephemeral :: "ck_ulong list"
  fd_finalized :: bool

definition new_factory_data :: "ck_ulong \<Rightarrow> factory_data" where
  "new_factory_data c =
    \<lparr>fd_class = c, fd_attributes = [], fd_sensitive = [], fd_ephemeral = [], fd_finalized = False\<rparr>"

text \<open>
  The constructors push attributes through \<^verbatim>\<open>get_attributes_mut\<close>, which panics on finalized
  data; every constructor of the crate pushes before it finalizes.
\<close>

definition push_attrs :: "object_attr list \<Rightarrow> factory_data \<Rightarrow> factory_data result" where
  "push_attrs as fd =
    (if fd_finalized fd then Inl Panic
     else Ok (fd\<lparr>fd_attributes := fd_attributes fd @ as\<rparr>))"

definition finalize_data :: "factory_data \<Rightarrow> factory_data" where
  "finalize_data fd =
    fd\<lparr>fd_sensitive := fd_sensitive fd @
         map oa_type (filter (\<lambda>a. oa_is a Sensitive) (fd_attributes fd)),
       fd_ephemeral := fd_ephemeral fd @
         map oa_type (filter (\<lambda>a. oa_is a Ephemeral) (fd_attributes fd)),
       fd_finalized := True\<rparr>"

definition common_object_attrs :: "object_attr list" where
  "common_object_attrs =
    [attr_element RequiredOnCreate (from_ulong CKA_CLASS 0),
     attr_element (NeverSettable OR Unchangeable) (from_string CKA_UNIQUE_ID [])]"

definition common_storage_attrs :: "bool \<Rightarrow> object_attr list" where
  "common_storage_attrs private =
    common_object_attrs @
    [attr_element (Defval OR ChangeOnCopy) (from_bool CKA_TOKEN False),
     attr_element (Defval OR ChangeOnCopy) (from_bool CKA_PRIVATE private),
     attr_element (Defval OR ChangeOnCopy) (from_bool CKA_MODIFIABLE True),
     attr_element 0 (from_string CKA_LABEL []),
     attr_element (Defval OR ChangeToFalse) (from_bool CKA_COPYABLE True),
     attr_element Defval (from_bool CKA_DESTROYABLE True)]"

definition find_oattr :: "factory_data \<Rightarrow> ck_ulong \<Rightarrow> object_attr option" where
  "find_oattr fd t = List.find (\<lambda>a. oa_type a = t) (fd_attributes fd)"

section \<open>Creation\<close>

text \<open>The body of the first loop of \<^verbatim>\<open>internal_object_create\<close>: one template attribute.\<close>

definition create_step :: "factory_data \<Rightarrow> oaflags \<Rightarrow> object \<Rightarrow> ck_attribute \<Rightarrow> object result" where
  "create_step fd unacceptable o1 ck_attr =
    (case find_oattr fd (attr_type ck_attr) of
       None \<Rightarrow> Err CKR_ATTRIBUTE_VALUE_INVALID
     | Some attr \<Rightarrow>
       if oa_is attr unacceptable then Err CKR_ATTRIBUTE_TYPE_INVALID
       else and_then
         (case get_attr (attr_type ck_attr) o1 of
            None \<Rightarrow> Ok ()
          | Some oa \<Rightarrow>
            if ck_type oa \<noteq> CKA_CLASS then Err CKR_TEMPLATE_INCONSISTENT
            else and_then (ck_to_ulong ck_attr) (\<lambda>n. and_then (to_ulong oa) (\<lambda>m.
              if n \<noteq> m then Err CKR_TEMPLATE_INCONSISTENT else Ok ())))
         (\<lambda>_. if oa_is attr Ignored then Ok o1
              else and_then (from_ck_attr ck_attr) (\<lambda>x. Ok (push_attribute x o1))))"

text \<open>The body of the second loop: defaults and required attributes.\<close>

definition default_step :: "oaflags \<Rightarrow> object \<Rightarrow> object_attr \<Rightarrow> object result" where
  "default_step required o1 attr =
    (case get_attr (oa_type attr) o1 of
       Some _ \<Rightarrow> Ok o1
     | None \<Rightarrow>
       if has_default attr then Ok (push_attribute (oa_attribute attr) o1)
       else if oa_is attr required \<or> oa_is attr AlwaysRequired then Err CKR_TEMPLATE_INCOMPLETE
       else Ok o1)"

definition internal_object_create ::
    "factory_data \<Rightarrow> ck_attrs \<Rightarrow> oaflags \<Rightarrow> oaflags \<Rightarrow> object result" where
  "internal_object_create fd template unacceptable required =
    and_then (try_fold (create_step fd unacceptable) (new_object (fd_class fd)) template)
      (\<lambda>o1. try_fold (default_step required) o1 (fd_attributes fd))"

definition default_object_create :: "factory_data \<Rightarrow> bytes \<Rightarrow> ck_attrs \<Rightarrow> object result" where
  "default_object_create fd uuid template =
    and_then (internal_object_create fd template NeverSettable RequiredOnCreate)
      (\<lambda>o1. Ok (generate_unique uuid o1))"

definition set_attribute_default :: "factory_data \<Rightarrow> ck_ulong \<Rightarrow> object \<Rightarrow> object result" where
  "set_attribute_default fd t o1 =
    (case find_oattr fd t of
       Some defattr \<Rightarrow> if has_default defattr then set_attr (oa_attribute defattr) o1 else Ok o1
     | None \<Rightarrow> Ok o1)"

section \<open>Copy\<close>

definition copy_check :: "factory_data \<Rightarrow> object \<Rightarrow> unit \<Rightarrow> ck_attribute \<Rightarrow> unit result" where
  "copy_check fd origin _ ck_attr =
    (case find_oattr fd (attr_type ck_attr) of
       None \<Rightarrow> Err CKR_TEMPLATE_INCONSISTENT
     | Some attr \<Rightarrow>
       if oa_is attr Unchangeable then
         and_then
           (if oa_is attr (ChangeToFalse OR ChangeToTrue) then
              (let v = (case get_attr_as_bool (attr_type ck_attr) origin of
                          Inr a \<Rightarrow> a | Inl _ \<Rightarrow> False) in
               if v \<and> \<not> oa_is attr ChangeToFalse then Err CKR_ATTRIBUTE_READ_ONLY
               else if \<not> v \<and> \<not> oa_is attr ChangeToTrue then Err CKR_ATTRIBUTE_READ_ONLY
               else Ok ())
            else Ok ())
           (\<lambda>_. if \<not> oa_is attr ChangeOnCopy then Err CKR_ATTRIBUTE_READ_ONLY else Ok ())
       else Ok ())"

definition set_from_ck :: "object \<Rightarrow> ck_attribute \<Rightarrow> object result" where
  "set_from_ck o1 ck_attr = and_then (from_ck_attr ck_attr) (\<lambda>x. set_attr x o1)"

definition copy_never_extractable :: "object \<Rightarrow> object \<Rightarrow> object result" where
  "copy_never_extractable origin o1 =
    (case get_attr_as_bool CKA_EXTRACTABLE o1 of
       Inl _ \<Rightarrow> Ok o1
     | Inr e \<Rightarrow>
       let v =
         (case get_attr_as_bool CKA_NEVER_EXTRACTABLE o1 of
            Inr ne \<Rightarrow> \<not> e \<and> ne
          | Inl _ \<Rightarrow>
            (case get_attr_as_bool CKA_EXTRACTABLE origin of
               Inr oe \<Rightarrow> \<not> e \<and> \<not> oe
             | Inl _ \<Rightarrow> False)) in
       set_attr (from_bool CKA_NEVER_EXTRACTABLE v) o1)"

definition copy_always_sensitive :: "object \<Rightarrow> object \<Rightarrow> object result" where
  "copy_always_sensitive origin o1 =
    (case get_attr_as_bool CKA_SENSITIVE o1 of
       Inl _ \<Rightarrow> Ok o1
     | Inr b \<Rightarrow>
       let v =
         (case get_attr_as_bool CKA_ALWAYS_SENSITIVE origin of
            Inr ob \<Rightarrow> b \<and> ob
          | Inl _ \<Rightarrow>
            (case get_attr_as_bool CKA_SENSITIVE origin of
               Inr os \<Rightarrow> b \<and> os
             | Inl _ \<Rightarrow> False)) in
       set_attr (from_bool CKA_ALWAYS_SENSITIVE v) o1)"

definition default_copy :: "factory_data \<Rightarrow> bytes \<Rightarrow> object \<Rightarrow> ck_attrs \<Rightarrow> object result" where
  "default_copy fd uuid origin template =
    and_then (try_fold (copy_check fd origin) () template) (\<lambda>_.
    and_then (blind_copy uuid origin) (\<lambda>o1.
    and_then (try_fold set_from_ck o1 template) (\<lambda>o2.
    and_then (copy_never_extractable origin o2) (copy_always_sensitive origin))))"

section \<open>Modification\<close>

definition check_set_attribute :: "factory_data \<Rightarrow> unit \<Rightarrow> ck_attribute \<Rightarrow> unit result" where
  "check_set_attribute fd _ ck_attr =
    (case find_oattr fd (attr_type ck_attr) of
       None \<Rightarrow> Err CKR_ATTRIBUTE_TYPE_INVALID
     | Some attr \<Rightarrow>
       if oa_is attr NeverSettable then Err CKR_ACTION_PROHIBITED
       else if oa_is attr Unchangeable then
         (if attrtype (oa_attribute attr) = BoolType then
            and_then (ck_to_bool ck_attr) (\<lambda>v.
              if v then
                (if \<not> oa_is attr ChangeToTrue then Err CKR_ATTRIBUTE_READ_ONLY else Ok ())
              else
                (if \<not> oa_is attr ChangeToFalse then Err CKR_ATTRIBUTE_READ_ONLY else Ok ()))
          else Err CKR_ATTRIBUTE_READ_ONLY)
       else Ok ())"

definition check_set_attributes :: "factory_data \<Rightarrow> ck_attrs \<Rightarrow> unit result" where
  "check_set_attributes fd template = try_fold (check_set_attribute fd) () template"

text \<open>
  The loop that applies the changes works on \<^verbatim>\<open>&mut Object\<close>: when a conversion fails, the
  attributes set so far stay set, so the object is returned beside the result.
\<close>

fun apply_attrs :: "object \<Rightarrow> ck_attrs \<Rightarrow> unit result \<times> object" where
  "apply_attrs o1 [] = (Ok (), o1)"
| "apply_attrs o1 (ck_attr # rest) =
    (case set_from_ck o1 ck_attr of
       Inl e \<Rightarrow> (Inl e, o1)
     | Inr o2 \<Rightarrow> apply_attrs o2 rest)"

definition set_object_attributes :: "factory_data \<Rightarrow> object \<Rightarrow> ck_attrs \<Rightarrow> unit result \<times> object" where
  "set_object_attributes fd o1 template =
    (if \<not> is_modifiable o1 then (Err CKR_ACTION_PROHIBITED, o1)
     else case check_set_attributes fd template of
       Inl e \<Rightarrow> (Inl e, o1)
     | Inr _ \<Rightarrow> apply_attrs o1 template)"

section \<open>Reading attributes\<close>

text \<open>
  The output template is an array the application owns; each entry is updated in place. A
  write through the pointer replaces the first bytes (or structs) of the memory behind it.
\<close>

fun set_len :: "ck_ulong \<Rightarrow> ck_attribute \<Rightarrow> ck_attribute" where
  "set_len n (CkAttribute t p l) = CkAttribute t p n"

fun set_ptr :: "pvalue \<Rightarrow> ck_attribute \<Rightarrow> ck_attribute" where
  "set_ptr q (CkAttribute t p l) = CkAttribute t q l"

fun write_bytes :: "bytes \<Rightarrow> pvalue \<Rightarrow> pvalue" where
  "write_bytes v NullPtr = NullPtr"
| "write_bytes v (Ptr bs as al) = Ptr (v @ drop (length v) bs) as al"

fun write_attrs :: "ck_attribute list \<Rightarrow> pvalue \<Rightarrow> pvalue" where
  "write_attrs xs NullPtr = NullPtr"
| "write_attrs xs (Ptr bs as al) = Ptr bs (xs @ drop (length xs) as) al"

definition first_err :: "ck_rv \<Rightarrow> ck_rv \<Rightarrow> ck_rv" where
  "first_err result e = (if result = CKR_OK then e else result)"

definition fill_value :: "bytes \<Rightarrow> ck_attribute \<Rightarrow> ck_rv \<Rightarrow> ck_attribute \<times> ck_rv" where
  "fill_value v a result =
    (let attr_len = of_nat (length v) in
     if is_null (pValue a) then (set_len attr_len a, result)
     else if ulValueLen a = CK_UNAVAILABLE_INFORMATION
       then (a, first_err result CKR_TEMPLATE_INCONSISTENT)
     else if ulValueLen a < attr_len
       then (set_len CK_UNAVAILABLE_INFORMATION a, first_err result CKR_BUFFER_TOO_SMALL)
     else (set_ptr (write_bytes v (pValue a)) (set_len attr_len a), result))"

definition discovery_attr :: "attribute \<Rightarrow> ck_attribute" where
  "discovery_attr sa = CkAttribute (ck_type sa) NullPtr (of_nat (length (val sa)))"

text \<open>Value retrieval for the inner attributes of a template, in order.\<close>

fun retrieve_inner :: "attribute list \<Rightarrow> ck_attribute list \<Rightarrow> ck_rv \<Rightarrow> ck_attribute list \<times> ck_rv" where
  "retrieve_inner stored [] result = ([], result)"
| "retrieve_inner stored (inner # rest) result =
    (let (inner', result') =
       (case List.find (\<lambda>sa. ck_type sa = attr_type inner) stored of
          Some sa \<Rightarrow> fill_value (val sa) inner result
        | None \<Rightarrow> (set_len CK_UNAVAILABLE_INFORMATION inner,
                   first_err result CKR_TEMPLATE_INCONSISTENT));
       (rest', result'') = retrieve_inner stored rest result'
     in (inner' # rest', result''))"

definition get_template_attribute ::
    "attribute \<Rightarrow> ck_attribute \<Rightarrow> ck_rv \<Rightarrow> (ck_attribute \<times> ck_rv) result" where
  "get_template_attribute oa a result =
    and_then (to_template oa) (\<lambda>stored_attrs.
      let stored_count = length stored_attrs;
          expected_len = of_nat (stored_count * sizeof_ck_attribute);
          inconsistent = Ok (set_len CK_UNAVAILABLE_INFORMATION a,
                             first_err result CKR_TEMPLATE_INCONSISTENT);
          app_count = attr_len a div sizeof_ck_attribute;
          app_attrs = mem_attrs (pValue a) app_count;
          unavail_count = length (filter (\<lambda>x. attr_type x = CK_UNAVAILABLE_INFORMATION) app_attrs)
      in
      if is_null (pValue a) then Ok (set_len expected_len a, result)
      else if attr_len a mod sizeof_ck_attribute \<noteq> 0 then inconsistent
      else if app_count \<noteq> stored_count then inconsistent
      else if app_count = 0 then Ok (set_len 0 a, result)
      else if unavail_count \<noteq> 0 \<and> unavail_count \<noteq> app_count then inconsistent
      else if unavail_count = app_count then
        (if \<exists>x \<in> set app_attrs. \<not> is_null (pValue x) \<or> ulValueLen x \<noteq> 0 then inconsistent
         else Ok (set_ptr (write_attrs (map discovery_attr stored_attrs) (pValue a))
                    (set_len expected_len a), result))
      else if \<not> distinct (map attr_type app_attrs) then inconsistent
      else
        let (app_attrs', result') = retrieve_inner stored_attrs app_attrs result in
        Ok (set_ptr (write_attrs app_attrs' (pValue a)) (set_len expected_len a), result'))"

definition read_attr ::
    "factory_data \<Rightarrow> object \<Rightarrow> bool \<Rightarrow> ck_rv \<Rightarrow> ck_attribute \<Rightarrow> (ck_attribute \<times> ck_rv) result" where
  "read_attr fd o1 sensitive result a =
    (case find_oattr fd (attr_type a) of
       None \<Rightarrow> Ok (set_len CK_UNAVAILABLE_INFORMATION a, first_err result CKR_ATTRIBUTE_TYPE_INVALID)
     | Some fa \<Rightarrow>
       if sensitive \<and> oa_is fa Sensitive then
         Ok (set_len CK_UNAVAILABLE_INFORMATION a, first_err result CKR_ATTRIBUTE_SENSITIVE)
       else case get_attr (attr_type a) o1 of
         Some oa \<Rightarrow>
           if attrtype oa = TemplateType then get_template_attribute oa a result
           else Ok (fill_value (val oa) a result)
       | None \<Rightarrow>
         Ok (set_len CK_UNAVAILABLE_INFORMATION a, first_err result CKR_ATTRIBUTE_TYPE_INVALID))"

fun read_attrs ::
    "factory_data \<Rightarrow> object \<Rightarrow> bool \<Rightarrow> ck_rv \<Rightarrow> ck_attrs \<Rightarrow> ck_rv result \<times> ck_attrs" where
  "read_attrs fd o1 sensitive result [] = (Ok result, [])"
| "read_attrs fd o1 sensitive result (a # rest) =
    (case read_attr fd o1 sensitive result a of
       Inl e \<Rightarrow> (Inl e, a # rest)
     | Inr (a', result') \<Rightarrow>
       let (r, rest') = read_attrs fd o1 sensitive result' rest in (r, a' # rest'))"

definition fd_get_object_attributes ::
    "factory_data \<Rightarrow> object \<Rightarrow> ck_attrs \<Rightarrow> unit result \<times> ck_attrs" where
  "fd_get_object_attributes fd o1 template =
    (let (r, template') =
       read_attrs fd o1 (is_sensitive o1 \<or> \<not> is_extractable o1) CKR_OK template
     in (case r of
           Inl e \<Rightarrow> Inl e
         | Inr result \<Rightarrow> if result = CKR_OK then Ok () else Err result, template'))"

section \<open>Factories and their registry\<close>

text \<open>
  The traits \<^verbatim>\<open>KeyFactory\<close>, \<^verbatim>\<open>PubKeyFactory\<close> and \<^verbatim>\<open>SecretKeyFactory\<close> of a factory, when it implements
  them: the derivation from a base key, the bytes of a key for wrapping and a key from such bytes, the
  public key of a private one, and for secret keys the recommended length and how a value is set.
\<close>

record secret_key_factory =
  sf_recommend_key_size :: "nat \<Rightarrow> nat result"
  sf_set_key :: "bytes \<Rightarrow> object \<Rightarrow> object result"

record object_factory =
  f_data :: factory_data
  f_create :: "bytes \<Rightarrow> ck_attrs \<Rightarrow> object result"
  f_builtin_create :: "(bytes \<Rightarrow> bytes) \<Rightarrow> ck_ulong \<Rightarrow> object result"
  f_copy :: "bytes \<Rightarrow> object \<Rightarrow> ck_attrs \<Rightarrow> object result"
  f_key_derive :: "(bytes \<Rightarrow> ck_attrs \<Rightarrow> object \<Rightarrow> object result) option"
  f_export :: "object \<Rightarrow> bytes result"
  f_import :: "bytes \<Rightarrow> bytes \<Rightarrow> ck_attrs \<Rightarrow> object result"
  f_public :: "(bytes \<Rightarrow> object \<Rightarrow> ck_attrs \<Rightarrow> object result) option"
  f_secret :: "secret_key_factory option"

text \<open>The default methods of the trait \<^verbatim>\<open>ObjectFactory\<close>.\<close>

definition default_factory :: "factory_data \<Rightarrow> object_factory" where
  "default_factory fd =
    \<lparr>f_data = fd, f_create = (\<lambda>_ _. Err CKR_GENERAL_ERROR),
     f_builtin_create = (\<lambda>_ _. Err CKR_GENERAL_ERROR),
     f_copy = default_copy fd, f_key_derive = None,
     f_export = (\<lambda>_. Err CKR_FUNCTION_NOT_SUPPORTED), f_import = (\<lambda>_ _ _. Err CKR_FUNCTION_NOT_SUPPORTED),
     f_public = None, f_secret = None\<rparr>"

definition as_key_factory :: "object_factory \<Rightarrow> (bytes \<Rightarrow> ck_attrs \<Rightarrow> object \<Rightarrow> object result) result" where
  "as_key_factory f = (case f_key_derive f of Some d \<Rightarrow> Ok d | None \<Rightarrow> Err CKR_GENERAL_ERROR)"

definition as_public_key_factory ::
    "object_factory \<Rightarrow> (bytes \<Rightarrow> object \<Rightarrow> ck_attrs \<Rightarrow> object result) result" where
  "as_public_key_factory f = (case f_public f of Some g \<Rightarrow> Ok g | None \<Rightarrow> Err CKR_GENERAL_ERROR)"

definition export_for_wrapping :: "object_factory \<Rightarrow> object \<Rightarrow> bytes result" where
  "export_for_wrapping f key = and_then (as_key_factory f) (\<lambda>_. f_export f key)"

definition import_from_wrapped :: "object_factory \<Rightarrow> bytes \<Rightarrow> bytes \<Rightarrow> ck_attrs \<Rightarrow> object result" where
  "import_from_wrapped f uuid data template = and_then (as_key_factory f) (\<lambda>_. f_import f uuid data template)"

definition as_secret_key_factory :: "object_factory \<Rightarrow> secret_key_factory result" where
  "as_secret_key_factory f = (case f_secret f of Some sf \<Rightarrow> Ok sf | None \<Rightarrow> Err CKR_GENERAL_ERROR)"

definition data_factory_data :: factory_data where
  "data_factory_data =
    finalize_data (new_factory_data CKO_DATA
      \<lparr>fd_attributes := common_storage_attrs False @
        [attr_element Defval (from_string CKA_APPLICATION []),
         attr_element 0 (from_bytes CKA_OBJECT_ID []),
         attr_element Defval (from_bytes CKA_VALUE [])]\<rparr>)"

definition data_factory :: object_factory where
  "data_factory =
    (default_factory data_factory_data)\<lparr>f_create := default_object_create data_factory_data\<rparr>"

text \<open>Built-in objects: a stable unique id and no creation or copy by the application.\<close>

definition builtin_data :: "ck_ulong \<Rightarrow> ck_ulong \<Rightarrow> factory_data" where
  "builtin_data c id_attr =
    finalize_data (new_factory_data c
      \<lparr>fd_attributes := common_object_attrs @
        [attr_element RequiredOnCreate (from_ulong id_attr CK_UNAVAILABLE_INFORMATION)]\<rparr>)"

definition builtin_create :: "ck_ulong \<Rightarrow> ck_ulong \<Rightarrow> (bytes \<Rightarrow> bytes) \<Rightarrow> ck_ulong \<Rightarrow> object result" where
  "builtin_create c id_attr uuid_v8 i =
    and_then
      (internal_object_create (builtin_data c id_attr) [ck_attr_of id_attr (u64_to_le i)]
        0 RequiredOnCreate)
      (\<lambda>o1. Ok (generate_stable_unique uuid_v8 i o1))"

definition builtin_factory :: "ck_ulong \<Rightarrow> ck_ulong \<Rightarrow> object_factory" where
  "builtin_factory c id_attr =
    (default_factory (builtin_data c id_attr))
      \<lparr>f_create := (\<lambda>_ _. Err CKR_TEMPLATE_INCOMPLETE),
       f_builtin_create := builtin_create c id_attr,
       f_copy := (\<lambda>_ _ _. Err CKR_ACTION_PROHIBITED)\<rparr>"

definition profile_factory :: object_factory where
  "profile_factory = builtin_factory CKO_PROFILE CKA_PROFILE_ID"

definition mechanism_factory :: object_factory where
  "mechanism_factory = builtin_factory CKO_MECHANISM CKA_MECHANISM_TYPE"

type_synonym factories = "(ck_ulong \<times> ck_ulong) \<Rightarrow> object_factory option"

definition get_factory :: "factories \<Rightarrow> ck_ulong \<Rightarrow> ck_ulong \<Rightarrow> object_factory result" where
  "get_factory fs c t =
    (case fs (c, t) of Some b \<Rightarrow> Ok b | None \<Rightarrow> Err CKR_ATTRIBUTE_VALUE_INVALID)"

definition required_ulong :: "ck_ulong \<Rightarrow> ck_attrs \<Rightarrow> ck_ulong result" where
  "required_ulong t template =
    (case find_attr t template of
       Some c \<Rightarrow> ck_to_ulong c
     | None \<Rightarrow> Err CKR_TEMPLATE_INCOMPLETE)"

definition factories_create :: "factories \<Rightarrow> bytes \<Rightarrow> ck_attrs \<Rightarrow> object result" where
  "factories_create fs uuid template =
    and_then (required_ulong CKA_CLASS template) (\<lambda>c.
    and_then
      (if c = CKO_DATA \<or> c = CKO_TRUST \<or> c = CKO_PROFILE \<or> c = CKO_MECHANISM then Ok 0
       else if c = CKO_CERTIFICATE then required_ulong CKA_CERTIFICATE_TYPE template
       else if c = CKO_PUBLIC_KEY \<or> c = CKO_PRIVATE_KEY \<or> c = CKO_SECRET_KEY \<or> c = CKO_OTP_KEY
         then required_ulong CKA_KEY_TYPE template
       else Err CKR_TEMPLATE_INCONSISTENT)
      (\<lambda>t. and_then (get_factory fs c t) (\<lambda>f. f_create f uuid template)))"

definition get_object_factory :: "factories \<Rightarrow> object \<Rightarrow> object_factory result" where
  "get_object_factory fs o1 =
    and_then (get_attr_as_ulong CKA_CLASS o1) (\<lambda>c.
    and_then
      (if c = CKO_CERTIFICATE then get_attr_as_ulong CKA_CERTIFICATE_TYPE o1
       else if c = CKO_PUBLIC_KEY \<or> c = CKO_PRIVATE_KEY \<or> c = CKO_SECRET_KEY \<or> c = CKO_OTP_KEY
         then get_attr_as_ulong CKA_KEY_TYPE o1
       else Ok 0)
      (get_factory fs c))"

definition fd_check_sensitive :: "factory_data \<Rightarrow> unit \<Rightarrow> ck_attribute \<Rightarrow> unit result" where
  "fd_check_sensitive fd _ ck_attr =
    (case find_oattr fd (attr_type ck_attr) of
       None \<Rightarrow> Err CKR_ATTRIBUTE_TYPE_INVALID
     | Some attr \<Rightarrow> if oa_is attr Sensitive then Err CKR_ATTRIBUTE_SENSITIVE else Ok ())"

definition check_sensitive :: "factories \<Rightarrow> object \<Rightarrow> ck_attrs \<Rightarrow> unit result" where
  "check_sensitive fs o1 template =
    and_then (get_object_factory fs o1) (\<lambda>f. try_fold (fd_check_sensitive (f_data f)) () template)"

definition get_object_attributes :: "factories \<Rightarrow> object \<Rightarrow> ck_attrs \<Rightarrow> unit result \<times> ck_attrs" where
  "get_object_attributes fs o1 template =
    (case get_object_factory fs o1 of
       Inl e \<Rightarrow> (Inl e, template)
     | Inr f \<Rightarrow> fd_get_object_attributes (f_data f) o1 template)"

definition factories_copy :: "factories \<Rightarrow> bytes \<Rightarrow> object \<Rightarrow> ck_attrs \<Rightarrow> object result" where
  "factories_copy fs uuid o1 template =
    (if \<not> is_copyable o1 then Err CKR_ACTION_PROHIBITED
     else and_then (get_object_factory fs o1) (\<lambda>f. f_copy f uuid o1 template))"

definition get_obj_factory_from_key_template :: "factories \<Rightarrow> ck_attrs \<Rightarrow> object_factory result" where
  "get_obj_factory_from_key_template fs template =
    and_then
      (case position (\<lambda>x. attr_type x = CKA_CLASS) template of
         Some idx \<Rightarrow> ck_to_ulong (template ! idx)
       | None \<Rightarrow> Err CKR_TEMPLATE_INCONSISTENT)
      (\<lambda>c. and_then
        (case position (\<lambda>x. attr_type x = CKA_KEY_TYPE) template of
           Some idx \<Rightarrow> ck_to_ulong (template ! idx)
         | None \<Rightarrow> Err CKR_TEMPLATE_INCONSISTENT)
        (get_factory fs c))"

definition derive_key_from_template ::
    "factories \<Rightarrow> bytes \<Rightarrow> object \<Rightarrow> ck_attrs \<Rightarrow> object result" where
  "derive_key_from_template fs uuid key template =
    and_then (get_obj_factory_from_key_template fs template) (\<lambda>f.
      case f_key_derive f of
        None \<Rightarrow> Err CKR_GENERAL_ERROR
      | Some derive \<Rightarrow> derive uuid template key)"

end
