(* ===== verification/Storage_Auth.thy ===== *)
theory Storage_Auth
  imports Factories
begin

text \<open>
  \<^verbatim>\<open>src/src/storage/aci.rs\<close>: authentication, confidentiality and integrity of the stored data.
  The mechanisms (PBKDF2, HKDF, AES-GCM, key generation), the random generator and the DER codec
  of \<^verbatim>\<open>KProtectedData\<close> are fields of the record \<open>crypto\<close>, as is the unique id drawn for the object
  of the master key; the code around them is as written.
\<close>

section \<open>Protected data\<close>

datatype prf_alg = HmacSha1 | HmacSha256 | OtherPrf

record pbkdf2_params =
  pb_salt :: bytes
  pb_iteration_count :: u64
  pb_key_length :: "u64 option"
  pb_prf :: prf_alg

record kkdf1_params =
  kk_prf :: prf_alg
  kk_info :: bytes
  kk_key_length :: u64

record gcm_params =
  aes_iv :: bytes
  aes_tag :: bytes

text \<open>\<^verbatim>\<open>KAlgorithmParameters\<close>; \<^verbatim>\<open>Kkbps1\<close> holds the key version, the derivation and the encryption.\<close>

datatype alg_params =
    Kkbps1 u64 alg_params alg_params
  | Pbkdf2 pbkdf2_params
  | Kkdf1 kkdf1_params
  | Aes128Gcm gcm_params
  | Aes192Gcm gcm_params
  | Aes256Gcm gcm_params
  | OtherAlg

record crypto =
  pbkdf2_generate :: "bytes \<Rightarrow> u64 \<Rightarrow> ck_ulong \<Rightarrow> bytes \<Rightarrow> ck_attrs \<Rightarrow> object result"
  hkdf_derive :: "bytes \<Rightarrow> object \<Rightarrow> ck_attrs \<Rightarrow> object list result"
  secret_key_gen :: "ck_attrs \<Rightarrow> object result"
  aes_gcm_encrypt :: "object \<Rightarrow> bytes \<Rightarrow> bytes \<Rightarrow> (gcm_params \<times> bytes) result"
  aes_gcm_decrypt :: "object \<Rightarrow> gcm_params \<Rightarrow> bytes \<Rightarrow> bytes \<Rightarrow> bytes result"
  generate_random :: "nat \<Rightarrow> bytes result"
  write_protected :: "alg_params \<Rightarrow> bytes \<Rightarrow> bytes option"
  parse_protected :: "bytes \<Rightarrow> (alg_params \<times> bytes) option"
  master_uuid :: bytes

definition AES_KEYLEN :: ck_ulong where
  "AES_KEYLEN = 32"

definition prf_id :: "prf_alg \<Rightarrow> ck_ulong result" where
  "prf_id p =
    (case p of
       HmacSha1 \<Rightarrow> Ok CKP_PKCS5_PBKD2_HMAC_SHA1
     | HmacSha256 \<Rightarrow> Ok CKP_PKCS5_PBKD2_HMAC_SHA256
     | OtherPrf \<Rightarrow> Err CKR_MECHANISM_PARAM_INVALID)"

definition pbkdf2_derive :: "crypto \<Rightarrow> pbkdf2_params \<Rightarrow> bytes \<Rightarrow> ck_attrs \<Rightarrow> object result" where
  "pbkdf2_derive cr params secret key_template =
    and_then (prf_id (pb_prf params)) (\<lambda>p.
      pbkdf2_generate cr (pb_salt params) (pb_iteration_count params) p secret key_template)"

definition hkdf_expand :: "crypto \<Rightarrow> kkdf1_params \<Rightarrow> object \<Rightarrow> ck_attrs \<Rightarrow> object result" where
  "hkdf_expand cr params key key_template =
    and_then (hkdf_derive cr (kk_info params) key key_template) (\<lambda>vobj.
      case vobj of [obj] \<Rightarrow> Ok obj | _ \<Rightarrow> Err CKR_GENERAL_ERROR)"

definition secret_key_template :: "ck_ulong \<Rightarrow> ck_ulong \<Rightarrow> ck_attrs" where
  "secret_key_template keytype keylen =
    (let t0 = add_ulong CKA_VALUE_LEN keylen (add_ulong CKA_KEY_TYPE keytype
                (add_ulong CKA_CLASS CKO_SECRET_KEY [])) in
     if keytype = CKK_GENERIC_SECRET then add_bool CKA_DERIVE 1 t0
     else add_bool CKA_ENCRYPT 1 (add_bool CKA_DECRYPT 1 t0))"

definition write_or_fail :: "crypto \<Rightarrow> alg_params \<Rightarrow> bytes \<Rightarrow> bytes result" where
  "write_or_fail cr alg data =
    (case write_protected cr alg data of Some der \<Rightarrow> Ok der | None \<Rightarrow> Err CKR_GENERAL_ERROR)"

definition encrypt_key ::
    "crypto \<Rightarrow> bytes \<Rightarrow> bytes \<Rightarrow> u64 \<Rightarrow> u64 \<Rightarrow> bytes \<Rightarrow> bytes result" where
  "encrypt_key cr uid pin iterations version key =
    and_then (generate_random cr 32) (\<lambda>salt.
      let params = \<lparr>pb_salt = salt, pb_iteration_count = iterations,
                    pb_key_length = Some AES_KEYLEN, pb_prf = HmacSha256\<rparr> in
      and_then (pbkdf2_derive cr params pin (secret_key_template CKK_AES AES_KEYLEN)) (\<lambda>kek.
      and_then (aes_gcm_encrypt cr kek uid key) (\<lambda>(gcm, data).
        write_or_fail cr (Kkbps1 version (Pbkdf2 params) (Aes256Gcm gcm)) data)))"

definition kkbps1_of :: "crypto \<Rightarrow> bytes \<Rightarrow> (u64 \<times> alg_params \<times> alg_params \<times> bytes) result" where
  "kkbps1_of cr data =
    (case parse_protected cr data of
       None \<Rightarrow> Err CKR_DATA_INVALID
     | Some (alg, edata) \<Rightarrow>
       (case alg of
          Kkbps1 version kdf enc \<Rightarrow> Ok (version, kdf, enc, edata)
        | _ \<Rightarrow> Err CKR_MECHANISM_INVALID))"

definition gcm_of :: "alg_params \<Rightarrow> gcm_params result" where
  "gcm_of alg =
    (case alg of
       Aes128Gcm gcm \<Rightarrow> Ok gcm
     | Aes192Gcm gcm \<Rightarrow> Ok gcm
     | Aes256Gcm gcm \<Rightarrow> Ok gcm
     | _ \<Rightarrow> Err CKR_MECHANISM_INVALID)"

definition decrypt_key :: "crypto \<Rightarrow> bytes \<Rightarrow> bytes \<Rightarrow> bytes \<Rightarrow> (u64 \<times> bytes) result" where
  "decrypt_key cr uid pin data =
    and_then (kkbps1_of cr data) (\<lambda>(version, kdf, enc, edata).
    and_then
      (case kdf of
         Pbkdf2 params \<Rightarrow>
           if pb_key_length params \<noteq> None \<and> pb_key_length params \<noteq> Some AES_KEYLEN
             then Err CKR_MECHANISM_PARAM_INVALID
           else pbkdf2_derive cr params pin (secret_key_template CKK_AES AES_KEYLEN)
       | _ \<Rightarrow> Err CKR_MECHANISM_INVALID) (\<lambda>key.
    and_then (gcm_of enc) (\<lambda>gcm.
    and_then (aes_gcm_decrypt cr key gcm uid edata) (\<lambda>plain. Ok (version, plain)))))"

definition encrypt_data :: "crypto \<Rightarrow> u64 \<Rightarrow> object \<Rightarrow> bytes \<Rightarrow> bytes \<Rightarrow> bytes result" where
  "encrypt_data cr version key data_id data =
    (let kdf = \<lparr>kk_prf = HmacSha256, kk_info = data_id, kk_key_length = AES_KEYLEN\<rparr> in
     and_then (hkdf_expand cr kdf key (secret_key_template CKK_AES AES_KEYLEN)) (\<lambda>dek.
     and_then (aes_gcm_encrypt cr dek data_id data) (\<lambda>(gcm, encrypted).
       write_or_fail cr (Kkbps1 version (Kkdf1 kdf) (Aes256Gcm gcm)) encrypted)))"

definition decrypt_data :: "crypto \<Rightarrow> u64 \<Rightarrow> object \<Rightarrow> bytes \<Rightarrow> bytes \<Rightarrow> bytes result" where
  "decrypt_data cr key_version key data_id data =
    and_then (kkbps1_of cr data) (\<lambda>(version, kdf, enc, edata).
      if version \<noteq> key_version then Err CKR_KEY_CHANGED
      else and_then
        (case kdf of
           Kkdf1 params \<Rightarrow>
             if kk_key_length params \<noteq> AES_KEYLEN then Err CKR_MECHANISM_PARAM_INVALID
             else hkdf_expand cr params key (secret_key_template CKK_AES AES_KEYLEN)
         | _ \<Rightarrow> Err CKR_MECHANISM_INVALID) (\<lambda>dek.
      and_then (gcm_of enc) (\<lambda>gcm. aes_gcm_decrypt cr dek gcm data_id edata)))"

section \<open>Users\<close>

definition MAX_LOGIN_ATTEMPTS :: ck_ulong where
  "MAX_LOGIN_ATTEMPTS = 10"

record storage_auth_info =
  default_pin :: bool
  user_data :: "bytes option"
  max_attempts :: ck_ulong
  cur_attempts :: ck_ulong

definition default_auth_info :: storage_auth_info where
  "default_auth_info =
    \<lparr>default_pin = False, user_data = None, max_attempts = MAX_LOGIN_ATTEMPTS, cur_attempts = 0\<rparr>"

definition locked :: "storage_auth_info \<Rightarrow> bool" where
  "locked info \<longleftrightarrow> cur_attempts info \<ge> max_attempts info"

section \<open>The ACI manager\<close>

record storage_aci =
  def_iterations :: u64
  key_version :: u64
  aci_key :: "object option"
  aci_encrypt :: bool

definition new_aci :: "bool \<Rightarrow> storage_aci" where
  "new_aci enc = \<lparr>def_iterations = 1000, key_version = 0, aci_key = None, aci_encrypt = enc\<rparr>"

definition aci_reset :: "crypto \<Rightarrow> storage_aci \<Rightarrow> unit result \<times> storage_aci" where
  "aci_reset cr aci =
    (if \<not> aci_encrypt aci then (Ok (), aci)
     else
       let aci1 = aci\<lparr>key_version := key_version aci + 1\<rparr> in
       case secret_key_gen cr (secret_key_template CKK_GENERIC_SECRET AES_KEYLEN) of
         Inl e \<Rightarrow> (Inl e, aci1)
       | Inr key \<Rightarrow> (Ok (), aci1\<lparr>aci_key := Some key\<rparr>))"

definition unauth :: "storage_aci \<Rightarrow> storage_aci" where
  "unauth aci = aci\<lparr>aci_key := None\<rparr>"

definition encrypt_value :: "crypto \<Rightarrow> storage_aci \<Rightarrow> bytes \<Rightarrow> bytes \<Rightarrow> bytes result" where
  "encrypt_value cr aci uid v =
    (case aci_key aci of
       Some key \<Rightarrow> encrypt_data cr (key_version aci) key uid v
     | None \<Rightarrow> Err CKR_GENERAL_ERROR)"

definition decrypt_value :: "crypto \<Rightarrow> storage_aci \<Rightarrow> bytes \<Rightarrow> bytes \<Rightarrow> bytes result" where
  "decrypt_value cr aci uid v =
    (case aci_key aci of
       Some key \<Rightarrow> decrypt_data cr (key_version aci) key uid v
     | None \<Rightarrow> Err CKR_GENERAL_ERROR)"

text \<open>The ASCII bytes of \<^verbatim>\<open>"NO ENCRYPTION"\<close>.\<close>

definition NO_ENCRYPTION :: bytes where
  "NO_ENCRYPTION = [0x4E, 0x4F, 0x20, 0x45, 0x4E, 0x43, 0x52, 0x59, 0x50, 0x54, 0x49, 0x4F, 0x4E]"

definition key_to_user_data ::
    "crypto \<Rightarrow> storage_aci \<Rightarrow> bytes \<Rightarrow> bytes \<Rightarrow> storage_auth_info result" where
  "key_to_user_data cr aci uid pin =
    and_then
      (if aci_encrypt aci then
         (case aci_key aci of
            Some k \<Rightarrow> get_attr_as_bytes CKA_VALUE k
          | None \<Rightarrow> Err CKR_USER_NOT_LOGGED_IN)
       else Ok NO_ENCRYPTION) (\<lambda>ek.
    and_then (encrypt_key cr uid pin (def_iterations aci) (key_version aci) ek) (\<lambda>der.
      Ok (default_auth_info\<lparr>user_data := Some der\<rparr>)))"

text \<open>
  The template that recreates the master key: creation goes through the object factories, with
  the random unique id \<open>uuid\<close>.
\<close>

definition master_key_of :: "crypto \<Rightarrow> factories \<Rightarrow> bytes \<Rightarrow> object result" where
  "master_key_of cr fs key =
    and_then (add_vec CKA_VALUE key (secret_key_template CKK_GENERIC_SECRET AES_KEYLEN))
      (factories_create fs (master_uuid cr))"

text \<open>
  \<^verbatim>\<open>authenticate\<close> updates the manager and the caller's copy of the user's record; both are
  returned, also when the result is an error.
\<close>

definition authenticate ::
    "crypto \<Rightarrow> factories \<Rightarrow> storage_aci \<Rightarrow> bytes \<Rightarrow> storage_auth_info \<Rightarrow> bytes \<Rightarrow> bool \<Rightarrow>
      bool result \<times> storage_aci \<times> storage_auth_info" where
  "authenticate cr fs aci uid info pin set_key =
    (if locked info then (Ok False, aci, info)
     else case user_data info of
       None \<Rightarrow> (Err CKR_GENERAL_ERROR, aci, info)
     | Some wrapped \<Rightarrow>
       (case decrypt_key cr uid pin wrapped of
          Inl _ \<Rightarrow>
            (Ok True, aci, info\<lparr>cur_attempts := cur_attempts info + 1\<rparr>)
        | Inr (version, key) \<Rightarrow>
          if aci_encrypt aci then
            (if set_key then
               (let aci1 = aci\<lparr>key_version := version\<rparr> in
                case master_key_of cr fs key of
                  Inl e \<Rightarrow> (Inl e, aci1, info)
                | Inr k \<Rightarrow>
                  (Ok (cur_attempts info \<noteq> 0), aci1\<lparr>aci_key := Some k\<rparr>, info\<lparr>cur_attempts := 0\<rparr>))
             else (Ok (cur_attempts info \<noteq> 0), aci, info\<lparr>cur_attempts := 0\<rparr>))
          else if key = NO_ENCRYPTION then
            (Ok (cur_attempts info \<noteq> 0), aci, info\<lparr>cur_attempts := 0\<rparr>)
          else (Ok True, aci, info\<lparr>cur_attempts := cur_attempts info + 1\<rparr>)))"

end
