(* ===== verification/Facilities.thy ===== *)
theory Facilities
  imports Storage_Auth
begin

text \<open>
  The parts a token is made of: the handle manager \<^verbatim>\<open>Handles\<close> and the \<^verbatim>\<open>TokenFacilities\<close> of
  \<^verbatim>\<open>src/src/token.rs\<close>, the mechanism registry of \<^verbatim>\<open>src/src/mechanism.rs\<close> and
  \<^verbatim>\<open>copy_sized_string\<close> of \<^verbatim>\<open>src/src/misc.rs\<close>.
\<close>

section \<open>Fixed-size strings\<close>

definition copy_sized_string :: "bytes \<Rightarrow> bytes \<Rightarrow> bytes" where
  "copy_sized_string s d =
    (if s = [] then d
     else let slen = (if last s = 0 then length s - 1 else length s) in
       if slen \<ge> length d then take (length d) s
       else take slen s @ replicate (length d - slen) 0x20)"

lemma length_copy_sized_string [simp]: "length (copy_sized_string s d) = length d"
  by (auto simp: copy_sized_string_def Let_def)

section \<open>Handles\<close>

text \<open>
  A \<^verbatim>\<open>BiHashMap\<close> is a list of pairs, each side without repetition; its iteration order is not used.
\<close>

record handles =
  h_map :: "(ck_ulong \<times> bytes) list"
  h_next :: ck_ulong

definition new_handles :: handles where
  "new_handles = \<lparr>h_map = [], h_next = 1\<rparr>"

definition handles_insert :: "ck_ulong \<Rightarrow> bytes \<Rightarrow> handles \<Rightarrow> handles result" where
  "handles_insert h v hs =
    (if h \<in> fst ` set (h_map hs) \<or> v \<in> snd ` set (h_map hs) then Err CKR_GENERAL_ERROR
     else Ok (hs\<lparr>h_map := (h, v) # h_map hs\<rparr>))"

definition handles_get :: "ck_ulong \<Rightarrow> handles \<Rightarrow> bytes option" where
  "handles_get h hs = map_of (h_map hs) h"

definition handles_get_by_uid :: "bytes \<Rightarrow> handles \<Rightarrow> ck_ulong option" where
  "handles_get_by_uid uid hs = map_option fst (List.find (\<lambda>p. snd p = uid) (h_map hs))"

definition handles_remove :: "ck_ulong \<Rightarrow> handles \<Rightarrow> handles" where
  "handles_remove h hs = hs\<lparr>h_map := filter (\<lambda>p. fst p \<noteq> h) (h_map hs)\<rparr>"

definition handles_next :: "handles \<Rightarrow> ck_ulong \<times> handles" where
  "handles_next hs = (h_next hs, hs\<lparr>h_next := h_next hs + 1\<rparr>)"

text \<open>The map is a bijection between the handles and the unique ids it holds.\<close>

definition wf_handles :: "handles \<Rightarrow> bool" where
  "wf_handles hs \<longleftrightarrow> distinct (map fst (h_map hs)) \<and> distinct (map snd (h_map hs))"

text \<open>The contract of a handle map, and of allocating a handle in it.\<close>

locale handle_map =
  fixes look :: "'h \<Rightarrow> 'm \<Rightarrow> 'u option" and look_uid :: "'u \<Rightarrow> 'm \<Rightarrow> 'h option"
    and ins :: "'h \<Rightarrow> 'u \<Rightarrow> 'm \<Rightarrow> 'm result" and del :: "'h \<Rightarrow> 'm \<Rightarrow> 'm"
    and nxt :: "'m \<Rightarrow> 'h \<times> 'm" and wf :: "'m \<Rightarrow> bool"
  assumes bijective: "wf m \<Longrightarrow> look h m = Some u \<longleftrightarrow> look_uid u m = Some h"
    and wf_ins: "wf m \<Longrightarrow> ins h u m = Ok m' \<Longrightarrow> wf m'"
    and look_ins: "wf m \<Longrightarrow> ins h u m = Ok m' \<Longrightarrow> look k m' = (if k = h then Some u else look k m)"
    and ins_fresh: "wf m \<Longrightarrow> ins h u m = Ok m' \<Longrightarrow> look h m = None \<and> look_uid u m = None"
    and ins_ok: "wf m \<Longrightarrow> look h m = None \<Longrightarrow> look_uid u m = None \<Longrightarrow> is_ok (ins h u m)"
    and wf_del: "wf m \<Longrightarrow> wf (del h m)"
    and look_del: "look k (del h m) = (if k = h then None else look k m)"
    and wf_nxt: "wf m \<Longrightarrow> wf (snd (nxt m))"
    and look_nxt: "look k (snd (nxt m)) = look k m"
begin

lemma handles_injective: "wf m \<Longrightarrow> look h m = Some u \<Longrightarrow> look k m = Some u \<Longrightarrow> h = k"
  by (metis bijective option.inject)

lemma look_uid_del:
  assumes "wf m"
  shows "look_uid u (del h m) = (if look_uid u m = Some h then None else look_uid u m)"
proof -
  have "look_uid u (del h m) = Some k \<longleftrightarrow> look_uid u m = Some k \<and> k \<noteq> h" for k
  proof -
    have "look k (del h m) = Some u \<longleftrightarrow> look_uid u (del h m) = Some k"
      by (rule bijective[OF wf_del[OF assms]])
    then show ?thesis
      using bijective[OF assms, of k u] look_del[of k h m] by (auto split: if_splits)
  qed
  then show ?thesis
    by (metis not_None_eq)
qed

text \<open>Take the next handle and map it: what inserting, storing and searching objects do.\<close>

lemma allocate:
  assumes "wf m" and "nxt m = (h, m1)" and "ins h u m1 = Ok m2"
  shows "wf m2 \<and> look h m2 = Some u \<and> look_uid u m2 = Some h \<and> look h m = None \<and>
    (\<forall>k. k \<noteq> h \<longrightarrow> look k m2 = look k m)"
proof -
  have m1: "wf m1" "\<And>k. look k m1 = look k m"
    using wf_nxt[OF assms(1)] look_nxt[of _ m] assms(2) by simp_all
  then show ?thesis
    using wf_ins[OF m1(1) assms(3)] look_ins[OF m1(1) assms(3)] ins_fresh[OF m1(1) assms(3)]
      bijective[OF wf_ins[OF m1(1) assms(3)], of h u] by simp
qed

end

lemma map_of_find: "map_option fst (List.find (\<lambda>p. snd p = u) xs) = map_of (map prod.swap xs) u"
  by (induction xs) auto

lemma handles_get_by_uid_map: "handles_get_by_uid u hs = map_of (map prod.swap (h_map hs)) u"
  by (simp add: handles_get_by_uid_def map_of_find)

lemma map_swap_distinct: "map fst (map prod.swap xs) = map snd xs"
  by (induction xs) auto

lemma map_of_None_filter: "map_of (filter (\<lambda>p. fst p \<noteq> h) xs) k = (if k = h then None else map_of xs k)"
  by (induction xs) auto

interpretation hm: handle_map handles_get handles_get_by_uid handles_insert handles_remove
    handles_next wf_handles
proof unfold_locales
  fix m :: handles and h u
  assume wf: "wf_handles m"
  have "handles_get h m = Some u \<longleftrightarrow> (h, u) \<in> set (h_map m)"
    using wf by (simp add: handles_get_def wf_handles_def)
  also have "\<dots> \<longleftrightarrow> (u, h) \<in> set (map prod.swap (h_map m))" by force
  also have "\<dots> \<longleftrightarrow> handles_get_by_uid u m = Some h"
    using wf unfolding handles_get_by_uid_map wf_handles_def
    by (metis map_of_eq_Some_iff map_swap_distinct)
  finally show "handles_get h m = Some u \<longleftrightarrow> handles_get_by_uid u m = Some h" .
next
  fix m m' :: handles and h u k
  assume i: "handles_insert h u m = Ok m'" and wf: "wf_handles m"
  then show "wf_handles m'" "handles_get k m' = (if k = h then Some u else handles_get k m)"
    by (auto simp: handles_insert_def wf_handles_def handles_get_def split: if_splits)
  show "handles_get h m = None \<and> handles_get_by_uid u m = None"
    using i by (auto simp: handles_insert_def handles_get_def handles_get_by_uid_def map_of_eq_None_iff
        find_None_key split: if_splits)
next
  fix m :: handles and h u
  assume "handles_get h m = None" "handles_get_by_uid u m = None"
  then show "is_ok (handles_insert h u m)"
    by (simp add: handles_insert_def handles_get_def handles_get_by_uid_def map_of_eq_None_iff find_None_key)
next
  fix m :: handles and h k
  show "wf_handles m \<Longrightarrow> wf_handles (handles_remove h m)"
    by (simp add: wf_handles_def handles_remove_def distinct_map_filter)
  show "handles_get k (handles_remove h m) = (if k = h then None else handles_get k m)"
    by (simp add: handles_get_def handles_remove_def map_of_None_filter)
  show "wf_handles m \<Longrightarrow> wf_handles (snd (handles_next m))"
    "handles_get k (snd (handles_next m)) = handles_get k m"
    by (simp_all add: wf_handles_def handles_next_def handles_get_def)
qed

lemma wf_new_handles: "wf_handles new_handles"
  by (simp add: wf_handles_def new_handles_def)

section \<open>Mechanisms\<close>

record ck_mechanism_info =
  ulMinKeySize :: ck_ulong
  ulMaxKeySize :: ck_ulong
  mi_flags :: ck_flags

text \<open>\<^verbatim>\<open>Mechanisms\<close>: a B-tree is a list of entries with ascending types.\<close>

type_synonym mechanisms = "(ck_ulong \<times> ck_mechanism_info) list"

fun add_mechanism :: "ck_ulong \<Rightarrow> ck_mechanism_info \<Rightarrow> mechanisms \<Rightarrow> mechanisms" where
  "add_mechanism typ info [] = [(typ, info)]"
| "add_mechanism typ info ((k, v) # rest) =
    (if typ = k then (typ, info) # rest
     else if typ < k then (typ, info) # (k, v) # rest
     else (k, v) # add_mechanism typ info rest)"

definition filter_copy :: "(ck_ulong \<Rightarrow> bool) \<Rightarrow> mechanisms \<Rightarrow> mechanisms" where
  "filter_copy f ms = fold (\<lambda>(k, v) acc. if f k then add_mechanism k v acc else acc) ms []"

definition mechs_len :: "mechanisms \<Rightarrow> nat" where
  "mechs_len ms = length ms"

definition mechs_list :: "mechanisms \<Rightarrow> ck_ulong list" where
  "mechs_list ms = map fst ms"

definition mechs_info :: "ck_ulong \<Rightarrow> mechanisms \<Rightarrow> ck_mechanism_info option" where
  "mechs_info typ ms = map_of ms typ"

definition mechs_find :: "ck_ulong \<Rightarrow> mechanisms \<Rightarrow> ck_mechanism_info result" where
  "mechs_find typ ms = (case map_of ms typ of Some m \<Rightarrow> Ok m | None \<Rightarrow> Err CKR_MECHANISM_INVALID)"

definition wf_mechs :: "mechanisms \<Rightarrow> bool" where
  "wf_mechs ms \<longleftrightarrow> sorted_wrt (<) (map fst ms)"

lemma keys_add_mechanism: "fst ` set (add_mechanism k v ms) = insert k (fst ` set ms)"
  by (induction k v ms rule: add_mechanism.induct) auto

lemma wf_add_mechanism: "wf_mechs ms \<Longrightarrow> wf_mechs (add_mechanism k v ms)"
proof (induction ms)
  case (Cons p ms)
  obtain a b where p: "p = (a, b)" by force
  have "\<forall>x \<in> fst ` set (add_mechanism k v ms). a < x" if "a < k"
    using Cons.prems that unfolding keys_add_mechanism by (auto simp: p wf_mechs_def)
  then show ?case using Cons by (auto simp: p wf_mechs_def not_less)
qed (simp add: wf_mechs_def)

lemma map_of_add_mechanism:
  "wf_mechs ms \<Longrightarrow> map_of (add_mechanism k v ms) = (map_of ms)(k \<mapsto> v)"
proof (induction ms)
  case (Cons p ms)
  obtain a b where p: "p = (a, b)" by force
  have "wf_mechs ms" using Cons.prems by (simp add: wf_mechs_def)
  then show ?case using Cons by (auto simp: p)
qed simp

section \<open>Facilities\<close>

record facilities =
  fac_mechanisms :: mechanisms
  fac_factories :: factories
  fac_crypto :: crypto
  fac_handles :: handles

definition set_handles :: "handles \<Rightarrow> facilities \<Rightarrow> facilities" where
  "set_handles hs fac = fac\<lparr>fac_handles := hs\<rparr>"

end
