(* ===== verification/Storage_Format.thy ===== *)
theory Storage_Format
  imports Facilities
begin

text \<open>
  \<^verbatim>\<open>src/src/storage/mod.rs\<close> and \<^verbatim>\<open>src/src/storage/format.rs\<close>: the interface \<^verbatim>\<open>Storage\<close> of the
  token, and \<^verbatim>\<open>StdStorageFormat\<close>, which implements it over a raw backend (\<^verbatim>\<open>StorageRaw\<close>) with the
  ACI manager. The traits are records of their methods over a state type; methods on
  \<^verbatim>\<open>&mut self\<close> return the new state beside the result. The build without FIPS is modelled.
\<close>

section \<open>Token information\<close>

record storage_token_info =
  sti_label :: bytes
  sti_manufacturer :: bytes
  sti_model :: bytes
  sti_serial :: bytes
  sti_flags :: ck_flags

text \<open>The strings \<^verbatim>\<open>"Kryoptic Soft Token"\<close>, \<^verbatim>\<open>"Kryoptic Project"\<close> and \<^verbatim>\<open>"v1"\<close> of \<^verbatim>\<open>defaults.rs\<close>.\<close>

definition TOKEN_LABEL :: bytes where
  "TOKEN_LABEL = [0x4B, 0x72, 0x79, 0x6F, 0x70, 0x74, 0x69, 0x63, 0x20, 0x53, 0x6F, 0x66, 0x74, 0x20,
    0x54, 0x6F, 0x6B, 0x65, 0x6E]"

definition MANUFACTURER_ID :: bytes where
  "MANUFACTURER_ID = [0x4B, 0x72, 0x79, 0x6F, 0x70, 0x74, 0x69, 0x63, 0x20, 0x50, 0x72, 0x6F, 0x6A,
    0x65, 0x63, 0x74]"

definition TOKEN_MODEL :: bytes where
  "TOKEN_MODEL = [0x76, 0x31]"

definition default_storage_token_info :: storage_token_info where
  "default_storage_token_info =
    \<lparr>sti_label = copy_sized_string TOKEN_LABEL (replicate 32 0x20),
     sti_manufacturer = copy_sized_string MANUFACTURER_ID (replicate 32 0x20),
     sti_model = copy_sized_string TOKEN_MODEL (replicate 16 0x20),
     sti_serial = replicate 16 0x20, sti_flags = 0\<rparr>"

section \<open>The interfaces\<close>

record 's storage =
  sg_open :: "'s \<Rightarrow> storage_token_info result \<times> 's"
  sg_reinit :: "facilities \<Rightarrow> 's \<Rightarrow> storage_token_info result \<times> 's"
  sg_flush :: "'s \<Rightarrow> unit result \<times> 's"
  sg_fetch :: "facilities \<Rightarrow> ck_ulong \<Rightarrow> ck_attrs \<Rightarrow> 's \<Rightarrow> object result"
  sg_store :: "object \<Rightarrow> 's \<times> facilities \<Rightarrow> ck_ulong result \<times> 's \<times> facilities"
  sg_update :: "facilities \<Rightarrow> ck_ulong \<Rightarrow> ck_attrs \<Rightarrow> 's \<Rightarrow> unit result \<times> 's"
  sg_search :: "ck_attrs \<Rightarrow> 's \<Rightarrow> facilities \<Rightarrow> ck_ulong list result \<times> facilities"
  sg_remove :: "facilities \<Rightarrow> ck_ulong \<Rightarrow> 's \<Rightarrow> unit result \<times> 's"
  sg_load_token_info :: "'s \<Rightarrow> storage_token_info result"
  sg_store_token_info :: "storage_token_info \<Rightarrow> 's \<Rightarrow> unit result \<times> 's"
  sg_auth_user ::
    "facilities \<Rightarrow> ck_ulong \<Rightarrow> bytes \<Rightarrow> bool \<Rightarrow> ck_flags \<times> 's \<Rightarrow> unit result \<times> ck_flags \<times> 's"
  sg_unauth_user :: "ck_ulong \<Rightarrow> 's \<Rightarrow> unit result \<times> 's"
  sg_set_user_pin :: "facilities \<Rightarrow> ck_ulong \<Rightarrow> bytes \<Rightarrow> 's \<Rightarrow> unit result \<times> 's"

record 'r storage_raw =
  raw_is_initialized :: "'r \<Rightarrow> unit result"
  raw_db_reset :: "'r \<Rightarrow> unit result \<times> 'r"
  raw_open :: "'r \<Rightarrow> unit result \<times> 'r"
  raw_flush :: "'r \<Rightarrow> unit result \<times> 'r"
  raw_fetch_by_uid :: "bytes \<Rightarrow> ck_attrs \<Rightarrow> 'r \<Rightarrow> object result"
  raw_search :: "ck_attrs \<Rightarrow> 'r \<Rightarrow> object list result"
  raw_store_obj :: "object \<Rightarrow> 'r \<Rightarrow> unit result \<times> 'r"
  raw_remove_by_uid :: "bytes \<Rightarrow> 'r \<Rightarrow> unit result \<times> 'r"
  raw_fetch_token_info :: "'r \<Rightarrow> storage_token_info result"
  raw_store_token_info :: "storage_token_info \<Rightarrow> 'r \<Rightarrow> unit result \<times> 'r"
  raw_fetch_user :: "bytes \<Rightarrow> 'r \<Rightarrow> storage_auth_info result"
  raw_store_user :: "bytes \<Rightarrow> storage_auth_info \<Rightarrow> 'r \<Rightarrow> unit result \<times> 'r"

section \<open>Users and PIN flags\<close>

definition user_flags :: "ck_ulong \<Rightarrow> storage_auth_info \<Rightarrow> ck_flags \<Rightarrow> ck_flags" where
  "user_flags user_type info flag =
    (let remaining = (if locked info then 0 else max_attempts info - cur_attempts info) in
     if user_type = CKU_SO then
       (let flag1 = flag OR (if remaining = 0 then CKF_SO_PIN_LOCKED
                             else if remaining = 1 then CKF_SO_PIN_FINAL_TRY
                             else if remaining = 2 \<or> remaining = 3 then CKF_SO_PIN_COUNT_LOW
                             else 0) in
        if default_pin info then flag1 OR CKF_SO_PIN_TO_BE_CHANGED else flag1)
     else if user_type = CKU_USER then
       (let flag1 = flag OR (if remaining = 0 then CKF_USER_PIN_LOCKED
                             else if remaining = 1 then CKF_USER_PIN_FINAL_TRY
                             else if remaining = 2 \<or> remaining = 3 then CKF_USER_PIN_COUNT_LOW
                             else 0) in
        if default_pin info then flag1 OR CKF_USER_PIN_TO_BE_CHANGED
        else flag1 OR CKF_USER_PIN_INITIALIZED)
     else flag)"

definition checked_pin :: "bytes \<Rightarrow> bytes" where
  "checked_pin pin = pin"

text \<open>The ASCII bytes of \<^verbatim>\<open>"SO"\<close> and \<^verbatim>\<open>"USER"\<close>.\<close>

definition SO_ID :: bytes where
  "SO_ID = [0x53, 0x4F]"

definition USER_ID :: bytes where
  "USER_ID = [0x55, 0x53, 0x45, 0x52]"

definition get_pin_uid :: "ck_ulong \<Rightarrow> bytes result" where
  "get_pin_uid user_type =
    (if user_type = CKU_SO then Ok SO_ID
     else if user_type = CKU_USER then Ok USER_ID
     else Err CKR_GENERAL_ERROR)"

section \<open>The standard storage format\<close>

record 'r std_storage =
  st_store :: 'r
  st_aci :: storage_aci

definition lift_raw :: "('r \<Rightarrow> 'a result \<times> 'r) \<Rightarrow> 'r std_storage \<Rightarrow> 'a result \<times> 'r std_storage" where
  "lift_raw f st = (case f (st_store st) of (x, r) \<Rightarrow> (x, st\<lparr>st_store := r\<rparr>))"

definition init_pin_flags :: "'r storage_raw \<Rightarrow> 'r std_storage \<Rightarrow> ck_flags result" where
  "init_pin_flags raw st =
    and_then (raw_fetch_user raw SO_ID (st_store st)) (\<lambda>info.
      let so_flags = user_flags CKU_SO info 0 in
      and_then
        (case raw_fetch_user raw USER_ID (st_store st) of
           Inr uinfo \<Rightarrow> Ok (user_flags CKU_USER uinfo 0)
         | Inl e \<Rightarrow> if rv e \<noteq> CKR_USER_PIN_NOT_INITIALIZED then Inl e else Ok 0)
        (\<lambda>usr_flags. Ok (so_flags OR usr_flags)))"

definition default_so_pin ::
    "'r storage_raw \<Rightarrow> facilities \<Rightarrow> 'r std_storage \<Rightarrow> unit result \<times> 'r std_storage" where
  "default_so_pin raw fac st =
    (case key_to_user_data (fac_crypto fac) (st_aci st) SO_ID (checked_pin []) of
       Inl e \<Rightarrow> (Inl e, st)
     | Inr data \<Rightarrow> lift_raw (raw_store_user raw SO_ID data) st)"

definition hex_digit :: "u8 \<Rightarrow> u8" where
  "hex_digit n = (if n < 10 then 0x30 + n else 0x57 + n)"

definition hex_encode :: "bytes \<Rightarrow> bytes" where
  "hex_encode v = concat (map (\<lambda>b. [hex_digit (drop_bit 4 b), hex_digit (b AND 0xF)]) v)"

definition default_token_info ::
    "'r storage_raw \<Rightarrow> facilities \<Rightarrow> bool \<Rightarrow> 'r std_storage \<Rightarrow>
      storage_token_info result \<times> 'r std_storage" where
  "default_token_info raw fac encrypted st =
    (let info = default_storage_token_info
       \<lparr>sti_flags := CKF_TOKEN_INITIALIZED OR (if encrypted then CKF_LOGIN_REQUIRED else 0)\<rparr> in
     case generate_random (fac_crypto fac) 8 of
       Inl e \<Rightarrow> (Inl e, st)
     | Inr v \<Rightarrow>
       let info1 = info\<lparr>sti_serial := hex_encode v\<rparr> in
       st_then (lift_raw (raw_store_token_info raw info1) st) (\<lambda>_ st1. (Ok info1, st1)))"

definition std_open ::
    "'r storage_raw \<Rightarrow> 'r std_storage \<Rightarrow> storage_token_info result \<times> 'r std_storage" where
  "std_open raw st =
    st_then (lift_raw (raw_open raw) st) (\<lambda>_ st1.
      (and_then (raw_is_initialized raw (st_store st1)) (\<lambda>_.
       and_then (raw_fetch_token_info raw (st_store st1)) (\<lambda>info.
       and_then (init_pin_flags raw st1) (\<lambda>f.
         Ok (info\<lparr>sti_flags := sti_flags info OR f\<rparr>)))), st1))"

definition std_reinit ::
    "'r storage_raw \<Rightarrow> facilities \<Rightarrow> 'r std_storage \<Rightarrow> storage_token_info result \<times> 'r std_storage" where
  "std_reinit raw fac st =
    st_then (lift_raw (raw_db_reset raw) st) (\<lambda>_ st1.
    st_then (case aci_reset (fac_crypto fac) (st_aci st1) of (r, aci) \<Rightarrow> (r, st1\<lparr>st_aci := aci\<rparr>)) (\<lambda>_ st2.
    st_then (default_so_pin raw fac st2) (\<lambda>_ st3.
    st_then (default_token_info raw fac (aci_encrypt (st_aci st3)) st3) (\<lambda>info st4.
      (and_then (init_pin_flags raw st4) (\<lambda>f. Ok (info\<lparr>sti_flags := sti_flags info OR f\<rparr>)), st4)))))"

definition std_flush :: "'r storage_raw \<Rightarrow> 'r std_storage \<Rightarrow> unit result \<times> 'r std_storage" where
  "std_flush raw st = lift_raw (raw_flush raw) st"

text \<open>Attributes the factory and the token need to judge the object, added to a partial fetch.\<close>

definition fetch_attrs :: "ck_attrs \<Rightarrow> ck_attrs" where
  "fetch_attrs attributes =
    (if attributes \<noteq> [] then
       add_missing_ulong CKA_EXTRACTABLE 0 (add_missing_ulong CKA_SENSITIVE 0
         (add_missing_ulong CKA_CERTIFICATE_TYPE 0 (add_missing_ulong CKA_KEY_TYPE 0
           (add_missing_ulong CKA_CLASS 0 attributes))))
     else attributes)"

definition decrypt_attr :: "crypto \<Rightarrow> storage_aci \<Rightarrow> bytes \<Rightarrow> object \<Rightarrow> ck_ulong \<Rightarrow> object result" where
  "decrypt_attr cr aci uid obj typ =
    (case get_attr typ obj of
       Some attr \<Rightarrow> and_then (decrypt_value cr aci uid (val attr)) (\<lambda>plain.
         set_attr (from_bytes typ plain) obj)
     | None \<Rightarrow> Ok obj)"

definition encrypt_attr :: "crypto \<Rightarrow> storage_aci \<Rightarrow> bytes \<Rightarrow> object \<Rightarrow> ck_ulong \<Rightarrow> object result" where
  "encrypt_attr cr aci uid obj typ =
    (case get_attr typ obj of
       Some attr \<Rightarrow> and_then (encrypt_value cr aci uid (val attr)) (\<lambda>encval.
         set_attr (from_bytes typ encval) obj)
     | None \<Rightarrow> Ok obj)"

definition std_fetch ::
    "'r storage_raw \<Rightarrow> facilities \<Rightarrow> ck_ulong \<Rightarrow> ck_attrs \<Rightarrow> 'r std_storage \<Rightarrow> object result" where
  "std_fetch raw fac handle attributes st =
    (case handles_get handle (fac_handles fac) of
       None \<Rightarrow> Err CKR_OBJECT_HANDLE_INVALID
     | Some uid \<Rightarrow>
       and_then (raw_fetch_by_uid raw uid (fetch_attrs attributes) (st_store st)) (\<lambda>obj.
       and_then (get_object_factory (fac_factories fac) obj) (\<lambda>factory.
       and_then
         (if aci_encrypt (st_aci st) then
            try_fold (decrypt_attr (fac_crypto fac) (st_aci st) uid) obj (fd_sensitive (f_data factory))
          else Ok obj)
         (\<lambda>obj1. Ok (set_handle handle obj1)))))"

definition std_store ::
    "'r storage_raw \<Rightarrow> object \<Rightarrow> 'r std_storage \<times> facilities \<Rightarrow>
      ck_ulong result \<times> 'r std_storage \<times> facilities" where
  "std_store raw obj stf =
    (case stf of (st, fac) \<Rightarrow>
     (case and_then (get_object_factory (fac_factories fac) obj) (\<lambda>factory.
             and_then (get_attr_as_string CKA_UNIQUE_ID obj) (\<lambda>uid.
             and_then
               (if aci_encrypt (st_aci st) then
                  try_fold (encrypt_attr (fac_crypto fac) (st_aci st) uid) obj (fd_sensitive (f_data factory))
                else Ok obj)
               (\<lambda>obj1. Ok (uid, fold del_attr (fd_ephemeral (f_data factory)) obj1)))) of
        Inl e \<Rightarrow> (Inl e, st, fac)
      | Inr (uid, obj2) \<Rightarrow>
        (case (if o_handle obj2 = CK_INVALID_HANDLE then
                 (let (h, hs) = handles_next (fac_handles fac) in
                  case handles_insert h uid hs of
                    Inl e \<Rightarrow> (Inl e, set_handles hs fac)
                  | Inr hs1 \<Rightarrow> (Ok h, set_handles hs1 fac))
               else (Ok (o_handle obj2), fac)) of
           (Inl e, fac1) \<Rightarrow> (Inl e, st, fac1)
         | (Inr h, fac1) \<Rightarrow>
           (case lift_raw (raw_store_obj raw obj2) st of
              (Inl e, st1) \<Rightarrow> (Inl e, st1, fac1)
            | (Inr _, st1) \<Rightarrow> (Ok h, st1, fac1)))))"

definition encrypt_tmpl :: "crypto \<Rightarrow> storage_aci \<Rightarrow> bytes \<Rightarrow> ck_attrs \<Rightarrow> ck_ulong \<Rightarrow> ck_attrs result" where
  "encrypt_tmpl cr aci uid attrs typ =
    (case find_attr typ attrs of
       Some a \<Rightarrow> and_then (ck_to_buf a) (\<lambda>plain.
         and_then (encrypt_value cr aci uid plain) (\<lambda>encval.
         insert_unique_vec (attr_type a) encval attrs))
     | None \<Rightarrow> Ok attrs)"

definition std_update ::
    "'r storage_raw \<Rightarrow> facilities \<Rightarrow> ck_ulong \<Rightarrow> ck_attrs \<Rightarrow> 'r std_storage \<Rightarrow>
      unit result \<times> 'r std_storage" where
  "std_update raw fac handle template st =
    (case handles_get handle (fac_handles fac) of
       None \<Rightarrow> (Err CKR_OBJECT_HANDLE_INVALID, st)
     | Some uid \<Rightarrow>
       (case and_then (raw_fetch_by_uid raw uid [] (st_store st)) (\<lambda>obj.
               and_then (get_object_factory (fac_factories fac) obj) (\<lambda>factory.
               and_then
                 (if aci_encrypt (st_aci st) then
                    try_fold (encrypt_tmpl (fac_crypto fac) (st_aci st) uid) template
                      (fd_sensitive (f_data factory))
                  else Ok template) (\<lambda>attrs.
               and_then (try_fold set_from_ck obj attrs) (\<lambda>obj1.
                 Ok (fold del_attr (fd_ephemeral (f_data factory)) obj1))))) of
          Inl e \<Rightarrow> (Inl e, st)
        | Inr obj2 \<Rightarrow> lift_raw (raw_store_obj raw obj2) st))"

text \<open>\<^verbatim>\<open>str::parse::<usize>\<close>: decimal digits, an optional plus sign, and no overflow.\<close>

definition parse_usize :: "bytes \<Rightarrow> nat option" where
  "parse_usize s =
    (let ds = (case s of [] \<Rightarrow> [] | c # r \<Rightarrow> if c = 0x2B then r else s);
         n = foldl (\<lambda>acc c. 10 * acc + (unat c - 0x30)) 0 ds in
     if ds = [] \<or> (\<exists>c \<in> set ds. c < 0x30 \<or> c > 0x39) \<or> n \<ge> usize_range then None else Some n)"

definition search_step ::
    "ck_attrs \<Rightarrow> ck_ulong list \<times> facilities \<Rightarrow> object \<Rightarrow> ck_ulong list result \<times> facilities" where
  "search_step template acc obj =
    (case acc of (hs, fac) \<Rightarrow>
     if is_sensitive obj \<and> \<not> is_ok (check_sensitive (fac_factories fac) (set_zeroize obj) template)
       then (Ok hs, fac)
     else case get_attr_as_string CKA_UNIQUE_ID obj of
       Inl _ \<Rightarrow> (Ok hs, fac)
     | Inr uid \<Rightarrow>
       if (case parse_usize uid of Some n \<Rightarrow> n < 10 | None \<Rightarrow> False) then (Ok hs, fac)
       else case handles_get_by_uid uid (fac_handles fac) of
         Some h \<Rightarrow> (Ok (hs @ [h]), fac)
       | None \<Rightarrow>
         (let (h, hm) = handles_next (fac_handles fac) in
          case handles_insert h uid hm of
            Inl e \<Rightarrow> (Inl e, set_handles hm fac)
          | Inr hm1 \<Rightarrow> (Ok (hs @ [h]), set_handles hm1 fac)))"

fun search_loop ::
    "ck_attrs \<Rightarrow> ck_ulong list \<Rightarrow> facilities \<Rightarrow> object list \<Rightarrow> ck_ulong list result \<times> facilities" where
  "search_loop template hs fac [] = (Ok hs, fac)"
| "search_loop template hs fac (obj # objs) =
    st_then (search_step template (hs, fac) obj) (\<lambda>hs1 fac1. search_loop template hs1 fac1 objs)"

definition std_search ::
    "'r storage_raw \<Rightarrow> ck_attrs \<Rightarrow> 'r std_storage \<Rightarrow> facilities \<Rightarrow> ck_ulong list result \<times> facilities" where
  "std_search raw template st fac =
    (case raw_search raw template (st_store st) of
       Inl e \<Rightarrow> (Inl e, fac)
     | Inr objects \<Rightarrow> search_loop template [] fac objects)"

definition std_remove ::
    "'r storage_raw \<Rightarrow> facilities \<Rightarrow> ck_ulong \<Rightarrow> 'r std_storage \<Rightarrow> unit result \<times> 'r std_storage" where
  "std_remove raw fac handle st =
    (case handles_get handle (fac_handles fac) of
       None \<Rightarrow> (Err CKR_OBJECT_HANDLE_INVALID, st)
     | Some uid \<Rightarrow> lift_raw (raw_remove_by_uid raw uid) st)"

definition std_load_token_info :: "'r storage_raw \<Rightarrow> 'r std_storage \<Rightarrow> storage_token_info result" where
  "std_load_token_info raw st = raw_fetch_token_info raw (st_store st)"

definition std_store_token_info ::
    "'r storage_raw \<Rightarrow> storage_token_info \<Rightarrow> 'r std_storage \<Rightarrow> unit result \<times> 'r std_storage" where
  "std_store_token_info raw info st = lift_raw (raw_store_token_info raw info) st"

text \<open>A failure to store the updated attempt counter is ignored (\<^verbatim>\<open>let _ =\<close>).\<close>

definition std_auth_user ::
    "'r storage_raw \<Rightarrow> facilities \<Rightarrow> ck_ulong \<Rightarrow> bytes \<Rightarrow> bool \<Rightarrow> ck_flags \<times> 'r std_storage \<Rightarrow>
      unit result \<times> ck_flags \<times> 'r std_storage" where
  "std_auth_user raw fac user_type pin check_only flag_st =
    (case flag_st of (flag, st) \<Rightarrow>
     (case and_then (get_pin_uid user_type) (\<lambda>uid.
             and_then (raw_fetch_user raw uid (st_store st)) (\<lambda>info. Ok (uid, info))) of
        Inl e \<Rightarrow> (Inl e, flag, st)
      | Inr (uid, info) \<Rightarrow>
        (case authenticate (fac_crypto fac) (fac_factories fac) (st_aci st) uid info
                (checked_pin pin) (\<not> check_only) of
           (Inl e, aci1, _) \<Rightarrow> (Inl e, flag, st\<lparr>st_aci := aci1\<rparr>)
         | (Inr update, aci1, info1) \<Rightarrow>
           (let st1 = st\<lparr>st_aci := aci1\<rparr>;
                st2 = (if update then snd (lift_raw (raw_store_user raw uid info1) st1) else st1) in
            if cur_attempts info1 = 0 then (Ok (), 0, st2)
            else
              (if locked info1 then Err CKR_PIN_LOCKED else Err CKR_PIN_INCORRECT,
               user_flags user_type info1 flag, st2)))))"

definition std_unauth_user ::
    "'r storage_raw \<Rightarrow> ck_ulong \<Rightarrow> 'r std_storage \<Rightarrow> unit result \<times> 'r std_storage" where
  "std_unauth_user raw user_type st =
    (case and_then (get_pin_uid user_type) (\<lambda>uid. raw_fetch_user raw uid (st_store st)) of
       Inl e \<Rightarrow> (Inl e, st)
     | Inr _ \<Rightarrow> (Ok (), st\<lparr>st_aci := unauth (st_aci st)\<rparr>))"

definition std_set_user_pin ::
    "'r storage_raw \<Rightarrow> facilities \<Rightarrow> ck_ulong \<Rightarrow> bytes \<Rightarrow> 'r std_storage \<Rightarrow>
      unit result \<times> 'r std_storage" where
  "std_set_user_pin raw fac user_type pin st =
    (case and_then (get_pin_uid user_type) (\<lambda>uid.
            and_then (key_to_user_data (fac_crypto fac) (st_aci st) uid pin) (\<lambda>data. Ok (uid, data))) of
       Inl e \<Rightarrow> (Inl e, st)
     | Inr (uid, data) \<Rightarrow> lift_raw (raw_store_user raw uid data) st)"

definition std_storage :: "'r storage_raw \<Rightarrow> 'r std_storage storage" where
  "std_storage raw =
    \<lparr>sg_open = std_open raw, sg_reinit = std_reinit raw, sg_flush = std_flush raw,
     sg_fetch = std_fetch raw, sg_store = std_store raw, sg_update = std_update raw,
     sg_search = std_search raw, sg_remove = std_remove raw,
     sg_load_token_info = std_load_token_info raw, sg_store_token_info = std_store_token_info raw,
     sg_auth_user = std_auth_user raw, sg_unauth_user = std_unauth_user raw,
     sg_set_user_pin = std_set_user_pin raw\<rparr>"

end
