(* ===== verification/Key_Factories.thy ===== *)
theory Key_Factories
  imports Factories
begin

text \<open>
  \<^verbatim>\<open>src/src/object/key.rs\<close> and \<^verbatim>\<open>src/src/object/otp.rs\<close>: the attribute lists of the key classes,
  creation, generation, unwrapping and derivation of key objects, the secret key helpers, the
  generic secret key factory and its key generation mechanism. The random generator of the
  crate is the argument \<open>rng\<close>.
\<close>

section \<open>Attributes of the key classes\<close>

definition common_key_attrs :: "bool \<Rightarrow> object_attr list" where
  "common_key_attrs private =
    common_storage_attrs private @
    [attr_element RequiredOnCreate (from_ulong CKA_KEY_TYPE CK_UNAVAILABLE_INFORMATION),
     attr_element 0 (from_bytes CKA_ID []),
     attr_element Defval (from_date_bytes CKA_START_DATE []),
     attr_element Defval (from_date_bytes CKA_END_DATE []),
     attr_element Defval (from_bool CKA_DERIVE False),
     attr_element (Defval OR NeverSettable) (from_bool CKA_LOCAL False),
     attr_element (Defval OR NeverSettable)
       (from_ulong CKA_KEY_GEN_MECHANISM CK_UNAVAILABLE_INFORMATION),
     attr_element 0 (from_bytes CKA_ALLOWED_MECHANISMS []),
     attr_element (NeverSettable OR Ephemeral) (from_ulong CKA_OBJECT_VALIDATION_FLAGS 0)]"

definition common_public_key_attrs :: "object_attr list" where
  "common_public_key_attrs =
    common_key_attrs False @
    [attr_element Defval (from_bytes CKA_SUBJECT []),
     attr_element Defval (from_bool CKA_ENCRYPT False),
     attr_element Defval (from_bool CKA_VERIFY False),
     attr_element Defval (from_bool CKA_VERIFY_RECOVER False),
     attr_element Defval (from_bool CKA_WRAP False),
     attr_element (NeverSettable OR Defval) (from_bool CKA_TRUSTED False),
     attr_element 0 (from_template_bytes CKA_WRAP_TEMPLATE []),
     attr_element 0 (from_bytes CKA_PUBLIC_KEY_INFO []),
     attr_element Defval (from_bool CKA_ENCAPSULATE False),
     attr_element 0 (from_template_bytes CKA_ENCAPSULATE_TEMPLATE [])]"

definition common_private_key_attrs :: "object_attr list" where
  "common_private_key_attrs =
    common_key_attrs True @
    [attr_element Defval (from_bytes CKA_SUBJECT []),
     attr_element (Defval OR ChangeToTrue) (from_bool CKA_SENSITIVE True),
     attr_element Defval (from_bool CKA_DECRYPT False),
     attr_element Defval (from_bool CKA_SIGN False),
     attr_element Defval (from_bool CKA_SIGN_RECOVER False),
     attr_element Defval (from_bool CKA_UNWRAP False),
     attr_element (ChangeToFalse OR Defval) (from_bool CKA_EXTRACTABLE False),
     attr_element NeverSettable (from_bool CKA_ALWAYS_SENSITIVE False),
     attr_element NeverSettable (from_bool CKA_NEVER_EXTRACTABLE False),
     attr_element (Defval OR ChangeToTrue) (from_bool CKA_WRAP_WITH_TRUSTED False),
     attr_element 0 (from_template_bytes CKA_UNWRAP_TEMPLATE []),
     attr_element Defval (from_bool CKA_ALWAYS_AUTHENTICATE False),
     attr_element 0 (from_bytes CKA_PUBLIC_KEY_INFO []),
     attr_element 0 (from_template_bytes CKA_DERIVE_TEMPLATE []),
     attr_element Defval (from_bool CKA_DECAPSULATE False),
     attr_element 0 (from_template_bytes CKA_DECAPSULATE_TEMPLATE [])]"

definition common_secret_key_attrs :: "object_attr list" where
  "common_secret_key_attrs =
    common_key_attrs True @
    [attr_element (Defval OR ChangeToTrue) (from_bool CKA_SENSITIVE True),
     attr_element Defval (from_bool CKA_ENCRYPT False),
     attr_element Defval (from_bool CKA_DECRYPT False),
     attr_element Defval (from_bool CKA_SIGN False),
     attr_element Defval (from_bool CKA_VERIFY False),
     attr_element Defval (from_bool CKA_WRAP False),
     attr_element Defval (from_bool CKA_UNWRAP False),
     attr_element (ChangeToFalse OR Defval) (from_bool CKA_EXTRACTABLE False),
     attr_element NeverSettable (from_bool CKA_ALWAYS_SENSITIVE False),
     attr_element NeverSettable (from_bool CKA_NEVER_EXTRACTABLE False),
     attr_element Ignored (from_ignore CKA_CHECK_VALUE None),
     attr_element (Defval OR ChangeToTrue) (from_bool CKA_WRAP_WITH_TRUSTED False),
     attr_element (NeverSettable OR Defval) (from_bool CKA_TRUSTED False),
     attr_element 0 (from_template_bytes CKA_WRAP_TEMPLATE []),
     attr_element 0 (from_template_bytes CKA_UNWRAP_TEMPLATE []),
     attr_element 0 (from_template_bytes CKA_DERIVE_TEMPLATE [])]"

definition common_otp_key_attrs :: "object_attr list" where
  "common_otp_key_attrs =
    common_secret_key_attrs @
    [attr_element (Defval OR SettableOnlyOnCreate) (from_ulong CKA_OTP_FORMAT CK_OTP_FORMAT_DECIMAL),
     attr_element (Defval OR SettableOnlyOnCreate) (from_ulong CKA_OTP_LENGTH 6),
     attr_element Defval (from_bool CKA_OTP_USER_FRIENDLY_MODE False),
     attr_element (Defval OR SettableOnlyOnCreate)
       (from_ulong CKA_OTP_CHALLENGE_REQUIREMENT CK_OTP_PARAM_IGNORED),
     attr_element (Defval OR SettableOnlyOnCreate)
       (from_ulong CKA_OTP_TIME_REQUIREMENT CK_OTP_PARAM_IGNORED),
     attr_element (Defval OR SettableOnlyOnCreate)
       (from_ulong CKA_OTP_COUNTER_REQUIREMENT CK_OTP_PARAM_IGNORED),
     attr_element (Defval OR SettableOnlyOnCreate)
       (from_ulong CKA_OTP_PIN_REQUIREMENT CK_OTP_PARAM_IGNORED),
     attr_element Defval (from_bytes CKA_OTP_COUNTER (replicate 8 0)),
     attr_element Defval (from_string CKA_OTP_TIME []),
     attr_element 0 (from_string CKA_OTP_USER_IDENTIFIER []),
     attr_element 0 (from_string CKA_OTP_SERVICE_IDENTIFIER []),
     attr_element 0 (from_bytes CKA_OTP_SERVICE_LOGO []),
     attr_element 0 (from_string CKA_OTP_SERVICE_LOGO_TYPE [])]"

section \<open>Creation, generation, unwrapping, derivation\<close>

definition internal_key_create ::
    "factory_data \<Rightarrow> bytes \<Rightarrow> ck_attrs \<Rightarrow> oaflags \<Rightarrow> oaflags \<Rightarrow> object result" where
  "internal_key_create fd uuid template unacceptable required =
    and_then (internal_object_create fd template unacceptable required)
      (\<lambda>o1. Ok (generate_unique uuid o1))"

definition key_create :: "factory_data \<Rightarrow> bytes \<Rightarrow> ck_attrs \<Rightarrow> object result" where
  "key_create fd uuid template =
    and_then (internal_key_create fd uuid template NeverSettable RequiredOnCreate) (\<lambda>o0.
    and_then
      (if o_class o0 = CKO_PUBLIC_KEY \<or> is_secret_class (o_class o0)
       then set_attr (from_bool CKA_LOCAL False) o0 else Ok o0)
      (\<lambda>o1. if is_secret_class (o_class o1)
        then and_then (set_attr (from_bool CKA_ALWAYS_SENSITIVE False) o1)
          (\<lambda>o2. set_attr (from_bool CKA_NEVER_EXTRACTABLE False) o2)
        else Ok o1))"

definition key_generate :: "factory_data \<Rightarrow> bytes \<Rightarrow> ck_attrs \<Rightarrow> object result" where
  "key_generate fd uuid template =
    and_then
      (internal_key_create fd uuid template (SettableOnlyOnCreate OR NeverSettable) RequiredOnGenerate)
      (\<lambda>key. Ok (set_zeroize key))"

definition key_unwrap :: "factory_data \<Rightarrow> bytes \<Rightarrow> ck_attrs \<Rightarrow> object result" where
  "key_unwrap fd uuid template =
    internal_key_create fd uuid template (SettableOnlyOnCreate OR NeverSettable) AlwaysRequired"

definition derive_always_sensitive :: "object \<Rightarrow> object \<Rightarrow> object result" where
  "derive_always_sensitive origin o1 =
    (case get_attr_as_bool CKA_ALWAYS_SENSITIVE origin of
       Inr b \<Rightarrow>
         if b then set_attr (from_bool CKA_ALWAYS_SENSITIVE (is_sensitive o1)) o1
         else set_attr (from_bool CKA_ALWAYS_SENSITIVE False) o1
     | Inl _ \<Rightarrow> set_attr (from_bool CKA_ALWAYS_SENSITIVE False) o1)"

definition derive_never_extractable :: "object \<Rightarrow> object \<Rightarrow> object result" where
  "derive_never_extractable origin o1 =
    (case get_attr_as_bool CKA_NEVER_EXTRACTABLE origin of
       Inr b \<Rightarrow>
         if b then set_attr (from_bool CKA_NEVER_EXTRACTABLE (\<not> is_extractable o1)) o1
         else set_attr (from_bool CKA_NEVER_EXTRACTABLE False) o1
     | Inl _ \<Rightarrow> set_attr (from_bool CKA_NEVER_EXTRACTABLE False) o1)"

definition internal_key_derive :: "factory_data \<Rightarrow> bytes \<Rightarrow> ck_attrs \<Rightarrow> object \<Rightarrow> object result" where
  "internal_key_derive fd uuid template origin =
    and_then
      (case get_attr CKA_DERIVE_TEMPLATE origin of
         Some dt \<Rightarrow> merge_template_attribute dt template
       | None \<Rightarrow> Ok template)
      (\<lambda>final_template.
    and_then
      (internal_key_create fd uuid final_template (SettableOnlyOnCreate OR NeverSettable) AlwaysRequired)
      (\<lambda>o0. and_then (set_attr (from_bool CKA_LOCAL False) o0)
      (\<lambda>o1. and_then (derive_always_sensitive origin o1) (derive_never_extractable origin))))"

section \<open>Secret keys\<close>

definition incomplete :: "error \<Rightarrow> error" where
  "incomplete e = (if attr_not_found e then CkError CKR_TEMPLATE_INCOMPLETE else e)"

definition default_export_for_wrapping :: "object \<Rightarrow> bytes result" where
  "default_export_for_wrapping o1 =
    (if \<not> is_extractable o1 then Err CKR_KEY_UNEXTRACTABLE
     else case get_attr_as_bytes CKA_VALUE o1 of
       Inr v \<Rightarrow> Ok v
     | Inl _ \<Rightarrow> Err CKR_DEVICE_ERROR)"

definition get_key_buffer_len :: "object \<Rightarrow> nat result" where
  "get_key_buffer_len o1 =
    and_then (map_err incomplete (get_attr_as_bytes CKA_VALUE o1)) (\<lambda>v. Ok (length v))"

definition get_key_len :: "object \<Rightarrow> nat" where
  "get_key_len o1 =
    (case get_attr_as_ulong CKA_VALUE_LEN o1 of Inr len \<Rightarrow> unat len | Inl _ \<Rightarrow> 0)"

definition set_key_len :: "nat \<Rightarrow> object \<Rightarrow> object result" where
  "set_key_len len o1 =
    (case get_key_buffer_len o1 of
       Inr blen \<Rightarrow>
         if len \<noteq> blen then Err CKR_GENERAL_ERROR
         else and_then (ulong_try_from len) (\<lambda>n. ensure_ulong CKA_VALUE_LEN n o1)
     | Inl _ \<Rightarrow> and_then (ulong_try_from len) (\<lambda>n. ensure_ulong CKA_VALUE_LEN n o1))"

definition set_key :: "bytes \<Rightarrow> object \<Rightarrow> object result" where
  "set_key key o1 =
    and_then (set_attr (from_bytes CKA_VALUE key) o1) (set_key_len (length key))"

definition default_import_from_wrapped ::
    "factory_data \<Rightarrow> bytes \<Rightarrow> bytes \<Rightarrow> ck_attrs \<Rightarrow> object result" where
  "default_import_from_wrapped fd uuid data template =
    and_then (key_unwrap fd uuid template) (set_key data)"

definition default_secret_key_generate :: "(nat \<Rightarrow> bytes result) \<Rightarrow> object \<Rightarrow> object result" where
  "default_secret_key_generate rng key =
    and_then (get_attr_as_ulong CKA_VALUE_LEN key) (\<lambda>value_len.
    and_then (rng (unat value_len)) (\<lambda>v. set_attr (from_bytes CKA_VALUE v) key))"

definition default_key_attributes :: "ck_ulong \<Rightarrow> object \<Rightarrow> object result" where
  "default_key_attributes mech key =
    and_then (set_attr (from_bool CKA_LOCAL True) key) (\<lambda>k1.
    and_then (set_attr (from_ulong CKA_KEY_GEN_MECHANISM mech) k1) (\<lambda>k2.
    let extractable = (case get_attr_as_bool CKA_EXTRACTABLE k2 of Inr b \<Rightarrow> b | Inl _ \<Rightarrow> True) in
    and_then (set_attr (from_bool CKA_NEVER_EXTRACTABLE (\<not> extractable)) k2) (\<lambda>k3.
    let sensitive = (case get_attr_as_bool CKA_SENSITIVE k3 of Inr b \<Rightarrow> b | Inl _ \<Rightarrow> False) in
    set_attr (from_bool CKA_ALWAYS_SENSITIVE sensitive) k3)))"

section \<open>Generic secret keys\<close>

text \<open>The factory replaces its \<^verbatim>\<open>CKA_PRIVATE\<close> element by one that defaults to private.\<close>

definition generic_secret_data :: factory_data where
  "generic_secret_data =
    finalize_data (new_factory_data CKO_SECRET_KEY
      \<lparr>fd_attributes :=
        upsert oa_type (attr_element (Defval OR ChangeOnCopy) (from_bool CKA_PRIVATE True))
          (common_secret_key_attrs @
           [attr_element (Sensitive OR RequiredOnCreate OR SettableOnlyOnCreate)
              (from_bytes CKA_VALUE []),
            attr_element RequiredOnGenerate (from_ulong CKA_VALUE_LEN 0)])\<rparr>)"

definition generic_secret_create :: "nat \<Rightarrow> bytes \<Rightarrow> ck_attrs \<Rightarrow> object result" where
  "generic_secret_create keysize uuid template =
    and_then (key_create generic_secret_data uuid template) (\<lambda>o1.
    and_then (get_key_buffer_len o1) (\<lambda>len.
      if len = 0 then Err CKR_ATTRIBUTE_VALUE_INVALID
      else if keysize \<noteq> 0 \<and> len \<noteq> keysize then Err CKR_ATTRIBUTE_VALUE_INVALID
      else and_then (ulong_try_from len) (\<lambda>n. ensure_ulong CKA_VALUE_LEN n o1)))"

definition generic_secret_recommend_key_size :: "nat \<Rightarrow> nat \<Rightarrow> nat result" where
  "generic_secret_recommend_key_size keysize dflt = (if keysize \<noteq> 0 then Ok keysize else Ok dflt)"

definition generic_secret_factory :: "nat \<Rightarrow> object_factory" where
  "generic_secret_factory keysize =
    (default_factory generic_secret_data)
      \<lparr>f_create := generic_secret_create keysize,
       f_key_derive := Some (internal_key_derive generic_secret_data),
       f_export := default_export_for_wrapping,
       f_import := default_import_from_wrapped generic_secret_data,
       f_secret := Some \<lparr>sf_recommend_key_size = generic_secret_recommend_key_size keysize,
                         sf_set_key = set_key\<rparr>\<rparr>"

definition template_inconsistent :: "error \<Rightarrow> error" where
  "template_inconsistent _ = CkError CKR_TEMPLATE_INCONSISTENT"

definition generic_secret_generate_key ::
    "(nat \<Rightarrow> bytes result) \<Rightarrow> bytes \<Rightarrow> ck_ulong \<Rightarrow> ck_ulong \<Rightarrow> ck_attrs \<Rightarrow> object result" where
  "generic_secret_generate_key rng uuid keytype mech template =
    and_then (key_generate generic_secret_data uuid template) (\<lambda>k0.
    and_then (map_err template_inconsistent (ensure_ulong CKA_CLASS CKO_SECRET_KEY k0)) (\<lambda>k1.
    and_then (map_err template_inconsistent (ensure_ulong CKA_KEY_TYPE keytype k1)) (\<lambda>k2.
    and_then (default_secret_key_generate rng k2) (default_key_attributes mech))))"

end
