(* ===== verification/Tokens.thy ===== *)
theory Tokens
  imports Storage_Format Key_Factories
begin

text \<open>
  \<^verbatim>\<open>src/src/token.rs\<close>: the token, its login state, its session objects and its access to the
  storage. The storage is a record of operations (\<open>storage\<close>); the factories and mechanisms that
  \<^verbatim>\<open>register_all\<close> registers come with the facilities. A \<^verbatim>\<open>HashMap\<close> is an association list with
  distinct keys, in an arbitrary order. Random unique ids are arguments.
\<close>

record ck_token_info =
  ti_label :: bytes
  ti_manufacturerID :: bytes
  ti_model :: bytes
  ti_serialNumber :: bytes
  ti_flags :: ck_flags
  ti_ulMaxSessionCount :: ck_ulong
  ti_ulSessionCount :: ck_ulong
  ti_ulMaxRwSessionCount :: ck_ulong
  ti_ulRwSessionCount :: ck_ulong
  ti_ulMaxPinLen :: ck_ulong
  ti_ulMinPinLen :: ck_ulong

datatype objects_dedup = TrustOnly | TrustAndCertificates | All

record 's token =
  tk_info :: ck_token_info
  tk_facilities :: facilities
  tk_storage :: 's
  tk_session_objects :: "(ck_ulong \<times> object) list"
  tk_logged :: ck_ulong
  tk_filtermechs :: "mechanisms option"
  tk_dedup :: "objects_dedup option"

section \<open>Token information\<close>

definition initial_token_info :: ck_token_info where
  "initial_token_info =
    \<lparr>ti_label = replicate 32 0x20, ti_manufacturerID = replicate 32 0x20,
     ti_model = replicate 16 0x20, ti_serialNumber = replicate 16 0x20, ti_flags = CKF_RNG,
     ti_ulMaxSessionCount = CK_EFFECTIVELY_INFINITE, ti_ulSessionCount = 0,
     ti_ulMaxRwSessionCount = CK_EFFECTIVELY_INFINITE, ti_ulRwSessionCount = 0,
     ti_ulMaxPinLen = CK_EFFECTIVELY_INFINITE, ti_ulMinPinLen = 8\<rparr>"

definition fill_token_info :: "storage_token_info \<Rightarrow> 's token \<Rightarrow> 's token" where
  "fill_token_info info t =
    t\<lparr>tk_info := (tk_info t)
        \<lparr>ti_label := sti_label info, ti_manufacturerID := sti_manufacturer info,
         ti_model := sti_model info, ti_serialNumber := sti_serial info,
         ti_flags := sti_flags info OR CKF_RNG\<rparr>\<rparr>"

definition set_info_flags :: "ck_flags \<Rightarrow> 's token \<Rightarrow> 's token" where
  "set_info_flags f t = t\<lparr>tk_info := (tk_info t)\<lparr>ti_flags := f\<rparr>\<rparr>"

definition uninitialized_token_info :: "'s token \<Rightarrow> 's token" where
  "uninitialized_token_info t =
    (let t1 = fill_token_info default_storage_token_info t in
     set_info_flags (ti_flags (tk_info t1) AND NOT CKF_TOKEN_INITIALIZED) t1)"

definition is_initialized :: "'s token \<Rightarrow> bool" where
  "is_initialized t \<longleftrightarrow> ti_flags (tk_info t) AND CKF_TOKEN_INITIALIZED = CKF_TOKEN_INITIALIZED"

definition is_logged_in :: "ck_ulong \<Rightarrow> 's token \<Rightarrow> bool" where
  "is_logged_in user_type t \<longleftrightarrow>
    (if user_type = KRY_UNSPEC then tk_logged t = CKU_SO \<or> tk_logged t = CKU_USER
     else if user_type = CKU_SO then tk_logged t = CKU_SO
     else if user_type = CKU_USER then tk_logged t = CKU_USER
     else False)"

section \<open>Session objects and handles\<close>

definition session_object :: "ck_ulong \<Rightarrow> 's token \<Rightarrow> object option" where
  "session_object h t = map_of (tk_session_objects t) h"

definition put_session_object :: "ck_ulong \<Rightarrow> object \<Rightarrow> 's token \<Rightarrow> 's token" where
  "put_session_object h obj t = t\<lparr>tk_session_objects := AList.update h obj (tk_session_objects t)\<rparr>"

definition token_handles :: "'s token \<Rightarrow> handles" where
  "token_handles t = fac_handles (tk_facilities t)"

definition put_handles :: "handles \<Rightarrow> 's token \<Rightarrow> 's token" where
  "put_handles hs t = t\<lparr>tk_facilities := set_handles hs (tk_facilities t)\<rparr>"

definition forget_handle :: "ck_ulong \<Rightarrow> 's token \<Rightarrow> 's token" where
  "forget_handle h t =
    put_handles (handles_remove h (token_handles t))
      (t\<lparr>tk_session_objects := filter (\<lambda>p. fst p \<noteq> h) (tk_session_objects t)\<rparr>)"

definition clear_private_session_objects :: "'s token \<Rightarrow> 's token" where
  "clear_private_session_objects t =
    fold forget_handle
      (map fst (filter (\<lambda>p. o_session (snd p) \<noteq> CK_INVALID_HANDLE \<and> is_private (snd p))
        (tk_session_objects t))) t"

definition clear_session_objects :: "ck_ulong \<Rightarrow> 's token \<Rightarrow> 's token" where
  "clear_session_objects s_handle t =
    fold forget_handle
      (map (\<lambda>p. o_handle (snd p)) (filter (\<lambda>p. o_session (snd p) = s_handle) (tk_session_objects t))) t"

definition drop_session_objects :: "ck_ulong \<Rightarrow> 's token \<Rightarrow> 's token" where
  "drop_session_objects s_handle t = clear_session_objects s_handle t"

definition insert_object ::
    "'s storage \<Rightarrow> ck_ulong \<Rightarrow> object \<Rightarrow> 's token \<Rightarrow> ck_ulong result \<times> 's token" where
  "insert_object sg s_handle obj t =
    (if is_token obj then
       (if \<not> is_logged_in KRY_UNSPEC t then (Err CKR_USER_NOT_LOGGED_IN, t)
        else case sg_store sg obj (tk_storage t, tk_facilities t) of (r, s1, fac1) \<Rightarrow>
          (r, t\<lparr>tk_storage := s1, tk_facilities := fac1\<rparr>))
     else
       (let (h, hs) = handles_next (token_handles t);
            t1 = put_handles hs t;
            obj1 = set_session s_handle (set_handle h obj) in
        case get_attr_as_string CKA_UNIQUE_ID obj1 of
          Inl e \<Rightarrow> (Inl e, t1)
        | Inr uid \<Rightarrow>
          (case handles_insert h uid hs of
             Inl e \<Rightarrow> (Inl e, t1)
           | Inr hs1 \<Rightarrow> (Ok h, put_session_object h obj1 (put_handles hs1 t)))))"

section \<open>Mechanism lists\<close>

definition set_mech_allow_list :: "ck_ulong list \<Rightarrow> 's token \<Rightarrow> 's token" where
  "set_mech_allow_list l t =
    t\<lparr>tk_filtermechs := Some (filter_copy (\<lambda>k. k \<in> set l) (fac_mechanisms (tk_facilities t)))\<rparr>"

definition set_mech_deny_list :: "ck_ulong list \<Rightarrow> 's token \<Rightarrow> 's token" where
  "set_mech_deny_list l t =
    t\<lparr>tk_filtermechs := Some (filter_copy (\<lambda>k. k \<notin> set l) (fac_mechanisms (tk_facilities t)))\<rparr>"

definition get_mechanisms :: "'s token \<Rightarrow> mechanisms" where
  "get_mechanisms t =
    (case tk_filtermechs t of Some m \<Rightarrow> m | None \<Rightarrow> fac_mechanisms (tk_facilities t))"

definition get_mechs_num :: "'s token \<Rightarrow> nat" where
  "get_mechs_num t = mechs_len (get_mechanisms t)"

definition get_mechs_list :: "'s token \<Rightarrow> ck_ulong list" where
  "get_mechs_list t = mechs_list (get_mechanisms t)"

definition get_mech_info :: "ck_ulong \<Rightarrow> 's token \<Rightarrow> ck_mechanism_info result" where
  "get_mech_info typ t =
    (case mechs_info typ (get_mechanisms t) of Some m \<Rightarrow> Ok m | None \<Rightarrow> Err CKR_MECHANISM_INVALID)"

definition set_dedup :: "objects_dedup option \<Rightarrow> 's token \<Rightarrow> 's token" where
  "set_dedup d t = t\<lparr>tk_dedup := d\<rparr>"

section \<open>Built-in objects\<close>

definition insert_builtin_object ::
    "'s storage \<Rightarrow> (bytes \<Rightarrow> bytes) \<Rightarrow> ck_ulong \<Rightarrow> ck_ulong \<Rightarrow> 's token \<Rightarrow> unit result \<times> 's token" where
  "insert_builtin_object sg uuid_v8 c i t =
    (case and_then (get_factory (fac_factories (tk_facilities t)) c 0)
            (\<lambda>f. f_builtin_create f uuid_v8 i) of
       Inl e \<Rightarrow> (Inl e, t)
     | Inr obj \<Rightarrow> st_then (insert_object sg CK_INVALID_HANDLE obj t) (\<lambda>_ t1. (Ok (), t1)))"

fun insert_builtin_objects ::
    "'s storage \<Rightarrow> (bytes \<Rightarrow> bytes) \<Rightarrow> ck_ulong \<Rightarrow> ck_ulong list \<Rightarrow> 's token \<Rightarrow> unit result \<times> 's token" where
  "insert_builtin_objects sg uuid_v8 c [] t = (Ok (), t)"
| "insert_builtin_objects sg uuid_v8 c (i # is) t =
    st_then (insert_builtin_object sg uuid_v8 c i t)
      (\<lambda>_ t1. insert_builtin_objects sg uuid_v8 c is t1)"

definition token_internal_objects_init ::
    "'s storage \<Rightarrow> (bytes \<Rightarrow> bytes) \<Rightarrow> 's token \<Rightarrow> unit result \<times> 's token" where
  "token_internal_objects_init sg uuid_v8 t =
    insert_builtin_objects sg uuid_v8 CKO_MECHANISM (get_mechs_list t) t"

text \<open>
  \<^verbatim>\<open>Token::new\<close>: the new storage and the registered facilities are given; their handles are new.
\<close>

definition new_token ::
    "'s storage \<Rightarrow> (bytes \<Rightarrow> bytes) \<Rightarrow> 's \<Rightarrow> facilities \<Rightarrow> 's token result" where
  "new_token sg uuid_v8 s0 fac0 =
    (let t0 = \<lparr>tk_info = initial_token_info, tk_facilities = set_handles new_handles fac0,
               tk_storage = s0, tk_session_objects = [], tk_logged = KRY_UNSPEC,
               tk_filtermechs = None, tk_dedup = None\<rparr> in
     case sg_open sg s0 of (r, s1) \<Rightarrow>
       let t1 = t0\<lparr>tk_storage := s1\<rparr> in
       and_then
         (case r of
            Inr info \<Rightarrow> Ok (fill_token_info info t1)
          | Inl e \<Rightarrow>
            if rv e = CKR_CRYPTOKI_NOT_INITIALIZED then Ok (uninitialized_token_info t1) else Inl e)
         (\<lambda>t2. case token_internal_objects_init sg uuid_v8 t2 of
            (Inl e, _) \<Rightarrow> Inl e
          | (Inr _, t3) \<Rightarrow> Ok t3))"

section \<open>Login\<close>

definition update_auth_flags :: "ck_ulong \<Rightarrow> ck_flags \<Rightarrow> 's token \<Rightarrow> 's token" where
  "update_auth_flags user_type flags t =
    (if user_type = CKU_USER then
       set_info_flags
         (ti_flags (tk_info t) AND
           NOT (CKF_USER_PIN_LOCKED OR CKF_USER_PIN_FINAL_TRY OR CKF_USER_PIN_COUNT_LOW) OR flags) t
     else if user_type = CKU_SO then
       set_info_flags
         (ti_flags (tk_info t) AND
           NOT (CKF_SO_PIN_LOCKED OR CKF_SO_PIN_FINAL_TRY OR CKF_SO_PIN_COUNT_LOW) OR flags) t
     else t)"

definition auth_user ::
    "'s storage \<Rightarrow> ck_ulong \<Rightarrow> bytes \<Rightarrow> bool \<Rightarrow> 's token \<Rightarrow> unit result \<times> 's token" where
  "auth_user sg user_type pin check_only t =
    (if user_type \<noteq> CKU_SO \<and> user_type \<noteq> CKU_USER then (Err CKR_USER_TYPE_INVALID, t)
     else case sg_auth_user sg (tk_facilities t) user_type pin check_only (0, tk_storage t) of
       (ret, flags, s1) \<Rightarrow>
       (let t1 = update_auth_flags user_type flags (t\<lparr>tk_storage := s1\<rparr>) in
        case ret of
          Inl e \<Rightarrow> (Inl e, t1)
        | Inr _ \<Rightarrow> (Ok (), if \<not> check_only then t1\<lparr>tk_logged := user_type\<rparr> else t1)))"

definition result_rv :: "unit result \<Rightarrow> ck_rv" where
  "result_rv r = (case r of Inr _ \<Rightarrow> CKR_OK | Inl e \<Rightarrow> rv e)"

definition token_login :: "'s storage \<Rightarrow> ck_ulong \<Rightarrow> bytes \<Rightarrow> 's token \<Rightarrow> ck_rv \<times> 's token" where
  "token_login sg user_type pin t =
    (if user_type = CKU_SO \<or> user_type = CKU_USER then
       (if user_type = tk_logged t then (CKR_USER_ALREADY_LOGGED_IN, t)
        else if tk_logged t \<noteq> KRY_UNSPEC then (CKR_USER_ANOTHER_ALREADY_LOGGED_IN, t)
        else case auth_user sg user_type pin False t of (r, t1) \<Rightarrow> (result_rv r, t1))
     else if user_type = CKU_CONTEXT_SPECIFIC then
       (case auth_user sg (tk_logged t) pin True t of (r, t1) \<Rightarrow> (result_rv r, t1))
     else (CKR_USER_TYPE_INVALID, t))"

definition token_logout :: "'s storage \<Rightarrow> 's token \<Rightarrow> ck_rv \<times> 's token" where
  "token_logout sg t =
    (if tk_logged t = KRY_UNSPEC then (CKR_USER_NOT_LOGGED_IN, t)
     else if tk_logged t = CKU_SO \<or> tk_logged t = CKU_USER then
       (let t1 = clear_private_session_objects t;
            user_type = tk_logged t1;
            t2 = t1\<lparr>tk_logged := KRY_UNSPEC\<rparr> in
        case sg_unauth_user sg user_type (tk_storage t2) of (r, s1) \<Rightarrow>
          (if is_ok r then CKR_OK else CKR_GENERAL_ERROR, t2\<lparr>tk_storage := s1\<rparr>))
     else (CKR_GENERAL_ERROR, t))"

definition token_save :: "'s storage \<Rightarrow> 's token \<Rightarrow> unit result \<times> 's token" where
  "token_save sg t = (case sg_flush sg (tk_storage t) of (r, s1) \<Rightarrow> (r, t\<lparr>tk_storage := s1\<rparr>))"

definition set_pin ::
    "'s storage \<Rightarrow> ck_ulong \<Rightarrow> bytes \<Rightarrow> bytes \<Rightarrow> 's token \<Rightarrow> unit result \<times> 's token" where
  "set_pin sg user_type pin old t =
    (case (if user_type = CK_UNAVAILABLE_INFORMATION then Ok (tk_logged t)
           else if user_type = CKU_USER then Ok CKU_USER
           else if user_type = CKU_SO then Ok CKU_SO
           else Err CKR_GENERAL_ERROR) of
       Inl e \<Rightarrow> (Inl e, t)
     | Inr utype \<Rightarrow>
       st_then (if old \<noteq> [] then auth_user sg utype old True t else (Ok (), t)) (\<lambda>_ t1.
       case sg_set_user_pin sg (tk_facilities t1) utype pin (tk_storage t1) of
         (Inl e, s1) \<Rightarrow> (Inl e, t1\<lparr>tk_storage := s1\<rparr>)
       | (Inr _, s1) \<Rightarrow>
         (let t2 = t1\<lparr>tk_storage := s1\<rparr> in
          (Ok (), if utype = CKU_USER
                  then set_info_flags (ti_flags (tk_info t2) OR CKF_USER_PIN_INITIALIZED) t2
                  else t2))))"

definition on_storage :: "('s \<Rightarrow> 'a result \<times> 's) \<Rightarrow> 's token \<Rightarrow> 'a result \<times> 's token" where
  "on_storage f t = (case f (tk_storage t) of (r, s1) \<Rightarrow> (r, t\<lparr>tk_storage := s1\<rparr>))"

definition initialize ::
    "'s storage \<Rightarrow> (bytes \<Rightarrow> bytes) \<Rightarrow> bytes \<Rightarrow> bytes \<Rightarrow> 's token \<Rightarrow> unit result \<times> 's token" where
  "initialize sg uuid_v8 pin label t =
    st_then (if is_initialized t then auth_user sg CKU_SO pin True t else (Ok (), t)) (\<lambda>_ t1.
      let t2 = (put_handles new_handles t1)\<lparr>tk_session_objects := [], tk_logged := KRY_UNSPEC\<rparr> in
      st_then (on_storage (sg_reinit sg (tk_facilities t2)) t2) (\<lambda>info t3.
      st_then
        (case set_pin sg CKU_SO pin [] t3 of
           (Inl e, t4) \<Rightarrow> if rv e \<noteq> CKR_USER_TYPE_INVALID then (Inl e, t4) else (Ok (), t4)
         | (Inr _, t4) \<Rightarrow> (Ok (), t4)) (\<lambda>_ t4.
      let info1 = info\<lparr>sti_label := copy_sized_string label (sti_label info)\<rparr> in
      st_then (on_storage (sg_store_token_info sg info1) t4) (\<lambda>_ t5.
      st_then (on_storage (sg_unauth_user sg CKU_SO) (fill_token_info info1 t5)) (\<lambda>_ t6.
        token_internal_objects_init sg uuid_v8 t6)))))"

section \<open>Objects\<close>

definition get_object_by_handle :: "'s storage \<Rightarrow> ck_ulong \<Rightarrow> 's token \<Rightarrow> object result" where
  "get_object_by_handle sg oh t =
    and_then
      (case session_object oh t of
         Some o1 \<Rightarrow> Ok o1
       | None \<Rightarrow> sg_fetch sg (tk_facilities t) oh [] (tk_storage t))
      (\<lambda>obj. if \<not> is_logged_in KRY_UNSPEC t \<and> is_token obj \<and> is_private obj
             then Err CKR_USER_NOT_LOGGED_IN
             else Ok (if is_sensitive obj then set_zeroize obj else obj))"

definition is_duplicate ::
    "'s storage \<Rightarrow> ck_attrs \<Rightarrow> 's token \<Rightarrow> ck_ulong option result \<times> 's token" where
  "is_duplicate sg template t =
    (case sg_search sg template (tk_storage t) (tk_facilities t) of (r, fac1) \<Rightarrow>
      (and_then r (\<lambda>hs. case hs of [] \<Rightarrow> Ok None | [h] \<Rightarrow> Ok (Some h) | _ \<Rightarrow> Err CKR_GENERAL_ERROR),
       t\<lparr>tk_facilities := fac1\<rparr>))"

definition dup_template :: "ck_ulong \<Rightarrow> ck_ulong \<Rightarrow> ck_ulong \<Rightarrow> attribute \<Rightarrow> attribute \<Rightarrow> ck_attrs result" where
  "dup_template c ta tb a b =
    and_then (add_slice ta (val a) (add_ulong CKA_CLASS c [])) (add_slice tb (val b))"

definition is_dup_by ::
    "'s storage \<Rightarrow> ck_ulong \<Rightarrow> ck_ulong \<Rightarrow> object \<Rightarrow> 's token \<Rightarrow> ck_ulong option result \<times> 's token" where
  "is_dup_by sg ta tb obj t =
    (case (get_attr ta obj, get_attr tb obj) of
       (Some a, Some b) \<Rightarrow>
         (case dup_template (o_class obj) ta tb a b of
            Inl e \<Rightarrow> (Inl e, t)
          | Inr tmpl \<Rightarrow> is_duplicate sg tmpl t)
     | _ \<Rightarrow> (Ok None, t))"

definition is_cert_obj_duplicate ::
    "'s storage \<Rightarrow> object \<Rightarrow> 's token \<Rightarrow> ck_ulong option result \<times> 's token" where
  "is_cert_obj_duplicate sg = is_dup_by sg CKA_ISSUER CKA_SERIAL_NUMBER"

definition is_key_obj_duplicate ::
    "'s storage \<Rightarrow> object \<Rightarrow> 's token \<Rightarrow> ck_ulong option result \<times> 's token" where
  "is_key_obj_duplicate sg = is_dup_by sg CKA_ID CKA_KEY_TYPE"

definition check_dedup ::
    "'s storage \<Rightarrow> object \<Rightarrow> 's token \<Rightarrow> ck_ulong option result \<times> 's token" where
  "check_dedup sg obj t =
    (let c = o_class obj;
         is_cert = (c = CKO_CERTIFICATE);
         is_key = (c = CKO_PUBLIC_KEY \<or> c = CKO_PRIVATE_KEY \<or> c = CKO_SECRET_KEY);
         is_trust = (c = CKO_TRUST) in
     case tk_dedup t of
       Some dedup \<Rightarrow>
         st_then
           (case dedup of
              TrustOnly \<Rightarrow> if is_trust then is_cert_obj_duplicate sg obj t else (Ok None, t)
            | TrustAndCertificates \<Rightarrow>
              if is_cert \<or> is_trust then is_cert_obj_duplicate sg obj t else (Ok None, t)
            | All \<Rightarrow>
              if is_cert \<or> is_trust then is_cert_obj_duplicate sg obj t
              else if is_key then is_key_obj_duplicate sg obj t
              else (Ok None, t))
           (\<lambda>found t1. case found of
              None \<Rightarrow> (Ok None, t1)
            | Some h \<Rightarrow>
              (case from_attributes (o_attributes obj) of
                 Inl e \<Rightarrow> (Inl e, t1)
               | Inr updt \<Rightarrow>
                 st_then (on_storage (sg_update sg (tk_facilities t1) h
                     (snd (remove_attr CKA_UNIQUE_ID updt))) t1)
                   (\<lambda>_ t2. (Ok (Some h), t2))))
     | None \<Rightarrow>
       if is_trust then
         st_then (is_cert_obj_duplicate sg obj t) (\<lambda>found t1.
           if found \<noteq> None then (Err CKR_ATTRIBUTE_VALUE_INVALID, t1) else (Ok None, t1))
       else (Ok None, t))"

definition create_object ::
    "'s storage \<Rightarrow> bytes \<Rightarrow> ck_ulong \<Rightarrow> ck_attrs \<Rightarrow> 's token \<Rightarrow> ck_ulong result \<times> 's token" where
  "create_object sg uuid s_handle template t =
    (case factories_create (fac_factories (tk_facilities t)) uuid template of
       Inl e \<Rightarrow> (Inl e, t)
     | Inr obj \<Rightarrow>
       if is_token obj then
         (if \<not> is_logged_in KRY_UNSPEC t then (Err CKR_USER_NOT_LOGGED_IN, t)
          else st_then (check_dedup sg obj t) (\<lambda>found t1.
            case found of
              Some h \<Rightarrow> (Ok h, t1)
            | None \<Rightarrow> insert_object sg s_handle obj t1))
       else insert_object sg s_handle obj t)"

definition destroy_object :: "'s storage \<Rightarrow> ck_ulong \<Rightarrow> 's token \<Rightarrow> unit result \<times> 's token" where
  "destroy_object sg oh t =
    (case session_object oh t of
       Some obj \<Rightarrow>
         if \<not> is_destroyable obj then (Err CKR_ACTION_PROHIBITED, t)
         else (Ok (), forget_handle oh t)
     | None \<Rightarrow>
       (case sg_fetch sg (tk_facilities t) oh [CkAttribute CKA_DESTROYABLE NullPtr 0] (tk_storage t) of
          Inl e \<Rightarrow> (Inl e, t)
        | Inr obj \<Rightarrow>
          if \<not> is_destroyable obj then (Err CKR_ACTION_PROHIBITED, t)
          else (Ok (), forget_handle oh
                  (snd (on_storage (sg_remove sg (tk_facilities t) oh) t)))))"

definition get_object_attrs ::
    "'s storage \<Rightarrow> ck_ulong \<Rightarrow> ck_attrs \<Rightarrow> 's token \<Rightarrow> unit result \<times> ck_attrs" where
  "get_object_attrs sg oh template t =
    (let is_logged = is_logged_in KRY_UNSPEC t;
         attrs = (if \<not> is_logged then add_bool CKA_PRIVATE 0 (add_bool CKA_TOKEN 0 template)
                  else template) in
     case (case session_object oh t of
             Some o1 \<Rightarrow> Ok o1
           | None \<Rightarrow> sg_fetch sg (tk_facilities t) oh attrs (tk_storage t)) of
       Inl e \<Rightarrow> (Inl e, template)
     | Inr obj \<Rightarrow>
       if \<not> is_logged \<and> is_token obj \<and> is_private obj then (Err CKR_OBJECT_HANDLE_INVALID, template)
       else get_object_attributes (fac_factories (tk_facilities t)) obj template)"

definition set_object_attrs ::
    "'s storage \<Rightarrow> ck_ulong \<Rightarrow> ck_attrs \<Rightarrow> 's token \<Rightarrow> unit result \<times> 's token" where
  "set_object_attrs sg oh template t =
    (case session_object oh t of
       Some obj \<Rightarrow>
         (case get_object_factory (fac_factories (tk_facilities t)) obj of
            Inl e \<Rightarrow> (Inl e, t)
          | Inr f \<Rightarrow>
            (case set_object_attributes (f_data f) obj template of (r, obj1) \<Rightarrow>
              (r, put_session_object oh obj1 t)))
     | None \<Rightarrow>
       if \<not> is_logged_in KRY_UNSPEC t then (Err CKR_USER_NOT_LOGGED_IN, t)
       else
         (let attrs = add_bool CKA_MODIFIABLE 0
                (add_ulong CKA_KEY_TYPE CK_UNAVAILABLE_INFORMATION
                  (add_ulong CKA_CLASS CK_UNAVAILABLE_INFORMATION [])) in
          case and_then (sg_fetch sg (tk_facilities t) oh attrs (tk_storage t)) (\<lambda>obj.
                 and_then (get_object_factory (fac_factories (tk_facilities t)) obj) (\<lambda>f.
                   if \<not> is_modifiable obj then Err CKR_ACTION_PROHIBITED
                   else check_set_attributes (f_data f) template)) of
            Inl e \<Rightarrow> (Inl e, t)
          | Inr _ \<Rightarrow> on_storage (sg_update sg (tk_facilities t) oh template) t))"

definition get_object_size :: "'s storage \<Rightarrow> ck_ulong \<Rightarrow> 's token \<Rightarrow> nat result" where
  "get_object_size sg oh t =
    and_then
      (case session_object oh t of
         Some o1 \<Rightarrow> Ok o1
       | None \<Rightarrow> sg_fetch sg (tk_facilities t) oh [] (tk_storage t))
      rough_size"

definition copy_object ::
    "'s storage \<Rightarrow> bytes \<Rightarrow> ck_ulong \<Rightarrow> ck_ulong \<Rightarrow> ck_attrs \<Rightarrow> 's token \<Rightarrow>
      ck_ulong result \<times> 's token" where
  "copy_object sg uuid s_handle oh template t =
    (case and_then
            (case session_object oh t of
               Some o1 \<Rightarrow> Ok o1
             | None \<Rightarrow>
               and_then (sg_fetch sg (tk_facilities t) oh [] (tk_storage t)) (\<lambda>o1.
                 if \<not> is_logged_in KRY_UNSPEC t \<and> is_private o1 then Err CKR_USER_NOT_LOGGED_IN
                 else Ok o1))
            (\<lambda>obj. factories_copy (fac_factories (tk_facilities t)) uuid obj template) of
       Inl e \<Rightarrow> (Inl e, t)
     | Inr newobj \<Rightarrow> insert_object sg s_handle newobj t)"

definition session_matches :: "factories \<Rightarrow> ck_attrs \<Rightarrow> object \<Rightarrow> bool" where
  "session_matches fs template o1 \<longleftrightarrow>
    \<not> (is_sensitive o1 \<and> \<not> is_ok (check_sensitive fs o1 template)) \<and> obj_match_template template o1"

definition search_objects ::
    "'s storage \<Rightarrow> 's token \<Rightarrow> ck_attrs \<Rightarrow> ck_ulong list result \<times> 's token" where
  "search_objects sg t template =
    (let hs = map (\<lambda>p. o_handle (snd p))
           (filter (\<lambda>p. session_matches (fac_factories (tk_facilities t)) template (snd p))
             (tk_session_objects t)) in
     case (if \<not> is_logged_in KRY_UNSPEC t then add_owned_bool CKA_PRIVATE 0 template else Ok template) of
       Inl e \<Rightarrow> (Inl e, t)
     | Inr tmpl \<Rightarrow>
       (case sg_search sg tmpl (tk_storage t) (tk_facilities t) of (r, fac1) \<Rightarrow>
         (and_then r (\<lambda>shs. Ok (hs @ shs)), t\<lparr>tk_facilities := fac1\<rparr>)))"

end
