(* ===== verification/Sessions.thy ===== *)
theory Sessions
  imports Objects
begin

text \<open>
  \<^verbatim>\<open>src/src/session.rs\<close>: sessions, their state machine, the slots of active operations
  (\<^verbatim>\<open>ManageOperation\<close>), object searches, the login status of an operation and the saving and
  restoring of operation states. The cryptographic operations, ASN.1 and AES-GCM are arguments.
\<close>

section \<open>Searches\<close>

record session_search =
  ss_handles :: "ck_ulong list"
  ss_in_use :: bool

text \<open>\<^verbatim>\<open>drain(0..amount)\<close> removes what it returns.\<close>

definition search_results ::
    "nat \<Rightarrow> session_search \<Rightarrow> ck_ulong list result \<times> session_search" where
  "search_results max_count s =
    (if \<not> ss_in_use s then (Err CKR_OPERATION_NOT_INITIALIZED, s)
     else let amount = (if max_count < length (ss_handles s) then max_count
                        else length (ss_handles s)) in
       (Ok (take amount (ss_handles s)), s\<lparr>ss_handles := drop amount (ss_handles s)\<rparr>))"

definition search_finalized :: "session_search \<Rightarrow> bool" where
  "search_finalized s = False"

section \<open>Active operations\<close>

text \<open>
  An active cryptographic operation is a trait object (\<^verbatim>\<open>MechOperation\<close> and the traits over it in
  \<^verbatim>\<open>src/src/mechanism.rs\<close>), so it is known by its methods only: a codatatype of what a look at it
  gives and what a call answers, together with the object after the call. The methods that do not
  change it are fields: whether it is finalized or busy with a message, its mechanism, the length of
  its digest or signature, the size of its state, \<^verbatim>\<open>state_save\<close>, which fills a buffer of that size
  and says how much of it is used, and \<^verbatim>\<open>updates_object\<close>. The length of an encryption is asked with
  the length of the data and whether it is the last part. Every other method is a call; a buffer
  for its output is given by its size, and the answer is what was written to it.
\<close>

datatype op_call =
    Single bytes nat
  | Update bytes nat
  | Finish nat
  | Check bytes bytes
  | CheckFinish bytes
  | MsgSingle "pvalue \<times> ck_ulong" bytes bytes nat
  | MsgBegin "pvalue \<times> ck_ulong" bytes
  | MsgNext "pvalue \<times> ck_ulong" bytes nat
  | MsgFinish "pvalue \<times> ck_ulong" bytes nat
  | MsgEnd
  | Reset

codatatype crypto_op = CryptoOp
  (co_finalized: bool)
  (co_busy: bool)
  (co_mechanism: "ck_ulong result")
  (co_fixed_len: "nat result")
  (co_state_size: "nat result")
  (co_state_save: "nat \<Rightarrow> (bytes \<times> nat) result")
  (co_updates: "(ck_ulong \<times> ck_attrs) option")
  (co_output_len: "nat \<Rightarrow> bool \<Rightarrow> nat result \<times> crypto_op")
  (co_call: "op_call \<Rightarrow> bytes result \<times> crypto_op")

datatype op_login_status = NotInitialized | NotRequired | Required | LoginOk

record session_operations =
  so_msg_encryption :: "crypto_op option"
  so_msg_decryption :: "crypto_op option"
  so_search :: "session_search option"
  so_encryption :: "crypto_op option"
  so_decryption :: "crypto_op option"
  so_digest :: "crypto_op option"
  so_sign :: "crypto_op option"
  so_verify :: "crypto_op option"
  so_verifysig :: "crypto_op option"

definition new_session_operations :: session_operations where
  "new_session_operations =
    \<lparr>so_msg_encryption = None, so_msg_decryption = None, so_search = None, so_encryption = None,
     so_decryption = None, so_digest = None, so_sign = None, so_verify = None, so_verifysig = None\<rparr>"

text \<open>
  The macro \<^verbatim>\<open>impl_mop\<close>: the five methods of \<^verbatim>\<open>ManageOperation\<close> for one field of the struct, which
  is given by its reader and its writer.
\<close>

definition op_cancel :: "('o option \<Rightarrow> 's \<Rightarrow> 's) \<Rightarrow> 's \<Rightarrow> unit result \<times> 's" where
  "op_cancel put so = (Ok (), put None so)"

definition op_check :: "('s \<Rightarrow> 'o option) \<Rightarrow> ('o \<Rightarrow> bool) \<Rightarrow> 's \<Rightarrow> unit result" where
  "op_check get fin so =
    (case get so of
       Some o1 \<Rightarrow> if \<not> fin o1 then Ok () else Err CKR_OPERATION_NOT_INITIALIZED
     | None \<Rightarrow> Err CKR_OPERATION_NOT_INITIALIZED)"

definition op_check_no :: "('s \<Rightarrow> 'o option) \<Rightarrow> ('o \<Rightarrow> bool) \<Rightarrow> 's \<Rightarrow> unit result" where
  "op_check_no get fin so =
    (case get so of
       Some o1 \<Rightarrow> if \<not> fin o1 then Err CKR_OPERATION_ACTIVE else Ok ()
     | None \<Rightarrow> Ok ())"

definition op_get :: "('s \<Rightarrow> 'o option) \<Rightarrow> ('o \<Rightarrow> bool) \<Rightarrow> 's \<Rightarrow> 'o result" where
  "op_get get fin so =
    (case get so of
       Some o1 \<Rightarrow> if fin o1 then Err CKR_OPERATION_NOT_INITIALIZED else Ok o1
     | None \<Rightarrow> Err CKR_OPERATION_NOT_INITIALIZED)"

definition op_set :: "('o option \<Rightarrow> 's \<Rightarrow> 's) \<Rightarrow> 'o \<Rightarrow> 's \<Rightarrow> 's" where
  "op_set put o1 so = put (Some o1) so"

text \<open>What the methods promise for any field that is read and written like one.\<close>

locale operation_slot =
  fixes get :: "'s \<Rightarrow> 'o option" and put :: "'o option \<Rightarrow> 's \<Rightarrow> 's" and fin :: "'o \<Rightarrow> bool"
  assumes get_put: "get (put x s) = x"
    and put_get: "put (get s) s = s"
    and put_put: "put x (put y s) = put x s"
begin

lemma active_or_free: "op_check get fin s = Ok () \<longleftrightarrow> op_check_no get fin s \<noteq> Ok ()"
  by (auto simp: op_check_def op_check_no_def split: option.splits)

lemma get_after_set: "\<not> fin o1 \<Longrightarrow> op_get get fin (op_set put o1 s) = Ok o1"
  by (simp add: op_get_def op_set_def get_put)

lemma active_after_set: "\<not> fin o1 \<Longrightarrow> op_check_no get fin (op_set put o1 s) = Err CKR_OPERATION_ACTIVE"
  by (simp add: op_check_no_def op_set_def get_put)

lemma free_after_cancel: "op_check_no get fin (snd (op_cancel put s)) = Ok ()"
  by (simp add: op_check_no_def op_cancel_def get_put)

lemma get_after_cancel:
  "op_get get fin (snd (op_cancel put s)) = Err CKR_OPERATION_NOT_INITIALIZED"
  by (simp add: op_get_def op_cancel_def get_put)

lemma get_iff_check: "is_ok (op_get get fin s) \<longleftrightarrow> op_check get fin s = Ok ()"
  by (auto simp: op_get_def op_check_def split: option.splits)

lemma cancel_undoes_set: "get s = None \<Longrightarrow> snd (op_cancel put (op_set put o1 s)) = s"
  using put_get[of s] by (simp add: op_cancel_def op_set_def put_put)

end

text \<open>Two different fields do not interfere.\<close>

locale independent_slots =
  a: operation_slot get_a put_a fin_a + b: operation_slot get_b put_b fin_b
  for get_a :: "'s \<Rightarrow> 'o option" and put_a :: "'o option \<Rightarrow> 's \<Rightarrow> 's" and fin_a :: "'o \<Rightarrow> bool"
    and get_b :: "'s \<Rightarrow> 'p option" and put_b :: "'p option \<Rightarrow> 's \<Rightarrow> 's" and fin_b :: "'p \<Rightarrow> bool" +
  assumes get_other: "get_a (put_b y s) = get_a s"
begin

lemma check_other_set: "op_check get_a fin_a (op_set put_b y s) = op_check get_a fin_a s"
  by (simp add: op_check_def op_set_def get_other)

lemma get_other_cancel: "op_get get_a fin_a (snd (op_cancel put_b s)) = op_get get_a fin_a s"
  by (simp add: op_get_def op_cancel_def get_other)

end

section \<open>Operation states\<close>

definition op_state_size :: "crypto_op option \<Rightarrow> nat result" where
  "op_state_size slot =
    (case slot of
       Some o1 \<Rightarrow> if co_finalized o1 then Err CKR_OPERATION_NOT_INITIALIZED else co_state_size o1
     | None \<Rightarrow> Err CKR_OPERATION_NOT_INITIALIZED)"

text \<open>\<^verbatim>\<open>Vec::resize\<close> with zeros.\<close>

definition resize :: "nat \<Rightarrow> bytes \<Rightarrow> bytes" where
  "resize n v = take n v @ replicate (n - length v) 0"

definition op_state_save :: "crypto_op option \<Rightarrow> (ck_ulong \<times> bytes) result" where
  "op_state_save slot =
    (case slot of
       Some o1 \<Rightarrow>
         if co_finalized o1 then Err CKR_OPERATION_NOT_INITIALIZED
         else and_then (co_state_size o1) (\<lambda>n.
           and_then (co_state_save o1 n) (\<lambda>(data, dsize).
           and_then (co_mechanism o1) (\<lambda>mech. Ok (mech, resize dsize data))))
     | None \<Rightarrow> Err CKR_OPERATION_NOT_INITIALIZED)"

record operation_state =
  os_version :: u32
  os_msgenc :: "(ck_ulong \<times> bytes) option"
  os_msgdec :: "(ck_ulong \<times> bytes) option"
  os_enc :: "(ck_ulong \<times> bytes) option"
  os_dec :: "(ck_ulong \<times> bytes) option"
  os_dgst :: "(ck_ulong \<times> bytes) option"
  os_sig :: "(ck_ulong \<times> bytes) option"
  os_ver :: "(ck_ulong \<times> bytes) option"
  os_versig :: "(ck_ulong \<times> bytes) option"

text \<open>
  The code outside the modelled sources: the \<^verbatim>\<open>asn1\<close> crate for the two DER types and AES-GCM with
  the ephemeral key of the process (\<^verbatim>\<open>OPSTATE_AES_KEY\<close>). An algorithm identifier is of type
  \<open>'alg\<close>; \<open>as_gcm\<close> tells whether it is AES-256-GCM.
\<close>

record ('alg, 'gcm) state_codec =
  write_opstate :: "operation_state \<Rightarrow> bytes option"
  parse_opstate :: "bytes \<Rightarrow> operation_state option"
  write_pdata :: "'alg \<Rightarrow> bytes \<Rightarrow> bytes option"
  parse_pdata :: "bytes \<Rightarrow> ('alg \<times> bytes) option"
  alg_of_gcm :: "'gcm \<Rightarrow> 'alg"
  as_gcm :: "'alg \<Rightarrow> 'gcm option"
  gcm_encrypt :: "bytes \<Rightarrow> bytes \<Rightarrow> ('gcm \<times> bytes) result"
  gcm_decrypt :: "'gcm \<Rightarrow> bytes \<Rightarrow> bytes \<Rightarrow> bytes result"
  opstate_data_overhead :: nat
  opstate_max_overhead :: nat
  opstate_enc_overhead :: nat

text \<open>The ASCII bytes of \<^verbatim>\<open>"Kryoptic_State"\<close>.\<close>

definition OPSTATE_AAD :: bytes where
  "OPSTATE_AAD = [0x4B, 0x72, 0x79, 0x6F, 0x70, 0x74, 0x69, 0x63, 0x5F, 0x53, 0x74, 0x61, 0x74, 0x65]"

text \<open>The mechanisms as far as a restore uses them.\<close>

record 'mech restore_mechs =
  mechs_get :: "ck_ulong \<Rightarrow> 'mech result"
  digest_restore :: "'mech \<Rightarrow> ck_ulong \<Rightarrow> bytes \<Rightarrow> crypto_op result"
  sign_restore :: "'mech \<Rightarrow> ck_ulong \<Rightarrow> object \<Rightarrow> bytes \<Rightarrow> crypto_op result"
  verify_restore :: "'mech \<Rightarrow> ck_ulong \<Rightarrow> object \<Rightarrow> bytes \<Rightarrow> crypto_op result"

section \<open>Sessions\<close>

record ck_session_info =
  si_slotID :: ck_ulong
  si_state :: ck_ulong
  si_flags :: ck_flags
  si_ulDeviceError :: ck_ulong

record session =
  s_info :: ck_session_info
  s_operations :: session_operations
  s_login_status :: op_login_status
  s_fips_indicator :: "bool option"

definition initial_state :: "ck_ulong \<Rightarrow> bool \<Rightarrow> ck_ulong result" where
  "initial_state user_type rw =
    (if user_type = CK_UNAVAILABLE_INFORMATION then
       (if rw then Ok CKS_RW_PUBLIC_SESSION else Ok CKS_RO_PUBLIC_SESSION)
     else if user_type = CKU_USER then
       (if rw then Ok CKS_RW_USER_FUNCTIONS else Ok CKS_RO_USER_FUNCTIONS)
     else if user_type = CKU_SO then
       (if rw then Ok CKS_RW_USER_FUNCTIONS else Err CKR_OPERATION_NOT_INITIALIZED)
     else Err CKR_GENERAL_ERROR)"

definition new_session :: "ck_ulong \<Rightarrow> ck_ulong \<Rightarrow> ck_flags \<Rightarrow> session result" where
  "new_session slotid user_type flags =
    (if flags AND CKF_SERIAL_SESSION \<noteq> CKF_SERIAL_SESSION then Err CKR_ARGUMENTS_BAD
     else and_then (initial_state user_type (flags AND CKF_RW_SESSION = CKF_RW_SESSION)) (\<lambda>st.
       Ok \<lparr>s_info = \<lparr>si_slotID = slotid, si_state = st, si_flags = flags, si_ulDeviceError = 0\<rparr>,
           s_operations = new_session_operations, s_login_status = NotInitialized,
           s_fips_indicator = None\<rparr>))"

definition set_fips_indicator :: "bool \<Rightarrow> session \<Rightarrow> session" where
  "set_fips_indicator flag s =
    (if s_fips_indicator s = Some False then s else s\<lparr>s_fips_indicator := Some flag\<rparr>)"

definition reset_fips_indicator :: "session \<Rightarrow> session" where
  "reset_fips_indicator s = s\<lparr>s_fips_indicator := None\<rparr>"

definition KRF_FIPS :: ck_flags where
  "KRF_FIPS = 1"

definition get_last_validation_flags :: "session \<Rightarrow> ck_flags" where
  "get_last_validation_flags s = (if s_fips_indicator s = Some True then KRF_FIPS else 0)"

definition get_slot_id :: "session \<Rightarrow> ck_ulong" where
  "get_slot_id s = si_slotID (s_info s)"

definition set_state :: "ck_ulong \<Rightarrow> session \<Rightarrow> session" where
  "set_state st s = s\<lparr>s_info := (s_info s)\<lparr>si_state := st\<rparr>\<rparr>"

definition change_session_state :: "ck_ulong \<Rightarrow> session \<Rightarrow> ck_rv \<times> session" where
  "change_session_state user_type s =
    (let st = si_state (s_info s); out = CK_UNAVAILABLE_INFORMATION in
     if st = CKS_RO_PUBLIC_SESSION then
       (if user_type = out then (CKR_OK, s)
        else if user_type = CKU_USER then (CKR_OK, set_state CKS_RO_USER_FUNCTIONS s)
        else if user_type = CKU_SO then (CKR_OPERATION_NOT_INITIALIZED, s)
        else (CKR_USER_TYPE_INVALID, s))
     else if st = CKS_RW_PUBLIC_SESSION then
       (if user_type = out then (CKR_OK, s)
        else if user_type = CKU_USER then (CKR_OK, set_state CKS_RW_USER_FUNCTIONS s)
        else if user_type = CKU_SO then (CKR_OK, set_state CKS_RW_SO_FUNCTIONS s)
        else (CKR_USER_TYPE_INVALID, s))
     else if st = CKS_RO_USER_FUNCTIONS then
       (if user_type = out then (CKR_OK, set_state CKS_RO_PUBLIC_SESSION s)
        else if user_type = CKU_USER then (CKR_OK, s)
        else if user_type = CKU_SO then (CKR_USER_ANOTHER_ALREADY_LOGGED_IN, s)
        else (CKR_USER_TYPE_INVALID, s))
     else if st = CKS_RW_USER_FUNCTIONS then
       (if user_type = out then (CKR_OK, set_state CKS_RW_PUBLIC_SESSION s)
        else if user_type = CKU_USER then (CKR_OK, s)
        else if user_type = CKU_SO then (CKR_USER_ANOTHER_ALREADY_LOGGED_IN, s)
        else (CKR_USER_TYPE_INVALID, s))
     else if st = CKS_RW_SO_FUNCTIONS then
       (if user_type = out then (CKR_OK, set_state CKS_RW_PUBLIC_SESSION s)
        else if user_type = CKU_USER then (CKR_USER_ANOTHER_ALREADY_LOGGED_IN, s)
        else if user_type = CKU_SO then (CKR_OK, s)
        else (CKR_USER_TYPE_INVALID, s))
     else (CKR_GENERAL_ERROR, s))"

definition is_writable :: "session \<Rightarrow> bool" where
  "is_writable s \<longleftrightarrow>
    si_state (s_info s) = CKS_RW_PUBLIC_SESSION \<or> si_state (s_info s) = CKS_RW_USER_FUNCTIONS \<or>
    si_state (s_info s) = CKS_RW_SO_FUNCTIONS"

text \<open>The methods that take an operation type are taken with the reader and writer of its field.\<close>

definition cancel_operation ::
    "('o option \<Rightarrow> session_operations \<Rightarrow> session_operations) \<Rightarrow> session \<Rightarrow> unit result \<times> session" where
  "cancel_operation put s =
    (let (r, so) = op_cancel put (s_operations s) in (r, s\<lparr>s_operations := so\<rparr>))"

definition check_login_status :: "session \<Rightarrow> unit result" where
  "check_login_status s =
    (case s_login_status s of
       NotInitialized \<Rightarrow> Err CKR_OPERATION_NOT_INITIALIZED
     | NotRequired \<Rightarrow> Ok ()
     | Required \<Rightarrow> Err CKR_USER_NOT_LOGGED_IN
     | LoginOk \<Rightarrow> Ok ())"

definition get_operation ::
    "(session_operations \<Rightarrow> 'o option) \<Rightarrow> ('o \<Rightarrow> bool) \<Rightarrow> session \<Rightarrow> 'o result" where
  "get_operation get fin s =
    and_then (check_login_status s) (\<lambda>_. op_get get fin (s_operations s))"

definition set_operation ::
    "('o option \<Rightarrow> session_operations \<Rightarrow> session_operations) \<Rightarrow> 'o \<Rightarrow> bool \<Rightarrow> session \<Rightarrow> session" where
  "set_operation put o1 needs_login s =
    s\<lparr>s_fips_indicator := None,
      s_login_status := (if needs_login then Required else NotRequired),
      s_operations := op_set put o1 (s_operations s)\<rparr>"

definition set_login_ok :: "session \<Rightarrow> session" where
  "set_login_ok s = s\<lparr>s_login_status := LoginOk\<rparr>"

definition put_search :: "session_search option \<Rightarrow> session_operations \<Rightarrow> session_operations" where
  "put_search x so = so\<lparr>so_search := x\<rparr>"

text \<open>The search itself is the token's; it may change the token.\<close>

definition new_search_operation ::
    "('t \<Rightarrow> ck_attrs \<Rightarrow> ck_ulong list result \<times> 't) \<Rightarrow> 't \<Rightarrow> ck_attrs \<Rightarrow> session \<Rightarrow>
      unit result \<times> session \<times> 't" where
  "new_search_operation search_objects token template s =
    (case op_check_no so_search search_finalized (s_operations s) of
       Inl e \<Rightarrow> (Inl e, s, token)
     | Inr _ \<Rightarrow>
       (case search_objects token template of
          (Inl e, token') \<Rightarrow> (Inl e, s, token')
        | (Inr hs, token') \<Rightarrow>
          (Ok (), set_operation put_search \<lparr>ss_handles = hs, ss_in_use = True\<rparr> False s, token')))"

subsection \<open>Saving and restoring\<close>

text \<open>One use of the macros \<^verbatim>\<open>op_size\<close> and \<^verbatim>\<open>op_save\<close>: the code so far, and what was gathered.\<close>

definition op_gather :: "'a result \<Rightarrow> ('a \<Rightarrow> 'g \<Rightarrow> 'g) \<Rightarrow> ck_rv \<times> 'g \<Rightarrow> (ck_rv \<times> 'g) result" where
  "op_gather r add acc =
    (case r of
       Inr x \<Rightarrow> Ok (CKR_OK, add x (snd acc))
     | Inl e \<Rightarrow>
       if rv e = CKR_STATE_UNSAVEABLE then
         Ok (if fst acc \<noteq> CKR_OK then CKR_STATE_UNSAVEABLE else fst acc, snd acc)
       else if rv e = CKR_OPERATION_NOT_INITIALIZED then Ok acc
       else Inl e)"

definition saved_slots :: "session_operations \<Rightarrow> crypto_op option list" where
  "saved_slots so =
    [so_msg_encryption so, so_msg_decryption so, so_encryption so, so_decryption so, so_digest so,
     so_sign so, so_verify so, so_verifysig so]"

definition state_size :: "('alg, 'gcm) state_codec \<Rightarrow> session \<Rightarrow> nat result" where
  "state_size cd s =
    and_then
      (try_fold
        (\<lambda>acc slot. op_gather (op_state_size slot)
          (\<lambda>n total. total + (opstate_data_overhead cd + n)) acc)
        (CKR_OPERATION_NOT_INITIALIZED, opstate_max_overhead cd + opstate_enc_overhead cd)
        (saved_slots (s_operations s)))
      (\<lambda>(ret, total). if ret \<noteq> CKR_OK then Err ret else Ok total)"

definition empty_operation_state :: operation_state where
  "empty_operation_state =
    \<lparr>os_version = 1, os_msgenc = None, os_msgdec = None, os_enc = None, os_dec = None,
     os_dgst = None, os_sig = None, os_ver = None, os_versig = None\<rparr>"

definition gather_state :: "session_operations \<Rightarrow> (ck_rv \<times> operation_state) result" where
  "gather_state so =
    and_then (op_gather (op_state_save (so_msg_encryption so)) (\<lambda>x st. st\<lparr>os_msgenc := Some x\<rparr>)
      (CKR_OPERATION_NOT_INITIALIZED, empty_operation_state)) (\<lambda>a1.
    and_then (op_gather (op_state_save (so_msg_decryption so)) (\<lambda>x st. st\<lparr>os_msgdec := Some x\<rparr>) a1) (\<lambda>a2.
    and_then (op_gather (op_state_save (so_encryption so)) (\<lambda>x st. st\<lparr>os_enc := Some x\<rparr>) a2) (\<lambda>a3.
    and_then (op_gather (op_state_save (so_decryption so)) (\<lambda>x st. st\<lparr>os_dec := Some x\<rparr>) a3) (\<lambda>a4.
    and_then (op_gather (op_state_save (so_digest so)) (\<lambda>x st. st\<lparr>os_dgst := Some x\<rparr>) a4) (\<lambda>a5.
    and_then (op_gather (op_state_save (so_sign so)) (\<lambda>x st. st\<lparr>os_sig := Some x\<rparr>) a5) (\<lambda>a6.
    and_then (op_gather (op_state_save (so_verify so)) (\<lambda>x st. st\<lparr>os_ver := Some x\<rparr>) a6) (\<lambda>a7.
    op_gather (op_state_save (so_verifysig so)) (\<lambda>x st. st\<lparr>os_versig := Some x\<rparr>) a7)))))))"

text \<open>The result is what is written at the start of the caller's buffer of the given length.\<close>

definition state_save :: "('alg, 'gcm) state_codec \<Rightarrow> nat \<Rightarrow> session \<Rightarrow> bytes result" where
  "state_save cd buflen s =
    and_then (gather_state (s_operations s)) (\<lambda>(ret, opstate).
      if ret \<noteq> CKR_OK then Err ret
      else case write_opstate cd opstate of
        None \<Rightarrow> Err CKR_GENERAL_ERROR
      | Some data \<Rightarrow>
        and_then (gcm_encrypt cd OPSTATE_AAD data) (\<lambda>(gcm, edata).
          case write_pdata cd (alg_of_gcm cd gcm) edata of
            Some der \<Rightarrow> if length der > buflen then Err CKR_GENERAL_ERROR else Ok der
          | None \<Rightarrow> Err CKR_GENERAL_ERROR))"

definition parse_state :: "('alg, 'gcm) state_codec \<Rightarrow> bytes \<Rightarrow> operation_state result" where
  "parse_state cd state =
    (case parse_pdata cd state of
       None \<Rightarrow> Err CKR_SAVED_STATE_INVALID
     | Some (alg, edata) \<Rightarrow>
       (case as_gcm cd alg of
          None \<Rightarrow> Err CKR_SAVED_STATE_INVALID
        | Some gcm \<Rightarrow>
          and_then (map_err (\<lambda>_. CkError CKR_SAVED_STATE_INVALID) (gcm_decrypt cd gcm OPSTATE_AAD edata)) (\<lambda>data.
            case parse_opstate cd data of
              None \<Rightarrow> Err CKR_SAVED_STATE_INVALID
            | Some opstate \<Rightarrow>
              if os_version opstate \<noteq> 1 then Err CKR_SAVED_STATE_INVALID else Ok opstate)))"

definition restore_digest ::
    "'mech restore_mechs \<Rightarrow> object option \<Rightarrow> operation_state \<Rightarrow> session_operations \<Rightarrow> session_operations result" where
  "restore_digest ms key st so =
    (case os_dgst st of
       None \<Rightarrow> Ok so
     | Some (mech, data) \<Rightarrow>
       if key \<noteq> None then Err CKR_KEY_NOT_NEEDED
       else and_then (mechs_get ms mech) (\<lambda>m.
         and_then (digest_restore ms m mech data) (\<lambda>o1. Ok (so\<lparr>so_digest := Some o1\<rparr>))))"

definition restore_sign ::
    "'mech restore_mechs \<Rightarrow> object option \<Rightarrow> operation_state \<Rightarrow> session_operations \<Rightarrow> session_operations result" where
  "restore_sign ms key st so =
    (case os_sig st of
       None \<Rightarrow> Ok so
     | Some (mech, data) \<Rightarrow>
       (case key of
          None \<Rightarrow> Err CKR_KEY_NEEDED
        | Some k \<Rightarrow> and_then (mechs_get ms mech) (\<lambda>m.
            and_then (sign_restore ms m mech k data) (\<lambda>o1. Ok (so\<lparr>so_sign := Some o1\<rparr>)))))"

definition restore_verify ::
    "'mech restore_mechs \<Rightarrow> object option \<Rightarrow> operation_state \<Rightarrow> session_operations \<Rightarrow> session_operations result" where
  "restore_verify ms key st so =
    (case os_ver st of
       None \<Rightarrow> Ok so
     | Some (mech, data) \<Rightarrow>
       (case key of
          None \<Rightarrow> Err CKR_KEY_NEEDED
        | Some k \<Rightarrow> and_then (mechs_get ms mech) (\<lambda>m.
            and_then (verify_restore ms m mech k data) (\<lambda>o1. Ok (so\<lparr>so_verify := Some o1\<rparr>)))))"

text \<open>The operations restored before a failure stay in place, so the session is returned too.\<close>

definition state_restore ::
    "('alg, 'gcm) state_codec \<Rightarrow> 'mech restore_mechs \<Rightarrow> bytes \<Rightarrow> object option \<Rightarrow> session \<Rightarrow>
      unit result \<times> session" where
  "state_restore cd ms state key s =
    (case parse_state cd state of
       Inl e \<Rightarrow> (Inl e, s)
     | Inr st \<Rightarrow>
       if os_msgenc st \<noteq> None \<or> os_msgdec st \<noteq> None \<or> os_enc st \<noteq> None \<or> os_dec st \<noteq> None
         then (Err CKR_GENERAL_ERROR, s)
       else
         (case restore_digest ms key st (s_operations s) of
            Inl e \<Rightarrow> (Inl e, s)
          | Inr so1 \<Rightarrow>
            (case restore_sign ms key st so1 of
               Inl e \<Rightarrow> (Inl e, s\<lparr>s_operations := so1\<rparr>)
             | Inr so2 \<Rightarrow>
               (case restore_verify ms key st so2 of
                  Inl e \<Rightarrow> (Inl e, s\<lparr>s_operations := so2\<rparr>)
                | Inr so3 \<Rightarrow>
                  (if os_versig st \<noteq> None then Err CKR_SAVED_STATE_INVALID else Ok (),
                   s\<lparr>s_operations := so3\<rparr>)))))"

end
