(* ===== verification/Library_State.thy ===== *)
theory Library_State
  imports Tokens Sessions
begin

text \<open>
  \<^verbatim>\<open>src/src/slot.rs\<close> and the struct \<^verbatim>\<open>State\<close> of \<^verbatim>\<open>src/src/lib.rs\<close>: slots with their token and
  sessions, the map from session handles to slots, and the handle counter. A \<^verbatim>\<open>HashMap\<close> is an
  association list with distinct keys in an arbitrary order. Calls run one at a time: the locks
  are not modelled, and a poisoned lock does not occur.
\<close>

section \<open>Slots\<close>

record ck_slot_info =
  sli_slotDescription :: bytes
  sli_manufacturerID :: bytes
  sli_flags :: ck_flags

record 's slot =
  sl_info :: ck_slot_info
  sl_token :: "'s token"
  sl_sessions :: "(ck_ulong \<times> session) list"

record slot_config =
  cfg_description :: "bytes option"
  cfg_manufacturer :: "bytes option"
  cfg_dbtype :: "bytes option"
  cfg_dbargs :: "bytes option"
  cfg_mechanisms :: "bytes list option"
  cfg_objects_dedup :: "objects_dedup option"

text \<open>
  \<^verbatim>\<open>mech_list\<close> of \<^verbatim>\<open>src/src/config.rs\<close>, with the table of mechanism names as an argument. The
  first entry may be the word \<^verbatim>\<open>DENY\<close>.
\<close>

definition DENY :: bytes where
  "DENY = [0x44, 0x45, 0x4E, 0x59]"

fun names_to_mechs :: "(bytes \<Rightarrow> ck_ulong result) \<Rightarrow> bytes list \<Rightarrow> ck_ulong list result" where
  "names_to_mechs name_to_mech [] = Ok []"
| "names_to_mechs name_to_mech (n # ns) =
    and_then (name_to_mech n) (\<lambda>m.
      and_then (names_to_mechs name_to_mech ns) (\<lambda>ms. Ok (m # ms)))"

definition mech_list ::
    "(bytes \<Rightarrow> ck_ulong result) \<Rightarrow> slot_config \<Rightarrow> (ck_ulong list option \<times> bool) result" where
  "mech_list name_to_mech cfg =
    (case cfg_mechanisms cfg of
       None \<Rightarrow> Ok (None, False)
     | Some names \<Rightarrow>
       (let deny = (case names of n # _ \<Rightarrow> n = DENY | [] \<Rightarrow> False) in
        and_then (names_to_mechs name_to_mech (if deny then tl names else names))
          (\<lambda>ms. Ok (Some ms, deny))))"

text \<open>The ASCII bytes of \<^verbatim>\<open>"Kryoptic Slot"\<close>.\<close>

definition SLOT_DESCRIPTION :: bytes where
  "SLOT_DESCRIPTION =
    [0x4B, 0x72, 0x79, 0x6F, 0x70, 0x74, 0x69, 0x63, 0x20, 0x53, 0x6C, 0x6F, 0x74]"

definition slot_new ::
    "'s storage \<Rightarrow> (bytes \<Rightarrow> bytes option \<Rightarrow> 's result) \<Rightarrow> (bytes \<Rightarrow> bytes) \<Rightarrow>
      (bytes \<Rightarrow> ck_ulong result) \<Rightarrow> facilities \<Rightarrow> slot_config \<Rightarrow> 's slot result" where
  "slot_new sg new_storage uuid_v8 name_to_mech fac0 cfg =
    (case cfg_dbtype cfg of
       None \<Rightarrow> Err CKR_GENERAL_ERROR
     | Some dbtype \<Rightarrow>
       and_then (new_storage dbtype (cfg_dbargs cfg)) (\<lambda>s0.
       and_then (new_token sg uuid_v8 s0 fac0) (\<lambda>token.
       and_then (mech_list name_to_mech cfg) (\<lambda>(list, deny).
         let token1 = (case list of
               Some mechs \<Rightarrow> if deny then set_mech_deny_list mechs token
                             else set_mech_allow_list mechs token
             | None \<Rightarrow> token) in
         Ok \<lparr>sl_info =
               \<lparr>sli_slotDescription = copy_sized_string
                  (case cfg_description cfg of Some d \<Rightarrow> d | None \<Rightarrow> SLOT_DESCRIPTION) (replicate 64 0),
                sli_manufacturerID = copy_sized_string
                  (case cfg_manufacturer cfg of Some m \<Rightarrow> m | None \<Rightarrow> MANUFACTURER_ID) (replicate 32 0),
                sli_flags = CKF_TOKEN_PRESENT\<rparr>,
             sl_token = set_dedup (cfg_objects_dedup cfg) token1, sl_sessions = []\<rparr>))))"

definition slot_get_token :: "'s slot \<Rightarrow> 's token result" where
  "slot_get_token sl =
    (if is_initialized (sl_token sl) then Ok (sl_token sl) else Err CKR_TOKEN_NOT_INITIALIZED)"

definition slot_get_token_mut :: "bool \<Rightarrow> 's slot \<Rightarrow> 's token result" where
  "slot_get_token_mut nochecks sl =
    (if nochecks then Ok (sl_token sl)
     else if is_initialized (sl_token sl) then Ok (sl_token sl)
     else Err CKR_TOKEN_NOT_INITIALIZED)"

definition slot_add_session :: "ck_ulong \<Rightarrow> session \<Rightarrow> 's slot \<Rightarrow> 's slot" where
  "slot_add_session h s sl = sl\<lparr>sl_sessions := AList.update h s (sl_sessions sl)\<rparr>"

definition slot_get_session :: "ck_ulong \<Rightarrow> 's slot \<Rightarrow> session result" where
  "slot_get_session h sl =
    (case map_of (sl_sessions sl) h of Some s \<Rightarrow> Ok s | None \<Rightarrow> Err CKR_SESSION_HANDLE_INVALID)"

definition slot_has_sessions :: "'s slot \<Rightarrow> bool" where
  "slot_has_sessions sl \<longleftrightarrow> length (sl_sessions sl) > 0"

definition is_ro_state :: "ck_ulong \<Rightarrow> bool" where
  "is_ro_state st \<longleftrightarrow> st = CKS_RO_PUBLIC_SESSION \<or> st = CKS_RO_USER_FUNCTIONS"

definition slot_has_ro_sessions :: "'s slot \<Rightarrow> bool" where
  "slot_has_ro_sessions sl \<longleftrightarrow>
    list_ex (\<lambda>p. is_ro_state (si_state (s_info (snd p)))) (sl_sessions sl)"

text \<open>The loop of \<^verbatim>\<open>change_session_states\<close> stops at the first session that refuses.\<close>

fun change_all ::
    "ck_ulong \<Rightarrow> (ck_ulong \<times> session) list \<Rightarrow> unit result \<times> (ck_ulong \<times> session) list" where
  "change_all user_type [] = (Ok (), [])"
| "change_all user_type ((h, s) # rest) =
    (case change_session_state user_type s of (ret, s1) \<Rightarrow>
      if ret \<noteq> CKR_OK then (Err ret, (h, s1) # rest)
      else case change_all user_type rest of (r, rest1) \<Rightarrow> (r, (h, s1) # rest1))"

definition slot_change_session_states :: "ck_ulong \<Rightarrow> 's slot \<Rightarrow> unit result \<times> 's slot" where
  "slot_change_session_states user_type sl =
    (case change_all user_type (sl_sessions sl) of (r, ss) \<Rightarrow> (r, sl\<lparr>sl_sessions := ss\<rparr>))"

definition slot_invalidate_session_states :: "'s slot \<Rightarrow> 's slot" where
  "slot_invalidate_session_states sl =
    sl\<lparr>sl_sessions :=
        map (\<lambda>(h, s). (h, snd (change_session_state CK_UNAVAILABLE_INFORMATION s))) (sl_sessions sl)\<rparr>"

definition slot_drop_session :: "ck_ulong \<Rightarrow> 's slot \<Rightarrow> 's slot" where
  "slot_drop_session h sl = sl\<lparr>sl_sessions := AList.delete h (sl_sessions sl)\<rparr>"

definition slot_drop_all_sessions :: "'s slot \<Rightarrow> ck_ulong list \<times> 's slot" where
  "slot_drop_all_sessions sl = (map fst (sl_sessions sl), sl\<lparr>sl_sessions := []\<rparr>)"

definition slot_finalize :: "'s storage \<Rightarrow> 's slot \<Rightarrow> unit result \<times> 's slot" where
  "slot_finalize sg sl =
    (case token_save sg (sl_token (snd (slot_drop_all_sessions sl))) of
       (r, t) \<Rightarrow> (r, (snd (slot_drop_all_sessions sl))\<lparr>sl_token := t\<rparr>))"

section \<open>The state of the library\<close>

record 's lib_state =
  gs_slots :: "(ck_ulong \<times> 's slot) list"
  gs_sessionmap :: "(ck_ulong \<times> ck_ulong) list"
  gs_next_handle :: ck_ulong

definition initial_lib_state :: "'s lib_state" where
  "initial_lib_state = \<lparr>gs_slots = [], gs_sessionmap = [], gs_next_handle = 0\<rparr>"

definition state_initialize :: "'s lib_state \<Rightarrow> 's lib_state" where
  "state_initialize st = st\<lparr>gs_slots := [], gs_sessionmap := [], gs_next_handle := 1\<rparr>"

definition state_is_initialized :: "'s lib_state \<Rightarrow> bool" where
  "state_is_initialized st \<longleftrightarrow> gs_next_handle st \<noteq> 0"

definition state_finalize :: "'s storage \<Rightarrow> 's lib_state \<Rightarrow> ck_rv \<times> 's lib_state" where
  "state_finalize sg st =
    (if \<not> state_is_initialized st then (CKR_CRYPTOKI_NOT_INITIALIZED, st)
     else
       (fold (\<lambda>p ret. let err = result_rv (fst (slot_finalize sg (snd p))) in
                      if ret = CKR_OK then err else ret) (gs_slots st) CKR_OK,
        st\<lparr>gs_slots := [], gs_sessionmap := [], gs_next_handle := 0\<rparr>))"

definition get_slot :: "'s lib_state \<Rightarrow> ck_ulong \<Rightarrow> 's slot result" where
  "get_slot st slot_id =
    (if \<not> state_is_initialized st then Err CKR_CRYPTOKI_NOT_INITIALIZED
     else case map_of (gs_slots st) slot_id of Some sl \<Rightarrow> Ok sl | None \<Rightarrow> Err CKR_SLOT_ID_INVALID)"

text \<open>What \<^verbatim>\<open>get_slot_mut\<close> and the locks give the caller: the slot is written back in place.\<close>

definition put_slot :: "ck_ulong \<Rightarrow> 's slot \<Rightarrow> 's lib_state \<Rightarrow> 's lib_state" where
  "put_slot slot_id sl st = st\<lparr>gs_slots := AList.update slot_id sl (gs_slots st)\<rparr>"

definition put_token :: "ck_ulong \<Rightarrow> 's token \<Rightarrow> 's lib_state \<Rightarrow> 's lib_state" where
  "put_token slot_id t st =
    (case map_of (gs_slots st) slot_id of
       Some sl \<Rightarrow> put_slot slot_id (sl\<lparr>sl_token := t\<rparr>) st
     | None \<Rightarrow> st)"

definition put_session :: "ck_ulong \<Rightarrow> ck_ulong \<Rightarrow> session \<Rightarrow> 's lib_state \<Rightarrow> 's lib_state" where
  "put_session slot_id h s st =
    (case map_of (gs_slots st) slot_id of
       Some sl \<Rightarrow> put_slot slot_id (slot_add_session h s sl) st
     | None \<Rightarrow> st)"

definition get_slots_ids :: "'s lib_state \<Rightarrow> ck_ulong list" where
  "get_slots_ids st = sort (map fst (gs_slots st))"

definition add_slot :: "ck_ulong \<Rightarrow> 's slot \<Rightarrow> 's lib_state \<Rightarrow> unit result \<times> 's lib_state" where
  "add_slot slot_id sl st =
    (if slot_id \<in> fst ` set (gs_slots st) then (Err CKR_CRYPTOKI_ALREADY_INITIALIZED, st)
     else (Ok (), put_slot slot_id sl st))"

definition session_slot :: "'s lib_state \<Rightarrow> ck_ulong \<Rightarrow> ck_ulong result" where
  "session_slot st h =
    (case map_of (gs_sessionmap st) h of Some sid \<Rightarrow> Ok sid | None \<Rightarrow> Err CKR_SESSION_HANDLE_INVALID)"

definition get_session :: "'s lib_state \<Rightarrow> ck_ulong \<Rightarrow> session result" where
  "get_session st h =
    and_then (session_slot st h) (\<lambda>sid. and_then (get_slot st sid) (slot_get_session h))"

text \<open>The handle is taken before the slot is looked up, but counted only on success.\<close>

definition state_new_session ::
    "ck_ulong \<Rightarrow> ck_ulong \<Rightarrow> ck_flags \<Rightarrow> 's lib_state \<Rightarrow> ck_ulong result \<times> 's lib_state" where
  "state_new_session slot_id user_type flags st =
    (let h = gs_next_handle st in
     case and_then (get_slot st slot_id) (\<lambda>sl.
            and_then (new_session slot_id user_type flags) (\<lambda>s. Ok (slot_add_session h s sl))) of
       Inl e \<Rightarrow> (Inl e, st)
     | Inr sl \<Rightarrow>
       (Ok h, (put_slot slot_id sl st)
          \<lparr>gs_sessionmap := AList.update h slot_id (gs_sessionmap st),
           gs_next_handle := h + 1\<rparr>))"

definition has_sessions :: "'s lib_state \<Rightarrow> ck_ulong \<Rightarrow> bool result" where
  "has_sessions st slot_id = and_then (get_slot st slot_id) (\<lambda>sl. Ok (slot_has_sessions sl))"

definition has_ro_sessions :: "'s lib_state \<Rightarrow> ck_ulong \<Rightarrow> bool result" where
  "has_ro_sessions st slot_id = and_then (get_slot st slot_id) (\<lambda>sl. Ok (slot_has_ro_sessions sl))"

definition change_session_states ::
    "ck_ulong \<Rightarrow> ck_ulong \<Rightarrow> 's lib_state \<Rightarrow> unit result \<times> 's lib_state" where
  "change_session_states slot_id user_type st =
    (case get_slot st slot_id of
       Inl e \<Rightarrow> (Inl e, st)
     | Inr sl \<Rightarrow>
       (case slot_change_session_states user_type sl of (r, sl1) \<Rightarrow> (r, put_slot slot_id sl1 st)))"

definition invalidate_session_states :: "ck_ulong \<Rightarrow> 's lib_state \<Rightarrow> unit result \<times> 's lib_state" where
  "invalidate_session_states slot_id st =
    (case get_slot st slot_id of
       Inl e \<Rightarrow> (Inl e, st)
     | Inr sl \<Rightarrow> (Ok (), put_slot slot_id (slot_invalidate_session_states sl) st))"

definition get_token_from_slot :: "'s lib_state \<Rightarrow> ck_ulong \<Rightarrow> 's token result" where
  "get_token_from_slot st slot_id = and_then (get_slot st slot_id) slot_get_token"

definition get_token_from_slot_mut :: "'s lib_state \<Rightarrow> ck_ulong \<Rightarrow> 's token result" where
  "get_token_from_slot_mut st slot_id = and_then (get_slot st slot_id) (slot_get_token_mut False)"

definition get_token_from_slot_mut_nochecks :: "'s lib_state \<Rightarrow> ck_ulong \<Rightarrow> 's token result" where
  "get_token_from_slot_mut_nochecks st slot_id = and_then (get_slot st slot_id) (slot_get_token_mut True)"

definition get_token_from_session :: "'s lib_state \<Rightarrow> ck_ulong \<Rightarrow> 's token result" where
  "get_token_from_session st h =
    and_then (session_slot st h) (\<lambda>sid. and_then (get_slot st sid) slot_get_token)"

definition get_token_from_session_mut :: "'s lib_state \<Rightarrow> ck_ulong \<Rightarrow> 's token result" where
  "get_token_from_session_mut st h =
    and_then (session_slot st h) (\<lambda>sid. and_then (get_slot st sid) (slot_get_token_mut False))"

text \<open>The steps already taken stay when a later one fails.\<close>

definition state_drop_session ::
    "'s storage \<Rightarrow> ck_ulong \<Rightarrow> 's lib_state \<Rightarrow> unit result \<times> 's lib_state" where
  "state_drop_session sg h st =
    (case and_then (session_slot st h) (\<lambda>sid. and_then (get_slot st sid) (\<lambda>sl. Ok (sid, sl))) of
       Inl e \<Rightarrow> (Inl e, st)
     | Inr (sid, sl) \<Rightarrow>
       (let st1 = (put_slot sid (slot_drop_session h sl) st)
              \<lparr>gs_sessionmap := AList.delete h (gs_sessionmap st)\<rparr> in
        case has_sessions st1 sid of
          Inl e \<Rightarrow> (Inl e, st1)
        | Inr True \<Rightarrow> (Ok (), st1)
        | Inr False \<Rightarrow>
          (case get_token_from_slot_mut st1 sid of
             Inl e \<Rightarrow> (Inl e, st1)
           | Inr t \<Rightarrow> (Ok (), put_token sid (snd (token_logout sg t)) st1))))"

definition drop_all_sessions_slot ::
    "ck_ulong \<Rightarrow> 's lib_state \<Rightarrow> ck_ulong list result \<times> 's lib_state" where
  "drop_all_sessions_slot slot_id st =
    (let st1 = st\<lparr>gs_sessionmap := filter (\<lambda>p. snd p \<noteq> slot_id) (gs_sessionmap st)\<rparr> in
     case get_slot st1 slot_id of
       Inl e \<Rightarrow> (Inl e, st1)
     | Inr sl \<Rightarrow>
       (case slot_drop_all_sessions sl of (hs, sl1) \<Rightarrow> (Ok hs, put_slot slot_id sl1 st1)))"

text \<open>\<^verbatim>\<open>GlobalState::rlock\<close> and \<^verbatim>\<open>wlock\<close>: every function of the interface starts with one.\<close>

definition lock :: "'s lib_state \<Rightarrow> unit result" where
  "lock st = (if \<not> state_is_initialized st then Err CKR_CRYPTOKI_NOT_INITIALIZED else Ok ())"

end
