(* ===== verification/Session_Laws.thy ===== *)
theory Session_Laws
  imports Sessions
begin

text \<open>
  What \<^verbatim>\<open>src/src/session.rs\<close> guarantees: the session state machine implements the login levels of
  the specification, a writable session is one opened read-write, the operation slots do not
  interfere, searches hand out every handle once, and saved states restore.
\<close>

section \<open>The slots of a session\<close>

definition put_msg_encryption :: "crypto_op option \<Rightarrow> session_operations \<Rightarrow> session_operations" where
  "put_msg_encryption x so = so\<lparr>so_msg_encryption := x\<rparr>"

definition put_msg_decryption :: "crypto_op option \<Rightarrow> session_operations \<Rightarrow> session_operations" where
  "put_msg_decryption x so = so\<lparr>so_msg_decryption := x\<rparr>"

definition put_encryption :: "crypto_op option \<Rightarrow> session_operations \<Rightarrow> session_operations" where
  "put_encryption x so = so\<lparr>so_encryption := x\<rparr>"

definition put_decryption :: "crypto_op option \<Rightarrow> session_operations \<Rightarrow> session_operations" where
  "put_decryption x so = so\<lparr>so_decryption := x\<rparr>"

definition put_digest :: "crypto_op option \<Rightarrow> session_operations \<Rightarrow> session_operations" where
  "put_digest x so = so\<lparr>so_digest := x\<rparr>"

definition put_sign :: "crypto_op option \<Rightarrow> session_operations \<Rightarrow> session_operations" where
  "put_sign x so = so\<lparr>so_sign := x\<rparr>"

definition put_verify :: "crypto_op option \<Rightarrow> session_operations \<Rightarrow> session_operations" where
  "put_verify x so = so\<lparr>so_verify := x\<rparr>"

definition put_verifysig :: "crypto_op option \<Rightarrow> session_operations \<Rightarrow> session_operations" where
  "put_verifysig x so = so\<lparr>so_verifysig := x\<rparr>"

lemmas put_defs = put_msg_encryption_def put_msg_decryption_def put_search_def put_encryption_def
  put_decryption_def put_digest_def put_sign_def put_verify_def put_verifysig_def

interpretation msg_enc: operation_slot so_msg_encryption put_msg_encryption co_finalized
  by unfold_locales (simp_all add: put_defs)

interpretation msg_dec: operation_slot so_msg_decryption put_msg_decryption co_finalized
  by unfold_locales (simp_all add: put_defs)

interpretation search: operation_slot so_search put_search search_finalized
  by unfold_locales (simp_all add: put_defs)

interpretation encr: operation_slot so_encryption put_encryption co_finalized
  by unfold_locales (simp_all add: put_defs)

interpretation decr: operation_slot so_decryption put_decryption co_finalized
  by unfold_locales (simp_all add: put_defs)

interpretation dgst: operation_slot so_digest put_digest co_finalized
  by unfold_locales (simp_all add: put_defs)

interpretation sgn: operation_slot so_sign put_sign co_finalized
  by unfold_locales (simp_all add: put_defs)

interpretation ver: operation_slot so_verify put_verify co_finalized
  by unfold_locales (simp_all add: put_defs)

interpretation versig: operation_slot so_verifysig put_verifysig co_finalized
  by unfold_locales (simp_all add: put_defs)

interpretation sign_digest: independent_slots so_sign put_sign co_finalized
    so_digest put_digest co_finalized
  by unfold_locales (simp_all add: put_defs)

interpretation digest_sign: independent_slots so_digest put_digest co_finalized
    so_sign put_sign co_finalized
  by unfold_locales (simp_all add: put_defs)

interpretation sign_search: independent_slots so_sign put_sign co_finalized
    so_search put_search search_finalized
  by unfold_locales (simp_all add: put_defs)

interpretation decrypt_digest: independent_slots so_decryption put_decryption co_finalized
    so_digest put_digest co_finalized
  by unfold_locales (simp_all add: put_defs)

text \<open>
  Starting and cancelling (\<^verbatim>\<open>check_no_op\<close>, \<^verbatim>\<open>set_operation\<close>, \<^verbatim>\<open>get_operation\<close>,
  \<^verbatim>\<open>cancel_operation\<close>), here for signatures: a live operation that needs no login is found after it
  was set and blocks a second initialization with \<^verbatim>\<open>CKR_OPERATION_ACTIVE\<close>; one that needs a login
  answers \<^verbatim>\<open>CKR_USER_NOT_LOGGED_IN\<close> until \<^verbatim>\<open>set_login_ok\<close>; after a cancel the slot is free again and
  using it gives \<^verbatim>\<open>CKR_OPERATION_NOT_INITIALIZED\<close>; a digest started or cancelled in between leaves
  the signature slot as it was.
\<close>

theorem sign_slot_lifecycle:
  assumes "\<not> co_finalized o1"
  shows "get_operation so_sign co_finalized (set_operation put_sign o1 False s) = Ok o1 \<and>
    op_check_no so_sign co_finalized (s_operations (set_operation put_sign o1 b s)) =
      Err CKR_OPERATION_ACTIVE \<and>
    get_operation so_sign co_finalized (set_operation put_sign o1 True s) = Err CKR_USER_NOT_LOGGED_IN \<and>
    get_operation so_sign co_finalized (set_login_ok (set_operation put_sign o1 True s)) = Ok o1 \<and>
    op_check_no so_sign co_finalized (s_operations (snd (cancel_operation put_sign s))) = Ok () \<and>
    \<not> is_ok (get_operation so_sign co_finalized (snd (cancel_operation put_sign s))) \<and>
    op_check so_sign co_finalized (s_operations (set_operation put_digest d b s)) =
      op_check so_sign co_finalized (s_operations s) \<and>
    op_get so_sign co_finalized (s_operations (snd (cancel_operation put_digest s))) =
      op_get so_sign co_finalized (s_operations s)"
  using sgn.get_after_set[OF assms] sgn.active_after_set[OF assms]
    sgn.free_after_cancel[of "s_operations s"] sgn.get_after_cancel[of "s_operations s"]
    sign_digest.check_other_set[of d "s_operations s"]
    sign_digest.get_other_cancel[of "s_operations s"]
  by (simp add: get_operation_def set_operation_def set_login_ok_def check_login_status_def
      cancel_operation_def op_cancel_def is_ok_def and_then_def split: op_login_status.splits)

primcorec sample_op :: crypto_op where
  "sample_op = CryptoOp False False (Ok 0x250) (Ok 2) (Ok 2) (\<lambda>n. Ok (replicate n 7, n)) None
     (\<lambda>_ _. (Ok 2, sample_op)) (\<lambda>_. (Ok [7, 7], sample_op))"

definition sample_session :: session where
  "sample_session =
    \<lparr>s_info = \<lparr>si_slotID = 0, si_state = CKS_RW_PUBLIC_SESSION,
               si_flags = CKF_SERIAL_SESSION OR CKF_RW_SESSION, si_ulDeviceError = 0\<rparr>,
     s_operations = new_session_operations, s_login_status = NotInitialized,
     s_fips_indicator = None\<rparr>"

theorem sign_slot_lifecycle_witness:
  "get_operation so_sign co_finalized (set_operation put_sign sample_op False sample_session) = Ok sample_op \<and>
   get_operation so_sign co_finalized (set_operation put_sign sample_op True sample_session) =
     Err CKR_USER_NOT_LOGGED_IN"
  using sign_slot_lifecycle[of sample_op sample_session True sample_op] by (simp add: sample_op.simps)

text \<open>
  The login requirement is one per session, not one per operation: a signature with a key that
  demands a context-specific login (\<^verbatim>\<open>CKA_ALWAYS_AUTHENTICATE\<close>) is refused, but starting a digest,
  which needs no login, clears the requirement, and the signature can then be made without it.
\<close>

theorem digest_clears_login_requirement:
  assumes "\<not> co_finalized sig"
  shows "get_operation so_sign co_finalized (set_operation put_sign sig True s) = Err CKR_USER_NOT_LOGGED_IN \<and>
    get_operation so_sign co_finalized
      (set_operation put_digest dig False (set_operation put_sign sig True s)) = Ok sig"
  using assms sgn.get_after_set[OF assms, of "s_operations s"]
  by (simp add: get_operation_def set_operation_def check_login_status_def op_get_def op_set_def
      put_defs)

theorem digest_clears_login_requirement_witness:
  "get_operation so_sign co_finalized
      (set_operation put_digest sample_op False (set_operation put_sign sample_op True sample_session)) =
    Ok sample_op"
  using digest_clears_login_requirement[of sample_op sample_session sample_op]
  by (simp add: sample_op.simps)

section \<open>The state machine\<close>

text \<open>The login levels of the specification, and what a request does to them.\<close>

datatype login = Public | UserIn | SoIn

definition session_view :: "ck_ulong \<Rightarrow> (bool \<times> login) option" where
  "session_view st =
    (if st = CKS_RO_PUBLIC_SESSION then Some (False, Public)
     else if st = CKS_RW_PUBLIC_SESSION then Some (True, Public)
     else if st = CKS_RO_USER_FUNCTIONS then Some (False, UserIn)
     else if st = CKS_RW_USER_FUNCTIONS then Some (True, UserIn)
     else if st = CKS_RW_SO_FUNCTIONS then Some (True, SoIn)
     else None)"

definition requested :: "ck_ulong \<Rightarrow> login option" where
  "requested user_type =
    (if user_type = CK_UNAVAILABLE_INFORMATION then Some Public
     else if user_type = CKU_USER then Some UserIn
     else if user_type = CKU_SO then Some SoIn
     else None)"

definition login_step :: "login \<Rightarrow> bool \<times> login \<Rightarrow> ck_rv \<times> (bool \<times> login)" where
  "login_step l v =
    (if l = Public \<or> l = snd v then (CKR_OK, (fst v, l))
     else if snd v \<noteq> Public then (CKR_USER_ANOTHER_ALREADY_LOGGED_IN, v)
     else if l = SoIn \<and> \<not> fst v then (CKR_OPERATION_NOT_INITIALIZED, v)
     else (CKR_OK, (fst v, l)))"

text \<open>
  C38. \<^verbatim>\<open>change_session_state\<close> implements the login levels of the specification (a functional
  refinement): in a session whose state is one of the five defined ones, a request for a login
  level has the effect and the return code of the abstract step, the read-write bit never
  changes, a request that is refused or repeated changes nothing, a user type that does not
  exist is refused with \<^verbatim>\<open>CKR_USER_TYPE_INVALID\<close>, and only the state field is touched.
\<close>

theorem change_session_state_refines:
  assumes "session_view (si_state (s_info s)) = Some v"
  shows "case change_session_state user_type s of (r, s') \<Rightarrow>
    s' = set_state (si_state (s_info s')) s \<and>
    (case requested user_type of
       None \<Rightarrow> r = CKR_USER_TYPE_INVALID \<and> s' = s
     | Some l \<Rightarrow> (r, session_view (si_state (s_info s'))) = map_prod id Some (login_step l v))"
  using assms
  by (auto simp: change_session_state_def session_view_def requested_def login_step_def set_state_def
      Let_def split: if_splits)

theorem change_session_state_refines_witness:
  "session_view (si_state (s_info (snd (change_session_state CKU_SO sample_session)))) = Some (True, SoIn)"
proof -
  have v: "session_view (si_state (s_info sample_session)) = Some (True, Public)"
    by (simp add: sample_session_def session_view_def)
  show ?thesis
    using change_session_state_refines[OF v, of CKU_SO]
    by (simp add: requested_def login_step_def case_prod_beta prod_eq_iff)
qed

text \<open>The life of a session: it is opened, and then goes through any sequence of these steps.\<close>

inductive session_step :: "session \<Rightarrow> session \<Rightarrow> bool" where
  login: "session_step s (snd (change_session_state user_type s))"
| start: "session_step s (set_operation put (o1 :: crypto_op) needs_login s)"
| search: "session_step s (set_operation put_search o2 False s)"
| cancel: "session_step s (snd (cancel_operation (put :: crypto_op option \<Rightarrow> _) s))"
| cancel_search: "session_step s (snd (cancel_operation put_search s))"
| login_ok: "session_step s (set_login_ok s)"
| fips: "session_step s (set_fips_indicator flag s)"
| fips_reset: "session_step s (reset_fips_indicator s)"
| restore: "session_step s (snd (state_restore (cd :: (bytes, bytes) state_codec)
    (ms :: ck_ulong restore_mechs) state key s))"

inductive session_reachable :: "session \<Rightarrow> bool" where
  opened: "new_session slot user_type flags = Ok s \<Longrightarrow> session_reachable s"
| step: "session_reachable s \<Longrightarrow> session_step s s' \<Longrightarrow> session_reachable s'"

definition session_ok :: "session \<Rightarrow> bool" where
  "session_ok s \<longleftrightarrow>
    (\<exists>l. session_view (si_state (s_info s)) =
      Some (si_flags (s_info s) AND CKF_RW_SESSION = CKF_RW_SESSION, l)) \<and>
    si_flags (s_info s) AND CKF_SERIAL_SESSION = CKF_SERIAL_SESSION"

lemma session_ok_new: "new_session slot user_type flags = Ok s \<Longrightarrow> session_ok s"
  by (auto simp: new_session_def and_then_eq_Ok initial_state_def session_ok_def session_view_def
      split: if_splits)

lemma session_ok_change: "session_ok s \<Longrightarrow> session_ok (snd (change_session_state user_type s))"
  by (auto simp: session_ok_def change_session_state_def session_view_def set_state_def Let_def
      split: if_splits)

lemma session_ok_info: "s_info s' = s_info s \<Longrightarrow> session_ok s \<Longrightarrow> session_ok s'"
  by (simp add: session_ok_def)

lemma state_restore_info: "s_info (snd (state_restore cd ms state key s)) = s_info s"
  by (auto simp: state_restore_def split: sum.splits)

lemma session_ok_step: "session_step s s' \<Longrightarrow> session_ok s \<Longrightarrow> session_ok s'"
proof (induction rule: session_step.induct)
  case (login s user_type)
  then show ?case by (rule session_ok_change)
next
  case (restore s cd ms state key)
  then show ?case using session_ok_info[OF state_restore_info] by blast
qed (auto intro: session_ok_info simp: set_operation_def cancel_operation_def op_cancel_def
    set_login_ok_def set_fips_indicator_def reset_fips_indicator_def)

text \<open>
  In every session reachable by opening it and any sequence of login changes, operations
  started, cancelled and restored, the state is one of the five defined ones, and the session is
  writable exactly if it was opened with \<^verbatim>\<open>CKF_RW_SESSION\<close>; in particular the security officer is
  only ever logged in to a read-write session.
\<close>

theorem reachable_session_writable:
  assumes "session_reachable s"
  shows "session_view (si_state (s_info s)) \<noteq> None \<and>
    (is_writable s \<longleftrightarrow> si_flags (s_info s) AND CKF_RW_SESSION = CKF_RW_SESSION) \<and>
    (si_state (s_info s) = CKS_RW_SO_FUNCTIONS \<longrightarrow>
      si_flags (s_info s) AND CKF_RW_SESSION = CKF_RW_SESSION)"
proof -
  have "session_ok s"
    using assms by (induction rule: session_reachable.induct) (auto intro: session_ok_new session_ok_step)
  then show ?thesis
    by (auto simp: session_ok_def session_view_def is_writable_def split: if_splits)
qed

lemma new_sample_session:
  "new_session 0 CK_UNAVAILABLE_INFORMATION (CKF_SERIAL_SESSION OR CKF_RW_SESSION) = Ok sample_session"
  by (simp add: new_session_def initial_state_def sample_session_def)

theorem reachable_session_writable_witness:
  "is_writable (snd (change_session_state CKU_SO sample_session))"
  using reachable_session_writable[OF session_reachable.step[OF session_reachable.opened[OF new_sample_session]
        session_step.login, of CKU_SO]]
  by (simp add: change_session_state_def sample_session_def set_state_def)

text \<open>
  A session opened while the security officer is logged in starts in the wrong state: it is
  given \<^verbatim>\<open>CKS_RW_USER_FUNCTIONS\<close>, the state of a user session, while the login of the officer moves
  an open session to \<^verbatim>\<open>CKS_RW_SO_FUNCTIONS\<close>.
\<close>

theorem so_session_opens_as_user:
  "(\<exists>s. new_session slot CKU_SO (CKF_SERIAL_SESSION OR CKF_RW_SESSION) = Ok s \<and>
      si_state (s_info s) = CKS_RW_USER_FUNCTIONS) \<and>
    si_state (s_info (snd (change_session_state CKU_SO sample_session))) = CKS_RW_SO_FUNCTIONS"
  by (simp add: new_session_def initial_state_def change_session_state_def sample_session_def
      set_state_def)

section \<open>Searches\<close>

fun search_run :: "nat list \<Rightarrow> session_search \<Rightarrow> ck_ulong list list \<times> session_search" where
  "search_run [] s = ([], s)"
| "search_run (n # ns) s =
    (case search_results n s of
       (Inl _, s') \<Rightarrow> ([], s')
     | (Inr hs, s') \<Rightarrow> (case search_run ns s' of (rest, s'') \<Rightarrow> (hs # rest, s'')))"

text \<open>
  However an application asks for the results of a search (\<^verbatim>\<open>C_FindObjects\<close> with any sequence
  of maximal counts), it gets every handle exactly once and in order: the batches put together,
  followed by what is left, are the handles found; no batch exceeds the count asked for; and an
  empty batch for a positive count means nothing is left.
\<close>

theorem search_hands_out_every_handle_once:
  assumes "ss_in_use s"
  shows "case search_run ns s of (batches, s') \<Rightarrow>
    concat batches @ ss_handles s' = ss_handles s \<and> length batches = length ns \<and>
    (\<forall>i < length ns. length (batches ! i) \<le> ns ! i \<and>
      (ns ! i > 0 \<and> batches ! i = [] \<longrightarrow> ss_handles s' = []))"
  using assms
proof (induction ns arbitrary: s)
  case (Cons n ns)
  define m where "m = (if n < length (ss_handles s) then n else length (ss_handles s))"
  define s' where "s' = s\<lparr>ss_handles := drop m (ss_handles s)\<rparr>"
  have r: "search_results n s = (Ok (take m (ss_handles s)), s')"
    using Cons.prems by (simp add: search_results_def m_def s'_def)
  obtain bs s'' where b: "search_run ns s' = (bs, s'')" by force
  have IH: "concat bs @ ss_handles s'' = ss_handles s'" "length bs = length ns"
    "\<forall>i < length ns. length (bs ! i) \<le> ns ! i \<and> (ns ! i > 0 \<and> bs ! i = [] \<longrightarrow> ss_handles s'' = [])"
    using Cons.IH[of s'] Cons.prems b by (simp_all add: s'_def)
  have "n > 0 \<and> take m (ss_handles s) = [] \<longrightarrow> ss_handles s = []"
    by (auto simp: m_def split: if_splits)
  then have hd: "n > 0 \<and> take m (ss_handles s) = [] \<longrightarrow> ss_handles s'' = []"
    using IH(1) by (auto simp: s'_def)
  show ?case
    using r b IH hd
    by (auto simp: s'_def m_def less_Suc_eq_0_disj split: if_splits)
qed simp

theorem search_hands_out_every_handle_once_witness:
  "concat (fst (search_run [2, 2] \<lparr>ss_handles = [5, 6, 7], ss_in_use = True\<rparr>)) @
    ss_handles (snd (search_run [2, 2] \<lparr>ss_handles = [5, 6, 7], ss_in_use = True\<rparr>)) = [5, 6, 7]"
  using search_hands_out_every_handle_once[of "\<lparr>ss_handles = [5, 6, 7], ss_in_use = True\<rparr>" "[2, 2]"]
  by (simp add: case_prod_beta)

section \<open>Saved states\<close>

text \<open>
  What the restoring code relies on of ASN.1 and AES-GCM: what is written parses back, what is
  encrypted decrypts back.
\<close>

definition codec_laws :: "('alg, 'gcm) state_codec \<Rightarrow> bool" where
  "codec_laws cd \<longleftrightarrow>
    (\<forall>st der. write_opstate cd st = Some der \<longrightarrow> parse_opstate cd der = Some st) \<and>
    (\<forall>alg d der. write_pdata cd alg d = Some der \<longrightarrow> parse_pdata cd der = Some (alg, d)) \<and>
    (\<forall>g. as_gcm cd (alg_of_gcm cd g) = Some g) \<and>
    (\<forall>aad d g e. gcm_encrypt cd aad d = Ok (g, e) \<longrightarrow> gcm_decrypt cd g aad e = Ok d)"

lemma op_gather_keeps:
  assumes "op_gather r add acc = Ok acc'" and "\<And>x st. f (add x st) = f st"
  shows "f (snd acc') = f (snd acc)"
  using assms by (auto simp: op_gather_def split: sum.splits if_splits)

lemma gather_version:
  assumes "gather_state so = Ok (r, st)"
  shows "os_version st = 1"
proof -
  note keep = op_gather_keeps[where f = os_version]
  obtain a1 a2 a3 a4 a5 a6 a7 where
      "op_gather (op_state_save (so_msg_encryption so)) (\<lambda>x st. st\<lparr>os_msgenc := Some x\<rparr>)
        (CKR_OPERATION_NOT_INITIALIZED, empty_operation_state) = Ok a1"
      "op_gather (op_state_save (so_msg_decryption so)) (\<lambda>x st. st\<lparr>os_msgdec := Some x\<rparr>) a1 = Ok a2"
      "op_gather (op_state_save (so_encryption so)) (\<lambda>x st. st\<lparr>os_enc := Some x\<rparr>) a2 = Ok a3"
      "op_gather (op_state_save (so_decryption so)) (\<lambda>x st. st\<lparr>os_dec := Some x\<rparr>) a3 = Ok a4"
      "op_gather (op_state_save (so_digest so)) (\<lambda>x st. st\<lparr>os_dgst := Some x\<rparr>) a4 = Ok a5"
      "op_gather (op_state_save (so_sign so)) (\<lambda>x st. st\<lparr>os_sig := Some x\<rparr>) a5 = Ok a6"
      "op_gather (op_state_save (so_verify so)) (\<lambda>x st. st\<lparr>os_ver := Some x\<rparr>) a6 = Ok a7"
      "op_gather (op_state_save (so_verifysig so)) (\<lambda>x st. st\<lparr>os_versig := Some x\<rparr>) a7 = Ok (r, st)"
    using assms by (auto simp only: gather_state_def and_then_eq_Ok)
  note g = this
  have "os_version st = os_version (snd a7)" using keep[OF g(8)] by simp
  also have "\<dots> = os_version (snd a6)" using keep[OF g(7)] by simp
  also have "\<dots> = os_version (snd a5)" using keep[OF g(6)] by simp
  also have "\<dots> = os_version (snd a4)" using keep[OF g(5)] by simp
  also have "\<dots> = os_version (snd a3)" using keep[OF g(4)] by simp
  also have "\<dots> = os_version (snd a2)" using keep[OF g(3)] by simp
  also have "\<dots> = os_version (snd a1)" using keep[OF g(2)] by simp
  also have "\<dots> = 1" using keep[OF g(1)] by (simp add: empty_operation_state_def)
  finally show ?thesis .
qed

lemma parse_saved:
  assumes "codec_laws cd" and "state_save cd n s = Ok der"
  shows "\<exists>st. gather_state (s_operations s) = Ok (CKR_OK, st) \<and> parse_state cd der = Ok st"
proof -
  obtain st data gcm edata where g: "gather_state (s_operations s) = Ok (CKR_OK, st)"
      "write_opstate cd st = Some data" "gcm_encrypt cd OPSTATE_AAD data = Ok (gcm, edata)"
      "write_pdata cd (alg_of_gcm cd gcm) edata = Some der"
    using assms(2) by (auto simp: state_save_def and_then_eq_Ok split: if_splits option.splits)
  then show ?thesis
    using assms(1) gather_version[OF g(1)] by (auto simp: codec_laws_def parse_state_def)
qed

lemma gather_digest_only:
  assumes "op_state_save (Some d) = Ok x"
  shows "gather_state (new_session_operations\<lparr>so_digest := Some d\<rparr>) =
    Ok (CKR_OK, empty_operation_state\<lparr>os_dgst := Some x\<rparr>)"
  using assms
  by (simp add: gather_state_def new_session_operations_def op_gather_def op_state_save_def)

text \<open>
  A saved digest state restores (\<^verbatim>\<open>C_GetOperationState\<close>, \<^verbatim>\<open>C_SetOperationState\<close>): given the laws
  of the codecs, what a session with an active digest saves makes any other session continue
  with exactly the digest that the mechanism restores from the saved mechanism and bytes, and
  changes nothing else; handing in a key is refused and changes nothing.
\<close>

theorem saved_digest_restores:
  assumes laws: "codec_laws cd" and so: "s_operations s = new_session_operations\<lparr>so_digest := Some d\<rparr>"
    and data: "op_state_save (Some d) = Ok (m, data)" and save: "state_save cd n s = Ok der"
    and mech: "mechs_get ms m = Ok h" "digest_restore ms h m data = Ok d'"
  shows "length der \<le> n \<and>
    state_restore cd ms der None s2 =
      (Ok (), s2\<lparr>s_operations := (s_operations s2)\<lparr>so_digest := Some d'\<rparr>\<rparr>) \<and>
    state_restore cd ms der (Some k) s2 = (Err CKR_KEY_NOT_NEEDED, s2)"
proof -
  have "parse_state cd der = Ok (empty_operation_state\<lparr>os_dgst := Some (m, data)\<rparr>)"
    using parse_saved[OF laws save] gather_digest_only[OF data] so by auto
  moreover have "length der \<le> n"
    using save by (auto simp: state_save_def and_then_eq_Ok split: if_splits option.splits)
  ultimately show ?thesis
    by (simp add: state_restore_def empty_operation_state_def restore_digest_def restore_sign_def
        restore_verify_def mech)
qed

definition digest_state :: operation_state where
  "digest_state = empty_operation_state\<lparr>os_dgst := Some (0x250, [7, 7])\<rparr>"

definition sample_codec :: "(unit, unit) state_codec" where
  "sample_codec =
    \<lparr>write_opstate = (\<lambda>st. if st = digest_state then Some [1, 2, 3] else None),
     parse_opstate = (\<lambda>d. if d = [1, 2, 3] then Some digest_state else None),
     write_pdata = (\<lambda>_ d. Some (0x30 # d)),
     parse_pdata = (\<lambda>d. case d of [] \<Rightarrow> None | x # r \<Rightarrow> if x = 0x30 then Some ((), r) else None),
     alg_of_gcm = (\<lambda>_. ()), as_gcm = (\<lambda>_. Some ()),
     gcm_encrypt = (\<lambda>_ d. Ok ((), rev d)), gcm_decrypt = (\<lambda>_ _ d. Ok (rev d)),
     opstate_data_overhead = 12, opstate_max_overhead = 120, opstate_enc_overhead = 60\<rparr>"

definition sample_mechs :: "unit restore_mechs" where
  "sample_mechs = \<lparr>mechs_get = (\<lambda>_. Ok ()), digest_restore = (\<lambda>_ _ _. Ok sample_op),
     sign_restore = (\<lambda>_ _ _ _. Ok sample_op), verify_restore = (\<lambda>_ _ _ _. Ok sample_op)\<rparr>"

definition digest_session :: session where
  "digest_session =
    sample_session\<lparr>s_operations := new_session_operations\<lparr>so_digest := Some sample_op\<rparr>\<rparr>"

lemma sample_codec_laws: "codec_laws sample_codec"
  by (auto simp: codec_laws_def sample_codec_def split: if_splits)

lemma sample_op_save: "op_state_save (Some sample_op) = Ok (0x250, [7, 7])"
  by (simp add: op_state_save_def sample_op.simps resize_def numeral_2_eq_2)

lemma digest_session_save: "state_save sample_codec 10 digest_session = Ok [0x30, 3, 2, 1]"
  by (simp add: state_save_def digest_session_def gather_digest_only[OF sample_op_save]
      sample_codec_def digest_state_def)

theorem saved_digest_restores_witness:
  "state_restore sample_codec sample_mechs [0x30, 3, 2, 1] None sample_session =
    (Ok (), sample_session\<lparr>s_operations := (s_operations sample_session)\<lparr>so_digest := Some sample_op\<rparr>\<rparr>)"
  using saved_digest_restores[OF sample_codec_laws _ sample_op_save digest_session_save,
      where ms = sample_mechs and h = "()" and d' = sample_op and ?s2.0 = sample_session]
  by (simp add: digest_session_def sample_mechs_def)

text \<open>
  A restored operation is not usable in a session that has run no operation before: restoring
  does not set the login status of the operation, and the next use of the digest is refused with
  \<^verbatim>\<open>CKR_OPERATION_NOT_INITIALIZED\<close> although it is there and not finalized.
\<close>

theorem restored_digest_unusable_in_new_session:
  assumes "new_session slot user_type flags = Ok s0"
    and "state_restore cd ms state key s0 = (r, s1)"
  shows "get_operation so_digest co_finalized s1 = Err CKR_OPERATION_NOT_INITIALIZED"
proof -
  have "s_login_status s0 = NotInitialized"
    using assms(1) by (auto simp: new_session_def and_then_eq_Ok split: if_splits)
  then have "s_login_status s1 = NotInitialized"
    using assms(2) by (auto simp: state_restore_def split: sum.splits if_splits)
  then show ?thesis by (simp add: get_operation_def check_login_status_def)
qed

theorem restored_digest_unusable_in_new_session_witness:
  "\<exists>s1. state_restore sample_codec sample_mechs [0x30, 3, 2, 1] None sample_session = (Ok (), s1) \<and>
    so_digest (s_operations s1) = Some sample_op \<and>
    get_operation so_digest co_finalized s1 = Err CKR_OPERATION_NOT_INITIALIZED"
proof -
  let ?s1 = "sample_session\<lparr>s_operations := new_session_operations\<lparr>so_digest := Some sample_op\<rparr>\<rparr>"
  have r: "state_restore sample_codec sample_mechs [0x30, 3, 2, 1] None sample_session = (Ok (), ?s1)"
    by (simp add: state_restore_def parse_state_def sample_codec_def digest_state_def
        empty_operation_state_def restore_digest_def restore_sign_def restore_verify_def
        sample_mechs_def sample_session_def)
  show ?thesis
    using restored_digest_unusable_in_new_session[OF new_sample_session r] r by simp
qed

text \<open>
  A state saved from a session with both a digest and a signature (or a verification) in
  progress can never be restored: without a key the signature needs one, and with a key the digest
  does not want it.
\<close>

theorem digest_and_sign_never_restore:
  assumes "parse_state cd state = Ok st" and "os_dgst st \<noteq> None"
    and "os_sig st \<noteq> None \<or> os_ver st \<noteq> None"
  shows "\<not> is_ok (fst (state_restore cd ms state key s))"
proof
  assume "is_ok (fst (state_restore cd ms state key s))"
  then obtain so1 so2 so3 where r: "restore_digest ms key st (s_operations s) = Ok so1"
      "restore_sign ms key st so1 = Ok so2" "restore_verify ms key st so2 = Ok so3"
    using assms(1) by (auto simp: state_restore_def split: sum.splits if_splits)
  show False
  proof (cases key)
    case None
    then show False using r(2,3) assms(3) by (auto simp: restore_sign_def restore_verify_def)
  next
    case (Some k)
    then show False using r(1) assms(2) by (auto simp: restore_digest_def)
  qed
qed

definition two_ops_codec :: "(unit, unit) state_codec" where
  "two_ops_codec = sample_codec
    \<lparr>parse_opstate := (\<lambda>_. Some (digest_state\<lparr>os_sig := Some (0x251, [9])\<rparr>))\<rparr>"

theorem digest_and_sign_never_restore_witness:
  "\<forall>key. \<not> is_ok (fst (state_restore two_ops_codec sample_mechs [0x30, 1] key sample_session))"
  by (rule allI, rule digest_and_sign_never_restore
        [of _ _ "digest_state\<lparr>os_sig := Some (0x251, [9])\<rparr>"])
    (simp_all add: parse_state_def two_ops_codec_def sample_codec_def digest_state_def
      empty_operation_state_def)

end
