(* ===== verification/Session_Api.thy ===== *)
theory Session_Api
  imports Library_State Session_Laws
begin

text \<open>
  The functions of the PKCS#11 interface on sessions, slots and tokens, of
  \<^verbatim>\<open>src/src/fns/sessmgmt.rs\<close> and \<^verbatim>\<open>src/src/fns/stmgmt.rs\<close>: state passing over the library state.
  Pointers that are only tested for null are boolean arguments; what is written through an output
  pointer is the value of the result, and a buffer of the caller is given by its length.
\<close>

section \<open>Access through the state\<close>

definition with_token_mut ::
    "ck_ulong \<Rightarrow> ('s token \<Rightarrow> 'a result \<times> 's token) \<Rightarrow> 's lib_state \<Rightarrow> 'a result \<times> 's lib_state" where
  "with_token_mut sid f st =
    (case get_token_from_slot_mut st sid of
       Inl e \<Rightarrow> (Inl e, st)
     | Inr t \<Rightarrow> (case f t of (r, t1) \<Rightarrow> (r, put_token sid t1 st)))"

definition with_session_mut ::
    "ck_ulong \<Rightarrow> (session \<Rightarrow> 'a result \<times> session) \<Rightarrow> 's lib_state \<Rightarrow> 'a result \<times> 's lib_state" where
  "with_session_mut h f st =
    (case and_then (session_slot st h) (\<lambda>sid. and_then (get_session st h) (\<lambda>s. Ok (sid, s))) of
       Inl e \<Rightarrow> (Inl e, st)
     | Inr (sid, s) \<Rightarrow> (case f s of (r, s1) \<Rightarrow> (r, put_session sid h s1 st)))"

definition rv_result :: "ck_rv \<Rightarrow> unit result" where
  "rv_result ret = (if ret = CKR_OK then Ok () else Err ret)"

section \<open>Sessions\<close>

definition open_session ::
    "ck_ulong \<Rightarrow> ck_flags \<Rightarrow> bool \<Rightarrow> 's lib_state \<Rightarrow> ck_ulong result \<times> 's lib_state" where
  "open_session slot_id flags null st =
    (if null then (Err CKR_ARGUMENTS_BAD, st)
     else case and_then (lock st) (\<lambda>_. get_token_from_slot st slot_id) of
       Inl e \<Rightarrow> (Inl e, st)
     | Inr t \<Rightarrow>
       if is_logged_in CKU_SO t then
         (if flags AND CKF_RW_SESSION = 0 then (Err CKR_SESSION_READ_WRITE_SO_EXISTS, st)
          else state_new_session slot_id CKU_SO flags st)
       else if is_logged_in CKU_USER t then state_new_session slot_id CKU_USER flags st
       else state_new_session slot_id CK_UNAVAILABLE_INFORMATION flags st)"

definition close_session :: "'s storage \<Rightarrow> ck_ulong \<Rightarrow> 's lib_state \<Rightarrow> unit result \<times> 's lib_state" where
  "close_session sg h st =
    (case and_then (lock st) (\<lambda>_. and_then (session_slot st h) (\<lambda>sid.
            and_then (get_token_from_session_mut st h) (\<lambda>t. Ok (sid, t)))) of
       Inl e \<Rightarrow> (Inl e, st)
     | Inr (sid, t) \<Rightarrow> state_drop_session sg h (put_token sid (drop_session_objects h t) st))"

definition close_all_sessions ::
    "'s storage \<Rightarrow> ck_ulong \<Rightarrow> 's lib_state \<Rightarrow> unit result \<times> 's lib_state" where
  "close_all_sessions sg slot_id st =
    (case lock st of
       Inl e \<Rightarrow> (Inl e, st)
     | Inr _ \<Rightarrow>
       st_then (drop_all_sessions_slot slot_id st) (\<lambda>dropped.
         with_token_mut slot_id (\<lambda>t.
           (Ok (), snd (token_logout sg (fold drop_session_objects dropped t))))))"

definition get_session_info :: "ck_ulong \<Rightarrow> bool \<Rightarrow> 's lib_state \<Rightarrow> ck_session_info result" where
  "get_session_info h null st =
    (if null then Err CKR_ARGUMENTS_BAD
     else and_then (lock st) (\<lambda>_. and_then (get_session st h) (\<lambda>s. Ok (s_info s))))"

text \<open>What is written to the buffer, and the length written back.\<close>

definition get_operation_state ::
    "('alg, 'gcm) state_codec \<Rightarrow> ck_ulong \<Rightarrow> bool \<Rightarrow> ck_ulong option \<Rightarrow> 's lib_state \<Rightarrow>
      (bytes \<times> ck_ulong) result" where
  "get_operation_state cd h buf_null buf_len st =
    and_then (lock st) (\<lambda>_.
    and_then (get_session st h) (\<lambda>s.
      if buf_null then
        (if buf_len = None then Err CKR_ARGUMENTS_BAD
         else and_then (state_size cd s) (\<lambda>n.
           and_then (map_err (\<lambda>_. CkError CKR_GENERAL_ERROR) (ulong_try_from n)) (\<lambda>len. Ok ([], len))))
      else case buf_len of
        None \<Rightarrow> Err CKR_ARGUMENTS_BAD
      | Some len \<Rightarrow>
        and_then (get_token_from_slot st (get_slot_id s)) (\<lambda>_.
        and_then (state_save cd (unat len) s) (\<lambda>out.
        and_then (map_err (\<lambda>_. CkError CKR_GENERAL_ERROR) (ulong_try_from (length out))) (\<lambda>outlen.
          Ok (out, outlen))))))"

definition set_operation_state ::
    "'s storage \<Rightarrow> ('alg, 'gcm) state_codec \<Rightarrow> (mechanisms \<Rightarrow> 'mech restore_mechs) \<Rightarrow> ck_ulong \<Rightarrow>
      bytes \<Rightarrow> ck_ulong \<Rightarrow> ck_ulong \<Rightarrow> 's lib_state \<Rightarrow> unit result \<times> 's lib_state" where
  "set_operation_state sg cd mechs h state encryption_key authentication_key st =
    (if encryption_key \<noteq> CK_INVALID_HANDLE then (Err CKR_KEY_NOT_NEEDED, st)
     else case and_then (lock st) (\<lambda>_.
            and_then (get_session st h) (\<lambda>s.
            and_then (get_token_from_slot_mut st (get_slot_id s)) (\<lambda>t.
            and_then
              (if authentication_key \<noteq> CK_INVALID_HANDLE
               then and_then (get_object_by_handle sg authentication_key t) (\<lambda>k. Ok (Some k))
               else Ok None)
              (\<lambda>key. Ok (t, key))))) of
       Inl e \<Rightarrow> (Inl e, st)
     | Inr (t, key) \<Rightarrow>
       with_session_mut h (state_restore cd (mechs (get_mechanisms t)) state key) st)"

text \<open>
  The part of \<^verbatim>\<open>login\<close> after the token has answered: a context-specific login is noted in the
  session, or logs everybody out when the PIN is now locked; a user login moves all sessions of
  the slot.
\<close>

definition login_context ::
    "'s storage \<Rightarrow> ck_ulong \<Rightarrow> ck_ulong \<Rightarrow> ck_rv \<Rightarrow> 's lib_state \<Rightarrow> unit result \<times> 's lib_state" where
  "login_context sg sid h ret st =
    (if ret = CKR_OK then with_session_mut h (\<lambda>s. (Ok (), set_login_ok s)) st
     else if ret = CKR_PIN_LOCKED then
       (Err ret, snd (invalidate_session_states sid
          (snd (with_token_mut sid (\<lambda>t. (Ok (), snd (token_logout sg t))) st))))
     else (Err ret, st))"

definition login_sessions ::
    "'s storage \<Rightarrow> ck_ulong \<Rightarrow> ck_ulong \<Rightarrow> ck_rv \<Rightarrow> 's lib_state \<Rightarrow> unit result \<times> 's lib_state" where
  "login_sessions sg sid user_type ret st =
    (if ret = CKR_OK then
       (case change_session_states sid user_type st of
          (Inr _, st1) \<Rightarrow> (Ok (), st1)
        | (Inl e, st1) \<Rightarrow>
          (Inl e, snd (invalidate_session_states sid
             (snd (with_token_mut sid (\<lambda>t. (Ok (), snd (token_logout sg t))) st1)))))
     else (Err ret, st))"

definition context_login_pending :: "session \<Rightarrow> bool" where
  "context_login_pending s \<longleftrightarrow>
    (case check_login_status s of Inl e \<Rightarrow> rv e = CKR_USER_NOT_LOGGED_IN | Inr _ \<Rightarrow> False)"

definition login_checks :: "ck_ulong \<Rightarrow> ck_ulong \<Rightarrow> 's lib_state \<Rightarrow> (ck_ulong \<times> 's token) result" where
  "login_checks h user_type st =
    and_then (lock st) (\<lambda>_.
    and_then (get_session st h) (\<lambda>s.
    let sid = get_slot_id s in
    and_then
      (if user_type = CKU_SO then
         and_then (has_ro_sessions st sid)
           (\<lambda>ro. if ro then Err CKR_SESSION_READ_ONLY_EXISTS else Ok ())
       else Ok ()) (\<lambda>_.
    and_then (get_token_from_slot_mut st sid) (\<lambda>t.
      if user_type = CKU_CONTEXT_SPECIFIC \<and> \<not> context_login_pending s
        then Err CKR_OPERATION_NOT_INITIALIZED
      else Ok (sid, t)))))"

definition login ::
    "'s storage \<Rightarrow> ck_ulong \<Rightarrow> ck_ulong \<Rightarrow> bytes \<Rightarrow> 's lib_state \<Rightarrow> unit result \<times> 's lib_state" where
  "login sg h user_type pin st =
    (case login_checks h user_type st of
       Inl e \<Rightarrow> (Inl e, st)
     | Inr (sid, t) \<Rightarrow>
       (case token_login sg user_type pin t of (ret, t1) \<Rightarrow>
         (let st1 = put_token sid t1 st in
          if user_type = CKU_CONTEXT_SPECIFIC then login_context sg sid h ret st1
          else login_sessions sg sid user_type ret st1)))"

definition logout :: "'s storage \<Rightarrow> ck_ulong \<Rightarrow> 's lib_state \<Rightarrow> unit result \<times> 's lib_state" where
  "logout sg h st =
    (case and_then (lock st) (\<lambda>_. and_then (get_session st h) (\<lambda>s.
            and_then (get_token_from_slot_mut st (get_slot_id s)) (\<lambda>t. Ok (get_slot_id s, t)))) of
       Inl e \<Rightarrow> (Inl e, st)
     | Inr (sid, t) \<Rightarrow>
       (case token_logout sg t of (ret, t1) \<Rightarrow>
         (let st1 = put_token sid t1 st in
          (rv_result ret, if ret = CKR_OK then snd (invalidate_session_states sid st1) else st1))))"

definition login_user :: "unit result" where
  "login_user = Err CKR_FUNCTION_NOT_SUPPORTED"

text \<open>One \<^verbatim>\<open>if\<close> of \<^verbatim>\<open>session_cancel\<close>: an operation is cancelled when its flag is given.\<close>

definition cancel_if ::
    "ck_flags \<Rightarrow> ck_flags \<Rightarrow> ('o option \<Rightarrow> session_operations \<Rightarrow> session_operations) \<Rightarrow>
      ck_rv \<times> session \<Rightarrow> ck_rv \<times> session" where
  "cancel_if flags f put acc =
    (if flags AND f \<noteq> 0 then
       (case cancel_operation put (snd acc) of (r, s1) \<Rightarrow>
         (if is_ok r then fst acc else CKR_OPERATION_CANCEL_FAILED, s1))
     else acc)"

definition cancel_unsupported :: "ck_flags \<Rightarrow> ck_flags \<Rightarrow> ck_rv \<times> session \<Rightarrow> ck_rv \<times> session" where
  "cancel_unsupported flags f acc =
    (if flags AND f \<noteq> 0 then (CKR_OPERATION_CANCEL_FAILED, snd acc) else acc)"

definition cancel_flagged :: "ck_flags \<Rightarrow> session \<Rightarrow> ck_rv \<times> session" where
  "cancel_flagged flags s =
    (let a1 = cancel_if flags CKF_MESSAGE_ENCRYPT put_msg_encryption (CKR_OK, s);
         a2 = cancel_if flags CKF_MESSAGE_DECRYPT put_msg_decryption a1;
         a3 = cancel_unsupported flags CKF_MESSAGE_SIGN a2;
         a4 = cancel_unsupported flags CKF_MESSAGE_VERIFY a3;
         a5 = cancel_if flags CKF_FIND_OBJECTS put_search a4;
         a6 = cancel_if flags CKF_ENCRYPT put_encryption a5;
         a7 = cancel_if flags CKF_DECRYPT put_decryption a6;
         a8 = cancel_if flags CKF_DIGEST put_digest a7;
         a9 = cancel_if flags CKF_SIGN put_sign a8 in
     cancel_if flags CKF_VERIFY put_verify a9)"

definition session_cancel :: "ck_ulong \<Rightarrow> ck_flags \<Rightarrow> 's lib_state \<Rightarrow> unit result \<times> 's lib_state" where
  "session_cancel h flags st =
    (case lock st of
       Inl e \<Rightarrow> (Inl e, st)
     | Inr _ \<Rightarrow>
       with_session_mut h (\<lambda>s. case cancel_flagged flags s of (ret, s1) \<Rightarrow> (rv_result ret, s1)) st)"

definition get_session_validation_flags ::
    "ck_ulong \<Rightarrow> ck_ulong \<Rightarrow> bool \<Rightarrow> 's lib_state \<Rightarrow> ck_flags result" where
  "get_session_validation_flags h flags_type null st =
    (if null then Err CKR_ARGUMENTS_BAD
     else if flags_type \<noteq> CKS_LAST_VALIDATION_OK then Ok 0
     else and_then (lock st) (\<lambda>_. and_then (get_session st h) (\<lambda>s. Ok (get_last_validation_flags s))))"

section \<open>Slots and tokens\<close>

text \<open>
  The lists written to the caller's buffer: with no buffer only the count is given, and a buffer
  that is too small is refused with the count needed.
\<close>

definition write_list :: "bool \<Rightarrow> ck_ulong \<Rightarrow> ck_ulong list \<Rightarrow> unit result \<times> ck_ulong list \<times> ck_ulong" where
  "write_list buf_null num xs =
    (if buf_null then (Ok (), [], of_nat (length xs))
     else if unat num < length xs then (Err CKR_BUFFER_TOO_SMALL, [], of_nat (length xs))
     else (Ok (), xs, of_nat (length xs)))"

definition get_slot_list ::
    "bool \<Rightarrow> ck_ulong option \<Rightarrow> 's lib_state \<Rightarrow> unit result \<times> ck_ulong list \<times> ck_ulong" where
  "get_slot_list list_null count st =
    (case count of
       None \<Rightarrow> (Err CKR_ARGUMENTS_BAD, [], 0)
     | Some num \<Rightarrow>
       (case lock st of
          Inl e \<Rightarrow> (Inl e, [], num)
        | Inr _ \<Rightarrow> write_list list_null num (get_slots_ids st)))"

definition get_slot_info :: "ck_ulong \<Rightarrow> bool \<Rightarrow> 's lib_state \<Rightarrow> ck_slot_info result" where
  "get_slot_info slot_id null st =
    (if null then Err CKR_ARGUMENTS_BAD
     else and_then (lock st) (\<lambda>_. and_then (get_slot st slot_id) (\<lambda>sl. Ok (sl_info sl))))"

definition get_token_info :: "ck_ulong \<Rightarrow> bool \<Rightarrow> 's lib_state \<Rightarrow> ck_token_info result" where
  "get_token_info slot_id null st =
    (if null then Err CKR_ARGUMENTS_BAD
     else and_then (lock st) (\<lambda>_. and_then (get_slot st slot_id) (\<lambda>sl. Ok (tk_info (sl_token sl)))))"

definition get_mechanism_list ::
    "ck_ulong \<Rightarrow> bool \<Rightarrow> ck_ulong option \<Rightarrow> 's lib_state \<Rightarrow> unit result \<times> ck_ulong list \<times> ck_ulong" where
  "get_mechanism_list slot_id list_null count st =
    (case count of
       None \<Rightarrow> (Err CKR_ARGUMENTS_BAD, [], 0)
     | Some num \<Rightarrow>
       (case and_then (lock st) (\<lambda>_. get_token_from_slot st slot_id) of
          Inl e \<Rightarrow> (Inl e, [], num)
        | Inr t \<Rightarrow> write_list list_null num (get_mechs_list t)))"

definition get_mechanism_info ::
    "ck_ulong \<Rightarrow> ck_ulong \<Rightarrow> bool \<Rightarrow> 's lib_state \<Rightarrow> ck_mechanism_info result" where
  "get_mechanism_info slot_id typ null st =
    (if null then Err CKR_ARGUMENTS_BAD
     else and_then (lock st) (\<lambda>_. and_then (get_token_from_slot st slot_id) (get_mech_info typ)))"

text \<open>The label is 32 bytes of the caller, or blanks.\<close>

definition init_token ::
    "'s storage \<Rightarrow> (bytes \<Rightarrow> bytes) \<Rightarrow> ck_ulong \<Rightarrow> bytes \<Rightarrow> bytes option \<Rightarrow> 's lib_state \<Rightarrow>
      unit result \<times> 's lib_state" where
  "init_token sg uuid_v8 slot_id pin label st =
    (case and_then (lock st) (\<lambda>_.
            and_then (has_sessions st slot_id) (\<lambda>has.
              if has then Err CKR_SESSION_EXISTS else get_token_from_slot_mut_nochecks st slot_id)) of
       Inl e \<Rightarrow> (Inl e, st)
     | Inr t \<Rightarrow>
       (case initialize sg uuid_v8 pin
               (case label of None \<Rightarrow> replicate 32 0x20 | Some l \<Rightarrow> l) t of
          (Inr _, t1) \<Rightarrow> (Ok (), put_token slot_id t1 st)
        | (Inl e, t1) \<Rightarrow>
          (if rv e = CKR_OK then Ok ()
           else if rv e = CKR_PIN_LOCKED \<or> rv e = CKR_PIN_INCORRECT \<or> rv e = CKR_PIN_INVALID \<or>
             rv e = CKR_PIN_EXPIRED then Err (rv e)
           else Err CKR_GENERAL_ERROR, put_token slot_id t1 st)))"

definition init_pin ::
    "'s storage \<Rightarrow> ck_ulong \<Rightarrow> bytes \<Rightarrow> 's lib_state \<Rightarrow> unit result \<times> 's lib_state" where
  "init_pin sg h pin st =
    (case and_then (lock st) (\<lambda>_. session_slot st h) of
       Inl e \<Rightarrow> (Inl e, st)
     | Inr sid \<Rightarrow>
       with_token_mut sid (\<lambda>t.
         if \<not> is_logged_in CKU_SO t then (Err CKR_USER_NOT_LOGGED_IN, t)
         else set_pin sg CKU_USER pin [] t) st)"

definition change_pin :: "'s storage \<Rightarrow> bytes \<Rightarrow> bytes \<Rightarrow> 's token \<Rightarrow> unit result \<times> 's token" where
  "change_pin sg vold vpin t =
    (if is_logged_in KRY_UNSPEC t then set_pin sg CK_UNAVAILABLE_INFORMATION vpin vold t
     else case token_login sg CKU_USER vold t of (ret, t1) \<Rightarrow>
       if ret \<noteq> CKR_OK then (Err ret, t1)
       else case set_pin sg CK_UNAVAILABLE_INFORMATION vpin vold t1 of (r, t2) \<Rightarrow>
         (r, snd (token_logout sg t2)))"

definition fn_set_pin ::
    "'s storage \<Rightarrow> ck_ulong \<Rightarrow> bytes \<Rightarrow> bytes \<Rightarrow> 's lib_state \<Rightarrow> unit result \<times> 's lib_state" where
  "fn_set_pin sg h vold vpin st =
    (case and_then (lock st) (\<lambda>_. get_session st h) of
       Inl e \<Rightarrow> (Inl e, st)
     | Inr s \<Rightarrow>
       if \<not> is_writable s then (Err CKR_SESSION_READ_ONLY, st)
       else if length vpin = 0 \<or> length vold = 0 then (Err CKR_PIN_INVALID, st)
       else with_token_mut (get_slot_id s) (change_pin sg vold vpin) st)"

end
