(* ===== verification/Object_Api.thy ===== *)
theory Object_Api
  imports Session_Api
begin

text \<open>
  The functions of the PKCS#11 interface on objects, of \<^verbatim>\<open>src/src/fns/objmgmt.rs\<close>, in the build
  without FIPS and with the default encoding of \<^verbatim>\<open>CKA_EC_POINT\<close> (\<^verbatim>\<open>EcPointEncoding::Bytes\<close>, for which
  the conversion in \<^verbatim>\<open>get_attribute_value\<close> is skipped). A template is given as a list.
\<close>

definition fail_if_cka_token_true :: "ck_attrs \<Rightarrow> unit result" where
  "fail_if_cka_token_true template =
    try_fold (\<lambda>_ a. if attr_type a = CKA_TOKEN
                    then and_then (ck_to_bool a)
                      (\<lambda>b. if b then Err CKR_SESSION_READ_ONLY else Ok ())
                    else Ok ()) () template"

text \<open>The checks \<^verbatim>\<open>create_object\<close> and \<^verbatim>\<open>copy_object\<close> share: the session and what it may write.\<close>

definition creating_session :: "ck_ulong \<Rightarrow> ck_attrs \<Rightarrow> bool \<Rightarrow> 's lib_state \<Rightarrow> ck_ulong result" where
  "creating_session h template null st =
    (if null then Err CKR_ARGUMENTS_BAD
     else and_then (lock st) (\<lambda>_.
       and_then (get_session st h) (\<lambda>s.
       and_then (if \<not> is_writable s then fail_if_cka_token_true template else Ok ())
         (\<lambda>_. Ok (get_slot_id s)))))"

definition fn_create_object ::
    "'s storage \<Rightarrow> bytes \<Rightarrow> ck_ulong \<Rightarrow> ck_attrs \<Rightarrow> bool \<Rightarrow> 's lib_state \<Rightarrow>
      ck_ulong result \<times> 's lib_state" where
  "fn_create_object sg uuid h template null st =
    (case creating_session h template null st of
       Inl e \<Rightarrow> (Inl e, st)
     | Inr sid \<Rightarrow> with_token_mut sid (create_object sg uuid h template) st)"

definition fn_copy_object ::
    "'s storage \<Rightarrow> bytes \<Rightarrow> ck_ulong \<Rightarrow> ck_ulong \<Rightarrow> ck_attrs \<Rightarrow> bool \<Rightarrow> 's lib_state \<Rightarrow>
      ck_ulong result \<times> 's lib_state" where
  "fn_copy_object sg uuid h oh template null st =
    (case creating_session h template null st of
       Inl e \<Rightarrow> (Inl e, st)
     | Inr sid \<Rightarrow> with_token_mut sid (copy_object sg uuid h oh template) st)"

definition fn_destroy_object ::
    "'s storage \<Rightarrow> ck_ulong \<Rightarrow> ck_ulong \<Rightarrow> 's lib_state \<Rightarrow> unit result \<times> 's lib_state" where
  "fn_destroy_object sg h oh st =
    (case and_then (lock st) (\<lambda>_. get_session st h) of
       Inl e \<Rightarrow> (Inl e, st)
     | Inr s \<Rightarrow>
       with_token_mut (get_slot_id s) (\<lambda>t.
         case get_object_by_handle sg oh t of
           Inl e \<Rightarrow> (Inl e, t)
         | Inr obj \<Rightarrow>
           if is_token obj \<and> \<not> is_writable s then (Err CKR_ACTION_PROHIBITED, t)
           else destroy_object sg oh t) st)"

definition fn_get_object_size ::
    "'s storage \<Rightarrow> ck_ulong \<Rightarrow> ck_ulong \<Rightarrow> bool \<Rightarrow> 's lib_state \<Rightarrow> ck_ulong result" where
  "fn_get_object_size sg h oh null st =
    (if null then Err CKR_ARGUMENTS_BAD
     else and_then (lock st) (\<lambda>_.
       and_then (get_token_from_session st h) (\<lambda>t.
       and_then (get_object_size sg oh t) (\<lambda>n.
         map_err (\<lambda>_. CkError CKR_GENERAL_ERROR) (ulong_try_from n)))))"

definition fn_get_attribute_value ::
    "'s storage \<Rightarrow> ck_ulong \<Rightarrow> ck_ulong \<Rightarrow> ck_attrs \<Rightarrow> 's lib_state \<Rightarrow> unit result \<times> ck_attrs" where
  "fn_get_attribute_value sg h oh template st =
    (case and_then (lock st) (\<lambda>_. get_token_from_session_mut st h) of
       Inl e \<Rightarrow> (Inl e, template)
     | Inr t \<Rightarrow>
       (case get_object_attrs sg oh template t of (r, template1) \<Rightarrow>
         (rv_result (result_rv r), template1)))"

definition fn_set_attribute_value ::
    "'s storage \<Rightarrow> ck_ulong \<Rightarrow> ck_ulong \<Rightarrow> ck_attrs \<Rightarrow> 's lib_state \<Rightarrow> unit result \<times> 's lib_state" where
  "fn_set_attribute_value sg h oh template st =
    (case and_then (lock st) (\<lambda>_. get_session st h) of
       Inl e \<Rightarrow> (Inl e, st)
     | Inr s \<Rightarrow>
       with_token_mut (get_slot_id s) (\<lambda>t.
         case get_object_by_handle sg oh t of
           Inl e \<Rightarrow> (Inl e, t)
         | Inr obj \<Rightarrow>
           if is_token obj \<and> \<not> is_logged_in KRY_UNSPEC t then (Err CKR_USER_NOT_LOGGED_IN, t)
           else if is_token obj \<and> \<not> is_writable s then (Err CKR_SESSION_READ_ONLY, t)
           else set_object_attrs sg oh template t) st)"

text \<open>A search finds the objects at once; the session keeps the handles.\<close>

definition find_objects_init ::
    "'s storage \<Rightarrow> ck_ulong \<Rightarrow> ck_attrs \<Rightarrow> 's lib_state \<Rightarrow> unit result \<times> 's lib_state" where
  "find_objects_init sg h template st =
    (case and_then (lock st) (\<lambda>_.
            and_then (get_session st h) (\<lambda>s.
            and_then (get_token_from_slot_mut st (get_slot_id s)) (\<lambda>t. Ok (s, t)))) of
       Inl e \<Rightarrow> (Inl e, st)
     | Inr (s, t) \<Rightarrow>
       (case new_search_operation (search_objects sg) t template s of (r, s1, t1) \<Rightarrow>
         (r, put_token (get_slot_id s) t1 (put_session (get_slot_id s) h s1 st))))"

definition find_objects ::
    "ck_ulong \<Rightarrow> ck_ulong \<Rightarrow> bool \<Rightarrow> 's lib_state \<Rightarrow> ck_ulong list result \<times> 's lib_state" where
  "find_objects h max_object_count null st =
    (if null then (Err CKR_ARGUMENTS_BAD, st)
     else case lock st of
       Inl e \<Rightarrow> (Inl e, st)
     | Inr _ \<Rightarrow>
       with_session_mut h (\<lambda>s.
         case get_operation so_search search_finalized s of
           Inl e \<Rightarrow> (Inl e, s)
         | Inr op1 \<Rightarrow>
           (case search_results (unat max_object_count) op1 of (r, op2) \<Rightarrow>
             (r, s\<lparr>s_operations := put_search (Some op2) (s_operations s)\<rparr>))) st)"

definition find_objects_final :: "ck_ulong \<Rightarrow> 's lib_state \<Rightarrow> unit result \<times> 's lib_state" where
  "find_objects_final h st =
    (case lock st of
       Inl e \<Rightarrow> (Inl e, st)
     | Inr _ \<Rightarrow> with_session_mut h (cancel_operation put_search) st)"

end
