(* ===== verification/Factory_Laws.thy ===== *)
theory Factory_Laws
  imports Key_Factories
begin

text \<open>
  What the object factories guarantee (\<^verbatim>\<open>src/src/object/factory.rs\<close>): objects created from a
  template are complete and carry the values given, modification and copying respect the
  attribute flags, reading never discloses a sensitive value and never writes past the
  application's buffer.
\<close>

section \<open>Creation\<close>

lemma from_ck_attr_class:
  assumes "from_ck_attr a = Ok x" and "attr_type a = CKA_CLASS" and "ck_to_ulong a = Ok n"
  shows "to_ulong x = Ok n"
proof -
  have "search_by_id CKA_CLASS = Some (attrmap_element CKA_CLASS ''CKA_CLASS'' NumType)"
    by (simp add: search_by_id_find ATTRMAP_def)
  then show ?thesis
    using assms by (subst (asm) from_ck_attr.simps) auto
qed

lemma create_stepE:
  assumes "create_step fd un o1 a = Ok o2"
  obtains fa where "find_oattr fd (attr_type a) = Some fa" "\<not> oa_is fa un"
    "oa_is fa Ignored" "o2 = o1"
  | fa x where "find_oattr fd (attr_type a) = Some fa" "\<not> oa_is fa un"
    "\<not> oa_is fa Ignored" "from_ck_attr a = Ok x" "o2 = push_attribute x o1"
    "ck_type x = attr_type a" "attr_type a \<noteq> CKA_CLASS \<Longrightarrow> get_attr (attr_type a) o1 = None"
    "wf_object o1 \<Longrightarrow> wf_object o2"
proof -
  obtain fa where fa: "find_oattr fd (attr_type a) = Some fa" "\<not> oa_is fa un"
    using assms by (auto simp: create_step_def split: option.splits if_splits)
  show thesis
  proof (cases "oa_is fa Ignored")
    case True
    then show thesis
      using assms fa by (intro that(1)) (auto simp: create_step_def and_then_eq_Ok)
  next
    case False
    then obtain x where x: "from_ck_attr a = Ok x" "o2 = push_attribute x o1"
      using assms fa by (auto simp: create_step_def and_then_eq_Ok)
    have ty: "ck_type x = attr_type a" using x(1) by (rule from_ck_attr_type)
    have none: "get_attr (attr_type a) o1 = None" if "attr_type a \<noteq> CKA_CLASS"
    proof (rule ccontr)
      assume "get_attr (attr_type a) o1 \<noteq> None"
      then obtain oa where "get_attr (attr_type a) o1 = Some oa" by auto
      moreover from this have "ck_type oa = attr_type a" by (simp add: get_attr_Some_in)
      ultimately show False using assms fa that by (simp add: create_step_def)
    qed
    have wf: "wf_object o2" if wf1: "wf_object o1"
    proof -
      have "to_ulong x = Ok (o_class o1)" if c: "attr_type a = CKA_CLASS"
      proof -
        obtain oa where oa: "get_attr CKA_CLASS o1 = Some oa"
          using wf1 by (cases "get_attr CKA_CLASS o1") (auto simp: wf_object_def get_attr_None_iff)
        then have "to_ulong oa = Ok (o_class o1)" "ck_type oa = CKA_CLASS"
          using wf1 get_attr_Some_in[OF oa] by (auto simp: wf_object_def)
        then have "ck_to_ulong a = Ok (o_class o1)"
          using assms fa c oa False
          by (auto simp: create_step_def and_then_eq_Ok split: if_splits)
        then show ?thesis using x(1) c by (intro from_ck_attr_class)
      qed
      then show ?thesis using wf1 ty none x(2) by (auto intro: wf_push)
    qed
    show thesis by (rule that(2)) (use fa False x ty none wf in auto)
  qed
qed

lemma push_class [simp]: "o_class (push_attribute a o1) = o_class o1"
  by (simp add: push_attribute_def)

text \<open>What the first loop has established once it has consumed the template attributes \<open>done\<close>.\<close>

definition template_taken :: "factory_data \<Rightarrow> oaflags \<Rightarrow> ck_attrs \<Rightarrow> object \<Rightarrow> bool" where
  "template_taken fd un seen o1 \<longleftrightarrow>
    wf_object o1 \<and> o_class o1 = fd_class fd \<and>
    (\<forall>a \<in> set seen. \<exists>fa. find_oattr fd (attr_type a) = Some fa \<and> \<not> oa_is fa un \<and>
      (\<not> oa_is fa Ignored \<longrightarrow> (\<exists>x. from_ck_attr a = Ok x \<and>
        (attr_type a \<noteq> CKA_CLASS \<longrightarrow> get_attr (attr_type a) o1 = Some x)))) \<and>
    (\<forall>x \<in> set (o_attributes o1). ck_type x \<noteq> CKA_CLASS \<longrightarrow>
      (\<exists>a \<in> set seen. from_ck_attr a = Ok x \<and>
        (\<exists>fa. find_oattr fd (attr_type a) = Some fa \<and> \<not> oa_is fa Ignored)))"

lemma template_taken_step:
  assumes "template_taken fd un seen o1" and "create_step fd un o1 a = Ok o2"
  shows "template_taken fd un (seen @ [a]) o2"
  using assms(2)
proof (cases rule: create_stepE)
  case (1 fa)
  then show ?thesis using assms(1) by (auto simp: template_taken_def)
next
  case (2 fa x)
  have keep: "get_attr t o2 = Some y" if "get_attr t o1 = Some y" for t y
    using that 2(5) by (simp add: get_attr_push)
  have new: "get_attr (attr_type a) o2 = Some x" if "attr_type a \<noteq> CKA_CLASS"
    using that 2 by (simp add: get_attr_push)
  show ?thesis
    using assms(1) 2(1-6,8) keep new
    by (auto simp: template_taken_def push_attribute_def ball_Un)
qed

lemma template_taken_loop:
  assumes "template_taken fd un seen o1" and "try_fold (create_step fd un) o1 template = Ok o2"
  shows "template_taken fd un (seen @ template) o2"
  using assms
proof (induction template arbitrary: seen o1)
  case (Cons a as)
  then obtain o' where "create_step fd un o1 a = Ok o'" "try_fold (create_step fd un) o' as = Ok o2"
    by (auto simp: and_then_eq_Ok)
  then show ?case using Cons.IH[of "seen @ [a]" o'] template_taken_step[OF Cons.prems(1)] by simp
qed simp

lemma template_taken_new: "template_taken fd un [] (new_object (fd_class fd))"
  by (simp add: template_taken_def wf_new_object) (simp add: new_object_def)

lemma default_stepE:
  assumes "default_step req o1 fa = Ok o2"
  obtains y where "get_attr (oa_type fa) o1 = Some y" "o2 = o1"
  | "get_attr (oa_type fa) o1 = None" "has_default fa" "o2 = push_attribute (oa_attribute fa) o1"
  | "get_attr (oa_type fa) o1 = None" "\<not> has_default fa" "\<not> oa_is fa req"
    "\<not> oa_is fa AlwaysRequired" "o2 = o1"
  using assms by (auto simp: default_step_def split: option.splits if_splits)

text \<open>What the second loop adds: nothing already present changes, only defaults are pushed.\<close>

definition defaults_added :: "object \<Rightarrow> object_attr list \<Rightarrow> oaflags \<Rightarrow> object \<Rightarrow> bool" where
  "defaults_added o1 seen req o2 \<longleftrightarrow>
    (wf_object o1 \<longrightarrow> wf_object o2) \<and> o_class o2 = o_class o1 \<and>
    (\<forall>t y. get_attr t o1 = Some y \<longrightarrow> get_attr t o2 = Some y) \<and>
    (\<forall>fa \<in> set seen. has_default fa \<or> oa_is fa req \<or> oa_is fa AlwaysRequired \<longrightarrow>
      get_attr (oa_type fa) o2 \<noteq> None) \<and>
    (\<forall>x \<in> set (o_attributes o2). x \<in> set (o_attributes o1) \<or>
      (\<exists>fa \<in> set seen. has_default fa \<and> x = oa_attribute fa))"

lemma defaults_added_step:
  assumes "defaults_added o0 seen req o1" and "default_step req o1 fa = Ok o2"
    and "get_attr CKA_CLASS o1 \<noteq> None"
  shows "defaults_added o0 (seen @ [fa]) req o2 \<and> get_attr CKA_CLASS o2 \<noteq> None"
  using assms(2)
proof (cases rule: default_stepE)
  case (1 y)
  then show ?thesis using assms(1,3) by (auto simp: defaults_added_def)
next
  case 2
  have keep: "get_attr t o2 = Some y" if "get_attr t o1 = Some y" for t y
    using that 2(3) by (simp add: get_attr_push)
  have new: "get_attr (oa_type fa) o2 \<noteq> None"
    using 2 by (simp add: get_attr_push oa_type_def)
  have mono: "get_attr t o2 \<noteq> None" if "get_attr t o1 \<noteq> None" for t using that keep by auto
  have wf: "wf_object o2" if "wf_object o1"
    using that 2 assms(3) by (auto simp: oa_type_def intro!: wf_push)
  have attrs: "o_attributes o2 = o_attributes o1 @ [oa_attribute fa]" "o_class o2 = o_class o1"
    using 2(3) by (simp_all add: push_attribute_def)
  show ?thesis using assms(1,3) keep new mono wf attrs 2(2)
    unfolding defaults_added_def by (auto simp: ball_Un)
next
  case 3
  then show ?thesis using assms(1,3) by (auto simp: defaults_added_def)
qed

lemma defaults_added_loop:
  assumes "defaults_added o0 seen req o1" and "try_fold (default_step req) o1 fas = Ok o2"
    and "get_attr CKA_CLASS o1 \<noteq> None"
  shows "defaults_added o0 (seen @ fas) req o2"
  using assms
proof (induction fas arbitrary: seen o1)
  case (Cons a as)
  then obtain o' where "default_step req o1 a = Ok o'" "try_fold (default_step req) o' as = Ok o2"
    by (auto simp: and_then_eq_Ok)
  then show ?case
    using Cons.IH[of "seen @ [a]" o'] defaults_added_step[OF Cons.prems(1)] Cons.prems(3) by simp
qed simp

lemma internal_object_createE:
  assumes "internal_object_create fd template un req = Ok o2"
  obtains o1 where "template_taken fd un template o1"
    "defaults_added o1 (fd_attributes fd) req o2"
proof -
  obtain o1 where o1: "try_fold (create_step fd un) (new_object (fd_class fd)) template = Ok o1"
      "try_fold (default_step req) o1 (fd_attributes fd) = Ok o2"
    using assms by (auto simp: internal_object_create_def and_then_eq_Ok)
  have taken: "template_taken fd un template o1"
    using template_taken_loop[OF template_taken_new o1(1)] by simp
  then have "get_attr CKA_CLASS o1 \<noteq> None"
    by (auto simp: template_taken_def wf_object_def get_attr_None_iff)
  moreover have "defaults_added o1 [] req o1" by (simp add: defaults_added_def)
  ultimately have "defaults_added o1 (fd_attributes fd) req o2"
    using defaults_added_loop[OF _ o1(2)] by fastforce
  with taken show thesis by (rule that)
qed

text \<open>
  C37. Creation from a template (\<^verbatim>\<open>internal_object_create\<close>) is sound: the object is well formed and
  of the factory's class; every template attribute is one the factory lists and accepts, and is
  stored with its converted value unless the factory ignores it; every attribute with a default
  or required by the operation is present; and nothing is stored that is neither a converted
  template attribute nor a default.
\<close>

theorem internal_object_create_sound:
  assumes ok: "internal_object_create fd template un req = Ok o1"
  shows "wf_object o1 \<and> o_class o1 = fd_class fd \<and>
    (\<forall>a \<in> set template. \<exists>fa. find_oattr fd (attr_type a) = Some fa \<and> \<not> oa_is fa un \<and>
      (\<not> oa_is fa Ignored \<and> attr_type a \<noteq> CKA_CLASS \<longrightarrow>
        (\<exists>x. from_ck_attr a = Ok x \<and> get_attr (attr_type a) o1 = Some x))) \<and>
    (\<forall>fa \<in> set (fd_attributes fd). has_default fa \<or> oa_is fa req \<or> oa_is fa AlwaysRequired \<longrightarrow>
      get_attr (oa_type fa) o1 \<noteq> None) \<and>
    (\<forall>x \<in> set (o_attributes o1). ck_type x \<noteq> CKA_CLASS \<longrightarrow>
      (\<exists>a \<in> set template. from_ck_attr a = Ok x \<and>
        (\<exists>fa. find_oattr fd (attr_type a) = Some fa \<and> \<not> oa_is fa Ignored)) \<or>
      (\<exists>fa \<in> set (fd_attributes fd). has_default fa \<and> x = oa_attribute fa))"
  using ok
proof (cases rule: internal_object_createE)
  case (1 o0)
  note t = 1(1)[unfolded template_taken_def]
  note d = 1(2)[unfolded defaults_added_def]
  have "\<exists>fa. find_oattr fd (attr_type a) = Some fa \<and> \<not> oa_is fa un \<and>
      (\<not> oa_is fa Ignored \<and> attr_type a \<noteq> CKA_CLASS \<longrightarrow>
        (\<exists>x. from_ck_attr a = Ok x \<and> get_attr (attr_type a) o1 = Some x))"
    if "a \<in> set template" for a
    using t d that by meson
  moreover have "(\<exists>a \<in> set template. from_ck_attr a = Ok x \<and>
        (\<exists>fa. find_oattr fd (attr_type a) = Some fa \<and> \<not> oa_is fa Ignored)) \<or>
      (\<exists>fa \<in> set (fd_attributes fd). has_default fa \<and> x = oa_attribute fa)"
    if "x \<in> set (o_attributes o1)" "ck_type x \<noteq> CKA_CLASS" for x
    using t d that by meson
  ultimately show ?thesis using t d by simp
qed

section \<open>Modification\<close>

text \<open>An update of one attribute changes nothing else.\<close>

lemma set_from_ckE:
  assumes "set_from_ck o1 a = Ok o2"
  obtains x where "from_ck_attr a = Ok x" "set_attr x o1 = Ok o2" "ck_type x = attr_type a"
  using assms by (auto simp: set_from_ck_def and_then_eq_Ok from_ck_attr_type)

lemma get_attr_set_from_ck:
  assumes "set_from_ck o1 a = Ok o2"
  shows "t \<noteq> attr_type a \<Longrightarrow> get_attr t o2 = get_attr t o1"
    and "t = attr_type a \<Longrightarrow> \<exists>x. from_ck_attr a = Ok x \<and> get_attr t o2 = Some x"
  using assms by (auto elim!: set_from_ckE simp: get_attr_set)

text \<open>
  A law of a loop of updates: the attribute \<open>t\<close> is as before, or it is the conversion of one of
  the entries of the template.
\<close>

lemma apply_attrs_origin:
  assumes "apply_attrs o1 template = (r, o2)"
  shows "get_attr t o2 = get_attr t o1 \<or>
    (\<exists>a \<in> set template. attr_type a = t \<and> (\<exists>x. from_ck_attr a = Ok x \<and> get_attr t o2 = Some x))"
  using assms
proof (induction template arbitrary: o1)
  case (Cons a as)
  show ?case
  proof (cases "set_from_ck o1 a")
    case (Inr o')
    then have "apply_attrs o' as = (r, o2)" using Cons.prems by simp
    from Cons.IH[OF this] show ?thesis
      using get_attr_set_from_ck[OF Inr, of t] by (cases "t = attr_type a") auto
  qed (use Cons.prems in auto)
qed simp

lemma try_fold_set_from_ck_origin:
  assumes "try_fold set_from_ck o1 template = Ok o2"
  shows "get_attr t o2 = get_attr t o1 \<or>
    (\<exists>a \<in> set template. attr_type a = t \<and> (\<exists>x. from_ck_attr a = Ok x \<and> get_attr t o2 = Some x))"
  using assms
proof (induction template arbitrary: o1)
  case (Cons a as)
  then obtain o' where o': "set_from_ck o1 a = Ok o'" "try_fold set_from_ck o' as = Ok o2"
    by (auto simp: and_then_eq_Ok)
  from Cons.IH[OF o'(2)] show ?case
    using get_attr_set_from_ck[OF o'(1), of t] by (cases "t = attr_type a") auto
qed simp

lemma try_fold_check_all:
  "try_fold (\<lambda>_. chk) () xs = Ok () \<longleftrightarrow> (\<forall>x \<in> set xs. chk x = Ok ())"
  by (induction xs) (auto simp: and_then_eq_Ok)

lemma check_set_attributes_iff:
  "check_set_attributes fd template = Ok () \<longleftrightarrow>
    (\<forall>a \<in> set template. check_set_attribute fd () a = Ok ())"
  using try_fold_check_all[of "check_set_attribute fd ()" template]
  by (simp add: check_set_attributes_def cong: try_fold_cong)

lemma apply_attrs_complete:
  "fst (apply_attrs o1 template) = Ok () \<longleftrightarrow> is_ok (try_fold set_from_ck o1 template)"
  by (induction template arbitrary: o1) (auto split: sum.splits)

text \<open>A checked boolean change is the change the flags of the attribute allow.\<close>

lemma from_ck_attr_bool:
  assumes "from_ck_attr a = Ok x" and "attr_id_to_attrtype (attr_type a) = Ok BoolType"
    and "ck_to_bool a = Ok b"
  shows "x = from_bool (attr_type a) b"
proof -
  obtain m where "search_by_id (attr_type a) = Some m" "am_atype m = BoolType"
    using assms(2) by (auto simp: attr_id_to_attrtype_def split: option.splits)
  then show ?thesis using assms(1,3) by (subst (asm) from_ck_attr.simps) simp
qed

lemma checked_change:
  assumes chk: "check_set_attribute fd () a = Ok ()" and fa: "find_oattr fd (attr_type a) = Some fa"
    and un: "oa_is fa Unchangeable" and x: "from_ck_attr a = Ok x"
    and bt: "attr_id_to_attrtype (attr_type a) = Ok BoolType"
  shows "\<exists>b. x = from_bool (attr_type a) b \<and> (if b then oa_is fa ChangeToTrue else oa_is fa ChangeToFalse)"
proof -
  obtain b where "ck_to_bool a = Ok b" "if b then oa_is fa ChangeToTrue else oa_is fa ChangeToFalse"
    using chk fa un by (auto simp: check_set_attribute_def and_then_eq_Ok split: if_splits)
  then show ?thesis using from_ck_attr_bool[OF x bt] by blast
qed

text \<open>
  C36. Modification (\<^verbatim>\<open>set_object_attributes\<close>) respects the attribute flags, also when it fails
  half-way: whatever the template, an attribute that the factory does not list or marks
  \<^verbatim>\<open>NeverSettable\<close> keeps its value; an \<^verbatim>\<open>Unchangeable\<close> attribute that is not boolean keeps its value;
  and a boolean \<^verbatim>\<open>Unchangeable\<close> attribute either keeps its value or has a value its
  \<^verbatim>\<open>ChangeToTrue\<close> or \<^verbatim>\<open>ChangeToFalse\<close> flag allows (a set \<^verbatim>\<open>CKA_SENSITIVE\<close> is never cleared, a
  cleared \<^verbatim>\<open>CKA_EXTRACTABLE\<close> is never set). Nothing changes in an object that is not modifiable. These are
  the flags that the code looks at; \<^verbatim>\<open>SettableOnlyOnCreate\<close> is not among them, and an attribute that has
  only this flag is changed.
\<close>

theorem set_object_attributes_respects_flags:
  assumes run: "set_object_attributes fd o1 template = (r, o2)"
  shows "(\<not> is_modifiable o1 \<longrightarrow> o2 = o1) \<and>
    (case find_oattr fd t of
       None \<Rightarrow> get_attr t o2 = get_attr t o1
     | Some fa \<Rightarrow>
       (oa_is fa NeverSettable \<or>
        (oa_is fa Unchangeable \<and> attrtype (oa_attribute fa) \<noteq> BoolType) \<longrightarrow>
          get_attr t o2 = get_attr t o1) \<and>
       (oa_is fa Unchangeable \<and> attr_id_to_attrtype t = Ok BoolType \<longrightarrow>
          get_attr t o2 = get_attr t o1 \<or>
          (oa_is fa ChangeToTrue \<and> get_attr_as_bool t o2 = Ok True) \<or>
          (oa_is fa ChangeToFalse \<and> get_attr_as_bool t o2 = Ok False)))"
proof (cases "is_modifiable o1 \<and> check_set_attributes fd template = Ok ()")
  case False
  then have "o2 = o1" using run by (auto simp: set_object_attributes_def split: if_splits sum.splits)
  then show ?thesis by (auto split: option.split)
next
  case True
  then have run': "apply_attrs o1 template = (r, o2)"
    using run by (simp add: set_object_attributes_def)
  have chk: "\<And>a. a \<in> set template \<Longrightarrow> check_set_attribute fd () a = Ok ()"
    using True by (simp add: check_set_attributes_iff)
  show ?thesis
  proof (cases "get_attr t o2 = get_attr t o1")
    case True
    then show ?thesis using \<open>is_modifiable o1 \<and> _\<close> by (auto split: option.split)
  next
    case False
    then obtain a x where a: "a \<in> set template" "attr_type a = t" "from_ck_attr a = Ok x"
        "get_attr t o2 = Some x"
      using apply_attrs_origin[OF run', of t] by auto
    have c: "check_set_attribute fd () a = Ok ()" by (rule chk[OF a(1)])
    then obtain fa where fa: "find_oattr fd t = Some fa" "\<not> oa_is fa NeverSettable"
        "oa_is fa Unchangeable \<Longrightarrow> attrtype (oa_attribute fa) = BoolType"
      using a(2) by (auto simp: check_set_attribute_def split: option.splits if_splits)
    have "(oa_is fa ChangeToTrue \<and> get_attr_as_bool t o2 = Ok True) \<or>
        (oa_is fa ChangeToFalse \<and> get_attr_as_bool t o2 = Ok False)"
      if "oa_is fa Unchangeable" "attr_id_to_attrtype t = Ok BoolType"
      using checked_change[of fd a fa x] c fa(1) that a
      by (auto simp: attr_as_defs from_bool_def to_bool_def split: if_splits)
    then show ?thesis using fa True by auto
  qed
qed

lemmas flag_eval = oa_is_def flags_contain_def has_default_def oaflag_defs

lemmas data_eval = data_factory_data_def finalize_data_def new_factory_data_def
  common_storage_attrs_def common_object_attrs_def find_oattr_def

text \<open>A data object before and after the change of its \<^verbatim>\<open>CKA_COPYABLE\<close>.\<close>

definition sample_data :: "bool \<Rightarrow> object" where
  "sample_data copyable =
    (new_object CKO_DATA)
      \<lparr>o_attributes := [from_ulong CKA_CLASS CKO_DATA, from_bool CKA_COPYABLE copyable]\<rparr>"

lemma search_by_id_COPYABLE:
  "search_by_id CKA_COPYABLE = Some (attrmap_element CKA_COPYABLE ''CKA_COPYABLE'' BoolType)"
  by (simp add: search_by_id_find ATTRMAP_def)

lemma from_ck_attr_COPYABLE:
  "from_ck_attr (ck_attr_of CKA_COPYABLE [b]) = Ok (from_bool CKA_COPYABLE (b \<noteq> 0))"
  by (subst from_ck_attr.simps) (simp add: search_by_id_COPYABLE ck_to_bool_def)

lemma sample_data_run:
  "set_object_attributes data_factory_data (sample_data True) [ck_attr_of CKA_COPYABLE [0]] =
    (Ok (), sample_data False)"
  by (simp add: set_object_attributes_def sample_data_def is_modifiable_def bool_checker_def
      get_attr_def check_set_attributes_def check_set_attribute_def data_eval flag_eval
      ck_to_bool_def from_bool_def[of CKA_COPYABLE True] set_from_ck_def from_ck_attr_COPYABLE
      set_attr_def new_object_def)

theorem set_object_attributes_respects_flags_witness:
  "set_object_attributes data_factory_data (sample_data True) [ck_attr_of CKA_COPYABLE [0]] =
      (Ok (), sample_data False) \<and>
    get_attr CKA_COPYABLE (sample_data False) \<noteq> get_attr CKA_COPYABLE (sample_data True) \<and>
    get_attr_as_bool CKA_COPYABLE (sample_data False) = Ok False"
  using set_object_attributes_respects_flags[OF sample_data_run, of CKA_COPYABLE] sample_data_run
  by (simp add: sample_data_def get_attr_def attr_as_defs data_eval flag_eval from_bool_def to_bool_def)

section \<open>Reading\<close>

text \<open>
  Rust vectors are shorter than \<^verbatim>\<open>isize::MAX\<close>, so the length of a value fits a \<^verbatim>\<open>CK_ULONG\<close>.
\<close>

definition fits :: "object \<Rightarrow> bool" where
  "fits o1 \<longleftrightarrow> (\<forall>a \<in> set (o_attributes o1). length (val a) < usize_range)"

text \<open>The bytes behind the pointer of an entry change within the declared length only.\<close>

fun bytes_within :: "ck_attribute \<Rightarrow> ck_attribute \<Rightarrow> bool" where
  "bytes_within (CkAttribute t NullPtr l) (CkAttribute t' p' l') \<longleftrightarrow> t' = t \<and> p' = NullPtr"
| "bytes_within (CkAttribute t (Ptr bs as al) l) (CkAttribute t' p' l') \<longleftrightarrow>
    t' = t \<and> (\<exists>bs'. p' = Ptr bs' as al \<and> drop (unat l) bs' = drop (unat l) bs)"

text \<open>
  For an array of attributes the structs within the declared length may change; each keeps its
  type and its memory, unless the application asked for the types to be filled in.
\<close>

fun writes_within :: "ck_attribute \<Rightarrow> ck_attribute \<Rightarrow> bool" where
  "writes_within (CkAttribute t NullPtr l) (CkAttribute t' p' l') \<longleftrightarrow> t' = t \<and> p' = NullPtr"
| "writes_within (CkAttribute t (Ptr bs as al) l) (CkAttribute t' p' l') \<longleftrightarrow>
    t' = t \<and> (\<exists>bs' as'. p' = Ptr bs' as' al \<and> drop (unat l) bs' = drop (unat l) bs \<and>
      drop (unat l div sizeof_ck_attribute) as' = drop (unat l div sizeof_ck_attribute) as \<and>
      (\<forall>i < unat l div sizeof_ck_attribute. i < length as \<longrightarrow>
        attr_type (as ! i) = CK_UNAVAILABLE_INFORMATION \<or>
        i < length as' \<and> bytes_within (as ! i) (as' ! i)))"

lemma bytes_within_refl [simp]: "bytes_within a a"
  by (cases a; cases "pValue a") auto

lemma bytes_within_writes: "bytes_within a b \<Longrightarrow> writes_within a b"
  by (induction a b rule: bytes_within.induct) auto

lemma set_len_sel [simp]:
  "attr_type (set_len n a) = attr_type a" "pValue (set_len n a) = pValue a"
  "ulValueLen (set_len n a) = n"
  by (cases a; simp)+

lemma set_ptr_sel [simp]:
  "attr_type (set_ptr q a) = attr_type a" "pValue (set_ptr q a) = q"
  "ulValueLen (set_ptr q a) = ulValueLen a"
  by (cases a; simp)+

lemma bytes_within_set_len: "bytes_within a (set_len n b) = bytes_within a b"
  by (cases a; cases b; cases "pValue a") auto

lemma writes_within_set_len: "writes_within a (set_len n b) = writes_within a b"
  by (cases a; cases b; cases "pValue a") auto

lemma fill_value_within:
  assumes "length v < usize_range"
  shows "bytes_within a (fst (fill_value v a result))"
proof -
  have "drop (attr_len a) (v @ drop (length v) bs) = drop (attr_len a) bs"
    if "\<not> ulValueLen a < of_nat (length v)" for bs
  proof -
    have "length v \<le> attr_len a"
      using that assms by (simp add: word_less_nat_alt unat_of_nat)
    then show ?thesis by simp
  qed
  then show ?thesis
    by (cases a; cases "pValue a") (auto simp: fill_value_def Let_def)
qed

text \<open>What a filled entry holds afterwards.\<close>

lemma fill_value_cases:
  assumes "fill_value v a result = (a', result')" and "length v < usize_range"
  shows "(is_null (pValue a) \<and> a' = set_len (of_nat (length v)) a \<and> result' = result) \<or>
    (\<not> is_null (pValue a) \<and> length v \<le> attr_len a \<and> attr_len a' = length v \<and>
      mem_bytes (pValue a') (length v) = v \<and> result' = result) \<or>
    (pValue a' = pValue a \<and> ulValueLen a' = CK_UNAVAILABLE_INFORMATION \<and>
      result' = first_err result CKR_BUFFER_TOO_SMALL) \<or>
    (a' = a \<and> ulValueLen a = CK_UNAVAILABLE_INFORMATION \<and>
      result' = first_err result CKR_TEMPLATE_INCONSISTENT)"
proof -
  have "length v \<le> attr_len a" if "\<not> ulValueLen a < of_nat (length v)"
    using that assms(2) by (simp add: word_less_nat_alt unat_of_nat)
  moreover have "unat (of_nat (length v) :: ck_ulong) = length v"
    using assms(2) by (simp add: unat_of_nat)
  ultimately show ?thesis
    using assms(1)
    by (cases a; cases "pValue a") (auto simp: fill_value_def Let_def split: if_splits)
qed

lemma first_err_OK: "first_err result e = CKR_OK \<longleftrightarrow> result = CKR_OK \<and> e = CKR_OK"
  by (auto simp: first_err_def)

lemma length_retrieve_inner: "length (fst (retrieve_inner st as result)) = length as"
  by (induction st as result rule: retrieve_inner.induct) (auto simp: Let_def split: prod.splits)

lemma retrieve_inner_within:
  assumes "\<forall>s \<in> set st. length (val s) < usize_range" and "i < length as"
  shows "bytes_within (as ! i) (fst (retrieve_inner st as result) ! i)"
  using assms(2)
proof (induction as arbitrary: i result)
  case (Cons a as)
  have hd: "bytes_within a (fst (case List.find (\<lambda>sa. ck_type sa = attr_type a) st of
      Some sa \<Rightarrow> fill_value (val sa) a result
    | None \<Rightarrow> (set_len CK_UNAVAILABLE_INFORMATION a, first_err result CKR_TEMPLATE_INCONSISTENT)))"
    using assms(1)
    by (auto split: option.split simp: bytes_within_set_len dest!: find_SomeD
        intro!: fill_value_within)
  show ?case
  proof (cases i)
    case 0
    then show ?thesis using hd by (auto simp: Let_def split: prod.split)
  next
    case (Suc j)
    then have "bytes_within (as ! j) (fst (retrieve_inner st as r) ! j)" for r
      using Cons by simp
    then show ?thesis using Suc by (auto simp: Let_def split: prod.splits) (metis fst_conv)+
  qed
qed simp

lemma filter_all_length: "n = length (filter P xs) \<Longrightarrow> length xs \<le> n \<Longrightarrow> \<forall>x \<in> set xs. P x"
  by (metis filter_id_conv length_filter_le filter_True le_antisym length_filter_less not_le)

text \<open>The three ways a nested template is answered.\<close>

lemma get_template_attributeE:
  assumes run: "get_template_attribute oa a result = Ok (a', result')"
    and st: "to_template oa = Ok st" and p: "\<not> is_null (pValue a)"
  obtains (keep) m where "a' = set_len m a"
  | (discovery) "length st = attr_len a div sizeof_ck_attribute"
      "\<forall>x \<in> set (mem_attrs (pValue a) (attr_len a div sizeof_ck_attribute)).
        attr_type x = CK_UNAVAILABLE_INFORMATION"
      "a' = set_ptr (write_attrs (map discovery_attr st) (pValue a)) (set_len (ulValueLen a') a)"
  | (retrieval) xs where
      "xs = fst (retrieve_inner st (mem_attrs (pValue a) (attr_len a div sizeof_ck_attribute)) result)"
      "a' = set_ptr (write_attrs xs (pValue a)) (set_len (ulValueLen a') a)"
proof -
  let ?n = "attr_len a div sizeof_ck_attribute"
  let ?as = "mem_attrs (pValue a) ?n"
  let ?u = "length (filter (\<lambda>x. attr_type x = CK_UNAVAILABLE_INFORMATION) ?as)"
  have len: "length ?as \<le> ?n" by (cases "pValue a") auto
  note r = run[unfolded get_template_attribute_def st and_then_Ok Let_def, simplified p if_False]
  show thesis
  proof (cases "?u = ?n \<and> ?n = length st \<and> (\<exists>m. a' = set_ptr (write_attrs (map discovery_attr st) (pValue a)) (set_len m a))")
    case True
    then show thesis using filter_all_length[OF _ len] by (intro discovery) (auto simp: eq_commute)
  next
    case False
    then show thesis
      using r keep retrieval
      by (auto split: if_splits prod.splits)
  qed
qed
lemma mem_attrs_Ptr: "\<not> is_null p \<Longrightarrow> \<exists>bs as al. p = Ptr bs as al"
  by (cases p) auto

lemma get_template_attribute_within:
  assumes run: "get_template_attribute oa a result = Ok (a', result')"
    and fit: "length (val oa) < usize_range"
  shows "writes_within a a'"
proof -
  obtain st where st: "to_template oa = Ok st"
    using run by (auto simp: get_template_attribute_def and_then_eq_Ok)
  have small: "\<forall>s \<in> set st. length (val s) < usize_range"
    using st deserialized_short[OF _ fit] by (auto simp: to_template_def split: if_splits)
  have same: "writes_within a (set_len m a)" for m
    by (simp add: writes_within_set_len bytes_within_writes)
  show ?thesis
  proof (cases "is_null (pValue a)")
    case True
    then show ?thesis using run st same by (auto simp: get_template_attribute_def)
  next
    case False
    from run st False show ?thesis
    proof (cases rule: get_template_attributeE)
      case (keep m)
      then show ?thesis using same by simp
    next
      case discovery
      obtain bs as al where p: "pValue a = Ptr bs as al" using mem_attrs_Ptr[OF False] by blast
      have "attr_type (as ! i) = CK_UNAVAILABLE_INFORMATION"
        if "i < attr_len a div sizeof_ck_attribute" "i < length as" for i
        using discovery(2) p that by (simp add: all_set_conv_all_nth)
      then show ?thesis
        by (subst discovery(3)) (use discovery(1) p in \<open>cases a; simp\<close>)
    next
      case (retrieval xs)
      obtain bs as al where p: "pValue a = Ptr bs as al" using mem_attrs_Ptr[OF False] by blast
      let ?n = "attr_len a div sizeof_ck_attribute"
      have xs: "length xs = min (length as) ?n"
        "\<And>i. i < length xs \<Longrightarrow> bytes_within (as ! i) (xs ! i)"
        using retrieve_inner_within[OF small, of _ "take ?n as" result] retrieval(1) p
        by (auto simp: length_retrieve_inner)
      then show ?thesis
        by (subst retrieval(2)) (use p in \<open>cases a; auto simp: nth_append\<close>)
    qed
  qed
qed

lemma read_attr_within:
  assumes "read_attr fd o1 sens result a = Ok (a', result')" and "fits o1"
  shows "writes_within a a'"
proof -
  have same: "writes_within a (set_len m a)" for m
    by (simp add: writes_within_set_len bytes_within_writes)
  have len: "length (val oa) < usize_range" if "get_attr t o1 = Some oa" for t oa
    using assms(2) get_attr_Some_in[OF that] by (auto simp: fits_def)
  have fill: "writes_within a a'"
    if "get_attr t o1 = Some oa" "fill_value (val oa) a result = (a', result')" for t oa
    using fill_value_within[OF len[OF that(1)], of a result] that(2)
    by (simp add: bytes_within_writes)
  have tmpl: "writes_within a a'"
    if "get_attr t o1 = Some oa" "get_template_attribute oa a result = Ok (a', result')" for t oa
    using get_template_attribute_within[OF that(2) len[OF that(1)]] .
  show ?thesis
    using assms(1) same fill tmpl
    unfolding read_attr_def by (auto split: option.splits if_splits)
qed

lemma read_attr_sensitive:
  assumes "find_oattr fd (attr_type a) = Some fa" and "oa_is fa Sensitive"
  shows "read_attr fd o1 True result a =
    Ok (set_len CK_UNAVAILABLE_INFORMATION a, first_err result CKR_ATTRIBUTE_SENSITIVE)"
  using assms by (simp add: read_attr_def)

text \<open>The first error code met is the one reported.\<close>

lemma retrieve_inner_OK:
  "snd (retrieve_inner st as result) = CKR_OK \<Longrightarrow> result = CKR_OK"
proof (induction st as result rule: retrieve_inner.induct)
  case (2 st a rest result)
  then show ?case
    by (auto simp: Let_def fill_value_def first_err_OK split: prod.splits option.splits if_splits)
qed simp

lemma read_attr_OK:
  assumes "read_attr fd o1 sens result a = Ok (a', CKR_OK)"
  shows "result = CKR_OK"
proof -
  have t: "result = CKR_OK" if "get_template_attribute oa a result = Ok (a', CKR_OK)" for oa
    using that retrieve_inner_OK
    by (auto simp: get_template_attribute_def and_then_eq_Ok Let_def first_err_OK
        split: if_splits prod.splits) (metis snd_conv)
  have f: "result = CKR_OK" if "fill_value v a result = (a', CKR_OK)" for v
    using that by (auto simp: fill_value_def Let_def first_err_OK split: if_splits)
  show ?thesis
    using assms t f by (auto simp: read_attr_def first_err_OK split: option.splits if_splits)
qed

lemma read_attrs_OK:
  "read_attrs fd o1 sens result template = (Ok CKR_OK, template') \<Longrightarrow> result = CKR_OK"
proof (induction template arbitrary: result template')
  case (Cons a rest)
  then show ?case
    by (auto split: sum.splits prod.splits dest: read_attr_OK)
qed simp

lemma all_less_Suc_nth:
  "(\<forall>i < length (a # as). P i) \<longleftrightarrow> P 0 \<and> (\<forall>i < length as. P (Suc i))"
  by (auto simp: less_Suc_eq_0_disj)

text \<open>A law of the loop: each entry is untouched or the result of reading it.\<close>

lemma read_attrs_nth:
  assumes "read_attrs fd o1 sens result template = (r, template')"
  shows "length template' = length template \<and>
    (\<forall>i < length template. (template' ! i = template ! i \<and> \<not> is_ok r) \<or>
      (\<exists>res res'. read_attr fd o1 sens res (template ! i) = Ok (template' ! i, res') \<and>
        (r = Ok CKR_OK \<longrightarrow> res = CKR_OK \<and> res' = CKR_OK)))"
  using assms
proof (induction template arbitrary: result r template')
  case (Cons a rest)
  show ?case
  proof (cases "read_attr fd o1 sens result a")
    case (Inl e)
    then show ?thesis using Cons.prems by auto
  next
    case (Inr p)
    obtain a' result' where p: "p = (a', result')" by force
    obtain rest' where rest: "read_attrs fd o1 sens result' rest = (r, rest')"
        "template' = a' # rest'"
      using Cons.prems Inr p by (auto split: prod.splits)
    have "r = Ok CKR_OK \<longrightarrow> result' = CKR_OK \<and> result = CKR_OK"
      using read_attrs_OK rest(1) Inr p read_attr_OK by blast
    then show ?thesis using Cons.IH[OF rest(1)] Inr p rest(2)
      unfolding all_less_Suc_nth by auto
  qed
qed simp

lemma get_object_attributes_nth:
  assumes run: "fd_get_object_attributes fd o1 template = (r, template')" and i: "i < length template"
  shows "length template' = length template" and
    "(template' ! i = template ! i \<and> \<not> is_ok r) \<or>
      (\<exists>res res'. read_attr fd o1 (is_sensitive o1 \<or> \<not> is_extractable o1) res (template ! i) =
        Ok (template' ! i, res') \<and> (r = Ok () \<longrightarrow> res = CKR_OK \<and> res' = CKR_OK))"
proof -
  let ?sens = "is_sensitive o1 \<or> \<not> is_extractable o1"
  obtain q where q: "read_attrs fd o1 ?sens CKR_OK template = (q, template')"
      "r = (case q of Inl e \<Rightarrow> Inl e | Inr result \<Rightarrow> if result = CKR_OK then Ok () else Err result)"
    using run by (auto simp: fd_get_object_attributes_def split: prod.splits)
  note nth = read_attrs_nth[OF q(1)]
  show "length template' = length template" using nth by simp
  have "r = Ok () \<longleftrightarrow> q = Ok CKR_OK" using q(2) by (auto split: sum.splits if_splits)
  moreover have "\<not> is_ok q \<Longrightarrow> \<not> is_ok r" using q(2) by (auto split: sum.splits)
  ultimately show "(template' ! i = template ! i \<and> \<not> is_ok r) \<or>
      (\<exists>res res'. read_attr fd o1 ?sens res (template ! i) =
        Ok (template' ! i, res') \<and> (r = Ok () \<longrightarrow> res = CKR_OK \<and> res' = CKR_OK))"
    using nth i by metis
qed

text \<open>
  C32. Reading attributes (\<^verbatim>\<open>get_object_attributes\<close>) never discloses a sensitive value: when the
  object is sensitive or not extractable, an entry that asks for an attribute the factory flags
  \<^verbatim>\<open>Sensitive\<close> comes back with its memory untouched and, when the loop reached it, with the
  length \<^verbatim>\<open>CK_UNAVAILABLE_INFORMATION\<close>; the call as a whole is then an error.
\<close>

theorem get_object_attributes_hides_sensitive:
  assumes run: "fd_get_object_attributes fd o1 template = (r, template')"
    and sens: "is_sensitive o1 \<or> \<not> is_extractable o1" and i: "i < length template"
    and fa: "find_oattr fd (attr_type (template ! i)) = Some fa" "oa_is fa Sensitive"
  shows "(template' ! i = template ! i \<or>
      template' ! i = set_len CK_UNAVAILABLE_INFORMATION (template ! i)) \<and> \<not> is_ok r"
proof -
  note read = read_attr_sensitive[OF fa, of o1]
  have "r = Ok () \<longrightarrow> first_err CKR_OK CKR_ATTRIBUTE_SENSITIVE = CKR_OK"
    using get_object_attributes_nth(2)[OF run i] read sens by auto
  then have "\<not> is_ok r" by (auto simp: is_ok_iff first_err_def)
  then show ?thesis using get_object_attributes_nth(2)[OF run i] read sens by auto
qed

text \<open>
  Reading attributes writes within the memory the application declared: every entry keeps
  its type, its memory is changed only inside the first \<^verbatim>\<open>ulValueLen\<close> bytes (for an array of
  attributes only inside the structs that fit, each inner buffer again within its own declared
  length), and no pointer changes.
\<close>

theorem get_object_attributes_within_buffers:
  assumes run: "fd_get_object_attributes fd o1 template = (r, template')"
    and "fits o1" and i: "i < length template"
  shows "length template' = length template \<and> writes_within (template ! i) (template' ! i)"
  using get_object_attributes_nth[OF run i] read_attr_within[OF _ \<open>fits o1\<close>]
  by (auto simp: bytes_within_writes)

text \<open>
  A successful read is complete and exact: every entry of the template names an attribute the
  object has; for a plain (not nested) attribute the entry ends with its exact length and, when
  a buffer was given, the buffer was long enough and holds exactly the stored value.
\<close>

theorem get_object_attributes_complete:
  assumes run: "fd_get_object_attributes fd o1 template = (Ok (), template')"
    and fit: "fits o1" and i: "i < length template"
  shows "\<exists>oa. get_attr (attr_type (template ! i)) o1 = Some oa \<and>
    (attrtype oa \<noteq> TemplateType \<longrightarrow>
      attr_len (template' ! i) = length (val oa) \<and>
      (\<not> is_null (pValue (template ! i)) \<longrightarrow>
        length (val oa) \<le> attr_len (template ! i) \<and>
        mem_bytes (pValue (template' ! i)) (length (val oa)) = val oa))"
proof -
  let ?a = "template ! i"
  let ?a' = "template' ! i"
  have read: "read_attr fd o1 (is_sensitive o1 \<or> \<not> is_extractable o1) CKR_OK ?a = Ok (?a', CKR_OK)"
    using get_object_attributes_nth(2)[OF run i] by auto
  then obtain oa where oa: "get_attr (attr_type ?a) o1 = Some oa"
    by (auto simp: read_attr_def first_err_OK split: option.splits if_splits)
  have len: "length (val oa) < usize_range"
    using fit get_attr_Some_in[OF oa] by (auto simp: fits_def)
  have fill: "fill_value (val oa) ?a CKR_OK = (?a', CKR_OK)" if "attrtype oa \<noteq> TemplateType"
    using read oa that by (auto simp: read_attr_def first_err_OK split: option.splits if_splits)
  show ?thesis
    using oa fill_value_cases[OF fill len] len
    by (auto simp: first_err_OK unat_of_nat)
qed

lemmas key_data_eval = generic_secret_data_def common_secret_key_attrs_def common_key_attrs_def
  data_eval

lemma generic_secret_VALUE:
  "find_oattr generic_secret_data CKA_VALUE =
    Some (attr_element (Sensitive OR RequiredOnCreate OR SettableOnlyOnCreate) (from_bytes CKA_VALUE []))"
  by (simp add: key_data_eval)

text \<open>A generic secret key with the given \<^verbatim>\<open>CKA_SENSITIVE\<close>, and a query for its value.\<close>

definition sample_key :: "bool \<Rightarrow> object" where
  "sample_key sensitive =
    (new_object CKO_SECRET_KEY)
      \<lparr>o_attributes := [from_ulong CKA_CLASS CKO_SECRET_KEY, from_ulong CKA_KEY_TYPE CKK_GENERIC_SECRET,
         from_bool CKA_SENSITIVE sensitive, from_bool CKA_EXTRACTABLE True,
         from_bytes CKA_VALUE [0xAA, 0xBB]]\<rparr>"

lemma fits_sample_key: "fits (sample_key s)"
  by (simp add: fits_def sample_key_def attribute_ctors le64.length_enc)

lemma sample_key_read:
  "fd_get_object_attributes generic_secret_data (sample_key s)
      [CkAttribute CKA_VALUE (Ptr [1, 2, 3] [] True) 3] =
    (if s then (Err CKR_ATTRIBUTE_SENSITIVE,
                [CkAttribute CKA_VALUE (Ptr [1, 2, 3] [] True) CK_UNAVAILABLE_INFORMATION])
     else (Ok (), [CkAttribute CKA_VALUE (Ptr [0xAA, 0xBB, 3] [] True) 2]))"
  by (simp add: fd_get_object_attributes_def read_attr_def generic_secret_VALUE flag_eval
      sample_key_def is_sensitive_def is_extractable_def is_secret_class_def new_object_def
      bool_checker_def get_attr_def first_err_def fill_value_def from_bytes_def)

theorem get_object_attributes_hides_sensitive_witness:
  "\<exists>r template'.
    fd_get_object_attributes generic_secret_data (sample_key True)
      [CkAttribute CKA_VALUE (Ptr [1, 2, 3] [] True) 3] = (r, template') \<and>
    pValue (template' ! 0) = Ptr [1, 2, 3] [] True \<and> \<not> is_ok r"
  using get_object_attributes_hides_sensitive[OF sample_key_read[of True, simplified], of 0]
    sample_key_read[of True]
  by (simp add: generic_secret_VALUE flag_eval sample_key_def is_sensitive_def is_secret_class_def
      new_object_def bool_checker_def get_attr_def)

theorem get_object_attributes_within_buffers_witness:
  "writes_within (CkAttribute CKA_VALUE (Ptr [1, 2, 3] [] True) 3)
    (CkAttribute CKA_VALUE (Ptr [0xAA, 0xBB, 3] [] True) 2)"
  using get_object_attributes_within_buffers
    [OF sample_key_read[of False, simplified] fits_sample_key, of 0]
  by simp

theorem get_object_attributes_complete_witness:
  "\<exists>oa. get_attr CKA_VALUE (sample_key False) = Some oa \<and> length (val oa) = 2 \<and>
    mem_bytes (Ptr [0xAA, 0xBB, 3] [] True) 2 = val oa"
  using get_object_attributes_complete
    [OF sample_key_read[of False, simplified] fits_sample_key, of 0]
  by (auto simp: sample_key_def get_attr_def new_object_def from_bytes_def)

section \<open>The class of an object\<close>

text \<open>
  The element for \<^verbatim>\<open>CKA_CLASS\<close> carries \<^verbatim>\<open>RequiredOnCreate\<close> only, so nothing stops a modification
  of it; \<^verbatim>\<open>is_sensitive\<close> and the choice of the factory both follow the new class.
\<close>

definition core_factories :: factories where
  "core_factories =
    [(CKO_DATA, 0) \<mapsto> data_factory,
     (CKO_SECRET_KEY, CKK_GENERIC_SECRET) \<mapsto> generic_secret_factory 0,
     (CKO_MECHANISM, 0) \<mapsto> mechanism_factory]"

definition unextractable_key :: "bytes \<Rightarrow> object" where
  "unextractable_key secret =
    (new_object CKO_SECRET_KEY)
      \<lparr>o_attributes := [from_ulong CKA_CLASS CKO_SECRET_KEY, from_ulong CKA_KEY_TYPE CKK_GENERIC_SECRET,
         from_bool CKA_SENSITIVE True, from_bool CKA_EXTRACTABLE False,
         from_bytes CKA_VALUE secret]\<rparr>"

lemma search_by_id_CLASS:
  "search_by_id CKA_CLASS = Some (attrmap_element CKA_CLASS ''CKA_CLASS'' NumType)"
  by (simp add: search_by_id_find ATTRMAP_def)

lemma from_ck_attr_CLASS:
  "from_ck_attr (ck_attr_of CKA_CLASS (u64_to_le c)) = Ok (from_ulong CKA_CLASS c)"
  by (subst from_ck_attr.simps) (simp add: search_by_id_CLASS)

lemma find_oattr_CLASS: "find_oattr generic_secret_data CKA_CLASS =
    Some (attr_element RequiredOnCreate (from_ulong CKA_CLASS 0))"
  by (simp add: key_data_eval)

lemma set_class_unextractable_key:
  "set_object_attributes generic_secret_data (unextractable_key secret)
      [ck_attr_of CKA_CLASS (u64_to_le CKO_DATA)] =
    (Ok (), (unextractable_key secret)
      \<lparr>o_class := CKO_DATA,
       o_attributes := from_ulong CKA_CLASS CKO_DATA # tl (o_attributes (unextractable_key secret))\<rparr>)"
  by (simp add: set_object_attributes_def unextractable_key_def is_modifiable_def bool_checker_def
      get_attr_def check_set_attributes_def check_set_attribute_def find_oattr_CLASS flag_eval
      set_from_ck_def from_ck_attr_CLASS set_attr_def new_object_def)

lemma data_factory_VALUE:
  "find_oattr data_factory_data CKA_VALUE = Some (attr_element Defval (from_bytes CKA_VALUE []))"
  by (simp add: data_eval)

lemma unavailable_neq_len: "length v < 2 ^ 63 \<Longrightarrow> (of_nat (length v) :: ck_ulong) \<noteq> CK_UNAVAILABLE_INFORMATION"
proof
  assume len: "length v < 2 ^ 63" and "(of_nat (length v) :: ck_ulong) = CK_UNAVAILABLE_INFORMATION"
  then have "unat (of_nat (length v) :: ck_ulong) = 2 ^ 64 - 1" by simp
  then show False using len by (simp add: unat_of_nat)
qed

definition value_query :: "nat \<Rightarrow> ck_attrs" where
  "value_query n = [CkAttribute CKA_VALUE (Ptr (replicate n 0) [] True) (of_nat n)]"

lemma read_as_data:
  assumes "length secret < 2 ^ 63"
  shows "get_object_attributes core_factories
      ((unextractable_key secret)
        \<lparr>o_class := CKO_DATA,
         o_attributes := from_ulong CKA_CLASS CKO_DATA # tl (o_attributes (unextractable_key secret))\<rparr>)
      (value_query (length secret)) = (Ok (), [ck_attr_of CKA_VALUE secret])"
  using unavailable_neq_len[OF assms]
  by (simp add: get_object_attributes_def get_object_factory_def attr_as_defs get_attr_def
      unextractable_key_def new_object_def get_factory_def core_factories_def data_factory_def
      default_factory_def fd_get_object_attributes_def read_attr_def data_factory_VALUE flag_eval
      is_sensitive_def is_extractable_def is_secret_class_def fill_value_def from_bytes_def
      value_query_def ck_attr_of_def from_ulong_def[THEN arg_cong[where f = attrtype]])

lemma read_as_secret:
  "fst (get_object_attributes core_factories (unextractable_key secret) (value_query n)) =
    Err CKR_ATTRIBUTE_SENSITIVE"
  by (simp add: get_object_attributes_def get_object_factory_def attr_as_defs get_attr_def
      unextractable_key_def new_object_def get_factory_def core_factories_def
      generic_secret_factory_def default_factory_def fd_get_object_attributes_def read_attr_def
      generic_secret_VALUE flag_eval is_sensitive_def is_secret_class_def bool_checker_def
      value_query_def first_err_def from_ulong_def[THEN arg_cong[where f = attrtype]])

text \<open>
  The value of a sensitive and not extractable secret key is refused to a read, but the
  application can set \<^verbatim>\<open>CKA_CLASS\<close> of the key to \<^verbatim>\<open>CKO_DATA\<close> (the modification is accepted), and the
  same read then returns the whole secret.
\<close>

theorem class_change_discloses_value:
  assumes "length secret < 2 ^ 63"
  shows "fst (get_object_attributes core_factories (unextractable_key secret)
        (value_query (length secret))) = Err CKR_ATTRIBUTE_SENSITIVE \<and>
    (case set_object_attributes generic_secret_data (unextractable_key secret)
        [ck_attr_of CKA_CLASS (u64_to_le CKO_DATA)] of (r, key') \<Rightarrow>
      r = Ok () \<and>
      get_object_attributes core_factories key' (value_query (length secret)) =
        (Ok (), [ck_attr_of CKA_VALUE secret]))"
  by (simp only: read_as_secret set_class_unextractable_key read_as_data[OF assms] prod.case simp_thms)

theorem class_change_discloses_value_witness:
  "\<exists>key'. set_object_attributes generic_secret_data (unextractable_key [0xDE, 0xAD])
      [ck_attr_of CKA_CLASS (u64_to_le CKO_DATA)] = (Ok (), key') \<and>
    get_object_attributes core_factories key' (value_query (Suc (Suc 0))) =
      (Ok (), [ck_attr_of CKA_VALUE [0xDE, 0xAD]])"
  using class_change_discloses_value[of "[0xDE, 0xAD]"]
  by (auto split: prod.splits)

section \<open>Copy\<close>

lemma blind_copy_attr:
  assumes "blind_copy uuid origin = Ok o1"
  shows "t \<noteq> CKA_CLASS \<Longrightarrow> t \<noteq> CKA_UNIQUE_ID \<Longrightarrow> get_attr t o1 = get_attr t origin"
    and "get_attr CKA_UNIQUE_ID o1 = Some (from_string CKA_UNIQUE_ID uuid)"
    and "o_class o1 = o_class origin"
proof -
  have o1: "o_attributes o1 = from_ulong CKA_CLASS (o_class origin) # from_string CKA_UNIQUE_ID uuid #
      filter (\<lambda>a. ck_type a \<noteq> CKA_UNIQUE_ID) (o_attributes origin)" "o_class o1 = o_class origin"
    using assms by (auto simp: blind_copy_def Let_def generate_unique_def new_object_def push_attribute_def)
  then show "t \<noteq> CKA_CLASS \<Longrightarrow> t \<noteq> CKA_UNIQUE_ID \<Longrightarrow> get_attr t o1 = get_attr t origin"
    and "get_attr CKA_UNIQUE_ID o1 = Some (from_string CKA_UNIQUE_ID uuid)"
    and "o_class o1 = o_class origin"
    by (auto simp: get_attr_def find_filter_other)
qed

lemma copy_check_all:
  "try_fold (copy_check fd origin) () template = Ok () \<longleftrightarrow>
    (\<forall>a \<in> set template. copy_check fd origin () a = Ok ())"
  using try_fold_check_all[of "copy_check fd origin ()" template] by (simp cong: try_fold_cong)

lemma copy_check_Unchangeable:
  assumes "copy_check fd origin () a = Ok ()"
  shows "\<exists>fa. find_oattr fd (attr_type a) = Some fa \<and> (oa_is fa Unchangeable \<longrightarrow> oa_is fa ChangeOnCopy)"
  using assms by (auto simp: copy_check_def and_then_eq_Ok split: option.splits if_splits)

lemma default_copyE:
  assumes "default_copy fd uuid origin template = Ok o2"
  obtains o0 o1 o1' where
    "\<And>a. a \<in> set template \<Longrightarrow> copy_check fd origin () a = Ok ()"
    "blind_copy uuid origin = Ok o0" "try_fold set_from_ck o0 template = Ok o1"
    "copy_never_extractable origin o1 = Ok o1'" "copy_always_sensitive origin o1' = Ok o2"
  using assms unfolding default_copy_def and_then_eq_Ok copy_check_all[symmetric]
  by (metis (full_types) copy_check_all old.unit.exhaust)

lemma copy_never_extractable_attr:
  assumes "copy_never_extractable origin o1 = Ok o2"
  shows "t \<noteq> CKA_NEVER_EXTRACTABLE \<Longrightarrow> get_attr t o2 = get_attr t o1"
    and "get_attr_as_bool CKA_EXTRACTABLE o2 = Ok e \<Longrightarrow>
      \<exists>ne. get_attr_as_bool CKA_NEVER_EXTRACTABLE o2 = Ok ne \<and> (ne \<longrightarrow> \<not> e)"
proof -
  show other: "t \<noteq> CKA_NEVER_EXTRACTABLE \<Longrightarrow> get_attr t o2 = get_attr t o1" for t
    using assms by (auto simp: copy_never_extractable_def Let_def get_attr_set split: sum.splits)
  assume "get_attr_as_bool CKA_EXTRACTABLE o2 = Ok e"
  then have "get_attr_as_bool CKA_EXTRACTABLE o1 = Ok e"
    using get_attr_as_cong(1)[OF other[of CKA_EXTRACTABLE]] by simp
  then obtain v where "set_attr (from_bool CKA_NEVER_EXTRACTABLE v) o1 = Ok o2" "v \<longrightarrow> \<not> e"
    using assms by (auto simp: copy_never_extractable_def Let_def split: sum.splits)
  then show "\<exists>ne. get_attr_as_bool CKA_NEVER_EXTRACTABLE o2 = Ok ne \<and> (ne \<longrightarrow> \<not> e)"
    by (simp add: attr_as_defs get_attr_set) (simp add: from_bool_def to_bool_def)
qed

text \<open>The history bit a copy inherits for \<^verbatim>\<open>CKA_ALWAYS_SENSITIVE\<close>.\<close>

definition was_sensitive :: "object \<Rightarrow> bool" where
  "was_sensitive origin =
    (case get_attr_as_bool CKA_ALWAYS_SENSITIVE origin of
       Inr b \<Rightarrow> b
     | Inl _ \<Rightarrow> get_attr_as_bool CKA_SENSITIVE origin = Ok True)"

lemma copy_always_sensitive_attr:
  assumes "copy_always_sensitive origin o1 = Ok o2"
  shows "t \<noteq> CKA_ALWAYS_SENSITIVE \<Longrightarrow> get_attr t o2 = get_attr t o1"
    and "get_attr_as_bool CKA_SENSITIVE o2 = Ok s \<Longrightarrow>
      get_attr_as_bool CKA_ALWAYS_SENSITIVE o2 = Ok (s \<and> was_sensitive origin)"
proof -
  show other: "t \<noteq> CKA_ALWAYS_SENSITIVE \<Longrightarrow> get_attr t o2 = get_attr t o1" for t
    using assms by (auto simp: copy_always_sensitive_def Let_def get_attr_set split: sum.splits)
  assume "get_attr_as_bool CKA_SENSITIVE o2 = Ok s"
  then have "get_attr_as_bool CKA_SENSITIVE o1 = Ok s"
    using get_attr_as_cong(1)[OF other[of CKA_SENSITIVE]] by simp
  then have "set_attr (from_bool CKA_ALWAYS_SENSITIVE (s \<and> was_sensitive origin)) o1 = Ok o2"
    using assms
    by (auto simp: copy_always_sensitive_def was_sensitive_def Let_def split: sum.splits)
  then show "get_attr_as_bool CKA_ALWAYS_SENSITIVE o2 = Ok (s \<and> was_sensitive origin)"
    by (simp add: attr_as_defs get_attr_set) (simp add: from_bool_def to_bool_def)
qed

text \<open>
  A copy (\<^verbatim>\<open>default_copy\<close>) has every attribute of the original, except that the template may
  replace attributes the factory lists and, when they are \<^verbatim>\<open>Unchangeable\<close>, allows to change on
  copy; it has a fresh \<^verbatim>\<open>CKA_UNIQUE_ID\<close> unless the template replaces that too; its
  \<^verbatim>\<open>CKA_ALWAYS_SENSITIVE\<close> is true only if the copy is sensitive and the original always was,
  and its \<^verbatim>\<open>CKA_NEVER_EXTRACTABLE\<close> only if the copy is not extractable.
\<close>

theorem default_copy_preserves:
  assumes ok: "default_copy fd uuid origin template = Ok o2"
  shows "(\<forall>t. t \<noteq> CKA_CLASS \<and> t \<noteq> CKA_NEVER_EXTRACTABLE \<and> t \<noteq> CKA_ALWAYS_SENSITIVE \<longrightarrow>
      get_attr t o2 = (if t = CKA_UNIQUE_ID then Some (from_string CKA_UNIQUE_ID uuid)
        else get_attr t origin) \<or>
      (\<exists>a \<in> set template. attr_type a = t \<and>
        (\<exists>x. from_ck_attr a = Ok x \<and> get_attr t o2 = Some x) \<and>
        (\<exists>fa. find_oattr fd t = Some fa \<and> (oa_is fa Unchangeable \<longrightarrow> oa_is fa ChangeOnCopy)))) \<and>
    (\<forall>s. get_attr_as_bool CKA_SENSITIVE o2 = Ok s \<longrightarrow>
      get_attr_as_bool CKA_ALWAYS_SENSITIVE o2 = Ok (s \<and> was_sensitive origin)) \<and>
    (\<forall>e. get_attr_as_bool CKA_EXTRACTABLE o2 = Ok e \<longrightarrow>
      (\<exists>ne. get_attr_as_bool CKA_NEVER_EXTRACTABLE o2 = Ok ne \<and> (ne \<longrightarrow> \<not> e)))"
  using ok
proof (cases rule: default_copyE)
  case (1 o0 o1 o1')
  have same: "get_attr t o2 = get_attr t o1"
    if "t \<noteq> CKA_NEVER_EXTRACTABLE" "t \<noteq> CKA_ALWAYS_SENSITIVE" for t
    using copy_never_extractable_attr(1)[OF 1(4) that(1)] copy_always_sensitive_attr(1)[OF 1(5) that(2)]
    by simp
  have attr: "get_attr t o2 = (if t = CKA_UNIQUE_ID then Some (from_string CKA_UNIQUE_ID uuid)
        else get_attr t origin) \<or>
      (\<exists>a \<in> set template. attr_type a = t \<and>
        (\<exists>x. from_ck_attr a = Ok x \<and> get_attr t o2 = Some x) \<and>
        (\<exists>fa. find_oattr fd t = Some fa \<and> (oa_is fa Unchangeable \<longrightarrow> oa_is fa ChangeOnCopy)))"
    if "t \<noteq> CKA_CLASS \<and> t \<noteq> CKA_NEVER_EXTRACTABLE \<and> t \<noteq> CKA_ALWAYS_SENSITIVE" for t
  proof -
    consider "get_attr t o1 = get_attr t o0"
      | a x where "a \<in> set template" "attr_type a = t" "from_ck_attr a = Ok x" "get_attr t o1 = Some x"
      using try_fold_set_from_ck_origin[OF 1(3), of t] by blast
    then show ?thesis
    proof cases
      case 1
      then show ?thesis using same[of t] that blind_copy_attr(1,2)[OF \<open>blind_copy uuid origin = Ok o0\<close>]
        by simp
    next
      case (2 a x)
      then show ?thesis
        using same[of t] that copy_check_Unchangeable[OF \<open>\<And>a. a \<in> set template \<Longrightarrow> _\<close>[OF 2(1)]] by auto
    qed
  qed
  have ne: "\<exists>ne. get_attr_as_bool CKA_NEVER_EXTRACTABLE o2 = Ok ne \<and> (ne \<longrightarrow> \<not> e)"
    if "get_attr_as_bool CKA_EXTRACTABLE o2 = Ok e" for e
  proof -
    have "get_attr_as_bool t o2 = get_attr_as_bool t o1'" if "t \<noteq> CKA_ALWAYS_SENSITIVE" for t
      using get_attr_as_cong(1)[OF copy_always_sensitive_attr(1)[OF 1(5) that]] .
    then show ?thesis using copy_never_extractable_attr(2)[OF 1(4), of e] that by simp
  qed
  show ?thesis using attr ne copy_always_sensitive_attr(2)[OF 1(5)] by blast
qed

lemma search_by_id_flags:
  "search_by_id CKA_TOKEN = Some (attrmap_element CKA_TOKEN ''CKA_TOKEN'' BoolType)"
  "search_by_id CKA_TRUSTED = Some (attrmap_element CKA_TRUSTED ''CKA_TRUSTED'' BoolType)"
  by (simp_all add: search_by_id_find ATTRMAP_def)

lemma from_ck_attr_flags:
  "from_ck_attr (ck_attr_of CKA_TOKEN [b]) = Ok (from_bool CKA_TOKEN (b \<noteq> 0))"
  "from_ck_attr (ck_attr_of CKA_TRUSTED [b]) = Ok (from_bool CKA_TRUSTED (b \<noteq> 0))"
  by (subst from_ck_attr.simps, simp add: search_by_id_flags ck_to_bool_def)+

lemma find_oattr_flags:
  "find_oattr generic_secret_data CKA_TOKEN = Some (attr_element (Defval OR ChangeOnCopy) (from_bool CKA_TOKEN False))"
  "find_oattr generic_secret_data CKA_TRUSTED = Some (attr_element (NeverSettable OR Defval) (from_bool CKA_TRUSTED False))"
  by (simp_all add: key_data_eval)

lemma sample_data_create:
  "is_ok (internal_object_create data_factory_data [ck_attr_of CKA_COPYABLE [0]] NeverSettable RequiredOnCreate)"
  by (simp add: internal_object_create_def create_step_def default_step_def data_eval flag_eval
      get_attr_def new_object_def from_ck_attr_COPYABLE push_attribute_def)

theorem internal_object_create_sound_witness:
  "\<exists>o1. internal_object_create data_factory_data [ck_attr_of CKA_COPYABLE [0]]
      NeverSettable RequiredOnCreate = Ok o1 \<and> wf_object o1 \<and> o_class o1 = CKO_DATA \<and>
    get_attr CKA_COPYABLE o1 = Some (from_bool CKA_COPYABLE False)"
proof -
  obtain o1 where o1: "internal_object_create data_factory_data [ck_attr_of CKA_COPYABLE [0]]
      NeverSettable RequiredOnCreate = Ok o1"
    using sample_data_create by (auto simp: is_ok_iff)
  show ?thesis
    using internal_object_create_sound[OF o1] o1
    by (auto simp: from_ck_attr_COPYABLE data_eval flag_eval)
qed

lemma sample_key_copy:
  assumes "t = CKA_TOKEN \<or> t = CKA_TRUSTED"
  shows "\<exists>o2. default_copy generic_secret_data uuid (sample_key True) [ck_attr_of t [1]] = Ok o2 \<and>
    get_attr_as_bool t o2 = Ok True \<and> get_attr_as_bool CKA_SENSITIVE o2 = Ok True"
  using assms
  by (auto simp: default_copy_def copy_check_def find_oattr_flags flag_eval blind_copy_def Let_def
      generate_unique_def push_attribute_def new_object_def sample_key_def set_from_ck_def
      from_ck_attr_flags set_attr_def copy_never_extractable_def copy_always_sensitive_def
      attr_as_defs get_attr_def attribute_ctors to_bool_def)

theorem default_copy_preserves_witness:
  "\<exists>o2. default_copy generic_secret_data [0x75] (sample_key True) [ck_attr_of CKA_TOKEN [1]] = Ok o2 \<and>
    get_attr CKA_VALUE o2 = get_attr CKA_VALUE (sample_key True) \<and>
    get_attr_as_bool CKA_ALWAYS_SENSITIVE o2 = Ok True"
proof -
  obtain o2 where o2: "default_copy generic_secret_data [0x75] (sample_key True) [ck_attr_of CKA_TOKEN [1]] = Ok o2"
      "get_attr_as_bool CKA_SENSITIVE o2 = Ok True"
    using sample_key_copy by blast
  note c = default_copy_preserves[OF o2(1)]
  have "was_sensitive (sample_key True)"
    by (simp add: was_sensitive_def sample_key_def attr_as_defs get_attr_def new_object_def
        from_bool_def to_bool_def from_ulong_def from_bytes_def)
  moreover have "get_attr CKA_VALUE o2 = get_attr CKA_VALUE (sample_key True)"
    using c[THEN conjunct1, rule_format, of CKA_VALUE] by simp
  ultimately show ?thesis
    using c[THEN conjunct2, THEN conjunct1, rule_format, OF o2(2)] o2(1) by simp
qed

text \<open>
  \<^verbatim>\<open>C_CopyObject\<close> does not honour \<^verbatim>\<open>NeverSettable\<close>: an application that may not set \<^verbatim>\<open>CKA_TRUSTED\<close>
  on an existing key (\<^verbatim>\<open>CKR_ACTION_PROHIBITED\<close>) nor create a key with it
  (\<^verbatim>\<open>CKR_ATTRIBUTE_TYPE_INVALID\<close>) obtains a trusted key by copying.
\<close>

theorem copy_sets_trusted:
  "check_set_attributes generic_secret_data [ck_attr_of CKA_TRUSTED [1]] = Err CKR_ACTION_PROHIBITED \<and>
   default_object_create generic_secret_data uuid [ck_attr_of CKA_TRUSTED [1]] =
     Err CKR_ATTRIBUTE_TYPE_INVALID \<and>
   (\<exists>o2. default_copy generic_secret_data uuid (sample_key True) [ck_attr_of CKA_TRUSTED [1]] = Ok o2 \<and>
     get_attr_as_bool CKA_TRUSTED o2 = Ok True)"
proof -
  have "check_set_attributes generic_secret_data [ck_attr_of CKA_TRUSTED [1]] = Err CKR_ACTION_PROHIBITED"
    by (simp add: check_set_attributes_def check_set_attribute_def find_oattr_flags flag_eval)
  moreover have "default_object_create generic_secret_data uuid [ck_attr_of CKA_TRUSTED [1]] =
      Err CKR_ATTRIBUTE_TYPE_INVALID"
    by (simp add: default_object_create_def internal_object_create_def create_step_def
        find_oattr_flags flag_eval)
  ultimately show ?thesis using sample_key_copy[of CKA_TRUSTED uuid] by auto
qed

end
