(* ===== verification/Key_Laws.thy ===== *)
theory Key_Laws
  imports Factory_Laws
begin

text \<open>
  What the key factories guarantee (\<^verbatim>\<open>src/src/object/key.rs\<close>): the history bits
  \<^verbatim>\<open>CKA_LOCAL\<close>, \<^verbatim>\<open>CKA_ALWAYS_SENSITIVE\<close> and \<^verbatim>\<open>CKA_NEVER_EXTRACTABLE\<close> of imported, generated and
  derived keys, and the agreement of \<^verbatim>\<open>CKA_VALUE\<close> with \<^verbatim>\<open>CKA_VALUE_LEN\<close>.
\<close>

lemma get_bool_set:
  "set_attr (from_bool t b) o1 = Ok o2 \<Longrightarrow>
    get_attr_as_bool u o2 = (if u = t then Ok b else get_attr_as_bool u o1)"
  by (auto simp: attr_as_defs get_attr_set) (simp add: from_bool_def)

lemma get_bool_set_other:
  "set_attr a o1 = Ok o2 \<Longrightarrow> u \<noteq> ck_type a \<Longrightarrow> get_attr_as_bool u o2 = get_attr_as_bool u o1"
  by (simp add: attr_as_defs get_attr_set)

lemma get_bytes_set:
  "set_attr (from_bytes t v) o1 = Ok o2 \<Longrightarrow>
    get_attr_as_bytes u o2 = (if u = t then Ok v else get_attr_as_bytes u o1)"
  by (auto simp: attr_as_defs get_attr_set) (simp add: from_bytes_def)

lemma get_bytes_set_other:
  "set_attr a o1 = Ok o2 \<Longrightarrow> u \<noteq> ck_type a \<Longrightarrow> get_attr_as_bytes u o2 = get_attr_as_bytes u o1"
  by (simp add: attr_as_defs get_attr_set)

lemma get_ulong_set:
  "set_attr (from_ulong t v) o1 = Ok o2 \<Longrightarrow>
    get_attr_as_ulong u o2 = (if u = t then Ok v else get_attr_as_ulong u o1)"
  by (auto simp: attr_as_defs get_attr_set) (simp add: from_ulong_def)

lemma get_ulong_set_other:
  "set_attr a o1 = Ok o2 \<Longrightarrow> u \<noteq> ck_type a \<Longrightarrow> get_attr_as_ulong u o2 = get_attr_as_ulong u o1"
  by (simp add: attr_as_defs get_attr_set)

lemma set_attr_class: "set_attr a o1 = Ok o2 \<Longrightarrow> ck_type a \<noteq> CKA_CLASS \<Longrightarrow> o_class o2 = o_class o1"
  by (auto simp: set_attr_other_class)

lemmas set_laws = get_bool_set get_bool_set_other get_bytes_set get_bytes_set_other
  get_ulong_set get_ulong_set_other set_attr_class

lemma is_sensitive_set:
  "set_attr a o1 = Ok o2 \<Longrightarrow> ck_type a \<noteq> CKA_CLASS \<Longrightarrow> ck_type a \<noteq> CKA_SENSITIVE \<Longrightarrow>
    is_sensitive o2 = is_sensitive o1"
  using bool_checker_set[of a o1 o2 CKA_SENSITIVE] by (simp add: is_sensitive_def set_attr_class)

lemma is_extractable_set:
  "set_attr a o1 = Ok o2 \<Longrightarrow> ck_type a \<noteq> CKA_CLASS \<Longrightarrow> ck_type a \<noteq> CKA_EXTRACTABLE \<Longrightarrow>
    is_extractable o2 = is_extractable o1"
  using bool_checker_set[of a o1 o2 CKA_EXTRACTABLE] by (simp add: is_extractable_def set_attr_class)

lemma generate_unique_class [simp]: "o_class (generate_unique uuid o1) = o_class o1"
  by (simp add: generate_unique_def)

lemma internal_key_createE:
  assumes "internal_key_create fd uuid template un req = Ok o1"
  obtains o0 where "internal_object_create fd template un req = Ok o0" "o1 = generate_unique uuid o0"
    "wf_object o1" "o_class o1 = fd_class fd"
proof -
  obtain o0 where o0: "internal_object_create fd template un req = Ok o0" "o1 = generate_unique uuid o0"
    using assms by (auto simp: internal_key_create_def and_then_eq_Ok)
  obtain o' where "template_taken fd un template o'" "defaults_added o' (fd_attributes fd) req o0"
    using o0(1) by (rule internal_object_createE)
  then have "wf_object o0" "o_class o0 = fd_class fd"
    by (simp_all add: template_taken_def defaults_added_def)
  then show thesis using that o0 by (simp add: wf_generate_unique)
qed

section \<open>Imported keys\<close>

text \<open>
  A key that an application imports (\<^verbatim>\<open>key_create\<close>) is well formed and never claims a history
  it cannot have: it is not \<^verbatim>\<open>CKA_LOCAL\<close>, and a private, secret or OTP key is neither
  \<^verbatim>\<open>CKA_ALWAYS_SENSITIVE\<close> nor \<^verbatim>\<open>CKA_NEVER_EXTRACTABLE\<close>, whatever the template.
\<close>

theorem key_create_history:
  assumes ok: "key_create fd uuid template = Ok o1"
  shows "wf_object o1 \<and> o_class o1 = fd_class fd \<and>
    (fd_class fd = CKO_PUBLIC_KEY \<or> is_secret_class (fd_class fd) \<longrightarrow>
      get_attr_as_bool CKA_LOCAL o1 = Ok False) \<and>
    (is_secret_class (fd_class fd) \<longrightarrow>
      get_attr_as_bool CKA_ALWAYS_SENSITIVE o1 = Ok False \<and>
      get_attr_as_bool CKA_NEVER_EXTRACTABLE o1 = Ok False)"
proof -
  obtain o0 where o0: "internal_key_create fd uuid template NeverSettable RequiredOnCreate = Ok o0"
      "wf_object o0" "o_class o0 = fd_class fd"
    using ok by (auto simp: key_create_def and_then_eq_Ok elim: internal_key_createE)
  let ?c = "fd_class fd"
  note run = ok[unfolded key_create_def o0(1) and_then_Ok o0(3)]
  consider "\<not> (?c = CKO_PUBLIC_KEY \<or> is_secret_class ?c)"
    | "?c = CKO_PUBLIC_KEY" "\<not> is_secret_class ?c" | "is_secret_class ?c"
    by blast
  then show ?thesis
  proof cases
    case 1
    then show ?thesis using run o0(2,3) by simp
  next
    case 2
    then have s: "set_attr (from_bool CKA_LOCAL False) o0 = Ok o1"
      using run o0(3) by (auto simp: and_then_eq_Ok set_attr_class split: if_splits)
    then show ?thesis
      using 2 wf_set_attr[OF o0(2) s] o0(3) by (simp add: set_laws)
  next
    case 3
    then obtain k1 k2 where s: "set_attr (from_bool CKA_LOCAL False) o0 = Ok k1"
        "set_attr (from_bool CKA_ALWAYS_SENSITIVE False) k1 = Ok k2"
        "set_attr (from_bool CKA_NEVER_EXTRACTABLE False) k2 = Ok o1"
      using run o0(3) by (auto simp: and_then_eq_Ok set_attr_class split: if_splits)
    have "wf_object k1" using wf_set_attr[OF o0(2) s(1)] by simp
    then have "wf_object k2" using wf_set_attr[OF _ s(2)] by simp
    then have "wf_object o1" using wf_set_attr[OF _ s(3)] by simp
    then show ?thesis using s o0(3) by (simp add: set_laws)
  qed
qed

section \<open>Derived keys\<close>

lemma derive_history:
  assumes "derive_always_sensitive origin o1 = Ok o2" and "derive_never_extractable origin o2 = Ok o3"
  shows "get_attr_as_bool CKA_ALWAYS_SENSITIVE o3 =
      Ok (get_attr_as_bool CKA_ALWAYS_SENSITIVE origin = Ok True \<and> is_sensitive o3)"
    and "get_attr_as_bool CKA_NEVER_EXTRACTABLE o3 =
      Ok (get_attr_as_bool CKA_NEVER_EXTRACTABLE origin = Ok True \<and> \<not> is_extractable o3)"
    and "get_attr_as_bool CKA_LOCAL o3 = get_attr_as_bool CKA_LOCAL o1"
    and "o_class o3 = o_class o1"
proof -
  define as where "as = (get_attr_as_bool CKA_ALWAYS_SENSITIVE origin = Ok True \<and> is_sensitive o1)"
  define ne where "ne = (get_attr_as_bool CKA_NEVER_EXTRACTABLE origin = Ok True \<and> \<not> is_extractable o2)"
  have s1: "set_attr (from_bool CKA_ALWAYS_SENSITIVE as) o1 = Ok o2"
    using assms(1) by (auto simp: derive_always_sensitive_def as_def split: sum.splits if_splits)
  have s2: "set_attr (from_bool CKA_NEVER_EXTRACTABLE ne) o2 = Ok o3"
    using assms(2) by (auto simp: derive_never_extractable_def ne_def split: sum.splits if_splits)
  have same: "is_sensitive o3 = is_sensitive o1" "is_extractable o3 = is_extractable o2"
    using is_sensitive_set[OF s1] is_sensitive_set[OF s2] is_extractable_set[OF s2] by simp_all
  show "get_attr_as_bool CKA_ALWAYS_SENSITIVE o3 =
      Ok (get_attr_as_bool CKA_ALWAYS_SENSITIVE origin = Ok True \<and> is_sensitive o3)"
    and "get_attr_as_bool CKA_NEVER_EXTRACTABLE o3 =
      Ok (get_attr_as_bool CKA_NEVER_EXTRACTABLE origin = Ok True \<and> \<not> is_extractable o3)"
    and "get_attr_as_bool CKA_LOCAL o3 = get_attr_as_bool CKA_LOCAL o1"
    and "o_class o3 = o_class o1"
    unfolding same using as_def ne_def s1 s2 by (simp_all add: set_laws)
qed

text \<open>
  A derived key (\<^verbatim>\<open>internal_key_derive\<close>) inherits the history of its base key: it is never
  \<^verbatim>\<open>CKA_LOCAL\<close>; it is \<^verbatim>\<open>CKA_ALWAYS_SENSITIVE\<close> exactly if the base key is and it is sensitive
  itself; it is \<^verbatim>\<open>CKA_NEVER_EXTRACTABLE\<close> exactly if the base key is and it is not extractable
  itself; and it was built from the request merged with the base key's \<^verbatim>\<open>CKA_DERIVE_TEMPLATE\<close>.
\<close>

theorem internal_key_derive_history:
  assumes ok: "internal_key_derive fd uuid template origin = Ok key"
  shows "o_class key = fd_class fd \<and>
    get_attr_as_bool CKA_LOCAL key = Ok False \<and>
    get_attr_as_bool CKA_ALWAYS_SENSITIVE key =
      Ok (get_attr_as_bool CKA_ALWAYS_SENSITIVE origin = Ok True \<and> is_sensitive key) \<and>
    get_attr_as_bool CKA_NEVER_EXTRACTABLE key =
      Ok (get_attr_as_bool CKA_NEVER_EXTRACTABLE origin = Ok True \<and> \<not> is_extractable key) \<and>
    (\<forall>dt. get_attr CKA_DERIVE_TEMPLATE origin = Some dt \<longrightarrow>
      (\<exists>merged. merge_template_attribute dt template = Ok merged \<and>
        is_ok (internal_key_create fd uuid merged (SettableOnlyOnCreate OR NeverSettable) AlwaysRequired)))"
proof -
  obtain tmpl o0 o1 o2 where steps:
      "(case get_attr CKA_DERIVE_TEMPLATE origin of
         Some dt \<Rightarrow> merge_template_attribute dt template | None \<Rightarrow> Ok template) = Ok tmpl"
      "internal_key_create fd uuid tmpl (SettableOnlyOnCreate OR NeverSettable) AlwaysRequired = Ok o0"
      "set_attr (from_bool CKA_LOCAL False) o0 = Ok o1" "derive_always_sensitive origin o1 = Ok o2"
      "derive_never_extractable origin o2 = Ok key"
    using ok by (auto simp: internal_key_derive_def and_then_eq_Ok)
  have "o_class o0 = fd_class fd" using steps(2) by (rule internal_key_createE)
  then show ?thesis
    using derive_history[OF steps(4,5)] steps(1-3) by (auto simp: set_laws split: option.splits)
qed

section \<open>Samples\<close>

lemma ctor_attrtype [simp]:
  "attrtype (from_bool t b) = BoolType" "attrtype (from_ulong t n) = NumType"
  "attrtype (from_bytes t v) = BytesType" "attrtype (from_string t v) = StringType"
  by (simp_all add: attribute_ctors)

lemma search_by_id_key:
  "search_by_id CKA_KEY_TYPE = Some (attrmap_element CKA_KEY_TYPE ''CKA_KEY_TYPE'' NumType)"
  "search_by_id CKA_VALUE = Some (attrmap_element CKA_VALUE ''CKA_VALUE'' BytesType)"
  "search_by_id CKA_VALUE_LEN = Some (attrmap_element CKA_VALUE_LEN ''CKA_VALUE_LEN'' NumType)"
  "search_by_id CKA_EXTRACTABLE = Some (attrmap_element CKA_EXTRACTABLE ''CKA_EXTRACTABLE'' BoolType)"
  by (simp_all add: search_by_id_find ATTRMAP_def)

lemma from_ck_attr_key:
  "from_ck_attr (ck_attr_of CKA_KEY_TYPE (u64_to_le n)) = Ok (from_ulong CKA_KEY_TYPE n)"
  "from_ck_attr (ck_attr_of CKA_VALUE_LEN (u64_to_le n)) = Ok (from_ulong CKA_VALUE_LEN n)"
  "from_ck_attr (ck_attr_of CKA_EXTRACTABLE [b]) = Ok (from_bool CKA_EXTRACTABLE (b \<noteq> 0))"
  "length v < usize_range \<Longrightarrow> from_ck_attr (ck_attr_of CKA_VALUE v) = Ok (from_bytes CKA_VALUE v)"
  by (subst from_ck_attr.simps, simp add: search_by_id_key ck_to_bool_def)+

lemma find_oattr_key:
  "find_oattr generic_secret_data CKA_KEY_TYPE =
    Some (attr_element RequiredOnCreate (from_ulong CKA_KEY_TYPE CK_UNAVAILABLE_INFORMATION))"
  "find_oattr generic_secret_data CKA_VALUE_LEN =
    Some (attr_element RequiredOnGenerate (from_ulong CKA_VALUE_LEN 0))"
  "find_oattr generic_secret_data CKA_EXTRACTABLE =
    Some (attr_element (ChangeToFalse OR Defval) (from_bool CKA_EXTRACTABLE False))"
  by (simp_all add: key_data_eval)

lemma fd_class_generic [simp]: "fd_class generic_secret_data = CKO_SECRET_KEY"
  by (simp add: generic_secret_data_def finalize_data_def new_factory_data_def)

text \<open>
  The second loop of the creation: it succeeds when every attribute that is required and has no
  default is there.
\<close>

lemma default_loop_ok:
  assumes "\<forall>fa \<in> set fas. has_default fa \<or> (\<not> oa_is fa req \<and> \<not> oa_is fa AlwaysRequired) \<or>
    get_attr (oa_type fa) o1 \<noteq> None"
  shows "is_ok (try_fold (default_step req) o1 fas)"
  using assms
proof (induction fas arbitrary: o1)
  case (Cons fa fas)
  have "\<exists>o2. default_step req o1 fa = Ok o2 \<and> (\<forall>t. get_attr t o1 \<noteq> None \<longrightarrow> get_attr t o2 \<noteq> None)"
    using Cons.prems
    by (auto simp: default_step_def get_attr_push split: option.splits)
  then obtain o2 where o2: "default_step req o1 fa = Ok o2"
      "\<And>t. get_attr t o1 \<noteq> None \<Longrightarrow> get_attr t o2 \<noteq> None" by blast
  have "\<forall>fa \<in> set fas. has_default fa \<or> (\<not> oa_is fa req \<and> \<not> oa_is fa AlwaysRequired) \<or>
      get_attr (oa_type fa) o2 \<noteq> None"
    using Cons.prems o2(2) by (meson list.set_intros(2))
  from Cons.IH[OF this] show ?case using o2(1) by simp
qed simp

lemma internal_object_create_ok:
  assumes "try_fold (create_step fd un) (new_object (fd_class fd)) template = Ok o1"
    and "\<forall>fa \<in> set (fd_attributes fd). has_default fa \<or>
      (\<not> oa_is fa req \<and> \<not> oa_is fa AlwaysRequired) \<or> get_attr (oa_type fa) o1 \<noteq> None"
  shows "is_ok (internal_object_create fd template un req)"
  using default_loop_ok[OF assms(2)] by (simp add: internal_object_create_def assms(1))

definition import_template :: ck_attrs where
  "import_template = [ck_attr_of CKA_KEY_TYPE (u64_to_le CKK_GENERIC_SECRET), ck_attr_of CKA_VALUE [0xAA, 0xBB]]"

definition generate_template :: ck_attrs where
  "generate_template =
    [ck_attr_of CKA_VALUE_LEN (u64_to_le 2), ck_attr_of CKA_KEY_TYPE (u64_to_le CKK_GENERIC_SECRET)]"

lemma import_template_ok:
  "is_ok (internal_object_create generic_secret_data import_template NeverSettable RequiredOnCreate)"
proof (rule internal_object_create_ok)
  show "try_fold (create_step generic_secret_data NeverSettable)
      (new_object (fd_class generic_secret_data)) import_template =
    Ok (push_attribute (from_bytes CKA_VALUE [0xAA, 0xBB])
      (push_attribute (from_ulong CKA_KEY_TYPE CKK_GENERIC_SECRET) (new_object CKO_SECRET_KEY)))"
    by (simp add: import_template_def create_step_def find_oattr_key generic_secret_VALUE flag_eval
        from_ck_attr_key get_attr_push get_attr_new_object)
qed (simp add: key_data_eval flag_eval get_attr_push get_attr_new_object)

lemma generate_template_taken:
  "try_fold (create_step generic_secret_data (SettableOnlyOnCreate OR NeverSettable))
      (new_object (fd_class generic_secret_data)) generate_template =
    Ok (push_attribute (from_ulong CKA_KEY_TYPE CKK_GENERIC_SECRET)
      (push_attribute (from_ulong CKA_VALUE_LEN 2) (new_object CKO_SECRET_KEY)))"
  by (simp add: generate_template_def create_step_def find_oattr_key flag_eval
      from_ck_attr_key get_attr_push get_attr_new_object)

lemma generate_template_ok:
  "is_ok (internal_object_create generic_secret_data generate_template
    (SettableOnlyOnCreate OR NeverSettable) RequiredOnGenerate)"
  by (rule internal_object_create_ok[OF generate_template_taken])
    (simp add: key_data_eval flag_eval get_attr_push get_attr_new_object)

lemma key_create_import_ok: "is_ok (key_create generic_secret_data uuid import_template)"
proof -
  obtain o0 where o0: "internal_key_create generic_secret_data uuid import_template NeverSettable RequiredOnCreate = Ok o0"
    using import_template_ok by (auto simp: is_ok_iff internal_key_create_def)
  then have "o_class o0 = CKO_SECRET_KEY"
    using internal_key_createE by fastforce
  then show ?thesis using o0 by (simp add: key_create_def is_secret_class_def set_attr_def)
qed

theorem key_create_history_witness:
  "\<exists>o1. key_create generic_secret_data [0x75] import_template = Ok o1 \<and> wf_object o1 \<and>
    get_attr_as_bool CKA_LOCAL o1 = Ok False \<and> get_attr_as_bool CKA_ALWAYS_SENSITIVE o1 = Ok False"
proof -
  obtain o1 where o1: "key_create generic_secret_data [0x75] import_template = Ok o1"
    using key_create_import_ok by (auto simp: is_ok_iff)
  then show ?thesis using key_create_history[OF o1] by (simp add: is_secret_class_def)
qed

lemma get_attr_unique_other: "t \<noteq> CKA_UNIQUE_ID \<Longrightarrow> get_attr t (generate_unique uuid o1) = get_attr t o1"
  by (auto simp: generate_unique_def get_attr_push split: option.splits)

lemma derive_sample_ok:
  "is_ok (internal_key_derive generic_secret_data uuid [ck_attr_of CKA_EXTRACTABLE [0]] (sample_key True))"
proof -
  have "is_ok (internal_object_create generic_secret_data [ck_attr_of CKA_EXTRACTABLE [0]]
      (SettableOnlyOnCreate OR NeverSettable) AlwaysRequired)"
  proof (rule internal_object_create_ok)
    show "try_fold (create_step generic_secret_data (SettableOnlyOnCreate OR NeverSettable))
        (new_object (fd_class generic_secret_data)) [ck_attr_of CKA_EXTRACTABLE [0]] =
      Ok (push_attribute (from_bool CKA_EXTRACTABLE False) (new_object CKO_SECRET_KEY))"
      by (simp add: create_step_def find_oattr_key flag_eval from_ck_attr_key get_attr_new_object)
  qed (simp add: key_data_eval flag_eval)
  moreover have "get_attr CKA_DERIVE_TEMPLATE (sample_key True) = None"
    by (simp add: sample_key_def get_attr_def)
  ultimately show ?thesis
    by (auto simp: internal_key_derive_def internal_key_create_def is_ok_iff set_attr_def
        derive_always_sensitive_def derive_never_extractable_def split: sum.splits)
qed

theorem internal_key_derive_history_witness:
  "\<exists>key. internal_key_derive generic_secret_data [0x75] [ck_attr_of CKA_EXTRACTABLE [0]] (sample_key True) =
      Ok key \<and> get_attr_as_bool CKA_LOCAL key = Ok False \<and>
    get_attr_as_bool CKA_NEVER_EXTRACTABLE key = Ok False"
proof -
  obtain key where key: "internal_key_derive generic_secret_data [0x75]
      [ck_attr_of CKA_EXTRACTABLE [0]] (sample_key True) = Ok key"
    using derive_sample_ok by (auto simp: is_ok_iff)
  have "get_attr_as_bool CKA_NEVER_EXTRACTABLE (sample_key True) \<noteq> Ok True"
    by (simp add: attr_as_defs sample_key_def get_attr_def)
  then show ?thesis using internal_key_derive_history[OF key] key by simp
qed

section \<open>Generated keys\<close>

lemma ensure_ulong_OkD:
  assumes "ensure_ulong t v o1 = Ok o2"
  shows "get_attr u o2 = (if u = t \<and> get_attr t o1 = None then Some (from_ulong t v) else get_attr u o1)"
    and "o_class o2 = o_class o1" and "\<exists>a. get_attr t o2 = Some a \<and> to_ulong a = Ok v"
  using assms
  by (auto simp: ensure_ulong_def and_then_eq_Ok get_attr_push split: option.splits if_splits)

lemma default_key_attributes_OkD:
  assumes "default_key_attributes mech k0 = Ok k1"
  shows "get_attr_as_bool CKA_LOCAL k1 = Ok True \<and> get_attr_as_ulong CKA_KEY_GEN_MECHANISM k1 = Ok mech \<and>
    get_attr_as_bool CKA_NEVER_EXTRACTABLE k1 =
      Ok (get_attr_as_bool CKA_EXTRACTABLE k1 = Ok False) \<and>
    get_attr_as_bool CKA_ALWAYS_SENSITIVE k1 = Ok (get_attr_as_bool CKA_SENSITIVE k1 = Ok True) \<and>
    get_attr_as_bytes CKA_VALUE k1 = get_attr_as_bytes CKA_VALUE k0 \<and>
    get_attr_as_ulong CKA_VALUE_LEN k1 = get_attr_as_ulong CKA_VALUE_LEN k0"
proof -
  obtain a b c where s: "set_attr (from_bool CKA_LOCAL True) k0 = Ok a"
      "set_attr (from_ulong CKA_KEY_GEN_MECHANISM mech) a = Ok b"
      "set_attr (from_bool CKA_NEVER_EXTRACTABLE
        (\<not> (case get_attr_as_bool CKA_EXTRACTABLE b of Inr e \<Rightarrow> e | Inl _ \<Rightarrow> True))) b = Ok c"
      "set_attr (from_bool CKA_ALWAYS_SENSITIVE
        (case get_attr_as_bool CKA_SENSITIVE c of Inr e \<Rightarrow> e | Inl _ \<Rightarrow> False)) c = Ok k1"
    using assms by (auto simp: default_key_attributes_def and_then_eq_Ok Let_def)
  show ?thesis
    using get_bool_set[OF s(1)] get_bool_set[OF s(3)] get_bool_set[OF s(4)]
      get_bool_set_other[OF s(2)] get_ulong_set[OF s(2)]
      get_ulong_set_other[OF s(1)] get_ulong_set_other[OF s(3)] get_ulong_set_other[OF s(4)]
      get_bytes_set_other[OF s(1)] get_bytes_set_other[OF s(2)] get_bytes_set_other[OF s(3)]
      get_bytes_set_other[OF s(4)]
    by (auto split: sum.splits)
qed

text \<open>
  A generated secret key (\<^verbatim>\<open>GenericSecretKeyMechanism::generate_key\<close>) has a value
  of exactly the length its \<^verbatim>\<open>CKA_VALUE_LEN\<close> states (given a generator that fills the buffer it
  is handed); it is local, records the mechanism, is never-extractable
  exactly if it is not extractable, and always-sensitive exactly if it is sensitive.
\<close>

theorem generated_secret_key:
  assumes ok: "generic_secret_generate_key rng uuid keytype mech template = Ok key"
    and rng: "\<And>n v. rng n = Ok v \<Longrightarrow> length v = n"
  shows "\<exists>n v. get_attr_as_ulong CKA_VALUE_LEN key = Ok n \<and>
    get_attr_as_bytes CKA_VALUE key = Ok v \<and> length v = unat n \<and>
    get_attr_as_bool CKA_LOCAL key = Ok True \<and>
    get_attr_as_ulong CKA_KEY_GEN_MECHANISM key = Ok mech \<and>
    get_attr_as_bool CKA_NEVER_EXTRACTABLE key =
      Ok (get_attr_as_bool CKA_EXTRACTABLE key = Ok False) \<and>
    get_attr_as_bool CKA_ALWAYS_SENSITIVE key = Ok (get_attr_as_bool CKA_SENSITIVE key = Ok True)"
proof -
  obtain k2 k3 where k: "default_secret_key_generate rng k2 = Ok k3"
      "default_key_attributes mech k3 = Ok key"
    using ok by (auto simp: generic_secret_generate_key_def and_then_eq_Ok)
  obtain n v where n: "get_attr_as_ulong CKA_VALUE_LEN k2 = Ok n" "rng (unat n) = Ok v"
      "set_attr (from_bytes CKA_VALUE v) k2 = Ok k3"
    using k(1) by (auto simp: default_secret_key_generate_def and_then_eq_Ok)
  show ?thesis
    using default_key_attributes_OkD[OF k(2)] n rng[OF n(2)] get_bytes_set[OF n(3)]
      get_ulong_set_other[OF n(3)] by auto
qed

definition zero_rng :: "nat \<Rightarrow> bytes result" where
  "zero_rng n = Ok (replicate n 0)"

lemma default_loop_keeps:
  assumes "try_fold (default_step req) o1 fas = Ok o2" and "get_attr t o1 = Some y"
  shows "get_attr t o2 = Some y"
  using assms
proof (induction fas arbitrary: o1)
  case (Cons fa fas)
  then obtain o' where o': "default_step req o1 fa = Ok o'" "try_fold (default_step req) o' fas = Ok o2"
    by (auto simp: and_then_eq_Ok)
  have "get_attr t o' = Some y"
    using o'(1) Cons.prems(2) by (cases rule: default_stepE) (auto simp: get_attr_push)
  then show ?case using Cons.IH o'(2) by blast
qed simp

lemma generate_sample_ok:
  "is_ok (generic_secret_generate_key zero_rng uuid CKK_GENERIC_SECRET CKM_GENERIC_SECRET_KEY_GEN generate_template)"
proof -
  obtain o0 where o0: "internal_object_create generic_secret_data generate_template
      (SettableOnlyOnCreate OR NeverSettable) RequiredOnGenerate = Ok o0"
    using generate_template_ok by (auto simp: is_ok_iff)
  let ?o = "push_attribute (from_ulong CKA_KEY_TYPE CKK_GENERIC_SECRET)
      (push_attribute (from_ulong CKA_VALUE_LEN 2) (new_object CKO_SECRET_KEY))"
  have loop: "try_fold (default_step RequiredOnGenerate) ?o (fd_attributes generic_secret_data) = Ok o0"
    using o0 generate_template_taken by (simp add: internal_object_create_def)
  have keep: "get_attr CKA_VALUE_LEN o0 = Some (from_ulong CKA_VALUE_LEN 2)"
    "get_attr CKA_CLASS o0 = Some (from_ulong CKA_CLASS CKO_SECRET_KEY)"
    "get_attr CKA_KEY_TYPE o0 = Some (from_ulong CKA_KEY_TYPE CKK_GENERIC_SECRET)"
    by (rule default_loop_keeps[OF loop]; simp add: get_attr_push get_attr_new_object)+
  then show ?thesis
    using o0
    by (simp add: generic_secret_generate_key_def key_generate_def internal_key_create_def
        ensure_ulong_def get_attr_handle get_attr_unique_other default_secret_key_generate_def
        attr_as_defs zero_rng_def set_attr_def default_key_attributes_def Let_def)
qed

theorem generated_secret_key_witness:
  "\<exists>key v. generic_secret_generate_key zero_rng [0x75] CKK_GENERIC_SECRET CKM_GENERIC_SECRET_KEY_GEN
      generate_template = Ok key \<and> get_attr_as_bytes CKA_VALUE key = Ok v \<and>
    get_attr_as_bool CKA_LOCAL key = Ok True"
proof -
  obtain key where key: "generic_secret_generate_key zero_rng [0x75] CKK_GENERIC_SECRET
      CKM_GENERIC_SECRET_KEY_GEN generate_template = Ok key"
    using generate_sample_ok by (auto simp: is_ok_iff)
  have "length v = n" if "zero_rng n = Ok v" for n v
    using that by (auto simp: zero_rng_def)
  from generated_secret_key[OF key this] key show ?thesis by auto
qed

text \<open>
  Key generation refuses nothing: the test for an attribute that is settable on creation only
  or never is a test for both flags at once, no element of the generic secret factory has both,
  and so \<^verbatim>\<open>key_generate\<close> accepts \<^verbatim>\<open>CKA_VALUE\<close>, \<^verbatim>\<open>CKA_TRUSTED\<close>, \<^verbatim>\<open>CKA_LOCAL\<close> and every other protected
  attribute exactly as if no flag were unacceptable.
\<close>

theorem key_generate_unguarded:
  "key_generate generic_secret_data uuid template =
    and_then (internal_key_create generic_secret_data uuid template 0 RequiredOnGenerate)
      (\<lambda>key. Ok (set_zeroize key))"
proof -
  have none: "\<not> oa_is fa (SettableOnlyOnCreate OR NeverSettable)"
    if "find_oattr generic_secret_data t = Some fa" for t fa
  proof -
    have "fa \<in> set (fd_attributes generic_secret_data)"
      using that by (auto simp: find_oattr_def dest: find_SomeD)
    moreover have "\<forall>fa \<in> set (fd_attributes generic_secret_data).
        \<not> oa_is fa (SettableOnlyOnCreate OR NeverSettable)"
      by (simp add: key_data_eval flag_eval)
    ultimately show ?thesis by blast
  qed
  have "create_step generic_secret_data (SettableOnlyOnCreate OR NeverSettable) =
      create_step generic_secret_data 0"
    by (intro ext) (auto simp: create_step_def oa_is_def[of _ 0] none split: option.splits)
  then show ?thesis
    by (simp add: key_generate_def internal_key_create_def internal_object_create_def)
qed

section \<open>Wrapping\<close>

lemma get_key_buffer_len_set:
  "set_attr (from_bytes CKA_VALUE v) o1 = Ok o2 \<Longrightarrow> get_key_buffer_len o2 = Ok (length v)"
  by (simp add: get_key_buffer_len_def get_bytes_set)

lemma ensure_ulong_bytes:
  assumes "ensure_ulong t v o1 = Ok o2" and "u \<noteq> t"
  shows "get_attr u o2 = get_attr u o1"
  using ensure_ulong_OkD(1)[OF assms(1)] assms(2) by simp

text \<open>
  Unwrapped key material round-trips (\<^verbatim>\<open>import_from_wrapped\<close>, \<^verbatim>\<open>export_for_wrapping\<close>): an
  imported secret key records the length of its value in \<^verbatim>\<open>CKA_VALUE_LEN\<close> (a template that
  states another length is refused), and exporting it gives back exactly the imported bytes when
  it is extractable and \<^verbatim>\<open>CKR_KEY_UNEXTRACTABLE\<close> when it is not.
\<close>

theorem import_export_roundtrip:
  assumes ok: "default_import_from_wrapped fd uuid data template = Ok key"
    and len: "length data < usize_range"
  shows "(\<exists>a. get_attr CKA_VALUE_LEN key = Some a \<and> to_ulong a = Ok (of_nat (length data))) \<and>
    default_export_for_wrapping key =
      (if is_extractable key then Ok data else Err CKR_KEY_UNEXTRACTABLE)"
proof -
  obtain o0 o1 where o: "set_attr (from_bytes CKA_VALUE data) o0 = Ok o1"
      "set_key_len (length data) o1 = Ok key"
    using ok by (auto simp: default_import_from_wrapped_def set_key_def and_then_eq_Ok)
  have e: "ensure_ulong CKA_VALUE_LEN (of_nat (length data)) o1 = Ok key"
    using o(2) get_key_buffer_len_set[OF o(1)] len
    by (simp add: set_key_len_def ulong_try_from_def)
  have "get_attr CKA_VALUE key = get_attr CKA_VALUE o1"
    by (rule ensure_ulong_bytes[OF e]) simp
  then have "get_attr_as_bytes CKA_VALUE key = Ok data"
    using get_attr_as_cong(3) get_bytes_set[OF o(1), of CKA_VALUE] by metis
  then show ?thesis
    using ensure_ulong_OkD(3)[OF e] by (simp add: default_export_for_wrapping_def)
qed

lemma import_sample_ok:
  "is_ok (default_import_from_wrapped generic_secret_data uuid [1, 2, 3] [ck_attr_of CKA_EXTRACTABLE [1]])"
proof -
  let ?o = "push_attribute (from_bool CKA_EXTRACTABLE True) (new_object CKO_SECRET_KEY)"
  have taken: "try_fold (create_step generic_secret_data (SettableOnlyOnCreate OR NeverSettable))
      (new_object (fd_class generic_secret_data)) [ck_attr_of CKA_EXTRACTABLE [1]] = Ok ?o"
    by (simp add: create_step_def find_oattr_key flag_eval from_ck_attr_key get_attr_new_object)
  have "is_ok (internal_object_create generic_secret_data [ck_attr_of CKA_EXTRACTABLE [1]]
      (SettableOnlyOnCreate OR NeverSettable) AlwaysRequired)"
    by (rule internal_object_create_ok[OF taken]) (simp add: key_data_eval flag_eval)
  then obtain o0 where o0: "internal_object_create generic_secret_data [ck_attr_of CKA_EXTRACTABLE [1]]
      (SettableOnlyOnCreate OR NeverSettable) AlwaysRequired = Ok o0"
    by (auto simp: is_ok_iff)
  have "get_attr CKA_VALUE_LEN o0 = None"
  proof (rule internal_object_createE[OF o0])
    fix o1 assume t: "template_taken generic_secret_data (SettableOnlyOnCreate OR NeverSettable)
        [ck_attr_of CKA_EXTRACTABLE [1]] o1"
      and d: "defaults_added o1 (fd_attributes generic_secret_data) AlwaysRequired o0"
    have "ck_type x \<noteq> CKA_VALUE_LEN" if "x \<in> set (o_attributes o0)" for x
    proof -
      have "x \<in> set (o_attributes o1) \<or>
          (\<exists>fa \<in> set (fd_attributes generic_secret_data). has_default fa \<and> x = oa_attribute fa)"
        using d that by (auto simp: defaults_added_def)
      moreover have "ck_type (oa_attribute fa) \<noteq> CKA_VALUE_LEN"
        if "fa \<in> set (fd_attributes generic_secret_data)" "has_default fa" for fa
        using that by (auto simp: key_data_eval flag_eval)
      ultimately show ?thesis using t by (auto simp: template_taken_def from_ck_attr_key)
    qed
    then show ?thesis by (auto simp: get_attr_None_iff)
  qed
  then have none: "get_attr CKA_VALUE_LEN (generate_unique uuid o0) = None"
    by (simp add: get_attr_unique_other)
  obtain o1 where o1: "set_attr (from_bytes CKA_VALUE [1, 2, 3]) (generate_unique uuid o0) = Ok o1"
    using set_attr_is_ok[of "from_bytes CKA_VALUE [1, 2, 3]"] by (auto simp: is_ok_iff)
  have "set_key_len (length [1, 2, 3 :: u8]) o1 =
      Ok (push_attribute (from_ulong CKA_VALUE_LEN 3) o1)"
    using get_key_buffer_len_set[OF o1] none get_attr_set[OF o1, of CKA_VALUE_LEN]
    by (simp add: set_key_len_def ulong_try_from_def ensure_ulong_def)
  then show ?thesis
    using o0 o1
    by (simp add: default_import_from_wrapped_def key_unwrap_def internal_key_create_def set_key_def)
qed

theorem import_export_roundtrip_witness:
  "\<exists>key. default_import_from_wrapped generic_secret_data [0x75] [1, 2, 3]
      [ck_attr_of CKA_EXTRACTABLE [1]] = Ok key \<and>
    (is_extractable key \<longrightarrow> default_export_for_wrapping key = Ok [1, 2, 3])"
proof -
  obtain key where key: "default_import_from_wrapped generic_secret_data [0x75] [1, 2, 3]
      [ck_attr_of CKA_EXTRACTABLE [1]] = Ok key"
    using import_sample_ok by (auto simp: is_ok_iff)
  then show ?thesis using import_export_roundtrip[OF key] by simp
qed

end
