(* ===== verification/Auth_Laws.thy ===== *)
theory Auth_Laws
  imports Tokens Key_Laws
begin

text \<open>
  What \<^verbatim>\<open>src/src/storage/aci.rs\<close> and the authentication of \<^verbatim>\<open>src/src/storage/format.rs\<close> guarantee: the
  master key is recreated with its value, and an attempt to authenticate moves the counter of attempts.
\<close>

section \<open>What is assumed of the backend\<close>

text \<open>The backend keeps the user records it is given.\<close>

definition raw_user_laws :: "'r storage_raw \<Rightarrow> bool" where
  "raw_user_laws raw \<longleftrightarrow>
    (\<forall>uid info r. case raw_store_user raw uid info r of (x, r') \<Rightarrow>
      x = Ok () \<and> (\<forall>u. raw_fetch_user raw u r' = (if u = uid then Ok info else raw_fetch_user raw u r)))"

lemma raw_user_store:
  assumes "raw_user_laws raw" and "raw_store_user raw uid info r = (x, r')"
  shows "x = Ok ()" and "raw_fetch_user raw u r' = (if u = uid then Ok info else raw_fetch_user raw u r)"
proof -
  have "case raw_store_user raw uid info r of (x, r') \<Rightarrow>
      x = Ok () \<and> (\<forall>u. raw_fetch_user raw u r' = (if u = uid then Ok info else raw_fetch_user raw u r))"
    by (rule assms(1)[unfolded raw_user_laws_def, THEN spec, THEN spec, THEN spec])
  then show "x = Ok ()" and "raw_fetch_user raw u r' = (if u = uid then Ok info else raw_fetch_user raw u r)"
    by (simp_all add: assms(2))
qed

section \<open>The master key\<close>

text \<open>What \<^verbatim>\<open>key_create\<close> stores, apart from the attributes it sets itself.\<close>

definition set_on_create :: "ck_ulong set" where
  "set_on_create = {CKA_CLASS, CKA_UNIQUE_ID, CKA_LOCAL, CKA_ALWAYS_SENSITIVE, CKA_NEVER_EXTRACTABLE}"

lemma key_createE:
  assumes "key_create fd uuid template = Ok k"
  obtains ot oc where "template_taken fd NeverSettable template ot"
    and "defaults_added ot (fd_attributes fd) RequiredOnCreate oc"
    and "\<And>t. t \<notin> set_on_create \<Longrightarrow> get_attr t k = get_attr t oc"
proof -
  obtain o0 where o0: "internal_key_create fd uuid template NeverSettable RequiredOnCreate = Ok o0"
      "\<And>t. t \<notin> set_on_create \<Longrightarrow> get_attr t k = get_attr t o0"
    using assms by (auto simp: key_create_def and_then_eq_Ok get_attr_set set_on_create_def split: if_splits)
  obtain oc where oc: "internal_object_create fd template NeverSettable RequiredOnCreate = Ok oc"
      "o0 = generate_unique uuid oc"
    using internal_key_createE[OF o0(1)] by metis
  obtain ot where t: "template_taken fd NeverSettable template ot"
      "defaults_added ot (fd_attributes fd) RequiredOnCreate oc"
    using internal_object_createE[OF oc(1)] by metis
  have "get_attr u k = get_attr u oc" if "u \<notin> set_on_create" for u
    using that o0(2) oc(2) get_attr_unique_other[of u uuid oc] by (simp add: set_on_create_def)
  with t show ?thesis by (rule that)
qed

lemma created_attribute:
  assumes "key_create fd uuid template = Ok k" and "a \<in> set template"
    and "find_oattr fd (attr_type a) = Some fa" and "\<not> oa_is fa Ignored" and "attr_type a \<notin> set_on_create"
  shows "\<exists>x. from_ck_attr a = Ok x \<and> get_attr (attr_type a) k = Some x"
  using assms(1)
proof (cases rule: key_createE)
  case (1 ot oc)
  then obtain x where "from_ck_attr a = Ok x" "get_attr (attr_type a) ot = Some x"
    using assms(2-5) by (fastforce simp: template_taken_def set_on_create_def)
  then show ?thesis using 1(2,3) assms(5) by (auto simp: defaults_added_def)
qed

lemma created_absent:
  assumes "key_create fd uuid template = Ok k" and "t \<notin> attr_type ` set template" and "t \<notin> set_on_create"
    and "list_all (\<lambda>fa. oa_type fa = t \<longrightarrow> \<not> has_default fa) (fd_attributes fd)"
  shows "get_attr t k = None"
  using assms(1)
proof (cases rule: key_createE)
  case (1 ot oc)
  have "ck_type x \<noteq> t" if "x \<in> set (o_attributes oc)" for x
    using that 1(1,2) assms(2-4) from_ck_attr_type
    by (fastforce simp: defaults_added_def template_taken_def set_on_create_def list_all_iff oa_type_def)
  then show ?thesis using 1(3)[OF assms(3)] by (auto simp: get_attr_None_iff)
qed

text \<open>The generic secret factory, through which the master key is recreated, keeps its value.\<close>

lemma key_create_value:
  assumes "key_create generic_secret_data uuid template = Ok o1"
    and "ck_attr_of CKA_VALUE v \<in> set template" and "length v < usize_range"
  shows "get_attr_as_bytes CKA_VALUE o1 = Ok v"
  using created_attribute[OF assms(1,2)] from_ck_attr_key(4)[OF assms(3)] generic_secret_VALUE
  by (auto simp: set_on_create_def flag_eval attr_as_defs from_bytes_def to_bytes_def)

lemma required_ulong_template:
  "required_ulong CKA_CLASS (secret_key_template kt n @ r) = Ok CKO_SECRET_KEY"
  "required_ulong CKA_KEY_TYPE (secret_key_template kt n @ r) = Ok kt"
  by (simp_all add: required_ulong_def secret_key_template_def add_ulong_def add_bool_def Let_def
      find_attr_def)

section \<open>The attempt counter\<close>

text \<open>
  What a PIN is worth for a user record: an error of the manager, or whether it is right. It
  depends on the manager only through its \<^verbatim>\<open>encrypt\<close> setting.
\<close>

definition pin_check ::
    "crypto \<Rightarrow> factories \<Rightarrow> bool \<Rightarrow> bytes \<Rightarrow> storage_auth_info \<Rightarrow> bytes \<Rightarrow> bool \<Rightarrow> bool result" where
  "pin_check cr fs enc uid info pin load_key =
    (case user_data info of
       None \<Rightarrow> Err CKR_GENERAL_ERROR
     | Some wrapped \<Rightarrow>
       (case decrypt_key cr uid pin wrapped of
          Inl _ \<Rightarrow> Ok False
        | Inr (version, key) \<Rightarrow>
          if enc then
            (if load_key then and_then (master_key_of cr fs key) (\<lambda>_. Ok True) else Ok True)
          else Ok (key = NO_ENCRYPTION)))"

text \<open>The abstract counter: what an attempt answers, and the count of failures after it.\<close>

definition attempt :: "ck_ulong \<Rightarrow> bool \<Rightarrow> ck_ulong \<Rightarrow> ck_rv \<times> ck_ulong" where
  "attempt limit right cur =
    (if cur \<ge> limit then (CKR_PIN_LOCKED, cur)
     else if right then (CKR_OK, 0)
     else (if cur + 1 \<ge> limit then CKR_PIN_LOCKED else CKR_PIN_INCORRECT, cur + 1))"

lemma authenticate_attempt:
  assumes "pin_check cr fs (aci_encrypt aci) uid info pin load_key = Ok right"
    and "authenticate cr fs aci uid info pin load_key = (r, aci', info')"
  shows "info' = info\<lparr>cur_attempts := snd (attempt (max_attempts info) right (cur_attempts info))\<rparr> \<and>
    r = Ok (cur_attempts info' \<noteq> cur_attempts info) \<and> aci_encrypt aci' = aci_encrypt aci \<and>
    (right \<and> \<not> locked info \<or> aci' = aci)"
  using assms
  by (auto simp: pin_check_def authenticate_def attempt_def locked_def and_then_eq_Ok Let_def
      split: option.splits sum.splits if_splits)

lemma word_succ_nonzero: "cur < (limit :: ck_ulong) \<Longrightarrow> cur + 1 \<noteq> 0"
  by (metis add_diff_cancel_right' diff_0 leD word_n1_ge)

text \<open>One attempt on the stored record, for a backend that keeps the records.\<close>

lemma std_auth_user_attempt:
  assumes raw: "raw_user_laws raw" and uid: "get_pin_uid user_type = Ok uid"
    and info: "raw_fetch_user raw uid (st_store st) = Ok info" and limit: "max_attempts info \<noteq> 0"
    and check: "pin_check (fac_crypto fac) (fac_factories fac) (aci_encrypt (st_aci st)) uid info pin
      (\<not> check_only) = Ok right"
    and run: "std_auth_user raw fac user_type pin check_only (flag, st) = (r, flag', st')"
    and att: "attempt (max_attempts info) right (cur_attempts info) = (ret, cur)"
  shows "result_rv r = ret \<and> (\<forall>u. raw_fetch_user raw u (st_store st') =
      (if u = uid then Ok (info\<lparr>cur_attempts := cur\<rparr>) else raw_fetch_user raw u (st_store st))) \<and>
    aci_encrypt (st_aci st') = aci_encrypt (st_aci st) \<and> (right \<and> \<not> locked info \<or> st_aci st' = st_aci st)"
proof -
  obtain up aci1 info1 where a: "authenticate (fac_crypto fac) (fac_factories fac) (st_aci st) uid info
      (checked_pin pin) (\<not> check_only) = (up, aci1, info1)"
    by (metis surj_pair)
  have a1: "info1 = info\<lparr>cur_attempts := cur\<rparr>" "up = Ok (cur \<noteq> cur_attempts info)"
      "aci_encrypt aci1 = aci_encrypt (st_aci st)" "right \<and> \<not> locked info \<or> aci1 = st_aci st"
    using authenticate_attempt[OF check a[unfolded checked_pin_def]] att by simp_all
  let ?st1 = "st\<lparr>st_aci := aci1\<rparr>"
  let ?st2 = "if cur \<noteq> cur_attempts info
    then snd (lift_raw (raw_store_user raw uid info1) ?st1) else ?st1"
  have store: "raw_fetch_user raw u (st_store ?st2) =
      (if u = uid then Ok (info\<lparr>cur_attempts := cur\<rparr>) else raw_fetch_user raw u (st_store st))" for u
  proof (cases "cur = cur_attempts info")
    case True
    then show ?thesis using info by simp
  next
    case False
    obtain x r' where "raw_store_user raw uid info1 (st_store st) = (x, r')" by force
    with raw_user_store(2)[OF raw this] False a1(1) show ?thesis by (simp add: lift_raw_def)
  qed
  have aci2: "st_aci ?st2 = aci1"
    by (simp add: lift_raw_def split: prod.splits)
  have zero: "cur = 0 \<longleftrightarrow> ret = CKR_OK"
    using att limit word_succ_nonzero[of "cur_attempts info" "max_attempts info"]
    by (auto simp: attempt_def split: if_splits)
  have ret: "ret = CKR_OK \<or> ret = (if locked info1 then CKR_PIN_LOCKED else CKR_PIN_INCORRECT)"
    using att a1(1) by (auto simp: attempt_def locked_def split: if_splits)
  have "r = (if cur = 0 then Ok () else if locked info1 then Err CKR_PIN_LOCKED else Err CKR_PIN_INCORRECT)
      \<and> st' = ?st2"
    using run uid info a a1(1,2) by (auto simp: std_auth_user_def Let_def split: if_splits)
  then show ?thesis
    using store aci2 a1(3,4) zero ret by (auto simp: result_rv_def split: if_splits)
qed

end
