(* ===== verification/Attempt_Laws.thy ===== *)
theory Attempt_Laws
  imports Auth_Laws
begin

text \<open>
  The attempt counter of \<^verbatim>\<open>src/src/storage/aci.rs\<close> and \<^verbatim>\<open>src/src/storage/format.rs\<close> as an
  abstract counter, and a sample user on which the authentication laws are evaluated.
\<close>

section \<open>A sample cryptography\<close>

definition value_object :: "bytes \<Rightarrow> object" where
  "value_object v = (new_object CKO_SECRET_KEY)\<lparr>o_attributes := [from_bytes CKA_VALUE v]\<rparr>"

lemma value_object_value [simp]: "get_attr_as_bytes CKA_VALUE (value_object v) = Ok v"
  by (simp add: value_object_def attr_as_defs get_attr_def from_bytes_def to_bytes_def)

definition value_of :: "object \<Rightarrow> bytes" where
  "value_of k = (case get_attr_as_bytes CKA_VALUE k of Inr v \<Rightarrow> v | Inl _ \<Rightarrow> [])"

definition no_gcm :: gcm_params where
  "no_gcm = \<lparr>aes_iv = [], aes_tag = []\<rparr>"

definition key_alg :: alg_params where
  "key_alg = Kkbps1 1 (Pbkdf2 \<lparr>pb_salt = replicate 32 0, pb_iteration_count = 1000,
     pb_key_length = Some AES_KEYLEN, pb_prf = HmacSha256\<rparr>) (Aes256Gcm no_gcm)"

definition data_alg :: alg_params where
  "data_alg = Kkbps1 1 (Kkdf1 \<lparr>kk_prf = HmacSha256, kk_info = [0x6F], kk_key_length = AES_KEYLEN\<rparr>)
     (Aes256Gcm no_gcm)"

definition sample_crypto :: crypto where
  "sample_crypto =
    \<lparr>pbkdf2_generate = (\<lambda>salt it p secret tmpl. Ok (value_object secret)),
     hkdf_derive = (\<lambda>info k tmpl. Ok [value_object (value_of k @ info)]),
     secret_key_gen = (\<lambda>tmpl. Ok (value_object [0x11])),
     aes_gcm_encrypt = (\<lambda>k aad d. Ok (no_gcm, value_of k @ d)),
     aes_gcm_decrypt = (\<lambda>k gcm aad e. if take (length (value_of k)) e = value_of k
        then Ok (drop (length (value_of k)) e) else Err CKR_DATA_INVALID),
     generate_random = (\<lambda>n. Ok (replicate n 0)),
     write_protected = (\<lambda>alg d. if alg = key_alg then Some (0 # d)
        else if alg = data_alg then Some (1 # d) else None),
     parse_protected = (\<lambda>der. case der of [] \<Rightarrow> None
        | b # d \<Rightarrow> if b = 0 then Some (key_alg, d) else if b = 1 then Some (data_alg, d) else None),
     master_uuid = [0x75]\<rparr>"

definition sample_master :: bytes where
  "sample_master = replicate 32 0xAA"

definition sample_aci :: storage_aci where
  "sample_aci = \<lparr>def_iterations = 1000, key_version = 1,
     aci_key = Some (value_object sample_master), aci_encrypt = True\<rparr>"

definition sample_user :: storage_auth_info where
  "sample_user = default_auth_info\<lparr>user_data := Some (0 # [0x31, 0x32] @ sample_master)\<rparr>"

lemma sample_decrypt:
  "decrypt_key sample_crypto USER_ID pin (0 # d) =
    (if take (length pin) d = pin then Ok (1, drop (length pin) d) else Err CKR_DATA_INVALID)"
  by (simp add: decrypt_key_def kkbps1_of_def gcm_of_def sample_crypto_def key_alg_def
      pbkdf2_derive_def prf_id_def value_of_def)

text \<open>Recreating the master key of the sample succeeds.\<close>

lemma search_by_id_template:
  "search_by_id CKA_DERIVE = Some (attrmap_element CKA_DERIVE ''CKA_DERIVE'' BoolType)"
  by (simp add: search_by_id_find ATTRMAP_def)

lemma from_ck_attr_DERIVE:
  "from_ck_attr (ck_attr_of CKA_DERIVE [b]) = Ok (from_bool CKA_DERIVE (b \<noteq> 0))"
  by (subst from_ck_attr.simps, simp add: search_by_id_template ck_to_bool_def)

lemma find_oattr_DERIVE: "find_oattr generic_secret_data CKA_DERIVE =
    Some (attr_element Defval (from_bool CKA_DERIVE False))"
  by (simp add: key_data_eval)

definition master_template :: ck_attrs where
  "master_template =
    secret_key_template CKK_GENERIC_SECRET AES_KEYLEN @ [ck_attr_of CKA_VALUE sample_master]"

lemma create_step_class:
  "create_step generic_secret_data NeverSettable (new_object CKO_SECRET_KEY)
      (ck_attr_of CKA_CLASS (u64_to_le CKO_SECRET_KEY)) =
    Ok (push_attribute (from_ulong CKA_CLASS CKO_SECRET_KEY) (new_object CKO_SECRET_KEY))"
  by (simp add: create_step_def find_oattr_CLASS flag_eval get_attr_new_object from_ck_attr_CLASS)

lemma length_sample_master [simp]: "length sample_master = 32"
  by (simp add: sample_master_def)

definition master_taken :: object where
  "master_taken =
    fold push_attribute
      [from_ulong CKA_CLASS CKO_SECRET_KEY, from_ulong CKA_KEY_TYPE CKK_GENERIC_SECRET,
       from_ulong CKA_VALUE_LEN AES_KEYLEN, from_bool CKA_DERIVE True, from_bytes CKA_VALUE sample_master]
      (new_object CKO_SECRET_KEY)"

lemma master_template_taken:
  "try_fold (create_step generic_secret_data NeverSettable)
      (new_object (fd_class generic_secret_data)) master_template = Ok master_taken"
  by (simp add: master_template_def secret_key_template_def add_ulong_def add_bool_def Let_def
      create_step_class)
    (simp add: create_step_def find_oattr_key find_oattr_DERIVE generic_secret_VALUE flag_eval
      from_ck_attr_key from_ck_attr_DERIVE get_attr_push get_attr_new_object master_taken_def)

lemma master_create_ok:
  "is_ok (internal_object_create generic_secret_data master_template NeverSettable RequiredOnCreate)"
  by (rule internal_object_create_ok[OF master_template_taken])
    (simp add: master_taken_def key_data_eval flag_eval get_attr_push get_attr_new_object)

lemma set_bool_ok:
  assumes "t \<noteq> CKA_CLASS"
  obtains o2 where "set_attr (from_bool t b) o1 = Ok o2" "o_class o2 = o_class o1"
    "\<And>u. u \<noteq> t \<Longrightarrow> get_attr u o2 = get_attr u o1"
proof -
  obtain o2 where o2: "set_attr (from_bool t b) o1 = Ok o2"
    using set_attr_is_ok[of "from_bool t b" o1] assms by (auto simp: is_ok_iff)
  then show thesis using that assms by (simp add: set_attr_class get_attr_set)
qed

lemma key_create_secret:
  assumes "internal_object_create fd template NeverSettable RequiredOnCreate = Ok oc"
    and "o_class oc = CKO_SECRET_KEY"
  shows "\<exists>o1. key_create fd uuid template = Ok o1 \<and>
    get_attr CKA_VALUE_LEN o1 = get_attr CKA_VALUE_LEN oc"
proof -
  let ?o = "generate_unique uuid oc"
  obtain o1 where o1: "set_attr (from_bool CKA_LOCAL False) ?o = Ok o1" "o_class o1 = o_class ?o"
      "\<And>u. u \<noteq> CKA_LOCAL \<Longrightarrow> get_attr u o1 = get_attr u ?o"
    by (rule set_bool_ok[of CKA_LOCAL False ?o]) auto
  obtain o2 where o2: "set_attr (from_bool CKA_ALWAYS_SENSITIVE False) o1 = Ok o2"
      "\<And>u. u \<noteq> CKA_ALWAYS_SENSITIVE \<Longrightarrow> get_attr u o2 = get_attr u o1"
    by (rule set_bool_ok[of CKA_ALWAYS_SENSITIVE False o1]) auto
  obtain o3 where o3: "set_attr (from_bool CKA_NEVER_EXTRACTABLE False) o2 = Ok o3"
      "\<And>u. u \<noteq> CKA_NEVER_EXTRACTABLE \<Longrightarrow> get_attr u o3 = get_attr u o2"
    by (rule set_bool_ok[of CKA_NEVER_EXTRACTABLE False o2]) auto
  have "key_create fd uuid template = Ok o3"
    using assms o1 o2 o3 by (simp add: key_create_def internal_key_create_def is_secret_class_def)
  moreover have "get_attr CKA_VALUE_LEN o3 = get_attr CKA_VALUE_LEN oc"
    using o1(3) o2(2) o3(2) by (simp add: get_attr_unique_other)
  ultimately show ?thesis by blast
qed

lemma master_key_ok: "is_ok (master_key_of sample_crypto core_factories sample_master)"
proof -
  obtain oc where oc: "internal_object_create generic_secret_data master_template NeverSettable RequiredOnCreate = Ok oc"
    using master_create_ok by (auto simp: is_ok_iff)
  obtain ot where t: "template_taken generic_secret_data NeverSettable master_template ot"
      "defaults_added ot (fd_attributes generic_secret_data) RequiredOnCreate oc"
    using internal_object_createE[OF oc] by metis
  have in_t: "ck_attr_of CKA_VALUE_LEN (u64_to_le AES_KEYLEN) \<in> set master_template"
      "ck_attr_of CKA_VALUE sample_master \<in> set master_template"
    by (simp_all add: master_template_def secret_key_template_def add_ulong_def add_bool_def Let_def)
  have "get_attr CKA_VALUE_LEN ot = Some (from_ulong CKA_VALUE_LEN AES_KEYLEN)"
    using t(1) in_t(1) find_oattr_key(2) from_ck_attr_key(2)
    by (fastforce simp: template_taken_def flag_eval)
  then have len: "get_attr CKA_VALUE_LEN oc = Some (from_ulong CKA_VALUE_LEN AES_KEYLEN)"
    using t(2) by (auto simp: defaults_added_def)
  have "o_class oc = CKO_SECRET_KEY"
    using t by (simp add: template_taken_def defaults_added_def)
  then obtain o1 where o1: "key_create generic_secret_data [0x75] master_template = Ok o1"
      "get_attr CKA_VALUE_LEN o1 = Some (from_ulong CKA_VALUE_LEN AES_KEYLEN)"
    using key_create_secret[OF oc] len by metis
  have "get_attr_as_bytes CKA_VALUE o1 = Ok sample_master"
    by (rule key_create_value[OF o1(1) in_t(2)]) simp
  then have "is_ok (generic_secret_create 0 [0x75] master_template)"
    using o1 by (simp add: generic_secret_create_def get_key_buffer_len_def ensure_ulong_def
        ulong_try_from_def from_ulong_def to_ulong_def AES_KEYLEN_def le64.dec_enc)
  then show ?thesis
    by (simp add: master_key_of_def add_vec_def add_slice_Ok master_template_def factories_create_def
        required_ulong_template sample_crypto_def get_factory_def core_factories_def generic_secret_factory_def)
qed

section \<open>Attempts\<close>

lemma pin_check_cur [simp]:
  "pin_check cr fs enc uid (info\<lparr>cur_attempts := n\<rparr>) pin load_key = pin_check cr fs enc uid info pin load_key"
  by (simp add: pin_check_def)

text \<open>
  C34. Authentication against the storage (\<^verbatim>\<open>StdStorageFormat::auth_user\<close> over
  \<^verbatim>\<open>StorageACI::authenticate\<close>) implements the abstract attempt counter, for a backend that keeps
  the user records: a locked user is refused with \<^verbatim>\<open>CKR_PIN_LOCKED\<close> even with the right PIN; the right PIN
  is accepted and resets the stored count; a wrong one is counted in the stored record and refused, with
  \<^verbatim>\<open>CKR_PIN_LOCKED\<close> when it was the last one allowed. Nothing else of the record and no other
  user's record changes.
\<close>

theorem auth_user_counts_attempts:
  assumes "raw_user_laws raw" and "get_pin_uid user_type = Ok uid"
    and "raw_fetch_user raw uid (st_store st) = Ok info" and "max_attempts info \<noteq> 0"
    and "pin_check (fac_crypto fac) (fac_factories fac) (aci_encrypt (st_aci st)) uid info pin
      (\<not> check_only) = Ok right"
  shows "case std_auth_user raw fac user_type pin check_only (flag, st) of (r, flag', st') \<Rightarrow>
    (\<exists>cur. raw_fetch_user raw uid (st_store st') = Ok (info\<lparr>cur_attempts := cur\<rparr>) \<and>
      (result_rv r, cur) = attempt (max_attempts info) right (cur_attempts info)) \<and>
    (\<forall>u. u \<noteq> uid \<longrightarrow> raw_fetch_user raw u (st_store st') = raw_fetch_user raw u (st_store st))"
proof -
  obtain r flag' st' where run: "std_auth_user raw fac user_type pin check_only (flag, st) = (r, flag', st')"
    by (metis surj_pair)
  obtain ret cur where att: "attempt (max_attempts info) right (cur_attempts info) = (ret, cur)"
    by force
  show ?thesis using std_auth_user_attempt[OF assms run att] run att by auto
qed

text \<open>A series of logins with the given PINs.\<close>

fun login_attempts ::
    "'r storage_raw \<Rightarrow> facilities \<Rightarrow> ck_ulong \<Rightarrow> bytes list \<Rightarrow> 'r std_storage \<Rightarrow> 'r std_storage" where
  "login_attempts raw fac user_type [] st = st"
| "login_attempts raw fac user_type (pin # pins) st =
    login_attempts raw fac user_type pins (snd (snd (std_auth_user raw fac user_type pin False (0, st))))"

lemma unat_succ: "cur < (limit :: ck_ulong) \<Longrightarrow> unat (cur + 1) = unat cur + 1"
  using unatSuc[of cur] word_succ_nonzero[of cur limit] by (simp add: add.commute)

lemma wrong_attempts:
  assumes raw: "raw_user_laws raw" and uid: "get_pin_uid user_type = Ok uid"
    and "raw_fetch_user raw uid (st_store st) = Ok info" and limit: "max_attempts info \<noteq> 0"
    and "\<forall>pin \<in> set pins. pin_check (fac_crypto fac) (fac_factories fac) (aci_encrypt (st_aci st)) uid info
      pin True = Ok False"
    and "st' = login_attempts raw fac user_type pins st"
  shows "\<exists>cur. raw_fetch_user raw uid (st_store st') = Ok (info\<lparr>cur_attempts := cur\<rparr>) \<and>
    st_aci st' = st_aci st \<and>
    (max_attempts info \<le> cur \<or> unat cur = unat (cur_attempts info) + length pins)"
  using assms(3-6)
proof (induction pins arbitrary: st info)
  case Nil
  then have "info\<lparr>cur_attempts := cur_attempts info\<rparr> = info" by simp
  then show ?case using Nil by (intro exI[of _ "cur_attempts info"]) simp
next
  case (Cons pin pins)
  obtain r flag' st1 where run: "std_auth_user raw fac user_type pin False (0, st) = (r, flag', st1)"
    by (metis surj_pair)
  obtain ret cur where att: "attempt (max_attempts info) False (cur_attempts info) = (ret, cur)" by force
  have check: "pin_check (fac_crypto fac) (fac_factories fac) (aci_encrypt (st_aci st)) uid info pin
      (\<not> False) = Ok False"
    using Cons.prems(3) by simp
  have st1: "raw_fetch_user raw uid (st_store st1) = Ok (info\<lparr>cur_attempts := cur\<rparr>)" "st_aci st1 = st_aci st"
    using std_auth_user_attempt[OF raw uid Cons.prems(1,2) check run att] by auto
  have cur: "max_attempts info \<le> cur \<or> unat cur = unat (cur_attempts info) + 1"
    using att unat_succ[of "cur_attempts info" "max_attempts info"]
    by (auto simp: attempt_def split: if_splits)
  obtain cur' where cur': "raw_fetch_user raw uid (st_store st') = Ok (info\<lparr>cur_attempts := cur'\<rparr>)"
      "st_aci st' = st_aci st" "max_attempts info \<le> cur' \<or> unat cur' = unat cur + length pins"
    using Cons.IH[of st1 "info\<lparr>cur_attempts := cur\<rparr>"] st1 Cons.prems run by auto
  then show ?case using cur by (auto simp: word_le_nat_alt)
qed

text \<open>
  C35. Guessing is bounded: after as many logins with wrong PINs as the record still allows, in any
  order and interspersed with nothing that succeeds, every further attempt is refused with
  \<^verbatim>\<open>CKR_PIN_LOCKED\<close>, also one with the right PIN, and leaves storage and manager as they are: the
  key is not loaded.
\<close>

theorem failed_attempts_lock_out:
  assumes raw: "raw_user_laws raw" and uid: "get_pin_uid user_type = Ok uid"
    and info: "raw_fetch_user raw uid (st_store st) = Ok info" and limit: "max_attempts info \<noteq> 0"
    and wrong: "\<forall>p \<in> set pins. pin_check (fac_crypto fac) (fac_factories fac) (aci_encrypt (st_aci st))
      uid info p True = Ok False"
    and enough: "unat (max_attempts info) \<le> unat (cur_attempts info) + length pins"
  shows "case std_auth_user raw fac user_type pin check_only (flag, login_attempts raw fac user_type pins st) of
    (r, flag', st') \<Rightarrow>
      r = Err CKR_PIN_LOCKED \<and> st' = login_attempts raw fac user_type pins st \<and> st_aci st' = st_aci st"
proof -
  obtain cur where cur: "raw_fetch_user raw uid (st_store (login_attempts raw fac user_type pins st)) =
        Ok (info\<lparr>cur_attempts := cur\<rparr>)"
      "st_aci (login_attempts raw fac user_type pins st) = st_aci st"
      "max_attempts info \<le> cur"
    using wrong_attempts[OF raw uid info limit wrong refl] enough by (auto simp: word_le_nat_alt)
  moreover have "cur \<noteq> 0" using cur(3) limit by (auto simp: word_le_nat_alt unat_eq_0)
  ultimately show ?thesis
    using uid by (auto simp: std_auth_user_def authenticate_def locked_def Let_def)
qed

text \<open>
  The count is only as good as the backend: \<^verbatim>\<open>auth_user\<close> ignores a failure to store the
  updated record, so with a backend that refuses the write a wrong PIN is refused but not
  counted; the state is what it was, and guessing is unlimited.
\<close>

theorem unsaved_attempt_not_counted:
  assumes "\<forall>info. raw_store_user raw uid info (st_store st) = (Err CKR_DEVICE_ERROR, st_store st)"
    and "get_pin_uid user_type = Ok uid" and "raw_fetch_user raw uid (st_store st) = Ok info"
    and "\<not> locked info" and "cur_attempts info + 1 < max_attempts info"
    and "pin_check (fac_crypto fac) (fac_factories fac) (aci_encrypt (st_aci st)) uid info pin True = Ok False"
  shows "case std_auth_user raw fac user_type pin False (flag, st) of (r, flag', st') \<Rightarrow>
    r = Err CKR_PIN_INCORRECT \<and> st' = st"
proof -
  obtain up aci1 info1 where a: "authenticate (fac_crypto fac) (fac_factories fac) (st_aci st) uid info
      pin True = (up, aci1, info1)"
    by (metis surj_pair)
  have "info1 = info\<lparr>cur_attempts := cur_attempts info + 1\<rparr>" "up = Ok True" "aci1 = st_aci st"
    using authenticate_attempt[OF assms(6) a] assms(4,5) by (auto simp: attempt_def locked_def)
  moreover have "cur_attempts info + 1 \<noteq> 0"
    using assms(4) word_succ_nonzero by (auto simp: locked_def not_le)
  ultimately show ?thesis
    using a assms by (simp add: std_auth_user_def checked_pin_def Let_def locked_def lift_raw_def)
qed

section \<open>A user with the PIN 12\<close>

definition user_raw :: "(bytes \<Rightarrow> storage_auth_info option) storage_raw" where
  "user_raw =
    \<lparr>raw_is_initialized = (\<lambda>r. Ok ()), raw_db_reset = (\<lambda>r. (Ok (), r)), raw_open = (\<lambda>r. (Ok (), r)),
     raw_flush = (\<lambda>r. (Ok (), r)), raw_fetch_by_uid = (\<lambda>u a r. Err CKR_OBJECT_HANDLE_INVALID),
     raw_search = (\<lambda>a r. Ok []), raw_store_obj = (\<lambda>o1 r. (Ok (), r)),
     raw_remove_by_uid = (\<lambda>u r. (Ok (), r)),
     raw_fetch_token_info = (\<lambda>r. Ok (default_storage_token_info\<lparr>sti_flags := CKF_TOKEN_INITIALIZED\<rparr>)),
     raw_store_token_info = (\<lambda>i r. (Ok (), r)),
     raw_fetch_user = (\<lambda>u r. case r u of Some i \<Rightarrow> Ok i | None \<Rightarrow> Err CKR_USER_PIN_NOT_INITIALIZED),
     raw_store_user = (\<lambda>u i r. (Ok (), r(u := Some i)))\<rparr>"

lemma user_raw_laws: "raw_user_laws user_raw"
  by (simp add: raw_user_laws_def user_raw_def)

definition sample_fac :: facilities where
  "sample_fac = \<lparr>fac_mechanisms = [], fac_factories = core_factories, fac_crypto = sample_crypto,
     fac_handles = new_handles\<rparr>"

definition sample_std :: "(bytes \<Rightarrow> storage_auth_info option) std_storage" where
  "sample_std = \<lparr>st_store = [USER_ID \<mapsto> sample_user], st_aci = unauth sample_aci\<rparr>"

lemma sample_std_user: "raw_fetch_user user_raw USER_ID (st_store sample_std) = Ok sample_user"
  by (simp add: user_raw_def sample_std_def)

lemma sample_user_sel [simp]:
  "max_attempts sample_user = 10" "cur_attempts sample_user = 0"
  "user_data sample_user = Some (0 # 0x31 # 0x32 # sample_master)"
  by (simp_all add: sample_user_def default_auth_info_def MAX_LOGIN_ATTEMPTS_def)

lemma get_pin_uid_USER: "get_pin_uid CKU_USER = Ok USER_ID"
  by (simp add: get_pin_uid_def)

lemma sample_pin_check:
  "pin_check (fac_crypto sample_fac) (fac_factories sample_fac) (aci_encrypt (st_aci sample_std)) USER_ID
    sample_user [0x39] b = Ok False"
  "pin_check (fac_crypto sample_fac) (fac_factories sample_fac) (aci_encrypt (st_aci sample_std)) USER_ID
    sample_user [0x31, 0x32] False = Ok True"
  by (simp_all add: pin_check_def sample_decrypt sample_fac_def sample_std_def sample_aci_def unauth_def)

theorem auth_user_counts_attempts_witness:
  "\<exists>st'. raw_fetch_user user_raw USER_ID st' = Ok (sample_user\<lparr>cur_attempts := 1\<rparr>) \<and>
    st' = st_store (snd (snd (std_auth_user user_raw sample_fac CKU_USER [0x39] False (0, sample_std))))"
  using auth_user_counts_attempts[OF user_raw_laws get_pin_uid_USER sample_std_user, of sample_fac "[0x39]"
      False False 0]
  by (simp add: sample_pin_check attempt_def case_prod_beta)

theorem failed_attempts_lock_out_witness:
  "fst (std_auth_user user_raw sample_fac CKU_USER [0x31, 0x32] False
    (0, login_attempts user_raw sample_fac CKU_USER (replicate 10 [0x39]) sample_std)) = Err CKR_PIN_LOCKED"
  using failed_attempts_lock_out[OF user_raw_laws get_pin_uid_USER sample_std_user, of "replicate 10 [0x39]"
      sample_fac "[0x31, 0x32]" False 0]
  by (simp add: sample_pin_check case_prod_beta)

theorem unsaved_attempt_not_counted_witness:
  "snd (snd (std_auth_user (user_raw\<lparr>raw_store_user := \<lambda>u i r. (Err CKR_DEVICE_ERROR, r)\<rparr>) sample_fac
    CKU_USER [0x39] False (0, sample_std))) = sample_std"
  using unsaved_attempt_not_counted[where raw = "user_raw\<lparr>raw_store_user := \<lambda>u i r. (Err CKR_DEVICE_ERROR, r)\<rparr>"
      and st = sample_std and user_type = CKU_USER and uid = USER_ID and info = sample_user and
      fac = sample_fac and pin = "[0x39]" and flag = 0]
    get_pin_uid_USER sample_std_user sample_pin_check
  by (simp add: user_raw_def case_prod_beta locked_def)

end
