(* ===== verification/Token_Laws.thy ===== *)
theory Token_Laws
  imports Attempt_Laws
begin

text \<open>
  What \<^verbatim>\<open>src/src/token.rs\<close> guarantees: handles and session objects stay consistent through every
  operation, the login state machine, and what a logout leaves behind. The contract of a storage
  with the token's handles is a locale; \<^verbatim>\<open>StdStorageFormat\<close> satisfies it over every backend.
\<close>

section \<open>The contract of a storage\<close>

text \<open>The facilities after an operation: only handles were added.\<close>

definition extends :: "facilities \<Rightarrow> facilities \<Rightarrow> bool" where
  "extends fac fac' \<longleftrightarrow>
    (\<exists>hs. fac' = set_handles hs fac) \<and> wf_handles (fac_handles fac') \<and>
    (\<forall>h u. handles_get h (fac_handles fac) = Some u \<longrightarrow> handles_get h (fac_handles fac') = Some u)"

lemma fac_handles_set [simp]: "fac_handles (set_handles hs fac) = hs"
  by (simp add: set_handles_def)

lemma set_handles_twice [simp]: "set_handles hs (set_handles hs' fac) = set_handles hs fac"
  by (simp add: set_handles_def)

lemma set_handles_same [simp]: "set_handles (fac_handles fac) fac = fac"
  by (simp add: set_handles_def)

lemma extends_refl: "wf_handles (fac_handles fac) \<Longrightarrow> extends fac fac"
  unfolding extends_def by (metis set_handles_same)

lemma extends_trans: "extends f g \<Longrightarrow> extends g h \<Longrightarrow> extends f h"
  by (auto simp: extends_def)

lemma extends_next:
  "wf_handles (fac_handles fac) \<Longrightarrow> handles_next (fac_handles fac) = (h, hs) \<Longrightarrow>
    extends fac (set_handles hs fac)"
  using hm.wf_nxt[of "fac_handles fac"] hm.look_nxt[of _ "fac_handles fac"] by (auto simp: extends_def)

lemma extends_allocate:
  assumes "wf_handles (fac_handles fac)" and "handles_next (fac_handles fac) = (h, hs)"
    and "handles_insert h u hs = Ok hs1"
  shows "extends fac (set_handles hs1 fac)" and "handles_get h hs1 = Some u"
    and "handles_get h (fac_handles fac) = None"
proof -
  note a = hm.allocate[OF assms]
  have "handles_get k hs1 = Some v" if "handles_get k (fac_handles fac) = Some v" for k v
    using a that by (cases "k = h") auto
  then show "extends fac (set_handles hs1 fac)" and "handles_get h hs1 = Some u"
    and "handles_get h (fac_handles fac) = None"
    using a by (auto simp: extends_def)
qed

locale object_storage =
  fixes store :: "object \<Rightarrow> 's \<times> facilities \<Rightarrow> ck_ulong result \<times> 's \<times> facilities"
    and search :: "ck_attrs \<Rightarrow> 's \<Rightarrow> facilities \<Rightarrow> ck_ulong list result \<times> facilities"
    and fetch :: "facilities \<Rightarrow> ck_ulong \<Rightarrow> ck_attrs \<Rightarrow> 's \<Rightarrow> object result"
  assumes store_extends: "wf_handles (fac_handles fac) \<Longrightarrow> store obj (s, fac) = (r, s', fac') \<Longrightarrow> extends fac fac'"
    and store_maps: "wf_handles (fac_handles fac) \<Longrightarrow> store obj (s, fac) = (Ok h, s', fac') \<Longrightarrow>
      o_handle obj = CK_INVALID_HANDLE \<Longrightarrow>
      \<exists>u. get_attr_as_string CKA_UNIQUE_ID obj = Ok u \<and> handles_get h (fac_handles fac') = Some u"
    and search_extends: "wf_handles (fac_handles fac) \<Longrightarrow> search tmpl s fac = (rs, fac') \<Longrightarrow> extends fac fac'"
    and search_maps: "wf_handles (fac_handles fac) \<Longrightarrow> search tmpl s fac = (Ok hs, fac') \<Longrightarrow>
      \<forall>h \<in> set hs. handles_get h (fac_handles fac') \<noteq> None"
    and fetch_handle: "fetch fac h attrs s = Ok obj \<Longrightarrow>
      o_handle obj = h \<and> handles_get h (fac_handles fac) \<noteq> None"
begin

lemma store_keeps_mapped:
  "wf_handles (fac_handles fac) \<Longrightarrow> store obj (s, fac) = (r, s', fac') \<Longrightarrow>
    handles_get h (fac_handles fac) \<noteq> None \<Longrightarrow> handles_get h (fac_handles fac') \<noteq> None"
  using store_extends by (fastforce simp: extends_def)

end

lemma search_step_extends:
  assumes "wf_handles (fac_handles fac)" and "search_step tmpl (hs, fac) obj = (r, fac')"
    and mapped: "\<forall>h \<in> set hs. handles_get h (fac_handles fac) \<noteq> None"
  shows "extends fac fac' \<and> (\<forall>hs'. r = Ok hs' \<longrightarrow> (\<forall>h \<in> set hs'. handles_get h (fac_handles fac') \<noteq> None))"
proof -
  obtain h hm where nx: "handles_next (fac_handles fac) = (h, hm)" by force
  consider (skip) "r = Ok hs" "fac' = fac"
    | (known) u h where "handles_get_by_uid u (fac_handles fac) = Some h" "r = Ok (hs @ [h])" "fac' = fac"
    | (refused) "\<not> is_ok r" "fac' = set_handles hm fac"
    | (new) u hm1 where "handles_insert h u hm = Ok hm1" "r = Ok (hs @ [h])" "fac' = set_handles hm1 fac"
  proof (cases "get_attr_as_string CKA_UNIQUE_ID obj")
    case (Inl e)
    then show thesis using assms(2) skip by (simp add: search_step_def split: if_splits)
  next
    case (Inr u)
    show thesis
    proof (cases "handles_get_by_uid u (fac_handles fac)")
      case None
      then have "r = Ok hs \<and> fac' = fac \<or> \<not> is_ok r \<and> fac' = set_handles hm fac \<or>
          (\<exists>hm1. handles_insert h u hm = Ok hm1 \<and> r = Ok (hs @ [h]) \<and> fac' = set_handles hm1 fac)"
        using assms(2) Inr nx
        by (cases "handles_insert h u hm") (simp_all add: search_step_def split: if_splits, auto)
      then show thesis using skip refused new by blast
    next
      case (Some k)
      then have "fac' = fac \<and> (r = Ok hs \<or> r = Ok (hs @ [k]))"
        using assms(2) Inr by (auto simp: search_step_def split: if_splits)
      then show thesis using skip known Some by blast
    qed
  qed
  then show ?thesis
  proof cases
    case skip
    then show ?thesis using extends_refl[OF assms(1)] mapped by simp
  next
    case known
    then have "handles_get h (fac_handles fac) = Some u"
      using hm.bijective[OF assms(1), of h u] by simp
    then show ?thesis using known extends_refl[OF assms(1)] mapped by simp
  next
    case refused
    then show ?thesis using extends_next[OF assms(1) nx] by auto
  next
    case new
    note e = extends_allocate[OF assms(1) nx new(1)]
    then have "\<forall>k \<in> set hs. handles_get k hm1 \<noteq> None"
      using mapped by (fastforce simp: extends_def)
    then show ?thesis using new e by auto
  qed
qed

lemma search_loop_extends:
  assumes "wf_handles (fac_handles fac)" and "search_loop tmpl hs fac objs = (r, fac')"
    and "\<forall>h \<in> set hs. handles_get h (fac_handles fac) \<noteq> None"
  shows "extends fac fac' \<and> (\<forall>hs'. r = Ok hs' \<longrightarrow> (\<forall>h \<in> set hs'. handles_get h (fac_handles fac') \<noteq> None))"
  using assms
proof (induction objs arbitrary: hs fac)
  case Nil
  then show ?case using extends_refl by auto
next
  case (Cons obj objs)
  obtain r1 fac1 where s: "search_step tmpl (hs, fac) obj = (r1, fac1)" by force
  note e = search_step_extends[OF Cons.prems(1) s Cons.prems(3)]
  show ?case
  proof (cases r1)
    case (Inl err)
    then show ?thesis using Cons.prems(2) s e by auto
  next
    case (Inr hs1)
    then have "search_loop tmpl hs1 fac1 objs = (r, fac')" using Cons.prems(2) s by simp
    moreover have "wf_handles (fac_handles fac1)" using e by (simp add: extends_def)
    ultimately show ?thesis using Cons.IH[of fac1 hs1] e Inr extends_trans by blast
  qed
qed

text \<open>Encrypting the sensitive attributes and dropping the ephemeral ones keep the handle.\<close>

lemma set_attr_handle: "set_attr a o1 = Ok o2 \<Longrightarrow> o_handle o2 = o_handle o1"
  by (auto simp: set_attr_def and_then_eq_Ok split: if_splits)

lemma encrypt_attr_handle: "encrypt_attr cr aci uid o1 typ = Ok o2 \<Longrightarrow> o_handle o2 = o_handle o1"
  by (auto simp: encrypt_attr_def and_then_eq_Ok set_attr_handle split: option.splits)

lemma encrypt_all_handle:
  "try_fold (encrypt_attr cr aci uid) o1 types = Ok o2 \<Longrightarrow> o_handle o2 = o_handle o1"
  by (erule try_fold_invariant[where P = "\<lambda>x. o_handle x = o_handle o1"]) (simp_all add: encrypt_attr_handle)

lemma del_attr_handle [simp]: "o_handle (del_attr t o1) = o_handle o1"
  by (simp add: del_attr_def)

lemma del_all_handle [simp]: "o_handle (fold del_attr ts o1) = o_handle o1"
  by (induction ts arbitrary: o1) simp_all

interpretation std: object_storage "std_store raw" "std_search raw" "std_fetch raw" for raw
proof unfold_locales
  fix fac obj s r s' fac'
  assume wf: "wf_handles (fac_handles fac)" and run: "std_store raw obj (s, fac) = (r, s', fac')"
  show "extends fac fac'"
    using run extends_refl[OF wf] extends_next[OF wf] extends_allocate(1)[OF wf]
    by (auto simp: std_store_def Let_def split: sum.splits if_splits prod.splits)
next
  fix fac obj s h s' fac'
  assume wf: "wf_handles (fac_handles fac)" and run: "std_store raw obj (s, fac) = (Ok h, s', fac')"
    and new: "o_handle obj = CK_INVALID_HANDLE"
  show "\<exists>u. get_attr_as_string CKA_UNIQUE_ID obj = Ok u \<and> handles_get h (fac_handles fac') = Some u"
    using run new extends_allocate(2)[OF wf]
    by (auto simp: std_store_def Let_def and_then_eq_Ok encrypt_all_handle split: sum.splits if_splits prod.splits)
next
  fix fac tmpl s r fac'
  assume wf: "wf_handles (fac_handles fac)" and run: "std_search raw tmpl s fac = (r, fac')"
  show "extends fac fac'"
    using run extends_refl[OF wf] search_loop_extends[OF wf]
    by (fastforce simp: std_search_def split: sum.splits)
next
  fix fac tmpl s hs fac'
  assume wf: "wf_handles (fac_handles fac)" and run: "std_search raw tmpl s fac = (Ok hs, fac')"
  show "\<forall>h \<in> set hs. handles_get h (fac_handles fac') \<noteq> None"
    using run search_loop_extends[OF wf] by (fastforce simp: std_search_def split: sum.splits)
next
  fix fac h attrs s obj
  assume "std_fetch raw fac h attrs s = Ok obj"
  then show "o_handle obj = h \<and> handles_get h (fac_handles fac) \<noteq> None"
    by (auto simp: std_fetch_def and_then_eq_Ok set_handle_def split: option.splits)
qed

section \<open>Consistency of the token\<close>

definition token_ok :: "'s token \<Rightarrow> bool" where
  "token_ok t \<longleftrightarrow>
    wf_handles (token_handles t) \<and> distinct (map fst (tk_session_objects t)) \<and>
    (\<forall>(h, obj) \<in> set (tk_session_objects t).
      o_handle obj = h \<and> handles_get h (token_handles t) \<noteq> None) \<and>
    (tk_logged t = KRY_UNSPEC \<or> tk_logged t = CKU_SO \<or> tk_logged t = CKU_USER)"

lemma token_handles_sel [simp]:
  "token_handles (put_handles hs t) = hs"
  "token_handles (t\<lparr>tk_storage := s\<rparr>) = token_handles t"
  "token_handles (t\<lparr>tk_facilities := fac\<rparr>) = fac_handles fac"
  "token_handles (t\<lparr>tk_session_objects := so\<rparr>) = token_handles t"
  "token_handles (t\<lparr>tk_logged := l\<rparr>) = token_handles t"
  "token_handles (t\<lparr>tk_filtermechs := m\<rparr>) = token_handles t"
  "token_handles (t\<lparr>tk_dedup := d\<rparr>) = token_handles t"
  "token_handles (t\<lparr>tk_info := i\<rparr>) = token_handles t"
  by (simp_all add: token_handles_def put_handles_def set_handles_def)

lemma put_handles_sel [simp]:
  "tk_session_objects (put_handles hs t) = tk_session_objects t"
  "tk_logged (put_handles hs t) = tk_logged t"
  "tk_storage (put_handles hs t) = tk_storage t"
  "tk_info (put_handles hs t) = tk_info t"
  by (simp_all add: put_handles_def)

lemma token_ok_cong:
  "token_handles t' = token_handles t \<Longrightarrow> tk_session_objects t' = tk_session_objects t \<Longrightarrow>
    tk_logged t' = tk_logged t \<Longrightarrow> token_ok t' = token_ok t"
  by (simp add: token_ok_def)

lemma token_ok_storage [simp]:
  "token_ok (t\<lparr>tk_storage := s\<rparr>) = token_ok t" "token_ok (t\<lparr>tk_filtermechs := m\<rparr>) = token_ok t"
  "token_ok (t\<lparr>tk_dedup := d\<rparr>) = token_ok t" "token_ok (t\<lparr>tk_info := i\<rparr>) = token_ok t"
  by (rule token_ok_cong; simp)+

lemma token_ok_info [simp]:
  "token_ok (set_info_flags f t) = token_ok t" "token_ok (fill_token_info info t) = token_ok t"
  "token_ok (update_auth_flags user_type f t) = token_ok t" "token_ok (uninitialized_token_info t) = token_ok t"
  by (simp_all add: set_info_flags_def fill_token_info_def update_auth_flags_def
      uninitialized_token_info_def Let_def)

lemma token_ok_extends:
  assumes "token_ok t" and "extends (tk_facilities t) fac"
  shows "token_ok (t\<lparr>tk_facilities := fac\<rparr>)"
  using assms by (fastforce simp: token_ok_def extends_def token_handles_def)

lemma token_ok_facilities: "token_ok t \<Longrightarrow> wf_handles (fac_handles (tk_facilities t))"
  by (simp add: token_ok_def token_handles_def)

lemma put_handles_facilities: "put_handles hs t = t\<lparr>tk_facilities := set_handles hs (tk_facilities t)\<rparr>"
  by (simp add: put_handles_def)

lemma token_ok_on_storage: "token_ok t \<Longrightarrow> token_ok (snd (on_storage f t))"
  by (simp add: on_storage_def split: prod.splits)

lemma forget_handle_sel [simp]:
  "tk_session_objects (forget_handle h t) = filter (\<lambda>p. fst p \<noteq> h) (tk_session_objects t)"
  "token_handles (forget_handle h t) = handles_remove h (token_handles t)"
  "tk_logged (forget_handle h t) = tk_logged t" "tk_storage (forget_handle h t) = tk_storage t"
  "tk_info (forget_handle h t) = tk_info t"
  by (simp_all add: forget_handle_def)

lemma token_ok_forget: "token_ok t \<Longrightarrow> token_ok (forget_handle h t)"
  using hm.wf_del[of "token_handles t" h] hm.look_del[of _ h "token_handles t"]
  by (auto simp: token_ok_def distinct_map_filter)

lemma fold_forget:
  "tk_session_objects (fold forget_handle hs t) = filter (\<lambda>p. fst p \<notin> set hs) (tk_session_objects t)"
  "handles_get k (token_handles (fold forget_handle hs t)) =
    (if k \<in> set hs then None else handles_get k (token_handles t))"
  "tk_logged (fold forget_handle hs t) = tk_logged t"
  "tk_storage (fold forget_handle hs t) = tk_storage t"
  "tk_info (fold forget_handle hs t) = tk_info t"
  by (induction hs arbitrary: t) (auto simp: hm.look_del conj_commute)

lemma token_ok_fold_forget: "token_ok t \<Longrightarrow> token_ok (fold forget_handle hs t)"
  by (induction hs arbitrary: t) (simp_all add: token_ok_forget)

lemma token_ok_put_session_object:
  assumes "token_ok t" and "o_handle obj = h" and "handles_get h (token_handles t) \<noteq> None"
  shows "token_ok (put_session_object h obj t)"
proof -
  have "set (AList.update h obj xs) \<subseteq> insert (h, obj) (set xs)" for xs
    by (induction xs) auto
  then show ?thesis
    using assms by (fastforce simp: token_ok_def put_session_object_def distinct_update)
qed

lemma apply_attrs_handle: "apply_attrs o1 template = (r, o2) \<Longrightarrow> o_handle o2 = o_handle o1"
proof (induction template arbitrary: o1)
  case (Cons a as)
  show ?case
  proof (cases "set_from_ck o1 a")
    case (Inr o')
    then have "o_handle o' = o_handle o1"
      by (auto simp: set_from_ck_def and_then_eq_Ok set_attr_handle)
    then show ?thesis using Cons Inr by simp
  qed (use Cons.prems in simp)
qed simp

lemma set_object_attributes_handle:
  "set_object_attributes fd o1 template = (r, o2) \<Longrightarrow> o_handle o2 = o_handle o1"
  by (auto simp: set_object_attributes_def apply_attrs_handle split: if_splits sum.splits)

text \<open>The token over a storage that keeps the contract.\<close>

locale token_storage = object_storage "sg_store sg" "sg_search sg" "sg_fetch sg"
  for sg :: "'s storage"
begin

lemma ok_insert_object:
  assumes "token_ok t"
  shows "token_ok (snd (insert_object sg s_handle obj t))"
proof (cases "is_token obj")
  case True
  obtain r s1 fac1 where st: "sg_store sg obj (tk_storage t, tk_facilities t) = (r, s1, fac1)"
    by (metis surj_pair)
  then have "extends (tk_facilities t) fac1"
    using store_extends token_ok_facilities[OF assms] by blast
  then show ?thesis
    using assms st True token_ok_extends[of "t\<lparr>tk_storage := s1\<rparr>" fac1] by (simp add: insert_object_def)
next
  case False
  obtain h hs where nx: "handles_next (token_handles t) = (h, hs)" by force
  let ?o = "set_session s_handle (set_handle h obj)"
  have ok1: "token_ok (put_handles hs t)"
    using token_ok_extends[OF assms extends_next[OF token_ok_facilities[OF assms]]] nx
    by (simp add: token_handles_def put_handles_facilities)
  have "token_ok (put_session_object h ?o (put_handles hs1 t))" if i: "handles_insert h u hs = Ok hs1" for u hs1
  proof -
    note e = extends_allocate[OF token_ok_facilities[OF assms] nx[unfolded token_handles_def] i]
    show ?thesis
    proof (rule token_ok_put_session_object)
      show "token_ok (put_handles hs1 t)"
        using token_ok_extends[OF assms e(1)] by (simp add: put_handles_facilities)
    qed (use e(2) in \<open>simp_all add: set_session_def set_handle_def\<close>)
  qed
  then show ?thesis
    using ok1 nx False by (auto simp: insert_object_def Let_def put_handles_def split: sum.splits)
qed

lemma ok_insert_builtin:
  assumes "token_ok t"
  shows "token_ok (snd (insert_builtin_object sg uuid_v8 c i t))"
proof -
  have "token_ok (snd (st_then (insert_object sg CK_INVALID_HANDLE obj t) (\<lambda>_ t1. (Ok (), t1))))" for obj
    by (rule st_then_invariant[where P = token_ok]) (simp_all add: ok_insert_object[OF assms])
  then show ?thesis using assms by (simp add: insert_builtin_object_def split: sum.split)
qed

lemma ok_insert_builtins:
  "token_ok t \<Longrightarrow> token_ok (snd (insert_builtin_objects sg uuid_v8 c is t))"
proof (induction "is" arbitrary: t)
  case (Cons i "is")
  show ?case unfolding insert_builtin_objects.simps
    by (rule st_then_invariant[where P = token_ok]) (simp_all add: Cons ok_insert_builtin)
qed simp

lemma ok_internal_objects_init: "token_ok t \<Longrightarrow> token_ok (snd (token_internal_objects_init sg uuid_v8 t))"
  by (simp add: token_internal_objects_init_def ok_insert_builtins)

lemma ok_new_token:
  assumes "new_token sg uuid_v8 s0 fac0 = Ok t"
  shows "token_ok t"
proof -
  obtain r s1 where op: "sg_open sg s0 = (r, s1)" by force
  let ?t1 = "\<lparr>tk_info = initial_token_info, tk_facilities = set_handles new_handles fac0,
      tk_storage = s0, tk_session_objects = [], tk_logged = KRY_UNSPEC, tk_filtermechs = None,
      tk_dedup = None\<rparr>\<lparr>tk_storage := s1\<rparr>"
  have t1: "token_ok ?t1"
    by (simp add: token_ok_def token_handles_def wf_new_handles)
  obtain t2 where t2:
      "(case r of Inr info \<Rightarrow> Ok (fill_token_info info ?t1)
        | Inl e \<Rightarrow> if rv e = CKR_CRYPTOKI_NOT_INITIALIZED then Ok (uninitialized_token_info ?t1)
                 else Inl e) = Ok t2"
      "(case token_internal_objects_init sg uuid_v8 t2 of (Inl e, _) \<Rightarrow> Inl e | (Inr _, t3) \<Rightarrow> Ok t3) = Ok t"
    using assms op by (simp add: new_token_def Let_def and_then_eq_Ok) blast
  have "token_ok t2"
    using t2(1) t1 by (auto simp del: One_nat_def split: sum.splits if_splits)
  from ok_internal_objects_init[OF this, of uuid_v8] show ?thesis
    using t2(2) by (auto split: prod.splits sum.splits)
qed

lemma ok_auth_user: "token_ok t \<Longrightarrow> token_ok (snd (auth_user sg user_type pin check_only t))"
proof -
  assume ok: "token_ok t"
  have "token_ok (t'\<lparr>tk_logged := user_type\<rparr>)"
    if "token_ok t'" "user_type = CKU_SO \<or> user_type = CKU_USER" for t' :: "'s token"
    using that by (auto simp: token_ok_def)
  then show ?thesis using ok
    by (auto simp: auth_user_def Let_def split: sum.splits prod.splits)
qed

lemma ok_login: "token_ok t \<Longrightarrow> token_ok (snd (token_login sg user_type pin t))"
  using ok_auth_user[of t user_type pin False] ok_auth_user[of t "tk_logged t" pin True]
  by (auto simp: token_login_def split: prod.splits)

lemma ok_clear: "token_ok t \<Longrightarrow> token_ok (clear_session_objects h t)"
  "token_ok t \<Longrightarrow> token_ok (clear_private_session_objects t)"
  by (simp_all add: clear_session_objects_def clear_private_session_objects_def token_ok_fold_forget)

lemma ok_logout: "token_ok t \<Longrightarrow> token_ok (snd (token_logout sg t))"
proof -
  assume "token_ok t"
  then have "token_ok (clear_private_session_objects t)" by (rule ok_clear)
  then have "token_ok ((clear_private_session_objects t)\<lparr>tk_logged := KRY_UNSPEC\<rparr>)"
    by (simp add: token_ok_def)
  then show ?thesis using \<open>token_ok t\<close>
    by (auto simp: token_logout_def Let_def split: prod.splits)
qed

lemma ok_set_pin:
  assumes "token_ok t"
  shows "token_ok (snd (set_pin sg user_type pin old t))"
proof -
  let ?put = "\<lambda>utype t1. case sg_set_user_pin sg (tk_facilities t1) utype pin (tk_storage t1) of
         (Inl e, s1) \<Rightarrow> (Inl e, t1\<lparr>tk_storage := s1\<rparr>)
       | (Inr _, s1) \<Rightarrow>
         (let t2 = t1\<lparr>tk_storage := s1\<rparr> in
          (Ok (), if utype = CKU_USER
                  then set_info_flags (ti_flags (tk_info t2) OR CKF_USER_PIN_INITIALIZED) t2
                  else t2))"
  have "token_ok (snd (st_then (if old \<noteq> [] then auth_user sg utype old True t else (Ok (), t))
      (\<lambda>_. ?put utype)))" for utype
  proof (rule st_then_invariant[where P = token_ok])
    show "token_ok (snd (if old \<noteq> [] then auth_user sg utype old True t else (Ok (), t)))"
      using ok_auth_user assms by simp
    show "token_ok s \<Longrightarrow> token_ok (snd (?put utype s))" for s
      by (simp add: Let_def split: prod.split sum.split)
  qed
  then show ?thesis using assms by (simp add: set_pin_def split: sum.split)
qed

lemma ok_initialize:
  assumes "token_ok t"
  shows "token_ok (snd (initialize sg uuid_v8 pin label t))"
proof -
  have fresh: "token_ok ((put_handles new_handles t1)\<lparr>tk_session_objects := [], tk_logged := KRY_UNSPEC\<rparr>)"
    for t1 :: "'s token"
    by (simp add: token_ok_def wf_new_handles)
  have pin: "token_ok (snd (case set_pin sg CKU_SO pin [] t3 of
           (Inl e, t4) \<Rightarrow> if rv e \<noteq> CKR_USER_TYPE_INVALID then (Inl e, t4) else (Ok (), t4)
         | (Inr _, t4) \<Rightarrow> (Ok (), t4)))" if "token_ok t3" for t3
    using ok_set_pin[OF that, of CKU_SO pin "[]"] by (auto split: prod.splits sum.splits)
  show ?thesis unfolding initialize_def Let_def
    apply (rule st_then_invariant[where P = token_ok])
     apply (simp add: assms ok_auth_user)
    apply (rule st_then_invariant[where P = token_ok])
     apply (rule token_ok_on_storage[OF fresh])
    apply (rule st_then_invariant[where P = token_ok])
     apply (rule pin, assumption)
    apply (rule st_then_invariant[where P = token_ok])
     apply (rule token_ok_on_storage, assumption)
    apply (rule st_then_invariant[where P = token_ok])
     apply (rule token_ok_on_storage, simp)
    apply (rule ok_internal_objects_init, assumption)
    done
qed

lemma ok_search_facilities:
  assumes "token_ok t" and "sg_search sg tmpl (tk_storage t) (tk_facilities t) = (rs, fac1)"
  shows "token_ok (t\<lparr>tk_facilities := fac1\<rparr>)"
  using token_ok_extends[OF assms(1)] search_extends[OF token_ok_facilities[OF assms(1)] assms(2)] by blast

lemma ok_is_dup_by: "token_ok t \<Longrightarrow> token_ok (snd (is_dup_by sg ta tb obj t))"
  using ok_search_facilities
  by (simp add: is_dup_by_def is_duplicate_def split: option.split sum.split prod.split)

lemma ok_check_dedup:
  assumes "token_ok t"
  shows "token_ok (snd (check_dedup sg obj t))"
proof -
  note dup = is_cert_obj_duplicate_def is_key_obj_duplicate_def ok_is_dup_by[OF assms] assms
  have upd: "token_ok (snd (case found of
      None \<Rightarrow> (Ok None, t1)
    | Some h \<Rightarrow>
      (case from_attributes (o_attributes obj) of
         Inl e \<Rightarrow> (Inl e, t1)
       | Inr updt \<Rightarrow>
         st_then (on_storage (sg_update sg (tk_facilities t1) h (snd (remove_attr CKA_UNIQUE_ID updt))) t1)
           (\<lambda>_ t2. (Ok (Some h), t2)))))" if "token_ok t1" for found t1
  proof -
    have "token_ok (snd (st_then (on_storage f t1) (\<lambda>_ t2. (Ok (Some h), t2))))"
      for f :: "'s \<Rightarrow> unit result \<times> 's" and h :: ck_ulong
      by (rule st_then_invariant[where P = token_ok]) (simp_all add: token_ok_on_storage that)
    then show ?thesis using that by (simp split: option.split sum.split)
  qed
  show ?thesis
  proof (cases "tk_dedup t")
    case None
    have "token_ok (snd (st_then (is_cert_obj_duplicate sg obj t) (\<lambda>found t1.
           if found \<noteq> None then (Err CKR_ATTRIBUTE_VALUE_INVALID, t1)
           else (Ok (None :: ck_ulong option), t1))))"
      by (rule st_then_invariant[where P = token_ok]) (simp_all add: dup)
    then show ?thesis using None assms by (simp add: check_dedup_def Let_def)
  next
    case (Some dedup)
    show ?thesis unfolding check_dedup_def Let_def Some option.case
      by (rule st_then_invariant[where P = token_ok])
        (simp add: dup split: objects_dedup.split, rule upd, assumption)
  qed
qed

lemma ok_create_object: "token_ok t \<Longrightarrow> token_ok (snd (create_object sg uuid s_handle template t))"
proof -
  assume ok: "token_ok t"
  have "token_ok (snd (st_then (check_dedup sg obj t) (\<lambda>found t1.
            case found of
              Some h \<Rightarrow> (Ok h, t1)
            | None \<Rightarrow> insert_object sg s_handle obj t1)))" for obj
    by (rule st_then_invariant[where P = token_ok])
      (simp_all add: ok_check_dedup[OF ok] ok_insert_object split: option.split)
  then show ?thesis
    using ok ok_insert_object[OF ok] by (simp add: create_object_def split: sum.split)
qed

lemma ok_copy_object: "token_ok t \<Longrightarrow> token_ok (snd (copy_object sg uuid s_handle oh template t))"
  using ok_insert_object by (simp add: copy_object_def split: sum.split)

lemma ok_destroy_object: "token_ok t \<Longrightarrow> token_ok (snd (destroy_object sg oh t))"
  by (simp add: destroy_object_def token_ok_forget token_ok_on_storage split: option.split sum.split)

lemma ok_set_object_attrs:
  assumes "token_ok t"
  shows "token_ok (snd (set_object_attrs sg oh template t))"
proof (cases "session_object oh t")
  case None
  then show ?thesis using assms
    by (simp add: set_object_attrs_def Let_def token_ok_on_storage split: sum.split)
next
  case (Some obj)
  then have "(oh, obj) \<in> set (tk_session_objects t)"
    by (simp add: session_object_def map_of_SomeD)
  then have obj: "o_handle obj = oh" "handles_get oh (token_handles t) \<noteq> None"
    using assms by (auto simp: token_ok_def)
  have "token_ok (put_session_object oh obj1 t)"
    if "set_object_attributes fd obj template = (r, obj1)" for fd r obj1
    using token_ok_put_session_object[OF assms _ obj(2)] set_object_attributes_handle[OF that] obj(1) by simp
  then show ?thesis using Some assms
    by (auto simp: set_object_attrs_def split: sum.split prod.split)
qed

lemma ok_search_objects: "token_ok t \<Longrightarrow> token_ok (snd (search_objects sg t template))"
  using ok_search_facilities by (simp add: search_objects_def Let_def split: sum.split prod.split)

lemma search_objects_mapped:
  assumes ok: "token_ok t" and run: "search_objects sg t template = (Ok hs, t')" and h: "h \<in> set hs"
  shows "handles_get h (token_handles t') \<noteq> None"
proof -
  obtain tmpl shs fac1 where s: "sg_search sg tmpl (tk_storage t) (tk_facilities t) = (Ok shs, fac1)"
      "t' = t\<lparr>tk_facilities := fac1\<rparr>"
      "h \<in> set shs \<or> (\<exists>p \<in> set (tk_session_objects t). h = o_handle (snd p))"
  proof -
    obtain tmpl rs fac1 where a: "sg_search sg tmpl (tk_storage t) (tk_facilities t) = (rs, fac1)"
        "t' = t\<lparr>tk_facilities := fac1\<rparr>"
        "and_then rs (\<lambda>shs. Ok (map (\<lambda>p. o_handle (snd p))
          (filter (\<lambda>p. session_matches (fac_factories (tk_facilities t)) template (snd p))
            (tk_session_objects t)) @ shs)) = Ok hs"
      using run by (auto simp: search_objects_def Let_def split: sum.splits prod.splits)
    then obtain shs where "rs = Ok shs" and hs: "hs = map (\<lambda>p. o_handle (snd p))
          (filter (\<lambda>p. session_matches (fac_factories (tk_facilities t)) template (snd p))
            (tk_session_objects t)) @ shs"
      by (auto simp: and_then_eq_Ok)
    moreover have "h \<in> set shs \<or> (\<exists>p \<in> set (tk_session_objects t). h = o_handle (snd p))"
      using h unfolding hs by auto
    ultimately show thesis using a that by blast
  qed
  note wf = token_ok_facilities[OF ok]
  show ?thesis
  proof (cases "h \<in> set shs")
    case True
    then show ?thesis using search_maps[OF wf s(1)] s(2) by (simp add: token_handles_def)
  next
    case False
    then have "handles_get h (token_handles t) \<noteq> None"
      using s(3) ok by (auto simp: token_ok_def)
    then show ?thesis
      using search_extends[OF wf s(1)] s(2) by (auto simp: extends_def token_handles_def)
  qed
qed

end

interpretation tok: token_storage "std_storage raw" for raw
  unfolding token_storage_def by (simp add: std_storage_def std.object_storage_axioms)

section \<open>Reachable tokens\<close>

text \<open>A token of the standard storage after any sequence of operations, failed ones included.\<close>

inductive token_reachable :: "'r storage_raw \<Rightarrow> 'r std_storage token \<Rightarrow> bool" for raw where
  created: "new_token (std_storage raw) uuid_v8 s0 fac0 = Ok t \<Longrightarrow> token_reachable raw t"
| logged_in: "token_reachable raw t \<Longrightarrow>
    token_reachable raw (snd (token_login (std_storage raw) user_type pin t))"
| logged_out: "token_reachable raw t \<Longrightarrow> token_reachable raw (snd (token_logout (std_storage raw) t))"
| pin_set: "token_reachable raw t \<Longrightarrow>
    token_reachable raw (snd (set_pin (std_storage raw) user_type pin old t))"
| initialized: "token_reachable raw t \<Longrightarrow>
    token_reachable raw (snd (initialize (std_storage raw) uuid_v8 pin label t))"
| object_created: "token_reachable raw t \<Longrightarrow>
    token_reachable raw (snd (create_object (std_storage raw) uuid s_handle template t))"
| object_inserted: "token_reachable raw t \<Longrightarrow>
    token_reachable raw (snd (insert_object (std_storage raw) s_handle obj t))"
| object_copied: "token_reachable raw t \<Longrightarrow>
    token_reachable raw (snd (copy_object (std_storage raw) uuid s_handle oh template t))"
| object_changed: "token_reachable raw t \<Longrightarrow>
    token_reachable raw (snd (set_object_attrs (std_storage raw) oh template t))"
| object_destroyed: "token_reachable raw t \<Longrightarrow>
    token_reachable raw (snd (destroy_object (std_storage raw) oh t))"
| searched: "token_reachable raw t \<Longrightarrow>
    token_reachable raw (snd (search_objects (std_storage raw) t template))"
| session_dropped: "token_reachable raw t \<Longrightarrow> token_reachable raw (drop_session_objects s_handle t)"
| saved: "token_reachable raw t \<Longrightarrow> token_reachable raw (snd (token_save (std_storage raw) t))"
| allowed: "token_reachable raw t \<Longrightarrow> token_reachable raw (set_mech_allow_list ms t)"
| denied: "token_reachable raw t \<Longrightarrow> token_reachable raw (set_mech_deny_list ms t)"
| dedup_set: "token_reachable raw t \<Longrightarrow> token_reachable raw (set_dedup dd t)"

lemma token_reachable_ok: "token_reachable raw t \<Longrightarrow> token_ok t"
  by (induction rule: token_reachable.induct)
    (auto simp: tok.ok_new_token tok.ok_login tok.ok_logout tok.ok_set_pin tok.ok_initialize
      tok.ok_create_object tok.ok_insert_object tok.ok_copy_object tok.ok_set_object_attrs
      tok.ok_destroy_object tok.ok_search_objects drop_session_objects_def tok.ok_clear
      token_save_def set_mech_allow_list_def set_mech_deny_list_def set_dedup_def split: prod.split)

text \<open>
  C31. A token is consistent in every reachable state (\<^verbatim>\<open>src/src/token.rs\<close> over
  \<^verbatim>\<open>StdStorageFormat\<close> and any backend, whatever fails): the handle map is a bijection between handles and
  unique ids; a session object is stored once, under its own handle, and that handle is mapped;
  and the login is one of nobody, the security officer and the user.
\<close>

theorem token_consistent:
  assumes "token_reachable raw t"
  shows "(\<forall>h u. handles_get h (token_handles t) = Some u \<longleftrightarrow> handles_get_by_uid u (token_handles t) = Some h) \<and>
    distinct (map fst (tk_session_objects t)) \<and>
    (\<forall>(h, obj) \<in> set (tk_session_objects t). o_handle obj = h \<and> handles_get h (token_handles t) \<noteq> None) \<and>
    tk_logged t \<in> {KRY_UNSPEC, CKU_SO, CKU_USER}"
  using token_reachable_ok[OF assms] hm.bijective unfolding token_ok_def by blast

text \<open>
  Searching gives only handles of objects: every handle that \<^verbatim>\<open>search_objects\<close> returns, of session
  objects and of stored ones, is mapped to a unique id afterwards, and the handles known before the
  search still mean the same objects.
\<close>

theorem search_returns_mapped_handles:
  assumes "token_reachable raw t" and "search_objects (std_storage raw) t template = (Ok hs, t')"
  shows "(\<forall>h \<in> set hs. handles_get h (token_handles t') \<noteq> None) \<and>
    (\<forall>h u. handles_get h (token_handles t) = Some u \<longrightarrow> handles_get h (token_handles t') = Some u)"
proof -
  note ok = token_reachable_ok[OF assms(1)]
  obtain tmpl rs fac1 where a: "std_search raw tmpl (tk_storage t) (tk_facilities t) = (rs, fac1)"
      "t' = t\<lparr>tk_facilities := fac1\<rparr>"
    using assms(2) by (auto simp: search_objects_def std_storage_def Let_def split: sum.splits prod.splits)
  have "extends (tk_facilities t) fac1"
    by (rule std.search_extends[OF token_ok_facilities[OF ok] a(1)])
  then have "\<forall>h u. handles_get h (token_handles t) = Some u \<longrightarrow> handles_get h (token_handles t') = Some u"
    using a(2) by (simp add: extends_def token_handles_def)
  then show ?thesis using tok.search_objects_mapped[OF ok assms(2)] by blast
qed

definition private_session_object :: "object \<Rightarrow> bool" where
  "private_session_object obj \<longleftrightarrow> o_session obj \<noteq> CK_INVALID_HANDLE \<and> is_private obj"

lemma key_in_filter:
  assumes "distinct (map fst xs)" and "(k, v) \<in> set xs"
  shows "k \<in> set (map fst (filter (\<lambda>p. P (snd p)) xs)) \<longleftrightarrow> P v"
proof -
  have "P w \<longleftrightarrow> P v" if "(k, w) \<in> set xs" for w
    using eq_key_imp_eq_value[OF assms(1) that assms(2)] by simp
  moreover have "k \<in> set (map fst (filter (\<lambda>p. P (snd p)) xs)) \<longleftrightarrow> (\<exists>w. (k, w) \<in> set xs \<and> P w)"
    by (induction xs) auto
  ultimately show ?thesis using assms(2) by blast
qed

lemma clear_private_effect:
  assumes "token_ok t"
  shows "tk_session_objects (clear_private_session_objects t) =
      filter (\<lambda>p. \<not> private_session_object (snd p)) (tk_session_objects t)"
    and "handles_get h (token_handles (clear_private_session_objects t)) =
      (if \<exists>obj. (h, obj) \<in> set (tk_session_objects t) \<and> private_session_object obj then None
       else handles_get h (token_handles t))"
proof -
  let ?hs = "map fst (filter (\<lambda>p. private_session_object (snd p)) (tk_session_objects t))"
  have c: "clear_private_session_objects t = fold forget_handle ?hs t"
    by (simp add: clear_private_session_objects_def private_session_object_def)
  have d: "distinct (map fst (tk_session_objects t))" using assms by (simp add: token_ok_def)
  show "tk_session_objects (clear_private_session_objects t) =
      filter (\<lambda>p. \<not> private_session_object (snd p)) (tk_session_objects t)"
    unfolding c fold_forget
  proof (rule filter_cong[OF refl])
    fix p assume "p \<in> set (tk_session_objects t)"
    then show "fst p \<notin> set ?hs \<longleftrightarrow> \<not> private_session_object (snd p)"
      using key_in_filter[OF d, of "fst p" "snd p" private_session_object] by simp
  qed
  have "h \<in> set ?hs \<longleftrightarrow> (\<exists>obj. (h, obj) \<in> set (tk_session_objects t) \<and> private_session_object obj)"
    by force
  then show "handles_get h (token_handles (clear_private_session_objects t)) =
      (if \<exists>obj. (h, obj) \<in> set (tk_session_objects t) \<and> private_session_object obj then None
       else handles_get h (token_handles t))"
    unfolding c fold_forget by (rule if_cong) simp_all
qed

lemma token_logout_effect:
  assumes "token_ok t" and "tk_logged t \<noteq> KRY_UNSPEC" and "token_logout sg t = (ret, t')"
  shows "tk_logged t' = KRY_UNSPEC"
    and "tk_session_objects t' = tk_session_objects (clear_private_session_objects t)"
    and "token_handles t' = token_handles (clear_private_session_objects t)"
  using assms by (auto simp: token_ok_def token_logout_def Let_def split: prod.splits)

text \<open>
  A logout (\<^verbatim>\<open>Token::logout\<close>) removes exactly the private session objects, with their handles, and
  leaves the other session objects and handles as they are; nobody is logged in afterwards, also
  when the storage reports a failure; and without a login it is refused and changes nothing.
\<close>

theorem logout_removes_private_objects:
  assumes "token_reachable raw t"
  shows "case token_logout (std_storage raw) t of (ret, t') \<Rightarrow>
    if tk_logged t = KRY_UNSPEC then ret = CKR_USER_NOT_LOGGED_IN \<and> t' = t
    else tk_logged t' = KRY_UNSPEC \<and>
      tk_session_objects t' =
        filter (\<lambda>p. \<not> private_session_object (snd p)) (tk_session_objects t) \<and>
      (\<forall>h. handles_get h (token_handles t') =
        (if \<exists>obj. (h, obj) \<in> set (tk_session_objects t) \<and> private_session_object obj then None
         else handles_get h (token_handles t)))"
proof (cases "tk_logged t = KRY_UNSPEC")
  case True
  then show ?thesis by (simp add: token_logout_def)
next
  case False
  obtain ret t' where run: "token_logout (std_storage raw) t = (ret, t')" by force
  note ok = token_reachable_ok[OF assms]
  show ?thesis
    using token_logout_effect[OF ok False run] clear_private_effect[OF ok] False by (simp add: run)
qed

text \<open>
  A new session object (\<^verbatim>\<open>insert_object\<close>) gets a handle that meant nothing before and that
  means its unique id afterwards; the object is found under the handle, as it was given but for
  its handle and session; every other handle and session object is as it was.
\<close>

theorem insert_session_object:
  assumes "token_reachable raw t" and "\<not> is_token obj"
    and run: "insert_object (std_storage raw) s_handle obj t = (Ok h, t')"
  shows "handles_get h (token_handles t) = None \<and> session_object h t = None \<and>
    get_attr_as_string CKA_UNIQUE_ID obj = Ok (the (handles_get h (token_handles t'))) \<and>
    handles_get h (token_handles t') \<noteq> None \<and>
    session_object h t' = Some (set_session s_handle (set_handle h obj)) \<and>
    (\<forall>k. k \<noteq> h \<longrightarrow> handles_get k (token_handles t') = handles_get k (token_handles t) \<and>
      session_object k t' = session_object k t) \<and>
    tk_storage t' = tk_storage t \<and> tk_logged t' = tk_logged t"
proof -
  note ok = token_reachable_ok[OF assms(1)]
  obtain hs where nx: "handles_next (token_handles t) = (h, hs)"
      and i: "\<exists>u hs1. get_attr_as_string CKA_UNIQUE_ID obj = Ok u \<and> handles_insert h u hs = Ok hs1 \<and>
        t' = put_session_object h (set_session s_handle (set_handle h obj)) (put_handles hs1 t)"
    using run assms(2)
    by (auto simp: insert_object_def Let_def get_attr_handle attr_as_defs split: prod.splits sum.splits)
  obtain u hs1 where u: "get_attr_as_string CKA_UNIQUE_ID obj = Ok u" "handles_insert h u hs = Ok hs1"
      "t' = put_session_object h (set_session s_handle (set_handle h obj)) (put_handles hs1 t)"
    using i by blast
  have wf: "wf_handles (token_handles t)" using ok by (simp add: token_ok_def)
  note a = hm.allocate[OF wf nx u(2)]
  have th: "token_handles t' = hs1" by (simp add: u(3) put_session_object_def)
  have "h \<notin> fst ` set (tk_session_objects t)"
    using a ok by (fastforce simp: token_ok_def)
  then have "session_object h t = None" by (simp add: session_object_def map_of_eq_None_iff)
  then show ?thesis
    using a u th by (simp add: session_object_def put_session_object_def update_conv')
qed

text \<open>The storage does not report a failed authentication with the code of a success.\<close>

definition honest_auth :: "'s storage \<Rightarrow> ck_ulong \<Rightarrow> bytes \<Rightarrow> 's token \<Rightarrow> bool" where
  "honest_auth sg user_type pin t \<longleftrightarrow>
    (case fst (sg_auth_user sg (tk_facilities t) user_type pin False (0, tk_storage t)) of
       Inl e \<Rightarrow> rv e \<noteq> CKR_OK
     | Inr _ \<Rightarrow> True)"

lemma auth_flags_sel [simp]:
  "tk_logged (update_auth_flags ut f t) = tk_logged t"
  "tk_session_objects (update_auth_flags ut f t) = tk_session_objects t"
  "tk_facilities (update_auth_flags ut f t) = tk_facilities t"
  "tk_storage (update_auth_flags ut f t) = tk_storage t"
  by (simp_all add: update_auth_flags_def set_info_flags_def)

lemma auth_user_effect:
  assumes "auth_user sg user_type pin check_only t = (r, t')"
  shows "tk_logged t' = (if is_ok r \<and> \<not> check_only then user_type else tk_logged t)"
    and "tk_session_objects t' = tk_session_objects t" and "tk_facilities t' = tk_facilities t"
    and "is_ok r \<Longrightarrow> user_type = CKU_SO \<or> user_type = CKU_USER"
  using assms by (auto simp: auth_user_def Let_def split: prod.splits sum.splits if_splits)

lemma honest_auth_rv:
  assumes "honest_auth sg user_type pin t" and "auth_user sg user_type pin False t = (r, t')"
  shows "result_rv r = CKR_OK \<longleftrightarrow> is_ok r"
  using assms
  by (auto simp: honest_auth_def auth_user_def result_rv_def Let_def split: prod.splits sum.splits if_splits)

lemma token_login_effect:
  assumes "token_login sg user_type pin t = (ret, t')"
  shows "tk_session_objects t' = tk_session_objects t" and "tk_facilities t' = tk_facilities t"
    and "user_type = CKU_CONTEXT_SPECIFIC \<Longrightarrow> tk_logged t' = tk_logged t"
    and "user_type \<noteq> CKU_CONTEXT_SPECIFIC \<Longrightarrow> honest_auth sg user_type pin t \<Longrightarrow>
      if ret = CKR_OK then tk_logged t = KRY_UNSPEC \<and> tk_logged t' = user_type \<and>
        (user_type = CKU_SO \<or> user_type = CKU_USER)
      else tk_logged t' = tk_logged t"
proof -
  obtain r1 t1 where a1: "auth_user sg user_type pin False t = (r1, t1)" by force
  obtain r2 t2 where a2: "auth_user sg (tk_logged t) pin True t = (r2, t2)" by force
  note e1 = auth_user_effect[OF a1] and e2 = auth_user_effect[OF a2]
  show "tk_session_objects t' = tk_session_objects t" "tk_facilities t' = tk_facilities t"
    using assms e1(2,3) e2(2,3) by (auto simp: token_login_def a1 a2 split: if_splits)
  show "user_type = CKU_CONTEXT_SPECIFIC \<Longrightarrow> tk_logged t' = tk_logged t"
    using assms e2(1) by (auto simp: token_login_def a2)
  assume "user_type \<noteq> CKU_CONTEXT_SPECIFIC" and "honest_auth sg user_type pin t"
  then show "if ret = CKR_OK then tk_logged t = KRY_UNSPEC \<and> tk_logged t' = user_type \<and>
        (user_type = CKU_SO \<or> user_type = CKU_USER)
      else tk_logged t' = tk_logged t"
    using assms honest_auth_rv[OF _ a1] e1(1) by (auto simp: token_login_def a1 split: if_splits)
qed

text \<open>
  The login state of a token (\<^verbatim>\<open>Token::login\<close>): a login succeeds only when nobody is logged in, and
  then exactly the given user is; a failed login and a context-specific one, which checks the PIN of
  whoever is logged in, leave the login as it is; a repeated login and a login of the other user are
  refused with their codes and change nothing. Objects and handles never change.
\<close>

theorem token_login_machine:
  assumes "token_login sg user_type pin t = (ret, t')" and "honest_auth sg user_type pin t"
  shows "(if user_type = CKU_CONTEXT_SPECIFIC \<or> ret \<noteq> CKR_OK then tk_logged t' = tk_logged t
     else tk_logged t = KRY_UNSPEC \<and> tk_logged t' = user_type \<and> user_type \<in> {CKU_SO, CKU_USER}) \<and>
    (user_type \<in> {CKU_SO, CKU_USER} \<and> tk_logged t \<noteq> KRY_UNSPEC \<longrightarrow> t' = t \<and>
      ret = (if tk_logged t = user_type then CKR_USER_ALREADY_LOGGED_IN
             else CKR_USER_ANOTHER_ALREADY_LOGGED_IN)) \<and>
    (user_type \<notin> {CKU_SO, CKU_USER, CKU_CONTEXT_SPECIFIC} \<longrightarrow> ret = CKR_USER_TYPE_INVALID \<and> t' = t) \<and>
    tk_session_objects t' = tk_session_objects t \<and> tk_facilities t' = tk_facilities t"
proof -
  note e = token_login_effect[OF assms(1)]
  have "user_type \<in> {CKU_SO, CKU_USER} \<and> tk_logged t \<noteq> KRY_UNSPEC \<longrightarrow> t' = t \<and>
      ret = (if tk_logged t = user_type then CKR_USER_ALREADY_LOGGED_IN
             else CKR_USER_ANOTHER_ALREADY_LOGGED_IN)"
    using assms(1) by (auto simp: token_login_def split: if_splits)
  moreover have "user_type \<notin> {CKU_SO, CKU_USER, CKU_CONTEXT_SPECIFIC} \<longrightarrow>
      ret = CKR_USER_TYPE_INVALID \<and> t' = t"
  proof
    assume "user_type \<notin> {CKU_SO, CKU_USER, CKU_CONTEXT_SPECIFIC}"
    then show "ret = CKR_USER_TYPE_INVALID \<and> t' = t"
      using assms(1) by (simp add: token_login_def)
  qed
  moreover have "if user_type = CKU_CONTEXT_SPECIFIC \<or> ret \<noteq> CKR_OK then tk_logged t' = tk_logged t
      else tk_logged t = KRY_UNSPEC \<and> tk_logged t' = user_type \<and> user_type \<in> {CKU_SO, CKU_USER}"
    using e(3) e(4)[OF _ assms(2)]
    by (cases "user_type = CKU_CONTEXT_SPECIFIC"; cases "ret = CKR_OK") simp_all
  ultimately show ?thesis using e(1,2) by (intro conjI)
qed

section \<open>A sample token\<close>

definition both_users :: "(bytes \<Rightarrow> storage_auth_info option) std_storage" where
  "both_users = \<lparr>st_store = [SO_ID \<mapsto> sample_user, USER_ID \<mapsto> sample_user], st_aci = unauth sample_aci\<rparr>"

lemma sample_token_ok: "is_ok (new_token (std_storage user_raw) (\<lambda>_. [0x75]) both_users sample_fac)"
  by (simp add: new_token_def std_storage_def std_open_def lift_raw_def user_raw_def init_pin_flags_def
      both_users_def token_internal_objects_init_def get_mechs_list_def get_mechanisms_def mechs_list_def
      sample_fac_def set_handles_def fill_token_info_def Let_def SO_ID_def USER_ID_def)

definition sample_token :: "(bytes \<Rightarrow> storage_auth_info option) std_storage token" where
  "sample_token =
    (case new_token (std_storage user_raw) (\<lambda>_. [0x75]) both_users sample_fac of Inr t \<Rightarrow> t)"

lemma sample_token_new: "new_token (std_storage user_raw) (\<lambda>_. [0x75]) both_users sample_fac = Ok sample_token"
  using sample_token_ok by (auto simp: sample_token_def is_ok_iff)

lemmas sample_token_reachable = token_reachable.created[OF sample_token_new]

lemma sample_token_sel:
  "tk_logged sample_token = KRY_UNSPEC" "tk_session_objects sample_token = []"
  "tk_facilities sample_token = sample_fac" "tk_storage sample_token = both_users"
  by (simp_all add: sample_token_def new_token_def std_storage_def std_open_def lift_raw_def user_raw_def init_pin_flags_def
      both_users_def token_internal_objects_init_def get_mechs_list_def get_mechanisms_def mechs_list_def
      sample_fac_def set_handles_def fill_token_info_def Let_def SO_ID_def USER_ID_def)

lemma honest_sample: "honest_auth (std_storage user_raw) CKU_USER [0x31, 0x32] sample_token"
  using master_key_ok
  by (auto simp: honest_auth_def sample_token_sel std_storage_def std_auth_user_def get_pin_uid_def
      both_users_def user_raw_def SO_ID_def USER_ID_def authenticate_def locked_def sample_fac_def
      checked_pin_def sample_decrypt[unfolded USER_ID_def] unauth_def sample_aci_def is_ok_iff Let_def)

lemma sample_login_ok:
  "fst (token_login (std_storage user_raw) CKU_USER [0x31, 0x32] sample_token) = CKR_OK"
  using master_key_ok
  by (auto simp: token_login_def auth_user_def sample_token_sel std_storage_def std_auth_user_def get_pin_uid_def
      both_users_def user_raw_def SO_ID_def USER_ID_def authenticate_def locked_def sample_fac_def
      checked_pin_def sample_decrypt[unfolded USER_ID_def] unauth_def sample_aci_def is_ok_iff Let_def
      result_rv_def split: sum.splits prod.splits)

theorem token_login_machine_witness:
  "tk_logged (snd (token_login (std_storage user_raw) CKU_USER [0x31, 0x32] sample_token)) = CKU_USER"
  using token_login_machine[OF prod.collapse[symmetric] honest_sample] sample_login_ok by simp

definition user_token :: "(bytes \<Rightarrow> storage_auth_info option) std_storage token" where
  "user_token = snd (token_login (std_storage user_raw) CKU_USER [0x31, 0x32] sample_token)"

lemma user_token_reachable: "token_reachable user_raw user_token"
  unfolding user_token_def by (rule token_reachable.logged_in[OF sample_token_reachable])

theorem token_consistent_witness: "tk_logged user_token \<in> {KRY_UNSPEC, CKU_SO, CKU_USER}"
  using token_consistent[OF user_token_reachable] by blast

lemma user_token_logged: "tk_logged user_token = CKU_USER"
  using token_login_effect(4)[OF prod.collapse[symmetric] _ honest_sample] sample_login_ok
  by (simp add: user_token_def)

theorem logout_removes_private_objects_witness:
  "tk_logged (snd (token_logout (std_storage user_raw) user_token)) = KRY_UNSPEC"
  using logout_removes_private_objects[OF user_token_reachable] user_token_logged
  by (simp add: case_prod_beta)

definition sample_session_object :: object where
  "sample_session_object = (new_object CKO_DATA)\<lparr>o_attributes := [from_string CKA_UNIQUE_ID [0x61]]\<rparr>"

lemma sample_session_object_sel:
  "\<not> is_token sample_session_object" "\<not> is_sensitive (set_session 5 (set_handle 1 sample_session_object))"
  by (simp_all add: is_token_def is_sensitive_def bool_checker_def sample_session_object_def get_attr_def
      from_string_def set_session_def set_handle_def new_object_def is_secret_class_def)

definition inserted_token :: "(bytes \<Rightarrow> storage_auth_info option) std_storage token" where
  "inserted_token = snd (insert_object (std_storage user_raw) 5 sample_session_object sample_token)"

lemmas inserted_token_reachable =
  token_reachable.object_inserted[OF sample_token_reachable, of 5 sample_session_object, folded inserted_token_def]

lemma sample_insert:
  "insert_object (std_storage user_raw) 5 sample_session_object sample_token = (Ok 1, inserted_token)"
  "tk_session_objects inserted_token = [(1, set_session 5 (set_handle 1 sample_session_object))]"
  "tk_logged inserted_token = KRY_UNSPEC" "tk_storage inserted_token = both_users"
  unfolding inserted_token_def insert_object_def if_not_P[OF sample_session_object_sel(1)]
  by (simp_all add: insert_object_def sample_token_sel token_handles_def sample_fac_def new_handles_def
      handles_next_def handles_insert_def attr_as_defs get_attr_def put_handles_def
      set_session_def set_handle_def from_string_def to_string_def new_object_def from_utf8_def Let_def
      put_session_object_def set_handles_def sample_session_object_def
      )

lemma sample_search:
  "\<exists>t'. search_objects (std_storage user_raw) inserted_token [] = (Ok [1], t')"
  using sample_session_object_sel(2)
  by (simp add: search_objects_def sample_insert is_logged_in_def add_owned_bool_def add_slice_Ok
      std_storage_def std_search_def user_raw_def both_users_def session_matches_def obj_match_template_def
      set_session_def set_handle_def)

theorem search_returns_mapped_handles_witness:
  "handles_get 1 (token_handles (snd (search_objects (std_storage user_raw) inserted_token []))) \<noteq> None"
proof -
  obtain t' where "search_objects (std_storage user_raw) inserted_token [] = (Ok [1], t')"
    using sample_search by blast
  from search_returns_mapped_handles[OF inserted_token_reachable this] show ?thesis
    by (simp add: \<open>search_objects _ _ _ = _\<close>)
qed

theorem insert_session_object_witness:
  "session_object 1 inserted_token = Some (set_session 5 (set_handle 1 sample_session_object))"
  using insert_session_object[OF sample_token_reachable sample_session_object_sel(1) sample_insert(1)] by blast

end
