(* ===== verification/Library_Frames.thy ===== *)
theory Library_Frames
  imports Object_Api Token_Laws
begin

text \<open>
  The consistency of the state of the library and what keeps it: what the operations of a token do to
  its login, the invariant of \<^verbatim>\<open>State\<close> (\<^verbatim>\<open>src/src/lib.rs\<close>) over the slots, and the ways in which the
  functions of the interface write to the state.
\<close>

declare map_of_eq_Some_iff [simp del]

section \<open>What the token operations do to the login\<close>

definition same_login :: "'s token \<Rightarrow> 's token \<Rightarrow> bool" where
  "same_login t t' \<longleftrightarrow> tk_logged t' = tk_logged t \<and> tk_info t' = tk_info t"

named_theorems login_frame

lemma same_login_refl [simp]: "same_login t t"
  by (simp add: same_login_def)

lemma same_login_upd [simp]:
  "same_login t0 (t\<lparr>tk_storage := s\<rparr>) = same_login t0 t"
  "same_login t0 (t\<lparr>tk_facilities := fac\<rparr>) = same_login t0 t"
  "same_login t0 (t\<lparr>tk_session_objects := so\<rparr>) = same_login t0 t"
  "same_login t0 (put_handles hs t) = same_login t0 t"
  "same_login t0 (put_session_object h obj t) = same_login t0 t"
  "same_login t0 (forget_handle h t) = same_login t0 t"
  by (simp_all add: same_login_def put_session_object_def)

lemma same_login_on_storage [login_frame]:
  "same_login t0 t \<Longrightarrow> same_login t0 (snd (on_storage f t))"
  by (simp add: on_storage_def split: prod.split)

lemma same_login_insert [login_frame]:
  "same_login t0 t \<Longrightarrow> same_login t0 (snd (insert_object sg h obj t))"
  by (simp add: insert_object_def Let_def split: prod.split sum.split)

lemma same_login_dup_by [login_frame]:
  "same_login t0 t \<Longrightarrow> same_login t0 (snd (is_dup_by sg ta tb obj t))"
  by (simp add: is_dup_by_def is_duplicate_def split: option.split sum.split prod.split)

lemma same_login_check_dedup [login_frame]:
  assumes "same_login t0 t"
  shows "same_login t0 (snd (check_dedup sg obj t))"
proof -
  note dup = is_cert_obj_duplicate_def is_key_obj_duplicate_def same_login_dup_by[OF assms] assms
  have upd: "same_login t0 (snd (st_then (on_storage f t1) (\<lambda>_ t2. (Ok (Some h), t2))))"
    if "same_login t0 t1" for f :: "'a \<Rightarrow> unit result \<times> 'a" and h :: ck_ulong and t1
    by (rule st_then_invariant[where P = "same_login t0"]) (simp_all add: login_frame that)
  show ?thesis
  proof (cases "tk_dedup t")
    case None
    have "same_login t0 (snd (st_then (is_cert_obj_duplicate sg obj t) (\<lambda>found t1.
           if found \<noteq> None then (Err CKR_ATTRIBUTE_VALUE_INVALID, t1)
           else (Ok (None :: ck_ulong option), t1))))"
      by (rule st_then_invariant[where P = "same_login t0"]) (simp_all add: dup)
    then show ?thesis using None assms by (simp add: check_dedup_def Let_def)
  next
    case (Some dedup)
    show ?thesis unfolding check_dedup_def Let_def Some option.case
      by (rule st_then_invariant[where P = "same_login t0"])
        (simp_all add: dup upd split: objects_dedup.split option.split sum.split)
  qed
qed

lemma same_login_create [login_frame]:
  assumes "same_login t0 t"
  shows "same_login t0 (snd (create_object sg uuid h template t))"
proof -
  have "same_login t0 (snd (st_then (check_dedup sg obj t) (\<lambda>found t1.
            case found of Some k \<Rightarrow> (Ok k, t1) | None \<Rightarrow> insert_object sg h obj t1)))" for obj
    by (rule st_then_invariant[where P = "same_login t0"])
      (simp_all add: login_frame assms split: option.split)
  then show ?thesis by (simp add: create_object_def assms login_frame split: sum.split)
qed

lemma same_login_copy [login_frame]:
  "same_login t0 t \<Longrightarrow> same_login t0 (snd (copy_object sg uuid h oh template t))"
  by (simp add: copy_object_def login_frame split: sum.split)

lemma same_login_destroy [login_frame]:
  "same_login t0 t \<Longrightarrow> same_login t0 (snd (destroy_object sg oh t))"
  by (simp add: destroy_object_def login_frame split: option.split sum.split)

lemma same_login_set_attrs [login_frame]:
  "same_login t0 t \<Longrightarrow> same_login t0 (snd (set_object_attrs sg oh template t))"
  by (auto simp: set_object_attrs_def Let_def login_frame split: option.split sum.split prod.split)

lemma same_login_builtins:
  "same_login t0 t \<Longrightarrow> same_login t0 (snd (insert_builtin_objects sg uuid_v8 c is t))"
proof (induction "is" arbitrary: t)
  case (Cons i ids)
  have one: "same_login t0 (snd (insert_builtin_object sg uuid_v8 c i t))"
  proof -
    have "same_login t0 (snd (st_then (insert_object sg CK_INVALID_HANDLE obj t) (\<lambda>_ t1. (Ok (), t1))))" for obj
      by (rule st_then_invariant[where P = "same_login t0"]) (simp_all add: same_login_insert Cons.prems)
    then show ?thesis using Cons.prems by (simp add: insert_builtin_object_def split: sum.split)
  qed
  show ?case unfolding insert_builtin_objects.simps
    by (rule st_then_invariant[where P = "same_login t0"]) (simp_all add: one Cons.IH)
qed simp

lemma same_login_search [login_frame]:
  "same_login t0 t \<Longrightarrow> same_login t0 (snd (search_objects sg t template))"
  by (simp add: search_objects_def Let_def split: sum.split prod.split)

lemma same_login_drop [login_frame]: "same_login t0 (drop_session_objects h t) = same_login t0 t"
  by (simp add: same_login_def drop_session_objects_def clear_session_objects_def fold_forget)

lemma same_login_drop_all: "same_login t0 (fold drop_session_objects hs t) = same_login t0 t"
  by (induction hs arbitrary: t) (simp_all add: login_frame)

text \<open>The operations on PINs keep the token initialized.\<close>

lemma flags_keep_initialized:
  fixes x m y :: ck_ulong
  assumes "x AND CKF_TOKEN_INITIALIZED = CKF_TOKEN_INITIALIZED" and "m AND CKF_TOKEN_INITIALIZED = 0"
  shows "(x AND NOT m OR y) AND CKF_TOKEN_INITIALIZED = CKF_TOKEN_INITIALIZED"
proof -
  have "bit (x AND NOT m OR y) n" if "bit CKF_TOKEN_INITIALIZED n" for n
    using assms that by (auto simp: bit_eq_iff bit_simps)
  then show ?thesis by (auto simp: bit_eq_iff bit_simps)
qed

lemma initialized_or: 
  fixes x y :: ck_ulong
  shows "x AND CKF_TOKEN_INITIALIZED = CKF_TOKEN_INITIALIZED \<Longrightarrow>
    (x OR y) AND CKF_TOKEN_INITIALIZED = CKF_TOKEN_INITIALIZED"
  using flags_keep_initialized[of x 0 y] by simp

lemma initialized_auth_flags:
  "is_initialized t \<Longrightarrow> is_initialized (update_auth_flags ut f t)"
  using flags_keep_initialized[of "ti_flags (tk_info t)"
      "CKF_USER_PIN_LOCKED OR CKF_USER_PIN_FINAL_TRY OR CKF_USER_PIN_COUNT_LOW" f]
    flags_keep_initialized[of "ti_flags (tk_info t)"
      "CKF_SO_PIN_LOCKED OR CKF_SO_PIN_FINAL_TRY OR CKF_SO_PIN_COUNT_LOW" f]
  by (simp add: is_initialized_def update_auth_flags_def set_info_flags_def)

lemma initialized_auth_user:
  "is_initialized t \<Longrightarrow> is_initialized (snd (auth_user sg ut pin check_only t))"
  using initialized_auth_flags[of "t\<lparr>tk_storage := s\<rparr>" for s]
  by (auto simp: auth_user_def is_initialized_def Let_def split: prod.split sum.split)

lemma initialized_login: "is_initialized t \<Longrightarrow> is_initialized (snd (token_login sg ut pin t))"
  using initialized_auth_user[of t sg] by (simp add: token_login_def case_prod_beta)

lemma logout_info [simp]: "tk_info (snd (token_logout sg t)) = tk_info t"
  by (simp add: token_logout_def clear_private_session_objects_def fold_forget Let_def split: prod.split)

lemma initialized_logout [simp]: "is_initialized (snd (token_logout sg t)) = is_initialized t"
  by (simp add: is_initialized_def)

lemma initialized_set_pin:
  assumes "is_initialized t"
  shows "is_initialized (snd (set_pin sg ut pin old t))"
proof -
  have rest: "is_initialized (snd (case sg_set_user_pin sg (tk_facilities t1) utype pin (tk_storage t1) of
         (Inl e, s1) \<Rightarrow> (Inl e, t1\<lparr>tk_storage := s1\<rparr>)
       | (Inr _, s1) \<Rightarrow>
         (let t2 = t1\<lparr>tk_storage := s1\<rparr> in
          (Ok (), if utype = CKU_USER
                  then set_info_flags (ti_flags (tk_info t2) OR CKF_USER_PIN_INITIALIZED) t2
                  else t2))))" if "is_initialized t1" for t1 utype
    using that by (auto simp: is_initialized_def set_info_flags_def initialized_or Let_def
        split: prod.split sum.split)
  have "is_initialized (snd (st_then (if old \<noteq> [] then auth_user sg utype old True t else (Ok (), t))
      (\<lambda>_ t1. case sg_set_user_pin sg (tk_facilities t1) utype pin (tk_storage t1) of
         (Inl e, s1) \<Rightarrow> (Inl e, t1\<lparr>tk_storage := s1\<rparr>)
       | (Inr _, s1) \<Rightarrow>
         (let t2 = t1\<lparr>tk_storage := s1\<rparr> in
          (Ok (), if utype = CKU_USER
                  then set_info_flags (ti_flags (tk_info t2) OR CKF_USER_PIN_INITIALIZED) t2
                  else t2)))))" for utype
    by (rule st_then_invariant[where P = is_initialized], simp add: assms initialized_auth_user, rule rest)
  then show ?thesis using assms by (simp add: set_pin_def split: sum.split)
qed

lemma set_pin_logged: "tk_logged (snd (set_pin sg ut pin old t)) = tk_logged t"
proof -
  have "tk_logged (snd (st_then (if old \<noteq> [] then auth_user sg utype old True t else (Ok (), t))
      (\<lambda>_ t1. case sg_set_user_pin sg (tk_facilities t1) utype pin (tk_storage t1) of
         (Inl e, s1) \<Rightarrow> (Inl e, t1\<lparr>tk_storage := s1\<rparr>)
       | (Inr _, s1) \<Rightarrow>
         (let t2 = t1\<lparr>tk_storage := s1\<rparr> in
          (Ok (), if utype = CKU_USER
                  then set_info_flags (ti_flags (tk_info t2) OR CKF_USER_PIN_INITIALIZED) t2
                  else t2))))) = tk_logged t" for utype
    by (rule st_then_invariant[where P = "\<lambda>t1. tk_logged t1 = tk_logged t"])
      (auto simp: set_info_flags_def Let_def auth_user_effect(1)[OF prod.collapse[symmetric]]
        split: prod.split sum.split)
  then show ?thesis by (simp add: set_pin_def split: sum.split)
qed

section \<open>The invariant of the library\<close>

text \<open>
  What a session shows of the login of its token. A session opened while the security officer is
  logged in shows a user login, so both levels are allowed then.
\<close>

definition level_agrees :: "ck_ulong \<Rightarrow> session \<Rightarrow> bool" where
  "level_agrees logged s \<longleftrightarrow>
    (case session_view (si_state (s_info s)) of
       None \<Rightarrow> False
     | Some (rw, l) \<Rightarrow>
       if logged = KRY_UNSPEC then l = Public
       else if logged = CKU_USER then l = UserIn
       else logged = CKU_SO \<and> rw \<and> l \<noteq> Public)"

definition session_fits :: "ck_ulong \<Rightarrow> 's token \<Rightarrow> session \<Rightarrow> bool" where
  "session_fits sid t s \<longleftrightarrow>
    si_slotID (s_info s) = sid \<and> session_ok s \<and> level_agrees (tk_logged t) s \<and> is_initialized t"

definition slot_ok :: "'r storage_raw \<Rightarrow> ck_ulong \<Rightarrow> 'r std_storage slot \<Rightarrow> bool" where
  "slot_ok raw sid sl \<longleftrightarrow>
    token_reachable raw (sl_token sl) \<and> distinct (map fst (sl_sessions sl)) \<and>
    (\<forall>h s. map_of (sl_sessions sl) h = Some s \<longrightarrow> session_fits sid (sl_token sl) s) \<and>
    (sl_sessions sl = [] \<longrightarrow> tk_logged (sl_token sl) = KRY_UNSPEC)"

definition lib_wf :: "'r storage_raw \<Rightarrow> 'r std_storage lib_state \<Rightarrow> bool" where
  "lib_wf raw st \<longleftrightarrow>
    distinct (map fst (gs_slots st)) \<and> distinct (map fst (gs_sessionmap st)) \<and>
    (\<forall>sid sl. map_of (gs_slots st) sid = Some sl \<longrightarrow> slot_ok raw sid sl) \<and>
    (\<forall>h sid. map_of (gs_sessionmap st) h = Some sid \<longleftrightarrow>
      (\<exists>sl s. map_of (gs_slots st) sid = Some sl \<and> map_of (sl_sessions sl) h = Some s)) \<and>
    (\<forall>h sid. map_of (gs_sessionmap st) h = Some sid \<longrightarrow> 0 < h \<and> h < gs_next_handle st)"

text \<open>A state whose handle counter is 0 is not initialized: nothing is used of it.\<close>

definition lib_ok :: "'r storage_raw \<Rightarrow> 'r std_storage lib_state \<Rightarrow> bool" where
  "lib_ok raw st \<longleftrightarrow> (state_is_initialized st \<longrightarrow> lib_wf raw st)"

lemma lib_upd_simps [simp]:
  "gs_slots (put_slot sid sl st) = AList.update sid sl (gs_slots st)"
  "gs_sessionmap (put_slot sid sl st) = gs_sessionmap st"
  "gs_next_handle (put_slot sid sl st) = gs_next_handle st"
  "state_is_initialized (put_slot sid sl st) = state_is_initialized st"
  by (simp_all add: put_slot_def state_is_initialized_def)

lemma get_slot_Ok:
  "get_slot st sid = Ok sl \<longleftrightarrow> state_is_initialized st \<and> map_of (gs_slots st) sid = Some sl"
  by (simp add: get_slot_def split: option.split)

lemma slot_get_session_Ok: "slot_get_session h sl = Ok s \<longleftrightarrow> map_of (sl_sessions sl) h = Some s"
  by (simp add: slot_get_session_def split: option.split)

lemma get_session_Ok:
  "get_session st h = Ok s \<longleftrightarrow>
    (\<exists>sid sl. session_slot st h = Ok sid \<and> get_slot st sid = Ok sl \<and> map_of (sl_sessions sl) h = Some s)"
  by (simp add: get_session_def and_then_eq_Ok slot_get_session_Ok)

lemma session_slot_Ok: "session_slot st h = Ok sid \<longleftrightarrow> map_of (gs_sessionmap st) h = Some sid"
  by (simp add: session_slot_def split: option.split)

lemma get_token_mut_Ok:
  "get_token_from_slot_mut st sid = Ok t \<longleftrightarrow>
    (\<exists>sl. get_slot st sid = Ok sl \<and> t = sl_token sl \<and> is_initialized t)"
  by (auto simp: get_token_from_slot_mut_def slot_get_token_mut_def and_then_eq_Ok)

lemma lib_ok_slot: "lib_ok raw st \<Longrightarrow> get_slot st sid = Ok sl \<Longrightarrow> slot_ok raw sid sl"
  by (simp add: lib_ok_def lib_wf_def get_slot_Ok)

lemma lib_ok_session:
  assumes "lib_ok raw st" and "get_session st h = Ok s"
  obtains sl where "session_slot st h = Ok (si_slotID (s_info s))" and "get_slot st (si_slotID (s_info s)) = Ok sl"
    and "map_of (sl_sessions sl) h = Some s" and "session_fits (si_slotID (s_info s)) (sl_token sl) s"
proof -
  obtain sid sl where a: "session_slot st h = Ok sid" "get_slot st sid = Ok sl"
      "map_of (sl_sessions sl) h = Some s"
    using assms(2) by (auto simp: get_session_Ok)
  have "slot_ok raw sid sl" by (rule lib_ok_slot[OF assms(1) a(2)])
  then have "session_fits sid (sl_token sl) s" using a(3) by (simp add: slot_ok_def)
  then show thesis using a that by (simp add: session_fits_def)
qed

text \<open>A slot is replaced; sessions may be gone, from the slot and from the map.\<close>

lemma lib_ok_replace:
  assumes "lib_ok raw st" and sl: "get_slot st sid = Ok sl" and "slot_ok raw sid sl'"
    and "gs_slots st' = AList.update sid sl' (gs_slots st)" and "gs_next_handle st' = gs_next_handle st"
    and "distinct (map fst (gs_sessionmap st'))"
    and sub: "\<And>h. map_of (sl_sessions sl') h \<noteq> None \<Longrightarrow> map_of (sl_sessions sl) h \<noteq> None"
    and map: "\<And>h k. map_of (gs_sessionmap st') h = Some k \<longleftrightarrow>
      map_of (gs_sessionmap st) h = Some k \<and> (k = sid \<longrightarrow> map_of (sl_sessions sl') h \<noteq> None)"
  shows "lib_ok raw st'"
proof -
  have wf: "lib_wf raw st" using assms(1) sl by (simp add: lib_ok_def get_slot_Ok)
  have at: "map_of (gs_slots st) sid = Some sl" using sl by (simp add: get_slot_Ok)
  have 1: "map_of (gs_sessionmap st') h = Some k \<longleftrightarrow>
      (\<exists>x s. map_of (gs_slots st') k = Some x \<and> map_of (sl_sessions x) h = Some s)" for h k
  proof (cases "k = sid")
    case True
    have "map_of (gs_sessionmap st) h = Some sid \<longleftrightarrow> map_of (sl_sessions sl) h \<noteq> None"
      using wf at by (auto simp: lib_wf_def)
    then show ?thesis using sub[of h] by (auto simp: True map assms(4) update_conv')
  next
    case False
    then show ?thesis using wf by (auto simp: map assms(4) update_conv' lib_wf_def)
  qed
  have 2: "0 < h \<and> h < gs_next_handle st'" if "map_of (gs_sessionmap st') h = Some k" for h k
    using wf that unfolding map assms(5) lib_wf_def by blast
  have 3: "slot_ok raw k x" if "map_of (gs_slots st') k = Some x" for k x
    using wf assms(3) that by (simp add: assms(4) update_conv' lib_wf_def split: if_splits)
  have 4: "distinct (map fst (gs_slots st'))"
    using wf by (simp add: assms(4) lib_wf_def distinct_update)
  show ?thesis unfolding lib_ok_def lib_wf_def using 1 2 3 4 assms(6) by blast
qed

lemma lib_ok_put_slot:
  assumes "lib_ok raw st" and "get_slot st sid = Ok sl" and "slot_ok raw sid sl'"
    and "map fst (sl_sessions sl') = map fst (sl_sessions sl)"
  shows "lib_ok raw (put_slot sid sl' st)"
proof -
  have keys: "map_of (sl_sessions sl') h = None \<longleftrightarrow> map_of (sl_sessions sl) h = None" for h
    using assms(4) by (metis map_of_eq_None_iff set_map)
  have wf: "lib_wf raw st" using assms(1,2) by (simp add: lib_ok_def get_slot_Ok)
  have "map_of (gs_sessionmap st) h = Some sid \<Longrightarrow> map_of (sl_sessions sl) h \<noteq> None" for h
    using wf assms(2) by (auto simp: lib_wf_def get_slot_Ok)
  then show ?thesis
    using wf keys by (intro lib_ok_replace[OF assms(1-3)]) (auto simp: lib_wf_def)
qed

definition keeps :: "'r storage_raw \<Rightarrow> 'r std_storage token \<Rightarrow> 'r std_storage token \<Rightarrow> bool" where
  "keeps raw t t' \<longleftrightarrow>
    token_reachable raw t' \<and> tk_logged t' = tk_logged t \<and> (is_initialized t \<longrightarrow> is_initialized t')"

lemma slot_ok_keeps:
  "slot_ok raw sid sl \<Longrightarrow> keeps raw (sl_token sl) t' \<Longrightarrow> slot_ok raw sid (sl\<lparr>sl_token := t'\<rparr>)"
  by (auto simp: slot_ok_def keeps_def session_fits_def)

lemma lib_ok_put_token:
  assumes "lib_ok raw st" and "get_slot st sid = Ok sl" and "keeps raw (sl_token sl) t'"
  shows "lib_ok raw (put_token sid t' st)"
  using lib_ok_put_slot[OF assms(1,2) slot_ok_keeps[OF lib_ok_slot[OF assms(1,2)] assms(3)]] assms(2)
  by (simp add: put_token_def get_slot_Ok)

lemma map_fst_update: "k \<in> fst ` set xs \<Longrightarrow> map fst (AList.update k v xs) = map fst xs"
  by (induction xs) auto

lemma lib_ok_put_session:
  assumes "lib_ok raw st" and "get_session st h = Ok s" and "s_info s' = s_info s"
  shows "lib_ok raw (put_session (si_slotID (s_info s)) h s' st)"
proof -
  obtain sl where a: "get_slot st (si_slotID (s_info s)) = Ok sl" "map_of (sl_sessions sl) h = Some s"
      "session_fits (si_slotID (s_info s)) (sl_token sl) s"
    using lib_ok_session[OF assms(1,2)] by blast
  have ok: "slot_ok raw (si_slotID (s_info s)) sl" by (rule lib_ok_slot[OF assms(1) a(1)])
  have fits: "session_fits (si_slotID (s_info s)) (sl_token sl) s'"
    using a(3) assms(3) session_ok_info[OF assms(3)] by (simp add: session_fits_def level_agrees_def)
  have mem: "h \<in> fst ` set (sl_sessions sl)"
    using a(2) by (metis map_of_eq_None_iff option.distinct(1))
  have "slot_ok raw (si_slotID (s_info s)) (slot_add_session h s' sl)"
    using ok fits by (auto simp: slot_ok_def slot_add_session_def update_conv' distinct_update)
  then show ?thesis
    using lib_ok_put_slot[OF assms(1) a(1)] a(1) map_fst_update[OF mem]
    by (simp add: put_session_def get_slot_Ok slot_add_session_def)
qed

lemma lib_ok_with_token:
  assumes "lib_ok raw st"
    and "\<And>t. token_reachable raw t \<Longrightarrow> is_initialized t \<Longrightarrow> keeps raw t (snd (f t))"
  shows "lib_ok raw (snd (with_token_mut sid f st))"
proof (cases "get_token_from_slot_mut st sid")
  case (Inl e)
  then show ?thesis using assms(1) by (simp add: with_token_mut_def)
next
  case (Inr t)
  then obtain sl where sl: "get_slot st sid = Ok sl" "t = sl_token sl" "is_initialized t"
    by (auto simp: get_token_mut_Ok)
  have "token_reachable raw t" using lib_ok_slot[OF assms(1) sl(1)] sl(2) by (simp add: slot_ok_def)
  then show ?thesis
    using lib_ok_put_token[OF assms(1) sl(1)] assms(2) sl(2,3) Inr
    by (simp add: with_token_mut_def case_prod_beta)
qed

lemma lib_ok_with_session:
  assumes "lib_ok raw st" and "\<And>s. s_info (snd (f s)) = s_info s"
  shows "lib_ok raw (snd (with_session_mut h f st))"
proof (cases "get_session st h")
  case (Inl e)
  then show ?thesis using assms(1) by (simp add: with_session_mut_def and_then_def split: sum.split)
next
  case (Inr s)
  then obtain sl where "session_slot st h = Ok (si_slotID (s_info s))"
    using lib_ok_session[OF assms(1) Inr] by blast
  then show ?thesis
    using lib_ok_put_session[OF assms(1) Inr assms(2)] Inr
    by (simp add: with_session_mut_def case_prod_beta)
qed

lemma keeps_same_login: "token_reachable raw t' \<Longrightarrow> same_login t t' \<Longrightarrow> keeps raw t t'"
  by (simp add: keeps_def same_login_def is_initialized_def)

lemma keeps_refl: "token_reachable raw t \<Longrightarrow> keeps raw t t"
  by (simp add: keeps_def)

lemma cancel_info [simp]: "s_info (snd (cancel_operation put s)) = s_info s"
  by (simp add: cancel_operation_def op_cancel_def)

lemma upd_map_simps [simp]:
  "gs_sessionmap (put_token sid t st) = gs_sessionmap st" "gs_next_handle (put_token sid t st) = gs_next_handle st"
  "gs_sessionmap (put_session sid h s st) = gs_sessionmap st"
  "gs_next_handle (put_session sid h s st) = gs_next_handle st"
  by (simp_all add: put_token_def put_session_def split: option.split)

lemma same_map_with [simp]:
  "gs_sessionmap (snd (with_token_mut sid f st)) = gs_sessionmap st"
  "gs_next_handle (snd (with_token_mut sid f st)) = gs_next_handle st"
  "gs_sessionmap (snd (with_session_mut h g st)) = gs_sessionmap st"
  "gs_next_handle (snd (with_session_mut h g st)) = gs_next_handle st"
  "gs_sessionmap (snd (change_session_states sid ut st)) = gs_sessionmap st"
  "gs_next_handle (snd (change_session_states sid ut st)) = gs_next_handle st"
  "gs_sessionmap (snd (invalidate_session_states sid st)) = gs_sessionmap st"
  "gs_next_handle (snd (invalidate_session_states sid st)) = gs_next_handle st"
  by (simp_all add: with_token_mut_def with_session_mut_def change_session_states_def
      invalidate_session_states_def split: sum.split prod.split)

end
