(* ===== verification/Mechanism_Params.thy ===== *)
theory Mechanism_Params
  imports Object_Api
begin

text \<open>
  The structs that the parameter of a \<^verbatim>\<open>CK_MECHANISM\<close> points to, from
  \<^verbatim>\<open>src/src/pkcs11/headers/3.2/pkcs11.h\<close> and \<^verbatim>\<open>src/src/pkcs11/vendor.rs\<close>. A parameter is memory of the
  caller: its bytes, and the struct that the mechanism reads there. Of a struct, what the modelled code
  reads is kept. A pointer is a \<^typ>\<open>pvalue\<close>; of a pointer that is only written through, whether it is
  null; an array is \<^term>\<open>None\<close> when its pointer is null although its count is not zero.
\<close>

section \<open>Key derivations\<close>

record ck_hkdf_params =
  hk_bExtract :: u8
  hk_bExpand :: u8
  hk_prfHashMechanism :: ck_ulong
  hk_ulSaltType :: ck_ulong
  hk_pSalt :: pvalue
  hk_ulSaltLen :: ck_ulong
  hk_hSaltKey :: ck_ulong
  hk_pInfo :: pvalue
  hk_ulInfoLen :: ck_ulong

record ck_derived_key =
  dk_template :: "ck_attrs option"
  dk_handle_null :: bool

record ck_prf_data_param =
  pd_type :: ck_ulong
  pd_pValue :: pvalue
  pd_ulValueLen :: ck_ulong

record ck_sp800_108_kdf_params =
  sp_prfType :: ck_ulong
  sp_data_params :: "ck_prf_data_param list option"
  sp_derived_keys :: "ck_derived_key list option"

record ck_sp800_108_feedback_kdf_params = ck_sp800_108_kdf_params +
  sp_pIV :: pvalue
  sp_ulIVLen :: ck_ulong

record kr_sshkdf_params =
  sh_prfHashMechanism :: ck_ulong
  sh_derivedKeyType :: u8
  sh_pExchangeHash :: pvalue
  sh_ulExchangeHashLen :: ck_ulong
  sh_pSessionId :: pvalue
  sh_ulSessionIdLen :: ck_ulong

record ck_pkcs5_pbkd2_params2 =
  pb_saltSource :: ck_ulong
  pb_pSaltSourceData :: pvalue
  pb_ulSaltSourceDataLen :: ck_ulong
  pb_iterations :: ck_ulong
  pb_prf :: ck_ulong
  pb_prf_data_null :: bool
  pb_ulPrfDataLen :: ck_ulong
  pb_pPassword :: pvalue
  pb_ulPasswordLen :: ck_ulong

record ck_key_derivation_string_data =
  sd_pData :: pvalue
  sd_ulLen :: ck_ulong

section \<open>IKE\<close>

record ck_ike_prf_derive_params =
  ik_prfMechanism :: ck_ulong
  ik_bDataAsKey :: u8
  ik_bRekey :: u8
  ik_pNi :: pvalue
  ik_ulNiLen :: ck_ulong
  ik_pNr :: pvalue
  ik_ulNrLen :: ck_ulong
  ik_hNewKey :: ck_ulong

record ck_ike1_prf_derive_params =
  i1_prfMechanism :: ck_ulong
  i1_bHasPrevKey :: u8
  i1_hKeygxy :: ck_ulong
  i1_hPrevKey :: ck_ulong
  i1_pCKYi :: pvalue
  i1_ulCKYiLen :: ck_ulong
  i1_pCKYr :: pvalue
  i1_ulCKYrLen :: ck_ulong
  i1_keyNumber :: u8

record ck_ike1_extended_derive_params =
  ie_prfMechanism :: ck_ulong
  ie_bHasKeygxy :: u8
  ie_hKeygxy :: ck_ulong
  ie_pExtraData :: pvalue
  ie_ulExtraDataLen :: ck_ulong

record ck_ike2_prf_plus_derive_params =
  i2_prfMechanism :: ck_ulong
  i2_bHasSeedKey :: u8
  i2_hSeedKey :: ck_ulong
  i2_pSeedData :: pvalue
  i2_ulSeedDataLen :: ck_ulong

section \<open>TLS\<close>

record ck_ssl3_random_data =
  rd_pClientRandom :: pvalue
  rd_ulClientRandomLen :: ck_ulong
  rd_pServerRandom :: pvalue
  rd_ulServerRandomLen :: ck_ulong

record ck_tls12_master_key_derive_params =
  tm_random_info :: ck_ssl3_random_data
  tm_version_null :: bool
  tm_prfHashMechanism :: ck_ulong

record ck_tls12_extended_master_key_derive_params =
  te_prfHashMechanism :: ck_ulong
  te_pSessionHash :: pvalue
  te_ulSessionHashLen :: ck_ulong
  te_version_null :: bool

record ck_tls12_key_mat_params =
  km_ulMacSizeInBits :: ck_ulong
  km_ulKeySizeInBits :: ck_ulong
  km_ulIVSizeInBits :: ck_ulong
  km_bIsExport :: u8
  km_random_info :: ck_ssl3_random_data
  km_out_null :: bool
  km_iv_client_null :: bool
  km_iv_server_null :: bool
  km_prfHashMechanism :: ck_ulong

record ck_tls_kdf_params =
  tk_prfMechanism :: ck_ulong
  tk_pLabel :: pvalue
  tk_ulLabelLength :: ck_ulong
  tk_random_info :: ck_ssl3_random_data
  tk_pContextData :: pvalue
  tk_ulContextDataLength :: ck_ulong

record ck_tls_mac_params =
  ta_prfHashMechanism :: ck_ulong
  ta_ulMacLength :: ck_ulong
  ta_ulServerOrClient :: ck_ulong

section \<open>One-time passwords\<close>

record ck_otp_param =
  ot_type :: ck_ulong
  ot_pValue :: pvalue
  ot_ulValueLen :: ck_ulong

section \<open>AES\<close>

record ck_ccm_params =
  cc_ulDataLen :: ck_ulong
  cc_pNonce :: pvalue
  cc_ulNonceLen :: ck_ulong
  cc_pAAD :: pvalue
  cc_ulAADLen :: ck_ulong
  cc_ulMACLen :: ck_ulong

record ck_gcm_params =
  gc_pIv :: pvalue
  gc_ulIvLen :: ck_ulong
  gc_pAAD :: pvalue
  gc_ulAADLen :: ck_ulong
  gc_ulTagBits :: ck_ulong

text \<open>The counter block is an array of 16 bytes.\<close>

record ck_aes_ctr_params =
  ct_ulCounterBits :: ck_ulong
  ct_cb :: bytes

record ck_aes_cbc_encrypt_data_params =
  cb_iv :: bytes
  cb_pData :: pvalue
  cb_length :: ck_ulong

section \<open>The parameter of a mechanism\<close>

datatype param_struct =
    HkdfParams ck_hkdf_params
  | CounterParams ck_sp800_108_kdf_params
  | FeedbackParams ck_sp800_108_feedback_kdf_params
  | KeyMatParams ck_tls12_key_mat_params
  | SshkdfParams kr_sshkdf_params
  | Pbkd2Params ck_pkcs5_pbkd2_params2
  | StringDataParams ck_key_derivation_string_data
  | UlongParam ck_ulong
  | IkePrfParams ck_ike_prf_derive_params
  | Ike1PrfParams ck_ike1_prf_derive_params
  | Ike1ExtendedParams ck_ike1_extended_derive_params
  | Ike2PrfPlusParams ck_ike2_prf_plus_derive_params
  | MasterKeyParams ck_tls12_master_key_derive_params
  | ExtendedMasterKeyParams ck_tls12_extended_master_key_derive_params
  | TlsKdfParams ck_tls_kdf_params
  | TlsMacParams ck_tls_mac_params
  | OtpParams "ck_otp_param list option"
  | CcmParams ck_ccm_params
  | GcmParams ck_gcm_params
  | CtrParams ck_aes_ctr_params
  | CbcDataParams ck_aes_cbc_encrypt_data_params
  | OtherParams

record ck_mechanism =
  cm_mechanism :: ck_ulong
  cm_parameter :: pvalue
  cm_parameter_len :: ck_ulong
  cm_struct :: param_struct

text \<open>Reading a struct of a known size: only the length is checked before the memory is read.\<close>

definition get_parameters :: "nat \<Rightarrow> (param_struct \<Rightarrow> 'p option) \<Rightarrow> ck_mechanism \<Rightarrow> 'p result" where
  "get_parameters n read m =
    (if unat (cm_parameter_len m) \<noteq> n then Err CKR_ARGUMENTS_BAD
     else case read (cm_struct m) of Some p \<Rightarrow> Ok p | None \<Rightarrow> Inl Panic)"

text \<open>A mechanism without a parameter, as the derivations make it for their functions.\<close>

definition plain_mechanism :: "ck_ulong \<Rightarrow> ck_mechanism" where
  "plain_mechanism t =
    \<lparr>cm_mechanism = t, cm_parameter = NullPtr, cm_parameter_len = 0, cm_struct = OtherParams\<rparr>"

end
