(* ===== verification/Operations_Api.thy ===== *)
theory Operations_Api
  imports Mechanism_Params
begin

text \<open>
  The cryptographic functions of the PKCS#11 interface over the operations of a session:
  \<^verbatim>\<open>src/src/fns/signing.rs\<close>, \<^verbatim>\<open>src/src/fns/digest.rs\<close>, \<^verbatim>\<open>src/src/fns/encryption.rs\<close> and
  \<^verbatim>\<open>src/src/fns/dualcrypto.rs\<close>, in the build without FIPS. The algorithms are parameters: a mechanism
  makes the operations, and an operation answers calls.
\<close>

section \<open>Mechanisms that make operations\<close>

text \<open>
  A key derivation: the keys it needs beside the base key, what happens when it receives them, and
  the objects it makes. The default methods need nothing and derive nothing.
\<close>

codatatype derive_op = DeriveOp
  (dv_requires_objects: "ck_ulong list result")
  (dv_receives_objects: "object list \<Rightarrow> unit result \<times> derive_op")
  (dv_derive: "object \<Rightarrow> ck_attrs \<Rightarrow> mechanisms \<Rightarrow> factories \<Rightarrow> object list result")

text \<open>
  The methods of the trait \<^verbatim>\<open>Mechanism\<close>. The default methods refuse; the implementation registered
  for a mechanism type overrides some of them. \<^verbatim>\<open>wrap_key\<close> writes into a buffer of the given size
  and answers a length, which is more than what it wrote when it was only asked for the length.
\<close>

record mech_ops =
  mo_encryption_new :: "ck_mechanism \<Rightarrow> object \<Rightarrow> crypto_op result"
  mo_decryption_new :: "ck_mechanism \<Rightarrow> object \<Rightarrow> crypto_op result"
  mo_digest_new :: "ck_mechanism \<Rightarrow> crypto_op result"
  mo_digest_restore :: "ck_ulong \<Rightarrow> bytes \<Rightarrow> crypto_op result"
  mo_mac_new :: "ck_mechanism \<Rightarrow> object \<Rightarrow> ck_flags \<Rightarrow> crypto_op result"
  mo_sign_new :: "ck_mechanism \<Rightarrow> object \<Rightarrow> crypto_op result"
  mo_sign_restore :: "ck_ulong \<Rightarrow> object \<Rightarrow> bytes \<Rightarrow> crypto_op result"
  mo_verify_new :: "ck_mechanism \<Rightarrow> object \<Rightarrow> crypto_op result"
  mo_verify_restore :: "ck_ulong \<Rightarrow> object \<Rightarrow> bytes \<Rightarrow> crypto_op result"
  mo_generate_key :: "ck_mechanism \<Rightarrow> ck_attrs \<Rightarrow> mechanisms \<Rightarrow> factories \<Rightarrow> object result"
  mo_generate_keypair :: "ck_mechanism \<Rightarrow> ck_attrs \<Rightarrow> ck_attrs \<Rightarrow> (object \<times> object) result"
  mo_wrap_key :: "ck_mechanism \<Rightarrow> object \<Rightarrow> object \<Rightarrow> nat \<Rightarrow> object_factory \<Rightarrow> (bytes \<times> nat) result"
  mo_unwrap_key :: "ck_mechanism \<Rightarrow> object \<Rightarrow> bytes \<Rightarrow> ck_attrs \<Rightarrow> object_factory \<Rightarrow> object result"
  mo_derive_operation :: "ck_mechanism \<Rightarrow> derive_op result"
  mo_msg_encryption_op :: "ck_mechanism \<Rightarrow> object \<Rightarrow> crypto_op result"
  mo_msg_decryption_op :: "ck_mechanism \<Rightarrow> object \<Rightarrow> crypto_op result"
  mo_encapsulate :: "ck_mechanism \<Rightarrow> object \<Rightarrow> object_factory \<Rightarrow> ck_attrs \<Rightarrow> nat \<Rightarrow> (object \<times> bytes) result"
  mo_encapsulate_ciphertext_len :: "object \<Rightarrow> nat result"
  mo_decapsulate :: "ck_mechanism \<Rightarrow> object \<Rightarrow> object_factory \<Rightarrow> ck_attrs \<Rightarrow> bytes \<Rightarrow> object result"
  mo_verify_signature_new :: "ck_mechanism \<Rightarrow> object \<Rightarrow> bytes \<Rightarrow> crypto_op result"

definition default_mech_ops :: mech_ops where
  "default_mech_ops =
    \<lparr>mo_encryption_new = (\<lambda>_ _. Err CKR_MECHANISM_INVALID),
     mo_decryption_new = (\<lambda>_ _. Err CKR_MECHANISM_INVALID),
     mo_digest_new = (\<lambda>_. Err CKR_MECHANISM_INVALID),
     mo_digest_restore = (\<lambda>_ _. Err CKR_SAVED_STATE_INVALID),
     mo_mac_new = (\<lambda>_ _ _. Err CKR_MECHANISM_INVALID),
     mo_sign_new = (\<lambda>_ _. Err CKR_MECHANISM_INVALID),
     mo_sign_restore = (\<lambda>_ _ _. Err CKR_SAVED_STATE_INVALID),
     mo_verify_new = (\<lambda>_ _. Err CKR_MECHANISM_INVALID),
     mo_verify_restore = (\<lambda>_ _ _. Err CKR_SAVED_STATE_INVALID),
     mo_generate_key = (\<lambda>_ _ _ _. Err CKR_MECHANISM_INVALID),
     mo_generate_keypair = (\<lambda>_ _ _. Err CKR_MECHANISM_INVALID),
     mo_wrap_key = (\<lambda>_ _ _ _ _. Err CKR_MECHANISM_INVALID),
     mo_unwrap_key = (\<lambda>_ _ _ _ _. Err CKR_MECHANISM_INVALID),
     mo_derive_operation = (\<lambda>_. Err CKR_MECHANISM_INVALID),
     mo_msg_encryption_op = (\<lambda>_ _. Err CKR_MECHANISM_INVALID),
     mo_msg_decryption_op = (\<lambda>_ _. Err CKR_MECHANISM_INVALID),
     mo_encapsulate = (\<lambda>_ _ _ _ _. Err CKR_MECHANISM_INVALID),
     mo_encapsulate_ciphertext_len = (\<lambda>_. Err CKR_MECHANISM_INVALID),
     mo_decapsulate = (\<lambda>_ _ _ _ _. Err CKR_MECHANISM_INVALID),
     mo_verify_signature_new = (\<lambda>_ _ _. Err CKR_MECHANISM_INVALID)\<rparr>"

definition check_allowed_mechs :: "ck_mechanism \<Rightarrow> object \<Rightarrow> ck_rv" where
  "check_allowed_mechs mech key =
    (case get_attr CKA_ALLOWED_MECHANISMS key of
       None \<Rightarrow> CKR_OK
     | Some allowed \<Rightarrow>
       if length (val allowed) mod 8 \<noteq> 0 then CKR_GENERAL_ERROR
       else if cm_mechanism mech \<in> set (ulong_chunks (val allowed)) then CKR_OK
       else CKR_MECHANISM_INVALID)"

section \<open>Replies\<close>

text \<open>
  A call with output gives its result, the bytes it wrote to the buffer of the caller, and the
  length it wrote through the length pointer, if it did. A buffer of the caller is a null pointer
  or its length; reading or writing through a null pointer is the error \<^term>\<open>Panic\<close>.
\<close>

type_synonym reply = "unit result \<times> bytes \<times> ck_ulong option"

definition fail_reply :: "error \<Rightarrow> reply" where
  "fail_reply e = (Inl e, [], None)"

definition len_reply :: "ck_rv \<Rightarrow> nat result \<Rightarrow> reply" where
  "len_reply conversion_error r =
    (case and_then r (\<lambda>n. map_err (\<lambda>_. CkError conversion_error) (ulong_try_from n)) of
       Inl e \<Rightarrow> fail_reply e
     | Inr l \<Rightarrow> (Ok (), [], Some l))"

definition report_reqsize :: "bytes result \<Rightarrow> ck_ulong option" where
  "report_reqsize r =
    (case r of
       Inl (BufferTooSmall n) \<Rightarrow> (case ulong_try_from n of Inr l \<Rightarrow> Some l | Inl _ \<Rightarrow> None)
     | _ \<Rightarrow> None)"

definition data_reply :: "ck_rv \<Rightarrow> bytes result \<Rightarrow> reply" where
  "data_reply conversion_error r =
    (case r of
       Inl e \<Rightarrow> (Inl e, [], report_reqsize r)
     | Inr out \<Rightarrow>
       (case ulong_try_from (length out) of
          Inl _ \<Rightarrow> (Err conversion_error, out, None)
        | Inr l \<Rightarrow> (Ok (), out, Some l)))"

text \<open>What the caller finds in a buffer after a call with no output.\<close>

definition plain_reply :: "bytes result \<Rightarrow> reply" where
  "plain_reply r = (map_err id (and_then r (\<lambda>_. Ok ())), [], None)"

section \<open>Calls on an operation of the session\<close>

definition on_op ::
    "(session_operations \<Rightarrow> crypto_op option) \<Rightarrow>
      (crypto_op option \<Rightarrow> session_operations \<Rightarrow> session_operations) \<Rightarrow>
      (crypto_op \<Rightarrow> reply \<times> crypto_op) \<Rightarrow> session \<Rightarrow> reply \<times> session" where
  "on_op get put f s =
    (case get_operation get co_finalized s of
       Inl e \<Rightarrow> (fail_reply e, s)
     | Inr op \<Rightarrow>
       (case f op of (r, op1) \<Rightarrow> (r, s\<lparr>s_operations := put (Some op1) (s_operations s)\<rparr>)))"

definition session_call ::
    "ck_ulong \<Rightarrow> (session \<Rightarrow> reply \<times> session) \<Rightarrow> 's lib_state \<Rightarrow> reply \<times> 's lib_state" where
  "session_call h f st =
    (case and_then (lock st) (\<lambda>_. and_then (session_slot st h) (\<lambda>sid.
            and_then (get_session st h) (\<lambda>s. Ok (sid, s)))) of
       Inl e \<Rightarrow> (fail_reply e, st)
     | Inr (sid, s) \<Rightarrow> (case f s of (r, s1) \<Rightarrow> (r, put_session sid h s1 st)))"

text \<open>
  A digest or a signature has a length that is known: it is given when there is no buffer, and a
  buffer that is too short is refused before the operation is called.
\<close>

definition fixed_output ::
    "bool \<Rightarrow> ck_ulong \<Rightarrow> (nat \<Rightarrow> op_call) \<Rightarrow> crypto_op \<Rightarrow> reply \<times> crypto_op" where
  "fixed_output buf_null len call op =
    (case and_then (co_fixed_len op) (\<lambda>n.
            and_then (map_err (\<lambda>_. CkError CKR_GENERAL_ERROR) (ulong_try_from n)) (\<lambda>l. Ok (n, l))) of
       Inl e \<Rightarrow> (fail_reply e, op)
     | Inr (n, l) \<Rightarrow>
       if buf_null then ((Ok (), [], Some l), op)
       else if len < l then ((Err CKR_BUFFER_TOO_SMALL, [], Some l), op)
       else (case co_call op (call n) of
          (Inl e, op1) \<Rightarrow> (fail_reply e, op1)
        | (Inr out, op1) \<Rightarrow> ((Ok (), out, Some l), op1)))"

text \<open>An encryption or a decryption says itself when the buffer is too short.\<close>

definition variable_output ::
    "ck_rv \<Rightarrow> nat \<Rightarrow> bool \<Rightarrow> bool \<Rightarrow> op_call \<Rightarrow> crypto_op \<Rightarrow> reply \<times> crypto_op" where
  "variable_output conversion_error dlen fin buf_null call op =
    (if buf_null then
       (case co_output_len op dlen fin of (r, op1) \<Rightarrow> (len_reply conversion_error r, op1))
     else (case co_call op call of (r, op1) \<Rightarrow> (data_reply conversion_error r, op1)))"

definition plain_call :: "op_call \<Rightarrow> crypto_op \<Rightarrow> reply \<times> crypto_op" where
  "plain_call call op = (case co_call op call of (r, op1) \<Rightarrow> (plain_reply r, op1))"

text \<open>
  After a signature or its verification, the operation may ask to change attributes of its key (a
  counter). When that fails, the length is not written.
\<close>

definition update_object ::
    "'s storage \<Rightarrow> ck_ulong \<Rightarrow> crypto_op \<Rightarrow> reply \<Rightarrow> 's lib_state \<Rightarrow> reply \<times> 's lib_state" where
  "update_object sg sid op r st =
    (case co_updates op of
       None \<Rightarrow> (r, st)
     | Some (oh, attrs) \<Rightarrow>
       (case get_token_from_slot_mut st sid of
          Inl e \<Rightarrow> ((Inl e, fst (snd r), None), st)
        | Inr t \<Rightarrow>
          (case set_object_attrs sg oh attrs t of
             (Inl _, t1) \<Rightarrow> ((Err CKR_GENERAL_ERROR, fst (snd r), None), put_token sid t1 st)
           | (Inr _, t1) \<Rightarrow> (r, put_token sid t1 st))))"

definition updating_call ::
    "'s storage \<Rightarrow> (session_operations \<Rightarrow> crypto_op option) \<Rightarrow>
      (crypto_op option \<Rightarrow> session_operations \<Rightarrow> session_operations) \<Rightarrow> ck_ulong \<Rightarrow> bool \<Rightarrow>
      (crypto_op \<Rightarrow> reply \<times> crypto_op) \<Rightarrow> 's lib_state \<Rightarrow> reply \<times> 's lib_state" where
  "updating_call sg get put h only_length f st =
    (case and_then (lock st) (\<lambda>_. and_then (session_slot st h) (\<lambda>sid.
            and_then (get_session st h) (\<lambda>s.
            and_then (get_operation get co_finalized s) (\<lambda>op. Ok (sid, s, op))))) of
       Inl e \<Rightarrow> (fail_reply e, st)
     | Inr (sid, s, op) \<Rightarrow>
       (case f op of (r, op1) \<Rightarrow>
         (let st1 = put_session sid h (s\<lparr>s_operations := put (Some op1) (s_operations s)\<rparr>) st in
          if only_length \<or> \<not> is_ok (fst r) then (r, st1)
          else update_object sg (get_slot_id s) op1 r st1)))"

definition has_flag :: "ck_flags \<Rightarrow> ck_flags \<Rightarrow> bool" where
  "has_flag f flags \<longleftrightarrow> flags AND f = f"

text \<open>
  The start of an operation: with no mechanism the one of the session is cancelled; otherwise there
  must be none, the key must be found and allow the mechanism, and the mechanism must exist with
  the flag of the function.
\<close>

definition op_init ::
    "'s storage \<Rightarrow> (session_operations \<Rightarrow> crypto_op option) \<Rightarrow>
      (crypto_op option \<Rightarrow> session_operations \<Rightarrow> session_operations) \<Rightarrow> (ck_flags \<Rightarrow> bool) \<Rightarrow>
      (ck_mechanism \<Rightarrow> object \<Rightarrow> crypto_op result) \<Rightarrow> (object \<Rightarrow> bool) \<Rightarrow> ck_ulong \<Rightarrow>
      ck_mechanism option \<Rightarrow> ck_ulong \<Rightarrow> 's lib_state \<Rightarrow> unit result \<times> 's lib_state" where
  "op_init sg get put permits new needs_login h mechptr key_handle st =
    (case and_then (lock st) (\<lambda>_. get_session st h) of
       Inl e \<Rightarrow> (Inl e, st)
     | Inr s \<Rightarrow>
       (case mechptr of
          None \<Rightarrow> with_session_mut h (cancel_operation put) st
        | Some mechanism \<Rightarrow>
          (case and_then (op_check_no get co_finalized (s_operations s)) (\<lambda>_.
                and_then (get_token_from_slot_mut st (get_slot_id s)) (\<lambda>t.
                and_then (get_object_by_handle sg key_handle t) (\<lambda>key.
                let allowed = check_allowed_mechs mechanism key in
                if allowed \<noteq> CKR_OK then Err allowed
                else and_then (mechs_find (cm_mechanism mechanism) (get_mechanisms t)) (\<lambda>info.
                  if permits (mi_flags info)
                  then and_then (new mechanism key) (\<lambda>op. Ok (op, needs_login key))
                  else Err CKR_MECHANISM_INVALID)))) of
             Inl e \<Rightarrow> (Inl e, st)
           | Inr (op, login_needed) \<Rightarrow>
             with_session_mut h (\<lambda>s. (Ok (), set_operation put op login_needed s)) st)))"


section \<open>Signing and verifying\<close>

text \<open>
  An input buffer is a null pointer or its contents, an output buffer is a null pointer or the
  length that its length pointer gives; the length pointer itself may be null. On a platform with
  64-bit pointers every \<^verbatim>\<open>CK_ULONG\<close> is a \<^verbatim>\<open>usize\<close> (\<^verbatim>\<open>parse_len\<close> never fails).
\<close>

definition bad_arguments :: "'st \<Rightarrow> reply \<times> 'st" where
  "bad_arguments st = (fail_reply (CkError CKR_ARGUMENTS_BAD), st)"

definition sign_init ::
    "'s storage \<Rightarrow> (ck_ulong \<Rightarrow> mech_ops) \<Rightarrow> ck_ulong \<Rightarrow> ck_mechanism option \<Rightarrow> ck_ulong \<Rightarrow>
      's lib_state \<Rightarrow> unit result \<times> 's lib_state" where
  "sign_init sg mops =
    op_init sg so_sign put_sign (has_flag CKF_SIGN)
      (\<lambda>m. mo_sign_new (mops (cm_mechanism m)) m) always_auth"

definition sign ::
    "'s storage \<Rightarrow> ck_ulong \<Rightarrow> bytes option \<Rightarrow> bool \<Rightarrow> ck_ulong option \<Rightarrow> 's lib_state \<Rightarrow>
      reply \<times> 's lib_state" where
  "sign sg h data sig_null sig_len st =
    (case (data, sig_len) of
       (Some d, Some len) \<Rightarrow>
         updating_call sg so_sign put_sign h sig_null (fixed_output sig_null len (Single d)) st
     | _ \<Rightarrow> bad_arguments st)"

definition internal_sign_update :: "bytes \<Rightarrow> session \<Rightarrow> reply \<times> session" where
  "internal_sign_update part = on_op so_sign put_sign (plain_call (Update part 0))"

definition sign_update :: "ck_ulong \<Rightarrow> bytes option \<Rightarrow> 's lib_state \<Rightarrow> reply \<times> 's lib_state" where
  "sign_update h part st =
    (case part of
       None \<Rightarrow> bad_arguments st
     | Some d \<Rightarrow> session_call h (internal_sign_update d) st)"

definition sign_final ::
    "'s storage \<Rightarrow> ck_ulong \<Rightarrow> bool \<Rightarrow> ck_ulong option \<Rightarrow> 's lib_state \<Rightarrow> reply \<times> 's lib_state" where
  "sign_final sg h sig_null sig_len st =
    (case sig_len of
       None \<Rightarrow> bad_arguments st
     | Some len \<Rightarrow>
       updating_call sg so_sign put_sign h sig_null (fixed_output sig_null len Finish) st)"

definition verify_init ::
    "'s storage \<Rightarrow> (ck_ulong \<Rightarrow> mech_ops) \<Rightarrow> ck_ulong \<Rightarrow> ck_mechanism option \<Rightarrow> ck_ulong \<Rightarrow>
      's lib_state \<Rightarrow> unit result \<times> 's lib_state" where
  "verify_init sg mops =
    op_init sg so_verify put_verify (has_flag CKF_VERIFY)
      (\<lambda>m. mo_verify_new (mops (cm_mechanism m)) m) (\<lambda>_. False)"

text \<open>A signature of another length than the operation expects is refused before it is checked.\<close>

definition check_signature :: "bytes \<Rightarrow> op_call \<Rightarrow> crypto_op \<Rightarrow> reply \<times> crypto_op" where
  "check_signature sig call op =
    (case and_then (co_fixed_len op) (\<lambda>n. map_err (\<lambda>_. CkError CKR_GENERAL_ERROR) (ulong_try_from n)) of
       Inl e \<Rightarrow> (fail_reply e, op)
     | Inr l \<Rightarrow>
       if length sig \<noteq> unat l then (fail_reply (CkError CKR_SIGNATURE_LEN_RANGE), op)
       else plain_call call op)"

definition verify ::
    "'s storage \<Rightarrow> ck_ulong \<Rightarrow> bytes option \<Rightarrow> bytes option \<Rightarrow> 's lib_state \<Rightarrow> reply \<times> 's lib_state" where
  "verify sg h data signature st =
    (case (data, signature) of
       (Some d, Some sig) \<Rightarrow>
         updating_call sg so_verify put_verify h False (check_signature sig (Check d sig)) st
     | _ \<Rightarrow> bad_arguments st)"

definition internal_verify_update :: "bytes \<Rightarrow> session \<Rightarrow> reply \<times> session" where
  "internal_verify_update part = on_op so_verify put_verify (plain_call (Update part 0))"

definition verify_update :: "ck_ulong \<Rightarrow> bytes option \<Rightarrow> 's lib_state \<Rightarrow> reply \<times> 's lib_state" where
  "verify_update h part st =
    (case part of
       None \<Rightarrow> bad_arguments st
     | Some d \<Rightarrow> session_call h (internal_verify_update d) st)"

definition verify_final ::
    "'s storage \<Rightarrow> ck_ulong \<Rightarrow> bytes option \<Rightarrow> 's lib_state \<Rightarrow> reply \<times> 's lib_state" where
  "verify_final sg h signature st =
    (case signature of
       None \<Rightarrow> bad_arguments st
     | Some sig \<Rightarrow>
       updating_call sg so_verify put_verify h False (check_signature sig (CheckFinish sig)) st)"

subsection \<open>Verifying with the signature given first\<close>

definition verify_signature_init ::
    "'s storage \<Rightarrow> (ck_ulong \<Rightarrow> mech_ops) \<Rightarrow> ck_ulong \<Rightarrow> ck_mechanism option \<Rightarrow> ck_ulong \<Rightarrow>
      bytes option \<Rightarrow> 's lib_state \<Rightarrow> unit result \<times> 's lib_state" where
  "verify_signature_init sg mops h mechptr key_handle signature =
    op_init sg so_verifysig put_verifysig (has_flag CKF_VERIFY)
      (\<lambda>m key. mo_verify_signature_new (mops (cm_mechanism m)) m key
         (case signature of None \<Rightarrow> [] | Some sig \<Rightarrow> sig))
      (\<lambda>_. False) h mechptr key_handle"

definition verify_signature ::
    "'s storage \<Rightarrow> ck_ulong \<Rightarrow> bytes option \<Rightarrow> 's lib_state \<Rightarrow> reply \<times> 's lib_state" where
  "verify_signature sg h data st =
    (case data of
       None \<Rightarrow> bad_arguments st
     | Some d \<Rightarrow>
       updating_call sg so_verifysig put_verifysig h False (plain_call (Single d 0)) st)"

definition verify_signature_update ::
    "ck_ulong \<Rightarrow> bytes option \<Rightarrow> 's lib_state \<Rightarrow> reply \<times> 's lib_state" where
  "verify_signature_update h part st =
    (case part of
       None \<Rightarrow> bad_arguments st
     | Some d \<Rightarrow>
       session_call h (on_op so_verifysig put_verifysig (plain_call (Update d 0))) st)"

definition verify_signature_final ::
    "'s storage \<Rightarrow> ck_ulong \<Rightarrow> 's lib_state \<Rightarrow> reply \<times> 's lib_state" where
  "verify_signature_final sg h st =
    updating_call sg so_verifysig put_verifysig h False (plain_call (Finish 0)) st"

section \<open>Digests\<close>

definition digest_init ::
    "(ck_ulong \<Rightarrow> mech_ops) \<Rightarrow> ck_ulong \<Rightarrow> ck_mechanism option \<Rightarrow> 's lib_state \<Rightarrow>
      unit result \<times> 's lib_state" where
  "digest_init mops h mechptr st =
    (case and_then (lock st) (\<lambda>_. get_session st h) of
       Inl e \<Rightarrow> (Inl e, st)
     | Inr s \<Rightarrow>
       (case mechptr of
          None \<Rightarrow> with_session_mut h (cancel_operation put_digest) st
        | Some mechanism \<Rightarrow>
          (case and_then (op_check_no so_digest co_finalized (s_operations s)) (\<lambda>_.
                and_then (get_token_from_slot st (get_slot_id s)) (\<lambda>t.
                and_then (mechs_find (cm_mechanism mechanism) (get_mechanisms t)) (\<lambda>info.
                  if has_flag CKF_DIGEST (mi_flags info)
                  then mo_digest_new (mops (cm_mechanism mechanism)) mechanism
                  else Err CKR_MECHANISM_INVALID))) of
             Inl e \<Rightarrow> (Inl e, st)
           | Inr op \<Rightarrow>
             with_session_mut h (\<lambda>s. (Ok (), set_operation put_digest op False s)) st)))"

definition digest ::
    "ck_ulong \<Rightarrow> bytes option \<Rightarrow> bool \<Rightarrow> ck_ulong option \<Rightarrow> 's lib_state \<Rightarrow> reply \<times> 's lib_state" where
  "digest h data digest_null digest_len st =
    (case (data, digest_len) of
       (Some d, Some len) \<Rightarrow>
         session_call h (on_op so_digest put_digest (fixed_output digest_null len (Single d))) st
     | _ \<Rightarrow> bad_arguments st)"

definition internal_digest_update :: "bytes \<Rightarrow> session \<Rightarrow> reply \<times> session" where
  "internal_digest_update part = on_op so_digest put_digest (plain_call (Update part 0))"

definition digest_update :: "ck_ulong \<Rightarrow> bytes option \<Rightarrow> 's lib_state \<Rightarrow> reply \<times> 's lib_state" where
  "digest_update h part st =
    (case part of
       None \<Rightarrow> bad_arguments st
     | Some d \<Rightarrow> session_call h (internal_digest_update d) st)"

text \<open>Only generic secrets and AES keys can be digested, and then their value is.\<close>

definition digestible :: "object \<Rightarrow> bytes result" where
  "digestible key =
    and_then (get_attr_as_ulong CKA_CLASS key) (\<lambda>c.
      if c \<noteq> CKO_SECRET_KEY then Err CKR_KEY_HANDLE_INVALID
      else and_then (get_attr_as_ulong CKA_KEY_TYPE key) (\<lambda>kt.
        if kt = CKK_GENERIC_SECRET \<or> kt = CKK_AES then get_attr_as_bytes CKA_VALUE key
        else Err CKR_KEY_INDIGESTIBLE))"

definition digest_key ::
    "'s storage \<Rightarrow> ck_ulong \<Rightarrow> ck_ulong \<Rightarrow> 's lib_state \<Rightarrow> reply \<times> 's lib_state" where
  "digest_key sg h key_handle st =
    session_call h (\<lambda>s.
      on_op so_digest put_digest
        (\<lambda>op. case and_then (get_token_from_slot_mut st (get_slot_id s)) (\<lambda>t.
                   and_then (get_object_by_handle sg key_handle t) digestible) of
             Inl e \<Rightarrow> (fail_reply e, op)
           | Inr d \<Rightarrow> plain_call (Update d 0) op) s) st"

definition digest_final ::
    "ck_ulong \<Rightarrow> bool \<Rightarrow> ck_ulong option \<Rightarrow> 's lib_state \<Rightarrow> reply \<times> 's lib_state" where
  "digest_final h digest_null digest_len st =
    (case digest_len of
       None \<Rightarrow> bad_arguments st
     | Some len \<Rightarrow>
       session_call h (on_op so_digest put_digest (fixed_output digest_null len Finish)) st)"

end
