(* ===== verification/Cipher_Api.thy ===== *)
theory Cipher_Api
  imports Operations_Api
begin

text \<open>
  Encryption and decryption of the PKCS#11 interface, in parts, in one call and by messages
  (\<^verbatim>\<open>src/src/fns/encryption.rs\<close>), and the functions that run two operations on the same data
  (\<^verbatim>\<open>src/src/fns/dualcrypto.rs\<close>).
\<close>

section \<open>Encryption\<close>

definition encrypt_init ::
    "'s storage \<Rightarrow> (ck_ulong \<Rightarrow> mech_ops) \<Rightarrow> ck_ulong \<Rightarrow> ck_mechanism option \<Rightarrow> ck_ulong \<Rightarrow>
      's lib_state \<Rightarrow> unit result \<times> 's lib_state" where
  "encrypt_init sg mops =
    op_init sg so_encryption put_encryption (has_flag CKF_ENCRYPT)
      (\<lambda>m. mo_encryption_new (mops (cm_mechanism m)) m) (\<lambda>_. False)"

definition encrypt ::
    "ck_ulong \<Rightarrow> bytes option \<Rightarrow> bool \<Rightarrow> ck_ulong option \<Rightarrow> 's lib_state \<Rightarrow> reply \<times> 's lib_state" where
  "encrypt h data out_null out_len st =
    (case (data, out_len) of
       (Some d, Some len) \<Rightarrow>
         session_call h
           (on_op so_encryption put_encryption
             (variable_output CKR_GENERAL_ERROR (length d) True out_null (Single d (unat len)))) st
     | _ \<Rightarrow> bad_arguments st)"

definition internal_encrypt_update ::
    "bytes \<Rightarrow> bool \<Rightarrow> ck_ulong \<Rightarrow> session \<Rightarrow> reply \<times> session" where
  "internal_encrypt_update part out_null len =
    on_op so_encryption put_encryption
      (variable_output CKR_ARGUMENTS_BAD (length part) False out_null (Update part (unat len)))"

definition encrypt_update ::
    "ck_ulong \<Rightarrow> bytes option \<Rightarrow> bool \<Rightarrow> ck_ulong option \<Rightarrow> 's lib_state \<Rightarrow> reply \<times> 's lib_state" where
  "encrypt_update h part out_null out_len st =
    (case (part, out_len) of
       (Some d, Some len) \<Rightarrow> session_call h (internal_encrypt_update d out_null len) st
     | _ \<Rightarrow> bad_arguments st)"

text \<open>
  The last part. The arguments are refused only when both pointers are null: with a buffer but no
  length pointer the length is read through the null pointer.
\<close>

definition last_part :: "bool \<Rightarrow> ck_ulong option \<Rightarrow> crypto_op \<Rightarrow> reply \<times> crypto_op" where
  "last_part out_null out_len op =
    (if out_null then variable_output CKR_GENERAL_ERROR 0 True True (Finish 0) op
     else case out_len of
       None \<Rightarrow> (fail_reply Panic, op)
     | Some len \<Rightarrow> variable_output CKR_GENERAL_ERROR 0 True False (Finish (unat len)) op)"

definition encrypt_final ::
    "ck_ulong \<Rightarrow> bool \<Rightarrow> ck_ulong option \<Rightarrow> 's lib_state \<Rightarrow> reply \<times> 's lib_state" where
  "encrypt_final h out_null out_len st =
    (case lock st of
       Inl e \<Rightarrow> (fail_reply e, st)
     | Inr _ \<Rightarrow>
       if out_null \<and> out_len = None then bad_arguments st
       else session_call h (on_op so_encryption put_encryption (last_part out_null out_len)) st)"

section \<open>Decryption\<close>

definition decrypt_init ::
    "'s storage \<Rightarrow> (ck_ulong \<Rightarrow> mech_ops) \<Rightarrow> ck_ulong \<Rightarrow> ck_mechanism option \<Rightarrow> ck_ulong \<Rightarrow>
      's lib_state \<Rightarrow> unit result \<times> 's lib_state" where
  "decrypt_init sg mops =
    op_init sg so_decryption put_decryption (has_flag CKF_DECRYPT)
      (\<lambda>m. mo_decryption_new (mops (cm_mechanism m)) m) always_auth"

definition decrypt ::
    "ck_ulong \<Rightarrow> bytes option \<Rightarrow> bool \<Rightarrow> ck_ulong option \<Rightarrow> 's lib_state \<Rightarrow> reply \<times> 's lib_state" where
  "decrypt h data out_null out_len st =
    (case (data, out_len) of
       (Some d, Some len) \<Rightarrow>
         session_call h
           (on_op so_decryption put_decryption
             (variable_output CKR_GENERAL_ERROR (length d) True out_null (Single d (unat len)))) st
     | _ \<Rightarrow> bad_arguments st)"

definition internal_decrypt_update ::
    "bytes \<Rightarrow> bool \<Rightarrow> ck_ulong \<Rightarrow> session \<Rightarrow> reply \<times> session" where
  "internal_decrypt_update part out_null len =
    on_op so_decryption put_decryption
      (variable_output CKR_ARGUMENTS_BAD (length part) False out_null (Update part (unat len)))"

definition decrypt_update ::
    "ck_ulong \<Rightarrow> bytes option \<Rightarrow> bool \<Rightarrow> ck_ulong option \<Rightarrow> 's lib_state \<Rightarrow> reply \<times> 's lib_state" where
  "decrypt_update h part out_null out_len st =
    (case (part, out_len) of
       (Some d, Some len) \<Rightarrow> session_call h (internal_decrypt_update d out_null len) st
     | _ \<Rightarrow> bad_arguments st)"

definition decrypt_final ::
    "ck_ulong \<Rightarrow> bool \<Rightarrow> ck_ulong option \<Rightarrow> 's lib_state \<Rightarrow> reply \<times> 's lib_state" where
  "decrypt_final h out_null out_len st =
    (if out_null \<and> out_len = None then bad_arguments st
     else session_call h (on_op so_decryption put_decryption (last_part out_null out_len)) st)"

section \<open>Messages\<close>

text \<open>
  The functions for messages are the same in both directions but for the operation they use. A
  parameter is a pointer and its length; what a mechanism writes back through it (an initialization
  vector, a tag) is its own.
\<close>

type_synonym parameter = "pvalue \<times> ck_ulong"

definition no_parameter :: "parameter \<Rightarrow> bool" where
  "no_parameter p \<longleftrightarrow> is_null (fst p) \<or> snd p = 0"

definition given :: "bytes option \<Rightarrow> bytes" where
  "given data = (case data of None \<Rightarrow> [] | Some d \<Rightarrow> d)"

definition single_message ::
    "parameter \<Rightarrow> bytes option \<Rightarrow> bytes \<Rightarrow> bool \<Rightarrow> ck_ulong \<Rightarrow> crypto_op \<Rightarrow> reply \<times> crypto_op" where
  "single_message param adata d out_null len op =
    (if co_busy op then (fail_reply (CkError CKR_OPERATION_ACTIVE), op)
     else variable_output CKR_GENERAL_ERROR (length d) True out_null
       (MsgSingle param (given adata) d (unat len)) op)"

definition begin_message ::
    "'s token result \<Rightarrow> parameter \<Rightarrow> bytes option \<Rightarrow> crypto_op \<Rightarrow> reply \<times> crypto_op" where
  "begin_message token param adata op =
    (if co_busy op then (fail_reply (CkError CKR_OPERATION_ACTIVE), op)
     else case and_then token (\<lambda>t. and_then (co_mechanism op) (\<lambda>m. mechs_find m (get_mechanisms t))) of
       Inl e \<Rightarrow> (fail_reply e, op)
     | Inr info \<Rightarrow>
       if mi_flags info AND CKF_MULTI_MESSAGE = 0 then (fail_reply (CkError CKR_MECHANISM_INVALID), op)
       else plain_call (MsgBegin param (given adata)) op)"

definition next_message ::
    "parameter \<Rightarrow> bytes \<Rightarrow> bool \<Rightarrow> ck_ulong \<Rightarrow> bool \<Rightarrow> crypto_op \<Rightarrow> reply \<times> crypto_op" where
  "next_message param d out_null len fin op =
    (if \<not> co_busy op then (fail_reply (CkError CKR_OPERATION_NOT_INITIALIZED), op)
     else variable_output CKR_GENERAL_ERROR (length d) fin out_null
       (if fin then MsgFinish param d (unat len) else MsgNext param d (unat len)) op)"

definition message_flags :: "ck_flags \<Rightarrow> bool option" where
  "message_flags flags =
    (if flags = CKF_END_OF_MESSAGE then Some True else if flags = 0 then Some False else None)"

subsection \<open>Encryption of messages\<close>

definition message_encrypt_init ::
    "'s storage \<Rightarrow> (ck_ulong \<Rightarrow> mech_ops) \<Rightarrow> ck_ulong \<Rightarrow> ck_mechanism option \<Rightarrow> ck_ulong \<Rightarrow>
      's lib_state \<Rightarrow> unit result \<times> 's lib_state" where
  "message_encrypt_init sg mops =
    op_init sg so_msg_encryption put_msg_encryption (\<lambda>flags. flags AND CKF_MESSAGE_ENCRYPT \<noteq> 0)
      (\<lambda>m. mo_msg_encryption_op (mops (cm_mechanism m)) m) (\<lambda>_. False)"

definition encrypt_message ::
    "ck_ulong \<Rightarrow> parameter \<Rightarrow> bytes option \<Rightarrow> bytes option \<Rightarrow> bool \<Rightarrow> ck_ulong option \<Rightarrow>
      's lib_state \<Rightarrow> reply \<times> 's lib_state" where
  "encrypt_message h param adata plaintext out_null out_len st =
    (if no_parameter param then bad_arguments st
     else case (plaintext, out_len) of
       (Some d, Some len) \<Rightarrow>
         session_call h
           (on_op so_msg_encryption put_msg_encryption (single_message param adata d out_null len)) st
     | _ \<Rightarrow> bad_arguments st)"

definition encrypt_message_begin ::
    "ck_ulong \<Rightarrow> parameter \<Rightarrow> bytes option \<Rightarrow> 's lib_state \<Rightarrow> reply \<times> 's lib_state" where
  "encrypt_message_begin h param adata st =
    (if no_parameter param then bad_arguments st
     else session_call h (\<lambda>s.
       on_op so_msg_encryption put_msg_encryption
         (begin_message (get_token_from_slot_mut st (get_slot_id s)) param adata) s) st)"

definition encrypt_message_next ::
    "ck_ulong \<Rightarrow> parameter \<Rightarrow> bytes option \<Rightarrow> bool \<Rightarrow> ck_ulong option \<Rightarrow> ck_flags \<Rightarrow>
      's lib_state \<Rightarrow> reply \<times> 's lib_state" where
  "encrypt_message_next h param plaintext out_null out_len flags st =
    (if no_parameter param then bad_arguments st
     else case (plaintext, out_len, message_flags flags) of
       (Some d, Some len, Some fin) \<Rightarrow>
         session_call h
           (on_op so_msg_encryption put_msg_encryption (next_message param d out_null len fin)) st
     | _ \<Rightarrow> bad_arguments st)"

definition message_encrypt_final :: "ck_ulong \<Rightarrow> 's lib_state \<Rightarrow> reply \<times> 's lib_state" where
  "message_encrypt_final h =
    session_call h (on_op so_msg_encryption put_msg_encryption (plain_call MsgEnd))"

subsection \<open>Decryption of messages\<close>

definition message_decrypt_init ::
    "'s storage \<Rightarrow> (ck_ulong \<Rightarrow> mech_ops) \<Rightarrow> ck_ulong \<Rightarrow> ck_mechanism option \<Rightarrow> ck_ulong \<Rightarrow>
      's lib_state \<Rightarrow> unit result \<times> 's lib_state" where
  "message_decrypt_init sg mops =
    op_init sg so_msg_decryption put_msg_decryption (\<lambda>flags. flags AND CKF_MESSAGE_DECRYPT \<noteq> 0)
      (\<lambda>m. mo_msg_decryption_op (mops (cm_mechanism m)) m) (\<lambda>_. False)"

definition decrypt_message ::
    "ck_ulong \<Rightarrow> parameter \<Rightarrow> bytes option \<Rightarrow> bytes option \<Rightarrow> bool \<Rightarrow> ck_ulong option \<Rightarrow>
      's lib_state \<Rightarrow> reply \<times> 's lib_state" where
  "decrypt_message h param adata ciphertext out_null out_len st =
    (if no_parameter param then bad_arguments st
     else case (ciphertext, out_len) of
       (Some d, Some len) \<Rightarrow>
         session_call h
           (on_op so_msg_decryption put_msg_decryption (single_message param adata d out_null len)) st
     | _ \<Rightarrow> bad_arguments st)"

definition decrypt_message_begin ::
    "ck_ulong \<Rightarrow> parameter \<Rightarrow> bytes option \<Rightarrow> 's lib_state \<Rightarrow> reply \<times> 's lib_state" where
  "decrypt_message_begin h param adata st =
    (if no_parameter param then bad_arguments st
     else session_call h (\<lambda>s.
       on_op so_msg_decryption put_msg_decryption
         (begin_message (get_token_from_slot_mut st (get_slot_id s)) param adata) s) st)"

definition decrypt_message_next ::
    "ck_ulong \<Rightarrow> parameter \<Rightarrow> bytes option \<Rightarrow> bool \<Rightarrow> ck_ulong option \<Rightarrow> ck_flags \<Rightarrow>
      's lib_state \<Rightarrow> reply \<times> 's lib_state" where
  "decrypt_message_next h param ciphertext out_null out_len flags st =
    (if no_parameter param then bad_arguments st
     else case (ciphertext, out_len, message_flags flags) of
       (Some d, Some len, Some fin) \<Rightarrow>
         session_call h
           (on_op so_msg_decryption put_msg_decryption (next_message param d out_null len fin)) st
     | _ \<Rightarrow> bad_arguments st)"

definition message_decrypt_final :: "ck_ulong \<Rightarrow> 's lib_state \<Rightarrow> reply \<times> 's lib_state" where
  "message_decrypt_final h =
    session_call h (on_op so_msg_decryption put_msg_decryption (plain_call MsgEnd))"

section \<open>Two operations on the same data\<close>

text \<open>
  The second operation reads the buffer of the caller after the first one has written its output:
  when both pointers are the same (\<open>in_place\<close>), it reads that output. It is not called when only
  the length is asked; when it fails, the output of the first one has been written.
\<close>

definition overwritten :: "bool \<Rightarrow> bytes \<Rightarrow> bytes \<Rightarrow> bytes" where
  "overwritten in_place out d = (if in_place then take (length d) (out @ drop (length out) d) else d)"

definition two_calls ::
    "(session \<Rightarrow> unit result) \<Rightarrow> (session \<Rightarrow> reply \<times> session) \<Rightarrow> bool \<Rightarrow>
      (bytes \<Rightarrow> session \<Rightarrow> reply \<times> session) \<Rightarrow> session \<Rightarrow> reply \<times> session" where
  "two_calls check first out_null second s =
    (case check s of
       Inl e \<Rightarrow> (fail_reply e, s)
     | Inr _ \<Rightarrow>
       (case first s of ((r, out, len), s1) \<Rightarrow>
         if \<not> is_ok r \<or> out_null then ((r, out, len), s1)
         else case second out s1 of ((r2, _, _), s2) \<Rightarrow> ((r2, out, len), s2)))"

definition check_op :: "(session_operations \<Rightarrow> crypto_op option) \<Rightarrow> session \<Rightarrow> unit result" where
  "check_op get s = op_check get co_finalized (s_operations s)"

definition digest_encrypt_update ::
    "bool \<Rightarrow> ck_ulong \<Rightarrow> bytes option \<Rightarrow> bool \<Rightarrow> ck_ulong option \<Rightarrow> 's lib_state \<Rightarrow>
      reply \<times> 's lib_state" where
  "digest_encrypt_update in_place h part out_null out_len st =
    (case (part, out_len) of
       (Some d, Some len) \<Rightarrow>
         session_call h
           (two_calls (check_op so_digest) (internal_encrypt_update d out_null len) out_null
             (\<lambda>out. internal_digest_update (overwritten in_place out d))) st
     | _ \<Rightarrow> bad_arguments st)"

definition decrypt_digest_update ::
    "ck_ulong \<Rightarrow> bytes option \<Rightarrow> bool \<Rightarrow> ck_ulong option \<Rightarrow> 's lib_state \<Rightarrow> reply \<times> 's lib_state" where
  "decrypt_digest_update h encrypted_part out_null out_len st =
    (case (encrypted_part, out_len) of
       (Some d, Some len) \<Rightarrow>
         session_call h
           (two_calls (check_op so_digest) (internal_decrypt_update d out_null len) out_null
             internal_digest_update) st
     | _ \<Rightarrow> bad_arguments st)"

definition sign_encrypt_update ::
    "bool \<Rightarrow> ck_ulong \<Rightarrow> bytes option \<Rightarrow> bool \<Rightarrow> ck_ulong option \<Rightarrow> 's lib_state \<Rightarrow>
      reply \<times> 's lib_state" where
  "sign_encrypt_update in_place h part out_null out_len st =
    (case (part, out_len) of
       (Some d, Some len) \<Rightarrow>
         session_call h
           (two_calls (check_op so_sign) (internal_encrypt_update d out_null len) out_null
             (\<lambda>out. internal_sign_update (overwritten in_place out d))) st
     | _ \<Rightarrow> bad_arguments st)"

definition decrypt_verify_update ::
    "ck_ulong \<Rightarrow> bytes option \<Rightarrow> bool \<Rightarrow> ck_ulong option \<Rightarrow> 's lib_state \<Rightarrow> reply \<times> 's lib_state" where
  "decrypt_verify_update h encrypted_part out_null out_len st =
    (case (encrypted_part, out_len) of
       (Some d, Some len) \<Rightarrow>
         session_call h
           (two_calls (check_op so_verify) (internal_decrypt_update d out_null len) out_null
             internal_verify_update) st
     | _ \<Rightarrow> bad_arguments st)"

end
