(* ===== verification/Hashes.thy ===== *)
theory Hashes
  imports Operations_Api Key_Factories
begin

text \<open>
  Digests: the table of hash mechanisms and the derivation of keys from the hash of a key
  (\<^verbatim>\<open>src/src/hash.rs\<close>), and the digest operation over an OpenSSL context
  (\<^verbatim>\<open>src/src/ossl/hash.rs\<close>). The hash functions themselves are OpenSSL's.
\<close>

section \<open>The table of hash mechanisms\<close>

record hash_based_op =
  hb_hash :: ck_ulong
  hb_key_type :: ck_ulong
  hb_key_gen :: ck_ulong
  hb_key_derive :: ck_ulong
  hb_mac :: ck_ulong
  hb_mac_general :: ck_ulong
  hb_hash_size :: nat
  hb_block_size :: nat

definition HASH_MECH_SET :: "hash_based_op list" where
  "HASH_MECH_SET =
    [\<lparr>hb_hash = CKM_SHA_1, hb_key_type = CKK_SHA_1_HMAC, hb_key_gen = CKM_SHA_1_KEY_GEN,
      hb_key_derive = CKM_SHA1_KEY_DERIVATION, hb_mac = CKM_SHA_1_HMAC,
      hb_mac_general = CKM_SHA_1_HMAC_GENERAL, hb_hash_size = 20, hb_block_size = 64\<rparr>,
     \<lparr>hb_hash = CKM_SHA224, hb_key_type = CKK_SHA224_HMAC, hb_key_gen = CKM_SHA224_KEY_GEN,
      hb_key_derive = CKM_SHA224_KEY_DERIVATION, hb_mac = CKM_SHA224_HMAC,
      hb_mac_general = CKM_SHA224_HMAC_GENERAL, hb_hash_size = 28, hb_block_size = 64\<rparr>,
     \<lparr>hb_hash = CKM_SHA256, hb_key_type = CKK_SHA256_HMAC, hb_key_gen = CKM_SHA256_KEY_GEN,
      hb_key_derive = CKM_SHA256_KEY_DERIVATION, hb_mac = CKM_SHA256_HMAC,
      hb_mac_general = CKM_SHA256_HMAC_GENERAL, hb_hash_size = 32, hb_block_size = 64\<rparr>,
     \<lparr>hb_hash = CKM_SHA384, hb_key_type = CKK_SHA384_HMAC, hb_key_gen = CKM_SHA384_KEY_GEN,
      hb_key_derive = CKM_SHA384_KEY_DERIVATION, hb_mac = CKM_SHA384_HMAC,
      hb_mac_general = CKM_SHA384_HMAC_GENERAL, hb_hash_size = 48, hb_block_size = 128\<rparr>,
     \<lparr>hb_hash = CKM_SHA512, hb_key_type = CKK_SHA512_HMAC, hb_key_gen = CKM_SHA512_KEY_GEN,
      hb_key_derive = CKM_SHA512_KEY_DERIVATION, hb_mac = CKM_SHA512_HMAC,
      hb_mac_general = CKM_SHA512_HMAC_GENERAL, hb_hash_size = 64, hb_block_size = 128\<rparr>,
     \<lparr>hb_hash = CKM_SHA3_224, hb_key_type = CKK_SHA3_224_HMAC, hb_key_gen = CKM_SHA3_224_KEY_GEN,
      hb_key_derive = CKM_SHA3_224_KEY_DERIVATION, hb_mac = CKM_SHA3_224_HMAC,
      hb_mac_general = CKM_SHA3_224_HMAC_GENERAL, hb_hash_size = 28, hb_block_size = 144\<rparr>,
     \<lparr>hb_hash = CKM_SHA3_256, hb_key_type = CKK_SHA3_256_HMAC, hb_key_gen = CKM_SHA3_256_KEY_GEN,
      hb_key_derive = CKM_SHA3_256_KEY_DERIVATION, hb_mac = CKM_SHA3_256_HMAC,
      hb_mac_general = CKM_SHA3_256_HMAC_GENERAL, hb_hash_size = 32, hb_block_size = 136\<rparr>,
     \<lparr>hb_hash = CKM_SHA3_384, hb_key_type = CKK_SHA3_384_HMAC, hb_key_gen = CKM_SHA3_384_KEY_GEN,
      hb_key_derive = CKM_SHA3_384_KEY_DERIVATION, hb_mac = CKM_SHA3_384_HMAC,
      hb_mac_general = CKM_SHA3_384_HMAC_GENERAL, hb_hash_size = 48, hb_block_size = 104\<rparr>,
     \<lparr>hb_hash = CKM_SHA3_512, hb_key_type = CKK_SHA3_512_HMAC, hb_key_gen = CKM_SHA3_512_KEY_GEN,
      hb_key_derive = CKM_SHA3_512_KEY_DERIVATION, hb_mac = CKM_SHA3_512_HMAC,
      hb_mac_general = CKM_SHA3_512_HMAC_GENERAL, hb_hash_size = 64, hb_block_size = 72\<rparr>,
     \<lparr>hb_hash = CKM_SHA512_224, hb_key_type = CKK_SHA512_224_HMAC, hb_key_gen = CKM_SHA512_224_KEY_GEN,
      hb_key_derive = CKM_SHA512_224_KEY_DERIVATION, hb_mac = CKM_SHA512_224_HMAC,
      hb_mac_general = CKM_SHA512_224_HMAC_GENERAL, hb_hash_size = 28, hb_block_size = 128\<rparr>,
     \<lparr>hb_hash = CKM_SHA512_256, hb_key_type = CKK_SHA512_256_HMAC, hb_key_gen = CKM_SHA512_256_KEY_GEN,
      hb_key_derive = CKM_SHA512_256_KEY_DERIVATION, hb_mac = CKM_SHA512_256_HMAC,
      hb_mac_general = CKM_SHA512_256_HMAC_GENERAL, hb_hash_size = 32, hb_block_size = 128\<rparr>]"

text \<open>\<^verbatim>\<open>CK_UNAVAILABLE_INFORMATION as usize\<close>.\<close>

definition INVALID_HASH_SIZE :: nat where
  "INVALID_HASH_SIZE = unat CK_UNAVAILABLE_INFORMATION"

fun find_hash :: "(hash_based_op \<Rightarrow> bool) \<Rightarrow> hash_based_op list \<Rightarrow> hash_based_op option" where
  "find_hash P [] = None"
| "find_hash P (hs # rest) = (if P hs then Some hs else find_hash P rest)"

definition hash_size :: "ck_ulong \<Rightarrow> nat" where
  "hash_size h =
    (case find_hash (\<lambda>hs. hb_hash hs = h) HASH_MECH_SET of
       Some hs \<Rightarrow> hb_hash_size hs
     | None \<Rightarrow> INVALID_HASH_SIZE)"

definition block_size :: "ck_ulong \<Rightarrow> nat" where
  "block_size h =
    (case find_hash (\<lambda>hs. hb_hash hs = h) HASH_MECH_SET of
       Some hs \<Rightarrow> hb_block_size hs
     | None \<Rightarrow> INVALID_HASH_SIZE)"

definition is_valid_hash :: "ck_ulong \<Rightarrow> bool" where
  "is_valid_hash h \<longleftrightarrow> find_hash (\<lambda>hs. hb_hash hs = h) HASH_MECH_SET \<noteq> None"

text \<open>Each hash registers two mechanisms: the digest and the derivation.\<close>

definition hash_mech_info :: "bool \<Rightarrow> ck_mechanism_info" where
  "hash_mech_info derive =
    \<lparr>ulMinKeySize = 0, ulMaxKeySize = 0, mi_flags = (if derive then CKF_DERIVE else CKF_DIGEST)\<rparr>"

definition register_hashes :: "mechanisms \<Rightarrow> mechanisms" where
  "register_hashes mechs =
    fold (\<lambda>hs ms. add_mechanism (hb_key_derive hs) (hash_mech_info True)
                    (add_mechanism (hb_hash hs) (hash_mech_info False) ms)) HASH_MECH_SET mechs"

section \<open>The digest operation\<close>

text \<open>
  A digest context of OpenSSL: made for a mechanism, fed, finalized into a digest, reset, and its
  state read and set.
\<close>

record 'c digest_lib =
  dl_new :: "ck_ulong \<Rightarrow> 'c result"
  dl_update :: "bytes \<Rightarrow> 'c \<Rightarrow> unit result \<times> 'c"
  dl_finalize :: "'c \<Rightarrow> bytes result \<times> 'c"
  dl_reset :: "'c \<Rightarrow> unit result \<times> 'c"
  dl_size :: "'c \<Rightarrow> nat"
  dl_state_size :: "'c \<Rightarrow> nat result"
  dl_get_state :: "'c \<Rightarrow> nat \<Rightarrow> (bytes \<times> nat) result"
  dl_set_state :: "bytes \<Rightarrow> 'c \<Rightarrow> 'c result"

record 'c hash_operation =
  ho_mech :: ck_ulong
  ho_hasher :: 'c
  ho_finalized :: bool
  ho_in_use :: bool

definition hash_new :: "'c digest_lib \<Rightarrow> ck_ulong \<Rightarrow> 'c hash_operation result" where
  "hash_new dl mech =
    and_then (dl_new dl mech) (\<lambda>c.
      Ok \<lparr>ho_mech = mech, ho_hasher = c, ho_finalized = False, ho_in_use = False\<rparr>)"

definition hash_restore :: "'c digest_lib \<Rightarrow> ck_ulong \<Rightarrow> bytes \<Rightarrow> 'c hash_operation result" where
  "hash_restore dl mech state =
    and_then (hash_new dl mech) (\<lambda>op.
    and_then (dl_set_state dl state (ho_hasher op)) (\<lambda>c.
      Ok (op\<lparr>ho_hasher := c, ho_in_use := True\<rparr>)))"

definition hash_reset :: "'c digest_lib \<Rightarrow> 'c hash_operation \<Rightarrow> unit result \<times> 'c hash_operation" where
  "hash_reset dl op =
    (case dl_reset dl (ho_hasher op) of
       (Inl e, c) \<Rightarrow> (Inl e, op\<lparr>ho_hasher := c\<rparr>)
     | (Inr _, c) \<Rightarrow> (Ok (), op\<lparr>ho_hasher := c, ho_finalized := False, ho_in_use := False\<rparr>))"

text \<open>The digest is taken from the context; it must fill the buffer exactly.\<close>

definition take_digest :: "'c digest_lib \<Rightarrow> nat \<Rightarrow> 'c hash_operation \<Rightarrow> bytes result \<times> 'c hash_operation" where
  "take_digest dl n op =
    (case dl_finalize dl (ho_hasher op) of (r, c) \<Rightarrow>
      (and_then r (\<lambda>out. if length out \<noteq> n then Err CKR_GENERAL_ERROR else Ok out),
       op\<lparr>ho_hasher := c\<rparr>))"

definition hash_digest ::
    "'c digest_lib \<Rightarrow> bytes \<Rightarrow> nat \<Rightarrow> 'c hash_operation \<Rightarrow> bytes result \<times> 'c hash_operation" where
  "hash_digest dl data n op =
    (if ho_in_use op \<or> ho_finalized op then (Err CKR_OPERATION_NOT_INITIALIZED, op)
     else if n \<noteq> dl_size dl (ho_hasher op) then (Err CKR_GENERAL_ERROR, op)
     else case dl_update dl data (ho_hasher op) of
       (Inl e, c) \<Rightarrow> (Inl e, op\<lparr>ho_finalized := True, ho_hasher := c\<rparr>)
     | (Inr _, c) \<Rightarrow> take_digest dl n (op\<lparr>ho_finalized := True, ho_hasher := c\<rparr>))"

definition hash_update ::
    "'c digest_lib \<Rightarrow> bytes \<Rightarrow> 'c hash_operation \<Rightarrow> unit result \<times> 'c hash_operation" where
  "hash_update dl data op =
    (if ho_finalized op then (Err CKR_OPERATION_NOT_INITIALIZED, op)
     else case dl_update dl data (ho_hasher op) of
       (Inr _, c) \<Rightarrow> (Ok (), op\<lparr>ho_in_use := True, ho_hasher := c\<rparr>)
     | (Inl _, c) \<Rightarrow>
       (Err CKR_DEVICE_ERROR, op\<lparr>ho_in_use := True, ho_hasher := c, ho_finalized := True\<rparr>))"

definition hash_final ::
    "'c digest_lib \<Rightarrow> nat \<Rightarrow> 'c hash_operation \<Rightarrow> bytes result \<times> 'c hash_operation" where
  "hash_final dl n op =
    (if ho_finalized op then (Err CKR_OPERATION_NOT_INITIALIZED, op)
     else if n \<noteq> dl_size dl (ho_hasher op) then (Err CKR_GENERAL_ERROR, op)
     else take_digest dl n (op\<lparr>ho_finalized := True\<rparr>))"

definition hash_state_size :: "'c digest_lib \<Rightarrow> 'c hash_operation \<Rightarrow> nat result" where
  "hash_state_size dl op =
    map_err (\<lambda>_. CkError CKR_STATE_UNSAVEABLE) (dl_state_size dl (ho_hasher op))"

definition hash_state_save :: "'c digest_lib \<Rightarrow> 'c hash_operation \<Rightarrow> nat \<Rightarrow> (bytes \<times> nat) result" where
  "hash_state_save dl op n =
    map_err (\<lambda>_. CkError CKR_STATE_UNSAVEABLE) (dl_get_state dl (ho_hasher op) n)"

text \<open>The operation as the session sees it.\<close>

definition no_output :: "unit result \<Rightarrow> bytes result" where
  "no_output r = and_then r (\<lambda>_. Ok [])"

fun hash_call ::
    "'c digest_lib \<Rightarrow> 'c hash_operation \<Rightarrow> op_call \<Rightarrow> bytes result \<times> 'c hash_operation" where
  "hash_call dl op (Single d n) = hash_digest dl d n op"
| "hash_call dl op (Update d n) = map_prod no_output id (hash_update dl d op)"
| "hash_call dl op (Finish n) = hash_final dl n op"
| "hash_call dl op Reset = map_prod no_output id (hash_reset dl op)"
| "hash_call dl op _ = (Err CKR_GENERAL_ERROR, op)"

primcorec hash_op :: "'c digest_lib \<Rightarrow> 'c hash_operation \<Rightarrow> crypto_op" where
  "hash_op dl op = CryptoOp (ho_finalized op) False (Ok (ho_mech op)) (Ok (dl_size dl (ho_hasher op)))
     (hash_state_size dl op) (hash_state_save dl op) None
     (\<lambda>_ _. (Err CKR_GENERAL_ERROR, hash_op dl op))
     (\<lambda>c. map_prod id (hash_op dl) (hash_call dl op c))"

definition hash_digest_new :: "'c digest_lib \<Rightarrow> ck_mechanism_info \<Rightarrow> ck_mechanism \<Rightarrow> crypto_op result" where
  "hash_digest_new dl info mech =
    (if mi_flags info AND CKF_DIGEST \<noteq> CKF_DIGEST then Err CKR_MECHANISM_INVALID
     else and_then (hash_new dl (cm_mechanism mech)) (\<lambda>op. Ok (hash_op dl op)))"

definition hash_digest_restore ::
    "'c digest_lib \<Rightarrow> ck_mechanism_info \<Rightarrow> ck_ulong \<Rightarrow> bytes \<Rightarrow> crypto_op result" where
  "hash_digest_restore dl info mechtype state =
    (if mi_flags info AND CKF_DIGEST \<noteq> CKF_DIGEST then Err CKR_MECHANISM_INVALID
     else and_then (hash_restore dl mechtype state) (\<lambda>op. Ok (hash_op dl op)))"

section \<open>Keys from the hash of a key\<close>

text \<open>The template with a key type, and the length of the key: at most the digest.\<close>

definition hash_kdf_template ::
    "factories \<Rightarrow> nat \<Rightarrow> ck_attrs \<Rightarrow> (object_factory \<times> ck_attrs \<times> ck_ulong) result" where
  "hash_kdf_template fs hashsize template =
    and_then (ulong_try_from hashsize) (\<lambda>digest_size.
    and_then
      (if find_attr CKA_KEY_TYPE template = None
       then add_owned_ulong CKA_KEY_TYPE CKK_GENERIC_SECRET template else Ok template) (\<lambda>tmpl.
    and_then (get_obj_factory_from_key_template fs tmpl) (\<lambda>f.
      case find_attr CKA_VALUE_LEN tmpl of
        Some a \<Rightarrow>
          and_then (ck_to_ulong a) (\<lambda>n.
            if n > digest_size then Err CKR_TEMPLATE_INCONSISTENT else Ok (f, tmpl, n))
      | None \<Rightarrow>
          and_then (as_secret_key_factory f) (\<lambda>sf.
          and_then (sf_recommend_key_size sf hashsize) (\<lambda>n.
          and_then (ulong_try_from n) (\<lambda>keysize.
            Ok (f, add_ulong CKA_VALUE_LEN keysize tmpl, keysize)))))))"

definition hash_kdf_derive ::
    "'c digest_lib \<Rightarrow> bytes \<Rightarrow> ck_ulong \<Rightarrow> object \<Rightarrow> ck_attrs \<Rightarrow> factories \<Rightarrow> object list result" where
  "hash_kdf_derive dl uuid prf key template fs =
    and_then (check_key_ops CKO_SECRET_KEY CK_UNAVAILABLE_INFORMATION CKA_DERIVE key) (\<lambda>_.
    and_then (hash_new dl prf) (\<lambda>op.
    let hashsize = hash_size prf in
    and_then (hash_kdf_template fs hashsize template) (\<lambda>(f, tmpl, keysize).
    and_then (as_key_factory f) (\<lambda>derive.
    and_then (derive uuid tmpl key) (\<lambda>obj.
    and_then (get_attr_as_bytes CKA_VALUE key) (\<lambda>v.
    and_then (fst (hash_digest dl v hashsize op)) (\<lambda>dkm.
    and_then (as_secret_key_factory f) (\<lambda>sf.
      if unat keysize > length dkm then Inl Panic
      else and_then (sf_set_key sf (take (unat keysize) dkm) obj) (\<lambda>obj1. Ok [obj1])))))))))"

text \<open>A derivation is called once, and the mechanism finds its hash by the derivation mechanism.\<close>

primcorec simple_derive ::
    "(object \<Rightarrow> ck_attrs \<Rightarrow> mechanisms \<Rightarrow> factories \<Rightarrow> object list result) \<Rightarrow> derive_op" where
  "simple_derive f = DeriveOp (Err CKR_OK) (\<lambda>_. (Err CKR_GENERAL_ERROR, simple_derive f)) f"

definition hash_derive_operation ::
    "'c digest_lib \<Rightarrow> bytes \<Rightarrow> ck_mechanism_info \<Rightarrow> ck_mechanism \<Rightarrow> derive_op result" where
  "hash_derive_operation dl uuid info mech =
    (if mi_flags info AND CKF_DERIVE \<noteq> CKF_DERIVE then Err CKR_MECHANISM_INVALID
     else case find_hash (\<lambda>hs. hb_key_derive hs = cm_mechanism mech) HASH_MECH_SET of
       Some hs \<Rightarrow>
         Ok (simple_derive (\<lambda>key template _ fs. hash_kdf_derive dl uuid (hb_hash hs) key template fs))
     | None \<Rightarrow> Err CKR_MECHANISM_INVALID)"

end
