(* ===== verification/Keymgmt_Api.thy ===== *)
theory Keymgmt_Api
  imports Hashes
begin

text \<open>
  The key management functions of the PKCS#11 interface, of \<^verbatim>\<open>src/src/fns/keymgmt.rs\<close>, in the build
  without FIPS: generation, wrapping and unwrapping, derivation, encapsulation. The mechanisms make
  the objects; the functions check the keys and store the results.
\<close>

section \<open>Shared checks\<close>

text \<open>A template is a null pointer with a count that is not zero, or its entries.\<close>

definition template_arg :: "ck_attrs option \<Rightarrow> ck_attrs result" where
  "template_arg template = (case template of Some t \<Rightarrow> Ok t | None \<Rightarrow> Err CKR_ARGUMENTS_BAD)"

definition locked_session :: "ck_ulong \<Rightarrow> 's lib_state \<Rightarrow> session result" where
  "locked_session h st = and_then (lock st) (\<lambda>_. get_session st h)"

definition writable_or_session :: "session \<Rightarrow> ck_attrs \<Rightarrow> unit result" where
  "writable_or_session s template =
    (if \<not> is_writable s then fail_if_cka_token_true template else Ok ())"

definition allowed_mech :: "ck_mechanism \<Rightarrow> object \<Rightarrow> unit result" where
  "allowed_mech m key = rv_result (check_allowed_mechs m key)"

definition mech_with_flag :: "ck_flags \<Rightarrow> ck_mechanism \<Rightarrow> 's token \<Rightarrow> unit result" where
  "mech_with_flag f m t =
    and_then (mechs_find (cm_mechanism m) (get_mechanisms t)) (\<lambda>info.
      if has_flag f (mi_flags info) then Ok () else Err CKR_MECHANISM_INVALID)"

definition token_factories :: "'s token \<Rightarrow> factories" where
  "token_factories t = fac_factories (tk_facilities t)"

section \<open>Generation\<close>

definition generate_key ::
    "'s storage \<Rightarrow> (ck_ulong \<Rightarrow> mech_ops) \<Rightarrow> ck_ulong \<Rightarrow> ck_mechanism option \<Rightarrow> ck_attrs option \<Rightarrow>
      bool \<Rightarrow> 's lib_state \<Rightarrow> ck_ulong result \<times> 's lib_state" where
  "generate_key sg mops h mechptr template kh_null st =
    (case (mechptr, kh_null) of
       (Some m, False) \<Rightarrow>
         (case and_then (locked_session h st) (\<lambda>s.
               and_then (template_arg template) (\<lambda>tmpl.
               and_then (writable_or_session s tmpl) (\<lambda>_.
               and_then (get_token_from_slot_mut st (get_slot_id s)) (\<lambda>t.
               and_then (mech_with_flag CKF_GENERATE m t) (\<lambda>_.
               and_then (mo_generate_key (mops (cm_mechanism m)) m tmpl (get_mechanisms t) (token_factories t))
                 (\<lambda>key. Ok (get_slot_id s, key))))))) of
            Inl e \<Rightarrow> (Inl e, st)
          | Inr (sid, key) \<Rightarrow> with_token_mut sid (insert_object sg h key) st)
     | _ \<Rightarrow> (Err CKR_ARGUMENTS_BAD, st))"

text \<open>When the private key cannot be stored, the public key is destroyed again, if that works.\<close>

definition insert_pair ::
    "'s storage \<Rightarrow> ck_ulong \<Rightarrow> object \<Rightarrow> object \<Rightarrow> 's token \<Rightarrow>
      (ck_ulong \<times> ck_ulong) result \<times> 's token" where
  "insert_pair sg h pubkey privkey t =
    st_then (insert_object sg h pubkey t) (\<lambda>pubh t1.
      case insert_object sg h privkey t1 of
        (Inr privh, t2) \<Rightarrow> (Ok (pubh, privh), t2)
      | (Inl e, t2) \<Rightarrow> (Inl e, snd (destroy_object sg pubh t2)))"

definition generate_key_pair ::
    "'s storage \<Rightarrow> (ck_ulong \<Rightarrow> mech_ops) \<Rightarrow> ck_ulong \<Rightarrow> ck_mechanism option \<Rightarrow> ck_attrs option \<Rightarrow>
      ck_attrs option \<Rightarrow> bool \<Rightarrow> 's lib_state \<Rightarrow> (ck_ulong \<times> ck_ulong) result \<times> 's lib_state" where
  "generate_key_pair sg mops h mechptr pub_template pri_template kh_null st =
    (case (mechptr, kh_null) of
       (Some m, False) \<Rightarrow>
         (case and_then (locked_session h st) (\<lambda>s.
               and_then (template_arg pub_template) (\<lambda>pubtmpl.
               and_then (template_arg pri_template) (\<lambda>pritmpl.
               and_then (writable_or_session s pritmpl) (\<lambda>_.
               and_then (writable_or_session s pubtmpl) (\<lambda>_.
               and_then (get_token_from_slot_mut st (get_slot_id s)) (\<lambda>t.
               and_then (mech_with_flag CKF_GENERATE_KEY_PAIR m t) (\<lambda>_.
               and_then (mo_generate_keypair (mops (cm_mechanism m)) m pubtmpl pritmpl)
                 (\<lambda>keys. Ok (get_slot_id s, keys))))))))) of
            Inl e \<Rightarrow> (Inl e, st)
          | Inr (sid, pubkey, privkey) \<Rightarrow> with_token_mut sid (insert_pair sg h pubkey privkey) st)
     | _ \<Rightarrow> (Err CKR_ARGUMENTS_BAD, st))"

section \<open>Wrapping\<close>

text \<open>Every attribute of the wrap template must be on the key, with the same value.\<close>

definition wrap_template_ok :: "object \<Rightarrow> unit \<Rightarrow> attribute \<Rightarrow> unit result" where
  "wrap_template_ok key _ stored =
    (case get_attr (ck_type stored) key of
       Some key_attr \<Rightarrow> if val key_attr \<noteq> val stored then Err CKR_ACTION_PROHIBITED else Ok ()
     | None \<Rightarrow> Err CKR_ACTION_PROHIBITED)"

definition wrap_permitted :: "object \<Rightarrow> object \<Rightarrow> unit result" where
  "wrap_permitted wkey key =
    and_then (get_attr_as_bool CKA_WRAP wkey) (\<lambda>wrap.
    if \<not> wrap then Err CKR_WRAPPING_KEY_HANDLE_INVALID
    else and_then (get_attr_as_bool CKA_WRAP_WITH_TRUSTED key) (\<lambda>require_trusted.
    and_then
      (if require_trusted then
         and_then (get_attr_as_bool CKA_TRUSTED wkey) (\<lambda>trusted.
           if \<not> trusted then Err CKR_WRAPPING_KEY_HANDLE_INVALID else Ok ())
       else Ok ()) (\<lambda>_.
      case get_attr CKA_WRAP_TEMPLATE wkey of
        None \<Rightarrow> Ok ()
      | Some wt \<Rightarrow> and_then (to_template wt) (try_fold (wrap_template_ok key) ()))))"

definition wrapped_reply :: "(bytes \<times> nat) result \<Rightarrow> reply" where
  "wrapped_reply r =
    (case r of
       Inl e \<Rightarrow> (Inl e, [], report_reqsize (Inl e))
     | Inr (out, n) \<Rightarrow>
       (case ulong_try_from n of
          Inl _ \<Rightarrow> (Err CKR_GENERAL_ERROR, out, None)
        | Inr l \<Rightarrow> (Ok (), out, Some l)))"

text \<open>Nothing is stored; without a buffer the mechanism gets an empty one.\<close>

definition wrap_key ::
    "'s storage \<Rightarrow> (ck_ulong \<Rightarrow> mech_ops) \<Rightarrow> ck_ulong \<Rightarrow> ck_mechanism option \<Rightarrow> ck_ulong \<Rightarrow> ck_ulong \<Rightarrow>
      bool \<Rightarrow> ck_ulong option \<Rightarrow> 's lib_state \<Rightarrow> reply" where
  "wrap_key sg mops h mechptr wrapping_key_handle key_handle out_null out_len st =
    (case (mechptr, out_len) of
       (Some m, Some len) \<Rightarrow>
         (case and_then (locked_session h st) (\<lambda>s.
               and_then (get_token_from_slot_mut st (get_slot_id s)) (\<lambda>t.
               and_then (get_object_by_handle sg key_handle t) (\<lambda>key.
               and_then (get_object_by_handle sg wrapping_key_handle t) (\<lambda>wkey.
               and_then (allowed_mech m wkey) (\<lambda>_.
               and_then (get_object_factory (token_factories t) key) (\<lambda>factory.
               and_then (mech_with_flag CKF_WRAP m t) (\<lambda>_.
               and_then (wrap_permitted wkey key) (\<lambda>_. Ok (wkey, key, factory))))))))) of
            Inl e \<Rightarrow> fail_reply e
          | Inr (wkey, key, factory) \<Rightarrow>
            wrapped_reply (mo_wrap_key (mops (cm_mechanism m)) m wkey key
              (if out_null then 0 else unat len) factory))
     | _ \<Rightarrow> fail_reply (CkError CKR_ARGUMENTS_BAD))"

text \<open>A template stored with the key is merged into the one of the caller.\<close>

definition with_key_template :: "ck_ulong \<Rightarrow> object \<Rightarrow> ck_attrs \<Rightarrow> ck_attrs result" where
  "with_key_template t key raw_tmpl =
    (case get_attr t key of
       Some a \<Rightarrow> merge_template_attribute a raw_tmpl
     | None \<Rightarrow> Ok raw_tmpl)"

text \<open>The flag that is tested is \<^verbatim>\<open>CKF_WRAP\<close>, as in \<^verbatim>\<open>wrap_key\<close>.\<close>

definition unwrap_key ::
    "'s storage \<Rightarrow> (ck_ulong \<Rightarrow> mech_ops) \<Rightarrow> ck_ulong \<Rightarrow> ck_mechanism option \<Rightarrow> ck_ulong \<Rightarrow>
      bytes option \<Rightarrow> ck_attrs option \<Rightarrow> bool \<Rightarrow> 's lib_state \<Rightarrow> ck_ulong result \<times> 's lib_state" where
  "unwrap_key sg mops h mechptr unwrapping_key_handle wrapped template kh_null st =
    (case (mechptr, wrapped, kh_null) of
       (Some m, Some data, False) \<Rightarrow>
         (case and_then (locked_session h st) (\<lambda>s.
               and_then (template_arg template) (\<lambda>raw_tmpl.
               and_then (get_token_from_slot_mut st (get_slot_id s)) (\<lambda>t.
               and_then (get_object_by_handle sg unwrapping_key_handle t) (\<lambda>key.
               and_then (allowed_mech m key) (\<lambda>_.
               and_then (mech_with_flag CKF_WRAP m t) (\<lambda>_.
               and_then (get_attr_as_bool CKA_UNWRAP key) (\<lambda>unwrap.
               if \<not> unwrap then Err CKR_WRAPPING_KEY_HANDLE_INVALID
               else and_then (with_key_template CKA_UNWRAP_TEMPLATE key raw_tmpl) (\<lambda>tmpl.
               and_then (writable_or_session s tmpl) (\<lambda>_.
               and_then (get_obj_factory_from_key_template (token_factories t) tmpl) (\<lambda>factory.
               and_then (mo_unwrap_key (mops (cm_mechanism m)) m key data tmpl factory)
                 (\<lambda>obj. Ok (get_slot_id s, obj)))))))))))) of
            Inl e \<Rightarrow> (Inl e, st)
          | Inr (sid, obj) \<Rightarrow> with_token_mut sid (insert_object sg h obj) st)
     | _ \<Rightarrow> (Err CKR_ARGUMENTS_BAD, st))"

section \<open>Derivation\<close>

fun hkdf_struct :: "param_struct \<Rightarrow> ck_hkdf_params option" where
  "hkdf_struct (HkdfParams p) = Some p"
| "hkdf_struct _ = None"

fun counter_struct :: "param_struct \<Rightarrow> ck_sp800_108_kdf_params option" where
  "counter_struct (CounterParams p) = Some p"
| "counter_struct _ = None"

fun feedback_struct :: "param_struct \<Rightarrow> ck_sp800_108_feedback_kdf_params option" where
  "feedback_struct (FeedbackParams p) = Some p"
| "feedback_struct _ = None"

fun key_mat_struct :: "param_struct \<Rightarrow> ck_tls12_key_mat_params option" where
  "key_mat_struct (KeyMatParams p) = Some p"
| "key_mat_struct _ = None"

text \<open>A data object can be the base of an HKDF extraction with a salt.\<close>

definition hkdf_from_data :: "ck_mechanism \<Rightarrow> object \<Rightarrow> unit result" where
  "hkdf_from_data m key =
    and_then (get_parameters 64 hkdf_struct m) (\<lambda>p.
    if hk_bExtract p = 0 then Err CKR_MECHANISM_PARAM_INVALID
    else let hlen = hash_size (hk_prfHashMechanism p) in
    and_then (get_attr_as_bytes CKA_VALUE key) (\<lambda>v.
    if hlen = INVALID_HASH_SIZE \<or> hlen \<noteq> length v then Err CKR_MECHANISM_PARAM_INVALID
    else if hk_ulSaltType p = CKF_HKDF_SALT_DATA then
      (if is_null (hk_pSalt p) \<or> hk_ulSaltLen p = 0 then Err CKR_MECHANISM_PARAM_INVALID else Ok ())
    else if hk_ulSaltType p = CKF_HKDF_SALT_KEY then
      (if hk_hSaltKey p = CK_INVALID_HANDLE then Err CKR_MECHANISM_PARAM_INVALID else Ok ())
    else Err CKR_MECHANISM_PARAM_INVALID))"

definition derive_permitted :: "ck_mechanism \<Rightarrow> object \<Rightarrow> unit result" where
  "derive_permitted m key =
    (if cm_mechanism m = CKM_PUB_KEY_FROM_PRIV_KEY then Ok ()
     else if (cm_mechanism m = CKM_HKDF_DERIVE \<or> cm_mechanism m = CKM_HKDF_DATA) \<and> o_class key = CKO_DATA
       then hkdf_from_data m key
     else and_then (get_attr_as_bool CKA_DERIVE key) (\<lambda>b.
       if b then Ok () else Err CKR_KEY_FUNCTION_NOT_PERMITTED))"

fun fetch_objects :: "'s storage \<Rightarrow> 's token \<Rightarrow> ck_ulong list \<Rightarrow> object list result" where
  "fetch_objects sg t [] = Ok []"
| "fetch_objects sg t (h # hs) =
    and_then (get_object_by_handle sg h t) (\<lambda>o1.
    and_then (fetch_objects sg t hs) (\<lambda>os. Ok (o1 # os)))"

definition give_objects :: "'s storage \<Rightarrow> 's token \<Rightarrow> derive_op \<Rightarrow> derive_op result" where
  "give_objects sg t op =
    (case dv_requires_objects op of
       Inr handles \<Rightarrow>
         and_then (fetch_objects sg t handles) (\<lambda>objs.
           case dv_receives_objects op objs of (r, op1) \<Rightarrow> and_then r (\<lambda>_. Ok op1))
     | Inl e \<Rightarrow> if rv e = CKR_OK then Ok op else Inl e)"

text \<open>The objects are stored one by one; when one is refused, those before it are destroyed.\<close>

fun insert_objects ::
    "'s storage \<Rightarrow> ck_ulong \<Rightarrow> ck_ulong list \<Rightarrow> ck_ulong list \<Rightarrow> object list \<Rightarrow> 's token \<Rightarrow>
      ck_ulong list result \<times> 's token" where
  "insert_objects sg h others ah [] t = (Ok ah, t)"
| "insert_objects sg h others ah (o1 # os) t =
    (case insert_object sg h o1 t of
       (Inr k, t1) \<Rightarrow> insert_objects sg h others (ah @ [k]) os t1
     | (Inl e, t1) \<Rightarrow> (Inl e, fold (\<lambda>k t. snd (destroy_object sg k t)) (ah @ others) t1))"

text \<open>What is written through the pointers: the key handle, and other handles in the parameters.\<close>

record derived =
  de_key :: "ck_ulong option"
  de_additional :: "ck_ulong list"
  de_material :: "ck_ulong list"

definition additional_keys :: "ck_mechanism \<Rightarrow> ck_derived_key list result" where
  "additional_keys m =
    and_then
      (if cm_mechanism m = CKM_SP800_108_COUNTER_KDF
       then and_then (get_parameters 40 counter_struct m) (\<lambda>p. Ok (sp_derived_keys p))
       else if cm_mechanism m = CKM_SP800_108_FEEDBACK_KDF
       then and_then (get_parameters 56 feedback_struct m) (\<lambda>p. Ok (sp_derived_keys p))
       else Err CKR_MECHANISM_INVALID)
      (\<lambda>p. case p of Some ks \<Rightarrow> Ok ks | None \<Rightarrow> Err CKR_ARGUMENTS_BAD)"

definition written_key :: "bool \<Rightarrow> ck_ulong \<Rightarrow> ck_ulong option" where
  "written_key kh_null kh = (if kh_null then None else Some kh)"

definition store_kdf_keys ::
    "'s storage \<Rightarrow> ck_ulong \<Rightarrow> ck_mechanism \<Rightarrow> bool \<Rightarrow> object list \<Rightarrow> 's token \<Rightarrow>
      derived result \<times> 's token" where
  "store_kdf_keys sg h m kh_null objs t =
    st_then (insert_object sg h (hd objs) t) (\<lambda>kh t1.
      if tl objs = [] then
        (Ok \<lparr>de_key = written_key kh_null kh, de_additional = [], de_material = []\<rparr>, t1)
      else case additional_keys m of
        Inl e \<Rightarrow> (Inl e, t1)
      | Inr adk \<Rightarrow>
        if length adk \<noteq> length (tl objs) then (Err CKR_GENERAL_ERROR, t1)
        else st_then (insert_objects sg h [kh] [] (tl objs) t1) (\<lambda>ah t2.
          (if list_ex dk_handle_null adk then Inl Panic
           else Ok \<lparr>de_key = written_key kh_null kh, de_additional = ah, de_material = []\<rparr>, t2)))"

definition store_key_material ::
    "'s storage \<Rightarrow> ck_ulong \<Rightarrow> ck_mechanism \<Rightarrow> object list \<Rightarrow> 's token \<Rightarrow> derived result \<times> 's token" where
  "store_key_material sg h m objs t =
    (case get_parameters 80 key_mat_struct m of
       Inl e \<Rightarrow> (Inl e, t)
     | Inr params \<Rightarrow>
       if length objs \<noteq> 2 \<and> length objs \<noteq> 4 then (Err CKR_GENERAL_ERROR, t)
       else st_then (insert_objects sg h [] [] objs t) (\<lambda>ah t1.
         (if km_out_null params then Inl Panic
          else Ok \<lparr>de_key = None, de_additional = [], de_material = ah\<rparr>, t1)))"

definition store_one_key ::
    "'s storage \<Rightarrow> ck_ulong \<Rightarrow> bool \<Rightarrow> object list \<Rightarrow> 's token \<Rightarrow> derived result \<times> 's token" where
  "store_one_key sg h kh_null objs t =
    (if length objs \<noteq> 1 then (Err CKR_GENERAL_ERROR, t)
     else st_then (insert_object sg h (hd objs) t) (\<lambda>kh t1.
       (Ok \<lparr>de_key = written_key kh_null kh, de_additional = [], de_material = []\<rparr>, t1)))"

definition store_derived ::
    "'s storage \<Rightarrow> ck_ulong \<Rightarrow> ck_mechanism \<Rightarrow> bool \<Rightarrow> object list \<Rightarrow> 's token \<Rightarrow>
      derived result \<times> 's token" where
  "store_derived sg h m kh_null objs t =
    (if cm_mechanism m = CKM_SP800_108_COUNTER_KDF \<or> cm_mechanism m = CKM_SP800_108_FEEDBACK_KDF \<or>
        cm_mechanism m = CKM_SP800_108_DOUBLE_PIPELINE_KDF then store_kdf_keys sg h m kh_null objs t
     else if cm_mechanism m = CKM_TLS12_KEY_AND_MAC_DERIVE \<or> cm_mechanism m = CKM_TLS12_KEY_SAFE_DERIVE
       then store_key_material sg h m objs t
     else store_one_key sg h kh_null objs t)"

definition derive_key ::
    "'s storage \<Rightarrow> (ck_ulong \<Rightarrow> mech_ops) \<Rightarrow> ck_ulong \<Rightarrow> ck_mechanism option \<Rightarrow> ck_ulong \<Rightarrow>
      ck_attrs option \<Rightarrow> bool \<Rightarrow> 's lib_state \<Rightarrow> derived result \<times> 's lib_state" where
  "derive_key sg mops h mechptr base_key_handle template kh_null st =
    (case mechptr of
       None \<Rightarrow> (Err CKR_ARGUMENTS_BAD, st)
     | Some m \<Rightarrow>
       (case and_then (locked_session h st) (\<lambda>s.
             and_then (template_arg template) (\<lambda>tmpl.
             and_then (writable_or_session s tmpl) (\<lambda>_.
             and_then (get_token_from_slot_mut st (get_slot_id s)) (\<lambda>t.
             and_then (get_object_by_handle sg base_key_handle t) (\<lambda>key.
             and_then (derive_permitted m key) (\<lambda>_.
             and_then (allowed_mech m key) (\<lambda>_.
             and_then (mech_with_flag CKF_DERIVE m t) (\<lambda>_.
             and_then (mo_derive_operation (mops (cm_mechanism m)) m) (\<lambda>op0.
             and_then (give_objects sg t op0) (\<lambda>op.
             and_then (dv_derive op key tmpl (get_mechanisms t) (token_factories t)) (\<lambda>objs.
               if objs = [] then Err CKR_GENERAL_ERROR else Ok (get_slot_id s, objs)))))))))))) of
          Inl e \<Rightarrow> (Inl e, st)
        | Inr (sid, objs) \<Rightarrow> with_token_mut sid (store_derived sg h m kh_null objs) st))"

section \<open>Encapsulation\<close>

text \<open>The checks both directions share; the key may carry a template for the new key.\<close>

definition kem_checks ::
    "'s storage \<Rightarrow> ck_ulong \<Rightarrow> ck_flags \<Rightarrow> ck_ulong \<Rightarrow> ck_mechanism \<Rightarrow> ck_ulong \<Rightarrow> ck_attrs option \<Rightarrow>
      's lib_state \<Rightarrow> (ck_ulong \<times> object \<times> ck_attrs \<times> object_factory) result" where
  "kem_checks sg key_template flag h m key_handle template st =
    and_then (locked_session h st) (\<lambda>s.
    and_then (template_arg template) (\<lambda>raw_tmpl.
    and_then (get_token_from_slot_mut st (get_slot_id s)) (\<lambda>t.
    and_then (get_object_by_handle sg key_handle t) (\<lambda>key.
    and_then (allowed_mech m key) (\<lambda>_.
    and_then (with_key_template key_template key raw_tmpl) (\<lambda>tmpl.
    and_then (writable_or_session s tmpl) (\<lambda>_.
    and_then (get_obj_factory_from_key_template (token_factories t) tmpl) (\<lambda>factory.
    and_then (mech_with_flag flag m t) (\<lambda>_. Ok (get_slot_id s, key, tmpl, factory))))))))))"

text \<open>The reply, and the handle of the new key.\<close>

definition encapsulate_key ::
    "'s storage \<Rightarrow> (ck_ulong \<Rightarrow> mech_ops) \<Rightarrow> ck_ulong \<Rightarrow> ck_mechanism option \<Rightarrow> ck_ulong \<Rightarrow>
      ck_attrs option \<Rightarrow> bool \<Rightarrow> ck_ulong option \<Rightarrow> bool \<Rightarrow> 's lib_state \<Rightarrow>
      (reply \<times> ck_ulong option) \<times> 's lib_state" where
  "encapsulate_key sg mops h mechptr key_handle template out_null out_len kh_null st =
    (case (mechptr, out_len, kh_null) of
       (Some m, Some len, False) \<Rightarrow>
         (case and_then (kem_checks sg CKA_ENCAPSULATE_TEMPLATE CKF_ENCAPSULATE h m key_handle template st)
                 (\<lambda>(sid, key, tmpl, factory).
               and_then (mo_encapsulate_ciphertext_len (mops (cm_mechanism m)) key) (\<lambda>n.
               and_then (map_err (\<lambda>_. CkError CKR_GENERAL_ERROR) (ulong_try_from n)) (\<lambda>l.
                 Ok (sid, key, tmpl, factory, n, l)))) of
            Inl e \<Rightarrow> ((fail_reply e, None), st)
          | Inr (sid, key, tmpl, factory, n, l) \<Rightarrow>
            if out_null then (((Ok (), [], Some l), None), st)
            else if n > unat len then (((Err CKR_BUFFER_TOO_SMALL, [], Some l), None), st)
            else case mo_encapsulate (mops (cm_mechanism m)) m key factory tmpl (unat len) of
              Inl e \<Rightarrow> ((fail_reply e, None), st)
            | Inr (obj, out) \<Rightarrow>
              (case ulong_try_from (length out) of
                 Inl _ \<Rightarrow> (((Err CKR_GENERAL_ERROR, out, None), None), st)
               | Inr outlen \<Rightarrow>
                 (case with_token_mut sid (insert_object sg h obj) st of
                    (Inl e, st1) \<Rightarrow> (((Inl e, out, None), None), st1)
                  | (Inr kh, st1) \<Rightarrow> (((Ok (), out, Some outlen), Some kh), st1))))
     | _ \<Rightarrow> ((fail_reply (CkError CKR_ARGUMENTS_BAD), None), st))"

definition decapsulate_key ::
    "'s storage \<Rightarrow> (ck_ulong \<Rightarrow> mech_ops) \<Rightarrow> ck_ulong \<Rightarrow> ck_mechanism option \<Rightarrow> ck_ulong \<Rightarrow>
      ck_attrs option \<Rightarrow> bytes option \<Rightarrow> bool \<Rightarrow> 's lib_state \<Rightarrow> ck_ulong result \<times> 's lib_state" where
  "decapsulate_key sg mops h mechptr key_handle template encrypted kh_null st =
    (case (mechptr, encrypted, kh_null) of
       (Some m, Some data, False) \<Rightarrow>
         (case and_then (kem_checks sg CKA_DECAPSULATE_TEMPLATE CKF_DECAPSULATE h m key_handle template st)
                 (\<lambda>(sid, key, tmpl, factory).
               and_then (mo_decapsulate (mops (cm_mechanism m)) m key factory tmpl data)
                 (\<lambda>obj. Ok (sid, obj))) of
            Inl e \<Rightarrow> (Inl e, st)
          | Inr (sid, obj) \<Rightarrow> with_token_mut sid (insert_object sg h obj) st)
     | _ \<Rightarrow> (Err CKR_ARGUMENTS_BAD, st))"

end
