(* ===== verification/Operation_Steps.thy ===== *)
theory Operation_Steps
  imports Library_Frames Cipher_Api Keymgmt_Api
begin

text \<open>
  The cryptographic functions and the key management functions of the interface as steps of the
  library: they keep its invariant, and neither open nor close sessions.
\<close>

declare map_of_eq_Some_iff [simp del]

section \<open>What a step may change\<close>

definition quiet :: "'r storage_raw \<Rightarrow> 'r std_storage lib_state \<Rightarrow> 'r std_storage lib_state \<Rightarrow> bool" where
  "quiet raw st st' \<longleftrightarrow>
    (lib_ok raw st \<longrightarrow> lib_ok raw st') \<and> gs_sessionmap st' = gs_sessionmap st \<and>
    gs_next_handle st' = gs_next_handle st"

named_theorems quiet_steps

lemma quiet_refl [quiet_steps]: "quiet raw st st"
  by (simp add: quiet_def)

lemma quiet_trans: "quiet raw st st1 \<Longrightarrow> quiet raw st1 st2 \<Longrightarrow> quiet raw st st2"
  by (simp add: quiet_def)

lemma quiet_with_token [quiet_steps]:
  assumes "\<And>t. token_reachable raw t \<Longrightarrow> token_reachable raw (snd (f t)) \<and> same_login t (snd (f t))"
  shows "quiet raw st (snd (with_token_mut sid f st))"
proof -
  have "lib_ok raw (snd (with_token_mut sid f st))" if "lib_ok raw st"
    using assms by (intro lib_ok_with_token[OF that] keeps_same_login) simp_all
  then show ?thesis by (simp add: quiet_def)
qed

lemma quiet_with_session [quiet_steps]:
  "(\<And>s. s_info (snd (f s)) = s_info s) \<Longrightarrow> quiet raw st (snd (with_session_mut h f st))"
  by (simp add: quiet_def lib_ok_with_session)

lemma session_call_is_with_session:
  "snd (session_call h f st) =
    (if is_ok (lock st) then snd (with_session_mut h (\<lambda>s. map_prod (\<lambda>_. Ok ()) id (f s)) st) else st)"
  by (auto simp: session_call_def with_session_mut_def is_ok_def map_prod_def split: sum.split prod.split)

lemma quiet_session_call [quiet_steps]:
  assumes "\<And>s. s_info (snd (f s)) = s_info s"
  shows "quiet raw st (snd (session_call h f st))"
  by (simp add: session_call_is_with_session quiet_refl quiet_with_session map_prod_def case_prod_beta assms)

lemma on_op_info [simp]: "s_info (snd (on_op get put f s)) = s_info s"
  by (simp add: on_op_def split: sum.split prod.split)

lemma set_operation_info [simp]: "s_info (set_operation put op b s) = s_info s"
  by (simp add: set_operation_def)

lemma internal_info [simp]:
  "s_info (snd (internal_sign_update d s)) = s_info s" "s_info (snd (internal_verify_update d s)) = s_info s"
  "s_info (snd (internal_digest_update d s)) = s_info s"
  "s_info (snd (internal_encrypt_update d b l s)) = s_info s"
  "s_info (snd (internal_decrypt_update d b l s)) = s_info s"
  by (simp_all add: internal_sign_update_def internal_verify_update_def internal_digest_update_def
      internal_encrypt_update_def internal_decrypt_update_def)

lemma two_calls_info:
  assumes "\<And>s. s_info (snd (f s)) = s_info s" and "\<And>d s. s_info (snd (g d s)) = s_info s"
  shows "s_info (snd (two_calls c f b g s)) = s_info s"
proof -
  obtain r out len s1 where f: "f s = ((r, out, len), s1)" by (metis prod.exhaust)
  obtain r2 o2 l2 s2 where g: "g out s1 = ((r2, o2, l2), s2)" by (metis prod.exhaust)
  show ?thesis using assms(1)[of s] assms(2)[of out s1] f g
    by (simp add: two_calls_def split: sum.split)
qed

lemma quiet_put_session:
  assumes "get_session st h = Ok s" and "session_slot st h = Ok sid" and "s_info s' = s_info s"
  shows "quiet raw st (put_session sid h s' st)"
proof -
  have "lib_ok raw (put_session sid h s' st)" if "lib_ok raw st"
    using lib_ok_put_session[OF that assms(1,3)] lib_ok_session[OF that assms(1)] assms(2) by auto
  then show ?thesis by (simp add: quiet_def)
qed

lemma quiet_put_token:
  assumes "get_token_from_slot_mut st sid = Ok t"
    and "token_reachable raw t \<Longrightarrow> token_reachable raw t' \<and> same_login t t'"
  shows "quiet raw st (put_token sid t' st)"
proof -
  obtain sl where sl: "get_slot st sid = Ok sl" "t = sl_token sl"
    using assms(1) by (auto simp: get_token_mut_Ok)
  have "lib_ok raw (put_token sid t' st)" if "lib_ok raw st"
    using lib_ok_put_token[OF that sl(1)] lib_ok_slot[OF that sl(1)] keeps_same_login assms(2) sl(2)
    by (auto simp: slot_ok_def)
  then show ?thesis by (simp add: quiet_def)
qed

lemma quiet_update_object: "quiet raw st (snd (update_object (std_storage raw) sid op r st))"
proof (cases "co_updates op")
  case (Some p)
  then obtain oh attrs where "co_updates op = Some (oh, attrs)" by (cases p) auto
  then show ?thesis
    using quiet_put_token[of st sid _ raw, OF _ conjI[OF token_reachable.object_changed same_login_set_attrs[OF same_login_refl]]]
    by (simp add: update_object_def quiet_refl split: sum.split prod.split) (metis snd_conv)
qed (simp add: update_object_def quiet_refl)

lemma quiet_updating_call [quiet_steps]:
  "quiet raw st (snd (updating_call (std_storage raw) get put h b f st))"
proof (cases "and_then (lock st) (\<lambda>_. and_then (session_slot st h) (\<lambda>sid.
            and_then (get_session st h) (\<lambda>s.
            and_then (get_operation get co_finalized s) (\<lambda>op. Ok (sid, s, op)))))")
  case (Inr p)
  then obtain sid s op where p: "p = (sid, s, op)" "session_slot st h = Ok sid" "get_session st h = Ok s"
    by (auto simp: and_then_eq_Ok)
  obtain r op1 where f: "f op = (r, op1)" by (cases "f op")
  have "quiet raw st (put_session sid h (s\<lparr>s_operations := put (Some op1) (s_operations s)\<rparr>) st)"
    by (rule quiet_put_session[OF p(3,2)]) simp
  then show ?thesis
    using Inr p(1) f quiet_update_object quiet_trans
    by (simp add: updating_call_def Let_def) blast
qed (simp add: updating_call_def quiet_refl)

lemma quiet_op_init [quiet_steps]: "quiet raw st (snd (op_init sg get put p new nl h m k st))"
  by (auto simp: op_init_def intro!: quiet_refl quiet_with_session split: sum.split option.split)

lemma quiet_digest_init [quiet_steps]: "quiet raw st (snd (digest_init mops h m st))"
  by (auto simp: digest_init_def intro!: quiet_refl quiet_with_session split: sum.split option.split)

section \<open>Storing keys\<close>

definition stores :: "'r storage_raw \<Rightarrow> 'r std_storage token \<Rightarrow> 'r std_storage token \<Rightarrow> bool" where
  "stores raw t t' \<longleftrightarrow> (token_reachable raw t \<longrightarrow> token_reachable raw t') \<and> same_login t t'"

lemma stores_refl [simp]: "stores raw t t"
  by (simp add: stores_def)

lemma stores_trans: "stores raw t t1 \<Longrightarrow> stores raw t1 t2 \<Longrightarrow> stores raw t t2"
  by (simp add: stores_def same_login_def)

lemma stores_insert: "stores raw t (snd (insert_object (std_storage raw) h obj t))"
  by (simp add: stores_def token_reachable.object_inserted same_login_insert)

lemma stores_destroy: "stores raw t (snd (destroy_object (std_storage raw) k t))"
  by (simp add: stores_def token_reachable.object_destroyed same_login_destroy)

lemma stores_destroy_all:
  "stores raw t (fold (\<lambda>k t. snd (destroy_object (std_storage raw) k t)) ks t)"
proof (induction ks arbitrary: t)
  case (Cons k ks)
  then show ?case using stores_destroy stores_trans by (metis fold_simps(2))
qed simp

lemma stores_insert_objects: "stores raw t (snd (insert_objects (std_storage raw) h others ah objs t))"
proof (induction objs arbitrary: ah t)
  case (Cons o1 os)
  obtain r t1 where i: "insert_object (std_storage raw) h o1 t = (r, t1)" by force
  then have "stores raw t t1" using stores_insert by (metis snd_conv)
  then show ?case
    using i Cons.IH stores_destroy_all stores_trans by (cases r; simp) blast+
qed simp

lemma stores_then:
  assumes "stores raw t (snd m)" and "\<And>x s. m = (Inr x, s) \<Longrightarrow> stores raw s (snd (f x s))"
  shows "stores raw t (snd (st_then m f))"
  using assms stores_trans by (cases m; cases "fst m") (auto simp: st_then_def)

lemma stores_pair: "stores raw t (snd (insert_pair (std_storage raw) h a b t))"
  unfolding insert_pair_def
proof (rule stores_then[OF stores_insert])
  fix x s
  obtain r t2 where i: "insert_object (std_storage raw) h b s = (r, t2)" by force
  then have "stores raw s t2" using stores_insert by (metis snd_conv)
  then show "stores raw s (snd (case insert_object (std_storage raw) h b s of
      (Inr privh, t2) \<Rightarrow> (Ok (x, privh), t2)
    | (Inl e, t2) \<Rightarrow> (Inl e, snd (destroy_object (std_storage raw) x t2))))"
    using i stores_destroy stores_trans by (cases r; simp) blast
qed

lemma stores_derived: "stores raw t (snd (store_derived (std_storage raw) h m b objs t))"
proof -
  have 1: "stores raw t (snd (store_kdf_keys (std_storage raw) h m b objs t))"
    unfolding store_kdf_keys_def
    by (rule stores_then[OF stores_insert])
      (auto intro!: stores_then[OF stores_insert_objects] split: sum.split)
  have 2: "stores raw t (snd (store_key_material (std_storage raw) h m objs t))"
    by (auto simp: store_key_material_def intro!: stores_then[OF stores_insert_objects] split: sum.split)
  have 3: "stores raw t (snd (store_one_key (std_storage raw) h b objs t))"
    by (auto simp: store_one_key_def intro!: stores_then[OF stores_insert])
  show ?thesis using 1 2 3 by (simp add: store_derived_def)
qed

lemma quiet_stores:
  "(\<And>t. stores raw t (snd (f t))) \<Longrightarrow> quiet raw st (snd (with_token_mut sid f st))"
  by (rule quiet_with_token) (simp add: stores_def)

section \<open>The functions as steps\<close>

text \<open>
  One call of a cryptographic function or of a key management function that can change the state.
\<close>

inductive crypto_step :: "'r storage_raw \<Rightarrow> 'r std_storage lib_state \<Rightarrow> 'r std_storage lib_state \<Rightarrow> bool"
  for raw where
  signing_started: "crypto_step raw st (snd (sign_init (std_storage raw) mops h mech k st))"
| signed: "crypto_step raw st (snd (sign (std_storage raw) h data b len st))"
| sign_updated: "crypto_step raw st (snd (sign_update h data st))"
| sign_finished: "crypto_step raw st (snd (sign_final (std_storage raw) h b len st))"
| verification_started: "crypto_step raw st (snd (verify_init (std_storage raw) mops h mech k st))"
| verified: "crypto_step raw st (snd (verify (std_storage raw) h data sig st))"
| verify_updated: "crypto_step raw st (snd (verify_update h data st))"
| verify_finished: "crypto_step raw st (snd (verify_final (std_storage raw) h sig st))"
| signature_given: "crypto_step raw st (snd (verify_signature_init (std_storage raw) mops h mech k sig st))"
| signature_verified: "crypto_step raw st (snd (verify_signature (std_storage raw) h data st))"
| signature_updated: "crypto_step raw st (snd (verify_signature_update h data st))"
| signature_finished: "crypto_step raw st (snd (verify_signature_final (std_storage raw) h st))"
| digest_started: "crypto_step raw st (snd (digest_init mops h mech st))"
| digested: "crypto_step raw st (snd (digest h data b len st))"
| digest_updated: "crypto_step raw st (snd (digest_update h data st))"
| key_digested: "crypto_step raw st (snd (digest_key (std_storage raw) h k st))"
| digest_finished: "crypto_step raw st (snd (digest_final h b len st))"
| encryption_started: "crypto_step raw st (snd (encrypt_init (std_storage raw) mops h mech k st))"
| encrypted: "crypto_step raw st (snd (encrypt h data b len st))"
| encrypt_updated: "crypto_step raw st (snd (encrypt_update h data b len st))"
| encrypt_finished: "crypto_step raw st (snd (encrypt_final h b len st))"
| decryption_started: "crypto_step raw st (snd (decrypt_init (std_storage raw) mops h mech k st))"
| decrypted: "crypto_step raw st (snd (decrypt h data b len st))"
| decrypt_updated: "crypto_step raw st (snd (decrypt_update h data b len st))"
| decrypt_finished: "crypto_step raw st (snd (decrypt_final h b len st))"
| message_encryption_started: "crypto_step raw st (snd (message_encrypt_init (std_storage raw) mops h mech k st))"
| message_encrypted: "crypto_step raw st (snd (encrypt_message h param ad data b len st))"
| message_encryption_begun: "crypto_step raw st (snd (encrypt_message_begin h param ad st))"
| message_part_encrypted: "crypto_step raw st (snd (encrypt_message_next h param data b len flags st))"
| message_encryption_finished: "crypto_step raw st (snd (message_encrypt_final h st))"
| message_decryption_started: "crypto_step raw st (snd (message_decrypt_init (std_storage raw) mops h mech k st))"
| message_decrypted: "crypto_step raw st (snd (decrypt_message h param ad data b len st))"
| message_decryption_begun: "crypto_step raw st (snd (decrypt_message_begin h param ad st))"
| message_part_decrypted: "crypto_step raw st (snd (decrypt_message_next h param data b len flags st))"
| message_decryption_finished: "crypto_step raw st (snd (message_decrypt_final h st))"
| digested_encrypted: "crypto_step raw st (snd (digest_encrypt_update c h data b len st))"
| decrypted_digested: "crypto_step raw st (snd (decrypt_digest_update h data b len st))"
| signed_encrypted: "crypto_step raw st (snd (sign_encrypt_update c h data b len st))"
| decrypted_verified: "crypto_step raw st (snd (decrypt_verify_update h data b len st))"
| key_generated: "crypto_step raw st (snd (generate_key (std_storage raw) mops h mech tmpl b st))"
| pair_generated: "crypto_step raw st (snd (generate_key_pair (std_storage raw) mops h mech tmpl tmpl2 b st))"
| key_unwrapped: "crypto_step raw st (snd (unwrap_key (std_storage raw) mops h mech k data tmpl b st))"
| key_derived: "crypto_step raw st (snd (derive_key (std_storage raw) mops h mech k tmpl b st))"
| key_encapsulated: "crypto_step raw st (snd (encapsulate_key (std_storage raw) mops h mech k tmpl b len c st))"
| key_decapsulated: "crypto_step raw st (snd (decapsulate_key (std_storage raw) mops h mech k tmpl data b st))"

lemmas crypto_inits = sign_init_def verify_init_def verify_signature_init_def encrypt_init_def
  decrypt_init_def message_encrypt_init_def message_decrypt_init_def

lemmas crypto_calls = sign_def sign_update_def sign_final_def verify_def verify_update_def
  verify_final_def verify_signature_def verify_signature_update_def verify_signature_final_def
  digest_def digest_update_def digest_key_def digest_final_def encrypt_def encrypt_update_def
  encrypt_final_def decrypt_def decrypt_update_def decrypt_final_def encrypt_message_def
  encrypt_message_begin_def encrypt_message_next_def message_encrypt_final_def decrypt_message_def
  decrypt_message_begin_def decrypt_message_next_def message_decrypt_final_def
  digest_encrypt_update_def decrypt_digest_update_def sign_encrypt_update_def decrypt_verify_update_def

lemma quiet_bad_arguments [quiet_steps]: "quiet raw st (snd (bad_arguments st))"
  by (simp add: bad_arguments_def quiet_refl)

lemma quiet_generate_key: "quiet raw st (snd (generate_key (std_storage raw) mops h mech tmpl b st))"
  by (auto simp: generate_key_def intro!: quiet_refl quiet_stores stores_insert
      split: sum.split option.split bool.split)

lemma quiet_generate_pair:
  "quiet raw st (snd (generate_key_pair (std_storage raw) mops h mech tmpl tmpl2 b st))"
  by (auto simp: generate_key_pair_def intro!: quiet_refl quiet_stores stores_pair
      split: sum.split option.split bool.split)

lemma quiet_unwrap: "quiet raw st (snd (unwrap_key (std_storage raw) mops h mech k data tmpl b st))"
  by (auto simp: unwrap_key_def intro!: quiet_refl quiet_stores stores_insert
      split: sum.split option.split bool.split)

lemma quiet_derive: "quiet raw st (snd (derive_key (std_storage raw) mops h mech k tmpl b st))"
  by (auto simp: derive_key_def intro!: quiet_refl quiet_stores stores_derived
      split: sum.split option.split)

lemma quiet_decapsulate: "quiet raw st (snd (decapsulate_key (std_storage raw) mops h mech k tmpl data b st))"
  by (auto simp: decapsulate_key_def intro!: quiet_refl quiet_stores stores_insert
      split: sum.split option.split bool.split)

lemma quiet_encapsulate:
  "quiet raw st (snd (encapsulate_key (std_storage raw) mops h mech k tmpl b len c st))"
proof -
  have 1: "quiet raw st st1" if "with_token_mut sid (insert_object (std_storage raw) h obj) st = (r, st1)"
    for sid obj r st1
    using quiet_stores[where f = "insert_object (std_storage raw) h obj", OF stores_insert, of st sid] that by simp
  show ?thesis
    by (auto simp: encapsulate_key_def quiet_refl dest!: 1 split: sum.split option.split bool.split prod.split)
qed

lemma crypto_step_quiet: "crypto_step raw st st' \<Longrightarrow> quiet raw st st'"
  by (induction rule: crypto_step.induct)
    (simp_all add: crypto_inits crypto_calls quiet_steps quiet_generate_key quiet_generate_pair
      quiet_unwrap quiet_derive quiet_decapsulate quiet_encapsulate two_calls_info
      split: option.split sum.split)

end
