(* ===== verification/Library_Laws.thy ===== *)
theory Library_Laws
  imports Operation_Steps
begin

text \<open>
  What the session layer guarantees across \<^verbatim>\<open>src/src/lib.rs\<close>, \<^verbatim>\<open>src/src/slot.rs\<close>,
  \<^verbatim>\<open>src/src/fns/sessmgmt.rs\<close>, \<^verbatim>\<open>src/src/fns/stmgmt.rs\<close> and \<^verbatim>\<open>src/src/fns/objmgmt.rs\<close>: the session map, the
  slots and the tokens agree in every reachable state, a login and a logout reach every session of
  the slot, the last session that closes logs out, and a closed handle stays closed.
\<close>

section \<open>Opening and closing\<close>

lemma new_session_fits:
  assumes "new_session sid user_type flags = Ok s" and "is_initialized t"
    and u: "user_type = tk_logged t"
    and t: "tk_logged t = CKU_SO \<or> tk_logged t = CKU_USER \<or> tk_logged t = KRY_UNSPEC"
  shows "session_fits sid t s"
proof -
  obtain x where x: "initial_state user_type (flags AND CKF_RW_SESSION = CKF_RW_SESSION) = Ok x"
      "si_state (s_info s) = x" "si_slotID (s_info s) = sid"
    using assms(1) by (auto simp: new_session_def and_then_eq_Ok split: if_splits)
  have "level_agrees (tk_logged t) s"
    using t
  proof (elim disjE)
    assume "tk_logged t = CKU_SO"
    then show ?thesis using x u
      by (cases "flags AND CKF_RW_SESSION = CKF_RW_SESSION")
        (simp_all add: initial_state_def level_agrees_def session_view_def)
  next
    assume "tk_logged t = CKU_USER"
    then show ?thesis using x u
      by (cases "flags AND CKF_RW_SESSION = CKF_RW_SESSION")
        (simp_all add: initial_state_def level_agrees_def session_view_def)
  next
    assume "tk_logged t = KRY_UNSPEC"
    then show ?thesis using x u
      by (cases "flags AND CKF_RW_SESSION = CKF_RW_SESSION")
        (simp_all add: initial_state_def level_agrees_def session_view_def)
  qed
  then show ?thesis using session_ok_new[OF assms(1)] assms(2) x(3) by (simp add: session_fits_def)
qed

lemma below_succ: "k \<le> h \<Longrightarrow> h + 1 \<noteq> 0 \<Longrightarrow> k < h + (1 :: 'a::len word)"
  using unatSuc[of h] by (simp add: word_less_nat_alt word_le_nat_alt add.commute)

lemma lib_ok_new_session:
  assumes ok: "lib_ok raw st" and run: "state_new_session sid user_type flags st = (Ok h, st')"
    and sl: "get_slot st sid = Ok sl"
    and fits: "\<And>s. new_session sid user_type flags = Ok s \<Longrightarrow> session_fits sid (sl_token sl) s"
  shows "lib_ok raw st'" and "h = gs_next_handle st" and "map_of (gs_sessionmap st) h = None"
    and "\<exists>s. new_session sid user_type flags = Ok s \<and>
      gs_slots st' = AList.update sid (slot_add_session h s sl) (gs_slots st) \<and>
      gs_sessionmap st' = AList.update h sid (gs_sessionmap st) \<and> gs_next_handle st' = h + 1"
proof -
  obtain s where s: "new_session sid user_type flags = Ok s" "h = gs_next_handle st"
      "st' = (put_slot sid (slot_add_session h s sl) st)
        \<lparr>gs_sessionmap := AList.update h sid (gs_sessionmap st), gs_next_handle := h + 1\<rparr>"
    using run sl by (auto simp: state_new_session_def Let_def and_then_eq_Ok split: sum.splits)
  have init: "state_is_initialized st" and at: "map_of (gs_slots st) sid = Some sl"
    using sl by (simp_all add: get_slot_Ok)
  have wf: "lib_wf raw st" using ok init by (simp add: lib_ok_def)
  show fresh: "map_of (gs_sessionmap st) h = None"
    using wf s(2) unfolding lib_wf_def by (metis less_irrefl not_None_eq)
  have slot: "slot_ok raw sid (slot_add_session h s sl)"
    using wf at fits[OF s(1)]
    by (auto simp: lib_wf_def slot_ok_def slot_add_session_def update_conv' distinct_update)
  have 1: "map_of (gs_sessionmap st') k = Some i \<longleftrightarrow>
      (\<exists>x s. map_of (gs_slots st') i = Some x \<and> map_of (sl_sessions x) k = Some s)" for k i
  proof -
    have "map_of (sl_sessions x) h = None" if "map_of (gs_slots st) i = Some x" for i x
      using wf fresh that unfolding lib_wf_def by (metis not_None_eq)
    then show ?thesis
      using wf at by (auto simp: s(3) lib_wf_def update_conv' slot_add_session_def)
  qed
  have 2: "0 < k \<and> k < gs_next_handle st'"
    if "map_of (gs_sessionmap st') k = Some i" "gs_next_handle st' \<noteq> 0" for k i
  proof (cases "k = h")
    case True
    then show ?thesis using init that(2) below_succ[of h h]
      by (simp add: s(2,3) state_is_initialized_def word_neq_0_conv)
  next
    case False
    then have "map_of (gs_sessionmap st) k = Some i" using that(1) by (simp add: s(3) update_conv')
    then have "0 < k \<and> k < h" using wf s(2) unfolding lib_wf_def by blast
    then show ?thesis using that(2) below_succ[of k h] by (simp add: s(3) order_less_imp_le)
  qed
  have 3: "slot_ok raw k x" if "map_of (gs_slots st') k = Some x" for k x
    using wf slot that by (simp add: s(3) update_conv' lib_wf_def split: if_splits)
  have 4: "distinct (map fst (gs_slots st'))" "distinct (map fst (gs_sessionmap st'))"
    using wf by (simp_all add: s(3) lib_wf_def distinct_update)
  show "lib_ok raw st'" unfolding lib_ok_def lib_wf_def state_is_initialized_def using 1 2 3 4 by blast
  show "h = gs_next_handle st" by (rule s(2))
  show "\<exists>s. new_session sid user_type flags = Ok s \<and>
      gs_slots st' = AList.update sid (slot_add_session h s sl) (gs_slots st) \<and>
      gs_sessionmap st' = AList.update h sid (gs_sessionmap st) \<and> gs_next_handle st' = h + 1"
    using s by simp
qed

lemma reachable_logged:
  "token_reachable raw t \<Longrightarrow> tk_logged t = CKU_SO \<or> tk_logged t = CKU_USER \<or> tk_logged t = KRY_UNSPEC"
  using token_reachable_ok[of raw t] by (auto simp: token_ok_def)

text \<open>What \<^verbatim>\<open>open_session\<close> asks for is the login of the token.\<close>

lemma open_session_Ok:
  assumes "lib_ok raw st" and "open_session sid flags null st = (Ok h, st')"
  obtains sl where "get_slot st sid = Ok sl" and "slot_ok raw sid sl" and "is_initialized (sl_token sl)"
    and "state_new_session sid (tk_logged (sl_token sl)) flags st = (Ok h, st')"
proof -
  obtain t where t: "get_token_from_slot st sid = Ok t"
    using assms(2) by (auto simp: open_session_def and_then_eq_Ok split: if_splits sum.splits)
  then obtain sl where sl: "get_slot st sid = Ok sl" "t = sl_token sl" "is_initialized t"
    by (auto simp: get_token_from_slot_def and_then_eq_Ok slot_get_token_def split: if_splits)
  note ok = lib_ok_slot[OF assms(1) sl(1)]
  have "lock st = Ok ()" using sl(1) by (simp add: lock_def get_slot_Ok)
  then have "state_new_session sid (tk_logged t) flags st = (Ok h, st')"
    using assms(2) t reachable_logged[of raw t] ok sl(2)
    by (auto simp: open_session_def is_logged_in_def slot_ok_def split: if_splits)
  then show thesis using that sl ok by simp
qed

lemma lib_ok_open:
  assumes "lib_ok raw st"
  shows "lib_ok raw (snd (open_session sid flags null st))"
proof (cases "open_session sid flags null st")
  case (Pair r st')
  show ?thesis
  proof (cases r)
    case (Inl e)
    then have "st' = st"
      using Pair by (auto simp: open_session_def state_new_session_def Let_def split: if_splits sum.splits)
    then show ?thesis using assms Pair by simp
  next
    case (Inr h)
    obtain sl where "get_slot st sid = Ok sl" "slot_ok raw sid sl" "is_initialized (sl_token sl)"
        "state_new_session sid (tk_logged (sl_token sl)) flags st = (Ok h, st')"
      using open_session_Ok[OF assms Pair[unfolded Inr]] by blast
    note o = this
    have "token_reachable raw (sl_token sl)" using o(2) by (simp add: slot_ok_def)
    from reachable_logged[OF this] have "lib_ok raw st'"
      by (intro lib_ok_new_session(1)[OF assms o(4,1)] new_session_fits[OF _ o(3) refl])
    then show ?thesis using Pair by simp
  qed
qed

section \<open>Login and logout\<close>

lemma put_slot_twice [simp]: "put_slot sid a (put_slot sid b st) = put_slot sid a st"
  by (simp add: put_slot_def)

lemma get_slot_put [simp]:
  "get_slot (put_slot sid sl st) k =
    (if state_is_initialized st \<and> k = sid then Ok sl else get_slot st k)"
  by (simp add: get_slot_def update_conv')

lemma put_token_slot: "get_slot st sid = Ok sl \<Longrightarrow> put_token sid t st = put_slot sid (sl\<lparr>sl_token := t\<rparr>) st"
  by (simp add: put_token_def get_slot_Ok)

lemma change_public:
  assumes "session_ok s" and "level_agrees KRY_UNSPEC s" and "user_type = CKU_SO \<or> user_type = CKU_USER"
    and "user_type = CKU_SO \<Longrightarrow> \<not> is_ro_state (si_state (s_info s))"
  shows "fst (change_session_state user_type s) = CKR_OK"
    and "level_agrees user_type (snd (change_session_state user_type s))"
    and "si_slotID (s_info (snd (change_session_state user_type s))) = si_slotID (s_info s)"
proof -
  have "si_state (s_info s) = CKS_RO_PUBLIC_SESSION \<or> si_state (s_info s) = CKS_RW_PUBLIC_SESSION"
    using assms(2) by (simp add: level_agrees_def session_view_def split: if_splits)
  then show "fst (change_session_state user_type s) = CKR_OK"
    and "level_agrees user_type (snd (change_session_state user_type s))"
    and "si_slotID (s_info (snd (change_session_state user_type s))) = si_slotID (s_info s)"
    using assms(3,4)
    by (elim disjE; simp add: change_session_state_def level_agrees_def session_view_def set_state_def
        is_ro_state_def)+
qed

lemma session_ok_states:
  "session_ok s \<Longrightarrow> si_state (s_info s) = CKS_RO_PUBLIC_SESSION \<or> si_state (s_info s) = CKS_RW_PUBLIC_SESSION \<or>
    si_state (s_info s) = CKS_RO_USER_FUNCTIONS \<or> si_state (s_info s) = CKS_RW_USER_FUNCTIONS \<or>
    si_state (s_info s) = CKS_RW_SO_FUNCTIONS"
  by (auto simp: session_ok_def session_view_def split: if_splits)

definition invalidated :: "session \<Rightarrow> session" where
  "invalidated s = snd (change_session_state CK_UNAVAILABLE_INFORMATION s)"

lemma invalidated_public:
  assumes "session_ok s"
  shows "level_agrees KRY_UNSPEC (invalidated s)" and "si_slotID (s_info (invalidated s)) = si_slotID (s_info s)"
    and "session_ok (invalidated s)"
proof -
  show "level_agrees KRY_UNSPEC (invalidated s)" "si_slotID (s_info (invalidated s)) = si_slotID (s_info s)"
    using session_ok_states[OF assms]
    by (elim disjE; simp add: invalidated_def change_session_state_def level_agrees_def session_view_def set_state_def)+
  show "session_ok (invalidated s)" using session_ok_change[OF assms] by (simp add: invalidated_def)
qed

lemma change_all_succeeds:
  "(\<And>h s. (h, s) \<in> set ss \<Longrightarrow> fst (change_session_state user_type s) = CKR_OK) \<Longrightarrow>
    change_all user_type ss = (Ok (), map (\<lambda>(h, s). (h, snd (change_session_state user_type s))) ss)"
proof (induction ss)
  case (Cons p ss)
  obtain h s where p: "p = (h, s)" by force
  have "change_all user_type ss = (Ok (), map (\<lambda>(h, s). (h, snd (change_session_state user_type s))) ss)"
    by (rule Cons.IH) (use Cons.prems in auto)
  moreover have "fst (change_session_state user_type s) = CKR_OK" using Cons.prems[of h s] p by simp
  ultimately show ?case by (simp add: p case_prod_beta)
qed simp

lemma fst_values [simp]: "fst \<circ> (\<lambda>(h, s). (h, f s)) = fst"
  by auto

lemma slot_ok_logged_out:
  assumes "slot_ok raw sid sl" and "token_reachable raw t" and "tk_logged t = KRY_UNSPEC"
    and "is_initialized (sl_token sl) \<Longrightarrow> is_initialized t"
  shows "slot_ok raw sid (slot_invalidate_session_states (sl\<lparr>sl_token := t\<rparr>))"
proof -
  have "session_fits sid t (invalidated s)" if "session_fits sid (sl_token sl) s" for s
    using that assms(3,4) invalidated_public[of s] by (simp add: session_fits_def)
  then show ?thesis
    using assms
    by (auto simp: slot_ok_def slot_invalidate_session_states_def invalidated_def[symmetric]
        map_of_map)
qed

lemma logout_token:
  assumes "token_reachable raw t"
  shows "token_reachable raw (snd (token_logout (std_storage raw) t))"
    and "tk_logged (snd (token_logout (std_storage raw) t)) = KRY_UNSPEC"
proof -
  show "token_reachable raw (snd (token_logout (std_storage raw) t))"
    by (rule token_reachable.logged_out[OF assms])
  show "tk_logged (snd (token_logout (std_storage raw) t)) = KRY_UNSPEC"
  proof (cases "tk_logged t = KRY_UNSPEC")
    case True
    then show ?thesis by (simp add: token_logout_def)
  next
    case False
    then show ?thesis
      by (rule token_logout_effect(1)[OF token_reachable_ok[OF assms] _ prod.collapse[symmetric]])
  qed
qed

lemma has_ro_False:
  assumes "slot_ok raw sid sl" and "\<not> slot_has_ro_sessions sl" and "map_of (sl_sessions sl) h = Some s"
  shows "\<not> is_ro_state (si_state (s_info s))"
  using assms map_of_SomeD[OF assms(3)] by (auto simp: slot_has_ro_sessions_def list_ex_iff)

lemma slot_ok_logged_in:
  assumes "slot_ok raw sid sl" and "tk_logged (sl_token sl) = KRY_UNSPEC" and "sl_sessions sl \<noteq> []"
    and "token_reachable raw t" and "tk_logged t = user_type" and "user_type = CKU_SO \<or> user_type = CKU_USER"
    and "is_initialized t" and "user_type = CKU_SO \<Longrightarrow> \<not> slot_has_ro_sessions sl"
  shows "slot_change_session_states user_type (sl\<lparr>sl_token := t\<rparr>) =
      (Ok (), sl\<lparr>sl_token := t, sl_sessions := map (\<lambda>(h, s). (h, snd (change_session_state user_type s))) (sl_sessions sl)\<rparr>)"
    and "slot_ok raw sid (sl\<lparr>sl_token := t,
      sl_sessions := map (\<lambda>(h, s). (h, snd (change_session_state user_type s))) (sl_sessions sl)\<rparr>)"
proof -
  have d: "distinct (map fst (sl_sessions sl))" using assms(1) by (simp add: slot_ok_def)
  have fit: "fst (change_session_state user_type s) = CKR_OK \<and> session_fits sid t (snd (change_session_state user_type s))"
    if "map_of (sl_sessions sl) h = Some s" for h s
  proof -
    have f: "session_fits sid (sl_token sl) s" using assms(1) that by (simp add: slot_ok_def)
    note ro = has_ro_False[OF assms(1) assms(8) that]
    show ?thesis
      using change_public[of s user_type] f assms(2,5,6,7) ro session_ok_change[of s user_type]
      by (simp add: session_fits_def)
  qed
  have "(h, s) \<in> set (sl_sessions sl) \<Longrightarrow> fst (change_session_state user_type s) = CKR_OK" for h s
    using fit[of h s] map_of_is_SomeI[OF d] by simp
  then show "slot_change_session_states user_type (sl\<lparr>sl_token := t\<rparr>) =
      (Ok (), sl\<lparr>sl_token := t, sl_sessions := map (\<lambda>(h, s). (h, snd (change_session_state user_type s))) (sl_sessions sl)\<rparr>)"
    using change_all_succeeds[of "sl_sessions sl" user_type] by (simp add: slot_change_session_states_def)
  show "slot_ok raw sid (sl\<lparr>sl_token := t,
      sl_sessions := map (\<lambda>(h, s). (h, snd (change_session_state user_type s))) (sl_sessions sl)\<rparr>)"
    using assms fit d by (auto simp: slot_ok_def map_of_map)
qed

lemma login_checks_Ok:
  assumes "lib_ok raw st" and "login_checks h user_type st = Ok (sid, t)"
  obtains s sl where "get_session st h = Ok s" and "sid = si_slotID (s_info s)" and "get_slot st sid = Ok sl"
    and "t = sl_token sl" and "is_initialized t" and "map_of (sl_sessions sl) h = Some s"
    and "user_type = CKU_SO \<Longrightarrow> \<not> slot_has_ro_sessions sl"
proof -
  obtain s where s: "get_session st h = Ok s" and sid: "sid = get_slot_id s"
      and tok: "get_token_from_slot_mut st sid = Ok t"
      and ro: "user_type = CKU_SO \<Longrightarrow> has_ro_sessions st sid = Ok False"
    using assms(2) by (auto simp: login_checks_def Let_def and_then_eq_Ok split: if_splits)
  obtain sl where sl: "get_slot st sid = Ok sl" "t = sl_token sl" "is_initialized t"
    using tok by (auto simp: get_token_mut_Ok)
  have "map_of (sl_sessions sl) h = Some s"
    using lib_ok_session[OF assms(1) s] sl(1) sid by (metis Inr_inject get_slot_id_def)
  then show thesis
    using that[OF s _ sl] sid ro sl(1) by (auto simp: get_slot_id_def has_ro_sessions_def)
qed

definition honest_login ::
    "'r storage_raw \<Rightarrow> 'r std_storage lib_state \<Rightarrow> ck_ulong \<Rightarrow> ck_ulong \<Rightarrow> bytes \<Rightarrow> bool" where
  "honest_login raw st h user_type pin \<longleftrightarrow>
    (\<forall>sid t. login_checks h user_type st = Ok (sid, t) \<longrightarrow> honest_auth (std_storage raw) user_type pin t)"

text \<open>A login that the token accepts reaches every session of the slot; nothing has to be undone.\<close>

lemma login_success:
  assumes "lib_ok raw st" and c: "login_checks h user_type st = Ok (sid, t)"
    and "user_type \<noteq> CKU_CONTEXT_SPECIFIC" and "honest_auth (std_storage raw) user_type pin t"
    and l: "token_login (std_storage raw) user_type pin t = (CKR_OK, t1)"
    and sl: "get_slot st sid = Ok sl"
  shows "login (std_storage raw) h user_type pin st =
      (Ok (), put_slot sid (sl\<lparr>sl_token := t1, sl_sessions :=
        map (\<lambda>(h, s). (h, snd (change_session_state user_type s))) (sl_sessions sl)\<rparr>) st)"
    and "slot_ok raw sid (sl\<lparr>sl_token := t1, sl_sessions :=
        map (\<lambda>(h, s). (h, snd (change_session_state user_type s))) (sl_sessions sl)\<rparr>)"
    and "tk_logged t = KRY_UNSPEC" and "tk_logged t1 = user_type"
proof -
  obtain s where s: "t = sl_token sl" "is_initialized t" "map_of (sl_sessions sl) h = Some s"
      "user_type = CKU_SO \<Longrightarrow> \<not> slot_has_ro_sessions sl"
    using login_checks_Ok[OF assms(1) c] sl by (metis Inr_inject)
  have ok: "slot_ok raw sid sl" by (rule lib_ok_slot[OF assms(1) sl])
  note e = token_login_effect(4)[OF l assms(3,4)]
  show un: "tk_logged t = KRY_UNSPEC" and lg: "tk_logged t1 = user_type" using e by simp_all
  have ne: "sl_sessions sl \<noteq> []" using s(3) by auto
  have "token_reachable raw t" using ok s(1) by (simp add: slot_ok_def)
  then have r: "token_reachable raw t1"
    using token_reachable.logged_in[of raw t user_type pin] l by simp
  have i: "is_initialized t1" using initialized_login[OF s(2), of "std_storage raw" user_type pin] l by simp
  have u: "user_type = CKU_SO \<or> user_type = CKU_USER" using e by simp
  note ch = slot_ok_logged_in[OF ok un[unfolded s(1)] ne r lg u i s(4)]
  show "slot_ok raw sid (sl\<lparr>sl_token := t1, sl_sessions :=
        map (\<lambda>(h, s). (h, snd (change_session_state user_type s))) (sl_sessions sl)\<rparr>)"
    by (rule ch(2))
  have init: "state_is_initialized st" using sl by (simp add: get_slot_Ok)
  show "login (std_storage raw) h user_type pin st =
      (Ok (), put_slot sid (sl\<lparr>sl_token := t1, sl_sessions :=
        map (\<lambda>(h, s). (h, snd (change_session_state user_type s))) (sl_sessions sl)\<rparr>) st)"
    using c l assms(3) ch(1) init
    by (simp add: login_def login_sessions_def put_token_slot[OF sl] change_session_states_def)
qed

text \<open>A logout of the token and of all sessions of its slot, as \<^verbatim>\<open>C_Logout\<close> and a locked PIN do it.\<close>

definition logged_out_slot :: "'s storage \<Rightarrow> 's slot \<Rightarrow> 's slot" where
  "logged_out_slot sg sl =
    slot_invalidate_session_states (sl\<lparr>sl_token := snd (token_logout sg (sl_token sl))\<rparr>)"

lemma slot_ok_logged_out_slot:
  "slot_ok raw sid sl \<Longrightarrow> slot_ok raw sid (logged_out_slot (std_storage raw) sl)"
  unfolding logged_out_slot_def
  by (rule slot_ok_logged_out) (auto simp: logout_token slot_ok_def)

lemma invalidate_after_logout:
  assumes "get_slot st sid = Ok sl"
  shows "snd (invalidate_session_states sid (put_slot sid (sl\<lparr>sl_token := snd (token_logout sg (sl_token sl))\<rparr>) st)) =
    put_slot sid (logged_out_slot sg sl) st"
proof -
  have "state_is_initialized st" using assms by (simp add: get_slot_Ok)
  then show ?thesis
    by (simp add: invalidate_session_states_def logged_out_slot_def)
qed

lemma logged_out_keys: "map fst (sl_sessions (logged_out_slot sg sl)) = map fst (sl_sessions sl)"
  by (simp add: logged_out_slot_def slot_invalidate_session_states_def)

lemma lib_ok_login:
  assumes ok: "lib_ok raw st" and "honest_login raw st h user_type pin"
  shows "lib_ok raw (snd (login (std_storage raw) h user_type pin st))"
proof (cases "login_checks h user_type st")
  case (Inl e)
  then show ?thesis using ok by (simp add: login_def)
next
  case (Inr p)
  then obtain sid t where c: "login_checks h user_type st = Ok (sid, t)" by (cases p) auto
  obtain s sl where s: "get_session st h = Ok s" "sid = si_slotID (s_info s)" "get_slot st sid = Ok sl"
      "t = sl_token sl" "is_initialized t" "map_of (sl_sessions sl) h = Some s"
    using login_checks_Ok[OF ok c] by metis
  have hon: "honest_auth (std_storage raw) user_type pin t" using assms(2) c by (simp add: honest_login_def)
  obtain ret t1 where l: "token_login (std_storage raw) user_type pin t = (ret, t1)" by force
  have sok: "slot_ok raw sid sl" by (rule lib_ok_slot[OF ok s(3)])
  have r: "token_reachable raw t" using sok s(4) by (simp add: slot_ok_def)
  have r1: "token_reachable raw t1" using token_reachable.logged_in[OF r, of user_type pin] l by simp
  have i1: "is_initialized t1" using initialized_login[OF s(5), of "std_storage raw" user_type pin] l by simp
  have init: "state_is_initialized st" using s(3) by (simp add: get_slot_Ok)
  show ?thesis
  proof (cases "user_type \<noteq> CKU_CONTEXT_SPECIFIC \<and> ret = CKR_OK")
    case True
    note g = login_success[OF ok c _ hon _ s(3)]
    show ?thesis using g(1,2) True l lib_ok_put_slot[OF ok s(3)] by simp
  next
    case False
    have "tk_logged t1 = tk_logged t"
      using token_login_effect(3,4)[OF l] hon False by (cases "user_type = CKU_CONTEXT_SPECIFIC") auto
    then have k: "keeps raw t t1" using r1 i1 by (simp add: keeps_def)
    have ok1: "lib_ok raw (put_token sid t1 st)" using lib_ok_put_token[OF ok s(3)] k s(4) by simp
    show ?thesis
    proof (cases "user_type = CKU_CONTEXT_SPECIFIC \<and> ret = CKR_PIN_LOCKED")
      case True
      let ?sl = "sl\<lparr>sl_token := t1\<rparr>"
      have g: "get_slot (put_slot sid ?sl st) sid = Ok ?sl" using init by simp
      have "snd (login (std_storage raw) h user_type pin st) =
          put_slot sid (logged_out_slot (std_storage raw) ?sl) (put_slot sid ?sl st)"
        using True c l i1 invalidate_after_logout[OF g, of "std_storage raw"] g
        by (simp add: login_def login_context_def with_token_mut_def get_token_from_slot_mut_def
            slot_get_token_mut_def put_token_slot[OF s(3)] put_token_slot[OF g])
      then show ?thesis
        using lib_ok_put_slot[OF ok1[unfolded put_token_slot[OF s(3)]] g]
          slot_ok_logged_out_slot[OF lib_ok_slot[OF ok1[unfolded put_token_slot[OF s(3)]] g]]
          logged_out_keys[of "std_storage raw" ?sl] by simp
    next
      case locked: False
      have "lib_ok raw (snd (with_session_mut h (\<lambda>s. (Ok (), set_login_ok s)) (put_token sid t1 st)))"
        by (rule lib_ok_with_session[OF ok1]) (simp add: set_login_ok_def)
      then show ?thesis
        using False locked c l ok1
        by (cases "user_type = CKU_CONTEXT_SPECIFIC";
            simp add: login_def login_context_def login_sessions_def Let_def)
    qed
  qed
qed

text \<open>The storage can note that a user has gone: it finds the user's record.\<close>

definition unauth_works :: "'r storage_raw \<Rightarrow> 'r std_storage lib_state \<Rightarrow> ck_ulong \<Rightarrow> bool" where
  "unauth_works raw st h \<longleftrightarrow>
    (\<forall>s sl. get_session st h = Ok s \<longrightarrow> get_slot st (si_slotID (s_info s)) = Ok sl \<longrightarrow>
      tk_logged (sl_token sl) \<noteq> KRY_UNSPEC \<longrightarrow>
      is_ok (fst (sg_unauth_user (std_storage raw) (tk_logged (sl_token sl)) (tk_storage (sl_token sl)))))"

lemma logout_Ok:
  assumes "lib_ok raw st" and s: "get_session st h = Ok s"
  obtains sl where "get_slot st (si_slotID (s_info s)) = Ok sl" and "map_of (sl_sessions sl) h = Some s"
    and "slot_ok raw (si_slotID (s_info s)) sl"
    and "logout (std_storage raw) h st =
      (case token_logout (std_storage raw) (sl_token sl) of (ret, t1) \<Rightarrow>
        (rv_result ret, if ret = CKR_OK
           then put_slot (si_slotID (s_info s)) (logged_out_slot (std_storage raw) sl) st
           else put_slot (si_slotID (s_info s)) (sl\<lparr>sl_token := t1\<rparr>) st))"
proof -
  let ?sid = "si_slotID (s_info s)"
  obtain sl where sl: "get_slot st ?sid = Ok sl" "map_of (sl_sessions sl) h = Some s"
      "session_fits ?sid (sl_token sl) s"
    using lib_ok_session[OF assms] by blast
  have i: "is_initialized (sl_token sl)" using sl(3) by (simp add: session_fits_def)
  have lk: "lock st = Ok ()" using sl(1) by (simp add: lock_def get_slot_Ok)
  obtain ret t1 where l: "token_logout (std_storage raw) (sl_token sl) = (ret, t1)" by force
  have "logout (std_storage raw) h st =
      (rv_result ret, if ret = CKR_OK
         then put_slot ?sid (logged_out_slot (std_storage raw) sl) st
         else put_slot ?sid (sl\<lparr>sl_token := t1\<rparr>) st)"
    using s sl(1) i lk invalidate_after_logout[OF sl(1), of "std_storage raw"] l
    by (simp add: logout_def get_slot_id_def get_token_from_slot_mut_def slot_get_token_mut_def
        put_token_slot[OF sl(1)])
  then show thesis using that[OF sl(1,2) lib_ok_slot[OF assms(1) sl(1)]] l by simp
qed

lemma logout_rv:
  assumes "token_reachable raw t"
  shows "fst (token_logout sg t) =
    (if tk_logged t = KRY_UNSPEC then CKR_USER_NOT_LOGGED_IN
     else if is_ok (fst (sg_unauth_user sg (tk_logged t) (tk_storage t))) then CKR_OK
     else CKR_GENERAL_ERROR)"
  using reachable_logged[OF assms]
  by (auto simp: token_logout_def Let_def clear_private_session_objects_def fold_forget split: prod.split)

lemma lib_ok_logout:
  assumes ok: "lib_ok raw st" and u: "unauth_works raw st h"
  shows "lib_ok raw (snd (logout (std_storage raw) h st))"
proof (cases "get_session st h")
  case (Inl e)
  then show ?thesis using ok by (simp add: logout_def and_then_def split: sum.split)
next
  case (Inr s)
  obtain sl where sl: "get_slot st (si_slotID (s_info s)) = Ok sl" "slot_ok raw (si_slotID (s_info s)) sl"
      and run: "logout (std_storage raw) h st =
      (case token_logout (std_storage raw) (sl_token sl) of (ret, t1) \<Rightarrow>
        (rv_result ret, if ret = CKR_OK
           then put_slot (si_slotID (s_info s)) (logged_out_slot (std_storage raw) sl) st
           else put_slot (si_slotID (s_info s)) (sl\<lparr>sl_token := t1\<rparr>) st))"
    using logout_Ok[OF ok Inr] by blast
  have r: "token_reachable raw (sl_token sl)" using sl(2) by (simp add: slot_ok_def)
  obtain ret t1 where l: "token_logout (std_storage raw) (sl_token sl) = (ret, t1)" by force
  show ?thesis
  proof (cases "ret = CKR_OK")
    case True
    then show ?thesis
      using run l lib_ok_put_slot[OF ok sl(1) slot_ok_logged_out_slot[OF sl(2)] logged_out_keys] by simp
  next
    case False
    then have "tk_logged (sl_token sl) = KRY_UNSPEC"
      using logout_rv[OF r, of "std_storage raw"] u Inr sl(1) l
      by (auto simp: unauth_works_def split: if_splits)
    then have "t1 = sl_token sl" using l by (simp add: token_logout_def)
    then show ?thesis using run l False lib_ok_put_slot[OF ok sl(1,2)] by simp
  qed
qed

section \<open>The last session\<close>

lemma sessionmap_upd [simp]:
  "get_slot (st\<lparr>gs_sessionmap := m\<rparr>) = get_slot st"
  "state_is_initialized (st\<lparr>gs_sessionmap := m\<rparr>) = state_is_initialized st"
  "put_slot sid sl (st\<lparr>gs_sessionmap := m\<rparr>) = (put_slot sid sl st)\<lparr>gs_sessionmap := m\<rparr>"
  by (simp_all add: get_slot_def state_is_initialized_def put_slot_def fun_eq_iff)

lemma slot_upd_commute: "sl\<lparr>sl_sessions := ss, sl_token := t\<rparr> = sl\<lparr>sl_token := t, sl_sessions := ss\<rparr>"
  by (cases sl) simp

lemma close_session_Ok:
  assumes "lib_ok raw st" and s: "get_session st h = Ok s"
  obtains sl sl1 where "get_slot st (si_slotID (s_info s)) = Ok sl"
    and "close_session (std_storage raw) h st =
      (Ok (), (put_slot (si_slotID (s_info s)) sl1 st)\<lparr>gs_sessionmap := AList.delete h (gs_sessionmap st)\<rparr>)"
    and "slot_ok raw (si_slotID (s_info s)) sl1" and "sl_sessions sl1 = AList.delete h (sl_sessions sl)"
    and "sl_token sl1 = (if AList.delete h (sl_sessions sl) = []
      then snd (token_logout (std_storage raw) (drop_session_objects h (sl_token sl)))
      else drop_session_objects h (sl_token sl))"
proof -
  let ?sid = "si_slotID (s_info s)"
  let ?t = "\<lambda>sl. drop_session_objects h (sl_token sl)"
  let ?m = "AList.delete h (gs_sessionmap st)"
  obtain sl where sl: "get_slot st ?sid = Ok sl" "map_of (sl_sessions sl) h = Some s"
      "session_fits ?sid (sl_token sl) s" and hs: "session_slot st h = Ok ?sid"
    using lib_ok_session[OF assms] by blast
  have ok: "slot_ok raw ?sid sl" by (rule lib_ok_slot[OF assms(1) sl(1)])
  have i: "is_initialized (sl_token sl)" using sl(3) by (simp add: session_fits_def)
  have init: "state_is_initialized st" using sl(1) by (simp add: get_slot_Ok)
  have same: "same_login (sl_token sl) (?t sl)" by (simp add: login_frame)
  have r: "token_reachable raw (?t sl)"
    using ok token_reachable.session_dropped[of raw "sl_token sl"] by (simp add: slot_ok_def)
  have i1: "is_initialized (?t sl)" using same i by (simp add: same_login_def is_initialized_def)
  let ?d = "AList.delete h (sl_sessions sl)"
  define sl1 where "sl1 = sl\<lparr>sl_token := (if ?d = [] then snd (token_logout (std_storage raw) (?t sl)) else ?t sl),
    sl_sessions := ?d\<rparr>"
  have d: "distinct (map fst ?d)" using ok by (simp add: slot_ok_def distinct_delete)
  have fits: "session_fits ?sid (?t sl) x" if "map_of ?d k = Some x" for k x
    using ok that same i1
    by (auto simp: slot_ok_def session_fits_def same_login_def delete_conv' split: if_splits)
  have slot: "slot_ok raw ?sid sl1"
  proof (cases "?d = []")
    case True
    then show ?thesis using logout_token[OF r] by (simp add: sl1_def slot_ok_def)
  next
    case False
    then show ?thesis using r d fits by (auto simp: sl1_def slot_ok_def)
  qed
  have g: "get_token_from_session_mut st h = Ok (sl_token sl)"
    using hs sl(1) i by (simp add: get_token_from_session_mut_def slot_get_token_mut_def)
  let ?st1 = "put_token ?sid (?t sl) st"
  have st1: "?st1 = put_slot ?sid (sl\<lparr>sl_token := ?t sl\<rparr>) st" by (rule put_token_slot[OF sl(1)])
  have "close_session (std_storage raw) h st = state_drop_session (std_storage raw) h ?st1"
    using init hs g by (simp add: close_session_def lock_def)
  also have "\<dots> = (Ok (), (put_slot ?sid sl1 st)\<lparr>gs_sessionmap := ?m\<rparr>)"
  proof -
    let ?sl = "sl\<lparr>sl_token := ?t sl, sl_sessions := ?d\<rparr>"
    have a: "session_slot ?st1 h = Ok ?sid" "get_slot ?st1 ?sid = Ok (sl\<lparr>sl_token := ?t sl\<rparr>)"
      using hs init by (simp_all add: st1 session_slot_def)
    have g1: "get_slot ((put_slot ?sid ?sl st)\<lparr>gs_sessionmap := ?m\<rparr>) ?sid = Ok ?sl" using init by simp
    have "state_drop_session (std_storage raw) h ?st1 =
      (let st1 = (put_slot ?sid ?sl st)\<lparr>gs_sessionmap := ?m\<rparr> in
        case has_sessions st1 ?sid of
          Inl e \<Rightarrow> (Inl e, st1)
        | Inr True \<Rightarrow> (Ok (), st1)
        | Inr False \<Rightarrow>
          (case get_token_from_slot_mut st1 ?sid of
             Inl e \<Rightarrow> (Inl e, st1)
           | Inr t \<Rightarrow> (Ok (), put_token ?sid (snd (token_logout (std_storage raw) t)) st1)))"
      using a init by (simp add: state_drop_session_def st1 slot_drop_session_def)
    also have "\<dots> = (Ok (), (put_slot ?sid sl1 st)\<lparr>gs_sessionmap := ?m\<rparr>)"
      using init i1 put_token_slot[OF g1]
      by (cases "?d = []")
        (simp_all add: has_sessions_def slot_has_sessions_def get_token_from_slot_mut_def slot_get_token_mut_def
          sl1_def slot_upd_commute)
    finally show ?thesis .
  qed
  finally have run: "close_session (std_storage raw) h st =
      (Ok (), (put_slot ?sid sl1 st)\<lparr>gs_sessionmap := ?m\<rparr>)" .
  show thesis by (rule that[OF sl(1) run slot]) (simp_all add: sl1_def)
qed

lemma lib_ok_close:
  assumes ok: "lib_ok raw st"
  shows "lib_ok raw (snd (close_session (std_storage raw) h st))"
proof (cases "get_session st h")
  case (Inl e)
  have "close_session (std_storage raw) h st = (Inl x, st)" if "session_slot st h = Inl x" "state_is_initialized st" for x
    using that by (simp add: close_session_def lock_def)
  moreover have "lib_ok raw st'" if "\<not> state_is_initialized st'" for st' :: "'a std_storage lib_state"
    using that by (simp add: lib_ok_def)
  moreover have "\<exists>x. session_slot st h = Inl x" if "state_is_initialized st"
  proof (cases "session_slot st h")
    case (Inr sid)
    have wf: "lib_wf raw st" using ok that by (simp add: lib_ok_def)
    then obtain sl s where "map_of (gs_slots st) sid = Some sl" "map_of (sl_sessions sl) h = Some s"
      using Inr by (auto simp: session_slot_Ok lib_wf_def)
    then have "get_session st h = Ok s" using Inr that by (simp add: get_session_Ok get_slot_Ok)
    then show ?thesis using Inl by simp
  qed simp
  ultimately show ?thesis using ok
    by (cases "state_is_initialized st") (auto simp: close_session_def lock_def)
next
  case (Inr s)
  let ?sid = "si_slotID (s_info s)"
  obtain sl sl1 where c: "get_slot st ?sid = Ok sl"
      "close_session (std_storage raw) h st =
        (Ok (), (put_slot ?sid sl1 st)\<lparr>gs_sessionmap := AList.delete h (gs_sessionmap st)\<rparr>)"
      "slot_ok raw ?sid sl1" "sl_sessions sl1 = AList.delete h (sl_sessions sl)"
    using close_session_Ok[OF ok Inr] by blast
  have wf: "lib_wf raw st" using ok c(1) by (simp add: lib_ok_def get_slot_Ok)
  have at: "map_of (gs_slots st) ?sid = Some sl" using c(1) by (simp add: get_slot_Ok)
  have hs: "map_of (gs_sessionmap st) h = Some ?sid"
    using lib_ok_session[OF ok Inr] by (metis session_slot_Ok)
  have iff: "map_of (gs_sessionmap st) k = Some ?sid \<longleftrightarrow> map_of (sl_sessions sl) k \<noteq> None" for k
    using wf at by (auto simp: lib_wf_def)
  have "lib_ok raw ((put_slot ?sid sl1 st)\<lparr>gs_sessionmap := AList.delete h (gs_sessionmap st)\<rparr>)"
  proof (rule lib_ok_replace[OF ok c(1,3)])
    fix k i
    show "map_of (gs_sessionmap ((put_slot ?sid sl1 st)\<lparr>gs_sessionmap := AList.delete h (gs_sessionmap st)\<rparr>)) k = Some i \<longleftrightarrow>
      map_of (gs_sessionmap st) k = Some i \<and> (i = ?sid \<longrightarrow> map_of (sl_sessions sl1) k \<noteq> None)"
    proof (cases "k = h")
      case True
      then show ?thesis using hs by (auto simp: c(4) delete_conv')
    next
      case False
      have "i = ?sid \<longrightarrow> map_of (gs_sessionmap st) k = Some i \<longrightarrow> map_of (sl_sessions sl) k \<noteq> None"
        using iff[of k] by metis
      then show ?thesis using False by (simp add: c(4) delete_conv') metis
    qed
  qed (use wf in \<open>simp_all add: c(4) delete_conv' distinct_delete lib_wf_def split: if_splits\<close>)
  then show ?thesis using c(2) by simp
qed

lemma fold_drop_reachable: "token_reachable raw t \<Longrightarrow> token_reachable raw (fold drop_session_objects hs t)"
  by (induction hs arbitrary: t) (auto intro: token_reachable.session_dropped)

lemma close_all_Ok:
  assumes "lib_ok raw st" and sl: "get_slot st sid = Ok sl"
  obtains sl1 where "snd (close_all_sessions (std_storage raw) sid st) =
      (put_slot sid sl1 st)\<lparr>gs_sessionmap := filter (\<lambda>p. snd p \<noteq> sid) (gs_sessionmap st)\<rparr>"
    and "slot_ok raw sid sl1" and "sl_sessions sl1 = []" and "tk_logged (sl_token sl1) = KRY_UNSPEC"
proof -
  let ?m = "filter (\<lambda>p. snd p \<noteq> sid) (gs_sessionmap st)"
  let ?t = "fold drop_session_objects (map fst (sl_sessions sl)) (sl_token sl)"
  have ok: "slot_ok raw sid sl" by (rule lib_ok_slot[OF assms])
  have init: "state_is_initialized st" using sl by (simp add: get_slot_Ok)
  have r: "token_reachable raw ?t" using ok by (simp add: slot_ok_def fold_drop_reachable)
  let ?sl = "sl\<lparr>sl_sessions := []\<rparr>"
  have g: "get_slot ((put_slot sid ?sl st)\<lparr>gs_sessionmap := ?m\<rparr>) sid = Ok ?sl" using init by simp
  show thesis
  proof (cases "is_initialized (sl_token sl)")
    case True
    let ?sl1 = "sl\<lparr>sl_sessions := [], sl_token := snd (token_logout (std_storage raw) ?t)\<rparr>"
    have "snd (close_all_sessions (std_storage raw) sid st) = (put_slot sid ?sl1 st)\<lparr>gs_sessionmap := ?m\<rparr>"
      using init True sl put_token_slot[OF g]
      by (simp add: close_all_sessions_def lock_def drop_all_sessions_slot_def slot_drop_all_sessions_def
          with_token_mut_def get_token_from_slot_mut_def slot_get_token_mut_def)
    then show thesis using that logout_token[OF r] by (simp add: slot_ok_def)
  next
    case False
    have "sl_sessions sl = []"
    proof (rule ccontr)
      assume "sl_sessions sl \<noteq> []"
      then obtain p where "p \<in> set (sl_sessions sl)" by (cases "sl_sessions sl") auto
      then have "map_of (sl_sessions sl) (fst p) = Some (snd p)"
        using ok by (cases p) (auto simp: slot_ok_def)
      then show False using ok False by (auto simp: slot_ok_def session_fits_def)
    qed
    moreover have "snd (close_all_sessions (std_storage raw) sid st) = (put_slot sid ?sl st)\<lparr>gs_sessionmap := ?m\<rparr>"
      using init False sl
      by (simp add: close_all_sessions_def lock_def drop_all_sessions_slot_def slot_drop_all_sessions_def
          with_token_mut_def get_token_from_slot_mut_def slot_get_token_mut_def)
    ultimately show thesis using that ok by (simp add: slot_ok_def)
  qed
qed

lemma map_of_filter_value:
  "distinct (map fst xs) \<Longrightarrow>
    map_of (filter (\<lambda>p. snd p \<noteq> v) xs) k = Some w \<longleftrightarrow> map_of xs k = Some w \<and> w \<noteq> v"
  by (auto simp: map_of_eq_Some_iff distinct_map_filter)

lemma lib_ok_close_all:
  assumes ok: "lib_ok raw st"
  shows "lib_ok raw (snd (close_all_sessions (std_storage raw) sid st))"
proof (cases "get_slot st sid")
  case (Inl e)
  show ?thesis
  proof (cases "state_is_initialized st")
    case True
    then have wf: "lib_wf raw st" using ok by (simp add: lib_ok_def)
    have "map_of (gs_slots st) sid = None" using Inl True by (simp add: get_slot_def split: option.splits)
    then have "sid \<notin> snd ` set (gs_sessionmap st)"
      using wf by (fastforce simp: lib_wf_def map_of_eq_Some_iff)
    then have "filter (\<lambda>p. snd p \<noteq> sid) (gs_sessionmap st) = gs_sessionmap st"
      by (auto simp: filter_id_conv)
    then show ?thesis using ok Inl True
      by (simp add: close_all_sessions_def lock_def drop_all_sessions_slot_def)
  next
    case False
    then show ?thesis using ok by (simp add: close_all_sessions_def lock_def)
  qed
next
  case (Inr sl)
  obtain sl1 where c: "snd (close_all_sessions (std_storage raw) sid st) =
      (put_slot sid sl1 st)\<lparr>gs_sessionmap := filter (\<lambda>p. snd p \<noteq> sid) (gs_sessionmap st)\<rparr>"
      "slot_ok raw sid sl1" "sl_sessions sl1 = []"
    using close_all_Ok[OF ok Inr] by blast
  have wf: "lib_wf raw st" using ok Inr by (simp add: lib_ok_def get_slot_Ok)
  show ?thesis unfolding c(1)
    using wf c(3)
    by (intro lib_ok_replace[OF ok Inr c(2)])
      (auto simp: lib_wf_def distinct_map_filter map_of_filter_value)
qed

section \<open>The other functions\<close>

lemma keeps_set_pin:
  "token_reachable raw t \<Longrightarrow> keeps raw t (snd (set_pin (std_storage raw) user_type pin old t))"
  using token_reachable.pin_set initialized_set_pin by (auto simp: keeps_def set_pin_logged)

lemma keeps_change_pin:
  assumes "token_reachable raw t"
  shows "keeps raw t (snd (change_pin (std_storage raw) vold vpin t))"
proof (cases "is_logged_in KRY_UNSPEC t")
  case True
  then show ?thesis using keeps_set_pin[OF assms] by (simp add: change_pin_def)
next
  case False
  then have un: "tk_logged t = KRY_UNSPEC"
    using reachable_logged[OF assms] by (auto simp: is_logged_in_def)
  obtain ret t1 where l: "token_login (std_storage raw) CKU_USER vold t = (ret, t1)" by force
  have r1: "token_reachable raw t1" using token_reachable.logged_in[OF assms, of CKU_USER vold] l by simp
  have i1: "is_initialized t \<Longrightarrow> is_initialized t1"
    using initialized_login[of t "std_storage raw" CKU_USER vold] l by simp
  show ?thesis
  proof (cases "ret = CKR_OK")
    case True
    let ?t2 = "snd (set_pin (std_storage raw) CK_UNAVAILABLE_INFORMATION vpin vold t1)"
    have r2: "token_reachable raw ?t2" by (rule token_reachable.pin_set[OF r1])
    have "keeps raw t (snd (token_logout (std_storage raw) ?t2))"
      using logout_token[OF r2] i1 un initialized_set_pin[of t1] by (simp add: keeps_def)
    then show ?thesis using False True l by (simp add: change_pin_def case_prod_beta)
  next
    case failed: False
    obtain r t1' where a: "auth_user (std_storage raw) CKU_USER vold False t = (r, t1')" by force
    have "tk_logged t1 = tk_logged t"
      using l failed un auth_user_effect(1)[OF a] by (auto simp: token_login_def a result_rv_def split: sum.splits if_splits)
    then show ?thesis using False failed l r1 i1 by (simp add: change_pin_def keeps_def)
  qed
qed

lemma lib_ok_set_pin:
  assumes "lib_ok raw st"
  shows "lib_ok raw (snd (fn_set_pin (std_storage raw) h vold vpin st))"
  using assms lib_ok_with_token[OF assms keeps_change_pin]
  by (simp add: fn_set_pin_def split: sum.split)

lemma lib_ok_init_pin:
  assumes "lib_ok raw st"
  shows "lib_ok raw (snd (init_pin (std_storage raw) h pin st))"
proof -
  have "lib_ok raw (snd (with_token_mut sid (\<lambda>t.
         if \<not> is_logged_in CKU_SO t then (Err CKR_USER_NOT_LOGGED_IN, t)
         else set_pin (std_storage raw) CKU_USER pin [] t) st))" for sid
    by (rule lib_ok_with_token[OF assms]) (simp add: keeps_set_pin keeps_refl)
  then show ?thesis using assms by (simp add: init_pin_def split: sum.split)
qed

lemma initialize_logged:
  assumes "tk_logged t = KRY_UNSPEC"
  shows "tk_logged (snd (initialize sg uuid_v8 pin label t)) = KRY_UNSPEC"
proof -
  let ?P = "\<lambda>t. tk_logged t = KRY_UNSPEC"
  have on: "?P t1 \<Longrightarrow> ?P (snd (on_storage f t1))" for t1 :: "'a token" and f :: "'a \<Rightarrow> 'b result \<times> 'a"
    by (simp add: on_storage_def split: prod.split)
  have on': "?P t1 \<Longrightarrow> ?P (snd (on_storage f t1))" for t1 :: "'a token" and f :: "'a \<Rightarrow> 'c result \<times> 'a"
    by (simp add: on_storage_def split: prod.split)
  have builtin: "?P t1 \<Longrightarrow> ?P (snd (token_internal_objects_init sg uuid_v8 t1))" for t1
    using same_login_builtins[of t1 t1] by (simp add: same_login_def token_internal_objects_init_def)
  have pin: "?P (snd (case set_pin sg CKU_SO pin [] t3 of
           (Inl e, t4) \<Rightarrow> if rv e \<noteq> CKR_USER_TYPE_INVALID then (Inl e, t4) else (Ok (), t4)
         | (Inr _, t4) \<Rightarrow> (Ok (), t4)))" if "?P t3" for t3
    using set_pin_logged[of sg CKU_SO pin "[]" t3] that by (auto split: prod.splits sum.splits)
  have auth: "?P (snd (auth_user sg CKU_SO pin True t))"
    using auth_user_effect(1)[of sg CKU_SO pin True t, OF prod.collapse[symmetric]] assms by simp
  show ?thesis unfolding initialize_def Let_def
    apply (rule st_then_invariant[where P = ?P])
     apply (simp add: assms auth)
    apply (rule st_then_invariant[where P = ?P])
     apply (rule on, simp)
    apply (rule st_then_invariant[where P = ?P])
     apply (rule pin, assumption)
    apply (rule st_then_invariant[where P = ?P])
     apply (rule on', assumption)
    apply (rule st_then_invariant[where P = ?P])
     apply (rule on', simp add: fill_token_info_def)
    apply (rule builtin, assumption)
    done
qed

lemma lib_ok_init_token:
  assumes ok: "lib_ok raw st"
  shows "lib_ok raw (snd (init_token (std_storage raw) uuid_v8 sid pin label st))"
proof (cases "get_slot st sid")
  case (Inl e)
  then show ?thesis using ok by (simp add: init_token_def has_sessions_def and_then_def split: sum.split)
next
  case (Inr sl)
  have init: "state_is_initialized st" using Inr by (simp add: get_slot_Ok)
  show ?thesis
  proof (cases "sl_sessions sl = []")
    case True
    have sok: "slot_ok raw sid sl" by (rule lib_ok_slot[OF ok Inr])
    obtain r t1 where i: "initialize (std_storage raw) uuid_v8 pin
               (case label of None \<Rightarrow> replicate 32 0x20 | Some l \<Rightarrow> l) (sl_token sl) = (r, t1)" by force
    have "token_reachable raw (sl_token sl)" "tk_logged (sl_token sl) = KRY_UNSPEC"
      using sok True by (simp_all add: slot_ok_def)
    then have "token_reachable raw t1" "tk_logged t1 = KRY_UNSPEC"
      using token_reachable.initialized[of raw "sl_token sl"] initialize_logged[of "sl_token sl"] i
      by (metis snd_conv)+
    then have "lib_ok raw (put_slot sid (sl\<lparr>sl_token := t1\<rparr>) st)"
      using True by (intro lib_ok_put_slot[OF ok Inr]) (simp_all add: slot_ok_def)
    then show ?thesis
      using init Inr True i
      by (simp add: init_token_def lock_def has_sessions_def slot_has_sessions_def
          get_token_from_slot_mut_nochecks_def slot_get_token_mut_def put_token_slot[OF Inr] split: sum.split)
  next
    case False
    then show ?thesis using init Inr ok
      by (simp add: init_token_def lock_def has_sessions_def slot_has_sessions_def)
  qed
qed

lemma lib_ok_create:
  "lib_ok raw st \<Longrightarrow> lib_ok raw (snd (fn_create_object (std_storage raw) uuid h template null st))"
  by (auto simp: fn_create_object_def intro!: lib_ok_with_token keeps_same_login
      token_reachable.object_created login_frame split: sum.split)

lemma lib_ok_copy:
  "lib_ok raw st \<Longrightarrow> lib_ok raw (snd (fn_copy_object (std_storage raw) uuid h oh template null st))"
  by (auto simp: fn_copy_object_def intro!: lib_ok_with_token keeps_same_login
      token_reachable.object_copied login_frame split: sum.split)

lemma lib_ok_destroy:
  assumes "lib_ok raw st"
  shows "lib_ok raw (snd (fn_destroy_object (std_storage raw) h oh st))"
proof -
  have keep: "keeps raw t (snd (case get_object_by_handle (std_storage raw) oh t of
           Inl e \<Rightarrow> (Inl e, t)
         | Inr obj \<Rightarrow>
           if is_token obj \<and> \<not> is_writable s then (Err CKR_ACTION_PROHIBITED, t)
           else destroy_object (std_storage raw) oh t))" if "token_reachable raw t" for t s
    using that keeps_refl[OF that] keeps_same_login[OF token_reachable.object_destroyed[OF that]]
    by (simp add: login_frame split: sum.split)
  note ok = lib_ok_with_token[OF assms keep]
  show ?thesis unfolding fn_destroy_object_def
    by (cases "and_then (lock st) (\<lambda>_. get_session st h)") (simp_all add: assms ok)
qed

lemma lib_ok_set_attrs:
  assumes "lib_ok raw st"
  shows "lib_ok raw (snd (fn_set_attribute_value (std_storage raw) h oh template st))"
proof -
  have keep: "keeps raw t (snd (case get_object_by_handle (std_storage raw) oh t of
           Inl e \<Rightarrow> (Inl e, t)
         | Inr obj \<Rightarrow>
           if is_token obj \<and> \<not> is_logged_in KRY_UNSPEC t then (Err CKR_USER_NOT_LOGGED_IN, t)
           else if is_token obj \<and> \<not> is_writable s then (Err CKR_SESSION_READ_ONLY, t)
           else set_object_attrs (std_storage raw) oh template t))" if "token_reachable raw t" for t s
    using that keeps_refl[OF that] keeps_same_login[OF token_reachable.object_changed[OF that]]
    by (simp add: login_frame split: sum.split)
  note ok = lib_ok_with_token[OF assms keep]
  show ?thesis unfolding fn_set_attribute_value_def
    by (cases "and_then (lock st) (\<lambda>_. get_session st h)") (simp_all add: assms ok)
qed

lemma cancel_if_info [simp]:
  "s_info (snd (cancel_if flags f put acc)) = s_info (snd acc)"
  "s_info (snd (cancel_unsupported flags f acc)) = s_info (snd acc)"
  by (simp_all add: cancel_if_def cancel_unsupported_def case_prod_beta)

lemma lib_ok_operations:
  assumes "lib_ok raw st"
  shows "lib_ok raw (snd (find_objects h n null st))"
    and "lib_ok raw (snd (find_objects_final h st))"
    and "lib_ok raw (snd (session_cancel h flags st))"
    and "lib_ok raw (snd (set_operation_state (std_storage raw) cd ms h state ek ak st))"
proof -
  have "s_info (snd (case get_operation so_search search_finalized s of
           Inl e \<Rightarrow> (Inl e, s)
         | Inr op1 \<Rightarrow>
           (case search_results (unat n) op1 of (r, op2) \<Rightarrow>
             (r, s\<lparr>s_operations := put_search (Some op2) (s_operations s)\<rparr>)))) = s_info s" for s
    by (simp split: sum.split prod.split)
  note f = lib_ok_with_session[OF assms this]
  show "lib_ok raw (snd (find_objects h n null st))"
    unfolding find_objects_def by (cases "lock st") (simp_all add: assms f)
  show "lib_ok raw (snd (find_objects_final h st))"
    unfolding find_objects_final_def
    by (cases "lock st") (simp_all add: assms lib_ok_with_session[OF assms cancel_info])
  have "s_info (snd (case cancel_flagged flags s of (ret, s1) \<Rightarrow> (rv_result ret, s1))) = s_info s" for s
    by (simp add: cancel_flagged_def Let_def case_prod_beta)
  note c = lib_ok_with_session[OF assms this]
  show "lib_ok raw (snd (session_cancel h flags st))"
    unfolding session_cancel_def by (cases "lock st") (simp_all add: assms c)
  show "lib_ok raw (snd (set_operation_state (std_storage raw) cd ms h state ek ak st))"
    using lib_ok_with_session[OF assms state_restore_info] assms
    by (auto simp: set_operation_state_def split: sum.split)
qed

lemma lib_ok_find_init:
  assumes ok: "lib_ok raw st"
  shows "lib_ok raw (snd (find_objects_init (std_storage raw) h template st))"
proof (cases "get_session st h")
  case (Inl e)
  then show ?thesis using ok by (simp add: find_objects_init_def and_then_def split: sum.split)
next
  case (Inr s)
  let ?sid = "si_slotID (s_info s)"
  obtain sl where sl: "get_slot st ?sid = Ok sl" "map_of (sl_sessions sl) h = Some s"
      "session_fits ?sid (sl_token sl) s"
    using lib_ok_session[OF ok Inr] by blast
  have i: "is_initialized (sl_token sl)" using sl(3) by (simp add: session_fits_def)
  have init: "state_is_initialized st" using sl(1) by (simp add: get_slot_Ok)
  have r: "token_reachable raw (sl_token sl)" using lib_ok_slot[OF ok sl(1)] by (simp add: slot_ok_def)
  obtain r1 s1 t1 where n: "new_search_operation (search_objects (std_storage raw)) (sl_token sl) template s = (r1, s1, t1)"
    by (metis prod_cases3)
  have s1: "s_info s1 = s_info s" and k: "keeps raw (sl_token sl) t1"
    using n keeps_refl[OF r] keeps_same_login[OF token_reachable.searched[OF r] same_login_search[OF same_login_refl]]
    by (auto simp: new_search_operation_def set_operation_def split: sum.splits prod.splits) (metis snd_conv)+
  have ok1: "lib_ok raw (put_session ?sid h s1 st)" by (rule lib_ok_put_session[OF ok Inr s1])
  have g: "get_slot (put_session ?sid h s1 st) ?sid = Ok (slot_add_session h s1 sl)"
    using sl(1) init by (simp add: put_session_def get_slot_Ok update_conv')
  have "lib_ok raw (put_token ?sid t1 (put_session ?sid h s1 st))"
    using k by (intro lib_ok_put_token[OF ok1 g]) (simp add: slot_add_session_def)
  then show ?thesis
    using Inr sl(1) i init n
    by (simp add: find_objects_init_def lock_def get_slot_id_def get_token_from_slot_mut_def slot_get_token_mut_def)
qed

section \<open>Reachable states of the library\<close>

text \<open>
  One call of the interface, with the parameters of the caller, of the random generator
  (\<^term>\<open>uuid\<close>) and of the ASN.1 codec. A login needs a storage that does not report a failure as
  \<^verbatim>\<open>CKR_OK\<close>, a logout one that finds the record of the user.
\<close>

inductive lib_step :: "'r storage_raw \<Rightarrow> 'r std_storage lib_state \<Rightarrow> 'r std_storage lib_state \<Rightarrow> bool"
  for raw where
  opened: "lib_step raw st (snd (open_session sid flags null st))"
| closed: "lib_step raw st (snd (close_session (std_storage raw) h st))"
| closed_all: "lib_step raw st (snd (close_all_sessions (std_storage raw) sid st))"
| logged_in: "honest_login raw st h user_type pin \<Longrightarrow>
    lib_step raw st (snd (login (std_storage raw) h user_type pin st))"
| logged_out: "unauth_works raw st h \<Longrightarrow> lib_step raw st (snd (logout (std_storage raw) h st))"
| cancelled: "lib_step raw st (snd (session_cancel h flags st))"
| restored: "lib_step raw st (snd (set_operation_state (std_storage raw)
    (cd :: (bytes, bytes) state_codec) (ms :: _ \<Rightarrow> ck_ulong restore_mechs) h state ek ak st))"
| initialized: "lib_step raw st (snd (init_token (std_storage raw) uuid_v8 sid pin label st))"
| pin_initialized: "lib_step raw st (snd (init_pin (std_storage raw) h pin st))"
| pin_set: "lib_step raw st (snd (fn_set_pin (std_storage raw) h vold vpin st))"
| created: "lib_step raw st (snd (fn_create_object (std_storage raw) uuid h template null st))"
| copied: "lib_step raw st (snd (fn_copy_object (std_storage raw) uuid h oh template null st))"
| destroyed: "lib_step raw st (snd (fn_destroy_object (std_storage raw) h oh st))"
| changed: "lib_step raw st (snd (fn_set_attribute_value (std_storage raw) h oh template st))"
| search_started: "lib_step raw st (snd (find_objects_init (std_storage raw) h template st))"
| searched: "lib_step raw st (snd (find_objects h n null st))"
| search_ended: "lib_step raw st (snd (find_objects_final h st))"
| crypto: "crypto_step raw st st' \<Longrightarrow> lib_step raw st st'"

lemma lib_step_ok: "lib_step raw st st' \<Longrightarrow> lib_ok raw st \<Longrightarrow> lib_ok raw st'"
proof (induction rule: lib_step.induct)
  case (crypto st st')
  then show ?case using crypto_step_quiet unfolding quiet_def by blast
qed (simp_all only: lib_ok_open lib_ok_close lib_ok_close_all lib_ok_login lib_ok_logout lib_ok_operations
      lib_ok_init_token lib_ok_init_pin lib_ok_set_pin lib_ok_create lib_ok_copy lib_ok_destroy
      lib_ok_set_attrs lib_ok_find_init)

inductive lib_reachable :: "'r storage_raw \<Rightarrow> 'r std_storage lib_state \<Rightarrow> bool" for raw where
  start: "lib_reachable raw initial_lib_state"
| initialized: "lib_reachable raw st \<Longrightarrow> lib_reachable raw (state_initialize st)"
| slot_added: "lib_reachable raw st \<Longrightarrow>
    slot_new (std_storage raw) new_storage uuid_v8 name_to_mech fac0 cfg = Ok sl \<Longrightarrow>
    lib_reachable raw (snd (add_slot sid sl st))"
| step: "lib_reachable raw st \<Longrightarrow> lib_step raw st st' \<Longrightarrow> lib_reachable raw st'"
| finalized: "lib_reachable raw st \<Longrightarrow> lib_reachable raw (snd (state_finalize (std_storage raw) st))"

lemma new_token_logged:
  assumes "new_token sg uuid_v8 s0 fac0 = Ok t"
  shows "tk_logged t = KRY_UNSPEC"
proof -
  obtain r s1 where op: "sg_open sg s0 = (r, s1)" by force
  let ?t1 = "\<lparr>tk_info = initial_token_info, tk_facilities = set_handles new_handles fac0,
      tk_storage = s0, tk_session_objects = [], tk_logged = KRY_UNSPEC, tk_filtermechs = None,
      tk_dedup = None\<rparr>\<lparr>tk_storage := s1\<rparr>"
  obtain t2 where t2:
      "(case r of Inr info \<Rightarrow> Ok (fill_token_info info ?t1)
        | Inl e \<Rightarrow> if rv e = CKR_CRYPTOKI_NOT_INITIALIZED then Ok (uninitialized_token_info ?t1)
                 else Inl e) = Ok t2"
      "(case token_internal_objects_init sg uuid_v8 t2 of (Inl e, _) \<Rightarrow> Inl e | (Inr _, t3) \<Rightarrow> Ok t3) = Ok t"
    using assms op by (simp add: new_token_def Let_def and_then_eq_Ok) blast
  have l: "tk_logged t2 = KRY_UNSPEC"
    using t2(1) by (auto simp: fill_token_info_def uninitialized_token_info_def set_info_flags_def Let_def
        split: sum.splits if_splits)
  have "t = snd (token_internal_objects_init sg uuid_v8 t2)" using t2(2) by (auto split: prod.splits sum.splits)
  then show ?thesis
    using same_login_builtins[of t2 t2 sg uuid_v8 CKO_MECHANISM "get_mechs_list t2"] l
    by (simp add: token_internal_objects_init_def same_login_def)
qed

lemma slot_new_ok:
  assumes "slot_new (std_storage raw) new_storage uuid_v8 name_to_mech fac0 cfg = Ok sl"
  shows "slot_ok raw sid sl"
proof -
  have base: "token_reachable raw t \<and> tk_logged t = KRY_UNSPEC"
    if "new_token (std_storage raw) uuid_v8 s0 fac0 = Ok t" for s0 t
    using token_reachable.created[OF that] new_token_logged[OF that] by blast
  have logged: "tk_logged (set_dedup d t) = tk_logged t" "tk_logged (set_mech_allow_list ms t) = tk_logged t"
    "tk_logged (set_mech_deny_list ms t) = tk_logged t" for d ms and t :: "'a std_storage token"
    by (simp_all add: set_dedup_def set_mech_allow_list_def set_mech_deny_list_def)
  show ?thesis
    using assms
    by (auto simp: slot_new_def Let_def and_then_eq_Ok slot_ok_def logged
        dest!: base intro!: token_reachable.dedup_set token_reachable.allowed token_reachable.denied
        split: option.splits prod.splits)
qed

lemma lib_ok_add_slot:
  assumes "lib_ok raw st" and "slot_ok raw sid sl" and "sl_sessions sl = []"
  shows "lib_ok raw (snd (add_slot sid sl st))"
proof (cases "sid \<in> fst ` set (gs_slots st)")
  case False
  then have "map_of (gs_slots st) sid = None" by (simp add: map_of_eq_None_iff)
  then show ?thesis
    using assms False
    by (auto simp: add_slot_def lib_ok_def lib_wf_def update_conv' distinct_update)
qed (use assms in \<open>simp add: add_slot_def\<close>)

lemma lib_reachable_ok: "lib_reachable raw st \<Longrightarrow> lib_ok raw st"
proof (induction rule: lib_reachable.induct)
  case (slot_added st new_storage uuid_v8 name_to_mech fac0 cfg sl sid)
  have "sl_sessions sl = []"
    using slot_added.hyps(2) by (auto simp: slot_new_def Let_def and_then_eq_Ok split: option.splits prod.splits)
  then show ?case using lib_ok_add_slot[OF slot_added.IH slot_new_ok[OF slot_added.hyps(2)]] by simp
next
  case (step st st')
  then show ?case using lib_step_ok by blast
qed (simp_all add: lib_ok_def lib_wf_def initial_lib_state_def state_initialize_def state_finalize_def
    state_is_initialized_def)


lemma get_session_slot:
  assumes "lib_ok raw st" and "get_slot st sid = Ok sl" and "map_of (sl_sessions sl) h = Some s"
  shows "get_session st h = Ok s"
proof -
  have "lib_wf raw st" using assms(1,2) by (simp add: lib_ok_def get_slot_Ok)
  then have "session_slot st h = Ok sid"
    using assms(2,3) by (auto simp: lib_wf_def session_slot_Ok get_slot_Ok)
  then show ?thesis using assms(2,3) by (simp add: get_session_Ok)
qed


text \<open>
  C3. A login (\<^verbatim>\<open>login\<close> with a user type other than the context-specific one): when it succeeds,
  nobody was logged in to the token of the session's slot, now the user is, and every session of
  the slot shows it; when it fails, no session has changed, and the login of the token neither.
  Other slots are as they were in both cases.
\<close>

theorem login_reaches_every_session:
  assumes "lib_reachable raw st" and "honest_login raw st h user_type pin"
    and "user_type \<noteq> CKU_CONTEXT_SPECIFIC"
    and sl: "get_slot st sid = Ok sl" and s: "slot_get_session h sl = Ok s"
  shows "case login (std_storage raw) h user_type pin st of (r, st') \<Rightarrow>
    (\<exists>sl'. get_slot st' sid = Ok sl' \<and>
      (if is_ok r then
         tk_logged (sl_token sl) = KRY_UNSPEC \<and> tk_logged (sl_token sl') = user_type \<and>
         (\<forall>k x. slot_get_session k sl' = Ok x \<longrightarrow> level_agrees user_type x)
       else tk_logged (sl_token sl') = tk_logged (sl_token sl) \<and> sl_sessions sl' = sl_sessions sl) \<and>
      map fst (sl_sessions sl') = map fst (sl_sessions sl)) \<and>
    (\<forall>k. k \<noteq> sid \<longrightarrow> get_slot st' k = get_slot st k)"
proof -
  let ?login = "login (std_storage raw) h user_type pin st"
  have ok: "lib_ok raw st" by (rule lib_reachable_ok[OF assms(1)])
  have init: "state_is_initialized st" using sl by (simp add: get_slot_Ok)
  have at: "map_of (sl_sessions sl) h = Some s" using s by (simp add: slot_get_session_Ok)
  have gs: "get_session st h = Ok s" by (rule get_session_slot[OF ok sl at])
  have sid: "si_slotID (s_info s) = sid"
    using lib_ok_slot[OF ok sl] at by (simp add: slot_ok_def session_fits_def)
  show ?thesis
  proof (cases "login_checks h user_type st")
    case (Inl e)
    then show ?thesis using sl by (simp add: login_def)
  next
    case (Inr p)
    then obtain i t where c: "login_checks h user_type st = Ok (i, t)" by (cases p) auto
    have i: "i = sid" and t: "t = sl_token sl"
      using login_checks_Ok[OF ok c] gs sid sl by (metis Inr_inject)+
    have hon: "honest_auth (std_storage raw) user_type pin t" using assms(2) c by (simp add: honest_login_def)
    obtain ret t1 where l: "token_login (std_storage raw) user_type pin t = (ret, t1)" by force
    show ?thesis
    proof (cases "ret = CKR_OK")
      case True
      note g = login_success[OF ok c assms(3) hon l[unfolded True]]
      have "\<forall>k x. map_of (map (\<lambda>(h, s). (h, snd (change_session_state user_type s))) (sl_sessions sl)) k = Some x \<longrightarrow>
          level_agrees user_type x"
        using g(2,4) sl by (simp add: i slot_ok_def session_fits_def)
      then show ?thesis
        using g(1,3,4) sl init by (simp add: i t slot_get_session_Ok)
    next
      case False
      have "?login = (Err ret, put_slot sid (sl\<lparr>sl_token := t1\<rparr>) st)"
        using False c l assms(3) by (simp add: login_def login_sessions_def i put_token_slot[OF sl])
      then show ?thesis
        using token_login_effect(4)[OF l assms(3) hon] False init by (simp add: t)
    qed
  qed
qed

text \<open>
  C4. The end of a login: after a successful \<^verbatim>\<open>logout\<close>, and when the last session of a slot is closed
  (\<^verbatim>\<open>close_session\<close>) or all are (\<^verbatim>\<open>close_all_sessions\<close>), nobody is logged in to the token of the slot
  any more and every session left in the slot is a public one.
\<close>

theorem login_ends:
  assumes "lib_reachable raw st" and sl: "get_slot st sid = Ok sl" and s: "slot_get_session h sl = Ok s"
  shows "(case logout (std_storage raw) h st of (r, st') \<Rightarrow> is_ok r \<longrightarrow>
      (\<exists>sl'. get_slot st' sid = Ok sl' \<and> tk_logged (sl_token sl') = KRY_UNSPEC \<and>
        map fst (sl_sessions sl') = map fst (sl_sessions sl) \<and>
        (\<forall>k x. slot_get_session k sl' = Ok x \<longrightarrow> level_agrees KRY_UNSPEC x))) \<and>
    (case close_session (std_storage raw) h st of (r, st') \<Rightarrow> is_ok r \<and> \<not> is_ok (get_session st' h) \<and>
      (\<forall>k. k \<noteq> h \<longrightarrow> get_session st' k = get_session st k) \<and>
      (\<exists>sl'. get_slot st' sid = Ok sl' \<and>
        (\<not> slot_has_sessions sl' \<longrightarrow> tk_logged (sl_token sl') = KRY_UNSPEC))) \<and>
    (\<exists>sl'. get_slot (snd (close_all_sessions (std_storage raw) sid st)) sid = Ok sl' \<and>
      \<not> slot_has_sessions sl' \<and> tk_logged (sl_token sl') = KRY_UNSPEC)"
proof -
  have ok: "lib_ok raw st" by (rule lib_reachable_ok[OF assms(1)])
  have init: "state_is_initialized st" using sl by (simp add: get_slot_Ok)
  have at: "map_of (sl_sessions sl) h = Some s" using s by (simp add: slot_get_session_Ok)
  have gs: "get_session st h = Ok s" by (rule get_session_slot[OF ok sl at])
  have sid: "si_slotID (s_info s) = sid"
    using lib_ok_slot[OF ok sl] at by (simp add: slot_ok_def session_fits_def)
  obtain sl0 where lo: "get_slot st sid = Ok sl0" "slot_ok raw sid sl0"
    "logout (std_storage raw) h st =
      (case token_logout (std_storage raw) (sl_token sl0) of (ret, t1) \<Rightarrow>
        (rv_result ret, if ret = CKR_OK
           then put_slot sid (logged_out_slot (std_storage raw) sl0) st
           else put_slot sid (sl0\<lparr>sl_token := t1\<rparr>) st))"
    using logout_Ok[OF ok gs, unfolded sid] by blast
  have out: "slot_ok raw sid (logged_out_slot (std_storage raw) sl)"
      "tk_logged (sl_token (logged_out_slot (std_storage raw) sl)) = KRY_UNSPEC"
    using slot_ok_logged_out_slot[of raw sid sl] lo(1,2) sl logout_token(2)[of raw "sl_token sl"]
    by (simp_all add: slot_ok_def logged_out_slot_def slot_invalidate_session_states_def)
  have logout: "case logout (std_storage raw) h st of (r, st') \<Rightarrow> is_ok r \<longrightarrow>
      (\<exists>sl'. get_slot st' sid = Ok sl' \<and> tk_logged (sl_token sl') = KRY_UNSPEC \<and>
        map fst (sl_sessions sl') = map fst (sl_sessions sl) \<and>
        (\<forall>k x. slot_get_session k sl' = Ok x \<longrightarrow> level_agrees KRY_UNSPEC x))"
    using lo(1,3) sl out logged_out_keys[of "std_storage raw" sl] init
    by (auto simp: rv_result_def slot_ok_def session_fits_def slot_get_session_Ok is_ok_iff case_prod_beta)
  obtain sl0 sl1 where cs: "get_slot st sid = Ok sl0"
      "close_session (std_storage raw) h st =
        (Ok (), (put_slot sid sl1 st)\<lparr>gs_sessionmap := AList.delete h (gs_sessionmap st)\<rparr>)"
      "slot_ok raw sid sl1" "sl_sessions sl1 = AList.delete h (sl_sessions sl0)"
    using close_session_Ok[OF ok gs, unfolded sid] by blast
  have close: "case close_session (std_storage raw) h st of (r, st') \<Rightarrow> is_ok r \<and> \<not> is_ok (get_session st' h) \<and>
      (\<forall>k. k \<noteq> h \<longrightarrow> get_session st' k = get_session st k) \<and>
      (\<exists>sl'. get_slot st' sid = Ok sl' \<and>
        (\<not> slot_has_sessions sl' \<longrightarrow> tk_logged (sl_token sl') = KRY_UNSPEC))"
    using cs init
    by (auto simp: get_session_def session_slot_def delete_conv' slot_get_session_def and_then_def
        slot_ok_def slot_has_sessions_def split: option.split)
  obtain sl2 where "snd (close_all_sessions (std_storage raw) sid st) =
      (put_slot sid sl2 st)\<lparr>gs_sessionmap := filter (\<lambda>p. snd p \<noteq> sid) (gs_sessionmap st)\<rparr>"
      "sl_sessions sl2 = []" "tk_logged (sl_token sl2) = KRY_UNSPEC"
    using close_all_Ok[OF ok sl] by blast
  then have all: "\<exists>sl'. get_slot (snd (close_all_sessions (std_storage raw) sid st)) sid = Ok sl' \<and>
      \<not> slot_has_sessions sl' \<and> tk_logged (sl_token sl') = KRY_UNSPEC"
    using init by (simp add: slot_has_sessions_def)
  show ?thesis using logout close all by blast
qed

section \<open>Closed handles\<close>

text \<open>No function but \<^verbatim>\<open>open_session\<close> makes a handle or moves the counter.\<close>

definition no_new_handle :: "'s lib_state \<Rightarrow> 's lib_state \<Rightarrow> bool" where
  "no_new_handle st st' \<longleftrightarrow> gs_next_handle st' = gs_next_handle st \<and>
    fst ` set (gs_sessionmap st') \<subseteq> fst ` set (gs_sessionmap st)"

lemma no_new_handle_same:
  "gs_next_handle st' = gs_next_handle st \<Longrightarrow> gs_sessionmap st' = gs_sessionmap st \<Longrightarrow> no_new_handle st st'"
  by (simp add: no_new_handle_def)

lemma login_same_map:
  "gs_sessionmap (snd (login sg h ut pin st)) = gs_sessionmap st \<and>
    gs_next_handle (snd (login sg h ut pin st)) = gs_next_handle st"
proof (cases "login_checks h ut st")
  case (Inl e)
  then show ?thesis by (simp add: login_def)
next
  case (Inr p)
  obtain r st1 where c: "change_session_states (fst p) ut (put_token (fst p)
      (snd (token_login sg ut pin (snd p))) st) = (r, st1)" by force
  have "gs_sessionmap st1 = gs_sessionmap st" "gs_next_handle st1 = gs_next_handle st"
    using c by (metis same_map_with(5,6) snd_conv upd_map_simps(1,2))+
  then show ?thesis
    using Inr c
    by (cases p; cases r; simp add: login_def login_context_def login_sessions_def Let_def case_prod_beta)
qed

lemma delete_keys: "fst ` set (AList.delete k xs) \<subseteq> fst ` set xs"
  by (simp add: delete_keys[symmetric] AList.delete_eq image_mono)

lemma close_no_new: "no_new_handle st (snd (close_session sg h st))"
proof -
  have 1: "no_new_handle st0 (snd (state_drop_session sg h st0))" for st0 :: "'a lib_state"
    by (simp add: state_drop_session_def no_new_handle_def Let_def AList.delete_eq image_mono
        split: sum.split prod.split bool.split)
  have "no_new_handle st (snd (state_drop_session sg h (put_token sid t st)))" for sid t
    using 1[of "put_token sid t st"] by (simp add: no_new_handle_def)
  then show ?thesis by (simp add: close_session_def no_new_handle_same split: sum.split prod.split)
qed

lemma close_all_no_new: "no_new_handle st (snd (close_all_sessions sg sid st))"
proof -
  have 1: "no_new_handle st (snd (drop_all_sessions_slot sid st))"
    by (auto simp: drop_all_sessions_slot_def no_new_handle_def Let_def split: sum.split prod.split)
  have "no_new_handle st (snd (st_then (drop_all_sessions_slot sid st) (\<lambda>dropped.
         with_token_mut sid (\<lambda>t. (Ok (), snd (token_logout sg (fold drop_session_objects dropped t)))))))"
    by (rule st_then_invariant[where P = "no_new_handle st"]) (use 1 in \<open>simp_all add: no_new_handle_def\<close>)
  then show ?thesis by (simp add: close_all_sessions_def no_new_handle_same split: sum.split)
qed

lemma lib_step_handles:
  assumes "lib_step raw st st'"
  shows "no_new_handle st st' \<or>
    state_is_initialized st \<and> gs_next_handle st' = gs_next_handle st + 1 \<and>
    fst ` set (gs_sessionmap st') \<subseteq> insert (gs_next_handle st) (fst ` set (gs_sessionmap st))"
  using assms
proof (induction rule: lib_step.induct)
  case (opened st sid flags null)
  have "snd (state_new_session sid ut flags st) = st \<or>
      gs_next_handle (snd (state_new_session sid ut flags st)) = gs_next_handle st + 1 \<and>
      fst ` set (gs_sessionmap (snd (state_new_session sid ut flags st))) \<subseteq>
        insert (gs_next_handle st) (fst ` set (gs_sessionmap st))" for ut
    by (simp add: state_new_session_def Let_def dom_update split: sum.split)
  moreover have "snd (open_session sid flags null st) = st \<or>
      state_is_initialized st \<and> (\<exists>ut. snd (open_session sid flags null st) = snd (state_new_session sid ut flags st))"
    by (auto simp: open_session_def lock_def split: sum.split)
  ultimately show ?case by (metis no_new_handle_same)
next
  case (closed st h)
  then show ?case using close_no_new by blast
next
  case (closed_all st sid)
  then show ?case using close_all_no_new by blast
next
  case (logged_in st h user_type pin)
  then show ?case using login_same_map by (metis no_new_handle_same)
next
  case (logged_out st h)
  have "no_new_handle st (snd (logout (std_storage raw) h st))"
    by (rule no_new_handle_same) (simp_all add: logout_def Let_def split: sum.split prod.split)
  then show ?case by blast
next
  case (search_started st h template)
  have "no_new_handle st (snd (find_objects_init (std_storage raw) h template st))"
    by (rule no_new_handle_same) (simp_all add: find_objects_init_def split: sum.split prod.split)
  then show ?case by blast
next
  case (initialized st uuid_v8 sid pin label)
  have "no_new_handle st (snd (init_token (std_storage raw) uuid_v8 sid pin label st))"
    by (rule no_new_handle_same) (simp_all add: init_token_def split: sum.split prod.split)
  then show ?case by blast
next
  case (crypto st st')
  then show ?case using crypto_step_quiet no_new_handle_same unfolding quiet_def by blast
qed (intro disjI1 no_new_handle_same; simp add: session_cancel_def set_operation_state_def init_pin_def fn_set_pin_def
    fn_create_object_def fn_copy_object_def fn_destroy_object_def fn_set_attribute_value_def find_objects_def
    find_objects_final_def split: sum.split prod.split)+

text \<open>
  A handle that was given out and that the session map does not hold. While the counter does not come
  round to zero, no call of an application takes it back.
\<close>

definition handle_gone :: "ck_ulong \<Rightarrow> 's lib_state \<Rightarrow> bool" where
  "handle_gone h st \<longleftrightarrow>
    (state_is_initialized st \<longrightarrow> h < gs_next_handle st) \<and> h \<notin> fst ` set (gs_sessionmap st)"

lemma closed_handle_gone:
  assumes "lib_reachable raw st" and "h < gs_next_handle st" and "\<not> is_ok (get_session st h)"
  shows "handle_gone h st"
proof -
  have "state_is_initialized st" using assms(2) by (auto simp: state_is_initialized_def)
  then have wf: "lib_wf raw st" using lib_reachable_ok[OF assms(1)] by (simp add: lib_ok_def)
  have "map_of (gs_sessionmap st) h = None"
  proof (rule ccontr)
    assume "map_of (gs_sessionmap st) h \<noteq> None"
    then obtain sid sl s where "map_of (gs_sessionmap st) h = Some sid" "map_of (gs_slots st) sid = Some sl"
        "map_of (sl_sessions sl) h = Some s"
      using wf by (auto simp: lib_wf_def)
    then show False
      using assms(3) \<open>state_is_initialized st\<close> by (auto simp: is_ok_iff get_session_Ok session_slot_Ok get_slot_Ok)
  qed
  then show ?thesis using assms(2) by (simp add: handle_gone_def map_of_eq_None_iff)
qed

lemma handle_gone_step:
  assumes "handle_gone h y" and "lib_step raw y z"
  shows "handle_gone h z"
  using lib_step_handles[OF assms(2)]
proof
  assume "no_new_handle y z"
  then show ?thesis using assms(1) by (auto simp: handle_gone_def no_new_handle_def state_is_initialized_def)
next
  assume z: "state_is_initialized y \<and> gs_next_handle z = gs_next_handle y + 1 \<and>
    fst ` set (gs_sessionmap z) \<subseteq> insert (gs_next_handle y) (fst ` set (gs_sessionmap y))"
  then have "h < gs_next_handle y" using assms(1) by (simp add: handle_gone_def)
  then show ?thesis
    using assms(1) z below_succ[of h "gs_next_handle y"]
    by (auto simp: handle_gone_def state_is_initialized_def order_less_imp_le)
qed

lemma gone_handle_invalid: "handle_gone h st \<Longrightarrow> \<not> is_ok (get_session st h)"
  by (auto simp: handle_gone_def is_ok_iff get_session_Ok session_slot_Ok rev_image_eqI dest: map_of_SomeD)

section \<open>A sample library\<close>

definition sample_config :: slot_config where
  "sample_config = \<lparr>cfg_description = None, cfg_manufacturer = None, cfg_dbtype = Some [], cfg_dbargs = None,
     cfg_mechanisms = None, cfg_objects_dedup = None\<rparr>"

definition sample_slot :: "(bytes \<Rightarrow> storage_auth_info option) std_storage slot" where
  "sample_slot =
    \<lparr>sl_info = \<lparr>sli_slotDescription = copy_sized_string SLOT_DESCRIPTION (replicate 64 0),
       sli_manufacturerID = copy_sized_string MANUFACTURER_ID (replicate 32 0), sli_flags = CKF_TOKEN_PRESENT\<rparr>,
     sl_token = sample_token, sl_sessions = []\<rparr>"

lemma sample_token_dedup: "set_dedup None sample_token = sample_token" "is_initialized sample_token"
  by (simp_all add: sample_token_def new_token_def std_storage_def std_open_def lift_raw_def user_raw_def init_pin_flags_def
      both_users_def token_internal_objects_init_def get_mechs_list_def get_mechanisms_def mechs_list_def
      sample_fac_def set_handles_def fill_token_info_def Let_def SO_ID_def USER_ID_def set_dedup_def
      is_initialized_def default_storage_token_info_def user_flags_def sample_user_sel)

lemma sample_slot_new:
  "slot_new (std_storage user_raw) (\<lambda>_ _. Ok both_users) (\<lambda>_. [0x75]) (\<lambda>_. Err CKR_MECHANISM_INVALID) sample_fac
    sample_config = Ok sample_slot"
  by (simp add: slot_new_def sample_config_def sample_token_new mech_list_def sample_token_dedup sample_slot_def)

definition slot_lib :: "(bytes \<Rightarrow> storage_auth_info option) std_storage lib_state" where
  "slot_lib = snd (add_slot 0 sample_slot (state_initialize initial_lib_state))"

lemma slot_lib_reachable: "lib_reachable user_raw slot_lib"
  unfolding slot_lib_def
  by (intro lib_reachable.slot_added[OF _ sample_slot_new] lib_reachable.initialized lib_reachable.start)

lemma slot_lib_eq: "slot_lib = \<lparr>gs_slots = [(0, sample_slot)], gs_sessionmap = [], gs_next_handle = 1\<rparr>"
  by (simp add: slot_lib_def add_slot_def state_initialize_def initial_lib_state_def put_slot_def)

abbreviation rw_flags :: ck_flags where
  "rw_flags \<equiv> CKF_SERIAL_SESSION OR CKF_RW_SESSION"

definition session_lib :: "(bytes \<Rightarrow> storage_auth_info option) std_storage lib_state" where
  "session_lib = snd (open_session 0 rw_flags False slot_lib)"

lemma sample_open: "open_session 0 rw_flags False slot_lib = (Ok 1, session_lib)"
    "session_lib = \<lparr>gs_slots = [(0, slot_add_session 1 sample_session sample_slot)], gs_sessionmap = [(1, 0)], gs_next_handle = 2\<rparr>"
  using new_sample_session
  by (simp_all add: session_lib_def open_session_def slot_lib_eq lock_def state_is_initialized_def get_token_from_slot_def
      get_slot_def slot_get_token_def sample_slot_def sample_token_dedup is_logged_in_def sample_token_sel
      state_new_session_def Let_def put_slot_def)

lemma session_lib_reachable: "lib_reachable user_raw session_lib"
  unfolding session_lib_def by (rule lib_reachable.step[OF slot_lib_reachable lib_step.opened])

lemma session_lib_slot:
  "state_is_initialized session_lib" "get_slot session_lib 0 = Ok (slot_add_session 1 sample_session sample_slot)"
  "slot_get_session 1 (slot_add_session 1 sample_session sample_slot) = Ok sample_session"
  "sl_token (slot_add_session 1 sample_session sample_slot) = sample_token"
  by (simp_all add: sample_open(2) state_is_initialized_def get_slot_def slot_get_session_def slot_add_session_def
      sample_slot_def)



lemma sample_checks: "login_checks 1 CKU_USER session_lib = Ok (0, sample_token)"
  using sample_token_dedup(2)
  by (simp add: login_checks_def sample_open(2) lock_def state_is_initialized_def get_session_def session_slot_def
      get_slot_def slot_get_session_def slot_add_session_def sample_slot_def sample_session_def get_slot_id_def
      get_token_from_slot_mut_def slot_get_token_mut_def Let_def)

lemma sample_honest: "honest_login user_raw session_lib 1 CKU_USER [0x31, 0x32]"
  by (simp add: honest_login_def sample_checks honest_sample)

theorem login_reaches_every_session_witness:
  "\<exists>sl. get_slot (snd (login (std_storage user_raw) 1 CKU_USER [0x31, 0x32] session_lib)) 0 = Ok sl \<and>
    tk_logged (sl_token sl) = CKU_USER"
proof -
  have "is_ok (fst (login (std_storage user_raw) 1 CKU_USER [0x31, 0x32] session_lib))"
  proof -
    have l: "token_login (std_storage user_raw) CKU_USER [0x31, 0x32] sample_token = (CKR_OK, user_token)"
      using sample_login_ok by (simp add: user_token_def prod_eq_iff)
    show ?thesis
      using login_success(1)[OF lib_reachable_ok[OF session_lib_reachable] sample_checks _ honest_sample l
          session_lib_slot(2)] by simp
  qed
  then show ?thesis
    using login_reaches_every_session[OF session_lib_reachable sample_honest _ session_lib_slot(2,3)]
    by (auto simp: case_prod_beta)
qed

theorem login_ends_witness:
  "\<exists>sl. get_slot (snd (close_session (std_storage user_raw) 1 session_lib)) 0 = Ok sl \<and>
    (\<not> slot_has_sessions sl \<longrightarrow> tk_logged (sl_token sl) = KRY_UNSPEC)"
  using login_ends[OF session_lib_reachable session_lib_slot(2,3)] by (simp add: case_prod_beta)

end
