(* ===== verification/Hmac.thy ===== *)
theory Hmac
  imports Hashes
begin

text \<open>
  HMAC: the operation built in Rust over a digest (\<^verbatim>\<open>src/src/native/hmac.rs\<close>) and the mechanism
  that makes it from a key object (\<^verbatim>\<open>src/src/hmac.rs\<close>).
\<close>

section \<open>The operation\<close>

definition MAX_BSZ :: nat where
  "MAX_BSZ = 160"

definition IPAD_INIT :: bytes where
  "IPAD_INIT = replicate MAX_BSZ 0x36"

definition OPAD_INIT :: bytes where
  "OPAD_INIT = replicate MAX_BSZ 0x5C"

definition hmac_mech_to_hash_mech :: "ck_ulong \<Rightarrow> ck_ulong result" where
  "hmac_mech_to_hash_mech m =
    (if m = CKM_SHA_1_HMAC \<or> m = CKM_SHA_1_HMAC_GENERAL then Ok CKM_SHA_1
     else if m = CKM_SHA224_HMAC \<or> m = CKM_SHA224_HMAC_GENERAL then Ok CKM_SHA224
     else if m = CKM_SHA256_HMAC \<or> m = CKM_SHA256_HMAC_GENERAL then Ok CKM_SHA256
     else if m = CKM_SHA384_HMAC \<or> m = CKM_SHA384_HMAC_GENERAL then Ok CKM_SHA384
     else if m = CKM_SHA512_HMAC \<or> m = CKM_SHA512_HMAC_GENERAL then Ok CKM_SHA512
     else if m = CKM_SHA3_224_HMAC \<or> m = CKM_SHA3_224_HMAC_GENERAL then Ok CKM_SHA3_224
     else if m = CKM_SHA3_256_HMAC \<or> m = CKM_SHA3_256_HMAC_GENERAL then Ok CKM_SHA3_256
     else if m = CKM_SHA3_384_HMAC \<or> m = CKM_SHA3_384_HMAC_GENERAL then Ok CKM_SHA3_384
     else if m = CKM_SHA3_512_HMAC \<or> m = CKM_SHA3_512_HMAC_GENERAL then Ok CKM_SHA3_512
     else if m = CKM_SHA512_224_HMAC \<or> m = CKM_SHA512_224_HMAC_GENERAL then Ok CKM_SHA512_224
     else if m = CKM_SHA512_256_HMAC \<or> m = CKM_SHA512_256_HMAC_GENERAL then Ok CKM_SHA512_256
     else Err CKR_MECHANISM_INVALID)"

record 'c hmac_operation =
  hm_mech :: ck_ulong
  hm_key :: bytes
  hm_hashlen :: nat
  hm_blocklen :: nat
  hm_outputlen :: nat
  hm_state :: bytes
  hm_ipad :: bytes
  hm_opad :: bytes
  hm_inner :: "'c hash_operation"
  hm_finalized :: bool
  hm_in_use :: bool
  hm_signature :: "bytes option"

definition on_inner ::
    "('c hash_operation \<Rightarrow> 'a result \<times> 'c hash_operation) \<Rightarrow> 'c hmac_operation \<Rightarrow>
      'a result \<times> 'c hmac_operation" where
  "on_inner f hm = (case f (hm_inner hm) of (r, i) \<Rightarrow> (r, hm\<lparr>hm_inner := i\<rparr>))"

text \<open>Slices of the fixed arrays: writing a prefix, and the loop that xors one with the state.\<close>

definition put_prefix :: "bytes \<Rightarrow> bytes \<Rightarrow> bytes" where
  "put_prefix v buf = v @ drop (length v) buf"

definition xor_bytes :: "bytes \<Rightarrow> bytes \<Rightarrow> bytes" where
  "xor_bytes a b = map2 (XOR) a b"

definition xor_prefix :: "nat \<Rightarrow> bytes \<Rightarrow> bytes \<Rightarrow> bytes" where
  "xor_prefix n state buf = put_prefix (xor_bytes (take n buf) (take n state)) buf"

definition hmac_k0 :: "'c digest_lib \<Rightarrow> 'c hmac_operation \<Rightarrow> unit result \<times> 'c hmac_operation" where
  "hmac_k0 dl hm =
    (if length (hm_key hm) \<le> hm_blocklen hm
     then (Ok (), hm\<lparr>hm_state := put_prefix (hm_key hm) (hm_state hm)\<rparr>)
     else st_then (on_inner (hash_digest dl (hm_key hm) (hm_hashlen hm)) hm) (\<lambda>out hm1.
       (Ok (), hm1\<lparr>hm_state := put_prefix out (hm_state hm1)\<rparr>)))"

definition hmac_init :: "'c digest_lib \<Rightarrow> 'c hmac_operation \<Rightarrow> unit result \<times> 'c hmac_operation" where
  "hmac_init dl hm =
    st_then (hmac_k0 dl hm) (\<lambda>_ hm1.
    let hm2 = hm1\<lparr>hm_ipad := xor_prefix (hm_blocklen hm1) (hm_state hm1) (hm_ipad hm1),
                  hm_opad := xor_prefix (hm_blocklen hm1) (hm_state hm1) (hm_opad hm1)\<rparr> in
    st_then (on_inner (hash_reset dl) hm2) (\<lambda>_ hm3.
      on_inner (hash_update dl (take (hm_blocklen hm3) (hm_ipad hm3))) hm3))"

definition hmac_internal :: "'c digest_lib \<Rightarrow> ck_ulong \<Rightarrow> bytes \<Rightarrow> nat \<Rightarrow> 'c hmac_operation result" where
  "hmac_internal dl mech key outputlen =
    and_then (hmac_mech_to_hash_mech mech) (\<lambda>hash.
    and_then (hash_new dl hash) (\<lambda>inner.
      case hmac_init dl
        \<lparr>hm_mech = mech, hm_key = key, hm_hashlen = hash_size hash, hm_blocklen = block_size hash,
         hm_outputlen = outputlen, hm_state = replicate MAX_BSZ 0, hm_ipad = IPAD_INIT,
         hm_opad = OPAD_INIT, hm_inner = inner, hm_finalized = False, hm_in_use = False,
         hm_signature = None\<rparr> of
        (r, hm) \<Rightarrow> and_then r (\<lambda>_. Ok hm)))"

definition hmac_new ::
    "'c digest_lib \<Rightarrow> ck_ulong \<Rightarrow> bytes \<Rightarrow> nat \<Rightarrow> bytes option \<Rightarrow> 'c hmac_operation result" where
  "hmac_new dl mech key outputlen signature =
    and_then (hmac_internal dl mech key outputlen) (\<lambda>hm.
      case signature of
        None \<Rightarrow> Ok hm
      | Some s \<Rightarrow>
        if length s \<noteq> outputlen then Err CKR_SIGNATURE_LEN_RANGE
        else Ok (hm\<lparr>hm_signature := Some s\<rparr>))"

text \<open>
  A saved state is a DER sequence of the state of the digest and the length of the output; the
  encoding is that of the \<^verbatim>\<open>asn1\<close> crate.
\<close>

record hmac_codec =
  hc_write :: "bytes \<Rightarrow> nat \<Rightarrow> bytes option"
  hc_parse :: "bytes \<Rightarrow> (bytes \<times> nat) option"

definition hmac_restore ::
    "'c digest_lib \<Rightarrow> hmac_codec \<Rightarrow> ck_ulong \<Rightarrow> bytes \<Rightarrow> bytes option \<Rightarrow> bytes \<Rightarrow>
      'c hmac_operation result" where
  "hmac_restore dl hc mech key signature state =
    (case hc_parse hc state of
       None \<Rightarrow> Err CKR_SAVED_STATE_INVALID
     | Some (dgst_state, outputlen) \<Rightarrow>
       and_then (hmac_new dl mech key outputlen signature) (\<lambda>op.
       and_then (hmac_mech_to_hash_mech mech) (\<lambda>hash.
       and_then (hash_restore dl hash dgst_state) (\<lambda>i. Ok (op\<lparr>hm_inner := i\<rparr>)))))"

definition hmac_begin :: "'c hmac_operation \<Rightarrow> unit result" where
  "hmac_begin hm = (if hm_in_use hm then Err CKR_OPERATION_NOT_INITIALIZED else Ok ())"

definition hmac_update ::
    "'c digest_lib \<Rightarrow> bytes \<Rightarrow> 'c hmac_operation \<Rightarrow> unit result \<times> 'c hmac_operation" where
  "hmac_update dl data hm =
    (if hm_finalized hm then (Err CKR_OPERATION_NOT_INITIALIZED, hm)
     else case on_inner (hash_update dl data) (hm\<lparr>hm_in_use := True\<rparr>) of
       (Inl e, hm1) \<Rightarrow> (Inl e, hm1\<lparr>hm_finalized := True\<rparr>)
     | (Inr _, hm1) \<Rightarrow> (Ok (), hm1))"

text \<open>\<^verbatim>\<open>digest_final\<close> into the start of the state.\<close>

definition final_into_state :: "'c digest_lib \<Rightarrow> 'c hmac_operation \<Rightarrow> unit result \<times> 'c hmac_operation" where
  "final_into_state dl hm =
    st_then (on_inner (hash_final dl (hm_hashlen hm)) hm) (\<lambda>out hm1.
      (Ok (), hm1\<lparr>hm_state := put_prefix out (hm_state hm1)\<rparr>))"

definition hmac_finalize ::
    "'c digest_lib \<Rightarrow> nat \<Rightarrow> 'c hmac_operation \<Rightarrow> bytes result \<times> 'c hmac_operation" where
  "hmac_finalize dl n hm =
    (if hm_finalized hm then (Err CKR_OPERATION_NOT_INITIALIZED, hm)
     else let hm0 = hm\<lparr>hm_in_use := True, hm_finalized := True\<rparr> in
       if n \<noteq> hm_outputlen hm0 then (Err CKR_GENERAL_ERROR, hm0)
       else st_then (final_into_state dl hm0) (\<lambda>_ hm1.
         st_then (on_inner (hash_reset dl) hm1) (\<lambda>_ hm2.
         st_then (on_inner (hash_update dl (take (hm_blocklen hm2) (hm_opad hm2))) hm2) (\<lambda>_ hm3.
         st_then (on_inner (hash_update dl (take (hm_hashlen hm3) (hm_state hm3))) hm3) (\<lambda>_ hm4.
         st_then (final_into_state dl hm4) (\<lambda>_ hm5.
           (if n > MAX_BSZ then Inl Panic else Ok (take n (hm_state hm5)), hm5)))))))"

definition hmac_reinit :: "'c digest_lib \<Rightarrow> 'c hmac_operation \<Rightarrow> unit result \<times> 'c hmac_operation" where
  "hmac_reinit dl hm =
    st_then
      (on_inner (hash_reset dl)
        (hm\<lparr>hm_state := replicate MAX_BSZ 0, hm_ipad := IPAD_INIT, hm_opad := OPAD_INIT\<rparr>)) (\<lambda>_ hm1.
      hmac_init dl (hm1\<lparr>hm_finalized := False, hm_in_use := False\<rparr>))"

text \<open>One call for all the data: nothing may have been given before.\<close>

definition hmac_single ::
    "'c digest_lib \<Rightarrow> bytes \<Rightarrow> nat \<Rightarrow> 'c hmac_operation \<Rightarrow> bytes result \<times> 'c hmac_operation" where
  "hmac_single dl data n hm =
    (case hmac_begin hm of
       Inl e \<Rightarrow> (Inl e, hm)
     | Inr _ \<Rightarrow> st_then (hmac_update dl data hm) (\<lambda>_. hmac_finalize dl n))"

text \<open>The comparison is that of the crate \<^verbatim>\<open>constant_time_eq\<close>: equality.\<close>

definition hmac_verify_final ::
    "'c digest_lib \<Rightarrow> bytes \<Rightarrow> 'c hmac_operation \<Rightarrow> unit result \<times> 'c hmac_operation" where
  "hmac_verify_final dl signature hm =
    st_then (hmac_finalize dl (hm_outputlen hm) hm) (\<lambda>verify hm1.
      (if verify \<noteq> signature then Err CKR_SIGNATURE_INVALID else Ok (), hm1))"

definition hmac_verify ::
    "'c digest_lib \<Rightarrow> bytes \<Rightarrow> bytes \<Rightarrow> 'c hmac_operation \<Rightarrow> unit result \<times> 'c hmac_operation" where
  "hmac_verify dl data signature hm =
    (case hmac_begin hm of
       Inl e \<Rightarrow> (Inl e, hm)
     | Inr _ \<Rightarrow> st_then (hmac_update dl data hm) (\<lambda>_. hmac_verify_final dl signature))"

definition hmac_versig_final ::
    "'c digest_lib \<Rightarrow> 'c hmac_operation \<Rightarrow> unit result \<times> 'c hmac_operation" where
  "hmac_versig_final dl hm =
    st_then (hmac_finalize dl (hm_outputlen hm) hm) (\<lambda>verify hm1.
      (case hm_signature hm1 of
         Some sig \<Rightarrow> if verify \<noteq> sig then Err CKR_SIGNATURE_INVALID else Ok ()
       | None \<Rightarrow> Err CKR_GENERAL_ERROR, hm1))"

definition hmac_versig ::
    "'c digest_lib \<Rightarrow> bytes \<Rightarrow> 'c hmac_operation \<Rightarrow> unit result \<times> 'c hmac_operation" where
  "hmac_versig dl data hm =
    (case hmac_begin hm of
       Inl e \<Rightarrow> (Inl e, hm)
     | Inr _ \<Rightarrow> st_then (hmac_update dl data hm) (\<lambda>_. hmac_versig_final dl))"

section \<open>The traits of the operation\<close>

definition hmac_state_size :: "'c digest_lib \<Rightarrow> hmac_codec \<Rightarrow> 'c hmac_operation \<Rightarrow> nat result" where
  "hmac_state_size dl hc hm =
    and_then (hash_state_size dl (hm_inner hm)) (\<lambda>n.
      case hc_write hc (replicate n 0) (hm_outputlen hm) of
        None \<Rightarrow> Err CKR_STATE_UNSAVEABLE
      | Some der \<Rightarrow> Ok (length der))"

definition hmac_state_save ::
    "'c digest_lib \<Rightarrow> hmac_codec \<Rightarrow> 'c hmac_operation \<Rightarrow> nat \<Rightarrow> (bytes \<times> nat) result" where
  "hmac_state_save dl hc hm buflen =
    and_then (hash_state_size dl (hm_inner hm)) (\<lambda>n.
    and_then (hash_state_save dl (hm_inner hm) n) (\<lambda>(inner_state, len).
      case hc_write hc (take len inner_state) (hm_outputlen hm) of
        None \<Rightarrow> Err CKR_STATE_UNSAVEABLE
      | Some encoded \<Rightarrow>
        if length encoded > buflen then Err CKR_BUFFER_TOO_SMALL
        else Ok (put_prefix encoded (replicate buflen 0), length encoded)))"

text \<open>\<^verbatim>\<open>Mac\<close> and \<^verbatim>\<open>Sign\<close> have the same methods.\<close>

fun hmac_sign_call ::
    "'c digest_lib \<Rightarrow> 'c hmac_operation \<Rightarrow> op_call \<Rightarrow> bytes result \<times> 'c hmac_operation" where
  "hmac_sign_call dl hm (Single d n) = hmac_single dl d n hm"
| "hmac_sign_call dl hm (Update d n) = map_prod no_output id (hmac_update dl d hm)"
| "hmac_sign_call dl hm (Finish n) = hmac_finalize dl n hm"
| "hmac_sign_call dl hm Reset = map_prod no_output id (hmac_reinit dl hm)"
| "hmac_sign_call dl hm _ = (Err CKR_GENERAL_ERROR, hm)"

fun hmac_verify_call ::
    "'c digest_lib \<Rightarrow> 'c hmac_operation \<Rightarrow> op_call \<Rightarrow> bytes result \<times> 'c hmac_operation" where
  "hmac_verify_call dl hm (Check d s) = map_prod no_output id (hmac_verify dl d s hm)"
| "hmac_verify_call dl hm (Update d n) = map_prod no_output id (hmac_update dl d hm)"
| "hmac_verify_call dl hm (CheckFinish s) = map_prod no_output id (hmac_verify_final dl s hm)"
| "hmac_verify_call dl hm Reset = map_prod no_output id (hmac_reinit dl hm)"
| "hmac_verify_call dl hm _ = (Err CKR_GENERAL_ERROR, hm)"

fun hmac_versig_call ::
    "'c digest_lib \<Rightarrow> 'c hmac_operation \<Rightarrow> op_call \<Rightarrow> bytes result \<times> 'c hmac_operation" where
  "hmac_versig_call dl hm (Single d n) = map_prod no_output id (hmac_versig dl d hm)"
| "hmac_versig_call dl hm (Update d n) = map_prod no_output id (hmac_update dl d hm)"
| "hmac_versig_call dl hm (Finish n) = map_prod no_output id (hmac_versig_final dl hm)"
| "hmac_versig_call dl hm Reset = map_prod no_output id (hmac_reinit dl hm)"
| "hmac_versig_call dl hm _ = (Err CKR_GENERAL_ERROR, hm)"

primcorec hmac_op ::
    "'c digest_lib \<Rightarrow> hmac_codec \<Rightarrow>
      ('c hmac_operation \<Rightarrow> op_call \<Rightarrow> bytes result \<times> 'c hmac_operation) \<Rightarrow> 'c hmac_operation \<Rightarrow>
      crypto_op" where
  "hmac_op dl hc call hm = CryptoOp (hm_finalized hm) False (Ok (hm_mech hm)) (Ok (hm_outputlen hm))
     (hmac_state_size dl hc hm) (hmac_state_save dl hc hm) None
     (\<lambda>_ _. (Err CKR_GENERAL_ERROR, hmac_op dl hc call hm))
     (\<lambda>c. map_prod id (hmac_op dl hc call) (call hm c))"

section \<open>The mechanism\<close>

record hmac_mechanism =
  hmm_flags :: ck_flags
  hmm_keytype :: ck_ulong
  hmm_minlen :: nat
  hmm_maxlen :: nat

text \<open>Each hash gives a mechanism with the whole output and one whose parameter says how much of it.\<close>

definition HMAC_MECHS :: "(ck_ulong \<times> hmac_mechanism) list" where
  "HMAC_MECHS =
    concat (map (\<lambda>hs.
      [(hb_mac hs, \<lparr>hmm_flags = CKF_SIGN OR CKF_VERIFY, hmm_keytype = hb_key_type hs,
                    hmm_minlen = hb_hash_size hs, hmm_maxlen = hb_hash_size hs\<rparr>),
       (hb_mac_general hs, \<lparr>hmm_flags = CKF_SIGN OR CKF_VERIFY, hmm_keytype = hb_key_type hs,
                            hmm_minlen = 1, hmm_maxlen = hb_hash_size hs\<rparr>)]) HASH_MECH_SET)"

definition HMAC_SECRET_KEY_FACTORIES :: "(ck_ulong \<times> object_factory) list" where
  "HMAC_SECRET_KEY_FACTORIES =
    map (\<lambda>hs. (hb_key_type hs, generic_secret_factory (hb_hash_size hs))) HASH_MECH_SET"

definition hmac_size :: "ck_ulong \<Rightarrow> nat" where
  "hmac_size m =
    (case find_hash (\<lambda>hs. hb_hash hs = m \<or> hb_mac hs = m \<or> hb_mac_general hs = m) HASH_MECH_SET of
       Some hs \<Rightarrow> hb_hash_size hs
     | None \<Rightarrow> INVALID_HASH_SIZE)"

definition hash_to_hmac_mech :: "ck_ulong \<Rightarrow> ck_ulong result" where
  "hash_to_hmac_mech m =
    (if m = CKM_SHA_1 then Ok CKM_SHA_1_HMAC
     else if m = CKM_SHA224 then Ok CKM_SHA224_HMAC
     else if m = CKM_SHA256 then Ok CKM_SHA256_HMAC
     else if m = CKM_SHA384 then Ok CKM_SHA384_HMAC
     else if m = CKM_SHA512 then Ok CKM_SHA512_HMAC
     else if m = CKM_SHA3_224 then Ok CKM_SHA3_224_HMAC
     else if m = CKM_SHA3_256 then Ok CKM_SHA3_256_HMAC
     else if m = CKM_SHA3_384 then Ok CKM_SHA3_384_HMAC
     else if m = CKM_SHA3_512 then Ok CKM_SHA3_512_HMAC
     else if m = CKM_SHA512_224 then Ok CKM_SHA512_224_HMAC
     else if m = CKM_SHA512_256 then Ok CKM_SHA512_256_HMAC
     else Err CKR_MECHANISM_INVALID)"

definition check_and_fetch_key :: "hmac_mechanism \<Rightarrow> object \<Rightarrow> ck_ulong \<Rightarrow> bytes result" where
  "check_and_fetch_key hmm key op =
    and_then (get_attr_as_ulong CKA_CLASS key) (\<lambda>c.
    if c \<noteq> CKO_SECRET_KEY then Err CKR_KEY_TYPE_INCONSISTENT
    else and_then (get_attr_as_ulong CKA_KEY_TYPE key) (\<lambda>t.
    if t \<noteq> CKK_GENERIC_SECRET \<and> t \<noteq> hmm_keytype hmm then Err CKR_KEY_TYPE_INCONSISTENT
    else if \<not> (case get_attr_as_bool op key of Inr b \<Rightarrow> b | Inl _ \<Rightarrow> False)
      then Err CKR_KEY_TYPE_INCONSISTENT
    else get_attr_as_bytes CKA_VALUE key))"

definition check_and_fetch_param :: "hmac_mechanism \<Rightarrow> ck_mechanism \<Rightarrow> nat result" where
  "check_and_fetch_param hmm mech =
    (if hmm_minlen hmm = hmm_maxlen hmm then
       (if cm_parameter_len mech \<noteq> 0 then Err CKR_MECHANISM_PARAM_INVALID else Ok (hmm_maxlen hmm))
     else if cm_parameter_len mech \<noteq> 8 then Err CKR_MECHANISM_PARAM_INVALID
     else if is_null (cm_parameter mech) then Err CKR_ARGUMENTS_BAD
     else let genlen = unat (u64_from_le (mem_bytes (cm_parameter mech) 8)) in
       if genlen < hmm_minlen hmm \<or> genlen > hmm_maxlen hmm then Err CKR_MECHANISM_PARAM_INVALID
       else Ok genlen)"

definition hmac_op_attr :: "hmac_mechanism \<Rightarrow> ck_flags \<Rightarrow> ck_ulong result" where
  "hmac_op_attr hmm op_type =
    (if op_type = CKF_SIGN then
       (if hmm_flags hmm AND CKF_SIGN \<noteq> CKF_SIGN then Err CKR_MECHANISM_INVALID else Ok CKA_SIGN)
     else if op_type = CKF_VERIFY then
       (if hmm_flags hmm AND CKF_VERIFY \<noteq> CKF_VERIFY then Err CKR_MECHANISM_INVALID else Ok CKA_VERIFY)
     else if op_type = CKF_DERIVE then Ok CKA_DERIVE
     else Err CKR_MECHANISM_INVALID)"

definition hmac_new_op ::
    "'c digest_lib \<Rightarrow> hmac_mechanism \<Rightarrow> ck_mechanism \<Rightarrow> object \<Rightarrow> ck_flags \<Rightarrow> bytes option \<Rightarrow>
      'c hmac_operation result" where
  "hmac_new_op dl hmm mech keyobj op_type signature =
    and_then (hmac_op_attr hmm op_type) (\<lambda>op_attr.
    and_then (check_and_fetch_key hmm keyobj op_attr) (\<lambda>key.
    and_then (check_and_fetch_param hmm mech) (\<lambda>n.
      hmac_new dl (cm_mechanism mech) key n signature)))"

definition hmac_restore_op ::
    "'c digest_lib \<Rightarrow> hmac_codec \<Rightarrow> hmac_mechanism \<Rightarrow> ck_ulong \<Rightarrow> object \<Rightarrow> ck_flags \<Rightarrow> bytes option \<Rightarrow>
      bytes \<Rightarrow> 'c hmac_operation result" where
  "hmac_restore_op dl hc hmm mech_type keyobj op_type signature state =
    and_then (hmac_op_attr hmm op_type) (\<lambda>op_attr.
    and_then (check_and_fetch_key hmm keyobj op_attr) (\<lambda>key.
      hmac_restore dl hc mech_type key signature state))"

definition hmac_mech_ops :: "'c digest_lib \<Rightarrow> hmac_codec \<Rightarrow> hmac_mechanism \<Rightarrow> mech_ops" where
  "hmac_mech_ops dl hc hmm =
    (let sign = (\<lambda>r. and_then r (\<lambda>hm. Ok (hmac_op dl hc (hmac_sign_call dl) hm)));
         verify = (\<lambda>r. and_then r (\<lambda>hm. Ok (hmac_op dl hc (hmac_verify_call dl) hm)));
         versig = (\<lambda>r. and_then r (\<lambda>hm. Ok (hmac_op dl hc (hmac_versig_call dl) hm))) in
     default_mech_ops
       \<lparr>mo_mac_new := (\<lambda>m key op_type. sign (hmac_new_op dl hmm m key op_type None)),
        mo_sign_new := (\<lambda>m key. sign (hmac_new_op dl hmm m key CKF_SIGN None)),
        mo_sign_restore := (\<lambda>t key st. sign (hmac_restore_op dl hc hmm t key CKF_SIGN None st)),
        mo_verify_new := (\<lambda>m key. verify (hmac_new_op dl hmm m key CKF_VERIFY None)),
        mo_verify_restore := (\<lambda>t key st. verify (hmac_restore_op dl hc hmm t key CKF_VERIFY None st)),
        mo_verify_signature_new := (\<lambda>m key s. versig (hmac_new_op dl hmm m key CKF_VERIFY (Some s)))\<rparr>)"

end
