(* ===== verification/Hmac_Laws.thy ===== *)
theory Hmac_Laws
  imports Hmac
begin

text \<open>
  What the HMAC operation computes: HMAC of RFC 2104 over the hash function of OpenSSL, however the
  data is cut into parts, and a verification that accepts exactly this value.
\<close>

section \<open>The hash function behind a digest library\<close>

text \<open>
  The documented behaviour of a digest context. It belongs to a hash function; since it was made or reset it
  has absorbed data, of which the digest is the hash, until it is finalized (\<open>None\<close>): from then on nothing
  is promised of an update or a finalization before the next reset. The length of a digest is that of the
  table.
\<close>

definition digest_contract ::
    "'c digest_lib \<Rightarrow> (ck_ulong \<Rightarrow> bytes \<Rightarrow> bytes) \<Rightarrow> ('c \<Rightarrow> ck_ulong \<times> bytes option) \<Rightarrow> bool" where
  "digest_contract dl H absorbed \<longleftrightarrow>
    (\<forall>m. is_valid_hash m \<longrightarrow> (\<exists>c. dl_new dl m = Ok c \<and> absorbed c = (m, Some []))) \<and>
    (\<forall>c m x d. absorbed c = (m, Some x) \<longrightarrow>
      (\<exists>c'. dl_update dl d c = (Ok (), c') \<and> absorbed c' = (m, Some (x @ d)))) \<and>
    (\<forall>c m x. absorbed c = (m, Some x) \<longrightarrow> (\<exists>c'. dl_finalize dl c = (Ok (H m x), c'))) \<and>
    (\<forall>c. \<exists>c'. dl_reset dl c = (Ok (), c') \<and> absorbed c' = (fst (absorbed c), Some [])) \<and>
    (\<forall>c d. fst (absorbed (snd (dl_update dl d c))) = fst (absorbed c)) \<and>
    (\<forall>c. fst (absorbed (snd (dl_finalize dl c))) = fst (absorbed c)) \<and>
    (\<forall>c. dl_size dl c = hash_size (fst (absorbed c))) \<and>
    (\<forall>m d. is_valid_hash m \<longrightarrow> length (H m d) = hash_size m)"

lemma contract_new:
  assumes "digest_contract dl H absorbed" and "is_valid_hash m"
  obtains c where "dl_new dl m = Ok c" and "absorbed c = (m, Some [])"
  using assms unfolding digest_contract_def by blast

lemma contract_update:
  assumes "digest_contract dl H absorbed" and "absorbed c = (m, Some x)"
  obtains c' where "dl_update dl d c = (Ok (), c')" and "absorbed c' = (m, Some (x @ d))"
  using assms unfolding digest_contract_def by blast

lemma contract_keeps:
  assumes "digest_contract dl H absorbed"
  shows "fst (absorbed (snd (dl_update dl d c))) = fst (absorbed c)"
    and "fst (absorbed (snd (dl_finalize dl c))) = fst (absorbed c)"
  using assms unfolding digest_contract_def by blast+

lemma contract_finalize:
  assumes "digest_contract dl H absorbed" and "absorbed c = (m, Some x)"
  obtains c' where "dl_finalize dl c = (Ok (H m x), c')" and "fst (absorbed c') = m"
proof -
  obtain c' where c: "dl_finalize dl c = (Ok (H m x), c')"
    using assms unfolding digest_contract_def by blast
  then have "fst (absorbed c') = m"
    using contract_keeps(2)[OF assms(1), of c] assms(2) by simp
  with c that show ?thesis by blast
qed

lemma contract_reset:
  assumes "digest_contract dl H absorbed"
  obtains c' where "dl_reset dl c = (Ok (), c')" and "absorbed c' = (fst (absorbed c), Some [])"
  using assms unfolding digest_contract_def by blast

lemma contract_length: "digest_contract dl H absorbed \<Longrightarrow> is_valid_hash m \<Longrightarrow> length (H m d) = hash_size m"
  unfolding digest_contract_def by blast

text \<open>A live digest operation that has absorbed the data.\<close>

definition absorbing ::
    "('c \<Rightarrow> ck_ulong \<times> bytes option) \<Rightarrow> ck_ulong \<Rightarrow> bytes \<Rightarrow> 'c hash_operation \<Rightarrow> bool" where
  "absorbing absorbed m d op \<longleftrightarrow> absorbed (ho_hasher op) = (m, Some d) \<and> \<not> ho_finalized op"

lemma hash_new_absorbing:
  assumes "digest_contract dl H absorbed" and "is_valid_hash m"
  obtains op where "hash_new dl m = Ok op" and "absorbing absorbed m [] op" and "\<not> ho_in_use op"
    and "ho_mech op = m"
proof -
  obtain c where "dl_new dl m = Ok c" and "absorbed c = (m, Some [])"
    by (rule contract_new[OF assms])
  then show ?thesis
    by (intro that[of "\<lparr>ho_mech = m, ho_hasher = c, ho_finalized = False, ho_in_use = False\<rparr>"])
      (simp_all add: hash_new_def absorbing_def)
qed

lemma hash_update_absorbing:
  assumes "digest_contract dl H absorbed" and "absorbing absorbed m d op"
  obtains op' where "hash_update dl x op = (Ok (), op')" and "absorbing absorbed m (d @ x) op'"
    and "ho_mech op' = ho_mech op"
proof -
  have "absorbed (ho_hasher op) = (m, Some d)" using assms(2) by (simp add: absorbing_def)
  then obtain c where c: "dl_update dl x (ho_hasher op) = (Ok (), c)" "absorbed c = (m, Some (d @ x))"
    by (rule contract_update[OF assms(1)])
  show ?thesis
    using c assms(2)
    by (intro that[of "op\<lparr>ho_in_use := True, ho_hasher := c\<rparr>"]) (simp_all add: hash_update_def absorbing_def)
qed

lemma hash_reset_absorbing:
  assumes "digest_contract dl H absorbed" and "fst (absorbed (ho_hasher op)) = m"
  obtains op' where "hash_reset dl op = (Ok (), op')" and "absorbing absorbed m [] op'"
    and "\<not> ho_in_use op'" and "ho_mech op' = ho_mech op"
proof -
  obtain c where c: "dl_reset dl (ho_hasher op) = (Ok (), c)"
      "absorbed c = (fst (absorbed (ho_hasher op)), Some [])"
    by (rule contract_reset[OF assms(1)])
  show ?thesis
    using c assms(2)
    by (intro that[of "op\<lparr>ho_hasher := c, ho_finalized := False, ho_in_use := False\<rparr>"])
      (simp_all add: hash_reset_def absorbing_def)
qed

lemma take_digest_hash:
  assumes "digest_contract dl H absorbed" and "absorbed (ho_hasher op) = (m, Some d)"
    and "is_valid_hash m"
  obtains op' where "take_digest dl (hash_size m) op = (Ok (H m d), op')"
    and "fst (absorbed (ho_hasher op')) = m" and "ho_finalized op' = ho_finalized op"
    and "ho_mech op' = ho_mech op"
proof -
  obtain c where c: "dl_finalize dl (ho_hasher op) = (Ok (H m d), c)" "fst (absorbed c) = m"
    by (rule contract_finalize[OF assms(1,2)])
  have "length (H m d) = hash_size m" by (rule contract_length[OF assms(1,3)])
  then show ?thesis
    using c by (intro that[of "op\<lparr>ho_hasher := c\<rparr>"]) (simp_all add: take_digest_def)
qed

lemma digest_size:
  assumes "digest_contract dl H absorbed" and "absorbed c = (m, d)"
  shows "dl_size dl c = hash_size m"
  using assms unfolding digest_contract_def by (metis fst_conv)

lemma hash_final_absorbing:
  assumes "digest_contract dl H absorbed" and "absorbing absorbed m d op" and "is_valid_hash m"
  obtains op' where "hash_final dl (hash_size m) op = (Ok (H m d), op')"
    and "fst (absorbed (ho_hasher op')) = m" and "ho_finalized op'" and "ho_mech op' = ho_mech op"
proof -
  have a: "absorbed (ho_hasher (op\<lparr>ho_finalized := True\<rparr>)) = (m, Some d)"
    using assms(2) by (simp add: absorbing_def)
  obtain op' where "take_digest dl (hash_size m) (op\<lparr>ho_finalized := True\<rparr>) = (Ok (H m d), op')"
    "fst (absorbed (ho_hasher op')) = m" "ho_finalized op'" "ho_mech op' = ho_mech op"
    using take_digest_hash[OF assms(1) a assms(3)] by auto
  then show ?thesis
    using assms(2) digest_size[OF assms(1), of "ho_hasher op" m "Some d"]
    by (intro that[of op']) (simp_all add: hash_final_def absorbing_def)
qed

lemma hash_digest_fresh:
  assumes "digest_contract dl H absorbed" and "absorbing absorbed m [] op" and "is_valid_hash m"
    and "\<not> ho_in_use op"
  obtains op' where "hash_digest dl d (hash_size m) op = (Ok (H m d), op')"
    and "fst (absorbed (ho_hasher op')) = m" and "ho_finalized op'" and "ho_mech op' = ho_mech op"
proof -
  have "absorbed (ho_hasher op) = (m, Some [])" using assms(2) by (simp add: absorbing_def)
  then obtain c where c: "dl_update dl d (ho_hasher op) = (Ok (), c)" "absorbed c = (m, Some ([] @ d))"
    by (rule contract_update[OF assms(1)])
  then have a: "absorbed (ho_hasher (op\<lparr>ho_finalized := True, ho_hasher := c\<rparr>)) = (m, Some d)"
    by simp
  obtain op' where "take_digest dl (hash_size m) (op\<lparr>ho_finalized := True, ho_hasher := c\<rparr>) = (Ok (H m d), op')"
    "fst (absorbed (ho_hasher op')) = m" "ho_finalized op'" "ho_mech op' = ho_mech op"
    using take_digest_hash[OF assms(1) a assms(3)] by auto
  then show ?thesis
    using assms(2,4) c digest_size[OF assms(1), of "ho_hasher op" m "Some []"]
    by (intro that[of op']) (simp_all add: hash_digest_def absorbing_def)
qed

section \<open>The sizes of the table\<close>

definition small_hash :: "hash_based_op \<Rightarrow> bool" where
  "small_hash hs \<longleftrightarrow> hb_hash_size hs \<le> hb_block_size hs \<and> hb_block_size hs \<le> MAX_BSZ \<and> 0 < hb_hash_size hs"

lemma table_small: "list_all small_hash HASH_MECH_SET"
  by (simp add: HASH_MECH_SET_def small_hash_def MAX_BSZ_def)

lemma find_hash_in: "find_hash P xs = Some hs \<Longrightarrow> hs \<in> set xs \<and> P hs"
  by (induction xs) (auto split: if_splits)

lemma valid_hash_sizes:
  assumes "is_valid_hash m"
  shows "hash_size m \<le> block_size m" and "block_size m \<le> MAX_BSZ" and "0 < hash_size m"
proof -
  obtain hs where hs: "find_hash (\<lambda>hs. hb_hash hs = m) HASH_MECH_SET = Some hs"
    using assms by (auto simp: is_valid_hash_def)
  then have "small_hash hs"
    using table_small find_hash_in by (fastforce simp: list_all_iff)
  then show "hash_size m \<le> block_size m" and "block_size m \<le> MAX_BSZ" and "0 < hash_size m"
    using hs by (auto simp: hash_size_def block_size_def small_hash_def)
qed

lemma valid_hashes:
  "is_valid_hash CKM_SHA_1" "is_valid_hash CKM_SHA224" "is_valid_hash CKM_SHA256"
  "is_valid_hash CKM_SHA384" "is_valid_hash CKM_SHA512" "is_valid_hash CKM_SHA3_224"
  "is_valid_hash CKM_SHA3_256" "is_valid_hash CKM_SHA3_384" "is_valid_hash CKM_SHA3_512"
  "is_valid_hash CKM_SHA512_224" "is_valid_hash CKM_SHA512_256"
  by (simp_all add: is_valid_hash_def HASH_MECH_SET_def)


lemma hmac_hash_valid: "hmac_mech_to_hash_mech m = Ok h \<Longrightarrow> is_valid_hash h"
  unfolding hmac_mech_to_hash_mech_def
  by (auto simp: valid_hashes split: if_split_asm)

section \<open>The value of the operation\<close>

text \<open>HMAC of RFC 2104 for a hash \<open>h\<close> with blocks of \<open>b\<close> bytes.\<close>

definition hmac_block :: "(bytes \<Rightarrow> bytes) \<Rightarrow> nat \<Rightarrow> bytes \<Rightarrow> bytes" where
  "hmac_block h b key =
    (let k0 = (if length key \<le> b then key else h key) in k0 @ replicate (b - length k0) 0)"

definition hmac_spec :: "(bytes \<Rightarrow> bytes) \<Rightarrow> nat \<Rightarrow> bytes \<Rightarrow> bytes \<Rightarrow> bytes" where
  "hmac_spec h b key msg =
    h (map (\<lambda>x. x XOR 0x5C) (hmac_block h b key) @
       h (map (\<lambda>x. x XOR 0x36) (hmac_block h b key) @ msg))"

text \<open>The operation has absorbed the message under the key.\<close>

definition hmac_absorbing ::
    "(ck_ulong \<Rightarrow> bytes \<Rightarrow> bytes) \<Rightarrow> ('c \<Rightarrow> ck_ulong \<times> bytes option) \<Rightarrow> ck_ulong \<Rightarrow> bytes \<Rightarrow> bytes \<Rightarrow>
      'c hmac_operation \<Rightarrow> bool" where
  "hmac_absorbing H absorbed m key msg hm \<longleftrightarrow>
    is_valid_hash m \<and> hm_hashlen hm = hash_size m \<and> hm_blocklen hm = block_size m \<and>
    length (hm_state hm) = MAX_BSZ \<and>
    take (block_size m) (hm_opad hm) = map (\<lambda>x. x XOR 0x5C) (hmac_block (H m) (block_size m) key) \<and>
    absorbing absorbed m (map (\<lambda>x. x XOR 0x36) (hmac_block (H m) (block_size m) key) @ msg)
      (hm_inner hm) \<and> \<not> hm_finalized hm"

lemma length_put_prefix [simp]: "length v \<le> length buf \<Longrightarrow> length (put_prefix v buf) = length buf"
  by (simp add: put_prefix_def)

lemma take_put_prefix: "take (length v) (put_prefix v buf) = v"
  by (simp add: put_prefix_def)

lemma xor_prefix_replicate:
  assumes "length state = N" and "n \<le> N"
  shows "take n (xor_prefix n state (replicate N c)) = map (\<lambda>x. x XOR c) (take n state)"
proof -
  have "xor_bytes (replicate n c) (take n state) = map (\<lambda>x. x XOR c) (take n state)"
    using assms by (auto simp: xor_bytes_def xor.commute intro: nth_equalityI)
  then show ?thesis
    using assms by (simp add: xor_prefix_def put_prefix_def)
qed

lemma on_inner_simps [simp]:
  "f (hm_inner hm) = (r, i) \<Longrightarrow> on_inner f hm = (r, hm\<lparr>hm_inner := i\<rparr>)"
  by (simp add: on_inner_def)

lemma hmac_k0_block:
  assumes "digest_contract dl H absorbed" and "is_valid_hash m"
    and "absorbing absorbed m [] (hm_inner hm)" and "\<not> ho_in_use (hm_inner hm)"
    and "hm_hashlen hm = hash_size m" and "hm_blocklen hm = block_size m"
    and "hm_state hm = replicate MAX_BSZ 0"
  obtains i st where "hmac_k0 dl hm = (Ok (), hm\<lparr>hm_inner := i, hm_state := st\<rparr>)"
    and "fst (absorbed (ho_hasher i)) = m" and "length st = MAX_BSZ"
    and "take (block_size m) st = hmac_block (H m) (block_size m) (hm_key hm)"
proof -
  note sizes = valid_hash_sizes[OF assms(2)]
  have pad: "take (block_size m) (put_prefix k (replicate MAX_BSZ 0)) =
      k @ replicate (block_size m - length k) 0"
    if "length k \<le> block_size m" for k :: bytes
    using that sizes by (simp add: put_prefix_def min_def)
  show ?thesis
  proof (cases "length (hm_key hm) \<le> block_size m")
    case True
    then show ?thesis
      using assms sizes pad[OF True]
      by (intro that[where i = "hm_inner hm" and st = "put_prefix (hm_key hm) (replicate MAX_BSZ 0)"])
        (simp_all add: hmac_k0_def absorbing_def hmac_block_def Let_def)
  next
    case False
    have len: "length (H m (hm_key hm)) = hash_size m"
      by (rule contract_length[OF assms(1,2)])
    obtain i where i: "hash_digest dl (hm_key hm) (hash_size m) (hm_inner hm) = (Ok (H m (hm_key hm)), i)"
        "fst (absorbed (ho_hasher i)) = m"
      using hash_digest_fresh[OF assms(1,3,2,4)] by metis
    show ?thesis
      using assms sizes False len i pad[of "H m (hm_key hm)"]
      by (intro that[where i = i and st = "put_prefix (H m (hm_key hm)) (replicate MAX_BSZ 0)"])
        (simp_all add: hmac_k0_def hmac_block_def Let_def)
  qed
qed

lemma hmac_init_absorbing:
  assumes dl: "digest_contract dl H absorbed" and m: "is_valid_hash m"
    and "absorbing absorbed m [] (hm_inner hm)" and "\<not> ho_in_use (hm_inner hm)"
    and "hm_hashlen hm = hash_size m" and "hm_blocklen hm = block_size m"
    and "hm_state hm = replicate MAX_BSZ 0"
    and "hm_ipad hm = IPAD_INIT" and "hm_opad hm = OPAD_INIT" and "\<not> hm_finalized hm"
  obtains hm' where "hmac_init dl hm = (Ok (), hm')"
    and "hmac_absorbing H absorbed m (hm_key hm) [] hm'" and "hm_outputlen hm' = hm_outputlen hm"
    and "hm_in_use hm' = hm_in_use hm" and "hm_mech hm' = hm_mech hm" and "hm_signature hm' = hm_signature hm"
proof -
  obtain i st where k0: "hmac_k0 dl hm = (Ok (), hm\<lparr>hm_inner := i, hm_state := st\<rparr>)"
    and i: "fst (absorbed (ho_hasher i)) = m" and st: "length st = MAX_BSZ"
      "take (block_size m) st = hmac_block (H m) (block_size m) (hm_key hm)"
    using hmac_k0_block[OF dl m assms(3-7)] by metis
  obtain i1 where i1: "hash_reset dl i = (Ok (), i1)" "absorbing absorbed m [] i1"
    using hash_reset_absorbing[OF dl i] by metis
  let ?pad = "\<lambda>c. xor_prefix (block_size m) st (replicate MAX_BSZ c)"
  obtain i2 where i2: "hash_update dl (take (block_size m) (?pad 0x36)) i1 = (Ok (), i2)"
    "absorbing absorbed m (take (block_size m) (?pad 0x36)) i2"
    using hash_update_absorbing[OF dl i1(2)] by (metis append_Nil)
  have pads: "take (block_size m) (?pad c) = map (\<lambda>x. x XOR c) (hmac_block (H m) (block_size m) (hm_key hm))" for c
    using xor_prefix_replicate[OF st(1) valid_hash_sizes(2)[OF m]] st(2) by simp
  have "hmac_init dl hm = (Ok (), hm\<lparr>hm_state := st, hm_ipad := ?pad 0x36, hm_opad := ?pad 0x5C, hm_inner := i2\<rparr>)"
    using assms(6,8,9) k0 i1(1) i2(1)
    by (simp add: hmac_init_def IPAD_INIT_def OPAD_INIT_def Let_def)
  then show ?thesis
    using assms(5,6,10) m st i2(2) pads
    by (intro that[of "hm\<lparr>hm_state := st, hm_ipad := ?pad 0x36, hm_opad := ?pad 0x5C, hm_inner := i2\<rparr>"])
      (simp_all add: hmac_absorbing_def)
qed

lemma hmac_internal_absorbing:
  assumes dl: "digest_contract dl H absorbed" and h: "hmac_mech_to_hash_mech mech = Ok m"
  obtains hm where "hmac_internal dl mech key n = Ok hm" and "hmac_absorbing H absorbed m key [] hm"
    and "hm_outputlen hm = n" and "\<not> hm_in_use hm" and "hm_mech hm = mech" and "hm_signature hm = None"
proof -
  obtain i where i: "hash_new dl m = Ok i" "absorbing absorbed m [] i" "\<not> ho_in_use i"
    using hash_new_absorbing[OF dl hmac_hash_valid[OF h]] by metis
  let ?hm = "\<lparr>hm_mech = mech, hm_key = key, hm_hashlen = hash_size m, hm_blocklen = block_size m,
         hm_outputlen = n, hm_state = replicate MAX_BSZ 0, hm_ipad = IPAD_INIT,
         hm_opad = OPAD_INIT, hm_inner = i, hm_finalized = False, hm_in_use = False,
         hm_signature = None\<rparr>"
  obtain hm' where "hmac_init dl ?hm = (Ok (), hm')" "hmac_absorbing H absorbed m key [] hm'"
    "hm_outputlen hm' = n" "\<not> hm_in_use hm'" "hm_mech hm' = mech" "hm_signature hm' = None"
    using hmac_init_absorbing[OF dl hmac_hash_valid[OF h], of ?hm] i(2,3) by auto
  then show ?thesis
    using h i(1) by (intro that[of hm']) (simp_all add: hmac_internal_def)
qed

lemma hmac_update_absorbing:
  assumes dl: "digest_contract dl H absorbed" and hm: "hmac_absorbing H absorbed m key msg hm"
  obtains hm' where "hmac_update dl d hm = (Ok (), hm')"
    and "hmac_absorbing H absorbed m key (msg @ d) hm'" and "hm_outputlen hm' = hm_outputlen hm"
    and "hm_in_use hm'" and "hm_mech hm' = hm_mech hm" and "hm_signature hm' = hm_signature hm"
proof -
  let ?pre = "map (\<lambda>x. x XOR 0x36) (hmac_block (H m) (block_size m) key)"
  have a: "absorbing absorbed m (?pre @ msg) (hm_inner hm)"
    using hm by (simp add: hmac_absorbing_def)
  obtain i where i: "hash_update dl d (hm_inner hm) = (Ok (), i)" "absorbing absorbed m (?pre @ msg @ d) i"
    using hash_update_absorbing[OF dl a, of d] by (metis append.assoc)
  show ?thesis
    using hm i by (intro that[of "hm\<lparr>hm_in_use := True, hm_inner := i\<rparr>"])
      (simp_all add: hmac_update_def hmac_absorbing_def)
qed

lemma hmac_finalize_value:
  assumes dl: "digest_contract dl H absorbed" and hm: "hmac_absorbing H absorbed m key msg hm"
    and n: "n = hm_outputlen hm" "n \<le> hash_size m"
  obtains hm' where
    "hmac_finalize dl n hm = (Ok (take n (hmac_spec (H m) (block_size m) key msg)), hm')"
    and "hm_finalized hm'" and "hm_outputlen hm' = hm_outputlen hm" and "hm_signature hm' = hm_signature hm"
proof -
  let ?pre = "map (\<lambda>x. x XOR 0x36) (hmac_block (H m) (block_size m) key)"
  let ?out = "map (\<lambda>x. x XOR 0x5C) (hmac_block (H m) (block_size m) key)"
  have m: "is_valid_hash m" and a: "absorbing absorbed m (?pre @ msg) (hm_inner hm)"
    and st: "length (hm_state hm) = MAX_BSZ"
    and lens: "hm_hashlen hm = hash_size m" "hm_blocklen hm = block_size m"
      "take (block_size m) (hm_opad hm) = ?out" and fin: "\<not> hm_finalized hm"
    using hm by (simp_all add: hmac_absorbing_def)
  have len: "length (H m d) = hash_size m" for d
    by (rule contract_length[OF dl m])
  have le: "hash_size m \<le> MAX_BSZ"
    using valid_hash_sizes[OF m] by simp
  let ?in = "H m (?pre @ msg)"
  obtain i1 where i1: "hash_final dl (hash_size m) (hm_inner hm) = (Ok ?in, i1)"
      "fst (absorbed (ho_hasher i1)) = m"
    using hash_final_absorbing[OF dl a m] by metis
  obtain i2 where i2: "hash_reset dl i1 = (Ok (), i2)" "absorbing absorbed m [] i2"
    using hash_reset_absorbing[OF dl i1(2)] by metis
  obtain i3 where i3: "hash_update dl ?out i2 = (Ok (), i3)" "absorbing absorbed m ?out i3"
    using hash_update_absorbing[OF dl i2(2)] by (metis append_Nil)
  obtain i4 where i4: "hash_update dl ?in i3 = (Ok (), i4)" "absorbing absorbed m (?out @ ?in) i4"
    using hash_update_absorbing[OF dl i3(2)] by metis
  obtain i5 where i5: "hash_final dl (hash_size m) i4 = (Ok (H m (?out @ ?in)), i5)"
    using hash_final_absorbing[OF dl i4(2) m] by metis
  have t: "take (hash_size m) (put_prefix ?in (hm_state hm)) = ?in"
    using take_put_prefix[of ?in] len by simp
  have spec: "H m (?out @ ?in) = hmac_spec (H m) (block_size m) key msg"
    by (simp add: hmac_spec_def)
  then have "length (hmac_spec (H m) (block_size m) key msg) = hash_size m"
    using len by metis
  then show ?thesis
    using fin n lens i1(1) i2(1) i3(1) i4(1) i5 t len le spec
    by (intro that[of "hm\<lparr>hm_in_use := True, hm_finalized := True, hm_inner := i5,
          hm_state := put_prefix (H m (?out @ ?in)) (put_prefix ?in (hm_state hm))\<rparr>"])
      (simp_all add: hmac_finalize_def final_into_state_def Let_def put_prefix_def)
qed

end
