(* ===== verification/Operation_Laws.thy ===== *)
theory Operation_Laws
  imports Library_Laws Hmac_Laws
begin

text \<open>
  What the cryptographic functions of \<^verbatim>\<open>src/src/fns\<close> guarantee whatever the algorithm: the length of
  a result can be asked without using up the operation, operations of different kinds and sessions
  do not interfere, a key that is always authenticated cannot be used before the login, and with HMAC
  as the algorithm a signature is checked to be the HMAC of the data.
\<close>

declare map_of_eq_Some_iff [simp del]

section \<open>The operation a function uses\<close>

definition active :: "(session_operations \<Rightarrow> crypto_op option) \<Rightarrow> ck_ulong \<Rightarrow> 's lib_state \<Rightarrow> crypto_op result" where
  "active get h st =
    and_then (lock st) (\<lambda>_. and_then (get_session st h) (get_operation get co_finalized))"

text \<open>What a call on one operation leaves alone: other kinds of operations, other sessions, tokens.\<close>

definition op_frame ::
    "(crypto_op option \<Rightarrow> session_operations \<Rightarrow> session_operations) \<Rightarrow> ck_ulong \<Rightarrow> 's lib_state \<Rightarrow>
      's lib_state \<Rightarrow> bool" where
  "op_frame put h st st1 \<longleftrightarrow>
    (\<forall>get2. (\<forall>x so. get2 (put x so) = get2 so) \<longrightarrow> active get2 h st1 = active get2 h st) \<and>
    (\<forall>get2 k. k \<noteq> h \<longrightarrow> active get2 k st1 = active get2 k st) \<and>
    (\<forall>sid. get_token_from_slot_mut st1 sid = get_token_from_slot_mut st sid)"

lemma put_session_slot:
  assumes "session_slot st h = Ok sid" and "get_session st h = Ok s"
  obtains sl where "map_of (gs_slots st) sid = Some sl" and "map_of (sl_sessions sl) h = Some s"
    and "put_session sid h s' st = put_slot sid (slot_add_session h s' sl) st"
  using assms by (auto simp: get_session_Ok get_slot_Ok put_session_def split: option.splits)

lemma put_session_frame:
  assumes "session_slot st h = Ok sid" and "get_session st h = Ok s"
  shows "get_session (put_session sid h s' st) h = Ok s'"
    and "k \<noteq> h \<Longrightarrow> get_session (put_session sid h s' st) k = get_session st k"
    and "lock (put_session sid h s' st) = lock st"
    and "session_slot (put_session sid h s' st) k = session_slot st k"
    and "get_token_from_slot_mut (put_session sid h s' st) sid' = get_token_from_slot_mut st sid'"
proof -
  obtain sl where sl: "map_of (gs_slots st) sid = Some sl"
      "put_session sid h s' st = put_slot sid (slot_add_session h s' sl) st"
    using put_session_slot[OF assms] by metis
  have i: "state_is_initialized st"
    using assms(2) by (auto simp: get_session_Ok get_slot_Ok)
  show "get_session (put_session sid h s' st) h = Ok s'"
    using sl i assms(1)
    by (simp add: get_session_Ok session_slot_def get_slot_Ok update_conv' slot_add_session_def)
  show "k \<noteq> h \<Longrightarrow> get_session (put_session sid h s' st) k = get_session st k"
    using sl i
    by (simp add: get_session_def session_slot_def get_slot_def slot_get_session_def update_conv'
        slot_add_session_def and_then_def split: option.split)
  show "lock (put_session sid h s' st) = lock st"
    using sl by (simp add: lock_def)
  show "session_slot (put_session sid h s' st) k = session_slot st k"
    using sl by (simp add: session_slot_def)
  show "get_token_from_slot_mut (put_session sid h s' st) sid' = get_token_from_slot_mut st sid'"
    using sl i
    by (simp add: get_token_from_slot_mut_def get_slot_def slot_get_token_mut_def update_conv'
        slot_add_session_def and_then_def split: option.split)
qed

lemma active_Ok:
  "active get h st = Ok op \<longleftrightarrow>
    (\<exists>sid s. is_ok (lock st) \<and> session_slot st h = Ok sid \<and> get_session st h = Ok s \<and>
      get_operation get co_finalized s = Ok op)"
  by (auto simp: active_def and_then_eq_Ok is_ok_iff get_session_Ok)

definition after_call :: "crypto_op \<Rightarrow> crypto_op result" where
  "after_call op = (if co_finalized op then Err CKR_OPERATION_NOT_INITIALIZED else Ok op)"

lemma active_put_session:
  assumes "is_ok (lock st)" and "session_slot st h = Ok sid" and "get_session st h = Ok s"
  shows "active get2 h (put_session sid h s' st) = get_operation get2 co_finalized s'"
    and "k \<noteq> h \<Longrightarrow> active get2 k (put_session sid h s' st) = active get2 k st"
  using put_session_frame[OF assms(2,3), where s' = s'] assms(1)
  by (auto simp: active_def is_ok_iff)

lemma update_same: "map_of xs k = Some v \<Longrightarrow> AList.update k v xs = xs"
  by (induction xs) (auto split: if_splits)

lemma put_same_session:
  assumes "session_slot st h = Ok sid" and "get_session st h = Ok s"
  shows "put_session sid h s st = st"
proof -
  obtain sl where "map_of (gs_slots st) sid = Some sl" "map_of (sl_sessions sl) h = Some s"
      "put_session sid h s st = put_slot sid (slot_add_session h s sl) st"
    using put_session_slot[OF assms] by metis
  then show ?thesis by (simp add: slot_add_session_def put_slot_def update_same)
qed

text \<open>The functions as clients of one slot for operations of a session.\<close>

locale session_operation = operation_slot get put co_finalized
  for get :: "session_operations \<Rightarrow> crypto_op option"
    and put :: "crypto_op option \<Rightarrow> session_operations \<Rightarrow> session_operations"
begin

lemma put_operation:
  assumes "active get h st = Ok op" and "session_slot st h = Ok sid" and "get_session st h = Ok s"
  shows "active get h (put_session sid h (s\<lparr>s_operations := put (Some op1) (s_operations s)\<rparr>) st) = after_call op1"
    and "op_frame put h st (put_session sid h (s\<lparr>s_operations := put (Some op1) (s_operations s)\<rparr>) st)"
proof -
  let ?s = "s\<lparr>s_operations := put (Some op1) (s_operations s)\<rparr>"
  have l: "is_ok (lock st)" and o: "get_operation get co_finalized s = Ok op"
    using assms by (auto simp: active_Ok)
  have c: "check_login_status s = Ok ()"
    using o by (auto simp: get_operation_def and_then_eq_Ok)
  have "check_login_status ?s = Ok ()"
    using c by (simp add: check_login_status_def split: op_login_status.splits)
  then show "active get h (put_session sid h ?s st) = after_call op1"
    unfolding active_put_session(1)[OF l assms(2,3)]
    by (simp add: get_operation_def op_get_def get_put after_call_def)
  have "get_operation get2 co_finalized ?s = active get2 h st"
    if "\<And>x so. get2 (put x so) = get2 so" for get2
    using l assms(3) that
    by (auto simp: active_def is_ok_iff get_operation_def op_get_def check_login_status_def)
  then show "op_frame put h st (put_session sid h ?s st)"
    using active_put_session[OF l assms(2,3), where s' = ?s] put_session_frame(5)[OF assms(2,3), where s' = ?s]
    unfolding op_frame_def by metis
qed

lemma call_active:
  assumes "active get h st = Ok op" and "f op = (r, op1)"
  obtains st1 where "session_call h (on_op get put f) st = (r, st1)"
    and "active get h st1 = after_call op1" and "op_frame put h st st1"
proof -
  obtain sid s where a: "is_ok (lock st)" "session_slot st h = Ok sid" "get_session st h = Ok s"
      "get_operation get co_finalized s = Ok op"
    using assms(1) by (auto simp: active_Ok)
  have "session_call h (on_op get put f) st =
      (r, put_session sid h (s\<lparr>s_operations := put (Some op1) (s_operations s)\<rparr>) st)"
    using a assms(2) by (auto simp: session_call_def on_op_def is_ok_iff)
  then show ?thesis using put_operation[OF assms(1) a(2,3)] that by blast
qed

lemma updating_active:
  assumes "active get h st = Ok op" and "f op = (r, op1)" and "co_updates op1 = None"
  obtains st1 where "updating_call sg get put h b f st = (r, st1)"
    and "active get h st1 = after_call op1" and "op_frame put h st st1"
proof -
  obtain sid s where a: "is_ok (lock st)" "session_slot st h = Ok sid" "get_session st h = Ok s"
      "get_operation get co_finalized s = Ok op"
    using assms(1) by (auto simp: active_Ok)
  have "updating_call sg get put h b f st =
      (r, put_session sid h (s\<lparr>s_operations := put (Some op1) (s_operations s)\<rparr>) st)"
    using a assms(2,3) by (auto simp: updating_call_def is_ok_iff update_object_def Let_def)
  then show ?thesis using put_operation[OF assms(1) a(2,3)] that by blast
qed

lemma updating_only_length:
  assumes "active get h st = Ok op" and "f op = (r, op1)" and "b \<or> \<not> is_ok (fst r)"
  obtains st1 where "updating_call sg get put h b f st = (r, st1)"
    and "active get h st1 = after_call op1" and "op_frame put h st st1"
proof -
  obtain sid s where a: "is_ok (lock st)" "session_slot st h = Ok sid" "get_session st h = Ok s"
      "get_operation get co_finalized s = Ok op"
    using assms(1) by (auto simp: active_Ok)
  have "updating_call sg get put h b f st =
      (r, put_session sid h (s\<lparr>s_operations := put (Some op1) (s_operations s)\<rparr>) st)"
    using a assms(2,3) by (auto simp: updating_call_def is_ok_iff Let_def)
  then show ?thesis using put_operation[OF assms(1) a(2,3)] that by blast
qed

lemma call_inactive:
  assumes "active get h st = Inl e"
  shows "session_call h (on_op get put f) st = (fail_reply e, st)"
    and "updating_call sg get put h b f st = (fail_reply e, st)"
  using assms put_same_session[of st h]
  by (auto simp: session_call_def updating_call_def on_op_def active_def and_then_def get_session_def
      split: sum.splits)

lemma active_live: "active get h st = Ok op \<Longrightarrow> after_call op = Ok op"
  by (auto simp: active_Ok get_operation_def op_get_def and_then_eq_Ok after_call_def split: option.splits if_splits)

end

interpretation sign_op: session_operation so_sign put_sign by unfold_locales
interpretation verify_op: session_operation so_verify put_verify by unfold_locales
interpretation versig_op: session_operation so_verifysig put_verifysig by unfold_locales
interpretation digest_op: session_operation so_digest put_digest by unfold_locales
interpretation encrypt_op: session_operation so_encryption put_encryption by unfold_locales
interpretation decrypt_op: session_operation so_decryption put_decryption by unfold_locales
interpretation msg_encrypt_op: session_operation so_msg_encryption put_msg_encryption by unfold_locales
interpretation msg_decrypt_op: session_operation so_msg_decryption put_msg_decryption by unfold_locales

section \<open>Asking for the length\<close>

lemma fixed_output_short:
  assumes "co_fixed_len op = Ok n" and "n < 2 ^ 64" and "null \<or> unat len < n"
  shows "fixed_output null len call op =
    ((if null then Ok () else Err CKR_BUFFER_TOO_SMALL, [], Some (of_nat n)), op)"
  using assms by (auto simp: fixed_output_def ulong_try_from_def word_less_nat_alt unat_of_nat)

lemma fixed_output_long:
  assumes "co_fixed_len op = Ok n" and "n < 2 ^ 64" and "n \<le> unat len"
  shows "fixed_output False len call op =
    (case co_call op (call n) of
       (Inl e, op1) \<Rightarrow> (fail_reply e, op1)
     | (Inr out, op1) \<Rightarrow> ((Ok (), out, Some (of_nat n)), op1))"
  using assms by (auto simp: fixed_output_def ulong_try_from_def word_less_nat_alt unat_of_nat)

context session_operation begin

lemma short_call:
  assumes "active get h st = Ok op" and "co_fixed_len op = Ok n" and "n < 2 ^ 64"
    and "null \<or> unat len < n"
  defines "short \<equiv> (if null then Ok () else Err CKR_BUFFER_TOO_SMALL, [], Some (of_nat n))"
  shows "fst (updating_call sg get put h null (fixed_output null len f) st) = short"
    and "active get h (snd (updating_call sg get put h null (fixed_output null len f) st)) = Ok op"
    and "op_frame put h st (snd (updating_call sg get put h null (fixed_output null len f) st))"
    and "fst (session_call h (on_op get put (fixed_output null len f)) st) = short"
    and "active get h (snd (session_call h (on_op get put (fixed_output null len f)) st)) = Ok op"
    and "op_frame put h st (snd (session_call h (on_op get put (fixed_output null len f)) st))"
proof -
  have o: "fixed_output null len f op = (short, op)"
    unfolding short_def by (rule fixed_output_short[OF assms(2-4)])
  have s: "null \<or> \<not> is_ok (fst short)" by (simp add: short_def)
  obtain st1 where "updating_call sg get put h null (fixed_output null len f) st = (short, st1)"
      "active get h st1 = after_call op" "op_frame put h st st1"
    using updating_only_length[where f = "fixed_output null len f" and b = null, OF assms(1) o s] by metis
  then show "fst (updating_call sg get put h null (fixed_output null len f) st) = short"
    "active get h (snd (updating_call sg get put h null (fixed_output null len f) st)) = Ok op"
    "op_frame put h st (snd (updating_call sg get put h null (fixed_output null len f) st))"
    using active_live[OF assms(1)] by simp_all
  obtain st1 where "session_call h (on_op get put (fixed_output null len f)) st = (short, st1)"
      "active get h st1 = after_call op" "op_frame put h st st1"
    using call_active[where f = "fixed_output null len f", OF assms(1) o] by metis
  then show "fst (session_call h (on_op get put (fixed_output null len f)) st) = short"
    "active get h (snd (session_call h (on_op get put (fixed_output null len f)) st)) = Ok op"
    "op_frame put h st (snd (session_call h (on_op get put (fixed_output null len f)) st))"
    using active_live[OF assms(1)] by simp_all
qed

end

text \<open>
  C9. The length of a signature or of a digest can be asked for, and a buffer that is too short loses
  nothing (\<^verbatim>\<open>sign\<close>, \<^verbatim>\<open>sign_final\<close>, \<^verbatim>\<open>digest\<close>, \<^verbatim>\<open>digest_final\<close>): with no buffer the answer is \<^verbatim>\<open>CKR_OK\<close>,
  with a short one \<^verbatim>\<open>CKR_BUFFER_TOO_SMALL\<close>; both times the length that is needed is written, no data
  is, and the operation goes on exactly as it was, together with every other operation, session and
  token. Each of the two operations may be there without the other.
\<close>

theorem length_query_keeps_operation:
  assumes "n < 2 ^ 64" and "null \<or> unat len < n"
  defines "short \<equiv> (if null then Ok () else Err CKR_BUFFER_TOO_SMALL, [], Some (of_nat n))"
  shows "(\<forall>op. active so_sign h st = Ok op \<and> co_fixed_len op = Ok n \<longrightarrow>
      (\<forall>call \<in> {sign sg h (Some d) null (Some len) st, sign_final sg h null (Some len) st}.
        fst call = short \<and> active so_sign h (snd call) = Ok op \<and> op_frame put_sign h st (snd call))) \<and>
    (\<forall>op. active so_digest h st = Ok op \<and> co_fixed_len op = Ok n \<longrightarrow>
      (\<forall>call \<in> {digest h (Some d) null (Some len) st, digest_final h null (Some len) st}.
        fst call = short \<and> active so_digest h (snd call) = Ok op \<and> op_frame put_digest h st (snd call)))"
  unfolding short_def
  by (simp add: sign_def sign_final_def digest_def digest_final_def
      sign_op.short_call[OF _ _ assms(1,2)] digest_op.short_call[OF _ _ assms(1,2)])

section \<open>Operations side by side\<close>

lemma op_frame_refl [simp]: "op_frame put h st st"
  by (simp add: op_frame_def)

context session_operation begin

lemma call_frame: "op_frame put h st (snd (session_call h (on_op get put f) st))"
proof (cases "active get h st")
  case (Inl e)
  then show ?thesis by (simp add: call_inactive(1)[OF Inl])
next
  case (Inr op)
  obtain r op1 where "f op = (r, op1)" by (cases "f op")
  then show ?thesis using call_active[OF Inr] by (metis snd_conv)
qed

end

text \<open>
  C11. Operations do not interfere (\<^verbatim>\<open>SessionOperations\<close>): a part given to the digest, the signature, the
  verification, the encryption or the decryption of a session, whatever comes of it, leaves every
  other kind of operation of that session, every operation of every other session and every token as
  they were.
\<close>

theorem operations_do_not_interfere:
  "op_frame put_digest h st (snd (digest_update h part st)) \<and>
   op_frame put_sign h st (snd (sign_update h part st)) \<and>
   op_frame put_verify h st (snd (verify_update h part st)) \<and>
   op_frame put_encryption h st (snd (encrypt_update h part null len st)) \<and>
   op_frame put_decryption h st (snd (decrypt_update h part null len st))"
  by (simp add: digest_update_def sign_update_def verify_update_def encrypt_update_def
      decrypt_update_def internal_digest_update_def internal_sign_update_def
      internal_verify_update_def internal_encrypt_update_def internal_decrypt_update_def
      digest_op.call_frame sign_op.call_frame verify_op.call_frame encrypt_op.call_frame
      decrypt_op.call_frame bad_arguments_def split: option.split)

section \<open>Starting an operation\<close>

text \<open>What a successful initialization has checked, for the key it was given.\<close>

definition init_key :: "'s storage \<Rightarrow> ck_ulong \<Rightarrow> ck_ulong \<Rightarrow> 's lib_state \<Rightarrow> object result" where
  "init_key sg h k st =
    and_then (get_session st h) (\<lambda>s.
    and_then (get_token_from_slot_mut st (get_slot_id s)) (get_object_by_handle sg k))"

lemma with_session_mut_eq:
  "session_slot st h = Ok sid \<Longrightarrow> get_session st h = Ok s \<Longrightarrow>
    with_session_mut h f st = (fst (f s), put_session sid h (snd (f s)) st)"
  by (simp add: with_session_mut_def case_prod_beta)

context session_operation begin

lemma init_success:
  assumes "op_init sg get put permits new nl h (Some m) k st = (Ok (), st1)"
  obtains key op s1 where "init_key sg h k st = Ok key" and "check_allowed_mechs m key = CKR_OK"
    and "new m key = Ok op" and "get_session st1 h = Ok s1"
    and "op_get get co_finalized (s_operations s1) = after_call op"
    and "active get h st1 = (if nl key then Err CKR_USER_NOT_LOGGED_IN else after_call op)"
    and "\<not> is_ok (active get h st)"
proof -
  obtain s where s: "is_ok (lock st)" "get_session st h = Ok s"
    using assms by (auto simp: op_init_def and_then_def is_ok_def split: sum.splits)
  obtain sid where sid: "session_slot st h = Ok sid" using s(2) by (auto simp: get_session_Ok)
  have init: "op_init sg get put permits new nl h (Some m) k st =
      (case and_then (op_check_no get co_finalized (s_operations s)) (\<lambda>_.
            and_then (get_token_from_slot_mut st (get_slot_id s)) (\<lambda>t.
            and_then (get_object_by_handle sg k t) (\<lambda>key.
            let allowed = check_allowed_mechs m key in
            if allowed \<noteq> CKR_OK then Err allowed
            else and_then (mechs_find (cm_mechanism m) (get_mechanisms t)) (\<lambda>info.
              if permits (mi_flags info)
              then and_then (new m key) (\<lambda>op. Ok (op, nl key))
              else Err CKR_MECHANISM_INVALID)))) of
         Inl e \<Rightarrow> (Inl e, st)
       | Inr (op, login_needed) \<Rightarrow>
         (Ok (), put_session sid h (set_operation put op login_needed s) st))"
    using s sid by (auto simp: op_init_def is_ok_iff with_session_mut_eq split: sum.split)
  obtain t key op where r: "op_check_no get co_finalized (s_operations s) = Ok ()"
      "get_token_from_slot_mut st (get_slot_id s) = Ok t" "get_object_by_handle sg k t = Ok key"
      "check_allowed_mechs m key = CKR_OK" "new m key = Ok op"
      "st1 = put_session sid h (set_operation put op (nl key) s) st"
    using assms unfolding init
    by (auto simp: and_then_eq_Ok Let_def split: sum.splits if_splits)
  have "active get h st1 = get_operation get co_finalized (set_operation put op (nl key) s)"
    unfolding r(6) by (rule active_put_session(1)[OF s(1) sid s(2)])
  also have "\<dots> = (if nl key then Err CKR_USER_NOT_LOGGED_IN else after_call op)"
    by (simp add: get_operation_def set_operation_def check_login_status_def op_get_def op_set_def get_put
        after_call_def)
  finally have a: "active get h st1 = (if nl key then Err CKR_USER_NOT_LOGGED_IN else after_call op)" .
  have "\<not> is_ok (active get h st)"
    using r(1) s active_or_free[of "s_operations s"] get_iff_check[of "s_operations s"]
    by (auto simp: active_def is_ok_iff get_operation_def and_then_eq_Ok)
  moreover have "get_session st1 h = Ok (set_operation put op (nl key) s)"
    unfolding r(6) by (rule put_session_frame(1)[OF sid s(2)])
  moreover have "op_get get co_finalized (s_operations (set_operation put op (nl key) s)) = after_call op"
    by (simp add: set_operation_def op_get_def op_set_def get_put after_call_def)
  ultimately show ?thesis using that a r s(2) by (simp add: init_key_def)
qed

lemma init_blocked:
  assumes "active get h st = Ok op"
  shows "op_init sg get put permits new nl h (Some m) k st = (Err CKR_OPERATION_ACTIVE, st)"
proof -
  obtain s where s: "is_ok (lock st)" "get_session st h = Ok s" "op_get get co_finalized (s_operations s) = Ok op"
    using assms by (auto simp: active_Ok get_operation_def and_then_eq_Ok)
  then have "op_check_no get co_finalized (s_operations s) = Err CKR_OPERATION_ACTIVE"
    by (auto simp: op_get_def op_check_no_def split: option.splits if_splits)
  then show ?thesis using s(1,2) by (auto simp: op_init_def is_ok_iff)
qed

end

lemma put_token_session [simp]:
  "get_session (put_token sid t st) h = get_session st h" "lock (put_token sid t st) = lock st"
  "session_slot (put_token sid t st) h = session_slot st h"
  by (auto simp: put_token_def get_session_def session_slot_def get_slot_def slot_get_session_def
      update_conv' and_then_def lock_def state_is_initialized_def split: option.split)















section \<open>HMAC through the functions\<close>

text \<open>The mechanisms of the table have a hash, whose digest bounds the length of the output.\<close>

definition hmac_entry_ok :: "ck_ulong \<times> hmac_mechanism \<Rightarrow> bool" where
  "hmac_entry_ok e \<longleftrightarrow>
    (case hmac_mech_to_hash_mech (fst e) of
       Inr hash \<Rightarrow> hmm_maxlen (snd e) = hash_size hash
     | Inl _ \<Rightarrow> False)"

lemma hmac_table_ok: "list_all hmac_entry_ok HMAC_MECHS"
  by (simp add: HMAC_MECHS_def HASH_MECH_SET_def hmac_entry_ok_def hmac_mech_to_hash_mech_def hash_size_def)

lemma hmac_param_length:
  assumes "check_and_fetch_param hmm m = Ok n"
  shows "n \<le> hmm_maxlen hmm"
  using assms by (auto simp: check_and_fetch_param_def Let_def split: if_split_asm)

text \<open>A new operation has the key and has absorbed nothing.\<close>

lemma hmac_new_op_absorbing:
  assumes "digest_contract dl H absorbed" and "(cm_mechanism m, hmm) \<in> set HMAC_MECHS"
    and "hmac_new_op dl hmm m key flag sig = Ok hm"
  obtains hash secret n where "hmac_mech_to_hash_mech (cm_mechanism m) = Ok hash"
    and "get_attr_as_bytes CKA_VALUE key = Ok secret" and "check_and_fetch_param hmm m = Ok n"
    and "n \<le> hash_size hash" and "hmac_absorbing H absorbed hash secret [] hm"
    and "hm_outputlen hm = n" and "\<not> hm_in_use hm" and "hm_signature hm = sig"
proof -
  have "hmac_entry_ok (cm_mechanism m, hmm)"
    using assms(2) hmac_table_ok by (simp add: list_all_iff)
  then obtain hash where hash: "hmac_mech_to_hash_mech (cm_mechanism m) = Ok hash"
      "hmm_maxlen hmm = hash_size hash"
    by (auto simp: hmac_entry_ok_def split: sum.splits)
  obtain secret n where r: "get_attr_as_bytes CKA_VALUE key = Ok secret"
      "check_and_fetch_param hmm m = Ok n" "hmac_new dl (cm_mechanism m) secret n sig = Ok hm"
    using assms(3)
    by (auto simp: hmac_new_op_def and_then_eq_Ok check_and_fetch_key_def split: if_split_asm)
  obtain hm0 where hm0: "hmac_internal dl (cm_mechanism m) secret n = Ok hm0"
      "hmac_absorbing H absorbed hash secret [] hm0" "hm_outputlen hm0 = n" "\<not> hm_in_use hm0"
      "hm_signature hm0 = None"
    by (rule hmac_internal_absorbing[OF assms(1) hash(1)])
  have "hm = hm0\<lparr>hm_signature := sig\<rparr>"
    using r(3) hm0(1,5) by (auto simp: hmac_new_def split: option.splits if_split_asm)
  then show ?thesis
    using that[OF hash(1) r(1,2)] hmac_param_length[OF r(2)] hash(2) hm0
    by (simp add: hmac_absorbing_def)
qed

text \<open>The active operation of the session is an HMAC that has absorbed the message.\<close>

definition hmac_ready ::
    "(session_operations \<Rightarrow> crypto_op option) \<Rightarrow> 'c digest_lib \<Rightarrow> hmac_codec \<Rightarrow>
      ('c hmac_operation \<Rightarrow> op_call \<Rightarrow> bytes result \<times> 'c hmac_operation) \<Rightarrow>
      ('c hmac_operation \<Rightarrow> bool) \<Rightarrow> ck_ulong \<Rightarrow> 's lib_state \<Rightarrow> bool" where
  "hmac_ready get dl hc call good h st \<longleftrightarrow>
    (\<exists>hm. active get h st = Ok (hmac_op dl hc call hm) \<and> good hm)"

definition hmac_good ::
    "(ck_ulong \<Rightarrow> bytes \<Rightarrow> bytes) \<Rightarrow> ('c \<Rightarrow> ck_ulong \<times> bytes option) \<Rightarrow> ck_ulong \<Rightarrow> bytes \<Rightarrow> nat \<Rightarrow>
      bytes option \<Rightarrow> bytes \<Rightarrow> 'c hmac_operation \<Rightarrow> bool" where
  "hmac_good H absorbed hash secret n sig msg hm \<longleftrightarrow>
    hmac_absorbing H absorbed hash secret msg hm \<and> hm_outputlen hm = n \<and> n \<le> hash_size hash \<and>
    hm_signature hm = sig"

lemma hmac_good_length: "hmac_good H absorbed hash secret n sig msg hm \<Longrightarrow> n < 2 ^ 64"
  using valid_hash_sizes[of hash] by (auto simp: hmac_good_def hmac_absorbing_def MAX_BSZ_def)

lemma hmac_good_update:
  assumes "digest_contract dl H absorbed" and "hmac_good H absorbed hash secret n sig msg hm"
  obtains hm' where "hmac_update dl d hm = (Ok (), hm')"
    and "hmac_good H absorbed hash secret n sig (msg @ d) hm'"
proof -
  have "hmac_absorbing H absorbed hash secret msg hm" using assms(2) by (simp add: hmac_good_def)
  then obtain hm' where "hmac_update dl d hm = (Ok (), hm')" "hmac_absorbing H absorbed hash secret (msg @ d) hm'"
      "hm_outputlen hm' = hm_outputlen hm" "hm_signature hm' = hm_signature hm"
    by (rule hmac_update_absorbing[OF assms(1)])
  then show ?thesis using that assms(2) by (simp add: hmac_good_def)
qed

lemma hmac_good_finalize:
  assumes "digest_contract dl H absorbed" and "hmac_good H absorbed hash secret n sig msg hm"
  obtains hm' where "hmac_finalize dl n hm = (Ok (take n (hmac_spec (H hash) (block_size hash) secret msg)), hm')"
    and "hm_signature hm' = sig" and "hm_finalized hm'"
proof -
  have a: "hmac_absorbing H absorbed hash secret msg hm" and n: "n = hm_outputlen hm" "n \<le> hash_size hash"
    and "hm_signature hm = sig"
    using assms(2) by (simp_all add: hmac_good_def)
  then show ?thesis
    using that by (metis hmac_finalize_value[OF assms(1) a n])
qed

context session_operation begin

lemma hmac_update_call:
  assumes dl: "digest_contract dl H absorbed"
    and call: "\<And>hm. call hm (Update d 0) = map_prod no_output id (hmac_update dl d hm)"
    and r: "hmac_ready get dl hc call (hmac_good H absorbed hash secret n sig msg) h st"
  obtains st1 where "session_call h (on_op get put (plain_call (Update d 0))) st = ((Ok (), [], None), st1)"
    and "hmac_ready get dl hc call (hmac_good H absorbed hash secret n sig (msg @ d)) h st1"
proof -
  obtain hm where a: "active get h st = Ok (hmac_op dl hc call hm)"
      and g: "hmac_good H absorbed hash secret n sig msg hm"
    using r by (auto simp: hmac_ready_def)
  obtain hm' where hm': "hmac_update dl d hm = (Ok (), hm')" "hmac_good H absorbed hash secret n sig (msg @ d) hm'"
    by (rule hmac_good_update[OF dl g])
  have f: "plain_call (Update d 0) (hmac_op dl hc call hm) = ((Ok (), [], None), hmac_op dl hc call hm')"
    using hm' call by (simp add: plain_call_def plain_reply_def no_output_def map_err_def)
  obtain st1 where st1: "session_call h (on_op get put (plain_call (Update d 0))) st = ((Ok (), [], None), st1)"
      "active get h st1 = after_call (hmac_op dl hc call hm')"
    using call_active[where f = "plain_call (Update d 0)", OF a f] by metis
  have "\<not> hm_finalized hm'" using hm'(2) by (simp add: hmac_good_def hmac_absorbing_def)
  then have "hmac_ready get dl hc call (hmac_good H absorbed hash secret n sig (msg @ d)) h st1"
    using st1(2) hm'(2) by (auto simp: hmac_ready_def after_call_def)
  then show ?thesis using that st1(1) by blast
qed

text \<open>A call that ends the operation answers what the operation answers.\<close>

lemma ending_call:
  assumes "active get h st = Ok op" and "f op = (r, op1)" and "co_updates op1 = None"
  shows "fst (updating_call sg get put h b f st) = r"
  by (rule updating_active[where f = f and b = b and sg = sg, OF assms]) simp

end

text \<open>Giving the data in parts, until a part fails.\<close>

fun updates :: "(bytes \<Rightarrow> 's lib_state \<Rightarrow> reply \<times> 's lib_state) \<Rightarrow> bytes list \<Rightarrow> 's lib_state \<Rightarrow>
    unit result \<times> 's lib_state" where
  "updates f [] st = (Ok (), st)"
| "updates f (d # ds) st =
    (case f d st of
       ((Inl e, _), st1) \<Rightarrow> (Inl e, st1)
     | ((Inr _, _), st1) \<Rightarrow> updates f ds st1)"

context session_operation begin

lemma hmac_updates:
  assumes dl: "digest_contract dl H absorbed"
    and call: "\<And>hm d. call hm (Update d 0) = map_prod no_output id (hmac_update dl d hm)"
    and f: "\<And>d st. f d st = session_call h (on_op get put (plain_call (Update d 0))) st"
    and r: "hmac_ready get dl hc call (hmac_good H absorbed hash secret n sig msg) h st"
  obtains st1 where "updates f ds st = (Ok (), st1)"
    and "hmac_ready get dl hc call (hmac_good H absorbed hash secret n sig (msg @ concat ds)) h st1"
  using r
proof (induction ds arbitrary: st msg thesis)
  case Nil
  then show ?case by simp
next
  case (Cons d ds)
  obtain st1 where st1: "f d st = ((Ok (), [], None), st1)"
      "hmac_ready get dl hc call (hmac_good H absorbed hash secret n sig (msg @ d)) h st1"
    unfolding f by (rule hmac_update_call[where call = call, OF dl call Cons.prems(2)])
  obtain st2 where "updates f ds st1 = (Ok (), st2)"
      "hmac_ready get dl hc call (hmac_good H absorbed hash secret n sig ((msg @ d) @ concat ds)) h st2"
    using Cons.IH st1(2) by metis
  then show ?case using Cons.prems(1)[of st2] st1(1) by simp
qed

end

lemma hmac_sign_ready:
  assumes "digest_contract dl H absorbed" and "(cm_mechanism m, hmm) \<in> set HMAC_MECHS"
    and "mops (cm_mechanism m) = hmac_mech_ops dl hc hmm"
    and "sign_init sg mops h (Some m) k st = (Ok (), st1)" and "init_key sg h k st = Ok key"
    and "\<not> always_auth key"
  obtains hash secret n where "hmac_mech_to_hash_mech (cm_mechanism m) = Ok hash"
    and "get_attr_as_bytes CKA_VALUE key = Ok secret" and "check_and_fetch_param hmm m = Ok n"
    and "hmac_ready so_sign dl hc (hmac_sign_call dl)
      (\<lambda>hm. hmac_good H absorbed hash secret n None [] hm \<and> \<not> hm_in_use hm) h st1"
proof -
  obtain key' op s1 where k: "init_key sg h k st = Ok key'"
    and op': "mo_sign_new (mops (cm_mechanism m)) m key' = Ok op"
    and w: "active so_sign h st1 = (if always_auth key' then Err CKR_USER_NOT_LOGGED_IN else after_call op)"
    by (rule sign_op.init_success[OF assms(4)[unfolded sign_init_def]])
  have k': "key' = key" using k assms(5) by simp
  then obtain hm where hm: "hmac_new_op dl hmm m key CKF_SIGN None = Ok hm"
      "op = hmac_op dl hc (hmac_sign_call dl) hm"
    using op' assms(3) by (auto simp: hmac_mech_ops_def Let_def and_then_eq_Ok)
  show ?thesis
  proof (rule hmac_new_op_absorbing[OF assms(1,2) hm(1)])
    fix hash secret n
    assume a: "hmac_mech_to_hash_mech (cm_mechanism m) = Ok hash"
      "get_attr_as_bytes CKA_VALUE key = Ok secret" "check_and_fetch_param hmm m = Ok n"
      "n \<le> hash_size hash" "hmac_absorbing H absorbed hash secret [] hm"
      "hm_outputlen hm = n" "\<not> hm_in_use hm" "hm_signature hm = None"
    have "active so_sign h st1 = Ok (hmac_op dl hc (hmac_sign_call dl) hm)"
      using w k' assms(6) hm(2) a(5) by (simp add: after_call_def hmac_absorbing_def)
    then show thesis
      using that[OF a(1-3)] a by (auto simp: hmac_ready_def hmac_good_def)
  qed
qed

lemma fixed_output_hmac:
  assumes "hm_outputlen hm = n" and "n < 2 ^ 64" and "n \<le> unat len"
    and "call hm (f n) = (Ok out, hm')"
  shows "fixed_output False len f (hmac_op dl hc call hm) =
    ((Ok (), out, Some (of_nat n)), hmac_op dl hc call hm')"
  using assms by (simp add: fixed_output_long)

text \<open>
  C8. A signature with an HMAC mechanism is the HMAC of RFC 2104 (\<^verbatim>\<open>sign_init\<close>, \<^verbatim>\<open>sign\<close>,
  \<^verbatim>\<open>sign_update\<close>, \<^verbatim>\<open>sign_final\<close> over \<^verbatim>\<open>HMACOperation\<close> and \<^verbatim>\<open>HashOperation\<close>): over the hash that
  belongs to the mechanism, with the value of the key, cut to the length of the mechanism or of its
  parameter. It does not depend on how the data is cut into parts, and no part fails.
\<close>

theorem hmac_signatures:
  assumes dl: "digest_contract dl H absorbed" and "(cm_mechanism m, hmm) \<in> set HMAC_MECHS"
    and "mops (cm_mechanism m) = hmac_mech_ops dl hc hmm"
    and "sign_init sg mops h (Some m) k st = (Ok (), st1)" and "init_key sg h k st = Ok key"
    and "\<not> always_auth key"
  shows "\<exists>hash secret n. hmac_mech_to_hash_mech (cm_mechanism m) = Ok hash \<and>
    get_attr_as_bytes CKA_VALUE key = Ok secret \<and> check_and_fetch_param hmm m = Ok n \<and>
    (let mac = (\<lambda>d. take n (hmac_spec (H hash) (block_size hash) secret d)) in
     \<forall>len. n \<le> unat len \<longrightarrow>
       (\<forall>d. fst (sign sg h (Some d) False (Some len) st1) = (Ok (), mac d, Some (of_nat n))) \<and>
       (\<forall>ds. \<exists>st2. updates (\<lambda>d. sign_update h (Some d)) ds st1 = (Ok (), st2) \<and>
         fst (sign_final sg h False (Some len) st2) = (Ok (), mac (concat ds), Some (of_nat n))))"
proof -
  obtain hash secret n where k: "hmac_mech_to_hash_mech (cm_mechanism m) = Ok hash"
      "get_attr_as_bytes CKA_VALUE key = Ok secret" "check_and_fetch_param hmm m = Ok n"
    and r: "hmac_ready so_sign dl hc (hmac_sign_call dl)
      (\<lambda>hm. hmac_good H absorbed hash secret n None [] hm \<and> \<not> hm_in_use hm) h st1"
    by (rule hmac_sign_ready[OF assms])
  let ?mac = "\<lambda>d. take n (hmac_spec (H hash) (block_size hash) secret d)"
  obtain hm where hm: "active so_sign h st1 = Ok (hmac_op dl hc (hmac_sign_call dl) hm)"
      "hmac_good H absorbed hash secret n None [] hm" "\<not> hm_in_use hm"
    using r by (auto simp: hmac_ready_def)
  have single: "fst (sign sg h (Some d) False (Some len) st1) = (Ok (), ?mac d, Some (of_nat n))"
    if "n \<le> unat len" for d len
  proof -
    obtain hm1 where hm1: "hmac_update dl d hm = (Ok (), hm1)"
        "hmac_good H absorbed hash secret n None ([] @ d) hm1"
      by (rule hmac_good_update[OF dl hm(2)])
    obtain hm2 where "hmac_finalize dl n hm1 = (Ok (?mac ([] @ d)), hm2)"
      by (rule hmac_good_finalize[OF dl hm1(2)])
    then have "hmac_sign_call dl hm (Single d n) = (Ok (?mac d), hm2)"
      using hm1(1) hm(3) by (simp add: hmac_single_def hmac_begin_def)
    then have f: "fixed_output False len (Single d) (hmac_op dl hc (hmac_sign_call dl) hm) =
        ((Ok (), ?mac d, Some (of_nat n)), hmac_op dl hc (hmac_sign_call dl) hm2)"
      using hm(2) that by (intro fixed_output_hmac hmac_good_length[OF hm(2)]) (simp_all add: hmac_good_def)
    show ?thesis unfolding sign_def by (simp add: sign_op.ending_call[where f = "fixed_output False len (Single d)", OF hm(1) f])
  qed
  have parts: "\<exists>st2. updates (\<lambda>d. sign_update h (Some d)) ds st1 = (Ok (), st2) \<and>
      fst (sign_final sg h False (Some len) st2) = (Ok (), ?mac (concat ds), Some (of_nat n))"
    if len: "n \<le> unat len" for ds len
  proof -
    have r': "hmac_ready so_sign dl hc (hmac_sign_call dl) (hmac_good H absorbed hash secret n None []) h st1"
      using hm by (auto simp: hmac_ready_def)
    obtain st2 where st2: "updates (\<lambda>d. sign_update h (Some d)) ds st1 = (Ok (), st2)"
      and "hmac_ready so_sign dl hc (hmac_sign_call dl) (hmac_good H absorbed hash secret n None ([] @ concat ds)) h st2"
      by (rule sign_op.hmac_updates[OF dl _ _ r', where f = "\<lambda>d. sign_update h (Some d)"])
        (simp_all add: sign_update_def internal_sign_update_def)
    then obtain hm1 where hm1: "active so_sign h st2 = Ok (hmac_op dl hc (hmac_sign_call dl) hm1)"
        "hmac_good H absorbed hash secret n None (concat ds) hm1"
      by (auto simp: hmac_ready_def)
    obtain hm2 where hm2: "hmac_finalize dl n hm1 = (Ok (?mac (concat ds)), hm2)"
      by (rule hmac_good_finalize[OF dl hm1(2)])
    have f: "fixed_output False len Finish (hmac_op dl hc (hmac_sign_call dl) hm1) =
        ((Ok (), ?mac (concat ds), Some (of_nat n)), hmac_op dl hc (hmac_sign_call dl) hm2)"
      using hm1(2) hm2 len
      by (intro fixed_output_hmac hmac_good_length[OF hm1(2)]) (simp_all add: hmac_good_def)
    show ?thesis
      using st2 unfolding sign_final_def by (simp add: sign_op.ending_call[where f = "fixed_output False len Finish", OF hm1(1) f])
  qed
  show ?thesis
    by (rule exI[of _ hash], rule exI[of _ secret], rule exI[of _ n]) (use k single parts in \<open>simp add: Let_def\<close>)
qed

lemma hmac_verify_ready:
  assumes "digest_contract dl H absorbed" and "(cm_mechanism m, hmm) \<in> set HMAC_MECHS"
    and "mops (cm_mechanism m) = hmac_mech_ops dl hc hmm"
    and "verify_init sg mops h (Some m) k st = (Ok (), st1)" and "init_key sg h k st = Ok key"
  obtains hash secret n where "hmac_mech_to_hash_mech (cm_mechanism m) = Ok hash"
    and "get_attr_as_bytes CKA_VALUE key = Ok secret" and "check_and_fetch_param hmm m = Ok n"
    and "hmac_ready so_verify dl hc (hmac_verify_call dl)
      (\<lambda>hm. hmac_good H absorbed hash secret n None [] hm \<and> \<not> hm_in_use hm) h st1"
proof -
  obtain key' op s1 where k: "init_key sg h k st = Ok key'"
    and op': "mo_verify_new (mops (cm_mechanism m)) m key' = Ok op"
    and w: "active so_verify h st1 = (if False then Err CKR_USER_NOT_LOGGED_IN else after_call op)"
    by (rule verify_op.init_success[OF assms(4)[unfolded verify_init_def]])
  have k': "key' = key" using k assms(5) by simp
  then obtain hm where hm: "hmac_new_op dl hmm m key CKF_VERIFY None = Ok hm"
      "op = hmac_op dl hc (hmac_verify_call dl) hm"
    using op' assms(3) by (auto simp: hmac_mech_ops_def Let_def and_then_eq_Ok)
  show ?thesis
  proof (rule hmac_new_op_absorbing[OF assms(1,2) hm(1)])
    fix hash secret n
    assume a: "hmac_mech_to_hash_mech (cm_mechanism m) = Ok hash"
      "get_attr_as_bytes CKA_VALUE key = Ok secret" "check_and_fetch_param hmm m = Ok n"
      "n \<le> hash_size hash" "hmac_absorbing H absorbed hash secret [] hm"
      "hm_outputlen hm = n" "\<not> hm_in_use hm" "hm_signature hm = None"
    have "active so_verify h st1 = Ok (hmac_op dl hc (hmac_verify_call dl) hm)"
      using w k' hm(2) a(5) by (simp add: after_call_def hmac_absorbing_def)
    then show thesis
      using that[OF a(1-3)] a by (auto simp: hmac_ready_def hmac_good_def)
  qed
qed

lemma check_signature_hmac:
  assumes g: "hmac_good H absorbed hash secret n s msg hm0"
    and "hm_outputlen hm = n" and "call hm c = (map_err id (no_output r), hm')"
  shows "check_signature sig c (hmac_op dl hc call hm) =
    (if length sig \<noteq> n then (fail_reply (CkError CKR_SIGNATURE_LEN_RANGE), hmac_op dl hc call hm)
     else ((r, [], None), hmac_op dl hc call hm'))"
  using assms hmac_good_length[OF g]
  by (auto simp: check_signature_def ulong_try_from_def unat_of_nat plain_call_def plain_reply_def
      no_output_def map_err_def and_then_def split: sum.splits)

text \<open>What a verification answers for the data and a signature.\<close>

definition verdict :: "bytes \<Rightarrow> bytes \<Rightarrow> reply" where
  "verdict mac sig =
    (if length sig \<noteq> length mac then Err CKR_SIGNATURE_LEN_RANGE
     else if sig \<noteq> mac then Err CKR_SIGNATURE_INVALID else Ok (), [], None)"

lemma hmac_verify_final_verdict:
  assumes dl: "digest_contract dl H absorbed" and g: "hmac_good H absorbed hash secret n s msg hm"
  obtains hm' where "hmac_verify_final dl sig hm =
    (if sig \<noteq> take n (hmac_spec (H hash) (block_size hash) secret msg) then Err CKR_SIGNATURE_INVALID
     else Ok (), hm')"
proof -
  obtain hm1 where "hmac_finalize dl n hm = (Ok (take n (hmac_spec (H hash) (block_size hash) secret msg)), hm1)"
    by (rule hmac_good_finalize[OF dl g])
  moreover have "hm_outputlen hm = n" using g by (simp add: hmac_good_def)
  ultimately show ?thesis by (intro that[of hm1]) (auto simp: hmac_verify_final_def)
qed

lemma hmac_good_spec_length:
  assumes dl: "digest_contract dl H absorbed" and g: "hmac_good H absorbed hash secret n s msg hm"
  shows "length (take n (hmac_spec (H hash) (block_size hash) secret d)) = n"
proof -
  have "is_valid_hash hash" and n: "n \<le> hash_size hash"
    using g by (simp_all add: hmac_good_def hmac_absorbing_def)
  then have "length (hmac_spec (H hash) (block_size hash) secret d) = hash_size hash"
    using contract_length[OF dl] unfolding hmac_spec_def by blast
  then show ?thesis using n by simp
qed

lemma verify_reply:
  assumes a: "active so_verify h st = Ok (hmac_op dl hc call hm)"
    and g: "hmac_good H absorbed hash secret n s msg hm0" and n: "hm_outputlen hm = n"
    and mac: "length mac = n"
    and c: "call hm c = (map_err id (no_output (if sig \<noteq> mac then Err CKR_SIGNATURE_INVALID else Ok ())), hm')"
  shows "fst (updating_call sg so_verify put_verify h False (check_signature sig c) st) = verdict mac sig"
proof (cases "length sig = n")
  case True
  have f: "check_signature sig c (hmac_op dl hc call hm) = (verdict mac sig, hmac_op dl hc call hm')"
    using check_signature_hmac[where call = call and c = c, OF g n c] True mac by (simp add: verdict_def)
  show ?thesis
    by (simp add: verify_op.ending_call[where f = "check_signature sig c", OF a f])
next
  case False
  have f: "check_signature sig c (hmac_op dl hc call hm) = (verdict mac sig, hmac_op dl hc call hm)"
    using check_signature_hmac[where call = call and c = c, OF g n c] False mac
    by (simp add: verdict_def fail_reply_def)
  show ?thesis
    by (simp add: verify_op.ending_call[where f = "check_signature sig c", OF a f])
qed

text \<open>
  A verification with an HMAC mechanism accepts exactly the HMAC of the data (\<^verbatim>\<open>verify_init\<close>,
  \<^verbatim>\<open>verify\<close>, \<^verbatim>\<open>verify_update\<close>, \<^verbatim>\<open>verify_final\<close>): a signature of another length is refused with
  \<^verbatim>\<open>CKR_SIGNATURE_LEN_RANGE\<close>, any other wrong one with \<^verbatim>\<open>CKR_SIGNATURE_INVALID\<close>, whether the data
  comes at once or in parts.
\<close>

theorem hmac_verification:
  assumes dl: "digest_contract dl H absorbed" and "(cm_mechanism m, hmm) \<in> set HMAC_MECHS"
    and "mops (cm_mechanism m) = hmac_mech_ops dl hc hmm"
    and "verify_init sg mops h (Some m) k st = (Ok (), st1)" and "init_key sg h k st = Ok key"
  shows "\<exists>hash secret n. hmac_mech_to_hash_mech (cm_mechanism m) = Ok hash \<and>
    get_attr_as_bytes CKA_VALUE key = Ok secret \<and> check_and_fetch_param hmm m = Ok n \<and>
    (let mac = (\<lambda>d. take n (hmac_spec (H hash) (block_size hash) secret d)) in
     (\<forall>d sig. fst (verify sg h (Some d) (Some sig) st1) = verdict (mac d) sig) \<and>
     (\<forall>ds sig. \<exists>st2. updates (\<lambda>d. verify_update h (Some d)) ds st1 = (Ok (), st2) \<and>
       fst (verify_final sg h (Some sig) st2) = verdict (mac (concat ds)) sig))"
proof -
  obtain hash secret n where k: "hmac_mech_to_hash_mech (cm_mechanism m) = Ok hash"
      "get_attr_as_bytes CKA_VALUE key = Ok secret" "check_and_fetch_param hmm m = Ok n"
    and r: "hmac_ready so_verify dl hc (hmac_verify_call dl)
      (\<lambda>hm. hmac_good H absorbed hash secret n None [] hm \<and> \<not> hm_in_use hm) h st1"
    by (rule hmac_verify_ready[OF assms])
  let ?mac = "\<lambda>d. take n (hmac_spec (H hash) (block_size hash) secret d)"
  obtain hm where hm: "active so_verify h st1 = Ok (hmac_op dl hc (hmac_verify_call dl) hm)"
      "hmac_good H absorbed hash secret n None [] hm" "\<not> hm_in_use hm"
    using r by (auto simp: hmac_ready_def)
  note len = hmac_good_spec_length[OF dl hm(2)]
  have single: "fst (verify sg h (Some d) (Some sig) st1) = verdict (?mac d) sig" for d sig
  proof -
    obtain hm1 where hm1: "hmac_update dl d hm = (Ok (), hm1)"
        "hmac_good H absorbed hash secret n None ([] @ d) hm1"
      by (rule hmac_good_update[OF dl hm(2)])
    obtain hm2 where "hmac_verify_final dl sig hm1 =
        (if sig \<noteq> ?mac ([] @ d) then Err CKR_SIGNATURE_INVALID else Ok (), hm2)"
      by (rule hmac_verify_final_verdict[OF dl hm1(2)])
    then have c: "hmac_verify_call dl hm (Check d sig) =
        (map_err id (no_output (if sig \<noteq> ?mac d then Err CKR_SIGNATURE_INVALID else Ok ())), hm2)"
      using hm1(1) hm(3) by (simp add: hmac_verify_def hmac_begin_def no_output_def map_err_def)
    have "hm_outputlen hm = n" using hm(2) by (simp add: hmac_good_def)
    then show ?thesis
      unfolding verify_def using verify_reply[where call = "hmac_verify_call dl", OF hm(1,2) _ len c] by simp
  qed
  have parts: "\<exists>st2. updates (\<lambda>d. verify_update h (Some d)) ds st1 = (Ok (), st2) \<and>
      fst (verify_final sg h (Some sig) st2) = verdict (?mac (concat ds)) sig" for ds sig
  proof -
    have r': "hmac_ready so_verify dl hc (hmac_verify_call dl) (hmac_good H absorbed hash secret n None []) h st1"
      using hm by (auto simp: hmac_ready_def)
    obtain st2 where st2: "updates (\<lambda>d. verify_update h (Some d)) ds st1 = (Ok (), st2)"
      and "hmac_ready so_verify dl hc (hmac_verify_call dl) (hmac_good H absorbed hash secret n None ([] @ concat ds)) h st2"
      by (rule verify_op.hmac_updates[OF dl _ _ r', where f = "\<lambda>d. verify_update h (Some d)"])
        (simp_all add: verify_update_def internal_verify_update_def)
    then obtain hm1 where hm1: "active so_verify h st2 = Ok (hmac_op dl hc (hmac_verify_call dl) hm1)"
        "hmac_good H absorbed hash secret n None (concat ds) hm1"
      by (auto simp: hmac_ready_def)
    obtain hm2 where "hmac_verify_final dl sig hm1 =
        (if sig \<noteq> ?mac (concat ds) then Err CKR_SIGNATURE_INVALID else Ok (), hm2)"
      by (rule hmac_verify_final_verdict[OF dl hm1(2)])
    then have c: "hmac_verify_call dl hm1 (CheckFinish sig) =
        (map_err id (no_output (if sig \<noteq> ?mac (concat ds) then Err CKR_SIGNATURE_INVALID else Ok ())), hm2)"
      by (simp add: no_output_def map_err_def)
    have "hm_outputlen hm1 = n" using hm1(2) by (simp add: hmac_good_def)
    then show ?thesis
      using st2 verify_reply[where call = "hmac_verify_call dl", OF hm1 _ len c]
      unfolding verify_final_def by simp
  qed
  show ?thesis
    by (rule exI[of _ hash], rule exI[of _ secret], rule exI[of _ n]) (use k single parts in \<open>simp add: Let_def\<close>)
qed

section \<open>Two operations on the same data\<close>

text \<open>One call after the other: the second gets the output of the first, and its failure is the answer.\<close>

definition then_call ::
    "reply \<times> 's lib_state \<Rightarrow> (bytes \<Rightarrow> 's lib_state \<Rightarrow> reply \<times> 's lib_state) \<Rightarrow> reply \<times> 's lib_state" where
  "then_call c g =
    (case c of ((r, out, len), st) \<Rightarrow>
      if is_ok r then (case g out st of ((r2, _, _), st2) \<Rightarrow> ((r2, out, len), st2))
      else ((r, out, len), st))"

lemma put_session_twice:
  assumes "session_slot st h = Ok sid" and "get_session st h = Ok s"
  shows "put_session sid h s2 (put_session sid h s1 st) = put_session sid h s2 st"
proof -
  obtain sl where sl: "map_of (gs_slots st) sid = Some sl"
    and p: "\<And>s'. put_session sid h s' st = put_slot sid (slot_add_session h s' sl) st"
    using assms by (auto simp: get_session_Ok get_slot_Ok put_session_def split: option.splits)
  have twice: "AList.update k v2 (AList.update k v1 xs) = AList.update k v2 xs"
    for k and v1 v2 :: 'z and xs :: "('y \<times> 'z) list"
    by (induction xs) auto
  show ?thesis
    unfolding p by (simp add: put_session_def put_slot_def update_conv' slot_add_session_def twice)
qed

lemma two_calls_compose:
  assumes "is_ok (lock st)" and "session_slot st h = Ok sid" and "get_session st h = Ok s"
    and "check s = Ok ()"
  shows "session_call h (two_calls check first False second) st =
    then_call (session_call h first st) (\<lambda>out. session_call h (second out))"
proof -
  obtain r out len s1 where f: "first s = ((r, out, len), s1)" by (metis prod.exhaust)
  have c: "session_call h first st = ((r, out, len), put_session sid h s1 st)"
    using assms f by (simp add: session_call_def is_ok_iff)
  show ?thesis
  proof (cases "is_ok r")
    case True
    obtain r2 o2 l2 s2 where g: "second out s1 = ((r2, o2, l2), s2)" by (metis prod.exhaust)
    have "session_call h (second out) (put_session sid h s1 st) = ((r2, o2, l2), put_session sid h s2 st)"
      using put_session_frame[OF assms(2,3), where s' = s1] put_session_twice[OF assms(2,3)] assms(1,2) g
      by (simp add: session_call_def is_ok_iff)
    then show ?thesis
      using assms f g True by (simp add: c then_call_def session_call_def two_calls_def is_ok_iff)
  next
    case False
    then show ?thesis
      using assms f by (simp add: c then_call_def session_call_def two_calls_def is_ok_iff)
  qed
qed

context session_operation begin

lemma dual_call:
  assumes "active get h st = Ok op"
  shows "session_call h (two_calls (check_op get) first False second) st =
    then_call (session_call h first st) (\<lambda>out. session_call h (second out))"
proof -
  obtain sid s where s: "is_ok (lock st)" "session_slot st h = Ok sid" "get_session st h = Ok s"
      "get_operation get co_finalized s = Ok op"
    using assms by (auto simp: active_Ok)
  have "check_op get s = Ok ()"
    using s(4) by (auto simp: check_op_def op_check_def get_operation_def op_get_def and_then_eq_Ok split: option.splits if_splits)
  then show ?thesis by (rule two_calls_compose[OF s(1-3)])
qed

end

lemma update_calls:
  "digest_update h (Some d) = session_call h (internal_digest_update d)"
  "sign_update h (Some d) = session_call h (internal_sign_update d)"
  "verify_update h (Some d) = session_call h (internal_verify_update d)"
  by (simp_all add: fun_eq_iff digest_update_def sign_update_def verify_update_def)

text \<open>
  The functions that do two operations at once do one after the other (\<^verbatim>\<open>dualcrypto.rs\<close>): with the
  second operation active, they are an update of the encryption or decryption followed by an update of
  the digest, signature or verification. Behind a decryption the second gets the decrypted part. Behind
  an encryption it gets the plaintext when the output buffer is another one, and the ciphertext when
  the caller encrypts in place.
\<close>

theorem dual_functions_compose:
  assumes "active so_digest h st = Ok dop" and "active so_sign h st = Ok sop"
    and "active so_verify h st = Ok vop"
  shows "digest_encrypt_update in_place h (Some d) False (Some len) st =
      then_call (encrypt_update h (Some d) False (Some len) st)
        (\<lambda>out. digest_update h (Some (overwritten in_place out d))) \<and>
    sign_encrypt_update in_place h (Some d) False (Some len) st =
      then_call (encrypt_update h (Some d) False (Some len) st)
        (\<lambda>out. sign_update h (Some (overwritten in_place out d))) \<and>
    decrypt_digest_update h (Some d) False (Some len) st =
      then_call (decrypt_update h (Some d) False (Some len) st) (\<lambda>out. digest_update h (Some out)) \<and>
    decrypt_verify_update h (Some d) False (Some len) st =
      then_call (decrypt_update h (Some d) False (Some len) st) (\<lambda>out. verify_update h (Some out)) \<and>
    overwritten False out d = d \<and> (length out = length d \<longrightarrow> overwritten True out d = out)"
  by (simp add: digest_encrypt_update_def sign_encrypt_update_def decrypt_digest_update_def
      decrypt_verify_update_def digest_op.dual_call[OF assms(1)] sign_op.dual_call[OF assms(2)]
      verify_op.dual_call[OF assms(3)] encrypt_update_def decrypt_update_def update_calls overwritten_def)

section \<open>A sample library with an HMAC key\<close>

definition toy_hash :: "ck_ulong \<Rightarrow> bytes \<Rightarrow> bytes" where
  "toy_hash m d = take (hash_size m) (d @ replicate (hash_size m) 0)"

definition toy_digests :: "(ck_ulong \<times> bytes) digest_lib" where
  "toy_digests =
    \<lparr>dl_new = (\<lambda>m. Ok (m, [])), dl_update = (\<lambda>d c. (Ok (), (fst c, snd c @ d))),
     dl_finalize = (\<lambda>c. (Ok (toy_hash (fst c) (snd c)), c)), dl_reset = (\<lambda>c. (Ok (), (fst c, []))),
     dl_size = (\<lambda>c. hash_size (fst c)), dl_state_size = (\<lambda>c. Ok (length (snd c))),
     dl_get_state = (\<lambda>c n. Ok (snd c, length (snd c))), dl_set_state = (\<lambda>s c. Ok (fst c, s))\<rparr>"

definition toy_codec :: hmac_codec where
  "toy_codec = \<lparr>hc_write = (\<lambda>_ _. None), hc_parse = (\<lambda>_. None)\<rparr>"

lemma toy_contract: "digest_contract toy_digests toy_hash (\<lambda>(m, d). (m, Some d))"
  by (auto simp: digest_contract_def toy_digests_def toy_hash_def min_def)

definition hmac_key :: "bool \<Rightarrow> object" where
  "hmac_key auth =
    \<lparr>o_handle = 7, o_session = 1, o_class = CKO_SECRET_KEY, o_attributes =
      [from_ulong CKA_CLASS CKO_SECRET_KEY, from_ulong CKA_KEY_TYPE CKK_GENERIC_SECRET,
       from_bool CKA_SIGN True, from_bool CKA_VERIFY True, from_bytes CKA_VALUE [1, 2, 3],
       from_bool CKA_ALWAYS_AUTHENTICATE auth], o_zeroize = True\<rparr>"

lemma hmac_key_sel:
  "always_auth (hmac_key b) \<longleftrightarrow> b" "\<not> is_token (hmac_key b)"
  "check_allowed_mechs m (hmac_key b) = CKR_OK"
  "get_attr_as_ulong CKA_CLASS (hmac_key b) = Ok CKO_SECRET_KEY"
  "get_attr_as_ulong CKA_KEY_TYPE (hmac_key b) = Ok CKK_GENERIC_SECRET"
  "get_attr_as_bool CKA_SIGN (hmac_key b) = Ok True"
  "get_attr_as_bool CKA_VERIFY (hmac_key b) = Ok True"
  "get_attr_as_bytes CKA_VALUE (hmac_key b) = Ok [1, 2, 3]"
  "set_zeroize (hmac_key b) = hmac_key b"
  by (auto simp: hmac_key_def always_auth_def is_token_def bool_checker_def get_attr_def
      check_allowed_mechs_def attr_as_def get_attr_as_ulong_def get_attr_as_bool_def get_attr_as_bytes_def set_zeroize_def)

definition hmac_info :: ck_mechanism_info where
  "hmac_info = \<lparr>ulMinKeySize = 0, ulMaxKeySize = 0, mi_flags = CKF_SIGN OR CKF_VERIFY\<rparr>"

definition hmac_token :: "bool \<Rightarrow> (bytes \<Rightarrow> storage_auth_info option) std_storage token" where
  "hmac_token b = sample_token\<lparr>tk_session_objects := [(7, hmac_key b)],
     tk_filtermechs := Some [(CKM_SHA256_HMAC, hmac_info)], tk_logged := CKU_USER\<rparr>"

definition hmac_lib :: "bool \<Rightarrow> (bytes \<Rightarrow> storage_auth_info option) std_storage lib_state" where
  "hmac_lib b = \<lparr>gs_slots = [(0, slot_add_session 1 sample_session sample_slot\<lparr>sl_token := hmac_token b\<rparr>)],
     gs_sessionmap = [(1, 0)], gs_next_handle = 2\<rparr>"

definition sample_mechanism :: ck_mechanism where
  "sample_mechanism = \<lparr>cm_mechanism = CKM_SHA256_HMAC, cm_parameter = NullPtr, cm_parameter_len = 0, cm_struct = OtherParams\<rparr>"

definition sha256_entry :: hmac_mechanism where
  "sha256_entry = \<lparr>hmm_flags = CKF_SIGN OR CKF_VERIFY, hmm_keytype = CKK_SHA256_HMAC, hmm_minlen = 32, hmm_maxlen = 32\<rparr>"

lemma sha256_entry: "(CKM_SHA256_HMAC, sha256_entry) \<in> set HMAC_MECHS"
  by (simp add: HMAC_MECHS_def HASH_MECH_SET_def sha256_entry_def)

lemma hmac_new_op_sample:
  assumes "flag = CKF_SIGN \<or> flag = CKF_VERIFY"
  shows "is_ok (hmac_new_op toy_digests sha256_entry sample_mechanism (hmac_key b) flag None)"
proof -
  obtain hm where "hmac_internal toy_digests CKM_SHA256_HMAC [1, 2, 3] 32 = Ok hm"
    by (rule hmac_internal_absorbing[OF toy_contract, of CKM_SHA256_HMAC CKM_SHA256])
      (simp add: hmac_mech_to_hash_mech_def)
  then show ?thesis
    using assms
    by (auto simp: hmac_new_op_def hmac_op_attr_def sha256_entry_def check_and_fetch_key_def
        check_and_fetch_param_def sample_mechanism_def hmac_key_sel hmac_new_def)
qed

abbreviation sample_hmac_ops :: "ck_ulong \<Rightarrow> mech_ops" where
  "sample_hmac_ops \<equiv> \<lambda>_. hmac_mech_ops toy_digests toy_codec sha256_entry"

lemma hmac_lib_sel:
  "is_ok (lock (hmac_lib b))" "get_session (hmac_lib b) 1 = Ok sample_session"
  "session_slot (hmac_lib b) 1 = Ok 0" "get_token_from_slot_mut (hmac_lib b) 0 = Ok (hmac_token b)"
  "get_object_by_handle sg 7 (hmac_token b) = Ok (hmac_key b)"
  "get_mechanisms (hmac_token b) = [(CKM_SHA256_HMAC, hmac_info)]"
proof -
  have "is_initialized (hmac_token b)"
    using sample_token_dedup(2) by (simp add: hmac_token_def is_initialized_def)
  then show "is_ok (lock (hmac_lib b))" "get_session (hmac_lib b) 1 = Ok sample_session"
    "session_slot (hmac_lib b) 1 = Ok 0" "get_token_from_slot_mut (hmac_lib b) 0 = Ok (hmac_token b)"
    by (simp_all add: hmac_lib_def lock_def state_is_initialized_def get_session_def session_slot_def
        get_slot_def slot_get_session_def slot_add_session_def sample_slot_def get_token_from_slot_mut_def
        slot_get_token_mut_def)
  show "get_object_by_handle sg 7 (hmac_token b) = Ok (hmac_key b)"
    by (simp add: get_object_by_handle_def session_object_def hmac_token_def is_logged_in_def hmac_key_sel)
  show "get_mechanisms (hmac_token b) = [(CKM_SHA256_HMAC, hmac_info)]"
    by (simp add: get_mechanisms_def hmac_token_def)
qed

definition sample_signing :: "bool \<Rightarrow> (bytes \<Rightarrow> storage_auth_info option) std_storage lib_state" where
  "sample_signing b =
    snd (sign_init (std_storage user_raw) sample_hmac_ops 1 (Some sample_mechanism) 7 (hmac_lib b))"

definition sample_verifying :: "(bytes \<Rightarrow> storage_auth_info option) std_storage lib_state" where
  "sample_verifying =
    snd (verify_init (std_storage user_raw) sample_hmac_ops 1 (Some sample_mechanism) 7 (hmac_lib False))"

lemma sample_inits:
  "sign_init (std_storage user_raw) sample_hmac_ops 1 (Some sample_mechanism) 7 (hmac_lib b) =
    (Ok (), sample_signing b)"
  "verify_init (std_storage user_raw) sample_hmac_ops 1 (Some sample_mechanism) 7 (hmac_lib False) =
    (Ok (), sample_verifying)"
proof -
  have slot: "get_slot_id sample_session = 0" by (simp add: get_slot_id_def sample_session_def)
  have no: "op_check_no so_sign co_finalized (s_operations sample_session) = Ok ()"
    "op_check_no so_verify co_finalized (s_operations sample_session) = Ok ()"
    by (simp_all add: op_check_no_def sample_session_def new_session_operations_def)
  have m: "mechs_find (cm_mechanism sample_mechanism) [(CKM_SHA256_HMAC, hmac_info)] = Ok hmac_info"
    "has_flag CKF_SIGN (mi_flags hmac_info)" "has_flag CKF_VERIFY (mi_flags hmac_info)"
    by (simp_all add: mechs_find_def mechs_info_def sample_mechanism_def has_flag_def hmac_info_def)
  have ops: "is_ok (mo_sign_new (hmac_mech_ops toy_digests toy_codec sha256_entry) sample_mechanism (hmac_key b))"
    "is_ok (mo_verify_new (hmac_mech_ops toy_digests toy_codec sha256_entry) sample_mechanism (hmac_key False))"
    using hmac_new_op_sample[of CKF_SIGN b] hmac_new_op_sample[of CKF_VERIFY False]
    by (auto simp: hmac_mech_ops_def Let_def is_ok_iff)
  show "sign_init (std_storage user_raw) sample_hmac_ops 1 (Some sample_mechanism) 7 (hmac_lib b) =
      (Ok (), sample_signing b)"
    using ops(1) hmac_lib_sel no m slot unfolding sample_signing_def
    by (auto simp: sign_init_def op_init_def is_ok_iff hmac_key_sel with_session_mut_eq)
  show "verify_init (std_storage user_raw) sample_hmac_ops 1 (Some sample_mechanism) 7 (hmac_lib False) =
      (Ok (), sample_verifying)"
    using ops(2) hmac_lib_sel no m slot unfolding sample_verifying_def
    by (auto simp: verify_init_def op_init_def is_ok_iff hmac_key_sel with_session_mut_eq)
qed

lemma sample_init_key: "init_key sg 1 7 (hmac_lib b) = Ok (hmac_key b)"
  by (simp add: init_key_def hmac_lib_sel get_slot_id_def sample_session_def)


lemma sample_entry_applies:
  "(cm_mechanism sample_mechanism, sha256_entry) \<in> set HMAC_MECHS"
  "check_and_fetch_param sha256_entry sample_mechanism = Ok 32"
  "hmac_mech_to_hash_mech (cm_mechanism sample_mechanism) = Ok CKM_SHA256"
  using sha256_entry
  by (simp_all add: sample_mechanism_def check_and_fetch_param_def sha256_entry_def hmac_mech_to_hash_mech_def)

theorem hmac_signatures_witness:
  "fst (sign (std_storage user_raw) 1 (Some [9]) False (Some 32) (sample_signing False)) =
    (Ok (), take 32 (hmac_spec (toy_hash CKM_SHA256) (block_size CKM_SHA256) [1, 2, 3] [9]), Some 32)"
  using hmac_signatures[OF toy_contract sample_entry_applies(1) refl sample_inits(1)[of False] sample_init_key]
  by (simp add: hmac_key_sel sample_entry_applies Let_def)

theorem hmac_verification_witness:
  "fst (verify (std_storage user_raw) 1 (Some [9]) (Some [0]) sample_verifying) =
    fail_reply (CkError CKR_SIGNATURE_LEN_RANGE)"
proof -
  have len: "length (toy_hash m d) = hash_size m" for m d by (simp add: toy_hash_def)
  have "hash_size CKM_SHA256 = 32" by (simp add: hash_size_def HASH_MECH_SET_def)
  then have "verdict (take 32 (hmac_spec (toy_hash CKM_SHA256) (block_size CKM_SHA256) [1, 2, 3] [9])) [0] =
      fail_reply (CkError CKR_SIGNATURE_LEN_RANGE)"
    by (simp add: verdict_def hmac_spec_def len fail_reply_def)
  then show ?thesis
    using hmac_verification[OF toy_contract sample_entry_applies(1) refl sample_inits(2) sample_init_key]
    by (simp add: hmac_key_sel sample_entry_applies Let_def)
qed

definition sample_digest_op :: crypto_op where
  "sample_digest_op = (case hash_new toy_digests CKM_SHA256 of Inr op \<Rightarrow> hash_op toy_digests op)"

text \<open>A session that signs, verifies and digests.\<close>

definition busy_lib :: "(bytes \<Rightarrow> storage_auth_info option) std_storage lib_state" where
  "busy_lib = put_session 0 1
     (set_operation put_digest sample_digest_op False
       (set_operation put_sign sample_digest_op False
         (set_operation put_verify sample_digest_op False sample_session))) (hmac_lib False)"

lemma busy_lib_active:
  "active so_sign 1 busy_lib = Ok sample_digest_op" "active so_digest 1 busy_lib = Ok sample_digest_op"
  "active so_verify 1 busy_lib = Ok sample_digest_op" "co_fixed_len sample_digest_op = Ok 32"
proof -
  have op: "co_fixed_len sample_digest_op = Ok 32" "\<not> co_finalized sample_digest_op"
    by (simp_all add: sample_digest_op_def hash_new_def toy_digests_def hash_size_def HASH_MECH_SET_def)
  then show "co_fixed_len sample_digest_op = Ok 32" by simp
  show "active so_sign 1 busy_lib = Ok sample_digest_op" "active so_digest 1 busy_lib = Ok sample_digest_op"
    "active so_verify 1 busy_lib = Ok sample_digest_op"
    using op(2) unfolding busy_lib_def active_put_session(1)[OF hmac_lib_sel(1,3,2)]
    by (simp_all add: get_operation_def set_operation_def check_login_status_def op_get_def op_set_def
        put_digest_def put_sign_def put_verify_def)
qed

definition signing_lib :: "(bytes \<Rightarrow> storage_auth_info option) std_storage lib_state" where
  "signing_lib = put_session 0 1 (set_operation put_sign sample_digest_op False sample_session) (hmac_lib False)"

lemma signing_lib_active:
  "active so_sign 1 signing_lib = Ok sample_digest_op" "\<not> is_ok (active so_digest 1 signing_lib)"
proof -
  have l: "\<not> co_finalized sample_digest_op"
    using busy_lib_active(1) by (auto simp: active_Ok get_operation_def op_get_def and_then_eq_Ok split: option.splits if_splits)
  then show "active so_sign 1 signing_lib = Ok sample_digest_op" "\<not> is_ok (active so_digest 1 signing_lib)"
    unfolding signing_lib_def active_put_session(1)[OF hmac_lib_sel(1,3,2)]
    by (simp_all add: get_operation_def set_operation_def check_login_status_def op_get_def op_set_def
        put_sign_def sample_session_def new_session_operations_def)
qed

theorem length_query_keeps_operation_witness:
  "\<not> is_ok (active so_digest 1 signing_lib) \<and>
   fst (sign (std_storage user_raw) 1 (Some [9]) True (Some 0) signing_lib) = (Ok (), [], Some 32) \<and>
   fst (digest 1 (Some [9]) False (Some 31) busy_lib) = (Err CKR_BUFFER_TOO_SMALL, [], Some 32)"
  using length_query_keeps_operation[where n = 32 and null = True and len = 0 and h = 1 and st = signing_lib and
      sg = "std_storage user_raw" and d = "[9]"]
    length_query_keeps_operation[where n = 32 and null = False and len = 31 and h = 1 and st = busy_lib and
      sg = "std_storage user_raw" and d = "[9]"]
    signing_lib_active busy_lib_active(2,4) by simp

theorem dual_functions_compose_witness:
  "decrypt_digest_update 1 (Some [9]) False (Some 4) busy_lib =
     then_call (decrypt_update 1 (Some [9]) False (Some 4) busy_lib) (\<lambda>out. digest_update 1 (Some out)) \<and>
   overwritten True [5] [9] = [5]"
  using dual_functions_compose[OF busy_lib_active(2,1,3), of False "[9]" 4 "[5]"] by (simp add: overwritten_def)

end
