(* ===== verification/Keymgmt_Laws.thy ===== *)
theory Keymgmt_Laws
  imports Operation_Laws Attribute_Laws
begin

text \<open>
  What the key management functions of \<^verbatim>\<open>src/src/fns/keymgmt.rs\<close> guarantee whatever the mechanism: keys
  are used only as their attributes permit, templates stored with a key reach the mechanism, sessions
  that only read store no token keys, and calls that make several keys leave none behind when one of
  them cannot be stored.
\<close>

declare map_of_eq_Some_iff [simp del]

section \<open>What a successful call has checked\<close>

lemma mech_with_flag_Ok:
  "mech_with_flag f m t = Ok () \<longleftrightarrow>
    (\<exists>info. mechs_find (cm_mechanism m) (get_mechanisms t) = Ok info \<and> has_flag f (mi_flags info))"
  by (auto simp: mech_with_flag_def and_then_eq_Ok)

lemma allowed_mech_Ok: "allowed_mech m key = Ok () \<longleftrightarrow> check_allowed_mechs m key = CKR_OK"
  by (simp add: allowed_mech_def rv_result_def)

lemma init_key_Ok:
  assumes "locked_session h st = Ok s" and "get_token_from_slot_mut st (get_slot_id s) = Ok t"
    and "get_object_by_handle sg k t = Ok key"
  shows "init_key sg h k st = Ok key"
  using assms by (auto simp: init_key_def locked_session_def and_then_eq_Ok)

text \<open>The mechanism of a call, as the token of the session has it registered.\<close>

definition registered :: "ck_ulong \<Rightarrow> ck_flags \<Rightarrow> ck_mechanism \<Rightarrow> 's lib_state \<Rightarrow> bool" where
  "registered h f m st \<longleftrightarrow>
    (\<exists>s t. locked_session h st = Ok s \<and> get_token_from_slot_mut st (get_slot_id s) = Ok t \<and>
      mech_with_flag f m t = Ok ())"

lemma wrap_template_ok_all:
  "try_fold (wrap_template_ok key) u stored = Ok () \<longleftrightarrow>
    (\<forall>a \<in> set stored. \<exists>b. get_attr (ck_type a) key = Some b \<and> val b = val a)"
  by (induction stored arbitrary: u) (auto simp: wrap_template_ok_def split: option.splits)

lemma wrap_permitted_Ok:
  assumes "wrap_permitted wkey key = Ok ()"
  shows "get_attr_as_bool CKA_WRAP wkey = Ok True"
    and "get_attr_as_bool CKA_WRAP_WITH_TRUSTED key = Ok True \<Longrightarrow> get_attr_as_bool CKA_TRUSTED wkey = Ok True"
    and "get_attr CKA_WRAP_TEMPLATE wkey = Some wt \<Longrightarrow> to_template wt = Ok stored \<Longrightarrow> a \<in> set stored \<Longrightarrow>
      \<exists>b. get_attr (ck_type a) key = Some b \<and> val b = val a"
proof -
  obtain w r where w: "get_attr_as_bool CKA_WRAP wkey = Ok w" "w"
    and r: "get_attr_as_bool CKA_WRAP_WITH_TRUSTED key = Ok r"
    and rest: "and_then (if r then
         and_then (get_attr_as_bool CKA_TRUSTED wkey) (\<lambda>trusted.
           if \<not> trusted then Err CKR_WRAPPING_KEY_HANDLE_INVALID else Ok ())
       else Ok ()) (\<lambda>_.
      case get_attr CKA_WRAP_TEMPLATE wkey of
        None \<Rightarrow> Ok ()
      | Some wt \<Rightarrow> and_then (to_template wt) (try_fold (wrap_template_ok key) ())) = Ok ()"
    using assms by (auto simp: wrap_permitted_def and_then_eq_Ok split: if_split_asm)
  show "get_attr_as_bool CKA_WRAP wkey = Ok True" using w by simp
  show "get_attr_as_bool CKA_TRUSTED wkey = Ok True" if "get_attr_as_bool CKA_WRAP_WITH_TRUSTED key = Ok True"
    using that r rest by (auto simp: and_then_eq_Ok split: if_split_asm)
  show "\<exists>b. get_attr (ck_type a) key = Some b \<and> val b = val a"
    if "get_attr CKA_WRAP_TEMPLATE wkey = Some wt" "to_template wt = Ok stored" "a \<in> set stored"
    using that rest by (auto simp: and_then_eq_Ok wrap_template_ok_all)
qed

lemma wrap_key_Ok:
  assumes "fst (wrap_key sg mops h (Some m) wk k null (Some len) st) = Ok ()"
  obtains wkey key where "init_key sg h wk st = Ok wkey" and "init_key sg h k st = Ok key"
    and "check_allowed_mechs m wkey = CKR_OK" and "registered h CKF_WRAP m st"
    and "wrap_permitted wkey key = Ok ()"
proof -
  obtain s t key wkey factory where "locked_session h st = Ok s" "get_token_from_slot_mut st (get_slot_id s) = Ok t"
      "get_object_by_handle sg k t = Ok key" "get_object_by_handle sg wk t = Ok wkey" "allowed_mech m wkey = Ok ()"
      "mech_with_flag CKF_WRAP m t = Ok ()" "wrap_permitted wkey key = Ok ()"
    using assms by (auto simp: wrap_key_def fail_reply_def and_then_eq_Ok split: sum.splits)
  then show ?thesis
    using that[of wkey key] init_key_Ok[of h st s t sg k key] init_key_Ok[of h st s t sg wk wkey]
    by (auto simp: registered_def allowed_mech_Ok)
qed

section \<open>Templates stored with a key\<close>

text \<open>A template that has, for every attribute stored, an entry that matches it or is a copy of it.\<close>

definition obeys :: "attribute \<Rightarrow> ck_attrs \<Rightarrow> bool" where
  "obeys wt tmpl \<longleftrightarrow>
    (\<exists>stored. to_template wt = Ok stored \<and>
      (\<forall>a \<in> set stored. \<exists>r \<in> set tmpl. attr_type r = ck_type a \<and>
        (match_ck_attr a r \<or> r = ck_attr_of (ck_type a) (val a))))"

lemma merged_obeys:
  assumes "merge_template_attribute wt request = Ok merged" and "length (val wt) < usize_range"
  shows "obeys wt merged" and "set request \<subseteq> set merged"
proof -
  obtain st where st: "to_template wt = Ok st"
      "try_fold (merge_step request) request st = Ok merged \<or> st = [] \<and> merged = request"
    using assms(1)
    by (auto simp: merge_template_attribute_def and_then_eq_Ok merge_step_def[abs_def] split: if_splits)
  have short: "\<forall>a \<in> set st. length (val a) < usize_range"
    using st(1) deserialized_short[OF _ assms(2)] by (auto simp: to_template_def split: if_splits)
  have m: "merged = request @ map (\<lambda>s. ck_attr_of (ck_type s) (val s))
        (filter (\<lambda>s. List.find (\<lambda>a. attr_type a = ck_type s) request = None) st)"
    and r: "\<And>s r. s \<in> set st \<Longrightarrow> List.find (\<lambda>a. attr_type a = ck_type s) request = Some r \<Longrightarrow> match_ck_attr s r"
    using st merge_loop_OkD[OF _ short, of request request merged] by auto
  have "\<exists>r \<in> set merged. attr_type r = ck_type a \<and>
      (match_ck_attr a r \<or> r = ck_attr_of (ck_type a) (val a))" if a: "a \<in> set st" for a
  proof (cases "List.find (\<lambda>x. attr_type x = ck_type a) request")
    case None
    then have "ck_attr_of (ck_type a) (val a) \<in> set merged" using a by (auto simp: m)
    then show ?thesis by (intro bexI[of _ "ck_attr_of (ck_type a) (val a)"]) simp_all
  next
    case (Some r')
    have "attr_type r' = ck_type a" and "r' \<in> set request"
      using Some by (auto simp: find_Some_iff)
    then show ?thesis using r[OF a Some] by (auto simp: m)
  qed
  then show "obeys wt merged" using st(1) by (auto simp: obeys_def)
  show "set request \<subseteq> set merged" by (simp add: m)
qed

text \<open>An attribute of a template reaches the key that is derived.\<close>

lemma derived_attribute:
  assumes "internal_key_derive fd uuid tmpl origin = Ok k" and "a \<in> set tmpl"
    and "\<forall>dt. get_attr CKA_DERIVE_TEMPLATE origin = Some dt \<longrightarrow> length (val dt) < usize_range"
    and "find_oattr fd (attr_type a) = Some fa" and "\<not> oa_is fa Ignored"
    and "attr_type a \<notin> {CKA_CLASS, CKA_UNIQUE_ID, CKA_LOCAL, CKA_ALWAYS_SENSITIVE, CKA_NEVER_EXTRACTABLE}"
  shows "\<exists>x. from_ck_attr a = Ok x \<and> get_attr (attr_type a) k = Some x"
proof -
  obtain full o0 o1 o2 where steps:
      "(case get_attr CKA_DERIVE_TEMPLATE origin of
         Some dt \<Rightarrow> merge_template_attribute dt tmpl | None \<Rightarrow> Ok tmpl) = Ok full"
      "internal_key_create fd uuid full (SettableOnlyOnCreate OR NeverSettable) AlwaysRequired = Ok o0"
      "set_attr (from_bool CKA_LOCAL False) o0 = Ok o1" "derive_always_sensitive origin o1 = Ok o2"
      "derive_never_extractable origin o2 = Ok k"
    using assms(1) by (auto simp: internal_key_derive_def and_then_eq_Ok)
  have in_full: "a \<in> set full"
    using steps(1) assms(2,3) merged_obeys(2) by (auto split: option.splits)
  obtain o' where o': "internal_object_create fd full (SettableOnlyOnCreate OR NeverSettable) AlwaysRequired = Ok o'"
      "o0 = generate_unique uuid o'"
    using steps(2) by (rule internal_key_createE)
  obtain o'' where t: "template_taken fd (SettableOnlyOnCreate OR NeverSettable) full o''"
      "defaults_added o'' (fd_attributes fd) AlwaysRequired o'"
    using o'(1) by (rule internal_object_createE)
  obtain x where x: "from_ck_attr a = Ok x" "get_attr (attr_type a) o'' = Some x"
    using t(1) in_full assms(4-6) by (fastforce simp: template_taken_def)
  have "get_attr (attr_type a) o' = Some x" using t(2) x(2) by (auto simp: defaults_added_def)
  then have "get_attr (attr_type a) o0 = Some x"
    using o'(2) assms(6) get_attr_unique_other[of "attr_type a" uuid o'] by simp
  moreover obtain b1 where "set_attr (from_bool CKA_ALWAYS_SENSITIVE b1) o1 = Ok o2"
    using steps(4) by (auto simp: derive_always_sensitive_def split: sum.splits if_splits)
  moreover obtain b2 where "set_attr (from_bool CKA_NEVER_EXTRACTABLE b2) o2 = Ok k"
    using steps(5) by (auto simp: derive_never_extractable_def split: sum.splits if_splits)
  ultimately have "get_attr (attr_type a) k = Some x"
    using assms(6) get_attr_set[OF steps(3)] by (simp add: get_attr_set from_bool_def mk_attribute_def)
  then show ?thesis using x(1) by blast
qed


lemma with_key_template_Ok:
  assumes "with_key_template t key request = Ok tmpl"
  shows "get_attr t key = None \<Longrightarrow> tmpl = request"
    and "get_attr t key = Some wt \<Longrightarrow> length (val wt) < usize_range \<Longrightarrow>
      obeys wt tmpl \<and> set request \<subseteq> set tmpl"
  using assms merged_obeys[of wt request tmpl] by (simp_all add: with_key_template_def)

definition stored_template_applies :: "ck_ulong \<Rightarrow> object \<Rightarrow> ck_attrs \<Rightarrow> ck_attrs \<Rightarrow> bool" where
  "stored_template_applies t key request tmpl \<longleftrightarrow>
    (case get_attr t key of
       None \<Rightarrow> tmpl = request
     | Some wt \<Rightarrow> length (val wt) < usize_range \<longrightarrow> obeys wt tmpl \<and> set request \<subseteq> set tmpl)"

lemma with_key_template_applies:
  "with_key_template t key request = Ok tmpl \<Longrightarrow> stored_template_applies t key request tmpl"
  using with_key_template_Ok[of t key request tmpl]
  by (auto simp: stored_template_applies_def split: option.split)

text \<open>A call that made a key and stored it.\<close>

lemma with_token_mut_Ok:
  assumes "with_token_mut sid f st = (Ok r, st1)"
  obtains t t1 where "get_token_from_slot_mut st sid = Ok t" and "f t = (Ok r, t1)"
    and "st1 = put_token sid t1 st"
  using assms by (auto simp: with_token_mut_def split: sum.splits prod.splits)

lemma unwrap_key_Ok:
  assumes "unwrap_key sg mops h (Some m) k (Some data) (Some request) False st = (Ok kh, st1)"
  obtains key tmpl factory obj sid t t1 where "init_key sg h k st = Ok key"
    and "get_attr_as_bool CKA_UNWRAP key = Ok True" and "check_allowed_mechs m key = CKR_OK"
    and "registered h CKF_WRAP m st" and "stored_template_applies CKA_UNWRAP_TEMPLATE key request tmpl"
    and "mo_unwrap_key (mops (cm_mechanism m)) m key data tmpl factory = Ok obj"
    and "get_token_from_slot_mut st sid = Ok t" and "insert_object sg h obj t = (Ok kh, t1)"
    and "st1 = put_token sid t1 st"
proof -
  obtain s t key tmpl factory obj where r: "locked_session h st = Ok s"
      "get_token_from_slot_mut st (get_slot_id s) = Ok t"
      "get_object_by_handle sg k t = Ok key" "allowed_mech m key = Ok ()"
      "mech_with_flag CKF_WRAP m t = Ok ()" "get_attr_as_bool CKA_UNWRAP key = Ok True"
      "with_key_template CKA_UNWRAP_TEMPLATE key request = Ok tmpl"
      "mo_unwrap_key (mops (cm_mechanism m)) m key data tmpl factory = Ok obj"
      "with_token_mut (get_slot_id s) (insert_object sg h obj) st = (Ok kh, st1)"
    using assms
    by (auto simp: unwrap_key_def template_arg_def and_then_eq_Ok split: sum.splits if_split_asm)
  obtain t' t1 where "get_token_from_slot_mut st (get_slot_id s) = Ok t'" "insert_object sg h obj t' = (Ok kh, t1)"
      "st1 = put_token (get_slot_id s) t1 st"
    by (rule with_token_mut_Ok[OF r(9)])
  then show ?thesis
    using that[OF init_key_Ok[OF r(1-3)] r(6) _ _ with_key_template_applies[OF r(7)] r(8)] r
    by (auto simp: registered_def allowed_mech_Ok)
qed

lemma kem_checks_Ok:
  assumes "kem_checks sg kt flag h m k (Some request) st = Ok (sid, key, tmpl, factory)"
  shows "init_key sg h k st = Ok key" and "check_allowed_mechs m key = CKR_OK"
    and "registered h flag m st" and "stored_template_applies kt key request tmpl"
proof -
  obtain s t where r: "locked_session h st = Ok s" "get_token_from_slot_mut st (get_slot_id s) = Ok t"
      "get_object_by_handle sg k t = Ok key" "allowed_mech m key = Ok ()" "mech_with_flag flag m t = Ok ()"
      "with_key_template kt key request = Ok tmpl"
    using assms by (auto simp: kem_checks_def template_arg_def and_then_eq_Ok)
  then show "init_key sg h k st = Ok key" and "check_allowed_mechs m key = CKR_OK"
    and "registered h flag m st" and "stored_template_applies kt key request tmpl"
    using init_key_Ok[OF r(1-3)] with_key_template_applies[OF r(6)]
    by (auto simp: registered_def allowed_mech_Ok)
qed

lemma decapsulate_key_Ok:
  assumes "decapsulate_key sg mops h (Some m) k (Some request) (Some data) False st = (Ok kh, st1)"
  obtains key tmpl factory obj sid t t1 where "init_key sg h k st = Ok key"
    and "check_allowed_mechs m key = CKR_OK" and "registered h CKF_DECAPSULATE m st"
    and "stored_template_applies CKA_DECAPSULATE_TEMPLATE key request tmpl"
    and "mo_decapsulate (mops (cm_mechanism m)) m key factory tmpl data = Ok obj"
    and "get_token_from_slot_mut st sid = Ok t" and "insert_object sg h obj t = (Ok kh, t1)"
    and "st1 = put_token sid t1 st"
proof -
  obtain sid key tmpl factory obj where
    c: "kem_checks sg CKA_DECAPSULATE_TEMPLATE CKF_DECAPSULATE h m k (Some request) st = Ok (sid, key, tmpl, factory)"
    and o: "mo_decapsulate (mops (cm_mechanism m)) m key factory tmpl data = Ok obj"
    and w: "with_token_mut sid (insert_object sg h obj) st = (Ok kh, st1)"
    using assms by (auto simp: decapsulate_key_def and_then_eq_Ok split: sum.splits prod.splits)
  obtain t t1 where "get_token_from_slot_mut st sid = Ok t" "insert_object sg h obj t = (Ok kh, t1)"
      "st1 = put_token sid t1 st"
    by (rule with_token_mut_Ok[OF w])
  then show ?thesis using that[OF kem_checks_Ok[OF c] o] by blast
qed

lemma encapsulate_key_Ok:
  assumes "encapsulate_key sg mops h (Some m) k (Some request) False (Some len) False st = (((Ok (), out, l), kh), st1)"
  obtains key tmpl factory obj sid t t1 kh' where "init_key sg h k st = Ok key"
    and "check_allowed_mechs m key = CKR_OK" and "registered h CKF_ENCAPSULATE m st"
    and "stored_template_applies CKA_ENCAPSULATE_TEMPLATE key request tmpl"
    and "mo_encapsulate (mops (cm_mechanism m)) m key factory tmpl (unat len) = Ok (obj, out)"
    and "get_token_from_slot_mut st sid = Ok t" and "insert_object sg h obj t = (Ok kh', t1)"
    and "st1 = put_token sid t1 st" and "kh = Some kh'"
proof -
  obtain sid key tmpl factory obj kh' where
    c: "kem_checks sg CKA_ENCAPSULATE_TEMPLATE CKF_ENCAPSULATE h m k (Some request) st = Ok (sid, key, tmpl, factory)"
    and o: "mo_encapsulate (mops (cm_mechanism m)) m key factory tmpl (unat len) = Ok (obj, out)"
    and w: "with_token_mut sid (insert_object sg h obj) st = (Ok kh', st1)" "kh = Some kh'"
    using assms
    by (auto simp: encapsulate_key_def and_then_eq_Ok fail_reply_def split: sum.splits prod.splits if_split_asm)
  obtain t t1 where "get_token_from_slot_mut st sid = Ok t" "insert_object sg h obj t = (Ok kh', t1)"
      "st1 = put_token sid t1 st"
    by (rule with_token_mut_Ok[OF w(1)])
  then show ?thesis using that[OF kem_checks_Ok[OF c] o] w(2) by blast
qed

lemma derive_key_Ok:
  assumes "derive_key sg mops h (Some m) k (Some request) kh_null st = (Ok d, st1)"
  obtains key where "init_key sg h k st = Ok key" and "check_allowed_mechs m key = CKR_OK"
    and "registered h CKF_DERIVE m st" and "derive_permitted m key = Ok ()"
proof -
  obtain s t key where r: "locked_session h st = Ok s" "get_token_from_slot_mut st (get_slot_id s) = Ok t"
      "get_object_by_handle sg k t = Ok key" "allowed_mech m key = Ok ()" "mech_with_flag CKF_DERIVE m t = Ok ()"
      "derive_permitted m key = Ok ()"
    using assms
    by (auto simp: derive_key_def template_arg_def and_then_eq_Ok split: sum.splits prod.splits if_split_asm)
  then show ?thesis
    using that[of key] init_key_Ok[OF r(1-3)] by (auto simp: registered_def allowed_mech_Ok)
qed

section \<open>Keys made together\<close>

lemma update_fresh: "k \<notin> fst ` set xs \<Longrightarrow> AList.update k v xs = xs @ [(k, v)]"
  by (induction xs) auto

text \<open>A session object that is stored is appended; one that is refused changes no session object.\<close>

lemma insert_session_appends:
  assumes "token_ok t" and "\<not> is_token obj" and "insert_object sg h obj t = (Ok k, t1)"
  shows "tk_session_objects t1 = tk_session_objects t @ [(k, set_session h (set_handle k obj))]"
    and "k \<notin> fst ` set (tk_session_objects t)"
proof -
  obtain hs u hs1 where nx: "handles_next (token_handles t) = (k, hs)" and i: "handles_insert k u hs = Ok hs1"
      and t1: "t1 = put_session_object k (set_session h (set_handle k obj)) (put_handles hs1 t)"
    using assms(2,3)
    by (auto simp: insert_object_def Let_def get_attr_handle attr_as_defs split: prod.splits sum.splits)
  have wf: "wf_handles (token_handles t)" using assms(1) by (simp add: token_ok_def)
  note a = hm.allocate[OF wf nx i]
  show fresh: "k \<notin> fst ` set (tk_session_objects t)"
    using a assms(1) by (fastforce simp: token_ok_def)
  then show "tk_session_objects t1 = tk_session_objects t @ [(k, set_session h (set_handle k obj))]"
    by (simp add: t1 put_session_object_def update_fresh)
qed

lemma insert_refused:
  assumes "insert_object sg h obj t = (Inl e, t1)"
  shows "tk_session_objects t1 = tk_session_objects t"
  using assms
  by (auto simp: insert_object_def Let_def split: prod.splits sum.splits if_split_asm)

lemma destroyable_stored [simp]: "is_destroyable (set_session h (set_handle k obj)) = is_destroyable obj"
  by (simp add: is_destroyable_def bool_checker_def get_attr_handle)

lemma destroy_session_object:
  assumes "session_object k t = Some obj" and "is_destroyable obj"
  shows "tk_session_objects (snd (destroy_object sg k t)) = filter (\<lambda>p. fst p \<noteq> k) (tk_session_objects t)"
  using assms by (simp add: destroy_object_def forget_handle_def)

lemma destroy_session_objects:
  assumes "\<forall>k \<in> set ks. \<exists>obj. session_object k t = Some obj \<and> is_destroyable obj" and "distinct ks"
  shows "tk_session_objects (fold (\<lambda>k t. snd (destroy_object sg k t)) ks t) =
    filter (\<lambda>p. fst p \<notin> set ks) (tk_session_objects t)"
  using assms
proof (induction ks arbitrary: t)
  case (Cons k ks)
  obtain obj where o: "session_object k t = Some obj" "is_destroyable obj" using Cons.prems by auto
  have d: "tk_session_objects (snd (destroy_object sg k t)) = filter (\<lambda>p. fst p \<noteq> k) (tk_session_objects t)"
    by (rule destroy_session_object[OF o])
  have "map_of (filter (\<lambda>p. fst p \<noteq> k) xs) j = map_of xs j" if "j \<noteq> k" for j and xs :: "(ck_ulong \<times> object) list"
    using that by (induction xs) auto
  then have "session_object j (snd (destroy_object sg k t)) = session_object j t" if "j \<noteq> k" for j
    using that by (simp add: session_object_def d)
  then have "\<forall>j \<in> set ks. \<exists>obj. session_object j (snd (destroy_object sg k t)) = Some obj \<and> is_destroyable obj"
    using Cons.prems by (metis distinct.simps(2) list.set_intros(2))
  then show ?case using Cons.IH[of "snd (destroy_object sg k t)"] Cons.prems(2)
    by (auto simp: d intro: filter_cong)
qed simp

definition session_destroyable :: "object \<Rightarrow> bool" where
  "session_destroyable obj \<longleftrightarrow> \<not> is_token obj \<and> is_destroyable obj"

lemma insert_pair_failed:
  assumes "token_ok t" and "session_destroyable pubkey" and "insert_pair (std_storage raw) h pubkey privkey t = (Inl e, t1)"
  shows "tk_session_objects t1 = tk_session_objects t"
proof (cases "insert_object (std_storage raw) h pubkey t")
  case (Pair r ta)
  show ?thesis
  proof (cases r)
    case (Inl e')
    then show ?thesis using Pair assms(3) insert_refused by (fastforce simp: insert_pair_def)
  next
    case (Inr k)
    note a = insert_session_appends[OF assms(1) _ Pair[unfolded Inr]]
    obtain tb where b: "insert_object (std_storage raw) h privkey ta = (Inl e, tb)"
        and t1: "t1 = snd (destroy_object (std_storage raw) k tb)"
      using assms(3) Pair Inr by (auto simp: insert_pair_def split: prod.splits sum.splits)
    have s: "tk_session_objects tb = tk_session_objects t @ [(k, set_session h (set_handle k pubkey))]"
        "k \<notin> fst ` set (tk_session_objects t)"
      using insert_refused[OF b] a assms(2) by (simp_all add: session_destroyable_def)
    have "session_object k tb = Some (set_session h (set_handle k pubkey))"
      using s by (simp add: session_object_def map_add_def map_of_eq_None_iff[THEN iffD2])
    moreover have "is_destroyable (set_session h (set_handle k pubkey))"
      using assms(2) unfolding destroyable_stored session_destroyable_def by simp
    ultimately have "tk_session_objects t1 = filter (\<lambda>p. fst p \<noteq> k) (tk_session_objects tb)"
      unfolding t1 by (rule destroy_session_object)
    then show ?thesis using s by (auto simp: filter_id_conv image_iff)
  qed
qed

lemma insert_objects_failed:
  assumes "token_ok t" and "list_all session_destroyable objs"
    and "tk_session_objects t = base @ added" and "map fst added = ah" and "list_all (is_destroyable \<circ> snd) added"
    and "insert_objects (std_storage raw) h [] ah objs t = (Inl e, t1)"
  shows "tk_session_objects t1 = base"
  using assms
proof (induction objs arbitrary: t added ah)
  case (Cons o1 objs)
  have d: "distinct (map fst base @ map fst added)" using Cons.prems(1,3) by (simp add: token_ok_def)
  show ?case
  proof (cases "insert_object (std_storage raw) h o1 t")
    case (Pair r ta)
    have ok: "token_ok ta" using tok.ok_insert_object[OF Cons.prems(1)] Pair by (metis snd_conv)
    show ?thesis
    proof (cases r)
      case (Inl e')
      have ta: "tk_session_objects ta = base @ added"
        using insert_refused[OF Pair[unfolded Inl]] Cons.prems(3) by simp
      have "\<exists>obj. session_object k ta = Some obj \<and> is_destroyable obj" if "k \<in> set ah" for k
      proof -
        have "k \<in> set (map fst added)" using that Cons.prems(4) by simp
        then obtain obj where o: "(k, obj) \<in> set added" by auto
        then have "map_of (base @ added) k = Some obj" using d by (intro map_of_is_SomeI) auto
        then show ?thesis using o Cons.prems(5) ta by (auto simp: session_object_def list_all_iff)
      qed
      moreover have "t1 = fold (\<lambda>k t. snd (destroy_object (std_storage raw) k t)) ah ta"
        using Cons.prems(6) Pair Inl by simp
      ultimately have "tk_session_objects t1 = filter (\<lambda>p. fst p \<notin> set ah) (base @ added)"
        using destroy_session_objects[of ah ta "std_storage raw"] d Cons.prems(4) ta by simp
      also have "\<dots> = base"
      proof -
        have "filter (\<lambda>p. fst p \<notin> set ah) base = base"
          using d Cons.prems(4) by (intro filter_True) (auto simp: disjoint_iff)
        moreover have "filter (\<lambda>p. fst p \<notin> set ah) added = []"
          unfolding filter_empty_conv Cons.prems(4)[symmetric] by force
        ultimately show ?thesis by simp
      qed
      finally show ?thesis .
    next
      case (Inr k)
      have a: "tk_session_objects ta = base @ added @ [(k, set_session h (set_handle k o1))]"
        using insert_session_appends(1)[OF Cons.prems(1) _ Pair[unfolded Inr]] Cons.prems(2,3)
        by (simp add: session_destroyable_def)
      show ?thesis
        by (rule Cons.IH[OF ok _ a])
          (use Cons.prems Pair Inr in \<open>simp_all add: session_destroyable_def\<close>)
    qed
  qed
qed simp

lemma store_key_material_failed:
  assumes ok: "token_ok t" and objs: "list_all session_destroyable objs"
    and run: "store_key_material (std_storage raw) h m objs t = (Inl e, t1)" and "e \<noteq> Panic"
  shows "tk_session_objects t1 = tk_session_objects t"
proof (cases "is_ok (get_parameters 80 key_mat_struct m) \<and> (length objs = 2 \<or> length objs = 4)")
  case True
  then obtain b where b: "get_parameters 80 key_mat_struct m = Ok b" by (auto simp: is_ok_iff)
  show ?thesis
  proof (cases "insert_objects (std_storage raw) h [] [] objs t")
    case (Pair r ta)
    show ?thesis
    proof (cases r)
      case (Inl e')
      have "t1 = ta" using run True b Pair Inl by (simp add: store_key_material_def split: if_split_asm)
      moreover have "tk_session_objects ta = tk_session_objects t"
        by (rule insert_objects_failed[OF ok objs, where added = "[]" and ah = "[]" and raw = raw and h = h and e = e'])
          (simp_all add: Pair Inl)
      ultimately show ?thesis by simp
    next
      case (Inr ah)
      then show ?thesis
        using run True b Pair \<open>e \<noteq> Panic\<close> by (simp add: store_key_material_def split: if_split_asm)
    qed
  qed
next
  case False
  show ?thesis
  proof (cases "get_parameters 80 key_mat_struct m")
    case (Inl e')
    then show ?thesis using run by (simp add: store_key_material_def)
  next
    case (Inr b)
    then show ?thesis using run False by (simp add: store_key_material_def)
  qed
qed

text \<open>What a session object is stored as: under its handle, with the session that made it.\<close>

definition stored_entry :: "ck_ulong \<Rightarrow> ck_ulong \<times> object \<Rightarrow> ck_ulong \<times> object" where
  "stored_entry h p = (fst p, set_session h (set_handle (fst p) (snd p)))"

lemma insert_session_entry:
  assumes "token_ok t" and "\<not> is_token obj" and "insert_object sg h obj t = (Ok k, t1)"
  shows "tk_session_objects t1 = tk_session_objects t @ [stored_entry h (k, obj)]"
  using insert_session_appends(1)[OF assms] by (simp add: stored_entry_def)

lemma insert_token_stored:
  assumes "is_token obj" and "insert_object sg h obj t = (Ok k, t1)"
  shows "tk_session_objects t1 = tk_session_objects t"
    and "sg_store sg obj (tk_storage t, tk_facilities t) = (Ok k, tk_storage t1, tk_facilities t1)"
  using assms by (auto simp: insert_object_def split: prod.splits if_split_asm)

lemma insert_session_storage:
  assumes "\<not> is_token obj" and "insert_object sg h obj t = (r, t1)"
  shows "tk_storage t1 = tk_storage t"
  using assms
  by (auto simp: insert_object_def Let_def put_handles_def put_session_object_def split: prod.splits sum.splits)

lemma token_ok_distinct: "token_ok t \<Longrightarrow> distinct (map fst (tk_session_objects t))"
  by (simp add: token_ok_def)

lemma insert_pair_stored:
  assumes ok: "token_ok t" and pub: "\<not> is_token pubkey"
    and run: "insert_pair (std_storage raw) h pubkey privkey t = (Ok (pubh, privh), t1)"
  shows "distinct (map fst (tk_session_objects t1))"
    and "\<not> is_token privkey \<Longrightarrow>
      tk_session_objects t1 = tk_session_objects t @ [stored_entry h (pubh, pubkey), stored_entry h (privh, privkey)]"
    and "is_token privkey \<Longrightarrow> tk_session_objects t1 = tk_session_objects t @ [stored_entry h (pubh, pubkey)]"
    and "is_token privkey \<Longrightarrow> \<exists>fac. sg_store (std_storage raw) privkey (tk_storage t, fac) =
      (Ok privh, tk_storage t1, tk_facilities t1)"
proof -
  obtain ta where a: "insert_object (std_storage raw) h pubkey t = (Ok pubh, ta)"
    and b: "insert_object (std_storage raw) h privkey ta = (Ok privh, t1)"
    using run by (auto simp: insert_pair_def st_then_def split: prod.splits sum.splits)
  have oka: "token_ok ta" using tok.ok_insert_object[OF ok] a by (metis snd_conv)
  have "token_ok t1" using tok.ok_insert_object[OF oka] b by (metis snd_conv)
  then show "distinct (map fst (tk_session_objects t1))" by (rule token_ok_distinct)
  note e = insert_session_entry[OF ok pub a]
  show "\<not> is_token privkey \<Longrightarrow>
      tk_session_objects t1 = tk_session_objects t @ [stored_entry h (pubh, pubkey), stored_entry h (privh, privkey)]"
    using insert_session_entry[OF oka _ b] e by simp
  show "is_token privkey \<Longrightarrow> tk_session_objects t1 = tk_session_objects t @ [stored_entry h (pubh, pubkey)]"
    using insert_token_stored(1)[OF _ b] e by simp
  show "is_token privkey \<Longrightarrow> \<exists>fac. sg_store (std_storage raw) privkey (tk_storage t, fac) =
      (Ok privh, tk_storage t1, tk_facilities t1)"
    using insert_token_stored(2)[OF _ b] insert_session_storage[OF pub a] by auto
qed

lemma insert_objects_stored:
  assumes "token_ok t" and "list_all session_destroyable objs"
    and "insert_objects (std_storage raw) h others ah objs t = (Ok ks, t1)"
  shows "\<exists>ns. ks = ah @ ns \<and> length ns = length objs \<and> token_ok t1 \<and>
    tk_session_objects t1 = tk_session_objects t @ map (stored_entry h) (zip ns objs)"
  using assms
proof (induction objs arbitrary: t ah)
  case (Cons o1 objs)
  obtain k ta where a: "insert_object (std_storage raw) h o1 t = (Ok k, ta)"
      and b: "insert_objects (std_storage raw) h others (ah @ [k]) objs ta = (Ok ks, t1)"
    using Cons.prems(3) by (auto split: prod.splits sum.splits)
  have ok: "token_ok ta" using tok.ok_insert_object[OF Cons.prems(1)] a by (metis snd_conv)
  have "session_destroyable o1" and objs: "list_all session_destroyable objs" using Cons.prems(2) by simp_all
  then have "\<not> is_token o1" by (simp add: session_destroyable_def)
  note e = insert_session_entry[OF Cons.prems(1) this a]
  obtain ns where ns: "ks = (ah @ [k]) @ ns" "length ns = length objs" "token_ok t1"
      "tk_session_objects t1 = tk_session_objects ta @ map (stored_entry h) (zip ns objs)"
    using Cons.IH[OF ok objs b] by blast
  then show ?case using e by (intro exI[of _ "k # ns"]) simp
qed simp

lemma store_key_material_stored:
  assumes "token_ok t" and "list_all session_destroyable objs"
    and "store_key_material (std_storage raw) h m objs t = (Ok d, t1)"
  shows "length (de_material d) = length objs \<and> distinct (map fst (tk_session_objects t1)) \<and>
    tk_session_objects t1 = tk_session_objects t @ map (stored_entry h) (zip (de_material d) objs)"
proof -
  obtain ks where "insert_objects (std_storage raw) h [] [] objs t = (Ok ks, t1)" "de_material d = ks"
    using assms(3)
    by (auto simp: store_key_material_def st_then_def split: sum.splits prod.splits if_split_asm)
  then obtain ns where ns: "de_material d = ns" "length ns = length objs" "token_ok t1"
      "tk_session_objects t1 = tk_session_objects t @ map (stored_entry h) (zip ns objs)"
    using insert_objects_stored[OF assms(1,2), of raw h "[]" "[]" ks t1] by auto
  show ?thesis using token_ok_distinct[OF ns(3)] ns(1,2,4) by simp
qed

text \<open>
  C15. A call that makes several keys stores all of them or none (\<^verbatim>\<open>generate_key_pair\<close>, \<^verbatim>\<open>derive_key\<close> for
  the key material of TLS). When it succeeds, the session objects are those from before and, in this
  order, the keys that were made, each under a handle of its own, which is the one the call gives out; a
  private key that is a token object is in the storage of the token instead. When one of them is refused,
  the session objects are those from before the call. It holds for a public key and for key material that
  are session objects and may be destroyed, and short of a panic, which comes after the storing when the
  structure for the handles of the key material is null.
\<close>

theorem keys_made_together_or_not_at_all:
  assumes "token_reachable raw t" and "session_destroyable pubkey" and "list_all session_destroyable objs"
  shows "(case insert_pair (std_storage raw) h pubkey privkey t of
      (Inl e, t1) \<Rightarrow> tk_session_objects t1 = tk_session_objects t
    | (Inr (pubh, privh), t1) \<Rightarrow>
        distinct (map fst (tk_session_objects t1)) \<and>
        (if is_token privkey
         then tk_session_objects t1 = tk_session_objects t @ [stored_entry h (pubh, pubkey)] \<and>
           (\<exists>fac. sg_store (std_storage raw) privkey (tk_storage t, fac) = (Ok privh, tk_storage t1, tk_facilities t1))
         else tk_session_objects t1 =
           tk_session_objects t @ [stored_entry h (pubh, pubkey), stored_entry h (privh, privkey)])) \<and>
    (case store_key_material (std_storage raw) h m objs t of
      (Inl e, t1) \<Rightarrow> e \<noteq> Panic \<longrightarrow> tk_session_objects t1 = tk_session_objects t
    | (Inr d, t1) \<Rightarrow>
        length (de_material d) = length objs \<and> distinct (map fst (tk_session_objects t1)) \<and>
        tk_session_objects t1 = tk_session_objects t @ map (stored_entry h) (zip (de_material d) objs))"
    (is "?pair \<and> ?material")
proof
  note ok = token_reachable_ok[OF assms(1)]
  have pub: "\<not> is_token pubkey" using assms(2) by (simp add: session_destroyable_def)
  show ?pair
  proof (cases "insert_pair (std_storage raw) h pubkey privkey t")
    case (Pair r t1)
    show ?thesis
    proof (cases r)
      case (Inl e)
      then show ?thesis using insert_pair_failed[OF ok assms(2)] Pair by simp
    next
      case (Inr p)
      then show ?thesis using insert_pair_stored[OF ok pub, of raw h privkey "fst p" "snd p" t1] Pair by (cases p) simp
    qed
  qed
  show ?material
  proof (cases "store_key_material (std_storage raw) h m objs t")
    case (Pair r t1)
    show ?thesis
    proof (cases r)
      case (Inl e)
      then show ?thesis using store_key_material_failed[OF ok assms(3)] Pair by simp
    next
      case (Inr d)
      show ?thesis
        using store_key_material_stored[OF ok assms(3) Pair[unfolded Inr]] unfolding Pair Inr prod.case sum.case .
    qed
  qed
qed

text \<open>
  C12. A key is wrapped only as the keys permit (\<^verbatim>\<open>wrap_key\<close>): under a key that has \<^verbatim>\<open>CKA_WRAP\<close>, that
  allows the mechanism, that is trusted when the wrapped key asks for it, and whose wrap template the
  wrapped key satisfies; and with a mechanism that the token has for wrapping.
\<close>

theorem wrapping_is_permitted:
  assumes "fst (wrap_key sg mops h (Some m) wk k null (Some len) st) = Ok ()"
  shows "\<exists>wkey key. init_key sg h wk st = Ok wkey \<and> init_key sg h k st = Ok key \<and>
      check_allowed_mechs m wkey = CKR_OK \<and> registered h CKF_WRAP m st \<and>
      get_attr_as_bool CKA_WRAP wkey = Ok True \<and>
      (get_attr_as_bool CKA_WRAP_WITH_TRUSTED key = Ok True \<longrightarrow> get_attr_as_bool CKA_TRUSTED wkey = Ok True) \<and>
      (\<forall>wt stored a. get_attr CKA_WRAP_TEMPLATE wkey = Some wt \<and> to_template wt = Ok stored \<and> a \<in> set stored \<longrightarrow>
        (\<exists>b. get_attr (ck_type a) key = Some b \<and> val b = val a))"
proof -
  obtain wkey key where w: "init_key sg h wk st = Ok wkey" "init_key sg h k st = Ok key"
      "check_allowed_mechs m wkey = CKR_OK" "registered h CKF_WRAP m st" "wrap_permitted wkey key = Ok ()"
    by (rule wrap_key_Ok[OF assms])
  show ?thesis using w(1-4) wrap_permitted_Ok[OF w(5)] by blast
qed

text \<open>
  C14. A key is derived only as its base permits (\<^verbatim>\<open>derive_key\<close>): the base has \<^verbatim>\<open>CKA_DERIVE\<close>, but for
  the public key of a private key and for the extraction of HKDF from a data object that fits the hash;
  it allows the mechanism, and the token has the mechanism for derivations.
\<close>

theorem derivation_is_permitted:
  assumes "derive_key sg mops h (Some m) bk (Some tmpl) kh_null st = (Ok d, st1)"
  shows "\<exists>base. init_key sg h bk st = Ok base \<and> check_allowed_mechs m base = CKR_OK \<and>
      registered h CKF_DERIVE m st \<and>
      (cm_mechanism m = CKM_PUB_KEY_FROM_PRIV_KEY \<or> get_attr_as_bool CKA_DERIVE base = Ok True \<or>
       o_class base = CKO_DATA \<and> hkdf_from_data m base = Ok ())"
proof -
  obtain base where b: "init_key sg h bk st = Ok base" "check_allowed_mechs m base = CKR_OK"
      "registered h CKF_DERIVE m st" "derive_permitted m base = Ok ()"
    by (rule derive_key_Ok[OF assms])
  then show ?thesis by (auto simp: derive_permitted_def and_then_eq_Ok split: if_split_asm)
qed

text \<open>
  C13. The template stored with a key reaches the key it unwraps (\<^verbatim>\<open>unwrap_key\<close>): the mechanism gets a
  template with everything the caller gave and, for every attribute stored with the key, an entry that
  matches it; the key that is stored is the one the mechanism made. The unwrapping key has
  \<^verbatim>\<open>CKA_UNWRAP\<close> and allows the mechanism.
\<close>

theorem stored_template_reaches_unwrapped_key:
  assumes "unwrap_key sg mops h (Some m) k (Some data) (Some request) False st = (Ok kh, st1)"
  shows "\<exists>key tmpl factory obj sid t t1. init_key sg h k st = Ok key \<and> get_attr_as_bool CKA_UNWRAP key = Ok True \<and>
      check_allowed_mechs m key = CKR_OK \<and> stored_template_applies CKA_UNWRAP_TEMPLATE key request tmpl \<and>
      mo_unwrap_key (mops (cm_mechanism m)) m key data tmpl factory = Ok obj \<and>
      get_token_from_slot_mut st sid = Ok t \<and> insert_object sg h obj t = (Ok kh, t1) \<and> st1 = put_token sid t1 st"
  using unwrap_key_Ok[OF assms] by metis

text \<open>
  C16. In a session that only reads, a template that asks for a token object is refused (\<^verbatim>\<open>generate_key\<close>,
  \<^verbatim>\<open>generate_key_pair\<close> for either template, \<^verbatim>\<open>derive_key\<close>): the call fails and nothing changes. It is the
  template of the caller that is looked at: what a base key adds to it by its \<^verbatim>\<open>CKA_DERIVE_TEMPLATE\<close> and what
  the parameters of a derivation say of further keys is not.
\<close>

theorem read_only_session_refuses_token_templates:
  assumes "locked_session h st = Ok s" and "\<not> is_writable s" and "fail_if_cka_token_true tmpl \<noteq> Ok ()"
  shows "\<not> is_ok (fst (generate_key sg mops h m (Some tmpl) kh_null st)) \<and>
    snd (generate_key sg mops h m (Some tmpl) kh_null st) = st \<and>
    \<not> is_ok (fst (generate_key_pair sg mops h m (Some tmpl) (Some tmpl') kh_null st)) \<and>
    snd (generate_key_pair sg mops h m (Some tmpl) (Some tmpl') kh_null st) = st \<and>
    \<not> is_ok (fst (generate_key_pair sg mops h m (Some tmpl') (Some tmpl) kh_null st)) \<and>
    snd (generate_key_pair sg mops h m (Some tmpl') (Some tmpl) kh_null st) = st \<and>
    \<not> is_ok (fst (derive_key sg mops h m bk (Some tmpl) kh_null st)) \<and>
    snd (derive_key sg mops h m bk (Some tmpl) kh_null st) = st"
proof -
  obtain e where e: "writable_or_session s tmpl = Inl e"
    using assms(2,3) by (cases "fail_if_cka_token_true tmpl") (simp_all add: writable_or_session_def)
  have w: "writable_or_session s tmpl' = Ok () \<or> (\<exists>e. writable_or_session s tmpl' = Inl e)"
    by (cases "writable_or_session s tmpl'") simp_all
  then show ?thesis
    using assms(1) e
    by (auto simp: generate_key_def generate_key_pair_def derive_key_def template_arg_def split: option.split bool.split)
qed

section \<open>A sample library with a key for everything\<close>

definition master_key :: object where
  "master_key =
    \<lparr>o_handle = 7, o_session = 1, o_class = CKO_SECRET_KEY, o_attributes =
      [from_ulong CKA_CLASS CKO_SECRET_KEY, from_ulong CKA_KEY_TYPE CKK_GENERIC_SECRET,
       from_bool CKA_WRAP True, from_bool CKA_UNWRAP True, from_bool CKA_DERIVE True,
       from_bool CKA_WRAP_WITH_TRUSTED False, from_bytes CKA_VALUE [1, 2, 3],
       from_string CKA_UNIQUE_ID [0x62], from_bool CKA_DESTROYABLE True], o_zeroize = True\<rparr>"

lemma master_key_sel:
  "\<not> is_token master_key" "check_allowed_mechs m master_key = CKR_OK"
  "get_attr_as_ulong CKA_CLASS master_key = Ok CKO_SECRET_KEY"
  "get_attr_as_ulong CKA_KEY_TYPE master_key = Ok CKK_GENERIC_SECRET"
  "get_attr_as_bool CKA_WRAP master_key = Ok True" "get_attr_as_bool CKA_UNWRAP master_key = Ok True"
  "get_attr_as_bool CKA_DERIVE master_key = Ok True" "get_attr_as_bool CKA_WRAP_WITH_TRUSTED master_key = Ok False"
  "get_attr CKA_WRAP_TEMPLATE master_key = None" "get_attr CKA_UNWRAP_TEMPLATE master_key = None"
  "get_attr_as_string CKA_UNIQUE_ID (set_session h (set_handle k master_key)) = Ok [0x62]"
  "set_zeroize master_key = master_key" "is_destroyable master_key"
  by (simp_all add: master_key_def is_token_def bool_checker_def get_attr_def check_allowed_mechs_def
      attr_as_def get_attr_as_ulong_def get_attr_as_bool_def get_attr_as_string_def set_zeroize_def
      set_session_def set_handle_def from_string_def to_string_def from_utf8_def is_destroyable_def)

definition master_info :: ck_mechanism_info where
  "master_info = \<lparr>ulMinKeySize = 0, ulMaxKeySize = 0, mi_flags = CKF_WRAP OR CKF_DERIVE\<rparr>"

definition master_token :: "(bytes \<Rightarrow> storage_auth_info option) std_storage token" where
  "master_token = sample_token\<lparr>tk_session_objects := [(7, master_key)],
     tk_filtermechs := Some [(CKM_SHA256_HMAC, master_info)], tk_logged := CKU_USER\<rparr>"

definition master_lib :: "session \<Rightarrow> (bytes \<Rightarrow> storage_auth_info option) std_storage lib_state" where
  "master_lib s = \<lparr>gs_slots = [(0, slot_add_session 1 s sample_slot\<lparr>sl_token := master_token\<rparr>)],
     gs_sessionmap = [(1, 0)], gs_next_handle = 2\<rparr>"

lemma master_lib_sel:
  "locked_session 1 (master_lib s) = Ok s" "get_token_from_slot_mut (master_lib s) 0 = Ok master_token"
  "get_object_by_handle sg 7 master_token = Ok master_key"
  "get_mechanisms master_token = [(CKM_SHA256_HMAC, master_info)]"
  "mech_with_flag CKF_WRAP sample_mechanism master_token = Ok ()"
  "mech_with_flag CKF_DERIVE sample_mechanism master_token = Ok ()"
proof -
  have "is_initialized master_token"
    using sample_token_dedup(2) by (simp add: master_token_def is_initialized_def)
  then show "locked_session 1 (master_lib s) = Ok s" "get_token_from_slot_mut (master_lib s) 0 = Ok master_token"
    by (simp_all add: master_lib_def locked_session_def lock_def state_is_initialized_def get_session_def
        session_slot_def get_slot_def slot_get_session_def slot_add_session_def sample_slot_def
        get_token_from_slot_mut_def slot_get_token_mut_def)
  show "get_object_by_handle sg 7 master_token = Ok master_key"
    by (simp add: get_object_by_handle_def session_object_def master_token_def is_logged_in_def master_key_sel)
  show m: "get_mechanisms master_token = [(CKM_SHA256_HMAC, master_info)]"
    by (simp add: get_mechanisms_def master_token_def)
  show "mech_with_flag CKF_WRAP sample_mechanism master_token = Ok ()"
    "mech_with_flag CKF_DERIVE sample_mechanism master_token = Ok ()"
    by (simp_all add: mech_with_flag_def m mechs_find_def mechs_info_def sample_mechanism_def master_info_def has_flag_def)
qed

definition master_mechs :: "ck_ulong \<Rightarrow> mech_ops" where
  "master_mechs _ = default_mech_ops
    \<lparr>mo_wrap_key := (\<lambda>_ _ _ _ _. Ok ([9], 1)), mo_unwrap_key := (\<lambda>_ _ _ _ _. Ok master_key),
     mo_derive_operation := (\<lambda>_. Ok (simple_derive (\<lambda>_ _ _ _. Ok [master_key])))\<rparr>"

lemma insert_master:
  obtains t1 where "insert_object sg h master_key master_token = (Ok 1, t1)"
  by (auto simp: insert_object_def master_key_sel master_token_def token_handles_def sample_token_sel sample_fac_def
      new_handles_def handles_next_def handles_insert_def put_handles_def Let_def)

lemma master_factory: "is_ok (get_object_factory (token_factories master_token) master_key)"
  by (simp add: get_object_factory_def master_key_sel token_factories_def master_token_def sample_token_sel
      sample_fac_def core_factories_def get_factory_def)

lemma sample_slot_id: "get_slot_id sample_session = 0"
  by (simp add: get_slot_id_def sample_session_def)

lemma allowed_master: "allowed_mech m master_key = Ok ()"
  by (simp add: allowed_mech_Ok master_key_sel)

lemma master_init_key: "init_key sg 1 7 (master_lib sample_session) = Ok master_key"
  by (rule init_key_Ok[OF master_lib_sel(1) _ master_lib_sel(3)]) (simp add: sample_slot_id master_lib_sel)

theorem wrapping_is_permitted_witness:
  "\<exists>wkey. init_key (std_storage user_raw) 1 7 (master_lib sample_session) = Ok wkey \<and>
    get_attr_as_bool CKA_WRAP wkey = Ok True"
proof -
  have "fst (wrap_key (std_storage user_raw) master_mechs 1 (Some sample_mechanism) 7 7 False (Some 10)
      (master_lib sample_session)) = Ok ()"
    using master_factory
    by (auto simp: wrap_key_def master_lib_sel sample_slot_id allowed_master is_ok_iff master_key_sel
        wrap_permitted_def master_mechs_def wrapped_reply_def ulong_try_from_def)
  from wrapping_is_permitted[OF this] show ?thesis by blast
qed

theorem derivation_is_permitted_witness:
  "\<exists>base. init_key (std_storage user_raw) 1 7 (master_lib sample_session) = Ok base \<and>
    get_attr_as_bool CKA_DERIVE base = Ok True"
proof -
  obtain t1 where t1: "insert_object (std_storage user_raw) 1 master_key master_token = (Ok 1, t1)"
    by (rule insert_master)
  have "\<exists>st1. derive_key (std_storage user_raw) master_mechs 1 (Some sample_mechanism) 7 (Some []) False
      (master_lib sample_session) =
      (Ok \<lparr>de_key = Some 1, de_additional = [], de_material = []\<rparr>, st1)"
    by (simp add: derive_key_def template_arg_def writable_or_session_def fail_if_cka_token_true_def
        master_lib_sel sample_slot_id allowed_master derive_permitted_def master_key_sel master_mechs_def
        sample_mechanism_def give_objects_def with_token_mut_def store_derived_def store_one_key_def t1
        written_key_def master_lib_sel[unfolded sample_mechanism_def])
  then obtain st1 where "derive_key (std_storage user_raw) master_mechs 1 (Some sample_mechanism) 7 (Some []) False
      (master_lib sample_session) =
      (Ok \<lparr>de_key = Some 1, de_additional = [], de_material = []\<rparr>, st1)" by blast
  from derivation_is_permitted[OF this] show ?thesis
    by (auto simp: sample_mechanism_def master_init_key master_key_def)
qed

theorem stored_template_reaches_unwrapped_key_witness:
  "\<exists>key tmpl. init_key (std_storage user_raw) 1 7 (master_lib sample_session) = Ok key \<and>
    stored_template_applies CKA_UNWRAP_TEMPLATE key
      [ck_attr_of CKA_CLASS (u64_to_le CKO_SECRET_KEY), ck_attr_of CKA_KEY_TYPE (u64_to_le CKK_GENERIC_SECRET)] tmpl"
proof -
  let ?tmpl = "[ck_attr_of CKA_CLASS (u64_to_le CKO_SECRET_KEY), ck_attr_of CKA_KEY_TYPE (u64_to_le CKK_GENERIC_SECRET)]"
  obtain t1 where t1: "insert_object (std_storage user_raw) 1 master_key master_token = (Ok 1, t1)"
    by (rule insert_master)
  have f: "get_obj_factory_from_key_template (token_factories master_token) ?tmpl =
      Ok (generic_secret_factory 0)"
    by (simp add: get_obj_factory_from_key_template_def token_factories_def
        master_token_def sample_token_sel sample_fac_def core_factories_def get_factory_def)
  have w: "writable_or_session sample_session ?tmpl = Ok ()"
    by (simp add: writable_or_session_def fail_if_cka_token_true_def)
  have "\<exists>st1. unwrap_key (std_storage user_raw) master_mechs 1 (Some sample_mechanism) 7 (Some [1]) (Some ?tmpl) False
      (master_lib sample_session) = (Ok 1, st1)"
    by (simp add: unwrap_key_def template_arg_def master_lib_sel sample_slot_id allowed_master master_key_sel
        with_key_template_def w f master_mechs_def with_token_mut_def t1 del: list.simps)
  then obtain st1 where "unwrap_key (std_storage user_raw) master_mechs 1 (Some sample_mechanism) 7 (Some [1]) (Some ?tmpl) False
      (master_lib sample_session) = (Ok 1, st1)" by blast
  from stored_template_reaches_unwrapped_key[OF this] show ?thesis by blast
qed

definition ro_session :: session where
  "ro_session = sample_session\<lparr>s_info := (s_info sample_session)\<lparr>si_state := CKS_RO_PUBLIC_SESSION\<rparr>\<rparr>"

theorem read_only_session_refuses_token_templates_witness:
  "snd (generate_key (std_storage user_raw) master_mechs 1 (Some sample_mechanism)
    (Some [ck_attr_of CKA_TOKEN [1]]) False (master_lib ro_session)) = master_lib ro_session"
proof -
  have "\<not> is_writable ro_session" by (simp add: ro_session_def is_writable_def)
  moreover have "fail_if_cka_token_true [ck_attr_of CKA_TOKEN [1]] \<noteq> Ok ()"
    by (simp add: fail_if_cka_token_true_def ck_to_bool_def)
  ultimately show ?thesis
    using read_only_session_refuses_token_templates[OF master_lib_sel(1)] by blast
qed

text \<open>A private key that is a token object, when nobody is logged in.\<close>

theorem keys_made_together_or_not_at_all_witness:
  "tk_session_objects (snd (insert_pair (std_storage user_raw) 1 master_key
    (master_key\<lparr>o_attributes := [from_bool CKA_TOKEN True]\<rparr>) sample_token)) = []"
proof -
  let ?pri = "master_key\<lparr>o_attributes := [from_bool CKA_TOKEN True]\<rparr>"
  have t: "is_token ?pri" by (simp add: is_token_def bool_checker_def get_attr_def)
  obtain k t1 where p: "insert_object (std_storage user_raw) 1 master_key sample_token = (Ok k, t1)"
    and l: "tk_logged t1 = KRY_UNSPEC"
    by (auto simp: insert_object_def master_key_sel token_handles_def sample_token_sel sample_fac_def
      new_handles_def handles_next_def handles_insert_def put_handles_def Let_def put_session_object_def)
  have "fst (insert_pair (std_storage user_raw) 1 master_key ?pri sample_token) = Err CKR_USER_NOT_LOGGED_IN"
  proof -
    have "insert_object (std_storage user_raw) 1 ?pri t1 = (Err CKR_USER_NOT_LOGGED_IN, t1)"
      using t l by (simp add: insert_object_def is_logged_in_def)
    then show ?thesis by (simp add: insert_pair_def p)
  qed
  moreover have "session_destroyable master_key" by (simp add: session_destroyable_def master_key_sel)
  ultimately show ?thesis
    using keys_made_together_or_not_at_all[OF sample_token_reachable, where pubkey = master_key and objs = "[]" and h = 1 and privkey = ?pri]
    by (cases "insert_pair (std_storage user_raw) 1 master_key ?pri sample_token")
      (simp add: sample_token_sel)
qed

end
