(* ===== verification/Derive_Common.thy ===== *)
theory Derive_Common
  imports Keymgmt_Api Hmac_Laws
begin

text \<open>
  What the key derivations share: the objects they make (\<^verbatim>\<open>src/src/misc.rs\<close>), the digests and MACs
  they feed, and what such an operation computes.
\<close>

section \<open>Objects\<close>

definition common_derive_data_object ::
    "factories \<Rightarrow> bytes \<Rightarrow> ck_attrs \<Rightarrow> nat \<Rightarrow> (object \<times> nat) result" where
  "common_derive_data_object fs uuid template default_len =
    (case remove_ulong CKA_VALUE_LEN (add_missing_ulong CKA_CLASS CKO_DATA template) of
       (r, tmpl) \<Rightarrow>
         and_then r (\<lambda>v.
         and_then
           (case v of
              Some n \<Rightarrow> Ok (unat n)
            | None \<Rightarrow> if default_len = 0 then Err CKR_TEMPLATE_INCOMPLETE else Ok default_len) (\<lambda>value_len.
         case get_factory fs CKO_DATA 0 of
           Inr f \<Rightarrow> and_then (f_create f uuid tmpl) (\<lambda>obj. Ok (obj, value_len))
         | Inl _ \<Rightarrow> Err CKR_GENERAL_ERROR)))"

text \<open>The length of the new key, from the object or by default.\<close>

definition derived_len :: "nat \<Rightarrow> object \<Rightarrow> (object \<times> nat) result" where
  "derived_len default_len obj =
    (case get_attr_as_ulong CKA_VALUE_LEN obj of
       Inr n \<Rightarrow> Ok (obj, unat n)
     | Inl _ \<Rightarrow>
       if default_len = 0 then Err CKR_TEMPLATE_INCOMPLETE
       else and_then (ulong_try_from default_len) (\<lambda>l.
            and_then (set_attr (from_ulong CKA_VALUE_LEN l) obj) (\<lambda>obj1. Ok (obj1, default_len))))"

definition common_derive_key_object ::
    "factories \<Rightarrow> bytes \<Rightarrow> object \<Rightarrow> ck_attrs \<Rightarrow> nat \<Rightarrow> (object \<times> nat) result" where
  "common_derive_key_object fs uuid key template default_len =
    and_then (derive_key_from_template fs uuid key (add_missing_ulong CKA_CLASS CKO_SECRET_KEY template))
      (derived_len default_len)"

section \<open>Calls on a digest or a MAC\<close>

definition op_update :: "bytes \<Rightarrow> crypto_op \<Rightarrow> unit result \<times> crypto_op" where
  "op_update d op = (case co_call op (Update d 0) of (r, op1) \<Rightarrow> (and_then r (\<lambda>_. Ok ()), op1))"

definition op_reset :: "crypto_op \<Rightarrow> unit result \<times> crypto_op" where
  "op_reset op = (case co_call op Reset of (r, op1) \<Rightarrow> (and_then r (\<lambda>_. Ok ()), op1))"

definition op_finish :: "nat \<Rightarrow> crypto_op \<Rightarrow> bytes result \<times> crypto_op" where
  "op_finish n op = co_call op (Finish n)"

fun op_updates :: "bytes list \<Rightarrow> crypto_op \<Rightarrow> unit result \<times> crypto_op" where
  "op_updates [] op = (Ok (), op)"
| "op_updates (d # ds) op = st_then (op_update d op) (\<lambda>_. op_updates ds)"

text \<open>All parts and the end.\<close>

definition op_all :: "bytes list \<Rightarrow> nat \<Rightarrow> crypto_op \<Rightarrow> bytes result \<times> crypto_op" where
  "op_all ds n op = st_then (op_updates ds op) (\<lambda>_. op_finish n)"

section \<open>What an operation computes\<close>

text \<open>
  An operation for the function \<open>F\<close> with results of \<open>n\<close> bytes: fresh, fed with data, or ended. It takes
  parts until it ends, the result is the function of all of them, and a reset makes it fresh again.
\<close>

datatype op_phase = Fresh | Fed bytes | Ended

fun fed :: "op_phase \<Rightarrow> bytes" where
  "fed Fresh = []"
| "fed (Fed d) = d"
| "fed Ended = []"

definition answers ::
    "(bytes \<Rightarrow> bytes) \<Rightarrow> nat \<Rightarrow> (op_phase \<Rightarrow> crypto_op \<Rightarrow> bool) \<Rightarrow> op_phase \<Rightarrow> crypto_op \<Rightarrow> bool" where
  "answers F n after s op \<longleftrightarrow>
    co_fixed_len op = Ok n \<and> (\<forall>d. length (F d) = n) \<and> (co_finalized op \<longleftrightarrow> s = Ended) \<and>
    (s \<noteq> Ended \<longrightarrow>
      (\<forall>d. \<exists>op1. co_call op (Update d 0) = (Ok [], op1) \<and> after (Fed (fed s @ d)) op1) \<and>
      (\<exists>op1. co_call op (Finish n) = (Ok (F (fed s)), op1) \<and> after Ended op1)) \<and>
    (s = Fresh \<longrightarrow> (\<forall>d. \<exists>op1. co_call op (Single d n) = (Ok (F d), op1) \<and> after Ended op1)) \<and>
    (\<exists>op1. co_call op Reset = (Ok [], op1) \<and> after Fresh op1)"

lemma answers_mono [mono]: "X \<le> Y \<Longrightarrow> answers F n X s op \<longrightarrow> answers F n Y s op"
  unfolding answers_def le_fun_def le_bool_def by metis

coinductive computes :: "(bytes \<Rightarrow> bytes) \<Rightarrow> nat \<Rightarrow> op_phase \<Rightarrow> crypto_op \<Rightarrow> bool" for F n where
  "answers F n (computes F n) s op \<Longrightarrow> computes F n s op"

lemma computes_len: "computes F n s op \<Longrightarrow> co_fixed_len op = Ok n"
  by (erule computes.cases) (simp add: answers_def)

lemma computes_value_len: "computes F n s op \<Longrightarrow> length (F d) = n"
  by (erule computes.cases) (simp add: answers_def)

lemma computes_finalized: "computes F n s op \<Longrightarrow> co_finalized op \<longleftrightarrow> s = Ended"
  by (erule computes.cases) (simp add: answers_def)

lemma computes_update:
  assumes "computes F n s op" and "s \<noteq> Ended"
  obtains op1 where "op_update d op = (Ok (), op1)" and "computes F n (Fed (fed s @ d)) op1"
proof -
  obtain op1 where "co_call op (Update d 0) = (Ok [], op1)" "computes F n (Fed (fed s @ d)) op1"
    using assms unfolding computes.simps[of F n s op] answers_def by blast
  then show ?thesis by (intro that) (simp_all add: op_update_def)
qed

lemma computes_finish:
  assumes "computes F n s op" and "s \<noteq> Ended"
  obtains op1 where "op_finish n op = (Ok (F (fed s)), op1)" and "computes F n Ended op1"
  using assms that unfolding computes.simps[of F n s op] answers_def op_finish_def by blast

lemma computes_single:
  assumes "computes F n Fresh op"
  obtains op1 where "co_call op (Single d n) = (Ok (F d), op1)" and "computes F n Ended op1"
  using assms that unfolding computes.simps[of F n Fresh op] answers_def by blast

lemma computes_reset:
  assumes "computes F n s op"
  obtains op1 where "op_reset op = (Ok (), op1)" and "computes F n Fresh op1"
proof -
  obtain op1 where "co_call op Reset = (Ok [], op1)" "computes F n Fresh op1"
    using assms unfolding computes.simps[of F n s op] answers_def by blast
  then show ?thesis by (intro that) (simp_all add: op_reset_def)
qed

lemma computes_updates:
  assumes "computes F n s op" and "s \<noteq> Ended"
  obtains op1 s1 where "op_updates ds op = (Ok (), op1)" and "computes F n s1 op1" and "s1 \<noteq> Ended"
    and "fed s1 = fed s @ concat ds"
  using assms
proof (induction ds arbitrary: s op thesis)
  case Nil
  then show ?case by simp
next
  case (Cons d ds)
  obtain op1 where op1: "op_update d op = (Ok (), op1)" "computes F n (Fed (fed s @ d)) op1"
    by (rule computes_update[OF Cons.prems(2,3)])
  show ?case
    by (rule Cons.IH[OF _ op1(2)]) (use op1(1) Cons.prems(1) in auto)
qed

lemma computes_all:
  assumes "computes F n s op" and "s \<noteq> Ended"
  obtains op1 where "op_all ds n op = (Ok (F (fed s @ concat ds)), op1)" and "computes F n Ended op1"
proof -
  obtain op1 s1 where 1: "op_updates ds op = (Ok (), op1)" "computes F n s1 op1" "s1 \<noteq> Ended"
      "fed s1 = fed s @ concat ds"
    by (rule computes_updates[OF assms])
  obtain op2 where 2: "op_finish n op1 = (Ok (F (fed s1)), op2)" "computes F n Ended op2"
    by (rule computes_finish[OF 1(2,3)])
  show ?thesis using 1 2 by (intro that) (simp_all add: op_all_def)
qed

end
