(* ===== verification/Prf_Laws.thy ===== *)
theory Prf_Laws
  imports Derive_Common Operation_Laws
begin

text \<open>
  The digest operation computes the hash function and the HMAC operation computes HMAC, at once, in
  parts and again after a reset: what the key derivations may rely on.
\<close>

section \<open>The context stays with its hash\<close>

definition keeps_hash ::
    "('c \<Rightarrow> ck_ulong \<times> bytes option) \<Rightarrow> ('c hash_operation \<Rightarrow> 'a result \<times> 'c hash_operation) \<Rightarrow> bool" where
  "keeps_hash absorbed f \<longleftrightarrow>
    (\<forall>op. fst (absorbed (ho_hasher (snd (f op)))) = fst (absorbed (ho_hasher op)))"

lemma keeps_update:
  assumes "digest_contract dl H absorbed"
  shows "keeps_hash absorbed (hash_update dl d)"
  unfolding keeps_hash_def
proof
  fix op :: "_ hash_operation"
  show "fst (absorbed (ho_hasher (snd (hash_update dl d op)))) = fst (absorbed (ho_hasher op))"
    using contract_keeps(1)[OF assms, of d "ho_hasher op"]
    by (auto simp: hash_update_def split: prod.split sum.split)
qed

lemma keeps_reset:
  assumes "digest_contract dl H absorbed"
  shows "keeps_hash absorbed (hash_reset dl)"
  unfolding keeps_hash_def
proof
  fix op :: "_ hash_operation"
  obtain c' where "dl_reset dl (ho_hasher op) = (Ok (), c')" "absorbed c' = (fst (absorbed (ho_hasher op)), Some [])"
    by (rule contract_reset[OF assms])
  then show "fst (absorbed (ho_hasher (snd (hash_reset dl op)))) = fst (absorbed (ho_hasher op))"
    by (simp add: hash_reset_def)
qed

lemma keeps_take_digest:
  assumes "digest_contract dl H absorbed"
  shows "keeps_hash absorbed (take_digest dl n)"
  unfolding keeps_hash_def
proof
  fix op :: "_ hash_operation"
  show "fst (absorbed (ho_hasher (snd (take_digest dl n op)))) = fst (absorbed (ho_hasher op))"
    using contract_keeps(2)[OF assms, of "ho_hasher op"]
    by (auto simp: take_digest_def split: prod.split sum.split)
qed

lemma keeps_final:
  assumes "digest_contract dl H absorbed"
  shows "keeps_hash absorbed (hash_final dl n)"
  unfolding keeps_hash_def
proof
  fix op :: "_ hash_operation"
  show "fst (absorbed (ho_hasher (snd (hash_final dl n op)))) = fst (absorbed (ho_hasher op))"
    using keeps_take_digest[OF assms, unfolded keeps_hash_def, rule_format, of n "op\<lparr>ho_finalized := True\<rparr>"]
    by (auto simp: hash_final_def)
qed

lemma keeps_digest:
  assumes "digest_contract dl H absorbed"
  shows "keeps_hash absorbed (hash_digest dl d n)"
  unfolding keeps_hash_def
proof
  fix op :: "_ hash_operation"
  obtain r c where c: "dl_update dl d (ho_hasher op) = (r, c)" by force
  then have "fst (absorbed c) = fst (absorbed (ho_hasher op))"
    using contract_keeps(1)[OF assms, of d "ho_hasher op"] by simp
  then show "fst (absorbed (ho_hasher (snd (hash_digest dl d n op)))) = fst (absorbed (ho_hasher op))"
    using c keeps_take_digest[OF assms, unfolded keeps_hash_def, rule_format,
        of n "op\<lparr>ho_finalized := True, ho_hasher := c\<rparr>"]
    by (auto simp: hash_digest_def split: sum.split)
qed

section \<open>The digest operation\<close>

definition hash_phase ::
    "('c \<Rightarrow> ck_ulong \<times> bytes option) \<Rightarrow> ck_ulong \<Rightarrow> op_phase \<Rightarrow> 'c hash_operation \<Rightarrow> bool" where
  "hash_phase absorbed m s op \<longleftrightarrow>
    fst (absorbed (ho_hasher op)) = m \<and>
    (case s of
       Fresh \<Rightarrow> absorbing absorbed m [] op \<and> \<not> ho_in_use op
     | Fed d \<Rightarrow> absorbing absorbed m d op
     | Ended \<Rightarrow> ho_finalized op)"

lemma hash_phase_fed: "hash_phase absorbed m s op \<Longrightarrow> s \<noteq> Ended \<Longrightarrow> absorbing absorbed m (fed s) op"
  by (cases s) (auto simp: hash_phase_def)

lemma hash_op_answers:
  assumes dl: "digest_contract dl H absorbed" and m: "is_valid_hash m" and s: "hash_phase absorbed m s op"
  shows "answers (H m) (hash_size m) (\<lambda>s1 op1. \<exists>op'. op1 = hash_op dl op' \<and> hash_phase absorbed m s1 op')
    s (hash_op dl op)"
  unfolding answers_def
proof (intro conjI impI allI)
  have fst: "fst (absorbed (ho_hasher op)) = m" using s by (simp add: hash_phase_def)
  show "co_fixed_len (hash_op dl op) = Ok (hash_size m)"
    using digest_size[OF dl, of "ho_hasher op" m "snd (absorbed (ho_hasher op))"] fst
    by (cases "absorbed (ho_hasher op)") (auto simp: hash_op.sel)
  show "length (H m d) = hash_size m" for d by (rule contract_length[OF dl m])
  show "co_finalized (hash_op dl op) = (s = Ended)"
    using s by (cases s) (auto simp: hash_op.sel hash_phase_def absorbing_def)
  obtain op' where r: "hash_reset dl op = (Ok (), op')" "absorbing absorbed m [] op'" "\<not> ho_in_use op'"
    by (rule hash_reset_absorbing[OF dl fst])
  then have "hash_phase absorbed m Fresh op'" by (simp add: hash_phase_def absorbing_def)
  then show "\<exists>op1. co_call (hash_op dl op) Reset = (Ok [], op1) \<and>
      (\<exists>op'. op1 = hash_op dl op' \<and> hash_phase absorbed m Fresh op')"
    using r(1) by (auto simp: hash_op.sel no_output_def)
next
  assume "s \<noteq> Ended"
  then have a: "absorbing absorbed m (fed s) op" by (rule hash_phase_fed[OF s])
  fix d
  obtain op' where "hash_update dl d op = (Ok (), op')" "absorbing absorbed m (fed s @ d) op'"
    by (rule hash_update_absorbing[OF dl a])
  moreover from this have "hash_phase absorbed m (Fed (fed s @ d)) op'"
    by (simp add: hash_phase_def absorbing_def)
  ultimately show "\<exists>op1. co_call (hash_op dl op) (Update d 0) = (Ok [], op1) \<and>
      (\<exists>op'. op1 = hash_op dl op' \<and> hash_phase absorbed m (Fed (fed s @ d)) op')"
    by (auto simp: hash_op.sel no_output_def)
next
  assume "s \<noteq> Ended"
  then have a: "absorbing absorbed m (fed s) op" by (rule hash_phase_fed[OF s])
  obtain op' where "hash_final dl (hash_size m) op = (Ok (H m (fed s)), op')"
    "fst (absorbed (ho_hasher op')) = m" "ho_finalized op'"
    by (rule hash_final_absorbing[OF dl a m])
  then show "\<exists>op1. co_call (hash_op dl op) (Finish (hash_size m)) = (Ok (H m (fed s)), op1) \<and>
      (\<exists>op'. op1 = hash_op dl op' \<and> hash_phase absorbed m Ended op')"
    by (auto simp: hash_op.sel hash_phase_def)
next
  assume "s = Fresh"
  then have a: "absorbing absorbed m [] op" "\<not> ho_in_use op" using s by (simp_all add: hash_phase_def)
  fix d
  obtain op' where "hash_digest dl d (hash_size m) op = (Ok (H m d), op')"
    "fst (absorbed (ho_hasher op')) = m" "ho_finalized op'"
    by (rule hash_digest_fresh[OF dl a(1) m a(2)])
  then show "\<exists>op1. co_call (hash_op dl op) (Single d (hash_size m)) = (Ok (H m d), op1) \<and>
      (\<exists>op'. op1 = hash_op dl op' \<and> hash_phase absorbed m Ended op')"
    by (auto simp: hash_op.sel hash_phase_def)
qed

lemma computes_invariant:
  assumes "I s op" and "\<And>s1 op1. I s1 op1 \<Longrightarrow> answers F n I s1 op1"
  shows "computes F n s op"
proof (rule computes.coinduct[of I])
  fix s1 op1
  assume "I s1 op1"
  then have "answers F n I s1 op1" by (rule assms(2))
  then have "answers F n (\<lambda>s1 op1. I s1 op1 \<or> computes F n s1 op1) s1 op1"
    by (rule answers_mono[THEN mp, rotated]) auto
  then show "\<exists>s op. s1 = s \<and> op1 = op \<and> answers F n (\<lambda>s1 op1. I s1 op1 \<or> computes F n s1 op1) s op" by blast
qed (rule assms(1))

lemma hash_op_computes:
  assumes dl: "digest_contract dl H absorbed" and m: "is_valid_hash m" and s: "hash_phase absorbed m s op"
  shows "computes (H m) (hash_size m) s (hash_op dl op)"
proof (rule computes_invariant[of "\<lambda>s1 op1. \<exists>op'. op1 = hash_op dl op' \<and> hash_phase absorbed m s1 op'"])
  show "\<exists>op'. hash_op dl op = hash_op dl op' \<and> hash_phase absorbed m s op'" using s by blast
qed (use hash_op_answers[OF dl m] in blast)

lemma new_digest_computes:
  assumes dl: "digest_contract dl H absorbed" and m: "is_valid_hash m" and "hash_new dl m = Ok op"
  shows "computes (H m) (hash_size m) Fresh (hash_op dl op)"
proof -
  obtain op' where "hash_new dl m = Ok op'" "absorbing absorbed m [] op'" "\<not> ho_in_use op'"
    by (rule hash_new_absorbing[OF dl m])
  then show ?thesis
    using assms(3) by (intro hash_op_computes[OF dl m]) (simp add: hash_phase_def absorbing_def)
qed

section \<open>The HMAC operation\<close>

definition hmac_config ::
    "('c \<Rightarrow> ck_ulong \<times> bytes option) \<Rightarrow> ck_ulong \<Rightarrow> bytes \<Rightarrow> nat \<Rightarrow> 'c hmac_operation \<Rightarrow> bool" where
  "hmac_config absorbed m key n hm \<longleftrightarrow>
    hm_key hm = key \<and> hm_hashlen hm = hash_size m \<and> hm_blocklen hm = block_size m \<and>
    hm_outputlen hm = n \<and> fst (absorbed (ho_hasher (hm_inner hm))) = m"

lemma config_on_inner:
  assumes "keeps_hash absorbed f" and "hmac_config absorbed m key n hm"
  shows "hmac_config absorbed m key n (snd (on_inner f hm))"
  using assms by (auto simp: hmac_config_def keeps_hash_def on_inner_def split: prod.split) (metis snd_conv)

lemma config_fields [simp]:
  "hmac_config absorbed m key n (hm\<lparr>hm_state := st\<rparr>) = hmac_config absorbed m key n hm"
  "hmac_config absorbed m key n (hm\<lparr>hm_in_use := b\<rparr>) = hmac_config absorbed m key n hm"
  "hmac_config absorbed m key n (hm\<lparr>hm_finalized := b\<rparr>) = hmac_config absorbed m key n hm"
  "hmac_config absorbed m key n (hm\<lparr>hm_ipad := p\<rparr>) = hmac_config absorbed m key n hm"
  "hmac_config absorbed m key n (hm\<lparr>hm_opad := p\<rparr>) = hmac_config absorbed m key n hm"
  by (simp_all add: hmac_config_def)

lemmas config_then = st_then_invariant[where P = "hmac_config absorbed m key n" for absorbed m key n]

lemmas keeps_hash_rules = keeps_update keeps_reset keeps_final keeps_digest

lemma config_update:
  assumes "digest_contract dl H absorbed" and "hmac_config absorbed m key n hm"
  shows "hmac_config absorbed m key n (snd (hmac_update dl d hm))"
  using assms config_on_inner[OF keeps_update[OF assms(1)], of m key n "hm\<lparr>hm_in_use := True\<rparr>" d]
  by (auto simp: hmac_update_def split: prod.split sum.split)

lemma config_final_into_state:
  assumes "digest_contract dl H absorbed" and "hmac_config absorbed m key n hm"
  shows "hmac_config absorbed m key n (snd (final_into_state dl hm))"
  unfolding final_into_state_def
  by (rule st_then_invariant) (simp_all add: config_on_inner[OF keeps_final[OF assms(1)] assms(2)])

lemma config_finalize:
  assumes "digest_contract dl H absorbed" and "hmac_config absorbed m key n hm"
  shows "hmac_config absorbed m key n (snd (hmac_finalize dl k hm))"
proof (cases "hm_finalized hm \<or> k \<noteq> hm_outputlen hm")
  case True
  then show ?thesis using assms(2) by (auto simp: hmac_finalize_def Let_def)
next
  case False
  then show ?thesis
    using assms
    by (simp add: hmac_finalize_def Let_def)
      (intro config_then config_on_inner config_final_into_state keeps_hash_rules; simp)
qed

lemma config_init:
  assumes "digest_contract dl H absorbed" and "hmac_config absorbed m key n hm"
  shows "hmac_config absorbed m key n (snd (hmac_init dl hm))"
proof -
  have "hmac_config absorbed m key n (snd (hmac_k0 dl hm))"
    unfolding hmac_k0_def using assms
    by (auto intro!: config_then config_on_inner keeps_hash_rules)
  then show ?thesis
    unfolding hmac_init_def Let_def using assms(1)
    by (intro config_then config_on_inner keeps_hash_rules; simp)
qed

lemma config_internal:
  assumes dl: "digest_contract dl H absorbed" and h: "hmac_mech_to_hash_mech mech = Ok m"
    and hm: "hmac_internal dl mech key n = Ok hm"
  shows "hmac_config absorbed m key n hm"
proof -
  obtain i where i: "hash_new dl m = Ok i" "absorbing absorbed m [] i"
    by (rule hash_new_absorbing[OF dl hmac_hash_valid[OF h]])
  let ?hm = "\<lparr>hm_mech = mech, hm_key = key, hm_hashlen = hash_size m, hm_blocklen = block_size m,
         hm_outputlen = n, hm_state = replicate MAX_BSZ 0, hm_ipad = IPAD_INIT,
         hm_opad = OPAD_INIT, hm_inner = i, hm_finalized = False, hm_in_use = False,
         hm_signature = None\<rparr>"
  have "hmac_config absorbed m key n (snd (hmac_init dl ?hm))"
    using i(2) by (intro config_init[OF dl]) (simp add: hmac_config_def absorbing_def)
  then show ?thesis
    using hm h i(1) by (auto simp: hmac_internal_def and_then_eq_Ok split: prod.split_asm)
qed

definition hmac_phase ::
    "(ck_ulong \<Rightarrow> bytes \<Rightarrow> bytes) \<Rightarrow> ('c \<Rightarrow> ck_ulong \<times> bytes option) \<Rightarrow> ck_ulong \<Rightarrow> bytes \<Rightarrow> nat \<Rightarrow> op_phase \<Rightarrow>
      'c hmac_operation \<Rightarrow> bool" where
  "hmac_phase H absorbed m key n s hm \<longleftrightarrow>
    hmac_config absorbed m key n hm \<and>
    (case s of
       Fresh \<Rightarrow> hmac_absorbing H absorbed m key [] hm \<and> \<not> hm_in_use hm
     | Fed d \<Rightarrow> hmac_absorbing H absorbed m key d hm
     | Ended \<Rightarrow> hm_finalized hm)"

lemma hmac_phase_fed: "hmac_phase H absorbed m key n s hm \<Longrightarrow> s \<noteq> Ended \<Longrightarrow> hmac_absorbing H absorbed m key (fed s) hm"
  by (cases s) (auto simp: hmac_phase_def)

lemma hmac_reinit_phase:
  assumes dl: "digest_contract dl H absorbed" and m: "is_valid_hash m" and c: "hmac_config absorbed m key n hm"
  obtains hm' where "hmac_reinit dl hm = (Ok (), hm')" and "hmac_phase H absorbed m key n Fresh hm'"
proof -
  let ?hm0 = "hm\<lparr>hm_state := replicate MAX_BSZ 0, hm_ipad := IPAD_INIT, hm_opad := OPAD_INIT\<rparr>"
  have i: "fst (absorbed (ho_hasher (hm_inner hm))) = m" using c by (simp add: hmac_config_def)
  obtain i where r: "hash_reset dl (hm_inner hm) = (Ok (), i)" "absorbing absorbed m [] i" "\<not> ho_in_use i"
    by (rule hash_reset_absorbing[OF dl i])
  let ?hm1 = "?hm0\<lparr>hm_inner := i, hm_finalized := False, hm_in_use := False\<rparr>"
  have c1: "hmac_config absorbed m key n ?hm1"
    using c r(2) by (simp add: hmac_config_def absorbing_def)
  obtain hm' where hm': "hmac_init dl ?hm1 = (Ok (), hm')" "hmac_absorbing H absorbed m (hm_key ?hm1) [] hm'"
    "hm_in_use hm' = hm_in_use ?hm1"
    by (rule hmac_init_absorbing[OF dl m, of ?hm1]) (use r c in \<open>simp_all add: hmac_config_def\<close>)
  have "hmac_config absorbed m key n hm'" using config_init[OF dl c1] hm'(1) by simp
  moreover have "hm_key hm = key" using c by (simp add: hmac_config_def)
  ultimately show ?thesis
    using hm' r(1) by (intro that[of hm']) (simp_all add: hmac_reinit_def hmac_phase_def)
qed

lemma hmac_spec_length:
  assumes "digest_contract dl H absorbed" and "is_valid_hash m"
  shows "length (hmac_spec (H m) (block_size m) key msg) = hash_size m"
  using contract_length[OF assms] by (simp add: hmac_spec_def)

text \<open>The value of an HMAC mechanism: the start of HMAC of RFC 2104.\<close>

definition hmac_value ::
    "(ck_ulong \<Rightarrow> bytes \<Rightarrow> bytes) \<Rightarrow> ck_ulong \<Rightarrow> bytes \<Rightarrow> nat \<Rightarrow> bytes \<Rightarrow> bytes" where
  "hmac_value H m key n d = take n (hmac_spec (H m) (block_size m) key d)"

lemma hmac_single_phase:
  assumes dl: "digest_contract dl H absorbed" and m: "is_valid_hash m" and n: "n \<le> hash_size m"
    and s: "hmac_phase H absorbed m key n Fresh hm"
  obtains hm' where "hmac_single dl d n hm = (Ok (hmac_value H m key n d), hm')"
    and "hmac_phase H absorbed m key n Ended hm'"
proof -
  have a: "hmac_absorbing H absorbed m key [] hm" "\<not> hm_in_use hm" using s by (simp_all add: hmac_phase_def)
  obtain hm1 where u: "hmac_update dl d hm = (Ok (), hm1)" "hmac_absorbing H absorbed m key ([] @ d) hm1"
    by (rule hmac_update_absorbing[OF dl a(1)])
  have c: "hmac_config absorbed m key n hm" using s by (simp add: hmac_phase_def)
  have c1: "hmac_config absorbed m key n hm1" using config_update[OF dl c, of d] u by simp
  then have "n = hm_outputlen hm1" by (simp add: hmac_config_def)
  then obtain hm' where f: "hmac_finalize dl n hm1 = (Ok (take n (hmac_spec (H m) (block_size m) key ([] @ d))), hm')"
    "hm_finalized hm'"
    by (rule hmac_finalize_value[OF dl u(2) _ n])
  have "hmac_phase H absorbed m key n Ended hm'"
    using config_finalize[OF dl c1, of n] f by (simp add: hmac_phase_def)
  then show ?thesis
    using f(1) u(1) a(2) by (intro that) (auto simp: hmac_value_def hmac_single_def hmac_begin_def)
qed

lemma hmac_op_answers:
  assumes dl: "digest_contract dl H absorbed" and m: "is_valid_hash m" and n: "n \<le> hash_size m"
    and s: "hmac_phase H absorbed m key n s hm"
  shows "answers (hmac_value H m key n) n
    (\<lambda>s1 op1. \<exists>hm'. op1 = hmac_op dl hc (hmac_sign_call dl) hm' \<and> hmac_phase H absorbed m key n s1 hm')
    s (hmac_op dl hc (hmac_sign_call dl) hm)"
  unfolding answers_def
proof (intro conjI impI allI)
  have c: "hmac_config absorbed m key n hm" using s by (simp add: hmac_phase_def)
  show "co_fixed_len (hmac_op dl hc (hmac_sign_call dl) hm) = Ok n"
    using c by (simp add: hmac_op.sel hmac_config_def)
  show "length (hmac_value H m key n d) = n" for d
    using n hmac_spec_length[OF dl m] by (simp add: hmac_value_def)
  show "co_finalized (hmac_op dl hc (hmac_sign_call dl) hm) = (s = Ended)"
    using s by (cases s) (auto simp: hmac_op.sel hmac_phase_def hmac_absorbing_def)
  obtain hm' where r: "hmac_reinit dl hm = (Ok (), hm')" "hmac_phase H absorbed m key n Fresh hm'"
    by (rule hmac_reinit_phase[OF dl m c])
  then show "\<exists>op1. co_call (hmac_op dl hc (hmac_sign_call dl) hm) Reset = (Ok [], op1) \<and>
      (\<exists>hm'. op1 = hmac_op dl hc (hmac_sign_call dl) hm' \<and> hmac_phase H absorbed m key n Fresh hm')"
    by (auto simp: hmac_op.sel no_output_def)
next
  assume "s \<noteq> Ended"
  then have a: "hmac_absorbing H absorbed m key (fed s) hm" by (rule hmac_phase_fed[OF s])
  fix d
  obtain hm' where u: "hmac_update dl d hm = (Ok (), hm')" "hmac_absorbing H absorbed m key (fed s @ d) hm'"
    by (rule hmac_update_absorbing[OF dl a])
  have "hmac_phase H absorbed m key n (Fed (fed s @ d)) hm'"
    using config_update[OF dl, of m key n hm d] s u by (simp add: hmac_phase_def)
  then show "\<exists>op1. co_call (hmac_op dl hc (hmac_sign_call dl) hm) (Update d 0) = (Ok [], op1) \<and>
      (\<exists>hm'. op1 = hmac_op dl hc (hmac_sign_call dl) hm' \<and> hmac_phase H absorbed m key n (Fed (fed s @ d)) hm')"
    using u(1) by (auto simp: hmac_op.sel no_output_def)
next
  assume "s \<noteq> Ended"
  then have a: "hmac_absorbing H absorbed m key (fed s) hm" by (rule hmac_phase_fed[OF s])
  have "n = hm_outputlen hm" using s by (simp add: hmac_phase_def hmac_config_def)
  then obtain hm' where f: "hmac_finalize dl n hm = (Ok (take n (hmac_spec (H m) (block_size m) key (fed s))), hm')"
    "hm_finalized hm'"
    by (rule hmac_finalize_value[OF dl a _ n])
  have "hmac_phase H absorbed m key n Ended hm'"
    using config_finalize[OF dl, of m key n hm n] s f by (simp add: hmac_phase_def)
  then show "\<exists>op1. co_call (hmac_op dl hc (hmac_sign_call dl) hm) (Finish n) = (Ok (hmac_value H m key n (fed s)), op1) \<and>
      (\<exists>hm'. op1 = hmac_op dl hc (hmac_sign_call dl) hm' \<and> hmac_phase H absorbed m key n Ended hm')"
    using f(1) by (auto simp: hmac_op.sel hmac_value_def)
next
  assume "s = Fresh"
  fix d
  obtain hm' where "hmac_single dl d n hm = (Ok (hmac_value H m key n d), hm')" "hmac_phase H absorbed m key n Ended hm'"
    by (rule hmac_single_phase[OF dl m n s[unfolded \<open>s = Fresh\<close>]])
  then show "\<exists>op1. co_call (hmac_op dl hc (hmac_sign_call dl) hm) (Single d n) = (Ok (hmac_value H m key n d), op1) \<and>
      (\<exists>hm'. op1 = hmac_op dl hc (hmac_sign_call dl) hm' \<and> hmac_phase H absorbed m key n Ended hm')"
    by (auto simp: hmac_op.sel)
qed

lemma hmac_op_computes:
  assumes dl: "digest_contract dl H absorbed" and m: "is_valid_hash m" and n: "n \<le> hash_size m"
    and s: "hmac_phase H absorbed m key n s hm"
  shows "computes (hmac_value H m key n) n s (hmac_op dl hc (hmac_sign_call dl) hm)"
proof (rule computes_invariant[of "\<lambda>s1 op1. \<exists>hm'. op1 = hmac_op dl hc (hmac_sign_call dl) hm' \<and>
    hmac_phase H absorbed m key n s1 hm'"])
  show "\<exists>hm'. hmac_op dl hc (hmac_sign_call dl) hm = hmac_op dl hc (hmac_sign_call dl) hm' \<and>
      hmac_phase H absorbed m key n s hm'" using s by blast
qed (use hmac_op_answers[OF dl m n] in blast)

lemma new_hmac_computes:
  assumes dl: "digest_contract dl H absorbed" and h: "hmac_mech_to_hash_mech mech = Ok m"
    and n: "n \<le> hash_size m"
  obtains hm where "hmac_internal dl mech key n = Ok hm"
    and "computes (hmac_value H m key n) n Fresh (hmac_op dl hc (hmac_sign_call dl) hm)"
proof -
  obtain hm where hm: "hmac_internal dl mech key n = Ok hm" "hmac_absorbing H absorbed m key [] hm" "\<not> hm_in_use hm"
    by (rule hmac_internal_absorbing[OF dl h])
  have "hmac_phase H absorbed m key n Fresh hm"
    using hm config_internal[OF dl h hm(1)] by (simp add: hmac_phase_def)
  then show ?thesis
    using hm(1) by (intro that hmac_op_computes[OF dl hmac_hash_valid[OF h] n])
qed

section \<open>The value of a derived object\<close>

lemma ceiling_mult: "Suc 0 \<le> n \<Longrightarrow> len \<le> (len + n - 1) div n * n"
  using div_mult_mod_eq[of "len + n - 1" n] mod_less_divisor[of n "len + n - 1"] by linarith

definition with_value :: "bytes \<Rightarrow> object \<Rightarrow> object" where
  "with_value v obj = obj\<lparr>o_attributes := upsert ck_type (from_bytes CKA_VALUE v) (o_attributes obj)\<rparr>"

lemma set_value [simp]: "set_attr (from_bytes CKA_VALUE v) obj = Ok (with_value v obj)"
  by (simp add: set_attr_other_class with_value_def from_bytes_def mk_attribute_def)

lemma get_attr_with_value:
  "get_attr t (with_value v obj) = (if t = CKA_VALUE then Some (from_bytes CKA_VALUE v) else get_attr t obj)"
  using get_attr_set[OF set_value] by (simp add: from_bytes_def mk_attribute_def)

lemma value_with_value [simp]: "get_attr_as_bytes CKA_VALUE (with_value v obj) = Ok v"
  by (simp add: get_attr_as_bytes_def attr_as_def get_attr_with_value from_bytes_def mk_attribute_def to_bytes_def)

section \<open>The mechanisms that make the operations\<close>

text \<open>The digest mechanism that is registered for a hash makes the digest operation.\<close>

definition digests_installed :: "'c digest_lib \<Rightarrow> (ck_ulong \<Rightarrow> mech_ops) \<Rightarrow> bool" where
  "digests_installed dl mops \<longleftrightarrow>
    (\<forall>h. is_valid_hash h \<longrightarrow> mo_digest_new (mops h) = hash_digest_new dl (hash_mech_info False))"

lemma installed_digest:
  assumes "digest_contract dl H absorbed" and "digests_installed dl mops" and "is_valid_hash h"
  obtains op where "mo_digest_new (mops h) (plain_mechanism h) = Ok op"
    and "computes (H h) (hash_size h) Fresh op"
proof -
  obtain ho where ho: "hash_new dl h = Ok ho" "absorbing absorbed h [] ho" "\<not> ho_in_use ho"
    by (rule hash_new_absorbing[OF assms(1,3)])
  have "mo_digest_new (mops h) (plain_mechanism h) = Ok (hash_op dl ho)"
    using assms(2,3) ho(1)
    by (simp add: digests_installed_def hash_digest_new_def hash_mech_info_def plain_mechanism_def)
  then show ?thesis using new_digest_computes[OF assms(1,3) ho(1)] by (rule that)
qed

text \<open>So do the HMAC mechanisms; a key for a derivation has \<^verbatim>\<open>CKA_DERIVE\<close>.\<close>

definition hmacs_installed :: "'c digest_lib \<Rightarrow> hmac_codec \<Rightarrow> (ck_ulong \<Rightarrow> mech_ops) \<Rightarrow> bool" where
  "hmacs_installed dl hc mops \<longleftrightarrow> (\<forall>(t, e) \<in> set HMAC_MECHS. mops t = hmac_mech_ops dl hc e)"

definition hmac_secret :: "ck_ulong \<Rightarrow> object \<Rightarrow> bytes \<Rightarrow> bool" where
  "hmac_secret t key k \<longleftrightarrow>
    (\<exists>e. (t, e) \<in> set HMAC_MECHS \<and> hmm_minlen e = hmm_maxlen e \<and> check_and_fetch_key e key CKA_DERIVE = Ok k)"

lemma full_hmac_value:
  assumes "digest_contract dl H absorbed" and "is_valid_hash m"
  shows "hmac_value H m k (hash_size m) = hmac_spec (H m) (block_size m) k"
  by (rule ext) (simp add: hmac_value_def hmac_spec_length[OF assms])

lemma installed_hmac:
  assumes dl: "digest_contract dl H absorbed" and "hmacs_installed dl hc mops" and "hmac_secret t key k"
  obtains op m where "hmac_mech_to_hash_mech t = Ok m"
    and "mo_mac_new (mops t) (plain_mechanism t) key CKF_DERIVE = Ok op"
    and "computes (hmac_spec (H m) (block_size m) k) (hash_size m) Fresh op"
proof -
  obtain e where e: "(t, e) \<in> set HMAC_MECHS" "hmm_minlen e = hmm_maxlen e"
      "check_and_fetch_key e key CKA_DERIVE = Ok k"
    using assms(3) by (auto simp: hmac_secret_def)
  have "hmac_entry_ok (t, e)" using e(1) hmac_table_ok by (simp add: list_all_iff)
  then obtain m where m: "hmac_mech_to_hash_mech t = Ok m" "hmm_maxlen e = hash_size m"
    by (auto simp: hmac_entry_ok_def split: sum.splits)
  have ops: "mops t = hmac_mech_ops dl hc e" using e(1) assms(2) by (auto simp: hmacs_installed_def)
  obtain hm where hm: "hmac_internal dl t k (hash_size m) = Ok hm"
      "computes (hmac_value H m k (hash_size m)) (hash_size m) Fresh (hmac_op dl hc (hmac_sign_call dl) hm)"
    by (rule new_hmac_computes[OF dl m(1) order.refl])
  have "mo_mac_new (mops t) (plain_mechanism t) key CKF_DERIVE = Ok (hmac_op dl hc (hmac_sign_call dl) hm)"
    using e m hm(1) ops
    by (simp add: hmac_mech_ops_def Let_def hmac_new_op_def hmac_op_attr_def check_and_fetch_param_def
        plain_mechanism_def hmac_new_def)
  then show ?thesis
    using m(1) hm(2) unfolding full_hmac_value[OF dl hmac_hash_valid[OF m(1)]] by (intro that)
qed

text \<open>A key that may be used for a derivation is a key for the HMAC.\<close>

lemma check_key_ops_Ok:
  assumes "check_key_ops c kt op key = Ok ()" and "kt \<noteq> CK_UNAVAILABLE_INFORMATION"
  shows "get_attr_as_ulong CKA_CLASS key = Ok c \<and> get_attr_as_ulong CKA_KEY_TYPE key = Ok kt \<and>
    get_attr_as_bool op key = Ok True"
  using assms by (auto simp: check_key_ops_def and_then_eq_Ok split: if_split_asm sum.splits)

lemma hmac_secretI:
  assumes "(t, e) \<in> set HMAC_MECHS" and "hmm_minlen e = hmm_maxlen e"
    and "check_key_ops CKO_SECRET_KEY kt CKA_DERIVE key = Ok ()"
    and "kt = CKK_GENERIC_SECRET \<or> kt = hmm_keytype e" and "kt \<noteq> CK_UNAVAILABLE_INFORMATION"
    and "get_attr_as_bytes CKA_VALUE key = Ok k"
  shows "hmac_secret t key k"
  unfolding hmac_secret_def using assms check_key_ops_Ok[OF assms(3,5)]
  by (intro exI[of _ e]) (auto simp: check_and_fetch_key_def)

lemma HMAC_full:
  "hs \<in> set HASH_MECH_SET \<Longrightarrow> (hb_mac hs, \<lparr>hmm_flags = CKF_SIGN OR CKF_VERIFY, hmm_keytype = hb_key_type hs,
    hmm_minlen = hb_hash_size hs, hmm_maxlen = hb_hash_size hs\<rparr>) \<in> set HMAC_MECHS"
  by (force simp: HMAC_MECHS_def)

definition typed_prf :: "ck_ulong \<Rightarrow> ck_ulong \<Rightarrow> bool" where
  "typed_prf mech kt \<longleftrightarrow> list_ex (\<lambda>hs. hb_mac hs = mech \<and> (kt = CKK_GENERIC_SECRET \<or> kt = hb_key_type hs)) HASH_MECH_SET \<and>
    kt \<noteq> CK_UNAVAILABLE_INFORMATION"

lemma typed_prf_secret:
  assumes "typed_prf mech kt" and "check_key_ops CKO_SECRET_KEY kt CKA_DERIVE key = Ok ()"
    and "get_attr_as_bytes CKA_VALUE key = Ok k"
  shows "hmac_secret mech key k"
proof -
  obtain hs where "hs \<in> set HASH_MECH_SET" "hb_mac hs = mech" "kt = CKK_GENERIC_SECRET \<or> kt = hb_key_type hs"
      "kt \<noteq> CK_UNAVAILABLE_INFORMATION"
    using assms(1) by (auto simp: typed_prf_def list_ex_iff)
  then show ?thesis
    using HMAC_full[of hs] assms(2,3) by (intro hmac_secretI[where kt = kt]) auto
qed

section \<open>A sample base key and sample mechanisms\<close>

definition derive_base :: "ck_ulong \<Rightarrow> object" where
  "derive_base kt =
    \<lparr>o_handle = 7, o_session = 1, o_class = CKO_SECRET_KEY, o_attributes =
      [from_ulong CKA_CLASS CKO_SECRET_KEY, from_ulong CKA_KEY_TYPE kt, from_bool CKA_DERIVE True,
       from_bool CKA_SENSITIVE True, from_bool CKA_EXTRACTABLE False, from_bytes CKA_VALUE [1, 2, 3]],
     o_zeroize = True\<rparr>"

lemma derive_base_sel:
  "get_attr_as_ulong CKA_CLASS (derive_base kt) = Ok CKO_SECRET_KEY"
  "get_attr_as_ulong CKA_KEY_TYPE (derive_base kt) = Ok kt"
  "get_attr_as_bool CKA_DERIVE (derive_base kt) = Ok True"
  "get_attr_as_bytes CKA_VALUE (derive_base kt) = Ok [1, 2, 3]"
  "check_key_ops CKO_SECRET_KEY kt CKA_DERIVE (derive_base kt) = Ok ()"
  "check_key_ops CKO_SECRET_KEY CK_UNAVAILABLE_INFORMATION CKA_DERIVE (derive_base kt) = Ok ()"
  by (auto simp: derive_base_def get_attr_def attr_as_def get_attr_as_ulong_def get_attr_as_bool_def
      get_attr_as_bytes_def check_key_ops_def)

definition sample_mops :: "ck_ulong \<Rightarrow> mech_ops" where
  "sample_mops t =
    (case map_of HMAC_MECHS t of
       Some e \<Rightarrow> hmac_mech_ops toy_digests toy_codec e
     | None \<Rightarrow> default_mech_ops\<lparr>mo_digest_new := hash_digest_new toy_digests (hash_mech_info False)\<rparr>)"

lemma sample_installed:
  "digests_installed toy_digests sample_mops" "hmacs_installed toy_digests toy_codec sample_mops"
proof -
  have "list_all (\<lambda>hs. map_of HMAC_MECHS (hb_hash hs) = None) HASH_MECH_SET"
    by (simp add: HMAC_MECHS_def HASH_MECH_SET_def)
  then have "map_of HMAC_MECHS h = None" if "is_valid_hash h" for h
    using that by (auto simp: is_valid_hash_def list_all_iff dest!: find_hash_in)
  then show "digests_installed toy_digests sample_mops"
    by (simp add: digests_installed_def sample_mops_def)
  have d: "distinct (map fst HMAC_MECHS)" by (simp add: HMAC_MECHS_def HASH_MECH_SET_def)
  show "hmacs_installed toy_digests toy_codec sample_mops"
    by (auto simp: hmacs_installed_def sample_mops_def map_of_is_SomeI[OF d])
qed

definition sample_registered :: mechanisms where
  "sample_registered = [(CKM_SHA256, hash_mech_info False), (CKM_SHA256_HMAC, hmac_info)]"

lemma sample_found:
  "mechs_find CKM_SHA256 sample_registered = Ok (hash_mech_info False)"
  "mechs_find CKM_SHA256_HMAC sample_registered = Ok hmac_info"
  by (simp_all add: sample_registered_def mechs_find_def)

lemma sample_hmac_secret: "hmac_secret CKM_SHA256_HMAC (derive_base CKK_GENERIC_SECRET) [1, 2, 3]"
  unfolding hmac_secret_def
  by (rule exI[of _ sha256_entry])
    (use sha256_entry in \<open>auto simp: sha256_entry_def check_and_fetch_key_def derive_base_sel\<close>)

end
