(* ===== verification/Ssh_Kdf.thy ===== *)
theory Ssh_Kdf
  imports Prf_Laws
begin

text \<open>
  The key derivation of SSH (\<^verbatim>\<open>src/src/native/sshkdf.rs\<close> and \<^verbatim>\<open>src/src/sshkdf.rs\<close>), and that it derives
  the keys of RFC 4253, section 7.2.
\<close>

section \<open>The operation\<close>

record sshkdf_operation =
  sk_prf :: ck_ulong
  sk_key_type :: u8
  sk_exchange_hash :: bytes
  sk_session_id :: bytes
  sk_is_data :: bool

fun sshkdf_struct :: "param_struct \<Rightarrow> kr_sshkdf_params option" where
  "sshkdf_struct (SshkdfParams p) = Some p"
| "sshkdf_struct _ = None"

text \<open>\<^verbatim>\<open>'A'\<close> and \<^verbatim>\<open>'B'\<close> are initialization vectors, \<^verbatim>\<open>'C'\<close> to \<^verbatim>\<open>'F'\<close> keys.\<close>

definition sshkdf_new :: "ck_mechanism \<Rightarrow> sshkdf_operation result" where
  "sshkdf_new m =
    and_then (get_parameters 48 sshkdf_struct m) (\<lambda>p.
    if \<not> is_valid_hash (sh_prfHashMechanism p) then Err CKR_MECHANISM_PARAM_INVALID
    else and_then
      (if sh_derivedKeyType p \<in> {0x41, 0x42} then Ok True
       else if sh_derivedKeyType p \<in> {0x43, 0x44, 0x45, 0x46} then Ok False
       else Err CKR_MECHANISM_PARAM_INVALID) (\<lambda>is_data.
      Ok \<lparr>sk_prf = sh_prfHashMechanism p, sk_key_type = sh_derivedKeyType p,
          sk_exchange_hash = bytes_to_vec (sh_pExchangeHash p) (unat (sh_ulExchangeHashLen p)),
          sk_session_id = bytes_to_vec (sh_pSessionId p) (unat (sh_ulSessionIdLen p)),
          sk_is_data = is_data\<rparr>))"

text \<open>One segment: the digest is reset after the first, and fed with the key material so far.\<close>

definition ssh_segment ::
    "sshkdf_operation \<Rightarrow> bytes \<Rightarrow> nat \<Rightarrow> nat \<Rightarrow> bytes \<Rightarrow> crypto_op \<Rightarrow> bytes result \<times> crypto_op" where
  "ssh_segment sk keyval segment ctr dkm op =
    st_then (if ctr \<noteq> 0 then op_reset op else (Ok (), op)) (\<lambda>_.
      op_all ([keyval, sk_exchange_hash sk] @
              (if ctr = 0 then [[sk_key_type sk], sk_session_id sk] else [dkm])) segment)"

text \<open>The loop over the segments; the last one may be cut.\<close>

fun ssh_segments ::
    "sshkdf_operation \<Rightarrow> bytes \<Rightarrow> nat \<Rightarrow> nat \<Rightarrow> nat list \<Rightarrow> bytes \<Rightarrow> crypto_op \<Rightarrow> bytes result" where
  "ssh_segments sk keyval segment value_len [] dkm op = Ok dkm"
| "ssh_segments sk keyval segment value_len (ctr # ctrs) dkm op =
    (let curlen = length dkm;
         len = (if curlen + segment > value_len then value_len - curlen else segment) in
     case ssh_segment sk keyval segment ctr dkm op of
       (Inl e, _) \<Rightarrow> Inl e
     | (Inr buffer, op1) \<Rightarrow>
       ssh_segments sk keyval segment value_len ctrs (dkm @ take len buffer) op1)"

definition sshkdf_derive ::
    "(ck_ulong \<Rightarrow> mech_ops) \<Rightarrow> bytes \<Rightarrow> sshkdf_operation \<Rightarrow> object \<Rightarrow> ck_attrs \<Rightarrow> mechanisms \<Rightarrow>
      factories \<Rightarrow> object list result" where
  "sshkdf_derive mops uuid sk key template mechs fs =
    and_then (check_key_ops CKO_SECRET_KEY CKK_GENERIC_SECRET CKA_DERIVE key) (\<lambda>_.
    and_then (mechs_find (sk_prf sk) mechs) (\<lambda>_.
    and_then (mo_digest_new (mops (sk_prf sk)) (plain_mechanism (sk_prf sk))) (\<lambda>op.
    and_then (co_fixed_len op) (\<lambda>segment.
    and_then
      (if sk_is_data sk then common_derive_data_object fs uuid template 0
       else common_derive_key_object fs uuid key template 0) (\<lambda>(dobj, value_len).
    if value_len = 0 \<or> value_len \<ge> 2 ^ 32 then Err CKR_TEMPLATE_INCONSISTENT
    else and_then (get_attr_as_bytes CKA_VALUE key) (\<lambda>keyval.
    if segment = 0 then Inl Panic
    else and_then
      (ssh_segments sk keyval segment value_len [0..<(value_len + segment - 1) div segment] [] op) (\<lambda>dkm.
    and_then (set_attr (from_bytes CKA_VALUE dkm) dobj) (\<lambda>dobj1. Ok [dobj1]))))))))"

definition sshkdf_mechanism :: "(ck_ulong \<Rightarrow> mech_ops) \<Rightarrow> bytes \<Rightarrow> ck_mechanism_info \<Rightarrow> mech_ops" where
  "sshkdf_mechanism mops uuid info =
    default_mech_ops\<lparr>mo_derive_operation := (\<lambda>m.
      if mi_flags info AND CKF_DERIVE \<noteq> CKF_DERIVE then Err CKR_MECHANISM_INVALID
      else if cm_mechanism m = KRM_SSHKDF_DERIVE
        then and_then (sshkdf_new m) (\<lambda>sk. Ok (simple_derive (sshkdf_derive mops uuid sk)))
      else Err CKR_MECHANISM_INVALID)\<rparr>"

text \<open>\<^verbatim>\<open>u32::MAX\<close> is the largest size.\<close>

definition SSH_KDF_MECH :: ck_mechanism_info where
  "SSH_KDF_MECH = \<lparr>ulMinKeySize = 0, ulMaxKeySize = 0xFFFFFFFF, mi_flags = CKF_DERIVE\<rparr>"

definition register_sshkdf :: "mechanisms \<Rightarrow> mechanisms" where
  "register_sshkdf mechs = add_mechanism KRM_SSHKDF_DERIVE SSH_KDF_MECH mechs"

section \<open>RFC 4253\<close>

text \<open>
  The first \<open>i\<close> parts of the key of type \<open>x\<close>: \<open>K1 = HASH(K || H || X || session_id)\<close> and
  \<open>Kn = HASH(K || H || K1 || ... || Kn-1)\<close>.
\<close>

fun ssh_key :: "(bytes \<Rightarrow> bytes) \<Rightarrow> bytes \<Rightarrow> bytes \<Rightarrow> u8 \<Rightarrow> bytes \<Rightarrow> nat \<Rightarrow> bytes" where
  "ssh_key F k h x sid 0 = []"
| "ssh_key F k h x sid (Suc 0) = F (k @ h @ [x] @ sid)"
| "ssh_key F k h x sid (Suc (Suc i)) =
    ssh_key F k h x sid (Suc i) @ F (k @ h @ ssh_key F k h x sid (Suc i))"

lemma ssh_key_length: "\<forall>d. length (F d) = n \<Longrightarrow> length (ssh_key F k h x sid i) = i * n"
  by (induction F k h x sid i rule: ssh_key.induct) auto

lemma ssh_segment_value:
  assumes "computes F n s op" and "ctr = 0 \<longrightarrow> s = Fresh"
    and "dkm = ssh_key F k (sk_exchange_hash sk) (sk_key_type sk) (sk_session_id sk) ctr"
  obtains buf op1 where "ssh_segment sk k n ctr dkm op = (Ok buf, op1)" and "computes F n Ended op1"
    and "ssh_key F k (sk_exchange_hash sk) (sk_key_type sk) (sk_session_id sk) (Suc ctr) = dkm @ buf"
    and "length buf = n"
proof (cases ctr)
  case 0
  then have f: "computes F n Fresh op" using assms(1,2) by simp
  obtain op1 where op1: "op_all [k, sk_exchange_hash sk, [sk_key_type sk], sk_session_id sk] n op =
      (Ok (F (fed Fresh @ concat [k, sk_exchange_hash sk, [sk_key_type sk], sk_session_id sk])), op1)"
      "computes F n Ended op1"
    by (rule computes_all[OF f, of "[k, sk_exchange_hash sk, [sk_key_type sk], sk_session_id sk]"]) simp
  show ?thesis
    by (rule that) (use 0 op1 assms(3) computes_value_len[OF f] in \<open>simp_all add: ssh_segment_def\<close>)
next
  case (Suc i)
  obtain op0 where op0: "op_reset op = (Ok (), op0)" "computes F n Fresh op0"
    by (rule computes_reset[OF assms(1)])
  obtain op1 where op1: "op_all [k, sk_exchange_hash sk, dkm] n op0 =
      (Ok (F (fed Fresh @ concat [k, sk_exchange_hash sk, dkm])), op1)" "computes F n Ended op1"
    by (rule computes_all[OF op0(2), of "[k, sk_exchange_hash sk, dkm]"]) simp
  show ?thesis
    by (rule that) (use Suc op0 op1 assms(3) computes_value_len[OF assms(1)] in \<open>simp_all add: ssh_segment_def\<close>)
qed

lemma ssh_segments_value:
  assumes "computes F n s op" and "c \<le> N" and "c = 0 \<longrightarrow> s = Fresh" and "0 < n"
    and "N = (len + n - 1) div n"
    and "dkm = take len (ssh_key F k (sk_exchange_hash sk) (sk_key_type sk) (sk_session_id sk) c)"
  shows "ssh_segments sk k n len [c..<N] dkm op =
    Ok (take len (ssh_key F k (sk_exchange_hash sk) (sk_key_type sk) (sk_session_id sk) N))"
  using assms
proof (induction "N - c" arbitrary: c s op dkm)
  case 0
  then show ?case by simp
next
  case (Suc d)
  let ?key = "ssh_key F k (sk_exchange_hash sk) (sk_key_type sk) (sk_session_id sk)"
  have lens: "length (?key i) = i * n" for i
    using ssh_key_length computes_value_len[OF Suc.prems(1)] by blast
  have c: "c < N" using Suc.hyps(2) by simp
  then have "Suc c * n \<le> len + n - 1"
    using Suc.prems(4,5) by (metis Suc_leI less_eq_div_iff_mult_less_eq)
  then have le: "c * n < len" using Suc.prems(4) by simp
  then have dkm: "dkm = ?key c" using Suc.prems(6) lens by simp
  obtain buf op1 where seg: "ssh_segment sk k n c dkm op = (Ok buf, op1)" "computes F n Ended op1"
      "?key (Suc c) = dkm @ buf" "length buf = n"
    by (rule ssh_segment_value[OF Suc.prems(1,3) dkm])
  have up: "[c..<N] = c # [Suc c..<N]" using c by (rule upt_conv_Cons)
  have cut: "dkm @ take (if length dkm + n > len then len - length dkm else n) buf = take len (?key (Suc c))"
    using seg(3,4) dkm lens le by auto
  have "ssh_segments sk k n len [Suc c..<N] (take len (?key (Suc c))) op1 = Ok (take len (?key N))"
    by (rule Suc.hyps(1)[OF _ seg(2)]) (use c Suc.hyps(2) Suc.prems(4,5) in simp_all)
  then show ?case
    unfolding up ssh_segments.simps Let_def seg(1) prod.case sum.case cut .
qed

section \<open>The derived keys\<close>

lemma sshkdf_new_valid: "sshkdf_new m = Ok sk \<Longrightarrow> is_valid_hash (sk_prf sk)"
  by (auto simp: sshkdf_new_def and_then_eq_Ok split: if_split_asm)

text \<open>
  C18. The key derivation of SSH gives the key of RFC 4253, section 7.2 (\<^verbatim>\<open>SSHKDFOperation::derive\<close>). When
  the base key may be derived from, the hash is registered and the template gives an object and a
  length, the derivation succeeds; the value of the object is the start of that length of
  K1, K2, ..., and has that length.
\<close>

theorem ssh_key_of_rfc4253:
  assumes "digest_contract dl H absorbed" and "digests_installed dl mops"
    and "sshkdf_new m = Ok sk" and "mechs_find (sk_prf sk) mechs = Ok info"
    and "check_key_ops CKO_SECRET_KEY CKK_GENERIC_SECRET CKA_DERIVE key = Ok ()"
    and "get_attr_as_bytes CKA_VALUE key = Ok k"
    and "(if sk_is_data sk then common_derive_data_object fs uuid template 0
      else common_derive_key_object fs uuid key template 0) = Ok (dobj, len)"
    and "0 < len" and "len < 2 ^ 32"
  shows "\<exists>v N. sshkdf_derive mops uuid sk key template mechs fs = Ok [with_value v dobj] \<and>
    v = take len (ssh_key (H (sk_prf sk)) k (sk_exchange_hash sk) (sk_key_type sk) (sk_session_id sk) N) \<and>
    length v = len"
proof -
  let ?n = "hash_size (sk_prf sk)"
  let ?N = "(len + ?n - 1) div ?n"
  let ?key = "ssh_key (H (sk_prf sk)) k (sk_exchange_hash sk) (sk_key_type sk) (sk_session_id sk)"
  note valid = sshkdf_new_valid[OF assms(3)]
  obtain op where op: "mo_digest_new (mops (sk_prf sk)) (plain_mechanism (sk_prf sk)) = Ok op"
      "computes (H (sk_prf sk)) ?n Fresh op"
    by (rule installed_digest[OF assms(1,2) valid])
  have n: "0 < ?n" by (rule valid_hash_sizes(3)[OF valid])
  have "ssh_segments sk k ?n len [0..<?N] [] op = Ok (take len (?key ?N))"
    by (rule ssh_segments_value[OF op(2)]) (use n in simp_all)
  then have "sshkdf_derive mops uuid sk key template mechs fs = Ok [with_value (take len (?key ?N)) dobj]"
    using assms(4-9) op(1) computes_len[OF op(2)] n by (simp add: sshkdf_derive_def)
  moreover have "len \<le> ?N * ?n"
    using n by (metis Suc_leI ceiling_mult)
  then have "length (take len (?key ?N)) = len"
    using ssh_key_length computes_value_len[OF op(2)] by (simp add: min_def)
  ultimately show ?thesis by blast
qed

section \<open>A sample derivation\<close>

definition ssh_params :: kr_sshkdf_params where
  "ssh_params = \<lparr>sh_prfHashMechanism = CKM_SHA256, sh_derivedKeyType = 0x41, sh_pExchangeHash = Ptr [7, 8] [] True,
     sh_ulExchangeHashLen = 2, sh_pSessionId = Ptr [7, 8] [] True, sh_ulSessionIdLen = 2\<rparr>"

definition ssh_mechanism :: ck_mechanism where
  "ssh_mechanism = \<lparr>cm_mechanism = KRM_SSHKDF_DERIVE, cm_parameter = Ptr [] [] True, cm_parameter_len = 48,
     cm_struct = SshkdfParams ssh_params\<rparr>"

theorem ssh_key_of_rfc4253_witness:
  "\<exists>sk v dobj. sshkdf_new ssh_mechanism = Ok sk \<and>
    sshkdf_derive sample_mops [1] sk (derive_base CKK_GENERIC_SECRET) [ck_attr_of CKA_VALUE_LEN (u64_to_le 40)]
      sample_registered core_factories = Ok [with_value v dobj] \<and> length v = 40"
proof -
  let ?sk = "\<lparr>sk_prf = CKM_SHA256, sk_key_type = 0x41, sk_exchange_hash = [7, 8], sk_session_id = [7, 8],
      sk_is_data = True\<rparr>"
  have sk: "sshkdf_new ssh_mechanism = Ok ?sk"
    by (simp add: sshkdf_new_def ssh_mechanism_def ssh_params_def get_parameters_def valid_hashes bytes_to_vec_def)
  have "and_then (common_derive_data_object core_factories [1] [ck_attr_of CKA_VALUE_LEN (u64_to_le 40)] 0)
      (\<lambda>p. Ok (snd p)) = Ok 40"
    by code_simp
  then obtain dobj where
    "common_derive_data_object core_factories [1] [ck_attr_of CKA_VALUE_LEN (u64_to_le 40)] 0 = Ok (dobj, 40)"
    by (auto simp: and_then_eq_Ok)
  moreover have "mechs_find (sk_prf ?sk) sample_registered = Ok (hash_mech_info False)"
    by (simp add: sample_found)
  ultimately show ?thesis
    using ssh_key_of_rfc4253[OF toy_contract sample_installed(1) sk _ derive_base_sel(5) derive_base_sel(4)] sk
    by fastforce
qed

end
