(* ===== verification/Pbkdf2.thy ===== *)
theory Pbkdf2
  imports Prf_Laws
begin

text \<open>
  The password-based key generation of PKCS #5 (\<^verbatim>\<open>src/src/native/pbkdf2.rs\<close> and
  \<^verbatim>\<open>src/src/pbkdf2.rs\<close>), and that it makes the key of RFC 8018, section 5.2.
\<close>

section \<open>The derivation\<close>

definition prf_fn :: "(ck_ulong \<Rightarrow> mech_ops) \<Rightarrow> ck_ulong \<Rightarrow> object \<Rightarrow> nat \<Rightarrow> bytes \<Rightarrow> bytes result" where
  "prf_fn mops prf pass n i =
    and_then (mo_mac_new (mops prf) (plain_mechanism prf) pass CKF_DERIVE) (\<lambda>op. fst (co_call op (Single i n)))"

text \<open>The two buffers are swapped, so the output of a round is the input of the next.\<close>

fun pbkdf2_rounds ::
    "(ck_ulong \<Rightarrow> mech_ops) \<Rightarrow> ck_ulong \<Rightarrow> object \<Rightarrow> nat \<Rightarrow> nat \<Rightarrow> bytes \<Rightarrow> bytes \<Rightarrow> bytes result" where
  "pbkdf2_rounds mops prf pass hlen 0 u_in t_i = Ok t_i"
| "pbkdf2_rounds mops prf pass hlen (Suc iter) u_in t_i =
    and_then (prf_fn mops prf pass hlen u_in) (\<lambda>u_out.
      pbkdf2_rounds mops prf pass hlen iter u_out (xor_bytes t_i u_out))"

fun pbkdf2_blocks ::
    "(ck_ulong \<Rightarrow> mech_ops) \<Rightarrow> ck_ulong \<Rightarrow> object \<Rightarrow> bytes \<Rightarrow> nat \<Rightarrow> nat \<Rightarrow> nat \<Rightarrow> nat list \<Rightarrow> bytes \<Rightarrow>
      bytes result" where
  "pbkdf2_blocks mops prf pass salt iter dklen hlen [] dkm = Ok dkm"
| "pbkdf2_blocks mops prf pass salt iter dklen hlen (b # bs) dkm =
    (if b + 1 \<ge> 2 ^ 32 then Inl Nested
     else and_then
       (pbkdf2_rounds mops prf pass hlen iter (salt @ to_be_bytes32 (of_nat (b + 1))) (replicate hlen 0)) (\<lambda>t_i.
         let r = min (dklen - b * hlen) hlen in
         pbkdf2_blocks mops prf pass salt iter dklen hlen bs (dkm @ take r t_i)))"

definition native_pbkdf2_derive ::
    "(ck_ulong \<Rightarrow> mech_ops) \<Rightarrow> mechanisms \<Rightarrow> ck_ulong \<Rightarrow> object \<Rightarrow> bytes \<Rightarrow> nat \<Rightarrow> nat \<Rightarrow> bytes result" where
  "native_pbkdf2_derive mops mechs prf pass salt iter dklen =
    (let hlen = hmac_size prf in
     if hlen = unat CK_UNAVAILABLE_INFORMATION then Err CKR_MECHANISM_INVALID
     else if dklen div hlen \<ge> 2 ^ 32 then Err CKR_KEY_SIZE_RANGE
     else and_then (mechs_find prf mechs) (\<lambda>_.
       pbkdf2_blocks mops prf pass salt iter dklen hlen [0..<(dklen + hlen - 1) div hlen] []))"

section \<open>The mechanism\<close>

fun pbkd2_struct :: "param_struct \<Rightarrow> ck_pkcs5_pbkd2_params2 option" where
  "pbkd2_struct (Pbkd2Params p) = Some p"
| "pbkd2_struct _ = None"

definition mock_password_object :: "bytes \<Rightarrow> object result" where
  "mock_password_object key =
    and_then (set_attr (from_ulong CKA_KEY_TYPE CKK_GENERIC_SECRET) (set_zeroize (new_object CKO_SECRET_KEY))) (\<lambda>o1.
    and_then (ulong_try_from (length key)) (\<lambda>l.
    and_then (set_attr (from_ulong CKA_VALUE_LEN l) o1) (\<lambda>o2.
    and_then (set_attr (from_bytes CKA_VALUE key) o2) (\<lambda>o3.
      set_attr (from_bool CKA_DERIVE True) o3))))"

definition pbkdf2_prf :: "ck_ulong \<Rightarrow> ck_ulong result" where
  "pbkdf2_prf p =
    (if p = CKP_PKCS5_PBKD2_HMAC_SHA1 then Ok CKM_SHA_1_HMAC
     else if p = CKP_PKCS5_PBKD2_HMAC_SHA224 then Ok CKM_SHA224_HMAC
     else if p = CKP_PKCS5_PBKD2_HMAC_SHA256 then Ok CKM_SHA256_HMAC
     else if p = CKP_PKCS5_PBKD2_HMAC_SHA384 then Ok CKM_SHA384_HMAC
     else if p = CKP_PKCS5_PBKD2_HMAC_SHA512 then Ok CKM_SHA512_HMAC
     else if p = CKP_PKCS5_PBKD2_HMAC_SHA512_224 then Ok CKM_SHA512_224_HMAC
     else if p = CKP_PKCS5_PBKD2_HMAC_SHA512_256 then Ok CKM_SHA512_256_HMAC
     else Err CKR_MECHANISM_PARAM_INVALID)"

text \<open>The function, the password object, the salt and the number of iterations.\<close>

definition pbkdf2_arguments :: "ck_pkcs5_pbkd2_params2 \<Rightarrow> (ck_ulong \<times> object \<times> bytes \<times> nat) result" where
  "pbkdf2_arguments p =
    (if \<not> pb_prf_data_null p \<or> pb_ulPrfDataLen p \<noteq> 0 then Err CKR_MECHANISM_PARAM_INVALID
     else and_then (pbkdf2_prf (pb_prf p)) (\<lambda>prf.
     and_then (mock_password_object (bytes_to_vec (pb_pPassword p) (unat (pb_ulPasswordLen p)))) (\<lambda>pass.
     if pb_saltSource p \<noteq> CKZ_SALT_SPECIFIED then Err CKR_MECHANISM_PARAM_INVALID
     else if is_null (pb_pSaltSourceData p) \<or> pb_ulSaltSourceDataLen p = 0 then Err CKR_MECHANISM_PARAM_INVALID
     else Ok (prf, pass, bytes_to_vec (pb_pSaltSourceData p) (unat (pb_ulSaltSourceDataLen p)),
              unat (pb_iterations p)))))"

text \<open>The length of the key: from the template, or what the factory recommends for the output.\<close>

definition pbkdf2_keylen :: "object_factory \<Rightarrow> ck_ulong \<Rightarrow> ck_attrs \<Rightarrow> nat result" where
  "pbkdf2_keylen factory prf template =
    (case find_attr CKA_VALUE_LEN template of
       Some a \<Rightarrow> and_then (ck_to_ulong a) (\<lambda>n. Ok (unat n))
     | None \<Rightarrow>
       if hmac_size prf = unat CK_UNAVAILABLE_INFORMATION then Err CKR_MECHANISM_INVALID
       else and_then (as_secret_key_factory factory) (\<lambda>sf.
         case sf_recommend_key_size sf (hmac_size prf) of
           Inr len \<Rightarrow> Ok len
         | Inl _ \<Rightarrow> Err CKR_TEMPLATE_INCONSISTENT))"

definition pbkdf2_generate_key ::
    "(ck_ulong \<Rightarrow> mech_ops) \<Rightarrow> bytes \<Rightarrow> ck_mechanism_info \<Rightarrow> ck_mechanism \<Rightarrow> ck_attrs \<Rightarrow> mechanisms \<Rightarrow>
      factories \<Rightarrow> object result" where
  "pbkdf2_generate_key mops uuid info m template mechs fs =
    (if mi_flags info AND CKF_GENERATE \<noteq> CKF_GENERATE then Err CKR_MECHANISM_INVALID
     else if cm_mechanism m \<noteq> CKM_PKCS5_PBKD2 then Err CKR_MECHANISM_INVALID
     else and_then (get_parameters 72 pbkd2_struct m) (\<lambda>p.
     and_then (pbkdf2_arguments p) (\<lambda>(prf, pass, salt, iter).
     and_then (get_obj_factory_from_key_template fs template) (\<lambda>factory.
     and_then (pbkdf2_keylen factory prf template) (\<lambda>keylen.
     and_then (native_pbkdf2_derive mops mechs prf pass salt iter keylen) (\<lambda>dkm.
     and_then (add_vec CKA_VALUE dkm template) (\<lambda>tmpl.
     and_then (f_create factory uuid tmpl) (\<lambda>key.
       default_key_attributes (cm_mechanism m) key))))))))"

definition PBKDF2_MECH :: ck_mechanism_info where
  "PBKDF2_MECH = \<lparr>ulMinKeySize = 0, ulMaxKeySize = 0xFFFFFFFF, mi_flags = CKF_GENERATE\<rparr>"

definition register_pbkdf2 :: "mechanisms \<Rightarrow> mechanisms" where
  "register_pbkdf2 mechs = add_mechanism CKM_PKCS5_PBKD2 PBKDF2_MECH mechs"

section \<open>RFC 8018\<close>

text \<open>\<open>U1 = PRF (P, S || INT (i))\<close>, \<open>Uj = PRF (P, Uj-1)\<close>, and \<open>Ti\<close> is the exclusive-or of the first \<open>c\<close>.\<close>

fun pbkdf2_U :: "(bytes \<Rightarrow> bytes) \<Rightarrow> bytes \<Rightarrow> nat \<Rightarrow> bytes" where
  "pbkdf2_U F s 0 = F s"
| "pbkdf2_U F s (Suc j) = F (pbkdf2_U F s j)"

definition pbkdf2_T :: "(bytes \<Rightarrow> bytes) \<Rightarrow> bytes \<Rightarrow> nat \<Rightarrow> nat \<Rightarrow> nat \<Rightarrow> bytes" where
  "pbkdf2_T F salt c hlen i =
    foldl xor_bytes (replicate hlen 0) (map (pbkdf2_U F (salt @ to_be_bytes32 (of_nat i))) [0..<c])"

definition pbkdf2_DK :: "(bytes \<Rightarrow> bytes) \<Rightarrow> bytes \<Rightarrow> nat \<Rightarrow> nat \<Rightarrow> nat \<Rightarrow> bytes" where
  "pbkdf2_DK F salt c hlen dklen =
    take dklen (concat (map (pbkdf2_T F salt c hlen) [1..<(dklen + hlen - 1) div hlen + 1]))"

lemma pbkdf2_U_shift: "pbkdf2_U F (F s) j = pbkdf2_U F s (Suc j)"
  by (induction j) simp_all

lemma pbkdf2_rounds_value:
  assumes "\<And>d. prf_fn mops prf pass hlen d = Ok (F d)"
  shows "pbkdf2_rounds mops prf pass hlen c u t = Ok (foldl xor_bytes t (map (pbkdf2_U F u) [0..<c]))"
proof (induction c arbitrary: u t)
  case (Suc c)
  have "map (pbkdf2_U F u) [0..<Suc c] = F u # map (pbkdf2_U F (F u)) [0..<c]"
    by (simp add: upt_conv_Cons pbkdf2_U_shift map_Suc_upt[symmetric] comp_def del: upt_Suc pbkdf2_U.simps(2))
  then show ?case using Suc assms by (simp del: upt_Suc)
qed simp

lemma length_xor_bytes [simp]: "length (xor_bytes a b) = min (length a) (length b)"
  by (simp add: xor_bytes_def)

lemma pbkdf2_T_length:
  assumes "\<And>d. length (F d) = hlen"
  shows "length (pbkdf2_T F salt c hlen i) = hlen"
proof -
  have "length (pbkdf2_U F s j) = hlen" for s j by (cases j) (simp_all add: assms)
  then have "length (foldl xor_bytes t (map (pbkdf2_U F s) js)) = hlen" if "length t = hlen" for t s js
    using that by (induction js arbitrary: t) simp_all
  then show ?thesis by (simp add: pbkdf2_T_def)
qed

lemma pbkdf2_blocks_value:
  assumes "\<And>d. prf_fn mops prf pass hlen d = Ok (F d)" and "\<And>d. length (F d) = hlen" and "0 < hlen"
    and "N = (dklen + hlen - 1) div hlen" and "N < 2 ^ 32" and "c \<le> N"
    and "dkm = take dklen (concat (map (pbkdf2_T F salt iter hlen) [1..<c + 1]))"
  shows "pbkdf2_blocks mops prf pass salt iter dklen hlen [c..<N] dkm =
    Ok (take dklen (concat (map (pbkdf2_T F salt iter hlen) [1..<N + 1])))"
  using assms(6,7)
proof (induction "N - c" arbitrary: c dkm)
  case 0
  then show ?case by simp
next
  case (Suc d)
  let ?T = "pbkdf2_T F salt iter hlen"
  have c: "c < N" using Suc.hyps(2) by simp
  have lens: "length (concat (map ?T [1..<i + 1])) = i * hlen" for i
    using pbkdf2_T_length[OF assms(2)] by (induction i) simp_all
  have "Suc c * hlen \<le> dklen + hlen - 1"
    using c assms(3,4) by (metis Suc_leI less_eq_div_iff_mult_less_eq)
  then have le: "c * hlen < dklen" using assms(3) by simp
  then have dkm: "dkm = concat (map ?T [1..<c + 1])" using Suc.prems(2) lens[of c] by simp
  have next1: "dkm @ take (min (dklen - c * hlen) hlen) (?T (c + 1)) =
      take dklen (concat (map ?T [1..<Suc c + 1]))"
    using dkm lens[of c] le pbkdf2_T_length[OF assms(2)] by (simp add: min_def)
  have rounds: "pbkdf2_rounds mops prf pass hlen iter (salt @ to_be_bytes32 (of_nat (c + 1))) (replicate hlen 0) =
      Ok (?T (c + 1))"
    using pbkdf2_rounds_value[OF assms(1)] by (simp add: pbkdf2_T_def)
  have "pbkdf2_blocks mops prf pass salt iter dklen hlen [Suc c..<N]
      (dkm @ take (min (dklen - c * hlen) hlen) (?T (c + 1))) = Ok (take dklen (concat (map ?T [1..<N + 1])))"
    by (rule Suc.hyps(1)) (use c Suc.hyps(2) next1 in simp_all)
  then show ?case
    using c rounds assms(5) by (simp add: upt_conv_Cons Let_def)
qed

section \<open>The generated key\<close>

lemma mock_password:
  assumes "length pw < 2 ^ 64"
  obtains pass where "mock_password_object pw = Ok pass"
    and "get_attr_as_ulong CKA_CLASS pass = Ok CKO_SECRET_KEY"
    and "get_attr_as_ulong CKA_KEY_TYPE pass = Ok CKK_GENERIC_SECRET"
    and "get_attr_as_bool CKA_DERIVE pass = Ok True" and "get_attr_as_bytes CKA_VALUE pass = Ok pw"
proof -
  have "is_ok (mock_password_object pw)"
    using assms by (auto simp: mock_password_object_def is_ok_iff and_then_eq_Ok ulong_try_from_def set_attr_other_class
        from_ulong_def from_bytes_def from_bool_def mk_attribute_def)
  then obtain pass where pass: "mock_password_object pw = Ok pass" by (auto simp: is_ok_iff)
  then obtain o1 l o2 o3 where
    o1: "set_attr (from_ulong CKA_KEY_TYPE CKK_GENERIC_SECRET) (set_zeroize (new_object CKO_SECRET_KEY)) = Ok o1"
    and o2: "set_attr (from_ulong CKA_VALUE_LEN l) o1 = Ok o2"
    and o3: "set_attr (from_bytes CKA_VALUE pw) o2 = Ok o3"
    and o4: "set_attr (from_bool CKA_DERIVE True) o3 = Ok pass"
    by (auto simp: mock_password_object_def and_then_eq_Ok simp del: set_value)
  show ?thesis
    by (rule that[OF pass])
      (auto simp: attr_as_defs get_attr_set[OF o4] get_attr_set[OF o3] get_attr_set[OF o2] get_attr_set[OF o1]
        obj_simps from_ulong_def from_bytes_def from_bool_def mk_attribute_def to_bool_def to_ulong_def
        to_bytes_def le64.dec_enc)
qed

definition full_hmac_size :: "ck_ulong \<times> hmac_mechanism \<Rightarrow> bool" where
  "full_hmac_size e \<longleftrightarrow>
    (case hmac_mech_to_hash_mech (fst e) of
       Inr hash \<Rightarrow> hmac_size (fst e) = hash_size hash
     | Inl _ \<Rightarrow> False)"

lemma hmac_table_size: "list_all full_hmac_size HMAC_MECHS"
  by (simp add: HMAC_MECHS_def HASH_MECH_SET_def full_hmac_size_def hmac_mech_to_hash_mech_def hash_size_def
      hmac_size_def)

lemma hmac_secret_size:
  assumes "hmac_secret t key k" and "hmac_mech_to_hash_mech t = Ok m"
  shows "hmac_size t = hash_size m"
  using assms hmac_table_size by (auto simp: hmac_secret_def list_all_iff full_hmac_size_def split: sum.splits)

text \<open>A password object is a key for every function of the mechanism.\<close>

lemma password_secret:
  assumes "pbkdf2_prf p = Ok prf" and "get_attr_as_ulong CKA_CLASS pass = Ok CKO_SECRET_KEY"
    and "get_attr_as_ulong CKA_KEY_TYPE pass = Ok CKK_GENERIC_SECRET"
    and "get_attr_as_bool CKA_DERIVE pass = Ok True" and "get_attr_as_bytes CKA_VALUE pass = Ok pw"
  shows "hmac_secret prf pass pw"
proof -
  have "check_and_fetch_key e pass CKA_DERIVE = Ok pw" for e
    using assms(2-5) by (simp add: check_and_fetch_key_def)
  moreover have "\<exists>e. (prf, e) \<in> set HMAC_MECHS \<and> hmm_minlen e = hmm_maxlen e"
    using assms(1) unfolding pbkdf2_prf_def
    by (auto simp: HMAC_MECHS_def HASH_MECH_SET_def split: if_split_asm)
  ultimately show ?thesis by (auto simp: hmac_secret_def)
qed

lemma native_pbkdf2_value:
  assumes dl: "digest_contract dl H absorbed" and "hmacs_installed dl hc mops" and s: "hmac_secret prf pass pw"
    and "mechs_find prf mechs = Ok info" and m: "hmac_mech_to_hash_mech prf = Ok m"
    and len: "dklen \<le> (2 ^ 32 - 1) * hash_size m"
  shows "native_pbkdf2_derive mops mechs prf pass salt c dklen =
    Ok (pbkdf2_DK (hmac_spec (H m) (block_size m) pw) salt c (hash_size m) dklen)"
proof -
  let ?F = "hmac_spec (H m) (block_size m) pw" and ?h = "hash_size m"
  let ?N = "(dklen + ?h - 1) div ?h"
  note valid = hmac_hash_valid[OF m]
  obtain op m' where op: "hmac_mech_to_hash_mech prf = Ok m'" "mo_mac_new (mops prf) (plain_mechanism prf) pass CKF_DERIVE = Ok op"
      "computes (hmac_spec (H m') (block_size m') pw) (hash_size m') Fresh op"
    by (rule installed_hmac[OF dl assms(2) s])
  then have c: "computes ?F ?h Fresh op" using m by simp
  have "prf_fn mops prf pass ?h d = Ok (?F d)" for d
  proof -
    obtain op1 where "co_call op (Single d ?h) = (Ok (?F d), op1)" by (rule computes_single[OF c])
    then show ?thesis using op(2) by (simp add: prf_fn_def)
  qed
  moreover have h: "0 < ?h" "?h \<le> MAX_BSZ" using valid_hash_sizes[OF valid] by simp_all
  moreover have "?N \<le> 2 ^ 32 - 1"
  proof -
    have "dklen + ?h - 1 < 2 ^ 32 * ?h" using len h(1) by simp
    then have "?N < 2 ^ 32" using h(1) by (simp add: div_less_iff_less_mult)
    then show ?thesis by simp
  qed
  ultimately have "pbkdf2_blocks mops prf pass salt c dklen ?h [0..<?N] [] =
      Ok (take dklen (concat (map (pbkdf2_T ?F salt c ?h) [1..<?N + 1])))"
    by (intro pbkdf2_blocks_value) (simp_all add: hmac_spec_length[OF dl valid])
  moreover have "dklen div ?h < 2 ^ 32"
    using len h(1) by (simp add: div_less_iff_less_mult)
  moreover have "?h \<noteq> unat CK_UNAVAILABLE_INFORMATION" using h(2) by (simp add: MAX_BSZ_def)
  ultimately show ?thesis
    using assms(4) hmac_secret_size[OF s m] by (simp add: native_pbkdf2_derive_def Let_def pbkdf2_DK_def)
qed

lemma pbkdf2_DK_length:
  assumes "\<And>d. length (F d) = hlen" and "0 < hlen"
  shows "length (pbkdf2_DK F salt c hlen dklen) = dklen"
proof -
  have "length (concat (map (pbkdf2_T F salt c hlen) [1..<i + 1])) = i * hlen" for i
    using pbkdf2_T_length[OF assms(1)] by (induction i) simp_all
  then show ?thesis
    using ceiling_mult[of hlen dklen] assms(2) by (simp add: pbkdf2_DK_def min_def)
qed

text \<open>
  C19. The key of a password is that of RFC 8018, section 5.2 (\<^verbatim>\<open>PBKDF2Mechanism::generate_key\<close>). With
  parameters that are accepted and a registered function, the new key is made from the template with
  a value of the requested length, which is PBKDF2 of the password, the salt and the iterations with
  HMAC as its function; the length may be up to 2^32 - 1 blocks.
\<close>

theorem password_key_of_rfc8018:
  assumes "digest_contract dl H absorbed" and "hmacs_installed dl hc mops"
    and "cm_mechanism m = CKM_PKCS5_PBKD2" and "get_parameters 72 pbkd2_struct m = Ok p"
    and "pbkdf2_arguments p = Ok (prf, pass, salt, c)" and "mechs_find prf mechs = Ok info"
    and "get_obj_factory_from_key_template fs template = Ok f" and "pbkdf2_keylen f prf template = Ok len"
    and "len \<le> (2 ^ 32 - 1) * hmac_size prf"
    and "pw = bytes_to_vec (pb_pPassword p) (unat (pb_ulPasswordLen p))"
  shows "\<exists>hash dk. hmac_mech_to_hash_mech prf = Ok hash \<and>
    dk = pbkdf2_DK (hmac_spec (H hash) (block_size hash) pw) salt c (hash_size hash) len \<and> length dk = len \<and>
    pbkdf2_generate_key mops uuid PBKDF2_MECH m template mechs fs =
      and_then (add_vec CKA_VALUE dk template) (\<lambda>tmpl.
      and_then (f_create f uuid tmpl) (default_key_attributes CKM_PKCS5_PBKD2))"
proof -
  have args: "pbkdf2_prf (pb_prf p) = Ok prf" "mock_password_object pw = Ok pass"
    using assms(5,10) by (auto simp: pbkdf2_arguments_def and_then_eq_Ok split: if_split_asm)
  have "length pw \<le> unat (pb_ulPasswordLen p)"
    using assms(10) by (cases "pb_pPassword p") (auto simp: bytes_to_vec_def)
  also have "\<dots> < 2 ^ 64" using unsigned_less[where 'a = nat and w = "pb_ulPasswordLen p"] by simp
  finally have short: "length pw < 2 ^ 64" .
  obtain pass' where pass': "mock_password_object pw = Ok pass'"
    "get_attr_as_ulong CKA_CLASS pass' = Ok CKO_SECRET_KEY"
    "get_attr_as_ulong CKA_KEY_TYPE pass' = Ok CKK_GENERIC_SECRET"
    "get_attr_as_bool CKA_DERIVE pass' = Ok True" "get_attr_as_bytes CKA_VALUE pass' = Ok pw"
    by (rule mock_password[OF short])
  then have s: "hmac_secret prf pass pw" using password_secret[OF args(1)] args(2) by simp
  obtain op hash where hash: "hmac_mech_to_hash_mech prf = Ok hash"
    by (rule installed_hmac[OF assms(1,2) s])
  note valid = hmac_hash_valid[OF hash]
  let ?dk = "pbkdf2_DK (hmac_spec (H hash) (block_size hash) pw) salt c (hash_size hash) len"
  have len: "len \<le> (2 ^ 32 - 1) * hash_size hash" using assms(9) hmac_secret_size[OF s hash] by simp
  have dk: "native_pbkdf2_derive mops mechs prf pass salt c len = Ok ?dk"
    by (rule native_pbkdf2_value[OF assms(1,2) s assms(6) hash len])
  have "length ?dk = len"
    by (rule pbkdf2_DK_length) (simp_all add: hmac_spec_length[OF assms(1) valid] valid_hash_sizes(3)[OF valid])
  then show ?thesis
    using hash dk assms(3-5,7,8) by (auto simp: pbkdf2_generate_key_def PBKDF2_MECH_def)
qed

section \<open>A sample password\<close>

definition pbkdf2_sample :: ck_pkcs5_pbkd2_params2 where
  "pbkdf2_sample =
    \<lparr>pb_saltSource = CKZ_SALT_SPECIFIED, pb_pSaltSourceData = Ptr [9, 8] [] True, pb_ulSaltSourceDataLen = 2,
     pb_iterations = 3, pb_prf = CKP_PKCS5_PBKD2_HMAC_SHA256, pb_prf_data_null = True, pb_ulPrfDataLen = 0,
     pb_pPassword = Ptr [1, 2] [] True, pb_ulPasswordLen = 2\<rparr>"

definition pbkdf2_mechanism :: ck_mechanism where
  "pbkdf2_mechanism = \<lparr>cm_mechanism = CKM_PKCS5_PBKD2, cm_parameter = Ptr [] [] True, cm_parameter_len = 72,
     cm_struct = Pbkd2Params pbkdf2_sample\<rparr>"

abbreviation password_template :: ck_attrs where
  "password_template \<equiv> [ck_attr_of CKA_CLASS (u64_to_le CKO_SECRET_KEY),
     ck_attr_of CKA_KEY_TYPE (u64_to_le CKK_GENERIC_SECRET), ck_attr_of CKA_VALUE_LEN (u64_to_le 40)]"

theorem password_key_of_rfc8018_witness:
  "\<exists>dk. length dk = 40 \<and>
    pbkdf2_generate_key sample_mops [1] PBKDF2_MECH pbkdf2_mechanism password_template sample_registered core_factories =
      and_then (add_vec CKA_VALUE dk password_template) (\<lambda>tmpl.
      and_then (f_create (generic_secret_factory 0) [1] tmpl) (default_key_attributes CKM_PKCS5_PBKD2))"
proof -
  have pw: "mock_password_object [1, 2] \<noteq> Inl e" for e
    by (rule mock_password[of "[1, 2]"]) simp_all
  then obtain pass where pass: "mock_password_object [1, 2] = Ok pass" by (cases "mock_password_object [1, 2]") auto
  have args: "pbkdf2_arguments pbkdf2_sample = Ok (CKM_SHA256_HMAC, pass, [9, 8], 3)"
    using pass by (simp add: pbkdf2_arguments_def pbkdf2_sample_def pbkdf2_prf_def bytes_to_vec_def)
  have m: "cm_mechanism pbkdf2_mechanism = CKM_PKCS5_PBKD2"
      "get_parameters 72 pbkd2_struct pbkdf2_mechanism = Ok pbkdf2_sample"
    by (simp_all add: pbkdf2_mechanism_def get_parameters_def)
  have f: "get_obj_factory_from_key_template core_factories password_template = Ok (generic_secret_factory 0)"
    by (simp add: get_obj_factory_from_key_template_def core_factories_def get_factory_def
        ck_to_ulong_def ck_attr_of_def le64.dec_enc le64.length_enc)
  have len: "pbkdf2_keylen (generic_secret_factory 0) CKM_SHA256_HMAC password_template = Ok 40"
    by (simp add: pbkdf2_keylen_def find_attr_def ck_to_ulong_def ck_attr_of_def le64.dec_enc le64.length_enc)
  have bound: "(40::nat) \<le> (2 ^ 32 - 1) * hmac_size CKM_SHA256_HMAC"
    by (simp add: hmac_size_def HASH_MECH_SET_def)
  from password_key_of_rfc8018[OF toy_contract sample_installed(2) m args sample_found(2) f len bound refl, of "[1]"]
  show ?thesis by blast
qed

end
