(* ===== verification/Sp800_108.thy ===== *)
theory Sp800_108
  imports Derive_Common
begin

text \<open>
  The key derivations of NIST SP 800-108 in counter and feedback mode
  (\<^verbatim>\<open>src/src/sp800_108.rs\<close> and \<^verbatim>\<open>src/src/native/sp800_108.rs\<close>): the data parameters, what they feed
  to the pseudo-random function in each iteration, and the keys cut from its output.
\<close>

section \<open>Data parameters\<close>

record sp800_counter_format =
  cf_defined :: bool
  cf_le :: bool
  cf_bits :: nat

record sp800_dkm_length_format =
  df_method :: ck_ulong
  df_le :: bool
  df_bits :: nat

datatype sp800_params =
    Iteration sp800_counter_format
  | Counter sp800_counter_format
  | ByteArray bytes
  | DKMLength sp800_dkm_length_format

definition parse_flag :: "u8 \<Rightarrow> bool result" where
  "parse_flag b = (if b = 0 then Ok False else if b = 1 then Ok True else Err CKR_MECHANISM_PARAM_INVALID)"

definition parse_width :: "nat list \<Rightarrow> ck_ulong \<Rightarrow> nat result" where
  "parse_width widths w = (if unat w \<in> set widths then Ok (unat w) else Err CKR_MECHANISM_PARAM_INVALID)"

text \<open>
  The struct of a counter format has a flag and, after the padding, a width; the struct of a length
  format has the method before them.
\<close>

definition parse_counter_format :: "ck_prf_data_param \<Rightarrow> sp800_counter_format result" where
  "parse_counter_format p =
    (if pd_ulValueLen p = 0 \<and> is_null (pd_pValue p)
     then Ok \<lparr>cf_defined = False, cf_le = False, cf_bits = 16\<rparr>
     else if pd_ulValueLen p \<noteq> 16 then Err CKR_MECHANISM_PARAM_INVALID
     else if is_null (pd_pValue p) then Inl Panic
     else let m = mem_bytes (pd_pValue p) 16 in
       and_then (parse_flag (from_le_bytes (take 1 m))) (\<lambda>le.
       and_then (parse_width [8, 16, 24, 32] (u64_from_le (slice m 8 8))) (\<lambda>bits.
         Ok \<lparr>cf_defined = True, cf_le = le, cf_bits = bits\<rparr>)))"

definition parse_byte_array :: "ck_prf_data_param \<Rightarrow> bytes result" where
  "parse_byte_array p =
    (if pd_ulValueLen p = 0 \<or> is_null (pd_pValue p) then Err CKR_MECHANISM_PARAM_INVALID
     else Ok (bytes_to_vec (pd_pValue p) (unat (pd_ulValueLen p))))"

definition parse_dkm_length :: "ck_prf_data_param \<Rightarrow> sp800_dkm_length_format result" where
  "parse_dkm_length p =
    (if pd_ulValueLen p \<noteq> 24 then Err CKR_MECHANISM_PARAM_INVALID
     else if is_null (pd_pValue p) then Inl Panic
     else let m = mem_bytes (pd_pValue p) 24; method = u64_from_le (take 8 m) in
       and_then
         (if method = CK_SP800_108_DKM_LENGTH_SUM_OF_KEYS \<or> method = CK_SP800_108_DKM_LENGTH_SUM_OF_SEGMENTS
          then Ok method else Err CKR_MECHANISM_PARAM_INVALID) (\<lambda>method.
       and_then (parse_flag (from_le_bytes (slice m 8 1))) (\<lambda>le.
       and_then (parse_width [8, 16, 24, 32, 40, 48, 56, 64] (u64_from_le (slice m 16 8))) (\<lambda>bits.
         Ok \<lparr>df_method = method, df_le = le, df_bits = bits\<rparr>))))"

definition parse_data_param :: "sp800_params list \<Rightarrow> ck_prf_data_param \<Rightarrow> sp800_params list result" where
  "parse_data_param acc p =
    (if pd_type p = CK_SP800_108_ITERATION_VARIABLE then
       and_then (parse_counter_format p) (\<lambda>e. Ok (acc @ [Iteration e]))
     else if pd_type p = CK_SP800_108_COUNTER then
       and_then (parse_counter_format p) (\<lambda>e. Ok (acc @ [Counter e]))
     else if pd_type p = CK_SP800_108_BYTE_ARRAY then
       and_then (parse_byte_array p) (\<lambda>e. Ok (acc @ [ByteArray e]))
     else if pd_type p = CK_SP800_108_DKM_LENGTH then
       and_then (parse_dkm_length p) (\<lambda>e. Ok (acc @ [DKMLength e]))
     else Err CKR_MECHANISM_PARAM_INVALID)"

definition parse_data_params :: "ck_prf_data_param list \<Rightarrow> sp800_params list result" where
  "parse_data_params = try_fold parse_data_param []"

section \<open>The operation\<close>

record sp800_operation =
  kd_mech :: ck_ulong
  kd_prf :: ck_ulong
  kd_params :: "sp800_params list"
  kd_iv :: bytes
  kd_addl_drv_keys :: "ck_derived_key list"

definition struct_to_slice :: "'a list option \<Rightarrow> 'a list result" where
  "struct_to_slice p = (case p of Some xs \<Rightarrow> Ok xs | None \<Rightarrow> Err CKR_ARGUMENTS_BAD)"

definition counter_kdf_new :: "ck_sp800_108_kdf_params \<Rightarrow> sp800_operation result" where
  "counter_kdf_new params =
    and_then (struct_to_slice (sp_data_params params)) (\<lambda>data_params.
    and_then (struct_to_slice (sp_derived_keys params)) (\<lambda>addl.
    and_then (parse_data_params data_params) (\<lambda>ps.
      Ok \<lparr>kd_mech = CKM_SP800_108_COUNTER_KDF, kd_prf = sp_prfType params, kd_params = ps, kd_iv = [],
          kd_addl_drv_keys = addl\<rparr>)))"

definition feedback_kdf_new :: "ck_sp800_108_feedback_kdf_params \<Rightarrow> sp800_operation result" where
  "feedback_kdf_new params =
    and_then (struct_to_slice (sp_data_params params)) (\<lambda>data_params.
    and_then (struct_to_slice (sp_derived_keys params)) (\<lambda>addl.
    and_then
      (if \<not> is_null (sp_pIV params) \<and> sp_ulIVLen params \<noteq> 0
       then Ok (bytes_to_vec (sp_pIV params) (unat (sp_ulIVLen params)))
       else if is_null (sp_pIV params) \<and> sp_ulIVLen params = 0 then Ok []
       else Err CKR_MECHANISM_PARAM_INVALID) (\<lambda>iv.
    and_then (parse_data_params data_params) (\<lambda>ps.
      Ok \<lparr>kd_mech = CKM_SP800_108_FEEDBACK_KDF, kd_prf = sp_prfType params, kd_params = ps, kd_iv = iv,
          kd_addl_drv_keys = addl\<rparr>))))"

definition key_to_segment_size :: "nat \<Rightarrow> nat \<Rightarrow> nat" where
  "key_to_segment_size key segment = (key + segment - 1) div segment * segment"

text \<open>The bytes of a counter, which must fit its width.\<close>

definition counter_bytes :: "sp800_counter_format \<Rightarrow> nat \<Rightarrow> bytes result" where
  "counter_bytes f ctr =
    (if \<not> cf_defined f then Err CKR_MECHANISM_PARAM_INVALID
     else if cf_bits f = 8 then
       if ctr > 2 ^ 8 - 1 then Err CKR_MECHANISM_PARAM_INVALID else Ok [of_nat ctr]
     else if cf_bits f = 16 then
       if ctr > 2 ^ 16 - 1 then Err CKR_MECHANISM_PARAM_INVALID
       else let w = (of_nat ctr :: 16 word) in
         Ok (if cf_le f then to_le_bytes 2 w else rev (to_le_bytes 2 w))
     else if cf_bits f = 24 then
       if ctr > 2 ^ 24 - 1 then Err CKR_MECHANISM_PARAM_INVALID
       else let w = (of_nat ctr :: u32) in
         Ok (if cf_le f then take 3 (u32_to_le w) else drop 1 (rev (u32_to_le w)))
     else if cf_bits f = 32 then
       if ctr > 2 ^ 32 - 1 then Err CKR_MECHANISM_PARAM_INVALID
       else let w = (of_nat ctr :: u32) in Ok (if cf_le f then u32_to_le w else rev (u32_to_le w))
     else Err CKR_MECHANISM_PARAM_INVALID)"

text \<open>
  The bytes of a length in bits. The length is reduced modulo 2^n - 1; a length of 40, 48 or 56 bits is
  cut out of the four bytes of a 32-bit integer, which is out of bounds.
\<close>

definition dkm_bytes :: "sp800_dkm_length_format \<Rightarrow> u64 \<Rightarrow> u64 \<Rightarrow> bytes result" where
  "dkm_bytes f klen slen =
    and_then
      (if df_method f = CK_SP800_108_DKM_LENGTH_SUM_OF_SEGMENTS then Ok slen
       else if df_method f = CK_SP800_108_DKM_LENGTH_SUM_OF_KEYS then Ok klen
       else Err CKR_MECHANISM_PARAM_INVALID) (\<lambda>len.
    if df_bits f = 8 then Ok [ucast (len mod (2 ^ 8 - 1))]
    else if df_bits f = 16 then
      let w = (ucast (len mod (2 ^ 16 - 1)) :: 16 word) in
      Ok (if df_le f then to_le_bytes 2 w else rev (to_le_bytes 2 w))
    else if df_bits f = 24 then
      let w = (ucast (len mod (2 ^ 24 - 1)) :: u32) in
      Ok (if df_le f then take 3 (u32_to_le w) else drop 1 (rev (u32_to_le w)))
    else if df_bits f = 32 then
      let w = (ucast (len mod (2 ^ 32 - 1)) :: u32) in
      Ok (if df_le f then u32_to_le w else rev (u32_to_le w))
    else if df_bits f = 40 \<or> df_bits f = 48 \<or> df_bits f = 56 then Inl Panic
    else if df_bits f = 64 then
      let w = len mod 0xFFFFFFFFFFFFFFFF in Ok (if df_le f then u64_to_le w else rev (u64_to_le w))
    else Err CKR_MECHANISM_PARAM_INVALID)"

definition feed :: "bytes result \<Rightarrow> crypto_op \<Rightarrow> unit result \<times> crypto_op" where
  "feed r op = (case r of Inl e \<Rightarrow> (Inl e, op) | Inr d \<Rightarrow> op_update d op)"

definition ctr_update :: "sp800_counter_format \<Rightarrow> nat \<Rightarrow> crypto_op \<Rightarrow> unit result \<times> crypto_op" where
  "ctr_update f ctr = feed (counter_bytes f ctr)"

definition dkm_update :: "sp800_dkm_length_format \<Rightarrow> u64 \<Rightarrow> u64 \<Rightarrow> crypto_op \<Rightarrow> unit result \<times> crypto_op" where
  "dkm_update f klen slen = feed (dkm_bytes f klen slen)"

definition param_invalid :: "crypto_op \<Rightarrow> unit result \<times> crypto_op" where
  "param_invalid op = (Err CKR_MECHANISM_PARAM_INVALID, op)"

text \<open>In counter mode the iteration variable is the counter; it must be there, and once.\<close>

fun counter_updates ::
    "nat \<Rightarrow> u64 \<Rightarrow> u64 \<Rightarrow> bool \<Rightarrow> bool \<Rightarrow> sp800_params list \<Rightarrow> crypto_op \<Rightarrow> unit result \<times> crypto_op" where
  "counter_updates ctr dkmklen dkmslen seen_dkmlen seen_iter [] op =
    (if \<not> seen_iter then param_invalid op else (Ok (), op))"
| "counter_updates ctr dkmklen dkmslen seen_dkmlen seen_iter (Iteration f # ps) op =
    (if seen_iter then param_invalid op
     else st_then (ctr_update f ctr op) (\<lambda>_. counter_updates ctr dkmklen dkmslen seen_dkmlen True ps))"
| "counter_updates ctr dkmklen dkmslen seen_dkmlen seen_iter (Counter f # ps) op = param_invalid op"
| "counter_updates ctr dkmklen dkmslen seen_dkmlen seen_iter (ByteArray d # ps) op =
    st_then (op_update d op) (\<lambda>_. counter_updates ctr dkmklen dkmslen seen_dkmlen seen_iter ps)"
| "counter_updates ctr dkmklen dkmslen seen_dkmlen seen_iter (DKMLength f # ps) op =
    (if seen_dkmlen then param_invalid op
     else st_then (dkm_update f dkmklen dkmslen op) (\<lambda>_. counter_updates ctr dkmklen dkmslen True seen_iter ps))"

text \<open>In feedback mode the iteration variable is the last output, and a counter may be added.\<close>

fun feedback_updates ::
    "bytes \<Rightarrow> nat \<Rightarrow> u64 \<Rightarrow> u64 \<Rightarrow> bool \<Rightarrow> bool \<Rightarrow> bool \<Rightarrow> sp800_params list \<Rightarrow> crypto_op \<Rightarrow>
      unit result \<times> crypto_op" where
  "feedback_updates iv ctr dkmklen dkmslen seen_dkmlen seen_iter seen_counter [] op =
    (if \<not> seen_iter then param_invalid op else (Ok (), op))"
| "feedback_updates iv ctr dkmklen dkmslen seen_dkmlen seen_iter seen_counter (Iteration f # ps) op =
    (if seen_iter then param_invalid op
     else if cf_defined f then param_invalid op
     else st_then (op_update iv op) (\<lambda>_.
       feedback_updates iv ctr dkmklen dkmslen seen_dkmlen True seen_counter ps))"
| "feedback_updates iv ctr dkmklen dkmslen seen_dkmlen seen_iter seen_counter (Counter f # ps) op =
    (if seen_counter then param_invalid op
     else st_then (ctr_update f ctr op) (\<lambda>_.
       feedback_updates iv ctr dkmklen dkmslen seen_dkmlen seen_iter True ps))"
| "feedback_updates iv ctr dkmklen dkmslen seen_dkmlen seen_iter seen_counter (ByteArray d # ps) op =
    st_then (op_update d op) (\<lambda>_.
      feedback_updates iv ctr dkmklen dkmslen seen_dkmlen seen_iter seen_counter ps)"
| "feedback_updates iv ctr dkmklen dkmslen seen_dkmlen seen_iter seen_counter (DKMLength f # ps) op =
    (if seen_dkmlen then param_invalid op
     else st_then (dkm_update f dkmklen dkmslen op) (\<lambda>_.
       feedback_updates iv ctr dkmklen dkmslen True seen_iter seen_counter ps))"

section \<open>The derivation\<close>

definition verify_prf_key :: "ck_ulong \<Rightarrow> object \<Rightarrow> unit result" where
  "verify_prf_key mech key =
    (let check = (\<lambda>ktype. check_key_ops CKO_SECRET_KEY ktype CKA_DERIVE key) in
     if is_ok (check CKK_GENERIC_SECRET) \<and>
       (mech = CKM_SHA_1_HMAC \<or> mech = CKM_SHA224_HMAC \<or> mech = CKM_SHA256_HMAC \<or> mech = CKM_SHA384_HMAC \<or>
        mech = CKM_SHA512_HMAC \<or> mech = CKM_SHA512_224_HMAC \<or> mech = CKM_SHA512_256_HMAC \<or>
        mech = CKM_SHA3_224_HMAC \<or> mech = CKM_SHA3_256_HMAC \<or> mech = CKM_SHA3_384_HMAC \<or>
        mech = CKM_SHA3_512_HMAC) then Ok ()
     else if mech = CKM_SHA_1_HMAC then check CKK_SHA_1_HMAC
     else if mech = CKM_SHA224_HMAC then check CKK_SHA224_HMAC
     else if mech = CKM_SHA256_HMAC then check CKK_SHA256_HMAC
     else if mech = CKM_SHA384_HMAC then check CKK_SHA384_HMAC
     else if mech = CKM_SHA512_HMAC then check CKK_SHA512_HMAC
     else if mech = CKM_SHA3_224_HMAC then check CKK_SHA3_224_HMAC
     else if mech = CKM_SHA3_256_HMAC then check CKK_SHA3_256_HMAC
     else if mech = CKM_SHA3_384_HMAC then check CKK_SHA3_384_HMAC
     else if mech = CKM_SHA3_512_HMAC then check CKK_SHA3_512_HMAC
     else if mech = CKM_SHA512_224_HMAC then check CKK_SHA512_224_HMAC
     else if mech = CKM_SHA512_256_HMAC then check CKK_SHA512_256_HMAC
     else if mech = CKM_AES_CMAC then check CKK_AES
     else Err CKR_KEY_TYPE_INCONSISTENT)"

text \<open>The length of a key is an attribute of its object.\<close>

definition sp800_keysize :: "object \<Rightarrow> nat result" where
  "sp800_keysize obj =
    (case get_attr_as_ulong CKA_VALUE_LEN obj of
       Inl _ \<Rightarrow> Err CKR_TEMPLATE_INCOMPLETE
     | Inr n \<Rightarrow> if n = 0 \<or> unat n \<ge> 2 ^ 32 then Err CKR_KEY_SIZE_RANGE else Ok (unat n))"

text \<open>The objects of the additional keys; a handle is marked as invalid when its object is refused.\<close>

fun sp800_additional ::
    "factories \<Rightarrow> (nat \<Rightarrow> bytes) \<Rightarrow> object \<Rightarrow> ck_derived_key list \<Rightarrow> object list \<Rightarrow> object list result" where
  "sp800_additional fs uuid key [] keys = Ok keys"
| "sp800_additional fs uuid key (ak # aks) keys =
    and_then (struct_to_slice (dk_template ak)) (\<lambda>tmpl.
    and_then
      (case derive_key_from_template fs (uuid (length keys)) key tmpl of
         Inr obj \<Rightarrow> Ok obj
       | Inl e \<Rightarrow> if dk_handle_null ak then Inl Panic else Inl e) (\<lambda>obj.
    and_then (sp800_keysize obj) (\<lambda>_. sp800_additional fs uuid key aks (keys @ [obj]))))"

definition sp800_objects ::
    "factories \<Rightarrow> (nat \<Rightarrow> bytes) \<Rightarrow> sp800_operation \<Rightarrow> nat \<Rightarrow> object \<Rightarrow> ck_attrs \<Rightarrow> object list result" where
  "sp800_objects fs uuid sp segment key template =
    and_then (derive_key_from_template fs (uuid 0) key template) (\<lambda>obj.
    and_then (sp800_keysize obj) (\<lambda>_.
    if segment = 0 then Inl Panic
    else sp800_additional fs uuid key (kd_addl_drv_keys sp) [obj]))"

definition key_len :: "object \<Rightarrow> nat" where
  "key_len obj = (case get_attr_as_ulong CKA_VALUE_LEN obj of Inr n \<Rightarrow> unat n | Inl _ \<Rightarrow> 0)"

text \<open>One iteration: what is fed depends on the mode, and on the output so far.\<close>

definition sp800_segment ::
    "sp800_operation \<Rightarrow> nat \<Rightarrow> u64 \<Rightarrow> u64 \<Rightarrow> nat \<Rightarrow> bytes \<Rightarrow> crypto_op \<Rightarrow> bytes result \<times> crypto_op" where
  "sp800_segment sp segment dkmklen dkmslen ctr dkm op =
    st_then
      (if kd_mech sp = CKM_SP800_108_COUNTER_KDF
       then counter_updates (ctr + 1) dkmklen dkmslen False False (kd_params sp) op
       else if kd_mech sp = CKM_SP800_108_FEEDBACK_KDF
       then feedback_updates (if ctr = 0 then kd_iv sp else drop (length dkm - segment) dkm)
         (ctr + 1) dkmklen dkmslen False False False (kd_params sp) op
       else (Err CKR_GENERAL_ERROR, op)) (\<lambda>_. op_finish segment)"

fun sp800_segments ::
    "crypto_op result \<Rightarrow> sp800_operation \<Rightarrow> nat \<Rightarrow> u64 \<Rightarrow> u64 \<Rightarrow> nat list \<Rightarrow> bytes \<Rightarrow> crypto_op \<Rightarrow> bytes result" where
  "sp800_segments new sp segment dkmklen dkmslen [] dkm op = Ok dkm"
| "sp800_segments new sp segment dkmklen dkmslen (ctr # ctrs) dkm op =
    and_then (if ctr \<noteq> 0 then new else Ok op) (\<lambda>op1.
    and_then (fst (sp800_segment sp segment dkmklen dkmslen ctr dkm op1)) (\<lambda>out.
      sp800_segments new sp segment dkmklen dkmslen ctrs (dkm @ out) op1))"

text \<open>Each key gets the start of its segments.\<close>

fun sp800_values :: "nat \<Rightarrow> bytes \<Rightarrow> nat \<Rightarrow> object list \<Rightarrow> object list result" where
  "sp800_values segment dkm cursor [] = Ok []"
| "sp800_values segment dkm cursor (key # keys) =
    and_then (get_attr_as_ulong CKA_VALUE_LEN key) (\<lambda>n.
    if cursor + unat n > length dkm then Inl Panic
    else and_then (set_attr (from_bytes CKA_VALUE (slice dkm cursor (unat n))) key) (\<lambda>key1.
    and_then (sp800_values segment dkm (cursor + key_to_segment_size (unat n) segment) keys) (\<lambda>keys1.
      Ok (key1 # keys1))))"

definition sp800_derive ::
    "(ck_ulong \<Rightarrow> mech_ops) \<Rightarrow> (nat \<Rightarrow> bytes) \<Rightarrow> sp800_operation \<Rightarrow> object \<Rightarrow> ck_attrs \<Rightarrow> mechanisms \<Rightarrow>
      factories \<Rightarrow> object list result" where
  "sp800_derive mops uuid sp key template mechs fs =
    and_then (verify_prf_key (kd_prf sp) key) (\<lambda>_.
    and_then (mechs_find (kd_prf sp) mechs) (\<lambda>_.
    let new = mo_mac_new (mops (kd_prf sp)) (plain_mechanism (kd_prf sp)) key CKF_DERIVE in
    and_then new (\<lambda>op.
    and_then (co_fixed_len op) (\<lambda>segment.
    and_then (sp800_objects fs uuid sp segment key template) (\<lambda>keys.
    let klen = sum_list (map key_len keys);
        slen = sum_list (map (\<lambda>k. key_to_segment_size (key_len k) segment) keys) in
    and_then (sp800_segments new sp segment (of_nat klen * 8) (of_nat slen * 8) [0..<slen div segment] [] op) (\<lambda>dkm.
      sp800_values segment dkm 0 keys))))))"

section \<open>The mechanism\<close>

definition sp800_mechanism ::
    "(ck_ulong \<Rightarrow> mech_ops) \<Rightarrow> (nat \<Rightarrow> bytes) \<Rightarrow> ck_mechanism_info \<Rightarrow> mech_ops" where
  "sp800_mechanism mops uuid info =
    default_mech_ops\<lparr>mo_derive_operation := (\<lambda>m.
      if mi_flags info AND CKF_DERIVE \<noteq> CKF_DERIVE then Err CKR_MECHANISM_INVALID
      else and_then
        (if cm_mechanism m = CKM_SP800_108_COUNTER_KDF
         then and_then (get_parameters 40 counter_struct m) counter_kdf_new
         else if cm_mechanism m = CKM_SP800_108_FEEDBACK_KDF
         then and_then (get_parameters 56 feedback_struct m) feedback_kdf_new
         else Err CKR_MECHANISM_INVALID) (\<lambda>sp. Ok (simple_derive (sp800_derive mops uuid sp))))\<rparr>"

definition SP800_KDF_MECH :: ck_mechanism_info where
  "SP800_KDF_MECH = \<lparr>ulMinKeySize = 0, ulMaxKeySize = 0xFFFFFFFF, mi_flags = CKF_DERIVE\<rparr>"

definition register_sp800 :: "mechanisms \<Rightarrow> mechanisms" where
  "register_sp800 mechs =
    fold (\<lambda>ckm. add_mechanism ckm SP800_KDF_MECH) [CKM_SP800_108_COUNTER_KDF, CKM_SP800_108_FEEDBACK_KDF] mechs"

end
