(* ===== verification/Sp800_Laws.thy ===== *)
theory Sp800_Laws
  imports Sp800_108 Prf_Laws
begin

text \<open>
  The keys that are derived in counter and feedback mode are cut from the output of the iterations of
  NIST SP 800-108 over HMAC.
\<close>

section \<open>The octets of a number\<close>

text \<open>A number in so many bits, as octets from the lowest or, without \<open>le\<close>, from the highest.\<close>

definition octets :: "bool \<Rightarrow> nat \<Rightarrow> nat \<Rightarrow> bytes" where
  "octets le bits v =
    (let bs = map (\<lambda>i. of_nat (v div 256 ^ i mod 256)) [0..<bits div 8] in if le then bs else rev bs)"

lemma octet_of_nat:
  assumes "8 * i + 8 \<le> LENGTH('a)"
  shows "(ucast (drop_bit (8 * i) (of_nat v :: 'a::len word)) :: u8) = of_nat (v div 256 ^ i mod 256)"
proof -
  have "v div 256 ^ i mod 256 = take_bit 8 (drop_bit (8 * i) v)"
    by (simp add: take_bit_eq_mod drop_bit_eq_div power_mult)
  then show ?thesis using assms by (simp add: bit_eq_iff) (auto simp: bit_simps)
qed

lemma to_le_bytes_of_nat:
  "8 * n \<le> LENGTH('a) \<Longrightarrow>
    to_le_bytes n (of_nat v :: 'a::len word) = map (\<lambda>i. of_nat (v div 256 ^ i mod 256)) [0..<n]"
  unfolding to_le_bytes_def by (rule map_cong[OF refl], rule octet_of_nat) auto

lemma take_to_le_bytes: "k \<le> n \<Longrightarrow> take k (to_le_bytes n w) = to_le_bytes k w"
  by (simp add: to_le_bytes_def take_map)

lemma octets_le: "bits div 8 \<le> n \<Longrightarrow> 8 * n \<le> LENGTH('a) \<Longrightarrow>
    octets True bits v = take (bits div 8) (to_le_bytes n (of_nat v :: 'a::len word))"
  by (simp add: octets_def to_le_bytes_of_nat take_map)

lemma octets_be: "octets False bits v = rev (octets True bits v)"
  by (simp add: octets_def)

lemma octets_words:
  "octets le 8 v = [of_nat v]"
  "octets le 16 v = (if le then to_le_bytes 2 (of_nat v :: 16 word) else rev (to_le_bytes 2 (of_nat v :: 16 word)))"
  "octets le 24 v = (if le then take 3 (u32_to_le (of_nat v)) else drop 1 (rev (u32_to_le (of_nat v))))"
  "octets le 32 v = (if le then u32_to_le (of_nat v) else rev (u32_to_le (of_nat v)))"
  "octets le 64 v = (if le then u64_to_le (of_nat v) else rev (u64_to_le (of_nat v)))"
proof -
  have "(of_nat (v mod 256) :: u8) = of_nat v" by (simp add: word_unat_eq_iff unat_of_nat)
  then show "octets le 8 v = [of_nat v]" by (simp add: octets_def Let_def)
qed (simp_all add: octets_def to_le_bytes_of_nat take_map upt_rec rev_map flip: take_rev)

section \<open>The input of an iteration\<close>

text \<open>
  The length \<open>L\<close> that the method of a length parameter names, in bits, and a part of the fixed input: the
  counter \<open>i\<close>, the output before in feedback mode, \<open>L\<close>, or constant data.
\<close>

definition sp800_L :: "sp800_dkm_length_format \<Rightarrow> nat \<Rightarrow> nat \<Rightarrow> nat" where
  "sp800_L f kbits sbits = (if df_method f = CK_SP800_108_DKM_LENGTH_SUM_OF_SEGMENTS then sbits else kbits)"

definition sp800_part :: "bool \<Rightarrow> bytes \<Rightarrow> nat \<Rightarrow> nat \<Rightarrow> nat \<Rightarrow> sp800_params \<Rightarrow> bytes" where
  "sp800_part feedback prev i kbits sbits p =
    (case p of
       Iteration f \<Rightarrow> if feedback then prev else octets (cf_le f) (cf_bits f) i
     | Counter f \<Rightarrow> octets (cf_le f) (cf_bits f) i
     | ByteArray d \<Rightarrow> d
     | DKMLength f \<Rightarrow> octets (df_le f) (df_bits f) (sp800_L f kbits sbits))"

text \<open>
  The bound on the lengths: the code encodes a length modulo \<open>2\<^sup>n - 1\<close>, so only one below it comes out as
  it is.
\<close>

definition dkm_fits :: "nat \<Rightarrow> nat \<Rightarrow> sp800_params list \<Rightarrow> bool" where
  "dkm_fits kbits sbits =
    list_all (\<lambda>p. case p of DKMLength f \<Rightarrow> sp800_L f kbits sbits < 2 ^ df_bits f - 1 | _ \<Rightarrow> True)"

lemma counter_bytes_octets: "counter_bytes f i = Ok b \<Longrightarrow> b = octets (cf_le f) (cf_bits f) i"
  by (auto simp: counter_bytes_def octets_words Let_def split: if_split_asm)

lemma mod_below:
  assumes "v < unat (m :: u64)"
  shows "of_nat v mod m = of_nat v"
proof -
  have "v < 2 ^ 64" using assms unsigned_less[of m, where ?'a = nat] by simp
  then have "unat (of_nat v :: u64) = v" by (simp add: unat_of_nat)
  then have "unat (of_nat v mod m) = unat (of_nat v :: u64)" using assms by (simp add: unat_mod)
  then show ?thesis by (simp add: word_unat_eq_iff)
qed

lemma narrow_of_nat:
  "(ucast (of_nat v :: u64) :: u8) = of_nat v" "(ucast (of_nat v :: u64) :: 16 word) = of_nat v"
  "(ucast (of_nat v :: u64) :: u32) = of_nat v"
  by (simp_all add: bit_eq_iff) (auto simp: bit_simps)

lemma dkm_bytes_octets:
  assumes "dkm_bytes f (of_nat kbits) (of_nat sbits) = Ok b" and "sp800_L f kbits sbits < 2 ^ df_bits f - 1"
  shows "b = octets (df_le f) (df_bits f) (sp800_L f kbits sbits)"
proof -
  let ?L = "sp800_L f kbits sbits"
  have "(if df_method f = CK_SP800_108_DKM_LENGTH_SUM_OF_SEGMENTS then Ok (of_nat sbits)
       else if df_method f = CK_SP800_108_DKM_LENGTH_SUM_OF_KEYS then Ok (of_nat kbits)
       else Err CKR_MECHANISM_PARAM_INVALID) = Ok (of_nat ?L :: u64)"
    using assms(1) by (auto simp: dkm_bytes_def sp800_L_def and_then_def split: if_split_asm)
  then show ?thesis using assms unfolding dkm_bytes_def
    by (auto simp: octets_words Let_def mod_below narrow_of_nat split: if_split_asm)
qed

definition sp800_input :: "bool \<Rightarrow> bytes \<Rightarrow> nat \<Rightarrow> nat \<Rightarrow> nat \<Rightarrow> sp800_params list \<Rightarrow> bytes" where
  "sp800_input feedback prev i kbits sbits ps = concat (map (sp800_part feedback prev i kbits sbits) ps)"

text \<open>\<open>K(0)\<close> is the initialization vector, \<open>K(i)\<close> the output of iteration \<open>i\<close>.\<close>

fun sp800_K :: "(bytes \<Rightarrow> bytes) \<Rightarrow> bool \<Rightarrow> bytes \<Rightarrow> nat \<Rightarrow> nat \<Rightarrow> sp800_params list \<Rightarrow> nat \<Rightarrow> bytes" where
  "sp800_K F feedback iv kbits sbits ps 0 = iv"
| "sp800_K F feedback iv kbits sbits ps (Suc i) =
    F (sp800_input feedback (sp800_K F feedback iv kbits sbits ps i) (Suc i) kbits sbits ps)"

definition fed_with :: "(bytes \<Rightarrow> bytes) \<Rightarrow> nat \<Rightarrow> bytes \<Rightarrow> crypto_op \<Rightarrow> bool" where
  "fed_with F n d op \<longleftrightarrow> (\<exists>s. computes F n s op \<and> s \<noteq> Ended \<and> fed s = d)"

lemma fed_withI: "computes F n Fresh op \<Longrightarrow> fed_with F n [] op"
  unfolding fed_with_def by force

lemma fed_with_update:
  assumes "fed_with F n d op" and "op_update x op = (r, op1)"
  shows "r = Ok () \<and> fed_with F n (d @ x) op1"
proof -
  obtain s where s: "computes F n s op" "s \<noteq> Ended" "fed s = d"
    using assms(1) by (auto simp: fed_with_def)
  obtain op' where "op_update x op = (Ok (), op')" "computes F n (Fed (fed s @ x)) op'"
    by (rule computes_update[OF s(1,2)])
  then show ?thesis using assms(2) s(3) unfolding fed_with_def by force
qed

lemma fed_with_feed:
  assumes "fed_with F n d op" and "feed b op = (Ok (), op1)"
  obtains x where "b = Ok x" and "fed_with F n (d @ x) op1"
proof (cases b)
  case (Inr x)
  then have "op_update x op = (Ok (), op1)" using assms(2) by (simp add: feed_def)
  from fed_with_update[OF assms(1) this] show ?thesis using Inr that by simp
qed (use assms(2) in \<open>simp add: feed_def\<close>)

lemma fed_with_counter:
  assumes "fed_with F n d op" and "ctr_update f i op = (Ok (), op1)"
  shows "fed_with F n (d @ octets (cf_le f) (cf_bits f) i) op1"
proof -
  obtain x where "counter_bytes f i = Ok x" "fed_with F n (d @ x) op1"
    by (rule fed_with_feed[OF assms(1) assms(2)[unfolded ctr_update_def]])
  then show ?thesis using counter_bytes_octets by blast
qed

lemma fed_with_dkm:
  assumes "fed_with F n d op" and "dkm_update f (of_nat kbits) (of_nat sbits) op = (Ok (), op1)"
    and "dkm_fits kbits sbits (DKMLength f # ps)"
  shows "fed_with F n (d @ octets (df_le f) (df_bits f) (sp800_L f kbits sbits)) op1"
proof -
  obtain x where "dkm_bytes f (of_nat kbits) (of_nat sbits) = Ok x" "fed_with F n (d @ x) op1"
    by (rule fed_with_feed[OF assms(1) assms(2)[unfolded dkm_update_def]])
  moreover have "sp800_L f kbits sbits < 2 ^ df_bits f - 1" using assms(3) by (simp add: dkm_fits_def)
  ultimately show ?thesis using dkm_bytes_octets by blast
qed

lemma dkm_fits_tail: "dkm_fits kbits sbits (p # ps) \<Longrightarrow> dkm_fits kbits sbits ps"
  by (simp add: dkm_fits_def)

lemma fed_with_finish:
  assumes "fed_with F n d op"
  shows "fst (op_finish n op) = Ok (F d)"
proof -
  obtain s where s: "computes F n s op" "s \<noteq> Ended" "fed s = d"
    using assms by (auto simp: fed_with_def)
  obtain op' where "op_finish n op = (Ok (F (fed s)), op')" by (rule computes_finish[OF s(1,2)])
  then show ?thesis using s(3) by simp
qed

lemma counter_updates_feed:
  assumes "counter_updates i klen slen sd si ps op = (Ok (), op1)" and "fed_with F n d op"
    and "dkm_fits kbits sbits ps" and "klen = of_nat kbits" and "slen = of_nat sbits"
  shows "fed_with F n (d @ sp800_input False prev i kbits sbits ps) op1"
  using assms
proof (induction i klen slen sd si ps op arbitrary: d rule: counter_updates.induct)
  case (2 ctr dkmklen dkmslen seen_dkmlen seen_iter f ps op)
  obtain op2 where op2: "ctr_update f ctr op = (Ok (), op2)" "counter_updates ctr dkmklen dkmslen seen_dkmlen True ps op2 = (Ok (), op1)" "\<not> seen_iter"
    using "2.prems"(1) by (auto simp: st_then_eq_Ok param_invalid_def split: if_split_asm)
  have "fed_with F n (d @ octets (cf_le f) (cf_bits f) ctr) op2"
    by (rule fed_with_counter[OF "2.prems"(2) op2(1)])
  then have "fed_with F n ((d @ octets (cf_le f) (cf_bits f) ctr) @ sp800_input False prev ctr kbits sbits ps) op1"
    using "2.IH" op2(2-) dkm_fits_tail[OF "2.prems"(3)] "2.prems"(4,5) by blast
  then show ?case by (simp add: sp800_input_def sp800_part_def)
next
  case (4 ctr dkmklen dkmslen seen_dkmlen seen_iter x ps op)
  obtain op2 where op2: "op_update x op = (Ok (), op2)" "counter_updates ctr dkmklen dkmslen seen_dkmlen seen_iter ps op2 = (Ok (), op1)"
    using "4.prems"(1) by (auto simp: st_then_eq_Ok param_invalid_def split: if_split_asm)
  have "fed_with F n (d @ x) op2"
    using fed_with_update[OF "4.prems"(2) op2(1)] by simp
  then have "fed_with F n ((d @ x) @ sp800_input False prev ctr kbits sbits ps) op1"
    using "4.IH" op2(2-) dkm_fits_tail[OF "4.prems"(3)] "4.prems"(4,5) by blast
  then show ?case by (simp add: sp800_input_def sp800_part_def)
next
  case (5 ctr dkmklen dkmslen seen_dkmlen seen_iter f ps op)
  obtain op2 where op2: "dkm_update f dkmklen dkmslen op = (Ok (), op2)" "counter_updates ctr dkmklen dkmslen True seen_iter ps op2 = (Ok (), op1)" "\<not> seen_dkmlen"
    using "5.prems"(1) by (auto simp: st_then_eq_Ok param_invalid_def split: if_split_asm)
  have "fed_with F n (d @ octets (df_le f) (df_bits f) (sp800_L f kbits sbits)) op2"
    by (rule fed_with_dkm[OF "5.prems"(2) op2(1)[unfolded "5.prems"(4,5)] "5.prems"(3)])
  then have "fed_with F n ((d @ octets (df_le f) (df_bits f) (sp800_L f kbits sbits)) @ sp800_input False prev ctr kbits sbits ps) op1"
    using "5.IH" op2(2-) dkm_fits_tail[OF "5.prems"(3)] "5.prems"(4,5) by blast
  then show ?case by (simp add: sp800_input_def sp800_part_def)
qed (auto simp: param_invalid_def sp800_input_def split: if_split_asm)

lemma feedback_updates_feed:
  assumes "feedback_updates prev i klen slen sd si sc ps op = (Ok (), op1)" and "fed_with F n d op"
    and "dkm_fits kbits sbits ps" and "klen = of_nat kbits" and "slen = of_nat sbits"
  shows "fed_with F n (d @ sp800_input True prev i kbits sbits ps) op1"
  using assms
proof (induction prev i klen slen sd si sc ps op arbitrary: d rule: feedback_updates.induct)
  case (2 iv ctr dkmklen dkmslen seen_dkmlen seen_iter seen_counter f ps op)
  obtain op2 where op2: "op_update iv op = (Ok (), op2)" "feedback_updates iv ctr dkmklen dkmslen seen_dkmlen True seen_counter ps op2 = (Ok (), op1)" "\<not> seen_iter" "\<not> cf_defined f"
    using "2.prems"(1) by (auto simp: st_then_eq_Ok param_invalid_def split: if_split_asm)
  have "fed_with F n (d @ iv) op2"
    using fed_with_update[OF "2.prems"(2) op2(1)] by simp
  then have "fed_with F n ((d @ iv) @ sp800_input True iv ctr kbits sbits ps) op1"
    using "2.IH" op2(2-) dkm_fits_tail[OF "2.prems"(3)] "2.prems"(4,5) by blast
  then show ?case by (simp add: sp800_input_def sp800_part_def)
next
  case (3 iv ctr dkmklen dkmslen seen_dkmlen seen_iter seen_counter f ps op)
  obtain op2 where op2: "ctr_update f ctr op = (Ok (), op2)" "feedback_updates iv ctr dkmklen dkmslen seen_dkmlen seen_iter True ps op2 = (Ok (), op1)" "\<not> seen_counter"
    using "3.prems"(1) by (auto simp: st_then_eq_Ok param_invalid_def split: if_split_asm)
  have "fed_with F n (d @ octets (cf_le f) (cf_bits f) ctr) op2"
    by (rule fed_with_counter[OF "3.prems"(2) op2(1)])
  then have "fed_with F n ((d @ octets (cf_le f) (cf_bits f) ctr) @ sp800_input True iv ctr kbits sbits ps) op1"
    using "3.IH" op2(2-) dkm_fits_tail[OF "3.prems"(3)] "3.prems"(4,5) by blast
  then show ?case by (simp add: sp800_input_def sp800_part_def)
next
  case (4 iv ctr dkmklen dkmslen seen_dkmlen seen_iter seen_counter x ps op)
  obtain op2 where op2: "op_update x op = (Ok (), op2)" "feedback_updates iv ctr dkmklen dkmslen seen_dkmlen seen_iter seen_counter ps op2 = (Ok (), op1)"
    using "4.prems"(1) by (auto simp: st_then_eq_Ok param_invalid_def split: if_split_asm)
  have "fed_with F n (d @ x) op2"
    using fed_with_update[OF "4.prems"(2) op2(1)] by simp
  then have "fed_with F n ((d @ x) @ sp800_input True iv ctr kbits sbits ps) op1"
    using "4.IH" op2(2-) dkm_fits_tail[OF "4.prems"(3)] "4.prems"(4,5) by blast
  then show ?case by (simp add: sp800_input_def sp800_part_def)
next
  case (5 iv ctr dkmklen dkmslen seen_dkmlen seen_iter seen_counter f ps op)
  obtain op2 where op2: "dkm_update f dkmklen dkmslen op = (Ok (), op2)" "feedback_updates iv ctr dkmklen dkmslen True seen_iter seen_counter ps op2 = (Ok (), op1)" "\<not> seen_dkmlen"
    using "5.prems"(1) by (auto simp: st_then_eq_Ok param_invalid_def split: if_split_asm)
  have "fed_with F n (d @ octets (df_le f) (df_bits f) (sp800_L f kbits sbits)) op2"
    by (rule fed_with_dkm[OF "5.prems"(2) op2(1)[unfolded "5.prems"(4,5)] "5.prems"(3)])
  then have "fed_with F n ((d @ octets (df_le f) (df_bits f) (sp800_L f kbits sbits)) @ sp800_input True iv ctr kbits sbits ps) op1"
    using "5.IH" op2(2-) dkm_fits_tail[OF "5.prems"(3)] "5.prems"(4,5) by blast
  then show ?case by (simp add: sp800_input_def sp800_part_def)
qed (auto simp: param_invalid_def sp800_input_def split: if_split_asm)

section \<open>The iterations\<close>

abbreviation is_feedback :: "sp800_operation \<Rightarrow> bool" where
  "is_feedback sp \<equiv> kd_mech sp = CKM_SP800_108_FEEDBACK_KDF"

lemma sp800_segment_value:
  assumes "fst (sp800_segment sp n (of_nat kbits) (of_nat sbits) c dkm op) = Ok out" and "computes F n Fresh op"
    and "dkm_fits kbits sbits (kd_params sp)" and "c \<noteq> 0 \<Longrightarrow> prev = drop (length dkm - n) dkm" and "c = 0 \<Longrightarrow> prev = kd_iv sp"
  shows "out = F (sp800_input (is_feedback sp) prev (Suc c) kbits sbits (kd_params sp))"
proof -
  have iv: "(if c = 0 then kd_iv sp else drop (length dkm - n) dkm) = prev" using assms(4,5) by simp
  obtain op1 where op1: "fed_with F n ([] @ sp800_input (is_feedback sp) prev (Suc c) kbits sbits (kd_params sp)) op1"
      "fst (op_finish n op1) = Ok out"
  proof (cases "kd_mech sp = CKM_SP800_108_COUNTER_KDF")
    case True
    then obtain op1 where "counter_updates (c + 1) (of_nat kbits) (of_nat sbits) False False (kd_params sp) op = (Ok (), op1)"
        "fst (op_finish n op1) = Ok out"
      using assms(1) by (auto simp: sp800_segment_def st_then_def split: prod.splits sum.splits)
    then show ?thesis
      using counter_updates_feed[OF _ fed_withI[OF assms(2)] assms(3) refl refl, where prev = prev] True that by fastforce
  next
    case False
    then obtain op1 where f: "is_feedback sp"
        "feedback_updates prev (c + 1) (of_nat kbits) (of_nat sbits) False False False (kd_params sp) op = (Ok (), op1)"
        "fst (op_finish n op1) = Ok out"
      using assms(1) iv by (auto simp: sp800_segment_def st_then_def split: prod.splits sum.splits if_split_asm)
    then show ?thesis
      using feedback_updates_feed[OF f(2) fed_withI[OF assms(2)] assms(3) refl refl] that by fastforce
  qed
  then show ?thesis using fed_with_finish[OF op1(1)] by simp
qed

lemma sp800_segments_value:
  assumes "sp800_segments new sp n (of_nat kbits) (of_nat sbits) [c..<N] dkm op = Ok out"
    and "new = Ok op0" and "computes F n Fresh op0" and "c = 0 \<longrightarrow> op = op0" and "c \<le> N"
    and "dkm_fits kbits sbits (kd_params sp)"
    and "dkm = concat (map (sp800_K F (is_feedback sp) (kd_iv sp) kbits sbits (kd_params sp)) [1..<c + 1])"
  shows "out = concat (map (sp800_K F (is_feedback sp) (kd_iv sp) kbits sbits (kd_params sp)) [1..<N + 1])"
  using assms(1,4,5,7)
proof (induction "N - c" arbitrary: c dkm op)
  case 0
  then show ?case by simp
next
  case (Suc d)
  let ?K = "sp800_K F (is_feedback sp) (kd_iv sp) kbits sbits (kd_params sp)"
  have c: "c < N" using Suc.hyps(2) by simp
  have lens: "length (?K (Suc i)) = n" for i using computes_value_len[OF assms(3)] by simp
  have op1: "(if c \<noteq> 0 then new else Ok op) = Ok op0" using assms(2) Suc.prems(2) by simp
  obtain buf where buf: "fst (sp800_segment sp n (of_nat kbits) (of_nat sbits) c dkm op0) = Ok buf"
      "sp800_segments new sp n (of_nat kbits) (of_nat sbits) [Suc c..<N] (dkm @ buf) op0 = Ok out"
    using Suc.prems(1) c op1 by (auto simp: upt_conv_Cons and_then_eq_Ok)
  have "c \<noteq> 0 \<Longrightarrow> ?K c = drop (length dkm - n) dkm"
    using Suc.prems(4) lens[of "c - 1"] by (cases c) simp_all
  then have "buf = ?K (Suc c)"
    using sp800_segment_value[OF buf(1) assms(3,6), of "?K c"] by simp
  then show ?case
    using Suc.hyps(1)[of "Suc c" "dkm @ buf" op0] Suc.hyps(2) Suc.prems(4) buf(2) c by simp
qed

section \<open>The keys\<close>

fun sp800_layout :: "nat \<Rightarrow> nat \<Rightarrow> object list \<Rightarrow> nat list" where
  "sp800_layout n start [] = []"
| "sp800_layout n start (obj # objs) =
    start # sp800_layout n (start + key_to_segment_size (key_len obj) n) objs"

definition cut_key :: "bytes \<Rightarrow> object \<Rightarrow> nat \<Rightarrow> object" where
  "cut_key dkm obj start = with_value (slice dkm start (key_len obj)) obj"

lemma sp800_values_cut:
  "sp800_values n dkm start objs = Ok keys \<Longrightarrow> keys = map2 (cut_key dkm) objs (sp800_layout n start objs)"
  by (induction n dkm start objs arbitrary: keys rule: sp800_values.induct)
    (auto simp: and_then_eq_Ok cut_key_def key_len_def split: if_split_asm)

lemma sp800_values_fit:
  "sp800_values n dkm start objs = Ok keys \<Longrightarrow> list_all2 (\<lambda>obj s. s + key_len obj \<le> length dkm) objs (sp800_layout n start objs)"
  by (induction n dkm start objs arbitrary: keys rule: sp800_values.induct)
    (auto simp: and_then_eq_Ok key_len_def split: if_split_asm)

lemma verify_prf_key_secret:
  assumes "verify_prf_key mech key = Ok ()" and "mech \<noteq> CKM_AES_CMAC"
    and "get_attr_as_bytes CKA_VALUE key = Ok k"
  shows "hmac_secret mech key k"
proof -
  have "\<exists>kt. check_key_ops CKO_SECRET_KEY kt CKA_DERIVE key = Ok () \<and> typed_prf mech kt"
    using assms(1,2) unfolding verify_prf_key_def Let_def
    by (auto simp: is_ok_iff typed_prf_def HASH_MECH_SET_def split: if_split_asm)
  then show ?thesis using typed_prf_secret assms(3) by blast
qed

lemma segment_sizes: "0 < n \<Longrightarrow> n dvd sum_list (map (\<lambda>k. key_to_segment_size (key_len k) n) objs)"
  by (induction objs) (simp_all add: key_to_segment_size_def)

lemma cut_key_length:
  assumes "start + key_len obj \<le> length dkm" and "get_attr_as_bytes CKA_VALUE (cut_key dkm obj start) = Ok v"
  shows "length v = key_len obj"
  using assms by (auto simp: cut_key_def slice_def)

text \<open>
  C17. The keys of a derivation in counter or feedback mode are those of NIST SP 800-108
  (\<^verbatim>\<open>Sp800Operation::derive\<close>). With HMAC as the function, there are as many iterations as the segments
  of all keys need; the output \<open>K(1), K(2), ...\<close> of the iterations, in the order of the data parameters
  with the counter from 1 or the feedback from the initialization vector, is cut into the keys, each
  from a segment of its own and of the length of its object. The counter and the length \<open>L\<close>, which is
  in bits and counts the keys or the segments as its method says, are octets in the width and the order
  the parameters ask for. It holds when \<open>L\<close> is below \<open>2\<^sup>n - 1\<close> for its width \<open>n\<close>; the code encodes a greater
  one modulo that number.
\<close>

theorem sp800_keys_of_nist:
  assumes "digest_contract dl H absorbed" and "hmacs_installed dl hc mops"
    and "kd_prf sp \<noteq> CKM_AES_CMAC" and "get_attr_as_bytes CKA_VALUE key = Ok k"
    and "sp800_derive mops uuid sp key template mechs fs = Ok keys"
    and "hmac_mech_to_hash_mech (kd_prf sp) = Ok hash"
    and "sp800_objects fs uuid sp (hash_size hash) key template = Ok objs"
  defines "n \<equiv> hash_size hash"
  defines "klen \<equiv> sum_list (map key_len objs)"
    and "slen \<equiv> sum_list (map (\<lambda>o1. key_to_segment_size (key_len o1) n) objs)"
  defines "K \<equiv> sp800_K (hmac_spec (H hash) (block_size hash) k) (is_feedback sp) (kd_iv sp) (8 * klen) (8 * slen)
    (kd_params sp)"
  defines "dkm \<equiv> concat (map K [1..<slen div n + 1])"
  assumes fit: "dkm_fits (8 * klen) (8 * slen) (kd_params sp)"
  shows "length dkm = slen \<and> keys = map2 (cut_key dkm) objs (sp800_layout n 0 objs) \<and>
    list_all2 (\<lambda>obj start. start + key_len obj \<le> slen) objs (sp800_layout n 0 objs)"
proof -
  let ?new = "mo_mac_new (mops (kd_prf sp)) (plain_mechanism (kd_prf sp)) key CKF_DERIVE"
  have "verify_prf_key (kd_prf sp) key = Ok ()"
    using assms(5) by (auto simp: sp800_derive_def and_then_eq_Ok)
  then have secret: "hmac_secret (kd_prf sp) key k" by (rule verify_prf_key_secret[OF _ assms(3,4)])
  obtain op hash' where op': "hmac_mech_to_hash_mech (kd_prf sp) = Ok hash'" "?new = Ok op"
      "computes (hmac_spec (H hash') (block_size hash') k) (hash_size hash') Fresh op"
    by (rule installed_hmac[OF assms(1,2) secret])
  then have op: "?new = Ok op" "computes (hmac_spec (H hash) (block_size hash) k) n Fresh op"
    using assms(6) by (simp_all add: n_def)
  have n: "0 < n" using valid_hash_sizes(3)[OF hmac_hash_valid[OF assms(6)]] by (simp add: n_def)
  have bits: "of_nat klen * 8 = (of_nat (8 * klen) :: u64)" "of_nat slen * 8 = (of_nat (8 * slen) :: u64)" by simp_all
  have objs: "sp800_objects fs uuid sp n key template = Ok objs" using assms(7) by (simp add: n_def)
  obtain dkm' where d: "sp800_segments ?new sp n (of_nat (8 * klen)) (of_nat (8 * slen)) [0..<slen div n] [] op = Ok dkm'"
      "sp800_values n dkm' 0 objs = Ok keys"
    using assms(5) op(1) objs computes_len[OF op(2)]
    by (auto simp: sp800_derive_def and_then_eq_Ok Let_def klen_def slen_def mult.commute)
  have "dkm' = dkm" unfolding dkm_def K_def
    by (rule sp800_segments_value[OF d(1) op]) (use fit in simp_all)
  moreover have "length (concat (map K [1..<i + 1])) = i * n" for i
    unfolding K_def using computes_value_len[OF op(2)] by (induction i) simp_all
  then have "length dkm = slen div n * n" unfolding dkm_def by blast
  then have "length dkm = slen" unfolding slen_def using segment_sizes[OF n] by simp
  ultimately show ?thesis using sp800_values_cut[OF d(2)] sp800_values_fit[OF d(2)] by simp
qed

section \<open>A sample derivation\<close>

definition sp800_sample :: sp800_operation where
  "sp800_sample = \<lparr>kd_mech = CKM_SP800_108_COUNTER_KDF, kd_prf = CKM_SHA256_HMAC,
     kd_params = [Iteration \<lparr>cf_defined = True, cf_le = False, cf_bits = 16\<rparr>, ByteArray [5],
       DKMLength \<lparr>df_method = CK_SP800_108_DKM_LENGTH_SUM_OF_KEYS, df_le = False, df_bits = 32\<rparr>],
     kd_iv = [], kd_addl_drv_keys = []\<rparr>"

abbreviation sp800_template :: ck_attrs where
  "sp800_template \<equiv> [ck_attr_of CKA_CLASS (u64_to_le CKO_SECRET_KEY),
     ck_attr_of CKA_KEY_TYPE (u64_to_le CKK_GENERIC_SECRET), ck_attr_of CKA_VALUE_LEN (u64_to_le 40)]"

lemma sample_counter_bytes: "i < 100 \<Longrightarrow> \<exists>b. counter_bytes \<lparr>cf_defined = True, cf_le = False, cf_bits = 16\<rparr> i = Ok b"
  by (simp add: counter_bytes_def Let_def)

lemma sample_sp800_segment:
  assumes op: "computes F n Fresh op" and "c < 10"
  obtains out where "fst (sp800_segment sp800_sample n klen slen c dkm op) = Ok out" and "length out = n"
proof -
  obtain b where b: "counter_bytes \<lparr>cf_defined = True, cf_le = False, cf_bits = 16\<rparr> (c + 1) = Ok b"
    using sample_counter_bytes[of "c + 1"] assms(2) by auto
  obtain l where l: "dkm_bytes \<lparr>df_method = CK_SP800_108_DKM_LENGTH_SUM_OF_KEYS, df_le = False, df_bits = 32\<rparr> klen slen = Ok l"
    by (simp add: dkm_bytes_def Let_def)
  obtain op1 where 1: "op_update b op = (Ok (), op1)" "computes F n (Fed (fed Fresh @ b)) op1"
    by (rule computes_update[OF op]) simp
  obtain op2 where 2: "op_update [5] op1 = (Ok (), op2)" "computes F n (Fed (fed (Fed (fed Fresh @ b)) @ [5])) op2"
    by (rule computes_update[OF 1(2)]) simp
  obtain op3 where 3: "op_update l op2 = (Ok (), op3)"
      "computes F n (Fed (fed (Fed (fed (Fed (fed Fresh @ b)) @ [5])) @ l)) op3"
    by (rule computes_update[OF 2(2)]) simp
  obtain op4 where 4: "op_finish n op3 = (Ok (F (fed (Fed (fed (Fed (fed (Fed (fed Fresh @ b)) @ [5])) @ l)))), op4)"
    by (rule computes_finish[OF 3(2)]) simp
  show ?thesis
    by (rule that)
      (use b l 1 2 3 4 computes_value_len[OF op] in
        \<open>simp_all add: sp800_segment_def sp800_sample_def ctr_update_def dkm_update_def feed_def\<close>)
qed

theorem sp800_keys_of_nist_witness:
  "\<exists>obj dkm. dkm = concat (map (sp800_K (hmac_spec (toy_hash CKM_SHA256) (block_size CKM_SHA256) [1, 2, 3]) False []
      320 512 (kd_params sp800_sample)) [1..<3]) \<and> length dkm = 64 \<and>
    sp800_derive sample_mops (\<lambda>_. [1]) sp800_sample (derive_base CKK_GENERIC_SECRET) sp800_template
      sample_registered core_factories = Ok [cut_key dkm obj 0]"
proof -
  have m: "hmac_mech_to_hash_mech CKM_SHA256_HMAC = Ok CKM_SHA256" by (simp add: hmac_mech_to_hash_mech_def)
  obtain op hash where op: "hmac_mech_to_hash_mech CKM_SHA256_HMAC = Ok hash"
      "mo_mac_new (sample_mops CKM_SHA256_HMAC) (plain_mechanism CKM_SHA256_HMAC) (derive_base CKK_GENERIC_SECRET) CKF_DERIVE = Ok op"
      "computes (hmac_spec (toy_hash hash) (block_size hash) [1, 2, 3]) (hash_size hash) Fresh op"
    by (rule installed_hmac[OF toy_contract sample_installed(2) sample_hmac_secret])
  have "hash_size CKM_SHA256 = 32" by (simp add: hash_size_def HASH_MECH_SET_def)
  then have c: "computes (hmac_spec (toy_hash CKM_SHA256) (block_size CKM_SHA256) [1, 2, 3]) 32 Fresh op"
    using op(1,3) m by simp
  have "and_then (derive_key_from_template core_factories [1] (derive_base CKK_GENERIC_SECRET) sp800_template)
      (\<lambda>o1. get_attr_as_ulong CKA_VALUE_LEN o1) = Ok 40" by code_simp
  then obtain obj where obj: "derive_key_from_template core_factories [1] (derive_base CKK_GENERIC_SECRET) sp800_template = Ok obj"
      "get_attr_as_ulong CKA_VALUE_LEN obj = Ok 40"
    by (auto simp: and_then_eq_Ok)
  have objs: "sp800_objects core_factories (\<lambda>_. [1]) sp800_sample 32 (derive_base CKK_GENERIC_SECRET) sp800_template = Ok [obj]"
    using obj by (simp add: sp800_objects_def sp800_keysize_def sp800_sample_def)
  obtain out1 where o1: "fst (sp800_segment sp800_sample 32 320 512 0 [] op) = Ok out1" "length out1 = 32"
    by (rule sample_sp800_segment[OF c, of 0]) simp
  obtain out2 where o2: "fst (sp800_segment sp800_sample 32 320 512 1 out1 op) = Ok out2" "length out2 = 32"
    by (rule sample_sp800_segment[OF c, of 1]) simp
  have hp: "kd_prf sp800_sample = CKM_SHA256_HMAC" by (simp add: sp800_sample_def)
  have d: "sp800_derive sample_mops (\<lambda>_. [1]) sp800_sample (derive_base CKK_GENERIC_SECRET) sp800_template
      sample_registered core_factories = Ok [with_value (slice (out1 @ out2) 0 40) obj]"
    using obj objs op(2) o1 o2 computes_len[OF c]
    by (simp add: sp800_derive_def verify_prf_key_def derive_base_sel hp sample_found Let_def
        key_len_def key_to_segment_size_def upt_rec)
  have "kd_prf sp800_sample \<noteq> CKM_AES_CMAC" by (simp add: hp)
  note nist = sp800_keys_of_nist[OF toy_contract sample_installed(2) this derive_base_sel(4) d m[folded hp]]
  have size: "hash_size CKM_SHA256 = 32" by (simp add: hash_size_def HASH_MECH_SET_def)
  have len: "key_len obj = 40" using obj(2) by (simp add: key_len_def)
  have fit: "dkm_fits 320 512 (kd_params sp800_sample)"
    by (simp add: dkm_fits_def sp800_sample_def sp800_L_def)
  have fb: "\<not> is_feedback sp800_sample" "kd_iv sp800_sample = []" by (simp_all add: sp800_sample_def)
  let ?dkm = "concat (map (sp800_K (hmac_spec (toy_hash CKM_SHA256) (block_size CKM_SHA256) [1, 2, 3]) False [] 320 512
    (kd_params sp800_sample)) [1..<3])"
  have "length ?dkm = 64 \<and> [with_value (slice (out1 @ out2) 0 40) obj] = [cut_key ?dkm obj 0]"
    using nist[of "[obj]"] objs size len fit fb by (simp add: key_to_segment_size_def del: upt_rec_numeral)
  then show ?thesis using d by (intro exI[of _ obj] exI[of _ ?dkm]) simp
qed

end
