(* ===== verification/Simple_Kdf.thy ===== *)
theory Simple_Kdf
  imports Prf_Laws
begin

text \<open>
  The simple derivations of PKCS#11 (\<^verbatim>\<open>src/src/native/simplekdf.rs\<close> and \<^verbatim>\<open>src/src/simplekdf.rs\<close>):
  concatenation with a key or with data, exclusive-or with data, the bits of a key from an offset, and
  the public key of a private key.
\<close>

section \<open>The operation\<close>

record key_info =
  ki_sensitive :: bool
  ki_extractable :: bool
  ki_always_sensitive :: bool
  ki_never_extractable :: bool
  ki_value :: bytes

definition key_info_from_object :: "object \<Rightarrow> key_info result" where
  "key_info_from_object obj =
    and_then (get_attr_as_bytes CKA_VALUE obj) (\<lambda>v.
      Ok \<lparr>ki_sensitive = is_sensitive obj, ki_extractable = is_extractable obj,
          ki_always_sensitive = is_always_sensitive obj, ki_never_extractable = is_never_extractable obj,
          ki_value = v\<rparr>)"

record simple_kdf_operation =
  sm_mech :: ck_ulong
  sm_key_handle :: "ck_ulong option"
  sm_key_info :: "key_info option"
  sm_data :: "bytes option"
  sm_bit_offset :: "ck_ulong option"

fun ulong_struct :: "param_struct \<Rightarrow> ck_ulong option" where
  "ulong_struct (UlongParam p) = Some p"
| "ulong_struct _ = None"

fun string_data_struct :: "param_struct \<Rightarrow> ck_key_derivation_string_data option" where
  "string_data_struct (StringDataParams p) = Some p"
| "string_data_struct _ = None"

definition no_simple_kdf :: "ck_ulong \<Rightarrow> simple_kdf_operation" where
  "no_simple_kdf m =
    \<lparr>sm_mech = m, sm_key_handle = None, sm_key_info = None, sm_data = None, sm_bit_offset = None\<rparr>"

definition takes_data :: "ck_ulong \<Rightarrow> bool" where
  "takes_data m \<longleftrightarrow> m = CKM_CONCATENATE_BASE_AND_DATA \<or> m = CKM_CONCATENATE_DATA_AND_BASE \<or> m = CKM_XOR_BASE_AND_DATA"

definition simple_kdf_new :: "ck_mechanism \<Rightarrow> simple_kdf_operation result" where
  "simple_kdf_new m =
    (let new = no_simple_kdf (cm_mechanism m) in
     if cm_mechanism m = CKM_CONCATENATE_BASE_AND_KEY then
       and_then (get_parameters 8 ulong_struct m) (\<lambda>handle. Ok (new\<lparr>sm_key_handle := Some handle\<rparr>))
     else if takes_data (cm_mechanism m) then
       and_then (get_parameters 16 string_data_struct m) (\<lambda>params.
         let data = bytes_to_vec (sd_pData params) (unat (sd_ulLen params)) in
         if length data < 1 then Err CKR_MECHANISM_PARAM_INVALID
         else Ok (new\<lparr>sm_data := Some data\<rparr>))
     else if cm_mechanism m = CKM_EXTRACT_KEY_FROM_KEY then
       and_then (get_parameters 8 ulong_struct m) (\<lambda>params. Ok (new\<lparr>sm_bit_offset := Some params\<rparr>))
     else Err CKR_MECHANISM_INVALID)"

definition simple_kdf_requires_objects :: "simple_kdf_operation \<Rightarrow> ck_ulong list result" where
  "simple_kdf_requires_objects sm =
    (case sm_key_handle sm of Some h \<Rightarrow> Ok [h] | None \<Rightarrow> Err CKR_OK)"

definition simple_kdf_receives_objects ::
    "simple_kdf_operation \<Rightarrow> object list \<Rightarrow> unit result \<times> simple_kdf_operation" where
  "simple_kdf_receives_objects sm objs =
    (if length objs \<noteq> 1 then (Err CKR_GENERAL_ERROR, sm)
     else case key_info_from_object (hd objs) of
       Inl e \<Rightarrow> (Inl e, sm)
     | Inr k \<Rightarrow> (Ok (), sm\<lparr>sm_key_info := Some k\<rparr>))"

text \<open>The protection of a concatenation: the stricter of both keys, or what the template asks for.\<close>

definition template_bool :: "ck_ulong \<Rightarrow> ck_attrs \<Rightarrow> bool \<Rightarrow> bool result" where
  "template_bool t tmpl dflt = (case find_attr t tmpl of Some b \<Rightarrow> ck_to_bool b | None \<Rightarrow> Ok dflt)"

definition concatenated_attributes :: "key_info \<Rightarrow> key_info \<Rightarrow> ck_attrs \<Rightarrow> object \<Rightarrow> object result" where
  "concatenated_attributes base other tmpl dkey =
    (let sensitive = ki_sensitive base \<or> ki_sensitive other;
         extractable = ki_extractable base \<and> ki_extractable other in
     and_then (if \<not> sensitive then template_bool CKA_SENSITIVE tmpl sensitive else Ok sensitive) (\<lambda>sensitive.
     and_then (set_attr (from_bool CKA_SENSITIVE sensitive) dkey) (\<lambda>d1.
     and_then (if extractable then template_bool CKA_EXTRACTABLE tmpl extractable else Ok extractable) (\<lambda>extractable.
     and_then (set_attr (from_bool CKA_EXTRACTABLE extractable) d1) (\<lambda>d2.
     and_then (set_attr (from_bool CKA_ALWAYS_SENSITIVE
       (ki_always_sensitive base \<and> ki_always_sensitive other)) d2) (\<lambda>d3.
       set_attr (from_bool CKA_NEVER_EXTRACTABLE
         (ki_never_extractable base \<and> ki_never_extractable other)) d3))))))"

text \<open>The object with its protection, and the length of what is combined with the base key.\<close>

definition other_data :: "simple_kdf_operation \<Rightarrow> key_info \<Rightarrow> ck_attrs \<Rightarrow> object \<Rightarrow> (object \<times> nat) result" where
  "other_data sm base tmpl dkey =
    (if sm_mech sm = CKM_CONCATENATE_BASE_AND_KEY then
       (case sm_key_info sm of
          None \<Rightarrow> Err CKR_MECHANISM_PARAM_INVALID
        | Some other \<Rightarrow>
          and_then (concatenated_attributes base other tmpl dkey) (\<lambda>d. Ok (d, length (ki_value other))))
     else if takes_data (sm_mech sm) then
       (case sm_data sm of
          Some d \<Rightarrow> Ok (dkey, length d)
        | None \<Rightarrow> Err CKR_MECHANISM_PARAM_INVALID)
     else if sm_mech sm = CKM_EXTRACT_KEY_FROM_KEY then Ok (dkey, 0)
     else Err CKR_MECHANISM_INVALID)"

definition simple_kdf_outlen :: "ck_ulong \<Rightarrow> nat \<Rightarrow> nat \<Rightarrow> nat" where
  "simple_kdf_outlen mech base other =
    (if mech = CKM_XOR_BASE_AND_DATA then min base other
     else if mech = CKM_EXTRACT_KEY_FROM_KEY then base
     else base + other)"

definition simple_kdf_keylen :: "object_factory \<Rightarrow> nat \<Rightarrow> ck_attrs \<Rightarrow> nat result" where
  "simple_kdf_keylen factory outlen tmpl =
    (case find_attr CKA_VALUE_LEN tmpl of
       Some a \<Rightarrow> and_then (ck_to_ulong a) (\<lambda>n. Ok (unat n))
     | None \<Rightarrow>
       and_then (as_secret_key_factory factory) (\<lambda>sf.
         case sf_recommend_key_size sf outlen of
           Inr len \<Rightarrow> Ok len
         | Inl _ \<Rightarrow> Err CKR_TEMPLATE_INCONSISTENT))"

text \<open>
  The bits of a key: the bound on the offset compares bytes with bits, and the arithmetic on 64 bits
  is checked.
\<close>

definition check_keylen :: "simple_kdf_operation \<Rightarrow> nat \<Rightarrow> nat \<Rightarrow> nat \<Rightarrow> unit result" where
  "check_keylen sm base_len outlen keylen =
    (if sm_mech sm = CKM_EXTRACT_KEY_FROM_KEY then
       (case sm_bit_offset sm of
          None \<Rightarrow> Err CKR_MECHANISM_PARAM_INVALID
        | Some offset \<Rightarrow>
          if keylen * 8 \<ge> usize_range \<or> unat offset + 7 \<ge> usize_range then Inl Panic
          else if keylen * 8 > base_len * 8 \<or> (unat offset + 7) div 8 > base_len * 8
            then Err CKR_TEMPLATE_INCONSISTENT
          else Ok ())
     else if keylen > outlen then Err CKR_TEMPLATE_INCONSISTENT
     else Ok ())"

text \<open>A byte of eight bits cannot be shifted by eight.\<close>

definition shift_right_u8 :: "u8 \<Rightarrow> nat \<Rightarrow> u8 result" where
  "shift_right_u8 b n = (if n \<ge> 8 then Inl Panic else Ok (drop_bit n b))"

definition extract_byte :: "bytes \<Rightarrow> nat \<Rightarrow> nat \<Rightarrow> nat \<Rightarrow> nat \<Rightarrow> u8 result" where
  "extract_byte value outlen base_byte bit_shift i =
    and_then (shift_right_u8 (value ! ((base_byte + i + 1) mod outlen)) (8 - bit_shift)) (\<lambda>second_half.
      Ok (push_bit bit_shift (value ! ((base_byte + i) mod outlen)) OR second_half))"

fun extract_bytes :: "bytes \<Rightarrow> nat \<Rightarrow> nat \<Rightarrow> nat \<Rightarrow> nat list \<Rightarrow> bytes result" where
  "extract_bytes value outlen base_byte bit_shift [] = Ok []"
| "extract_bytes value outlen base_byte bit_shift (i # is) =
    and_then (extract_byte value outlen base_byte bit_shift i) (\<lambda>b.
    and_then (extract_bytes value outlen base_byte bit_shift is) (\<lambda>bs. Ok (b # bs)))"

definition xor_start :: "bytes \<Rightarrow> bytes \<Rightarrow> bytes" where
  "xor_start secret value = xor_bytes secret value @ drop (length value) secret"

definition combine_secret :: "simple_kdf_operation \<Rightarrow> bytes \<Rightarrow> nat \<Rightarrow> nat \<Rightarrow> bytes result" where
  "combine_secret sm value outlen keylen =
    (let with_data = (\<lambda>f. case sm_data sm of
           Some d \<Rightarrow> Ok (resize keylen (f d))
         | None \<Rightarrow> Err CKR_MECHANISM_PARAM_INVALID) in
     if sm_mech sm = CKM_CONCATENATE_BASE_AND_KEY then
       (case sm_key_info sm of
          Some k \<Rightarrow> Ok (resize keylen (value @ ki_value k))
        | None \<Rightarrow> Err CKR_MECHANISM_PARAM_INVALID)
     else if sm_mech sm = CKM_CONCATENATE_BASE_AND_DATA then with_data (\<lambda>d. value @ d)
     else if sm_mech sm = CKM_CONCATENATE_DATA_AND_BASE then with_data (\<lambda>d. d @ value)
     else if sm_mech sm = CKM_XOR_BASE_AND_DATA then with_data (\<lambda>d. xor_start d value)
     else if sm_mech sm = CKM_EXTRACT_KEY_FROM_KEY then
       (case sm_bit_offset sm of
          None \<Rightarrow> Err CKR_MECHANISM_PARAM_INVALID
        | Some offset \<Rightarrow>
          let bit_shift = unat offset mod 8; base_byte = (unat offset - bit_shift) div 8 in
          extract_bytes value outlen base_byte bit_shift [0..<keylen])
     else Err CKR_MECHANISM_INVALID)"

definition simple_kdf_derive ::
    "bytes \<Rightarrow> simple_kdf_operation \<Rightarrow> object \<Rightarrow> ck_attrs \<Rightarrow> mechanisms \<Rightarrow> factories \<Rightarrow> object list result" where
  "simple_kdf_derive uuid sm key template mechs fs =
    and_then (check_key_ops CKO_SECRET_KEY CK_UNAVAILABLE_INFORMATION CKA_DERIVE key) (\<lambda>_.
    and_then (key_info_from_object key) (\<lambda>base.
    let tmpl = add_missing_ulong CKA_KEY_TYPE CKK_GENERIC_SECRET
                 (add_missing_ulong CKA_CLASS CKO_SECRET_KEY template) in
    and_then (get_obj_factory_from_key_template fs tmpl) (\<lambda>factory.
    and_then (as_key_factory factory) (\<lambda>derive.
    and_then (derive uuid tmpl key) (\<lambda>dkey.
    and_then (other_data sm base tmpl dkey) (\<lambda>(dkey, other_data_len).
    let outlen = simple_kdf_outlen (sm_mech sm) (length (ki_value base)) other_data_len in
    and_then (simple_kdf_keylen factory outlen tmpl) (\<lambda>keylen.
    and_then (check_keylen sm (length (ki_value base)) outlen keylen) (\<lambda>_.
    and_then (combine_secret sm (ki_value base) outlen keylen) (\<lambda>secret.
    and_then (as_secret_key_factory factory) (\<lambda>sf.
    and_then (sf_set_key sf secret dkey) (\<lambda>dkey1. Ok [dkey1])))))))))))"

primcorec simple_kdf_op :: "bytes \<Rightarrow> simple_kdf_operation \<Rightarrow> derive_op" where
  "simple_kdf_op uuid sm = DeriveOp (simple_kdf_requires_objects sm)
     (\<lambda>objs. map_prod id (simple_kdf_op uuid) (simple_kdf_receives_objects sm objs))
     (simple_kdf_derive uuid sm)"

section \<open>The public key of a private key\<close>

datatype attr_source = DefaultBool bool | CopyFrom ck_ulong

definition PUBKEY_ATTR_DEFAULTS :: "(ck_ulong \<times> attr_source) list" where
  "PUBKEY_ATTR_DEFAULTS =
    [(CKA_TOKEN, DefaultBool False),
     (CKA_PRIVATE, DefaultBool False),
     (CKA_MODIFIABLE, DefaultBool True),
     (CKA_COPYABLE, DefaultBool True),
     (CKA_DESTROYABLE, DefaultBool False),
     (CKA_ENCRYPT, CopyFrom CKA_DECRYPT),
     (CKA_VERIFY, CopyFrom CKA_SIGN),
     (CKA_VERIFY_RECOVER, CopyFrom CKA_SIGN_RECOVER),
     (CKA_WRAP, CopyFrom CKA_UNWRAP),
     (CKA_DERIVE, CopyFrom CKA_DERIVE),
     (CKA_ID, CopyFrom CKA_ID),
     (CKA_START_DATE, CopyFrom CKA_START_DATE),
     (CKA_END_DATE, CopyFrom CKA_END_DATE),
     (CKA_SUBJECT, CopyFrom CKA_SUBJECT),
     (CKA_PUBLIC_KEY_INFO, CopyFrom CKA_PUBLIC_KEY_INFO),
     (CKA_ENCAPSULATE, CopyFrom CKA_DECAPSULATE)]"

definition pub_from_priv_new :: "ck_mechanism \<Rightarrow> unit result" where
  "pub_from_priv_new m =
    (if cm_mechanism m \<noteq> CKM_PUB_KEY_FROM_PRIV_KEY then Err CKR_MECHANISM_INVALID
     else if \<not> is_null (cm_parameter m) \<or> cm_parameter_len m \<noteq> 0 then Err CKR_MECHANISM_PARAM_INVALID
     else Ok ())"

text \<open>An attribute that the template may name must have the given value; else it is added.\<close>

definition require_ulong :: "ck_ulong \<Rightarrow> ck_ulong \<Rightarrow> ck_attrs \<Rightarrow> ck_attrs result" where
  "require_ulong t v tmpl =
    and_then (get_ulong t tmpl) (\<lambda>a.
      case a of
        Some x \<Rightarrow> if x \<noteq> v then Err CKR_TEMPLATE_INCONSISTENT else Ok tmpl
      | None \<Rightarrow> Ok (add_ulong t v tmpl))"

definition apply_attr_rule :: "object \<Rightarrow> ck_attrs \<Rightarrow> ck_ulong \<times> attr_source \<Rightarrow> ck_attrs result" where
  "apply_attr_rule key tmpl rule =
    (case snd rule of
       DefaultBool b \<Rightarrow> Ok (add_missing_bool (fst rule) (if b then CK_TRUE else CK_FALSE) tmpl)
     | CopyFrom a \<Rightarrow>
       (case get_attr a key of
          Some attr \<Rightarrow> add_missing_slice (fst rule) (val attr) tmpl
        | None \<Rightarrow> Ok tmpl))"

definition pub_from_priv_derive ::
    "bytes \<Rightarrow> object \<Rightarrow> ck_attrs \<Rightarrow> mechanisms \<Rightarrow> factories \<Rightarrow> object list result" where
  "pub_from_priv_derive uuid key template mechs fs =
    (if \<not> is_private key then Err CKR_KEY_TYPE_INCONSISTENT
     else case get_attr_as_ulong CKA_KEY_TYPE key of
       Inl _ \<Rightarrow> Err CKR_KEY_HANDLE_INVALID
     | Inr key_type \<Rightarrow>
       and_then (require_ulong CKA_CLASS CKO_PUBLIC_KEY template) (\<lambda>t1.
       and_then (require_ulong CKA_KEY_TYPE key_type t1) (\<lambda>t2.
       and_then (try_fold (apply_attr_rule key) t2 PUBKEY_ATTR_DEFAULTS) (\<lambda>pub_tmpl.
       and_then (get_factory fs CKO_PUBLIC_KEY key_type) (\<lambda>f.
       and_then (as_public_key_factory f) (\<lambda>pub.
       and_then (pub uuid key pub_tmpl) (\<lambda>pub_key.
       and_then
         (case get_attr CKA_KEY_GEN_MECHANISM key of
            Some attr \<Rightarrow> set_attr attr pub_key
          | None \<Rightarrow> Ok pub_key) (\<lambda>pub_key1. Ok [pub_key1]))))))))"

section \<open>The mechanism\<close>

definition simple_kdf_mechanism :: "bytes \<Rightarrow> ck_mechanism_info \<Rightarrow> mech_ops" where
  "simple_kdf_mechanism uuid info =
    default_mech_ops\<lparr>mo_derive_operation := (\<lambda>m.
      if mi_flags info AND CKF_DERIVE \<noteq> CKF_DERIVE then Err CKR_MECHANISM_INVALID
      else if cm_mechanism m = CKM_CONCATENATE_BASE_AND_KEY \<or> takes_data (cm_mechanism m) \<or>
          cm_mechanism m = CKM_EXTRACT_KEY_FROM_KEY
        then and_then (simple_kdf_new m) (\<lambda>sm. Ok (simple_kdf_op uuid sm))
      else if cm_mechanism m = CKM_PUB_KEY_FROM_PRIV_KEY
        then and_then (pub_from_priv_new m) (\<lambda>_. Ok (simple_derive (pub_from_priv_derive uuid)))
      else Err CKR_MECHANISM_INVALID)\<rparr>"

definition SIMPLE_KDF_MECH :: ck_mechanism_info where
  "SIMPLE_KDF_MECH = \<lparr>ulMinKeySize = 0, ulMaxKeySize = 0xFFFFFFFF, mi_flags = CKF_DERIVE\<rparr>"

definition PUB_FROM_PRIV_MECH :: ck_mechanism_info where
  "PUB_FROM_PRIV_MECH = \<lparr>ulMinKeySize = 0, ulMaxKeySize = 0, mi_flags = CKF_DERIVE\<rparr>"

definition register_simple_kdf :: "mechanisms \<Rightarrow> mechanisms" where
  "register_simple_kdf mechs =
    add_mechanism CKM_PUB_KEY_FROM_PRIV_KEY PUB_FROM_PRIV_MECH
      (fold (\<lambda>ckm. add_mechanism ckm SIMPLE_KDF_MECH)
        [CKM_CONCATENATE_BASE_AND_KEY, CKM_CONCATENATE_BASE_AND_DATA, CKM_CONCATENATE_DATA_AND_BASE,
         CKM_XOR_BASE_AND_DATA, CKM_EXTRACT_KEY_FROM_KEY] mechs)"

end
