(* ===== verification/Simple_Laws.thy ===== *)
theory Simple_Laws
  imports Simple_Kdf
begin

text \<open>
  What the simple derivations give: the secret as the standard defines it, and the protection of both
  keys of a concatenation.
\<close>

section \<open>The bits of a key\<close>

text \<open>The bits of a string of bytes, the most significant of each byte first.\<close>

definition key_bit :: "bytes \<Rightarrow> nat \<Rightarrow> bool" where
  "key_bit v j = bit (v ! (j div 8)) (7 - j mod 8)"

lemma byte_mod:
  fixes q r L :: nat
  assumes "r < 8"
  shows "(8 * q + r) mod (8 * L) = 8 * (q mod L) + r"
proof -
  have "(8 * q + r) div 8 = q" "(8 * q + r) mod 8 = r" using assms by simp_all
  then show ?thesis using mod_mult2_eq[of "8 * q + r" 8 L] by metis
qed

lemma extract_byte_bits:
  assumes "extract_byte v L base s i = Ok b" and "s < 8" and "k < 8" and "L = length v" and "0 < L"
  shows "bit b (7 - k) = key_bit v ((8 * base + s + 8 * i + k) mod (8 * L))"
proof -
  have s: "0 < s" and b: "b = push_bit s (v ! ((base + i) mod L)) OR drop_bit (8 - s) (v ! ((base + i + 1) mod L))"
    using assms(1,2) by (auto simp: extract_byte_def shift_right_u8_def and_then_eq_Ok split: if_split_asm)
  have pos: "8 * base + s + 8 * i + k = 8 * (base + i) + (s + k)" by simp
  show ?thesis
  proof (cases "s + k < 8")
    case True
    have "(8 * (base + i) + (s + k)) mod (8 * L) = 8 * ((base + i) mod L) + (s + k)"
      using True by (rule byte_mod)
    moreover have "bit b (7 - k) = bit (v ! ((base + i) mod L)) (7 - (s + k))"
      using True b s by (auto simp: bit_simps add.commute dest: bit_imp_le_length)
    ultimately show ?thesis unfolding key_bit_def pos using True by simp
  next
    case False
    then obtain r where r: "s + k = 8 + r" by (metis le_iff_add not_less)
    then have r8: "r < 8" using assms(2,3) by simp
    have eq: "8 * (base + i) + (s + k) = 8 * (base + i + 1) + r" using r by simp
    have "(8 * (base + i + 1) + r) mod (8 * L) = 8 * ((base + i + 1) mod L) + r"
      using r8 by (rule byte_mod)
    moreover have "bit b (7 - k) = bit (v ! ((base + i + 1) mod L)) (7 - r)"
    proof -
      have "\<not> s \<le> 7 - k" and "8 - s + (7 - k) = 7 - r" using r assms(2,3) by auto
      then show ?thesis using b assms(3) by (simp add: bit_simps)
    qed
    ultimately show ?thesis unfolding key_bit_def pos eq using r8 by simp
  qed
qed

lemma extract_bytes_nth:
  assumes "extract_bytes v L base s is = Ok out"
  shows "length out = length is \<and> (\<forall>i < length is. extract_byte v L base s (is ! i) = Ok (out ! i))"
  using assms
proof (induction "is" arbitrary: out)
  case (Cons i "is")
  then obtain b bs where "extract_byte v L base s i = Ok b" "extract_bytes v L base s is = Ok bs" "out = b # bs"
    by (auto simp: and_then_eq_Ok)
  then show ?case using Cons.IH by (auto simp: nth_Cons' less_Suc_eq_0_disj)
qed simp

lemma extract_bits:
  assumes "extract_bytes v (length v) (offset div 8) (offset mod 8) [0..<n] = Ok out" and "v \<noteq> []" and "j < 8 * n"
  shows "key_bit out j = key_bit v ((offset + j) mod (8 * length v))"
proof -
  have i: "j div 8 < n" using assms(3) by auto
  have len: "length out = n" and b: "extract_byte v (length v) (offset div 8) (offset mod 8) (j div 8) = Ok (out ! (j div 8))"
    using extract_bytes_nth[OF assms(1)] i by auto
  have "key_bit out j = key_bit v ((8 * (offset div 8) + offset mod 8 + 8 * (j div 8) + j mod 8) mod (8 * length v))"
    unfolding key_bit_def[of out] using assms(2) by (intro extract_byte_bits[OF b]) simp_all
  moreover have "8 * (offset div 8) + offset mod 8 + 8 * (j div 8) + j mod 8 = offset + j"
    by presburger
  ultimately show ?thesis by metis
qed

section \<open>The derived secret\<close>

definition bits_of :: "nat \<Rightarrow> nat \<Rightarrow> bytes \<Rightarrow> bytes \<Rightarrow> bool" where
  "bits_of offset n v secret \<longleftrightarrow>
    (\<forall>j < 8 * n. key_bit secret j = key_bit v ((offset + j) mod (8 * length v)))"

text \<open>The secret of the standard, for a base value and the other input, with the length of the key.\<close>

definition simple_secret :: "simple_kdf_operation \<Rightarrow> bytes \<Rightarrow> nat \<Rightarrow> bytes \<Rightarrow> bool" where
  "simple_secret sm v n secret \<longleftrightarrow>
    (if sm_mech sm = CKM_CONCATENATE_BASE_AND_KEY then \<exists>other. sm_key_info sm = Some other \<and> secret = take n (v @ ki_value other)
     else if sm_mech sm = CKM_CONCATENATE_BASE_AND_DATA then \<exists>d. sm_data sm = Some d \<and> secret = take n (v @ d)
     else if sm_mech sm = CKM_CONCATENATE_DATA_AND_BASE then \<exists>d. sm_data sm = Some d \<and> secret = take n (d @ v)
     else if sm_mech sm = CKM_XOR_BASE_AND_DATA then \<exists>d. sm_data sm = Some d \<and> secret = take n (map2 (XOR) d v)
     else \<exists>offset. sm_bit_offset sm = Some offset \<and> bits_of (unat offset) n v secret)"

lemma combine_secret_value:
  assumes "combine_secret sm v outlen n = Ok secret" and "check_keylen sm (length v) outlen n = Ok ()"
    and "outlen = simple_kdf_outlen (sm_mech sm) (length v) other"
    and "sm_mech sm = CKM_CONCATENATE_BASE_AND_KEY \<Longrightarrow> \<forall>k. sm_key_info sm = Some k \<longrightarrow> other = length (ki_value k)"
    and "takes_data (sm_mech sm) \<Longrightarrow> \<forall>d. sm_data sm = Some d \<longrightarrow> other = length d"
  shows "simple_secret sm v n secret \<and> length secret = n"
proof (cases "sm_mech sm = CKM_EXTRACT_KEY_FROM_KEY")
  case True
  then obtain offset where o: "sm_bit_offset sm = Some offset"
      "extract_bytes v (length v) ((unat offset - unat offset mod 8) div 8) (unat offset mod 8) [0..<n] = Ok secret"
      "n * 8 \<le> length v * 8"
    using assms(1-3)
    by (auto simp: combine_secret_def check_keylen_def simple_kdf_outlen_def takes_data_def Let_def
        split: option.splits if_split_asm)
  have div: "(unat offset - unat offset mod 8) div 8 = unat offset div 8"
    by (simp add: minus_mod_eq_mult_div)
  have "bits_of (unat offset) n v secret"
    unfolding bits_of_def
  proof (intro allI impI)
    fix j assume j: "j < 8 * n"
    then have "v \<noteq> []" using o(3) by auto
    then show "key_bit secret j = key_bit v ((unat offset + j) mod (8 * length v))"
      using extract_bits[OF o(2)[unfolded div]] j by blast
  qed
  then show ?thesis using True o extract_bytes_nth[OF o(2)] by (simp add: simple_secret_def)
next
  case False
  then have n: "n \<le> outlen" using assms(2) by (simp add: check_keylen_def split: if_split_asm)
  show ?thesis
    using assms(1,3-5) False n
    by (auto simp: combine_secret_def simple_secret_def simple_kdf_outlen_def takes_data_def resize_def
        xor_start_def xor_bytes_def min_def split: option.splits if_split_asm)
qed

lemma set_key_keeps:
  assumes "set_key v o1 = Ok o2" and "t \<noteq> CKA_VALUE" and "t \<noteq> CKA_VALUE_LEN"
  shows "get_attr t o2 = get_attr t o1"
proof -
  obtain n where "ensure_ulong CKA_VALUE_LEN n (with_value v o1) = Ok o2"
    using assms(1) by (auto simp: set_key_def set_key_len_def and_then_eq_Ok split: sum.splits if_split_asm)
  from ensure_ulong_OkD(1)[OF this, of t] show ?thesis using assms(2,3) by (simp add: get_attr_with_value)
qed

lemma set_key_value:
  assumes "set_key v o1 = Ok o2"
  shows "get_attr_as_bytes CKA_VALUE o2 = Ok v"
    and "\<exists>a. get_attr CKA_VALUE_LEN o2 = Some a \<and> to_ulong a = Ok (of_nat (length v))"
proof -
  have e: "ensure_ulong CKA_VALUE_LEN (of_nat (length v)) (with_value v o1) = Ok o2"
    using assms
    by (auto simp: set_key_def set_key_len_def ulong_try_from_def and_then_eq_Ok split: sum.splits if_split_asm)
  from ensure_ulong_OkD(1)[OF e, of CKA_VALUE] have "get_attr CKA_VALUE o2 = get_attr CKA_VALUE (with_value v o1)"
    by simp
  then show "get_attr_as_bytes CKA_VALUE o2 = Ok v"
    using value_with_value[of v o1] by (simp add: get_attr_as_bytes_def attr_as_def)
  show "\<exists>a. get_attr CKA_VALUE_LEN o2 = Some a \<and> to_ulong a = Ok (of_nat (length v))"
    by (rule ensure_ulong_OkD(3)[OF e])
qed

lemma set_key_known_length:
  assumes "get_attr CKA_VALUE_LEN obj = Some (from_ulong CKA_VALUE_LEN (of_nat (length v)))"
    and "length v < usize_range"
  shows "set_key v obj = Ok (with_value v obj)"
  using assms
  by (simp add: set_key_def set_key_len_def get_key_buffer_len_def ulong_try_from_def ensure_ulong_def
      get_attr_with_value)

text \<open>The steps of a derivation that succeeds.\<close>

lemma simple_kdf_derive_Ok:
  assumes "simple_kdf_derive uuid sm key template mechs fs = Ok objs"
    and "get_obj_factory_from_key_template fs (add_missing_ulong CKA_KEY_TYPE CKK_GENERIC_SECRET
      (add_missing_ulong CKA_CLASS CKO_SECRET_KEY template)) = Ok (generic_secret_factory keysize)"
  obtains base :: key_info and dkey dkey1 other n secret obj tmpl where "key_info_from_object key = Ok base"
    and "other_data sm base tmpl dkey = Ok (dkey1, other)"
    and "check_keylen sm (length (ki_value base)) (simple_kdf_outlen (sm_mech sm) (length (ki_value base)) other) n = Ok ()"
    and "combine_secret sm (ki_value base) (simple_kdf_outlen (sm_mech sm) (length (ki_value base)) other) n = Ok secret"
    and "set_key secret dkey1 = Ok obj" and "objs = [obj]"
  using assms
  by (auto simp: simple_kdf_derive_def Let_def and_then_eq_Ok as_secret_key_factory_def generic_secret_factory_def)

text \<open>
  A simple derivation gives the secret of the standard (\<^verbatim>\<open>SimpleKDFOperation::derive\<close>): the start of
  the base key and the other key or the data, in the order of the mechanism, the exclusive-or with the
  data, or the bits of the base key from the offset on, going around at its end; it has the length of
  the key.
\<close>

theorem simple_derivation_gives_secret:
  assumes "simple_kdf_derive uuid sm key template mechs fs = Ok objs"
    and "get_obj_factory_from_key_template fs (add_missing_ulong CKA_KEY_TYPE CKK_GENERIC_SECRET
      (add_missing_ulong CKA_CLASS CKO_SECRET_KEY template)) = Ok (generic_secret_factory keysize)"
  shows "\<exists>v n secret obj. get_attr_as_bytes CKA_VALUE key = Ok v \<and> objs = [obj] \<and>
    get_attr_as_bytes CKA_VALUE obj = Ok secret \<and> simple_secret sm v n secret \<and> length secret = n \<and>
    (\<exists>a. get_attr CKA_VALUE_LEN obj = Some a \<and> to_ulong a = Ok (of_nat n))"
proof (rule simple_kdf_derive_Ok[OF assms])
  fix base :: key_info and dkey dkey1 other n secret obj tmpl
  let ?outlen = "simple_kdf_outlen (sm_mech sm) (length (ki_value base)) other"
  assume a: "key_info_from_object key = Ok base" "other_data sm base tmpl dkey = Ok (dkey1, other)"
    "check_keylen sm (length (ki_value base)) ?outlen n = Ok ()"
    "combine_secret sm (ki_value base) ?outlen n = Ok secret" "set_key secret dkey1 = Ok obj" "objs = [obj]"
  have "simple_secret sm (ki_value base) n secret \<and> length secret = n"
  proof (rule combine_secret_value[OF a(4,3) refl])
    show "\<forall>k. sm_key_info sm = Some k \<longrightarrow> other = length (ki_value k)"
      if "sm_mech sm = CKM_CONCATENATE_BASE_AND_KEY"
      using that a(2) by (auto simp: other_data_def and_then_eq_Ok)
    show "\<forall>d. sm_data sm = Some d \<longrightarrow> other = length d" if "takes_data (sm_mech sm)"
      using that a(2) by (auto simp: other_data_def takes_data_def and_then_eq_Ok split: if_split_asm)
  qed
  moreover have "get_attr_as_bytes CKA_VALUE key = Ok (ki_value base)"
    using a(1) by (auto simp: key_info_from_object_def and_then_eq_Ok)
  ultimately show ?thesis using set_key_value[OF a(5)] a(6) by metis
qed

lemma sample_simple_factory:
  "get_obj_factory_from_key_template core_factories (add_missing_ulong CKA_KEY_TYPE CKK_GENERIC_SECRET
    (add_missing_ulong CKA_CLASS CKO_SECRET_KEY [ck_attr_of CKA_VALUE_LEN (u64_to_le 2)])) =
    Ok (generic_secret_factory 0)"
  by (simp add: get_obj_factory_from_key_template_def core_factories_def get_factory_def add_missing_ulong_def
      add_ulong_def find_attr_def ck_to_ulong_def ck_attr_of_def le64.dec_enc le64.length_enc)

lemma sample_simple_derive:
  fixes sm :: simple_kdf_operation
  defines "tmpl \<equiv> add_missing_ulong CKA_KEY_TYPE CKK_GENERIC_SECRET
      (add_missing_ulong CKA_CLASS CKO_SECRET_KEY [ck_attr_of CKA_VALUE_LEN (u64_to_le 2)])"
  assumes "internal_key_derive generic_secret_data [1] tmpl (derive_base CKK_GENERIC_SECRET) = Ok dkey"
    and "key_info_from_object (derive_base CKK_GENERIC_SECRET) = Ok base"
    and "other_data sm base tmpl dkey = Ok (dkey1, m)"
    and "check_keylen sm (length (ki_value base)) (simple_kdf_outlen (sm_mech sm) (length (ki_value base)) m) 2 = Ok ()"
    and "combine_secret sm (ki_value base) (simple_kdf_outlen (sm_mech sm) (length (ki_value base)) m) 2 = Ok secret"
    and "length secret = 2"
    and "get_attr CKA_VALUE_LEN dkey1 = Some (from_ulong CKA_VALUE_LEN 2)"
  shows "simple_kdf_derive [1] sm (derive_base CKK_GENERIC_SECRET)
      [ck_attr_of CKA_VALUE_LEN (u64_to_le 2)] [] core_factories = Ok [with_value secret dkey1]"
proof -
  have len: "simple_kdf_keylen (generic_secret_factory 0) n tmpl = Ok 2" for n
    by (simp add: tmpl_def simple_kdf_keylen_def add_missing_ulong_def add_ulong_def find_attr_def ck_to_ulong_def
        ck_attr_of_def le64.dec_enc le64.length_enc)
  have k: "as_key_factory (generic_secret_factory 0) = Ok (internal_key_derive generic_secret_data)"
      "as_secret_key_factory (generic_secret_factory 0) =
        Ok \<lparr>sf_recommend_key_size = generic_secret_recommend_key_size 0, sf_set_key = set_key\<rparr>"
    by (simp_all add: as_key_factory_def as_secret_key_factory_def generic_secret_factory_def)
  have set: "set_key secret dkey1 = Ok (with_value secret dkey1)"
    using assms(7,8) by (intro set_key_known_length) simp_all
  show ?thesis
    unfolding simple_kdf_derive_def Let_def tmpl_def[symmetric]
    by (simp add: derive_base_sel(6) sample_simple_factory[folded tmpl_def] assms(2-6) k len set)
qed

theorem simple_derivation_gives_secret_witness:
  "\<exists>obj secret. simple_kdf_derive [1] ((no_simple_kdf CKM_EXTRACT_KEY_FROM_KEY)\<lparr>sm_bit_offset := Some 13\<rparr>)
      (derive_base CKK_GENERIC_SECRET) [ck_attr_of CKA_VALUE_LEN (u64_to_le 2)] [] core_factories = Ok [obj] \<and>
    get_attr_as_bytes CKA_VALUE obj = Ok secret \<and> bits_of 13 2 [1, 2, 3] secret"
proof -
  let ?sm = "(no_simple_kdf CKM_EXTRACT_KEY_FROM_KEY)\<lparr>sm_bit_offset := Some 13\<rparr>"
  let ?tmpl = "add_missing_ulong CKA_KEY_TYPE CKK_GENERIC_SECRET
      (add_missing_ulong CKA_CLASS CKO_SECRET_KEY [ck_attr_of CKA_VALUE_LEN (u64_to_le 2)])"
  have "and_then (internal_key_derive generic_secret_data [1] ?tmpl (derive_base CKK_GENERIC_SECRET))
      (\<lambda>d. Ok (get_attr CKA_VALUE_LEN d)) = Ok (Some (from_ulong CKA_VALUE_LEN 2))"
    by code_simp
  then obtain dkey where d: "internal_key_derive generic_secret_data [1] ?tmpl (derive_base CKK_GENERIC_SECRET) = Ok dkey"
      "get_attr CKA_VALUE_LEN dkey = Some (from_ulong CKA_VALUE_LEN 2)"
    by (auto simp: and_then_eq_Ok)
  obtain base where b: "key_info_from_object (derive_base CKK_GENERIC_SECRET) = Ok base" "ki_value base = [1, 2, 3]"
    by (simp add: key_info_from_object_def derive_base_sel)
  obtain secret where s: "combine_secret ?sm [1, 2, 3] (length [1, 2, 3::u8]) 2 = Ok secret" "length secret = 2"
    by (simp add: combine_secret_def no_simple_kdf_def takes_data_def extract_byte_def shift_right_u8_def upt_rec)
  have derive: "simple_kdf_derive [1] ?sm (derive_base CKK_GENERIC_SECRET)
      [ck_attr_of CKA_VALUE_LEN (u64_to_le 2)] [] core_factories = Ok [with_value secret dkey]"
    by (rule sample_simple_derive[OF d(1) b(1)])
      (use b s d in \<open>simp_all add: no_simple_kdf_def other_data_def takes_data_def simple_kdf_outlen_def check_keylen_def\<close>)
  from simple_derivation_gives_secret[OF derive sample_simple_factory] have "bits_of 13 2 [1, 2, 3] secret"
    using s by (auto simp: derive_base_sel simple_secret_def no_simple_kdf_def)
  then show ?thesis using derive by auto
qed

lemma concatenated_protection:
  assumes "concatenated_attributes base other tmpl d0 = Ok d1"
  shows "(ki_sensitive base \<or> ki_sensitive other \<longrightarrow> get_attr_as_bool CKA_SENSITIVE d1 = Ok True) \<and>
    (\<not> (ki_extractable base \<and> ki_extractable other) \<longrightarrow> get_attr_as_bool CKA_EXTRACTABLE d1 = Ok False) \<and>
    get_attr_as_bool CKA_ALWAYS_SENSITIVE d1 = Ok (ki_always_sensitive base \<and> ki_always_sensitive other) \<and>
    get_attr_as_bool CKA_NEVER_EXTRACTABLE d1 = Ok (ki_never_extractable base \<and> ki_never_extractable other)"
proof -
  obtain se d2 ex d3 d4 where
    se: "ki_sensitive base \<or> ki_sensitive other \<longrightarrow> se"
    and d2: "set_attr (from_bool CKA_SENSITIVE se) d0 = Ok d2"
    and ex: "\<not> (ki_extractable base \<and> ki_extractable other) \<longrightarrow> \<not> ex"
    and d3: "set_attr (from_bool CKA_EXTRACTABLE ex) d2 = Ok d3"
    and d4: "set_attr (from_bool CKA_ALWAYS_SENSITIVE (ki_always_sensitive base \<and> ki_always_sensitive other)) d3 = Ok d4"
    and d5: "set_attr (from_bool CKA_NEVER_EXTRACTABLE (ki_never_extractable base \<and> ki_never_extractable other)) d4 = Ok d1"
    using assms unfolding concatenated_attributes_def Let_def and_then_eq_Ok
    by (elim exE conjE) (rule that, auto)
  show ?thesis
    using se ex
    by (auto simp: attr_as_defs get_attr_set[OF d5] get_attr_set[OF d4] get_attr_set[OF d3] get_attr_set[OF d2]
        from_bool_def mk_attribute_def to_bool_def)
qed

text \<open>
  C30. A key that is made of two keys is protected as both are (\<^verbatim>\<open>CKM_CONCATENATE_BASE_AND_KEY\<close>): it is
  sensitive when one of them is and extractable only when both are, whatever the template asks for,
  and was always sensitive or never extractable only when both were.
\<close>

theorem concatenation_protects_both_keys:
  assumes "simple_kdf_derive uuid sm key template mechs fs = Ok [obj]"
    and "get_obj_factory_from_key_template fs (add_missing_ulong CKA_KEY_TYPE CKK_GENERIC_SECRET
      (add_missing_ulong CKA_CLASS CKO_SECRET_KEY template)) = Ok (generic_secret_factory keysize)"
    and "sm_mech sm = CKM_CONCATENATE_BASE_AND_KEY"
    and "simple_kdf_receives_objects sm0 [other] = (Ok (), sm)"
  shows "(is_sensitive key \<or> is_sensitive other \<longrightarrow> get_attr_as_bool CKA_SENSITIVE obj = Ok True) \<and>
    (\<not> (is_extractable key \<and> is_extractable other) \<longrightarrow> get_attr_as_bool CKA_EXTRACTABLE obj = Ok False) \<and>
    get_attr_as_bool CKA_ALWAYS_SENSITIVE obj = Ok (is_always_sensitive key \<and> is_always_sensitive other) \<and>
    get_attr_as_bool CKA_NEVER_EXTRACTABLE obj = Ok (is_never_extractable key \<and> is_never_extractable other)"
proof (rule simple_kdf_derive_Ok[OF assms(1,2)])
  fix base :: key_info and dkey dkey1 len n secret obj1 tmpl
  assume a: "key_info_from_object key = Ok base" "other_data sm base tmpl dkey = Ok (dkey1, len)"
    "set_key secret dkey1 = Ok obj1" "[obj] = [obj1]"
  obtain info where info: "key_info_from_object other = Ok info" "sm_key_info sm = Some info"
    using assms(4) by (auto simp: simple_kdf_receives_objects_def split: sum.splits)
  have c: "concatenated_attributes base info tmpl dkey = Ok dkey1"
    using a(2) assms(3) info(2) by (auto simp: other_data_def and_then_eq_Ok)
  have keep: "get_attr_as_bool t obj = get_attr_as_bool t dkey1" if "t \<noteq> CKA_VALUE" "t \<noteq> CKA_VALUE_LEN" for t
    using set_key_keeps[OF a(3) that] a(4) by (simp add: get_attr_as_bool_def attr_as_def)
  show ?thesis
    using concatenated_protection[OF c] a(1) info(1)
    by (auto simp: keep key_info_from_object_def and_then_eq_Ok)
qed

theorem concatenation_protects_both_keys_witness:
  "\<exists>sm obj. simple_kdf_receives_objects (no_simple_kdf CKM_CONCATENATE_BASE_AND_KEY) [derive_base CKK_GENERIC_SECRET] = (Ok (), sm) \<and>
    simple_kdf_derive [1] sm (derive_base CKK_GENERIC_SECRET)
      [ck_attr_of CKA_VALUE_LEN (u64_to_le 2)] [] core_factories = Ok [obj] \<and>
    get_attr_as_bool CKA_SENSITIVE obj = Ok True \<and> get_attr_as_bool CKA_EXTRACTABLE obj = Ok False"
proof -
  let ?tmpl = "add_missing_ulong CKA_KEY_TYPE CKK_GENERIC_SECRET
      (add_missing_ulong CKA_CLASS CKO_SECRET_KEY [ck_attr_of CKA_VALUE_LEN (u64_to_le 2)])"
  obtain base where b: "key_info_from_object (derive_base CKK_GENERIC_SECRET) = Ok base" "ki_value base = [1, 2, 3]"
      "ki_sensitive base = is_sensitive (derive_base CKK_GENERIC_SECRET)"
      "ki_extractable base = is_extractable (derive_base CKK_GENERIC_SECRET)"
    by (simp add: key_info_from_object_def derive_base_sel)
  have protected: "is_sensitive (derive_base CKK_GENERIC_SECRET)" "\<not> is_extractable (derive_base CKK_GENERIC_SECRET)"
    by code_simp+
  let ?sm = "(no_simple_kdf CKM_CONCATENATE_BASE_AND_KEY)\<lparr>sm_key_info := Some base\<rparr>"
  have "and_then (internal_key_derive generic_secret_data [1] ?tmpl (derive_base CKK_GENERIC_SECRET))
      (\<lambda>d. and_then (key_info_from_object (derive_base CKK_GENERIC_SECRET)) (\<lambda>base.
        and_then (concatenated_attributes base base ?tmpl d) (\<lambda>d1. Ok (get_attr CKA_VALUE_LEN d1)))) =
      Ok (Some (from_ulong CKA_VALUE_LEN 2))"
    by code_simp
  then obtain dkey dkey1 where d: "internal_key_derive generic_secret_data [1] ?tmpl (derive_base CKK_GENERIC_SECRET) = Ok dkey"
      "concatenated_attributes base base ?tmpl dkey = Ok dkey1"
      "get_attr CKA_VALUE_LEN dkey1 = Some (from_ulong CKA_VALUE_LEN 2)"
    using b(1) by (auto simp: and_then_eq_Ok)
  have derive: "simple_kdf_derive [1] ?sm (derive_base CKK_GENERIC_SECRET)
      [ck_attr_of CKA_VALUE_LEN (u64_to_le 2)] [] core_factories = Ok [with_value [1, 2] dkey1]"
    by (rule sample_simple_derive[OF d(1) b(1)])
      (use b d in \<open>simp_all add: no_simple_kdf_def other_data_def takes_data_def simple_kdf_outlen_def check_keylen_def
        combine_secret_def resize_def\<close>)
  have received: "simple_kdf_receives_objects (no_simple_kdf CKM_CONCATENATE_BASE_AND_KEY) [derive_base CKK_GENERIC_SECRET] =
      (Ok (), ?sm)"
    using b(1) by (simp add: simple_kdf_receives_objects_def)
  have mech: "sm_mech ?sm = CKM_CONCATENATE_BASE_AND_KEY" by (simp add: no_simple_kdf_def)
  from concatenation_protects_both_keys[OF derive sample_simple_factory mech received]
  show ?thesis using derive received protected by blast
qed

text \<open>
  The bits of a key cannot be taken from an offset at a byte: the shift of the second half by a whole
  byte aborts (with checks of the arithmetic on; without them the byte after is mixed in).
\<close>

lemma extract_at_byte_panics:
  assumes "sm_mech sm = CKM_EXTRACT_KEY_FROM_KEY" and "sm_bit_offset sm = Some offset"
    and "unat offset mod 8 = 0" and "0 < keylen"
  shows "combine_secret sm v outlen keylen = Inl Panic"
proof -
  have "[0..<keylen] = 0 # [1..<keylen]" using assms(4) by (simp add: upt_conv_Cons)
  then show ?thesis
    using assms(1-3)
    by (simp add: combine_secret_def takes_data_def Let_def extract_byte_def shift_right_u8_def)
qed

end
