(* ===== verification/Tls_Kdf.thy ===== *)
theory Tls_Kdf
  imports Prf_Laws
begin

text \<open>
  The key derivations and the MAC of TLS 1.2 (\<^verbatim>\<open>src/src/native/tlskdf.rs\<close> and \<^verbatim>\<open>src/src/tlskdf.rs\<close>).
  What a derivation writes through the pointers of its parameter, the version and the IVs, is a part of
  its result.
\<close>

section \<open>The pseudo-random function\<close>

definition TLS_MASTER_SECRET_SIZE :: ck_ulong where
  "TLS_MASTER_SECRET_SIZE = 48"

definition TLS_RANDOM_SEED_SIZE :: nat where
  "TLS_RANDOM_SEED_SIZE = 32"

definition TLS_MASTER_SECRET_ALLOWED_MECHS :: "ck_ulong list" where
  "TLS_MASTER_SECRET_ALLOWED_MECHS =
    [CKM_TLS12_KEY_AND_MAC_DERIVE, CKM_TLS12_KEY_SAFE_DERIVE, CKM_TLS_KDF, CKM_TLS12_KDF, CKM_TLS_MAC,
     CKM_TLS12_MAC]"

definition ascii :: "string \<Rightarrow> bytes" where
  "ascii s = map (\<lambda>c. word_of_nat (of_char c)) s"

definition TLS_MASTER_SECRET_LABEL :: bytes where
  "TLS_MASTER_SECRET_LABEL = ascii ''master secret''"

definition TLS_KEY_EXPANSION_LABEL :: bytes where
  "TLS_KEY_EXPANSION_LABEL = ascii ''key expansion''"

definition TLS_SERVER_FINISHED :: bytes where
  "TLS_SERVER_FINISHED = ascii ''server finished''"

definition TLS_CLIENT_FINISHED :: bytes where
  "TLS_CLIENT_FINISHED = ascii ''client finished''"

definition TLS_EXTENDED_MASTER_SECRET_LABEL :: bytes where
  "TLS_EXTENDED_MASTER_SECRET_LABEL = ascii ''extended master secret''"

definition tls_prf_init :: "object \<Rightarrow> mech_ops \<Rightarrow> ck_ulong \<Rightarrow> crypto_op result" where
  "tls_prf_init key mech hmac = mo_mac_new mech (plain_mechanism hmac) key CKF_DERIVE"

text \<open>
  The loop of \<^verbatim>\<open>finish\<close>, from the length that is filled and the value of \<^verbatim>\<open>ax\<close>: the blocks that follow.
  The length of a block is not zero there, as the size of the buffer was divided by it.
\<close>

function tls_prf_blocks ::
    "bytes \<Rightarrow> nat \<Rightarrow> nat \<Rightarrow> nat \<Rightarrow> bytes \<Rightarrow> crypto_op \<Rightarrow> bytes result \<times> crypto_op" where
  "tls_prf_blocks seed reqlen maclen outlen ax op =
    (if maclen = 0 \<or> reqlen \<le> outlen then (Ok [], op)
     else st_then (op_reset op) (\<lambda>_ op1.
       st_then (op_all [ax, seed] maclen op1) (\<lambda>block op2.
       st_then
         (if outlen + maclen < reqlen then st_then (op_reset op2) (\<lambda>_. op_all [ax] maclen)
          else (Ok ax, op2)) (\<lambda>ax1 op3.
       st_then (tls_prf_blocks seed reqlen maclen (outlen + maclen) ax1 op3) (\<lambda>blocks op4.
         (Ok (block @ blocks), op4))))))"
  by pat_completeness auto
termination
  by (relation "measure (\<lambda>(seed, reqlen, maclen, outlen, ax, op). reqlen - outlen)") auto

declare tls_prf_blocks.simps [simp del]

text \<open>The sum of the lengths is checked, as all arithmetic on sizes.\<close>

definition tls_prf_finish :: "bytes \<Rightarrow> nat \<Rightarrow> crypto_op \<Rightarrow> bytes result \<times> crypto_op" where
  "tls_prf_finish seed reqlen op =
    (case co_fixed_len op of
       Inl e \<Rightarrow> (Inl e, op)
     | Inr maclen \<Rightarrow>
       st_then (op_all [seed] maclen op) (\<lambda>ax op1.
         if maclen = 0 \<or> reqlen + maclen \<ge> usize_range then (Inl Panic, op1)
         else st_then (tls_prf_blocks seed reqlen maclen 0 ax op1) (\<lambda>out op2.
           (Ok (resize reqlen out), op2))))"

section \<open>The operation\<close>

record tls_kdf_operation =
  tl_mech :: ck_ulong
  tl_client_random :: bytes
  tl_server_random :: bytes
  tl_session_hash :: bytes
  tl_version :: bool
  tl_prf :: ck_ulong
  tl_label :: bytes
  tl_context :: bytes
  tl_maclen :: ck_ulong
  tl_keylen :: ck_ulong
  tl_ivlen :: ck_ulong
  tl_mat_out :: "(bool \<times> bool) option"

fun master_key_struct :: "param_struct \<Rightarrow> ck_tls12_master_key_derive_params option" where
  "master_key_struct (MasterKeyParams p) = Some p"
| "master_key_struct _ = None"

fun extended_master_key_struct :: "param_struct \<Rightarrow> ck_tls12_extended_master_key_derive_params option" where
  "extended_master_key_struct (ExtendedMasterKeyParams p) = Some p"
| "extended_master_key_struct _ = None"

fun key_mat_struct :: "param_struct \<Rightarrow> ck_tls12_key_mat_params option" where
  "key_mat_struct (KeyMatParams p) = Some p"
| "key_mat_struct _ = None"

fun tls_kdf_struct :: "param_struct \<Rightarrow> ck_tls_kdf_params option" where
  "tls_kdf_struct (TlsKdfParams p) = Some p"
| "tls_kdf_struct _ = None"

fun tls_mac_struct :: "param_struct \<Rightarrow> ck_tls_mac_params option" where
  "tls_mac_struct (TlsMacParams p) = Some p"
| "tls_mac_struct _ = None"

definition tls_prf_of_hash :: "ck_ulong \<Rightarrow> ck_ulong result" where
  "tls_prf_of_hash m = map_err (\<lambda>_. CkError CKR_MECHANISM_PARAM_INVALID) (hash_to_hmac_mech m)"

text \<open>Both randoms, each of 32 bytes.\<close>

definition tls_randoms :: "ck_ssl3_random_data \<Rightarrow> (bytes \<times> bytes) result" where
  "tls_randoms rd =
    (let clirand = bytes_to_vec (rd_pClientRandom rd) (unat (rd_ulClientRandomLen rd));
         srvrand = bytes_to_vec (rd_pServerRandom rd) (unat (rd_ulServerRandomLen rd)) in
     if length clirand \<noteq> TLS_RANDOM_SEED_SIZE \<or> length srvrand \<noteq> TLS_RANDOM_SEED_SIZE
       then Err CKR_MECHANISM_PARAM_INVALID
     else Ok (clirand, srvrand))"

definition tls_operation :: "ck_ulong \<Rightarrow> ck_ulong \<Rightarrow> bytes \<Rightarrow> tls_kdf_operation" where
  "tls_operation mech hmac label =
    \<lparr>tl_mech = mech, tl_client_random = [], tl_server_random = [], tl_session_hash = [], tl_version = False,
     tl_prf = hmac, tl_label = label, tl_context = [], tl_maclen = 0, tl_keylen = 0, tl_ivlen = 0,
     tl_mat_out = None\<rparr>"

definition new_tls12_ems_derive :: "ck_mechanism \<Rightarrow> tls_kdf_operation result" where
  "new_tls12_ems_derive m =
    and_then (get_parameters 32 extended_master_key_struct m) (\<lambda>params.
    and_then (tls_prf_of_hash (te_prfHashMechanism params)) (\<lambda>hmac.
    if cm_mechanism m = CKM_TLS12_EXTENDED_MASTER_KEY_DERIVE_DH \<and> \<not> te_version_null params
      then Err CKR_MECHANISM_PARAM_INVALID
    else Ok ((tls_operation (cm_mechanism m) hmac TLS_EXTENDED_MASTER_SECRET_LABEL)
      \<lparr>tl_session_hash := bytes_to_vec (te_pSessionHash params) (unat (te_ulSessionHashLen params)),
       tl_version := \<not> te_version_null params\<rparr>)))"

definition new_tls12_mk_derive :: "ck_mechanism \<Rightarrow> tls_kdf_operation result" where
  "new_tls12_mk_derive m =
    and_then (get_parameters 48 master_key_struct m) (\<lambda>params.
    and_then (tls_randoms (tm_random_info params)) (\<lambda>(clirand, srvrand).
    and_then (tls_prf_of_hash (tm_prfHashMechanism params)) (\<lambda>hmac.
    if cm_mechanism m = CKM_TLS12_MASTER_KEY_DERIVE_DH \<and> \<not> tm_version_null params
      then Err CKR_MECHANISM_PARAM_INVALID
    else Ok ((tls_operation (cm_mechanism m) hmac TLS_MASTER_SECRET_LABEL)
      \<lparr>tl_client_random := clirand, tl_server_random := srvrand, tl_version := \<not> tm_version_null params\<rparr>))))"

definition new_tls12_keymac_derive :: "ck_mechanism \<Rightarrow> tls_kdf_operation result" where
  "new_tls12_keymac_derive m =
    and_then (get_parameters 80 key_mat_struct m) (\<lambda>params.
    let keylen = km_ulKeySizeInBits params div 8 in
    if km_bIsExport params \<noteq> CK_FALSE then Err CKR_MECHANISM_PARAM_INVALID
    else and_then (tls_randoms (km_random_info params)) (\<lambda>(clirand, srvrand).
    and_then (tls_prf_of_hash (km_prfHashMechanism params)) (\<lambda>hmac.
    if km_out_null params then Err CKR_MECHANISM_PARAM_INVALID
    else Ok ((tls_operation (cm_mechanism m) hmac TLS_KEY_EXPANSION_LABEL)
      \<lparr>tl_client_random := clirand, tl_server_random := srvrand,
       tl_maclen := km_ulMacSizeInBits params div 8,
       tl_keylen := (if keylen > 0 then keylen else TLS_MASTER_SECRET_SIZE),
       tl_ivlen := (if cm_mechanism m = CKM_TLS12_KEY_SAFE_DERIVE then 0 else km_ulIVSizeInBits params div 8),
       tl_mat_out := Some (km_iv_client_null params, km_iv_server_null params)\<rparr>))))"

definition new_tls_generic_key_derive :: "ck_mechanism \<Rightarrow> tls_kdf_operation result" where
  "new_tls_generic_key_derive m =
    and_then (get_parameters 72 tls_kdf_struct m) (\<lambda>params.
    if tk_ulLabelLength params = 0 then Err CKR_MECHANISM_PARAM_INVALID
    else and_then (tls_randoms (tk_random_info params)) (\<lambda>(clirand, srvrand).
    and_then (tls_prf_of_hash (tk_prfMechanism params)) (\<lambda>hmac.
      Ok ((tls_operation (cm_mechanism m) hmac
            (bytes_to_vec (tk_pLabel params) (unat (tk_ulLabelLength params))))
        \<lparr>tl_client_random := clirand, tl_server_random := srvrand,
         tl_context := bytes_to_vec (tk_pContextData params) (unat (tk_ulContextDataLength params))\<rparr>))))"

definition is_extended_master :: "ck_ulong \<Rightarrow> bool" where
  "is_extended_master t \<longleftrightarrow> t = CKM_TLS12_EXTENDED_MASTER_KEY_DERIVE \<or> t = CKM_TLS12_EXTENDED_MASTER_KEY_DERIVE_DH"

definition is_master :: "ck_ulong \<Rightarrow> bool" where
  "is_master t \<longleftrightarrow> t = CKM_TLS12_MASTER_KEY_DERIVE \<or> t = CKM_TLS12_MASTER_KEY_DERIVE_DH"

definition is_key_expansion :: "ck_ulong \<Rightarrow> bool" where
  "is_key_expansion t \<longleftrightarrow> t = CKM_TLS12_KEY_AND_MAC_DERIVE \<or> t = CKM_TLS12_KEY_SAFE_DERIVE"

definition is_labelled :: "ck_ulong \<Rightarrow> bool" where
  "is_labelled t \<longleftrightarrow> t = CKM_TLS12_KDF \<or> t = CKM_TLS_KDF"

definition tls_kdf_new :: "ck_mechanism \<Rightarrow> tls_kdf_operation result" where
  "tls_kdf_new m =
    (if is_master (cm_mechanism m) then new_tls12_mk_derive m
     else if is_key_expansion (cm_mechanism m) then new_tls12_keymac_derive m
     else if is_labelled (cm_mechanism m) then new_tls_generic_key_derive m
     else if is_extended_master (cm_mechanism m) then new_tls12_ems_derive m
     else Err CKR_MECHANISM_INVALID)"

section \<open>Templates and seeds\<close>

definition verify_key :: "tls_kdf_operation \<Rightarrow> object \<Rightarrow> unit result" where
  "verify_key tk key =
    and_then (check_key_ops CKO_SECRET_KEY CKK_GENERIC_SECRET CKA_DERIVE key) (\<lambda>_.
    case get_attr CKA_VALUE_LEN key of
      Some a \<Rightarrow>
        (case to_ulong a of
           Inr l \<Rightarrow>
             if (tl_mech tk = CKM_TLS12_MASTER_KEY_DERIVE \<or> tl_mech tk = CKM_TLS12_EXTENDED_MASTER_KEY_DERIVE) \<and>
                 l \<noteq> TLS_MASTER_SECRET_SIZE
               then Err CKR_KEY_FUNCTION_NOT_PERMITTED
             else Ok ()
         | Inl _ \<Rightarrow> Err CKR_KEY_FUNCTION_NOT_PERMITTED)
    | None \<Rightarrow> Err CKR_GENERAL_ERROR)"

text \<open>The number that an attribute must hold, and the boolean.\<close>

definition must_be_ulong :: "ck_ulong \<Rightarrow> ck_attribute \<Rightarrow> unit result" where
  "must_be_ulong v a =
    and_then (ck_to_ulong a) (\<lambda>val. if val \<noteq> v then Err CKR_ATTRIBUTE_VALUE_INVALID else Ok ())"

definition must_be_bool :: "bool \<Rightarrow> ck_attribute \<Rightarrow> unit result" where
  "must_be_bool v a =
    and_then (ck_to_bool a) (\<lambda>val. if val \<noteq> v then Err CKR_ATTRIBUTE_VALUE_INVALID else Ok ())"

definition allowed_bytes :: bytes where
  "allowed_bytes = concat (map u64_to_le TLS_MASTER_SECRET_ALLOWED_MECHS)"

definition check_mk_attr :: "unit \<Rightarrow> ck_attribute \<Rightarrow> unit result" where
  "check_mk_attr _ a =
    (if attr_type a = CKA_CLASS then must_be_ulong CKO_SECRET_KEY a
     else if attr_type a = CKA_KEY_TYPE then must_be_ulong CKK_GENERIC_SECRET a
     else if attr_type a = CKA_VALUE_LEN then must_be_ulong TLS_MASTER_SECRET_SIZE a
     else if attr_type a = CKA_ALLOWED_MECHANISMS then
       and_then (ck_to_slice a) (\<lambda>val. if val \<noteq> allowed_bytes then Err CKR_ATTRIBUTE_VALUE_INVALID else Ok ())
     else Ok ())"

definition verify_mk_template :: "ck_attrs \<Rightarrow> ck_attrs result" where
  "verify_mk_template template =
    and_then
      (add_missing_slice CKA_ALLOWED_MECHANISMS allowed_bytes
        (add_missing_ulong CKA_VALUE_LEN TLS_MASTER_SECRET_SIZE
        (add_missing_ulong CKA_KEY_TYPE CKK_GENERIC_SECRET
        (add_missing_ulong CKA_CLASS CKO_SECRET_KEY template)))) (\<lambda>t.
    let tmpl = add_missing_bool CKA_DERIVE CK_TRUE
          (add_missing_bool CKA_VERIFY CK_TRUE (add_missing_bool CKA_SIGN CK_TRUE t)) in
    and_then (try_fold check_mk_attr () tmpl) (\<lambda>_. Ok tmpl))"

definition ck_bool :: "bool \<Rightarrow> u8" where
  "ck_bool b = (if b then CK_TRUE else CK_FALSE)"

definition check_expansion_attr ::
    "tls_kdf_operation \<Rightarrow> object \<Rightarrow> unit \<Rightarrow> ck_attribute \<Rightarrow> unit result" where
  "check_expansion_attr tk key _ a =
    (if attr_type a = CKA_VALUE_LEN then must_be_ulong (tl_keylen tk) a
     else if attr_type a = CKA_SENSITIVE then must_be_bool (is_sensitive key) a
     else if attr_type a = CKA_EXTRACTABLE then must_be_bool (is_extractable key) a
     else Ok ())"

definition verify_key_expansion_template :: "tls_kdf_operation \<Rightarrow> object \<Rightarrow> ck_attrs \<Rightarrow> ck_attrs result" where
  "verify_key_expansion_template tk key template =
    (let tmpl =
       add_missing_bool CKA_EXTRACTABLE (ck_bool (is_extractable key))
       (add_missing_bool CKA_SENSITIVE (ck_bool (is_sensitive key))
       (add_missing_bool CKA_DERIVE CK_TRUE
       (add_missing_bool CKA_DECRYPT CK_TRUE
       (add_missing_bool CKA_ENCRYPT CK_TRUE
       (add_missing_ulong CKA_VALUE_LEN (tl_keylen tk)
       (add_missing_ulong CKA_KEY_TYPE CKK_GENERIC_SECRET
       (add_missing_ulong CKA_CLASS CKO_SECRET_KEY template))))))) in
     and_then (try_fold (check_expansion_attr tk key) () tmpl) (\<lambda>_. Ok tmpl))"

definition tls_prf_seed :: "tls_kdf_operation \<Rightarrow> bool \<Rightarrow> bytes" where
  "tls_prf_seed tk cli_first =
    tl_label tk @
    (if cli_first then tl_client_random tk @ tl_server_random tk
     else tl_server_random tk @ tl_client_random tk) @
    tl_context tk"

definition tls_prf_seed_ems :: "tls_kdf_operation \<Rightarrow> bytes" where
  "tls_prf_seed_ems tk = tl_label tk @ tl_session_hash tk"

section \<open>The derivations\<close>

text \<open>What is written through pointers.\<close>

record tls_written =
  tw_version :: "(u8 \<times> u8) option"
  tw_iv_client :: "bytes option"
  tw_iv_server :: "bytes option"

definition nothing_written :: tls_written where
  "nothing_written = \<lparr>tw_version = None, tw_iv_client = None, tw_iv_server = None\<rparr>"

type_synonym tls_result = "object list result \<times> tls_written"

definition tls_prf_value ::
    "(ck_ulong \<Rightarrow> mech_ops) \<Rightarrow> tls_kdf_operation \<Rightarrow> object \<Rightarrow> bytes \<Rightarrow> nat \<Rightarrow> bytes result" where
  "tls_prf_value mops tk key seed len =
    and_then (tls_prf_init key (mops (tl_prf tk)) (tl_prf tk)) (\<lambda>op. fst (tls_prf_finish seed len op))"

text \<open>A key from the factory, with its value.\<close>

definition tls_key :: "object_factory \<Rightarrow> bytes \<Rightarrow> ck_attrs \<Rightarrow> object \<Rightarrow> bytes \<Rightarrow> object result" where
  "tls_key factory uuid tmpl key value =
    and_then (as_key_factory factory) (\<lambda>derive.
    and_then (derive uuid tmpl key) (\<lambda>k.
    and_then (as_secret_key_factory factory) (\<lambda>sf. sf_set_key sf value k)))"

text \<open>The version is in the first bytes of the base key, which are not given away for a token key.\<close>

definition premaster_version :: "object \<Rightarrow> (u8 \<times> u8) result" where
  "premaster_version key =
    (if is_token key then Ok (0xff, 0xff)
     else case get_attr CKA_VALUE key of
       None \<Rightarrow> Err CKR_GENERAL_ERROR
     | Some a \<Rightarrow>
       and_then (to_bytes a) (\<lambda>secret. if length secret < 2 then Inl Panic else Ok (secret ! 0, secret ! 1)))"

definition derive_master_key ::
    "(ck_ulong \<Rightarrow> mech_ops) \<Rightarrow> bytes \<Rightarrow> tls_kdf_operation \<Rightarrow> object \<Rightarrow> ck_attrs \<Rightarrow> mechanisms \<Rightarrow> factories \<Rightarrow>
      tls_result" where
  "derive_master_key mops uuid tk key template mechs fs =
    (case
       and_then (verify_key tk key) (\<lambda>_.
       and_then (verify_mk_template template) (\<lambda>tmpl.
       and_then (get_obj_factory_from_key_template fs tmpl) (\<lambda>factory.
       and_then (as_key_factory factory) (\<lambda>derive.
       and_then (derive uuid tmpl key) (\<lambda>dkey.
       and_then (mechs_find (tl_prf tk) mechs) (\<lambda>_.
       and_then
         (if is_extended_master (tl_mech tk) then Ok (tls_prf_seed_ems tk)
          else if is_master (tl_mech tk) then Ok (tls_prf_seed tk True)
          else Err CKR_GENERAL_ERROR) (\<lambda>seed.
       and_then (tls_prf_value mops tk key seed (unat TLS_MASTER_SECRET_SIZE)) (\<lambda>dkm.
       and_then (as_secret_key_factory factory) (\<lambda>sf.
       and_then (sf_set_key sf dkm dkey) (\<lambda>dkey1.
         if tl_version tk then and_then (premaster_version key) (\<lambda>v. Ok (dkey1, Some v))
         else Ok (dkey1, None))))))))))) of
       Inl e \<Rightarrow> (Inl e, nothing_written)
     | Inr (dkey, v) \<Rightarrow> (Ok [dkey], nothing_written\<lparr>tw_version := v\<rparr>))"

definition bool_or :: "bool \<Rightarrow> bool result \<Rightarrow> u8" where
  "bool_or dflt r = ck_bool (case r of Inr b \<Rightarrow> b | Inl _ \<Rightarrow> dflt)"

definition mac_template :: "object \<Rightarrow> ck_attrs" where
  "mac_template key =
    add_bool CKA_EXTRACTABLE (bool_or False (get_attr_as_bool CKA_EXTRACTABLE key))
    (add_bool CKA_SENSITIVE (bool_or True (get_attr_as_bool CKA_SENSITIVE key))
    (add_bool CKA_VERIFY CK_TRUE
    (add_bool CKA_SIGN CK_TRUE
    (add_ulong CKA_KEY_TYPE CKK_GENERIC_SECRET
    (add_ulong CKA_CLASS CKO_SECRET_KEY [])))))"

text \<open>Two keys of a length from the material, for the client and for the server.\<close>

definition tls_key_pair ::
    "factories \<Rightarrow> (nat \<Rightarrow> bytes) \<Rightarrow> nat \<Rightarrow> ck_attrs \<Rightarrow> object \<Rightarrow> bytes \<Rightarrow> nat \<Rightarrow> nat \<Rightarrow> object list result" where
  "tls_key_pair fs uuid u tmpl key dkm i len =
    (if len = 0 then Ok []
     else and_then (get_obj_factory_from_key_template fs tmpl) (\<lambda>factory.
       and_then (tls_key factory (uuid u) tmpl key (slice dkm i len)) (\<lambda>cli.
       and_then (tls_key factory (uuid (u + 1)) tmpl key (slice dkm (i + len) len)) (\<lambda>srv.
         Ok [cli, srv]))))"

definition tls_ivs :: "(bool \<times> bool) option \<Rightarrow> bytes \<Rightarrow> nat \<Rightarrow> nat \<Rightarrow> unit result \<times> tls_written" where
  "tls_ivs mat_out dkm i len =
    (if len = 0 then (Ok (), nothing_written)
     else case mat_out of
       None \<Rightarrow> (Err CKR_GENERAL_ERROR, nothing_written)
     | Some (cli_null, srv_null) \<Rightarrow>
       if cli_null then (Err CKR_ARGUMENTS_BAD, nothing_written)
       else let w = nothing_written\<lparr>tw_iv_client := Some (slice dkm i len)\<rparr> in
         if srv_null then (Err CKR_ARGUMENTS_BAD, w)
         else (Ok (), w\<lparr>tw_iv_server := Some (slice dkm (i + len) len)\<rparr>))"

definition derive_mac_key ::
    "(ck_ulong \<Rightarrow> mech_ops) \<Rightarrow> (nat \<Rightarrow> bytes) \<Rightarrow> tls_kdf_operation \<Rightarrow> object \<Rightarrow> ck_attrs \<Rightarrow> mechanisms \<Rightarrow> factories \<Rightarrow>
      tls_result" where
  "derive_mac_key mops uuid tk key template mechs fs =
    (let maclen = unat (tl_maclen tk); keylen = unat (tl_keylen tk); ivlen = unat (tl_ivlen tk) in
     case
       and_then (verify_key tk key) (\<lambda>_.
       and_then (verify_key_expansion_template tk key template) (\<lambda>key_tmpl.
       and_then (mechs_find (tl_prf tk) mechs) (\<lambda>_.
       and_then
         (tls_prf_value mops tk key (tls_prf_seed tk False)
           (unat (2 * (tl_maclen tk + tl_keylen tk + tl_ivlen tk)))) (\<lambda>dkm.
       and_then (tls_key_pair fs uuid 0 (mac_template key) key dkm 0 maclen) (\<lambda>macs.
       and_then (tls_key_pair fs uuid 2 key_tmpl key dkm (2 * maclen) keylen) (\<lambda>keys.
         Ok (macs @ keys, dkm))))))) of
       Inl e \<Rightarrow> (Inl e, nothing_written)
     | Inr (keys, dkm) \<Rightarrow>
       (case tls_ivs (tl_mat_out tk) dkm (2 * maclen + 2 * keylen) ivlen of
          (r, w) \<Rightarrow> (and_then r (\<lambda>_. Ok keys), w)))"

definition derive_generic_key ::
    "(ck_ulong \<Rightarrow> mech_ops) \<Rightarrow> bytes \<Rightarrow> tls_kdf_operation \<Rightarrow> object \<Rightarrow> ck_attrs \<Rightarrow> mechanisms \<Rightarrow> factories \<Rightarrow>
      tls_result" where
  "derive_generic_key mops uuid tk key template mechs fs =
    (and_then (verify_key tk key) (\<lambda>_.
     let tmpl = add_missing_ulong CKA_KEY_TYPE CKK_GENERIC_SECRET
           (add_missing_ulong CKA_CLASS CKO_SECRET_KEY template) in
     and_then (get_obj_factory_from_key_template fs tmpl) (\<lambda>factory.
     and_then (as_key_factory factory) (\<lambda>derive.
     and_then (derive uuid tmpl key) (\<lambda>dkey.
     and_then (map_err (\<lambda>_. CkError CKR_TEMPLATE_INCOMPLETE) (get_attr_as_ulong CKA_VALUE_LEN dkey)) (\<lambda>dkmlen.
     and_then (mechs_find (tl_prf tk) mechs) (\<lambda>_.
     and_then (tls_prf_value mops tk key (tls_prf_seed tk True) (unat dkmlen)) (\<lambda>dkm.
     and_then (as_secret_key_factory factory) (\<lambda>sf.
     and_then (sf_set_key sf dkm dkey) (\<lambda>dkey1. Ok [dkey1]))))))))), nothing_written)"

definition tls_kdf_derive ::
    "(ck_ulong \<Rightarrow> mech_ops) \<Rightarrow> (nat \<Rightarrow> bytes) \<Rightarrow> tls_kdf_operation \<Rightarrow> object \<Rightarrow> ck_attrs \<Rightarrow> mechanisms \<Rightarrow> factories \<Rightarrow>
      tls_result" where
  "tls_kdf_derive mops uuid tk key template mechs fs =
    (if is_extended_master (tl_mech tk) \<or> is_master (tl_mech tk)
       then derive_master_key mops (uuid 0) tk key template mechs fs
     else if is_key_expansion (tl_mech tk) then derive_mac_key mops uuid tk key template mechs fs
     else if is_labelled (tl_mech tk) then derive_generic_key mops (uuid 0) tk key template mechs fs
     else (Err CKR_MECHANISM_INVALID, nothing_written))"

section \<open>The MAC of the finished messages\<close>

record tls_mac_operation =
  ts_mech :: ck_ulong
  ts_finalized :: bool
  ts_in_use :: bool
  ts_outputlen :: nat
  ts_seed :: bytes
  ts_prf :: crypto_op

text \<open>\<^verbatim>\<open>MAC_MECHANISMS\<close>: the HMAC mechanisms alone.\<close>

definition mac_mechanism :: "'c digest_lib \<Rightarrow> hmac_codec \<Rightarrow> ck_ulong \<Rightarrow> mech_ops result" where
  "mac_mechanism dl hc t =
    (case map_of HMAC_MECHS t of
       Some e \<Rightarrow> Ok (hmac_mech_ops dl hc e)
     | None \<Rightarrow> Err CKR_MECHANISM_INVALID)"

definition tls_mac_new ::
    "'c digest_lib \<Rightarrow> hmac_codec \<Rightarrow> ck_mechanism \<Rightarrow> object \<Rightarrow> tls_mac_operation result" where
  "tls_mac_new dl hc m key =
    (if cm_mechanism m \<noteq> CKM_TLS_MAC \<and> cm_mechanism m \<noteq> CKM_TLS12_MAC then Err CKR_MECHANISM_INVALID
     else and_then (get_parameters 24 tls_mac_struct m) (\<lambda>params.
     and_then (tls_prf_of_hash (ta_prfHashMechanism params)) (\<lambda>hmac.
     and_then
       (if ta_ulServerOrClient params = 1 then Ok TLS_SERVER_FINISHED
        else if ta_ulServerOrClient params = 2 then Ok TLS_CLIENT_FINISHED
        else Err CKR_MECHANISM_PARAM_INVALID) (\<lambda>label.
     and_then (mac_mechanism dl hc hmac) (\<lambda>mac.
     and_then (tls_prf_init key mac hmac) (\<lambda>op.
       Ok \<lparr>ts_mech = cm_mechanism m, ts_finalized = False, ts_in_use = False,
           ts_outputlen = unat (ta_ulMacLength params), ts_seed = label, ts_prf = op\<rparr>))))))"

definition tls_mac_begin :: "tls_mac_operation \<Rightarrow> unit result" where
  "tls_mac_begin tm = (if ts_in_use tm then Err CKR_OPERATION_NOT_INITIALIZED else Ok ())"

definition tls_mac_update :: "bytes \<Rightarrow> tls_mac_operation \<Rightarrow> unit result \<times> tls_mac_operation" where
  "tls_mac_update data tm =
    (if ts_finalized tm then (Err CKR_OPERATION_NOT_INITIALIZED, tm)
     else (Ok (), tm\<lparr>ts_in_use := True, ts_seed := ts_seed tm @ data\<rparr>))"

definition tls_mac_finalize :: "nat \<Rightarrow> tls_mac_operation \<Rightarrow> bytes result \<times> tls_mac_operation" where
  "tls_mac_finalize n tm =
    (if ts_finalized tm then (Err CKR_OPERATION_NOT_INITIALIZED, tm)
     else if \<not> ts_in_use tm then (Err CKR_OPERATION_NOT_INITIALIZED, tm)
     else let tm1 = tm\<lparr>ts_finalized := True\<rparr> in
       if n \<noteq> ts_outputlen tm1 then (Err CKR_GENERAL_ERROR, tm1)
       else case tls_prf_finish (ts_seed tm1) (ts_outputlen tm1) (ts_prf tm1) of
         (r, op) \<Rightarrow> (r, tm1\<lparr>ts_prf := op\<rparr>))"

definition tls_mac_sign :: "bytes \<Rightarrow> nat \<Rightarrow> tls_mac_operation \<Rightarrow> bytes result \<times> tls_mac_operation" where
  "tls_mac_sign data n tm =
    (case tls_mac_begin tm of
       Inl e \<Rightarrow> (Inl e, tm)
     | Inr _ \<Rightarrow> st_then (tls_mac_update data tm) (\<lambda>_. tls_mac_finalize n))"

definition tls_mac_verify_final :: "bytes \<Rightarrow> tls_mac_operation \<Rightarrow> unit result \<times> tls_mac_operation" where
  "tls_mac_verify_final signature tm =
    st_then (tls_mac_finalize (ts_outputlen tm) tm) (\<lambda>verify tm1.
      (if verify \<noteq> signature then Err CKR_SIGNATURE_INVALID else Ok (), tm1))"

definition tls_mac_verify :: "bytes \<Rightarrow> bytes \<Rightarrow> tls_mac_operation \<Rightarrow> unit result \<times> tls_mac_operation" where
  "tls_mac_verify data signature tm =
    (case tls_mac_begin tm of
       Inl e \<Rightarrow> (Inl e, tm)
     | Inr _ \<Rightarrow> st_then (tls_mac_update data tm) (\<lambda>_. tls_mac_verify_final signature))"

fun tls_mac_sign_call :: "tls_mac_operation \<Rightarrow> op_call \<Rightarrow> bytes result \<times> tls_mac_operation" where
  "tls_mac_sign_call tm (Single d n) = tls_mac_sign d n tm"
| "tls_mac_sign_call tm (Update d n) = map_prod no_output id (tls_mac_update d tm)"
| "tls_mac_sign_call tm (Finish n) = tls_mac_finalize n tm"
| "tls_mac_sign_call tm _ = (Err CKR_GENERAL_ERROR, tm)"

fun tls_mac_verify_call :: "tls_mac_operation \<Rightarrow> op_call \<Rightarrow> bytes result \<times> tls_mac_operation" where
  "tls_mac_verify_call tm (Check d s) = map_prod no_output id (tls_mac_verify d s tm)"
| "tls_mac_verify_call tm (Update d n) = map_prod no_output id (tls_mac_update d tm)"
| "tls_mac_verify_call tm (CheckFinish s) = map_prod no_output id (tls_mac_verify_final s tm)"
| "tls_mac_verify_call tm _ = (Err CKR_GENERAL_ERROR, tm)"

primcorec tls_mac_op ::
    "(tls_mac_operation \<Rightarrow> op_call \<Rightarrow> bytes result \<times> tls_mac_operation) \<Rightarrow> tls_mac_operation \<Rightarrow> crypto_op" where
  "tls_mac_op call tm = CryptoOp (ts_finalized tm) False (Ok (ts_mech tm)) (Ok (ts_outputlen tm))
     (Err CKR_STATE_UNSAVEABLE) (\<lambda>_. Err CKR_STATE_UNSAVEABLE) None
     (\<lambda>_ _. (Err CKR_GENERAL_ERROR, tls_mac_op call tm))
     (\<lambda>c. map_prod id (tls_mac_op call) (call tm c))"

section \<open>The mechanisms\<close>

definition tls_mechanism ::
    "'c digest_lib \<Rightarrow> hmac_codec \<Rightarrow> (ck_ulong \<Rightarrow> mech_ops) \<Rightarrow> (nat \<Rightarrow> bytes) \<Rightarrow> ck_mechanism_info \<Rightarrow> mech_ops" where
  "tls_mechanism dl hc mops uuid info =
    (let mac = (\<lambda>flag call m key.
       if mi_flags info AND flag \<noteq> flag then Err CKR_MECHANISM_INVALID
       else if cm_mechanism m = CKM_TLS_MAC \<or> cm_mechanism m = CKM_TLS12_MAC
         then and_then (tls_mac_new dl hc m key) (\<lambda>tm. Ok (tls_mac_op call tm))
       else Err CKR_MECHANISM_INVALID) in
     default_mech_ops
       \<lparr>mo_derive_operation := (\<lambda>m.
          if mi_flags info AND CKF_DERIVE \<noteq> CKF_DERIVE then Err CKR_MECHANISM_INVALID
          else if is_extended_master (cm_mechanism m) \<or> is_master (cm_mechanism m) \<or>
              is_key_expansion (cm_mechanism m) \<or> is_labelled (cm_mechanism m)
            then and_then (tls_kdf_new m) (\<lambda>tk.
              Ok (simple_derive (\<lambda>key template mechs fs. fst (tls_kdf_derive mops uuid tk key template mechs fs))))
          else Err CKR_MECHANISM_INVALID),
        mo_sign_new := mac CKF_SIGN tls_mac_sign_call,
        mo_verify_new := mac CKF_VERIFY tls_mac_verify_call\<rparr>)"

definition TLS_MECHS :: "ck_mechanism_info list" where
  "TLS_MECHS =
    [\<lparr>ulMinKeySize = TLS_MASTER_SECRET_SIZE, ulMaxKeySize = TLS_MASTER_SECRET_SIZE, mi_flags = CKF_DERIVE\<rparr>,
     \<lparr>ulMinKeySize = 0, ulMaxKeySize = 0xFFFFFFFF, mi_flags = CKF_DERIVE\<rparr>,
     \<lparr>ulMinKeySize = 0, ulMaxKeySize = 0xFFFFFFFF, mi_flags = CKF_SIGN OR CKF_VERIFY\<rparr>]"

definition register_tls :: "mechanisms \<Rightarrow> mechanisms" where
  "register_tls mechs =
    fold (\<lambda>ckm. add_mechanism ckm (TLS_MECHS ! 2)) [CKM_TLS_MAC, CKM_TLS12_MAC]
    (fold (\<lambda>ckm. add_mechanism ckm (TLS_MECHS ! 1)) [CKM_TLS12_KEY_AND_MAC_DERIVE, CKM_TLS12_KEY_SAFE_DERIVE]
    (fold (\<lambda>ckm. add_mechanism ckm (TLS_MECHS ! 0))
      [CKM_TLS_KDF, CKM_TLS12_KDF, CKM_TLS12_MASTER_KEY_DERIVE, CKM_TLS12_MASTER_KEY_DERIVE_DH,
       CKM_TLS12_EXTENDED_MASTER_KEY_DERIVE, CKM_TLS12_EXTENDED_MASTER_KEY_DERIVE_DH] mechs))"

end
