(* ===== verification/Aes_Context.thy ===== *)
theory Aes_Context
  imports Keymgmt_Api
begin

text \<open>
  The cipher contexts under the AES operations (\<^verbatim>\<open>OsslCipher\<close> of \<^verbatim>\<open>src/ossl/src/cipher.rs\<close>), and how an
  AES operation is set up: the parameters of its mechanism, the initialization vectors it generates, and
  the context it makes (\<^verbatim>\<open>src/src/ossl/aes.rs\<close>). The EVP functions of OpenSSL are parameters.
\<close>

section \<open>Cipher contexts\<close>

datatype aes_size = Aes128 | Aes192 | Aes256

datatype aes_cts_mode = CtsModeCS1 | CtsModeCS2 | CtsModeCS3

datatype enc_alg =
    AesCcm aes_size
  | AesGcm aes_size
  | AesCts aes_size aes_cts_mode
  | AesCtr aes_size
  | AesCbc aes_size
  | AesEcb aes_size
  | AesCfb8 aes_size
  | AesCfb1 aes_size
  | AesCfb128 aes_size
  | AesOfb aes_size
  | AesWrap aes_size
  | AesWrapPad aes_size

record aead_params =
  ae_aad :: "bytes option"
  ae_tag_len :: nat
  ae_ccm_data_len :: nat

record 'e ossl_cipher =
  oc_ctx :: 'e
  oc_blocksize :: nat

text \<open>
  What OpenSSL does with a context: its making with the key, the vector and the associated data, and the
  functions on it. \<open>None\<close> is a return code other than 1.
\<close>

record 'e evp =
  ev_new :: "enc_alg \<Rightarrow> bool \<Rightarrow> bytes \<Rightarrow> bytes option \<Rightarrow> aead_params option \<Rightarrow> 'e ossl_cipher result"
  ev_set_padding :: "bool \<Rightarrow> 'e \<Rightarrow> 'e option"
  ev_update :: "bytes \<Rightarrow> 'e \<Rightarrow> bytes option \<times> 'e"
  ev_final :: "'e \<Rightarrow> bytes option \<times> 'e"
  ev_set_tag :: "bytes \<Rightarrow> 'e \<Rightarrow> bool \<times> 'e"
  ev_get_tag :: "nat \<Rightarrow> 'e \<Rightarrow> bytes option \<times> 'e"

text \<open>The errors of the crate \<^verbatim>\<open>ossl\<close>, as \<^verbatim>\<open>From<ossl::Error>\<close> converts them.\<close>

abbreviation ossl_error :: "'a result" where
  "ossl_error \<equiv> Err CKR_DEVICE_ERROR"

abbreviation ossl_wrapper_error :: "'a result" where
  "ossl_wrapper_error \<equiv> Err CKR_GENERAL_ERROR"

definition fits_c_int :: "nat \<Rightarrow> bool" where
  "fits_c_int n \<longleftrightarrow> n < 2 ^ 31"

definition buffer_size :: "'e ossl_cipher \<Rightarrow> nat \<Rightarrow> nat" where
  "buffer_size c input =
    (if oc_blocksize c = 1 then input
     else if input = 0 then oc_blocksize c
     else if input mod oc_blocksize c = 0 then input
     else input + oc_blocksize c - input mod oc_blocksize c)"

definition ossl_update :: "'e evp \<Rightarrow> bytes \<Rightarrow> nat \<Rightarrow> 'e ossl_cipher \<Rightarrow> bytes result \<times> 'e ossl_cipher" where
  "ossl_update ev input n c =
    (if n < buffer_size c (length input) then (ossl_error, c)
     else if \<not> fits_c_int n \<or> \<not> fits_c_int (length input) then (ossl_wrapper_error, c)
     else case ev_update ev input (oc_ctx c) of
       (None, e) \<Rightarrow> (ossl_error, c\<lparr>oc_ctx := e\<rparr>)
     | (Some out, e) \<Rightarrow> (Ok out, c\<lparr>oc_ctx := e\<rparr>))"

definition ossl_finalize :: "'e evp \<Rightarrow> nat \<Rightarrow> 'e ossl_cipher \<Rightarrow> bytes result \<times> 'e ossl_cipher" where
  "ossl_finalize ev n c =
    (if n < buffer_size c 0 then (ossl_error, c)
     else if \<not> fits_c_int n then (ossl_wrapper_error, c)
     else case ev_final ev (oc_ctx c) of
       (None, e) \<Rightarrow> (ossl_error, c\<lparr>oc_ctx := e\<rparr>)
     | (Some out, e) \<Rightarrow> (Ok out, c\<lparr>oc_ctx := e\<rparr>))"

definition ossl_set_tag :: "'e evp \<Rightarrow> bytes \<Rightarrow> 'e ossl_cipher \<Rightarrow> unit result \<times> 'e ossl_cipher" where
  "ossl_set_tag ev tag c =
    (if \<not> fits_c_int (length tag) then (ossl_wrapper_error, c)
     else case ev_set_tag ev tag (oc_ctx c) of
       (done, e) \<Rightarrow> (if done then Ok () else ossl_error, c\<lparr>oc_ctx := e\<rparr>))"

definition ossl_get_tag :: "'e evp \<Rightarrow> nat \<Rightarrow> 'e ossl_cipher \<Rightarrow> bytes result \<times> 'e ossl_cipher" where
  "ossl_get_tag ev n c =
    (if \<not> fits_c_int n then (ossl_wrapper_error, c)
     else case ev_get_tag ev n (oc_ctx c) of
       (None, e) \<Rightarrow> (ossl_error, c\<lparr>oc_ctx := e\<rparr>)
     | (Some tag, e) \<Rightarrow> (Ok tag, c\<lparr>oc_ctx := e\<rparr>))"

definition ossl_set_padding :: "'e evp \<Rightarrow> bool \<Rightarrow> 'e ossl_cipher \<Rightarrow> 'e ossl_cipher result" where
  "ossl_set_padding ev b c =
    (case ev_set_padding ev b (oc_ctx c) of None \<Rightarrow> ossl_error | Some e \<Rightarrow> Ok (c\<lparr>oc_ctx := e\<rparr>))"

section \<open>Parameters\<close>

abbreviation AES_BLOCK_SIZE :: nat where
  "AES_BLOCK_SIZE \<equiv> 16"

abbreviation AES_KW_SEMIBLOCK :: nat where
  "AES_KW_SEMIBLOCK \<equiv> 8"

definition MAX_CCM_BUF :: nat where
  "MAX_CCM_BUF = 2 ^ 20"

definition check_key_len :: "nat \<Rightarrow> unit result" where
  "check_key_len len = (if len = 16 \<or> len = 24 \<or> len = 32 then Ok () else Err CKR_KEY_SIZE_RANGE)"

definition object_to_raw_key :: "object \<Rightarrow> bytes result" where
  "object_to_raw_key key =
    and_then (get_attr_as_bytes CKA_VALUE key) (\<lambda>v. and_then (check_key_len (length v)) (\<lambda>_. Ok v))"

record aes_iv_data =
  iv_buf :: bytes
  iv_fixedbits :: nat
  iv_generator :: ck_ulong
  iv_counter :: u64
  iv_maxcount :: u64

definition iv_simple :: "bytes \<Rightarrow> aes_iv_data" where
  "iv_simple iv =
    \<lparr>iv_buf = iv, iv_fixedbits = 0, iv_generator = CKG_NO_GENERATE, iv_counter = 0, iv_maxcount = 0\<rparr>"

definition iv_none :: aes_iv_data where
  "iv_none = iv_simple []"

record aes_params =
  as_iv :: aes_iv_data
  as_maxblocks :: nat
  as_ctsmode :: nat
  as_datalen :: nat
  as_aad :: bytes
  as_taglen :: nat

definition params_of_iv :: "aes_iv_data \<Rightarrow> aes_params" where
  "params_of_iv iv =
    \<lparr>as_iv = iv, as_maxblocks = 0, as_ctsmode = 0, as_datalen = 0, as_aad = [], as_taglen = 0\<rparr>"

fun ccm_struct :: "param_struct \<Rightarrow> ck_ccm_params option" where
  "ccm_struct (CcmParams p) = Some p"
| "ccm_struct _ = None"

fun gcm_struct :: "param_struct \<Rightarrow> ck_gcm_params option" where
  "gcm_struct (GcmParams p) = Some p"
| "gcm_struct _ = None"

fun ctr_struct :: "param_struct \<Rightarrow> ck_aes_ctr_params option" where
  "ctr_struct (CtrParams p) = Some p"
| "ctr_struct _ = None"

text \<open>\<^verbatim>\<open>checked_shl\<close> gives nothing when all the bits are shifted out.\<close>

definition ccm_max_data_len :: "ck_ulong \<Rightarrow> ck_ulong" where
  "ccm_max_data_len nonce_len =
    (let l = 15 - unat nonce_len in if 8 * l \<ge> 64 then - 1 else push_bit (8 * l) 1)"

definition MAC_LENS :: "ck_ulong list" where
  "MAC_LENS = [4, 6, 8, 10, 12, 14, 16]"

definition ccm_params :: "ck_mechanism \<Rightarrow> aes_params result" where
  "ccm_params m =
    and_then (get_parameters 48 ccm_struct m) (\<lambda>p.
    if cc_ulNonceLen p < 7 \<or> cc_ulNonceLen p > 13 then Err CKR_MECHANISM_PARAM_INVALID
    else if cc_ulDataLen p > ccm_max_data_len (cc_ulNonceLen p) \<or> cc_ulDataLen p > - 1 - cc_ulMACLen p
      then Err CKR_MECHANISM_PARAM_INVALID
    else if cc_ulAADLen p > 0xFFFFFFFE then Err CKR_MECHANISM_PARAM_INVALID
    else if cc_ulMACLen p \<notin> set MAC_LENS then Err CKR_MECHANISM_PARAM_INVALID
    else Ok \<lparr>as_iv = iv_simple (bytes_to_vec (cc_pNonce p) (unat (cc_ulNonceLen p))), as_maxblocks = 0,
             as_ctsmode = 0, as_datalen = unat (cc_ulDataLen p),
             as_aad = bytes_to_vec (cc_pAAD p) (unat (cc_ulAADLen p)), as_taglen = unat (cc_ulMACLen p)\<rparr>)"

definition gcm_params_of :: "ck_mechanism \<Rightarrow> aes_params result" where
  "gcm_params_of m =
    and_then (get_parameters 48 gcm_struct m) (\<lambda>p.
    if gc_ulIvLen p = 0 \<or> gc_ulIvLen p > 0xFFFFFFFF then Err CKR_MECHANISM_PARAM_INVALID
    else if gc_ulAADLen p > 0xFFFFFFFF then Err CKR_MECHANISM_PARAM_INVALID
    else if gc_ulTagBits p > 128 then Err CKR_MECHANISM_PARAM_INVALID
    else if gc_ulTagBits p < 8 then Err CKR_MECHANISM_PARAM_INVALID
    else if gc_ulIvLen p < 1 \<or> is_null (gc_pIv p) then Err CKR_MECHANISM_PARAM_INVALID
    else Ok \<lparr>as_iv = iv_simple (bytes_to_vec (gc_pIv p) (unat (gc_ulIvLen p))), as_maxblocks = 0,
             as_ctsmode = 0, as_datalen = 0, as_aad = bytes_to_vec (gc_pAAD p) (unat (gc_ulAADLen p)),
             as_taglen = (unat (gc_ulTagBits p) + 7) div 8\<rparr>)"

text \<open>
  The number of blocks before a counter of \<open>bits\<close> bits would carry into the rest of the block: the counter's
  whole octets are subtracted, and of the octet that is only partly counter the bits of the number of its
  bits, where its mask is meant.
\<close>

definition ctr_maxblocks :: "bytes \<Rightarrow> nat \<Rightarrow> nat" where
  "ctr_maxblocks cb bits =
    (let full = bits div 8; part = bits mod 8 in
     2 ^ bits - 1 - sum_list (map (\<lambda>idx. unat (cb ! (15 - idx)) * 2 ^ (8 * idx)) [0..<full]) -
     (if part > 0 then (unat (cb ! (15 - full)) AND part) * 2 ^ (8 * full) else 0))"

definition ctr_params_of :: "ck_mechanism \<Rightarrow> aes_params result" where
  "ctr_params_of m =
    and_then (get_parameters 24 ctr_struct m) (\<lambda>p.
    let bits = unat (ct_ulCounterBits p) in
    if bits < AES_BLOCK_SIZE * 8 then
      (if ctr_maxblocks (ct_cb p) bits = 0 then Err CKR_MECHANISM_PARAM_INVALID
       else Ok ((params_of_iv (iv_simple (ct_cb p)))\<lparr>as_maxblocks := ctr_maxblocks (ct_cb p) bits\<rparr>))
    else if bits > AES_BLOCK_SIZE * 8 then Err CKR_MECHANISM_PARAM_INVALID
    else Ok (params_of_iv (iv_simple (ct_cb p))))"

definition block_iv_params :: "nat \<Rightarrow> ck_mechanism \<Rightarrow> aes_params result" where
  "block_iv_params ctsmode m =
    (if cm_parameter_len m \<noteq> of_nat AES_BLOCK_SIZE then Err CKR_ARGUMENTS_BAD
     else Ok ((params_of_iv (iv_simple (bytes_to_vec (cm_parameter m) (unat (cm_parameter_len m)))))
            \<lparr>as_ctsmode := ctsmode\<rparr>))"

definition wrap_iv_params :: "nat \<Rightarrow> ck_mechanism \<Rightarrow> aes_params result" where
  "wrap_iv_params ivlen m =
    (if cm_parameter_len m = 0 then Ok (params_of_iv iv_none)
     else if cm_parameter_len m = of_nat ivlen
       then Ok (params_of_iv (iv_simple (bytes_to_vec (cm_parameter m) (unat (cm_parameter_len m)))))
     else Err CKR_ARGUMENTS_BAD)"

definition is_stream_mode :: "ck_ulong \<Rightarrow> bool" where
  "is_stream_mode m \<longleftrightarrow> m = CKM_AES_CFB8 \<or> m = CKM_AES_CFB1 \<or> m = CKM_AES_CFB128 \<or> m = CKM_AES_OFB"

definition init_params :: "ck_mechanism \<Rightarrow> aes_params result" where
  "init_params m =
    (let t = cm_mechanism m in
     if t = CKM_AES_CCM then ccm_params m
     else if t = CKM_AES_GCM then gcm_params_of m
     else if t = CKM_AES_CTR then ctr_params_of m
     else if t = CKM_AES_CTS then block_iv_params 1 m
     else if t = CKM_AES_CBC \<or> t = CKM_AES_CBC_PAD then block_iv_params 0 m
     else if t = CKM_AES_ECB then Ok (params_of_iv iv_none)
     else if is_stream_mode t then block_iv_params 0 m
     else if t = CKM_AES_KEY_WRAP \<or> t = CKM_AES_KEY_WRAP_PKCS7 then wrap_iv_params 8 m
     else if t = CKM_AES_KEY_WRAP_KWP then wrap_iv_params 4 m
     else if t = CK_UNAVAILABLE_INFORMATION then
       (if \<not> is_null (cm_parameter m) \<or> cm_parameter_len m \<noteq> 0 then Err CKR_MECHANISM_PARAM_INVALID
        else Ok (params_of_iv iv_none))
     else Err CKR_MECHANISM_INVALID)"

definition get_cipher :: "ck_ulong \<Rightarrow> aes_params \<Rightarrow> nat \<Rightarrow> enc_alg result" where
  "get_cipher mech params keylen =
    and_then
      (if keylen = 16 then Ok Aes128 else if keylen = 24 then Ok Aes192 else if keylen = 32 then Ok Aes256
       else Err CKR_KEY_INDIGESTIBLE) (\<lambda>sz.
    if mech = CKM_AES_CCM then Ok (AesCcm sz)
    else if mech = CKM_AES_GCM then Ok (AesGcm sz)
    else if mech = CKM_AES_CTS then
      (if as_ctsmode params = 1 then Ok (AesCts sz CtsModeCS1)
       else if as_ctsmode params = 2 then Ok (AesCts sz CtsModeCS2)
       else if as_ctsmode params = 3 then Ok (AesCts sz CtsModeCS3)
       else Err CKR_GENERAL_ERROR)
    else if mech = CKM_AES_CTR then Ok (AesCtr sz)
    else if mech = CKM_AES_CBC \<or> mech = CKM_AES_CBC_PAD then Ok (AesCbc sz)
    else if mech = CKM_AES_ECB then Ok (AesEcb sz)
    else if mech = CKM_AES_CFB8 then Ok (AesCfb8 sz)
    else if mech = CKM_AES_CFB1 then Ok (AesCfb1 sz)
    else if mech = CKM_AES_CFB128 then Ok (AesCfb128 sz)
    else if mech = CKM_AES_OFB then Ok (AesOfb sz)
    else if mech = CKM_AES_KEY_WRAP \<or> mech = CKM_AES_KEY_WRAP_PKCS7 then Ok (AesWrap sz)
    else if mech = CKM_AES_KEY_WRAP_KWP then Ok (AesWrapPad sz)
    else Err CKR_MECHANISM_INVALID)"

section \<open>Generated initialization vectors\<close>

text \<open>The counter as the eight bytes of \<^verbatim>\<open>to_be_bytes\<close>.\<close>

definition iv_counter_bytes :: "u64 \<Rightarrow> bytes" where
  "iv_counter_bytes c = rev (u64_to_le c)"

definition max_count :: "nat \<Rightarrow> u64" where
  "max_count genbits = (if genbits \<ge> 64 then - 1 else push_bit genbits 1)"

text \<open>The bits of the first generated byte.\<close>

definition iv_mask :: "nat \<Rightarrow> u8" where
  "iv_mask genbits = (if genbits mod 8 = 0 then 0xff else push_bit (genbits mod 8) 1 - 1)"

text \<open>The counter instead of the generated bits of a vector: after its first \<open>fixed\<close> bits.\<close>

definition put_counter :: "nat \<Rightarrow> u64 \<Rightarrow> bytes \<Rightarrow> bytes" where
  "put_counter fixed counter buf =
    (let genbits = length buf * 8 - fixed; genidx = fixed div 8; mask = iv_mask genbits;
         genbytes = (genbits + 7) div 8; cntbuf = iv_counter_bytes counter;
         buf1 = buf[genidx := buf ! genidx AND NOT mask] in
     if genbytes > length cntbuf then
       take (genidx + 1) buf1 @ replicate (length buf - length cntbuf - (genidx + 1)) 0 @ cntbuf
     else
       (let cntidx = length cntbuf - genbytes in
        take (genidx + 1) (buf1[genidx := buf1 ! genidx OR (cntbuf ! cntidx AND mask)]) @ drop (cntidx + 1) cntbuf))"

text \<open>The counter added to the generated bits.\<close>

definition xor_counter :: "nat \<Rightarrow> u64 \<Rightarrow> bytes \<Rightarrow> bytes" where
  "xor_counter fixed counter buf =
    (let genbits = length buf * 8 - fixed; genidx = fixed div 8; mask = iv_mask genbits;
         genbytes = (genbits + 7) div 8; cntbuf = iv_counter_bytes counter in
     if genbytes > length cntbuf then
       (let cntidx = length buf - length cntbuf in take cntidx buf @ map2 (XOR) (drop cntidx buf) cntbuf)
     else
       (let cntidx = length cntbuf - genbytes in
        take (genidx + 1) (buf[genidx := buf ! genidx XOR (cntbuf ! cntidx AND mask)]) @
          map2 (XOR) (drop (genidx + 1) buf) (drop (cntidx + 1) cntbuf)))"

definition put_random :: "nat \<Rightarrow> bytes \<Rightarrow> bytes \<Rightarrow> bytes" where
  "put_random fixed genbuf buf =
    (let genbits = length buf * 8 - fixed; genidx = fixed div 8 in
     take (genidx + 1) (buf[genidx := buf ! genidx XOR (genbuf ! 0 AND iv_mask genbits)]) @ drop 1 genbuf)"

text \<open>
  The next vector. Without bits to generate the code would index past the vector; the parameters of a
  message exclude that.
\<close>

definition generate_iv :: "(nat \<Rightarrow> bytes result) \<Rightarrow> aes_iv_data \<Rightarrow> unit result \<times> aes_iv_data" where
  "generate_iv rng iv0 =
    (let fixed = iv_fixedbits iv0; genbits = length (iv_buf iv0) * 8 - fixed;
         iv = (if iv_counter iv0 = 0 then iv0\<lparr>iv_maxcount := max_count genbits\<rparr> else iv0);
         counted = (\<lambda>buf. (Ok (), iv\<lparr>iv_buf := buf, iv_counter := iv_counter iv + 1\<rparr>)) in
     if length (iv_buf iv0) * 8 < fixed then (Inl Panic, iv0)
     else if iv_counter iv \<ge> iv_maxcount iv then (Err CKR_DATA_LEN_RANGE, iv)
     else if iv_generator iv \<notin> {CKG_GENERATE, CKG_GENERATE_COUNTER, CKG_GENERATE_COUNTER_XOR, CKG_GENERATE_RANDOM}
       then (Err CKR_GENERAL_ERROR, iv)
     else if genbits = 0 then (Inl Panic, iv)
     else if iv_generator iv = CKG_GENERATE_COUNTER_XOR then counted (xor_counter fixed (iv_counter iv) (iv_buf iv))
     else if iv_generator iv = CKG_GENERATE_RANDOM then
       (case rng ((genbits + 7) div 8) of
          Inl e \<Rightarrow> (Inl e, iv)
        | Inr genbuf \<Rightarrow> counted (put_random fixed genbuf (iv_buf iv)))
     else counted (put_counter fixed (iv_counter iv) (iv_buf iv)))"

section \<open>Making a context\<close>

text \<open>Padding is on in OpenSSL unless it is turned off.\<close>

definition mode_padding :: "'e evp \<Rightarrow> ck_ulong \<Rightarrow> 'e ossl_cipher \<Rightarrow> 'e ossl_cipher result" where
  "mode_padding ev mech c =
    (if mech = CKM_AES_ECB \<or> mech = CKM_AES_CBC then ossl_set_padding ev False c
     else if mech = CKM_AES_CBC_PAD then ossl_set_padding ev True c
     else Ok c)"

definition aead_of :: "ck_ulong \<Rightarrow> aes_params \<Rightarrow> aead_params option" where
  "aead_of mech params =
    (if mech = CKM_AES_CCM \<or> mech = CKM_AES_GCM then
       Some \<lparr>ae_aad = (if length (as_aad params) > 0 then Some (as_aad params) else None),
             ae_tag_len = as_taglen params, ae_ccm_data_len = as_datalen params\<rparr>
     else None)"

definition cipher_initialize ::
    "'e evp \<Rightarrow> (nat \<Rightarrow> bytes result) \<Rightarrow> ck_ulong \<Rightarrow> bytes \<Rightarrow> bool \<Rightarrow> aes_params \<Rightarrow>
      'e ossl_cipher result \<times> aes_params" where
  "cipher_initialize ev rng mech key enc params =
    st_then
      (if iv_generator (as_iv params) \<noteq> CKG_NO_GENERATE then
         (case generate_iv rng (as_iv params) of (r, iv) \<Rightarrow> (r, params\<lparr>as_iv := iv\<rparr>))
       else (Ok (), params)) (\<lambda>_ params.
    (and_then (get_cipher mech params (length key)) (\<lambda>alg.
     and_then (ev_new ev alg enc key
         (if length (iv_buf (as_iv params)) > 0 then Some (iv_buf (as_iv params)) else None)
         (aead_of mech params)) (mode_padding ev mech)),
     params))"

end
