(* ===== verification/Hotp.thy ===== *)
theory Hotp
  imports Prf_Laws
begin

text \<open>
  One-time passwords that count (\<^verbatim>\<open>src/src/hotp.rs\<close>): the key factory with its checks, the generation of
  keys, and the operation that makes and verifies passwords.
\<close>

section \<open>Big-endian numbers\<close>

definition u64_to_be :: "u64 \<Rightarrow> bytes" where
  "u64_to_be n = rev (u64_to_le n)"

definition u64_from_be :: "bytes \<Rightarrow> u64" where
  "u64_from_be bs = u64_from_le (rev bs)"

definition u32_from_be :: "bytes \<Rightarrow> u32" where
  "u32_from_be bs = u32_from_le (rev bs)"

interpretation be64: fixed_codec u64_to_be u64_from_be 8
  by unfold_locales (simp_all add: u64_to_be_def u64_from_be_def le64.dec_enc le64.enc_dec)

section \<open>The key factory\<close>

text \<open>An attribute that replaces the one of the same type, or comes last.\<close>

definition hotp_data :: factory_data where
  "hotp_data =
    finalize_data (new_factory_data CKO_OTP_KEY
      \<lparr>fd_attributes := fold (upsert oa_type)
        [attr_element (Defval OR ChangeOnCopy) (from_bool CKA_PRIVATE True),
         attr_element Defval (from_bool CKA_SIGN True),
         attr_element Defval (from_bool CKA_VERIFY True),
         attr_element (Defval OR SettableOnlyOnCreate) (from_bytes CKA_OTP_COUNTER (replicate 8 0)),
         attr_element (Defval OR SettableOnlyOnCreate) (from_ulong CKA_OTP_FORMAT CK_OTP_FORMAT_DECIMAL),
         attr_element Defval (from_bool CKA_OTP_USER_FRIENDLY_MODE True)]
        (common_otp_key_attrs @
         [attr_element (Sensitive OR RequiredOnCreate OR SettableOnlyOnCreate) (from_bytes CKA_VALUE []),
          attr_element Defval (from_ulong CKA_VALUE_LEN 20)])\<rparr>)"

text \<open>\<^verbatim>\<open>if let Ok(v)\<close>: a value that can be read must pass the test.\<close>

definition if_readable :: "'a result \<Rightarrow> ('a \<Rightarrow> bool) \<Rightarrow> unit result" where
  "if_readable r good =
    (case r of Inr v \<Rightarrow> if good v then Ok () else Err CKR_ATTRIBUTE_VALUE_INVALID | Inl _ \<Rightarrow> Ok ())"

definition check_not_set :: "object \<Rightarrow> unit \<Rightarrow> ck_ulong \<Rightarrow> unit result" where
  "check_not_set obj _ t = if_readable (get_attr_as_bool t obj) (\<lambda>b. \<not> b)"

definition allow_hotp_only :: "object \<Rightarrow> object result" where
  "allow_hotp_only obj =
    (let set = set_attr (from_bytes CKA_ALLOWED_MECHANISMS (u64_to_le CKM_HOTP)) obj in
     case get_attr_as_bytes CKA_ALLOWED_MECHANISMS obj of
       Inr mechs \<Rightarrow>
         if mechs = [] then set
         else if mechs \<noteq> u64_to_le CKM_HOTP then Err CKR_ATTRIBUTE_VALUE_INVALID
         else Ok obj
     | Inl _ \<Rightarrow> set)"

definition validate_object :: "object \<Rightarrow> object result" where
  "validate_object obj =
    and_then (map_err template_inconsistent (ensure_ulong CKA_CLASS CKO_OTP_KEY obj)) (\<lambda>o1.
    and_then (map_err template_inconsistent (ensure_ulong CKA_KEY_TYPE CKK_HOTP o1)) (\<lambda>o2.
    and_then (try_fold (check_not_set o2) () [CKA_ENCRYPT, CKA_DECRYPT, CKA_WRAP, CKA_UNWRAP]) (\<lambda>_.
    and_then (allow_hotp_only o2) (\<lambda>o3.
    and_then (if_readable (get_attr_as_bytes CKA_OTP_COUNTER o3) (\<lambda>c. length c = 8)) (\<lambda>_.
    and_then (if_readable (get_attr_as_ulong CKA_OTP_FORMAT o3) (\<lambda>f. f = CK_OTP_FORMAT_DECIMAL)) (\<lambda>_.
    and_then (if_readable (get_attr_as_ulong CKA_VALUE_LEN o3) (\<lambda>l. l \<in> {20, 32, 64})) (\<lambda>_.
    and_then (if_readable (get_attr_as_ulong CKA_OTP_LENGTH o3) (\<lambda>l. 6 \<le> l \<and> l \<le> 8)) (\<lambda>_.
    and_then (if_readable (get_attr_as_string CKA_OTP_TIME o3) (\<lambda>t. t = [])) (\<lambda>_.
    and_then (if_readable (get_attr_as_ulong CKA_OTP_TIME_REQUIREMENT o3) (\<lambda>r. r = CK_OTP_PARAM_IGNORED)) (\<lambda>_.
    and_then (if_readable (get_attr_as_ulong CKA_OTP_CHALLENGE_REQUIREMENT o3) (\<lambda>r. r = CK_OTP_PARAM_IGNORED)) (\<lambda>_.
    and_then (if_readable (get_attr_as_ulong CKA_OTP_PIN_REQUIREMENT o3) (\<lambda>r. r = CK_OTP_PARAM_IGNORED)) (\<lambda>_.
      Ok o3))))))))))))"

definition hotp_create :: "bytes \<Rightarrow> ck_attrs \<Rightarrow> object result" where
  "hotp_create uuid template =
    and_then (key_create hotp_data uuid template) (\<lambda>obj.
    and_then (get_key_buffer_len obj) (\<lambda>len.
    if len = 0 then Err CKR_ATTRIBUTE_VALUE_INVALID
    else and_then (set_attr (from_ulong CKA_VALUE_LEN (of_nat len)) obj) validate_object))"

definition hotp_factory :: object_factory where
  "hotp_factory =
    (default_factory hotp_data)
      \<lparr>f_create := hotp_create,
       f_key_derive := Some (internal_key_derive hotp_data),
       f_export := default_export_for_wrapping,
       f_import := default_import_from_wrapped hotp_data,
       f_secret := Some \<lparr>sf_recommend_key_size = (\<lambda>_. Ok 32), sf_set_key = set_key\<rparr>\<rparr>"

definition hotp_generate_key :: "(nat \<Rightarrow> bytes result) \<Rightarrow> bytes \<Rightarrow> ck_mechanism \<Rightarrow> ck_attrs \<Rightarrow> object result" where
  "hotp_generate_key rng uuid m template =
    and_then (key_generate hotp_data uuid template) (\<lambda>k0.
    and_then (validate_object k0) (\<lambda>k1.
    and_then (default_secret_key_generate rng k1) (\<lambda>k2.
    and_then (default_key_attributes (cm_mechanism m) k2) (\<lambda>k3.
      if \<not> is_ok (get_attr_as_bytes CKA_OTP_COUNTER k3)
        then set_attr (from_bytes CKA_OTP_COUNTER (replicate 8 0)) k3
      else Ok k3))))"

section \<open>The parameter\<close>

fun otp_struct :: "param_struct \<Rightarrow> ck_otp_param list option option" where
  "otp_struct (OtpParams p) = Some p"
| "otp_struct _ = None"

definition otp_to_ulong :: "ck_otp_param \<Rightarrow> ck_ulong result" where
  "otp_to_ulong p =
    (if ot_ulValueLen p \<noteq> 8 then Err CKR_MECHANISM_PARAM_INVALID
     else if is_null (ot_pValue p) then Inl Panic
     else Ok (u64_from_le (mem_bytes (ot_pValue p) 8)))"

text \<open>The loop over the parameters, with the counter that was given so far.\<close>

definition otp_param :: "bytes option \<Rightarrow> ck_otp_param \<Rightarrow> bytes option result" where
  "otp_param override_counter p =
    (if ot_type p = CK_OTP_FLAGS then
       and_then (otp_to_ulong p) (\<lambda>flags.
         if flags AND NOT CKF_USER_FRIENDLY_OTP \<noteq> 0 then Err CKR_MECHANISM_PARAM_INVALID
         else Ok override_counter)
     else if ot_type p = CK_OTP_COUNTER then Ok (Some (bytes_to_vec (ot_pValue p) (unat (ot_ulValueLen p))))
     else Err CKR_MECHANISM_PARAM_INVALID)"

definition otp_override :: "ck_mechanism \<Rightarrow> bytes option result" where
  "otp_override m =
    (if cm_parameter_len m \<noteq> 0 \<and> \<not> is_null (cm_parameter m) then
       if cm_parameter_len m \<noteq> 16 then Err CKR_MECHANISM_PARAM_INVALID
       else and_then (get_parameters 16 otp_struct m) (\<lambda>params.
         case params of
           None \<Rightarrow> Err CKR_MECHANISM_PARAM_INVALID
         | Some ps \<Rightarrow> try_fold otp_param None ps)
     else Ok None)"

section \<open>The operation\<close>

record 'c hotp_operation =
  hp_mech_type :: ck_ulong
  hp_hmac :: "'c hmac_operation"
  hp_counter :: bytes
  hp_key_handle :: ck_ulong
  hp_length :: nat
  hp_mac_len :: nat
  hp_finalized :: bool
  hp_update :: "bool option"

text \<open>Every failure to read an attribute of the key is a general error.\<close>

definition general_error :: "error \<Rightarrow> error" where
  "general_error _ = CkError CKR_GENERAL_ERROR"

definition hotp_counter :: "object \<Rightarrow> bytes option \<Rightarrow> (bytes \<times> bool option) result" where
  "hotp_counter key override_counter =
    and_then (map_err general_error (get_attr_as_ulong CKA_OTP_COUNTER_REQUIREMENT key)) (\<lambda>req.
    let own = and_then (map_err general_error (get_attr_as_bytes CKA_OTP_COUNTER key)) (\<lambda>c. Ok (c, Some False)) in
    case override_counter of
      Some oc \<Rightarrow>
        if req = CK_OTP_PARAM_OPTIONAL \<or> req = CK_OTP_PARAM_MANDATORY then Ok (oc, None) else own
    | None \<Rightarrow>
        if req = CK_OTP_PARAM_MANDATORY then Err CKR_MECHANISM_PARAM_INVALID else own)"

definition hotp_hmac_mech :: "nat \<Rightarrow> ck_ulong result" where
  "hotp_hmac_mech key_len =
    (if key_len = 20 then Ok CKM_SHA_1_HMAC
     else if key_len = 32 then Ok CKM_SHA256_HMAC
     else if key_len = 64 then Ok CKM_SHA512_HMAC
     else Err CKR_GENERAL_ERROR)"

definition hotp_new :: "'c digest_lib \<Rightarrow> ck_mechanism \<Rightarrow> object \<Rightarrow> 'c hotp_operation result" where
  "hotp_new dl m key =
    and_then (otp_override m) (\<lambda>override_counter.
    and_then (hotp_counter key override_counter) (\<lambda>(c, upd).
    if length c \<noteq> 8 then Err CKR_GENERAL_ERROR
    else and_then (map_err general_error (get_attr_as_ulong CKA_OTP_LENGTH key)) (\<lambda>len.
    and_then (get_attr_as_bytes CKA_VALUE key) (\<lambda>key_val.
    and_then (hotp_hmac_mech (length key_val)) (\<lambda>t.
    and_then (hmac_internal dl t key_val (length key_val)) (\<lambda>hm.
      Ok \<lparr>hp_mech_type = cm_mechanism m, hp_hmac = hm, hp_counter = c, hp_key_handle = o_handle key,
          hp_length = unat len, hp_mac_len = length key_val, hp_finalized = False, hp_update = upd\<rparr>))))))"

text \<open>Decimal digits, and the padding with zeros to a width.\<close>

fun decimal :: "nat \<Rightarrow> bytes" where
  "decimal n = (if n < 10 then [of_nat (48 + n)] else decimal (n div 10) @ [of_nat (48 + n mod 10)])"

declare decimal.simps [simp del]

definition zero_padded :: "nat \<Rightarrow> bytes \<Rightarrow> bytes" where
  "zero_padded width ds = replicate (width - length ds) 48 @ ds"

text \<open>\<^verbatim>\<open>generate_otp\<close> after the HMAC: four bytes from an offset that the last byte names.\<close>

definition otp_modulus :: "nat \<Rightarrow> nat result" where
  "otp_modulus len =
    (if len = 6 then Ok 1000000 else if len = 7 then Ok 10000000 else if len = 8 then Ok 100000000
     else Err CKR_GENERAL_ERROR)"

definition truncate_mac :: "bytes \<Rightarrow> nat \<Rightarrow> nat \<Rightarrow> bytes result" where
  "truncate_mac mac mac_len len =
    (let offset = unat (mac ! (mac_len - 1) AND 0x0f);
         mac1 = mac[offset := mac ! offset AND 0x7f];
         v = unat (u32_from_be (slice mac1 offset 4)) in
     and_then (otp_modulus len) (\<lambda>m. Ok (zero_padded len (decimal (v mod m)))))"

definition generate_otp ::
    "'c digest_lib \<Rightarrow> bytes \<Rightarrow> nat \<Rightarrow> 'c hotp_operation \<Rightarrow> bytes result \<times> 'c hotp_operation" where
  "generate_otp dl counter n ho =
    (if n \<noteq> hp_length ho then (Err CKR_GENERAL_ERROR, ho)
     else case hmac_single dl counter (hp_mac_len ho) (hp_hmac ho) of
       (Inl e, hm) \<Rightarrow> (Inl e, ho\<lparr>hp_hmac := hm\<rparr>)
     | (Inr mac, hm) \<Rightarrow> (truncate_mac mac (hp_mac_len ho) (hp_length ho), ho\<lparr>hp_hmac := hm\<rparr>))"

text \<open>
  What is written for a signature: \<^verbatim>\<open>CK_OTP_SIGNATURE_INFO\<close>, one \<^verbatim>\<open>CK_OTP_PARAM\<close> and the password, with
  pointers into the buffer, whose address is an argument.
\<close>

definition otp_signature :: "u64 \<Rightarrow> bytes \<Rightarrow> bytes" where
  "otp_signature addr otp =
    u64_to_le (addr + 16) @ u64_to_le 1 @
    u64_to_le CK_OTP_VALUE @ u64_to_le (addr + 40) @ u64_to_le (of_nat (length otp)) @ otp"

definition otp_total_size :: "'c hotp_operation \<Rightarrow> nat result" where
  "otp_total_size ho = (if 40 + hp_length ho \<ge> usize_range then Inl Panic else Ok (40 + hp_length ho))"

definition next_counter :: "bytes \<Rightarrow> bytes result" where
  "next_counter c = (if u64_from_be c = - 1 then Inl Panic else Ok (u64_to_be (u64_from_be c + 1)))"

definition hotp_sign_final ::
    "'c digest_lib \<Rightarrow> u64 \<Rightarrow> nat \<Rightarrow> 'c hotp_operation \<Rightarrow> bytes result \<times> 'c hotp_operation" where
  "hotp_sign_final dl addr n ho =
    (if hp_finalized ho then (Err CKR_OPERATION_NOT_INITIALIZED, ho)
     else case otp_total_size ho of
       Inl e \<Rightarrow> (Inl e, ho)
     | Inr total_size \<Rightarrow>
       if n < total_size then (Inl (BufferTooSmall total_size), ho)
       else st_then (generate_otp dl (hp_counter ho) (hp_length ho) (ho\<lparr>hp_finalized := True\<rparr>)) (\<lambda>otp ho1.
         if hp_update ho1 = None then (Ok (otp_signature addr otp), ho1)
         else case next_counter (hp_counter ho1) of
           Inl e \<Rightarrow> (Inl e, ho1)
         | Inr c \<Rightarrow> (Ok (otp_signature addr otp), ho1\<lparr>hp_counter := c, hp_update := Some True\<rparr>)))"

definition hotp_sign ::
    "'c digest_lib \<Rightarrow> u64 \<Rightarrow> bytes \<Rightarrow> nat \<Rightarrow> 'c hotp_operation \<Rightarrow> bytes result \<times> 'c hotp_operation" where
  "hotp_sign dl addr data n ho =
    (if data \<noteq> [] then (Err CKR_DATA_INVALID, ho) else hotp_sign_final dl addr n ho)"

text \<open>The loop over the five counters, from the one of the key on.\<close>

fun hotp_search ::
    "'c digest_lib \<Rightarrow> bytes \<Rightarrow> nat list \<Rightarrow> u64 \<Rightarrow> 'c hotp_operation \<Rightarrow> unit result \<times> 'c hotp_operation" where
  "hotp_search dl signature [] c ho = (Err CKR_SIGNATURE_INVALID, ho)"
| "hotp_search dl signature (i # js) c ho =
    st_then
      (if i > 0 then (case hmac_reinit dl (hp_hmac ho) of (r, hm) \<Rightarrow> (r, ho\<lparr>hp_hmac := hm\<rparr>)) else (Ok (), ho)) (\<lambda>_ ho1.
    st_then (generate_otp dl (u64_to_be c) (hp_length ho1) ho1) (\<lambda>otp ho2.
      if signature = otp then
        (if hp_update ho2 = None then (Ok (), ho2)
         else case next_counter (u64_to_be c) of
           Inl e \<Rightarrow> (Inl e, ho2)
         | Inr c1 \<Rightarrow> (Ok (), ho2\<lparr>hp_counter := c1, hp_update := Some True\<rparr>))
      else if c = - 1 then (Inl Panic, ho2)
      else hotp_search dl signature js (c + 1) ho2))"

definition hotp_verify_final ::
    "'c digest_lib \<Rightarrow> bytes \<Rightarrow> 'c hotp_operation \<Rightarrow> unit result \<times> 'c hotp_operation" where
  "hotp_verify_final dl signature ho =
    (if hp_finalized ho then (Err CKR_OPERATION_NOT_INITIALIZED, ho)
     else let ho1 = ho\<lparr>hp_finalized := True\<rparr> in
       if length signature \<noteq> hp_length ho1 then (Err CKR_SIGNATURE_LEN_RANGE, ho1)
       else hotp_search dl signature [0..<5] (u64_from_be (hp_counter ho1)) ho1)"

definition hotp_verify ::
    "'c digest_lib \<Rightarrow> bytes \<Rightarrow> bytes \<Rightarrow> 'c hotp_operation \<Rightarrow> unit result \<times> 'c hotp_operation" where
  "hotp_verify dl data signature ho =
    (if data \<noteq> [] then (Err CKR_DATA_INVALID, ho) else hotp_verify_final dl signature ho)"

definition hotp_updates :: "'c hotp_operation \<Rightarrow> (ck_ulong \<times> ck_attrs) option" where
  "hotp_updates ho =
    (if hp_update ho = Some True then
       (case add_owned_slice CKA_OTP_COUNTER (hp_counter ho) [] of
          Inr attrs \<Rightarrow> Some (hp_key_handle ho, attrs)
        | Inl _ \<Rightarrow> None)
     else None)"

fun hotp_sign_call ::
    "'c digest_lib \<Rightarrow> u64 \<Rightarrow> 'c hotp_operation \<Rightarrow> op_call \<Rightarrow> bytes result \<times> 'c hotp_operation" where
  "hotp_sign_call dl addr ho (Single d n) = hotp_sign dl addr d n ho"
| "hotp_sign_call dl addr ho (Update d n) = (Err CKR_DATA_INVALID, ho)"
| "hotp_sign_call dl addr ho (Finish n) = hotp_sign_final dl addr n ho"
| "hotp_sign_call dl addr ho _ = (Err CKR_GENERAL_ERROR, ho)"

fun hotp_verify_call ::
    "'c digest_lib \<Rightarrow> 'c hotp_operation \<Rightarrow> op_call \<Rightarrow> bytes result \<times> 'c hotp_operation" where
  "hotp_verify_call dl ho (Check d s) = map_prod no_output id (hotp_verify dl d s ho)"
| "hotp_verify_call dl ho (Update d n) = (Err CKR_DATA_INVALID, ho)"
| "hotp_verify_call dl ho (CheckFinish s) = map_prod no_output id (hotp_verify_final dl s ho)"
| "hotp_verify_call dl ho _ = (Err CKR_GENERAL_ERROR, ho)"

primcorec hotp_op ::
    "('c hotp_operation \<Rightarrow> nat result) \<Rightarrow> ('c hotp_operation \<Rightarrow> op_call \<Rightarrow> bytes result \<times> 'c hotp_operation) \<Rightarrow>
      'c hotp_operation \<Rightarrow> crypto_op" where
  "hotp_op len call ho = CryptoOp (hp_finalized ho) False (Ok (hp_mech_type ho)) (len ho)
     (Err CKR_STATE_UNSAVEABLE) (\<lambda>_. Err CKR_STATE_UNSAVEABLE) (hotp_updates ho)
     (\<lambda>_ _. (Err CKR_GENERAL_ERROR, hotp_op len call ho))
     (\<lambda>c. map_prod id (hotp_op len call) (call ho c))"

section \<open>The mechanisms\<close>

text \<open>The key must be of the class and the type, and allow the operation.\<close>

definition hotp_key_permits :: "ck_ulong \<Rightarrow> object \<Rightarrow> unit result" where
  "hotp_key_permits op_attr key =
    and_then (get_attr_as_ulong CKA_CLASS key) (\<lambda>c.
    if c \<noteq> CKO_OTP_KEY then Err CKR_KEY_TYPE_INCONSISTENT
    else and_then (get_attr_as_ulong CKA_KEY_TYPE key) (\<lambda>t.
    if t \<noteq> CKK_HOTP then Err CKR_KEY_TYPE_INCONSISTENT
    else and_then (map_err general_error (get_attr_as_bool op_attr key)) (\<lambda>b.
      if \<not> b then Err CKR_KEY_FUNCTION_NOT_PERMITTED else Ok ())))"

definition hotp_mechanism :: "'c digest_lib \<Rightarrow> u64 \<Rightarrow> mech_ops" where
  "hotp_mechanism dl addr =
    default_mech_ops
      \<lparr>mo_sign_new := (\<lambda>m key.
         and_then (hotp_key_permits CKA_SIGN key) (\<lambda>_.
         and_then (hotp_new dl m key) (\<lambda>ho. Ok (hotp_op otp_total_size (hotp_sign_call dl addr) ho)))),
       mo_verify_new := (\<lambda>m key.
         and_then (hotp_key_permits CKA_VERIFY key) (\<lambda>_.
         and_then (hotp_new dl m key) (\<lambda>ho. Ok (hotp_op (\<lambda>ho. Ok (hp_length ho)) (hotp_verify_call dl) ho))))\<rparr>"

definition hotp_key_mechanism :: "(nat \<Rightarrow> bytes result) \<Rightarrow> bytes \<Rightarrow> mech_ops" where
  "hotp_key_mechanism rng uuid =
    default_mech_ops\<lparr>mo_generate_key := (\<lambda>m template _ _. hotp_generate_key rng uuid m template)\<rparr>"

definition HOTP_MECHS :: "ck_mechanism_info list" where
  "HOTP_MECHS =
    [\<lparr>ulMinKeySize = 20, ulMaxKeySize = 64, mi_flags = CKF_GENERATE\<rparr>,
     \<lparr>ulMinKeySize = 20, ulMaxKeySize = 64, mi_flags = CKF_SIGN OR CKF_VERIFY\<rparr>]"

definition register_hotp :: "mechanisms \<times> factories \<Rightarrow> mechanisms \<times> factories" where
  "register_hotp p =
    (add_mechanism CKM_HOTP (HOTP_MECHS ! 1) (add_mechanism CKM_HOTP_KEY_GEN (HOTP_MECHS ! 0) (fst p)),
     (snd p)((CKO_OTP_KEY, CKK_HOTP) \<mapsto> hotp_factory))"

end
