(* ===== verification/Secret_Keys.thy ===== *)
theory Secret_Keys
  imports Aes_Context Hotp Simple_Laws
begin

text \<open>
  The key factories of AES and ChaCha20 (\<^verbatim>\<open>AesKeyFactory\<close> of \<^verbatim>\<open>src/src/aes.rs\<close>, \<^verbatim>\<open>ChaCha20KeyFactory\<close> of
  \<^verbatim>\<open>src/src/chacha20.rs\<close>), the registry of all the factories of secret keys that the library has, and what
  these share: each stores the value it is given and derives keys in the common way, when it accepts them.
\<close>

section \<open>AES\<close>

definition aes_data :: factory_data where
  "aes_data =
    finalize_data (new_factory_data CKO_SECRET_KEY
      \<lparr>fd_attributes :=
        common_secret_key_attrs @
        [attr_element (Defval OR Sensitive OR RequiredOnCreate OR SettableOnlyOnCreate) (from_bytes CKA_VALUE []),
         attr_element RequiredOnGenerate (from_ulong CKA_VALUE_LEN 0)]\<rparr>)"

definition aes_create :: "bytes \<Rightarrow> ck_attrs \<Rightarrow> object result" where
  "aes_create uuid template =
    and_then (key_create aes_data uuid template) (\<lambda>obj.
    and_then (get_key_buffer_len obj) (\<lambda>len.
    and_then (check_key_len len) (\<lambda>_.
    and_then (ulong_try_from len) (\<lambda>n. ensure_ulong CKA_VALUE_LEN n obj))))"

definition aes_key_derive :: "bytes \<Rightarrow> ck_attrs \<Rightarrow> object \<Rightarrow> object result" where
  "aes_key_derive uuid template origin =
    and_then (internal_key_derive aes_data uuid template origin) (\<lambda>obj.
      if get_key_len obj \<noteq> 0 \<and> \<not> is_ok (check_key_len (get_key_len obj)) then Err CKR_TEMPLATE_INCONSISTENT
      else Ok obj)"

text \<open>The wrapped data may be longer than the key that the template asks for.\<close>

definition aes_import :: "bytes \<Rightarrow> bytes \<Rightarrow> ck_attrs \<Rightarrow> object result" where
  "aes_import uuid data template =
    and_then
      (case find_attr CKA_VALUE_LEN template of
         None \<Rightarrow> Ok data
       | Some a \<Rightarrow> and_then (ck_to_ulong a) (\<lambda>len.
           if unat len > length data then Err CKR_KEY_SIZE_RANGE else Ok (take (unat len) data))) (\<lambda>w.
    and_then (check_key_len (length w)) (\<lambda>_.
      default_import_from_wrapped aes_data uuid w template))"

definition aes_set_key :: "bytes \<Rightarrow> object \<Rightarrow> object result" where
  "aes_set_key key obj =
    and_then (check_key_len (length key)) (\<lambda>_.
    and_then (set_attr (from_bytes CKA_VALUE key) obj) (set_key_len (length key)))"

definition aes_recommend_key_size :: "nat \<Rightarrow> nat result" where
  "aes_recommend_key_size limit =
    (if limit \<ge> 32 then Ok 32 else if limit > 24 then Ok 24 else if limit > 16 then Ok 16 else Err CKR_KEY_SIZE_RANGE)"

definition aes_factory :: object_factory where
  "aes_factory =
    (default_factory aes_data)
      \<lparr>f_create := aes_create, f_key_derive := Some aes_key_derive,
       f_export := default_export_for_wrapping, f_import := aes_import,
       f_secret := Some \<lparr>sf_recommend_key_size = aes_recommend_key_size, sf_set_key = aes_set_key\<rparr>\<rparr>"

section \<open>ChaCha20\<close>

definition CHACHA20_KEY_SIZE :: nat where
  "CHACHA20_KEY_SIZE = 32"

definition chacha20_data :: factory_data where
  "chacha20_data =
    finalize_data (new_factory_data CKO_SECRET_KEY
      \<lparr>fd_attributes :=
        common_secret_key_attrs @
        [attr_element (Defval OR Sensitive OR RequiredOnCreate OR SettableOnlyOnCreate) (from_bytes CKA_VALUE []),
         attr_element RequiredOnGenerate (from_ulong CKA_VALUE_LEN 0)]\<rparr>)"

definition chacha20_create :: "bytes \<Rightarrow> ck_attrs \<Rightarrow> object result" where
  "chacha20_create uuid template =
    and_then (key_create chacha20_data uuid template) (\<lambda>obj.
    and_then (get_key_buffer_len obj) (\<lambda>len.
      if len \<noteq> CHACHA20_KEY_SIZE then Err CKR_KEY_SIZE_RANGE
      else and_then (ulong_try_from len) (\<lambda>n. ensure_ulong CKA_VALUE_LEN n obj)))"

definition chacha20_import :: "bytes \<Rightarrow> bytes \<Rightarrow> ck_attrs \<Rightarrow> object result" where
  "chacha20_import uuid data template =
    (if length data \<noteq> CHACHA20_KEY_SIZE then Err CKR_KEY_SIZE_RANGE
     else default_import_from_wrapped chacha20_data uuid data template)"

definition chacha20_set_key :: "bytes \<Rightarrow> object \<Rightarrow> object result" where
  "chacha20_set_key key obj =
    (if length key \<noteq> CHACHA20_KEY_SIZE then Err CKR_KEY_SIZE_RANGE
     else and_then (set_attr (from_bytes CKA_VALUE key) obj) (set_key_len CHACHA20_KEY_SIZE))"

definition chacha20_recommend_key_size :: "nat \<Rightarrow> nat result" where
  "chacha20_recommend_key_size limit = (if limit \<ge> CHACHA20_KEY_SIZE then Ok CHACHA20_KEY_SIZE else Err CKR_KEY_SIZE_RANGE)"

definition chacha20_factory :: object_factory where
  "chacha20_factory =
    (default_factory chacha20_data)
      \<lparr>f_create := chacha20_create, f_key_derive := Some (internal_key_derive chacha20_data),
       f_export := default_export_for_wrapping, f_import := chacha20_import,
       f_secret := Some \<lparr>sf_recommend_key_size = chacha20_recommend_key_size, sf_set_key = chacha20_set_key\<rparr>\<rparr>"

section \<open>The factories of secret keys\<close>

text \<open>
  The factories of secret keys that the modules register: that of generic secrets, one for the keys of each
  HMAC, and those of HKDF, AES, ChaCha20 and HOTP. Every other factory is none of secret keys.
\<close>

definition secret_key_registry :: "((ck_ulong \<times> ck_ulong) \<times> object_factory) list" where
  "secret_key_registry =
    ((CKO_SECRET_KEY, CKK_GENERIC_SECRET), generic_secret_factory 0) #
    map (\<lambda>(t, f). ((CKO_SECRET_KEY, t), f)) HMAC_SECRET_KEY_FACTORIES @
    [((CKO_SECRET_KEY, CKK_HKDF), generic_secret_factory 0), ((CKO_SECRET_KEY, CKK_AES), aes_factory),
     ((CKO_SECRET_KEY, CKK_CHACHA20), chacha20_factory), ((CKO_OTP_KEY, CKK_HOTP), hotp_factory)]"

definition registers_secret_keys :: "factories \<Rightarrow> bool" where
  "registers_secret_keys fs \<longleftrightarrow>
    (\<forall>c t f. get_factory fs c t = Ok f \<and> f_secret f \<noteq> None \<longrightarrow> ((c, t), f) \<in> set secret_key_registry)"

text \<open>A registry with all of them.\<close>

definition library_factories :: factories where
  "library_factories = core_factories ++ map_of secret_key_registry"

lemma secret_key_registry_factories:
  "(k, f) \<in> set secret_key_registry \<Longrightarrow>
    (\<exists>n. f = generic_secret_factory n) \<or> f = aes_factory \<or> f = chacha20_factory \<or> f = hotp_factory"
  by (auto simp: secret_key_registry_def HMAC_SECRET_KEY_FACTORIES_def)

lemma library_registers: "registers_secret_keys library_factories"
proof -
  have core: "((c, t), f) \<in> set secret_key_registry" if "core_factories (c, t) = Some f" "f_secret f \<noteq> None" for c t f
    using that by (auto simp: core_factories_def secret_key_registry_def data_factory_def mechanism_factory_def
        builtin_factory_def default_factory_def split: if_split_asm)
  then show ?thesis
    by (auto simp: registers_secret_keys_def get_factory_def library_factories_def map_add_def
        split: option.splits dest: map_of_SomeD)
qed

lemma library_lookup:
  "library_factories (CKO_SECRET_KEY, CKK_GENERIC_SECRET) = Some (generic_secret_factory 0)"
  "library_factories (CKO_SECRET_KEY, CKK_AES) = Some aes_factory"
  by (simp_all add: library_factories_def secret_key_registry_def HMAC_SECRET_KEY_FACTORIES_def HASH_MECH_SET_def)

section \<open>What they share\<close>

lemma aes_set_key_stores: "aes_set_key v obj = Ok k \<Longrightarrow> length v \<in> {16, 24, 32} \<and> set_key v obj = Ok k"
  by (auto simp: aes_set_key_def set_key_def check_key_len_def and_then_eq_Ok split: if_split_asm)

lemma chacha20_set_key_stores: "chacha20_set_key v obj = Ok k \<Longrightarrow> length v = 32 \<and> set_key v obj = Ok k"
  by (auto simp: chacha20_set_key_def set_key_def CHACHA20_KEY_SIZE_def split: if_split_asm)

lemma registered_stores:
  assumes "registers_secret_keys fs" and "get_factory fs c t = Ok f" and "f_secret f = Some sf"
    and "sf_set_key sf v obj = Ok k"
  shows "set_key v obj = Ok k"
proof -
  have "((c, t), f) \<in> set secret_key_registry" using assms(1-3) unfolding registers_secret_keys_def by blast
  from secret_key_registry_factories[OF this] show ?thesis
    using assms(3,4) aes_set_key_stores chacha20_set_key_stores
    by (auto simp: generic_secret_factory_def aes_factory_def chacha20_factory_def hotp_factory_def)
qed

definition keeps_protection :: "factory_data \<Rightarrow> bool" where
  "keeps_protection fd \<longleftrightarrow>
    list_all (\<lambda>t. case find_oattr fd t of Some fa \<Rightarrow> \<not> oa_is fa Ignored | None \<Rightarrow> False) [CKA_SENSITIVE, CKA_EXTRACTABLE]"

lemma secret_data_protected:
  "keeps_protection generic_secret_data" "keeps_protection aes_data" "keeps_protection chacha20_data"
  "keeps_protection hotp_data"
  by code_simp+

lemma registered_derives:
  assumes "registers_secret_keys fs" and "get_factory fs c t = Ok f" and "f_secret f = Some sf"
    and "f_key_derive f = Some derive" and "derive uuid tmpl key = Ok k"
  obtains fd where "internal_key_derive fd uuid tmpl key = Ok k" and "keeps_protection fd"
proof -
  have "((c, t), f) \<in> set secret_key_registry" using assms(1-3) unfolding registers_secret_keys_def by blast
  from secret_key_registry_factories[OF this] show ?thesis
    using assms(4,5) that secret_data_protected
    by (auto simp: generic_secret_factory_def aes_factory_def chacha20_factory_def hotp_factory_def aes_key_derive_def
        and_then_eq_Ok split: if_split_asm)
qed

text \<open>An AES key is of one of its sizes, however it is made.\<close>

theorem aes_keys_have_legal_sizes:
  assumes "aes_create uuid template = Ok k \<or> aes_import uuid data template = Ok k \<or> aes_set_key v obj = Ok k"
  shows "\<exists>w. get_attr_as_bytes CKA_VALUE k = Ok w \<and> length w \<in> {16, 24, 32}"
proof -
  have legal: "check_key_len n = Ok () \<Longrightarrow> n \<in> {16, 24, 32}" for n
    by (simp add: check_key_len_def split: if_split_asm)
  have stored: ?thesis if "set_key w o1 = Ok k" "length w \<in> {16, 24, 32}" for w o1
    using set_key_value(1)[OF that(1)] that(2) by blast
  consider "aes_create uuid template = Ok k" | "aes_import uuid data template = Ok k" | "aes_set_key v obj = Ok k"
    using assms by blast
  then show ?thesis
  proof cases
    case 1
    then obtain o1 len n where c: "get_key_buffer_len o1 = Ok len" "check_key_len len = Ok ()" "ensure_ulong CKA_VALUE_LEN n o1 = Ok k"
      by (auto simp: aes_create_def and_then_eq_Ok)
    obtain w where "get_attr_as_bytes CKA_VALUE o1 = Ok w" "length w = len"
      using c(1) by (auto simp: get_key_buffer_len_def map_err_def and_then_eq_Ok split: sum.splits)
    moreover have "get_attr_as_bytes CKA_VALUE k = get_attr_as_bytes CKA_VALUE o1"
      using ensure_ulong_OkD(1)[OF c(3), of CKA_VALUE] by (simp add: get_attr_as_bytes_def attr_as_def)
    ultimately show ?thesis using legal[OF c(2)] by auto
  next
    case 2
    then obtain w o1 where "check_key_len (length w) = Ok ()" "set_key w o1 = Ok k"
      by (auto simp: aes_import_def default_import_from_wrapped_def and_then_eq_Ok)
    then show ?thesis using stored legal by blast
  next
    case 3
    then show ?thesis using aes_set_key_stores stored by blast
  qed
qed

end
