(* ===== verification/Tls_Laws.thy ===== *)
theory Tls_Laws
  imports Tls_Kdf Secret_Keys Keymgmt_Laws
begin

text \<open>
  The derivations and the MAC of TLS 1.2 give what RFC 5246 and RFC 7627 define, and the keys of a
  connection are as protected as its master secret.
\<close>

section \<open>The functions of RFC 5246\<close>

text \<open>\<open>A(i)\<close> and \<open>P_hash\<close> for the HMAC \<open>F\<close> with a secret, and the blocks that are enough for a length.\<close>

fun tls_A :: "(bytes \<Rightarrow> bytes) \<Rightarrow> bytes \<Rightarrow> nat \<Rightarrow> bytes" where
  "tls_A F seed 0 = seed"
| "tls_A F seed (Suc i) = F (tls_A F seed i)"

definition p_hash :: "(bytes \<Rightarrow> bytes) \<Rightarrow> bytes \<Rightarrow> nat \<Rightarrow> nat \<Rightarrow> bytes" where
  "p_hash F seed from to = concat (map (\<lambda>i. F (tls_A F seed (Suc i) @ seed)) [from..<to])"

definition tls_PRF ::
    "(ck_ulong \<Rightarrow> bytes \<Rightarrow> bytes) \<Rightarrow> ck_ulong \<Rightarrow> bytes \<Rightarrow> bytes \<Rightarrow> bytes \<Rightarrow> nat \<Rightarrow> bytes" where
  "tls_PRF H hash secret label seed len =
    take len (p_hash (hmac_spec (H hash) (block_size hash) secret) (label @ seed) 0 len)"

lemma p_hash_length:
  assumes "\<And>d. length (F d) = n"
  shows "length (p_hash F seed a b) = (b - a) * n"
proof -
  have "map (\<lambda>i. length (F (tls_A F seed (Suc i) @ seed))) [a..<b] = replicate (b - a) n"
    using assms by (intro nth_equalityI) simp_all
  then show ?thesis by (simp add: p_hash_def length_concat comp_def sum_list_replicate)
qed

lemma p_hash_step: "a < b \<Longrightarrow> p_hash F seed a b = F (tls_A F seed (Suc a) @ seed) @ p_hash F seed (Suc a) b"
  by (simp add: p_hash_def upt_rec)

text \<open>More blocks do not change the start.\<close>

lemma p_hash_take:
  assumes "\<And>d. length (F d) = n" and "len \<le> b * n" and "b \<le> c"
  shows "take len (p_hash F seed 0 c) = take len (p_hash F seed 0 b)"
proof -
  have "p_hash F seed 0 c = p_hash F seed 0 b @ p_hash F seed b c"
    using upt_add_eq_append[of 0 b "c - b"] assms(3) by (simp add: p_hash_def)
  then show ?thesis using assms(2) by (simp add: p_hash_length[OF assms(1)])
qed

lemma ceiling_lt:
  fixes n :: nat
  assumes "0 < n"
  shows "len \<le> i * n \<longleftrightarrow> (len + n - 1) div n \<le> i"
proof
  assume "len \<le> i * n"
  then have "len + n - 1 < Suc i * n" using assms by simp
  then have "(len + n - 1) div n < Suc i" by (rule less_mult_imp_div_less)
  then show "(len + n - 1) div n \<le> i" by simp
next
  assume "(len + n - 1) div n \<le> i"
  then have "(len + n - 1) div n * n \<le> i * n" by (rule mult_le_mono1)
  then show "len \<le> i * n" using ceiling_mult[of n len] assms by (meson Suc_leI le_trans)
qed

lemma tls_prf_blocks_value:
  assumes "computes F n s op" and "0 < n" and "N = (reqlen + n - 1) div n"
  shows "\<exists>op1. tls_prf_blocks seed reqlen n (i * n) (tls_A F seed (Suc i)) op = (Ok (p_hash F seed i N), op1)"
  using assms(1)
proof (induction "N - i" arbitrary: i s op)
  case 0
  then have "reqlen \<le> i * n" using ceiling_lt[OF assms(2)] assms(3) by simp
  then show ?case using 0 by (subst tls_prf_blocks.simps) (simp add: p_hash_def)
next
  case (Suc k)
  then have more: "\<not> reqlen \<le> i * n" and i: "i < N"
    using ceiling_lt[OF assms(2)] assms(3) by simp_all
  obtain op1 where 1: "op_reset op = (Ok (), op1)" "computes F n Fresh op1"
    by (rule computes_reset[OF Suc.prems])
  obtain op2 where 2: "op_all [tls_A F seed (Suc i), seed] n op1 = (Ok (F (tls_A F seed (Suc i) @ seed)), op2)"
      "computes F n Ended op2"
    by (rule computes_all[OF 1(2), of "[tls_A F seed (Suc i), seed]"]) simp_all
  have k: "k = N - Suc i" using Suc.hyps(2) by simp
  show ?case
  proof (cases "Suc i * n < reqlen")
    case True
    obtain op3 where 3: "op_reset op2 = (Ok (), op3)" "computes F n Fresh op3"
      by (rule computes_reset[OF 2(2)])
    obtain op4 where 4: "op_all [tls_A F seed (Suc i)] n op3 = (Ok (tls_A F seed (Suc (Suc i))), op4)"
        "computes F n Ended op4"
      by (rule computes_all[OF 3(2), of "[tls_A F seed (Suc i)]"]) simp_all
    obtain op5 where
      "tls_prf_blocks seed reqlen n (Suc i * n) (tls_A F seed (Suc (Suc i))) op4 = (Ok (p_hash F seed (Suc i) N), op5)"
      using Suc.hyps(1)[OF k 4(2)] by blast
    then show ?thesis
      using more True assms(2) 1(1) 2(1) 3(1) 4(1) i
      by (subst tls_prf_blocks.simps) (simp add: p_hash_step add.commute del: tls_A.simps)
  next
    case False
    then have last: "reqlen \<le> Suc i * n" by simp
    then have "N \<le> Suc i" using ceiling_lt[OF assms(2)] assms(3) by blast
    then have "p_hash F seed (Suc i) N = []" by (simp add: p_hash_def)
    then show ?thesis
      using more last assms(2) 1(1) 2(1) i
      by (subst tls_prf_blocks.simps, subst tls_prf_blocks.simps)
        (simp add: p_hash_step add.commute del: tls_A.simps)
  qed
qed

lemma tls_prf_finish_value:
  assumes "computes F n Fresh op" and "0 < n" and "reqlen + n < usize_range"
  shows "\<exists>op1. tls_prf_finish seed reqlen op = (Ok (take reqlen (p_hash F seed 0 reqlen)), op1)"
proof -
  let ?N = "(reqlen + n - 1) div n"
  obtain op1 where 1: "op_all [seed] n op = (Ok (tls_A F seed (Suc 0)), op1)" "computes F n Ended op1"
    by (rule computes_all[OF assms(1), of "[seed]"]) simp_all
  obtain op2 where 2: "tls_prf_blocks seed reqlen n (0 * n) (tls_A F seed (Suc 0)) op1 = (Ok (p_hash F seed 0 ?N), op2)"
    using tls_prf_blocks_value[OF 1(2) assms(2) refl] by blast
  have F: "length (F d) = n" for d by (rule computes_value_len[OF assms(1)])
  have fit: "reqlen \<le> ?N * n" using ceiling_lt[OF assms(2)] by blast
  have "reqlen \<le> reqlen * n" using assms(2) by simp
  then have N: "?N \<le> reqlen" using ceiling_lt[OF assms(2)] by blast
  have "resize reqlen (p_hash F seed 0 ?N) = take reqlen (p_hash F seed 0 ?N)"
    using fit by (simp add: resize_def p_hash_length[OF F])
  also have "\<dots> = take reqlen (p_hash F seed 0 reqlen)"
    using p_hash_take[OF F fit N] by simp
  finally have "resize reqlen (p_hash F seed 0 ?N) = take reqlen (p_hash F seed 0 reqlen)" .
  then show ?thesis
    using 1(1) 2 assms(2,3) computes_len[OF assms(1)] by (simp add: tls_prf_finish_def)
qed

text \<open>
  C28. The expansion of a secret ends, for every length that fits the memory, and fills it: the loop
  (\<^verbatim>\<open>TLSPRF::finish\<close>) gives the function \<open>P_hash\<close> of RFC 5246 in exactly the length that is asked for.
\<close>

theorem secret_expansion_ends:
  assumes "computes F n Fresh op" and "0 < n" and "reqlen + n < usize_range"
  shows "\<exists>out op1. tls_prf_finish seed reqlen op = (Ok out, op1) \<and> length out = reqlen \<and>
    out = take reqlen (p_hash F seed 0 reqlen)"
proof -
  have "reqlen \<le> reqlen * n" using assms(2) by simp
  then have "length (take reqlen (p_hash F seed 0 reqlen)) = reqlen"
    by (simp add: p_hash_length[OF computes_value_len[OF assms(1)]])
  then show ?thesis using tls_prf_finish_value[OF assms] by blast
qed

section \<open>The secrets\<close>

lemma tls_prf_of_hash_Ok:
  assumes "tls_prf_of_hash h = Ok t"
  shows "hmac_mech_to_hash_mech t = Ok h" and "typed_prf t CKK_GENERIC_SECRET"
  using assms unfolding tls_prf_of_hash_def hash_to_hmac_mech_def
  by (auto simp: hmac_mech_to_hash_mech_def typed_prf_def HASH_MECH_SET_def split: if_split_asm)

lemma tls_prf_value_PRF:
  assumes dl: "digest_contract dl H absorbed" and "hmacs_installed dl hc mops"
    and m: "hmac_mech_to_hash_mech (tl_prf tk) = Ok hash" and "typed_prf (tl_prf tk) CKK_GENERIC_SECRET"
    and "check_key_ops CKO_SECRET_KEY CKK_GENERIC_SECRET CKA_DERIVE key = Ok ()"
    and "get_attr_as_bytes CKA_VALUE key = Ok k"
    and ok: "tls_prf_value mops tk key (label @ seed) len = Ok out"
  shows "out = tls_PRF H hash k label seed len \<and> length out = len"
proof -
  obtain op m' where op: "hmac_mech_to_hash_mech (tl_prf tk) = Ok m'"
      "mo_mac_new (mops (tl_prf tk)) (plain_mechanism (tl_prf tk)) key CKF_DERIVE = Ok op"
      "computes (hmac_spec (H m') (block_size m') k) (hash_size m') Fresh op"
    by (rule installed_hmac[OF dl assms(2) typed_prf_secret[OF assms(4-6)]])
  let ?F = "hmac_spec (H hash) (block_size hash) k"
  have c: "computes ?F (hash_size hash) Fresh op" using op(1,3) m by simp
  have n: "0 < hash_size hash" by (rule valid_hash_sizes(3)[OF hmac_hash_valid[OF m]])
  have fin: "fst (tls_prf_finish (label @ seed) len op) = Ok out"
    using ok op(2) by (simp add: tls_prf_value_def tls_prf_init_def)
  obtain op1 where one: "op_all [label @ seed] (hash_size hash) op = (Ok (?F (label @ seed)), op1)"
    by (rule computes_all[OF c, of "[label @ seed]"]) simp_all
  have "len + hash_size hash < usize_range"
  proof (rule ccontr)
    assume "\<not> len + hash_size hash < usize_range"
    then show False using fin one computes_len[OF c] by (simp add: tls_prf_finish_def)
  qed
  then obtain op2 where "tls_prf_finish (label @ seed) len op = (Ok (take len (p_hash ?F (label @ seed) 0 len)), op2)"
    using tls_prf_finish_value[OF c n] by blast
  then have out: "out = take len (p_hash ?F (label @ seed) 0 len)" using fin by simp
  have "len \<le> len * hash_size hash" using n by simp
  then have "length out = len" using out by (simp add: p_hash_length[OF computes_value_len[OF c]])
  then show ?thesis using out by (simp add: tls_PRF_def)
qed

text \<open>A key that a factory of secret keys has been given a value has this value.\<close>

lemma template_factory_registered:
  assumes "get_obj_factory_from_key_template fs tmpl = Ok f"
  obtains c t where "get_factory fs c t = Ok f"
  using assms by (auto simp: get_obj_factory_from_key_template_def and_then_eq_Ok)

lemma template_factory_stores:
  assumes "registers_secret_keys fs" and "get_obj_factory_from_key_template fs tmpl = Ok f"
    and "as_secret_key_factory f = Ok sf" and "sf_set_key sf v obj = Ok k"
  shows "set_key v obj = Ok k"
proof -
  obtain c t where "get_factory fs c t = Ok f" by (rule template_factory_registered[OF assms(2)])
  moreover have "f_secret f = Some sf"
    using assms(3) by (auto simp: as_secret_key_factory_def split: option.splits)
  ultimately show ?thesis by (rule registered_stores[OF assms(1) _ _ assms(4)])
qed

text \<open>The seed of a master secret: the randoms, or the hash of the session for the extended one.\<close>

definition master_seed :: "tls_kdf_operation \<Rightarrow> bytes" where
  "master_seed tk =
    (if is_extended_master (tl_mech tk) then tl_session_hash tk else tl_client_random tk @ tl_server_random tk)"

text \<open>What the constructors have set up.\<close>

definition tls_ready :: "tls_kdf_operation \<Rightarrow> bool" where
  "tls_ready tk \<longleftrightarrow>
    (\<exists>h. tls_prf_of_hash h = Ok (tl_prf tk)) \<and>
    (is_master (tl_mech tk) \<longrightarrow> tl_label tk = TLS_MASTER_SECRET_LABEL \<and> tl_context tk = []) \<and>
    (is_extended_master (tl_mech tk) \<longrightarrow> tl_label tk = TLS_EXTENDED_MASTER_SECRET_LABEL) \<and>
    (is_key_expansion (tl_mech tk) \<longrightarrow> tl_label tk = TLS_KEY_EXPANSION_LABEL \<and> tl_context tk = [] \<and>
      0 < tl_keylen tk \<and> tl_mat_out tk \<noteq> None \<and> unat (tl_maclen tk) < 2 ^ 61 \<and> unat (tl_keylen tk) < 2 ^ 61 \<and> unat (tl_ivlen tk) < 2 ^ 61)"

lemma div8_small: "unat ((n :: ck_ulong) div 8) < 2 ^ 61"
proof -
  have "unat n < 2 ^ LENGTH(64)" by (rule unsigned_less)
  then show ?thesis by (simp add: unat_div)
qed

lemma tls_kdf_new_ready:
  assumes "tls_kdf_new m = Ok tk"
  shows "tls_ready tk"
proof -
  note mechs = is_master_def is_extended_master_def is_key_expansion_def is_labelled_def
  consider "new_tls12_mk_derive m = Ok tk" "is_master (cm_mechanism m)"
    | "new_tls12_keymac_derive m = Ok tk" "is_key_expansion (cm_mechanism m)"
    | "new_tls_generic_key_derive m = Ok tk" "is_labelled (cm_mechanism m)"
    | "new_tls12_ems_derive m = Ok tk" "is_extended_master (cm_mechanism m)"
    using assms by (auto simp: tls_kdf_new_def split: if_split_asm)
  then show ?thesis
  proof cases
    case 1
    then show ?thesis
      by (auto simp: new_tls12_mk_derive_def and_then_eq_Ok tls_operation_def tls_ready_def mechs split: if_split_asm)
  next
    case 2
    have "unat TLS_MASTER_SECRET_SIZE < 2 ^ 61" "0 < TLS_MASTER_SECRET_SIZE"
      by (simp_all add: TLS_MASTER_SECRET_SIZE_def)
    then show ?thesis
      using 2 div8_small
      by (auto simp: new_tls12_keymac_derive_def Let_def and_then_eq_Ok tls_operation_def tls_ready_def mechs
          split: if_split_asm)
  next
    case 3
    then show ?thesis
      by (auto simp: new_tls_generic_key_derive_def and_then_eq_Ok tls_operation_def tls_ready_def mechs split: if_split_asm)
  next
    case 4
    then show ?thesis
      by (auto simp: new_tls12_ems_derive_def and_then_eq_Ok tls_operation_def tls_ready_def mechs split: if_split_asm)
  qed
qed

lemma verify_key_Ok:
  assumes "verify_key tk key = Ok ()"
  shows "check_key_ops CKO_SECRET_KEY CKK_GENERIC_SECRET CKA_DERIVE key = Ok ()"
  using assms by (auto simp: verify_key_def and_then_eq_Ok)

section \<open>The master secret\<close>

lemma derive_master_key_Ok:
  assumes "derive_master_key mops uuid tk key template mechs fs = (Ok objs, w)"
  obtains tmpl factory sf dkm dkey dkey1 v where "verify_key tk key = Ok ()"
    and "verify_mk_template template = Ok tmpl" and "get_obj_factory_from_key_template fs tmpl = Ok factory"
    and "as_secret_key_factory factory = Ok sf"
    and "tls_prf_value mops tk key (tl_label tk @ master_seed tk @ (if is_extended_master (tl_mech tk) then [] else tl_context tk))
      (unat TLS_MASTER_SECRET_SIZE) = Ok dkm"
    and "sf_set_key sf dkm dkey = Ok dkey1" and "objs = [dkey1]"
    and "w = nothing_written\<lparr>tw_version := v\<rparr>"
    and "if tl_version tk then \<exists>p. premaster_version key = Ok p \<and> v = Some p else v = None"
  using assms unfolding derive_master_key_def
  by (auto simp: and_then_eq_Ok tls_prf_seed_def tls_prf_seed_ems_def master_seed_def
      split: sum.splits if_split_asm)

text \<open>
  C24. The master secret is that of RFC 5246, the extended one that of RFC 7627 (\<^verbatim>\<open>derive_master_key\<close>): 48
  bytes of the pseudo-random function on the premaster secret, the label and the randoms or the hash of
  the session. The version is taken from the premaster secret when the caller asks for it, but never
  from a key that is stored on the token. It holds for every registry whose factories of secret keys are
  those of the library (generic secrets, HMAC, HKDF, AES, ChaCha20, HOTP).
\<close>

theorem master_secret_of_rfc5246:
  assumes "digest_contract dl H absorbed" and "hmacs_installed dl hc mops" and "registers_secret_keys fs"
    and "tls_kdf_new m = Ok tk" and "is_master (tl_mech tk) \<or> is_extended_master (tl_mech tk)"
    and "get_attr_as_bytes CKA_VALUE key = Ok k"
    and "tls_kdf_derive mops uuid tk key template mechs fs = (Ok objs, w)"
  shows "\<exists>hash obj. hmac_mech_to_hash_mech (tl_prf tk) = Ok hash \<and> objs = [obj] \<and>
    get_attr_as_bytes CKA_VALUE obj = Ok (tls_PRF H hash k (tl_label tk) (master_seed tk) 48) \<and>
    tl_label tk = (if is_extended_master (tl_mech tk) then TLS_EXTENDED_MASTER_SECRET_LABEL else TLS_MASTER_SECRET_LABEL) \<and>
    tw_version w =
      (if \<not> tl_version tk then None else if is_token key then Some (0xff, 0xff) else Some (k ! 0, k ! 1))"
proof -
  have "derive_master_key mops (uuid 0) tk key template mechs fs = (Ok objs, w)"
    using assms(5,7) by (auto simp: tls_kdf_derive_def)
  then obtain tmpl factory sf dkm dkey dkey1 v where d: "verify_key tk key = Ok ()"
      "get_obj_factory_from_key_template fs tmpl = Ok factory" "as_secret_key_factory factory = Ok sf"
      "tls_prf_value mops tk key (tl_label tk @ master_seed tk @ (if is_extended_master (tl_mech tk) then [] else tl_context tk))
        (unat TLS_MASTER_SECRET_SIZE) = Ok dkm"
      "sf_set_key sf dkm dkey = Ok dkey1" "objs = [dkey1]" "w = nothing_written\<lparr>tw_version := v\<rparr>"
      "if tl_version tk then \<exists>p. premaster_version key = Ok p \<and> v = Some p else v = None"
    by (rule derive_master_key_Ok)
  note ready = tls_kdf_new_ready[OF assms(4), unfolded tls_ready_def]
  obtain hash where h: "tls_prf_of_hash hash = Ok (tl_prf tk)" using ready by blast
  have label: "tl_label tk =
      (if is_extended_master (tl_mech tk) then TLS_EXTENDED_MASTER_SECRET_LABEL else TLS_MASTER_SECRET_LABEL)"
    and "(if is_extended_master (tl_mech tk) then [] else tl_context tk) = []"
    using ready assms(5) by auto
  then have dkm: "dkm = tls_PRF H hash k (tl_label tk) (master_seed tk) 48"
    using tls_prf_value_PRF[OF assms(1,2) tls_prf_of_hash_Ok[OF h] verify_key_Ok[OF d(1)] assms(6)] d(4)
    by (simp add: TLS_MASTER_SECRET_SIZE_def)
  have "set_key dkm dkey = Ok dkey1"
    by (rule template_factory_stores[OF assms(3) d(2,3,5)])
  then have "get_attr_as_bytes CKA_VALUE dkey1 = Ok dkm" by (rule set_key_value)
  moreover have "tw_version w =
      (if \<not> tl_version tk then None else if is_token key then Some (0xff, 0xff) else Some (k ! 0, k ! 1))"
    using d(7,8) assms(6)
    by (auto simp: premaster_version_def nothing_written_def get_attr_as_bytes_def attr_as_def and_then_eq_Ok
        split: if_split_asm option.splits)
  ultimately show ?thesis
    using tls_prf_of_hash_Ok(1)[OF h] d(6) dkm label by blast
qed

section \<open>The keys of a connection\<close>

lemma tls_key_value:
  assumes "registers_secret_keys fs" and "get_obj_factory_from_key_template fs tmpl = Ok f"
    and "tls_key f u tmpl key v = Ok k"
  shows "get_attr_as_bytes CKA_VALUE k = Ok v"
  using assms(3) template_factory_stores[OF assms(1,2)] set_key_value(1)
  by (fastforce simp: tls_key_def and_then_eq_Ok)

lemma tls_key_pair_values:
  assumes "registers_secret_keys fs" and "tls_key_pair fs uuid u tmpl key dkm i len = Ok ks"
  shows "map (get_attr_as_bytes CKA_VALUE) ks =
    map Ok (if len = 0 then [] else [slice dkm i len, slice dkm (i + len) len])"
  using assms(2) tls_key_value[OF assms(1)] by (auto simp: tls_key_pair_def and_then_eq_Ok split: if_split_asm)

lemma tls_key_pair_templates:
  assumes "tls_key_pair fs uuid u tmpl key dkm i len = Ok ks" and "k \<in> set ks"
  shows "\<exists>f u v. get_obj_factory_from_key_template fs tmpl = Ok f \<and> tls_key f u tmpl key v = Ok k"
  using assms by (fastforce simp: tls_key_pair_def and_then_eq_Ok split: if_split_asm)

lemma derive_mac_key_Ok:
  assumes "derive_mac_key mops uuid tk key template mechs fs = (Ok objs, w)"
  obtains tmpl dkm macs keys where "verify_key tk key = Ok ()"
    and "verify_key_expansion_template tk key template = Ok tmpl"
    and "tls_prf_value mops tk key (tl_label tk @ (tl_server_random tk @ tl_client_random tk) @ tl_context tk)
      (unat (2 * (tl_maclen tk + tl_keylen tk + tl_ivlen tk))) = Ok dkm"
    and "tls_key_pair fs uuid 0 (mac_template key) key dkm 0 (unat (tl_maclen tk)) = Ok macs"
    and "tls_key_pair fs uuid 2 tmpl key dkm (2 * unat (tl_maclen tk)) (unat (tl_keylen tk)) = Ok keys"
    and "objs = macs @ keys"
    and "tls_ivs (tl_mat_out tk) dkm (2 * unat (tl_maclen tk) + 2 * unat (tl_keylen tk)) (unat (tl_ivlen tk)) = (Ok (), w)"
  using assms unfolding derive_mac_key_def Let_def
  by (auto simp: and_then_eq_Ok tls_prf_seed_def split: sum.splits prod.splits)

lemma material_length:
  fixes a b c :: ck_ulong
  assumes "unat a < 2 ^ 61" "unat b < 2 ^ 61" "unat c < 2 ^ 61"
  shows "unat (2 * (a + b + c)) = 2 * (unat a + unat b + unat c)"
proof -
  have eq: "2 * (a + b + c) = word_of_nat (2 * (unat a + unat b + unat c))" by simp
  have "unat (word_of_nat n :: ck_ulong) = n" if "n < 2 ^ 64" for n
    using that by (simp add: unsigned_of_nat take_bit_nat_eq_self)
  moreover have "2 * (unat a + unat b + unat c) < 2 ^ 64" using assms by simp
  ultimately show ?thesis unfolding eq by blast
qed

text \<open>
  C25. The keys of a connection are cut from the key block of RFC 5246 (\<^verbatim>\<open>derive_mac_key\<close>): the expansion of
  the master secret with the label and the randoms, that of the server first, is divided into the MAC
  keys, the write keys and the initialization vectors, each of the client and then of the server. It holds
  for every registry whose factories of secret keys are those of the library, so also for AES and ChaCha20 keys.
\<close>

theorem connection_keys_of_rfc5246:
  assumes "digest_contract dl H absorbed" and "hmacs_installed dl hc mops" and "registers_secret_keys fs"
    and "tls_kdf_new m = Ok tk" and "is_key_expansion (tl_mech tk)"
    and "get_attr_as_bytes CKA_VALUE key = Ok k"
    and "tls_kdf_derive mops uuid tk key template mechs fs = (Ok objs, w)"
  shows "\<exists>hash mac len iv block. hmac_mech_to_hash_mech (tl_prf tk) = Ok hash \<and>
    mac = unat (tl_maclen tk) \<and> len = unat (tl_keylen tk) \<and> iv = unat (tl_ivlen tk) \<and>
    block = tls_PRF H hash k TLS_KEY_EXPANSION_LABEL (tl_server_random tk @ tl_client_random tk) (2 * (mac + len + iv)) \<and>
    map (get_attr_as_bytes CKA_VALUE) objs = map Ok
      ((if mac = 0 then [] else [slice block 0 mac, slice block mac mac]) @
       [slice block (2 * mac) len, slice block (2 * mac + len) len]) \<and>
    w = (if iv = 0 then nothing_written
         else nothing_written\<lparr>tw_iv_client := Some (slice block (2 * mac + 2 * len) iv),
                tw_iv_server := Some (slice block (2 * mac + 2 * len + iv) iv)\<rparr>)"
proof -
  have "derive_mac_key mops uuid tk key template mechs fs = (Ok objs, w)"
    using assms(5,7)
    by (auto simp: tls_kdf_derive_def is_master_def is_extended_master_def is_key_expansion_def split: if_split_asm)
  then obtain tmpl dkm macs keys where d: "verify_key tk key = Ok ()"
      "tls_prf_value mops tk key (tl_label tk @ (tl_server_random tk @ tl_client_random tk) @ tl_context tk)
        (unat (2 * (tl_maclen tk + tl_keylen tk + tl_ivlen tk))) = Ok dkm"
      "tls_key_pair fs uuid 0 (mac_template key) key dkm 0 (unat (tl_maclen tk)) = Ok macs"
      "tls_key_pair fs uuid 2 tmpl key dkm (2 * unat (tl_maclen tk)) (unat (tl_keylen tk)) = Ok keys"
      "objs = macs @ keys"
      "tls_ivs (tl_mat_out tk) dkm (2 * unat (tl_maclen tk) + 2 * unat (tl_keylen tk)) (unat (tl_ivlen tk)) = (Ok (), w)"
    by (rule derive_mac_key_Ok)
  note ready = tls_kdf_new_ready[OF assms(4), unfolded tls_ready_def]
  obtain hash where h: "tls_prf_of_hash hash = Ok (tl_prf tk)" using ready by blast
  let ?mac = "unat (tl_maclen tk)" and ?len = "unat (tl_keylen tk)" and ?iv = "unat (tl_ivlen tk)"
  have sizes: "unat (2 * (tl_maclen tk + tl_keylen tk + tl_ivlen tk)) = 2 * (?mac + ?len + ?iv)"
    using ready assms(5) by (intro material_length) blast+
  have len: "?len \<noteq> 0" using ready assms(5) by (auto simp: unat_eq_0)
  have block: "dkm = tls_PRF H hash k TLS_KEY_EXPANSION_LABEL (tl_server_random tk @ tl_client_random tk)
      (2 * (?mac + ?len + ?iv))"
    using tls_prf_value_PRF[OF assms(1,2) tls_prf_of_hash_Ok[OF h] verify_key_Ok[OF d(1)] assms(6) d(2)]
      ready assms(5) unfolding sizes by simp
  have "map (get_attr_as_bytes CKA_VALUE) objs = map Ok
      ((if ?mac = 0 then [] else [slice dkm 0 ?mac, slice dkm ?mac ?mac]) @
       [slice dkm (2 * ?mac) ?len, slice dkm (2 * ?mac + ?len) ?len])"
    using tls_key_pair_values[OF assms(3) d(3)] tls_key_pair_values[OF assms(3) d(4)] d(5) len by simp
  moreover have "w = (if ?iv = 0 then nothing_written
      else nothing_written\<lparr>tw_iv_client := Some (slice dkm (2 * ?mac + 2 * ?len) ?iv),
             tw_iv_server := Some (slice dkm (2 * ?mac + 2 * ?len + ?iv) ?iv)\<rparr>)"
    using d(6) by (auto simp: tls_ivs_def Let_def split: option.splits if_split_asm)
  ultimately show ?thesis
    using tls_prf_of_hash_Ok(1)[OF h] block by blast
qed

section \<open>The protection of the keys\<close>

lemma search_by_id_SENSITIVE:
  "search_by_id CKA_SENSITIVE = Some (attrmap_element CKA_SENSITIVE ''CKA_SENSITIVE'' BoolType)"
  by (simp add: search_by_id_find ATTRMAP_def)

lemma derived_bool:
  assumes "registers_secret_keys fs"
    and "\<forall>dt. get_attr CKA_DERIVE_TEMPLATE key = Some dt \<longrightarrow> length (val dt) < usize_range"
    and "get_obj_factory_from_key_template fs tmpl = Ok f" and "tls_key f u tmpl key v = Ok k"
    and "a \<in> set tmpl" and "ck_to_bool a = Ok b" and "attr_type a \<in> {CKA_SENSITIVE, CKA_EXTRACTABLE}"
  shows "get_attr_as_bool (attr_type a) k = Ok b"
proof -
  obtain c t where f: "get_factory fs c t = Ok f" by (rule template_factory_registered[OF assms(3)])
  obtain derive k0 sf where d: "f_key_derive f = Some derive" "derive u tmpl key = Ok k0"
      "as_secret_key_factory f = Ok sf" "sf_set_key sf v k0 = Ok k"
    using assms(4) by (auto simp: tls_key_def as_key_factory_def and_then_eq_Ok split: option.splits)
  have "f_secret f = Some sf" using d(3) by (auto simp: as_secret_key_factory_def split: option.splits)
  then obtain fd where fd: "internal_key_derive fd u tmpl key = Ok k0" "keeps_protection fd"
    by (rule registered_derives[OF assms(1) f _ d(1,2)])
  obtain fa where fa: "find_oattr fd (attr_type a) = Some fa" "\<not> oa_is fa Ignored"
    using fd(2) assms(7) by (auto simp: keeps_protection_def split: option.splits)
  have "\<exists>x. from_ck_attr a = Ok x \<and> get_attr (attr_type a) k0 = Some x"
    using assms(7) by (intro derived_attribute[OF fd(1) assms(5,2) fa]) auto
  then obtain x where x: "from_ck_attr a = Ok x" "get_attr (attr_type a) k0 = Some x" by blast
  have "attr_id_to_attrtype (attr_type a) = Ok BoolType"
    using assms(7) search_by_id_key(4) search_by_id_SENSITIVE by (auto simp: attr_id_to_attrtype_def)
  then have "x = from_bool (attr_type a) b" by (rule from_ck_attr_bool[OF x(1) _ assms(6)])
  moreover have "get_attr (attr_type a) k = get_attr (attr_type a) k0"
    using set_key_keeps[OF template_factory_stores[OF assms(1,3) d(3,4)], of "attr_type a"] assms(7) by auto
  ultimately show ?thesis
    using x(2) by (simp add: attr_as_defs from_bool_def mk_attribute_def to_bool_def)
qed

lemma mac_template_bools:
  assumes "get_attr_as_bool CKA_SENSITIVE key = Ok s" and "get_attr_as_bool CKA_EXTRACTABLE key = Ok e"
  shows "\<exists>a \<in> set (mac_template key). attr_type a = CKA_SENSITIVE \<and> ck_to_bool a = Ok s"
    and "\<exists>a \<in> set (mac_template key). attr_type a = CKA_EXTRACTABLE \<and> ck_to_bool a = Ok e"
  using assms
  by (auto simp: mac_template_def add_bool_def add_ulong_def bool_or_def ck_bool_def ck_to_bool_def ck_attr_of_def)

lemma try_fold_unit: "try_fold f () xs = Ok () \<longleftrightarrow> (\<forall>x \<in> set xs. f () x = Ok ())"
  by (induction xs) (auto simp: and_then_eq_Ok)

lemma add_missing_bool_has: "\<exists>a \<in> set (add_missing_bool t b p). attr_type a = t"
  by (cases "find_attr t p")
    (auto simp: add_missing_bool_def add_bool_def ck_attr_of_def find_attr_def dest: find_SomeD)

lemma add_missing_bool_keeps: "a \<in> set p \<Longrightarrow> a \<in> set (add_missing_bool t b p)"
  by (simp add: add_missing_bool_def add_bool_def split: option.splits)

lemma expansion_template_bools:
  assumes "verify_key_expansion_template tk key template = Ok tmpl"
  shows "\<exists>a \<in> set tmpl. attr_type a = CKA_SENSITIVE \<and> ck_to_bool a = Ok (is_sensitive key)"
    and "\<exists>a \<in> set tmpl. attr_type a = CKA_EXTRACTABLE \<and> ck_to_bool a = Ok (is_extractable key)"
proof -
  have checked: "\<forall>a \<in> set tmpl. check_expansion_attr tk key () a = Ok ()"
    using assms
    by (auto simp: verify_key_expansion_template_def Let_def and_then_eq_Ok try_fold_unit)
  have "\<exists>a \<in> set tmpl. attr_type a = CKA_EXTRACTABLE" and "\<exists>a \<in> set tmpl. attr_type a = CKA_SENSITIVE"
    using assms
    by (auto simp: verify_key_expansion_template_def Let_def and_then_eq_Ok
        intro: add_missing_bool_has bexI[OF _ add_missing_bool_keeps] dest: spec)
      (meson add_missing_bool_has add_missing_bool_keeps)
  then show "\<exists>a \<in> set tmpl. attr_type a = CKA_SENSITIVE \<and> ck_to_bool a = Ok (is_sensitive key)"
    and "\<exists>a \<in> set tmpl. attr_type a = CKA_EXTRACTABLE \<and> ck_to_bool a = Ok (is_extractable key)"
    using checked by (auto simp: check_expansion_attr_def must_be_bool_def and_then_eq_Ok split: if_split_asm)
qed

text \<open>
  C26. The keys of a connection are protected as its master secret (\<^verbatim>\<open>derive_mac_key\<close>): each is sensitive
  exactly when the master secret is, and extractable exactly when it is; a template that asks for
  another protection of the write keys is refused. It holds for every registry whose factories of secret keys
  are those of the library; the derive template of the master secret, if it has one, is shorter than the
  address space.
\<close>

theorem connection_keys_keep_protection:
  assumes "registers_secret_keys fs"
    and "\<forall>dt. get_attr CKA_DERIVE_TEMPLATE key = Some dt \<longrightarrow> length (val dt) < usize_range"
    and "is_secret_class (o_class key)"
    and "get_attr_as_bool CKA_SENSITIVE key = Ok s" and "get_attr_as_bool CKA_EXTRACTABLE key = Ok e"
    and "is_key_expansion (tl_mech tk)"
    and "tls_kdf_derive mops uuid tk key template mechs fs = (Ok objs, w)" and "obj \<in> set objs"
  shows "get_attr_as_bool CKA_SENSITIVE obj = Ok s \<and> get_attr_as_bool CKA_EXTRACTABLE obj = Ok e"
proof -
  have "derive_mac_key mops uuid tk key template mechs fs = (Ok objs, w)"
    using assms(6,7)
    by (auto simp: tls_kdf_derive_def is_master_def is_extended_master_def is_key_expansion_def split: if_split_asm)
  then obtain tmpl dkm macs keys where d: "verify_key_expansion_template tk key template = Ok tmpl"
      "tls_key_pair fs uuid 0 (mac_template key) key dkm 0 (unat (tl_maclen tk)) = Ok macs"
      "tls_key_pair fs uuid 2 tmpl key dkm (2 * unat (tl_maclen tk)) (unat (tl_keylen tk)) = Ok keys"
      "objs = macs @ keys"
    by (rule derive_mac_key_Ok)
  have same: "is_sensitive key = s" "is_extractable key = e"
    using assms(3-5)
    by (auto simp: is_sensitive_def is_extractable_def bool_checker_def get_attr_as_bool_def attr_as_def
        split: option.splits if_split_asm)
  have bools: "(\<exists>a \<in> set t. attr_type a = CKA_SENSITIVE \<and> ck_to_bool a = Ok s) \<and>
      (\<exists>a \<in> set t. attr_type a = CKA_EXTRACTABLE \<and> ck_to_bool a = Ok e)" if "t = mac_template key \<or> t = tmpl" for t
    using that mac_template_bools[OF assms(4,5)] expansion_template_bools[OF d(1)] same by blast
  obtain t f u v where k: "t = mac_template key \<or> t = tmpl" "get_obj_factory_from_key_template fs t = Ok f"
      "tls_key f u t key v = Ok obj"
    using assms(8) d(4) tls_key_pair_templates[OF d(2), of obj] tls_key_pair_templates[OF d(3), of obj]
    unfolding d(4) set_append Un_iff by blast
  show ?thesis
    using bools[OF k(1)] derived_bool[OF assms(1,2) k(2,3)] by fastforce
qed

section \<open>The MAC of the finished messages\<close>

lemma HMAC_MECHS_distinct: "distinct (map fst HMAC_MECHS)"
  by (simp add: HMAC_MECHS_def HASH_MECH_SET_def)

lemma typed_prf_full:
  assumes "typed_prf t kt" and "(t, e) \<in> set HMAC_MECHS"
  shows "hmm_minlen e = hmm_maxlen e"
proof -
  obtain hs where "hs \<in> set HASH_MECH_SET" "hb_mac hs = t"
    using assms(1) by (auto simp: typed_prf_def list_ex_iff)
  then have "map_of HMAC_MECHS t = Some \<lparr>hmm_flags = CKF_SIGN OR CKF_VERIFY, hmm_keytype = hb_key_type hs,
      hmm_minlen = hb_hash_size hs, hmm_maxlen = hb_hash_size hs\<rparr>"
    using map_of_is_SomeI[OF HMAC_MECHS_distinct HMAC_full[of hs]] by simp
  moreover have "map_of HMAC_MECHS t = Some e"
    by (rule map_of_is_SomeI[OF HMAC_MECHS_distinct assms(2)])
  ultimately show ?thesis by auto
qed

lemma tls_mac_op_ready:
  assumes dl: "digest_contract dl H absorbed" and "tls_mac_new dl hc m key = Ok tm"
    and "get_attr_as_bytes CKA_VALUE key = Ok k" and "cm_struct m = TlsMacParams params"
  shows "is_valid_hash (ta_prfHashMechanism params) \<and>
    computes (hmac_spec (H (ta_prfHashMechanism params)) (block_size (ta_prfHashMechanism params)) k)
      (hash_size (ta_prfHashMechanism params)) Fresh (ts_prf tm) \<and>
    ts_outputlen tm = unat (ta_ulMacLength params) \<and> \<not> ts_finalized tm \<and> \<not> ts_in_use tm \<and>
    ts_seed tm = (if ta_ulServerOrClient params = 1 then TLS_SERVER_FINISHED else TLS_CLIENT_FINISHED)"
proof -
  obtain t mac op where n: "tls_prf_of_hash (ta_prfHashMechanism params) = Ok t" "mac_mechanism dl hc t = Ok mac"
      "tls_prf_init key mac t = Ok op" and tm: "ts_prf tm = op" "ts_outputlen tm = unat (ta_ulMacLength params)"
      "\<not> ts_finalized tm" "\<not> ts_in_use tm"
      "ts_seed tm = (if ta_ulServerOrClient params = 1 then TLS_SERVER_FINISHED else TLS_CLIENT_FINISHED)"
    using assms(2,4)
    by (auto simp: tls_mac_new_def get_parameters_def and_then_eq_Ok split: if_split_asm)
  obtain e where e: "map_of HMAC_MECHS t = Some e" "mac = hmac_mech_ops dl hc e"
    using n(2) by (auto simp: mac_mechanism_def split: option.splits)
  note in_table = map_of_SomeD[OF e(1)]
  have "check_and_fetch_key e key CKA_DERIVE = Ok k"
    using n(3) e(2) assms(3)
    by (auto simp: tls_prf_init_def hmac_mech_ops_def Let_def hmac_new_op_def hmac_op_attr_def and_then_eq_Ok
        check_and_fetch_key_def split: if_split_asm)
  then have secret: "hmac_secret t key k"
    unfolding hmac_secret_def using in_table typed_prf_full[OF tls_prf_of_hash_Ok(2)[OF n(1)]] by blast
  let ?mops = "\<lambda>t. hmac_mech_ops dl hc (the (map_of HMAC_MECHS t))"
  have "hmacs_installed dl hc ?mops"
    by (auto simp: hmacs_installed_def map_of_is_SomeI[OF HMAC_MECHS_distinct])
  then obtain op' h where "hmac_mech_to_hash_mech t = Ok h"
      "mo_mac_new (?mops t) (plain_mechanism t) key CKF_DERIVE = Ok op'"
      "computes (hmac_spec (H h) (block_size h) k) (hash_size h) Fresh op'"
    by (rule installed_hmac[OF dl _ secret])
  then show ?thesis
    using n(3) e tm tls_prf_of_hash_Ok(1)[OF n(1)] hmac_hash_valid[of t] by (simp add: tls_prf_init_def)
qed

lemma tls_mac_updates:
  assumes "\<not> ts_finalized tm"
  shows "op_updates parts (tls_mac_op tls_mac_sign_call tm) =
    (Ok (), tls_mac_op tls_mac_sign_call (tm\<lparr>ts_in_use := ts_in_use tm \<or> parts \<noteq> [], ts_seed := ts_seed tm @ concat parts\<rparr>))"
  using assms
proof (induction parts arbitrary: tm)
  case Nil
  have "tm\<lparr>ts_in_use := ts_in_use tm \<or> False, ts_seed := ts_seed tm @ []\<rparr> = tm" by simp
  then show ?case by simp
next
  case (Cons d ds)
  then show ?case by (simp add: op_update_def tls_mac_update_def no_output_def)
qed

text \<open>
  C27. The MAC of a finished message is the verify data of RFC 5246 (\<^verbatim>\<open>TLSMACOperation\<close>): the pseudo-random
  function on the master secret, the label of the side that finishes and the data, in the length that
  the parameter says. In parts it is that of all parts, and a verification accepts it and nothing else.
\<close>

theorem finished_mac_of_rfc5246:
  assumes "digest_contract dl H absorbed" and "tls_mac_new dl hc m key = Ok tm"
    and "get_attr_as_bytes CKA_VALUE key = Ok k" and "cm_struct m = TlsMacParams params"
    and "n = unat (ta_ulMacLength params)" and "n + hash_size (ta_prfHashMechanism params) < usize_range"
    and "label = (if ta_ulServerOrClient params = 1 then TLS_SERVER_FINISHED else TLS_CLIENT_FINISHED)"
    and "mac = tls_PRF H (ta_prfHashMechanism params) k label" and "parts \<noteq> []"
  shows "fst (co_call (tls_mac_op tls_mac_sign_call tm) (Single d n)) = Ok (mac d n) \<and>
    fst (op_all parts n (tls_mac_op tls_mac_sign_call tm)) = Ok (mac (concat parts) n) \<and>
    fst (co_call (tls_mac_op tls_mac_verify_call tm) (Check d s)) =
      (if s = mac d n then Ok [] else Err CKR_SIGNATURE_INVALID)"
proof -
  note ready = tls_mac_op_ready[OF assms(1-4)]
  let ?h = "ta_prfHashMechanism params"
  let ?F = "hmac_spec (H ?h) (block_size ?h) k"
  have c: "computes ?F (hash_size ?h) Fresh (ts_prf tm)" using ready by blast
  have pos: "0 < hash_size ?h" using valid_hash_sizes(3) ready by blast
  have mac: "fst (tls_prf_finish (label @ x) n (ts_prf tm)) = Ok (mac x n)" for x
    using tls_prf_finish_value[OF c pos assms(6), of "label @ x"] assms(8) by (auto simp: tls_PRF_def)
  have fin: "fst (tls_mac_finalize n (tm\<lparr>ts_in_use := True, ts_seed := label @ x\<rparr>)) = Ok (mac x n)" for x
    using mac[of x] ready assms(5) by (auto simp: tls_mac_finalize_def Let_def split: prod.splits)
  then have single: "fst (tls_mac_sign d n tm) = Ok (mac d n)"
    using ready assms(7) by (simp add: tls_mac_sign_def tls_mac_begin_def tls_mac_update_def)
  have seed: "ts_seed tm = label" "ts_outputlen tm = n" using ready assms(5,7) by simp_all
  obtain tm1 where "tls_mac_finalize n (tm\<lparr>ts_in_use := True, ts_seed := label @ d\<rparr>) = (Ok (mac d n), tm1)"
    using fin[of d] by (metis prod.collapse)
  then have "fst (tls_mac_verify d s tm) = (if s = mac d n then Ok () else Err CKR_SIGNATURE_INVALID)"
    using ready seed
    by (simp add: tls_mac_verify_def tls_mac_begin_def tls_mac_update_def tls_mac_verify_final_def)
  then have verify: "fst (co_call (tls_mac_op tls_mac_verify_call tm) (Check d s)) =
      (if s = mac d n then Ok [] else Err CKR_SIGNATURE_INVALID)"
    by (simp add: no_output_def)
  have "fst (op_all parts n (tls_mac_op tls_mac_sign_call tm)) = Ok (mac (concat parts) n)"
    using fin[of "concat parts"] ready assms(7,9) by (simp add: op_all_def tls_mac_updates op_finish_def)
  then show ?thesis using single verify by simp
qed

end
