(* ===== verification/Tls_Samples.thy ===== *)
theory Tls_Samples
  imports Tls_Laws
begin

text \<open>Sample derivations and MACs of TLS.\<close>

section \<open>The base key and the mechanisms\<close>

definition tls_base :: object where
  "tls_base = push_attribute (from_ulong CKA_VALUE_LEN 3) (derive_base CKK_GENERIC_SECRET)"

lemma tls_base_sel:
  "check_key_ops CKO_SECRET_KEY CKK_GENERIC_SECRET CKA_DERIVE tls_base = Ok ()"
  "get_attr_as_bytes CKA_VALUE tls_base = Ok [1, 2, 3]"
  "get_attr CKA_VALUE_LEN tls_base = Some (from_ulong CKA_VALUE_LEN 3)"
  "get_attr CKA_DERIVE_TEMPLATE tls_base = None" "is_secret_class (o_class tls_base)"
  "get_attr_as_bool CKA_SENSITIVE tls_base = Ok True" "get_attr_as_bool CKA_EXTRACTABLE tls_base = Ok False"
  by (auto simp: tls_base_def derive_base_def get_attr_def attr_as_def get_attr_as_ulong_def get_attr_as_bool_def
      get_attr_as_bytes_def check_key_ops_def push_attribute_def is_secret_class_def)

lemma sample_tls_value:
  assumes "tl_prf tk = CKM_SHA256_HMAC" and "len < 1000"
  obtains out where "tls_prf_value sample_mops tk tls_base seed len = Ok out" and "length out = len"
proof -
  have "typed_prf CKM_SHA256_HMAC CKK_GENERIC_SECRET" by (simp add: typed_prf_def HASH_MECH_SET_def)
  then have "hmac_secret CKM_SHA256_HMAC tls_base [1, 2, 3]"
    by (rule typed_prf_secret[OF _ tls_base_sel(1,2)])
  then obtain op hash where op: "hmac_mech_to_hash_mech CKM_SHA256_HMAC = Ok hash"
      "mo_mac_new (sample_mops CKM_SHA256_HMAC) (plain_mechanism CKM_SHA256_HMAC) tls_base CKF_DERIVE = Ok op"
      "computes (hmac_spec (toy_hash hash) (block_size hash) [1, 2, 3]) (hash_size hash) Fresh op"
    by (rule installed_hmac[OF toy_contract sample_installed(2)])
  let ?F = "hmac_spec (toy_hash hash) (block_size hash) [1, 2, 3]"
  have "hash = CKM_SHA256" using op(1) by (simp add: hmac_mech_to_hash_mech_def)
  then have n: "hash_size hash = 32" by (simp add: hash_size_def HASH_MECH_SET_def)
  have "len + 32 < usize_range" using assms(2) by simp
  then obtain op1 where fin: "tls_prf_finish seed len op = (Ok (take len (p_hash ?F seed 0 len)), op1)"
    using tls_prf_finish_value[OF op(3)] n by auto
  have long: "length (p_hash ?F seed 0 len) = len * 32"
    by (simp add: p_hash_length[OF computes_value_len[OF op(3)]] n)
  have "tls_prf_value sample_mops tk tls_base seed len = Ok (take len (p_hash ?F seed 0 len))"
    using fin assms(1) op(2) by (simp add: tls_prf_value_def tls_prf_init_def)
  moreover have "length (take len (p_hash ?F seed 0 len)) = len" unfolding length_take long by simp
  ultimately show ?thesis by (rule that)
qed

definition tls_random :: ck_ssl3_random_data where
  "tls_random = \<lparr>rd_pClientRandom = Ptr (replicate 32 1) [] True, rd_ulClientRandomLen = 32,
     rd_pServerRandom = Ptr (replicate 32 2) [] True, rd_ulServerRandomLen = 32\<rparr>"

lemma tls_randoms_sample: "tls_randoms tls_random = Ok (replicate 32 1, replicate 32 2)"
  by (simp add: tls_randoms_def tls_random_def bytes_to_vec_def TLS_RANDOM_SEED_SIZE_def)

definition tls_mechanism_of :: "ck_ulong \<Rightarrow> ck_ulong \<Rightarrow> param_struct \<Rightarrow> ck_mechanism" where
  "tls_mechanism_of t n p = \<lparr>cm_mechanism = t, cm_parameter = Ptr [] [] True, cm_parameter_len = n, cm_struct = p\<rparr>"

section \<open>Witnesses\<close>

theorem secret_expansion_ends_witness:
  "\<exists>op out op1. mo_mac_new (sample_mops CKM_SHA256_HMAC) (plain_mechanism CKM_SHA256_HMAC)
      (derive_base CKK_GENERIC_SECRET) CKF_DERIVE = Ok op \<and>
    tls_prf_finish [1] 70 op = (Ok out, op1) \<and> length out = 70"
proof -
  obtain op hash where op: "hmac_mech_to_hash_mech CKM_SHA256_HMAC = Ok hash"
      "mo_mac_new (sample_mops CKM_SHA256_HMAC) (plain_mechanism CKM_SHA256_HMAC) (derive_base CKK_GENERIC_SECRET) CKF_DERIVE = Ok op"
      "computes (hmac_spec (toy_hash hash) (block_size hash) [1, 2, 3]) (hash_size hash) Fresh op"
    by (rule installed_hmac[OF toy_contract sample_installed(2) sample_hmac_secret])
  have "hash = CKM_SHA256" using op(1) by (simp add: hmac_mech_to_hash_mech_def)
  then have "hash_size hash = 32" by (simp add: hash_size_def HASH_MECH_SET_def)
  then show ?thesis using secret_expansion_ends[OF op(3), of 70 "[1]"] op(2) by auto
qed

definition mk_template :: ck_attrs where
  "mk_template =
    [ck_attr_of CKA_CLASS (u64_to_le CKO_SECRET_KEY), ck_attr_of CKA_KEY_TYPE (u64_to_le CKK_GENERIC_SECRET),
     ck_attr_of CKA_VALUE_LEN (u64_to_le TLS_MASTER_SECRET_SIZE), ck_attr_of CKA_ALLOWED_MECHANISMS allowed_bytes,
     ck_attr_of CKA_SIGN [CK_TRUE], ck_attr_of CKA_VERIFY [CK_TRUE], ck_attr_of CKA_DERIVE [CK_TRUE]]"

lemma length_allowed: "length allowed_bytes = 48"
  by (simp add: allowed_bytes_def TLS_MASTER_SECRET_ALLOWED_MECHS_def)

lemma mk_template: "verify_mk_template [] = Ok mk_template"
  by (simp add: verify_mk_template_def mk_template_def add_missing_ulong_def add_missing_slice_def add_missing_bool_def
      add_ulong_def add_bool_def find_attr_def add_slice_Ok length_allowed check_mk_attr_def must_be_ulong_def
      ck_to_ulong_def ck_attr_of_def le64.dec_enc ck_to_slice_def Let_def)

lemma factory_of_type:
  assumes "tmpl = ck_attr_of CKA_CLASS (u64_to_le CKO_SECRET_KEY) # ck_attr_of CKA_KEY_TYPE (u64_to_le kt) # rest"
    and "library_factories (CKO_SECRET_KEY, kt) = Some f"
  shows "get_obj_factory_from_key_template library_factories tmpl = Ok f"
  using assms
  by (simp add: get_obj_factory_from_key_template_def get_factory_def ck_to_ulong_def ck_attr_of_def
      le64.dec_enc le64.length_enc)

lemma aes_factory_sel:
  "as_key_factory aes_factory = Ok aes_key_derive"
  "as_secret_key_factory aes_factory =
    Ok \<lparr>sf_recommend_key_size = aes_recommend_key_size, sf_set_key = aes_set_key\<rparr>"
  by (simp_all add: as_key_factory_def as_secret_key_factory_def aes_factory_def)

lemma generic_secret_sel:
  "as_key_factory (generic_secret_factory 0) = Ok (internal_key_derive generic_secret_data)"
  "as_secret_key_factory (generic_secret_factory 0) =
    Ok \<lparr>sf_recommend_key_size = generic_secret_recommend_key_size 0, sf_set_key = set_key\<rparr>"
  by (simp_all add: as_key_factory_def as_secret_key_factory_def generic_secret_factory_def)

definition master_sample :: ck_mechanism where
  "master_sample = tls_mechanism_of CKM_TLS12_MASTER_KEY_DERIVE_DH 48
     (MasterKeyParams \<lparr>tm_random_info = tls_random, tm_version_null = True, tm_prfHashMechanism = CKM_SHA256\<rparr>)"

theorem master_secret_of_rfc5246_witness:
  "\<exists>tk obj w. tls_kdf_new master_sample = Ok tk \<and>
    tls_kdf_derive sample_mops (\<lambda>_. [1]) tk tls_base [] sample_registered library_factories = (Ok [obj], w) \<and>
    get_attr_as_bytes CKA_VALUE obj = Ok (tls_PRF toy_hash CKM_SHA256 [1, 2, 3] TLS_MASTER_SECRET_LABEL
      (replicate 32 1 @ replicate 32 2) 48)"
proof -
  define tk where "tk = (tls_operation CKM_TLS12_MASTER_KEY_DERIVE_DH CKM_SHA256_HMAC TLS_MASTER_SECRET_LABEL)
      \<lparr>tl_client_random := replicate 32 1, tl_server_random := replicate 32 2, tl_version := False\<rparr>"
  have sel: "tl_mech tk = CKM_TLS12_MASTER_KEY_DERIVE_DH" "tl_prf tk = CKM_SHA256_HMAC" "\<not> tl_version tk"
      "tl_label tk = TLS_MASTER_SECRET_LABEL" "tl_client_random tk = replicate 32 1" "tl_server_random tk = replicate 32 2"
    by (simp_all add: tk_def tls_operation_def)
  have new: "tls_kdf_new master_sample = Ok tk"
    by (simp add: tls_kdf_new_def is_master_def new_tls12_mk_derive_def master_sample_def tls_mechanism_of_def
        get_parameters_def tls_randoms_sample tls_prf_of_hash_def hash_to_hmac_mech_def tk_def)
  obtain dkm where dkm: "tls_prf_value sample_mops tk tls_base (tls_prf_seed tk True) 48 = Ok dkm" "length dkm = 48"
    by (rule sample_tls_value[of tk 48]) (simp_all add: sel)
  have "and_then (internal_key_derive generic_secret_data [1] mk_template tls_base)
      (\<lambda>d. Ok (get_attr CKA_VALUE_LEN d)) = Ok (Some (from_ulong CKA_VALUE_LEN 48))"
    by code_simp
  then obtain dkey where dkey: "internal_key_derive generic_secret_data [1] mk_template tls_base = Ok dkey"
      "get_attr CKA_VALUE_LEN dkey = Some (from_ulong CKA_VALUE_LEN 48)"
    by (auto simp: and_then_eq_Ok)
  have set: "set_key dkm dkey = Ok (with_value dkm dkey)"
    using dkm(2) dkey(2) by (intro set_key_known_length) simp_all
  have factory: "get_obj_factory_from_key_template library_factories mk_template = Ok (generic_secret_factory 0)"
    by (rule factory_of_type[OF _ library_lookup(1)]) (simp add: mk_template_def)
  have verify: "verify_key tk tls_base = Ok ()"
    by (simp add: verify_key_def tls_base_sel sel)
  have derive: "tls_kdf_derive sample_mops (\<lambda>_. [1]) tk tls_base [] sample_registered library_factories =
      (Ok [with_value dkm dkey], nothing_written\<lparr>tw_version := None\<rparr>)"
    using dkm(1)
    by (simp add: tls_kdf_derive_def derive_master_key_def is_master_def is_extended_master_def verify mk_template factory
        generic_secret_sel dkey(1) sample_found set TLS_MASTER_SECRET_SIZE_def sel)
  have "hmac_mech_to_hash_mech CKM_SHA256_HMAC = Ok CKM_SHA256" by (simp add: hmac_mech_to_hash_mech_def)
  then have "get_attr_as_bytes CKA_VALUE (with_value dkm dkey) =
      Ok (tls_PRF toy_hash CKM_SHA256 [1, 2, 3] TLS_MASTER_SECRET_LABEL (replicate 32 1 @ replicate 32 2) 48)"
    using master_secret_of_rfc5246[OF toy_contract sample_installed(2) library_registers new _ tls_base_sel(2) derive]
    by (simp add: is_master_def is_extended_master_def sel master_seed_def)
  then show ?thesis using new derive by blast
qed

text \<open>Two bytes for the MACs, AES keys of 16 bytes and one byte for the vectors.\<close>

definition connection_sample :: ck_mechanism where
  "connection_sample = tls_mechanism_of CKM_TLS12_KEY_AND_MAC_DERIVE 80
     (KeyMatParams \<lparr>km_ulMacSizeInBits = 16, km_ulKeySizeInBits = 128, km_ulIVSizeInBits = 8, km_bIsExport = CK_FALSE,
        km_random_info = tls_random, km_out_null = False, km_iv_client_null = False, km_iv_server_null = False,
        km_prfHashMechanism = CKM_SHA256\<rparr>)"

abbreviation aes_template :: ck_attrs where
  "aes_template \<equiv> [ck_attr_of CKA_CLASS (u64_to_le CKO_SECRET_KEY), ck_attr_of CKA_KEY_TYPE (u64_to_le CKK_AES)]"

definition expansion_template :: ck_attrs where
  "expansion_template = aes_template @
    [ck_attr_of CKA_VALUE_LEN (u64_to_le 16), ck_attr_of CKA_ENCRYPT [CK_TRUE],
     ck_attr_of CKA_DECRYPT [CK_TRUE], ck_attr_of CKA_DERIVE [CK_TRUE], ck_attr_of CKA_SENSITIVE [CK_TRUE],
     ck_attr_of CKA_EXTRACTABLE [CK_FALSE]]"

lemma base_protected: "is_sensitive tls_base" "\<not> is_extractable tls_base"
  using tls_base_sel(5-7)
  by (auto simp: is_sensitive_def is_extractable_def bool_checker_def get_attr_as_bool_def attr_as_def
      split: option.splits if_split_asm)

lemma expansion_template:
  assumes "tl_keylen tk = 16"
  shows "verify_key_expansion_template tk tls_base aes_template = Ok expansion_template"
  using assms base_protected
  by (simp add: verify_key_expansion_template_def expansion_template_def add_missing_ulong_def add_missing_bool_def
      add_ulong_def add_bool_def find_attr_def check_expansion_attr_def must_be_ulong_def must_be_bool_def
      ck_to_ulong_def ck_to_bool_def ck_attr_of_def le64.dec_enc ck_bool_def Let_def)

lemma sample_tls_key:
  assumes "as_key_factory f = Ok derive" and "derive [1] tmpl tls_base = Ok k0"
    and "as_secret_key_factory f = Ok sf" and "sf_set_key sf v k0 = set_key v k0"
    and "get_attr CKA_VALUE_LEN k0 = None \<or> get_attr CKA_VALUE_LEN k0 = Some (from_ulong CKA_VALUE_LEN (of_nat (length v)))"
    and "length v < 100"
  shows "is_ok (tls_key f [1] tmpl tls_base v)"
proof -
  have "is_ok (set_key v k0)"
    using assms(5,6)
    by (auto simp: set_key_def set_key_len_def get_key_buffer_len_def ulong_try_from_def ensure_ulong_def
        get_attr_with_value)
  then show ?thesis using assms(1-4) by (simp add: tls_key_def)
qed

lemma sample_tls_pair:
  assumes "get_obj_factory_from_key_template library_factories tmpl = Ok f"
    and "\<And>v. length v = len \<Longrightarrow> is_ok (tls_key f [1] tmpl tls_base v)"
    and "i + 2 * len \<le> length dkm"
  shows "is_ok (tls_key_pair library_factories (\<lambda>_. [1]) u tmpl tls_base dkm i len)"
proof -
  have "length (slice dkm i len) = len" "length (slice dkm (i + len) len) = len"
    using assms(3) by (simp_all add: slice_def)
  then obtain k1 k2 where "tls_key f [1] tmpl tls_base (slice dkm i len) = Ok k1"
      "tls_key f [1] tmpl tls_base (slice dkm (i + len) len) = Ok k2"
    using assms(2) by (meson is_ok_iff)
  then show ?thesis using assms(1) by (simp add: tls_key_pair_def)
qed

lemma connection_sample_derives:
  obtains tk objs w where "tls_kdf_new connection_sample = Ok tk" and "is_key_expansion (tl_mech tk)"
    and "tl_maclen tk = 2" and "tl_keylen tk = 16" and "tl_ivlen tk = 1"
    and "tls_kdf_derive sample_mops (\<lambda>_. [1]) tk tls_base aes_template sample_registered library_factories = (Ok objs, w)"
proof -
  define tk where "tk = (tls_operation CKM_TLS12_KEY_AND_MAC_DERIVE CKM_SHA256_HMAC TLS_KEY_EXPANSION_LABEL)
      \<lparr>tl_client_random := replicate 32 1, tl_server_random := replicate 32 2, tl_maclen := 2,
       tl_keylen := 16, tl_ivlen := 1, tl_mat_out := Some (False, False)\<rparr>"
  have sel: "tl_mech tk = CKM_TLS12_KEY_AND_MAC_DERIVE" "tl_prf tk = CKM_SHA256_HMAC" "tl_maclen tk = 2"
      "tl_keylen tk = 16" "tl_ivlen tk = 1" "tl_mat_out tk = Some (False, False)"
    by (simp_all add: tk_def tls_operation_def)
  have new: "tls_kdf_new connection_sample = Ok tk"
    by (simp add: tls_kdf_new_def is_master_def is_key_expansion_def new_tls12_keymac_derive_def connection_sample_def
        tls_mechanism_of_def get_parameters_def tls_randoms_sample tls_prf_of_hash_def hash_to_hmac_mech_def tk_def Let_def)
  obtain dkm where dkm: "tls_prf_value sample_mops tk tls_base (tls_prf_seed tk False) 38 = Ok dkm" "length dkm = 38"
    by (rule sample_tls_value[of tk 38]) (simp_all add: sel)
  have "and_then (aes_key_derive [1] expansion_template tls_base) (\<lambda>d. Ok (get_attr CKA_VALUE_LEN d)) =
      Ok (Some (from_ulong CKA_VALUE_LEN 16))"
    by code_simp
  then obtain k0 where k0: "aes_key_derive [1] expansion_template tls_base = Ok k0"
      "get_attr CKA_VALUE_LEN k0 = Some (from_ulong CKA_VALUE_LEN 16)"
    by (auto simp: and_then_eq_Ok)
  have "and_then (internal_key_derive generic_secret_data [1] (mac_template tls_base) tls_base)
      (\<lambda>d. Ok (get_attr CKA_VALUE_LEN d)) = Ok None"
    by code_simp
  then obtain m0 where m0: "internal_key_derive generic_secret_data [1] (mac_template tls_base) tls_base = Ok m0"
      "get_attr CKA_VALUE_LEN m0 = None"
    by (auto simp: and_then_eq_Ok)
  have mac_factory: "get_obj_factory_from_key_template library_factories (mac_template tls_base) = Ok (generic_secret_factory 0)"
    by (rule factory_of_type[OF _ library_lookup(1)]) (simp add: mac_template_def add_ulong_def add_bool_def)
  have aes_factory: "get_obj_factory_from_key_template library_factories expansion_template = Ok aes_factory"
    by (rule factory_of_type[OF _ library_lookup(2)]) (simp add: expansion_template_def)
  have "is_ok (tls_key_pair library_factories (\<lambda>_. [1]) 0 (mac_template tls_base) tls_base dkm 0 2)"
    using m0(2) dkm(2)
    by (intro sample_tls_pair[OF mac_factory] sample_tls_key[OF generic_secret_sel(1) m0(1) generic_secret_sel(2)]) auto
  moreover have "is_ok (tls_key_pair library_factories (\<lambda>_. [1]) 2 expansion_template tls_base dkm 4 16)"
    using k0(2) dkm(2)
    by (intro sample_tls_pair[OF aes_factory] sample_tls_key[OF aes_factory_sel(1) k0(1) aes_factory_sel(2)])
      (auto simp: aes_set_key_def set_key_def check_key_len_def)
  ultimately obtain macs keys where
    pairs: "tls_key_pair library_factories (\<lambda>_. [1]) 0 (mac_template tls_base) tls_base dkm 0 2 = Ok macs"
      "tls_key_pair library_factories (\<lambda>_. [1]) 2 expansion_template tls_base dkm 4 16 = Ok keys"
    by (auto simp: is_ok_iff)
  have "verify_key tk tls_base = Ok ()" by (simp add: verify_key_def tls_base_sel sel)
  moreover have "verify_key_expansion_template tk tls_base aes_template = Ok expansion_template"
    by (rule expansion_template[OF sel(4)])
  ultimately obtain w where
    "tls_kdf_derive sample_mops (\<lambda>_. [1]) tk tls_base aes_template sample_registered library_factories = (Ok (macs @ keys), w)"
    using dkm(1) pairs
    by (simp add: tls_kdf_derive_def derive_mac_key_def is_master_def is_extended_master_def is_key_expansion_def sel
        sample_found Let_def tls_ivs_def)
  then show ?thesis
    using that[OF new] by (simp add: sel is_key_expansion_def)
qed

theorem connection_keys_of_rfc5246_witness:
  "\<exists>tk objs w. tls_kdf_new connection_sample = Ok tk \<and>
    tls_kdf_derive sample_mops (\<lambda>_. [1]) tk tls_base aes_template sample_registered library_factories = (Ok objs, w) \<and>
    length objs = 4 \<and> tw_iv_client w \<noteq> None"
proof -
  obtain tk objs w where d: "tls_kdf_new connection_sample = Ok tk" "is_key_expansion (tl_mech tk)"
      "tl_maclen tk = 2" "tl_keylen tk = 16" "tl_ivlen tk = 1"
      "tls_kdf_derive sample_mops (\<lambda>_. [1]) tk tls_base aes_template sample_registered library_factories = (Ok objs, w)"
    by (rule connection_sample_derives)
  from connection_keys_of_rfc5246[OF toy_contract sample_installed(2) library_registers d(1,2) tls_base_sel(2) d(6)]
  obtain block where "map (get_attr_as_bytes CKA_VALUE) objs = map Ok
      ([slice block 0 2, slice block 2 2] @ [slice block 4 16, slice block 20 16])"
      "w = nothing_written\<lparr>tw_iv_client := Some (slice block 36 1), tw_iv_server := Some (slice block 37 1)\<rparr>"
    using d(3-5) by auto
  then show ?thesis using d(1,6) arg_cong[of _ _ length] by fastforce
qed

theorem connection_keys_keep_protection_witness:
  "\<exists>tk objs w. tls_kdf_derive sample_mops (\<lambda>_. [1]) tk tls_base aes_template sample_registered library_factories = (Ok objs, w) \<and>
    list_all (\<lambda>obj. get_attr_as_bool CKA_SENSITIVE obj = Ok True) objs"
proof -
  obtain tk objs w where d: "is_key_expansion (tl_mech tk)"
      "tls_kdf_derive sample_mops (\<lambda>_. [1]) tk tls_base aes_template sample_registered library_factories = (Ok objs, w)"
    by (rule connection_sample_derives)
  have "get_attr_as_bool CKA_SENSITIVE obj = Ok True" if "obj \<in> set objs" for obj
    using connection_keys_keep_protection[OF library_registers _ tls_base_sel(5-7) d that]
    by (simp add: tls_base_sel(4))
  then show ?thesis using d(2) by (auto simp: list_all_iff)
qed

definition finished_params :: ck_tls_mac_params where
  "finished_params = \<lparr>ta_prfHashMechanism = CKM_SHA256, ta_ulMacLength = 12, ta_ulServerOrClient = 2\<rparr>"

theorem finished_mac_of_rfc5246_witness:
  "\<exists>tm. tls_mac_new toy_digests toy_codec (tls_mechanism_of CKM_TLS_MAC 24 (TlsMacParams finished_params)) tls_base = Ok tm \<and>
    fst (co_call (tls_mac_op tls_mac_sign_call tm) (Single [9] 12)) =
      Ok (tls_PRF toy_hash CKM_SHA256 [1, 2, 3] TLS_CLIENT_FINISHED [9] 12)"
proof -
  let ?m = "tls_mechanism_of CKM_TLS_MAC 24 (TlsMacParams finished_params)"
  have "typed_prf CKM_SHA256_HMAC CKK_GENERIC_SECRET" by (simp add: typed_prf_def HASH_MECH_SET_def)
  then have s: "hmac_secret CKM_SHA256_HMAC tls_base [1, 2, 3]"
    by (rule typed_prf_secret[OF _ tls_base_sel(1,2)])
  obtain op where op: "mo_mac_new (sample_mops CKM_SHA256_HMAC) (plain_mechanism CKM_SHA256_HMAC) tls_base CKF_DERIVE = Ok op"
    using installed_hmac[OF toy_contract sample_installed(2) s] by blast
  have "mac_mechanism toy_digests toy_codec CKM_SHA256_HMAC = Ok (sample_mops CKM_SHA256_HMAC)"
    using s map_of_is_SomeI[OF HMAC_MECHS_distinct]
    by (auto simp: mac_mechanism_def sample_mops_def hmac_secret_def)
  then obtain tm where tm: "tls_mac_new toy_digests toy_codec ?m tls_base = Ok tm"
    using op
    by (simp add: tls_mac_new_def tls_mechanism_of_def get_parameters_def finished_params_def tls_prf_of_hash_def
        hash_to_hmac_mech_def tls_prf_init_def)
  have struct: "cm_struct ?m = TlsMacParams finished_params" by (simp add: tls_mechanism_of_def)
  have bound: "unat (ta_ulMacLength finished_params) + hash_size (ta_prfHashMechanism finished_params) < usize_range"
    by (simp add: hash_size_def HASH_MECH_SET_def finished_params_def)
  from finished_mac_of_rfc5246[OF toy_contract tm tls_base_sel(2) struct refl bound refl refl, where d = "[9]" and parts = "[[9]]"]
  have "fst (co_call (tls_mac_op tls_mac_sign_call tm) (Single [9] 12)) =
      Ok (tls_PRF toy_hash CKM_SHA256 [1, 2, 3] TLS_CLIENT_FINISHED [9] 12)"
    by (simp add: finished_params_def del: tls_mac_op.simps tls_mac_op.sel)
  then show ?thesis using tm by blast
qed

end
