(* ===== verification/Ike.thy ===== *)
theory Ike
  imports Prf_Laws
begin

text \<open>
  The key derivations of IKE (\<^verbatim>\<open>src/src/ike.rs\<close>), versions 1 and 2: the seed key, the keys of version 1,
  and the two expansions. They use the HMAC operation directly, not a registered mechanism.
\<close>

section \<open>The pseudo-random function\<close>

definition ike_prf_len :: "ck_ulong \<Rightarrow> nat result" where
  "ike_prf_len prf_mech =
    (if hmac_size prf_mech = INVALID_HASH_SIZE then Err CKR_MECHANISM_PARAM_INVALID
     else Ok (hmac_size prf_mech))"

definition prf_key_type :: "ck_ulong \<Rightarrow> ck_ulong result" where
  "prf_key_type m =
    (if m = CKM_SHA_1_HMAC then Ok CKK_SHA_1_HMAC
     else if m = CKM_SHA224_HMAC then Ok CKK_SHA224_HMAC
     else if m = CKM_SHA256_HMAC then Ok CKK_SHA256_HMAC
     else if m = CKM_SHA384_HMAC then Ok CKK_SHA384_HMAC
     else if m = CKM_SHA512_HMAC then Ok CKK_SHA512_HMAC
     else if m = CKM_SHA3_224_HMAC then Ok CKK_SHA3_224_HMAC
     else if m = CKM_SHA3_256_HMAC then Ok CKK_SHA3_256_HMAC
     else if m = CKM_SHA3_384_HMAC then Ok CKK_SHA3_384_HMAC
     else if m = CKM_SHA3_512_HMAC then Ok CKK_SHA3_512_HMAC
     else if m = CKM_SHA512_224_HMAC then Ok CKK_SHA512_224_HMAC
     else if m = CKM_SHA512_256_HMAC then Ok CKK_SHA512_256_HMAC
     else Err CKR_MECHANISM_PARAM_INVALID)"

definition require_prf_base_key_type :: "ck_ulong \<Rightarrow> object \<Rightarrow> unit result" where
  "require_prf_base_key_type mech key =
    and_then (prf_key_type mech) (\<lambda>expected.
    and_then (get_attr_as_ulong CKA_KEY_TYPE key) (\<lambda>t.
      if t = expected then Ok () else Err CKR_KEY_TYPE_INCONSISTENT))"

text \<open>One HMAC over the parts; an operation that has ended is reset first.\<close>

definition ike_prf :: "bytes list \<Rightarrow> nat \<Rightarrow> crypto_op \<Rightarrow> bytes result \<times> crypto_op" where
  "ike_prf parts n op =
    st_then (if co_finalized op then op_reset op else (Ok (), op)) (\<lambda>_. op_all parts n)"

definition ike_hmac :: "'c digest_lib \<Rightarrow> hmac_codec \<Rightarrow> ck_ulong \<Rightarrow> bytes \<Rightarrow> nat \<Rightarrow> crypto_op result" where
  "ike_hmac dl hc prf_mech key n =
    and_then (hmac_internal dl prf_mech key n) (\<lambda>hm. Ok (hmac_op dl hc (hmac_sign_call dl) hm))"

definition ike_derive_setup ::
    "factories \<Rightarrow> bytes \<Rightarrow> object \<Rightarrow> ck_attrs \<Rightarrow> nat \<Rightarrow> ck_ulong option \<Rightarrow> (object \<times> nat) result" where
  "ike_derive_setup fs uuid key template default_len default_key_type =
    (case default_key_type of
       Some kt \<Rightarrow>
         and_then (derive_key_from_template fs uuid key
           (add_missing_ulong CKA_KEY_TYPE kt (add_missing_ulong CKA_CLASS CKO_SECRET_KEY template)))
           (derived_len default_len)
     | None \<Rightarrow> common_derive_key_object fs uuid key template default_len)"

section \<open>Parameters\<close>

definition opt_bytes :: "pvalue \<Rightarrow> ck_ulong \<Rightarrow> bytes option result" where
  "opt_bytes p len =
    (if is_null p then (if len = 0 then Ok None else Err CKR_MECHANISM_PARAM_INVALID)
     else if len = 0 then Err CKR_MECHANISM_PARAM_INVALID
     else Ok (Some (bytes_to_vec p (unat len))))"

definition check_ni_nr :: "pvalue \<Rightarrow> ck_ulong \<Rightarrow> pvalue \<Rightarrow> ck_ulong \<Rightarrow> nat \<Rightarrow> bytes result" where
  "check_ni_nr p_a len_a p_b len_b min_each =
    (if is_null p_a \<or> unat len_a < min_each \<or> is_null p_b \<or> unat len_b < min_each
       then Err CKR_MECHANISM_PARAM_INVALID
     else Ok (mem_bytes p_a (unat len_a) @ mem_bytes p_b (unat len_b)))"

text \<open>A handle that a flag asks for must be valid.\<close>

definition flagged_handle :: "u8 \<Rightarrow> ck_ulong \<Rightarrow> ck_ulong result" where
  "flagged_handle flag h =
    (if flag \<noteq> CK_FALSE then
       (if h = CK_INVALID_HANDLE then Err CKR_MECHANISM_PARAM_INVALID else Ok h)
     else Ok CK_INVALID_HANDLE)"

fun ike_prf_struct :: "param_struct \<Rightarrow> ck_ike_prf_derive_params option" where
  "ike_prf_struct (IkePrfParams p) = Some p"
| "ike_prf_struct _ = None"

fun ike1_prf_struct :: "param_struct \<Rightarrow> ck_ike1_prf_derive_params option" where
  "ike1_prf_struct (Ike1PrfParams p) = Some p"
| "ike1_prf_struct _ = None"

fun ike1_extended_struct :: "param_struct \<Rightarrow> ck_ike1_extended_derive_params option" where
  "ike1_extended_struct (Ike1ExtendedParams p) = Some p"
| "ike1_extended_struct _ = None"

fun ike2_prf_plus_struct :: "param_struct \<Rightarrow> ck_ike2_prf_plus_derive_params option" where
  "ike2_prf_plus_struct (Ike2PrfPlusParams p) = Some p"
| "ike2_prf_plus_struct _ = None"

text \<open>The value of an object that the parameter names; a generic secret where it must be one.\<close>

definition received_secret :: "bool \<Rightarrow> object \<Rightarrow> bytes result" where
  "received_secret generic obj =
    and_then
      (if generic then
         and_then (get_attr_as_ulong CKA_KEY_TYPE obj) (\<lambda>t.
           if t \<noteq> CKK_GENERIC_SECRET then Err CKR_KEY_TYPE_INCONSISTENT else Ok ())
       else Ok ()) (\<lambda>_. get_attr_as_bytes CKA_VALUE obj)"

definition optional_handle :: "ck_ulong \<Rightarrow> ck_ulong list result" where
  "optional_handle h = (if h \<noteq> CK_INVALID_HANDLE then Ok [h] else Err CKR_OK)"

section \<open>The seed key\<close>

record ike_prf_operation =
  ip_prf :: ck_ulong
  ip_prf_len :: nat
  ip_data_as_key :: bool
  ip_ni_nr :: bytes
  ip_new_key_handle :: ck_ulong
  ip_new_key :: "bytes option"

definition ike_prf_new :: "ck_mechanism \<Rightarrow> ike_prf_operation result" where
  "ike_prf_new m =
    and_then (get_parameters 56 ike_prf_struct m) (\<lambda>params.
    let data_as_key = (ik_bDataAsKey params \<noteq> CK_FALSE); rekey = (ik_bRekey params \<noteq> CK_FALSE) in
    if data_as_key \<and> rekey then Err CKR_MECHANISM_PARAM_INVALID
    else and_then (flagged_handle (ik_bRekey params) (ik_hNewKey params)) (\<lambda>new_key_handle.
    and_then (ike_prf_len (ik_prfMechanism params)) (\<lambda>n.
    and_then (check_ni_nr (ik_pNi params) (ik_ulNiLen params) (ik_pNr params) (ik_ulNrLen params) 16) (\<lambda>ni_nr.
      Ok \<lparr>ip_prf = ik_prfMechanism params, ip_prf_len = n, ip_data_as_key = data_as_key, ip_ni_nr = ni_nr,
          ip_new_key_handle = new_key_handle, ip_new_key = None\<rparr>))))"

definition ike_prf_receives :: "ike_prf_operation \<Rightarrow> object list \<Rightarrow> unit result \<times> ike_prf_operation" where
  "ike_prf_receives ip objs =
    (if length objs \<noteq> 1 then (Err CKR_GENERAL_ERROR, ip)
     else case received_secret True (hd objs) of
       Inl e \<Rightarrow> (Inl e, ip)
     | Inr v \<Rightarrow> (Ok (), ip\<lparr>ip_new_key := Some v\<rparr>))"

definition ike_prf_output :: "'c digest_lib \<Rightarrow> hmac_codec \<Rightarrow> ike_prf_operation \<Rightarrow> bytes \<Rightarrow> bytes result" where
  "ike_prf_output dl hc ip key_bytes =
    (if ip_data_as_key ip then
       and_then (ike_hmac dl hc (ip_prf ip) (ip_ni_nr ip) (ip_prf_len ip)) (\<lambda>hmac.
         fst (ike_prf [key_bytes] (ip_prf_len ip) hmac))
     else
       and_then (ike_hmac dl hc (ip_prf ip) key_bytes (ip_prf_len ip)) (\<lambda>hmac.
         if ip_new_key_handle ip \<noteq> CK_INVALID_HANDLE then
           (case ip_new_key ip of
              None \<Rightarrow> Err CKR_GENERAL_ERROR
            | Some new_key \<Rightarrow> fst (ike_prf [new_key, ip_ni_nr ip] (ip_prf_len ip) hmac))
         else fst (ike_prf [ip_ni_nr ip] (ip_prf_len ip) hmac)))"

definition ike_prf_derive ::
    "'c digest_lib \<Rightarrow> hmac_codec \<Rightarrow> bytes \<Rightarrow> ike_prf_operation \<Rightarrow> object \<Rightarrow> ck_attrs \<Rightarrow> mechanisms \<Rightarrow> factories \<Rightarrow>
      object list result" where
  "ike_prf_derive dl hc uuid ip key template mechs fs =
    and_then
      (if ip_data_as_key ip then
         and_then (get_attr_as_ulong CKA_KEY_TYPE key) (\<lambda>t.
           if t \<noteq> CKK_GENERIC_SECRET then Err CKR_KEY_TYPE_INCONSISTENT else Ok ())
       else require_prf_base_key_type (ip_prf ip) key) (\<lambda>_.
    and_then (prf_key_type (ip_prf ip)) (\<lambda>kt.
    and_then (ike_derive_setup fs uuid key template (ip_prf_len ip) (Some kt)) (\<lambda>(obj, keysize).
    and_then (get_attr_as_bytes CKA_VALUE key) (\<lambda>key_bytes.
    and_then (ike_prf_output dl hc ip key_bytes) (\<lambda>out.
    if keysize \<noteq> length out then Err CKR_TEMPLATE_INCONSISTENT
    else and_then (set_attr (from_bytes CKA_VALUE out) obj) (\<lambda>obj1. Ok [obj1]))))))"

primcorec ike_prf_op :: "'c digest_lib \<Rightarrow> hmac_codec \<Rightarrow> bytes \<Rightarrow> ike_prf_operation \<Rightarrow> derive_op" where
  "ike_prf_op dl hc uuid ip = DeriveOp (optional_handle (ip_new_key_handle ip))
     (\<lambda>objs. map_prod id (ike_prf_op dl hc uuid) (ike_prf_receives ip objs))
     (ike_prf_derive dl hc uuid ip)"

section \<open>The keys of version 1\<close>

record ike1_prf_operation =
  i1p_prf :: ck_ulong
  i1p_prf_len :: nat
  i1p_keygxy_handle :: ck_ulong
  i1p_prev_handle :: ck_ulong
  i1p_keygxy :: "bytes option"
  i1p_prev_key :: "bytes option"
  i1p_cky :: bytes
  i1p_key_number :: u8

definition ike1_prf_new :: "ck_mechanism \<Rightarrow> ike1_prf_operation result" where
  "ike1_prf_new m =
    and_then (get_parameters 72 ike1_prf_struct m) (\<lambda>params.
    if i1_hKeygxy params = CK_INVALID_HANDLE then Err CKR_MECHANISM_PARAM_INVALID
    else and_then (flagged_handle (i1_bHasPrevKey params) (i1_hPrevKey params)) (\<lambda>prev.
    and_then (ike_prf_len (i1_prfMechanism params)) (\<lambda>n.
    and_then (check_ni_nr (i1_pCKYi params) (i1_ulCKYiLen params) (i1_pCKYr params) (i1_ulCKYrLen params) 8) (\<lambda>cky.
      Ok \<lparr>i1p_prf = i1_prfMechanism params, i1p_prf_len = n, i1p_keygxy_handle = i1_hKeygxy params,
          i1p_prev_handle = prev, i1p_keygxy = None, i1p_prev_key = None, i1p_cky = cky,
          i1p_key_number = i1_keyNumber params\<rparr>))))"

definition ike1_prf_requires :: "ike1_prf_operation \<Rightarrow> ck_ulong list result" where
  "ike1_prf_requires ip =
    (if i1p_prev_handle ip \<noteq> CK_INVALID_HANDLE then Ok [i1p_keygxy_handle ip, i1p_prev_handle ip]
     else Ok [i1p_keygxy_handle ip])"

definition ike1_prf_receives :: "ike1_prf_operation \<Rightarrow> object list \<Rightarrow> unit result \<times> ike1_prf_operation" where
  "ike1_prf_receives ip objs =
    (if length objs \<noteq> (if i1p_prev_handle ip \<noteq> CK_INVALID_HANDLE then 2 else 1) then (Err CKR_GENERAL_ERROR, ip)
     else case received_secret True (hd objs) of
       Inl e \<Rightarrow> (Inl e, ip)
     | Inr gxy \<Rightarrow>
       let ip1 = ip\<lparr>i1p_keygxy := Some gxy\<rparr> in
       if i1p_prev_handle ip \<noteq> CK_INVALID_HANDLE then
         (case received_secret False (objs ! 1) of
            Inl e \<Rightarrow> (Inl e, ip1)
          | Inr prev \<Rightarrow> (Ok (), ip1\<lparr>i1p_prev_key := Some prev\<rparr>))
       else (Ok (), ip1))"

definition ike1_prf_parts :: "ike1_prf_operation \<Rightarrow> bytes \<Rightarrow> bytes list" where
  "ike1_prf_parts ip gxy =
    (case i1p_prev_key ip of Some pk \<Rightarrow> [pk] | None \<Rightarrow> []) @ [gxy, i1p_cky ip, [i1p_key_number ip]]"

definition ike1_prf_derive ::
    "'c digest_lib \<Rightarrow> hmac_codec \<Rightarrow> bytes \<Rightarrow> ike1_prf_operation \<Rightarrow> object \<Rightarrow> ck_attrs \<Rightarrow> mechanisms \<Rightarrow> factories \<Rightarrow>
      object list result" where
  "ike1_prf_derive dl hc uuid ip key template mechs fs =
    and_then (require_prf_base_key_type (i1p_prf ip) key) (\<lambda>_.
    if \<not> list_ex (\<lambda>a. attr_type a = CKA_KEY_TYPE) template then Err CKR_TEMPLATE_INCOMPLETE
    else and_then (ike_derive_setup fs uuid key template (i1p_prf_len ip) None) (\<lambda>(obj, keysize).
    case i1p_keygxy ip of
      None \<Rightarrow> Err CKR_GENERAL_ERROR
    | Some gxy \<Rightarrow>
      if keysize > i1p_prf_len ip then Err CKR_KEY_SIZE_RANGE
      else and_then (get_attr_as_bytes CKA_VALUE key) (\<lambda>key_bytes.
      and_then (ike_hmac dl hc (i1p_prf ip) key_bytes (i1p_prf_len ip)) (\<lambda>hmac.
      and_then (fst (ike_prf (ike1_prf_parts ip gxy) (i1p_prf_len ip) hmac)) (\<lambda>out.
      and_then (set_attr (from_bytes CKA_VALUE (take keysize out)) obj) (\<lambda>obj1. Ok [obj1]))))))"

primcorec ike1_prf_op :: "'c digest_lib \<Rightarrow> hmac_codec \<Rightarrow> bytes \<Rightarrow> ike1_prf_operation \<Rightarrow> derive_op" where
  "ike1_prf_op dl hc uuid ip = DeriveOp (ike1_prf_requires ip)
     (\<lambda>objs. map_prod id (ike1_prf_op dl hc uuid) (ike1_prf_receives ip objs))
     (ike1_prf_derive dl hc uuid ip)"

section \<open>The expansion of version 1\<close>

record ike1_extended_operation =
  iep_prf :: ck_ulong
  iep_prf_len :: nat
  iep_keygxy_handle :: ck_ulong
  iep_keygxy :: "bytes option"
  iep_extra_data :: "bytes option"

definition ike1_extended_new :: "ck_mechanism \<Rightarrow> ike1_extended_operation result" where
  "ike1_extended_new m =
    and_then (get_parameters 40 ike1_extended_struct m) (\<lambda>params.
    and_then (flagged_handle (ie_bHasKeygxy params) (ie_hKeygxy params)) (\<lambda>h.
    and_then (ike_prf_len (ie_prfMechanism params)) (\<lambda>n.
    and_then (opt_bytes (ie_pExtraData params) (ie_ulExtraDataLen params)) (\<lambda>extra.
      Ok \<lparr>iep_prf = ie_prfMechanism params, iep_prf_len = n, iep_keygxy_handle = h, iep_keygxy = None,
          iep_extra_data = extra\<rparr>))))"

definition ike1_extended_receives ::
    "ike1_extended_operation \<Rightarrow> object list \<Rightarrow> unit result \<times> ike1_extended_operation" where
  "ike1_extended_receives ip objs =
    (if length objs \<noteq> 1 then (Err CKR_GENERAL_ERROR, ip)
     else case received_secret True (hd objs) of
       Inl e \<Rightarrow> (Inl e, ip)
     | Inr v \<Rightarrow> (Ok (), ip\<lparr>iep_keygxy := Some v\<rparr>))"

definition optional_parts :: "bytes option \<Rightarrow> bytes option \<Rightarrow> bytes list" where
  "optional_parts a b =
    (case a of Some x \<Rightarrow> [x] | None \<Rightarrow> []) @ (case b of Some y \<Rightarrow> [y] | None \<Rightarrow> [])"

text \<open>
  The loop, from the length that is filled and the block before; blocks have the length of the function,
  which is not zero for a function that exists.
\<close>

function ike1_blocks ::
    "bytes list \<Rightarrow> nat \<Rightarrow> nat \<Rightarrow> nat \<Rightarrow> bytes \<Rightarrow> crypto_op \<Rightarrow> bytes result" where
  "ike1_blocks parts n keysize filled kn hmac =
    (if n = 0 \<or> keysize \<le> filled then Ok []
     else case ike_prf (kn # parts) n hmac of
       (Inl e, _) \<Rightarrow> Inl e
     | (Inr block, hmac1) \<Rightarrow>
       and_then (ike1_blocks parts n keysize (filled + n) block hmac1) (\<lambda>rest. Ok (block @ rest)))"
  by pat_completeness auto
termination
  by (relation "measure (\<lambda>(parts, n, keysize, filled, kn, hmac). keysize - filled)") auto

declare ike1_blocks.simps [simp del]

definition ike1_extended_derive ::
    "'c digest_lib \<Rightarrow> hmac_codec \<Rightarrow> bytes \<Rightarrow> ike1_extended_operation \<Rightarrow> object \<Rightarrow> ck_attrs \<Rightarrow> mechanisms \<Rightarrow> factories \<Rightarrow>
      object list result" where
  "ike1_extended_derive dl hc uuid ip key template mechs fs =
    and_then (require_prf_base_key_type (iep_prf ip) key) (\<lambda>_.
    and_then (ike_derive_setup fs uuid key template 0 (Some CKK_GENERIC_SECRET)) (\<lambda>(obj, keysize).
    if keysize = 0 then Err CKR_TEMPLATE_INCOMPLETE
    else if keysize > 255 * iep_prf_len ip then Err CKR_KEY_SIZE_RANGE
    else and_then (get_attr_as_bytes CKA_VALUE key) (\<lambda>key_bytes.
    and_then (ike_hmac dl hc (iep_prf ip) key_bytes (iep_prf_len ip)) (\<lambda>hmac.
    let n = iep_prf_len ip;
        parts = optional_parts (iep_keygxy ip) (iep_extra_data ip) in
    case ike_prf (if parts = [] then [[0]] else parts) n hmac of
      (Inl e, _) \<Rightarrow> Inl e
    | (Inr block, hmac1) \<Rightarrow>
      and_then (ike1_blocks parts n keysize n block hmac1) (\<lambda>rest.
      and_then (set_attr (from_bytes CKA_VALUE (take keysize (block @ rest))) obj) (\<lambda>obj1. Ok [obj1]))))))"

primcorec ike1_extended_op :: "'c digest_lib \<Rightarrow> hmac_codec \<Rightarrow> bytes \<Rightarrow> ike1_extended_operation \<Rightarrow> derive_op" where
  "ike1_extended_op dl hc uuid ip = DeriveOp (optional_handle (iep_keygxy_handle ip))
     (\<lambda>objs. map_prod id (ike1_extended_op dl hc uuid) (ike1_extended_receives ip objs))
     (ike1_extended_derive dl hc uuid ip)"

section \<open>The expansion of version 2\<close>

record ike2_prf_plus_operation =
  i2p_prf :: ck_ulong
  i2p_prf_len :: nat
  i2p_seed_key_handle :: ck_ulong
  i2p_seed_key :: "bytes option"
  i2p_seed_data :: "bytes option"

definition ike2_prf_plus_new :: "ck_mechanism \<Rightarrow> ike2_prf_plus_operation result" where
  "ike2_prf_plus_new m =
    and_then (get_parameters 40 ike2_prf_plus_struct m) (\<lambda>params.
    and_then (flagged_handle (i2_bHasSeedKey params) (i2_hSeedKey params)) (\<lambda>h.
    and_then (opt_bytes (i2_pSeedData params) (i2_ulSeedDataLen params)) (\<lambda>seed_data.
    if h = CK_INVALID_HANDLE \<and> seed_data = None then Err CKR_MECHANISM_PARAM_INVALID
    else and_then (ike_prf_len (i2_prfMechanism params)) (\<lambda>n.
      Ok \<lparr>i2p_prf = i2_prfMechanism params, i2p_prf_len = n, i2p_seed_key_handle = h, i2p_seed_key = None,
          i2p_seed_data = seed_data\<rparr>))))"

definition ike2_prf_plus_receives ::
    "ike2_prf_plus_operation \<Rightarrow> object list \<Rightarrow> unit result \<times> ike2_prf_plus_operation" where
  "ike2_prf_plus_receives ip objs =
    (if length objs \<noteq> 1 then (Err CKR_GENERAL_ERROR, ip)
     else case received_secret False (hd objs) of
       Inl e \<Rightarrow> (Inl e, ip)
     | Inr v \<Rightarrow> (Ok (), ip\<lparr>i2p_seed_key := Some v\<rparr>))"

text \<open>The loop, with a counter of eight bits that may not overflow.\<close>

lemma counter_step:
  assumes "(c :: u8) \<noteq> 255"
  shows "unat c < 255" and "unat (c + 1) = unat c + 1"
proof -
  have "unat c < 2 ^ LENGTH(8)" by (rule unsigned_less)
  moreover have "unat c \<noteq> unat (255 :: u8)" using assms unsigned_word_eqI by blast
  ultimately show less: "unat c < 255" by simp
  have "1 + c \<noteq> 0"
  proof
    assume "1 + c = 0"
    then have "c = 255" by (simp add: add_eq_0_iff)
    then show False using assms by blast
  qed
  then show "unat (c + 1) = unat c + 1" using unatSuc[of c] by (simp add: add.commute)
qed

function ike2_blocks ::
    "bytes list \<Rightarrow> nat \<Rightarrow> nat \<Rightarrow> u8 \<Rightarrow> nat \<Rightarrow> bytes \<Rightarrow> crypto_op \<Rightarrow> bytes result" where
  "ike2_blocks parts n keysize counter filled tn hmac =
    (if keysize \<le> filled then Ok []
     else if counter = 255 then Err CKR_KEY_SIZE_RANGE
     else case ike_prf (tn # parts @ [[counter + 1]]) n hmac of
       (Inl e, _) \<Rightarrow> Inl e
     | (Inr block, hmac1) \<Rightarrow>
       and_then (ike2_blocks parts n keysize (counter + 1) (filled + n) block hmac1) (\<lambda>rest. Ok (block @ rest)))"
  by pat_completeness auto
termination
proof (relation "measure (\<lambda>(parts, n, keysize, counter, filled, tn, hmac). 255 - unat counter)", goal_cases)
  case (2 parts n keysize counter)
  then show ?case using counter_step[of counter] by (simp add: add.commute diff_less_mono2)
qed simp

declare ike2_blocks.simps [simp del]

definition ike2_prf_plus_derive ::
    "'c digest_lib \<Rightarrow> hmac_codec \<Rightarrow> bytes \<Rightarrow> ike2_prf_plus_operation \<Rightarrow> object \<Rightarrow> ck_attrs \<Rightarrow> mechanisms \<Rightarrow> factories \<Rightarrow>
      object list result" where
  "ike2_prf_plus_derive dl hc uuid ip key template mechs fs =
    and_then (require_prf_base_key_type (i2p_prf ip) key) (\<lambda>_.
    and_then (ike_derive_setup fs uuid key template 0 (Some CKK_GENERIC_SECRET)) (\<lambda>(obj, keysize).
    if keysize = 0 then Err CKR_TEMPLATE_INCOMPLETE
    else if keysize > 255 * i2p_prf_len ip then Err CKR_KEY_SIZE_RANGE
    else and_then (get_attr_as_bytes CKA_VALUE key) (\<lambda>key_bytes.
    and_then (ike_hmac dl hc (i2p_prf ip) key_bytes (i2p_prf_len ip)) (\<lambda>hmac.
    let n = i2p_prf_len ip;
        parts = optional_parts (i2p_seed_key ip) (i2p_seed_data ip) in
    case ike_prf (parts @ [[1]]) n hmac of
      (Inl e, _) \<Rightarrow> Inl e
    | (Inr block, hmac1) \<Rightarrow>
      and_then (ike2_blocks parts n keysize 1 n block hmac1) (\<lambda>rest.
      and_then (set_attr (from_bytes CKA_VALUE (take keysize (block @ rest))) obj) (\<lambda>obj1. Ok [obj1]))))))"

primcorec ike2_prf_plus_op :: "'c digest_lib \<Rightarrow> hmac_codec \<Rightarrow> bytes \<Rightarrow> ike2_prf_plus_operation \<Rightarrow> derive_op" where
  "ike2_prf_plus_op dl hc uuid ip = DeriveOp (optional_handle (i2p_seed_key_handle ip))
     (\<lambda>objs. map_prod id (ike2_prf_plus_op dl hc uuid) (ike2_prf_plus_receives ip objs))
     (ike2_prf_plus_derive dl hc uuid ip)"

section \<open>The mechanism\<close>

definition ike_mechanism :: "'c digest_lib \<Rightarrow> hmac_codec \<Rightarrow> bytes \<Rightarrow> ck_mechanism_info \<Rightarrow> mech_ops" where
  "ike_mechanism dl hc uuid info =
    default_mech_ops\<lparr>mo_derive_operation := (\<lambda>m.
      if mi_flags info AND CKF_DERIVE \<noteq> CKF_DERIVE then Err CKR_MECHANISM_INVALID
      else if cm_mechanism m = CKM_IKE_PRF_DERIVE
        then and_then (ike_prf_new m) (\<lambda>ip. Ok (ike_prf_op dl hc uuid ip))
      else if cm_mechanism m = CKM_IKE1_PRF_DERIVE
        then and_then (ike1_prf_new m) (\<lambda>ip. Ok (ike1_prf_op dl hc uuid ip))
      else if cm_mechanism m = CKM_IKE1_EXTENDED_DERIVE
        then and_then (ike1_extended_new m) (\<lambda>ip. Ok (ike1_extended_op dl hc uuid ip))
      else if cm_mechanism m = CKM_IKE2_PRF_PLUS_DERIVE
        then and_then (ike2_prf_plus_new m) (\<lambda>ip. Ok (ike2_prf_plus_op dl hc uuid ip))
      else Err CKR_MECHANISM_INVALID)\<rparr>"

definition IKE_MECH :: ck_mechanism_info where
  "IKE_MECH = \<lparr>ulMinKeySize = 0, ulMaxKeySize = 0xFFFFFFFF, mi_flags = CKF_DERIVE\<rparr>"

definition register_ike :: "mechanisms \<Rightarrow> mechanisms" where
  "register_ike mechs =
    fold (\<lambda>ckm. add_mechanism ckm IKE_MECH)
      [CKM_IKE_PRF_DERIVE, CKM_IKE1_PRF_DERIVE, CKM_IKE1_EXTENDED_DERIVE, CKM_IKE2_PRF_PLUS_DERIVE] mechs"

end
