(* ===== verification/Ike_Laws.thy ===== *)
theory Ike_Laws
  imports Ike Tls_Laws
begin

text \<open>
  The derivations of IKE give the keys of RFC 2409 and RFC 7296.
\<close>

section \<open>The function\<close>

lemma ike_prf_hash:
  assumes "ike_prf_len t = Ok n" and "prf_key_type t = Ok kt"
  obtains h where "hmac_mech_to_hash_mech t = Ok h" and "n = hash_size h" and "typed_prf t kt"
proof -
  have "list_ex (\<lambda>hs. hb_mac hs = t \<and> hb_key_type hs = kt) HASH_MECH_SET"
    using assms(2) unfolding prf_key_type_def by (auto simp: HASH_MECH_SET_def split: if_split_asm)
  then obtain hs where hs: "hs \<in> set HASH_MECH_SET" "t = hb_mac hs" "kt = hb_key_type hs"
    by (auto simp: list_ex_iff)
  have "list_all (\<lambda>hs. hmac_mech_to_hash_mech (hb_mac hs) = Ok (hb_hash hs) \<and>
      hmac_size (hb_mac hs) = hash_size (hb_hash hs) \<and> hb_key_type hs \<noteq> CK_UNAVAILABLE_INFORMATION) HASH_MECH_SET"
    by (simp add: HASH_MECH_SET_def hmac_mech_to_hash_mech_def hmac_size_def hash_size_def)
  then have "hmac_mech_to_hash_mech t = Ok (hb_hash hs)" "hmac_size t = hash_size (hb_hash hs)"
      "kt \<noteq> CK_UNAVAILABLE_INFORMATION"
    using hs by (auto simp: list_all_iff)
  then show ?thesis
    using assms(1) hs by (intro that) (auto simp: ike_prf_len_def typed_prf_def list_ex_iff split: if_split_asm)
qed

lemma ike_hmac_computes:
  assumes "digest_contract dl H absorbed" and "hmac_mech_to_hash_mech t = Ok h"
  obtains op where "ike_hmac dl hc t k (hash_size h) = Ok op"
    and "computes (hmac_spec (H h) (block_size h) k) (hash_size h) Fresh op"
proof -
  obtain hm where "hmac_internal dl t k (hash_size h) = Ok hm"
      "computes (hmac_value H h k (hash_size h)) (hash_size h) Fresh (hmac_op dl hc (hmac_sign_call dl) hm)"
    by (rule new_hmac_computes[OF assms order.refl])
  then show ?thesis
    unfolding full_hmac_value[OF assms(1) hmac_hash_valid[OF assms(2)]]
    by (intro that) (simp_all add: ike_hmac_def)
qed

lemma ike_prf_value:
  assumes "computes F n s op" and "s = Fresh \<or> s = Ended"
  obtains op1 where "ike_prf parts n op = (Ok (F (concat parts)), op1)" and "computes F n Ended op1"
proof -
  obtain op0 where 0: "(if co_finalized op then op_reset op else (Ok (), op)) = (Ok (), op0)" "computes F n Fresh op0"
  proof (cases "s = Fresh")
    case True
    then show ?thesis using that assms(1) computes_finalized[OF assms(1)] by simp
  next
    case False
    then show ?thesis
      using that assms(2) computes_finalized[OF assms(1)] by (auto elim: computes_reset[OF assms(1)])
  qed
  obtain op1 where "op_all parts n op0 = (Ok (F (concat parts)), op1)" "computes F n Ended op1"
    by (rule computes_all[OF 0(2), of parts]) simp_all
  then show ?thesis using 0(1) by (intro that) (simp_all add: ike_prf_def)
qed

section \<open>The seed key\<close>

text \<open>What RFC 2409 and RFC 7296 define for the three uses.\<close>

definition ike_seed_key :: "(bytes \<Rightarrow> bytes \<Rightarrow> bytes) \<Rightarrow> ike_prf_operation \<Rightarrow> bytes \<Rightarrow> bytes" where
  "ike_seed_key HMAC ip k =
    (if ip_data_as_key ip then HMAC (ip_ni_nr ip) k
     else case ip_new_key ip of
       Some new_key \<Rightarrow> HMAC k (new_key @ ip_ni_nr ip)
     | None \<Rightarrow> HMAC k (ip_ni_nr ip))"

text \<open>
  The seed key of IKE (\<^verbatim>\<open>IkePrfOperation::derive\<close>): the HMAC of the base key under both nonces, or of the
  nonces under the base key, after the new key when the exchange is a rekeying. It fills the whole output
  of the function, and an object of another length is refused.
\<close>

theorem ike_seed_key_of_rfc:
  assumes "digest_contract dl H absorbed" and "ike_prf_new m = Ok ip0"
    and "ip = ip0 \<and> ip_new_key_handle ip0 = CK_INVALID_HANDLE \<or> ike_prf_receives ip0 objs = (Ok (), ip) \<and> ip_new_key_handle ip0 \<noteq> CK_INVALID_HANDLE"
    and "get_attr_as_bytes CKA_VALUE key = Ok k"
    and "if ip_data_as_key ip then get_attr_as_ulong CKA_KEY_TYPE key = Ok CKK_GENERIC_SECRET
      else require_prf_base_key_type (ip_prf ip) key = Ok ()"
    and "prf_key_type (ip_prf ip) = Ok kt"
    and "ike_derive_setup fs uuid key template (ip_prf_len ip) (Some kt) = Ok (obj, keysize)"
  shows "\<exists>h out. hmac_mech_to_hash_mech (ip_prf ip) = Ok h \<and> length out = ip_prf_len ip \<and>
    out = ike_seed_key (hmac_spec (H h) (block_size h)) ip k \<and>
    ike_prf_derive dl hc uuid ip key template mechs fs =
      (if keysize = ip_prf_len ip then Ok [with_value out obj] else Err CKR_TEMPLATE_INCONSISTENT)"
proof -
  have fields: "ip_prf ip = ip_prf ip0" "ip_prf_len ip = ip_prf_len ip0" "ip_data_as_key ip = ip_data_as_key ip0"
      "ip_ni_nr ip = ip_ni_nr ip0" "ip_new_key_handle ip = ip_new_key_handle ip0"
      "ip_new_key ip \<noteq> None \<longleftrightarrow> ip_new_key_handle ip0 \<noteq> CK_INVALID_HANDLE"
    using assms(2,3)
    by (auto simp: ike_prf_receives_def ike_prf_new_def and_then_eq_Ok Let_def split: if_split_asm sum.splits)
  have new: "ike_prf_len (ip_prf ip) = Ok (ip_prf_len ip)"
      "ip_data_as_key ip \<longrightarrow> ip_new_key_handle ip = CK_INVALID_HANDLE"
    using assms(2) unfolding fields
    by (auto simp: ike_prf_new_def and_then_eq_Ok Let_def flagged_handle_def split: if_split_asm)
  obtain h where h: "hmac_mech_to_hash_mech (ip_prf ip) = Ok h" "ip_prf_len ip = hash_size h"
    by (rule ike_prf_hash[OF new(1) assms(6)])
  let ?F = "hmac_spec (H h) (block_size h)"
  have len: "length (?F a b) = hash_size h" for a b
    using hmac_spec_length[OF assms(1) hmac_hash_valid[OF h(1)]] by blast
  have hmac_out: "and_then (ike_hmac dl hc (ip_prf ip) a (ip_prf_len ip)) (\<lambda>hmac. fst (ike_prf parts (ip_prf_len ip) hmac)) =
      Ok (?F a (concat parts))" for a parts
  proof -
    obtain op where op: "ike_hmac dl hc (ip_prf ip) a (hash_size h) = Ok op" "computes (?F a) (hash_size h) Fresh op"
      by (rule ike_hmac_computes[OF assms(1) h(1)])
    obtain op1 where "ike_prf parts (hash_size h) op = (Ok (?F a (concat parts)), op1)"
      by (rule ike_prf_value[OF op(2)]) simp
    then show ?thesis using op(1) h(2) by simp
  qed
  obtain out where out: "ike_prf_output dl hc ip k = Ok out" "out = ike_seed_key ?F ip k"
  proof
    show "ike_prf_output dl hc ip k = Ok (ike_seed_key ?F ip k)"
      using hmac_out[of "ip_ni_nr ip" "[k]"] hmac_out[of k "[ip_ni_nr ip]"]
        hmac_out[of k "[the (ip_new_key ip), ip_ni_nr ip]"] fields(5,6) new(2)
      by (auto simp: ike_prf_output_def ike_seed_key_def)
  qed simp
  have "length out = hash_size h" using out(2) len by (simp add: ike_seed_key_def split: option.splits)
  then show ?thesis
    using h out assms(4-7) by (auto simp: ike_prf_derive_def)
qed

section \<open>The expansions\<close>

text \<open>The blocks of RFC 2409, appendix B, and of \<open>prf+\<close> of RFC 7296, section 2.13.\<close>

fun ike1_K :: "(bytes \<Rightarrow> bytes) \<Rightarrow> bytes \<Rightarrow> bytes \<Rightarrow> nat \<Rightarrow> bytes" where
  "ike1_K F first rest 0 = F first"
| "ike1_K F first rest (Suc i) = F (ike1_K F first rest i @ rest)"

fun ike2_T :: "(bytes \<Rightarrow> bytes) \<Rightarrow> bytes \<Rightarrow> nat \<Rightarrow> bytes" where
  "ike2_T F S 0 = F (S @ [1])"
| "ike2_T F S (Suc i) = F (ike2_T F S i @ S @ [of_nat (i + 2)])"

definition stream_of :: "(nat \<Rightarrow> bytes) \<Rightarrow> nat \<Rightarrow> bytes" where
  "stream_of B len = take len (concat (map B [0..<len]))"

text \<open>As many blocks as are needed give the same as more of them.\<close>

lemma concat_blocks_length:
  assumes "\<And>i. length (B i) = n"
  shows "length (concat (map B [a..<b])) = (b - a) * n"
proof -
  have "map (\<lambda>i. length (B i)) [a..<b] = replicate (b - a) n"
    using assms by (intro nth_equalityI) simp_all
  then show ?thesis by (simp add: length_concat comp_def sum_list_replicate)
qed

lemma stream_of_blocks:
  assumes "\<And>i. length (B i) = n" and "0 < n" and "0 < len" and "N = (len + n - 1) div n"
  shows "take len (B 0 @ concat (map B [1..<N])) = stream_of B len"
    and "length (stream_of B len) = len"
proof -
  have fit: "len \<le> N * n" using ceiling_lt[OF assms(2)] assms(4) by blast
  then have N: "0 < N" using assms(3) by (cases N) auto
  have "len \<le> len * n" using assms(2) by simp
  then have le: "N \<le> len" using ceiling_lt[OF assms(2)] assms(4) by blast
  have all: "concat (map B [0..<len]) = concat (map B [0..<N]) @ concat (map B [N..<len])"
    using upt_add_eq_append[of 0 N "len - N"] le by simp
  have first: "B 0 @ concat (map B [1..<N]) = concat (map B [0..<N])"
    using N by (simp add: upt_conv_Cons)
  show "take len (B 0 @ concat (map B [1..<N])) = stream_of B len"
    unfolding first stream_of_def all using fit by (simp add: concat_blocks_length[OF assms(1)])
  show "length (stream_of B len) = len"
    unfolding stream_of_def length_take concat_blocks_length[OF assms(1)] using \<open>len \<le> len * n\<close> by simp
qed

lemma ike1_blocks_value:
  assumes "computes F n Ended op" and "0 < n" and "N = (keysize + n - 1) div n"
  shows "ike1_blocks parts n keysize (Suc i * n) (ike1_K F first (concat parts) i) op =
    Ok (concat (map (ike1_K F first (concat parts)) [Suc i..<N]))"
  using assms(1)
proof (induction "N - Suc i" arbitrary: i op)
  case 0
  then have "keysize \<le> Suc i * n" using ceiling_lt[OF assms(2), of keysize "Suc i"] assms(3) by linarith
  then show ?case using 0 by (subst ike1_blocks.simps) simp
next
  case (Suc k)
  let ?K = "ike1_K F first (concat parts)"
  have more: "\<not> keysize \<le> Suc i * n" and i: "Suc i < N"
    using Suc.hyps(2) ceiling_lt[OF assms(2)] assms(3) by (metis diff_is_0_eq nat.distinct(1), simp)
  obtain op1 where 1: "ike_prf (?K i # parts) n op = (Ok (?K (Suc i)), op1)" "computes F n Ended op1"
    by (rule ike_prf_value[OF Suc.prems, of "?K i # parts"]) simp_all
  have "k = N - Suc (Suc i)" using Suc.hyps(2) by simp
  from Suc.hyps(1)[OF this 1(2)] show ?case
    using 1(1) more assms(2) i by (subst ike1_blocks.simps) (simp add: add.commute upt_rec[of "Suc i"])
qed

lemma ike2_blocks_value:
  assumes "computes F n Ended op" and "0 < n" and "N = (keysize + n - 1) div n" and "N \<le> 255" and "i < 255"
  shows "ike2_blocks parts n keysize (of_nat (Suc i)) (Suc i * n) (ike2_T F (concat parts) i) op =
    Ok (concat (map (ike2_T F (concat parts)) [Suc i..<N]))"
  using assms(1,5)
proof (induction "N - Suc i" arbitrary: i op)
  case 0
  then have "keysize \<le> Suc i * n" using ceiling_lt[OF assms(2), of keysize "Suc i"] assms(3) by linarith
  then show ?case using 0 by (subst ike2_blocks.simps) simp
next
  case (Suc k)
  let ?T = "ike2_T F (concat parts)"
  have more: "\<not> keysize \<le> Suc i * n" and i: "Suc i < N"
    using Suc.hyps(2) ceiling_lt[OF assms(2)] assms(3) by (metis diff_is_0_eq nat.distinct(1), simp)
  then have small: "Suc i < 255" using assms(4) by simp
  have "(of_nat (Suc i) :: u8) \<noteq> 255"
  proof
    assume "(of_nat (Suc i) :: u8) = 255"
    then have "unat (of_nat (Suc i) :: u8) = unat (255 :: u8)" by simp
    then show False using small by (simp add: unsigned_of_nat take_bit_nat_eq_self del: of_nat_Suc)
  qed
  moreover have succ: "(of_nat (Suc i) :: u8) + 1 = of_nat (Suc (Suc i))" by simp
  obtain op1 where 1: "ike_prf (?T i # parts @ [[of_nat (Suc (Suc i))]]) n op = (Ok (?T (Suc i)), op1)"
      "computes F n Ended op1"
    by (rule ike_prf_value[OF Suc.prems(1), of "?T i # parts @ [[of_nat (Suc (Suc i))]]"]) simp_all
  have "k = N - Suc (Suc i)" using Suc.hyps(2) by simp
  from Suc.hyps(1)[OF this 1(2) small] show ?case
    using 1(1) more i calculation unfolding succ mult_Suc[of "Suc i"] add.commute[of n "Suc i * n"]
    by (subst ike2_blocks.simps) (simp add: upt_rec[of "Suc i"] succ del: of_nat_Suc mult_Suc)
qed

lemma ike1_extended_derive_steps:
  assumes "require_prf_base_key_type (iep_prf ip) key = Ok ()"
    and "ike_derive_setup fs uuid key template 0 (Some CKK_GENERIC_SECRET) = Ok (obj, keysize)"
    and "0 < keysize" and "keysize \<le> 255 * n" and "iep_prf_len ip = n" and "get_attr_as_bytes CKA_VALUE key = Ok k"
    and "ike_hmac dl hc (iep_prf ip) k n = Ok op"
    and "parts = optional_parts (iep_keygxy ip) (iep_extra_data ip)"
    and "ike_prf (if parts = [] then [[0]] else parts) n op = (Ok block, op1)"
    and "ike1_blocks parts n keysize n block op1 = Ok rest" and "take keysize (block @ rest) = out"
  shows "ike1_extended_derive dl hc uuid ip key template mechs fs = Ok [with_value out obj]"
  using assms(1-7,9-11) unfolding ike1_extended_derive_def Let_def assms(8)[symmetric]
  by (simp split del: if_split)

text \<open>
  The expansion of version 1 (\<^verbatim>\<open>Ike1ExtendedOperation::derive\<close>) is that of RFC 2409, appendix B, for every
  length up to 255 blocks: the chain of blocks over the optional key and data, or over a zero byte when
  there is neither, cut to the length.
\<close>

theorem ike1_expansion_of_rfc2409:
  assumes "digest_contract dl H absorbed" and "ike_prf_len (iep_prf ip) = Ok (iep_prf_len ip)"
    and "get_attr_as_bytes CKA_VALUE key = Ok k" and "require_prf_base_key_type (iep_prf ip) key = Ok ()"
    and "ike_derive_setup fs uuid key template 0 (Some CKK_GENERIC_SECRET) = Ok (obj, keysize)"
    and "0 < keysize" and "keysize \<le> 255 * iep_prf_len ip"
    and "rest = concat (optional_parts (iep_keygxy ip) (iep_extra_data ip))"
    and "first = (if optional_parts (iep_keygxy ip) (iep_extra_data ip) = [] then [0] else rest)"
  shows "\<exists>h out. hmac_mech_to_hash_mech (iep_prf ip) = Ok h \<and>
    out = stream_of (ike1_K (hmac_spec (H h) (block_size h) k) first rest) keysize \<and> length out = keysize \<and>
    ike1_extended_derive dl hc uuid ip key template mechs fs = Ok [with_value out obj]"
proof -
  obtain kt where "prf_key_type (iep_prf ip) = Ok kt"
    using assms(4) by (auto simp: require_prf_base_key_type_def and_then_eq_Ok)
  then obtain h where h: "hmac_mech_to_hash_mech (iep_prf ip) = Ok h" "iep_prf_len ip = hash_size h"
    by (rule ike_prf_hash[OF assms(2)])
  let ?F = "hmac_spec (H h) (block_size h) k" and ?n = "hash_size h"
  let ?parts = "optional_parts (iep_keygxy ip) (iep_extra_data ip)" and ?N = "(keysize + ?n - 1) div ?n"
  let ?K = "ike1_K ?F first rest"
  have n: "0 < ?n" by (rule valid_hash_sizes(3)[OF hmac_hash_valid[OF h(1)]])
  obtain op where op: "ike_hmac dl hc (iep_prf ip) k ?n = Ok op" "computes ?F ?n Fresh op"
    by (rule ike_hmac_computes[OF assms(1) h(1)])
  have "concat (if ?parts = [] then [[0]] else ?parts) = first" using assms(8,9) by simp
  then obtain op1 where 1: "ike_prf (if ?parts = [] then [[0]] else ?parts) ?n op = (Ok (?K 0), op1)" "computes ?F ?n Ended op1"
    using ike_prf_value[OF op(2), of "if ?parts = [] then [[0]] else ?parts"] by (metis ike1_K.simps(1))
  have blocks: "ike1_blocks ?parts ?n keysize ?n (?K 0) op1 = Ok (concat (map ?K [1..<?N]))"
    using ike1_blocks_value[OF 1(2) n refl, of ?parts keysize 0 first] assms(8) by simp
  have lens: "length (?K i) = ?n" for i
    by (cases i) (simp_all add: computes_value_len[OF op(2)])
  have "take keysize (?K 0 @ concat (map ?K [1..<?N])) = stream_of ?K keysize"
    by (rule stream_of_blocks(1)[OF lens n assms(6) refl])
  from ike1_extended_derive_steps[OF assms(4,5,6) assms(7)[unfolded h(2)] h(2) assms(3) op(1) refl 1(1) blocks this]
  have "ike1_extended_derive dl hc uuid ip key template mechs fs = Ok [with_value (stream_of ?K keysize) obj]" .
  then show ?thesis
    by (intro exI[of _ h] exI[of _ "stream_of ?K keysize"] conjI) (rule h(1), rule refl, rule stream_of_blocks(2)[OF lens n assms(6) refl])
qed

lemma ike2_prf_plus_derive_steps:
  assumes "require_prf_base_key_type (i2p_prf ip) key = Ok ()"
    and "ike_derive_setup fs uuid key template 0 (Some CKK_GENERIC_SECRET) = Ok (obj, keysize)"
    and "0 < keysize" and "keysize \<le> 255 * n" and "i2p_prf_len ip = n" and "get_attr_as_bytes CKA_VALUE key = Ok k"
    and "ike_hmac dl hc (i2p_prf ip) k n = Ok op"
    and "parts = optional_parts (i2p_seed_key ip) (i2p_seed_data ip)"
    and "ike_prf (parts @ [[1]]) n op = (Ok block, op1)"
    and "ike2_blocks parts n keysize 1 n block op1 = Ok rest" and "take keysize (block @ rest) = out"
  shows "ike2_prf_plus_derive dl hc uuid ip key template mechs fs = Ok [with_value out obj]"
  using assms by (simp add: ike2_prf_plus_derive_def Let_def)

text \<open>
  C29. The expansion of version 2 (\<^verbatim>\<open>Ike2PrfPlusOperation::derive\<close>) is \<open>prf+\<close> of RFC 7296, section 2.13, for every
  length up to 255 blocks: the counter of the blocks never overflows.
\<close>

theorem prf_plus_of_rfc7296:
  assumes "digest_contract dl H absorbed" and "ike_prf_len (i2p_prf ip) = Ok (i2p_prf_len ip)"
    and "get_attr_as_bytes CKA_VALUE key = Ok k" and "require_prf_base_key_type (i2p_prf ip) key = Ok ()"
    and "ike_derive_setup fs uuid key template 0 (Some CKK_GENERIC_SECRET) = Ok (obj, keysize)"
    and "0 < keysize" and "keysize \<le> 255 * i2p_prf_len ip"
    and "S = concat (optional_parts (i2p_seed_key ip) (i2p_seed_data ip))"
  shows "\<exists>h out. hmac_mech_to_hash_mech (i2p_prf ip) = Ok h \<and>
    out = stream_of (ike2_T (hmac_spec (H h) (block_size h) k) S) keysize \<and> length out = keysize \<and>
    ike2_prf_plus_derive dl hc uuid ip key template mechs fs = Ok [with_value out obj]"
proof -
  obtain kt where "prf_key_type (i2p_prf ip) = Ok kt"
    using assms(4) by (auto simp: require_prf_base_key_type_def and_then_eq_Ok)
  then obtain h where h: "hmac_mech_to_hash_mech (i2p_prf ip) = Ok h" "i2p_prf_len ip = hash_size h"
    by (rule ike_prf_hash[OF assms(2)])
  let ?F = "hmac_spec (H h) (block_size h) k" and ?n = "hash_size h"
  let ?parts = "optional_parts (i2p_seed_key ip) (i2p_seed_data ip)" and ?N = "(keysize + ?n - 1) div ?n"
  let ?T = "ike2_T ?F S"
  have n: "0 < ?n" by (rule valid_hash_sizes(3)[OF hmac_hash_valid[OF h(1)]])
  have few: "?N \<le> 255" using ceiling_lt[OF n] assms(7) h(2) by metis
  obtain op where op: "ike_hmac dl hc (i2p_prf ip) k ?n = Ok op" "computes ?F ?n Fresh op"
    by (rule ike_hmac_computes[OF assms(1) h(1)])
  obtain op1 where 1: "ike_prf (?parts @ [[1]]) ?n op = (Ok (?T 0), op1)" "computes ?F ?n Ended op1"
    by (rule ike_prf_value[OF op(2), of "?parts @ [[1]]"]) (simp_all add: assms(8))
  have blocks: "ike2_blocks ?parts ?n keysize 1 ?n (?T 0) op1 = Ok (concat (map ?T [1..<?N]))"
    using ike2_blocks_value[OF 1(2) n refl few, of 0 ?parts] assms(8) by simp
  have lens: "length (?T i) = ?n" for i
    by (cases i) (simp_all add: computes_value_len[OF op(2)])
  have "take keysize (?T 0 @ concat (map ?T [1..<?N])) = stream_of ?T keysize"
    by (rule stream_of_blocks(1)[OF lens n assms(6) refl])
  from ike2_prf_plus_derive_steps[OF assms(4,5,6) assms(7)[unfolded h(2)] h(2) assms(3) op(1) refl 1(1) blocks this]
  have "ike2_prf_plus_derive dl hc uuid ip key template mechs fs = Ok [with_value (stream_of ?T keysize) obj]" .
  then show ?thesis
    by (intro exI[of _ h] exI[of _ "stream_of ?T keysize"] conjI) (rule h(1), rule refl, rule stream_of_blocks(2)[OF lens n assms(6) refl])
qed

end
