(* ===== verification/Ike_Samples.thy ===== *)
theory Ike_Samples
  imports Ike_Laws
begin

text \<open>Sample derivations of IKE.\<close>

section \<open>The base key and the object\<close>

abbreviation ike_base :: object where
  "ike_base \<equiv> derive_base CKK_SHA256_HMAC"

definition ike_template :: "u64 \<Rightarrow> ck_attrs" where
  "ike_template len =
    [ck_attr_of CKA_KEY_TYPE (u64_to_le CKK_GENERIC_SECRET), ck_attr_of CKA_VALUE_LEN (u64_to_le len)]"

lemma ike_setup:
  obtains obj where "ike_derive_setup core_factories [1] ike_base (ike_template 32) 32 (Some CKK_SHA256_HMAC) = Ok (obj, 32)"
proof -
  have "and_then (derive_key_from_template core_factories [1] ike_base
        (add_missing_ulong CKA_KEY_TYPE CKK_SHA256_HMAC (add_missing_ulong CKA_CLASS CKO_SECRET_KEY (ike_template 32))))
      (\<lambda>d. get_attr_as_ulong CKA_VALUE_LEN d) = Ok 32"
    by code_simp
  then show ?thesis
    using that by (auto simp: and_then_eq_Ok ike_derive_setup_def derived_len_def)
qed

lemma ike_expansion_setup:
  obtains obj where "ike_derive_setup core_factories [1] ike_base (ike_template 70) 0 (Some CKK_GENERIC_SECRET) = Ok (obj, 70)"
proof -
  have "and_then (derive_key_from_template core_factories [1] ike_base
        (add_missing_ulong CKA_KEY_TYPE CKK_GENERIC_SECRET (add_missing_ulong CKA_CLASS CKO_SECRET_KEY (ike_template 70))))
      (\<lambda>d. get_attr_as_ulong CKA_VALUE_LEN d) = Ok 70"
    by code_simp
  then show ?thesis
    using that by (auto simp: and_then_eq_Ok ike_derive_setup_def derived_len_def)
qed

lemma ike_sample_prf:
  "ike_prf_len CKM_SHA256_HMAC = Ok 32" "prf_key_type CKM_SHA256_HMAC = Ok CKK_SHA256_HMAC"
  "require_prf_base_key_type CKM_SHA256_HMAC ike_base = Ok ()"
  by (simp_all add: ike_prf_len_def hmac_size_def INVALID_HASH_SIZE_def HASH_MECH_SET_def prf_key_type_def
      require_prf_base_key_type_def derive_base_sel)

section \<open>Witnesses\<close>

definition ike_prf_sample :: ck_mechanism where
  "ike_prf_sample = \<lparr>cm_mechanism = CKM_IKE_PRF_DERIVE, cm_parameter = Ptr [] [] True, cm_parameter_len = 56, cm_struct =
     IkePrfParams \<lparr>ik_prfMechanism = CKM_SHA256_HMAC, ik_bDataAsKey = CK_FALSE, ik_bRekey = CK_FALSE,
        ik_pNi = Ptr (replicate 16 1) [] True, ik_ulNiLen = 16, ik_pNr = Ptr (replicate 16 2) [] True, ik_ulNrLen = 16,
        ik_hNewKey = CK_INVALID_HANDLE\<rparr>\<rparr>"

theorem ike_seed_key_of_rfc_witness:
  "\<exists>ip obj. ike_prf_new ike_prf_sample = Ok ip \<and>
    ike_prf_derive toy_digests toy_codec [1] ip ike_base (ike_template 32) [] core_factories =
      Ok [with_value (hmac_spec (toy_hash CKM_SHA256) (block_size CKM_SHA256) [1, 2, 3]
        (replicate 16 1 @ replicate 16 2)) obj]"
proof -
  define ip :: ike_prf_operation where "ip = \<lparr>ip_prf = CKM_SHA256_HMAC, ip_prf_len = 32, ip_data_as_key = False,
      ip_ni_nr = replicate 16 1 @ replicate 16 2, ip_new_key_handle = CK_INVALID_HANDLE, ip_new_key = None\<rparr>"
  have new: "ike_prf_new ike_prf_sample = Ok ip"
    by (simp add: ike_prf_new_def ike_prf_sample_def get_parameters_def flagged_handle_def
        ike_sample_prf check_ni_nr_def ip_def Let_def)
  have sel: "ip_prf ip = CKM_SHA256_HMAC" "ip_prf_len ip = 32" "\<not> ip_data_as_key ip"
      "ip_new_key_handle ip = CK_INVALID_HANDLE" "ip_new_key ip = None" "ip_ni_nr ip = replicate 16 1 @ replicate 16 2"
    by (simp_all add: ip_def)
  obtain obj where obj: "ike_derive_setup core_factories [1] ike_base (ike_template 32) (ip_prf_len ip) (Some CKK_SHA256_HMAC) =
      Ok (obj, 32)"
    using ike_setup sel by metis
  have "if ip_data_as_key ip then get_attr_as_ulong CKA_KEY_TYPE ike_base = Ok CKK_GENERIC_SECRET
      else require_prf_base_key_type (ip_prf ip) ike_base = Ok ()"
    using sel ike_sample_prf by simp
  moreover have "prf_key_type (ip_prf ip) = Ok CKK_SHA256_HMAC" using sel ike_sample_prf by simp
  moreover have "hmac_mech_to_hash_mech CKM_SHA256_HMAC = Ok CKM_SHA256" by (simp add: hmac_mech_to_hash_mech_def)
  ultimately have "ike_prf_derive toy_digests toy_codec [1] ip ike_base (ike_template 32) [] core_factories =
      Ok [with_value (ike_seed_key (hmac_spec (toy_hash CKM_SHA256) (block_size CKM_SHA256)) ip [1, 2, 3]) obj]"
    using ike_seed_key_of_rfc[OF toy_contract new, of ip "[]" ike_base "[1, 2, 3]" CKK_SHA256_HMAC core_factories "[1]"
        "ike_template 32" obj 32 toy_codec "[]"] obj sel derive_base_sel(4) by auto
  then show ?thesis using new sel by (auto simp: ike_seed_key_def)
qed

theorem ike1_expansion_of_rfc2409_witness:
  "\<exists>ip obj. ike1_extended_derive toy_digests toy_codec [1] ip ike_base (ike_template 70) [] core_factories =
    Ok [with_value (stream_of (ike1_K (hmac_spec (toy_hash CKM_SHA256) (block_size CKM_SHA256) [1, 2, 3]) [9] [9]) 70) obj]"
proof -
  define ip :: ike1_extended_operation where "ip = \<lparr>iep_prf = CKM_SHA256_HMAC, iep_prf_len = 32,
      iep_keygxy_handle = CK_INVALID_HANDLE, iep_keygxy = None, iep_extra_data = Some [9]\<rparr>"
  have sel: "iep_prf ip = CKM_SHA256_HMAC" "iep_prf_len ip = 32" "optional_parts (iep_keygxy ip) (iep_extra_data ip) = [[9]]"
    by (simp_all add: ip_def optional_parts_def)
  obtain obj where obj: "ike_derive_setup core_factories [1] ike_base (ike_template 70) 0 (Some CKK_GENERIC_SECRET) = Ok (obj, 70)"
    by (rule ike_expansion_setup)
  have "hmac_mech_to_hash_mech CKM_SHA256_HMAC = Ok CKM_SHA256" by (simp add: hmac_mech_to_hash_mech_def)
  then have "ike1_extended_derive toy_digests toy_codec [1] ip ike_base (ike_template 70) [] core_factories =
      Ok [with_value (stream_of (ike1_K (hmac_spec (toy_hash CKM_SHA256) (block_size CKM_SHA256) [1, 2, 3]) [9] [9]) 70) obj]"
    using ike1_expansion_of_rfc2409[OF toy_contract, of ip ike_base "[1, 2, 3]" core_factories "[1]" "ike_template 70" obj 70
        "[9]" "[9]" toy_codec "[]"] obj derive_base_sel(4) by (auto simp: sel ike_sample_prf)
  then show ?thesis by blast
qed

theorem prf_plus_of_rfc7296_witness:
  "\<exists>ip obj. ike2_prf_plus_derive toy_digests toy_codec [1] ip ike_base (ike_template 70) [] core_factories =
    Ok [with_value (stream_of (ike2_T (hmac_spec (toy_hash CKM_SHA256) (block_size CKM_SHA256) [1, 2, 3]) [9]) 70) obj]"
proof -
  define ip :: ike2_prf_plus_operation where "ip = \<lparr>i2p_prf = CKM_SHA256_HMAC, i2p_prf_len = 32,
      i2p_seed_key_handle = CK_INVALID_HANDLE, i2p_seed_key = None, i2p_seed_data = Some [9]\<rparr>"
  have sel: "i2p_prf ip = CKM_SHA256_HMAC" "i2p_prf_len ip = 32" "optional_parts (i2p_seed_key ip) (i2p_seed_data ip) = [[9]]"
    by (simp_all add: ip_def optional_parts_def)
  obtain obj where obj: "ike_derive_setup core_factories [1] ike_base (ike_template 70) 0 (Some CKK_GENERIC_SECRET) = Ok (obj, 70)"
    by (rule ike_expansion_setup)
  have "hmac_mech_to_hash_mech CKM_SHA256_HMAC = Ok CKM_SHA256" by (simp add: hmac_mech_to_hash_mech_def)
  then have "ike2_prf_plus_derive toy_digests toy_codec [1] ip ike_base (ike_template 70) [] core_factories =
      Ok [with_value (stream_of (ike2_T (hmac_spec (toy_hash CKM_SHA256) (block_size CKM_SHA256) [1, 2, 3]) [9]) 70) obj]"
    using prf_plus_of_rfc7296[OF toy_contract, of ip ike_base "[1, 2, 3]" core_factories "[1]" "ike_template 70" obj 70
        "[9]" toy_codec "[]"] obj derive_base_sel(4) by (auto simp: sel ike_sample_prf)
  then show ?thesis by blast
qed

end
