(* ===== verification/Hotp_Laws.thy ===== *)
theory Hotp_Laws
  imports Hotp
begin

text \<open>
  The passwords are those of RFC 4226, a verification accepts those of the next five counters, and the
  counter moves past an accepted one.
\<close>

section \<open>Numbers\<close>

fun le_value :: "bytes \<Rightarrow> nat" where
  "le_value [] = 0"
| "le_value (b # bs) = unat b + 256 * le_value bs"

lemma le_value_less: "le_value bs < 256 ^ length bs"
proof (induction bs)
  case (Cons b bs)
  have "unat b < 256" using unsigned_less[of b] by simp
  with Cons show ?case by simp
qed simp

lemma from_le_bytes_value: "from_le_bytes bs = (of_nat (le_value bs) :: 'a::len word)"
proof (induction bs)
  case (Cons b bs)
  let ?r = "from_le_bytes bs :: 'a word"
  have small: "bit b n \<Longrightarrow> n < 8" for n using bit_imp_le_length[of b n] by simp
  have "ucast b AND push_bit 8 ?r = 0"
    by (rule bit_word_eqI) (use small in \<open>auto simp: bit_simps not_le[symmetric]\<close>)
  then have "ucast b OR push_bit 8 ?r = ucast b + push_bit 8 ?r"
    by (rule disjunctive_add_eq_or[symmetric])
  moreover have "push_bit 8 ?r = 256 * ?r"
    by (subst push_bit_eq_mult) simp
  moreover have "(ucast b :: 'a word) = of_nat (unat b)" by (rule of_nat_unat[symmetric])
  ultimately have "from_le_bytes (b # bs) = of_nat (unat b) + 256 * ?r" by (simp only: from_le_bytes.simps)
  then show ?case unfolding Cons by (simp only: le_value.simps of_nat_add of_nat_mult of_nat_numeral)
qed simp

lemma unat_from_le_bytes:
  assumes "8 * length bs \<le> LENGTH('a)"
  shows "unat (from_le_bytes bs :: 'a::len word) = le_value bs"
proof -
  have "le_value bs < 2 ^ (8 * length bs)" using le_value_less[of bs] by (simp add: power_mult)
  also have "\<dots> \<le> 2 ^ LENGTH('a)" using assms by simp
  finally show ?thesis by (simp add: from_le_bytes_value unsigned_of_nat take_bit_nat_eq_self)
qed

fun digits_of :: "nat \<Rightarrow> nat \<Rightarrow> bytes" where
  "digits_of 0 n = []"
| "digits_of (Suc w) n = digits_of w (n div 10) @ [of_nat (48 + n mod 10)]"

lemma digits_of_zero: "digits_of w 0 = replicate w 48"
  by (induction w) (simp_all add: replicate_append_same)

lemma length_digits_of [simp]: "length (digits_of w n) = w"
  by (induction w arbitrary: n) simp_all

lemma padded_decimal:
  assumes "n < 10 ^ Suc w"
  shows "zero_padded (Suc w) (decimal n) = digits_of (Suc w) n \<and> length (decimal n) \<le> Suc w"
  using assms
proof (induction w arbitrary: n)
  case 0
  then show ?case by (subst (1 2) decimal.simps) (simp add: zero_padded_def)
next
  case (Suc w)
  show ?case
  proof (cases "n < 10")
    case True
    then show ?thesis
      by (subst (1 2) decimal.simps) (simp add: zero_padded_def digits_of_zero replicate_append_same flip: replicate_Suc)
  next
    case False
    have "n div 10 < 10 ^ Suc w" using Suc.prems by (simp add: less_mult_imp_div_less mult.commute)
    note IH = Suc.IH[OF this]
    have "decimal n = decimal (n div 10) @ [of_nat (48 + n mod 10)]" using False by (subst decimal.simps) simp
    then show ?thesis using IH by (simp add: zero_padded_def Suc_diff_le)
  qed
qed

section \<open>The password\<close>

text \<open>RFC 4226, section 5.3: dynamic truncation of the HMAC of the counter, reduced to decimal digits.\<close>

definition dynamic_truncation :: "bytes \<Rightarrow> nat" where
  "dynamic_truncation mac =
    (let offset = unat (last mac AND 0x0f) in
     unat (mac ! offset AND 0x7f) * 2 ^ 24 + unat (mac ! (offset + 1)) * 2 ^ 16 +
     unat (mac ! (offset + 2)) * 2 ^ 8 + unat (mac ! (offset + 3)))"

definition hotp_spec :: "(bytes \<Rightarrow> bytes) \<Rightarrow> nat \<Rightarrow> nat \<Rightarrow> bytes" where
  "hotp_spec HMAC digits c = digits_of digits (dynamic_truncation (HMAC (u64_to_be (of_nat c))) mod 10 ^ digits)"

lemma low_nibble: "unat ((b :: u8) AND 0x0f) < 16"
proof -
  have "b AND 0x0f = take_bit 4 b" by (simp add: take_bit_eq_mask mask_eq_exp_minus_1)
  then show ?thesis by (simp add: unsigned_take_bit_eq take_bit_nat_less_exp[of 4 "unat b", simplified])
qed

lemma truncate_mac_value:
  assumes "length mac = mac_len" and "20 \<le> mac_len" and "otp_modulus len = Ok m"
  shows "truncate_mac mac mac_len len = Ok (digits_of len (dynamic_truncation mac mod 10 ^ len))"
proof -
  define i where "i = unat (last mac AND 0x0f)"
  have last: "last mac = mac ! (mac_len - 1)" using assms(1,2) by (subst last_conv_nth) auto
  have i: "i + 4 \<le> length mac" using low_nibble[of "last mac"] assms(1,2) by (simp add: i_def)
  have four: "slice (mac[i := mac ! i AND 0x7f]) i 4 = [mac ! i AND 0x7f, mac ! (i + 1), mac ! (i + 2), mac ! (i + 3)]"
    using i by (intro nth_equalityI) (auto simp: slice_def nth_Cons less_Suc_eq numeral_eq_Suc)
  have "unat (u32_from_be (slice (mac[i := mac ! i AND 0x7f]) i 4)) = dynamic_truncation mac"
    unfolding four u32_from_be_def
    by (subst unat_from_le_bytes) (simp_all add: dynamic_truncation_def i_def[symmetric] Let_def)
  then have "truncate_mac mac mac_len len =
      and_then (otp_modulus len) (\<lambda>m. Ok (zero_padded len (decimal (dynamic_truncation mac mod m))))"
    by (simp only: truncate_mac_def last[symmetric] i_def[symmetric] Let_def)
  moreover have m: "m = 10 ^ len" and "len > 0"
    using assms(3) by (auto simp: otp_modulus_def split: if_split_asm)
  then obtain w where w: "len = Suc w" by (cases len) auto
  have "zero_padded len (decimal (dynamic_truncation mac mod 10 ^ len)) = digits_of len (dynamic_truncation mac mod 10 ^ len)"
    unfolding w by (rule conjunct1[OF padded_decimal]) simp
  ultimately show ?thesis unfolding assms(3) m by simp
qed

section \<open>The operation\<close>

text \<open>An operation whose HMAC is in a phase, over the key and the digest.\<close>

definition hotp_phase ::
    "(ck_ulong \<Rightarrow> bytes \<Rightarrow> bytes) \<Rightarrow> ('c \<Rightarrow> ck_ulong \<times> bytes option) \<Rightarrow> ck_ulong \<Rightarrow> bytes \<Rightarrow> op_phase \<Rightarrow> 'c hotp_operation \<Rightarrow> bool" where
  "hotp_phase H absorbed m key s ho \<longleftrightarrow>
    hmac_phase H absorbed m key (hash_size m) s (hp_hmac ho) \<and> hp_mac_len ho = hash_size m \<and>
    20 \<le> hash_size m \<and> hp_length ho \<in> {6, 7, 8}"

lemma generate_otp_value:
  assumes dl: "digest_contract dl H absorbed" and m: "is_valid_hash m" and s: "hotp_phase H absorbed m key Fresh ho"
    and n: "n = hp_length ho"
  obtains hm where "generate_otp dl (u64_to_be (of_nat c)) n ho =
      (Ok (hotp_spec (hmac_spec (H m) (block_size m) key) (hp_length ho) c), ho\<lparr>hp_hmac := hm\<rparr>)"
    and "hotp_phase H absorbed m key Ended (ho\<lparr>hp_hmac := hm\<rparr>)"
proof -
  let ?F = "hmac_spec (H m) (block_size m) key"
  have p: "hmac_phase H absorbed m key (hash_size m) Fresh (hp_hmac ho)" using s by (simp add: hotp_phase_def)
  obtain hm where hm: "hmac_single dl (u64_to_be (of_nat c)) (hash_size m) (hp_hmac ho) =
      (Ok (hmac_value H m key (hash_size m) (u64_to_be (of_nat c))), hm)" "hmac_phase H absorbed m key (hash_size m) Ended hm"
    by (rule hmac_single_phase[OF dl m order.refl p])
  obtain md where md: "otp_modulus (hp_length ho) = Ok md"
    using s by (auto simp: hotp_phase_def otp_modulus_def)
  have "truncate_mac (?F (u64_to_be (of_nat c))) (hash_size m) (hp_length ho) =
      Ok (hotp_spec ?F (hp_length ho) c)"
    unfolding hotp_spec_def
    by (rule truncate_mac_value[OF hmac_spec_length[OF dl m] _ md]) (use s in \<open>simp add: hotp_phase_def\<close>)
  then show ?thesis
    using hm s n
    by (intro that[of hm]) (simp_all add: generate_otp_def hotp_phase_def full_hmac_value[OF dl m])
qed

definition hotp_hash :: "nat \<Rightarrow> ck_ulong" where
  "hotp_hash key_len = (if key_len = 20 then CKM_SHA_1 else if key_len = 32 then CKM_SHA256 else CKM_SHA512)"

lemma hotp_hash_sizes:
  assumes "hotp_hmac_mech n = Ok t"
  shows "hmac_mech_to_hash_mech t = Ok (hotp_hash n)" and "hash_size (hotp_hash n) = n" and "20 \<le> n"
  using assms
  by (auto simp: hotp_hmac_mech_def hotp_hash_def hmac_mech_to_hash_mech_def hash_size_def HASH_MECH_SET_def
      split: if_split_asm)

lemma hotp_new_phase:
  assumes dl: "digest_contract dl H absorbed" and new: "hotp_new dl m key = Ok ho" and len: "hp_length ho \<in> {6, 7, 8}"
    and k: "get_attr_as_bytes CKA_VALUE key = Ok k"
  shows "hotp_phase H absorbed (hotp_hash (length k)) k Fresh ho" and "is_valid_hash (hotp_hash (length k))"
    and "length (hp_counter ho) = 8" and "\<not> hp_finalized ho"
    and "hp_key_handle ho = o_handle key" and "hp_update ho \<noteq> Some True"
proof -
  obtain oc c upd l t hm where steps: "otp_override m = Ok oc" "hotp_counter key oc = Ok (c, upd)" "length c = 8"
      "hotp_hmac_mech (length k) = Ok t" "hmac_internal dl t k (length k) = Ok hm"
      "ho = \<lparr>hp_mech_type = cm_mechanism m, hp_hmac = hm, hp_counter = c, hp_key_handle = o_handle key,
        hp_length = unat (l :: ck_ulong), hp_mac_len = length k, hp_finalized = False, hp_update = upd\<rparr>"
    using new k by (auto simp: hotp_new_def and_then_eq_Ok split: if_split_asm)
  note h = hotp_hash_sizes[OF steps(4)]
  obtain hm' where hm': "hmac_internal dl t k (length k) = Ok hm'" "hmac_absorbing H absorbed (hotp_hash (length k)) k [] hm'"
      "\<not> hm_in_use hm'"
    by (rule hmac_internal_absorbing[OF dl h(1)])
  have "hmac_config absorbed (hotp_hash (length k)) k (length k) hm" by (rule config_internal[OF dl h(1) steps(5)])
  then show "hotp_phase H absorbed (hotp_hash (length k)) k Fresh ho"
    using hm' steps(5,6) h len by (simp add: hotp_phase_def hmac_phase_def)
  show "is_valid_hash (hotp_hash (length k))" by (rule hmac_hash_valid[OF h(1)])
  have "upd \<noteq> Some True"
    using steps(2) by (auto simp: hotp_counter_def and_then_eq_Ok Let_def split: option.splits if_split_asm)
  then show "length (hp_counter ho) = 8" "\<not> hp_finalized ho" "hp_key_handle ho = o_handle key" "hp_update ho \<noteq> Some True"
    using steps(3,6) by simp_all
qed

lemma next_counter_value:
  assumes "Suc c < 2 ^ 64"
  shows "next_counter (u64_to_be (of_nat c)) = Ok (u64_to_be (of_nat (Suc c)))" and "(of_nat c :: u64) \<noteq> - 1"
proof -
  have "unat (of_nat c :: u64) = c" using assms by (simp add: unsigned_of_nat take_bit_nat_eq_self)
  moreover have "unat (- 1 :: u64) = 2 ^ 64 - 1" by (simp add: unsigned_minus_1_eq_mask mask_eq_exp_minus_1)
  ultimately show ne: "(of_nat c :: u64) \<noteq> - 1" using assms by auto
  show "next_counter (u64_to_be (of_nat c)) = Ok (u64_to_be (of_nat (Suc c)))"
    using ne by (simp add: next_counter_def be64.dec_enc add.commute)
qed

section \<open>The window of a verification\<close>

definition moved_past :: "nat \<Rightarrow> 'c hotp_operation \<Rightarrow> 'c hotp_operation" where
  "moved_past j ho =
    (if hp_update ho = None then ho else ho\<lparr>hp_counter := u64_to_be (of_nat (Suc j)), hp_update := Some True\<rparr>)"

lemma reinit_phase:
  assumes dl: "digest_contract dl H absorbed" and m: "is_valid_hash m" and s: "hotp_phase H absorbed m key s ho"
  obtains hm where "hmac_reinit dl (hp_hmac ho) = (Ok (), hm)" and "hotp_phase H absorbed m key Fresh (ho\<lparr>hp_hmac := hm\<rparr>)"
proof -
  have c: "hmac_config absorbed m key (hash_size m) (hp_hmac ho)" using s by (simp add: hotp_phase_def hmac_phase_def)
  obtain hm where "hmac_reinit dl (hp_hmac ho) = (Ok (), hm)" "hmac_phase H absorbed m key (hash_size m) Fresh hm"
    by (rule hmac_reinit_phase[OF dl m c])
  then show ?thesis using s by (intro that[of hm]) (simp_all add: hotp_phase_def)
qed

lemma hp_hmac_twice: "ho\<lparr>hp_hmac := a, hp_hmac := b\<rparr> = ho\<lparr>hp_hmac := b\<rparr>"
  by (cases ho) simp

lemma hotp_search_value:
  assumes dl: "digest_contract dl H absorbed" and m: "is_valid_hash m"
    and "hotp_phase H absorbed m key s ho" and "s = Fresh \<or> 0 < i" and "c + (5 - i) < 2 ^ 64" and "i \<le> 5"
  shows "\<exists>hm. hotp_search dl sig [i..<5] (of_nat c) ho =
    (case find (\<lambda>j. sig = hotp_spec (hmac_spec (H m) (block_size m) key) (hp_length ho) j) [c..<c + (5 - i)] of
       None \<Rightarrow> (Err CKR_SIGNATURE_INVALID, ho\<lparr>hp_hmac := hm\<rparr>)
     | Some j \<Rightarrow> (Ok (), moved_past j (ho\<lparr>hp_hmac := hm\<rparr>)))"
  using assms(3-)
proof (induction "5 - i" arbitrary: i c s ho)
  case 0
  then show ?case by (auto intro: exI[of _ "hp_hmac ho"])
next
  case (Suc n)
  let ?spec = "hotp_spec (hmac_spec (H m) (block_size m) key) (hp_length ho)"
  have i: "[i..<5] = i # [Suc i..<5]" using Suc.hyps(2) by (intro upt_conv_Cons) simp
  have "c + (5 - i) = Suc c + (5 - Suc i)" "c < c + (5 - i)" using Suc.hyps(2) by simp_all
  then have more: "[c..<c + (5 - i)] = c # [Suc c..<Suc c + (5 - Suc i)]" by (metis upt_conv_Cons)
  obtain hm1 where 1: "(if i > 0 then (case hmac_reinit dl (hp_hmac ho) of (r, hm) \<Rightarrow> (r, ho\<lparr>hp_hmac := hm\<rparr>)) else (Ok (), ho)) =
      (Ok (), ho\<lparr>hp_hmac := hm1\<rparr>)" "hotp_phase H absorbed m key Fresh (ho\<lparr>hp_hmac := hm1\<rparr>)"
  proof (cases "0 < i")
    case True
    obtain hm1 where "hmac_reinit dl (hp_hmac ho) = (Ok (), hm1)" "hotp_phase H absorbed m key Fresh (ho\<lparr>hp_hmac := hm1\<rparr>)"
      by (rule reinit_phase[OF dl m Suc.prems(1)])
    then show ?thesis using True by (intro that[of hm1]) simp_all
  next
    case False
    then show ?thesis using Suc.prems(1,2) by (intro that[of "hp_hmac ho"]) simp_all
  qed
  obtain hm2 where 2: "generate_otp dl (u64_to_be (of_nat c)) (hp_length ho) (ho\<lparr>hp_hmac := hm1\<rparr>) =
      (Ok (?spec c), ho\<lparr>hp_hmac := hm2\<rparr>)" "hotp_phase H absorbed m key Ended (ho\<lparr>hp_hmac := hm2\<rparr>)"
    by (rule generate_otp_value[OF dl m 1(2), of "hp_length ho" c]) simp_all
  have c: "Suc c < 2 ^ 64" using Suc.prems(3) Suc.hyps(2) by simp
  note nc = next_counter_value[OF c]
  have step: "hotp_search dl sig [i..<5] (of_nat c) ho =
      (if sig = ?spec c then (Ok (), moved_past c (ho\<lparr>hp_hmac := hm2\<rparr>))
       else hotp_search dl sig [Suc i..<5] (of_nat (Suc c)) (ho\<lparr>hp_hmac := hm2\<rparr>))"
    unfolding i hotp_search.simps 1(1) using 2(1) nc by (simp add: moved_past_def add.commute)
  show ?case
  proof (cases "sig = ?spec c")
    case True
    then show ?thesis using step more by auto
  next
    case False
    have prem: "n = 5 - Suc i" "Suc c + (5 - Suc i) < 2 ^ 64" "Suc i \<le> 5" using Suc.hyps(2) Suc.prems(3) by simp_all
    from Suc.hyps(1)[OF prem(1) 2(2) _ prem(2,3), unfolded hp_hmac_twice] show ?thesis
      using step more False by (simp del: upt_Suc of_nat_Suc)
  qed
qed

section \<open>The counter of a key\<close>

lemma map_err_Ok: "map_err f r = Ok x \<longleftrightarrow> r = Ok x"
  by (auto simp: map_err_def split: sum.splits)

lemma counter_of_key:
  assumes "hotp_new dl m key = Ok ho" and "otp_override m = Ok None"
  shows "get_attr_as_bytes CKA_OTP_COUNTER key = Ok (hp_counter ho)" and "hp_update ho = Some False"
    and "get_attr_as_ulong CKA_OTP_LENGTH key = Ok l \<Longrightarrow> hp_length ho = unat l"
proof -
  show "get_attr_as_bytes CKA_OTP_COUNTER key = Ok (hp_counter ho)" "hp_update ho = Some False"
    "get_attr_as_ulong CKA_OTP_LENGTH key = Ok l \<Longrightarrow> hp_length ho = unat l"
    using assms by (auto simp: hotp_new_def hotp_counter_def and_then_eq_Ok map_err_Ok Let_def
        split: if_split_asm prod.split_asm)
qed

lemma counter_attr_settable: "check_set_attributes hotp_data [ck_attr_of CKA_OTP_COUNTER v] = Ok ()"
proof -
  have "(case find_oattr hotp_data CKA_OTP_COUNTER of None \<Rightarrow> False
      | Some a \<Rightarrow> \<not> oa_is a NeverSettable \<and> \<not> oa_is a Unchangeable)"
    by code_simp
  then show ?thesis
    by (auto simp: check_set_attributes_def check_set_attribute_def ck_attr_of_def split: option.splits)
qed

lemma counter_stored:
  assumes "is_modifiable key" and "length v = 8"
  obtains key1 where "set_object_attributes hotp_data key [ck_attr_of CKA_OTP_COUNTER v] = (Ok (), key1)"
    and "get_attr_as_bytes CKA_OTP_COUNTER key1 = Ok v"
    and "\<And>t. t \<noteq> CKA_OTP_COUNTER \<Longrightarrow> get_attr t key1 = get_attr t key"
proof -
  have "search_by_id CKA_OTP_COUNTER = Some \<lparr>am_id = CKA_OTP_COUNTER, am_name = ''CKA_OTP_COUNTER'', am_atype = BytesType\<rparr>"
    by code_simp
  then have "from_ck_attr (ck_attr_of CKA_OTP_COUNTER v) = Ok (from_bytes CKA_OTP_COUNTER v)"
    using assms(2) by (simp add: ck_attr_of_def ck_to_buf_def from_ck_attr.simps bytes_to_vec_def)
  moreover obtain key1 where key1: "set_attr (from_bytes CKA_OTP_COUNTER v) key = Ok key1"
    by (auto simp: set_attr_other_class from_bytes_def mk_attribute_def)
  ultimately have "set_object_attributes hotp_data key [ck_attr_of CKA_OTP_COUNTER v] = (Ok (), key1)"
    using assms(1) counter_attr_settable by (simp add: set_object_attributes_def set_from_ck_def)
  then show ?thesis
    using get_attr_set[OF key1]
    by (intro that[of key1]) (simp_all add: get_attr_as_bytes_def attr_as_def from_bytes_def mk_attribute_def to_bytes_def)
qed

section \<open>The properties\<close>

text \<open>
  C23. The password of a signature (\<^verbatim>\<open>HOTPOperation::sign\<close>) is that of RFC 4226 for the counter of the operation,
  in the buffer behind the structs; afterwards the key is to get the next counter, but for a counter that
  the application gave.
\<close>

theorem hotp_password_of_rfc4226:
  assumes dl: "digest_contract dl H absorbed" and new: "hotp_new dl m key = Ok ho" and len: "hp_length ho \<in> {6, 7, 8}"
    and k: "get_attr_as_bytes CKA_VALUE key = Ok k" and c: "c = unat (u64_from_be (hp_counter ho))" "Suc c < 2 ^ 64"
    and n: "40 + hp_length ho \<le> n"
  shows "\<exists>ho1. hotp_sign dl addr [] n ho =
      (Ok (otp_signature addr (hotp_spec (hmac_spec (H (hotp_hash (length k))) (block_size (hotp_hash (length k))) k)
         (hp_length ho) c)), ho1) \<and>
    hotp_updates ho1 =
      (if hp_update ho = None then None
       else Some (o_handle key, [ck_attr_of CKA_OTP_COUNTER (u64_to_be (of_nat (Suc c)))]))"
proof -
  note ph = hotp_new_phase[OF dl new len k]
  let ?ho = "ho\<lparr>hp_finalized := True\<rparr>"
  have cnt: "hp_counter ho = u64_to_be (of_nat c)"
    using be64.enc_dec[OF ph(3)] c(1) by simp
  have "hotp_phase H absorbed (hotp_hash (length k)) k Fresh ?ho" using ph(1) by (simp add: hotp_phase_def)
  then obtain hm where g: "generate_otp dl (u64_to_be (of_nat c)) (hp_length ho) ?ho =
      (Ok (hotp_spec (hmac_spec (H (hotp_hash (length k))) (block_size (hotp_hash (length k))) k) (hp_length ho) c),
       ?ho\<lparr>hp_hmac := hm\<rparr>)"
    using generate_otp_value[OF dl ph(2), of k ?ho "hp_length ho" c] by (metis hotp_operation.select_convs(5) hotp_operation.surjective hotp_operation.update_convs(7))
  have total: "otp_total_size ho = Ok (40 + hp_length ho)" using len by (auto simp: otp_total_size_def)
  have "add_owned_slice CKA_OTP_COUNTER (u64_to_be w) [] = Ok [ck_attr_of CKA_OTP_COUNTER (u64_to_be w)]" for w
    by (simp add: add_owned_slice_Ok be64.length_enc)
  then show ?thesis
    using g total n ph(4,5,6) next_counter_value(1)[OF c(2)] cnt
    by (simp add: hotp_sign_def hotp_sign_final_def hotp_updates_def)
qed

text \<open>
  A verification (\<^verbatim>\<open>HOTPOperation::verify\<close>) accepts exactly the passwords of the counter of the operation and
  of the four after it; afterwards the key is to get the counter after the first that matched.
\<close>

theorem hotp_verification_window:
  assumes dl: "digest_contract dl H absorbed" and new: "hotp_new dl m key = Ok ho" and len: "hp_length ho \<in> {6, 7, 8}"
    and k: "get_attr_as_bytes CKA_VALUE key = Ok k" and c: "c = unat (u64_from_be (hp_counter ho))" "c + 5 < 2 ^ 64"
  shows "\<exists>ho1. hotp_verify dl [] sig ho =
      (if length sig \<noteq> hp_length ho then Err CKR_SIGNATURE_LEN_RANGE
       else if \<exists>j \<in> {c..<c + 5}. sig = hotp_spec (hmac_spec (H (hotp_hash (length k))) (block_size (hotp_hash (length k))) k) (hp_length ho) j
         then Ok ()
       else Err CKR_SIGNATURE_INVALID, ho1) \<and>
    hotp_updates ho1 =
      (case find (\<lambda>j. sig = hotp_spec (hmac_spec (H (hotp_hash (length k))) (block_size (hotp_hash (length k))) k) (hp_length ho) j) [c..<c + 5] of
         Some j \<Rightarrow>
           if hp_update ho = None then None
           else Some (o_handle key, [ck_attr_of CKA_OTP_COUNTER (u64_to_be (of_nat (Suc j)))])
       | None \<Rightarrow> None)"
proof -
  note ph = hotp_new_phase[OF dl new len k]
  let ?spec = "hotp_spec (hmac_spec (H (hotp_hash (length k))) (block_size (hotp_hash (length k))) k) (hp_length ho)"
  let ?ho = "ho\<lparr>hp_finalized := True\<rparr>"
  let ?found = "find (\<lambda>j. sig = ?spec j) [c..<c + 5]"
  have cnt: "u64_from_be (hp_counter ho) = of_nat c" using c(1) by simp
  have "hotp_phase H absorbed (hotp_hash (length k)) k Fresh ?ho" using ph(1) by (simp add: hotp_phase_def)
  then obtain hm where search: "hotp_search dl sig [0..<5] (of_nat c) ?ho =
      (case ?found of None \<Rightarrow> (Err CKR_SIGNATURE_INVALID, ?ho\<lparr>hp_hmac := hm\<rparr>)
       | Some j \<Rightarrow> (Ok (), moved_past j (?ho\<lparr>hp_hmac := hm\<rparr>)))"
    using hotp_search_value[OF dl ph(2), of k Fresh ?ho 0 c sig] c(2) by auto
  have slice: "add_owned_slice CKA_OTP_COUNTER (u64_to_be w) [] = Ok [ck_attr_of CKA_OTP_COUNTER (u64_to_be w)]" for w
    by (simp add: add_owned_slice_Ok be64.length_enc)
  have spec_len: "length (?spec j) = hp_length ho" for j by (simp add: hotp_spec_def)
  have run: "hotp_verify dl [] sig ho =
      (if length sig \<noteq> hp_length ho then (Err CKR_SIGNATURE_LEN_RANGE, ?ho)
       else hotp_search dl sig [0..<5] (of_nat c) ?ho)"
    using ph(4) cnt by (simp add: hotp_verify_def hotp_verify_final_def Let_def)
  show ?thesis
  proof (cases ?found)
    case None
    then have "\<not> (\<exists>j \<in> {c..<c + 5}. sig = ?spec j)" by (auto simp: find_None_iff)
    then show ?thesis
      unfolding run search using None ph(6) by (simp add: hotp_updates_def)
  next
    case (Some j)
    then have "sig = ?spec j" "j \<in> {c..<c + 5}" by (auto simp: find_Some_iff)
    then show ?thesis
      unfolding run search using Some ph(5) slice spec_len by (auto simp: hotp_updates_def moved_past_def)
  qed
qed

lemma length_of_key:
  assumes "hotp_new dl m key = Ok ho"
  obtains l where "get_attr_as_ulong CKA_OTP_LENGTH key = Ok l" and "hp_length ho = unat l"
  using assms by (auto simp: hotp_new_def and_then_eq_Ok map_err_Ok split: if_split_asm prod.split_asm)

text \<open>
  C22. The counter of a key moves past a password that is accepted. Let the verification use the counter of the
  key (the application gives none), and let the key be modifiable: the operation asks for a change of the
  counter, the change succeeds, and a verification that is initialized with the changed key accepts only
  passwords of later counters. Without these the same password is accepted again: when the application gives
  the counter, when the key is not modifiable, or when the second verification is initialized before the
  change is stored.
\<close>

theorem accepted_password_moves_counter:
  assumes dl: "digest_contract dl H absorbed" and new: "hotp_new dl m key = Ok ho" and len: "hp_length ho \<in> {6, 7, 8}"
    and k: "get_attr_as_bytes CKA_VALUE key = Ok k" and c: "c = unat (u64_from_be (hp_counter ho))" "c + 10 < 2 ^ 64"
    and own: "otp_override m = Ok None" and modifiable: "is_modifiable key" and ok: "hotp_verify dl [] sig ho = (Ok (), ho1)"
  shows "\<exists>j attrs key1. j \<in> {c..<c + 5} \<and>
    sig = hotp_spec (hmac_spec (H (hotp_hash (length k))) (block_size (hotp_hash (length k))) k) (hp_length ho) j \<and>
    hotp_updates ho1 = Some (o_handle key, attrs) \<and> set_object_attributes hotp_data key attrs = (Ok (), key1) \<and>
    (\<forall>ho2 sig2 ho3. hotp_new dl m key1 = Ok ho2 \<and> hotp_verify dl [] sig2 ho2 = (Ok (), ho3) \<longrightarrow>
      (\<exists>i \<in> {Suc j..<Suc j + 5}.
        sig2 = hotp_spec (hmac_spec (H (hotp_hash (length k))) (block_size (hotp_hash (length k))) k) (hp_length ho) i))"
proof -
  let ?spec = "hotp_spec (hmac_spec (H (hotp_hash (length k))) (block_size (hotp_hash (length k))) k) (hp_length ho)"
  let ?found = "find (\<lambda>j. sig = ?spec j) [c..<c + 5]"
  have c5: "c + 5 < 2 ^ 64" using c(2) by simp
  note window = hotp_verification_window[OF dl new len k c(1) c5, of sig]
  have "\<exists>j \<in> {c..<c + 5}. sig = ?spec j" using window ok by (auto split: if_split_asm)
  then obtain j where j: "?found = Some j"
    by (cases ?found) (auto simp: find_None_iff)
  then have hit: "sig = ?spec j" "j \<in> {c..<c + 5}" by (auto simp: find_Some_iff)
  have upd: "hotp_updates ho1 = Some (o_handle key, [ck_attr_of CKA_OTP_COUNTER (u64_to_be (of_nat (Suc j)))])"
    using window ok j counter_of_key(2)[OF new own] by auto
  obtain key1 where key1: "set_object_attributes hotp_data key [ck_attr_of CKA_OTP_COUNTER (u64_to_be (of_nat (Suc j)))] = (Ok (), key1)"
      "get_attr_as_bytes CKA_OTP_COUNTER key1 = Ok (u64_to_be (of_nat (Suc j)))"
      "\<And>t. t \<noteq> CKA_OTP_COUNTER \<Longrightarrow> get_attr t key1 = get_attr t key"
    by (rule counter_stored[OF modifiable be64.length_enc[of "of_nat (Suc j)"]], blast)
  have later: "\<exists>i \<in> {Suc j..<Suc j + 5}. sig2 = ?spec i"
    if new2: "hotp_new dl m key1 = Ok ho2" and ok2: "hotp_verify dl [] sig2 ho2 = (Ok (), ho3)" for ho2 sig2 ho3
  proof -
    have k1: "get_attr_as_bytes CKA_VALUE key1 = Ok k"
      using k key1(3)[of CKA_VALUE] by (simp add: get_attr_as_bytes_def attr_as_def)
    obtain l where l: "get_attr_as_ulong CKA_OTP_LENGTH key = Ok l" "hp_length ho = unat l" by (rule length_of_key[OF new])
    have "get_attr_as_ulong CKA_OTP_LENGTH key1 = Ok l"
      using l(1) key1(3)[of CKA_OTP_LENGTH] by (simp add: get_attr_as_ulong_def attr_as_def)
    then have len2: "hp_length ho2 = hp_length ho" using counter_of_key(3)[OF new2 own] l(2) by simp
    have "hp_counter ho2 = u64_to_be (of_nat (Suc j))" using counter_of_key(1)[OF new2 own] key1(2) by simp
    then have c2: "Suc j = unat (u64_from_be (hp_counter ho2))" "Suc j + 5 < 2 ^ 64"
      using hit(2) c(2) by (simp_all add: be64.dec_enc unsigned_of_nat take_bit_nat_eq_self del: of_nat_Suc)
    show ?thesis
      using hotp_verification_window[OF dl new2 _ k1 c2, of sig2] len len2 ok2 by (auto split: if_split_asm)
  qed
  show ?thesis
    by (intro exI[of _ j] exI[of _ "[ck_attr_of CKA_OTP_COUNTER (u64_to_be (of_nat (Suc j)))]"] exI[of _ key1] conjI)
      (use hit upd key1(1) later in blast)+
qed

section \<open>Witnesses\<close>

definition hotp_key :: object where
  "hotp_key =
    \<lparr>o_handle = 7, o_session = 1, o_class = CKO_OTP_KEY, o_attributes =
      [from_ulong CKA_CLASS CKO_OTP_KEY, from_ulong CKA_KEY_TYPE CKK_HOTP, from_bytes CKA_OTP_COUNTER (u64_to_be 5),
       from_ulong CKA_OTP_COUNTER_REQUIREMENT CK_OTP_PARAM_IGNORED, from_ulong CKA_OTP_LENGTH 6,
       from_bytes CKA_VALUE (replicate 20 1)],
     o_zeroize = True\<rparr>"

lemma hotp_key_sel:
  "get_attr_as_bytes CKA_VALUE hotp_key = Ok (replicate 20 1)" "get_attr_as_ulong CKA_OTP_LENGTH hotp_key = Ok 6"
  "get_attr_as_bytes CKA_OTP_COUNTER hotp_key = Ok (u64_to_be 5)" "is_modifiable hotp_key"
  "get_attr_as_ulong CKA_OTP_COUNTER_REQUIREMENT hotp_key = Ok CK_OTP_PARAM_IGNORED"
  by (simp_all add: hotp_key_def get_attr_def attr_as_def get_attr_as_ulong_def get_attr_as_bytes_def is_modifiable_def
      bool_checker_def)

lemma sample_hotp:
  obtains ho where "hotp_new toy_digests (plain_mechanism CKM_HOTP) hotp_key = Ok ho" and "hp_length ho = 6"
    and "unat (u64_from_be (hp_counter ho)) = 5" and "otp_override (plain_mechanism CKM_HOTP) = Ok None"
proof -
  have "hmac_mech_to_hash_mech CKM_SHA_1_HMAC = Ok CKM_SHA_1" by (simp add: hmac_mech_to_hash_mech_def)
  then obtain hm where "hmac_internal toy_digests CKM_SHA_1_HMAC (replicate 20 1) 20 = Ok hm"
    by (rule hmac_internal_absorbing[OF toy_contract])
  then show ?thesis
    using that
    by (auto simp: hotp_new_def otp_override_def plain_mechanism_def hotp_counter_def hotp_key_sel hotp_hmac_mech_def
        be64.length_enc be64.dec_enc)
qed

abbreviation sample_password :: "nat \<Rightarrow> bytes" where
  "sample_password \<equiv> hotp_spec (hmac_spec (toy_hash CKM_SHA_1) (block_size CKM_SHA_1) (replicate 20 1)) 6"

theorem hotp_password_of_rfc4226_witness:
  "\<exists>ho ho1. hotp_new toy_digests (plain_mechanism CKM_HOTP) hotp_key = Ok ho \<and>
    hotp_sign toy_digests 4096 [] 46 ho = (Ok (otp_signature 4096 (sample_password 5)), ho1)"
proof -
  obtain ho where ho: "hotp_new toy_digests (plain_mechanism CKM_HOTP) hotp_key = Ok ho" "hp_length ho = 6"
      "unat (u64_from_be (hp_counter ho)) = 5"
    by (rule sample_hotp)
  then show ?thesis
    using hotp_password_of_rfc4226[OF toy_contract ho(1) _ hotp_key_sel(1) ho(3)[symmetric], of 46 4096]
    by (auto simp: hotp_hash_def)
qed

theorem hotp_verification_window_witness:
  "\<exists>ho ho1. hotp_new toy_digests (plain_mechanism CKM_HOTP) hotp_key = Ok ho \<and>
    hotp_verify toy_digests [] (sample_password 7) ho = (Ok (), ho1)"
proof -
  obtain ho where ho: "hotp_new toy_digests (plain_mechanism CKM_HOTP) hotp_key = Ok ho" "hp_length ho = 6"
      "unat (u64_from_be (hp_counter ho)) = 5"
    by (rule sample_hotp)
  have "\<exists>j \<in> {5..<10}. sample_password 7 = sample_password j" by (rule bexI[of _ 7]) simp_all
  moreover have "length (sample_password 7) = 6" by (simp add: hotp_spec_def)
  ultimately show ?thesis
    using hotp_verification_window[OF toy_contract ho(1) _ hotp_key_sel(1) ho(3)[symmetric], of "sample_password 7"] ho(1,2)
    by (auto simp: hotp_hash_def)
qed

theorem accepted_password_moves_counter_witness:
  "\<exists>ho ho1 j attrs key1. hotp_new toy_digests (plain_mechanism CKM_HOTP) hotp_key = Ok ho \<and>
    hotp_verify toy_digests [] (sample_password 7) ho = (Ok (), ho1) \<and> sample_password 7 = sample_password j \<and>
    hotp_updates ho1 = Some (7, attrs) \<and> set_object_attributes hotp_data hotp_key attrs = (Ok (), key1)"
proof -
  obtain ho where ho: "hotp_new toy_digests (plain_mechanism CKM_HOTP) hotp_key = Ok ho" "hp_length ho = 6"
      "unat (u64_from_be (hp_counter ho)) = 5" "otp_override (plain_mechanism CKM_HOTP) = Ok None"
    by (rule sample_hotp)
  have "\<exists>j \<in> {5..<10}. sample_password 7 = sample_password j" by (rule bexI[of _ 7]) simp_all
  moreover have "length (sample_password 7) = 6" by (simp add: hotp_spec_def)
  ultimately obtain ho1 where "hotp_verify toy_digests [] (sample_password 7) ho = (Ok (), ho1)"
    using hotp_verification_window[OF toy_contract ho(1) _ hotp_key_sel(1) ho(3)[symmetric], of "sample_password 7"] ho(2)
    by (auto simp: hotp_hash_def)
  then show ?thesis
    using accepted_password_moves_counter[OF toy_contract ho(1) _ hotp_key_sel(1) ho(3)[symmetric] _ ho(4) hotp_key_sel(4)] ho(1,2)
    by (fastforce simp: hotp_hash_def hotp_key_def)
qed

end
