(* ===== verification/Certs.thy ===== *)
theory Certs
  imports Factory_Laws Key_Factories
begin

text \<open>
  Certificates and trust objects (\<^verbatim>\<open>src/src/object/certs.rs\<close>, without the NSS objects of the \<^verbatim>\<open>nssdb\<close>
  build), and what their creation guarantees.
\<close>

section \<open>X.509 certificates\<close>

definition common_certificate_attrs :: "object_attr list" where
  "common_certificate_attrs =
    common_storage_attrs False @
    [attr_element AlwaysRequired (from_ulong CKA_CERTIFICATE_TYPE 0),
     attr_element Defval (from_bool CKA_TRUSTED False),
     attr_element Defval (from_ulong CKA_CERTIFICATE_CATEGORY CK_CERTIFICATE_CATEGORY_UNSPECIFIED),
     attr_element Ignored (from_ignore CKA_CHECK_VALUE None),
     attr_element Defval (from_date_bytes CKA_START_DATE []),
     attr_element Defval (from_date_bytes CKA_END_DATE []),
     attr_element 0 (from_bytes CKA_PUBLIC_KEY_INFO [])]"

definition basic_cert_object_create_checks :: "object \<Rightarrow> ck_rv" where
  "basic_cert_object_create_checks obj =
    (if get_attr_as_bool CKA_TRUSTED obj = Ok True then CKR_ATTRIBUTE_READ_ONLY
     else case get_attr_as_ulong CKA_CERTIFICATE_CATEGORY obj of
       Inr c \<Rightarrow>
         if c \<in> {CK_CERTIFICATE_CATEGORY_UNSPECIFIED, CK_CERTIFICATE_CATEGORY_TOKEN_USER,
             CK_CERTIFICATE_CATEGORY_AUTHORITY, CK_CERTIFICATE_CATEGORY_OTHER_ENTITY}
           then CKR_OK else CKR_ATTRIBUTE_VALUE_INVALID
     | Inl _ \<Rightarrow> CKR_OK)"

definition x509_data :: factory_data where
  "x509_data =
    finalize_data (new_factory_data CKO_CERTIFICATE
      \<lparr>fd_attributes := common_certificate_attrs @
        [attr_element AlwaysRequired (from_bytes CKA_SUBJECT []),
         attr_element Defval (from_bytes CKA_ID []),
         attr_element Defval (from_bytes CKA_ISSUER []),
         attr_element Defval (from_bytes CKA_SERIAL_NUMBER []),
         attr_element AlwaysRequired (from_bytes CKA_VALUE []),
         attr_element 0 (from_string CKA_URL []),
         attr_element Defval (from_bytes CKA_HASH_OF_SUBJECT_PUBLIC_KEY []),
         attr_element Defval (from_bytes CKA_HASH_OF_ISSUER_PUBLIC_KEY []),
         attr_element Defval (from_ulong CKA_JAVA_MIDP_SECURITY_DOMAIN CK_SECURITY_DOMAIN_UNSPECIFIED),
         attr_element 0 (from_ulong CKA_NAME_HASH_ALGORITHM CKM_SHA_1)]\<rparr>)"

text \<open>A hash that must be there and not be empty; the code checks that of the subject twice.\<close>

definition nonempty_hash :: "ck_ulong \<Rightarrow> object \<Rightarrow> unit result" where
  "nonempty_hash t obj =
    and_then (map_err (\<lambda>_. CkError CKR_TEMPLATE_INCOMPLETE) (get_attr_as_bytes t obj)) (\<lambda>h.
      if h = [] then Err CKR_ATTRIBUTE_VALUE_INVALID else Ok ())"

definition check_security_domain :: "object \<Rightarrow> unit result" where
  "check_security_domain obj =
    (case get_attr_as_ulong CKA_JAVA_MIDP_SECURITY_DOMAIN obj of
       Inr sd \<Rightarrow>
         if sd \<in> {CK_SECURITY_DOMAIN_UNSPECIFIED, CK_SECURITY_DOMAIN_MANUFACTURER,
             CK_SECURITY_DOMAIN_OPERATOR, CK_SECURITY_DOMAIN_THIRD_PARTY}
           then Ok () else Err CKR_ATTRIBUTE_VALUE_INVALID
     | Inl _ \<Rightarrow> Ok ())"

definition x509_create :: "bytes \<Rightarrow> ck_attrs \<Rightarrow> object result" where
  "x509_create uuid template =
    and_then (default_object_create x509_data uuid template) (\<lambda>obj.
    if basic_cert_object_create_checks obj \<noteq> CKR_OK then Err (basic_cert_object_create_checks obj)
    else and_then (map_err (\<lambda>_. CkError CKR_TEMPLATE_INCOMPLETE) (get_attr_as_bytes CKA_VALUE obj)) (\<lambda>v.
    let url = (case get_attr_as_string CKA_URL obj of Inr u \<Rightarrow> u | Inl _ \<Rightarrow> []) in
    if v = [] \<and> url = [] then Err CKR_ATTRIBUTE_VALUE_INVALID
    else and_then
      (if url \<noteq> [] then
         and_then (nonempty_hash CKA_HASH_OF_SUBJECT_PUBLIC_KEY obj) (\<lambda>_.
           nonempty_hash CKA_HASH_OF_SUBJECT_PUBLIC_KEY obj)
       else Ok ()) (\<lambda>_.
    and_then (check_security_domain obj) (\<lambda>_. Ok obj))))"

definition x509_factory :: object_factory where
  "x509_factory = (default_factory x509_data)\<lparr>f_create := x509_create\<rparr>"

section \<open>Trust objects\<close>

definition TRUST_ATTRIBUTES :: "ck_ulong list" where
  "TRUST_ATTRIBUTES =
    [CKA_TRUST_SERVER_AUTH, CKA_TRUST_CLIENT_AUTH, CKA_TRUST_CODE_SIGNING, CKA_TRUST_EMAIL_PROTECTION,
     CKA_TRUST_IPSEC_IKE, CKA_TRUST_TIME_STAMPING, CKA_TRUST_OCSP_SIGNING]"

definition trust_data :: factory_data where
  "trust_data =
    finalize_data (new_factory_data CKO_TRUST
      \<lparr>fd_attributes := common_storage_attrs False @
        [attr_element RequiredOnCreate (from_bytes CKA_ISSUER []),
         attr_element RequiredOnCreate (from_bytes CKA_SERIAL_NUMBER []),
         attr_element 0 (from_bytes CKA_HASH_OF_CERTIFICATE []),
         attr_element 0 (from_ulong CKA_NAME_HASH_ALGORITHM CKM_SHA_1)] @
        map (\<lambda>t. attr_element Defval (from_ulong t CKT_TRUST_UNKNOWN)) TRUST_ATTRIBUTES\<rparr>)"

text \<open>The loop over the trust attributes, which stops at the first that says trust.\<close>

fun some_trusted :: "object \<Rightarrow> ck_ulong list \<Rightarrow> bool result" where
  "some_trusted obj [] = Ok False"
| "some_trusted obj (t # ts) =
    and_then (get_attr_as_ulong t obj) (\<lambda>v.
      if v \<noteq> CKT_TRUST_UNKNOWN \<and> v \<noteq> CKT_NOT_TRUSTED then Ok True else some_trusted obj ts)"

definition trust_create :: "bytes \<Rightarrow> ck_attrs \<Rightarrow> object result" where
  "trust_create uuid template =
    and_then (default_object_create trust_data uuid template) (\<lambda>o0.
    and_then (map_err (\<lambda>_. CkError CKR_TEMPLATE_INCONSISTENT) (ensure_ulong CKA_CLASS CKO_TRUST o0)) (\<lambda>obj.
    and_then (some_trusted obj TRUST_ATTRIBUTES) (\<lambda>trusted.
    if trusted then
      and_then (map_err incomplete (get_attr_as_bytes CKA_HASH_OF_CERTIFICATE obj)) (\<lambda>hash.
      if hash = [] then Err CKR_ATTRIBUTE_VALUE_INVALID
      else and_then (map_err incomplete (get_attr_as_ulong CKA_NAME_HASH_ALGORITHM obj)) (\<lambda>_. Ok obj))
    else if get_attr CKA_NAME_HASH_ALGORITHM obj = None
      then set_attr (from_ulong CKA_NAME_HASH_ALGORITHM CKM_SHA_1) obj
    else Ok obj)))"

definition trust_factory :: object_factory where
  "trust_factory = (default_factory trust_data)\<lparr>f_create := trust_create\<rparr>"

section \<open>What creation guarantees\<close>

lemma cert_map_err_Ok: "map_err f r = Ok x \<longleftrightarrow> r = Ok x"
  by (auto simp: map_err_def split: sum.splits)

lemma some_trusted_iff:
  "some_trusted obj ts = Ok b \<Longrightarrow>
    b \<longleftrightarrow> (\<exists>t \<in> set ts. \<exists>v. get_attr_as_ulong t obj = Ok v \<and> v \<noteq> CKT_TRUST_UNKNOWN \<and> v \<noteq> CKT_NOT_TRUSTED)"
  by (induction ts) (auto simp: and_then_eq_Ok split: if_split_asm)

text \<open>
  C39. A certificate that an application creates (\<^verbatim>\<open>X509Factory::create\<close>) is never trusted, is of a known category
  and security domain, and says what it certifies: it has a value, or a URL with the hash of the key of
  its subject.
\<close>

theorem created_certificate_untrusted:
  assumes "x509_create uuid template = Ok obj"
  shows "get_attr_as_bool CKA_TRUSTED obj \<noteq> Ok True \<and>
    (\<forall>c. get_attr_as_ulong CKA_CERTIFICATE_CATEGORY obj = Ok c \<longrightarrow> unat c \<le> 3) \<and>
    (\<forall>sd. get_attr_as_ulong CKA_JAVA_MIDP_SECURITY_DOMAIN obj = Ok sd \<longrightarrow> unat sd \<le> 3) \<and>
    (\<exists>v. get_attr_as_bytes CKA_VALUE obj = Ok v \<and>
      (v = [] \<longrightarrow> (\<exists>url. get_attr_as_string CKA_URL obj = Ok url \<and> url \<noteq> []))) \<and>
    (\<forall>url. get_attr_as_string CKA_URL obj = Ok url \<and> url \<noteq> [] \<longrightarrow>
      (\<exists>h. get_attr_as_bytes CKA_HASH_OF_SUBJECT_PUBLIC_KEY obj = Ok h \<and> h \<noteq> []))"
proof -
  obtain v where checks: "basic_cert_object_create_checks obj = CKR_OK" "get_attr_as_bytes CKA_VALUE obj = Ok v"
      "check_security_domain obj = Ok ()"
    and url: "v = [] \<longrightarrow> (\<exists>url. get_attr_as_string CKA_URL obj = Ok url \<and> url \<noteq> [])"
      "\<forall>url. get_attr_as_string CKA_URL obj = Ok url \<and> url \<noteq> [] \<longrightarrow> nonempty_hash CKA_HASH_OF_SUBJECT_PUBLIC_KEY obj = Ok ()"
    using assms by (auto simp: x509_create_def and_then_eq_Ok cert_map_err_Ok Let_def split: if_split_asm sum.splits)
  have "get_attr_as_bool CKA_TRUSTED obj \<noteq> Ok True"
    and "\<forall>c. get_attr_as_ulong CKA_CERTIFICATE_CATEGORY obj = Ok c \<longrightarrow> unat c \<le> 3"
    using checks(1) by (auto simp: basic_cert_object_create_checks_def split: if_split_asm)
  moreover have "\<forall>sd. get_attr_as_ulong CKA_JAVA_MIDP_SECURITY_DOMAIN obj = Ok sd \<longrightarrow> unat sd \<le> 3"
    using checks(3) by (auto simp: check_security_domain_def split: if_split_asm)
  moreover have "\<forall>url. get_attr_as_string CKA_URL obj = Ok url \<and> url \<noteq> [] \<longrightarrow>
      (\<exists>h. get_attr_as_bytes CKA_HASH_OF_SUBJECT_PUBLIC_KEY obj = Ok h \<and> h \<noteq> [])"
    using url(2) by (auto simp: nonempty_hash_def and_then_eq_Ok cert_map_err_Ok split: if_split_asm)
  ultimately show ?thesis using checks(2) url(1) by blast
qed

text \<open>
  A trust object that an application creates (\<^verbatim>\<open>TrustObject::create\<close>) and that trusts a certificate for any
  use names the certificate by a hash that is not empty; the algorithm of the hash is always there.
\<close>

theorem trust_names_certificate:
  assumes "trust_create uuid template = Ok obj"
  shows "get_attr CKA_NAME_HASH_ALGORITHM obj \<noteq> None \<and>
    (\<forall>t \<in> set TRUST_ATTRIBUTES. \<forall>v. get_attr_as_ulong t obj = Ok v \<and> v \<noteq> CKT_TRUST_UNKNOWN \<and> v \<noteq> CKT_NOT_TRUSTED \<longrightarrow>
      (\<exists>h. get_attr_as_bytes CKA_HASH_OF_CERTIFICATE obj = Ok h \<and> h \<noteq> []))"
proof -
  obtain o0 o1 b where o1: "some_trusted o1 TRUST_ATTRIBUTES = Ok b"
    and rest: "(if b then
      and_then (map_err incomplete (get_attr_as_bytes CKA_HASH_OF_CERTIFICATE o1)) (\<lambda>hash.
      if hash = [] then Err CKR_ATTRIBUTE_VALUE_INVALID
      else and_then (map_err incomplete (get_attr_as_ulong CKA_NAME_HASH_ALGORITHM o1)) (\<lambda>_. Ok o1))
    else if get_attr CKA_NAME_HASH_ALGORITHM o1 = None
      then set_attr (from_ulong CKA_NAME_HASH_ALGORITHM CKM_SHA_1) o1
    else Ok o1) = Ok obj"
    using assms unfolding trust_create_def and_then_eq_Ok by blast
  show ?thesis
  proof (cases b)
    case True
    then have "obj = o1" "\<exists>h. get_attr_as_bytes CKA_HASH_OF_CERTIFICATE o1 = Ok h \<and> h \<noteq> []"
        "\<exists>m. get_attr_as_ulong CKA_NAME_HASH_ALGORITHM o1 = Ok m"
      using rest by (auto simp: and_then_eq_Ok cert_map_err_Ok split: if_split_asm)
    moreover from this(3) have "get_attr CKA_NAME_HASH_ALGORITHM o1 \<noteq> None"
      by (auto simp: get_attr_as_ulong_def attr_as_def split: option.splits)
    ultimately show ?thesis by blast
  next
    case False
    have other: "get_attr t obj = get_attr t o1" if "t \<noteq> CKA_NAME_HASH_ALGORITHM" for t
      using rest False that get_attr_set[of "from_ulong CKA_NAME_HASH_ALGORITHM CKM_SHA_1" o1 obj t]
      by (auto simp: from_ulong_def mk_attribute_def split: if_split_asm)
    have "get_attr_as_ulong t obj = get_attr_as_ulong t o1" if "t \<in> set TRUST_ATTRIBUTES" for t
      using other[of t] that by (auto simp: TRUST_ATTRIBUTES_def get_attr_as_ulong_def attr_as_def)
    then have "\<not> (\<exists>t \<in> set TRUST_ATTRIBUTES. \<exists>v. get_attr_as_ulong t obj = Ok v \<and> v \<noteq> CKT_TRUST_UNKNOWN \<and> v \<noteq> CKT_NOT_TRUSTED)"
      using some_trusted_iff[OF o1] False by auto
    moreover have "get_attr CKA_NAME_HASH_ALGORITHM obj \<noteq> None"
      using rest False get_attr_set[of "from_ulong CKA_NAME_HASH_ALGORITHM CKM_SHA_1" o1 obj CKA_NAME_HASH_ALGORITHM]
      by (auto simp: from_ulong_def mk_attribute_def split: if_split_asm)
    ultimately show ?thesis by blast
  qed
qed

text \<open>
  The check of a creation does not bind later changes: the attribute is not marked, so the trust of a
  certificate can be set afterwards by whoever may change it.
\<close>

lemma trusted_by_change:
  assumes "is_modifiable obj"
  shows "\<exists>o1. set_object_attributes x509_data obj [ck_attr_of CKA_TRUSTED [CK_TRUE]] = (Ok (), o1) \<and>
    get_attr_as_bool CKA_TRUSTED o1 = Ok True"
proof -
  have "(case find_oattr x509_data CKA_TRUSTED of None \<Rightarrow> False
      | Some a \<Rightarrow> \<not> oa_is a NeverSettable \<and> \<not> oa_is a Unchangeable)"
    by code_simp
  then have "check_set_attributes x509_data [ck_attr_of CKA_TRUSTED [CK_TRUE]] = Ok ()"
    by (auto simp: check_set_attributes_def check_set_attribute_def ck_attr_of_def split: option.splits)
  moreover obtain o1 where o1: "set_attr (from_bool CKA_TRUSTED True) obj = Ok o1"
    by (auto simp: set_attr_other_class from_bool_def mk_attribute_def)
  ultimately have "set_object_attributes x509_data obj [ck_attr_of CKA_TRUSTED [CK_TRUE]] = (Ok (), o1)"
    using assms from_ck_attr_flags by (simp add: set_object_attributes_def set_from_ck_def)
  then show ?thesis
    using get_attr_set[OF o1] by (auto simp: get_attr_as_bool_def attr_as_def from_bool_def mk_attribute_def to_bool_def)
qed

section \<open>Witnesses\<close>

definition certificate_template :: ck_attrs where
  "certificate_template =
    [ck_attr_of CKA_CLASS (u64_to_le CKO_CERTIFICATE), ck_attr_of CKA_CERTIFICATE_TYPE (u64_to_le 0),
     ck_attr_of CKA_SUBJECT [1], ck_attr_of CKA_VALUE [2]]"

theorem created_certificate_untrusted_witness:
  "\<exists>obj. x509_create [1] certificate_template = Ok obj \<and> get_attr_as_bool CKA_TRUSTED obj \<noteq> Ok True"
proof -
  have "is_ok (x509_create [1] certificate_template)" by code_simp
  then show ?thesis using created_certificate_untrusted by (auto simp: is_ok_iff)
qed

definition trust_template :: ck_attrs where
  "trust_template =
    [ck_attr_of CKA_ISSUER [1], ck_attr_of CKA_SERIAL_NUMBER [2], ck_attr_of CKA_TRUST_SERVER_AUTH (u64_to_le 1),
     ck_attr_of CKA_HASH_OF_CERTIFICATE [3], ck_attr_of CKA_NAME_HASH_ALGORITHM (u64_to_le CKM_SHA_1)]"

theorem trust_names_certificate_witness:
  "\<exists>obj h. trust_create [1] trust_template = Ok obj \<and> get_attr_as_bytes CKA_HASH_OF_CERTIFICATE obj = Ok h \<and> h \<noteq> []"
proof -
  have "and_then (trust_create [1] trust_template) (\<lambda>obj. get_attr_as_ulong CKA_TRUST_SERVER_AUTH obj) = Ok 1"
    by code_simp
  then obtain obj where obj: "trust_create [1] trust_template = Ok obj" "get_attr_as_ulong CKA_TRUST_SERVER_AUTH obj = Ok 1"
    by (auto simp: and_then_eq_Ok)
  moreover have "CKA_TRUST_SERVER_AUTH \<in> set TRUST_ATTRIBUTES" by (simp add: TRUST_ATTRIBUTES_def)
  ultimately show ?thesis using trust_names_certificate[OF obj(1)] by fastforce
qed


end
