(* ===== verification/Config.thy ===== *)
theory Config
  imports Library_State
begin

text \<open>
  The configuration (\<^verbatim>\<open>src/src/config.rs\<close>): the places where it is looked for, the configuration that
  \<^verbatim>\<open>C_Initialize\<close> is given, and the numbers of slots. The environment of the process (its variables, the
  files, the TOML parser) is a parameter. A string is its bytes.
\<close>

definition ascii :: "string \<Rightarrow> bytes" where
  "ascii = map of_char"

section \<open>Configurations\<close>

datatype ec_point_encoding = EncodingBytes | EncodingDer

record conf_slot =
  cs_slot :: u32
  cs_cfg :: slot_config

record config =
  cf_ec_point_encoding :: ec_point_encoding
  cf_slots :: "conf_slot list"

text \<open>\<^verbatim>\<open>u32::MAX\<close> stands for a slot that has no number yet.\<close>

definition NO_SLOT :: u32 where
  "NO_SLOT = - 1"

definition conf_slot_new :: conf_slot where
  "conf_slot_new =
    \<lparr>cs_slot = NO_SLOT,
     cs_cfg = \<lparr>cfg_description = None, cfg_manufacturer = None, cfg_dbtype = None, cfg_dbargs = None,
       cfg_mechanisms = None, cfg_objects_dedup = None\<rparr>\<rparr>"

definition config_new :: config where
  "config_new = \<lparr>cf_ec_point_encoding = EncodingBytes, cf_slots = []\<rparr>"

section \<open>Finding and reading a configuration\<close>

record environment =
  env_var :: "bytes \<Rightarrow> bytes option"
  env_is_file :: "bytes \<Rightarrow> bool"
  env_read_to_string :: "bytes \<Rightarrow> bytes result"
  env_toml_from_str :: "bytes \<Rightarrow> config option"

definition DEFAULT_CONF_DIR :: bytes where
  "DEFAULT_CONF_DIR = ascii ''/usr/local/etc''"

definition DEFAULT_CONF_NAME :: bytes where
  "DEFAULT_CONF_NAME = ascii ''token.conf''"

definition find_conf :: "environment \<Rightarrow> bytes result" where
  "find_conf env =
    (case env_var env (ascii ''KRYOPTIC_CONF'') of
       Some var \<Rightarrow> Ok var
     | None \<Rightarrow>
       (let datafile =
          (case env_var env (ascii ''XDG_CONFIG_HOME'') of
             Some xdg \<Rightarrow> xdg @ ascii ''/kryoptic/'' @ DEFAULT_CONF_NAME
           | None \<Rightarrow>
             (case env_var env (ascii ''HOME'') of
                Some home \<Rightarrow> home @ ascii ''/.config/kryoptic/'' @ DEFAULT_CONF_NAME
              | None \<Rightarrow> DEFAULT_CONF_DIR @ ascii ''/kryoptic/'' @ DEFAULT_CONF_NAME)) in
        if env_is_file env datafile then Ok datafile else Err CKR_ARGUMENTS_BAD))"

definition from_file :: "environment \<Rightarrow> bytes \<Rightarrow> config result" where
  "from_file env filename =
    and_then (env_read_to_string env filename) (\<lambda>config_str.
      case env_toml_from_str env config_str of
        Some conf \<Rightarrow> Ok conf
      | None \<Rightarrow> Err CKR_TOKEN_NOT_RECOGNIZED)"

definition ends_with :: "bytes \<Rightarrow> bytes \<Rightarrow> bool" where
  "ends_with s suffix \<longleftrightarrow> length suffix \<le> length s \<and> drop (length s - length suffix) s = suffix"

definition starts_with :: "bytes \<Rightarrow> bytes \<Rightarrow> bool" where
  "starts_with s pre \<longleftrightarrow> take (length pre) s = pre"

definition from_legacy_conf_string :: "bytes \<Rightarrow> config result" where
  "from_legacy_conf_string name =
    Ok (if ends_with name (ascii ''.sql'') then
          config_new\<lparr>cf_slots := [conf_slot_new\<lparr>cs_cfg := (cs_cfg conf_slot_new)
            \<lparr>cfg_dbtype := Some (ascii ''sqlite''), cfg_dbargs := Some name\<rparr>\<rparr>]\<rparr>
        else config_new)"

section \<open>Slot numbers\<close>

text \<open>The first loop: the number after the highest one, which no configured number can overflow.\<close>

fun next_slot_number :: "u32 \<Rightarrow> conf_slot list \<Rightarrow> u32" where
  "next_slot_number n [] = n"
| "next_slot_number n (s # ss) =
    next_slot_number (if cs_slot s \<noteq> NO_SLOT \<and> n \<le> cs_slot s then cs_slot s + 1 else n) ss"

text \<open>The second loop numbers the slots that have none; here the counter can overflow.\<close>

fun number_slots :: "u32 \<Rightarrow> conf_slot list \<Rightarrow> conf_slot list result" where
  "number_slots n [] = Ok []"
| "number_slots n (s # ss) =
    (if cs_slot s = NO_SLOT then
       if n = - 1 then Inl Panic
       else and_then (number_slots (n + 1) ss) (\<lambda>r. Ok (s\<lparr>cs_slot := n\<rparr> # r))
     else and_then (number_slots n ss) (\<lambda>r. Ok (s # r)))"

definition fix_slot_numbers :: "config \<Rightarrow> config result" where
  "fix_slot_numbers conf =
    (if list_ex (\<lambda>s. cs_slot s = NO_SLOT) (cf_slots conf) then
       and_then (number_slots (next_slot_number 0 (cf_slots conf)) (cf_slots conf)) (\<lambda>ss.
         Ok (conf\<lparr>cf_slots := ss\<rparr>))
     else Ok conf)"

text \<open>The fallback never fails, so neither does the reading of a file that was found.\<close>

definition default_config :: "environment \<Rightarrow> config result" where
  "default_config env =
    and_then (find_conf env) (\<lambda>filename.
      case from_file env filename of
        Inr conf \<Rightarrow> Ok conf
      | Inl e \<Rightarrow>
        (case from_legacy_conf_string filename of
           Inr conf \<Rightarrow> fix_slot_numbers conf
         | Inl _ \<Rightarrow> Inl e))"

definition load_env_vars_overrides :: "environment \<Rightarrow> config \<Rightarrow> config" where
  "load_env_vars_overrides env conf =
    (case env_var env (ascii ''KRYOPTIC_EC_POINT_ENCODING'') of
       Some var \<Rightarrow>
         conf\<lparr>cf_ec_point_encoding :=
           (if var = ascii ''DER'' then EncodingDer
            else if var = ascii ''BYTES'' then EncodingBytes
            else cf_ec_point_encoding conf)\<rparr>
     | None \<Rightarrow> conf)"

section \<open>The argument of the initialization\<close>

text \<open>\<^verbatim>\<open>splitn(2, '=')\<close> gives what follows the first equals sign.\<close>

definition conf_from_args :: "environment \<Rightarrow> bytes \<Rightarrow> config result" where
  "conf_from_args env args =
    (if starts_with args (ascii ''kryoptic_conf='')
       then from_file env (drop 1 (dropWhile (\<lambda>b. b \<noteq> of_char CHR ''='') args))
     else from_legacy_conf_string args)"

definition same_dbtype :: "conf_slot \<Rightarrow> conf_slot \<Rightarrow> bool" where
  "same_dbtype s slot \<longleftrightarrow> cfg_dbtype (cs_cfg s) = cfg_dbtype (cs_cfg slot)"

definition same_dbargs :: "conf_slot \<Rightarrow> conf_slot \<Rightarrow> bool" where
  "same_dbargs s slot \<longleftrightarrow> cfg_dbargs (cs_cfg s) = cfg_dbargs (cs_cfg slot)"

text \<open>
  The inner loop over the slots that are loaded: whether the slot is one of them, and the slot with the
  number it got from a match.
\<close>

fun already_loaded :: "conf_slot list \<Rightarrow> conf_slot \<Rightarrow> bool \<Rightarrow> (bool \<times> conf_slot) result" where
  "already_loaded [] slot found = Ok (found, slot)"
| "already_loaded (s # ss) slot found =
    (if cs_slot slot = NO_SLOT then
       if same_dbtype s slot \<and> same_dbargs s slot
         then already_loaded ss (slot\<lparr>cs_slot := cs_slot s\<rparr>) True
       else already_loaded ss slot found
     else if cs_slot slot \<noteq> cs_slot s then
       if same_dbtype s slot \<and> same_dbargs s slot then Err CKR_ARGUMENTS_BAD
       else already_loaded ss slot found
     else if \<not> same_dbtype s slot then Err CKR_ARGUMENTS_BAD
     else if \<not> same_dbargs s slot then Err CKR_ARGUMENTS_BAD
     else already_loaded ss slot True)"

fun add_conf_slots :: "conf_slot list \<Rightarrow> conf_slot list \<Rightarrow> unit result \<times> conf_slot list" where
  "add_conf_slots [] loaded = (Ok (), loaded)"
| "add_conf_slots (slot # slots) loaded =
    (case already_loaded loaded slot False of
       Inl e \<Rightarrow> (Inl e, loaded)
     | Inr (found, slot1) \<Rightarrow> add_conf_slots slots (if found then loaded else loaded @ [slot1]))"

definition from_init_args :: "environment \<Rightarrow> bytes \<Rightarrow> config \<Rightarrow> unit result \<times> config" where
  "from_init_args env args conf =
    (case conf_from_args env args of
       Inl e \<Rightarrow> (Inl e, conf)
     | Inr c \<Rightarrow>
       (case add_conf_slots (cf_slots c) (cf_slots conf) of
          (Inl e, ss) \<Rightarrow> (Inl e, conf\<lparr>cf_slots := ss\<rparr>)
        | (Inr _, ss) \<Rightarrow>
          (case fix_slot_numbers (conf\<lparr>cf_slots := ss\<rparr>) of
             Inl e \<Rightarrow> (Inl e, conf\<lparr>cf_slots := ss\<rparr>)
           | Inr conf1 \<Rightarrow> (Ok (), conf1))))"

end
