(* ===== verification/Config_Laws.thy ===== *)
theory Config_Laws
  imports Config
begin

text \<open>
  What a configuration guarantees: slots have different numbers and different databases, whatever
  arguments the initialization is given, and a slot that is there keeps its number.
\<close>

section \<open>Slots that are apart\<close>

definition slot_db :: "conf_slot \<Rightarrow> bytes option \<times> bytes option" where
  "slot_db s = (cfg_dbtype (cs_cfg s), cfg_dbargs (cs_cfg s))"

definition slots_apart :: "conf_slot list \<Rightarrow> bool" where
  "slots_apart ss \<longleftrightarrow> distinct (map cs_slot ss) \<and> NO_SLOT \<notin> cs_slot ` set ss \<and> distinct (map slot_db ss)"

text \<open>While slots are added, those without a number do not count.\<close>

definition numbered :: "conf_slot \<Rightarrow> bool" where
  "numbered s \<longleftrightarrow> cs_slot s \<noteq> NO_SLOT"

definition nearly_apart :: "conf_slot list \<Rightarrow> bool" where
  "nearly_apart ss \<longleftrightarrow> distinct (map cs_slot (filter numbered ss)) \<and> distinct (map slot_db ss)"

lemma same_db: "same_dbtype s t \<and> same_dbargs s t \<longleftrightarrow> slot_db s = slot_db t"
  by (auto simp: same_dbtype_def same_dbargs_def slot_db_def)

lemma slot_db_number [simp]: "slot_db (s\<lparr>cs_slot := n\<rparr>) = slot_db s"
  by (simp add: slot_db_def)

lemma slots_apart_iff: "slots_apart ss \<longleftrightarrow> nearly_apart ss \<and> (\<forall>s \<in> set ss. numbered s)"
proof -
  have "(\<forall>s \<in> set ss. numbered s) \<longleftrightarrow> NO_SLOT \<notin> cs_slot ` set ss"
    by (auto simp: numbered_def image_iff)
  moreover have "filter numbered ss = ss" if "\<forall>s \<in> set ss. numbered s"
    using that by simp
  ultimately show ?thesis
    unfolding slots_apart_def nearly_apart_def by metis
qed

section \<open>Adding slots\<close>

lemma already_loaded_stays: "already_loaded ss slot True = Ok (found, slot1) \<Longrightarrow> found"
  by (induction ss arbitrary: slot) (auto split: if_split_asm)

lemma already_loaded_new:
  "already_loaded ss slot False = Ok (False, slot1) \<Longrightarrow>
    slot1 = slot \<and> (\<forall>s \<in> set ss. slot_db s \<noteq> slot_db slot \<and> (numbered slot \<longrightarrow> cs_slot s \<noteq> cs_slot slot))"
proof (induction ss)
  case (Cons s ss)
  have "\<not> (cs_slot slot = NO_SLOT \<and> slot_db s = slot_db slot)" and "\<not> (cs_slot slot \<noteq> NO_SLOT \<and> cs_slot slot = cs_slot s)"
    using Cons.prems already_loaded_stays by (fastforce simp: same_db[symmetric] split: if_split_asm)+
  then show ?case
    using Cons by (auto simp: same_db numbered_def split: if_split_asm)
qed simp

lemma already_loaded_found:
  "already_loaded ss slot False = Ok (True, slot1) \<Longrightarrow>
    \<exists>s \<in> set ss. slot_db s = slot_db slot \<and> (numbered slot \<longrightarrow> cs_slot s = cs_slot slot)"
  by (induction ss) (auto simp: same_db[symmetric] numbered_def split: if_split_asm)

lemma add_conf_slots_apart:
  assumes "add_conf_slots slots loaded = (Ok (), ss)" "nearly_apart loaded"
  shows "nearly_apart ss \<and> (\<exists>more. ss = loaded @ more) \<and>
    (\<forall>s \<in> set slots. \<exists>s' \<in> set ss. slot_db s' = slot_db s \<and> (numbered s \<longrightarrow> cs_slot s' = cs_slot s))"
  using assms
proof (induction slots arbitrary: loaded)
  case (Cons slot slots)
  obtain found slot1 where al: "already_loaded loaded slot False = Ok (found, slot1)"
      and rest: "add_conf_slots slots (if found then loaded else loaded @ [slot1]) = (Ok (), ss)"
    using Cons.prems(1) by (auto split: sum.split_asm)
  let ?next = "if found then loaded else loaded @ [slot1]"
  have "nearly_apart ?next \<and> (\<exists>s \<in> set ?next. slot_db s = slot_db slot \<and> (numbered slot \<longrightarrow> cs_slot s = cs_slot slot))"
  proof (cases found)
    case True
    then show ?thesis using already_loaded_found al Cons.prems(2) by auto
  next
    case False
    then show ?thesis using already_loaded_new[of loaded slot slot1] al Cons.prems(2)
      by (auto simp: nearly_apart_def)
  qed
  moreover obtain more where "ss = ?next @ more"
    using Cons.IH[OF rest] calculation by blast
  ultimately show ?case
    using Cons.IH[OF rest] by (auto split: if_split_asm)
qed simp

section \<open>Numbering slots\<close>

lemma less_increment: "(n :: u32) < n + 1" if "n \<noteq> - 1"
proof -
  have "1 + n \<noteq> 0" using that by (metis add_eq_0_iff)
  then show ?thesis by (simp add: word_less_nat_alt add.commute[of n 1] unatSuc)
qed

lemma next_slot_number_above:
  "n \<le> next_slot_number n ss \<and> (\<forall>s \<in> set ss. numbered s \<longrightarrow> cs_slot s < next_slot_number n ss)"
proof (induction ss arbitrary: n)
  case (Cons s ss)
  let ?n1 = "if cs_slot s \<noteq> NO_SLOT \<and> n \<le> cs_slot s then cs_slot s + 1 else n"
  have "cs_slot s < cs_slot s + 1" if "cs_slot s \<noteq> NO_SLOT"
    using that less_increment[of "cs_slot s"] by (simp add: NO_SLOT_def)
  then have "n \<le> ?n1 \<and> (numbered s \<longrightarrow> cs_slot s < ?n1)"
    by (auto simp: numbered_def)
  moreover have "?n1 \<le> next_slot_number ?n1 ss" "\<forall>t \<in> set ss. numbered t \<longrightarrow> cs_slot t < next_slot_number ?n1 ss"
    using Cons by blast+
  ultimately show ?case
    unfolding next_slot_number.simps list.set ball_simps(7) by (meson order.trans less_le_trans)
qed simp

lemma number_slots_apart:
  assumes "number_slots n ss = Ok r" "\<forall>s \<in> set ss. numbered s \<longrightarrow> cs_slot s < n"
    "distinct (map cs_slot (filter numbered ss))"
  shows "distinct (map cs_slot r) \<and> (\<forall>s \<in> set r. numbered s) \<and>
    (\<forall>s \<in> set r. cs_slot s \<in> cs_slot ` set (filter numbered ss) \<or> n \<le> cs_slot s)"
  using assms
proof (induction n ss arbitrary: r rule: number_slots.induct)
  case (2 n s ss)
  show ?case
  proof (cases "numbered s")
    case True
    then obtain r1 where r: "number_slots n ss = Ok r1" "r = s # r1"
      using 2(3) by (auto simp: numbered_def and_then_eq_Ok)
    have hyp: "\<forall>t \<in> set ss. numbered t \<longrightarrow> cs_slot t < n" "distinct (map cs_slot (filter numbered ss))"
        "cs_slot s < n" "cs_slot s \<notin> cs_slot ` set (filter numbered ss)"
      using 2(4,5) True by simp_all
    have ih: "distinct (map cs_slot r1)" "\<forall>s \<in> set r1. numbered s"
      "\<forall>s \<in> set r1. cs_slot s \<in> cs_slot ` set (filter numbered ss) \<or> n \<le> cs_slot s"
      using 2(2)[OF _ r(1) hyp(1,2)] True by (simp_all add: numbered_def)
    have "cs_slot s \<notin> cs_slot ` set r1"
    proof
      assume "cs_slot s \<in> cs_slot ` set r1"
      then have "cs_slot s \<in> cs_slot ` set (filter numbered ss) \<or> n \<le> cs_slot s" using ih(3) by (metis imageE)
      then show False using hyp(3,4) by auto
    qed
    then show ?thesis using r(2) True ih by (simp del: set_filter)
  next
    case False
    then obtain r1 where r: "n \<noteq> - 1" "number_slots (n + 1) ss = Ok r1" "r = s\<lparr>cs_slot := n\<rparr> # r1"
      using 2(3) by (auto simp: numbered_def and_then_eq_Ok split: if_split_asm)
    have up: "n < n + 1" using r(1) by (rule less_increment)
    have hyp: "\<forall>t \<in> set ss. numbered t \<longrightarrow> cs_slot t < n" "distinct (map cs_slot (filter numbered ss))"
      using 2(4,5) False by simp_all
    have ih: "distinct (map cs_slot r1)" "\<forall>s \<in> set r1. numbered s"
      "\<forall>s \<in> set r1. cs_slot s \<in> cs_slot ` set (filter numbered ss) \<or> n + 1 \<le> cs_slot s"
      using 2(1)[OF _ r(1,2) _ hyp(2)] hyp(1) up False by (auto simp: numbered_def intro: less_trans)
    have "cs_slot t \<noteq> n" if "t \<in> set r1" for t
      using ih(3) hyp(1) that up by fastforce
    moreover have "numbered (s\<lparr>cs_slot := n\<rparr>)" using r(1) by (simp add: numbered_def NO_SLOT_def)
    moreover have "\<forall>t \<in> set r1. cs_slot t \<in> cs_slot ` set (filter numbered ss) \<or> n \<le> cs_slot t"
      using ih(3) up by (meson less_imp_le order.trans)
    ultimately show ?thesis using r(3) ih(1,2) False by auto
  qed
qed simp

lemma number_slots_keeps:
  "number_slots n ss = Ok r \<Longrightarrow>
    list_all2 (\<lambda>s t. slot_db t = slot_db s \<and> (numbered s \<longrightarrow> t = s)) ss r"
  by (induction n ss arbitrary: r rule: number_slots.induct)
    (auto simp: and_then_eq_Ok numbered_def split: if_split_asm)


lemma fix_slot_numbers_apart:
  assumes "fix_slot_numbers conf = Ok conf'" "nearly_apart (cf_slots conf)"
  shows "slots_apart (cf_slots conf') \<and>
    list_all2 (\<lambda>s t. slot_db t = slot_db s \<and> (numbered s \<longrightarrow> t = s)) (cf_slots conf) (cf_slots conf')"
proof (cases "list_ex (\<lambda>s. cs_slot s = NO_SLOT) (cf_slots conf)")
  case True
  let ?n = "next_slot_number 0 (cf_slots conf)"
  obtain r where r: "number_slots ?n (cf_slots conf) = Ok r" "conf' = conf\<lparr>cf_slots := r\<rparr>"
    using assms(1) True by (auto simp: fix_slot_numbers_def and_then_eq_Ok)
  have keep: "list_all2 (\<lambda>s t. slot_db t = slot_db s \<and> (numbered s \<longrightarrow> t = s)) (cf_slots conf) r"
    by (rule number_slots_keeps[OF r(1)])
  then have "map slot_db r = map slot_db (cf_slots conf)"
    by (induction rule: list_all2_induct) auto
  then show ?thesis
    using number_slots_apart[OF r(1)] next_slot_number_above[of 0 "cf_slots conf"] assms(2) keep r(2)
    by (simp add: slots_apart_iff nearly_apart_def distinct_map_filter)
next
  case False
  then have all: "\<forall>s \<in> set (cf_slots conf). numbered s" "conf' = conf"
    using assms(1) by (auto simp: fix_slot_numbers_def list_ex_iff numbered_def)
  then show ?thesis using assms(2) by (simp add: slots_apart_iff list_all2_same)
qed

section \<open>The configuration of the library\<close>

text \<open>
  C7. The argument of an initialization (\<^verbatim>\<open>Config::from_init_args\<close>) leaves slots with different numbers, none
  without a number, and with different databases, if they were so before. The slots that were there stay as
  they are, and every slot that the argument asks for is there, with its number if it has one.
\<close>

theorem init_args_keep_slots_apart:
  assumes "from_init_args env args conf = (Ok (), conf')" "slots_apart (cf_slots conf)"
  shows "slots_apart (cf_slots conf') \<and> take (length (cf_slots conf)) (cf_slots conf') = cf_slots conf \<and>
    (\<exists>c. conf_from_args env args = Ok c \<and>
      (\<forall>s \<in> set (cf_slots c). \<exists>s' \<in> set (cf_slots conf').
        slot_db s' = slot_db s \<and> (cs_slot s \<noteq> NO_SLOT \<longrightarrow> cs_slot s' = cs_slot s)))"
proof -
  obtain c ss where c: "conf_from_args env args = Ok c" "add_conf_slots (cf_slots c) (cf_slots conf) = (Ok (), ss)"
      "fix_slot_numbers (conf\<lparr>cf_slots := ss\<rparr>) = Ok conf'"
    using assms(1) by (auto simp: from_init_args_def split: sum.split_asm prod.split_asm)
  have old: "nearly_apart (cf_slots conf)" "\<forall>s \<in> set (cf_slots conf). numbered s"
    using assms(2) by (simp_all add: slots_apart_iff)
  obtain more where added: "nearly_apart ss" "ss = cf_slots conf @ more"
      "\<forall>s \<in> set (cf_slots c). \<exists>s' \<in> set ss. slot_db s' = slot_db s \<and> (numbered s \<longrightarrow> cs_slot s' = cs_slot s)"
    using add_conf_slots_apart[OF c(2) old(1)] by blast
  have fixed: "slots_apart (cf_slots conf')"
      "list_all2 (\<lambda>s t. slot_db t = slot_db s \<and> (numbered s \<longrightarrow> t = s)) ss (cf_slots conf')"
    using fix_slot_numbers_apart[OF c(3)] added(1) by simp_all
  have "take (length (cf_slots conf)) (cf_slots conf') = cf_slots conf"
  proof (rule nth_equalityI)
    fix i assume "i < length (take (length (cf_slots conf)) (cf_slots conf'))"
    then have i: "i < length (cf_slots conf)" "i < length ss" by (simp_all add: added(2))
    have "numbered (ss ! i) \<longrightarrow> cf_slots conf' ! i = ss ! i"
      using list_all2_nthD[OF fixed(2) i(2)] by blast
    then show "take (length (cf_slots conf)) (cf_slots conf') ! i = cf_slots conf ! i"
      using i old(2) by (simp add: added(2) nth_append)
  qed (use fixed(2) in \<open>auto simp: added(2) dest: list_all2_lengthD\<close>)
  moreover have "\<exists>t \<in> set (cf_slots conf'). slot_db t = slot_db s \<and> (numbered s \<longrightarrow> t = s)" if s: "s \<in> set ss" for s
  proof -
    obtain i where i: "i < length ss" "s = ss ! i" using s by (metis in_set_conv_nth)
    then have "cf_slots conf' ! i \<in> set (cf_slots conf')"
      using list_all2_lengthD[OF fixed(2)] by simp
    then show ?thesis using list_all2_nthD[OF fixed(2) i(1)] i(2) by blast
  qed
  then have "\<forall>s \<in> set (cf_slots c). \<exists>s' \<in> set (cf_slots conf').
        slot_db s' = slot_db s \<and> (cs_slot s \<noteq> NO_SLOT \<longrightarrow> cs_slot s' = cs_slot s)"
    using added(3) unfolding numbered_def by metis
  ultimately show ?thesis using fixed(1) c(1) by blast
qed

section \<open>Witness\<close>

text \<open>An environment without variables and files, and a slot with the number 7.\<close>

definition bare_environment :: environment where
  "bare_environment =
    \<lparr>env_var = (\<lambda>_. None), env_is_file = (\<lambda>_. False), env_read_to_string = (\<lambda>_. Err CKR_GENERAL_ERROR),
     env_toml_from_str = (\<lambda>_. None)\<rparr>"

definition seventh_slot :: conf_slot where
  "seventh_slot = conf_slot_new\<lparr>cs_slot := 7\<rparr>"

lemma seventh_slot_number: "cs_slot seventh_slot = 7"
  by (simp add: seventh_slot_def)

theorem init_args_keep_slots_apart_witness:
  "\<exists>conf'. from_init_args bare_environment (ascii ''a.sql'') (config_new\<lparr>cf_slots := [seventh_slot]\<rparr>) = (Ok (), conf') \<and>
    slots_apart (cf_slots conf') \<and> map cs_slot (cf_slots conf') = [7, 8]"
proof -
  let ?conf = "config_new\<lparr>cf_slots := [seventh_slot]\<rparr>"
  have "is_ok (fst (from_init_args bare_environment (ascii ''a.sql'') ?conf)) \<and>
      map cs_slot (cf_slots (snd (from_init_args bare_environment (ascii ''a.sql'') ?conf))) = [7, 8]"
    by code_simp
  then obtain conf' where run: "from_init_args bare_environment (ascii ''a.sql'') ?conf = (Ok (), conf')"
      "map cs_slot (cf_slots conf') = [7, 8]"
    by (cases "from_init_args bare_environment (ascii ''a.sql'') ?conf") (auto simp: is_ok_iff)
  have "slots_apart (cf_slots ?conf)"
    by (simp add: slots_apart_def seventh_slot_number NO_SLOT_def)
  then have "slots_apart (cf_slots conf')" using init_args_keep_slots_apart[OF run(1)] by simp
  then show ?thesis using run by (intro exI[of _ conf'] conjI)
qed

end
