(* ===== verification/General_Api.thy ===== *)
theory General_Api
  imports Config Session_Api
begin

text \<open>
  The general functions (\<^verbatim>\<open>src/src/fns/general.rs\<close>), the function tables and interfaces of
  \<^verbatim>\<open>src/src/lib.rs\<close>, and the functions of \<^verbatim>\<open>src/src/fns/mod.rs\<close>: random numbers and those that are not
  supported. A C string is its bytes before the terminating zero.
\<close>

section \<open>Function tables\<close>

type_synonym ck_version = "u8 \<times> u8"

text \<open>A table: its version, and the entries of the struct, each with the function it points to.\<close>

record function_list =
  fl_version :: ck_version
  fl_functions :: "(string \<times> string) list"

definition FNLIST_240 :: function_list where
  "FNLIST_240 =
    \<lparr>fl_version = (2, 40), fl_functions =
    [(''C_Initialize'', ''fn_initialize''), (''C_Finalize'', ''fn_finalize''),
     (''C_GetInfo'', ''fn_get_info''), (''C_GetFunctionList'', ''fn_get_function_list''),
     (''C_GetSlotList'', ''fn_get_slot_list''), (''C_GetSlotInfo'', ''fn_get_slot_info''),
     (''C_GetTokenInfo'', ''fn_get_token_info''), (''C_GetMechanismList'', ''fn_get_mechanism_list''),
     (''C_GetMechanismInfo'', ''fn_get_mechanism_info''), (''C_InitToken'', ''fn_init_token''),
     (''C_InitPIN'', ''fn_init_pin''), (''C_SetPIN'', ''fn_set_pin''),
     (''C_OpenSession'', ''fn_open_session''), (''C_CloseSession'', ''fn_close_session''),
     (''C_CloseAllSessions'', ''fn_close_all_sessions''), (''C_GetSessionInfo'', ''fn_get_session_info''),
     (''C_GetOperationState'', ''fn_get_operation_state''),
     (''C_SetOperationState'', ''fn_set_operation_state''), (''C_Login'', ''fn_login''),
     (''C_Logout'', ''fn_logout''), (''C_CreateObject'', ''fn_create_object''),
     (''C_CopyObject'', ''fn_copy_object''), (''C_DestroyObject'', ''fn_destroy_object''),
     (''C_GetObjectSize'', ''fn_get_object_size''), (''C_GetAttributeValue'', ''fn_get_attribute_value''),
     (''C_SetAttributeValue'', ''fn_set_attribute_value''), (''C_FindObjectsInit'', ''fn_find_objects_init''),
     (''C_FindObjects'', ''fn_find_objects''), (''C_FindObjectsFinal'', ''fn_find_objects_final''),
     (''C_EncryptInit'', ''fn_encrypt_init''), (''C_Encrypt'', ''fn_encrypt''),
     (''C_EncryptUpdate'', ''fn_encrypt_update''), (''C_EncryptFinal'', ''fn_encrypt_final''),
     (''C_DecryptInit'', ''fn_decrypt_init''), (''C_Decrypt'', ''fn_decrypt''),
     (''C_DecryptUpdate'', ''fn_decrypt_update''), (''C_DecryptFinal'', ''fn_decrypt_final''),
     (''C_DigestInit'', ''fn_digest_init''), (''C_Digest'', ''fn_digest''),
     (''C_DigestUpdate'', ''fn_digest_update''), (''C_DigestKey'', ''fn_digest_key''),
     (''C_DigestFinal'', ''fn_digest_final''), (''C_SignInit'', ''fn_sign_init''), (''C_Sign'', ''fn_sign''),
     (''C_SignUpdate'', ''fn_sign_update''), (''C_SignFinal'', ''fn_sign_final''),
     (''C_SignRecoverInit'', ''fn_sign_recover_init''), (''C_SignRecover'', ''fn_sign_recover''),
     (''C_VerifyInit'', ''fn_verify_init''), (''C_Verify'', ''fn_verify''),
     (''C_VerifyUpdate'', ''fn_verify_update''), (''C_VerifyFinal'', ''fn_verify_final''),
     (''C_VerifyRecoverInit'', ''fn_verify_recover_init''), (''C_VerifyRecover'', ''fn_verify_recover''),
     (''C_DigestEncryptUpdate'', ''fn_digest_encrypt_update''),
     (''C_DecryptDigestUpdate'', ''fn_decrypt_digest_update''),
     (''C_SignEncryptUpdate'', ''fn_sign_encrypt_update''),
     (''C_DecryptVerifyUpdate'', ''fn_decrypt_verify_update''), (''C_GenerateKey'', ''fn_generate_key''),
     (''C_GenerateKeyPair'', ''fn_generate_key_pair''), (''C_WrapKey'', ''fn_wrap_key''),
     (''C_UnwrapKey'', ''fn_unwrap_key''), (''C_DeriveKey'', ''fn_derive_key''),
     (''C_SeedRandom'', ''fn_seed_random''), (''C_GenerateRandom'', ''fn_generate_random''),
     (''C_GetFunctionStatus'', ''fn_get_function_status''), (''C_CancelFunction'', ''fn_cancel_function''),
     (''C_WaitForSlotEvent'', ''fn_wait_for_slot_event'')]\<rparr>"

definition FNLIST_300 :: function_list where
  "FNLIST_300 =
    \<lparr>fl_version = (3, 0), fl_functions =
    [(''C_Initialize'', ''fn_initialize''), (''C_Finalize'', ''fn_finalize''),
     (''C_GetInfo'', ''fn_get_info''), (''C_GetFunctionList'', ''fn_get_function_list''),
     (''C_GetSlotList'', ''fn_get_slot_list''), (''C_GetSlotInfo'', ''fn_get_slot_info''),
     (''C_GetTokenInfo'', ''fn_get_token_info''), (''C_GetMechanismList'', ''fn_get_mechanism_list''),
     (''C_GetMechanismInfo'', ''fn_get_mechanism_info''), (''C_InitToken'', ''fn_init_token''),
     (''C_InitPIN'', ''fn_init_pin''), (''C_SetPIN'', ''fn_set_pin''),
     (''C_OpenSession'', ''fn_open_session''), (''C_CloseSession'', ''fn_close_session''),
     (''C_CloseAllSessions'', ''fn_close_all_sessions''), (''C_GetSessionInfo'', ''fn_get_session_info''),
     (''C_GetOperationState'', ''fn_get_operation_state''),
     (''C_SetOperationState'', ''fn_set_operation_state''), (''C_Login'', ''fn_login''),
     (''C_Logout'', ''fn_logout''), (''C_CreateObject'', ''fn_create_object''),
     (''C_CopyObject'', ''fn_copy_object''), (''C_DestroyObject'', ''fn_destroy_object''),
     (''C_GetObjectSize'', ''fn_get_object_size''), (''C_GetAttributeValue'', ''fn_get_attribute_value''),
     (''C_SetAttributeValue'', ''fn_set_attribute_value''), (''C_FindObjectsInit'', ''fn_find_objects_init''),
     (''C_FindObjects'', ''fn_find_objects''), (''C_FindObjectsFinal'', ''fn_find_objects_final''),
     (''C_EncryptInit'', ''fn_encrypt_init''), (''C_Encrypt'', ''fn_encrypt''),
     (''C_EncryptUpdate'', ''fn_encrypt_update''), (''C_EncryptFinal'', ''fn_encrypt_final''),
     (''C_DecryptInit'', ''fn_decrypt_init''), (''C_Decrypt'', ''fn_decrypt''),
     (''C_DecryptUpdate'', ''fn_decrypt_update''), (''C_DecryptFinal'', ''fn_decrypt_final''),
     (''C_DigestInit'', ''fn_digest_init''), (''C_Digest'', ''fn_digest''),
     (''C_DigestUpdate'', ''fn_digest_update''), (''C_DigestKey'', ''fn_digest_key''),
     (''C_DigestFinal'', ''fn_digest_final''), (''C_SignInit'', ''fn_sign_init''), (''C_Sign'', ''fn_sign''),
     (''C_SignUpdate'', ''fn_sign_update''), (''C_SignFinal'', ''fn_sign_final''),
     (''C_SignRecoverInit'', ''fn_sign_recover_init''), (''C_SignRecover'', ''fn_sign_recover''),
     (''C_VerifyInit'', ''fn_verify_init''), (''C_Verify'', ''fn_verify''),
     (''C_VerifyUpdate'', ''fn_verify_update''), (''C_VerifyFinal'', ''fn_verify_final''),
     (''C_VerifyRecoverInit'', ''fn_verify_recover_init''), (''C_VerifyRecover'', ''fn_verify_recover''),
     (''C_DigestEncryptUpdate'', ''fn_digest_encrypt_update''),
     (''C_DecryptDigestUpdate'', ''fn_decrypt_digest_update''),
     (''C_SignEncryptUpdate'', ''fn_sign_encrypt_update''),
     (''C_DecryptVerifyUpdate'', ''fn_decrypt_verify_update''), (''C_GenerateKey'', ''fn_generate_key''),
     (''C_GenerateKeyPair'', ''fn_generate_key_pair''), (''C_WrapKey'', ''fn_wrap_key''),
     (''C_UnwrapKey'', ''fn_unwrap_key''), (''C_DeriveKey'', ''fn_derive_key''),
     (''C_SeedRandom'', ''fn_seed_random''), (''C_GenerateRandom'', ''fn_generate_random''),
     (''C_GetFunctionStatus'', ''fn_get_function_status''), (''C_CancelFunction'', ''fn_cancel_function''),
     (''C_WaitForSlotEvent'', ''fn_wait_for_slot_event''), (''C_GetInterfaceList'', ''fn_get_interface_list''),
     (''C_GetInterface'', ''fn_get_interface''), (''C_LoginUser'', ''fn_login_user''),
     (''C_SessionCancel'', ''fn_session_cancel''), (''C_MessageEncryptInit'', ''fn_message_encrypt_init''),
     (''C_EncryptMessage'', ''fn_encrypt_message''), (''C_EncryptMessageBegin'', ''fn_encrypt_message_begin''),
     (''C_EncryptMessageNext'', ''fn_encrypt_message_next''),
     (''C_MessageEncryptFinal'', ''fn_message_encrypt_final''),
     (''C_MessageDecryptInit'', ''fn_message_decrypt_init''), (''C_DecryptMessage'', ''fn_decrypt_message''),
     (''C_DecryptMessageBegin'', ''fn_decrypt_message_begin''),
     (''C_DecryptMessageNext'', ''fn_decrypt_message_next''),
     (''C_MessageDecryptFinal'', ''fn_message_decrypt_final''),
     (''C_MessageSignInit'', ''fn_message_sign_init''), (''C_SignMessage'', ''fn_sign_message''),
     (''C_SignMessageBegin'', ''fn_sign_message_begin''), (''C_SignMessageNext'', ''fn_sign_message_next''),
     (''C_MessageSignFinal'', ''fn_message_sign_final''),
     (''C_MessageVerifyInit'', ''fn_message_verify_init''), (''C_VerifyMessage'', ''fn_verify_message''),
     (''C_VerifyMessageBegin'', ''fn_verify_message_begin''),
     (''C_VerifyMessageNext'', ''fn_verify_message_next''),
     (''C_MessageVerifyFinal'', ''fn_message_verify_final'')]\<rparr>"

definition FNLIST_320 :: function_list where
  "FNLIST_320 =
    \<lparr>fl_version = (3, 2), fl_functions =
    [(''C_Initialize'', ''fn_initialize''), (''C_Finalize'', ''fn_finalize''),
     (''C_GetInfo'', ''fn_get_info''), (''C_GetFunctionList'', ''fn_get_function_list''),
     (''C_GetSlotList'', ''fn_get_slot_list''), (''C_GetSlotInfo'', ''fn_get_slot_info''),
     (''C_GetTokenInfo'', ''fn_get_token_info''), (''C_GetMechanismList'', ''fn_get_mechanism_list''),
     (''C_GetMechanismInfo'', ''fn_get_mechanism_info''), (''C_InitToken'', ''fn_init_token''),
     (''C_InitPIN'', ''fn_init_pin''), (''C_SetPIN'', ''fn_set_pin''),
     (''C_OpenSession'', ''fn_open_session''), (''C_CloseSession'', ''fn_close_session''),
     (''C_CloseAllSessions'', ''fn_close_all_sessions''), (''C_GetSessionInfo'', ''fn_get_session_info''),
     (''C_GetOperationState'', ''fn_get_operation_state''),
     (''C_SetOperationState'', ''fn_set_operation_state''), (''C_Login'', ''fn_login''),
     (''C_Logout'', ''fn_logout''), (''C_CreateObject'', ''fn_create_object''),
     (''C_CopyObject'', ''fn_copy_object''), (''C_DestroyObject'', ''fn_destroy_object''),
     (''C_GetObjectSize'', ''fn_get_object_size''), (''C_GetAttributeValue'', ''fn_get_attribute_value''),
     (''C_SetAttributeValue'', ''fn_set_attribute_value''), (''C_FindObjectsInit'', ''fn_find_objects_init''),
     (''C_FindObjects'', ''fn_find_objects''), (''C_FindObjectsFinal'', ''fn_find_objects_final''),
     (''C_EncryptInit'', ''fn_encrypt_init''), (''C_Encrypt'', ''fn_encrypt''),
     (''C_EncryptUpdate'', ''fn_encrypt_update''), (''C_EncryptFinal'', ''fn_encrypt_final''),
     (''C_DecryptInit'', ''fn_decrypt_init''), (''C_Decrypt'', ''fn_decrypt''),
     (''C_DecryptUpdate'', ''fn_decrypt_update''), (''C_DecryptFinal'', ''fn_decrypt_final''),
     (''C_DigestInit'', ''fn_digest_init''), (''C_Digest'', ''fn_digest''),
     (''C_DigestUpdate'', ''fn_digest_update''), (''C_DigestKey'', ''fn_digest_key''),
     (''C_DigestFinal'', ''fn_digest_final''), (''C_SignInit'', ''fn_sign_init''), (''C_Sign'', ''fn_sign''),
     (''C_SignUpdate'', ''fn_sign_update''), (''C_SignFinal'', ''fn_sign_final''),
     (''C_SignRecoverInit'', ''fn_sign_recover_init''), (''C_SignRecover'', ''fn_sign_recover''),
     (''C_VerifyInit'', ''fn_verify_init''), (''C_Verify'', ''fn_verify''),
     (''C_VerifyUpdate'', ''fn_verify_update''), (''C_VerifyFinal'', ''fn_verify_final''),
     (''C_VerifyRecoverInit'', ''fn_verify_recover_init''), (''C_VerifyRecover'', ''fn_verify_recover''),
     (''C_DigestEncryptUpdate'', ''fn_digest_encrypt_update''),
     (''C_DecryptDigestUpdate'', ''fn_decrypt_digest_update''),
     (''C_SignEncryptUpdate'', ''fn_sign_encrypt_update''),
     (''C_DecryptVerifyUpdate'', ''fn_decrypt_verify_update''), (''C_GenerateKey'', ''fn_generate_key''),
     (''C_GenerateKeyPair'', ''fn_generate_key_pair''), (''C_WrapKey'', ''fn_wrap_key''),
     (''C_UnwrapKey'', ''fn_unwrap_key''), (''C_DeriveKey'', ''fn_derive_key''),
     (''C_SeedRandom'', ''fn_seed_random''), (''C_GenerateRandom'', ''fn_generate_random''),
     (''C_GetFunctionStatus'', ''fn_get_function_status''), (''C_CancelFunction'', ''fn_cancel_function''),
     (''C_WaitForSlotEvent'', ''fn_wait_for_slot_event''), (''C_GetInterfaceList'', ''fn_get_interface_list''),
     (''C_GetInterface'', ''fn_get_interface''), (''C_LoginUser'', ''fn_login_user''),
     (''C_SessionCancel'', ''fn_session_cancel''), (''C_MessageEncryptInit'', ''fn_message_encrypt_init''),
     (''C_EncryptMessage'', ''fn_encrypt_message''), (''C_EncryptMessageBegin'', ''fn_encrypt_message_begin''),
     (''C_EncryptMessageNext'', ''fn_encrypt_message_next''),
     (''C_MessageEncryptFinal'', ''fn_message_encrypt_final''),
     (''C_MessageDecryptInit'', ''fn_message_decrypt_init''), (''C_DecryptMessage'', ''fn_decrypt_message''),
     (''C_DecryptMessageBegin'', ''fn_decrypt_message_begin''),
     (''C_DecryptMessageNext'', ''fn_decrypt_message_next''),
     (''C_MessageDecryptFinal'', ''fn_message_decrypt_final''),
     (''C_MessageSignInit'', ''fn_message_sign_init''), (''C_SignMessage'', ''fn_sign_message''),
     (''C_SignMessageBegin'', ''fn_sign_message_begin''), (''C_SignMessageNext'', ''fn_sign_message_next''),
     (''C_MessageSignFinal'', ''fn_message_sign_final''),
     (''C_MessageVerifyInit'', ''fn_message_verify_init''), (''C_VerifyMessage'', ''fn_verify_message''),
     (''C_VerifyMessageBegin'', ''fn_verify_message_begin''),
     (''C_VerifyMessageNext'', ''fn_verify_message_next''),
     (''C_MessageVerifyFinal'', ''fn_message_verify_final''), (''C_EncapsulateKey'', ''fn_encapsulate_key''),
     (''C_DecapsulateKey'', ''fn_decapsulate_key''), (''C_VerifySignatureInit'', ''fn_verify_signature_init''),
     (''C_VerifySignature'', ''fn_verify_signature''),
     (''C_VerifySignatureUpdate'', ''fn_verify_signature_update''),
     (''C_VerifySignatureFinal'', ''fn_verify_signature_final''),
     (''C_GetSessionValidationFlags'', ''fn_get_session_validation_flags''),
     (''C_AsyncComplete'', ''fn_async_complete''), (''C_AsyncGetID'', ''fn_async_get_id''),
     (''C_AsyncJoin'', ''fn_async_join''), (''C_WrapKeyAuthenticated'', ''fn_wrap_key_authenticated''),
     (''C_UnwrapKeyAuthenticated'', ''fn_unwrap_key_authenticated'')]\<rparr>"

section \<open>Interfaces\<close>

record ck_interface =
  ci_name :: bytes
  ci_functions :: function_list
  ci_flags :: ck_flags

record interface_data =
  id_interface :: ck_interface
  id_version :: ck_version

record ck_info =
  mi_cryptokiVersion :: ck_version
  mi_manufacturerID :: bytes
  mi_flags :: ck_flags
  mi_libraryDescription :: bytes
  mi_libraryVersion :: ck_version

definition IMPLEMENTED_VERSION :: ck_version where
  "IMPLEMENTED_VERSION = (3, 2)"

definition MODULE_INFO :: ck_info where
  "MODULE_INFO =
    \<lparr>mi_cryptokiVersion = IMPLEMENTED_VERSION,
     mi_manufacturerID = ascii ''Kryoptic                        '', mi_flags = 0,
     mi_libraryDescription = ascii ''Kryoptic PKCS11 Module          '', mi_libraryVersion = (0, 0)\<rparr>"

definition INTERFACE_NAME_STD :: bytes where
  "INTERFACE_NAME_STD = ascii ''PKCS 11''"

definition INTERFACE_240 :: ck_interface where
  "INTERFACE_240 = \<lparr>ci_name = INTERFACE_NAME_STD, ci_functions = FNLIST_240, ci_flags = 0\<rparr>"

definition INTERFACE_300 :: ck_interface where
  "INTERFACE_300 = \<lparr>ci_name = INTERFACE_NAME_STD, ci_functions = FNLIST_300, ci_flags = 0\<rparr>"

definition INTERFACE_320 :: ck_interface where
  "INTERFACE_320 = \<lparr>ci_name = INTERFACE_NAME_STD, ci_functions = FNLIST_320, ci_flags = 0\<rparr>"

definition INTERFACE_SET :: "interface_data list" where
  "INTERFACE_SET =
    [\<lparr>id_interface = INTERFACE_320, id_version = fl_version FNLIST_320\<rparr>,
     \<lparr>id_interface = INTERFACE_300, id_version = fl_version FNLIST_300\<rparr>,
     \<lparr>id_interface = INTERFACE_240, id_version = fl_version FNLIST_240\<rparr>]"

definition get_info :: "bool \<Rightarrow> ck_info result" where
  "get_info null = (if null then Err CKR_ARGUMENTS_BAD else Ok MODULE_INFO)"

definition get_function_list :: "bool \<Rightarrow> function_list result" where
  "get_function_list null = (if null then Err CKR_ARGUMENTS_BAD else Ok FNLIST_240)"

text \<open>The result, what is written to the list, and the count after the call.\<close>

definition get_interface_list ::
    "bool \<Rightarrow> ck_ulong option \<Rightarrow> unit result \<times> ck_interface list \<times> ck_ulong option" where
  "get_interface_list list_null count =
    (case count of
       None \<Rightarrow> (Err CKR_ARGUMENTS_BAD, [], None)
     | Some num \<Rightarrow>
       (let iflen = of_nat (length INTERFACE_SET) in
        if list_null then (Ok (), [], Some iflen)
        else if num < iflen then (Err CKR_BUFFER_TOO_SMALL, [], Some iflen)
        else (Ok (), map id_interface INTERFACE_SET, Some iflen)))"

definition get_interface ::
    "bytes option \<Rightarrow> ck_version option \<Rightarrow> bool \<Rightarrow> ck_flags \<Rightarrow> ck_interface result" where
  "get_interface interface_name version null flags =
    (if null then Err CKR_ARGUMENTS_BAD
     else if flags \<noteq> 0 then Err CKR_ARGUMENTS_BAD
     else
       (let ver = (case version of None \<Rightarrow> IMPLEMENTED_VERSION | Some v \<Rightarrow> v);
            request_name = (case interface_name of None \<Rightarrow> INTERFACE_NAME_STD | Some n \<Rightarrow> n) in
        case find (\<lambda>d. request_name = ci_name (id_interface d) \<and> fst ver = fst (id_version d) \<and>
              snd ver = snd (id_version d)) INTERFACE_SET of
          Some d \<Rightarrow> Ok (id_interface d)
        | None \<Rightarrow> Err CKR_ARGUMENTS_BAD))"

section \<open>Initialization\<close>

text \<open>
  The configuration of an initialization. The argument is the string of \<^verbatim>\<open>pReserved\<close>, \<open>None\<close> when one of
  the pointers is null.
\<close>

definition initialize_config :: "environment \<Rightarrow> bytes option \<Rightarrow> config \<Rightarrow> unit result \<times> config" where
  "initialize_config env init_args conf =
    st_then
      (case init_args of
         None \<Rightarrow> (Ok (), conf)
       | Some reserved \<Rightarrow>
         (case from_utf8 reserved of
            None \<Rightarrow> (Err CKR_ARGUMENTS_BAD, conf)
          | Some init_arg \<Rightarrow> from_init_args env init_arg conf)) (\<lambda>_ conf1.
    st_then
      (if cf_slots conf1 = [] then
         (case default_config env of
            Inr defconf \<Rightarrow> (Ok (), defconf)
          | Inl _ \<Rightarrow> (Err CKR_TOKEN_NOT_PRESENT, conf1))
       else (Ok (), conf1)) (\<lambda>_ conf2.
    (Ok (), load_env_vars_overrides env conf2)))"

text \<open>
  The loop that creates the slots; \<open>mk\<close> is \<^verbatim>\<open>Slot::new\<close>. A slot that is there already is left as it is
  and remembered.
\<close>

fun create_slots ::
    "(slot_config \<Rightarrow> 's slot result) \<Rightarrow> conf_slot list \<Rightarrow> bool \<Rightarrow> 's lib_state \<Rightarrow> bool result \<times> 's lib_state" where
  "create_slots mk [] already_init st = (Ok already_init, st)"
| "create_slots mk (c # cs) already_init st =
    (case mk (cs_cfg c) of
       Inl e \<Rightarrow> (Inl e, st)
     | Inr sl \<Rightarrow>
       (case add_slot (ucast (cs_slot c)) sl st of
          (Inr _, st1) \<Rightarrow> create_slots mk cs already_init st1
        | (Inl e, st1) \<Rightarrow>
          if rv e \<noteq> CKR_CRYPTOKI_ALREADY_INITIALIZED then (Inl e, st1)
          else create_slots mk cs True st1))"

definition initialize ::
    "'s storage \<Rightarrow> (bytes \<Rightarrow> bytes option \<Rightarrow> 's result) \<Rightarrow> (bytes \<Rightarrow> bytes) \<Rightarrow>
      (bytes \<Rightarrow> ck_ulong result) \<Rightarrow> facilities \<Rightarrow> environment \<Rightarrow> bytes option \<Rightarrow>
      config \<Rightarrow> 's lib_state \<Rightarrow> unit result \<times> config \<times> 's lib_state" where
  "initialize sg new_storage uuid_v8 name_to_mech fac0 env init_args conf st =
    (case initialize_config env init_args conf of
       (Inl e, conf1) \<Rightarrow> (Inl e, conf1, st)
     | (Inr _, conf1) \<Rightarrow>
       (let already_init = state_is_initialized st;
            st1 = (if already_init then st else state_initialize st) in
        case create_slots (slot_new sg new_storage uuid_v8 name_to_mech fac0) (cf_slots conf1) already_init st1 of
          (Inl e, st2) \<Rightarrow> (Inl e, conf1, st2)
        | (Inr already, st2) \<Rightarrow>
          (if already then Err CKR_CRYPTOKI_ALREADY_INITIALIZED else Ok (), conf1, st2)))"

text \<open>The configuration is forgotten even if the library was not initialized.\<close>

definition finalize :: "'s storage \<Rightarrow> config \<Rightarrow> 's lib_state \<Rightarrow> unit result \<times> config \<times> 's lib_state" where
  "finalize sg conf st =
    (case lock st of
       Inl e \<Rightarrow> (Inl e, config_new, st)
     | Inr _ \<Rightarrow>
       (case state_finalize sg st of
          (ret, st1) \<Rightarrow> (if ret \<noteq> CKR_OK then Err ret else Ok (), config_new, st1)))"

section \<open>Random numbers and unsupported functions\<close>

text \<open>
  The generator of the thread, \<^verbatim>\<open>RNG\<close> over an HMAC DRBG of the OpenSSL backend: the operations of the DRBG
  are parameters, with the bytes of a seed, additional input and the bytes wanted.
\<close>

record 'd drbg =
  dr_generate :: "bytes \<Rightarrow> nat \<Rightarrow> 'd \<Rightarrow> bytes result \<times> 'd"
  dr_reseed :: "bytes \<Rightarrow> bytes \<Rightarrow> 'd \<Rightarrow> unit result \<times> 'd"

definition rng_generate_random :: "'d drbg \<Rightarrow> nat \<Rightarrow> 'd \<Rightarrow> bytes result \<times> 'd" where
  "rng_generate_random dr n d = dr_generate dr [] n d"

definition rng_add_seed :: "'d drbg \<Rightarrow> bytes \<Rightarrow> 'd \<Rightarrow> unit result \<times> 'd" where
  "rng_add_seed dr seed d = dr_reseed dr seed [] d"

text \<open>The buffer of the caller is \<open>None\<close> when its pointer is null, and otherwise as long as it says.\<close>

definition seed_random ::
    "'d drbg \<Rightarrow> 's lib_state \<Rightarrow> ck_ulong \<Rightarrow> bytes option \<Rightarrow> 'd \<Rightarrow> unit result \<times> 'd" where
  "seed_random dr st h seed d =
    (case and_then (lock st) (\<lambda>_. get_session st h) of
       Inl e \<Rightarrow> (Inl e, d)
     | Inr _ \<Rightarrow> rng_add_seed dr (case seed of None \<Rightarrow> [] | Some data \<Rightarrow> data) d)"

definition fn_generate_random ::
    "'d drbg \<Rightarrow> 's lib_state \<Rightarrow> ck_ulong \<Rightarrow> bool \<Rightarrow> ck_ulong \<Rightarrow> 'd \<Rightarrow> bytes result \<times> 'd" where
  "fn_generate_random dr st h null random_len d =
    (case and_then (lock st) (\<lambda>_. get_session st h) of
       Inl e \<Rightarrow> (Inl e, d)
     | Inr _ \<Rightarrow>
       if null then (Err CKR_ARGUMENTS_BAD, d) else rng_generate_random dr (unat random_len) d)"

definition fn_get_function_status :: ck_rv where
  "fn_get_function_status = CKR_FUNCTION_NOT_PARALLEL"

definition fn_cancel_function :: ck_rv where
  "fn_cancel_function = CKR_FUNCTION_NOT_PARALLEL"

definition fn_async_complete :: ck_rv where
  "fn_async_complete = CKR_FUNCTION_NOT_SUPPORTED"

definition fn_async_get_id :: ck_rv where
  "fn_async_get_id = CKR_FUNCTION_NOT_SUPPORTED"

definition fn_async_join :: ck_rv where
  "fn_async_join = CKR_FUNCTION_NOT_SUPPORTED"

end
