(* ===== verification/General_Laws.thy ===== *)
theory General_Laws
  imports Config_Laws General_Api Library_Laws
begin

text \<open>
  The initialization of the library: when it succeeds and what it creates, that a second one changes
  nothing that is there, and that it keeps the library consistent. The interfaces that are offered.
\<close>

section \<open>Creating the slots\<close>

lemma update_new_key: "k \<notin> fst ` set xs \<Longrightarrow> AList.update k v xs = xs @ [(k, v)]"
  by (induction xs) auto

lemma ucast_number: "(ucast (a :: u32) :: ck_ulong) = ucast b \<longleftrightarrow> a = b"
proof
  have "(ucast (ucast x :: ck_ulong) :: u32) = x" for x :: u32
    by (rule ucast_up_ucast_id) (simp add: is_up)
  then show "(ucast a :: ck_ulong) = ucast b \<Longrightarrow> a = b" by metis
qed simp

definition slot_entry :: "(slot_config \<Rightarrow> 's slot result) \<Rightarrow> conf_slot \<Rightarrow> ck_ulong \<times> 's slot" where
  "slot_entry mk c = (ucast (cs_slot c), projr (mk (cs_cfg c)))"

lemma create_slots_already: "create_slots mk cs True st = (Ok already, st') \<Longrightarrow> already"
  by (induction cs arbitrary: st) (auto split: sum.split_asm prod.split_asm if_split_asm)

lemma add_slot_cases:
  "add_slot sid sl st =
    (if sid \<in> fst ` set (gs_slots st) then (Err CKR_CRYPTOKI_ALREADY_INITIALIZED, st)
     else (Ok (), st\<lparr>gs_slots := gs_slots st @ [(sid, sl)]\<rparr>))"
  by (simp add: add_slot_def put_slot_def update_new_key)

lemma create_slots_new:
  "create_slots mk cs False st = (Ok False, st') \<longleftrightarrow>
    list_all (\<lambda>c. is_ok (mk (cs_cfg c))) cs \<and> distinct (map cs_slot cs) \<and>
    (\<forall>c \<in> set cs. ucast (cs_slot c) \<notin> fst ` set (gs_slots st)) \<and>
    st' = st\<lparr>gs_slots := gs_slots st @ map (slot_entry mk) cs\<rparr>"
proof (induction cs arbitrary: st)
  case (Cons c cs)
  show ?case
  proof (cases "mk (cs_cfg c)")
    case (Inr sl)
    show ?thesis
    proof (cases "ucast (cs_slot c) \<in> fst ` set (gs_slots st)")
      case True
      then have "create_slots mk (c # cs) False st = create_slots mk cs True st"
        using Inr by (simp add: add_slot_cases)
      then show ?thesis using True create_slots_already[of mk cs st False st'] by auto
    next
      case False
      then show ?thesis using Inr
        by (auto simp: add_slot_cases Cons slot_entry_def ucast_number image_iff)
    qed
  qed simp
qed auto

lemma create_slots_keeps:
  "create_slots mk cs already st = (r, st') \<Longrightarrow>
    gs_sessionmap st' = gs_sessionmap st \<and> gs_next_handle st' = gs_next_handle st \<and>
    (\<exists>more. gs_slots st' = gs_slots st @ more)"
proof (induction cs arbitrary: already st)
  case (Cons c cs)
  show ?case
  proof (cases "mk (cs_cfg c)")
    case (Inr sl)
    then have "create_slots mk cs (already \<or> ucast (cs_slot c) \<in> fst ` set (gs_slots st))
        (snd (add_slot (ucast (cs_slot c)) sl st)) = (r, st')"
      using Cons.prems by (auto simp: add_slot_cases split: if_split_asm)
    then show ?thesis using Cons.IH by (fastforce simp: add_slot_cases split: if_split_asm)
  qed (use Cons.prems in auto)
qed auto

section \<open>Initialization\<close>

lemma initialize_Ok:
  "initialize sg new_storage uuid_v8 name_to_mech fac0 env init_args conf st = (Ok (), conf', st') \<longleftrightarrow>
    \<not> state_is_initialized st \<and> initialize_config env init_args conf = (Ok (), conf') \<and>
    distinct (map cs_slot (cf_slots conf')) \<and>
    list_all (\<lambda>c. is_ok (slot_new sg new_storage uuid_v8 name_to_mech fac0 (cs_cfg c))) (cf_slots conf') \<and>
    st' = \<lparr>gs_slots = map (slot_entry (slot_new sg new_storage uuid_v8 name_to_mech fac0)) (cf_slots conf'),
      gs_sessionmap = [], gs_next_handle = 1\<rparr>"
proof -
  let ?mk = "slot_new sg new_storage uuid_v8 name_to_mech fac0"
  have created: "create_slots ?mk cs False (state_initialize st) = (Ok False, st2) \<longleftrightarrow>
      list_all (\<lambda>c. is_ok (?mk (cs_cfg c))) cs \<and> distinct (map cs_slot cs) \<and>
      st2 = \<lparr>gs_slots = map (slot_entry ?mk) cs, gs_sessionmap = [], gs_next_handle = 1\<rparr>" for cs st2
    unfolding create_slots_new by (cases st) (simp add: state_initialize_def)
  obtain r0 conf1 where c: "initialize_config env init_args conf = (r0, conf1)" by force
  show ?thesis
  proof (cases "state_is_initialized st \<or> is_ok r0 = False")
    case True
    have "\<not> already" if "create_slots ?mk (cf_slots conf1) True st = (Ok already, st2)" "\<not> already" for already st2
      using that create_slots_already by blast
    then show ?thesis using True c
      by (auto simp: initialize_def Let_def split: sum.splits prod.splits dest: create_slots_already)
  next
    case False
    then have r0: "r0 = Ok ()" "\<not> state_is_initialized st" by (auto simp: is_ok_iff)
    have "initialize sg new_storage uuid_v8 name_to_mech fac0 env init_args conf st = (Ok (), conf', st') \<longleftrightarrow>
        conf' = conf1 \<and> create_slots ?mk (cf_slots conf1) False (state_initialize st) = (Ok False, st')"
      using r0 c by (auto simp: initialize_def Let_def split: sum.splits prod.splits)
    then show ?thesis using created r0 c by auto
  qed
qed

lemma initialize_handle:
  "initialize sg new_storage uuid_v8 name_to_mech fac0 env init_args conf st = (Ok (), conf', st') \<Longrightarrow>
    gs_next_handle st' = 1"
  unfolding initialize_Ok by simp

text \<open>
  C6. An initialization succeeds exactly when the library is not initialized, a configuration is found, its
  slots have different numbers and each of them can be created; then the library has these slots, in
  this order, and no session.
\<close>

theorem initialize_succeeds_iff:
  "initialize sg new_storage uuid_v8 name_to_mech fac0 env init_args conf st = (Ok (), conf', st') \<longleftrightarrow>
    \<not> state_is_initialized st \<and> initialize_config env init_args conf = (Ok (), conf') \<and>
    distinct (map cs_slot (cf_slots conf')) \<and>
    list_all (\<lambda>c. is_ok (slot_new sg new_storage uuid_v8 name_to_mech fac0 (cs_cfg c))) (cf_slots conf') \<and>
    st' = \<lparr>gs_slots = map (slot_entry (slot_new sg new_storage uuid_v8 name_to_mech fac0)) (cf_slots conf'),
      gs_sessionmap = [], gs_next_handle = 1\<rparr>"
  by (rule initialize_Ok)

lemma initialize_again_fails:
  assumes "state_is_initialized st"
    "initialize sg new_storage uuid_v8 name_to_mech fac0 env init_args conf st = (r, conf', st')"
  shows "\<exists>e. r = Inl e"
  using assms create_slots_already
  by (fastforce simp: initialize_def Let_def split: prod.split_asm sum.split_asm if_split_asm)

text \<open>
  A second initialization (\<^verbatim>\<open>C_Initialize\<close> while the library is initialized) never succeeds and changes
  neither a session nor a slot that is there; it can only add slots.
\<close>

theorem second_initialization_keeps_slots:
  assumes "state_is_initialized st"
    "initialize sg new_storage uuid_v8 name_to_mech fac0 env init_args conf st = (r, conf', st')"
  shows "(\<exists>e. r = Inl e) \<and> state_is_initialized st' \<and>
    gs_sessionmap st' = gs_sessionmap st \<and> gs_next_handle st' = gs_next_handle st \<and>
    (\<forall>h s. get_session st h = Ok s \<longrightarrow> get_session st' h = Ok s) \<and>
    (\<forall>sid sl. get_slot st sid = Ok sl \<longrightarrow> get_slot st' sid = Ok sl)"
proof -
  let ?mk = "slot_new sg new_storage uuid_v8 name_to_mech fac0"
  have fails: "\<exists>e. r = Inl e"
    by (rule initialize_again_fails[OF assms])
  have st': "st' = st \<or> (\<exists>cs r2. create_slots ?mk cs True st = (r2, st'))"
    using assms by (auto simp: initialize_def Let_def split: prod.split_asm sum.split_asm)
  then have same: "gs_sessionmap st' = gs_sessionmap st" "gs_next_handle st' = gs_next_handle st"
      "\<exists>more. gs_slots st' = gs_slots st @ more"
    using create_slots_keeps by fastforce+
  then have slots: "get_slot st' sid = Ok sl" if "get_slot st sid = Ok sl" for sid sl
    using that by (auto simp: get_slot_def state_is_initialized_def map_add_def split: if_split_asm option.splits)
  then have "get_session st' h = Ok s" if "get_session st h = Ok s" for h s
    using that same(1) by (auto simp: get_session_def session_slot_def and_then_eq_Ok split: option.splits)
  then show ?thesis using fails slots same assms(1) by (simp add: state_is_initialized_def)
qed


text \<open>
  The initialization and the finalization of the library are histories of the states that the invariant of
  the library is proved for: after either the library is consistent, whatever came before.
\<close>

lemma create_slots_reachable:
  "lib_reachable raw st \<Longrightarrow>
    lib_reachable raw (snd (create_slots (slot_new (std_storage raw) new_storage uuid_v8 name_to_mech fac0) cs already st))"
proof (induction cs arbitrary: already st)
  case (Cons c cs)
  show ?case
  proof (cases "slot_new (std_storage raw) new_storage uuid_v8 name_to_mech fac0 (cs_cfg c)")
    case (Inr sl)
    then have "lib_reachable raw (snd (add_slot (ucast (cs_slot c)) sl st))"
      by (rule lib_reachable.slot_added[OF Cons.prems])
    then show ?thesis using Inr Cons.IH Cons.prems by (auto simp: add_slot_cases split: if_split_asm)
  qed (use Cons.prems in simp)
qed simp

theorem initialization_keeps_consistent:
  assumes "lib_reachable raw st"
  shows "lib_ok raw (snd (snd (initialize (std_storage raw) new_storage uuid_v8 name_to_mech fac0 env init_args conf st))) \<and>
    lib_ok raw (snd (snd (finalize (std_storage raw) conf st)))"
proof -
  let ?mk = "slot_new (std_storage raw) new_storage uuid_v8 name_to_mech fac0"
  have "lib_reachable raw (snd (snd (initialize (std_storage raw) new_storage uuid_v8 name_to_mech fac0 env init_args conf st)))"
    (is "lib_reachable raw ?st")
  proof -
    let ?st1 = "if state_is_initialized st then st else state_initialize st"
    have "?st = st \<or> (\<exists>cs already. ?st = snd (create_slots ?mk cs already ?st1))"
    proof -
      obtain r0 c1 where ic: "initialize_config env init_args conf = (r0, c1)" by force
      obtain r2 st2 where cs: "create_slots ?mk (cf_slots c1) (state_is_initialized st) ?st1 = (r2, st2)" by force
      have "?st = st \<or> ?st = st2"
        using ic cs by (cases r0; cases r2) (simp_all add: initialize_def Let_def)
      then show ?thesis using cs by (metis snd_conv)
    qed
    moreover have "lib_reachable raw ?st1" using assms by (simp add: lib_reachable.initialized)
    ultimately show ?thesis using assms create_slots_reachable by metis
  qed
  moreover have "lib_reachable raw (snd (snd (finalize (std_storage raw) conf st)))"
    using assms lib_reachable.finalized[OF assms] by (auto simp: finalize_def lock_def split: prod.split)
  ultimately show ?thesis by (simp add: lib_reachable_ok)
qed

section \<open>Closed handles\<close>

text \<open>
  The calls of a running library: those of \<open>lib_step\<close>, and \<^verbatim>\<open>C_Initialize\<close> once more. \<^verbatim>\<open>C_Finalize\<close> is
  the end of a run.
\<close>

inductive running_step ::
    "'r storage_raw \<Rightarrow> ('r std_storage) lib_state \<Rightarrow> ('r std_storage) lib_state \<Rightarrow> bool" for raw where
  called: "lib_step raw st st' \<Longrightarrow> running_step raw st st'"
| again: "state_is_initialized st \<Longrightarrow>
    initialize (std_storage raw) new_storage uuid_v8 name_to_mech fac0 env init_args conf st = (r, conf', st') \<Longrightarrow>
    running_step raw st st'"

lemma handle_gone_running: "running_step raw y z \<Longrightarrow> handle_gone h y \<Longrightarrow> handle_gone h z"
proof (induction rule: running_step.induct)
  case (called st st')
  then show ?case using handle_gone_step by blast
next
  case (again st new_storage uuid_v8 name_to_mech fac0 env init_args conf r conf' st')
  then show ?case
    using second_initialization_keeps_slots[OF again.hyps] by (simp add: handle_gone_def state_is_initialized_def)
qed

text \<open>
  C5. A handle that was given out and is not valid now, because its session was closed, never becomes
  valid again, whatever calls follow, another \<^verbatim>\<open>C_Initialize\<close> included, until \<^verbatim>\<open>C_Finalize\<close> (\<^verbatim>\<open>sessionmap\<close>
  and \<^verbatim>\<open>next_handle\<close> of \<^verbatim>\<open>State\<close>): the application cannot reach another session through a stale handle.
\<close>

theorem closed_handle_stays_closed:
  assumes "lib_reachable raw st" and "h < gs_next_handle st" and "\<not> is_ok (get_session st h)"
    and "(running_step raw)\<^sup>*\<^sup>* st st'"
  shows "\<not> is_ok (get_session st' h)"
proof (rule gone_handle_invalid)
  from assms(4) show "handle_gone h st'"
    by (induction rule: rtranclp_induct) (auto intro: closed_handle_gone[OF assms(1-3)] handle_gone_running)
qed

text \<open>
  \<^verbatim>\<open>C_Finalize\<close> and the next \<^verbatim>\<open>C_Initialize\<close> put the counter back to one: the first session of the new run
  has the handle of the first session of the run before.
\<close>

theorem handles_restart:
  assumes "finalize sg conf st = (Ok (), conf1, st1)"
    and "initialize sg new_storage uuid_v8 name_to_mech fac0 env init_args conf1 st1 = (Ok (), conf2, st2)"
    and "open_session sid flags null st2 = (Ok h, st3)"
  shows "h = 1"
proof -
  have st2: "gs_next_handle st2 = 1" by (rule initialize_handle[OF assms(2)])
  have new: "fst (state_new_session sid ut flags st2) = Ok h \<Longrightarrow> h = 1" for ut
    using st2 by (simp add: state_new_session_def Let_def split: sum.split_asm)
  have "\<exists>ut. state_new_session sid ut flags st2 = (Ok h, st3)"
    using assms(3) by (auto simp: open_session_def split: if_split_asm sum.split_asm)
  then show ?thesis using new by (metis fst_conv)
qed

section \<open>Failures of an initialization\<close>

text \<open>
  When a slot cannot be created the call fails, but the library stays initialized: the next call is refused
  although the first one did not succeed.
\<close>

lemma failed_slot_leaves_initialized:
  assumes "\<not> state_is_initialized st" "initialize_config env init_args conf = (Ok (), conf')"
    "cf_slots conf' = c # cs" "slot_new sg new_storage uuid_v8 name_to_mech fac0 (cs_cfg c) = Inl e"
  shows "initialize sg new_storage uuid_v8 name_to_mech fac0 env init_args conf st = (Inl e, conf', state_initialize st) \<and>
    state_is_initialized (state_initialize st)"
  using assms by (simp add: initialize_def state_is_initialized_def state_initialize_def)

text \<open>
  A configuration file that cannot be read or parsed is not an error: unless its name ends as that of an
  SQLite file, the configuration is then one without slots.
\<close>

lemma unreadable_file_gives_no_slots:
  assumes "find_conf env = Ok filename" "from_file env filename = Inl e" "\<not> ends_with filename (ascii ''.sql'')"
  shows "default_config env = Ok config_new"
  using assms by (simp add: default_config_def from_legacy_conf_string_def fix_slot_numbers_def config_new_def)

section \<open>Interfaces\<close>

text \<open>
  The interface that is asked for by name and version (\<^verbatim>\<open>C_GetInterface\<close>): there is one exactly for the
  standard name and the versions 3.2, 3.0 and 2.40, and without a version it is the one of 3.2. The table of
  each version extends the one before, and the list of interfaces holds these three.
\<close>

theorem interfaces_by_version:
  "(get_interface name version null flags = Ok i \<longleftrightarrow>
     \<not> null \<and> flags = 0 \<and> (name = None \<or> name = Some (ascii ''PKCS 11'')) \<and>
     (i = INTERFACE_320 \<and> (version = None \<or> version = Some (3, 2)) \<or>
      i = INTERFACE_300 \<and> version = Some (3, 0) \<or>
      i = INTERFACE_240 \<and> version = Some (2, 40))) \<and>
   get_interface_list False (Some 3) = (Ok (), [INTERFACE_320, INTERFACE_300, INTERFACE_240], Some 3) \<and>
   (\<exists>more. fl_functions FNLIST_300 = fl_functions FNLIST_240 @ more) \<and>
   (\<exists>more. fl_functions FNLIST_320 = fl_functions FNLIST_300 @ more)"
proof (intro conjI)
  have v: "fl_version FNLIST_240 = (2, 40)" "fl_version FNLIST_300 = (3, 0)" "fl_version FNLIST_320 = (3, 2)"
    by (simp_all add: FNLIST_240_def FNLIST_300_def FNLIST_320_def)
  have n: "ci_name INTERFACE_240 = INTERFACE_NAME_STD" "ci_name INTERFACE_300 = INTERFACE_NAME_STD"
      "ci_name INTERFACE_320 = INTERFACE_NAME_STD"
    by (simp_all add: INTERFACE_240_def INTERFACE_300_def INTERFACE_320_def)
  show "get_interface name version null flags = Ok i \<longleftrightarrow>
     \<not> null \<and> flags = 0 \<and> (name = None \<or> name = Some (ascii ''PKCS 11'')) \<and>
     (i = INTERFACE_320 \<and> (version = None \<or> version = Some (3, 2)) \<or>
      i = INTERFACE_300 \<and> version = Some (3, 0) \<or>
      i = INTERFACE_240 \<and> version = Some (2, 40))"
    by (cases version; cases name)
      (auto simp: get_interface_def INTERFACE_SET_def v n IMPLEMENTED_VERSION_def INTERFACE_NAME_STD_def[symmetric] Let_def
        split: if_split_asm)
  show "get_interface_list False (Some 3) = (Ok (), [INTERFACE_320, INTERFACE_300, INTERFACE_240], Some 3)"
    by (simp add: get_interface_list_def INTERFACE_SET_def)
  have "take 68 (fl_functions FNLIST_300) = fl_functions FNLIST_240" by code_simp
  then show "\<exists>more. fl_functions FNLIST_300 = fl_functions FNLIST_240 @ more" by (metis append_take_drop_id)
  have "take 92 (fl_functions FNLIST_320) = fl_functions FNLIST_300" by code_simp
  then show "\<exists>more. fl_functions FNLIST_320 = fl_functions FNLIST_300 @ more" by (metis append_take_drop_id)
qed

section \<open>Witnesses\<close>

text \<open>A configuration with one slot, of number 7.\<close>

definition conf_of_seven :: config where
  "conf_of_seven = config_new\<lparr>cf_slots := [conf_slot_new\<lparr>cs_slot := 7, cs_cfg := sample_config\<rparr>]\<rparr>"

lemma conf_of_seven_slots: "cf_slots conf_of_seven = [\<lparr>cs_slot = 7, cs_cfg = sample_config\<rparr>]"
  by (simp add: conf_of_seven_def conf_slot_new_def)

lemma bare_config: "initialize_config bare_environment None conf_of_seven = (Ok (), conf_of_seven)"
  by (simp add: initialize_config_def conf_of_seven_slots load_env_vars_overrides_def bare_environment_def)

theorem initialize_succeeds_iff_witness:
  "\<exists>st'. initialize (std_storage user_raw) (\<lambda>_ _. Ok both_users) (\<lambda>_. [0x75]) (\<lambda>_. Err CKR_MECHANISM_INVALID)
      sample_fac bare_environment None conf_of_seven initial_lib_state = (Ok (), conf_of_seven, st') \<and>
    get_slot st' 7 = Ok sample_slot"
proof -
  let ?st = "\<lparr>gs_slots = [(7, sample_slot)], gs_sessionmap = [], gs_next_handle = 1\<rparr>"
  have "initialize (std_storage user_raw) (\<lambda>_ _. Ok both_users) (\<lambda>_. [0x75]) (\<lambda>_. Err CKR_MECHANISM_INVALID)
      sample_fac bare_environment None conf_of_seven initial_lib_state = (Ok (), conf_of_seven, ?st)"
    unfolding initialize_succeeds_iff bare_config
    by (simp add: conf_of_seven_slots slot_entry_def sample_slot_new state_is_initialized_def initial_lib_state_def)
  then show ?thesis by (intro exI conjI) (assumption, simp add: get_slot_def state_is_initialized_def)
qed

theorem second_initialization_keeps_slots_witness:
  "\<exists>e conf' st'. initialize (std_storage user_raw) (\<lambda>_ _. Ok both_users) (\<lambda>_. [0x75])
      (\<lambda>_. Err CKR_MECHANISM_INVALID) sample_fac bare_environment None conf_of_seven slot_lib = (Inl e, conf', st') \<and>
    get_slot st' 0 = Ok sample_slot"
proof -
  obtain r conf' st' where run: "initialize (std_storage user_raw) (\<lambda>_ _. Ok both_users) (\<lambda>_. [0x75])
      (\<lambda>_. Err CKR_MECHANISM_INVALID) sample_fac bare_environment None conf_of_seven slot_lib = (r, conf', st')"
    by (metis prod_cases3)
  have "state_is_initialized slot_lib" "get_slot slot_lib 0 = Ok sample_slot"
    by (simp_all add: slot_lib_eq state_is_initialized_def get_slot_def)
  then show ?thesis using second_initialization_keeps_slots[OF _ run] run by blast
qed

theorem initialization_keeps_consistent_witness:
  "lib_ok user_raw (snd (snd (initialize (std_storage user_raw) (\<lambda>_ _. Ok both_users) (\<lambda>_. [0x75])
      (\<lambda>_. Err CKR_MECHANISM_INVALID) sample_fac bare_environment None conf_of_seven slot_lib))) \<and>
    lib_ok user_raw (snd (snd (finalize (std_storage user_raw) conf_of_seven slot_lib)))"
  by (rule initialization_keeps_consistent[OF slot_lib_reachable])

theorem closed_handle_stays_closed_witness:
  "\<not> is_ok (get_session (snd (open_session 0 rw_flags False
    (snd (close_session (std_storage user_raw) 1 session_lib)))) 1)"
proof -
  let ?st = "snd (close_session (std_storage user_raw) 1 session_lib)"
  have r: "lib_reachable user_raw ?st" by (rule lib_reachable.step[OF session_lib_reachable lib_step.closed])
  have gs: "get_session session_lib 1 = Ok sample_session"
    by (rule get_session_slot[OF lib_reachable_ok[OF session_lib_reachable] session_lib_slot(2)
          session_lib_slot(3)[unfolded slot_get_session_Ok]])
  obtain sl1 where "close_session (std_storage user_raw) 1 session_lib =
      (Ok (), (put_slot (si_slotID (s_info sample_session)) sl1 session_lib)
        \<lparr>gs_sessionmap := AList.delete 1 (gs_sessionmap session_lib)\<rparr>)"
    using close_session_Ok[OF lib_reachable_ok[OF session_lib_reachable] gs] by blast
  then have "\<not> is_ok (get_session ?st 1)"
    by (simp add: get_session_def session_slot_def delete_conv')
  moreover have "1 < gs_next_handle ?st"
    using close_no_new[of session_lib "std_storage user_raw" 1] by (simp add: no_new_handle_def sample_open(2))
  ultimately show ?thesis
    using closed_handle_stays_closed[OF r _ _ r_into_rtranclp[of "running_step user_raw",
          OF running_step.called[OF lib_step.opened]]] by blast
qed

end
