(* ===== verification/Aes_Cipher.thy ===== *)
theory Aes_Cipher
  imports Aes_Context
begin

text \<open>
  AES encryption and decryption, at once and in parts, and the wrapping of keys
  (\<^verbatim>\<open>AesOperation\<close> of \<^verbatim>\<open>src/src/ossl/aes.rs\<close>). A buffer for the output is its size; what a call answers
  is what it wrote there.
\<close>

section \<open>The operation\<close>

record 'e aes_operation =
  ao_mech :: ck_ulong
  ao_op :: ck_flags
  ao_key :: bytes
  ao_params :: aes_params
  ao_finalized :: bool
  ao_in_use :: bool
  ao_ctx :: "'e ossl_cipher option"
  ao_buffer :: bytes
  ao_blockctr :: nat

definition cipher_new ::
    "'e evp \<Rightarrow> (nat \<Rightarrow> bytes result) \<Rightarrow> bool \<Rightarrow> ck_mechanism \<Rightarrow> object \<Rightarrow> 'e aes_operation result" where
  "cipher_new ev rng enc m key =
    and_then (init_params m) (\<lambda>params.
    and_then (object_to_raw_key key) (\<lambda>aeskey.
    case cipher_initialize ev rng (cm_mechanism m) aeskey enc params of (r, params1) \<Rightarrow>
      and_then r (\<lambda>ctx.
        Ok \<lparr>ao_mech = cm_mechanism m, ao_op = (if enc then CKF_ENCRYPT else CKF_DECRYPT), ao_key = aeskey,
            ao_params = params1, ao_finalized = False, ao_in_use = False, ao_ctx = Some ctx, ao_buffer = [],
            ao_blockctr = 0\<rparr>)))"

definition op_err :: "ck_rv \<Rightarrow> 'e aes_operation \<Rightarrow> 'a result \<times> 'e aes_operation" where
  "op_err err op = (Err err, op\<lparr>ao_finalized := True\<rparr>)"

abbreviation taglen :: "'e aes_operation \<Rightarrow> nat" where
  "taglen op \<equiv> as_taglen (ao_params op)"

abbreviation datalen :: "'e aes_operation \<Rightarrow> nat" where
  "datalen op \<equiv> as_datalen (ao_params op)"

abbreviation buflen :: "'e aes_operation \<Rightarrow> nat" where
  "buflen op \<equiv> length (ao_buffer op)"

definition is_block_mode :: "ck_ulong \<Rightarrow> bool" where
  "is_block_mode m \<longleftrightarrow> m = CKM_AES_ECB \<or> m = CKM_AES_CBC \<or> m = CKM_AES_CBC_PAD"

definition whole_blocks :: "nat \<Rightarrow> nat" where
  "whole_blocks n = n div AES_BLOCK_SIZE * AES_BLOCK_SIZE"

text \<open>A call on the context of the operation.\<close>

definition on_ctx ::
    "('e ossl_cipher \<Rightarrow> 'a result \<times> 'e ossl_cipher) \<Rightarrow> 'e aes_operation \<Rightarrow> 'a result \<times> 'e aes_operation" where
  "on_ctx f op =
    (case ao_ctx op of
       None \<Rightarrow> op_err CKR_GENERAL_ERROR op
     | Some c \<Rightarrow> (case f c of (r, c1) \<Rightarrow> (r, op\<lparr>ao_ctx := Some c1\<rparr>)))"

text \<open>A call whose failure is a failure of the device and ends the operation.\<close>

definition or_device ::
    "('e aes_operation \<Rightarrow> 'a result \<times> 'e aes_operation) \<Rightarrow> 'e aes_operation \<Rightarrow> 'a result \<times> 'e aes_operation" where
  "or_device f op = (case f op of (Inl e, op1) \<Rightarrow> op_err CKR_DEVICE_ERROR op1 | (Inr x, op1) \<Rightarrow> (Inr x, op1))"

definition device_update :: "'e evp \<Rightarrow> bytes \<Rightarrow> nat \<Rightarrow> 'e aes_operation \<Rightarrow> bytes result \<times> 'e aes_operation" where
  "device_update ev d n = or_device (on_ctx (ossl_update ev d n))"

text \<open>The context must have written so many bytes.\<close>

definition exactly :: "nat \<Rightarrow> bytes \<Rightarrow> 'e aes_operation \<Rightarrow> bytes result \<times> 'e aes_operation" where
  "exactly k out op = (if length out \<noteq> k then op_err CKR_DEVICE_ERROR op else (Ok out, op))"

section \<open>Encryption\<close>

definition encryption_len_final :: "nat \<Rightarrow> 'e aes_operation \<Rightarrow> nat result \<times> 'e aes_operation" where
  "encryption_len_final n op =
    (let m = ao_mech op; tot = buflen op + n in
     if m = CKM_AES_CCM then
       (if tot > datalen op then op_err CKR_DATA_LEN_RANGE op else (Ok (tot + taglen op), op))
     else if m = CKM_AES_GCM then (Ok (n + taglen op), op)
     else if m = CKM_AES_CTR \<or> m = CKM_AES_CTS then (Ok n, op)
     else if m = CKM_AES_CBC \<or> m = CKM_AES_ECB then
       (if tot mod AES_BLOCK_SIZE \<noteq> 0 then op_err CKR_DATA_LEN_RANGE op else (Ok tot, op))
     else if m = CKM_AES_CBC_PAD then (Ok ((tot + AES_BLOCK_SIZE) div AES_BLOCK_SIZE * AES_BLOCK_SIZE), op)
     else if m = CKM_AES_KEY_WRAP then
       (if n mod AES_KW_SEMIBLOCK \<noteq> 0 then op_err CKR_DATA_LEN_RANGE op else (Ok (n + AES_KW_SEMIBLOCK), op))
     else if m = CKM_AES_KEY_WRAP_KWP then
       (Ok ((n + AES_BLOCK_SIZE - 1) div AES_KW_SEMIBLOCK * AES_KW_SEMIBLOCK), op)
     else if m = CKM_AES_KEY_WRAP_PKCS7 then
       (if tot < AES_KW_SEMIBLOCK then op_err CKR_DATA_LEN_RANGE op
        else (Ok ((tot + AES_KW_SEMIBLOCK) div AES_KW_SEMIBLOCK * AES_KW_SEMIBLOCK + AES_KW_SEMIBLOCK), op))
     else if is_stream_mode m then (Ok n, op)
     else op_err CKR_GENERAL_ERROR op)"

definition encryption_len_part :: "nat \<Rightarrow> 'e aes_operation \<Rightarrow> nat result \<times> 'e aes_operation" where
  "encryption_len_part n op =
    (let m = ao_mech op in
     if m = CKM_AES_CCM then (Ok (datalen op + taglen op), op)
     else if m = CKM_AES_GCM then (Ok (n + taglen op), op)
     else if m = CKM_AES_CTR \<or> m = CKM_AES_CTS then (Ok n, op)
     else if is_block_mode m then (Ok (whole_blocks (buflen op + n)), op)
     else if is_stream_mode m then (Ok n, op)
     else if m = CKM_AES_KEY_WRAP then
       (if n mod AES_KW_SEMIBLOCK \<noteq> 0 then op_err CKR_DATA_LEN_RANGE op else (Ok (n + AES_KW_SEMIBLOCK), op))
     else if m = CKM_AES_KEY_WRAP_KWP then
       (Ok ((n + AES_BLOCK_SIZE - 1) div AES_KW_SEMIBLOCK * AES_KW_SEMIBLOCK), op)
     else if m = CKM_AES_KEY_WRAP_PKCS7 then (Ok 0, op)
     else op_err CKR_GENERAL_ERROR op)"

definition encryption_len :: "nat \<Rightarrow> bool \<Rightarrow> 'e aes_operation \<Rightarrow> nat result \<times> 'e aes_operation" where
  "encryption_len n fin op = (if fin then encryption_len_final n op else encryption_len_part n op)"

text \<open>A mode that works at once uses the counter of blocks to remember that it did.\<close>

definition once :: "'e aes_operation \<Rightarrow> unit result \<times> 'e aes_operation" where
  "once op =
    (if ao_blockctr op = 0 then (Ok (), op\<lparr>ao_blockctr := 1\<rparr>) else op_err CKR_OPERATION_NOT_INITIALIZED op)"

text \<open>Every part of a counter mode counts its blocks, the last one even when it is not whole.\<close>

definition count_blocks :: "nat \<Rightarrow> 'e aes_operation \<Rightarrow> unit result \<times> 'e aes_operation" where
  "count_blocks n op =
    (let maxblocks = as_maxblocks (ao_params op); req = (n + AES_BLOCK_SIZE - 1) div AES_BLOCK_SIZE in
     if maxblocks \<noteq> 0 then
       (if ao_blockctr op + req > maxblocks then op_err CKR_DATA_LEN_RANGE op
        else (Ok (), op\<lparr>ao_blockctr := ao_blockctr op + req\<rparr>))
     else (Ok (), op))"

text \<open>What each mode checks before a part, and how much room the part needs.\<close>

definition encrypt_checks :: "nat \<Rightarrow> nat \<Rightarrow> 'e aes_operation \<Rightarrow> nat result \<times> 'e aes_operation" where
  "encrypt_checks n outlen op =
    (let m = ao_mech op in
     if m = CKM_AES_CTS then
       (if n < AES_BLOCK_SIZE then op_err CKR_DATA_LEN_RANGE op
        else st_then (once op) (\<lambda>_ op1. (Ok outlen, op1)))
     else if m = CKM_AES_CCM then
       (if datalen op > MAX_CCM_BUF \<and> n \<noteq> datalen op then op_err CKR_DATA_LEN_RANGE op
        else if n + buflen op > datalen op then op_err CKR_DATA_LEN_RANGE op
        else (Ok (if n + buflen op < datalen op then 0 else outlen), op))
     else if m = CKM_AES_CTR then st_then (count_blocks n op) (\<lambda>_ op1. (Ok outlen, op1))
     else if m = CKM_AES_KEY_WRAP \<and> n mod AES_KW_SEMIBLOCK \<noteq> 0 then op_err CKR_DATA_LEN_RANGE op
     else (Ok outlen, op))"

text \<open>
  The first steps of each mode give what they wrote and what is left of the part for the context. CCM
  waits for all the data, and needs a call even when there is none.
\<close>

definition encrypt_ccm ::
    "'e evp \<Rightarrow> bytes \<Rightarrow> nat \<Rightarrow> 'e aes_operation \<Rightarrow> (bytes \<times> bytes) result \<times> 'e aes_operation" where
  "encrypt_ccm ev plain n op =
    (if datalen op = 0 then
       st_then (device_update ev [] n op) (\<lambda>out op1.
       st_then (exactly 0 out op1) (\<lambda>out op2. (Ok (out, []), op2)))
     else if length plain < datalen op then
       (let op1 = op\<lparr>ao_buffer := ao_buffer op @ plain\<rparr> in
        if buflen op1 = datalen op1 then
          st_then (device_update ev (ao_buffer op1) n op1) (\<lambda>out op2.
          st_then (exactly (datalen op2) out op2) (\<lambda>out op3. (Ok (out, []), op3\<lparr>ao_buffer := []\<rparr>)))
        else (Ok ([], []), op1))
     else (Ok ([], plain), op))"

text \<open>
  The block modes give only whole blocks to the context: first one that the buffer begins, and the rest
  of the data but for its trailer, which waits in the buffer. Decryption does the same.
\<close>

definition feed_blocks ::
    "'e evp \<Rightarrow> bytes \<Rightarrow> nat \<Rightarrow> 'e aes_operation \<Rightarrow> (bytes \<times> bytes) result \<times> 'e aes_operation" where
  "feed_blocks ev d n op =
    st_then
      (if buflen op > 0 \<and> buflen op + length d \<ge> AES_BLOCK_SIZE then
         (let offset = AES_BLOCK_SIZE - buflen op; op1 = op\<lparr>ao_buffer := ao_buffer op @ take offset d\<rparr> in
          st_then (device_update ev (ao_buffer op1) n op1) (\<lambda>out op2.
          st_then (exactly AES_BLOCK_SIZE out op2) (\<lambda>out op3.
            (Ok (out, offset), op3\<lparr>ao_buffer := []\<rparr>))))
       else (Ok ([], 0), op)) (\<lambda>(out, offset) op1.
    let last = length d - (length d - offset) mod AES_BLOCK_SIZE in
    (Ok (out, drop offset (take last d)), op1\<lparr>ao_buffer := ao_buffer op1 @ drop last d\<rparr>))"

text \<open>
  Stealing needs room for two blocks, else a buffer of that size is used; the copy out of it panics unless
  the caller's buffer has exactly the length of the result.
\<close>

definition steal_blocks ::
    "'e evp \<Rightarrow> bytes \<Rightarrow> nat \<Rightarrow> 'e aes_operation \<Rightarrow> (bytes \<times> bytes) result \<times> 'e aes_operation" where
  "steal_blocks ev d n op =
    (if n < AES_BLOCK_SIZE * 2 then
       st_then (device_update ev d (AES_BLOCK_SIZE * 2) op) (\<lambda>out op1.
       st_then (exactly (length d) out op1) (\<lambda>out op2.
         if n \<noteq> length out then (Inl Panic, op2) else (Ok (out, []), op2)))
     else (Ok ([], d), op))"

definition feed_rest :: "'e evp \<Rightarrow> nat \<Rightarrow> bytes \<times> bytes \<Rightarrow> 'e aes_operation \<Rightarrow> bytes result \<times> 'e aes_operation" where
  "feed_rest ev n p op =
    (case p of (out, rest) \<Rightarrow>
      if rest = [] then (Ok out, op)
      else st_then (device_update ev rest (n - length out) op) (\<lambda>out1 op1. (Ok (out @ out1), op1)))"

definition aes_encrypt_update :: "'e evp \<Rightarrow> bytes \<Rightarrow> nat \<Rightarrow> 'e aes_operation \<Rightarrow> bytes result \<times> 'e aes_operation" where
  "aes_encrypt_update ev plain n op0 =
    (if ao_finalized op0 then (Err CKR_OPERATION_NOT_INITIALIZED, op0)
     else
       st_then (encryption_len (length plain) False (op0\<lparr>ao_in_use := True\<rparr>)) (\<lambda>len op1.
       if ao_mech op1 = CKM_AES_KEY_WRAP_PKCS7 then (Ok [], op1\<lparr>ao_buffer := ao_buffer op1 @ plain\<rparr>)
       else st_then (encrypt_checks (length plain) len op1) (\<lambda>outlen op2.
       if n < outlen then (Inl (BufferTooSmall outlen), op2)
       else if ao_ctx op2 = None then op_err CKR_GENERAL_ERROR op2
       else st_then
         (if ao_mech op2 = CKM_AES_CCM then encrypt_ccm ev plain n op2
          else if is_block_mode (ao_mech op2) then feed_blocks ev plain n op2
          else if ao_mech op2 = CKM_AES_CTS then steal_blocks ev plain n op2
          else (Ok ([], plain), op2)) (feed_rest ev n))))"

text \<open>
  The end. \<open>ends\<close> marks the operation as finished before a step that may fail, as the code does for some
  modes only.
\<close>

definition ends :: "'e aes_operation \<Rightarrow> 'e aes_operation" where
  "ends op = op\<lparr>ao_finalized := True\<rparr>"

definition encrypt_tag :: "'e evp \<Rightarrow> nat \<Rightarrow> 'e aes_operation \<Rightarrow> bytes result \<times> 'e aes_operation" where
  "encrypt_tag ev n op =
    (if n < taglen op then (Inl (BufferTooSmall (taglen op)), op)
     else st_then (on_ctx (ossl_finalize ev n) op) (\<lambda>out op1.
       st_then (exactly 0 out op1) (\<lambda>_. on_ctx (ossl_get_tag ev (taglen op)))))"

definition check_blockctr :: "'e aes_operation \<Rightarrow> bytes result \<times> 'e aes_operation" where
  "check_blockctr op =
    (if as_maxblocks (ao_params op) > 0 \<and> ao_blockctr op \<ge> as_maxblocks (ao_params op)
       then (Err CKR_DATA_LEN_RANGE, op) else (Ok [], op))"

definition encrypt_no_trailer :: "'e evp \<Rightarrow> 'e aes_operation \<Rightarrow> bytes result \<times> 'e aes_operation" where
  "encrypt_no_trailer ev op =
    (if buflen op > 0 then (Err CKR_DATA_LEN_RANGE, op)
     else st_then (on_ctx (ossl_finalize ev AES_BLOCK_SIZE) op) (\<lambda>out op1. exactly 0 out op1))"

definition encrypt_padding :: "'e evp \<Rightarrow> nat \<Rightarrow> 'e aes_operation \<Rightarrow> bytes result \<times> 'e aes_operation" where
  "encrypt_padding ev n op =
    (if n < AES_BLOCK_SIZE then (Inl (BufferTooSmall AES_BLOCK_SIZE), op)
     else st_then
       (if buflen op > 0 then
          st_then (on_ctx (ossl_update ev (ao_buffer op) n) (ends op)) (\<lambda>out op1. exactly 0 out op1)
        else (Ok [], ends op)) (\<lambda>_ op1.
     st_then (on_ctx (ossl_finalize ev n) op1) (\<lambda>out op2. exactly AES_BLOCK_SIZE out op2)))"

text \<open>The padding of PKCS#7 for a wrapped key: one to eight bytes of their number.\<close>

definition kw_pad :: "bytes \<Rightarrow> bytes" where
  "kw_pad d =
    (let pad = AES_KW_SEMIBLOCK - length d mod AES_KW_SEMIBLOCK in d @ replicate pad (of_nat pad))"

definition encrypt_wrap :: "'e evp \<Rightarrow> nat \<Rightarrow> 'e aes_operation \<Rightarrow> bytes result \<times> 'e aes_operation" where
  "encrypt_wrap ev n op =
    (if buflen op < AES_KW_SEMIBLOCK then op_err CKR_DATA_LEN_RANGE op
     else let padded = kw_pad (ao_buffer op); needed = length padded + AES_KW_SEMIBLOCK in
     if n < needed then (Inl (BufferTooSmall needed), op)
     else st_then (on_ctx (ossl_update ev padded n) (ends op\<lparr>ao_buffer := padded\<rparr>)) (\<lambda>out op1.
       exactly needed out (op1\<lparr>ao_buffer := []\<rparr>)))"

definition aes_encrypt_final :: "'e evp \<Rightarrow> nat \<Rightarrow> 'e aes_operation \<Rightarrow> bytes result \<times> 'e aes_operation" where
  "aes_encrypt_final ev n op =
    (if ao_finalized op then (Err CKR_OPERATION_NOT_INITIALIZED, op)
     else if \<not> ao_in_use op then (Err CKR_OPERATION_NOT_INITIALIZED, op)
     else if ao_ctx op = None then op_err CKR_GENERAL_ERROR op
     else st_then
       (let m = ao_mech op in
        if m = CKM_AES_CCM \<or> m = CKM_AES_GCM then encrypt_tag ev n op
        else if m = CKM_AES_CTR then check_blockctr (ends op)
        else if m = CKM_AES_CTS \<or> is_stream_mode m then (Ok [], op)
        else if m = CKM_AES_ECB \<or> m = CKM_AES_CBC then encrypt_no_trailer ev (ends op)
        else if m = CKM_AES_CBC_PAD then encrypt_padding ev n op
        else if m = CKM_AES_KEY_WRAP \<or> m = CKM_AES_KEY_WRAP_KWP then (Ok [], op)
        else if m = CKM_AES_KEY_WRAP_PKCS7 then encrypt_wrap ev n op
        else op_err CKR_GENERAL_ERROR op) (\<lambda>out op1. (Ok out, ends op1)))"

definition aes_encrypt :: "'e evp \<Rightarrow> bytes \<Rightarrow> nat \<Rightarrow> 'e aes_operation \<Rightarrow> bytes result \<times> 'e aes_operation" where
  "aes_encrypt ev plain n op =
    (if ao_finalized op then (Err CKR_OPERATION_NOT_INITIALIZED, op)
     else st_then (aes_encrypt_update ev plain n op) (\<lambda>out op1.
       if length out > n then op_err CKR_GENERAL_ERROR op1
       else st_then (aes_encrypt_final ev (n - length out) op1) (\<lambda>out1 op2. (Ok (out @ out1), op2))))"

section \<open>Decryption\<close>

definition decryption_len_final :: "nat \<Rightarrow> 'e aes_operation \<Rightarrow> nat result \<times> 'e aes_operation" where
  "decryption_len_final n op =
    (let m = ao_mech op; tot = buflen op + n in
     if m = CKM_AES_GCM then
       (if tot < taglen op then op_err CKR_ENCRYPTED_DATA_LEN_RANGE op else (Ok (tot - taglen op), op))
     else if m = CKM_AES_CCM then
       (if tot > datalen op + taglen op then op_err CKR_ENCRYPTED_DATA_LEN_RANGE op
        else (Ok (datalen op + taglen op), op))
     else if m = CKM_AES_CTR \<or> m = CKM_AES_CTS then (Ok n, op)
     else if is_block_mode m then
       (if tot mod AES_BLOCK_SIZE \<noteq> 0 then op_err CKR_ENCRYPTED_DATA_LEN_RANGE op else (Ok tot, op))
     else if is_stream_mode m then (Ok n, op)
     else if m = CKM_AES_KEY_WRAP \<or> m = CKM_AES_KEY_WRAP_KWP then
       (if n mod AES_KW_SEMIBLOCK \<noteq> 0 then op_err CKR_ENCRYPTED_DATA_LEN_RANGE op else (Ok tot, op))
     else if m = CKM_AES_KEY_WRAP_PKCS7 then
       (if tot < 24 \<or> tot mod AES_KW_SEMIBLOCK \<noteq> 0 then op_err CKR_ENCRYPTED_DATA_LEN_RANGE op
        else (Ok (tot - AES_KW_SEMIBLOCK), op))
     else op_err CKR_GENERAL_ERROR op)"

definition decryption_len_part :: "nat \<Rightarrow> 'e aes_operation \<Rightarrow> nat result \<times> 'e aes_operation" where
  "decryption_len_part n op =
    (let m = ao_mech op; tot = buflen op + n in
     if m = CKM_AES_CCM then
       (if tot < taglen op then op_err CKR_ENCRYPTED_DATA_LEN_RANGE op else (Ok (tot - taglen op), op))
     else if m = CKM_AES_GCM then (Ok (if tot < taglen op then 0 else tot), op)
     else if m = CKM_AES_CTR \<or> m = CKM_AES_CTS then (Ok n, op)
     else if is_block_mode m then (Ok (whole_blocks tot), op)
     else if is_stream_mode m then (Ok n, op)
     else if m = CKM_AES_KEY_WRAP \<or> m = CKM_AES_KEY_WRAP_KWP then
       (if n mod AES_KW_SEMIBLOCK \<noteq> 0 then op_err CKR_ENCRYPTED_DATA_LEN_RANGE op
        else (Ok (n div AES_KW_SEMIBLOCK * AES_KW_SEMIBLOCK), op))
     else if m = CKM_AES_KEY_WRAP_PKCS7 then (Ok 0, op)
     else op_err CKR_GENERAL_ERROR op)"

definition decryption_len :: "nat \<Rightarrow> bool \<Rightarrow> 'e aes_operation \<Rightarrow> nat result \<times> 'e aes_operation" where
  "decryption_len n fin op = (if fin then decryption_len_final n op else decryption_len_part n op)"

text \<open>What each mode checks before the operation counts as used.\<close>

definition decrypt_checks :: "nat \<Rightarrow> 'e aes_operation \<Rightarrow> unit result \<times> 'e aes_operation" where
  "decrypt_checks n op =
    (let m = ao_mech op in
     if m = CKM_AES_CTS then (if n < AES_BLOCK_SIZE then op_err CKR_DATA_LEN_RANGE op else once op)
     else if m = CKM_AES_CCM \<and> n + buflen op > datalen op + taglen op then op_err CKR_DATA_LEN_RANGE op
     else if (m = CKM_AES_KEY_WRAP \<or> m = CKM_AES_KEY_WRAP_KWP) \<and> n mod AES_KW_SEMIBLOCK \<noteq> 0
       then op_err CKR_DATA_LEN_RANGE op
     else (Ok (), op))"

definition decrypt_room :: "nat \<Rightarrow> 'e aes_operation \<Rightarrow> nat result \<times> 'e aes_operation" where
  "decrypt_room n op =
    (let m = ao_mech op; tot = n + buflen op in
     if m = CKM_AES_CCM then
       (if datalen op > MAX_CCM_BUF \<and> n \<noteq> datalen op + taglen op then op_err CKR_DATA_LEN_RANGE op
        else if tot > datalen op + taglen op then op_err CKR_DATA_LEN_RANGE op
        else (Ok (datalen op), op))
     else if m = CKM_AES_CTR then st_then (count_blocks n op) (\<lambda>_ op1. (Ok n, op1))
     else if m = CKM_AES_GCM then (Ok (if tot > taglen op then tot - taglen op else 0), op)
     else if is_block_mode m then (Ok (whole_blocks tot), op)
     else (Ok n, op))"

text \<open>CCM needs the tag, the end of all the data, before the data.\<close>

definition decrypt_ccm ::
    "'e evp \<Rightarrow> bytes \<Rightarrow> nat \<Rightarrow> 'e aes_operation \<Rightarrow> (bytes \<times> bytes) result \<times> 'e aes_operation" where
  "decrypt_ccm ev cipher n op =
    (let needlen = datalen op + taglen op in
     if length cipher \<ge> needlen \<and> length cipher \<noteq> needlen then op_err CKR_DATA_LEN_RANGE op
     else
       (let op1 = (if length cipher < needlen then op\<lparr>ao_buffer := ao_buffer op @ cipher\<rparr> else op);
            cbuf = (if length cipher < needlen then ao_buffer op1 else cipher) in
        if length cbuf = needlen then
          st_then (or_device (on_ctx (ossl_set_tag ev (drop (datalen op) cbuf))) op1) (\<lambda>_ op2.
          st_then (device_update ev (take (datalen op) cbuf) n op2) (\<lambda>out op3.
            (Ok (out, []), op3\<lparr>ao_buffer := []\<rparr>)))
        else (Ok ([], []), op1)))"

text \<open>
  GCM does not know the length of the data: the buffer keeps the last bytes, as many as the tag has, which
  may be the tag.
\<close>

definition decrypt_gcm ::
    "'e evp \<Rightarrow> bytes \<Rightarrow> nat \<Rightarrow> 'e aes_operation \<Rightarrow> (bytes \<times> bytes) result \<times> 'e aes_operation" where
  "decrypt_gcm ev cipher n op =
    (let len = length cipher; tagl = taglen op in
     if buflen op > 0 then
       (if len > tagl then
          st_then (device_update ev (ao_buffer op) n op) (\<lambda>out op1.
            (Ok (out, take (len - tagl) cipher), op1\<lparr>ao_buffer := drop (len - tagl) cipher\<rparr>))
        else
          (let op1 = op\<lparr>ao_buffer := ao_buffer op @ cipher\<rparr>; k = buflen op1 - tagl in
           if buflen op1 > tagl then
             st_then (device_update ev (take k (ao_buffer op1)) n op1) (\<lambda>out op2.
               (Ok (out, []), op2\<lparr>ao_buffer := drop k (ao_buffer op2)\<rparr>))
           else (Ok ([], []), op1)))
     else if len > tagl then (Ok ([], take (len - tagl) cipher), op\<lparr>ao_buffer := ao_buffer op @ drop (len - tagl) cipher\<rparr>)
     else (Ok ([], []), op\<lparr>ao_buffer := ao_buffer op @ cipher\<rparr>))"

definition aes_decrypt_update :: "'e evp \<Rightarrow> bytes \<Rightarrow> nat \<Rightarrow> 'e aes_operation \<Rightarrow> bytes result \<times> 'e aes_operation" where
  "aes_decrypt_update ev cipher n op0 =
    (if ao_finalized op0 then (Err CKR_OPERATION_NOT_INITIALIZED, op0)
     else if ao_mech op0 = CKM_AES_KEY_WRAP_PKCS7
       then (Ok [], op0\<lparr>ao_in_use := True, ao_buffer := ao_buffer op0 @ cipher\<rparr>)
     else st_then (decrypt_checks (length cipher) op0) (\<lambda>_ op1.
       st_then (decrypt_room (length cipher) (op1\<lparr>ao_in_use := True\<rparr>)) (\<lambda>outlen op2.
       if n < outlen then (Inl (BufferTooSmall outlen), op2)
       else if ao_ctx op2 = None then op_err CKR_GENERAL_ERROR op2
       else st_then
         (if ao_mech op2 = CKM_AES_CCM then decrypt_ccm ev cipher n op2
          else if ao_mech op2 = CKM_AES_GCM then decrypt_gcm ev cipher n op2
          else if is_block_mode (ao_mech op2) then feed_blocks ev cipher n op2
          else if ao_mech op2 = CKM_AES_CTS then steal_blocks ev cipher n op2
          else (Ok ([], cipher), op2)) (feed_rest ev n))))"

text \<open>The last call on the context, whose failure means that the data is not what was encrypted.\<close>

definition or_invalid :: "'a result \<times> 's \<Rightarrow> 'a result \<times> 's" where
  "or_invalid p = (case p of (Inl _, s) \<Rightarrow> (Err CKR_ENCRYPTED_DATA_INVALID, s) | (Inr x, s) \<Rightarrow> (Inr x, s))"

definition decrypt_tag :: "'e evp \<Rightarrow> nat \<Rightarrow> 'e aes_operation \<Rightarrow> bytes result \<times> 'e aes_operation" where
  "decrypt_tag ev n op =
    (if buflen op \<noteq> taglen op then (Err CKR_DATA_LEN_RANGE, op)
     else st_then (on_ctx (ossl_set_tag ev (ao_buffer op)) op) (\<lambda>_ op1.
       st_then (or_invalid (on_ctx (ossl_finalize ev n) op1)) (\<lambda>out op2. exactly 0 out op2)))"

definition decrypt_no_trailer :: "'e evp \<Rightarrow> 'e aes_operation \<Rightarrow> bytes result \<times> 'e aes_operation" where
  "decrypt_no_trailer ev op =
    (if buflen op \<noteq> 0 then (Err CKR_DATA_LEN_RANGE, op)
     else st_then (or_invalid (on_ctx (ossl_finalize ev AES_BLOCK_SIZE) (op\<lparr>ao_buffer := replicate AES_BLOCK_SIZE 0\<rparr>)))
       (\<lambda>out op1. st_then (exactly 0 out op1) (\<lambda>out op2. (Ok out, op2\<lparr>ao_buffer := []\<rparr>))))"

definition decrypt_padding :: "'e evp \<Rightarrow> nat \<Rightarrow> 'e aes_operation \<Rightarrow> bytes result \<times> 'e aes_operation" where
  "decrypt_padding ev n op =
    (if buflen op \<noteq> 0 then (Err CKR_DATA_LEN_RANGE, op)
     else or_invalid (on_ctx (ossl_finalize ev n) op))"

text \<open>
  The padding of PKCS#7 at the end of a last semiblock: each of the eight lengths is tried, and the ones
  that match are collected without a branch.
\<close>

definition pad_matches :: "bytes \<Rightarrow> nat list" where
  "pad_matches tail =
    filter (\<lambda>k. drop (AES_KW_SEMIBLOCK - k) tail = replicate k (of_nat k)) [1..<AES_KW_SEMIBLOCK + 1]"

definition kw_unpad :: "bytes \<Rightarrow> nat \<Rightarrow> bytes result" where
  "kw_unpad d n =
    (if length d < 16 \<or> length d mod AES_KW_SEMIBLOCK \<noteq> 0 then Err CKR_ENCRYPTED_DATA_INVALID
     else if n < length d - AES_KW_SEMIBLOCK then Inl (BufferTooSmall (length d - AES_KW_SEMIBLOCK))
     else
       (let ks = pad_matches (drop (length d - AES_KW_SEMIBLOCK) d); pad_len = fold (OR) ks 0 in
        if ks = [] then Err CKR_ENCRYPTED_DATA_INVALID
        else if n < length d - pad_len then Inl (BufferTooSmall (length d - pad_len))
        else Ok (take (length d - pad_len) d)))"

definition decrypt_unwrap :: "'e evp \<Rightarrow> nat \<Rightarrow> 'e aes_operation \<Rightarrow> bytes result \<times> 'e aes_operation" where
  "decrypt_unwrap ev n op =
    (if buflen op < 24 \<or> buflen op mod AES_KW_SEMIBLOCK \<noteq> 0
       then (Err CKR_ENCRYPTED_DATA_LEN_RANGE, op\<lparr>ao_buffer := []\<rparr>)
     else case on_ctx (ossl_update ev (ao_buffer op) (buflen op)) op of
       (Inl _, op1) \<Rightarrow> (Err CKR_ENCRYPTED_DATA_INVALID, op1\<lparr>ao_buffer := []\<rparr>)
     | (Inr out, op1) \<Rightarrow> (kw_unpad out n, op1\<lparr>ao_buffer := []\<rparr>))"

definition aes_decrypt_final :: "'e evp \<Rightarrow> nat \<Rightarrow> 'e aes_operation \<Rightarrow> bytes result \<times> 'e aes_operation" where
  "aes_decrypt_final ev n op0 =
    (if ao_finalized op0 then (Err CKR_OPERATION_NOT_INITIALIZED, op0)
     else if \<not> ao_in_use op0 then (Err CKR_OPERATION_NOT_INITIALIZED, op0)
     else if ao_ctx op0 = None then op_err CKR_GENERAL_ERROR op0
     else let op = ends op0; m = ao_mech op in
       if m = CKM_AES_CCM then (if buflen op > 0 then (Err CKR_DATA_LEN_RANGE, op) else (Ok [], op))
       else if m = CKM_AES_GCM then decrypt_tag ev n op
       else if m = CKM_AES_CTR then check_blockctr op
       else if m = CKM_AES_CTS \<or> is_stream_mode m then (Ok [], op)
       else if m = CKM_AES_ECB \<or> m = CKM_AES_CBC then decrypt_no_trailer ev op
       else if m = CKM_AES_CBC_PAD then decrypt_padding ev n op
       else if m = CKM_AES_KEY_WRAP \<or> m = CKM_AES_KEY_WRAP_KWP then (Ok [], op)
       else if m = CKM_AES_KEY_WRAP_PKCS7 then decrypt_unwrap ev n op
       else (Err CKR_GENERAL_ERROR, op))"

definition aes_decrypt :: "'e evp \<Rightarrow> bytes \<Rightarrow> nat \<Rightarrow> 'e aes_operation \<Rightarrow> bytes result \<times> 'e aes_operation" where
  "aes_decrypt ev cipher n op =
    (if ao_finalized op then (Err CKR_OPERATION_NOT_INITIALIZED, op)
     else st_then (aes_decrypt_update ev cipher n op) (\<lambda>out op1.
       if length out > n then op_err CKR_GENERAL_ERROR op1
       else st_then (aes_decrypt_final ev (n - length out) op1) (\<lambda>out1 op2. (Ok (out @ out1), op2))))"

section \<open>Wrapping keys\<close>

text \<open>Block modes without padding need the key filled with zeros to a whole block.\<close>

definition wrap_input :: "ck_ulong \<Rightarrow> bytes \<Rightarrow> bytes" where
  "wrap_input mech keydata =
    (if (mech = CKM_AES_CBC \<or> mech = CKM_AES_ECB) \<and> length keydata mod AES_BLOCK_SIZE \<noteq> 0
       then keydata @ replicate (AES_BLOCK_SIZE - length keydata mod AES_BLOCK_SIZE) 0
     else keydata)"

text \<open>What is written, and the length that is answered: the length needed when there is no buffer.\<close>

definition aes_wrap ::
    "'e evp \<Rightarrow> (nat \<Rightarrow> bytes result) \<Rightarrow> ck_mechanism \<Rightarrow> object \<Rightarrow> bytes \<Rightarrow> nat \<Rightarrow> (bytes \<times> nat) result" where
  "aes_wrap ev rng m wrapping_key keydata0 n =
    and_then (cipher_new ev rng True m wrapping_key) (\<lambda>op.
    let keydata = wrap_input (cm_mechanism m) keydata0 in
    if cm_mechanism m = CKM_AES_CCM \<and> datalen op \<noteq> length keydata then Err CKR_MECHANISM_PARAM_INVALID
    else case encryption_len (length keydata) True op of (r, op1) \<Rightarrow>
      and_then r (\<lambda>needed_len.
      if n = 0 then Ok ([], needed_len)
      else if n < needed_len then Inl (BufferTooSmall needed_len)
      else and_then (fst (aes_encrypt ev keydata n op1)) (\<lambda>out. Ok (out, length out))))"

definition aes_unwrap ::
    "'e evp \<Rightarrow> (nat \<Rightarrow> bytes result) \<Rightarrow> ck_mechanism \<Rightarrow> object \<Rightarrow> bytes \<Rightarrow> bytes result" where
  "aes_unwrap ev rng m wrapping_key data =
    and_then (cipher_new ev rng False m wrapping_key) (\<lambda>op. fst (aes_decrypt ev data (length data) op))"

end
