(* ===== verification/Aes_Blocks.thy ===== *)
theory Aes_Blocks
  imports Aes_Cipher
begin

text \<open>
  What the block modes of an AES operation do with a context that behaves as OpenSSL documents: only whole
  blocks reach the context before the end, whatever the parts are.
\<close>

section \<open>What a block cipher context does\<close>

text \<open>
  A context works on the data of all its updates: \<open>E\<close> is the mode on whole blocks, and the output goes as
  far as there are whole blocks. With padding the end adds one to sixteen bytes.
\<close>

definition block_cipher :: "(bytes \<Rightarrow> bytes) \<Rightarrow> bool" where
  "block_cipher E \<longleftrightarrow> (\<forall>d. 16 dvd length d \<longrightarrow> length (E d) = length d) \<and>
    (\<forall>d x. 16 dvd length d \<and> 16 dvd length x \<longrightarrow> take (length d) (E (d @ x)) = E d)"

definition block_out :: "(bytes \<Rightarrow> bytes) \<Rightarrow> bytes \<Rightarrow> bytes" where
  "block_out E d = E (take (whole_blocks (length d)) d)"

definition pkcs7 :: "bytes \<Rightarrow> bytes" where
  "pkcs7 d = d @ replicate (16 - length d mod 16) (of_nat (16 - length d mod 16))"

definition block_fin :: "(bytes \<Rightarrow> bytes) \<Rightarrow> bool \<Rightarrow> bytes \<Rightarrow> bytes option" where
  "block_fin E padding d =
    (if padding then Some (E (pkcs7 d)) else if 16 dvd length d then Some (E d) else None)"

coinductive streams :: "'e evp \<Rightarrow> (bytes \<Rightarrow> bytes) \<Rightarrow> (bytes \<Rightarrow> bytes option) \<Rightarrow> bytes \<Rightarrow> 'e \<Rightarrow> bool"
  for ev out fin where
  "(\<forall>x. \<exists>e1. ev_update ev x e = (Some (drop (length (out d)) (out (d @ x))), e1) \<and> streams ev out fin (d @ x) e1) \<Longrightarrow>
    (\<exists>e1. ev_final ev e = (map_option (drop (length (out d))) (fin d), e1)) \<Longrightarrow>
    streams ev out fin d e"

lemma streams_update:
  assumes "streams ev out fin d e"
  obtains e1 where "ev_update ev x e = (Some (drop (length (out d)) (out (d @ x))), e1)" "streams ev out fin (d @ x) e1"
  using assms by (cases rule: streams.cases) blast

lemma streams_final:
  assumes "streams ev out fin d e"
  obtains e1 where "ev_final ev e = (map_option (drop (length (out d))) (fin d), e1)"
  using assms by (cases rule: streams.cases) blast

lemma whole_blocks_dvd [simp]: "16 dvd whole_blocks n"
  by (simp add: whole_blocks_def)

lemma whole_blocks_le [simp]: "whole_blocks n \<le> n"
  by (simp add: whole_blocks_def)

lemma whole_blocks_add: "16 dvd k \<Longrightarrow> whole_blocks (k + n) = k + whole_blocks n"
  by (auto simp: whole_blocks_def algebra_simps)

lemma whole_blocks_small: "n < 16 \<Longrightarrow> whole_blocks n = 0"
  by (simp add: whole_blocks_def)

lemma whole_blocks_id: "16 dvd n \<Longrightarrow> whole_blocks n = n"
  by (simp add: whole_blocks_def)

lemma whole_blocks_mod: "n - n mod 16 = whole_blocks n"
  by (simp add: whole_blocks_def minus_mod_eq_div_mult)

lemma block_out_whole: "16 dvd length d \<Longrightarrow> block_out E d = E d"
  by (simp add: block_out_def whole_blocks_id)

lemma block_cipher_len: "block_cipher E \<Longrightarrow> 16 dvd length d \<Longrightarrow> length (E d) = length d"
  by (simp add: block_cipher_def)

lemma block_cipher_split:
  assumes "block_cipher E" "16 dvd length d" "16 dvd length x"
  shows "E d @ drop (length d) (E (d @ x)) = E (d @ x)"
proof -
  have "take (length d) (E (d @ x)) = E d" using assms unfolding block_cipher_def by blast
  then show ?thesis by (metis append_take_drop_id)
qed

lemma ossl_update_stream:
  assumes "streams ev (block_out E) fin w (oc_ctx c)" "oc_blocksize c = 16" "block_cipher E" "16 dvd length w"
    "16 dvd length x" "x \<noteq> []" "length x \<le> n" "fits_c_int n"
  obtains c1 where "ossl_update ev x n c = (Ok (drop (length w) (E (w @ x))), c1)" "oc_blocksize c1 = 16"
    "streams ev (block_out E) fin (w @ x) (oc_ctx c1)"
proof -
  obtain e1 where e1: "ev_update ev x (oc_ctx c) = (Some (drop (length (block_out E w)) (block_out E (w @ x))), e1)"
      "streams ev (block_out E) fin (w @ x) e1"
    by (rule streams_update[OF assms(1)])
  have "block_out E w = E w" "block_out E (w @ x) = E (w @ x)" "length (E w) = length w"
    using assms(3-5) by (simp_all add: block_out_whole block_cipher_len)
  moreover have "buffer_size c (length x) = length x"
    using assms(2,5,6) by (simp add: buffer_size_def)
  moreover have "fits_c_int (length x)" using assms(7,8) by (simp add: fits_c_int_def)
  ultimately have "ossl_update ev x n c = (Ok (drop (length w) (E (w @ x))), c\<lparr>oc_ctx := e1\<rparr>)"
    using e1(1) assms(7,8) by (simp add: ossl_update_def)
  then show ?thesis using that[of "c\<lparr>oc_ctx := e1\<rparr>"] e1(2) assms(2) by simp
qed

section \<open>Whole blocks only\<close>

text \<open>The state of an operation in a block mode after some data.\<close>

definition block_state ::
    "'e evp \<Rightarrow> (bytes \<Rightarrow> bytes) \<Rightarrow> (bytes \<Rightarrow> bytes option) \<Rightarrow> bytes \<Rightarrow> 'e aes_operation \<Rightarrow> bool" where
  "block_state ev E fin d op \<longleftrightarrow>
    \<not> ao_finalized op \<and> is_block_mode (ao_mech op) \<and>
    ao_buffer op = drop (whole_blocks (length d)) d \<and>
    (\<exists>c. ao_ctx op = Some c \<and> oc_blocksize c = 16 \<and>
      streams ev (block_out E) fin (take (whole_blocks (length d)) d) (oc_ctx c))"

lemma device_update_ok:
  "ao_ctx op = Some c \<Longrightarrow> ossl_update ev x n c = (Ok out, c1) \<Longrightarrow>
    device_update ev x n op = (Ok out, op\<lparr>ao_ctx := Some c1\<rparr>)"
  by (simp add: device_update_def or_device_def on_ctx_def)

lemma feed_rest_ok:
  assumes "ao_ctx op = Some c" "oc_blocksize c = 16" "streams ev (block_out E) fin w (oc_ctx c)" "block_cipher E"
    "16 dvd length w" "16 dvd length x" "length x + length out \<le> n" "fits_c_int n"
  obtains c1 where "feed_rest ev n (out, x) op = (Ok (out @ drop (length w) (E (w @ x))), op\<lparr>ao_ctx := Some c1\<rparr>)"
    "oc_blocksize c1 = 16" "streams ev (block_out E) fin (w @ x) (oc_ctx c1)"
proof (cases "x = []")
  case True
  then show ?thesis using that[of c] assms(1-5) by (simp add: feed_rest_def block_cipher_len)
next
  case False
  have "length x \<le> n - length out" "fits_c_int (n - length out)" using assms(7,8) by (simp_all add: fits_c_int_def)
  from ossl_update_stream[OF assms(3,2,4,5,6) False this] obtain c1 where
    "ossl_update ev x (n - length out) c = (Ok (drop (length w) (E (w @ x))), c1)" "oc_blocksize c1 = 16"
    "streams ev (block_out E) fin (w @ x) (oc_ctx c1)" .
  then show ?thesis using that[of c1] False device_update_ok[OF assms(1)] by (simp add: feed_rest_def)
qed

lemma block_state_buffer:
  assumes "block_state ev E fin d op"
  shows "buflen op < 16" "buflen op = length d mod 16"
proof -
  have "buflen op = length d - whole_blocks (length d)" using assms by (simp add: block_state_def)
  then show "buflen op = length d mod 16" by (simp add: whole_blocks_def minus_div_mult_eq_mod)
  then show "buflen op < 16" by simp
qed

lemma take_drop_past:
  "length A = a \<Longrightarrow> take (a + k) (A @ B) = A @ take k B \<and> drop (a + k) (A @ B) = drop k B"
  by auto

lemma whole_blocks_ge: "16 \<le> n \<Longrightarrow> 16 \<le> whole_blocks n"
  using div_le_mono[of 16 n 16] by (simp add: whole_blocks_def)

lemma take_whole_append:
  "take (whole_blocks (length d + length p)) (d @ p) =
    take (whole_blocks (length d)) d @
      take (whole_blocks (length d mod 16 + length p)) (drop (whole_blocks (length d)) d @ p)"
  "drop (whole_blocks (length d + length p)) (d @ p) =
    drop (whole_blocks (length d mod 16 + length p)) (drop (whole_blocks (length d)) d @ p)"
proof -
  let ?w = "whole_blocks (length d)"
  have d: "length d = ?w + length d mod 16" by (simp add: whole_blocks_def)
  have w: "whole_blocks (length d + length p) = ?w + whole_blocks (length d mod 16 + length p)"
    using whole_blocks_add[OF whole_blocks_dvd, of "length d" "length d mod 16 + length p"] d by (metis add.assoc)
  have len: "length (take ?w d) = ?w" and split: "take ?w d @ (drop ?w d @ p) = d @ p" by simp_all
  note past = take_drop_past[OF len, of "whole_blocks (length d mod 16 + length p)" "drop ?w d @ p", unfolded split]
  show "take (whole_blocks (length d + length p)) (d @ p) =
      take ?w d @ take (whole_blocks (length d mod 16 + length p)) (drop ?w d @ p)"
    unfolding w by (rule past[THEN conjunct1])
  show "drop (whole_blocks (length d + length p)) (d @ p) =
      drop (whole_blocks (length d mod 16 + length p)) (drop ?w d @ p)"
    unfolding w by (rule past[THEN conjunct2])
qed

text \<open>A part whose first bytes complete the block in the buffer, and one that does not.\<close>

lemma feed_blocks_complete:
  assumes "block_state ev E fin d op" "block_cipher E" "buflen op > 0" "buflen op + length p \<ge> 16"
    "whole_blocks (buflen op + length p) \<le> n" "fits_c_int n"
  obtains c1 where "feed_blocks ev p n op =
      (Ok (drop (whole_blocks (length d)) (E (take (whole_blocks (length d)) d @ take 16 (ao_buffer op @ p))),
         take (whole_blocks (buflen op + length p) - 16) (drop 16 (ao_buffer op @ p))),
       op\<lparr>ao_ctx := Some c1, ao_buffer := drop (whole_blocks (buflen op + length p)) (ao_buffer op @ p)\<rparr>)"
    "oc_blocksize c1 = 16"
    "streams ev (block_out E) fin (take (whole_blocks (length d)) d @ take 16 (ao_buffer op @ p)) (oc_ctx c1)"
proof -
  let ?w = "take (whole_blocks (length d)) d" and ?b = "ao_buffer op" and ?off = "16 - buflen op"
  let ?x = "?b @ take ?off p"
  obtain c where c: "ao_ctx op = Some c" "oc_blocksize c = 16" "streams ev (block_out E) fin ?w (oc_ctx c)"
    using assms(1) by (auto simp: block_state_def)
  have b: "buflen op < 16" by (rule block_state_buffer(1)[OF assms(1)])
  have x: "length ?x = 16" "?x = take 16 (?b @ p)" using b assms(4) by auto
  have w: "length ?w = whole_blocks (length d)" by simp
  have n: "16 \<le> n" using whole_blocks_ge[OF assms(4)] assms(5) by simp
  obtain c1 where c1: "ossl_update ev ?x n c = (Ok (drop (length ?w) (E (?w @ ?x))), c1)" "oc_blocksize c1 = 16"
      "streams ev (block_out E) fin (?w @ ?x) (oc_ctx c1)"
    by (rule ossl_update_stream[OF c(3,2) assms(2), of ?x n]) (use x(1) n assms(6) w in auto)
  have out: "length (drop (length ?w) (E (?w @ ?x))) = 16"
    using block_cipher_len[OF assms(2), of "?w @ ?x"] x(1) w by simp
  let ?last = "length p - (length p - ?off) mod 16"
  have off: "?off \<le> length p" using assms(4) by simp
  have tot: "buflen op + length p = 16 + (length p - ?off)" using b off by simp
  have wb: "whole_blocks (buflen op + length p) = 16 + whole_blocks (length p - ?off)"
    unfolding tot by (rule whole_blocks_add) simp
  have last: "?last = ?off + whole_blocks (length p - ?off)"
    using off whole_blocks_mod[of "length p - ?off"] mod_le_divisor[of 16 "length p - ?off"]
    by (metis (no_types, lifting) Nat.add_diff_assoc le_add_diff_inverse mod_less_eq_dividend)
  have "drop ?off (take ?last p) = take (whole_blocks (buflen op + length p) - 16) (drop 16 (?b @ p))"
    unfolding last wb using b by (simp add: drop_take)
  moreover have "drop ?last p = drop (whole_blocks (buflen op + length p)) (?b @ p)"
    unfolding last wb using b by simp
  ultimately show ?thesis
    using that[of c1] c1 c x out assms(3,4) device_update_ok[of "op\<lparr>ao_buffer := ?x\<rparr>" c ev ?x n]
    by (simp add: feed_blocks_def Let_def exactly_def w)
qed

lemma feed_blocks_append:
  assumes "buflen op < 16" "\<not> (buflen op > 0 \<and> buflen op + length p \<ge> 16)"
  shows "feed_blocks ev p n op =
    (Ok ([], take (whole_blocks (buflen op + length p)) (ao_buffer op @ p)),
     op\<lparr>ao_buffer := drop (whole_blocks (buflen op + length p)) (ao_buffer op @ p)\<rparr>)"
proof (cases "ao_buffer op = []")
  case True
  then show ?thesis by (simp add: feed_blocks_def Let_def whole_blocks_mod)
next
  case False
  then have "buflen op + length p < 16" using assms(2) by auto
  then show ?thesis using False by (simp add: feed_blocks_def Let_def whole_blocks_mod whole_blocks_small)
qed

lemma feed_all_blocks:
  assumes "block_state ev E fin d op" "block_cipher E"
    "whole_blocks (buflen op + length p) \<le> n" "fits_c_int n"
  obtains op1 where "st_then (feed_blocks ev p n op) (feed_rest ev n) =
      (Ok (drop (whole_blocks (length d)) (E (take (whole_blocks (length d + length p)) (d @ p)))), op1)"
    "block_state ev E fin (d @ p) op1" "ao_mech op1 = ao_mech op" "ao_in_use op1 = ao_in_use op"
proof -
  let ?w = "take (whole_blocks (length d)) d" and ?bp = "ao_buffer op @ p" and ?k = "whole_blocks (buflen op + length p)"
  have b: "buflen op < 16" "buflen op = length d mod 16" by (rule block_state_buffer[OF assms(1)])+
  have buf: "ao_buffer op = drop (whole_blocks (length d)) d" using assms(1) by (simp add: block_state_def)
  have new: "take (whole_blocks (length d + length p)) (d @ p) = ?w @ take ?k ?bp"
      "drop (whole_blocks (length d + length p)) (d @ p) = drop ?k ?bp"
    using take_whole_append[of d p, folded b(2) buf] .
  have w: "length ?w = whole_blocks (length d)" "16 dvd length ?w" by simp_all
  obtain out x op1 c1 v where s: "feed_blocks ev p n op = (Ok (out, x), op1)"
      "op1 = op\<lparr>ao_ctx := Some c1, ao_buffer := drop ?k ?bp\<rparr>" "oc_blocksize c1 = 16"
      "streams ev (block_out E) fin (?w @ v) (oc_ctx c1)" "16 dvd length v" "v @ x = take ?k ?bp"
      "16 dvd length x" "length x + length out \<le> n" "out = drop (length ?w) (E (?w @ v))"
  proof (cases "buflen op > 0 \<and> buflen op + length p \<ge> 16")
    case True
    have k: "16 \<le> ?k" "?k \<le> length ?bp"
      using True whole_blocks_ge[of "buflen op + length p"] whole_blocks_le[of "buflen op + length p"] by simp_all
    obtain c1 where c1: "feed_blocks ev p n op =
        (Ok (drop (whole_blocks (length d)) (E (?w @ take 16 ?bp)), take (?k - 16) (drop 16 ?bp)),
         op\<lparr>ao_ctx := Some c1, ao_buffer := drop ?k ?bp\<rparr>)" "oc_blocksize c1 = 16"
        "streams ev (block_out E) fin (?w @ take 16 ?bp) (oc_ctx c1)"
      by (rule feed_blocks_complete[OF assms(1,2) _ _ assms(3,4)]) (use True in auto)
    have v: "length (take 16 ?bp) = 16" using True unfolding length_take length_append by linarith
    have "length (E (?w @ take 16 ?bp)) = length (?w @ take 16 ?bp)"
      by (rule block_cipher_len[OF assms(2)]) (unfold length_append w(1) v, simp)
    then have len: "length (drop (whole_blocks (length d)) (E (?w @ take 16 ?bp))) = 16"
      unfolding length_drop length_append w(1) v by simp
    have "take 16 ?bp @ take (?k - 16) (drop 16 ?bp) = take ?k ?bp"
      using k(1) by (metis le_add_diff_inverse take_add)
    moreover have rest: "length (take (?k - 16) (drop 16 ?bp)) = ?k - 16"
      using k(2) unfolding length_take length_drop by linarith
    moreover have "16 dvd ?k - 16" by (rule dvd_diff_nat) simp_all
    ultimately show ?thesis
      by (intro that[OF c1(1) refl c1(2,3)]) (use k(1) assms(3) in \<open>simp_all only: v len rest w(1), simp_all\<close>)
  next
    case False
    obtain c where c: "ao_ctx op = Some c" "oc_blocksize c = 16" "streams ev (block_out E) fin ?w (oc_ctx c)"
      using assms(1) by (auto simp: block_state_def)
    have "op\<lparr>ao_buffer := drop ?k ?bp\<rparr> = op\<lparr>ao_ctx := Some c, ao_buffer := drop ?k ?bp\<rparr>" using c(1) by simp
    moreover have "length (take ?k ?bp) = ?k"
      unfolding length_take length_append by (rule min_absorb2[OF whole_blocks_le])
    ultimately show ?thesis
      by (intro that[of "[]" "take ?k ?bp" "op\<lparr>ao_buffer := drop ?k ?bp\<rparr>" c "[]"])
        (use feed_blocks_append[OF b(1) False] c assms(2,3) w in \<open>simp_all del: take_append drop_append add: block_cipher_len\<close>)
  qed
  have wv: "16 dvd length (?w @ v)" using w(2) s(5) by simp
  have op1: "ao_ctx op1 = Some c1" using s(2) by simp
  obtain c2 where c2: "feed_rest ev n (out, x) op1 = (Ok (out @ drop (length (?w @ v)) (E ((?w @ v) @ x))), op1\<lparr>ao_ctx := Some c2\<rparr>)"
      "oc_blocksize c2 = 16" "streams ev (block_out E) fin ((?w @ v) @ x) (oc_ctx c2)"
    by (rule feed_rest_ok[OF op1 s(3,4) assms(2) wv s(7,8) assms(4)])
  have all: "(?w @ v) @ x = ?w @ take ?k ?bp" using s(6) by simp
  have split: "E (?w @ v) @ drop (length (?w @ v)) (E ((?w @ v) @ x)) = E ((?w @ v) @ x)"
    by (rule block_cipher_split[OF assms(2) wv s(7)])
  have "length (E (?w @ v)) = length (?w @ v)" by (rule block_cipher_len[OF assms(2) wv])
  then have "out @ drop (length (?w @ v)) (E ((?w @ v) @ x)) = drop (length ?w) (E ((?w @ v) @ x))"
    unfolding s(9) by (subst split[symmetric]) simp
  then have "st_then (feed_blocks ev p n op) (feed_rest ev n) =
      (Ok (drop (whole_blocks (length d)) (E (take (whole_blocks (length d + length p)) (d @ p)))), op1\<lparr>ao_ctx := Some c2\<rparr>)"
    using s(1) c2(1) all new(1) w(1) by simp
  moreover have "block_state ev E fin (d @ p) (op1\<lparr>ao_ctx := Some c2\<rparr>)"
    using assms(1) s(2) c2(2,3) all new by (simp add: block_state_def)
  ultimately show ?thesis using that s(2) by simp
qed

lemma block_mode_not:
  "is_block_mode m \<Longrightarrow> m \<noteq> CKM_AES_CCM \<and> m \<noteq> CKM_AES_GCM \<and> m \<noteq> CKM_AES_CTR \<and> m \<noteq> CKM_AES_CTS \<and>
    m \<noteq> CKM_AES_KEY_WRAP \<and> m \<noteq> CKM_AES_KEY_WRAP_KWP \<and> m \<noteq> CKM_AES_KEY_WRAP_PKCS7 \<and> \<not> is_stream_mode m"
  unfolding is_block_mode_def is_stream_mode_def by (elim disjE) simp_all

lemma encrypt_update_blocks:
  assumes "block_state ev E fin d op" "block_cipher E"
    "whole_blocks (buflen op + length p) \<le> n" "fits_c_int n"
  obtains op1 where "aes_encrypt_update ev p n op =
      (Ok (drop (whole_blocks (length d)) (E (take (whole_blocks (length d + length p)) (d @ p)))), op1)"
    "block_state ev E fin (d @ p) op1" "ao_mech op1 = ao_mech op" "ao_in_use op1"
proof -
  let ?op = "op\<lparr>ao_in_use := True\<rparr>"
  have st: "block_state ev E fin d ?op" using assms(1) by (simp add: block_state_def)
  obtain op1 where op1: "st_then (feed_blocks ev p n ?op) (feed_rest ev n) =
      (Ok (drop (whole_blocks (length d)) (E (take (whole_blocks (length d + length p)) (d @ p)))), op1)"
    "block_state ev E fin (d @ p) op1" "ao_mech op1 = ao_mech ?op" "ao_in_use op1 = ao_in_use ?op"
    by (rule feed_all_blocks[OF st assms(2) _ assms(4)]) (use assms(3) in simp)
  have m: "is_block_mode (ao_mech op)" "\<not> ao_finalized op" "ao_ctx op \<noteq> None"
    using assms(1) by (auto simp: block_state_def)
  have "aes_encrypt_update ev p n op = st_then (feed_blocks ev p n ?op) (feed_rest ev n)"
    using m assms(3) block_mode_not[OF m(1)]
    by (clarsimp simp: aes_encrypt_update_def encryption_len_def encryption_len_part_def encrypt_checks_def Let_def)
  then show ?thesis using that op1 by simp
qed

lemma decrypt_update_blocks:
  assumes "block_state ev E fin d op" "block_cipher E"
    "whole_blocks (buflen op + length p) \<le> n" "fits_c_int n"
  obtains op1 where "aes_decrypt_update ev p n op =
      (Ok (drop (whole_blocks (length d)) (E (take (whole_blocks (length d + length p)) (d @ p)))), op1)"
    "block_state ev E fin (d @ p) op1" "ao_mech op1 = ao_mech op" "ao_in_use op1"
proof -
  let ?op = "op\<lparr>ao_in_use := True\<rparr>"
  have st: "block_state ev E fin d ?op" using assms(1) by (simp add: block_state_def)
  obtain op1 where op1: "st_then (feed_blocks ev p n ?op) (feed_rest ev n) =
      (Ok (drop (whole_blocks (length d)) (E (take (whole_blocks (length d + length p)) (d @ p)))), op1)"
    "block_state ev E fin (d @ p) op1" "ao_mech op1 = ao_mech ?op" "ao_in_use op1 = ao_in_use ?op"
    by (rule feed_all_blocks[OF st assms(2) _ assms(4)]) (use assms(3) in simp)
  have m: "is_block_mode (ao_mech op)" "\<not> ao_finalized op" "ao_ctx op \<noteq> None"
    using assms(1) by (auto simp: block_state_def)
  have "aes_decrypt_update ev p n op = st_then (feed_blocks ev p n ?op) (feed_rest ev n)"
    using m assms(3) block_mode_not[OF m(1)]
    by (clarsimp simp: aes_decrypt_update_def decrypt_checks_def decrypt_room_def Let_def add.commute[of "length p"])
  then show ?thesis using that op1 by simp
qed

section \<open>Data in parts\<close>

text \<open>Parts with the room for the output of each, given one after the other; the outputs in order.\<close>

fun in_parts :: "(bytes \<Rightarrow> nat \<Rightarrow> 's \<Rightarrow> bytes result \<times> 's) \<Rightarrow> (bytes \<times> nat) list \<Rightarrow> 's \<Rightarrow> bytes result \<times> 's" where
  "in_parts f [] s = (Ok [], s)"
| "in_parts f ((p, n) # ps) s =
    st_then (f p n s) (\<lambda>out s1. st_then (in_parts f ps s1) (\<lambda>out1 s2. (Ok (out @ out1), s2)))"

definition then_final ::
    "(nat \<Rightarrow> 's \<Rightarrow> bytes result \<times> 's) \<Rightarrow> nat \<Rightarrow> bytes result \<times> 's \<Rightarrow> bytes result \<times> 's" where
  "then_final f n r = st_then r (\<lambda>out s1. st_then (f n s1) (\<lambda>out1 s2. (Ok (out @ out1), s2)))"

abbreviation parts_data :: "(bytes \<times> nat) list \<Rightarrow> bytes" where
  "parts_data ps \<equiv> concat (map fst ps)"

text \<open>Room for the part and the block that the buffer may complete.\<close>

definition roomy :: "(bytes \<times> nat) list \<Rightarrow> bool" where
  "roomy ps = list_all (\<lambda>(p, n). length p + 15 \<le> n \<and> fits_c_int n) ps"

lemma whole_blocks_mono: "m \<le> n \<Longrightarrow> whole_blocks m \<le> whole_blocks n"
  by (simp add: whole_blocks_def div_le_mono)

lemma take_take_append: "j \<le> length a \<Longrightarrow> j \<le> k \<Longrightarrow> take j (take k (a @ b)) = take j a"
  by simp

lemma drop_prefix: "i \<le> length a \<Longrightarrow> a @ x = b \<Longrightarrow> drop i a @ x = drop i b"
  by auto

lemma drop_take_parts:
  assumes "block_cipher E"
  shows "drop (whole_blocks (length d)) (E (take (whole_blocks (length d + length p)) (d @ p))) @
      drop (whole_blocks (length (d @ p))) (E (take (whole_blocks (length (d @ p @ q))) (d @ p @ q))) =
    drop (whole_blocks (length d)) (E (take (whole_blocks (length (d @ p @ q))) (d @ p @ q)))"
proof -
  let ?i = "whole_blocks (length d)" and ?j = "whole_blocks (length (d @ p))" and ?k = "whole_blocks (length (d @ p @ q))"
  let ?a = "take ?j (d @ p)"
  let ?b = "drop ?j (take ?k (d @ p @ q))"
  have jk: "?j \<le> ?k" "?i \<le> ?j" by (simp_all add: whole_blocks_mono)
  have la: "length ?a = ?j" by (simp only: length_take min_absorb2 whole_blocks_le)
  have lk: "length (take ?k (d @ p @ q)) = ?k" by (simp only: length_take min_absorb2 whole_blocks_le)
  have "take ?j (take ?k ((d @ p) @ q)) = ?a" by (rule take_take_append[OF whole_blocks_le jk(1)])
  then have "take ?j (take ?k (d @ p @ q)) = ?a" unfolding append_assoc .
  then have ab: "take ?k (d @ p @ q) = ?a @ ?b" by (metis append_take_drop_id)
  have lb: "16 dvd length ?b" unfolding length_drop lk by (rule dvd_diff_nat) simp_all
  have da: "16 dvd length ?a" unfolding la by simp
  have whole: "E ?a @ drop (length ?a) (E (?a @ ?b)) = E (?a @ ?b)" by (rule block_cipher_split[OF assms da lb])
  have "?i \<le> length (E ?a)" unfolding block_cipher_len[OF assms da] la by (rule jk(2))
  then have "drop ?i (E ?a) @ drop (length ?a) (E (?a @ ?b)) = drop ?i (E (?a @ ?b))"
    by (rule drop_prefix[OF _ whole])
  then show ?thesis unfolding ab[symmetric] la length_append[of d p, symmetric] .
qed

lemma in_parts_blocks:
  assumes step: "\<And>d p n op. block_state ev E fin d op \<Longrightarrow> ao_mech op = m \<Longrightarrow> whole_blocks (buflen op + length p) \<le> n \<Longrightarrow>
      fits_c_int n \<Longrightarrow> \<exists>op1. f p n op =
        (Ok (drop (whole_blocks (length d)) (E (take (whole_blocks (length d + length p)) (d @ p)))), op1) \<and>
        block_state ev E fin (d @ p) op1 \<and> ao_mech op1 = m \<and> ao_in_use op1"
    and E: "block_cipher E"
  shows "block_state ev E fin d op \<Longrightarrow> ao_mech op = m \<Longrightarrow> roomy ps \<Longrightarrow>
    \<exists>op1. in_parts f ps op =
      (Ok (drop (whole_blocks (length d)) (E (take (whole_blocks (length (d @ parts_data ps))) (d @ parts_data ps)))), op1) \<and>
      block_state ev E fin (d @ parts_data ps) op1 \<and> ao_mech op1 = m \<and> (ao_in_use op1 \<longleftrightarrow> ao_in_use op \<or> ps \<noteq> [])"
proof (induction ps arbitrary: d op)
  case Nil
  have "length (E (take (whole_blocks (length d)) d)) = whole_blocks (length d)"
    using block_cipher_len[OF E, of "take (whole_blocks (length d)) d"] by simp
  then show ?case using Nil by simp
next
  case (Cons a ps)
  obtain p n where a: "a = (p, n)" by (cases a)
  have room: "length p + 15 \<le> n" "fits_c_int n" "roomy ps" using Cons.prems(3) a by (simp_all add: roomy_def)
  have "buflen op < 16" by (rule block_state_buffer(1)[OF Cons.prems(1)])
  then have "whole_blocks (buflen op + length p) \<le> n"
    using whole_blocks_le[of "buflen op + length p"] room(1) by linarith
  then obtain op1 where op1: "f p n op =
      (Ok (drop (whole_blocks (length d)) (E (take (whole_blocks (length d + length p)) (d @ p)))), op1)"
      "block_state ev E fin (d @ p) op1" "ao_mech op1 = m" "ao_in_use op1"
    using step[OF Cons.prems(1,2) _ room(2)] by blast
  obtain op2 where op2: "in_parts f ps op1 =
      (Ok (drop (whole_blocks (length (d @ p))) (E (take (whole_blocks (length ((d @ p) @ parts_data ps))) ((d @ p) @ parts_data ps)))), op2)"
      "block_state ev E fin ((d @ p) @ parts_data ps) op2" "ao_mech op2 = m" "ao_in_use op2"
    using Cons.IH[OF op1(2,3) room(3)] op1(4) by blast
  have "in_parts f (a # ps) op =
      (Ok (drop (whole_blocks (length d)) (E (take (whole_blocks (length (d @ p @ parts_data ps))) (d @ p @ parts_data ps)))), op2)"
    unfolding drop_take_parts[OF E, symmetric] using a op1(1) op2(1) by simp
  then show ?case using a op2(2-4) by simp
qed

lemma encrypt_in_parts_blocks:
  assumes "block_state ev E fin [] op" "block_cipher E" "roomy ps" "ps \<noteq> []"
  obtains op1 where "in_parts (aes_encrypt_update ev) ps op =
      (Ok (E (take (whole_blocks (length (parts_data ps))) (parts_data ps))), op1)"
    "block_state ev E fin (parts_data ps) op1" "ao_mech op1 = ao_mech op" "ao_in_use op1"
proof -
  have st: "\<exists>op1. aes_encrypt_update ev p n x =
        (Ok (drop (whole_blocks (length d)) (E (take (whole_blocks (length d + length p)) (d @ p)))), op1) \<and>
        block_state ev E fin (d @ p) op1 \<and> ao_mech op1 = ao_mech op \<and> ao_in_use op1"
    if "block_state ev E fin d x" "ao_mech x = ao_mech op" "whole_blocks (buflen x + length p) \<le> n" "fits_c_int n"
    for d p n x
    using encrypt_update_blocks[OF that(1) assms(2) that(3,4)] that(2) by metis
  show ?thesis
    using in_parts_blocks[where f = "aes_encrypt_update ev", OF st assms(2,1) refl assms(3)] that assms(4)
    by (clarsimp simp: whole_blocks_small)
qed

lemma decrypt_in_parts_blocks:
  assumes "block_state ev E fin [] op" "block_cipher E" "roomy ps" "ps \<noteq> []"
  obtains op1 where "in_parts (aes_decrypt_update ev) ps op =
      (Ok (E (take (whole_blocks (length (parts_data ps))) (parts_data ps))), op1)"
    "block_state ev E fin (parts_data ps) op1" "ao_mech op1 = ao_mech op" "ao_in_use op1"
proof -
  have st: "\<exists>op1. aes_decrypt_update ev p n x =
        (Ok (drop (whole_blocks (length d)) (E (take (whole_blocks (length d + length p)) (d @ p)))), op1) \<and>
        block_state ev E fin (d @ p) op1 \<and> ao_mech op1 = ao_mech op \<and> ao_in_use op1"
    if "block_state ev E fin d x" "ao_mech x = ao_mech op" "whole_blocks (buflen x + length p) \<le> n" "fits_c_int n"
    for d p n x
    using decrypt_update_blocks[OF that(1) assms(2) that(3,4)] that(2) by metis
  show ?thesis
    using in_parts_blocks[where f = "aes_decrypt_update ev", OF st assms(2,1) refl assms(3)] that assms(4)
    by (clarsimp simp: whole_blocks_small)
qed

section \<open>The end of the data\<close>

lemma on_ctx_ok: "ao_ctx op = Some c \<Longrightarrow> f c = (r, c1) \<Longrightarrow> on_ctx f op = (r, op\<lparr>ao_ctx := Some c1\<rparr>)"
  by (simp add: on_ctx_def)

lemma finalize_stream:
  assumes "streams ev out fin d (oc_ctx c)" "oc_blocksize c = 16" "16 \<le> n" "fits_c_int n"
  obtains c1 where "ossl_finalize ev n c =
    (case fin d of None \<Rightarrow> Err CKR_DEVICE_ERROR | Some x \<Rightarrow> Ok (drop (length (out d)) x), c1)"
proof -
  obtain e1 where "ev_final ev (oc_ctx c) = (map_option (drop (length (out d))) (fin d), e1)"
    by (rule streams_final[OF assms(1)])
  then show ?thesis
    using assms(2-4) that[of "c\<lparr>oc_ctx := e1\<rparr>"]
    by (cases "fin d") (simp_all add: ossl_finalize_def buffer_size_def)
qed

text \<open>The last bytes, less than a block, go to the context and give nothing yet.\<close>

lemma short_update:
  assumes "streams ev (block_out E) fin w (oc_ctx c)" "oc_blocksize c = 16" "block_cipher E" "16 dvd length w"
    "x \<noteq> []" "length x < 16" "16 \<le> n" "fits_c_int n"
  obtains c1 where "ossl_update ev x n c = (Ok [], c1)" "oc_blocksize c1 = 16" "streams ev (block_out E) fin (w @ x) (oc_ctx c1)"
proof -
  obtain e1 where e1: "ev_update ev x (oc_ctx c) = (Some (drop (length (block_out E w)) (block_out E (w @ x))), e1)"
      "streams ev (block_out E) fin (w @ x) e1"
    by (rule streams_update[OF assms(1)])
  have "whole_blocks (length w + length x) = length w"
    using whole_blocks_add[OF assms(4), of "length x"] whole_blocks_small[OF assms(6)] by simp
  then have "block_out E (w @ x) = block_out E w" by (simp add: block_out_def whole_blocks_id[OF assms(4)])
  moreover have "fits_c_int (length x)" "length x mod 16 = length x" using assms(6-8) by (simp_all add: fits_c_int_def)
  ultimately have "ossl_update ev x n c = (Ok [], c\<lparr>oc_ctx := e1\<rparr>)"
    using e1(1) assms(2,5-8) by (simp add: ossl_update_def buffer_size_def)
  then show ?thesis using that[of "c\<lparr>oc_ctx := e1\<rparr>"] e1(2) assms(2) by simp
qed

lemma buffer_empty_iff:
  assumes "block_state ev E fin d op"
  shows "ao_buffer op = [] \<longleftrightarrow> 16 dvd length d"
proof -
  have "ao_buffer op = [] \<longleftrightarrow> length d mod 16 = 0" unfolding block_state_buffer(2)[OF assms, symmetric] by simp
  then show ?thesis by (simp add: dvd_eq_mod_eq_0)
qed

lemma block_state_context:
  assumes "block_state ev E fin d op"
  obtains c where "ao_ctx op = Some c" "oc_blocksize c = 16"
    "streams ev (block_out E) fin (take (whole_blocks (length d)) d) (oc_ctx c)"
  using assms by (auto simp: block_state_def)

lemma no_trailer_whole:
  assumes "block_state ev E (block_fin E False) d op" "block_cipher E" "16 dvd length d"
  obtains c c1 where "ao_ctx op = Some c" "ossl_finalize ev 16 c = (Ok [], c1)"
proof -
  obtain c where c: "ao_ctx op = Some c" "oc_blocksize c = 16"
      "streams ev (block_out E) (block_fin E False) (take (whole_blocks (length d)) d) (oc_ctx c)"
    by (rule block_state_context[OF assms(1)])
  then have s: "streams ev (block_out E) (block_fin E False) d (oc_ctx c)" using assms(3) by (simp add: whole_blocks_id)
  obtain c1 where "ossl_finalize ev 16 c = (Ok [], c1)"
    using finalize_stream[OF s c(2), of 16] assms(2,3)
    by (auto simp: fits_c_int_def block_fin_def block_out_whole)
  then show ?thesis by (rule that[OF c(1)])
qed

lemma encrypt_no_trailer_blocks:
  assumes "block_state ev E (block_fin E False) d op" "block_cipher E"
  shows "fst (encrypt_no_trailer ev (ends op)) = (if 16 dvd length d then Ok [] else Err CKR_DATA_LEN_RANGE)"
proof (cases "16 dvd length d")
  case True
  obtain c c1 where "ao_ctx op = Some c" "ossl_finalize ev 16 c = (Ok [], c1)"
    by (rule no_trailer_whole[OF assms True])
  then show ?thesis using True buffer_empty_iff[OF assms(1)]
    by (simp add: encrypt_no_trailer_def exactly_def ends_def on_ctx_def)
next
  case False
  then show ?thesis using buffer_empty_iff[OF assms(1)] by (simp add: encrypt_no_trailer_def ends_def)
qed

lemma decrypt_no_trailer_blocks:
  assumes "block_state ev E (block_fin E False) d op" "block_cipher E"
  shows "fst (decrypt_no_trailer ev (ends op)) = (if 16 dvd length d then Ok [] else Err CKR_DATA_LEN_RANGE)"
proof (cases "16 dvd length d")
  case True
  obtain c c1 where "ao_ctx op = Some c" "ossl_finalize ev 16 c = (Ok [], c1)"
    by (rule no_trailer_whole[OF assms True])
  then show ?thesis using True buffer_empty_iff[OF assms(1)]
    by (simp add: decrypt_no_trailer_def exactly_def ends_def or_invalid_def on_ctx_def)
next
  case False
  then show ?thesis using buffer_empty_iff[OF assms(1)] by (simp add: decrypt_no_trailer_def ends_def)
qed

lemma length_pkcs7: "length (pkcs7 d) = whole_blocks (length d) + 16"
  using mod_less_eq_dividend[of "length d" 16] by (simp add: pkcs7_def whole_blocks_mod[symmetric])

lemma pkcs7_dvd [simp]: "16 dvd length (pkcs7 d)"
  by (simp add: length_pkcs7)

lemma take_pkcs7: "take (whole_blocks (length d)) (pkcs7 d) = take (whole_blocks (length d)) d"
  by (simp add: pkcs7_def)

lemma block_cipher_prefix:
  assumes "block_cipher E" "16 dvd k" "16 dvd length x" "k \<le> length x"
  shows "take k (E x) = E (take k x)"
proof -
  have k: "length (take k x) = k" using assms(4) by simp
  have "16 dvd length (drop k x)" unfolding length_drop by (rule dvd_diff_nat[OF assms(3,2)])
  then have "take (length (take k x)) (E (take k x @ drop k x)) = E (take k x)"
    using assms(1,2) k unfolding block_cipher_def by metis
  then show ?thesis unfolding k append_take_drop_id .
qed

lemma encrypt_padding_blocks:
  assumes "block_state ev E (block_fin E True) d op" "block_cipher E" "16 \<le> n" "fits_c_int n"
  shows "fst (encrypt_padding ev n op) = Ok (drop (whole_blocks (length d)) (E (pkcs7 d)))"
proof -
  let ?w = "take (whole_blocks (length d)) d"
  obtain c where c: "ao_ctx op = Some c" "oc_blocksize c = 16"
      "streams ev (block_out E) (block_fin E True) ?w (oc_ctx c)"
    by (rule block_state_context[OF assms(1)])
  have buf: "?w @ ao_buffer op = d" "length (ao_buffer op) < 16"
    using assms(1) block_state_buffer(1)[OF assms(1)] by (simp_all add: block_state_def)
  have w: "16 dvd length ?w" by simp
  obtain c1 where c1: "oc_blocksize c1 = 16" "streams ev (block_out E) (block_fin E True) d (oc_ctx c1)"
      "(if buflen op > 0 then
          st_then (on_ctx (ossl_update ev (ao_buffer op) n) (ends op)) (\<lambda>out op1. exactly 0 out op1)
        else (Ok [], ends op)) = (Ok [], (ends op)\<lparr>ao_ctx := Some c1\<rparr>)"
  proof (cases "ao_buffer op = []")
    case True
    then show ?thesis using that[of c] c buf(1) by (simp add: ends_def)
  next
    case False
    obtain c1 where c1: "ossl_update ev (ao_buffer op) n c = (Ok [], c1)" "oc_blocksize c1 = 16"
        "streams ev (block_out E) (block_fin E True) (?w @ ao_buffer op) (oc_ctx c1)"
      by (rule short_update[OF c(3,2) assms(2) w False buf(2) assms(3,4)])
    then show ?thesis
      using that[of c1] False buf(1) on_ctx_ok[of "ends op" c "ossl_update ev (ao_buffer op) n"] c(1)
      by (simp add: ends_def exactly_def)
  qed
  have len: "length (E (pkcs7 d)) = whole_blocks (length d) + 16"
    using block_cipher_len[OF assms(2), of "pkcs7 d"] by (simp add: length_pkcs7)
  have "length (block_out E d) = whole_blocks (length d)"
    using block_cipher_len[OF assms(2) w] by (simp add: block_out_def)
  then obtain c2 where "ossl_finalize ev n c1 = (Ok (drop (whole_blocks (length d)) (E (pkcs7 d))), c2)"
    using finalize_stream[OF c1(2,1) assms(3,4)] by (auto simp: block_fin_def)
  then have "on_ctx (ossl_finalize ev n) ((ends op)\<lparr>ao_ctx := Some c1\<rparr>) =
      (Ok (drop (whole_blocks (length d)) (E (pkcs7 d))), (ends op)\<lparr>ao_ctx := Some c2\<rparr>)"
    by (simp add: on_ctx_def)
  then show ?thesis using c1(3) assms(3) len by (simp add: encrypt_padding_def exactly_def)
qed

abbreviation pads :: "'e aes_operation \<Rightarrow> bool" where
  "pads op \<equiv> ao_mech op = CKM_AES_CBC_PAD"

lemma block_mode_cases:
  assumes "is_block_mode m"
  obtains "m = CKM_AES_CBC_PAD" | "m \<noteq> CKM_AES_CBC_PAD" "m = CKM_AES_ECB \<or> m = CKM_AES_CBC"
  using assms by (auto simp: is_block_mode_def)

lemma block_state_op:
  assumes "block_state ev E fin d op"
  shows "is_block_mode (ao_mech op)" "\<not> ao_finalized op" "\<exists>c. ao_ctx op = Some c"
  using assms by (auto simp: block_state_def)

lemma ends_mech [simp]: "ao_mech (ends op) = ao_mech op"
  by (simp add: ends_def)

lemma encrypt_final_blocks:
  assumes "block_state ev E (block_fin E (pads op)) d op" "block_cipher E" "16 \<le> n" "fits_c_int n" "ao_in_use op"
  shows "fst (aes_encrypt_final ev n op) =
    (if pads op then Ok (drop (whole_blocks (length d)) (E (pkcs7 d)))
     else if 16 dvd length d then Ok [] else Err CKR_DATA_LEN_RANGE)"
proof -
  obtain c where c: "ao_ctx op = Some c" using block_state_op(3)[OF assms(1)] by blast
  note m = block_state_op(1,2)[OF assms(1)] c
  have fst_then: "fst (st_then r (\<lambda>out op1. (Ok out, ends op1))) = fst r" for r :: "bytes result \<times> 'a aes_operation"
    by (cases r rule: prod.exhaust, rename_tac a b, case_tac a) simp_all
  from m(1) show ?thesis
  proof (cases rule: block_mode_cases)
    case 1
    then show ?thesis using m(2,3) assms(5) encrypt_padding_blocks[of ev E d op n] assms(1-4)
      by (simp add: aes_encrypt_final_def fst_then is_stream_mode_def)
  next
    case 2
    then show ?thesis using m(2,3) assms(5) encrypt_no_trailer_blocks[of ev E d op] assms(1,2)
      by (elim disjE) (use block_mode_not[OF m(1)] in \<open>simp_all add: aes_encrypt_final_def fst_then\<close>)
  qed
qed

lemma decrypt_final_blocks:
  assumes "block_state ev E (block_fin E False) d op" "block_cipher E" "ao_in_use op" "\<not> pads op"
  shows "fst (aes_decrypt_final ev n op) = (if 16 dvd length d then Ok [] else Err CKR_DATA_LEN_RANGE)"
proof -
  obtain c where c: "ao_ctx op = Some c" using block_state_op(3)[OF assms(1)] by blast
  note m = block_state_op(1,2)[OF assms(1)] c
  from m(1) show ?thesis
  proof (cases rule: block_mode_cases)
    case 2
    then show ?thesis using m(2,3) assms(3) decrypt_no_trailer_blocks[of ev E d op] assms(1,2)
      by (elim disjE) (use block_mode_not[OF m(1)] in \<open>simp_all add: aes_decrypt_final_def Let_def\<close>)
  qed (use assms(4) in simp)
qed

end
