(* ===== verification/Aes_Laws.thy ===== *)
theory Aes_Laws
  imports Aes_Blocks
begin

text \<open>
  What AES operations compute when OpenSSL behaves as documented: the block modes do not depend on how the
  data is cut in parts, and decryption gives back what was encrypted.
\<close>

section \<open>What OpenSSL promises of the block modes\<close>

text \<open>
  Decryption with padding holds the last whole block back until the end, which removes the padding.
\<close>

definition held_out :: "(bytes \<Rightarrow> bytes) \<Rightarrow> bytes \<Rightarrow> bytes" where
  "held_out D d = D (take (whole_blocks (length d - 1)) d)"

definition unpkcs7 :: "bytes \<Rightarrow> bytes option" where
  "unpkcs7 x =
    (let k = unat (last x) in
     if 1 \<le> k \<and> k \<le> 16 \<and> k \<le> length x \<and> drop (length x - k) x = replicate k (of_nat k)
       then Some (take (length x - k) x) else None)"

definition unpad_fin :: "(bytes \<Rightarrow> bytes) \<Rightarrow> bytes \<Rightarrow> bytes option" where
  "unpad_fin D d = (if d \<noteq> [] \<and> 16 dvd length d then unpkcs7 (D d) else None)"

type_synonym cipher_fn = "enc_alg \<Rightarrow> bytes \<Rightarrow> bytes option \<Rightarrow> bytes \<Rightarrow> bytes"

text \<open>A new context, once its padding is chosen, works on the data that it is given.\<close>

definition makes_context ::
    "'e evp \<Rightarrow> enc_alg \<Rightarrow> bool \<Rightarrow> bytes \<Rightarrow> bytes option \<Rightarrow> bool \<Rightarrow> (bytes \<Rightarrow> bytes) \<Rightarrow> (bytes \<Rightarrow> bytes option) \<Rightarrow> bool" where
  "makes_context ev alg enc key iv padding out fin \<longleftrightarrow>
    (\<exists>c e. ev_new ev alg enc key iv None = Ok c \<and> oc_blocksize c = 16 \<and>
      ev_set_padding ev padding (oc_ctx c) = Some e \<and> streams ev out fin [] e)"

text \<open>
  The keys and vectors of a block cipher: a key of its size, and a vector of one block for CBC, unless the
  context is to use its own; a vector of any other length is refused.
\<close>

fun aes_bytes :: "aes_size \<Rightarrow> nat" where
  "aes_bytes Aes128 = 16"
| "aes_bytes Aes192 = 24"
| "aes_bytes Aes256 = 32"

fun legal_input :: "enc_alg \<Rightarrow> bytes \<Rightarrow> bytes option \<Rightarrow> bool" where
  "legal_input (AesCbc s) key iv \<longleftrightarrow> length key = aes_bytes s \<and> (case iv of None \<Rightarrow> True | Some v \<Rightarrow> length v = 16)"
| "legal_input (AesEcb s) key iv \<longleftrightarrow> length key = aes_bytes s \<and> iv = None"
| "legal_input _ key iv \<longleftrightarrow> False"

definition evp_contract :: "'e evp \<Rightarrow> cipher_fn \<Rightarrow> cipher_fn \<Rightarrow> bool" where
  "evp_contract ev E D \<longleftrightarrow>
    (\<forall>alg key iv. legal_input alg key iv \<longrightarrow>
      block_cipher (E alg key iv) \<and> block_cipher (D alg key iv) \<and>
      (\<forall>d. 16 dvd length d \<longrightarrow> D alg key iv (E alg key iv d) = d) \<and>
      (\<forall>padding. makes_context ev alg True key iv padding (block_out (E alg key iv)) (block_fin (E alg key iv) padding)) \<and>
      makes_context ev alg False key iv False (block_out (D alg key iv)) (block_fin (D alg key iv) False) \<and>
      makes_context ev alg False key iv True (held_out (D alg key iv)) (unpad_fin (D alg key iv))) \<and>
    (\<forall>s enc key v. length v \<noteq> 16 \<longrightarrow> (\<exists>e. ev_new ev (AesCbc s) enc key (Some v) None = Inl e))"

definition key_size :: "nat \<Rightarrow> aes_size" where
  "key_size n = (if n = 16 then Aes128 else if n = 24 then Aes192 else Aes256)"

text \<open>The function of a mechanism with a key.\<close>

definition mode_fn :: "cipher_fn \<Rightarrow> ck_mechanism \<Rightarrow> bytes \<Rightarrow> bytes \<Rightarrow> bytes" where
  "mode_fn F m k =
    (if cm_mechanism m = CKM_AES_ECB then F (AesEcb (key_size (length k))) k None
     else let iv = bytes_to_vec (cm_parameter m) 16 in
       F (AesCbc (key_size (length k))) k (if iv = [] then None else Some iv))"

lemma block_params:
  assumes "init_params m = Ok p" "is_block_mode (cm_mechanism m)"
  shows "iv_generator (as_iv p) = CKG_NO_GENERATE"
    "iv_buf (as_iv p) = (if cm_mechanism m = CKM_AES_ECB then [] else bytes_to_vec (cm_parameter m) 16)"
  using assms(2,1) unfolding is_block_mode_def
  by (elim disjE; simp add: init_params_def block_iv_params_def params_of_iv_def iv_none_def iv_simple_def is_stream_mode_def split: if_splits; force)+

definition block_alg :: "ck_ulong \<Rightarrow> nat \<Rightarrow> enc_alg" where
  "block_alg mech n = (if mech = CKM_AES_ECB then AesEcb (key_size n) else AesCbc (key_size n))"

definition mode_iv :: "ck_mechanism \<Rightarrow> bytes option" where
  "mode_iv m =
    (if cm_mechanism m = CKM_AES_ECB then None
     else let iv = bytes_to_vec (cm_parameter m) 16 in if iv = [] then None else Some iv)"

definition mode_legal :: "ck_mechanism \<Rightarrow> bytes \<Rightarrow> bool" where
  "mode_legal m k \<longleftrightarrow> legal_input (block_alg (cm_mechanism m) (length k)) k (mode_iv m)"

lemma mode_fn_eq: "mode_fn F m k = F (block_alg (cm_mechanism m) (length k)) k (mode_iv m)"
  by (simp add: mode_fn_def block_alg_def mode_iv_def Let_def)

lemma mode_fn_contract:
  assumes "evp_contract ev E D" and "mode_legal m k"
  shows "block_cipher (mode_fn E m k)" "block_cipher (mode_fn D m k)"
    "16 dvd length d \<Longrightarrow> mode_fn D m k (mode_fn E m k d) = d"
  using assms unfolding evp_contract_def mode_fn_eq mode_legal_def by blast+

lemma get_cipher_block:
  assumes "is_block_mode mech" "n \<in> {16, 24, 32}"
  shows "get_cipher mech p n = Ok (block_alg mech n)"
proof -
  have "(if n = 16 then Ok Aes128 else if n = 24 then Ok Aes192 else if n = 32 then Ok Aes256
       else Err CKR_KEY_INDIGESTIBLE) = Ok (key_size n)"
    using assms(2) by (auto simp: key_size_def)
  then show ?thesis using assms(1) unfolding is_block_mode_def
    by (elim disjE) (simp_all add: get_cipher_def block_alg_def)
qed

lemma cipher_initialize_block:
  assumes "is_block_mode mech" "length key \<in> {16, 24, 32}" "iv_generator (as_iv p) = CKG_NO_GENERATE"
  shows "cipher_initialize ev rng mech key enc p =
    (and_then (ev_new ev (block_alg mech (length key)) enc key (if iv_buf (as_iv p) = [] then None else Some (iv_buf (as_iv p))) None)
       (ossl_set_padding ev (mech = CKM_AES_CBC_PAD)), p)"
proof -
  have "mode_padding ev mech = ossl_set_padding ev (mech = CKM_AES_CBC_PAD)" "aead_of mech p = None"
    using assms(1) unfolding is_block_mode_def by (elim disjE; simp add: mode_padding_def aead_of_def fun_eq_iff)+
  then show ?thesis
    using get_cipher_block[OF assms(1,2), of p] assms(3) by (simp add: cipher_initialize_def)
qed

lemma cipher_new_steps:
  assumes "cipher_new ev rng enc m key = Ok op" "is_block_mode (cm_mechanism m)" "get_attr_as_bytes CKA_VALUE key = Ok k"
  obtains p c e where "length k \<in> {16, 24, 32}"
    "ev_new ev (block_alg (cm_mechanism m) (length k)) enc k (mode_iv m) None = Ok c"
    "ev_set_padding ev (cm_mechanism m = CKM_AES_CBC_PAD) (oc_ctx c) = Some e"
    "op = \<lparr>ao_mech = cm_mechanism m, ao_op = (if enc then CKF_ENCRYPT else CKF_DECRYPT), ao_key = k,
      ao_params = p, ao_finalized = False, ao_in_use = False, ao_ctx = Some (c\<lparr>oc_ctx := e\<rparr>), ao_buffer = [], ao_blockctr = 0\<rparr>"
proof -
  have len: "check_key_len (length k) = Ok ()"
    using assms(1,3) by (auto simp: cipher_new_def object_to_raw_key_def result_simps)
  then have klen: "length k \<in> {16, 24, 32}" by (auto simp: check_key_len_def split: if_splits)
  obtain p where p: "init_params m = Ok p" using assms(1) by (auto simp: cipher_new_def result_simps)
  have iv: "(if iv_buf (as_iv p) = [] then None else Some (iv_buf (as_iv p))) = mode_iv m"
    using block_params(2)[OF p assms(2)] by (auto simp: mode_iv_def Let_def)
  note init = cipher_initialize_block[OF assms(2) klen block_params(1)[OF p assms(2)], of ev rng enc, unfolded iv]
  obtain c e where c: "ev_new ev (block_alg (cm_mechanism m) (length k)) enc k (mode_iv m) None = Ok c"
      "ev_set_padding ev (cm_mechanism m = CKM_AES_CBC_PAD) (oc_ctx c) = Some e"
    using assms(1,3) p len
    by (auto simp: cipher_new_def object_to_raw_key_def init and_then_eq_Ok ossl_set_padding_def split: option.splits)
  then have "op = \<lparr>ao_mech = cm_mechanism m, ao_op = (if enc then CKF_ENCRYPT else CKF_DECRYPT), ao_key = k,
      ao_params = p, ao_finalized = False, ao_in_use = False, ao_ctx = Some (c\<lparr>oc_ctx := e\<rparr>), ao_buffer = [], ao_blockctr = 0\<rparr>"
    using assms(1,3) p len by (simp add: cipher_new_def object_to_raw_key_def init ossl_set_padding_def)
  then show ?thesis by (rule that[OF klen c])
qed

lemma cipher_new_legal:
  assumes "evp_contract ev E D" "cipher_new ev rng enc m key = Ok op" "is_block_mode (cm_mechanism m)"
    "get_attr_as_bytes CKA_VALUE key = Ok k"
  shows "mode_legal m k"
proof -
  obtain c where k: "length k \<in> {16, 24, 32}"
      and c: "ev_new ev (block_alg (cm_mechanism m) (length k)) enc k (mode_iv m) None = Ok c"
    by (rule cipher_new_steps[OF assms(2-4)])
  have size: "aes_bytes (key_size (length k)) = length k" using k by (auto simp: key_size_def)
  have "length v = 16" if "cm_mechanism m \<noteq> CKM_AES_ECB" "mode_iv m = Some v" for v
  proof (rule ccontr)
    assume "length v \<noteq> 16"
    then obtain e where "ev_new ev (AesCbc (key_size (length k))) enc k (Some v) None = Inl e"
      using assms(1) unfolding evp_contract_def by blast
    then show False using c that by (simp add: block_alg_def)
  qed
  then show ?thesis using size
    by (cases "cm_mechanism m = CKM_AES_ECB") (auto simp: mode_legal_def block_alg_def mode_iv_def split: option.split)
qed

lemma cipher_new_context:
  assumes "cipher_new ev rng enc m key = Ok op" "is_block_mode (cm_mechanism m)" "get_attr_as_bytes CKA_VALUE key = Ok k"
    and "mode_legal m k"
    and made: "\<And>alg iv. legal_input alg k iv \<Longrightarrow>
      makes_context ev alg enc k iv (cm_mechanism m = CKM_AES_CBC_PAD) (out (F alg k iv)) (fin (F alg k iv))"
  obtains c where "ao_ctx op = Some c" "oc_blocksize c = 16" "streams ev (out (mode_fn F m k)) (fin (mode_fn F m k)) [] (oc_ctx c)"
    "ao_mech op = cm_mechanism m" "\<not> ao_finalized op" "\<not> ao_in_use op" "ao_buffer op = []"
proof -
  obtain p c e where c: "ev_new ev (block_alg (cm_mechanism m) (length k)) enc k (mode_iv m) None = Ok c"
      "ev_set_padding ev (cm_mechanism m = CKM_AES_CBC_PAD) (oc_ctx c) = Some e"
      "op = \<lparr>ao_mech = cm_mechanism m, ao_op = (if enc then CKF_ENCRYPT else CKF_DECRYPT), ao_key = k,
      ao_params = p, ao_finalized = False, ao_in_use = False, ao_ctx = Some (c\<lparr>oc_ctx := e\<rparr>), ao_buffer = [], ao_blockctr = 0\<rparr>"
    by (rule cipher_new_steps[OF assms(1-3)])
  have "oc_blocksize c = 16 \<and> streams ev (out (mode_fn F m k)) (fin (mode_fn F m k)) [] e"
    using made[OF assms(4)[unfolded mode_legal_def]] c(1,2) unfolding makes_context_def mode_fn_eq by auto
  then show ?thesis by (intro that[of "c\<lparr>oc_ctx := e\<rparr>"]) (simp_all add: c(3))
qed

lemma new_encryption_state:
  assumes "evp_contract ev E D" "cipher_new ev rng True m key = Ok op" "is_block_mode (cm_mechanism m)"
    "get_attr_as_bytes CKA_VALUE key = Ok k"
  shows "block_state ev (mode_fn E m k) (block_fin (mode_fn E m k) (cm_mechanism m = CKM_AES_CBC_PAD)) [] op"
    "ao_mech op = cm_mechanism m" "\<not> ao_finalized op"
proof -
  have made: "makes_context ev alg True k iv (cm_mechanism m = CKM_AES_CBC_PAD) (block_out (E alg k iv))
      (block_fin (E alg k iv) (cm_mechanism m = CKM_AES_CBC_PAD))" if "legal_input alg k iv" for alg iv
    using assms(1) that unfolding evp_contract_def by blast
  obtain c where c: "ao_ctx op = Some c" "oc_blocksize c = 16"
      "streams ev (block_out (mode_fn E m k)) (block_fin (mode_fn E m k) (cm_mechanism m = CKM_AES_CBC_PAD)) [] (oc_ctx c)"
      "ao_mech op = cm_mechanism m" "\<not> ao_finalized op" "\<not> ao_in_use op" "ao_buffer op = []"
    by (rule cipher_new_context[where out = block_out and F = E and fin = "\<lambda>f. block_fin f (cm_mechanism m = CKM_AES_CBC_PAD)", OF assms(2-4) cipher_new_legal[OF assms(1-4)] made])
  then show "block_state ev (mode_fn E m k) (block_fin (mode_fn E m k) (cm_mechanism m = CKM_AES_CBC_PAD)) [] op"
    "ao_mech op = cm_mechanism m" "\<not> ao_finalized op"
    using assms(3) by (simp_all add: block_state_def)
qed

lemma new_decryption_state:
  assumes "evp_contract ev E D" "cipher_new ev rng False m key = Ok op" "is_block_mode (cm_mechanism m)"
    "get_attr_as_bytes CKA_VALUE key = Ok k" "cm_mechanism m \<noteq> CKM_AES_CBC_PAD"
  shows "block_state ev (mode_fn D m k) (block_fin (mode_fn D m k) False) [] op"
    "ao_mech op = cm_mechanism m" "\<not> ao_finalized op"
proof -
  have made: "makes_context ev alg False k iv (cm_mechanism m = CKM_AES_CBC_PAD) (block_out (D alg k iv))
      (block_fin (D alg k iv) False)" if "legal_input alg k iv" for alg iv
    using assms(1,5) that unfolding evp_contract_def by auto
  obtain c where c: "ao_ctx op = Some c" "oc_blocksize c = 16"
      "streams ev (block_out (mode_fn D m k)) (block_fin (mode_fn D m k) False) [] (oc_ctx c)"
      "ao_mech op = cm_mechanism m" "\<not> ao_finalized op" "\<not> ao_in_use op" "ao_buffer op = []"
    by (rule cipher_new_context[where out = block_out and F = D and fin = "\<lambda>f. block_fin f False", OF assms(2-4) cipher_new_legal[OF assms(1-4)] made])
  then show "block_state ev (mode_fn D m k) (block_fin (mode_fn D m k) False) [] op"
    "ao_mech op = cm_mechanism m" "\<not> ao_finalized op"
    using assms(3) by (simp_all add: block_state_def)
qed

lemma then_final_ok:
  "r = (Ok out, op1) \<Longrightarrow> fst (then_final f n r) = and_then (fst (f n op1)) (\<lambda>out1. Ok (out @ out1))"
  by (cases "f n op1"; cases "fst (f n op1)") (simp_all add: then_final_def)

text \<open>The result of a block mode.\<close>

definition block_result :: "(bytes \<Rightarrow> bytes) \<Rightarrow> bool \<Rightarrow> bytes \<Rightarrow> bytes result" where
  "block_result E padding d =
    (if padding then Ok (E (pkcs7 d)) else if 16 dvd length d then Ok (E d) else Err CKR_DATA_LEN_RANGE)"

lemma encrypt_result:
  assumes E: "block_cipher E" and op: "block_state ev E (block_fin E (pads op)) d op" "ao_in_use op"
    and n: "16 \<le> n" "fits_c_int n"
    and r: "r = (Ok (E (take (whole_blocks (length d)) d)), op)"
  shows "fst (then_final (aes_encrypt_final ev) n r) = block_result E (pads op) d"
proof -
  have pad: "E (take (whole_blocks (length d)) d) = take (whole_blocks (length d)) (E (pkcs7 d))"
    using block_cipher_prefix[OF E whole_blocks_dvd pkcs7_dvd, of "length d" d] by (simp add: length_pkcs7 take_pkcs7)
  note fin = then_final_ok[OF r] encrypt_final_blocks[OF op(1) E n op(2)]
  show ?thesis
  proof (cases "pads op")
    case True
    then show ?thesis by (simp add: fin block_result_def pad)
  next
    case False
    then show ?thesis by (simp add: fin block_result_def whole_blocks_id)
  qed
qed

lemma encryption_in_parts:
  assumes ev: "evp_contract ev E D" and op: "cipher_new ev rng True m key = Ok op"
    and m: "is_block_mode (cm_mechanism m)" and k: "get_attr_as_bytes CKA_VALUE key = Ok k"
    and ps: "roomy ps" "ps \<noteq> []" and n: "16 \<le> n" "fits_c_int n"
  shows "fst (then_final (aes_encrypt_final ev) n (in_parts (aes_encrypt_update ev) ps op)) =
    block_result (mode_fn E m k) (cm_mechanism m = CKM_AES_CBC_PAD) (parts_data ps)"
proof -
  note st = new_encryption_state[OF ev op m k] and E = mode_fn_contract(1)[OF ev cipher_new_legal[OF ev op m k]]
  obtain op1 where op1: "in_parts (aes_encrypt_update ev) ps op =
      (Ok (mode_fn E m k (take (whole_blocks (length (parts_data ps))) (parts_data ps))), op1)"
    "block_state ev (mode_fn E m k) (block_fin (mode_fn E m k) (cm_mechanism m = CKM_AES_CBC_PAD)) (parts_data ps) op1"
    "ao_mech op1 = ao_mech op" "ao_in_use op1"
    by (rule encrypt_in_parts_blocks[OF st(1) E ps])
  have "ao_mech op1 = cm_mechanism m" using op1(3) st(2) by simp
  then show ?thesis using encrypt_result[OF E _ op1(4) n op1(1)] op1(2) by simp
qed

lemma block_encryption_at_once:
  assumes ev: "evp_contract ev E D" and op: "cipher_new ev rng True m key = Ok op"
    and m: "is_block_mode (cm_mechanism m)" and k: "get_attr_as_bytes CKA_VALUE key = Ok k"
    and n: "length d + 16 \<le> n" "fits_c_int n"
  shows "fst (aes_encrypt ev d n op) = block_result (mode_fn E m k) (cm_mechanism m = CKM_AES_CBC_PAD) d"
proof -
  note st = new_encryption_state[OF ev op m k] and E = mode_fn_contract(1)[OF ev cipher_new_legal[OF ev op m k]]
  have "buflen op = 0" using st(1) by (simp add: block_state_def)
  then have "whole_blocks (buflen op + length d) \<le> n"
    using n(1) order_trans[OF whole_blocks_le[of "length d"], of n] by simp
  then obtain op1 where op1: "aes_encrypt_update ev d n op = (Ok (mode_fn E m k (take (whole_blocks (length d)) d)), op1)"
    "block_state ev (mode_fn E m k) (block_fin (mode_fn E m k) (cm_mechanism m = CKM_AES_CBC_PAD)) d op1"
    "ao_mech op1 = ao_mech op" "ao_in_use op1"
    using encrypt_update_blocks[OF st(1) E _ n(2), of d] by (auto simp: whole_blocks_small)
  let ?out = "mode_fn E m k (take (whole_blocks (length d)) d)"
  have out: "length ?out = whole_blocks (length d)" using block_cipher_len[OF E, of "take (whole_blocks (length d)) d"] by simp
  have rest: "length ?out \<le> n" "16 \<le> n - length ?out" "fits_c_int (n - length ?out)"
    using n whole_blocks_le[of "length d"] unfolding out fits_c_int_def by linarith+
  have mech: "ao_mech op1 = cm_mechanism m" using op1(3) st(2) by simp
  have "aes_encrypt ev d n op = then_final (aes_encrypt_final ev) (n - length ?out) (Ok ?out, op1)"
    using op1(1) rest(1) st(3) by (simp add: aes_encrypt_def then_final_def)
  then show ?thesis using encrypt_result[OF E _ op1(4) rest(2,3) refl] op1(2) mech by simp
qed

section \<open>Decryption\<close>

lemma decrypt_result:
  assumes D: "block_cipher D" and op: "block_state ev D (block_fin D False) c op" "ao_in_use op" "\<not> pads op"
    and c: "16 dvd length c" and r: "r = (Ok (D (take (whole_blocks (length c)) c)), op)"
  shows "fst (then_final (aes_decrypt_final ev) n r) = Ok (D c)"
  using decrypt_final_blocks[OF op(1) D op(2,3), of n] c by (simp add: then_final_ok[OF r] whole_blocks_id)

lemma block_decryption_in_parts:
  assumes ev: "evp_contract ev E D" and op: "cipher_new ev rng False m key = Ok op"
    and m: "is_block_mode (cm_mechanism m)" and k: "get_attr_as_bytes CKA_VALUE key = Ok k"
    and ps: "roomy ps" "ps \<noteq> []" and pad: "cm_mechanism m \<noteq> CKM_AES_CBC_PAD" and c: "16 dvd length (parts_data ps)"
  shows "fst (then_final (aes_decrypt_final ev) n (in_parts (aes_decrypt_update ev) ps op)) = Ok (mode_fn D m k (parts_data ps))"
proof -
  note st = new_decryption_state[OF ev op m k pad] and D = mode_fn_contract(2)[OF ev cipher_new_legal[OF ev op m k]]
  obtain op1 where op1: "in_parts (aes_decrypt_update ev) ps op =
      (Ok (mode_fn D m k (take (whole_blocks (length (parts_data ps))) (parts_data ps))), op1)"
    "block_state ev (mode_fn D m k) (block_fin (mode_fn D m k) False) (parts_data ps) op1"
    "ao_mech op1 = ao_mech op" "ao_in_use op1"
    by (rule decrypt_in_parts_blocks[OF st(1) D ps])
  have "\<not> pads op1" using op1(3) st(2) pad by simp
  then show ?thesis using decrypt_result[OF D op1(2,4) _ c op1(1)] by simp
qed

lemma block_decryption_at_once:
  assumes ev: "evp_contract ev E D" and op: "cipher_new ev rng False m key = Ok op"
    and m: "is_block_mode (cm_mechanism m)" and k: "get_attr_as_bytes CKA_VALUE key = Ok k"
    and n: "length c \<le> n" "fits_c_int n" and pad: "cm_mechanism m \<noteq> CKM_AES_CBC_PAD" and c: "16 dvd length c"
  shows "fst (aes_decrypt ev c n op) = Ok (mode_fn D m k c)"
proof -
  note st = new_decryption_state[OF ev op m k pad] and D = mode_fn_contract(2)[OF ev cipher_new_legal[OF ev op m k]]
  have "buflen op = 0" using st(1) by (simp add: block_state_def)
  then have "whole_blocks (buflen op + length c) \<le> n" using n(1) c by (simp add: whole_blocks_id)
  then obtain op1 where op1: "aes_decrypt_update ev c n op = (Ok (mode_fn D m k (take (whole_blocks (length c)) c)), op1)"
    "block_state ev (mode_fn D m k) (block_fin (mode_fn D m k) False) c op1"
    "ao_mech op1 = ao_mech op" "ao_in_use op1"
    using decrypt_update_blocks[OF st(1) D _ n(2), of c] by (auto simp: whole_blocks_small)
  let ?out = "mode_fn D m k (take (whole_blocks (length c)) c)"
  have "length ?out \<le> n" using block_cipher_len[OF D c] n(1) c by (simp add: whole_blocks_id)
  then have "aes_decrypt ev c n op = then_final (aes_decrypt_final ev) (n - length ?out) (Ok ?out, op1)"
    using op1(1) st(3) by (simp add: aes_decrypt_def then_final_def)
  moreover have "\<not> pads op1" using op1(3) st(2) pad by simp
  ultimately show ?thesis using decrypt_result[OF D op1(2,4) _ c refl] by simp
qed

lemma unpkcs7_padding:
  assumes "1 \<le> k" "k \<le> 16"
  shows "unpkcs7 (d @ replicate k (of_nat k)) = Some d"
proof -
  have u: "unat (of_nat k :: u8) = k" using assms by (simp add: unat_of_nat)
  have "last (d @ replicate k (of_nat k :: u8)) = of_nat k" using assms by (cases k) simp_all
  then show ?thesis using u assms by (simp add: unpkcs7_def)
qed

lemma unpkcs7_pkcs7: "unpkcs7 (pkcs7 d) = Some d"
  unfolding pkcs7_def by (rule unpkcs7_padding) simp_all

lemma padded_decryption_at_once:
  assumes ev: "evp_contract ev E D" and op: "cipher_new ev rng False m key = Ok op"
    and m: "cm_mechanism m = CKM_AES_CBC_PAD" and k: "get_attr_as_bytes CKA_VALUE key = Ok k"
    and c: "c = mode_fn E m k (pkcs7 d)" and n: "length c \<le> n" "fits_c_int n"
  shows "fst (aes_decrypt ev c n op) = Ok d"
proof -
  let ?D = "mode_fn D m k" and ?w = "whole_blocks (length d)"
  have bm: "is_block_mode (cm_mechanism m)" using m by (simp add: is_block_mode_def)
  have legal: "mode_legal m k" by (rule cipher_new_legal[OF ev op bm k])
  note D = mode_fn_contract(2)[OF ev legal] and inv = mode_fn_contract(3)[OF ev legal, of "pkcs7 d", OF pkcs7_dvd, folded c]
  have made: "makes_context ev alg False k iv (cm_mechanism m = CKM_AES_CBC_PAD) (held_out (D alg k iv)) (unpad_fin (D alg k iv))"
    if "legal_input alg k iv" for alg iv
    using ev m that unfolding evp_contract_def by auto
  obtain x where x: "ao_ctx op = Some x" "oc_blocksize x = 16" "streams ev (held_out ?D) (unpad_fin ?D) [] (oc_ctx x)"
      "ao_mech op = cm_mechanism m" "\<not> ao_finalized op" "\<not> ao_in_use op" "ao_buffer op = []"
    by (rule cipher_new_context[where out = held_out and F = D and fin = unpad_fin, OF op bm k legal made])
  have len: "length c = ?w + 16" unfolding c block_cipher_len[OF mode_fn_contract(1)[OF ev legal] pkcs7_dvd] by (rule length_pkcs7)
  have dvd: "16 dvd length c" "c \<noteq> []" using len by auto
  have hold: "whole_blocks (length c - 1) = ?w"
    using whole_blocks_add[OF whole_blocks_dvd, of "length d" 15] by (simp add: len whole_blocks_small add.commute)
  have "?w \<le> length c" using len by simp
  then have "take ?w (?D c) = ?D (take ?w c)" by (rule block_cipher_prefix[OF D whole_blocks_dvd dvd(1)])
  then have out: "held_out ?D c = take ?w d" unfolding held_out_def hold inv take_pkcs7 by (rule sym)
  have nil: "length (held_out ?D []) = 0" using block_cipher_len[OF D, of "[]"] by (simp add: held_out_def)
  obtain e1 where "ev_update ev c (oc_ctx x) = (Some (drop (length (held_out ?D [])) (held_out ?D ([] @ c))), e1)"
      "streams ev (held_out ?D) (unpad_fin ?D) ([] @ c) e1"
    by (rule streams_update[OF x(3)])
  then have e1: "ev_update ev c (oc_ctx x) = (Some (take ?w d), e1)" "streams ev (held_out ?D) (unpad_fin ?D) c e1"
    by (simp_all only: nil drop_0 append_Nil out)
  obtain e2 where "ev_final ev e1 = (map_option (drop (length (held_out ?D c))) (unpad_fin ?D c), e2)"
    by (rule streams_final[OF e1(2)])
  then have e2: "ev_final ev e1 = (Some (drop ?w d), e2)"
    using dvd by (simp add: unpad_fin_def inv unpkcs7_pkcs7 out min_absorb2)
  let ?op = "op\<lparr>ao_in_use := True, ao_ctx := Some (x\<lparr>oc_ctx := e1\<rparr>)\<rparr>"
  have room: "buffer_size x (length c) = length c" "fits_c_int (length c)"
    using dvd x(2) n by (auto simp: buffer_size_def fits_c_int_def)
  have "ossl_update ev c n x = (Ok (take ?w d), x\<lparr>oc_ctx := e1\<rparr>)"
    using e1(1) room n by (simp add: ossl_update_def)
  then have "device_update ev c n (op\<lparr>ao_in_use := True\<rparr>) = (Ok (take ?w d), ?op)"
    using device_update_ok[of "op\<lparr>ao_in_use := True\<rparr>" x] x(1) by simp
  then have "aes_decrypt_update ev c n op = (Ok (take ?w d), ?op)"
    using x m n dvd bm by (simp add: aes_decrypt_update_def decrypt_checks_def decrypt_room_def whole_blocks_id feed_blocks_def feed_rest_def)
  moreover have rest: "16 \<le> n - ?w" "fits_c_int (n - ?w)" using n len unfolding fits_c_int_def by linarith+
  moreover have "ossl_finalize ev (n - ?w) (x\<lparr>oc_ctx := e1\<rparr>) = (Ok (drop ?w d), x\<lparr>oc_ctx := e2\<rparr>)"
    using e2 x(2) rest by (simp add: ossl_finalize_def buffer_size_def)
  ultimately show ?thesis
    using n len x m by (simp add: aes_decrypt_def aes_decrypt_final_def decrypt_padding_def or_invalid_def on_ctx_def ends_def is_stream_mode_def)
qed

section \<open>A sample cipher\<close>

text \<open>A context that keeps all its data; its cipher changes every byte.\<close>

definition sample_cipher :: "bytes \<Rightarrow> bytes" where
  "sample_cipher = map (\<lambda>b. b XOR 0x5A)"

definition sample_out :: "bool \<Rightarrow> bool \<Rightarrow> bytes \<Rightarrow> bytes" where
  "sample_out enc padding = (if \<not> enc \<and> padding then held_out sample_cipher else block_out sample_cipher)"

definition sample_fin :: "bool \<Rightarrow> bool \<Rightarrow> bytes \<Rightarrow> bytes option" where
  "sample_fin enc padding = (if \<not> enc \<and> padding then unpad_fin sample_cipher else block_fin sample_cipher padding)"

definition sample_evp :: "(bytes \<times> bool \<times> bool) evp" where
  "sample_evp =
    \<lparr>ev_new = (\<lambda>alg enc key iv aead.
       if iv \<noteq> None \<and> length (the iv) \<noteq> 16 then ossl_wrapper_error
       else Ok \<lparr>oc_ctx = ([], enc, True), oc_blocksize = 16\<rparr>),
     ev_set_padding = (\<lambda>padding (d, enc, _). Some (d, enc, padding)),
     ev_update = (\<lambda>x (d, enc, padding).
       (Some (drop (length (sample_out enc padding d)) (sample_out enc padding (d @ x))), (d @ x, enc, padding))),
     ev_final = (\<lambda>(d, enc, padding).
       (map_option (drop (length (sample_out enc padding d))) (sample_fin enc padding d), (d, enc, padding))),
     ev_set_tag = (\<lambda>_ e. (False, e)),
     ev_get_tag = (\<lambda>_ e. (None, e))\<rparr>"

lemma sample_streams: "streams sample_evp (sample_out enc padding) (sample_fin enc padding) d (d, enc, padding)"
  by (coinduction arbitrary: d) (auto simp: sample_evp_def)

lemma sample_cipher_block: "block_cipher sample_cipher"
  by (simp add: block_cipher_def sample_cipher_def)

lemma sample_contract: "evp_contract sample_evp (\<lambda>_ _ _. sample_cipher) (\<lambda>_ _ _. sample_cipher)"
proof -
  have inv: "sample_cipher (sample_cipher d) = d" for d
    by (induction d) (simp_all add: sample_cipher_def xor.assoc)
  have made: "makes_context sample_evp alg enc key iv padding (sample_out enc padding) (sample_fin enc padding)"
    if "legal_input alg key iv" for alg enc key iv padding
    using that sample_streams[of enc padding "[]"]
    by (cases alg) (auto simp: makes_context_def sample_evp_def split: option.splits)
  then show ?thesis
    using sample_cipher_block inv made[of _ _ _ True] made[of _ _ _ False False] made[of _ _ _ False True]
    by (simp add: evp_contract_def sample_out_def sample_fin_def sample_evp_def cong: if_cong)
qed

definition aes_key :: object where
  "aes_key =
    \<lparr>o_handle = 7, o_session = 1, o_class = CKO_SECRET_KEY, o_attributes =
      [from_ulong CKA_CLASS CKO_SECRET_KEY, from_ulong CKA_KEY_TYPE CKK_AES, from_bytes CKA_VALUE (replicate 16 3)],
     o_zeroize = True\<rparr>"

definition cbc_mechanism :: ck_mechanism where
  "cbc_mechanism = \<lparr>cm_mechanism = CKM_AES_CBC_PAD, cm_parameter = Ptr (replicate 16 1) [] True, cm_parameter_len = 16, cm_struct = OtherParams\<rparr>"

lemma aes_key_value: "get_attr_as_bytes CKA_VALUE aes_key = Ok (replicate 16 3)"
  by code_simp

abbreviation sample_rng :: "nat \<Rightarrow> bytes result" where
  "sample_rng \<equiv> \<lambda>_. Err CKR_GENERAL_ERROR"

lemma sample_new_ok: "is_ok (cipher_new sample_evp sample_rng enc cbc_mechanism aes_key)"
  by (cases enc) code_simp+

lemma sample_new: "\<exists>op. cipher_new sample_evp sample_rng enc cbc_mechanism aes_key = Ok op"
  using sample_new_ok[of enc] by (cases "cipher_new sample_evp sample_rng enc cbc_mechanism aes_key") simp_all

section \<open>The properties\<close>

text \<open>
  C20. The block modes (\<^verbatim>\<open>encrypt_update\<close> and \<^verbatim>\<open>encrypt_final\<close> of \<^verbatim>\<open>AesOperation\<close>) give the encryption of all
  the data, padded when the mode pads, in one call or in parts however they are cut; data that is not
  whole blocks is refused at the end when the mode does not pad. Every call has room for what it may
  output: a part for 15 bytes more than it has, the last call and the one call for a block more than all the
  data.
\<close>

theorem block_encryption_in_parts:
  assumes ev: "evp_contract ev E D" and op: "cipher_new ev rng True m key = Ok op"
    and m: "is_block_mode (cm_mechanism m)" and k: "get_attr_as_bytes CKA_VALUE key = Ok k"
    and ps: "roomy ps" "ps \<noteq> []" and n: "length (parts_data ps) + 16 \<le> n" "fits_c_int n"
  shows "fst (then_final (aes_encrypt_final ev) n (in_parts (aes_encrypt_update ev) ps op)) =
      block_result (mode_fn E m k) (cm_mechanism m = CKM_AES_CBC_PAD) (parts_data ps) \<and>
    fst (aes_encrypt ev (parts_data ps) n op) =
      block_result (mode_fn E m k) (cm_mechanism m = CKM_AES_CBC_PAD) (parts_data ps)"
proof (rule conjI)
  have "16 \<le> n" using n(1) by simp
  then show "fst (then_final (aes_encrypt_final ev) n (in_parts (aes_encrypt_update ev) ps op)) =
      block_result (mode_fn E m k) (cm_mechanism m = CKM_AES_CBC_PAD) (parts_data ps)"
    by (rule encryption_in_parts[OF ev op m k ps _ n(2)])
  show "fst (aes_encrypt ev (parts_data ps) n op) =
      block_result (mode_fn E m k) (cm_mechanism m = CKM_AES_CBC_PAD) (parts_data ps)"
    by (rule block_encryption_at_once[OF ev op m k n])
qed

theorem block_encryption_in_parts_witness:
  "\<exists>op. cipher_new sample_evp sample_rng True cbc_mechanism aes_key = Ok op \<and>
    fst (then_final (aes_encrypt_final sample_evp) 100
      (in_parts (aes_encrypt_update sample_evp) [([1, 2, 3], 20), (replicate 20 7, 40)] op)) =
    Ok (sample_cipher ([1, 2, 3] @ replicate 20 7 @ replicate 9 9))"
proof -
  obtain op where op: "cipher_new sample_evp sample_rng True cbc_mechanism aes_key = Ok op" using sample_new[of True] by blast
  have "pkcs7 ([1, 2, 3] @ replicate 20 7) = [1, 2, 3] @ replicate 20 7 @ replicate 9 9" by code_simp
  then show ?thesis
    using block_encryption_in_parts[OF sample_contract op _ aes_key_value, of "[([1, 2, 3], 20), (replicate 20 7, 40)]" 100] op
    by (simp add: cbc_mechanism_def is_block_mode_def roomy_def fits_c_int_def block_result_def mode_fn_def Let_def)
qed

text \<open>
  C21. The block modes decrypt what they encrypted (\<^verbatim>\<open>decrypt\<close> of \<^verbatim>\<open>AesOperation\<close>), without the padding when the
  mode pads; without padding also in parts however they are cut.
\<close>

theorem block_decryption_inverts:
  assumes ev: "evp_contract ev E D" and enc: "cipher_new ev rng True m key = Ok op"
    and dec: "cipher_new ev rng1 False m key = Ok op1" and m: "is_block_mode (cm_mechanism m)"
    and k: "get_attr_as_bytes CKA_VALUE key = Ok k" and n: "length d + 16 \<le> n" "fits_c_int n"
    and c: "fst (aes_encrypt ev d n op) = Ok c" and n1: "length c \<le> n1" "fits_c_int n1"
  shows "fst (aes_decrypt ev c n1 op1) = Ok d \<and>
    (cm_mechanism m \<noteq> CKM_AES_CBC_PAD \<and> parts_data ps = c \<and> roomy ps \<and> ps \<noteq> [] \<longrightarrow>
      fst (then_final (aes_decrypt_final ev) n1 (in_parts (aes_decrypt_update ev) ps op1)) = Ok d)"
proof (cases "cm_mechanism m = CKM_AES_CBC_PAD")
  case True
  have "c = mode_fn E m k (pkcs7 d)"
    using block_encryption_at_once[OF ev enc m k n] c True by (simp add: block_result_def)
  then show ?thesis using padded_decryption_at_once[OF ev dec True k _ n1] True by simp
next
  case False
  have d: "16 dvd length d" "c = mode_fn E m k d"
    using block_encryption_at_once[OF ev enc m k n] c False by (auto simp: block_result_def split: if_splits)
  note legal = cipher_new_legal[OF ev enc m k]
  have "16 dvd length c" using d mode_fn_contract(1)[OF ev legal] by (simp add: block_cipher_len)
  moreover have "mode_fn D m k c = d" unfolding d(2) by (rule mode_fn_contract(3)[OF ev legal d(1)])
  ultimately show ?thesis
    using block_decryption_at_once[OF ev dec m k n1 False] block_decryption_in_parts[OF ev dec m k _ _ False, of ps n1]
    by auto
qed

theorem block_decryption_inverts_witness:
  "\<exists>op op1 c. cipher_new sample_evp sample_rng True cbc_mechanism aes_key = Ok op \<and>
    cipher_new sample_evp sample_rng False cbc_mechanism aes_key = Ok op1 \<and>
    fst (aes_encrypt sample_evp [1, 2, 3] 19 op) = Ok c \<and> fst (aes_decrypt sample_evp c 16 op1) = Ok [1, 2, 3]"
proof -
  obtain op where op: "cipher_new sample_evp sample_rng True cbc_mechanism aes_key = Ok op" using sample_new[of True] by blast
  obtain op1 where op1: "cipher_new sample_evp sample_rng False cbc_mechanism aes_key = Ok op1" using sample_new[of False] by blast
  have m: "is_block_mode (cm_mechanism cbc_mechanism)" by (simp add: cbc_mechanism_def is_block_mode_def)
  have "pkcs7 [1, 2, 3] = [1, 2, 3] @ replicate 13 13" by code_simp
  then have c: "fst (aes_encrypt sample_evp [1, 2, 3] 19 op) = Ok (sample_cipher ([1, 2, 3] @ replicate 13 13))"
    using block_encryption_at_once[OF sample_contract op m aes_key_value, of "[1, 2, 3]" 19]
    by (simp add: cbc_mechanism_def fits_c_int_def block_result_def mode_fn_def Let_def)
  show ?thesis
    using block_decryption_inverts[OF sample_contract op op1 m aes_key_value, of "[1, 2, 3]" 19 _ 16] c op op1
    by (auto simp: fits_c_int_def sample_cipher_def)
qed

end
