(* ===== verification/Hkdf.thy ===== *)
theory Hkdf
  imports Secret_Keys
begin

text \<open>
  The derivation of \<^verbatim>\<open>CKM_HKDF_DERIVE\<close> and \<^verbatim>\<open>CKM_HKDF_DATA\<close>: \<^verbatim>\<open>src/src/ossl/hkdf.rs\<close>, with the HKDF of OpenSSL
  (\<^verbatim>\<open>HkdfDerive\<close>) as the argument \<open>kdf\<close>, and its mechanism \<^verbatim>\<open>src/src/hkdf.rs\<close>.
\<close>

section \<open>The operation\<close>

datatype hkdf_mode = ExtractAndExpand | ExtractOnly | ExpandOnly

text \<open>What OpenSSL is given: the function, the mode, the key, the salt, the info and the length of the output.\<close>

type_synonym hkdf_lib =
  "ck_ulong \<Rightarrow> hkdf_mode \<Rightarrow> bytes \<Rightarrow> bytes option \<Rightarrow> bytes option \<Rightarrow> nat \<Rightarrow> bytes result"

record hkdf_operation =
  hk_mech :: ck_ulong
  hk_finalized :: bool
  hk_mode :: hkdf_mode
  hk_prf :: ck_ulong
  hk_prflen :: nat
  hk_salt_type :: ck_ulong
  hk_salt_key :: ck_ulong
  hk_salt :: "bytes option"
  hk_info :: "bytes option"
  hk_emit_data_obj :: bool

definition hkdf_check_class :: "hkdf_operation \<Rightarrow> object \<Rightarrow> unit result" where
  "hkdf_check_class op key =
    (case get_attr_as_ulong CKA_CLASS key of
       Inl _ \<Rightarrow> Err CKR_KEY_HANDLE_INVALID
     | Inr c \<Rightarrow>
       if c = CKO_SECRET_KEY then
         (case get_attr_as_ulong CKA_KEY_TYPE key of
            Inl _ \<Rightarrow> Err CKR_KEY_TYPE_INCONSISTENT
          | Inr kt \<Rightarrow>
            if kt = CKK_GENERIC_SECRET \<or> kt = CKK_HKDF
            then check_key_ops CKO_SECRET_KEY CK_UNAVAILABLE_INFORMATION CKA_DERIVE key
            else Err CKR_KEY_TYPE_INCONSISTENT)
       else if c = CKO_DATA then
         if hk_mode op = ExpandOnly \<or> hk_salt_type op = CKF_HKDF_SALT_NULL \<or> hk_salt op = None
         then Err CKR_MECHANISM_PARAM_INVALID else Ok ()
       else Err CKR_KEY_HANDLE_INVALID)"

text \<open>Only a length of zero is refused, not one that is less than \<open>matchlen\<close>.\<close>

definition hkdf_verify_key :: "hkdf_operation \<Rightarrow> object \<Rightarrow> nat \<Rightarrow> unit result" where
  "hkdf_verify_key op key matchlen =
    and_then (hkdf_check_class op key) (\<lambda>_.
      if matchlen > 0 then
        let keylen =
          (case get_attr_as_ulong CKA_VALUE_LEN key of
             Inr len \<Rightarrow> unat len
           | Inl _ \<Rightarrow> (case get_attr_as_bytes CKA_VALUE key of Inr v \<Rightarrow> length v | Inl _ \<Rightarrow> 0)) in
        if keylen = 0 then Err CKR_KEY_SIZE_RANGE else Ok ()
      else Ok ())"

definition hkdf_salt_of :: "ck_hkdf_params \<Rightarrow> nat \<Rightarrow> bytes option result" where
  "hkdf_salt_of p hmaclen =
    (if hk_ulSaltType p = CKF_HKDF_SALT_NULL then
       if hk_ulSaltLen p > 0 \<or> \<not> is_null (hk_pSalt p) then Err CKR_MECHANISM_PARAM_INVALID
       else Ok (Some (replicate hmaclen 0))
     else if hk_ulSaltType p = CKF_HKDF_SALT_DATA then
       if hk_ulSaltLen p = 0 \<or> is_null (hk_pSalt p) then Err CKR_MECHANISM_PARAM_INVALID
       else Ok (Some (bytes_to_vec (hk_pSalt p) (unat (hk_ulSaltLen p))))
     else if hk_ulSaltType p = CKF_HKDF_SALT_KEY then Ok None
     else if hk_bExtract p \<noteq> CK_FALSE then Err CKR_MECHANISM_PARAM_INVALID
     else Ok None)"

text \<open>A flag that is neither \<^verbatim>\<open>CK_TRUE\<close> nor \<^verbatim>\<open>CK_FALSE\<close> passes the checks and does not extract, or not expand.\<close>

definition hkdf_mode_of :: "ck_hkdf_params \<Rightarrow> hkdf_mode" where
  "hkdf_mode_of p =
    (if hk_bExtract p = CK_TRUE then (if hk_bExpand p = CK_TRUE then ExtractAndExpand else ExtractOnly)
     else ExpandOnly)"

definition hkdf_new :: "ck_mechanism \<Rightarrow> hkdf_operation result" where
  "hkdf_new m =
    and_then (get_parameters 64 hkdf_struct m) (\<lambda>p.
    if hk_bExtract p = CK_FALSE \<and> hk_bExpand p = CK_FALSE then Err CKR_MECHANISM_PARAM_INVALID
    else if hk_bExtract p \<noteq> CK_FALSE \<and> hk_ulSaltLen p > 0 \<and> is_null (hk_pSalt p) then Err CKR_MECHANISM_PARAM_INVALID
    else if hk_bExpand p \<noteq> CK_FALSE \<and> hk_ulInfoLen p > 0 \<and> is_null (hk_pInfo p) then Err CKR_MECHANISM_PARAM_INVALID
    else let hmaclen = hmac_size (hk_prfHashMechanism p) in
    if hmaclen = INVALID_HASH_SIZE then Err CKR_MECHANISM_PARAM_INVALID
    else and_then (hkdf_salt_of p hmaclen) (\<lambda>salt.
      Ok \<lparr>hk_mech = cm_mechanism m, hk_finalized = False, hk_mode = hkdf_mode_of p,
         hk_prf = hk_prfHashMechanism p, hk_prflen = hmaclen, hk_salt_type = hk_ulSaltType p,
         hk_salt_key = hk_hSaltKey p, hk_salt = salt,
         hk_info = (if hk_ulInfoLen p > 0 then Some (bytes_to_vec (hk_pInfo p) (unat (hk_ulInfoLen p))) else None),
         hk_emit_data_obj = (cm_mechanism m = CKM_HKDF_DATA)\<rparr>))"

text \<open>The answer without objects is the error \<^verbatim>\<open>CKR_OK\<close>.\<close>

definition hkdf_requires_objects :: "hkdf_operation \<Rightarrow> ck_ulong list result" where
  "hkdf_requires_objects op =
    (if hk_salt_type op = CKF_HKDF_SALT_KEY then Ok [hk_salt_key op] else Err CKR_OK)"

definition hkdf_receives_objects :: "object list \<Rightarrow> hkdf_operation \<Rightarrow> unit result \<times> hkdf_operation" where
  "hkdf_receives_objects objs op =
    (case objs of
       [o1] \<Rightarrow>
         (case hkdf_verify_key op o1 0 of
            Inl e \<Rightarrow> (Inl e, op)
          | Inr _ \<Rightarrow>
            (case get_attr_as_bytes CKA_VALUE o1 of
               Inr salt \<Rightarrow> (Ok (), op\<lparr>hk_salt := Some salt\<rparr>)
             | Inl _ \<Rightarrow> (Err CKR_KEY_HANDLE_INVALID, op)))
     | _ \<Rightarrow> (Err CKR_GENERAL_ERROR, op))"

text \<open>\<^verbatim>\<open>mech_type_to_digest_alg\<close> knows the hashes and their MACs, which are those that have a size.\<close>

definition hkdf_object ::
    "factories \<Rightarrow> bytes \<Rightarrow> object \<Rightarrow> ck_attrs \<Rightarrow> hkdf_operation \<Rightarrow> (object \<times> nat) result" where
  "hkdf_object fs uuid key template op =
    (if hk_emit_data_obj op then common_derive_data_object fs uuid template (hk_prflen op)
     else common_derive_key_object fs uuid key template (hk_prflen op))"

definition hkdf_op_derive ::
    "hkdf_lib \<Rightarrow> bytes \<Rightarrow> factories \<Rightarrow> object \<Rightarrow> ck_attrs \<Rightarrow> hkdf_operation \<Rightarrow>
      object list result \<times> hkdf_operation" where
  "hkdf_op_derive kdf uuid fs key template op =
    (if hk_finalized op then (Err CKR_OPERATION_NOT_INITIALIZED, op)
     else
       (and_then (hkdf_verify_key op key (hk_prflen op)) (\<lambda>_.
        if hk_salt op = None \<and> hk_mode op \<noteq> ExpandOnly then
          Err (if hk_salt_type op = CKF_HKDF_SALT_KEY then CKR_GENERAL_ERROR else CKR_MECHANISM_PARAM_INVALID)
        else and_then (hkdf_object fs uuid key template op) (\<lambda>(obj, keysize).
        if hk_mode op = ExtractOnly \<and> keysize \<noteq> hk_prflen op then Err CKR_TEMPLATE_INCONSISTENT
        else if keysize = 0 \<or> keysize > 2 ^ 32 - 1 then Err CKR_KEY_SIZE_RANGE
        else and_then (get_attr_as_bytes CKA_VALUE key) (\<lambda>v.
        and_then (kdf (hk_prf op) (hk_mode op) v (hk_salt op) (hk_info op) keysize) (\<lambda>dkm.
        and_then (set_attr (from_bytes CKA_VALUE dkm) obj) (\<lambda>o1. Ok [o1]))))),
        op\<lparr>hk_finalized := True\<rparr>))"

section \<open>The mechanism\<close>

definition HKDF_MECH :: ck_mechanism_info where
  "HKDF_MECH = \<lparr>ulMinKeySize = 0, ulMaxKeySize = 0xFFFFFFFF, mi_flags = CKF_DERIVE\<rparr>"

definition register_hkdf :: "mechanisms \<Rightarrow> mechanisms" where
  "register_hkdf mechs =
    add_mechanism CKM_HKDF_DATA HKDF_MECH (add_mechanism CKM_HKDF_DERIVE HKDF_MECH mechs)"

definition hkdf_derive_operation :: "ck_mechanism_info \<Rightarrow> ck_mechanism \<Rightarrow> hkdf_operation result" where
  "hkdf_derive_operation info m =
    (if mi_flags info AND CKF_DERIVE \<noteq> CKF_DERIVE then Err CKR_MECHANISM_INVALID
     else if cm_mechanism m = CKM_HKDF_DERIVE \<or> cm_mechanism m = CKM_HKDF_DATA then hkdf_new m
     else Err CKR_MECHANISM_INVALID)"

end
