(* ===== verification/Storage_Crypto.thy ===== *)
theory Storage_Crypto
  imports Hkdf Pbkdf2
begin

text \<open>
  The mechanisms that the storage uses, as \<^verbatim>\<open>src/src/storage/aci.rs\<close> calls them: PBKDF2 for the key of a PIN,
  HKDF for the key of a stored value, and the generation of the master key. They are those of the library,
  with its factories; AES-GCM, the random generator and the DER codec remain what the record \<open>crypto\<close> has.
\<close>

text \<open>\<^verbatim>\<open>pbkdf2_derive\<close>.\<close>

definition storage_pbkdf2_mechanism :: "bytes \<Rightarrow> ck_ulong \<Rightarrow> u64 \<Rightarrow> ck_ulong \<Rightarrow> bytes \<Rightarrow> ck_ulong \<Rightarrow> ck_mechanism" where
  "storage_pbkdf2_mechanism salt saltlen iterations prf secret secretlen =
    \<lparr>cm_mechanism = CKM_PKCS5_PBKD2, cm_parameter = Ptr [] [] True, cm_parameter_len = 72,
     cm_struct = Pbkd2Params
       \<lparr>pb_saltSource = CKZ_SALT_SPECIFIED, pb_pSaltSourceData = Ptr salt [] True, pb_ulSaltSourceDataLen = saltlen,
        pb_iterations = iterations, pb_prf = prf, pb_prf_data_null = True, pb_ulPrfDataLen = 0,
        pb_pPassword = Ptr secret [] True, pb_ulPasswordLen = secretlen\<rparr>\<rparr>"

definition storage_pbkdf2 ::
    "(ck_ulong \<Rightarrow> mech_ops) \<Rightarrow> bytes \<Rightarrow> mechanisms \<Rightarrow> factories \<Rightarrow>
      bytes \<Rightarrow> u64 \<Rightarrow> ck_ulong \<Rightarrow> bytes \<Rightarrow> ck_attrs \<Rightarrow> object result" where
  "storage_pbkdf2 mops uuid mechs fs salt iterations prf secret template =
    and_then (mechs_find CKM_PKCS5_PBKD2 mechs) (\<lambda>info.
    and_then (ulong_try_from (length salt)) (\<lambda>saltlen.
    and_then (ulong_try_from (length secret)) (\<lambda>secretlen.
      pbkdf2_generate_key mops uuid info
        (storage_pbkdf2_mechanism salt saltlen iterations prf secret secretlen) template mechs fs)))"

text \<open>\<^verbatim>\<open>hkdf_expand\<close>: no extraction, SHA-256, no salt, and the name of the value as the info.\<close>

definition storage_hkdf_mechanism :: "bytes \<Rightarrow> ck_mechanism" where
  "storage_hkdf_mechanism info =
    \<lparr>cm_mechanism = CKM_HKDF_DERIVE, cm_parameter = Ptr [] [] True, cm_parameter_len = 64,
     cm_struct = HkdfParams
       \<lparr>hk_bExtract = CK_FALSE, hk_bExpand = CK_TRUE, hk_prfHashMechanism = CKM_SHA256,
        hk_ulSaltType = CKF_HKDF_SALT_NULL, hk_pSalt = NullPtr, hk_ulSaltLen = 0, hk_hSaltKey = CK_INVALID_HANDLE,
        hk_pInfo = Ptr info [] True, hk_ulInfoLen = of_nat (length info)\<rparr>\<rparr>"

definition storage_hkdf ::
    "hkdf_lib \<Rightarrow> bytes \<Rightarrow> mechanisms \<Rightarrow> factories \<Rightarrow> bytes \<Rightarrow> object \<Rightarrow> ck_attrs \<Rightarrow> object list result" where
  "storage_hkdf kdf uuid mechs fs info key template =
    and_then (mechs_find CKM_HKDF_DERIVE mechs) (\<lambda>mi.
    and_then (hkdf_derive_operation mi (storage_hkdf_mechanism info)) (\<lambda>op.
      fst (hkdf_op_derive kdf uuid fs key template op)))"

text \<open>The master key of \<^verbatim>\<open>reset\<close>; the mechanism is always registered (\<^verbatim>\<open>object/factory.rs\<close>).\<close>

definition storage_key_gen :: "(nat \<Rightarrow> bytes result) \<Rightarrow> bytes \<Rightarrow> ck_attrs \<Rightarrow> object result" where
  "storage_key_gen rng uuid =
    generic_secret_generate_key rng uuid CKK_GENERIC_SECRET CKM_GENERIC_SECRET_KEY_GEN"

definition library_crypto ::
    "(ck_ulong \<Rightarrow> mech_ops) \<Rightarrow> hkdf_lib \<Rightarrow> mechanisms \<Rightarrow> factories \<Rightarrow> crypto \<Rightarrow> crypto" where
  "library_crypto mops kdf mechs fs cr =
    cr\<lparr>pbkdf2_generate := storage_pbkdf2 mops (master_uuid cr) mechs fs,
       hkdf_derive := storage_hkdf kdf (master_uuid cr) mechs fs,
       secret_key_gen := storage_key_gen (generate_random cr) (master_uuid cr)\<rparr>"

end
