(* ===== verification/Login_Laws.thy ===== *)
theory Login_Laws
  imports Storage_Crypto Keymgmt_Laws
begin

text \<open>
  What the encryption of \<^verbatim>\<open>src/src/storage/aci.rs\<close> guarantees: values and wrapped keys decrypt to what was
  encrypted, and a login restores the key under which the stored values were encrypted.
\<close>

section \<open>What is assumed of the cryptography\<close>

text \<open>An AES key object with which the library encrypts and decrypts, and its value.\<close>

definition aes_usable :: "object \<Rightarrow> bytes \<Rightarrow> bool" where
  "aes_usable k w \<longleftrightarrow>
    check_key_ops CKO_SECRET_KEY CKK_AES CKA_ENCRYPT k = Ok () \<and>
    check_key_ops CKO_SECRET_KEY CKK_AES CKA_DECRYPT k = Ok () \<and> get_attr_as_bytes CKA_VALUE k = Ok w"

text \<open>
  AES-GCM decrypts what it encrypted with the same key value and associated data, and the DER parser
  reads what the writer wrote.
\<close>

definition crypto_laws :: "crypto \<Rightarrow> bool" where
  "crypto_laws cr \<longleftrightarrow>
    (\<forall>k k' w aad d gcm e. aes_usable k w \<and> aes_usable k' w \<and> aes_gcm_encrypt cr k aad d = Ok (gcm, e) \<longrightarrow>
      aes_gcm_decrypt cr k' gcm aad e = Ok d) \<and>
    (\<forall>alg d der. write_protected cr alg d = Some der \<longrightarrow> parse_protected cr der = Some (alg, d))"

lemma gcm_roundtrip:
  "crypto_laws cr \<Longrightarrow> aes_usable k w \<Longrightarrow> aes_usable k' w \<Longrightarrow> aes_gcm_encrypt cr k aad d = Ok (gcm, e) \<Longrightarrow>
    aes_gcm_decrypt cr k' gcm aad e = Ok d"
  unfolding crypto_laws_def by blast

lemma der_roundtrip:
  "crypto_laws cr \<Longrightarrow> write_or_fail cr alg d = Ok der \<Longrightarrow> parse_protected cr der = Some (alg, d)"
  by (auto simp: crypto_laws_def write_or_fail_def split: option.splits)

text \<open>The factories through which the storage makes its keys.\<close>

definition has_storage_keys :: "factories \<Rightarrow> bool" where
  "has_storage_keys fs \<longleftrightarrow>
    get_factory fs CKO_SECRET_KEY CKK_GENERIC_SECRET = Ok (generic_secret_factory 0) \<and>
    get_factory fs CKO_SECRET_KEY CKK_AES = Ok aes_factory"

section \<open>The keys of AES\<close>

abbreviation dek_template :: ck_attrs where
  "dek_template \<equiv> secret_key_template CKK_AES AES_KEYLEN"

lemma dek_template: "dek_template =
   [ck_attr_of CKA_CLASS (u64_to_le CKO_SECRET_KEY), ck_attr_of CKA_KEY_TYPE (u64_to_le CKK_AES),
    ck_attr_of CKA_VALUE_LEN (u64_to_le AES_KEYLEN), ck_attr_of CKA_DECRYPT [1], ck_attr_of CKA_ENCRYPT [1]]"
  by (simp add: secret_key_template_def add_ulong_def add_bool_def Let_def)

lemma find_oattr_aes:
  assumes "t \<in> {CKA_KEY_TYPE, CKA_VALUE_LEN, CKA_DECRYPT, CKA_ENCRYPT, CKA_VALUE}"
  obtains fa where "find_oattr aes_data t = Some fa" and "\<not> oa_is fa Ignored"
proof -
  have "list_all (\<lambda>t. case find_oattr aes_data t of Some fa \<Rightarrow> \<not> oa_is fa Ignored | None \<Rightarrow> False)
      [CKA_KEY_TYPE, CKA_VALUE_LEN, CKA_DECRYPT, CKA_ENCRYPT, CKA_VALUE]"
    by code_simp
  then show ?thesis using assms that by (auto split: option.splits)
qed

lemma fd_class_aes [simp]: "fd_class aes_data = CKO_SECRET_KEY"
  by (simp add: aes_data_def finalize_data_def new_factory_data_def)

lemma search_by_id_crypt:
  "search_by_id CKA_DECRYPT = Some (attrmap_element CKA_DECRYPT ''CKA_DECRYPT'' BoolType)"
  "search_by_id CKA_ENCRYPT = Some (attrmap_element CKA_ENCRYPT ''CKA_ENCRYPT'' BoolType)"
  by (simp_all add: search_by_id_find ATTRMAP_def)

lemma from_ck_attr_crypt:
  "from_ck_attr (ck_attr_of CKA_DECRYPT [b]) = Ok (from_bool CKA_DECRYPT (b \<noteq> 0))"
  "from_ck_attr (ck_attr_of CKA_ENCRYPT [b]) = Ok (from_bool CKA_ENCRYPT (b \<noteq> 0))"
  by (subst from_ck_attr.simps, simp add: search_by_id_crypt ck_to_bool_def)+

text \<open>The template of the storage reaches the object.\<close>

definition takes_dek_template :: "object \<Rightarrow> bool" where
  "takes_dek_template k \<longleftrightarrow>
    get_attr CKA_KEY_TYPE k = Some (from_ulong CKA_KEY_TYPE CKK_AES) \<and>
    get_attr CKA_VALUE_LEN k = Some (from_ulong CKA_VALUE_LEN AES_KEYLEN) \<and>
    get_attr CKA_DECRYPT k = Some (from_bool CKA_DECRYPT True) \<and>
    get_attr CKA_ENCRYPT k = Some (from_bool CKA_ENCRYPT True)"

lemma dek_template_reaches:
  assumes "\<And>a. a \<in> set dek_template \<Longrightarrow> attr_type a \<noteq> CKA_CLASS \<Longrightarrow>
    \<exists>x. from_ck_attr a = Ok x \<and> get_attr (attr_type a) k = Some x"
  shows "takes_dek_template k"
proof -
  have "\<exists>x. from_ck_attr a = Ok x \<and> get_attr (attr_type a) k = Some x"
    if "a \<in> {ck_attr_of CKA_KEY_TYPE (u64_to_le CKK_AES), ck_attr_of CKA_VALUE_LEN (u64_to_le AES_KEYLEN),
      ck_attr_of CKA_DECRYPT [1], ck_attr_of CKA_ENCRYPT [1]}" for a
    using that by (intro assms) (auto simp: dek_template)
  note this[of "ck_attr_of CKA_KEY_TYPE (u64_to_le CKK_AES)"] this[of "ck_attr_of CKA_VALUE_LEN (u64_to_le AES_KEYLEN)"]
    this[of "ck_attr_of CKA_DECRYPT [1]"] this[of "ck_attr_of CKA_ENCRYPT [1]"]
  then show ?thesis by (simp add: takes_dek_template_def from_ck_attr_key from_ck_attr_crypt)
qed

lemma usable_from_template:
  assumes "takes_dek_template k" and "get_attr_as_ulong CKA_CLASS k = Ok CKO_SECRET_KEY"
    and "get_attr_as_bytes CKA_VALUE k = Ok w"
  shows "aes_usable k w"
  using assms
  by (simp add: aes_usable_def takes_dek_template_def check_key_ops_def attr_as_defs from_ulong_def from_bool_def
      mk_attribute_def to_ulong_def to_bool_def le64.dec_enc)

text \<open>The class of an object is its first attribute.\<close>

abbreviation class_attr :: "object \<Rightarrow> ck_ulong \<Rightarrow> bool" where
  "class_attr k c \<equiv> get_attr CKA_CLASS k = Some (from_ulong CKA_CLASS c)"

lemma class_attr_get: "class_attr k c \<Longrightarrow> get_attr_as_ulong CKA_CLASS k = Ok c"
  by (simp add: attr_as_defs from_ulong_def mk_attribute_def to_ulong_def le64.dec_enc)

lemma created_class:
  assumes "internal_object_create fd template un req = Ok k"
  shows "class_attr k (fd_class fd)"
proof -
  have step: "class_attr o2 c" if "create_step fd un o1 a = Ok o2" "class_attr o1 c" for o1 a o2 c
    using that(1) by (cases rule: create_stepE) (use that(2) in \<open>auto simp: get_attr_push\<close>)
  have taken: "class_attr o2 c" if "try_fold (create_step fd un) o1 as = Ok o2" "class_attr o1 c" for as o1 o2 c
    using that by (induction as arbitrary: o1) (auto simp: and_then_eq_Ok intro: step)
  have dflt: "class_attr o2 c" if "default_step req o1 fa = Ok o2" "class_attr o1 c" for o1 fa o2 c
    using that(1) by (cases rule: default_stepE) (use that(2) in \<open>auto simp: get_attr_push\<close>)
  have added: "class_attr o2 c" if "try_fold (default_step req) o1 fas = Ok o2" "class_attr o1 c" for fas o1 o2 c
    using that by (induction fas arbitrary: o1) (auto simp: and_then_eq_Ok intro: dflt)
  have "class_attr (new_object (fd_class fd)) (fd_class fd)" by (simp add: get_attr_new_object)
  then show ?thesis
    using assms taken added by (auto simp: internal_object_create_def and_then_eq_Ok)
qed

lemma internal_key_create_class:
  assumes "internal_key_create fd uuid template un req = Ok k"
  shows "class_attr k (fd_class fd)"
proof -
  obtain o0 where "internal_object_create fd template un req = Ok o0" "k = generate_unique uuid o0"
    by (rule internal_key_createE[OF assms])
  then show ?thesis using created_class get_attr_unique_other[of CKA_CLASS uuid o0] by simp
qed

lemma key_create_class:
  assumes "key_create fd uuid template = Ok k"
  shows "class_attr k (fd_class fd)"
proof -
  obtain o0 where o0: "internal_key_create fd uuid template NeverSettable RequiredOnCreate = Ok o0"
      "get_attr CKA_CLASS k = get_attr CKA_CLASS o0"
    using assms by (auto simp: key_create_def and_then_eq_Ok get_attr_set split: if_splits)
  then show ?thesis using internal_key_create_class by simp
qed

lemma internal_key_derive_frame:
  assumes "internal_key_derive fd uuid tmpl origin = Ok k"
  obtains full o0 where "internal_key_create fd uuid full (SettableOnlyOnCreate OR NeverSettable) AlwaysRequired = Ok o0"
    and "\<And>t. t \<notin> {CKA_LOCAL, CKA_ALWAYS_SENSITIVE, CKA_NEVER_EXTRACTABLE} \<Longrightarrow> get_attr t k = get_attr t o0"
proof -
  obtain full o0 o1 o2 where steps:
      "internal_key_create fd uuid full (SettableOnlyOnCreate OR NeverSettable) AlwaysRequired = Ok o0"
      "set_attr (from_bool CKA_LOCAL False) o0 = Ok o1" "derive_always_sensitive origin o1 = Ok o2"
      "derive_never_extractable origin o2 = Ok k"
    using assms by (auto simp: internal_key_derive_def and_then_eq_Ok)
  obtain b1 b2 where "set_attr (from_bool CKA_ALWAYS_SENSITIVE b1) o1 = Ok o2"
      "set_attr (from_bool CKA_NEVER_EXTRACTABLE b2) o2 = Ok k"
    using steps(3,4) by (auto simp: derive_always_sensitive_def derive_never_extractable_def split: sum.splits if_splits)
  then show ?thesis
    using steps(1,2) by (intro that[OF steps(1)]) (simp add: get_attr_set from_bool_def mk_attribute_def)
qed

section \<open>The key of a stored value\<close>

text \<open>What the storage asks of OpenSSL for a value of the name \<open>info\<close> and a master key of the value \<open>v\<close>.\<close>

definition storage_info :: "bytes \<Rightarrow> bytes option" where
  "storage_info info =
    (if (of_nat (length info) :: ck_ulong) > 0
     then Some (bytes_to_vec (Ptr info [] True) (unat (of_nat (length info) :: ck_ulong))) else None)"

definition storage_okm :: "hkdf_lib \<Rightarrow> bytes \<Rightarrow> bytes \<Rightarrow> bytes result" where
  "storage_okm kdf info v = kdf CKM_SHA256 ExpandOnly v (Some (replicate 32 0)) (storage_info info) 32"

definition storage_hkdf_operation :: "bytes \<Rightarrow> hkdf_operation" where
  "storage_hkdf_operation info =
    \<lparr>hk_mech = CKM_HKDF_DERIVE, hk_finalized = False, hk_mode = ExpandOnly, hk_prf = CKM_SHA256, hk_prflen = 32,
     hk_salt_type = CKF_HKDF_SALT_NULL, hk_salt_key = CK_INVALID_HANDLE, hk_salt = Some (replicate 32 0),
     hk_info = storage_info info, hk_emit_data_obj = False\<rparr>"

lemma hmac_size_SHA256: "hmac_size CKM_SHA256 = 32"
  by (simp add: hmac_size_def HASH_MECH_SET_def)

lemma storage_hkdf_new:
  "hkdf_derive_operation mi (storage_hkdf_mechanism info) =
    (if mi_flags mi AND CKF_DERIVE \<noteq> CKF_DERIVE then Err CKR_MECHANISM_INVALID else Ok (storage_hkdf_operation info))"
  by (simp add: hkdf_derive_operation_def storage_hkdf_mechanism_def hkdf_new_def get_parameters_def hmac_size_SHA256
      hkdf_salt_of_def hkdf_mode_of_def storage_hkdf_operation_def storage_info_def INVALID_HASH_SIZE_def)

lemma dek_factory:
  assumes "has_storage_keys fs"
  shows "get_obj_factory_from_key_template fs dek_template = Ok aes_factory"
    and "get_obj_factory_from_key_template fs (dek_template @ r) = Ok aes_factory"
    and "add_missing_ulong CKA_CLASS CKO_SECRET_KEY dek_template = dek_template"
  using assms
  by (simp_all add: dek_template has_storage_keys_def get_obj_factory_from_key_template_def ck_to_ulong_def ck_attr_of_def
      le64.dec_enc le64.length_enc add_missing_ulong_def find_attr_def)

text \<open>What HKDF asks of the key does not depend on the name of the value.\<close>

definition storage_verify :: "object \<Rightarrow> unit result" where
  "storage_verify k = hkdf_verify_key (storage_hkdf_operation []) k 32"

lemma hkdf_accepts: "hkdf_verify_key (storage_hkdf_operation info) k 32 = storage_verify k"
  by (simp add: storage_verify_def hkdf_verify_key_def hkdf_check_class_def storage_hkdf_operation_def)

lemma storage_hkdf_eq:
  assumes "has_storage_keys fs"
  shows "storage_hkdf kdf uuid mechs fs info k dek_template =
    and_then (mechs_find CKM_HKDF_DERIVE mechs) (\<lambda>mi.
    if mi_flags mi AND CKF_DERIVE \<noteq> CKF_DERIVE then Err CKR_MECHANISM_INVALID
    else and_then (storage_verify k) (\<lambda>_.
      and_then (and_then (aes_key_derive uuid dek_template k) (derived_len 32)) (\<lambda>(obj, keysize).
      if keysize = 0 \<or> keysize > 2 ^ 32 - 1 then Err CKR_KEY_SIZE_RANGE
      else and_then (get_attr_as_bytes CKA_VALUE k) (\<lambda>v.
        and_then (kdf CKM_SHA256 ExpandOnly v (Some (replicate 32 0)) (storage_info info) keysize) (\<lambda>dkm.
        and_then (set_attr (from_bytes CKA_VALUE dkm) obj) (\<lambda>o1. Ok [o1]))))))"
proof -
  have f: "f_key_derive aes_factory = Some aes_key_derive" by (simp add: aes_factory_def)
  have sel: "hk_finalized (storage_hkdf_operation info) = False" "hk_mode (storage_hkdf_operation info) = ExpandOnly"
      "hk_prf (storage_hkdf_operation info) = CKM_SHA256" "hk_prflen (storage_hkdf_operation info) = 32"
      "hk_salt (storage_hkdf_operation info) = Some (replicate 32 0)"
      "hk_info (storage_hkdf_operation info) = storage_info info" "hk_emit_data_obj (storage_hkdf_operation info) = False"
    by (simp_all add: storage_hkdf_operation_def)
  show ?thesis
    by (cases "mechs_find CKM_HKDF_DERIVE mechs")
      (simp_all add: storage_hkdf_def storage_hkdf_new hkdf_op_derive_def sel hkdf_accepts hkdf_object_def
        common_derive_key_object_def derive_key_from_template_def dek_factory[OF assms] f del: replicate.simps cong: if_cong)
qed

text \<open>A stored template is shorter than the address space.\<close>

definition short_templates :: "object \<Rightarrow> bool" where
  "short_templates k \<longleftrightarrow> (\<forall>dt. get_attr CKA_DERIVE_TEMPLATE k = Some dt \<longrightarrow> length (val dt) < usize_range)"

lemma derived_takes:
  assumes d: "internal_key_derive aes_data uuid dek_template k = Ok k0" and "short_templates k"
  shows "takes_dek_template k0"
proof (rule dek_template_reaches)
  fix a
  assume a: "a \<in> set dek_template" "attr_type a \<noteq> CKA_CLASS"
  then have "attr_type a \<in> {CKA_KEY_TYPE, CKA_VALUE_LEN, CKA_DECRYPT, CKA_ENCRYPT, CKA_VALUE}"
    by (auto simp: dek_template)
  then obtain fa where "find_oattr aes_data (attr_type a) = Some fa" "\<not> oa_is fa Ignored" by (rule find_oattr_aes)
  then show "\<exists>x. from_ck_attr a = Ok x \<and> get_attr (attr_type a) k0 = Some x"
    using a assms(2) by (intro derived_attribute[OF d a(1)]) (auto simp: short_templates_def dek_template)
qed

lemma aes_derived:
  assumes "aes_key_derive uuid dek_template k = Ok k0" and "short_templates k"
  shows "takes_dek_template k0" and "class_attr k0 CKO_SECRET_KEY"
proof -
  have d: "internal_key_derive aes_data uuid dek_template k = Ok k0"
    using assms(1) by (auto simp: aes_key_derive_def and_then_eq_Ok split: if_split_asm)
  show "takes_dek_template k0" by (rule derived_takes[OF d assms(2)])
  obtain full o0 where "internal_key_create aes_data uuid full (SettableOnlyOnCreate OR NeverSettable) AlwaysRequired = Ok o0"
      "get_attr CKA_CLASS k0 = get_attr CKA_CLASS o0"
    by (rule internal_key_derive_frame[OF d]) auto
  then show "class_attr k0 CKO_SECRET_KEY" using internal_key_create_class by fastforce
qed

lemma taken_len: "takes_dek_template k0 \<Longrightarrow> get_attr_as_ulong CKA_VALUE_LEN k0 = Ok 32"
  by (simp add: takes_dek_template_def attr_as_defs from_ulong_def mk_attribute_def to_ulong_def le64.dec_enc AES_KEYLEN_def)

lemma valued_usable:
  assumes "takes_dek_template k0" and "class_attr k0 CKO_SECRET_KEY" and "set_attr (from_bytes CKA_VALUE w) k0 = Ok k1"
  shows "aes_usable k1 w"
proof (rule usable_from_template)
  have keep: "get_attr t k1 = get_attr t k0" if "t \<noteq> CKA_VALUE" for t
    using that assms(3) by (simp add: get_attr_set from_bytes_def mk_attribute_def)
  show "takes_dek_template k1" using assms(1) by (simp add: takes_dek_template_def keep)
  show "get_attr_as_ulong CKA_CLASS k1 = Ok CKO_SECRET_KEY" using assms(2) by (intro class_attr_get) (simp add: keep)
  show "get_attr_as_bytes CKA_VALUE k1 = Ok w" using get_bytes_set[OF assms(3)] by simp
qed

lemma storage_hkdf_usable:
  assumes "has_storage_keys fs" and "storage_hkdf kdf uuid mechs fs info k dek_template = Ok os" and "short_templates k"
  obtains o1 v w where "os = [o1]" and "get_attr_as_bytes CKA_VALUE k = Ok v" and "storage_okm kdf info v = Ok w"
    and "aes_usable o1 w"
proof -
  obtain k0 obj keysize v dkm o1 where s: "aes_key_derive uuid dek_template k = Ok k0" "derived_len 32 k0 = Ok (obj, keysize)"
      "get_attr_as_bytes CKA_VALUE k = Ok v"
      "kdf CKM_SHA256 ExpandOnly v (Some (replicate 32 0)) (storage_info info) keysize = Ok dkm"
      "set_attr (from_bytes CKA_VALUE dkm) obj = Ok o1" "os = [o1]"
    using assms(2) unfolding storage_hkdf_eq[OF assms(1)]
    by (auto simp: and_then_eq_Ok simp del: replicate.simps split: if_split_asm)
  note k0 = aes_derived[OF s(1) assms(3)]
  have len: "obj = k0" "keysize = 32" using s(2) taken_len[OF k0(1)] by (simp_all add: derived_len_def)
  show ?thesis
    using s(4,5) valued_usable[OF k0, of dkm o1] unfolding len
    by (intro that[OF s(6) s(3), of dkm]) (simp_all add: storage_okm_def del: replicate.simps)
qed

text \<open>Deriving from a key that has no stored template succeeds.\<close>

lemma set_bool_is_ok: "t \<noteq> CKA_CLASS \<Longrightarrow> is_ok (set_attr (from_bool t b) k)"
  using set_attr_is_ok[of "from_bool t b" k] by simp

lemma aes_derive_ok:
  assumes "get_attr CKA_DERIVE_TEMPLATE k = None"
  shows "is_ok (aes_key_derive uuid dek_template k)"
proof -
  have "is_ok (internal_object_create aes_data dek_template (SettableOnlyOnCreate OR NeverSettable) AlwaysRequired)"
    by code_simp
  then obtain oc where "internal_object_create aes_data dek_template (SettableOnlyOnCreate OR NeverSettable) AlwaysRequired = Ok oc"
    by (auto simp: is_ok_iff)
  then have c: "internal_key_create aes_data uuid dek_template (SettableOnlyOnCreate OR NeverSettable) AlwaysRequired =
      Ok (generate_unique uuid oc)"
    by (simp add: internal_key_create_def)
  have sens: "is_ok (derive_always_sensitive k o1)" for o1
    by (simp add: derive_always_sensitive_def set_bool_is_ok split: sum.split)
  have extr: "is_ok (derive_never_extractable k o1)" for o1
    by (simp add: derive_never_extractable_def set_bool_is_ok split: sum.split)
  obtain o1 o2 o3 where "set_attr (from_bool CKA_LOCAL False) (generate_unique uuid oc) = Ok o1"
      "derive_always_sensitive k o1 = Ok o2" "derive_never_extractable k o2 = Ok o3"
    using set_bool_is_ok[of CKA_LOCAL False "generate_unique uuid oc"] sens extr by (auto simp: is_ok_iff) metis
  then have d: "internal_key_derive aes_data uuid dek_template k = Ok o3"
    using assms c by (simp add: internal_key_derive_def)
  moreover have "short_templates k" using assms by (simp add: short_templates_def)
  ultimately have "takes_dek_template o3" by (rule derived_takes)
  then have "get_key_len o3 = 32" using taken_len by (simp add: get_key_len_def)
  then show ?thesis using d by (simp add: aes_key_derive_def check_key_len_def)
qed


section \<open>The master key\<close>

text \<open>A master key of the value \<open>v\<close> as a login recreates it: HKDF accepts it, and it has no stored template.\<close>

definition derive_usable :: "object \<Rightarrow> bytes \<Rightarrow> bool" where
  "derive_usable k v \<longleftrightarrow>
    storage_verify k = Ok () \<and> get_attr CKA_DERIVE_TEMPLATE k = None \<and> get_attr_as_bytes CKA_VALUE k = Ok v"

lemma storage_hkdf_ok:
  assumes "has_storage_keys fs" and "mechs_find CKM_HKDF_DERIVE mechs = Ok mi" and "mi_flags mi AND CKF_DERIVE = CKF_DERIVE"
    and "derive_usable k v" and "storage_okm kdf info v = Ok w"
  shows "is_ok (storage_hkdf kdf uuid mechs fs info k dek_template)"
proof -
  have k: "storage_verify k = Ok ()" "get_attr CKA_DERIVE_TEMPLATE k = None" "get_attr_as_bytes CKA_VALUE k = Ok v"
    using assms(4) by (simp_all add: derive_usable_def)
  obtain k0 where k0: "aes_key_derive uuid dek_template k = Ok k0"
    using aes_derive_ok[OF k(2)] by (auto simp: is_ok_iff)
  have "short_templates k" using k(2) by (simp add: short_templates_def)
  then have "get_attr_as_ulong CKA_VALUE_LEN k0 = Ok 32" using aes_derived(1)[OF k0] taken_len by blast
  then have len: "derived_len 32 k0 = Ok (k0, 32)" by (simp add: derived_len_def)
  have set: "is_ok (set_attr (from_bytes CKA_VALUE w) k0)" using set_attr_is_ok[of "from_bytes CKA_VALUE w" k0] by simp
  show ?thesis
    using assms(5) set unfolding storage_hkdf_eq[OF assms(1)] storage_okm_def
    by (auto simp: assms(2,3) k k0 len is_ok_iff simp del: replicate.simps)
qed

lemma storage_hkdf_again:
  assumes "has_storage_keys fs" and "storage_hkdf kdf uuid mechs fs info k dek_template = Ok os" and "short_templates k"
    and "get_attr_as_bytes CKA_VALUE k = Ok v" and "derive_usable k1 v"
  shows "is_ok (storage_hkdf kdf uuid mechs fs info k1 dek_template)"
proof -
  obtain mi where mi: "mechs_find CKM_HKDF_DERIVE mechs = Ok mi" "mi_flags mi AND CKF_DERIVE = CKF_DERIVE"
    using assms(2) unfolding storage_hkdf_eq[OF assms(1)] by (auto simp: and_then_eq_Ok split: if_split_asm)
  obtain w where w: "storage_okm kdf info v = Ok w"
    using storage_hkdf_usable[OF assms(1-3)] assms(4) by (metis Inr_inject)
  show ?thesis by (rule storage_hkdf_ok[OF assms(1) mi assms(5) w])
qed

abbreviation master_template_of :: "bytes \<Rightarrow> ck_attrs" where
  "master_template_of v \<equiv> secret_key_template CKK_GENERIC_SECRET AES_KEYLEN @ [ck_attr_of CKA_VALUE v]"

lemma master_template_of: "master_template_of v =
   [ck_attr_of CKA_CLASS (u64_to_le CKO_SECRET_KEY), ck_attr_of CKA_KEY_TYPE (u64_to_le CKK_GENERIC_SECRET),
    ck_attr_of CKA_VALUE_LEN (u64_to_le AES_KEYLEN), ck_attr_of CKA_DERIVE [1], ck_attr_of CKA_VALUE v]"
  by (simp add: secret_key_template_def add_ulong_def add_bool_def Let_def)

lemma no_default_template:
  "list_all (\<lambda>fa. oa_type fa = CKA_DERIVE_TEMPLATE \<longrightarrow> \<not> has_default fa) (fd_attributes generic_secret_data)"
  by code_simp

lemma created_master:
  assumes k: "key_create generic_secret_data uuid (master_template_of v) = Ok k" and "length v < usize_range"
  shows "get_attr CKA_KEY_TYPE k = Some (from_ulong CKA_KEY_TYPE CKK_GENERIC_SECRET)"
    and "get_attr CKA_VALUE_LEN k = Some (from_ulong CKA_VALUE_LEN AES_KEYLEN)"
    and "get_attr CKA_DERIVE k = Some (from_bool CKA_DERIVE True)"
    and "get_attr_as_bytes CKA_VALUE k = Ok v" and "get_attr CKA_DERIVE_TEMPLATE k = None"
proof -
  have in_t: "ck_attr_of CKA_KEY_TYPE (u64_to_le CKK_GENERIC_SECRET) \<in> set (master_template_of v)"
      "ck_attr_of CKA_VALUE_LEN (u64_to_le AES_KEYLEN) \<in> set (master_template_of v)"
      "ck_attr_of CKA_DERIVE [1] \<in> set (master_template_of v)" "ck_attr_of CKA_VALUE v \<in> set (master_template_of v)"
    unfolding master_template_of by simp_all
  show "get_attr CKA_KEY_TYPE k = Some (from_ulong CKA_KEY_TYPE CKK_GENERIC_SECRET)"
    using created_attribute[OF k in_t(1)] find_oattr_key(1)
    by (simp add: flag_eval set_on_create_def from_ck_attr_key)
  show "get_attr CKA_VALUE_LEN k = Some (from_ulong CKA_VALUE_LEN AES_KEYLEN)"
    using created_attribute[OF k in_t(2)] find_oattr_key(2)
    by (simp add: flag_eval set_on_create_def from_ck_attr_key)
  show "get_attr CKA_DERIVE k = Some (from_bool CKA_DERIVE True)"
    using created_attribute[OF k in_t(3)] find_oattr_DERIVE
    by (simp add: flag_eval set_on_create_def from_ck_attr_DERIVE)
  show "get_attr_as_bytes CKA_VALUE k = Ok v" by (rule key_create_value[OF k in_t(4) assms(2)])
  show "get_attr CKA_DERIVE_TEMPLATE k = None"
    by (rule created_absent[OF k _ _ no_default_template]) (simp_all add: master_template_of set_on_create_def)
qed

lemma master_key_usable:
  assumes fs: "has_storage_keys fs" and k: "master_key_of cr fs v = Ok k"
  shows "derive_usable k v"
proof -
  have len: "length v < usize_range" and c: "factories_create fs (master_uuid cr) (master_template_of v) = Ok k"
    using k by (auto simp: master_key_of_def add_vec_def add_slice_def ulong_try_from_def and_then_eq_Ok
        ck_attr_of_def split: if_splits)
  have "generic_secret_create 0 (master_uuid cr) (master_template_of v) = Ok k"
    using c fs by (simp add: factories_create_def required_ulong_template has_storage_keys_def generic_secret_factory_def)
  then obtain o1 n where o1: "key_create generic_secret_data (master_uuid cr) (master_template_of v) = Ok o1"
      "ensure_ulong CKA_VALUE_LEN n o1 = Ok k"
    by (auto simp: generic_secret_create_def and_then_eq_Ok split: if_splits)
  note m = created_master[OF o1(1) len]
  have same: "get_attr u k = get_attr u o1" for u using ensure_ulong_OkD(1)[OF o1(2), of u] m(2) by simp
  have "class_attr k CKO_SECRET_KEY" using key_create_class[OF o1(1)] by (simp add: same)
  then have "storage_verify k = Ok ()"
    using m(1-3)
    by (simp add: storage_verify_def hkdf_verify_key_def hkdf_check_class_def check_key_ops_def attr_as_defs same
        from_ulong_def from_bool_def mk_attribute_def to_ulong_def to_bool_def le64.dec_enc AES_KEYLEN_def)
  moreover have "get_attr_as_bytes CKA_VALUE k = Ok v" using m(4) same get_attr_as_cong(3) by metis
  ultimately show ?thesis using m(5) by (simp add: derive_usable_def same)
qed

section \<open>The key of a PIN\<close>

lemma storage_pbkdf2_usable:
  assumes fs: "has_storage_keys fs" and k: "storage_pbkdf2 mops uuid mechs fs salt it p secret dek_template = Ok k"
  shows "\<exists>w. aes_usable k w"
proof -
  obtain dkm k0 m tmpl where s: "add_vec CKA_VALUE dkm dek_template = Ok tmpl" "aes_create uuid tmpl = Ok k0"
      "default_key_attributes m k0 = Ok k"
    using k by (auto simp: storage_pbkdf2_def pbkdf2_generate_key_def and_then_eq_Ok dek_factory[OF fs] aes_factory_def
        split: if_split_asm)
  have tmpl: "tmpl = dek_template @ [ck_attr_of CKA_VALUE dkm]" and len: "length dkm < usize_range"
    using s(1) by (auto simp: add_vec_def add_slice_def ulong_try_from_def and_then_eq_Ok ck_attr_of_def split: if_splits)
  obtain o1 n where o1: "key_create aes_data uuid tmpl = Ok o1" "ensure_ulong CKA_VALUE_LEN n o1 = Ok k0"
    using s(2) by (auto simp: aes_create_def and_then_eq_Ok)
  have reach: "\<exists>x. from_ck_attr a = Ok x \<and> get_attr (attr_type a) o1 = Some x"
    if a: "a \<in> set tmpl" "attr_type a \<noteq> CKA_CLASS" for a
  proof -
    have "attr_type a \<in> {CKA_KEY_TYPE, CKA_VALUE_LEN, CKA_DECRYPT, CKA_ENCRYPT, CKA_VALUE}"
      using a by (auto simp: tmpl dek_template)
    moreover from this obtain fa where "find_oattr aes_data (attr_type a) = Some fa" "\<not> oa_is fa Ignored"
      by (rule find_oattr_aes)
    ultimately show ?thesis by (intro created_attribute[OF o1(1) a(1)]) (auto simp: set_on_create_def)
  qed
  have taken: "takes_dek_template o1" by (rule dek_template_reaches) (simp add: reach tmpl)
  have stored: "get_attr CKA_VALUE o1 = Some (from_bytes CKA_VALUE dkm)"
    using reach[of "ck_attr_of CKA_VALUE dkm"] from_ck_attr_key(4)[OF len] by (simp add: tmpl)
  have "get_attr u k0 = get_attr u o1" for u
    using ensure_ulong_OkD(1)[OF o1(2), of u] taken by (simp add: takes_dek_template_def)
  moreover have "get_attr u k = get_attr u k0"
    if "u \<notin> {CKA_LOCAL, CKA_KEY_GEN_MECHANISM, CKA_NEVER_EXTRACTABLE, CKA_ALWAYS_SENSITIVE}" for u
    using s(3) that by (auto simp: default_key_attributes_def and_then_eq_Ok Let_def get_attr_set from_bool_def from_ulong_def
        mk_attribute_def)
  ultimately have keep: "get_attr u k = get_attr u o1"
    if "u \<notin> {CKA_LOCAL, CKA_KEY_GEN_MECHANISM, CKA_NEVER_EXTRACTABLE, CKA_ALWAYS_SENSITIVE}" for u
    using that by metis
  have "aes_usable k dkm"
  proof (rule usable_from_template)
    show "takes_dek_template k" using taken by (simp add: takes_dek_template_def keep)
    show "get_attr_as_ulong CKA_CLASS k = Ok CKO_SECRET_KEY"
      using key_create_class[OF o1(1)] by (intro class_attr_get) (simp add: keep)
    show "get_attr_as_bytes CKA_VALUE k = Ok dkm"
      using stored by (simp add: attr_as_defs keep from_bytes_def mk_attribute_def to_bytes_def)
  qed
  then show ?thesis by blast
qed

section \<open>Round trips\<close>

text \<open>The mechanisms of \<open>cr\<close> are those of the library, and the rest has its laws.\<close>

definition library_laws ::
    "(ck_ulong \<Rightarrow> mech_ops) \<Rightarrow> hkdf_lib \<Rightarrow> mechanisms \<Rightarrow> factories \<Rightarrow> crypto \<Rightarrow> bool" where
  "library_laws mops kdf mechs fs cr \<longleftrightarrow>
    crypto_laws cr \<and> has_storage_keys fs \<and> (\<exists>base. cr = library_crypto mops kdf mechs fs base)"

lemma library_crypto_sel:
  assumes "library_laws mops kdf mechs fs cr"
  shows "pbkdf2_generate cr = storage_pbkdf2 mops (master_uuid cr) mechs fs"
    and "hkdf_derive cr = storage_hkdf kdf (master_uuid cr) mechs fs"
    and "crypto_laws cr" and "has_storage_keys fs"
  using assms by (auto simp: library_laws_def library_crypto_def)

lemma decrypt_key_encrypted:
  assumes cr: "library_laws mops kdf mechs fs cr" and e: "encrypt_key cr uid pin iterations version key = Ok der"
  shows "decrypt_key cr uid pin der = Ok (version, key)"
proof -
  note lib = library_crypto_sel[OF cr]
  obtain salt kek gcm edata where o:
      "pbkdf2_derive cr \<lparr>pb_salt = salt, pb_iteration_count = iterations,
         pb_key_length = Some AES_KEYLEN, pb_prf = HmacSha256\<rparr> pin dek_template = Ok kek"
      "aes_gcm_encrypt cr kek uid key = Ok (gcm, edata)"
      "write_or_fail cr (Kkbps1 version (Pbkdf2 \<lparr>pb_salt = salt, pb_iteration_count = iterations,
         pb_key_length = Some AES_KEYLEN, pb_prf = HmacSha256\<rparr>) (Aes256Gcm gcm)) edata = Ok der"
    using e by (auto simp: encrypt_key_def and_then_eq_Ok Let_def)
  obtain p where "storage_pbkdf2 mops (master_uuid cr) mechs fs salt iterations p pin dek_template = Ok kek"
    using o(1) by (auto simp: pbkdf2_derive_def and_then_eq_Ok lib(1))
  then obtain w where "aes_usable kek w" using storage_pbkdf2_usable[OF lib(4)] by blast
  then show ?thesis
    using o(1) der_roundtrip[OF lib(3) o(3)] gcm_roundtrip[OF lib(3) _ _ o(2)]
    by (simp add: decrypt_key_def kkbps1_of_def gcm_of_def)
qed

lemma decrypt_data_encrypted:
  assumes cr: "library_laws mops kdf mechs fs cr" and e: "encrypt_data cr version k uid v = Ok c"
    and k: "short_templates k" "get_attr_as_bytes CKA_VALUE k = Ok ek" and k1: "derive_usable k1 ek"
  shows "decrypt_data cr version k1 uid c = Ok v" and
    "version' \<noteq> version \<Longrightarrow> decrypt_data cr version' k'' uid c = Err CKR_KEY_CHANGED"
proof -
  note lib = library_crypto_sel[OF cr]
  let ?kdf = "\<lparr>kk_prf = HmacSha256, kk_info = uid, kk_key_length = AES_KEYLEN\<rparr>"
  let ?hkdf = "\<lambda>k. storage_hkdf kdf (master_uuid cr) mechs fs uid k dek_template"
  obtain dek gcm edata where o: "hkdf_expand cr ?kdf k dek_template = Ok dek"
      "aes_gcm_encrypt cr dek uid v = Ok (gcm, edata)"
      "write_or_fail cr (Kkbps1 version (Kkdf1 ?kdf) (Aes256Gcm gcm)) edata = Ok c"
    using e by (auto simp: encrypt_data_def and_then_eq_Ok Let_def)
  obtain ds where ds: "?hkdf k = Ok ds" "(case ds of [obj] \<Rightarrow> Ok obj | _ \<Rightarrow> Err CKR_GENERAL_ERROR) = Ok dek"
    using o(1) by (auto simp: hkdf_expand_def lib(2) and_then_eq_Ok)
  then have h: "?hkdf k = Ok [dek]" by (simp split: list.splits)
  obtain w where w: "storage_okm kdf uid ek = Ok w" "aes_usable dek w"
    using k(2) by (auto intro: storage_hkdf_usable[OF lib(4) h k(1)])
  obtain os where h1: "?hkdf k1 = Ok os"
    using storage_hkdf_again[OF lib(4) h k k1] by (auto simp: is_ok_iff)
  have "short_templates k1" using k1 by (simp add: short_templates_def derive_usable_def)
  then obtain dek1 where d: "os = [dek1]" "aes_usable dek1 w"
    using w(1) k1 by (auto simp: derive_usable_def intro: storage_hkdf_usable[OF lib(4) h1])
  show "decrypt_data cr version k1 uid c = Ok v"
    using h1 d(1) der_roundtrip[OF lib(3) o(3)] gcm_roundtrip[OF lib(3) w(2) d(2) o(2)]
    by (simp add: decrypt_data_def kkbps1_of_def gcm_of_def hkdf_expand_def lib(2))
  show "version' \<noteq> version \<Longrightarrow> decrypt_data cr version' k'' uid c = Err CKR_KEY_CHANGED"
    using der_roundtrip[OF lib(3) o(3)] by (simp add: decrypt_data_def kkbps1_of_def)
qed

section \<open>What is stored stays readable\<close>

text \<open>
  C33. A PIN gives access to the data again (\<^verbatim>\<open>key_to_user_data\<close>, \<^verbatim>\<open>encrypt_value\<close>,
  \<^verbatim>\<open>authenticate\<close>, \<^verbatim>\<open>decrypt_value\<close>): let a user record be made from a PIN while the master key is
  loaded, and a value be encrypted under that key. A later authentication with the same PIN, in
  whatever state the manager is and after any number of failed attempts below the limit, resets
  the attempt counter (asking for the record to be stored when it was not zero) and loads a key
  and key version with which the value decrypts to what it was. After a logout it cannot be
  decrypted, and after a reset of the token it is refused with \<^verbatim>\<open>CKR_KEY_CHANGED\<close>. The keys are made by
  the PBKDF2, HKDF and key factories of the library, with the checks these make of a key; AES-GCM and the
  DER codec are assumed to give back what they were given.
\<close>

theorem login_restores_stored_data:
  assumes cr: "library_laws mops kdf mechs fs cr" and short: "\<forall>k. aci_key aci = Some k \<longrightarrow> short_templates k"
    and user: "key_to_user_data cr aci uid pin = Ok info" and enc: "aci_encrypt aci"
    and stored: "encrypt_value cr aci oid v = Ok c"
    and auth: "authenticate cr fs aci1 uid (info\<lparr>cur_attempts := n\<rparr>) pin True = (Ok update, aci2, info2)"
    and n: "n < max_attempts info" and enc1: "aci_encrypt aci1"
  shows "update = (n \<noteq> 0) \<and> info2 = info \<and> decrypt_value cr aci2 oid c = Ok v \<and>
    decrypt_value cr (unauth aci2) oid c = Err CKR_GENERAL_ERROR \<and>
    (\<forall>aci3. aci_reset cr aci2 = (Ok (), aci3) \<longrightarrow> decrypt_value cr aci3 oid c = Err CKR_KEY_CHANGED)"
proof -
  obtain k ek der where k: "aci_key aci = Some k" "get_attr_as_bytes CKA_VALUE k = Ok ek"
      "encrypt_key cr uid pin (def_iterations aci) (key_version aci) ek = Ok der"
      "info = default_auth_info\<lparr>user_data := Some der\<rparr>"
    using user enc by (auto simp: key_to_user_data_def and_then_eq_Ok split: option.splits)
  have d: "decrypt_key cr uid pin der = Ok (key_version aci, ek)"
    by (rule decrypt_key_encrypted[OF cr k(3)])
  obtain k1 where k1: "master_key_of cr fs ek = Ok k1" "update = (n \<noteq> 0)" "info2 = info"
      "aci2 = aci1\<lparr>key_version := key_version aci, aci_key := Some k1\<rparr>"
    using auth n enc1 k(4) d
    by (auto simp: authenticate_def locked_def default_auth_info_def not_le Let_def split: sum.splits if_splits)
  have k_short: "short_templates k" using short k(1) by simp
  have usable: "derive_usable k1 ek"
    by (rule master_key_usable[OF library_crypto_sel(4)[OF cr] k1(1)])
  have c: "encrypt_data cr (key_version aci) k oid v = Ok c"
    using stored k(1) by (simp add: encrypt_value_def)
  note roundtrip = decrypt_data_encrypted[OF cr c k_short k(2) usable]
  have "decrypt_value cr aci3 oid c = Err CKR_KEY_CHANGED" if "aci_reset cr aci2 = (Ok (), aci3)" for aci3
    using that roundtrip(2)[of "key_version aci + 1"] enc1 k1(4)
    by (auto simp: aci_reset_def decrypt_value_def Let_def split: sum.splits if_splits)
  then show ?thesis
    using k1 roundtrip(1) by (simp add: decrypt_value_def unauth_def)
qed

end
