(* ===== verification/Login_Samples.thy ===== *)
theory Login_Samples
  imports Login_Laws
begin

text \<open>A stored value that is read back after a login, with the mechanisms and factories of the library.\<close>

section \<open>The mechanisms\<close>

definition login_mechs :: mechanisms where
  "login_mechs = register_hkdf (register_pbkdf2 sample_registered)"

lemma login_found:
  "mechs_find CKM_HKDF_DERIVE login_mechs = Ok HKDF_MECH" "mechs_find CKM_PKCS5_PBKD2 login_mechs = Ok PBKDF2_MECH"
  "mechs_find CKM_SHA256_HMAC login_mechs = Ok hmac_info"
  by (simp_all add: login_mechs_def register_hkdf_def register_pbkdf2_def sample_registered_def mechs_find_def)

definition toy_kdf :: hkdf_lib where
  "toy_kdf prf mode v salt info n = Ok (take n (v @ replicate n 0))"

definition login_crypto :: crypto where
  "login_crypto = library_crypto sample_mops toy_kdf login_mechs library_factories sample_crypto"

lemma library_storage_keys: "has_storage_keys library_factories"
  by (simp add: has_storage_keys_def get_factory_def library_lookup)

lemma usable_value_of: "aes_usable k w \<Longrightarrow> value_of k = w"
  by (simp add: aes_usable_def value_of_def)

lemma login_laws: "library_laws sample_mops toy_kdf login_mechs library_factories login_crypto"
proof -
  have "crypto_laws login_crypto"
    unfolding crypto_laws_def
    by (auto simp: login_crypto_def library_crypto_def sample_crypto_def dest!: usable_value_of split: if_split_asm)
  then show ?thesis using library_storage_keys by (auto simp: library_laws_def login_crypto_def)
qed

section \<open>The master key\<close>

lemma login_master_ok: "is_ok (master_key_of login_crypto library_factories sample_master)"
proof -
  have "master_key_of login_crypto library_factories sample_master = master_key_of sample_crypto core_factories sample_master"
    by (simp add: master_key_of_def add_vec_def add_slice_Ok factories_create_def required_ulong_template login_crypto_def
        library_crypto_def get_factory_def library_lookup core_factories_def)
  then show ?thesis using master_key_ok by simp
qed

definition login_master :: object where
  "login_master = (case master_key_of login_crypto library_factories sample_master of Inr k \<Rightarrow> k | Inl _ \<Rightarrow> value_object [])"

lemma login_master: "master_key_of login_crypto library_factories sample_master = Ok login_master"
  using login_master_ok by (auto simp: login_master_def is_ok_iff)

lemma login_master_usable: "derive_usable login_master sample_master"
  by (rule master_key_usable[OF library_storage_keys login_master])

definition login_aci :: storage_aci where
  "login_aci = sample_aci\<lparr>aci_key := Some login_master\<rparr>"

lemma login_value: "is_ok (encrypt_value login_crypto login_aci [0x6F] [7, 8])"
proof -
  obtain w where okm: "storage_okm toy_kdf [0x6F] sample_master = Ok w"
    by (simp add: storage_okm_def toy_kdf_def)
  have "is_ok (storage_hkdf toy_kdf [0x75] login_mechs library_factories [0x6F] login_master dek_template)"
    by (rule storage_hkdf_ok[OF library_storage_keys login_found(1) _ login_master_usable okm]) (simp add: HKDF_MECH_def)
  then obtain os where os: "storage_hkdf toy_kdf [0x75] login_mechs library_factories [0x6F] login_master dek_template = Ok os"
    by (auto simp: is_ok_iff)
  have "short_templates login_master" using login_master_usable by (simp add: short_templates_def derive_usable_def)
  then obtain dek where "os = [dek]" by (rule storage_hkdf_usable[OF library_storage_keys os])
  then show ?thesis
    using os by (simp add: encrypt_value_def login_aci_def sample_aci_def encrypt_data_def hkdf_expand_def login_crypto_def
        library_crypto_def sample_crypto_def write_or_fail_def data_alg_def key_alg_def)
qed

section \<open>The key of the PIN\<close>

lemma find_oattr_aes_values:
  "find_oattr aes_data CKA_CLASS = Some (attr_element RequiredOnCreate (from_ulong CKA_CLASS 0))"
  "find_oattr aes_data CKA_KEY_TYPE = Some (attr_element RequiredOnCreate (from_ulong CKA_KEY_TYPE CK_UNAVAILABLE_INFORMATION))"
  "find_oattr aes_data CKA_VALUE_LEN = Some (attr_element RequiredOnGenerate (from_ulong CKA_VALUE_LEN 0))"
  "find_oattr aes_data CKA_DECRYPT = Some (attr_element Defval (from_bool CKA_DECRYPT False))"
  "find_oattr aes_data CKA_ENCRYPT = Some (attr_element Defval (from_bool CKA_ENCRYPT False))"
  "find_oattr aes_data CKA_VALUE = Some (attr_element (Defval OR Sensitive OR RequiredOnCreate OR SettableOnlyOnCreate)
    (from_bytes CKA_VALUE []))"
  by code_simp+

definition kek_taken :: "bytes \<Rightarrow> object" where
  "kek_taken v =
    fold push_attribute
      [from_ulong CKA_CLASS CKO_SECRET_KEY, from_ulong CKA_KEY_TYPE CKK_AES, from_ulong CKA_VALUE_LEN AES_KEYLEN,
       from_bool CKA_DECRYPT True, from_bool CKA_ENCRYPT True, from_bytes CKA_VALUE v]
      (new_object CKO_SECRET_KEY)"

lemma kek_template_taken:
  assumes "length v < usize_range"
  shows "try_fold (create_step aes_data NeverSettable) (new_object (fd_class aes_data))
      (dek_template @ [ck_attr_of CKA_VALUE v]) = Ok (kek_taken v)"
  unfolding dek_template using from_ck_attr_key(4)[OF assms]
  by (simp add: create_step_def find_oattr_aes_values flag_eval from_ck_attr_key from_ck_attr_crypt from_ck_attr_CLASS
      get_attr_push get_attr_new_object kek_taken_def)

lemma kek_create_ok:
  assumes "length v < usize_range"
  shows "is_ok (internal_object_create aes_data (dek_template @ [ck_attr_of CKA_VALUE v]) NeverSettable RequiredOnCreate)"
proof (rule internal_object_create_ok[OF kek_template_taken[OF assms]])
  have "list_all (\<lambda>fa. has_default fa \<or> (\<not> oa_is fa RequiredOnCreate \<and> \<not> oa_is fa AlwaysRequired) \<or>
      oa_type fa \<in> {CKA_CLASS, CKA_KEY_TYPE, CKA_VALUE}) (fd_attributes aes_data)"
    by code_simp
  moreover have "get_attr t (kek_taken v) \<noteq> None" if "t \<in> {CKA_CLASS, CKA_KEY_TYPE, CKA_VALUE}" for t
    using that by (auto simp: kek_taken_def get_attr_push get_attr_new_object)
  ultimately show "\<forall>fa \<in> set (fd_attributes aes_data). has_default fa \<or>
      (\<not> oa_is fa RequiredOnCreate \<and> \<not> oa_is fa AlwaysRequired) \<or> get_attr (oa_type fa) (kek_taken v) \<noteq> None"
    by (auto simp: list_all_iff)
qed

lemma kek_ok:
  assumes "length v = 32"
  shows "is_ok (and_then (aes_create uuid (dek_template @ [ck_attr_of CKA_VALUE v])) (default_key_attributes m))"
proof -
  let ?t = "dek_template @ [ck_attr_of CKA_VALUE v]"
  have len: "length v < usize_range" using assms by simp
  obtain oc where oc: "internal_object_create aes_data ?t NeverSettable RequiredOnCreate = Ok oc"
    using kek_create_ok[OF len] by (auto simp: is_ok_iff)
  have "o_class oc = CKO_SECRET_KEY"
    using internal_object_createE[OF oc] by (metis template_taken_def defaults_added_def fd_class_aes)
  then obtain o1 where o1: "key_create aes_data uuid ?t = Ok o1"
    using key_create_secret[OF oc] by blast
  have "get_attr CKA_VALUE o1 = Some (from_bytes CKA_VALUE v)"
    using created_attribute[OF o1, of "ck_attr_of CKA_VALUE v"] find_oattr_aes_values(6) from_ck_attr_key(4)[OF len]
    by (simp add: flag_eval set_on_create_def)
  moreover have "get_attr CKA_VALUE_LEN o1 = Some (from_ulong CKA_VALUE_LEN AES_KEYLEN)"
    using created_attribute[OF o1, of "ck_attr_of CKA_VALUE_LEN (u64_to_le AES_KEYLEN)"] find_oattr_aes_values(3)
    by (simp add: flag_eval set_on_create_def from_ck_attr_key dek_template)
  ultimately have "aes_create uuid ?t = Ok o1"
    using o1 assms
    by (simp add: aes_create_def get_key_buffer_len_def map_err_def check_key_len_def ulong_try_from_def ensure_ulong_def
        attr_as_defs from_bytes_def from_ulong_def mk_attribute_def to_bytes_def to_ulong_def le64.dec_enc AES_KEYLEN_def)
  moreover have "is_ok (default_key_attributes m o1)"
  proof -
    have gen: "is_ok (set_attr (from_ulong CKA_KEY_GEN_MECHANISM m) k)" for k
      using set_attr_is_ok[of "from_ulong CKA_KEY_GEN_MECHANISM m" k] by simp
    obtain k1 where k1: "set_attr (from_bool CKA_LOCAL True) o1 = Ok k1"
      using set_bool_is_ok[of CKA_LOCAL True o1] by (auto simp: is_ok_iff)
    obtain k2 where k2: "set_attr (from_ulong CKA_KEY_GEN_MECHANISM m) k1 = Ok k2"
      using gen[of k1] by (auto simp: is_ok_iff)
    define b where "b = (case get_attr_as_bool CKA_EXTRACTABLE k2 of Inr b \<Rightarrow> b | Inl _ \<Rightarrow> True)"
    have "is_ok (set_attr (from_bool CKA_NEVER_EXTRACTABLE (\<not> b)) k2)" by (rule set_bool_is_ok) simp
    then obtain k3 where k3: "set_attr (from_bool CKA_NEVER_EXTRACTABLE (\<not> b)) k2 = Ok k3" by (auto simp: is_ok_iff)
    show ?thesis
      using k1 k2 k3 by (simp add: default_key_attributes_def Let_def b_def set_bool_is_ok)
  qed
  ultimately show ?thesis by simp
qed

lemma sample_pbkdf2_ok:
  "is_ok (storage_pbkdf2 sample_mops uuid login_mechs library_factories (replicate 32 0) 1000
    CKP_PKCS5_PBKD2_HMAC_SHA256 [0x31, 0x32] dek_template)"
proof -
  obtain pass where pass: "mock_password_object [0x31, 0x32] = Ok pass"
    "get_attr_as_ulong CKA_CLASS pass = Ok CKO_SECRET_KEY" "get_attr_as_ulong CKA_KEY_TYPE pass = Ok CKK_GENERIC_SECRET"
    "get_attr_as_bool CKA_DERIVE pass = Ok True" "get_attr_as_bytes CKA_VALUE pass = Ok [0x31, 0x32]"
    by (rule mock_password[of "[0x31, 0x32]"]) simp_all
  have fn: "pbkdf2_prf CKP_PKCS5_PBKD2_HMAC_SHA256 = Ok CKM_SHA256_HMAC" by (simp add: pbkdf2_prf_def)
  have hash: "hmac_mech_to_hash_mech CKM_SHA256_HMAC = Ok CKM_SHA256" by (simp add: hmac_mech_to_hash_mech_def)
  have size: "hash_size CKM_SHA256 = 32" by (simp add: hash_size_def HASH_MECH_SET_def)
  define dk where "dk = pbkdf2_DK (hmac_spec (toy_hash CKM_SHA256) (block_size CKM_SHA256) [0x31, 0x32]) (replicate 32 0) 1000
    (hash_size CKM_SHA256) 32"
  have dk: "native_pbkdf2_derive sample_mops login_mechs CKM_SHA256_HMAC pass (replicate 32 0) 1000 32 = Ok dk"
    unfolding dk_def
    by (rule native_pbkdf2_value[OF toy_contract sample_installed(2) password_secret[OF fn pass(2-5)] login_found(3) hash])
      (simp add: size)
  have "length dk = 32"
    unfolding dk_def
    by (rule pbkdf2_DK_length) (simp_all add: hmac_spec_length[OF toy_contract hmac_hash_valid[OF hash]] size)
  from kek_ok[OF this, of uuid CKM_PKCS5_PBKD2] obtain k where
    k: "and_then (aes_create uuid (dek_template @ [ck_attr_of CKA_VALUE dk])) (default_key_attributes CKM_PKCS5_PBKD2) = Ok k"
    by (auto simp: is_ok_iff)
  let ?m = "storage_pbkdf2_mechanism (replicate 32 0) 32 1000 CKP_PKCS5_PBKD2_HMAC_SHA256 [0x31, 0x32] 2"
  obtain p where p: "get_parameters 72 pbkd2_struct ?m = Ok p"
      "pbkdf2_arguments p = Ok (CKM_SHA256_HMAC, pass, replicate 32 0, 1000)"
    using pass(1) fn
    by (simp add: storage_pbkdf2_mechanism_def get_parameters_def pbkdf2_arguments_def bytes_to_vec_def del: replicate.simps)
  have keylen: "pbkdf2_keylen aes_factory CKM_SHA256_HMAC dek_template = Ok 32"
    unfolding dek_template
    by (simp add: pbkdf2_keylen_def find_attr_def ck_to_ulong_def ck_attr_of_def le64.dec_enc le64.length_enc
        AES_KEYLEN_def)
  have create: "f_create aes_factory = aes_create" by (simp add: aes_factory_def)
  have tmpl: "add_vec CKA_VALUE dk dek_template = Ok (dek_template @ [ck_attr_of CKA_VALUE dk])"
    using \<open>length dk = 32\<close> by (simp add: add_vec_def add_slice_Ok)
  have mech: "cm_mechanism ?m = CKM_PKCS5_PBKD2" by (simp add: storage_pbkdf2_mechanism_def)
  have "pbkdf2_generate_key sample_mops uuid PBKDF2_MECH ?m dek_template login_mechs library_factories = Ok k"
    using k by (simp add: pbkdf2_generate_key_def PBKDF2_MECH_def mech p dek_factory(1)[OF library_storage_keys] keylen dk tmpl
        create del: replicate.simps)
  then show ?thesis
    by (simp add: storage_pbkdf2_def login_found ulong_try_from_def del: replicate.simps)
qed

section \<open>The login\<close>

lemma login_user: "is_ok (key_to_user_data login_crypto login_aci USER_ID [0x31, 0x32])"
proof -
  obtain kek where kek: "storage_pbkdf2 sample_mops [0x75] login_mechs library_factories (replicate 32 0) 1000
      CKP_PKCS5_PBKD2_HMAC_SHA256 [0x31, 0x32] dek_template = Ok kek"
    using sample_pbkdf2_ok by (auto simp: is_ok_iff)
  have key: "get_attr_as_bytes CKA_VALUE login_master = Ok sample_master"
    using login_master_usable by (simp add: derive_usable_def)
  have sel: "generate_random login_crypto = (\<lambda>n. Ok (replicate n 0))" "aes_gcm_encrypt login_crypto = (\<lambda>k aad d. Ok (no_gcm, value_of k @ d))"
      "pbkdf2_generate login_crypto = storage_pbkdf2 sample_mops [0x75] login_mechs library_factories"
      "write_protected login_crypto key_alg = (\<lambda>d. Some (0 # d))"
    by (auto simp: login_crypto_def library_crypto_def sample_crypto_def)
  show ?thesis
    using kek by (simp add: key_to_user_data_def login_aci_def sample_aci_def key encrypt_key_def sel pbkdf2_derive_def prf_id_def
        write_or_fail_def key_alg_def[symmetric] del: replicate.simps)
qed

theorem login_restores_stored_data_witness:
  "\<exists>info c aci2. key_to_user_data login_crypto login_aci USER_ID [0x31, 0x32] = Ok info \<and>
    encrypt_value login_crypto login_aci [0x6F] [7, 8] = Ok c \<and>
    authenticate login_crypto library_factories (unauth login_aci) USER_ID (info\<lparr>cur_attempts := 3\<rparr>) [0x31, 0x32] True =
      (Ok True, aci2, info) \<and>
    decrypt_value login_crypto aci2 [0x6F] c = Ok [7, 8]"
proof -
  obtain info c where i: "key_to_user_data login_crypto login_aci USER_ID [0x31, 0x32] = Ok info"
      "encrypt_value login_crypto login_aci [0x6F] [7, 8] = Ok c"
    using login_user login_value by (auto simp: is_ok_iff)
  have enc: "aci_encrypt login_aci" "aci_encrypt (unauth login_aci)" "aci_key login_aci = Some login_master"
    by (simp_all add: login_aci_def sample_aci_def unauth_def)
  have key: "get_attr_as_bytes CKA_VALUE login_master = Ok sample_master" "short_templates login_master"
    using login_master_usable by (simp_all add: derive_usable_def short_templates_def)
  obtain der where der: "encrypt_key login_crypto USER_ID [0x31, 0x32] (def_iterations login_aci) (key_version login_aci)
        sample_master = Ok der" "info = default_auth_info\<lparr>user_data := Some der\<rparr>"
    using i(1) by (auto simp: key_to_user_data_def and_then_eq_Ok enc key(1))
  have "decrypt_key login_crypto USER_ID [0x31, 0x32] der = Ok (key_version login_aci, sample_master)"
    by (rule decrypt_key_encrypted[OF login_laws der(1)])
  then obtain up aci2 info2 where a: "authenticate login_crypto library_factories (unauth login_aci) USER_ID
      (info\<lparr>cur_attempts := 3\<rparr>) [0x31, 0x32] True = (Ok up, aci2, info2)"
    using enc(2) login_master
    by (auto simp: authenticate_def locked_def default_auth_info_def MAX_LOGIN_ATTEMPTS_def der(2) Let_def)
  have "(3 :: ck_ulong) < max_attempts info" by (simp add: der(2) default_auth_info_def MAX_LOGIN_ATTEMPTS_def)
  with login_restores_stored_data[OF login_laws _ i(1) enc(1) i(2) a _ enc(2)] show ?thesis
    using i a enc(3) key(2) by auto
qed

end
