(* ===== verification/Spec2Isabelle.thy ===== *)
theory Spec2Isabelle
  imports Attribute_Laws Keymgmt_Laws Ssh_Kdf Pbkdf2 Sp800_Laws Simple_Laws Tls_Samples Ike_Samples Hotp_Laws Certs General_Laws Aes_Laws
    Login_Samples
begin

text \<open>
  A verification library for Kryoptic, the PKCS#11 soft token (the crate under \<^verbatim>\<open>src/src\<close>), in the
  default build: without the \<^verbatim>\<open>fips\<close> and \<^verbatim>\<open>nssdb\<close> features, on a 64-bit little-endian target.

  \<^bold>\<open>The program.\<close> An application calls the C functions of PKCS#11. The functions (\<^verbatim>\<open>fns/\<close>) work on one
  global state (\<^verbatim>\<open>lib.rs\<close>): slots, each with a token (\<^verbatim>\<open>token.rs\<close>) and its sessions (\<^verbatim>\<open>session.rs\<close>), and a
  map from session handles to slots. A token keeps session objects in memory and token objects in a
  storage (\<^verbatim>\<open>storage/\<close>), which encrypts sensitive values under a key that only a login with a PIN gives
  (\<^verbatim>\<open>storage/aci.rs\<close>). Objects (\<^verbatim>\<open>object/mod.rs\<close>) are lists of typed attributes (\<^verbatim>\<open>attribute.rs\<close>); their
  factories (\<^verbatim>\<open>object/factory.rs\<close>, \<^verbatim>\<open>object/key.rs\<close>) decide what a template may contain, what may be
  changed and what may be read. Cryptographic operations are values that a session holds between calls
  (\<^verbatim>\<open>mechanism.rs\<close>); mechanisms make them (\<^verbatim>\<open>hash.rs\<close>, \<^verbatim>\<open>hmac.rs\<close>, \<^verbatim>\<open>native/\<close>, \<^verbatim>\<open>ike.rs\<close>).

  \<^bold>\<open>The theories\<close>, in the order of the code.

  \<^item> Ground: \<open>Prelude\<close> (machine integers, \<^verbatim>\<open>error.rs\<close> as \<open>error + 'a\<close>, little-endian codecs, folds that
    may fail), \<open>Pkcs11\<close> (the constants of the headers).
  \<^item> Data: \<open>Attributes\<close>, \<open>Objects\<close>, \<open>Factories\<close>, \<open>Key_Factories\<close>, \<open>Certs\<close>. A Rust struct is a record, an enum a
    datatype, \<^verbatim>\<open>CK_ULONG\<close> a 64-bit word, a slice a list of bytes; a panic is the error \<open>Panic\<close>.
  \<^item> Storage and token: \<open>Storage_Auth\<close>, \<open>Storage_Format\<close>, \<open>Facilities\<close> (handles, mechanism registry),
    \<open>Tokens\<close>.
  \<^item> Library: \<open>Sessions\<close>, \<open>Library_State\<close> (slots and the session map), \<open>Config\<close> (the
    configuration, with the process environment as a parameter), \<open>General_Api\<close> (initialization, interfaces,
    random numbers).
  \<^item> Functions of the interface: \<open>Session_Api\<close>, \<open>Object_Api\<close>, \<open>Operations_Api\<close> (signatures,
    verifications, digests), \<open>Cipher_Api\<close> (encryption, messages, dual functions), \<open>Keymgmt_Api\<close>. Each is a
    function from the state to a result, what it writes for the caller, and the state after.
  \<^item> Mechanisms: \<open>Mechanism_Params\<close> (parameter structs, with pointers as values), \<open>Hashes\<close>, \<open>Hmac\<close>,
    \<open>Derive_Common\<close>, \<open>Sp800_108\<close>, \<open>Ssh_Kdf\<close>, \<open>Pbkdf2\<close>, \<open>Simple_Kdf\<close>, \<open>Tls_Kdf\<close>, \<open>Ike\<close>,
    \<open>Hotp\<close>, \<open>Hkdf\<close>. \<open>Secret_Keys\<close>: the key factories of AES and ChaCha20 and the registry of the factories of all
    secret keys. \<open>Storage_Crypto\<close>: the mechanisms as the storage calls them. \<open>Aes_Context\<close> and \<open>Aes_Cipher\<close>: the AES operations (\<^verbatim>\<open>ossl/aes.rs\<close>) over cipher contexts
    (\<^verbatim>\<open>src/ossl/src/cipher.rs\<close>). An operation of a
    session is a codatatype of its answers to the calls, so that the functions of the interface are proved
    for every mechanism, and the mechanisms of the repository are instances.

  \<^bold>\<open>What is proved.\<close>

  \<^item> \<open>Attribute_Laws\<close>: templates survive serialization; a stored template is enforced.
  \<^item> \<open>Factory_Laws\<close>, \<open>Key_Laws\<close>: creation, change, copy and reading of objects: sensitive values are
    never written, changes respect the flags, history bits are kept, buffers are not exceeded. \<open>Certs\<close>: what created certificates and
    trust objects say.
  \<^item> \<open>Auth_Laws\<close>, \<open>Attempt_Laws\<close>: authentication refines an abstract counter of attempts and locks a user out
    for good. \<open>Login_Laws\<close>: with the PBKDF2, HKDF and factories of the library, a login restores the key of the
    stored values, a logout removes it; \<open>Login_Samples\<close> holds a run.
  \<^item> \<open>Session_Laws\<close>: the session states refine the login levels of the standard; saved operations.
  \<^item> \<open>Token_Laws\<close>: the invariant of a token over all its operations, stated over locales for a handle map
    and for a storage of objects, which the code's model interprets.
  \<^item> \<open>Library_Frames\<close>, \<open>Library_Laws\<close>: the invariant of the library over every call, by rule induction
    over its steps; logins reach all sessions of a slot.
  \<^item> \<open>Config_Laws\<close>, \<open>General_Laws\<close>: slots with different numbers and databases; when an initialization
    succeeds and what it creates; what a second one, or a failing one, leaves. Closed handles stay closed over
    every call (\<open>running_step\<close>, which has \<^verbatim>\<open>C_Initialize\<close>) until \<^verbatim>\<open>C_Finalize\<close>, which puts the counter of handles
    back.
  \<^item> \<open>Operation_Steps\<close>, \<open>Operation_Laws\<close>, \<open>Keymgmt_Laws\<close>: the life cycle of operations for any
    mechanism, non-interference, length queries, permissions of keys, all or nothing for pairs of keys.
  \<^item> \<open>Hmac_Laws\<close>, \<open>Prf_Laws\<close>: the HMAC operation is the HMAC of RFC 2104, however its input is cut; the
    predicate \<open>computes\<close> is the contract of a digest or MAC on which the derivations rest.
  \<^item> \<open>Sp800_Laws\<close>, \<open>Ssh_Kdf\<close>, \<open>Pbkdf2\<close>, \<open>Simple_Laws\<close>, \<open>Tls_Laws\<close>, \<open>Ike_Laws\<close>: every derivation gives the keys
    of its standard (SP 800-108, RFC 4253, RFC 8018, RFC 5246 and 7627, RFC 2409 and 7296), as a plain
    functional definition. \<open>Hotp_Laws\<close>: one-time passwords are those of RFC 4226, and an accepted one moves
    the counter. \<open>Tls_Samples\<close> and \<open>Ike_Samples\<close> hold concrete runs.
  \<^item> \<open>Aes_Blocks\<close>, \<open>Aes_Laws\<close>: the AES block modes give the same however the data is cut in parts, and decrypt
    what they encrypted.

  \<^bold>\<open>Bounds and termination.\<close> No definition uses fuel. Loops over a buffer recurse on the bytes that are
  left, with a measure; the loop of \<open>prf+\<close> on its counter of eight bits. Sums and products of sizes
  are checked against \<open>usize_range\<close> where the code could overflow, and are \<open>Panic\<close> then. A size that the code
  converts to \<^verbatim>\<open>CK_ULONG\<close> goes through \<open>ulong_try_from\<close>.

  \<^bold>\<open>Parameters.\<close> What is not in the repository is an argument: the digests of OpenSSL (\<open>digest_lib\<close>, with
  the hypothesis \<open>digest_contract\<close>: until it is finalized, a context absorbs data, and the output is a function of
  what it absorbed), its HKDF (\<open>hkdf_lib\<close>, any function), AES-GCM in the storage and in saved states (\<open>crypto_laws\<close>: it
  decrypts what it encrypted under a key object of the same value), the EVP cipher functions (\<open>evp\<close>, with the
  hypothesis \<open>evp_contract\<close>: for keys and vectors of the lengths that OpenSSL accepts, a context outputs the mode on
  the whole blocks of the data it was given), the DER codec of the \<^verbatim>\<open>asn1\<close> crate, random bytes, unique
  identifiers, the raw storage backend (\<open>storage_raw\<close>) and the operations of mechanisms that are not
  modelled (\<open>mech_ops\<close>). Every hypothesis on a parameter is met by a concrete one in a witness.

  \<^bold>\<open>Not modelled.\<close> The AES message functions and MACs, the other ciphers and the public key mechanisms drive
  OpenSSL and are opaque to the functions of the interface. NSS trust objects, the SQLite and NSS backends, the FIPS
  provider, ASN.1 declarations, the \<^verbatim>\<open>ossl\<close> crates, the rustls provider, the tools and the tests are left
  out. Locks are not modelled: calls of the interface are sequential steps, and the interleaving of
  calls from several threads between the locks of the state, a session and a token is not. The flag \<^verbatim>\<open>finalized\<close> of a derivation is not kept, as a derivation
  object is used for one call. Exhaustion of memory, logging and the wiping of buffers are not modelled.
\<close>

end
